(* ===== verification/Prelude.thy ===== *)
theory Prelude
  imports Main "HOL-Library.Char_ord" "HOL-Library.List_Lexorder" "HOL-Library.Product_Lexorder"
    "HOL-Library.Sublist"
begin

text \<open>
  Shared vocabulary of the development: Rust's \<open>String\<close> as a list of bytes (an Isabelle
  \<open>char\<close> is a byte, so a \<open>string\<close> is the UTF-8 encoding that Rust stores), the
  \<open>str\<close> methods the sources call, \<open>Result<_, String>\<close> as a sum, decimal and hexadecimal
  formatting, and the generic list lemmas that the component theories use.

  The byte-wise order of \<open>str\<close> is the lexicographic order of \<^typ>\<open>char list\<close>
  (\<open>List_Lexorder\<close> over \<open>Char_ord\<close>), tuples compare lexicographically
  (\<open>Product_Lexorder\<close>), as the derived \<open>Ord\<close> instances do.
\<close>

named_theorems str_simps \<open>evaluation rules for the str methods\<close>

section \<open>Results\<close>

type_synonym 'a result = "string + 'a"

abbreviation Err :: "string \<Rightarrow> 'a result" where "Err e \<equiv> Inl e"
abbreviation Ok :: "'a \<Rightarrow> 'a result" where "Ok x \<equiv> Inr x"

text \<open>The question mark operator and \<open>Result::map\<close>.\<close>

definition and_then :: "'e + 'a \<Rightarrow> ('a \<Rightarrow> 'e + 'b) \<Rightarrow> 'e + 'b" where
  "and_then r f = (case r of Inl e \<Rightarrow> Inl e | Inr x \<Rightarrow> f x)"

definition map_ok :: "('a \<Rightarrow> 'b) \<Rightarrow> 'e + 'a \<Rightarrow> 'e + 'b" where
  "map_ok f r = (case r of Inl e \<Rightarrow> Inl e | Inr x \<Rightarrow> Inr (f x))"

definition ok_or :: "string \<Rightarrow> 'a option \<Rightarrow> 'a result" where
  "ok_or e x = (case x of None \<Rightarrow> Inl e | Some y \<Rightarrow> Inr y)"

text \<open>Collecting an iterator of results stops at the first error.\<close>

fun collect_results :: "('a \<Rightarrow> 'b result) \<Rightarrow> 'a list \<Rightarrow> 'b list result" where
  "collect_results f [] = Ok []"
| "collect_results f (x # xs) = and_then (f x) (\<lambda>y. map_ok (\<lambda>ys. y # ys) (collect_results f xs))"

lemma and_then_simps [simp]:
  "and_then (Inl e) f = Inl e" "and_then (Inr x) f = f x"
  by (simp_all add: and_then_def)

lemma map_ok_simps [simp]:
  "map_ok f (Inl e) = Inl e" "map_ok f (Inr x) = Inr (f x)"
  by (simp_all add: map_ok_def)

lemma ok_or_simps [simp]:
  "ok_or e None = Inl e" "ok_or e (Some x) = Inr x"
  by (simp_all add: ok_or_def)

lemma and_then_Inr_iff: "and_then r f = Inr y \<longleftrightarrow> (\<exists>x. r = Inr x \<and> f x = Inr y)"
  by (cases r) auto

lemma map_ok_Inr_iff: "map_ok f r = Inr y \<longleftrightarrow> (\<exists>x. r = Inr x \<and> y = f x)"
  by (cases r) auto

lemma ok_or_Inr_iff: "ok_or e m = Inr y \<longleftrightarrow> m = Some y"
  by (cases m) auto

lemmas result_iffs = and_then_Inr_iff map_ok_Inr_iff ok_or_Inr_iff

lemma collect_results_Ok:
  "collect_results f xs = Ok ys \<Longrightarrow> length ys = length xs \<and> (\<forall>i < length xs. f (xs ! i) = Ok (ys ! i))"
proof (induction xs arbitrary: ys)
  case Nil
  then show ?case by simp
next
  case (Cons x xs)
  then obtain y ys' where y: "f x = Ok y" "collect_results f xs = Ok ys'" "ys = y # ys'"
    by (auto simp: result_iffs)
  with Cons.IH [OF y(2)] show ?case
    by (auto simp: nth_Cons split: nat.splits)
qed

section \<open>The str methods\<close>

text \<open>\<open>str::split(c)\<close> for an ASCII character: always at least one piece.\<close>

fun split_on :: "char \<Rightarrow> string \<Rightarrow> string list" where
  "split_on c [] = [[]]"
| "split_on c (x # xs) =
     (if x = c then [] # split_on c xs
      else (case split_on c xs of [] \<Rightarrow> [[x]] | p # ps \<Rightarrow> (x # p) # ps))"

fun join_with :: "string \<Rightarrow> string list \<Rightarrow> string" where
  "join_with sep [] = []"
| "join_with sep [x] = x"
| "join_with sep (x # y # ys) = x @ sep @ join_with sep (y # ys)"

text \<open>\<open>str::find(needle)\<close>: the byte offset of the leftmost occurrence.\<close>

fun find_sub :: "string \<Rightarrow> string \<Rightarrow> nat option" where
  "find_sub needle [] = (if needle = [] then Some 0 else None)"
| "find_sub needle (x # xs) =
     (if prefix needle (x # xs) then Some 0 else map_option Suc (find_sub needle xs))"

definition contains_sub :: "string \<Rightarrow> string \<Rightarrow> bool" where
  "contains_sub s needle \<longleftrightarrow> find_sub needle s \<noteq> None"

definition starts_with :: "string \<Rightarrow> string \<Rightarrow> bool" where
  "starts_with s p \<longleftrightarrow> take (length p) s = p"

definition ends_with :: "string \<Rightarrow> string \<Rightarrow> bool" where
  "ends_with s p \<longleftrightarrow> starts_with (rev s) (rev p)"

text \<open>\<open>str::split_once\<close> and \<open>str::rsplit_once\<close> on a string pattern.\<close>

definition split_once :: "string \<Rightarrow> string \<Rightarrow> (string \<times> string) option" where
  "split_once needle s =
     (case find_sub needle s of None \<Rightarrow> None
      | Some i \<Rightarrow> Some (take i s, drop (i + length needle) s))"

definition rsplit_once :: "string \<Rightarrow> string \<Rightarrow> (string \<times> string) option" where
  "rsplit_once needle s =
     (case find_sub (rev needle) (rev s) of None \<Rightarrow> None
      | Some i \<Rightarrow> Some (take (length s - i - length needle) s, drop (length s - i) s))"

definition replace_char :: "char \<Rightarrow> char \<Rightarrow> string \<Rightarrow> string" where
  "replace_char a b = map (\<lambda>c. if c = a then b else c)"

text \<open>
  \<open>str::trim\<close> strips characters with the Unicode property \<open>White_Space\<close>. In UTF-8 these are
  the byte sequences below; a UTF-8 string never contains one of them other than as a whole
  character, so stripping sequences from either end strips characters.
\<close>

definition white_space :: "string list" where
  "white_space =
     [[CHR 0x09], [CHR 0x0A], [CHR 0x0B], [CHR 0x0C], [CHR 0x0D], [CHR 0x20],
      [CHR 0xC2, CHR 0x85], [CHR 0xC2, CHR 0xA0], [CHR 0xE1, CHR 0x9A, CHR 0x80],
      [CHR 0xE2, CHR 0x80, CHR 0x80], [CHR 0xE2, CHR 0x80, CHR 0x81],
      [CHR 0xE2, CHR 0x80, CHR 0x82], [CHR 0xE2, CHR 0x80, CHR 0x83],
      [CHR 0xE2, CHR 0x80, CHR 0x84], [CHR 0xE2, CHR 0x80, CHR 0x85],
      [CHR 0xE2, CHR 0x80, CHR 0x86], [CHR 0xE2, CHR 0x80, CHR 0x87],
      [CHR 0xE2, CHR 0x80, CHR 0x88], [CHR 0xE2, CHR 0x80, CHR 0x89],
      [CHR 0xE2, CHR 0x80, CHR 0x8A], [CHR 0xE2, CHR 0x80, CHR 0xA8],
      [CHR 0xE2, CHR 0x80, CHR 0xA9], [CHR 0xE2, CHR 0x80, CHR 0xAF],
      [CHR 0xE2, CHR 0x81, CHR 0x9F], [CHR 0xE3, CHR 0x80, CHR 0x80]]"

fun strip_head :: "string list \<Rightarrow> string \<Rightarrow> string option" where
  "strip_head [] s = None"
| "strip_head (w # ws) s = (if w \<noteq> [] \<and> starts_with s w then Some (drop (length w) s) else strip_head ws s)"

lemma strip_head_length: "strip_head ws s = Some t \<Longrightarrow> length t < length s"
proof (induction ws)
  case (Cons w ws)
  show ?case
  proof (cases "w \<noteq> [] \<and> starts_with s w")
    case True
    then have "0 < length w" "length w \<le> length s"
      by (auto simp: starts_with_def) (metis length_take min.cobounded1)
    moreover from True Cons.prems have "t = drop (length w) s" by simp
    ultimately show ?thesis by (simp only: length_drop diff_less)
  qed (use Cons in auto)
qed simp

function strip_all :: "string list \<Rightarrow> string \<Rightarrow> string" where
  "strip_all ws s = (case strip_head ws s of None \<Rightarrow> s | Some t \<Rightarrow> strip_all ws t)"
  by pat_completeness auto
termination
  by (relation "measure (\<lambda>(ws, s). length s)") (auto dest: strip_head_length)

declare strip_all.simps [simp del]

definition trim_start :: "string \<Rightarrow> string" where
  "trim_start = strip_all white_space"

definition trim_end :: "string \<Rightarrow> string" where
  "trim_end s = rev (strip_all (map rev white_space) (rev s))"

definition trim :: "string \<Rightarrow> string" where
  "trim s = trim_end (trim_start s)"

definition trim_matches_char :: "char \<Rightarrow> string \<Rightarrow> string" where
  "trim_matches_char c s = rev (dropWhile (\<lambda>x. x = c) (rev (dropWhile (\<lambda>x. x = c) s)))"

definition to_ascii_uppercase :: "string \<Rightarrow> string" where
  "to_ascii_uppercase =
     map (\<lambda>c. if CHR ''a'' \<le> c \<and> c \<le> CHR ''z'' then char_of (of_char c - 32 :: nat) else c)"

definition to_ascii_lowercase :: "string \<Rightarrow> string" where
  "to_ascii_lowercase =
     map (\<lambda>c. if CHR ''A'' \<le> c \<and> c \<le> CHR ''Z'' then char_of (of_char c + 32 :: nat) else c)"

section \<open>Formatting\<close>

fun show_nat :: "nat \<Rightarrow> string" where
  "show_nat n = (if n < 10 then [char_of (48 + n)] else show_nat (n div 10) @ [char_of (48 + n mod 10)])"

declare show_nat.simps [simp del]

definition show_int :: "int \<Rightarrow> string" where
  "show_int i = (if i < 0 then CHR ''-'' # show_nat (nat (- i)) else show_nat (nat i))"

definition hex_digit :: "nat \<Rightarrow> char" where
  "hex_digit d = (if d < 10 then char_of (48 + d) else char_of (87 + d))"

definition hex_digit_upper :: "nat \<Rightarrow> char" where
  "hex_digit_upper d = (if d < 10 then char_of (48 + d) else char_of (55 + d))"

text \<open>The \<open>{:0wx}\<close> format of an integer below \<open>16 ^ w\<close>.\<close>

fun hex_pad :: "nat \<Rightarrow> nat \<Rightarrow> string" where
  "hex_pad 0 n = []"
| "hex_pad (Suc w) n = hex_pad w (n div 16) @ [hex_digit (n mod 16)]"

section \<open>UTF-8\<close>

text \<open>
  The well-formed byte sequences of the Unicode standard (table 3-7), which
  \<open>String::from_utf8\<close> and \<open>OsStr::to_str\<close> check.
\<close>

abbreviation byte :: "char \<Rightarrow> nat" where "byte c \<equiv> of_char c"

definition cont_byte :: "char \<Rightarrow> bool" where
  "cont_byte c \<longleftrightarrow> 128 \<le> byte c \<and> byte c \<le> 191"

definition second_ok :: "char \<Rightarrow> char \<Rightarrow> bool" where
  "second_ok a b \<longleftrightarrow>
     (if byte a = 224 then 160 \<le> byte b \<and> byte b \<le> 191
      else if byte a = 237 then 128 \<le> byte b \<and> byte b \<le> 159
      else if byte a = 240 then 144 \<le> byte b \<and> byte b \<le> 191
      else if byte a = 244 then 128 \<le> byte b \<and> byte b \<le> 143
      else cont_byte b)"

fun utf8_valid :: "string \<Rightarrow> bool" where
  "utf8_valid [] = True"
| "utf8_valid (a # s) =
     (if byte a < 128 then utf8_valid s
      else if 194 \<le> byte a \<and> byte a \<le> 223 then
        (case s of b # t \<Rightarrow> cont_byte b \<and> utf8_valid t | [] \<Rightarrow> False)
      else if 224 \<le> byte a \<and> byte a \<le> 239 then
        (case s of b # c # t \<Rightarrow> second_ok a b \<and> cont_byte c \<and> utf8_valid t | _ \<Rightarrow> False)
      else if 240 \<le> byte a \<and> byte a \<le> 244 then
        (case s of b # c # d # t \<Rightarrow> second_ok a b \<and> cont_byte c \<and> cont_byte d \<and> utf8_valid t | _ \<Rightarrow> False)
      else False)"

definition to_str :: "string \<Rightarrow> string option" where
  "to_str s = (if utf8_valid s then Some s else None)"

lemma utf8_valid_ascii: "(\<And>c. c \<in> set s \<Longrightarrow> byte c < 128) \<Longrightarrow> utf8_valid s"
  by (induction s) auto

section \<open>Facts on the str methods\<close>

lemma split_on_ne [simp]: "split_on c s \<noteq> []"
  by (cases s) (auto split: list.splits)

lemma split_on_no_sep: "p \<in> set (split_on c s) \<Longrightarrow> c \<notin> set p"
proof (induction s arbitrary: p)
  case (Cons x xs)
  then show ?case by (cases "split_on c xs") (auto split: if_splits)
qed simp

lemma split_on_free: "c \<notin> set s \<Longrightarrow> split_on c s = [s]"
  by (induction s) auto

lemma split_on_append: "c \<notin> set a \<Longrightarrow> split_on c (a @ c # s) = a # split_on c s"
  by (induction a) auto

lemma join_split: "join_with [c] (split_on c s) = s"
proof (induction s)
  case (Cons x xs)
  show ?case
  proof (cases "split_on c xs")
    case (Cons p ps)
    with Cons.IH show ?thesis by (cases ps) auto
  qed simp
qed simp

lemma split_join:
  "ps \<noteq> [] \<Longrightarrow> (\<And>p. p \<in> set ps \<Longrightarrow> c \<notin> set p) \<Longrightarrow> split_on c (join_with [c] ps) = ps"
proof (induction ps rule: induct_list012)
  case (3 x y zs)
  then have "split_on c (x @ c # join_with [c] (y # zs)) = x # split_on c (join_with [c] (y # zs))"
    by (intro split_on_append) auto
  with 3 show ?case by simp
qed (auto simp: split_on_free)

lemma starts_with_iff: "starts_with s p \<longleftrightarrow> prefix p s"
  by (auto simp: starts_with_def prefix_def) (metis append_take_drop_id)

lemma ends_with_iff: "ends_with s p \<longleftrightarrow> suffix p s"
  by (simp add: ends_with_def starts_with_iff suffix_to_prefix)

lemma find_sub_Some:
  "find_sub p s = Some i \<Longrightarrow> \<exists>a b. s = a @ p @ b \<and> length a = i"
proof (induction s arbitrary: i)
  case (Cons x xs)
  show ?case
  proof (cases "prefix p (x # xs)")
    case True
    with Cons.prems show ?thesis by (auto simp: prefix_def)
  next
    case False
    with Cons.prems obtain j where j: "find_sub p xs = Some j" "i = Suc j" by auto
    from Cons.IH [OF j(1)] obtain a b where "xs = a @ p @ b" "length a = j" by blast
    with j have "x # xs = (x # a) @ p @ b \<and> length (x # a) = i" by simp
    then show ?thesis by blast
  qed
qed (auto split: if_splits)

lemma find_sub_leftmost:
  "\<exists>i. find_sub p (a @ p @ b) = Some i \<and> i \<le> length a"
proof (induction a)
  case Nil
  then show ?case by (cases "p @ b") (auto intro: prefixI [OF sym])
next
  case (Cons x a)
  then show ?case by auto
qed

lemma find_sub_None: "find_sub p s = None \<longleftrightarrow> (\<nexists>a b. s = a @ p @ b)"
  using find_sub_Some find_sub_leftmost by (metis option.distinct(1) option.exhaust)

lemma contains_sub_iff: "contains_sub s p \<longleftrightarrow> (\<exists>a b. s = a @ p @ b)"
  by (simp add: contains_sub_def find_sub_None)

lemma contains_sub_char: "contains_sub s [c] \<longleftrightarrow> c \<in> set s"
  by (auto simp: contains_sub_iff in_set_conv_decomp)

lemma replace_char_absent: "c \<notin> set s \<Longrightarrow> replace_char c d s = s"
  by (induction s) (auto simp: replace_char_def)

lemma length_hex_pad [simp]: "length (hex_pad w n) = w"
  by (induction w arbitrary: n) auto

lemma hex_digit_inj: "hex_digit a = hex_digit b \<Longrightarrow> a < 16 \<Longrightarrow> b < 16 \<Longrightarrow> a = b"
  by (auto simp: hex_digit_def split: if_splits dest!: arg_cong [of _ _ "of_char :: char \<Rightarrow> nat"])

lemma hex_pad_inj: "hex_pad w a = hex_pad w b \<Longrightarrow> a < 16 ^ w \<Longrightarrow> b < 16 ^ w \<Longrightarrow> a = b"
proof (induction w arbitrary: a b)
  case (Suc w)
  from Suc.prems have "hex_pad w (a div 16) = hex_pad w (b div 16)"
    and d: "hex_digit (a mod 16) = hex_digit (b mod 16)" by auto
  with Suc.IH Suc.prems have "a div 16 = b div 16" by (simp add: less_mult_imp_div_less mult.commute)
  moreover from d have "a mod 16 = b mod 16" by (rule hex_digit_inj) auto
  ultimately show ?case by (metis div_mod_decomp)
qed simp

lemma show_nat_ne: "show_nat n \<noteq> []"
  by (subst show_nat.simps) simp

lemma show_nat_digits: "c \<in> set (show_nat n) \<Longrightarrow> 48 \<le> byte c \<and> byte c \<le> 57"
proof (induction n arbitrary: c rule: show_nat.induct)
  case (1 n)
  have d: "48 \<le> byte (char_of (48 + k)) \<and> byte (char_of (48 + k)) \<le> 57" if "k < 10" for k :: nat
    using that by simp
  show ?case
  proof (cases "n < 10")
    case True
    with 1 d [of n] show ?thesis by (subst (asm) show_nat.simps) simp
  next
    case False
    with 1 d [of "n mod 10"] show ?thesis by (subst (asm) (2) show_nat.simps) auto
  qed
qed


section \<open>Filtered maps and association lists\<close>

lemma set_map_filter: "set (List.map_filter f xs) = {y. \<exists>x \<in> set xs. f x = Some y}"
  by (force simp: map_filter_def)

lemma map_of_rev: "distinct (map fst xs) \<Longrightarrow> map_of (rev xs) = map_of xs"
  by (rule map_of_eqI) (auto simp: rev_map [symmetric] map_of_eq_Some_iff set_rev)

text \<open>A decimal rendering is read back, so it determines the number.\<close>

definition read_digits :: "string \<Rightarrow> nat" where
  "read_digits s = foldl (\<lambda>n c. 10 * n + (of_char c - 48)) 0 s"

lemma read_show_nat: "read_digits (show_nat n) = n"
proof (induction n rule: show_nat.induct)
  case (1 n)
  have digit: "of_char (char_of (48 + k) :: char) = (48 + k :: nat)" if "k < 10" for k :: nat using that by simp
  show ?case
  proof (cases "n < 10")
    case True
    then show ?thesis by (subst show_nat.simps) (simp add: read_digits_def digit)
  next
    case False
    with 1 show ?thesis by (subst show_nat.simps) (simp add: read_digits_def digit)
  qed
qed

lemma show_nat_inject [simp]: "show_nat m = show_nat n \<longleftrightarrow> m = n"
  by (metis read_show_nat)

text \<open>Sorting keeps the size of a list, for recursion over sorted entries.\<close>

lemma size_list_insort_key: "size_list f (insort_key k x xs) = size_list f (x # xs)"
  by (induction xs) auto

lemma size_list_sort_key [simp]: "size_list f (sort_key k xs) = size_list f xs"
  by (induction xs) (simp_all add: size_list_insort_key)

end
