(* ===== verification/Btree_Collections.thy ===== *)
theory Btree_Collections
  imports Prelude
begin

text \<open>
  \<open>BTreeSet\<close> and \<open>BTreeMap\<close> of the standard library, as the ascending lists that iterating
  over them yields, with the operations the sources call. The contracts of a set and a map
  with ordered iteration are locales; the lemmas the components need are proved inside them
  and reach the components through the interpretations at the end of each section.
\<close>

abbreviation ascending :: "'a::linorder list \<Rightarrow> bool" where
  "ascending xs \<equiv> sorted_wrt (<) xs"

lemma ascending_distinct: "ascending xs \<Longrightarrow> distinct xs"
  by (simp add: strict_sorted_iff)

lemma ascending_unique: "ascending xs \<Longrightarrow> ascending ys \<Longrightarrow> set xs = set ys \<Longrightarrow> xs = ys"
  by (simp add: strict_sorted_equal)

section \<open>Ordered sets\<close>

locale ordered_set =
  fixes empty :: 's
    and ins :: "'a::linorder \<Rightarrow> 's \<Rightarrow> 's"
    and elems :: "'s \<Rightarrow> 'a list"
  assumes elems_empty: "elems empty = []"
    and elems_ins: "ascending (elems s) \<Longrightarrow> set (elems (ins x s)) = insert x (set (elems s))"
    and ascending_ins: "ascending (elems s) \<Longrightarrow> ascending (elems (ins x s))"
begin

lemma ascending_fold: "ascending (elems s) \<Longrightarrow> ascending (elems (fold ins xs s))"
  by (induction xs arbitrary: s) (auto intro: ascending_ins)

lemma elems_fold: "ascending (elems s) \<Longrightarrow> set (elems (fold ins xs s)) = set xs \<union> set (elems s)"
  by (induction xs arbitrary: s) (auto simp: ascending_ins elems_ins)

lemma ascending_collect: "ascending (elems (fold ins xs empty))"
  by (simp add: ascending_fold elems_empty)

lemma elems_collect: "set (elems (fold ins xs empty)) = set xs"
  by (simp add: elems_fold elems_empty)

text \<open>Iteration does not depend on the order or the multiplicity of the insertions.\<close>

lemma collect_order_irrelevant:
  "set xs = set ys \<Longrightarrow> elems (fold ins xs empty) = elems (fold ins ys empty)"
  by (rule ascending_unique) (simp_all add: ascending_collect elems_collect)

lemma length_collect: "length (elems (fold ins xs empty)) = card (set xs)"
  by (metis ascending_collect ascending_distinct distinct_card elems_collect)

end

fun bset_insert :: "'a::linorder \<Rightarrow> 'a list \<Rightarrow> 'a list" where
  "bset_insert x [] = [x]"
| "bset_insert x (y # ys) =
     (if x < y then x # y # ys else if x = y then y # ys else y # bset_insert x ys)"

definition bset_remove :: "'a::linorder \<Rightarrow> 'a list \<Rightarrow> 'a list" where
  "bset_remove x xs = filter (\<lambda>y. y \<noteq> x) xs"

definition bset_of_list :: "'a::linorder list \<Rightarrow> 'a list" where
  "bset_of_list xs = fold bset_insert xs []"

definition bset_extend :: "'a::linorder list \<Rightarrow> 'a list \<Rightarrow> 'a list" where
  "bset_extend s xs = fold bset_insert xs s"

definition bset_inter :: "'a::linorder list \<Rightarrow> 'a list \<Rightarrow> 'a list" where
  "bset_inter xs ys = filter (\<lambda>x. x \<in> set ys) xs"

lemma set_bset_insert [simp]: "set (bset_insert x xs) = insert x (set xs)"
  by (induction xs) auto

lemma ascending_bset_insert [simp]: "ascending xs \<Longrightarrow> ascending (bset_insert x xs)"
  by (induction xs) auto

interpretation bs: ordered_set "[]" bset_insert "\<lambda>xs. xs"
  by unfold_locales auto

lemma set_bset_of_list [simp]: "set (bset_of_list xs) = set xs"
  by (simp add: bset_of_list_def bs.elems_collect)

lemma ascending_bset_of_list [simp]: "ascending (bset_of_list xs)"
  by (simp add: bset_of_list_def bs.ascending_collect)

lemma length_bset_of_list: "length (bset_of_list xs) = card (set xs)"
  by (simp add: bset_of_list_def bs.length_collect)

lemma bset_of_list_cong: "set xs = set ys \<Longrightarrow> bset_of_list xs = bset_of_list ys"
  unfolding bset_of_list_def by (rule bs.collect_order_irrelevant)

lemma bset_of_list_ascending: "ascending xs \<Longrightarrow> bset_of_list xs = xs"
  by (rule ascending_unique) simp_all

lemma set_bset_extend [simp]: "set (bset_extend s xs) = set s \<union> set xs"
  by (induction xs arbitrary: s) (auto simp: bset_extend_def)

lemma ascending_bset_extend [simp]: "ascending s \<Longrightarrow> ascending (bset_extend s xs)"
  by (simp add: bset_extend_def bs.ascending_fold)

lemma set_bset_inter [simp]: "set (bset_inter xs ys) = set xs \<inter> set ys"
  by (auto simp: bset_inter_def)

lemma set_bset_remove [simp]: "set (bset_remove x xs) = set xs - {x}"
  by (auto simp: bset_remove_def)

lemma ascending_bset_remove [simp]: "ascending xs \<Longrightarrow> ascending (bset_remove x xs)"
  by (simp add: bset_remove_def sorted_wrt_filter)

lemma bset_remove_insert [simp]: "x \<notin> set xs \<Longrightarrow> bset_remove x (bset_insert x xs) = xs"
  by (induction xs) (auto simp: bset_remove_def filter_id_conv)

section \<open>Ordered maps\<close>

locale ordered_map =
  fixes empty :: 'm
    and put :: "'k::linorder \<Rightarrow> 'v \<Rightarrow> 'm \<Rightarrow> 'm"
    and entries :: "'m \<Rightarrow> ('k \<times> 'v) list"
  assumes entries_empty: "entries empty = []"
    and entries_put: "ascending (map fst (entries m)) \<Longrightarrow>
      map_of (entries (put k v m)) = (map_of (entries m))(k \<mapsto> v)"
    and ascending_put: "ascending (map fst (entries m)) \<Longrightarrow>
      ascending (map fst (entries (put k v m)))"
begin

lemma ascending_fold_put:
  "ascending (map fst (entries m)) \<Longrightarrow>
   ascending (map fst (entries (fold (\<lambda>(k, v). put k v) kvs m)))"
  by (induction kvs arbitrary: m) (auto intro: ascending_put)

text \<open>Collecting pairs into a map: the last pair of a key wins.\<close>

lemma fold_put:
  "ascending (map fst (entries m)) \<Longrightarrow>
   map_of (entries (fold (\<lambda>(k, v). put k v) kvs m)) = map_of (entries m) ++ map_of (rev kvs)"
  by (induction kvs arbitrary: m) (auto simp: ascending_put entries_put)

lemma collect_put: "map_of (entries (fold (\<lambda>(k, v). put k v) kvs empty)) = map_of (rev kvs)"
  by (simp add: fold_put entries_empty)

end

text \<open>A map that also has \<open>entry(k).or_insert(v)\<close>.\<close>

locale entry_map = ordered_map +
  fixes or_put :: "'b::linorder \<Rightarrow> 'c \<Rightarrow> 'a \<Rightarrow> 'a"
  assumes or_put: "ascending (map fst (entries m)) \<Longrightarrow>
    or_put k v m = (if map_of (entries m) k = None then put k v m else m)"
begin

lemma ascending_or_put:
  "ascending (map fst (entries m)) \<Longrightarrow> ascending (map fst (entries (or_put k v m)))"
  by (simp add: or_put ascending_put)

lemma lookup_or_put:
  "ascending (map fst (entries m)) \<Longrightarrow>
   map_of (entries (or_put k v m)) = (if map_of (entries m) k = None then (map_of (entries m))(k \<mapsto> v) else map_of (entries m))"
  by (simp add: or_put entries_put)

lemma ascending_fold_or_put:
  "ascending (map fst (entries m)) \<Longrightarrow>
   ascending (map fst (entries (fold (\<lambda>(k, v). or_put k v) kvs m)))"
  by (induction kvs arbitrary: m) (auto intro: ascending_or_put)

text \<open>The first writer of a key wins.\<close>

lemma fold_or_put:
  "ascending (map fst (entries m)) \<Longrightarrow>
   map_of (entries (fold (\<lambda>(k, v). or_put k v) kvs m)) = map_of kvs ++ map_of (entries m)"
proof (induction kvs arbitrary: m)
  case (Cons kv kvs)
  obtain k v where kv: "kv = (k, v)" by (cases kv)
  have "map_of kvs ++ map_of (entries (or_put k v m)) = map_of (kv # kvs) ++ map_of (entries m)"
    using Cons.prems
    by (auto simp: kv lookup_or_put map_add_def fun_eq_iff split: option.splits)
  moreover have "map_of (entries (fold (\<lambda>(k, v). or_put k v) kvs (or_put k v m)))
      = map_of kvs ++ map_of (entries (or_put k v m))"
    by (rule Cons.IH) (rule ascending_or_put [OF Cons.prems])
  ultimately show ?case by (simp only: kv fold_simps prod.case)
qed simp

lemma collect_or_put: "map_of (entries (fold (\<lambda>(k, v). or_put k v) kvs empty)) = map_of kvs"
  by (simp add: fold_or_put entries_empty)

end

fun bmap_insert :: "'k::linorder \<Rightarrow> 'v \<Rightarrow> ('k \<times> 'v) list \<Rightarrow> ('k \<times> 'v) list" where
  "bmap_insert k v [] = [(k, v)]"
| "bmap_insert k v ((k', v') # m) =
     (if k < k' then (k, v) # (k', v') # m
      else if k = k' then (k, v) # m else (k', v') # bmap_insert k v m)"

abbreviation bmap_get :: "('k \<times> 'v) list \<Rightarrow> 'k \<Rightarrow> 'v option" where
  "bmap_get m k \<equiv> map_of m k"

abbreviation bmap_keys :: "('k \<times> 'v) list \<Rightarrow> 'k list" where
  "bmap_keys m \<equiv> map fst m"

abbreviation bmap_values :: "('k \<times> 'v) list \<Rightarrow> 'v list" where
  "bmap_values m \<equiv> map snd m"

definition bmap_or_insert :: "'k::linorder \<Rightarrow> 'v \<Rightarrow> ('k \<times> 'v) list \<Rightarrow> ('k \<times> 'v) list" where
  "bmap_or_insert k v m = (if bmap_get m k = None then bmap_insert k v m else m)"

definition bmap_of_list :: "('k::linorder \<times> 'v) list \<Rightarrow> ('k \<times> 'v) list" where
  "bmap_of_list kvs = fold (\<lambda>(k, v). bmap_insert k v) kvs []"

lemma bmap_insert_keys: "set (bmap_keys (bmap_insert k v m)) = insert k (set (bmap_keys m))"
  by (induction k v m rule: bmap_insert.induct) auto

lemma bmap_get_insert:
  "ascending (bmap_keys m) \<Longrightarrow> bmap_get (bmap_insert k v m) = (map_of m)(k \<mapsto> v)"
  by (induction k v m rule: bmap_insert.induct) (auto simp: fun_eq_iff)

lemma ascending_bmap_insert:
  "ascending (bmap_keys m) \<Longrightarrow> ascending (bmap_keys (bmap_insert k v m))"
proof (induction k v m rule: bmap_insert.induct)
  case (2 k v k' v' m)
  then show ?case using bmap_insert_keys [of k v m] by (auto simp: image_iff)
qed simp

interpretation bm: entry_map "[]" bmap_insert "\<lambda>m. m" bmap_or_insert
  by unfold_locales (simp_all add: bmap_get_insert ascending_bmap_insert bmap_or_insert_def)

lemmas bmap_simps = bmap_get_insert ascending_bmap_insert bm.ascending_or_put bm.lookup_or_put

lemma ascending_bmap_of_list [simp]: "ascending (bmap_keys (bmap_of_list kvs))"
  using bm.ascending_fold_put [of "[]" kvs] by (simp add: bmap_of_list_def)

lemma bmap_get_of_list: "bmap_get (bmap_of_list kvs) = map_of (rev kvs)"
  by (simp add: bmap_of_list_def bm.collect_put)

lemma bmap_keys_of_list: "set (bmap_keys (bmap_of_list kvs)) = set (map fst kvs)"
proof -
  have "dom (map_of (bmap_of_list kvs)) = dom (map_of (rev kvs))"
    by (simp add: bmap_get_of_list)
  then show ?thesis by (simp add: dom_map_of_conv_image_fst)
qed

lemma bmap_in_set_iff:
  "ascending (bmap_keys m) \<Longrightarrow> (k, v) \<in> set m \<longleftrightarrow> bmap_get m k = Some v"
  by (simp add: ascending_distinct map_of_eq_Some_iff)

section \<open>Sorting and deduplicating vectors\<close>

text \<open>
  \<open>Vec::sort_by\<close> is stable, as \<^const>\<open>sort_key\<close> is; \<open>Vec::dedup\<close> removes adjacent repetitions
  and \<open>dedup_by_key\<close> keeps the first of each run of equal keys.
\<close>

fun dedup_by_key :: "('a \<Rightarrow> 'k) \<Rightarrow> 'a list \<Rightarrow> 'a list" where
  "dedup_by_key f [] = []"
| "dedup_by_key f [x] = [x]"
| "dedup_by_key f (x # y # ys) =
     (if f x = f y then dedup_by_key f (x # ys) else x # dedup_by_key f (y # ys))"

lemma dedup_by_key_head: "\<exists>ys. dedup_by_key f (x # xs) = x # ys"
  by (induction f "x # xs" arbitrary: x xs rule: dedup_by_key.induct) auto

lemma map_dedup_by_key: "map f (dedup_by_key f xs) = remdups_adj (map f xs)"
proof (induction f xs rule: dedup_by_key.induct)
  case (3 f x y ys)
  then show ?case by (cases ys) auto
qed auto

lemma set_dedup_by_key: "set (dedup_by_key f xs) \<subseteq> set xs"
  by (induction f xs rule: dedup_by_key.induct) auto

lemma sorted_remdups_adj_ascending: "sorted xs \<Longrightarrow> ascending (remdups_adj xs)"
proof (induction xs rule: remdups_adj.induct)
  case (3 x y xs)
  then show ?case by (auto simp: less_le)
qed auto

lemma ascending_sort_dedup [simp]: "ascending (remdups_adj (sort xs))"
  by (simp add: sorted_remdups_adj_ascending)

lemma ascending_dedup_by_key: "ascending (map f (dedup_by_key f (sort_key f xs)))"
  by (simp add: map_dedup_by_key sorted_remdups_adj_ascending)

end
