(* ===== verification/Dependency_Order.thy ===== *)
theory Dependency_Order
  imports Btree_Collections
begin

text \<open>
  The dependency-first order of \<open>src/workspace_dependency_graph.rs\<close>:
  \<open>visit_dependency_graph_package\<close> and \<open>dependency_first_package_order\<close>, a depth-first search that
  threads the sets \<open>visiting\<close> and \<open>visited\<close> and the vector \<open>order\<close>, and stops at the first error.
  The recursion descends only into packages that are not being visited, so the number of packages
  outside \<open>visiting\<close> bounds its depth; the termination proof needs that a successful visit
  restores \<open>visiting\<close>.
\<close>

type_synonym dependency_map = "(string \<times> string list) list"

record visit_state =
  visiting :: "string list"
  visited :: "string list"
  order :: "string list"

definition cycle_error :: "string \<Rightarrow> string" where
  "cycle_error package = ''Cargo local dependency graph contains a cycle through `'' @ package @ ''`''"

definition missing_error :: "string \<Rightarrow> string" where
  "missing_error package = ''Cargo dependency graph package is missing: `'' @ package @ ''`''"

definition finish_visit :: "string \<Rightarrow> visit_state \<Rightarrow> visit_state" where
  "finish_visit package st = st\<lparr>visiting := bset_remove package (visiting st),
     visited := bset_insert package (visited st), order := order st @ [package]\<rparr>"

definition unvisited :: "dependency_map \<Rightarrow> visit_state \<Rightarrow> nat" where
  "unvisited deps st = card (set (bmap_keys deps) - set (visiting st))"

lemma unvisited_decreases:
  assumes "p \<notin> set (visiting st)" "bmap_get deps p = Some ds"
  shows "unvisited deps (st\<lparr>visiting := bset_insert p (visiting st)\<rparr>) < unvisited deps st"
proof -
  from assms(2) have "p \<in> set (bmap_keys deps)" by (force dest: map_of_SomeD)
  with assms(1) show ?thesis
    unfolding unvisited_def by (intro psubset_card_mono) auto
qed

function visit_dependency_graph_package :: "dependency_map \<Rightarrow> string \<Rightarrow> visit_state \<Rightarrow> visit_state result"
  and visit_dependencies :: "dependency_map \<Rightarrow> string list \<Rightarrow> visit_state \<Rightarrow> visit_state result"
where
  "visit_dependency_graph_package deps package st =
     (if package \<in> set (visited st) then Ok st
      else if package \<in> set (visiting st) then Err (cycle_error package)
      else case bmap_get deps package of
        None \<Rightarrow> Err (missing_error package)
      | Some dependencies \<Rightarrow>
          (case visit_dependencies deps dependencies (st\<lparr>visiting := bset_insert package (visiting st)\<rparr>) of
             Inl e \<Rightarrow> Inl e
           | Inr st' \<Rightarrow> Ok (finish_visit package st')))"
| "visit_dependencies deps [] st = Ok st"
| "visit_dependencies deps (dependency # rest) st =
     (case visit_dependency_graph_package deps dependency st of
        Inl e \<Rightarrow> Inl e
      | Inr st' \<Rightarrow> visit_dependencies deps rest st')"
  by pat_completeness auto

termination
proof -
  have restored:
    "visit_dependency_graph_package_visit_dependencies_dom (Inl (deps, p, st)) \<Longrightarrow>
     visit_dependency_graph_package deps p st = Inr st' \<Longrightarrow> visiting st' = visiting st"
    "visit_dependency_graph_package_visit_dependencies_dom (Inr (deps, ps, st)) \<Longrightarrow>
     visit_dependencies deps ps st = Inr st' \<Longrightarrow> visiting st' = visiting st" for deps p ps st st'
  proof (induct deps p st and deps ps st arbitrary: st' and st'
      rule: visit_dependency_graph_package_visit_dependencies.pinduct)
    case (1 deps p st)
    note eq = visit_dependency_graph_package.psimps [OF "1.hyps"(1)]
    show ?case
    proof (cases "p \<in> set (visited st)")
      case True
      with "1.prems" show ?thesis by (simp add: eq)
    next
      case False
      with "1.prems" obtain ds st2 where *: "p \<notin> set (visiting st)" "bmap_get deps p = Some ds"
        "visit_dependencies deps ds (st\<lparr>visiting := bset_insert p (visiting st)\<rparr>) = Inr st2"
        "st' = finish_visit p st2"
        unfolding eq by (auto split: if_splits option.splits sum.splits)
      from "1.hyps"(2) [OF False *(1,2,3)] * show ?thesis by (simp add: finish_visit_def)
    qed
  next
    case (2 deps st)
    then show ?case by (simp add: visit_dependencies.psimps)
  next
    case (3 deps d rest st)
    from "3.prems" obtain st1 where *: "visit_dependency_graph_package deps d st = Inr st1"
      "visit_dependencies deps rest st1 = Inr st'"
      unfolding visit_dependencies.psimps(2) [OF "3.hyps"(1)] by (auto split: sum.splits)
    from "3.hyps"(2) [OF *(1)] "3.hyps"(3) [OF *] show ?case by simp
  qed
  show "All visit_dependency_graph_package_visit_dependencies_dom"
  proof (relation "measures
      [case_sum (\<lambda>(deps, p, st). unvisited deps st) (\<lambda>(deps, ps, st). unvisited deps st),
       case_sum (\<lambda>_. 0) (\<lambda>(deps, ps, st). Suc (length ps))]", goal_cases)
    case (2 deps p st ds)
    then show ?case by (simp add: unvisited_decreases)
  next
    case (4 deps d rest st st')
    from 4(2,1) have "visiting st' = visiting st" by (rule restored(1))
    then show ?case by (simp add: unvisited_def)
  qed auto
qed

declare visit_dependency_graph_package.simps [simp del]

lemma visiting_restored:
  "visit_dependency_graph_package deps p st = Inr st' \<Longrightarrow> visiting st' = visiting st"
  "visit_dependencies deps ps st = Inr st' \<Longrightarrow> visiting st' = visiting st"
proof (induct deps p st and deps ps st arbitrary: st' and st' rule: visit_dependency_graph_package_visit_dependencies.induct)
  case (1 deps p st)
  from "1.prems" show ?case
    unfolding visit_dependency_graph_package.simps [of deps p st]
    by (auto dest!: "1.hyps" simp: finish_visit_def split: if_splits option.splits sum.splits)
next
  case (2 deps st)
  then show ?case by simp
next
  case (3 deps d rest st)
  from "3.prems" obtain st1 where *: "visit_dependency_graph_package deps d st = Inr st1"
    "visit_dependencies deps rest st1 = Inr st'"
    by (auto split: sum.splits)
  from "3.hyps"(1) [OF *(1)] "3.hyps"(2) [OF *] show ?case by simp
qed

definition initial_visit_state :: visit_state where
  "initial_visit_state = \<lparr>visiting = [], visited = [], order = []\<rparr>"

definition dependency_first_package_order :: "string list \<Rightarrow> dependency_map \<Rightarrow> string list result" where
  "dependency_first_package_order workspace_packages dependencies_by_name =
     map_ok order (visit_dependencies dependencies_by_name workspace_packages initial_visit_state)"

section \<open>Dependency-first orders\<close>

definition edges :: "dependency_map \<Rightarrow> (string \<times> string) set" where
  "edges deps = {(p, d). \<exists>ds. bmap_get deps p = Some ds \<and> d \<in> set ds}"

text \<open>Every package of the list is known, and each of its dependencies stands before it.\<close>

definition dependency_first :: "dependency_map \<Rightarrow> string list \<Rightarrow> bool" where
  "dependency_first deps xs \<longleftrightarrow>
     (\<forall>i < length xs. \<exists>ds. bmap_get deps (xs ! i) = Some ds \<and> set ds \<subseteq> set (take i xs))"

lemma dependency_first_snoc:
  "dependency_first deps (xs @ [x]) \<longleftrightarrow>
     dependency_first deps xs \<and> (\<exists>ds. bmap_get deps x = Some ds \<and> set ds \<subseteq> set xs)"
  by (auto simp: dependency_first_def nth_append less_Suc_eq)

lemma dependency_first_closed:
  assumes "dependency_first deps xs" "x \<in> set xs" "(x, y) \<in> edges deps"
  shows "y \<in> set xs"
proof -
  from assms(2) obtain i where i: "i < length xs" "x = xs ! i" by (auto simp: in_set_conv_nth)
  with assms(1,3) have "y \<in> set (take i xs)" by (fastforce simp: dependency_first_def edges_def)
  then show ?thesis by (rule in_set_takeD)
qed

lemma dependency_first_closed_rtrancl:
  "(x, y) \<in> (edges deps)\<^sup>* \<Longrightarrow> dependency_first deps xs \<Longrightarrow> x \<in> set xs \<Longrightarrow> y \<in> set xs"
  by (induction rule: rtrancl_induct) (auto intro: dependency_first_closed)

lemma dependency_first_step:
  assumes "dependency_first deps xs" "distinct xs" "i < length xs" "(xs ! i, y) \<in> edges deps"
  obtains j where "j < i" "y = xs ! j"
proof -
  from assms have "y \<in> set (take i xs)" by (fastforce simp: dependency_first_def edges_def)
  then obtain j where "j < i" "y = xs ! j" using assms(3) by (auto simp: in_set_conv_nth)
  with that show thesis by blast
qed

lemma dependency_first_trancl:
  assumes "dependency_first deps xs" "distinct xs"
  shows "(x, y) \<in> (edges deps)\<^sup>+ \<Longrightarrow> i < length xs \<Longrightarrow> x = xs ! i \<Longrightarrow> \<exists>j < i. y = xs ! j"
proof (induction rule: trancl_induct)
  case (base y)
  then show ?case using dependency_first_step [OF assms, of i y] by metis
next
  case (step y z)
  then obtain j where "j < i" "y = xs ! j" by blast
  with step dependency_first_step [OF assms, of j z] show ?case by (metis less_trans)
qed

lemma dependency_first_acyclic:
  assumes "dependency_first deps xs" "distinct xs" "x \<in> set xs"
  shows "(x, x) \<notin> (edges deps)\<^sup>+"
proof
  assume cyc: "(x, x) \<in> (edges deps)\<^sup>+"
  from assms(3) obtain i where i: "i < length xs" "x = xs ! i" by (auto simp: in_set_conv_nth)
  then obtain j where "j < i" "x = xs ! j" using dependency_first_trancl [OF assms(1,2) cyc] by blast
  with i assms(2) show False by (simp add: nth_eq_iff_index_eq)
qed

section \<open>The search invariant\<close>

definition visit_inv :: "dependency_map \<Rightarrow> visit_state \<Rightarrow> bool" where
  "visit_inv deps st \<longleftrightarrow> distinct (order st) \<and> set (order st) = set (visited st) \<and>
     dependency_first deps (order st) \<and> set (visiting st) \<inter> set (visited st) = {}"

definition visit_extends :: "dependency_map \<Rightarrow> string set \<Rightarrow> visit_state \<Rightarrow> visit_state \<Rightarrow> bool" where
  "visit_extends deps goals st st' \<longleftrightarrow> visiting st' = visiting st \<and> set (visited st) \<subseteq> set (visited st') \<and>
     goals \<subseteq> set (visited st') \<and> set (visited st') \<subseteq> set (visited st) \<union> (edges deps)\<^sup>* `` goals"

lemma finish_visit_extends:
  assumes "p \<notin> set (visited st)" "p \<notin> set (visiting st)" "bmap_get deps p = Some ds"
    and "visit_inv deps st'"
    and "visit_extends deps (set ds) (st\<lparr>visiting := bset_insert p (visiting st)\<rparr>) st'"
  shows "visit_inv deps (finish_visit p st') \<and> visit_extends deps {p} st (finish_visit p st')"
proof -
  have ext: "visiting st' = bset_insert p (visiting st)" "set (visited st) \<subseteq> set (visited st')"
    "set ds \<subseteq> set (visited st')" "set (visited st') \<subseteq> set (visited st) \<union> (edges deps)\<^sup>* `` set ds"
    using assms(5) by (auto simp: visit_extends_def)
  have new: "p \<notin> set (order st')"
    using assms(4) ext(1) by (auto simp: visit_inv_def)
  have step: "(p, d) \<in> edges deps" if "d \<in> set ds" for d
    using assms(3) that by (auto simp: edges_def)
  have "(edges deps)\<^sup>* `` set ds \<subseteq> (edges deps)\<^sup>* `` {p}"
    using step by (auto intro: converse_rtrancl_into_rtrancl)
  with ext(4) have "set (visited st') \<subseteq> set (visited st) \<union> (edges deps)\<^sup>* `` {p}" by blast
  then show ?thesis
    using assms(2-4) ext(1-3) new
    by (auto simp: visit_inv_def visit_extends_def finish_visit_def dependency_first_snoc)
qed

lemma visit_extends_trans:
  assumes "visit_extends deps a st st1" "visit_extends deps b st1 st'"
  shows "visit_extends deps (a \<union> b) st st'"
proof -
  define reach where "reach = (\<lambda>goals. (edges deps)\<^sup>* `` goals)"
  have "set (visited st1) \<subseteq> set (visited st) \<union> reach a" "set (visited st') \<subseteq> set (visited st1) \<union> reach b"
    using assms by (simp_all add: visit_extends_def reach_def)
  then have "set (visited st') \<subseteq> set (visited st) \<union> (reach a \<union> reach b)" by blast
  moreover have "reach (a \<union> b) = reach a \<union> reach b" by (simp add: reach_def Image_Un)
  ultimately have "set (visited st') \<subseteq> set (visited st) \<union> (edges deps)\<^sup>* `` (a \<union> b)" by (simp add: reach_def)
  with assms show ?thesis by (auto simp only: visit_extends_def)
qed

lemma visit_correct:
  "visit_dependency_graph_package deps p st = Ok st' \<Longrightarrow> visit_inv deps st \<Longrightarrow>
     visit_inv deps st' \<and> visit_extends deps {p} st st'"
  "visit_dependencies deps ps st = Ok st' \<Longrightarrow> visit_inv deps st \<Longrightarrow>
     visit_inv deps st' \<and> visit_extends deps (set ps) st st'"
proof (induction deps p st and deps ps st arbitrary: st' and st'
    rule: visit_dependency_graph_package_visit_dependencies.induct)
  case (1 deps p st)
  show ?case
  proof (cases "p \<in> set (visited st)")
    case True
    with "1.prems" show ?thesis
      by (auto simp: visit_dependency_graph_package.simps visit_extends_def)
  next
    case False
    with "1.prems"(1) obtain ds st2 where *: "p \<notin> set (visiting st)" "bmap_get deps p = Some ds"
      "visit_dependencies deps ds (st\<lparr>visiting := bset_insert p (visiting st)\<rparr>) = Ok st2"
      "st' = finish_visit p st2"
      by (auto simp: visit_dependency_graph_package.simps split: if_splits option.splits sum.splits)
    have "visit_inv deps (st\<lparr>visiting := bset_insert p (visiting st)\<rparr>)"
      using "1.prems"(2) False by (auto simp: visit_inv_def)
    with "1.IH" [OF False *(1,2,3)] * False finish_visit_extends show ?thesis by blast
  qed
next
  case (3 deps d rest st)
  then obtain st1 where st1: "visit_dependency_graph_package deps d st = Ok st1"
    "visit_dependencies deps rest st1 = Ok st'" by (auto split: sum.splits)
  with 3 have "visit_inv deps st1" "visit_extends deps {d} st st1"
    "visit_inv deps st'" "visit_extends deps (set rest) st1 st'" by auto
  moreover from visit_extends_trans [OF this(2,4)] have "visit_extends deps (set (d # rest)) st st'" by simp
  ultimately show ?case by simp
qed (auto simp: visit_extends_def)

section \<open>Errors\<close>

definition visit_error :: "dependency_map \<Rightarrow> string set \<Rightarrow> string \<Rightarrow> bool" where
  "visit_error deps goals e \<longleftrightarrow> (\<exists>q \<in> (edges deps)\<^sup>* `` goals.
     (e = cycle_error q \<and> (q, q) \<in> (edges deps)\<^sup>+) \<or> (e = missing_error q \<and> bmap_get deps q = None))"

lemma visit_error_mono:
  "visit_error deps goals e \<Longrightarrow> goals \<subseteq> (edges deps)\<^sup>* `` goals' \<Longrightarrow> visit_error deps goals' e"
proof -
  assume "goals \<subseteq> (edges deps)\<^sup>* `` goals'"
  then have sub: "(edges deps)\<^sup>* `` goals \<subseteq> (edges deps)\<^sup>* `` goals'"
    by (blast intro: rtrancl_trans)
  assume "visit_error deps goals e"
  then show ?thesis unfolding visit_error_def by (rule bexE) (rule bexI, assumption, rule subsetD [OF sub])
qed

lemma visit_errors:
  "visit_dependency_graph_package deps p st = Err e \<Longrightarrow>
     (\<And>v. v \<in> set (visiting st) \<Longrightarrow> (v, p) \<in> (edges deps)\<^sup>+) \<Longrightarrow> visit_error deps {p} e"
  "visit_dependencies deps ps st = Err e \<Longrightarrow>
     (\<And>v d. v \<in> set (visiting st) \<Longrightarrow> d \<in> set ps \<Longrightarrow> (v, d) \<in> (edges deps)\<^sup>+) \<Longrightarrow> visit_error deps (set ps) e"
proof (induction deps p st and deps ps st
    rule: visit_dependency_graph_package_visit_dependencies.induct)
  case (1 deps p st)
  from "1.prems"(1) have new: "p \<notin> set (visited st)"
    by (auto simp: visit_dependency_graph_package.simps split: if_splits)
  show ?case
  proof (cases "p \<in> set (visiting st)")
    case True
    with new "1.prems" show ?thesis
      by (auto simp: visit_error_def visit_dependency_graph_package.simps)
  next
    case False
    show ?thesis
    proof (cases "bmap_get deps p")
      case None
      with new False "1.prems" show ?thesis
        by (auto simp: visit_error_def visit_dependency_graph_package.simps)
    next
      case (Some ds)
      have step: "(p, d) \<in> edges deps" if "d \<in> set ds" for d
        using Some that by (auto simp: edges_def)
      have err: "visit_dependencies deps ds (st\<lparr>visiting := bset_insert p (visiting st)\<rparr>) = Err e"
        using new False Some "1.prems"(1)
        by (auto simp: visit_dependency_graph_package.simps split: sum.splits)
      have "visit_error deps (set ds) e"
        by (rule "1.IH" [OF new False Some err])
          (use step "1.prems"(2) in \<open>auto intro: trancl_into_trancl\<close>)
      then show ?thesis by (rule visit_error_mono) (use step in auto)
    qed
  qed
next
  case (3 deps d rest st)
  show ?case
  proof (cases "visit_dependency_graph_package deps d st")
    case (Inl e')
    then have "visit_dependency_graph_package deps d st = Err e" using "3.prems"(1) by simp
    then have "visit_error deps {d} e" by (rule "3.IH"(1)) (use "3.prems"(2) in simp)
    then show ?thesis by (rule visit_error_mono) auto
  next
    case (Inr st1)
    have "visit_error deps (set rest) e"
    proof (rule "3.IH"(2) [OF Inr])
      show "visit_dependencies deps rest st1 = Err e" using "3.prems"(1) Inr by simp
      show "(v, d') \<in> (edges deps)\<^sup>+" if "v \<in> set (visiting st1)" "d' \<in> set rest" for v d'
        using that "3.prems"(2) visiting_restored(1) [OF Inr] by simp
    qed
    then show ?thesis by (rule visit_error_mono) auto
  qed
qed simp


section \<open>What the order promises\<close>

lemma initial_visit_inv: "visit_inv deps initial_visit_state"
  by (simp add: visit_inv_def initial_visit_state_def dependency_first_def)

lemma dependency_first_package_order_Ok:
  assumes "dependency_first_package_order pkgs deps = Ok xs"
  shows "distinct xs" "dependency_first deps xs" "set xs = (edges deps)\<^sup>* `` set pkgs"
proof -
  from assms obtain st where st: "visit_dependencies deps pkgs initial_visit_state = Ok st" "xs = order st"
    by (auto simp: dependency_first_package_order_def map_ok_Inr_iff)
  with visit_correct(2) [OF st(1) initial_visit_inv]
  have inv: "visit_inv deps st" and ext: "visit_extends deps (set pkgs) initial_visit_state st" by auto
  from inv show "distinct xs" and first: "dependency_first deps xs"
    by (auto simp: visit_inv_def st(2))
  have "set pkgs \<subseteq> set xs" "set xs \<subseteq> (edges deps)\<^sup>* `` set pkgs"
    using inv ext by (auto simp: visit_inv_def visit_extends_def initial_visit_state_def st(2))
  with dependency_first_closed_rtrancl [OF _ first]
  show "set xs = (edges deps)\<^sup>* `` set pkgs" by blast
qed

lemma dependency_first_package_order_Err:
  assumes "dependency_first_package_order pkgs deps = Err e"
  shows "visit_error deps (set pkgs) e"
proof -
  from assms have "visit_dependencies deps pkgs initial_visit_state = Err e"
    by (cases "visit_dependencies deps pkgs initial_visit_state")
      (auto simp: dependency_first_package_order_def)
  then show ?thesis
    by (rule visit_errors(2)) (simp add: initial_visit_state_def)
qed

text \<open>
  C26: when \<open>dependency_first_package_order\<close> succeeds, its result lists exactly the packages that
  the requested ones depend on, directly or not, each once, and every package stands after all of
  its dependencies.
\<close>

theorem dependency_first_package_order_correct:
  assumes "dependency_first_package_order pkgs deps = Ok xs"
  shows "distinct xs \<and> set xs = (edges deps)\<^sup>* `` set pkgs \<and>
    (\<forall>i < length xs. \<exists>ds. bmap_get deps (xs ! i) = Some ds \<and> set ds \<subseteq> set (take i xs))"
  using dependency_first_package_order_Ok [OF assms] unfolding dependency_first_def by blast

theorem dependency_first_package_order_correct_witness:
  "distinct [''core'', ''api'', ''app''] \<and> set [''core'', ''api'', ''app''] =
     (edges [(''api'', [''core'']), (''app'', [''api'', ''core'']), (''core'', [])])\<^sup>* `` set [''app'', ''core'']"
proof -
  have "dependency_first_package_order [''app'', ''core'']
      [(''api'', [''core'']), (''app'', [''api'', ''core'']), (''core'', [])] = Ok [''core'', ''api'', ''app'']"
    by (simp add: dependency_first_package_order_def initial_visit_state_def finish_visit_def
        visit_dependency_graph_package.simps bset_remove_def)
  from dependency_first_package_order_correct [OF this] show ?thesis by blast
qed

text \<open>
  C27: \<open>dependency_first_package_order\<close> fails exactly when some package reachable from the
  requested ones is missing from the graph or lies on a dependency cycle, and the message names
  such a package.
\<close>

theorem dependency_first_package_order_fails_iff:
  "((\<exists>e. dependency_first_package_order pkgs deps = Err e) \<longleftrightarrow>
     (\<exists>q \<in> (edges deps)\<^sup>* `` set pkgs. bmap_get deps q = None \<or> (q, q) \<in> (edges deps)\<^sup>+)) \<and>
   (\<forall>e. dependency_first_package_order pkgs deps = Err e \<longrightarrow>
     (\<exists>q \<in> (edges deps)\<^sup>* `` set pkgs.
        (e = cycle_error q \<and> (q, q) \<in> (edges deps)\<^sup>+) \<or> (e = missing_error q \<and> bmap_get deps q = None)))"
proof (cases "dependency_first_package_order pkgs deps")
  case (Inl e)
  with dependency_first_package_order_Err [OF Inl] show ?thesis by (auto simp: visit_error_def)
next
  case (Inr xs)
  note ok = dependency_first_package_order_Ok [OF Inr]
  have "bmap_get deps q \<noteq> None" if "q \<in> set xs" for q
    using that ok(2) by (auto simp: dependency_first_def in_set_conv_nth)
  moreover have "(q, q) \<notin> (edges deps)\<^sup>+" if "q \<in> set xs" for q
    using dependency_first_acyclic [OF ok(2,1) that] .
  ultimately show ?thesis using Inr ok(3) by auto
qed

theorem dependency_first_package_order_fails_iff_witness:
  "(''a'', ''a'') \<in> (edges [(''a'', [''b'']), (''b'', [''a''])])\<^sup>+ \<or>
   (''b'', ''b'') \<in> (edges [(''a'', [''b'']), (''b'', [''a''])])\<^sup>+"
proof -
  define deps :: dependency_map where "deps = [(''a'', [''b'']), (''b'', [''a''])]"
  have err: "dependency_first_package_order [''a''] deps = Err (cycle_error ''a'')"
    by (simp add: deps_def dependency_first_package_order_def initial_visit_state_def
        visit_dependency_graph_package.simps)
  have "cycle_error ''a'' \<noteq> missing_error q" for q
    by (simp add: cycle_error_def missing_error_def)
  with conjunct2 [OF dependency_first_package_order_fails_iff [of "[''a'']" deps], rule_format, OF err]
  have "(''a'', ''a'') \<in> (edges deps)\<^sup>+" by (auto simp: cycle_error_def)
  then show ?thesis by (simp add: deps_def)
qed

end
