(* ===== verification/Lexical_Path.thy ===== *)
theory Lexical_Path
  imports Btree_Collections
begin

text \<open>
  \<open>std::path\<close> on Unix and the path helpers of the crate: \<open>src/path.rs\<close> and
  \<open>src/parser/path_resolution.rs\<close>.

  A path is the sequence of its components. That is how Rust compares, orders and hashes
  paths, so two \<open>PathBuf\<close>s are equal in Rust exactly when they are the same \<open>path\<close> here;
  \<open>display\<close> is the canonical spelling (no repeated or trailing separators), which is the one
  a path built by \<open>push\<close> has. \<open>path_of_string\<close> is \<open>Path::new\<close>.
\<close>

section \<open>Components\<close>

datatype component = RootDir | CurDir | ParentDir | Normal string

fun component_key :: "component \<Rightarrow> nat \<times> string" where
  "component_key RootDir = (0, [])"
| "component_key CurDir = (1, [])"
| "component_key ParentDir = (2, [])"
| "component_key (Normal s) = (3, s)"

lemma component_key_inj: "component_key a = component_key b \<longleftrightarrow> a = b"
  by (cases a; cases b) auto

instantiation component :: linorder
begin

definition less_eq_component :: "component \<Rightarrow> component \<Rightarrow> bool" where
  "a \<le> b \<longleftrightarrow> component_key a \<le> component_key b"

definition less_component :: "component \<Rightarrow> component \<Rightarrow> bool" where
  "a < b \<longleftrightarrow> component_key a < component_key b"

instance
  by intro_classes
    (auto simp only: less_eq_component_def less_component_def component_key_inj [symmetric])

end

type_synonym path = "component list"

fun component_str :: "component \<Rightarrow> string" where
  "component_str RootDir = ''/''"
| "component_str CurDir = ''.''"
| "component_str ParentDir = ''..''"
| "component_str (Normal s) = s"

definition component_of_segment :: "string \<Rightarrow> component list" where
  "component_of_segment s =
     (if s = '''' \<or> s = ''.'' then [] else if s = ''..'' then [ParentDir] else [Normal s])"

definition path_of_string :: "string \<Rightarrow> path" where
  "path_of_string s =
     (let segments = split_on CHR ''/'' s in
      (if starts_with s ''/'' then [RootDir] else if hd segments = ''.'' then [CurDir] else [])
      @ concat (map component_of_segment segments))"

definition display :: "path \<Rightarrow> string" where
  "display p = (case p of
      RootDir # cs \<Rightarrow> CHR ''/'' # join_with ''/'' (map component_str cs)
    | _ \<Rightarrow> join_with ''/'' (map component_str p))"

definition wf_name :: "string \<Rightarrow> bool" where
  "wf_name s \<longleftrightarrow> s \<noteq> '''' \<and> s \<noteq> ''.'' \<and> s \<noteq> ''..'' \<and> CHR ''/'' \<notin> set s"

fun wf_inner :: "component \<Rightarrow> bool" where
  "wf_inner (Normal s) = wf_name s"
| "wf_inner ParentDir = True"
| "wf_inner _ = False"

fun wf_head :: "component \<Rightarrow> bool" where
  "wf_head (Normal s) = wf_name s"
| "wf_head _ = True"

text \<open>The component sequences that \<open>Path::components\<close> can produce.\<close>

definition wf_path :: "path \<Rightarrow> bool" where
  "wf_path p \<longleftrightarrow> (case p of [] \<Rightarrow> True | c # cs \<Rightarrow> wf_head c \<and> list_all wf_inner cs)"

section \<open>Path methods\<close>

definition is_absolute :: "path \<Rightarrow> bool" where
  "is_absolute p \<longleftrightarrow> (case p of RootDir # _ \<Rightarrow> True | _ \<Rightarrow> False)"

definition path_join :: "path \<Rightarrow> path \<Rightarrow> path" where
  "path_join p q =
     (if is_absolute q \<or> p = [] then q
      else p @ (case q of CurDir # cs \<Rightarrow> cs | _ \<Rightarrow> q))"

abbreviation path_push :: "path \<Rightarrow> string \<Rightarrow> path" where
  "path_push p s \<equiv> path_join p (path_of_string s)"

definition path_parent :: "path \<Rightarrow> path option" where
  "path_parent p = (if p = [] \<or> last p = RootDir then None else Some (butlast p))"

definition path_starts_with :: "path \<Rightarrow> path \<Rightarrow> bool" where
  "path_starts_with p base \<longleftrightarrow> take (length base) p = base"

definition strip_prefix :: "path \<Rightarrow> path \<Rightarrow> path option" where
  "strip_prefix p base = (if path_starts_with p base then Some (drop (length base) p) else None)"

definition path_file_name :: "path \<Rightarrow> string option" where
  "path_file_name p =
     (if p = [] then None else case last p of Normal s \<Rightarrow> Some s | _ \<Rightarrow> None)"

text \<open>\<open>rsplit_file_at_dot\<close> of the standard library, the base of \<open>file_stem\<close> and \<open>extension\<close>.\<close>

definition path_extension :: "path \<Rightarrow> string option" where
  "path_extension p =
     Option.bind (path_file_name p)
       (\<lambda>name. case rsplit_once ''.'' name of
          None \<Rightarrow> None | Some (before, after) \<Rightarrow> if before = [] then None else Some after)"

definition path_file_stem :: "path \<Rightarrow> string option" where
  "path_file_stem p =
     map_option
       (\<lambda>name. case rsplit_once ''.'' name of
          None \<Rightarrow> name | Some (before, after) \<Rightarrow> if before = [] then name else before)
       (path_file_name p)"

function path_ancestors :: "path \<Rightarrow> path list" where
  "path_ancestors p = p # (case path_parent p of None \<Rightarrow> [] | Some q \<Rightarrow> path_ancestors q)"
  by pat_completeness auto
termination
  by (relation "measure length") (auto simp: path_parent_def split: if_splits)

declare path_ancestors.simps [simp del]

section \<open>Lexical normalisation\<close>

definition normalize_step :: "component \<Rightarrow> path \<Rightarrow> path" where
  "normalize_step c normalized =
     (case c of
        CurDir \<Rightarrow> normalized
      | ParentDir \<Rightarrow>
          (case path_parent normalized of Some parent \<Rightarrow> parent | None \<Rightarrow> path_push normalized ''..'')
      | other \<Rightarrow> path_push normalized (component_str other))"

definition normalize_lexical_path :: "path \<Rightarrow> path" where
  "normalize_lexical_path p = fold normalize_step p []"

definition display_project_path :: "path \<Rightarrow> path \<Rightarrow> string" where
  "display_project_path project_root p =
     (let normalized_root = normalize_lexical_path project_root;
          normalized_path = normalize_lexical_path p
      in replace_char (CHR 0x5C) (CHR ''/'')
           (display (case strip_prefix normalized_path normalized_root of
                       Some relative \<Rightarrow> relative | None \<Rightarrow> normalized_path)))"

definition normalize_rust_step :: "component \<Rightarrow> path \<Rightarrow> path" where
  "normalize_rust_step c normalized =
     (case c of
        CurDir \<Rightarrow> normalized
      | ParentDir \<Rightarrow> (case path_parent normalized of Some parent \<Rightarrow> parent | None \<Rightarrow> normalized)
      | other \<Rightarrow> path_push normalized (component_str other))"

definition normalize_rust_path :: "path \<Rightarrow> path" where
  "normalize_rust_path p = fold normalize_rust_step p []"

definition parent_or_empty :: "path \<Rightarrow> path" where
  "parent_or_empty p = (case path_parent p of Some q \<Rightarrow> q | None \<Rightarrow> [])"

definition resolve_rust_path_attr :: "path \<Rightarrow> string \<Rightarrow> path" where
  "resolve_rust_path_attr source_file path_value =
     normalize_rust_path (path_join (parent_or_empty source_file) (path_of_string path_value))"

definition resolve_rust_include_literal :: "path \<Rightarrow> string \<Rightarrow> path" where
  "resolve_rust_include_literal source_file include_target =
     normalize_rust_path (path_join (parent_or_empty source_file) (path_of_string include_target))"

section \<open>Spelling and parsing\<close>

lemma path_of_string_fixed [simp]:
  "path_of_string ''..'' = [ParentDir]" "path_of_string ''/'' = [RootDir]" "path_of_string [] = []"
  by (simp_all add: path_of_string_def starts_with_def component_of_segment_def)

lemma path_of_string_name [simp]: "wf_name s \<Longrightarrow> path_of_string s = [Normal s]"
  by (auto simp: path_of_string_def wf_name_def split_on_free component_of_segment_def
      starts_with_iff prefix_def)

lemma component_of_segment_inner: "wf_inner c \<Longrightarrow> component_of_segment (component_str c) = [c]"
  by (cases c) (auto simp: component_of_segment_def wf_name_def)

lemma concat_segments_inner:
  "list_all wf_inner cs \<Longrightarrow> concat (map component_of_segment (map component_str cs)) = cs"
  by (induction cs) (auto simp: component_of_segment_inner)

lemma component_str_no_slash: "wf_inner c \<or> c = CurDir \<Longrightarrow> CHR ''/'' \<notin> set (component_str c)"
  by (cases c) (auto simp: wf_name_def)

lemma split_join_components:
  "cs \<noteq> [] \<Longrightarrow> (\<And>c. c \<in> set cs \<Longrightarrow> wf_inner c \<or> c = CurDir) \<Longrightarrow>
   split_on CHR ''/'' (join_with ''/'' (map component_str cs)) = map component_str cs"
  by (rule split_join) (auto, metis component_str_no_slash)

lemma join_components_relative:
  assumes "\<And>d. d \<in> set (c # cs) \<Longrightarrow> wf_inner d \<or> d = CurDir"
  shows "\<not> starts_with (join_with ''/'' (map component_str (c # cs))) ''/''"
proof -
  have "component_str c \<noteq> []" "CHR ''/'' \<notin> set (component_str c)"
    using assms [of c] by (cases c; auto simp: wf_name_def)+
  then show ?thesis
    by (cases "component_str c"; cases cs) (auto simp: starts_with_def)
qed

lemma path_of_string_relative:
  assumes "wf_head c" "c \<noteq> RootDir" "list_all wf_inner cs"
  shows "path_of_string (join_with ''/'' (map component_str (c # cs))) = c # cs"
proof -
  have inner: "wf_inner d \<or> d = CurDir" if "d \<in> set (c # cs)" for d
    using that assms by (cases c) (auto simp: list_all_iff)
  have eq: "split_on CHR ''/'' (join_with ''/'' (map component_str (c # cs))) = map component_str (c # cs)"
    by (rule split_join_components) (use inner in auto)
  have dot: "(component_str c = ''.'') = (c = CurDir)"
    using assms by (cases c) (auto simp: wf_name_def)
  have hd: "component_of_segment (component_str c) = (if c = CurDir then [] else [c])"
    using assms component_of_segment_inner [of c]
    by (cases c) (auto simp: component_of_segment_def)
  have "path_of_string (join_with ''/'' (map component_str (c # cs)))
      = (if c = CurDir then [CurDir] else []) @ component_of_segment (component_str c) @ cs"
    unfolding path_of_string_def Let_def eq
    using join_components_relative [of c cs] inner dot concat_segments_inner [OF assms(3)] by auto
  then show ?thesis by (simp add: hd)
qed

lemma path_of_string_absolute:
  assumes "list_all wf_inner cs"
  shows "path_of_string (CHR ''/'' # join_with ''/'' (map component_str cs)) = RootDir # cs"
proof (cases cs)
  case Nil
  then show ?thesis by simp
next
  case (Cons d ds)
  have "split_on CHR ''/'' (join_with ''/'' (map component_str cs)) = map component_str cs"
    by (rule split_join_components) (use assms Cons in \<open>auto simp: list_all_iff\<close>)
  then show ?thesis
    using concat_segments_inner [OF assms]
    by (simp add: path_of_string_def starts_with_def component_of_segment_def)
qed

lemma path_of_string_display: "wf_path p \<Longrightarrow> path_of_string (display p) = p"
proof (cases p)
  case (Cons c cs)
  moreover assume "wf_path p"
  ultimately show ?thesis
    using path_of_string_relative [of c cs] path_of_string_absolute [of cs]
    by (cases c) (auto simp: wf_path_def display_def)
qed (simp add: display_def)

lemma display_inj: "wf_path p \<Longrightarrow> wf_path q \<Longrightarrow> display p = display q \<Longrightarrow> p = q"
  by (metis path_of_string_display)

section \<open>Prefixes\<close>

lemma path_starts_with_iff: "path_starts_with p base \<longleftrightarrow> (\<exists>q. p = base @ q)"
  by (auto simp: path_starts_with_def) (metis append_take_drop_id)

lemma strip_prefix_Some: "strip_prefix p base = Some q \<longleftrightarrow> p = base @ q"
  by (auto simp: strip_prefix_def path_starts_with_iff)

lemma strip_prefix_append [simp]: "strip_prefix (base @ q) base = Some q"
  by (simp add: strip_prefix_Some)

lemma path_starts_with_refl [simp]: "path_starts_with p p"
  by (simp add: path_starts_with_def)

lemma path_ancestors_prefix: "q \<in> set (path_ancestors p) \<Longrightarrow> path_starts_with p q"
proof (induction p rule: path_ancestors.induct)
  case (1 p)
  show ?case
  proof (cases "q = p")
    case False
    with 1 obtain r where r: "path_parent p = Some r" "path_starts_with r q"
      using path_ancestors.simps [of p] by (auto split: option.splits)
    moreover from r have "p = r @ [last p]" by (auto simp: path_parent_def split: if_splits)
    ultimately show ?thesis by (metis append_assoc path_starts_with_iff)
  qed simp
qed

section \<open>Normal forms\<close>

lemma path_push_inner [simp]:
  "wf_name s \<Longrightarrow> path_push p s = p @ [Normal s]" "path_push p ''..'' = p @ [ParentDir]"
  by (simp_all add: path_join_def is_absolute_def)

lemma path_parent_snoc [simp]: "path_parent (p @ [c]) = (if c = RootDir then None else Some p)"
  by (simp add: path_parent_def)

lemma normalize_step_simps:
  "wf_name s \<Longrightarrow> normalize_step (Normal s) p = p @ [Normal s]"
  "normalize_step CurDir p = p"
  "normalize_step RootDir p = [RootDir]"
  "normalize_step ParentDir [] = [ParentDir]"
  "normalize_step ParentDir [RootDir] = [RootDir, ParentDir]"
  "c \<noteq> RootDir \<Longrightarrow> normalize_step ParentDir (q @ [c]) = q"
  by (simp_all add: normalize_step_def path_join_def is_absolute_def path_parent_def)

text \<open>
  The paths that normalisation leaves alone: an optional root, at most one parent component,
  then plain names.
\<close>

definition normal_heads :: "path set" where
  "normal_heads = {[], [RootDir], [ParentDir], [RootDir, ParentDir]}"

definition lexical_normal :: "path \<Rightarrow> bool" where
  "lexical_normal p \<longleftrightarrow>
     (\<exists>pre \<in> normal_heads. \<exists>ns. p = pre @ map Normal ns \<and> list_all wf_name ns)"

lemma lexical_normalI:
  "list_all wf_name ns \<Longrightarrow> pre \<in> normal_heads \<Longrightarrow> lexical_normal (pre @ map Normal ns)"
  unfolding lexical_normal_def by blast

lemma lexical_normal_head: "pre \<in> normal_heads \<Longrightarrow> lexical_normal pre"
  using lexical_normalI [of "[]" pre] by simp

lemma normal_heads_parent: "pre \<in> normal_heads \<Longrightarrow> normalize_step ParentDir pre \<in> normal_heads"
  using normalize_step_simps(6) [of ParentDir "[]"] normalize_step_simps(6) [of ParentDir "[RootDir]"]
  by (auto simp: normal_heads_def normalize_step_simps)

lemma lexical_normal_step:
  assumes "lexical_normal p" "wf_head c"
  shows "lexical_normal (normalize_step c p)"
proof -
  obtain pre ns where p: "p = pre @ map Normal ns" and ns: "list_all wf_name ns"
    and pre: "pre \<in> normal_heads"
    using assms(1) unfolding lexical_normal_def by blast
  show ?thesis
  proof (cases c)
    case (Normal s)
    with assms(2) ns show ?thesis
      using lexical_normalI [OF _ pre, of "ns @ [s]"] by (simp add: p normalize_step_simps)
  next
    case ParentDir
    show ?thesis
    proof (cases ns rule: rev_cases)
      case Nil
      with pre ParentDir show ?thesis by (simp add: p normal_heads_parent lexical_normal_head)
    next
      case (snoc ms m)
      then have "normalize_step c p = pre @ map Normal ms"
        using normalize_step_simps(6) [of "Normal m" "pre @ map Normal ms"]
        by (simp add: p ParentDir)
      with ns snoc show ?thesis using lexical_normalI [OF _ pre, of ms] by simp
    qed
  next
    case RootDir
    then show ?thesis
      using lexical_normal_head [of "[RootDir]"] by (simp add: normalize_step_simps normal_heads_def)
  qed (use assms(1) in \<open>simp add: normalize_step_simps\<close>)
qed

lemma lexical_normal_fold:
  "lexical_normal p \<Longrightarrow> list_all wf_head cs \<Longrightarrow> lexical_normal (fold normalize_step cs p)"
  by (induction cs arbitrary: p) (auto intro: lexical_normal_step)

lemma wf_inner_head: "wf_inner c \<Longrightarrow> wf_head c"
  by (cases c) auto

lemma wf_path_heads: "wf_path p \<Longrightarrow> list_all wf_head p"
  by (cases p) (auto simp: wf_path_def list_all_iff wf_inner_head)

lemma normalize_lexical_normal: "wf_path p \<Longrightarrow> lexical_normal (normalize_lexical_path p)"
  unfolding normalize_lexical_path_def
  by (rule lexical_normal_fold) (simp_all add: lexical_normal_head normal_heads_def wf_path_heads)

lemma fold_normalize_names:
  "list_all wf_name ns \<Longrightarrow> fold normalize_step (map Normal ns) p = p @ map Normal ns"
  by (induction ns arbitrary: p) (auto simp: normalize_step_simps)

lemma normalize_fixes_normal: "lexical_normal p \<Longrightarrow> normalize_lexical_path p = p"
  by (auto simp: lexical_normal_def normal_heads_def normalize_lexical_path_def
      fold_normalize_names normalize_step_simps)

lemma lexical_normal_wf: "lexical_normal p \<Longrightarrow> wf_path p"
proof -
  assume "lexical_normal p"
  then obtain pre ns where p: "p = pre @ map Normal ns" and ns: "list_all wf_name ns"
    and pre: "pre \<in> normal_heads"
    unfolding lexical_normal_def by blast
  from ns have "list_all wf_inner (map Normal ns)" by (simp add: list_all_iff)
  with pre ns show ?thesis by (cases ns) (auto simp: p wf_path_def normal_heads_def)
qed

section \<open>The place a path denotes\<close>

text \<open>
  The reference meaning of a path: how many directories it climbs above its start (or tries to
  climb above the root) and the names it descends through afterwards.
\<close>

fun target_step :: "component \<Rightarrow> nat \<times> string list \<Rightarrow> nat \<times> string list" where
  "target_step (Normal s) (k, ns) = (k, ns @ [s])"
| "target_step ParentDir (k, ns) = (if ns = [] then (Suc k, []) else (k, butlast ns))"
| "target_step CurDir (k, ns) = (k, ns)"
| "target_step RootDir (k, ns) = (0, [])"

definition lexical_target :: "path \<Rightarrow> nat \<times> string list" where
  "lexical_target p = fold target_step p (0, [])"

definition path_of_target :: "bool \<Rightarrow> nat \<times> string list \<Rightarrow> path" where
  "path_of_target absolute t =
     (if absolute then [RootDir] else replicate (fst t) ParentDir) @ map Normal (snd t)"

lemma target_step_mono: "wf_inner c \<Longrightarrow> k \<le> fst (target_step c (k, ns))"
  by (cases c) auto

lemma fold_target_mono: "list_all wf_inner cs \<Longrightarrow> fst t \<le> fst (fold target_step cs t)"
proof (induction cs arbitrary: t)
  case (Cons c cs)
  then have "fst t \<le> fst (target_step c t)" using target_step_mono [of c "fst t" "snd t"] by simp
  also have "\<dots> \<le> fst (fold target_step cs (target_step c t))" using Cons by simp
  finally show ?case by simp
qed simp

lemma normalize_step_target:
  assumes "wf_inner c" "fst (target_step c t) \<le> (if absolute then 0 else 1)"
  shows "normalize_step c (path_of_target absolute t) = path_of_target absolute (target_step c t)"
proof -
  obtain k ns where t: "t = (k, ns)" by (cases t)
  show ?thesis
  proof (cases c)
    case (Normal s)
    with assms show ?thesis by (simp add: t path_of_target_def normalize_step_simps)
  next
    case ParentDir
    show ?thesis
    proof (cases ns rule: rev_cases)
      case Nil
      with ParentDir assms(2) have "\<not> absolute" "k = 0" by (auto simp: t split: if_splits)
      with Nil ParentDir show ?thesis by (simp add: t path_of_target_def normalize_step_simps)
    next
      case (snoc ms m)
      with ParentDir show ?thesis
        using normalize_step_simps(6) [of "Normal m" "path_of_target absolute (k, ms)"]
        by (cases absolute) (simp_all add: t path_of_target_def)
    qed
  qed (use assms(1) in simp_all)
qed

lemma fold_normalize_target:
  "list_all wf_inner cs \<Longrightarrow> fst (fold target_step cs t) \<le> (if absolute then 0 else 1) \<Longrightarrow>
   fold normalize_step cs (path_of_target absolute t) = path_of_target absolute (fold target_step cs t)"
proof (induction cs arbitrary: t)
  case (Cons c cs)
  from Cons.prems(1) have "fst (target_step c t) \<le> fst (fold target_step cs (target_step c t))"
    by (intro fold_target_mono) simp
  with Cons.prems have "normalize_step c (path_of_target absolute t) = path_of_target absolute (target_step c t)"
    by (intro normalize_step_target) auto
  with Cons show ?case by simp
qed simp

lemma wf_path_cases:
  assumes "wf_path p"
  obtains (absolute) cs where "p = RootDir # cs" "list_all wf_inner cs"
  | (dot) cs where "p = CurDir # cs" "list_all wf_inner cs"
  | (inner) "list_all wf_inner p" "\<not> is_absolute p"
proof (cases p)
  case (Cons c cs)
  with assms that show thesis by (cases c) (auto simp: wf_path_def is_absolute_def)
qed (use that in \<open>auto simp: is_absolute_def\<close>)

lemma normalize_target:
  assumes "wf_path p" "fst (lexical_target p) \<le> (if is_absolute p then 0 else 1)"
  shows "normalize_lexical_path p = path_of_target (is_absolute p) (lexical_target p)"
  using assms(1)
proof (cases rule: wf_path_cases)
  case (absolute cs)
  then have "is_absolute p" by (simp add: is_absolute_def)
  with absolute assms(2) fold_normalize_target [of cs "(0, [])" True] show ?thesis
    by (simp add: normalize_lexical_path_def lexical_target_def path_of_target_def normalize_step_simps)
next
  case (dot cs)
  then have "\<not> is_absolute p" by (simp add: is_absolute_def)
  with dot assms(2) fold_normalize_target [of cs "(0, [])" False] show ?thesis
    by (simp add: normalize_lexical_path_def lexical_target_def path_of_target_def normalize_step_simps)
next
  case inner
  with assms(2) fold_normalize_target [of p "(0, [])" False] show ?thesis
    by (simp add: normalize_lexical_path_def lexical_target_def path_of_target_def)
qed

section \<open>Properties\<close>

text \<open>
  C37: \<open>normalize_lexical_path\<close> refines the reference meaning: for a path that climbs at most one
  directory above its start (or never above the root, when absolute), the result spells exactly
  the place the path denotes.
\<close>

theorem normalize_lexical_path_refines_target:
  assumes "wf_path p" and "fst (lexical_target p) \<le> (if is_absolute p then 0 else 1)"
  shows "normalize_lexical_path p = path_of_target (is_absolute p) (lexical_target p)"
  by (rule normalize_target [OF assms])

theorem normalize_lexical_path_refines_target_witness:
  "normalize_lexical_path [CurDir, Normal ''a'', ParentDir, ParentDir, Normal ''b''] = [ParentDir, Normal ''b'']"
  using normalize_lexical_path_refines_target
      [of "[CurDir, Normal ''a'', ParentDir, ParentDir, Normal ''b'']"]
  by (simp add: wf_path_def wf_name_def is_absolute_def lexical_target_def path_of_target_def)

text \<open>
  Normalisation is idempotent and its result is in normal form: no current-directory
  component and at most one parent component, at the front. Comparing normalised package roots
  is therefore stable under repeated normalisation.
\<close>

lemma normalize_lexical_path_idempotent:
  assumes "wf_path p"
  shows "normalize_lexical_path (normalize_lexical_path p) = normalize_lexical_path p
    \<and> lexical_normal (normalize_lexical_path p)"
  using normalize_lexical_normal [OF assms] by (simp add: normalize_fixes_normal)


text \<open>
  Two leading parent components cancel each other: the second one pops the first, so
  \<open>../../x\<close> normalises to \<open>x\<close>, a place two directories below the one the path denotes.
\<close>

lemma normalize_lexical_path_cancels_parents:
  "normalize_lexical_path (ParentDir # ParentDir # p) = normalize_lexical_path p"
  using normalize_step_simps(6) [of ParentDir "[]"]
  by (simp add: normalize_lexical_path_def normalize_step_simps)

text \<open>
  \<open>display_project_path\<close> loses no information about a path below the project root: parsing
  the displayed text gives back the components below the root.
\<close>

lemma display_project_path_round_trip:
  assumes "wf_path q" and "normalize_lexical_path p = normalize_lexical_path project_root @ q"
    and "CHR 0x5C \<notin> set (display q)"
  shows "path_of_string (display_project_path project_root p) = q"
  using assms by (simp add: display_project_path_def Let_def replace_char_absent path_of_string_display)


end
