(* ===== verification/Glob_Pattern.thy ===== *)
theory Glob_Pattern
  imports Prelude
begin

text \<open>
  Workspace member patterns: \<open>glob_pattern_matches\<close> and its helpers of \<open>src/discovery.rs\<close>, and the
  copies of them in \<open>src/parser/cargo_manifest.rs\<close>. The reference is \<open>wild_match\<close>, the usual
  meaning of a pattern in which a star stands for any text.
\<close>

section \<open>The matcher\<close>

text \<open>The loop over the pieces between the stars: what remains of the candidate, or a mismatch.\<close>

fun glob_parts :: "string list \<Rightarrow> string \<Rightarrow> string option" where
  "glob_parts [] remaining = Some remaining"
| "glob_parts (part # parts) remaining =
     (if part = [] then glob_parts parts remaining
      else case find_sub part remaining of
        None \<Rightarrow> None
      | Some index \<Rightarrow>
          (let remaining' = drop (index + length part) remaining in
           if parts = [] \<and> remaining' \<noteq> [] then None else glob_parts parts remaining'))"

definition glob_component_matches :: "string \<Rightarrow> string \<Rightarrow> bool" where
  "glob_component_matches pattern candidate =
     (if pattern = ''*'' then True
      else if \<not> contains_sub pattern ''*'' then pattern = candidate
      else case split_on CHR ''*'' pattern of
        [] \<Rightarrow> pattern = candidate
      | first # parts \<Rightarrow>
          if \<not> starts_with candidate first then False
          else case glob_parts parts (drop (length first) candidate) of
            None \<Rightarrow> False
          | Some remaining \<Rightarrow> ends_with pattern ''*'' \<or> remaining = [])"

definition normalize_glob_path :: "string \<Rightarrow> string" where
  "normalize_glob_path path = replace_char (CHR 0x5C) (CHR ''/'') path"

definition glob_pattern_matches :: "string \<Rightarrow> string \<Rightarrow> bool" where
  "glob_pattern_matches pattern candidate =
     (let pattern_components = split_on CHR ''/'' (normalize_glob_path pattern);
          value_components = split_on CHR ''/'' (normalize_glob_path candidate)
      in length pattern_components = length value_components \<and>
         list_all (\<lambda>(p, v). glob_component_matches p v) (zip pattern_components value_components))"

definition workspace_member_component_matches :: "string \<Rightarrow> string \<Rightarrow> bool" where
  "workspace_member_component_matches pattern candidate =
     (if pattern = ''*'' then True
      else if \<not> contains_sub pattern ''*'' then pattern = candidate
      else case split_on CHR ''*'' pattern of
        [] \<Rightarrow> pattern = candidate
      | first # parts \<Rightarrow>
          if \<not> starts_with candidate first then False
          else case glob_parts parts (drop (length first) candidate) of
            None \<Rightarrow> False
          | Some remaining \<Rightarrow> ends_with pattern ''*'' \<or> remaining = [])"

definition workspace_member_pattern_matches :: "string \<Rightarrow> string \<Rightarrow> bool" where
  "workspace_member_pattern_matches pattern relative =
     (if \<not> contains_sub pattern ''*'' then pattern = relative
      else
        (let pattern_components = split_on CHR ''/'' (replace_char (CHR 0x5C) (CHR ''/'') pattern);
             relative_components = split_on CHR ''/'' relative
         in length pattern_components = length relative_components \<and>
            list_all (\<lambda>(p, v). workspace_member_component_matches p v)
              (zip pattern_components relative_components)))"

section \<open>The reference meaning\<close>

fun wild_match :: "string \<Rightarrow> string \<Rightarrow> bool" where
  "wild_match [] v = (v = [])"
| "wild_match (c # p) v =
     (if c = CHR ''*'' then wild_match p v \<or> (case v of [] \<Rightarrow> False | _ # v' \<Rightarrow> wild_match (c # p) v')
      else (case v of [] \<Rightarrow> False | x # v' \<Rightarrow> x = c \<and> wild_match p v'))"

definition wild_path_match :: "string \<Rightarrow> string \<Rightarrow> bool" where
  "wild_path_match pattern candidate \<longleftrightarrow>
     list_all2 wild_match (split_on CHR ''/'' (normalize_glob_path pattern))
       (split_on CHR ''/'' (normalize_glob_path candidate))"

fun parts_match :: "string list \<Rightarrow> string \<Rightarrow> bool" where
  "parts_match [] x = (x = [])"
| "parts_match (p # ps) x = (\<exists>a b. x = a @ p @ b \<and> parts_match ps b)"

lemma wild_match_star: "wild_match (CHR ''*'' # p) v \<longleftrightarrow> (\<exists>a b. v = a @ b \<and> wild_match p b)"
proof (induction v)
  case (Cons x v)
  have "wild_match (CHR ''*'' # p) (x # v) \<longleftrightarrow> wild_match p (x # v) \<or> wild_match (CHR ''*'' # p) v"
    by simp
  also have "\<dots> \<longleftrightarrow> (\<exists>a b. x # v = a @ b \<and> wild_match p b)"
    unfolding Cons.IH by (auto simp: Cons_eq_append_conv)
  finally show ?case .
qed simp

declare wild_match.simps(2) [simp del]

lemma wild_match_literal:
  "c \<noteq> CHR ''*'' \<Longrightarrow> wild_match (c # p) v \<longleftrightarrow> (\<exists>v'. v = c # v' \<and> wild_match p v')"
  by (cases v) (auto simp: wild_match.simps(2))

lemma wild_match_parts:
  "split_on CHR ''*'' pattern = first # parts \<Longrightarrow>
   wild_match pattern v \<longleftrightarrow> (\<exists>x. v = first @ x \<and> parts_match parts x)"
proof (induction pattern arbitrary: v first parts)
  case (Cons c p)
  obtain f' ps' where split: "split_on CHR ''*'' p = f' # ps'"
    by (cases "split_on CHR ''*'' p") auto
  note IH = Cons.IH [OF split]
  show ?case
  proof (cases "c = CHR ''*''")
    case True
    with Cons.prems split have "first = []" "parts = f' # ps'" by auto
    with True show ?thesis by (auto simp: wild_match_star IH)
  next
    case False
    with Cons.prems split have "first = c # f'" "parts = ps'" by auto
    with False show ?thesis by (auto simp: wild_match_literal IH)
  qed
qed auto

lemma parts_match_extend: "ps \<noteq> [] \<Longrightarrow> parts_match ps b \<Longrightarrow> parts_match ps (x @ b)"
  by (cases ps) (auto, metis append.assoc)

section \<open>Soundness and completeness\<close>

lemma glob_parts_sound:
  "glob_parts ps x = Some r \<Longrightarrow> ps \<noteq> [] \<Longrightarrow> r = [] \<or> last ps = [] \<Longrightarrow> parts_match ps x"
proof (induction ps x rule: glob_parts.induct)
  case (2 part parts x)
  show ?case
  proof (cases "part = []")
    case True
    show ?thesis
    proof (cases "parts = []")
      case False
      with 2 True have "parts_match parts x" by simp
      then have "x = [] @ part @ x \<and> parts_match parts x" by (simp add: True)
      then show ?thesis unfolding parts_match.simps by blast
    qed (simp add: True)
  next
    case False
    with 2(3) obtain i where i: "find_sub part x = Some i" by (auto split: option.splits)
    then obtain a b where ab: "x = a @ part @ b" "length a = i" using find_sub_Some by blast
    have "parts_match parts b"
    proof (cases "parts = []")
      case True
      with 2(3) False i ab show ?thesis by (auto simp: Let_def split: if_splits)
    next
      case ne: False
      with 2 False i ab show ?thesis by (simp add: Let_def)
    qed
    with ab show ?thesis by auto
  qed
qed simp

lemma glob_parts_complete:
  "parts_match ps x \<Longrightarrow> ps \<noteq> [] \<Longrightarrow> last ps = [] \<Longrightarrow> \<exists>r. glob_parts ps x = Some r"
proof (induction ps arbitrary: x)
  case (Cons part parts)
  show ?case
  proof (cases "part = []")
    case True
    show ?thesis
    proof (cases "parts = []")
      case False
      from Cons.prems True obtain a b where "x = a @ b" "parts_match parts b" by auto
      with False have "parts_match parts x" by (simp add: parts_match_extend)
      with Cons True False show ?thesis by simp
    qed (simp add: True)
  next
    case False
    with Cons.prems have ne: "parts \<noteq> []" "last parts = []" by (auto split: if_splits)
    from Cons.prems obtain a b where ab: "x = a @ part @ b" "parts_match parts b" by auto
    obtain i where i: "find_sub part x = Some i" "i \<le> length a"
      using find_sub_leftmost [of part a b] ab(1) by auto
    have "drop (i + length part) x = drop (i + length part) (a @ part) @ b"
      using i(2) by (simp add: ab(1))
    with ne ab(2) have "parts_match parts (drop (i + length part) x)" by (simp add: parts_match_extend)
    from Cons.IH [OF this ne] False ne i(1) show ?thesis by (simp add: Let_def)
  qed
qed simp

lemma split_star_last:
  assumes "split_on CHR ''*'' pattern = first # parts" "parts \<noteq> []"
  shows "ends_with pattern ''*'' \<longleftrightarrow> last parts = []"
proof -
  have join: "pattern = join_with ''*'' (first # parts)" by (metis assms(1) join_split)
  have free: "CHR ''*'' \<notin> set (last parts)"
    using assms split_on_no_sep [of "last parts" "CHR ''*''" pattern] by simp
  have "\<exists>s. join_with ''*'' (first # ps) = s @ ''*'' @ last ps" if "ps \<noteq> []" for ps
    using that
  proof (induction ps arbitrary: first)
    case (Cons q qs)
    show ?case
    proof (cases qs)
      case (Cons r rs)
      with Cons.IH [of q] obtain s where "join_with ''*'' (q # qs) = s @ ''*'' @ last qs" by auto
      with Cons show ?thesis by (intro exI [of _ "first @ ''*'' @ s"]) simp
    qed (rule exI [of _ first], simp)
  qed simp
  with assms(2) obtain s where s: "pattern = s @ ''*'' @ last parts" by (auto simp: join)
  show ?thesis
  proof (cases "last parts" rule: rev_cases)
    case (snoc t c)
    with free s show ?thesis by (auto simp: ends_with_def starts_with_def)
  qed (auto simp: s ends_with_def starts_with_def)
qed

lemma split_star_parts:
  assumes "contains_sub pattern ''*''"
  obtains first parts where "split_on CHR ''*'' pattern = first # parts" "parts \<noteq> []"
proof -
  from assms have "CHR ''*'' \<in> set pattern" by (simp only: contains_sub_char)
  then obtain a' b' where p: "pattern = a' @ CHR ''*'' # b'" "CHR ''*'' \<notin> set a'"
    by (metis split_list_first)
  then have "split_on CHR ''*'' pattern = a' # split_on CHR ''*'' b'" by (simp add: split_on_append)
  with that show thesis by simp
qed

lemma wild_match_no_star: "CHR ''*'' \<notin> set p \<Longrightarrow> wild_match p v \<longleftrightarrow> v = p"
proof (induction p arbitrary: v)
  case (Cons c p)
  then have "c \<noteq> CHR ''*''" "\<And>v. wild_match p v \<longleftrightarrow> v = p" by auto
  then show ?case by (simp add: wild_match_literal)
qed simp

lemma glob_component_sound: "glob_component_matches pattern candidate \<Longrightarrow> wild_match pattern candidate"
proof -
  assume m: "glob_component_matches pattern candidate"
  show ?thesis
  proof (cases "pattern = ''*''")
    case True
    then show ?thesis using wild_match_star [of "[]" candidate] by simp
  next
    case False
    show ?thesis
    proof (cases "contains_sub pattern ''*''")
      case True
      then obtain first parts where split: "split_on CHR ''*'' pattern = first # parts" "parts \<noteq> []"
        by (rule split_star_parts)
      with m False True obtain x r where "candidate = first @ x" "glob_parts parts x = Some r"
        "ends_with pattern ''*'' \<or> r = []"
        by (auto simp: glob_component_matches_def starts_with_iff prefix_def split: option.splits if_splits)
      with split glob_parts_sound [of parts x r] show ?thesis
        by (auto simp: wild_match_parts [OF split(1)] split_star_last)
    qed (use m False in \<open>simp add: glob_component_matches_def contains_sub_char wild_match_no_star\<close>)
  qed
qed

lemma glob_component_complete:
  assumes "ends_with pattern ''*'' \<or> \<not> contains_sub pattern ''*''" "wild_match pattern candidate"
  shows "glob_component_matches pattern candidate"
proof (cases "contains_sub pattern ''*''")
  case True
  then obtain first parts where split: "split_on CHR ''*'' pattern = first # parts" "parts \<noteq> []"
    by (rule split_star_parts)
  from assms(2) obtain x where x: "candidate = first @ x" "parts_match parts x"
    by (auto simp: wild_match_parts [OF split(1)])
  from True assms(1) split have "last parts = []" by (simp add: split_star_last)
  with x split obtain r where "glob_parts parts x = Some r" using glob_parts_complete by blast
  with x split True assms(1) show ?thesis by (simp add: glob_component_matches_def starts_with_def)
qed (use assms in \<open>simp add: glob_component_matches_def contains_sub_char wild_match_no_star\<close>)

section \<open>Properties\<close>

text \<open>
  Pattern matching is sound: a workspace path that \<open>glob_pattern_matches\<close> admits agrees with
  the member pattern component by component, each star standing for some text.
\<close>

lemma glob_pattern_matches_sound:
  assumes "glob_pattern_matches pattern candidate"
  shows "wild_path_match pattern candidate"
  using assms glob_component_sound
  by (auto simp: glob_pattern_matches_def wild_path_match_def Let_def list_all2_iff list_all_iff)


text \<open>
  Pattern matching is complete for the patterns Cargo manifests usually have, those whose
  components are literal or end in a star: every path that agrees with such a pattern is admitted.
\<close>

lemma glob_pattern_matches_complete:
  assumes "list_all (\<lambda>c. ends_with c ''*'' \<or> \<not> contains_sub c ''*'')
      (split_on CHR ''/'' (normalize_glob_path pattern))"
  shows "glob_pattern_matches pattern candidate \<longleftrightarrow> wild_path_match pattern candidate"
proof -
  have "glob_component_matches p v \<longleftrightarrow> wild_match p v"
    if "(p, v) \<in> set (zip (split_on CHR ''/'' (normalize_glob_path pattern))
         (split_on CHR ''/'' (normalize_glob_path candidate)))" for p v
    using that [THEN set_zip_leftD] assms glob_component_sound glob_component_complete
    by (auto simp: list_all_iff)
  then show ?thesis
    by (simp add: glob_pattern_matches_def wild_path_match_def Let_def list_all2_iff list_all_iff)
      fastforce
qed


text \<open>
  The matcher commits to the leftmost occurrence of the last literal piece, so it refuses
  values that agree with the pattern: \<open>*-rs\<close> does not admit the member \<open>asp-rs-rs\<close>.
\<close>

lemma glob_pattern_matches_misses_repeated_suffix:
  "wild_path_match ''*-rs'' ''asp-rs-rs'' \<and> \<not> glob_pattern_matches ''*-rs'' ''asp-rs-rs''"
proof
  show "wild_path_match ''*-rs'' ''asp-rs-rs''"
    by (simp add: wild_path_match_def normalize_glob_path_def replace_char_def wild_match.simps)
  show "\<not> glob_pattern_matches ''*-rs'' ''asp-rs-rs''"
    by code_simp
qed

lemma workspace_member_component_eq:
  "workspace_member_component_matches = glob_component_matches"
  by (simp add: fun_eq_iff workspace_member_component_matches_def glob_component_matches_def)

end
