(* ===== verification/Cargo_Manifest.thy ===== *)
theory Cargo_Manifest
  imports Lexical_Path Glob_Pattern
begin

text \<open>
  \<open>src/parser/cargo_manifest.rs\<close>: the facts the crate extracts from a parsed Cargo manifest.
  Parsing TOML is the \<open>cargo_toml\<close> crate's work, so a manifest is an input here: the records below
  hold the fields and the method results of its types that the sources read, and a function
  \<open>load\<close> stands for \<open>Manifest::from_path\<close> (an error message, or the manifest). \<open>is_file\<close> stands for
  \<open>Path::is_file\<close>. The code is modelled with the \<open>provider-server\<close> feature enabled.
\<close>

section \<open>Manifests as cargo\_toml presents them\<close>

datatype dependency_shape =
    Simple
  | Inherited (inherited_workspace: bool)
  | Detailed (detailed_path: "string option")

text \<open>
  One dependency: its enum variant with the fields the sources match on, the \<open>path\<close> of what
  \<open>detail()\<close> returns, and what \<open>optional()\<close>, \<open>package()\<close>, \<open>req_features()\<close> and \<open>try_req().ok()\<close> return.
\<close>

record dependency =
  dep_shape :: dependency_shape
  dep_detail_path :: "string option"
  dep_optional :: bool
  dep_package :: "string option"
  dep_req_features :: "string list"
  dep_try_req :: "string option"

type_synonym deps_set = "(string \<times> dependency) list"

record product =
  product_name :: "string option"
  product_path :: "string option"
  product_required_features :: "string list"
  product_harness :: bool

record target_deps =
  target_dependencies :: deps_set
  target_dev_dependencies :: deps_set
  target_build_dependencies :: deps_set

record cargo_package =
  package_name :: string
  package_edition :: string

record cargo_workspace =
  workspace_members :: "string list"
  workspace_exclude :: "string list"
  workspace_dependencies :: deps_set

record manifest =
  m_package :: "cargo_package option"
  m_workspace :: "cargo_workspace option"
  m_dependencies :: deps_set
  m_dev_dependencies :: deps_set
  m_build_dependencies :: deps_set
  m_target :: "(string \<times> target_deps) list"
  m_lib :: "product option"
  m_bin :: "product list"
  m_test :: "product list"
  m_example :: "product list"
  m_bench :: "product list"

type_synonym manifest_loader = "path \<Rightarrow> manifest result"

section \<open>Facts\<close>

record cargo_example_target_facts =
  example_name :: string
  example_path :: path
  example_required_features :: "string list"

record cargo_bench_target_facts =
  bench_name :: string
  bench_path :: path
  bench_harness :: bool
  bench_required_features :: "string list"

record cargo_package_target_facts =
  target_name :: string
  target_kind :: string
  target_path :: path

record cargo_manifest_facts =
  has_package :: bool
  is_asp_rust_package :: bool
  is_build_support_package :: bool
  facts_package_name :: "string option"
  facts_package_edition :: "string option"
  facts_workspace_members :: "string list"
  facts_workspace_excludes :: "string list"
  path_dependency_roots :: "path list"
  package_targets :: "cargo_package_target_facts list"
  source_target_files :: "path list"
  example_targets :: "cargo_example_target_facts list"
  test_target_files :: "path list"
  bench_targets :: "cargo_bench_target_facts list"
  references_harness_dev_dependency :: bool
  references_harness_non_optional_normal_dependency :: bool
  references_harness_build_dependency :: bool

text \<open>\<open>CargoManifestFacts::default()\<close>.\<close>

definition default_manifest_facts :: cargo_manifest_facts where
  "default_manifest_facts = \<lparr>
     has_package = False, is_asp_rust_package = False, is_build_support_package = False,
     facts_package_name = None, facts_package_edition = None,
     facts_workspace_members = [], facts_workspace_excludes = [], path_dependency_roots = [],
     package_targets = [], source_target_files = [], example_targets = [], test_target_files = [],
     bench_targets = [], references_harness_dev_dependency = False,
     references_harness_non_optional_normal_dependency = False,
     references_harness_build_dependency = False\<rparr>"

section \<open>Harness references\<close>

definition dependency_references_full_harness :: "string \<Rightarrow> dependency \<Rightarrow> bool" where
  "dependency_references_full_harness name dep \<longleftrightarrow>
     name = ''asp-rust'' \<or> dep_package dep = Some ''asp-rust''"

definition dependency_table_references_full_harness :: "deps_set \<Rightarrow> bool" where
  "dependency_table_references_full_harness dependencies =
     list_ex (\<lambda>(name, dep). dependency_references_full_harness name dep) dependencies"

definition dependency_table_references_non_optional_harness :: "deps_set \<Rightarrow> bool" where
  "dependency_table_references_non_optional_harness dependencies =
     list_ex (\<lambda>(name, dep). dependency_references_full_harness name dep \<and> \<not> dep_optional dep) dependencies"

definition manifest_references_harness_build_dependency :: "manifest \<Rightarrow> bool" where
  "manifest_references_harness_build_dependency m =
     (dependency_table_references_full_harness (m_build_dependencies m) \<or>
      list_ex (\<lambda>t. dependency_table_references_full_harness (target_build_dependencies t))
        (bmap_values (m_target m)))"

definition manifest_references_full_harness_dev_dependency :: "manifest \<Rightarrow> bool" where
  "manifest_references_full_harness_dev_dependency m =
     (dependency_table_references_full_harness (m_dev_dependencies m) \<or>
      list_ex (\<lambda>t. dependency_table_references_full_harness (target_dev_dependencies t))
        (bmap_values (m_target m)))"

definition manifest_references_harness_non_optional_normal_dependency :: "manifest \<Rightarrow> bool" where
  "manifest_references_harness_non_optional_normal_dependency m =
     (dependency_table_references_non_optional_harness (m_dependencies m) \<or>
      list_ex (\<lambda>t. dependency_table_references_non_optional_harness (target_dependencies t))
        (bmap_values (m_target m)))"

section \<open>Target paths\<close>

definition nonempty_trimmed :: "string option \<Rightarrow> string option" where
  "nonempty_trimmed x = Option.bind x (\<lambda>s. if trim s = [] then None else Some (trim s))"

definition implicit_product_path ::
  "(path \<Rightarrow> bool) \<Rightarrow> path \<Rightarrow> product \<Rightarrow> string \<Rightarrow> string option \<Rightarrow> path option" where
  "implicit_product_path is_file project_root target kind pkg_name =
     (let package_target_name = map_option (replace_char (CHR ''-'') (CHR ''_'')) pkg_name in
      if kind = ''library'' then
        (if is_file (path_push project_root ''src/lib.rs'') then Some (path_push project_root ''src/lib.rs'')
         else None)
      else
        Option.bind
          (case nonempty_trimmed (product_name target) of
             Some name \<Rightarrow> Some name
           | None \<Rightarrow> if kind = ''binary'' then package_target_name else None)
          (\<lambda>name.
             let candidates =
               (if kind = ''binary'' then
                  Some ((if package_target_name = Some name then [''src/main.rs''] else [])
                        @ [''src/bin/'' @ name @ ''.rs'', ''src/bin/'' @ name @ ''/main.rs''])
                else if kind = ''test'' then Some [''tests/'' @ name @ ''.rs'', ''tests/'' @ name @ ''/main.rs'']
                else if kind = ''example'' then Some [''examples/'' @ name @ ''.rs'', ''examples/'' @ name @ ''/main.rs'']
                else if kind = ''bench'' then Some [''benches/'' @ name @ ''.rs'', ''benches/'' @ name @ ''/main.rs'']
                else None)
             in Option.bind candidates
                  (\<lambda>cs. find is_file (map (\<lambda>c. path_push project_root c) cs))))"

definition completed_product_path ::
  "(path \<Rightarrow> bool) \<Rightarrow> path \<Rightarrow> product \<Rightarrow> string \<Rightarrow> string option \<Rightarrow> path option" where
  "completed_product_path is_file project_root target kind pkg_name =
     (case nonempty_trimmed (product_path target) of
        Some p \<Rightarrow> Some (path_push project_root p)
      | None \<Rightarrow> implicit_product_path is_file project_root target kind pkg_name)"

definition manifest_product_target_files ::
  "(path \<Rightarrow> bool) \<Rightarrow> path \<Rightarrow> product list \<Rightarrow> string \<Rightarrow> string option \<Rightarrow> path list" where
  "manifest_product_target_files is_file project_root targets kind pkg_name =
     List.map_filter (\<lambda>target. completed_product_path is_file project_root target kind pkg_name) targets"

definition manifest_test_target_files :: "(path \<Rightarrow> bool) \<Rightarrow> path \<Rightarrow> product list \<Rightarrow> path list" where
  "manifest_test_target_files is_file project_root test_targets =
     manifest_product_target_files is_file project_root test_targets ''test'' None"

definition manifest_source_target_files :: "(path \<Rightarrow> bool) \<Rightarrow> path \<Rightarrow> manifest \<Rightarrow> path list" where
  "manifest_source_target_files is_file project_root m =
     (let pkg_name = map_option package_name (m_package m) in
      (case m_lib m of
         Some library_target \<Rightarrow>
           manifest_product_target_files is_file project_root [library_target] ''library'' pkg_name
       | None \<Rightarrow> [])
      @ manifest_product_target_files is_file project_root (m_bin m) ''binary'' pkg_name)"

definition sorted_features :: "string list \<Rightarrow> string list" where
  "sorted_features features = remdups_adj (sort features)"

definition manifest_example_targets ::
  "(path \<Rightarrow> bool) \<Rightarrow> path \<Rightarrow> product list \<Rightarrow> cargo_example_target_facts list" where
  "manifest_example_targets is_file project_root targets =
     List.map_filter
       (\<lambda>target. Option.bind (nonempty_trimmed (product_name target))
          (\<lambda>name. map_option
             (\<lambda>p. \<lparr>example_name = name, example_path = p,
                   example_required_features = sorted_features (product_required_features target)\<rparr>)
             (completed_product_path is_file project_root target ''example'' None)))
       targets"

definition manifest_bench_targets ::
  "(path \<Rightarrow> bool) \<Rightarrow> path \<Rightarrow> product list \<Rightarrow> cargo_bench_target_facts list" where
  "manifest_bench_targets is_file project_root targets =
     List.map_filter
       (\<lambda>target. Option.bind (nonempty_trimmed (product_name target))
          (\<lambda>name. map_option
             (\<lambda>p. \<lparr>bench_name = name, bench_path = p, bench_harness = product_harness target,
                   bench_required_features = sorted_features (product_required_features target)\<rparr>)
             (completed_product_path is_file project_root target ''bench'' None)))
       targets"

definition cargo_default_target_name ::
  "path \<Rightarrow> path \<Rightarrow> string \<Rightarrow> string option \<Rightarrow> string option" where
  "cargo_default_target_name project_root p kind pkg_name =
     (let relative = (case strip_prefix p project_root of Some r \<Rightarrow> r | None \<Rightarrow> p) in
      if (kind = ''library'' \<or> kind = ''binary'') \<and>
         (relative = path_of_string ''src/lib.rs'' \<or> relative = path_of_string ''src/main.rs'')
      then map_option (replace_char (CHR ''-'') (CHR ''_'')) pkg_name
      else if kind = ''binary'' \<and> path_file_name relative = Some ''main.rs'' \<and>
              Option.bind (path_parent relative) path_file_name \<noteq> Some ''src''
      then Option.bind (Option.bind (path_parent relative) path_file_name) to_str
      else Option.bind (path_file_stem relative) to_str)"

definition package_target_fact ::
  "(path \<Rightarrow> bool) \<Rightarrow> path \<Rightarrow> product \<Rightarrow> string \<Rightarrow> string option \<Rightarrow> cargo_package_target_facts option" where
  "package_target_fact is_file project_root target kind pkg_name =
     Option.bind (completed_product_path is_file project_root target kind pkg_name)
       (\<lambda>p. map_option (\<lambda>name. \<lparr>target_name = name, target_kind = kind, target_path = p\<rparr>)
          (case nonempty_trimmed (product_name target) of
             Some name \<Rightarrow> Some name
           | None \<Rightarrow> cargo_default_target_name project_root p kind pkg_name))"

text \<open>The derived \<open>Ord\<close> of \<open>CargoPackageTargetFacts\<close> compares the fields in order.\<close>

definition package_target_key :: "cargo_package_target_facts \<Rightarrow> string \<times> string \<times> path" where
  "package_target_key t = (target_name t, target_kind t, target_path t)"

definition manifest_package_targets ::
  "(path \<Rightarrow> bool) \<Rightarrow> path \<Rightarrow> manifest \<Rightarrow> cargo_package_target_facts list" where
  "manifest_package_targets is_file project_root m =
     (let pkg_name = map_option package_name (m_package m);
          lib_targets = (case Option.bind (m_lib m)
              (\<lambda>t. package_target_fact is_file project_root t ''library'' pkg_name) of
            Some t \<Rightarrow> [t] | None \<Rightarrow> []);
          targets = lib_targets @ concat (map
            (\<lambda>(products, kind). List.map_filter
               (\<lambda>t. package_target_fact is_file project_root t kind pkg_name) products)
            [(m_bin m, ''binary''), (m_test m, ''test''), (m_example m, ''example''), (m_bench m, ''bench'')])
      in remdups_adj (sort_key package_target_key targets))"

section \<open>Path dependencies\<close>

definition resolve_dependency_path :: "path \<Rightarrow> string \<Rightarrow> path" where
  "resolve_dependency_path base p =
     (if is_absolute (path_of_string p) then path_of_string p else path_join base (path_of_string p))"

definition dependency_path_root :: "path \<Rightarrow> dependency \<Rightarrow> path option" where
  "dependency_path_root project_root dep =
     map_option (resolve_dependency_path project_root) (dep_detail_path dep)"

definition collect_path_dependency_roots :: "path \<Rightarrow> deps_set \<Rightarrow> path list \<Rightarrow> path list" where
  "collect_path_dependency_roots project_root dependencies roots =
     fold (\<lambda>dep roots. case dependency_path_root project_root dep of
             Some root \<Rightarrow> bset_insert root roots | None \<Rightarrow> roots)
       (bmap_values dependencies) roots"

definition manifest_path_dependency_roots :: "path \<Rightarrow> manifest \<Rightarrow> path list" where
  "manifest_path_dependency_roots project_root m =
     (let collect = collect_path_dependency_roots project_root;
          roots0 = (case m_workspace m of
            Some workspace \<Rightarrow> collect (workspace_dependencies workspace) [] | None \<Rightarrow> []);
          roots1 = collect (m_dependencies m) roots0;
          roots2 = collect (m_dev_dependencies m) roots1;
          roots3 = collect (m_build_dependencies m) roots2
      in fold (\<lambda>target roots.
           collect (target_build_dependencies target)
             (collect (target_dev_dependencies target)
               (collect (target_dependencies target) roots)))
         (bmap_values (m_target m)) roots3)"

section \<open>The facts of one manifest\<close>

definition extract_manifest_facts :: "(path \<Rightarrow> bool) \<Rightarrow> path \<Rightarrow> manifest \<Rightarrow> cargo_manifest_facts" where
  "extract_manifest_facts is_file project_root m =
     (let pkg_name = map_option package_name (m_package m) in \<lparr>
        has_package = (case pkg_name of Some name \<Rightarrow> trim name \<noteq> [] | None \<Rightarrow> False),
        is_asp_rust_package = (pkg_name = Some ''asp-rust''),
        is_build_support_package =
          (case pkg_name of Some name \<Rightarrow> contains_sub name ''build-support'' | None \<Rightarrow> False),
        facts_package_name = pkg_name,
        facts_package_edition = map_option package_edition (m_package m),
        facts_workspace_members =
          (case m_workspace m of Some workspace \<Rightarrow> workspace_members workspace | None \<Rightarrow> []),
        facts_workspace_excludes =
          (case m_workspace m of Some workspace \<Rightarrow> workspace_exclude workspace | None \<Rightarrow> []),
        path_dependency_roots = manifest_path_dependency_roots project_root m,
        package_targets = manifest_package_targets is_file project_root m,
        source_target_files = manifest_source_target_files is_file project_root m,
        example_targets = manifest_example_targets is_file project_root (m_example m),
        test_target_files = manifest_test_target_files is_file project_root (m_test m),
        bench_targets = manifest_bench_targets is_file project_root (m_bench m),
        references_harness_dev_dependency = manifest_references_full_harness_dev_dependency m,
        references_harness_non_optional_normal_dependency =
          manifest_references_harness_non_optional_normal_dependency m,
        references_harness_build_dependency = manifest_references_harness_build_dependency m\<rparr>)"

definition read_manifest :: "manifest_loader \<Rightarrow> path \<Rightarrow> manifest option" where
  "read_manifest load project_root =
     (case load (path_push project_root ''Cargo.toml'') of Inl e \<Rightarrow> None | Inr m \<Rightarrow> Some m)"

definition parse_cargo_manifest ::
  "(path \<Rightarrow> bool) \<Rightarrow> manifest_loader \<Rightarrow> path \<Rightarrow> cargo_manifest_facts" where
  "parse_cargo_manifest is_file load project_root =
     (case read_manifest load project_root of
        None \<Rightarrow> default_manifest_facts
      | Some m \<Rightarrow> extract_manifest_facts is_file project_root m)"

definition parse_required_cargo_manifest ::
  "(path \<Rightarrow> bool) \<Rightarrow> manifest_loader \<Rightarrow> path \<Rightarrow> cargo_manifest_facts result" where
  "parse_required_cargo_manifest is_file load project_root =
     (let manifest_path = path_push project_root ''Cargo.toml'' in
      case load manifest_path of
        Inl e \<Rightarrow> Err (''parse Cargo package graph anchor '' @ display manifest_path @ '': '' @ e)
      | Inr m \<Rightarrow> Ok (extract_manifest_facts is_file project_root m))"

definition cargo_workspace_member_roots_from_candidates ::
  "path \<Rightarrow> cargo_manifest_facts \<Rightarrow> path list \<Rightarrow> path list" where
  "cargo_workspace_member_roots_from_candidates project_root facts candidate_paths =
     map (path_join project_root)
       (filter (\<lambda>relative.
           let text = replace_char (CHR 0x5C) (CHR ''/'') (display relative) in
           list_ex (\<lambda>pattern. workspace_member_pattern_matches pattern text) (facts_workspace_members facts) \<and>
           \<not> list_ex (\<lambda>pattern. workspace_member_pattern_matches pattern text) (facts_workspace_excludes facts))
         (filter (\<lambda>relative. relative \<noteq> [])
           (List.map_filter path_parent
             (filter (\<lambda>p. path_file_name p = Some ''Cargo.toml'') candidate_paths))))"

section \<open>What is collected\<close>

text \<open>Every dependency table of a manifest, in the order the code visits them.\<close>

definition all_dependency_tables :: "manifest \<Rightarrow> deps_set list" where
  "all_dependency_tables m =
     (case m_workspace m of Some workspace \<Rightarrow> [workspace_dependencies workspace] | None \<Rightarrow> [])
     @ [m_dependencies m, m_dev_dependencies m, m_build_dependencies m]
     @ concat (map (\<lambda>t. [target_dependencies t, target_dev_dependencies t, target_build_dependencies t])
         (bmap_values (m_target m)))"

definition table_roots :: "path \<Rightarrow> deps_set \<Rightarrow> path set" where
  "table_roots project_root table = set (List.map_filter (dependency_path_root project_root) (bmap_values table))"

lemma collect_path_dependency_roots_set:
  "set (collect_path_dependency_roots project_root table roots) = set roots \<union> table_roots project_root table"
proof -
  have "set (fold (\<lambda>dep roots. case dependency_path_root project_root dep of
            Some root \<Rightarrow> bset_insert root roots | None \<Rightarrow> roots) deps roots)
      = set roots \<union> set (List.map_filter (dependency_path_root project_root) deps)" for deps
    by (induction deps arbitrary: roots) (auto simp: map_filter_simps split: option.splits)
  then show ?thesis by (simp add: collect_path_dependency_roots_def table_roots_def)
qed

lemma collect_path_dependency_roots_ascending:
  "ascending roots \<Longrightarrow> ascending (collect_path_dependency_roots project_root table roots)"
proof -
  have "ascending roots \<Longrightarrow> ascending (fold (\<lambda>dep roots. case dependency_path_root project_root dep of
            Some root \<Rightarrow> bset_insert root roots | None \<Rightarrow> roots) deps roots)" for deps
    by (induction deps arbitrary: roots) (auto split: option.splits)
  then show "ascending roots \<Longrightarrow> ?thesis" by (simp add: collect_path_dependency_roots_def)
qed

lemma manifest_path_dependency_roots_fold:
  "manifest_path_dependency_roots project_root m =
     fold (collect_path_dependency_roots project_root) (all_dependency_tables m) []"
proof -
  have "fold (\<lambda>target roots.
           collect_path_dependency_roots project_root (target_build_dependencies target)
             (collect_path_dependency_roots project_root (target_dev_dependencies target)
               (collect_path_dependency_roots project_root (target_dependencies target) roots))) ts roots
      = fold (collect_path_dependency_roots project_root)
          (concat (map (\<lambda>t. [target_dependencies t, target_dev_dependencies t, target_build_dependencies t]) ts))
          roots" for ts roots
    by (induction ts arbitrary: roots) auto
  then show ?thesis
    by (cases "m_workspace m") (simp_all add: manifest_path_dependency_roots_def all_dependency_tables_def Let_def
        del: map_map)
qed

lemma fold_collect_set:
  "set (fold (collect_path_dependency_roots project_root) tables roots)
     = set roots \<union> (\<Union>table \<in> set tables. table_roots project_root table)"
  by (induction tables arbitrary: roots) (auto simp: collect_path_dependency_roots_set)

lemma fold_collect_ascending:
  "ascending roots \<Longrightarrow> ascending (fold (collect_path_dependency_roots project_root) tables roots)"
  by (induction tables arbitrary: roots) (auto simp: collect_path_dependency_roots_ascending)

section \<open>Properties\<close>

text \<open>
  The path dependency roots of a manifest are exactly the resolved paths of the path
  dependencies of every table (workspace, normal, dev, build and each target's), without
  duplicates and in ascending order.
\<close>

lemma manifest_path_dependency_roots_exact:
  "set (manifest_path_dependency_roots project_root m) =
     {resolve_dependency_path project_root p | p table name dep.
        table \<in> set (all_dependency_tables m) \<and> (name, dep) \<in> set table \<and> dep_detail_path dep = Some p}
   \<and> ascending (manifest_path_dependency_roots project_root m)"
proof
  have "table_roots project_root table =
      {resolve_dependency_path project_root p | p name dep. (name, dep) \<in> set table \<and> dep_detail_path dep = Some p}"
    for table
    by (force simp: table_roots_def map_filter_def dependency_path_root_def image_iff)
  then show "set (manifest_path_dependency_roots project_root m) =
     {resolve_dependency_path project_root p | p table name dep.
        table \<in> set (all_dependency_tables m) \<and> (name, dep) \<in> set table \<and> dep_detail_path dep = Some p}"
    by (auto simp: manifest_path_dependency_roots_fold fold_collect_set)
  show "ascending (manifest_path_dependency_roots project_root m)"
    by (simp add: manifest_path_dependency_roots_fold fold_collect_ascending)
qed

end
