(* ===== verification/Package_Graph.thy ===== *)
theory Package_Graph
  imports Cargo_Manifest
begin

text \<open>
  \<open>src/parser/cargo_package_graph.rs\<close>: workspace membership and the local dependency edges that the
  Build DAG is derived from. The \<open>globset\<close> crate is a parameter, the record \<open>globset\<close>: compiling one
  pattern, compiling a set of compiled patterns, and matching a path; error values are the texts that
  the code formats. \<open>load\<close> stands for \<open>Manifest::from_path\<close>.
\<close>

record ('g, 's) globset =
  glob_new :: "string \<Rightarrow> 'g result"
  glob_set_build :: "'g list \<Rightarrow> 's result"
  is_match :: "'s \<Rightarrow> path \<Rightarrow> bool"

record cargo_package_graph_facts =
  graph_package_name :: string
  local_dependency_roots :: "path list"

record cargo_workspace_package_graph_facts =
  graph_packages :: "(path \<times> cargo_package_graph_facts) list"
  graph_parsed_manifest_count :: nat

definition map_err :: "(string \<Rightarrow> string) \<Rightarrow> 'a result \<Rightarrow> 'a result" where
  "map_err f r = (case r of Inl e \<Rightarrow> Inl (f e) | Inr x \<Rightarrow> Inr x)"

lemma map_err_simps [simp]: "map_err f (Inl e) = Inl (f e)" "map_err f (Inr x) = Inr x"
  by (simp_all add: map_err_def)

lemma map_err_Inr_iff: "map_err f r = Inr x \<longleftrightarrow> r = Inr x"
  by (cases r) auto

section \<open>The workspace root\<close>

fun workspace_root_of_candidates ::
  "(path \<Rightarrow> bool) \<Rightarrow> manifest_loader \<Rightarrow> path list \<Rightarrow> path option result" where
  "workspace_root_of_candidates is_file load [] = Ok None"
| "workspace_root_of_candidates is_file load (candidate # rest) =
     (let manifest_path = path_push candidate ''Cargo.toml'' in
      if \<not> is_file manifest_path then workspace_root_of_candidates is_file load rest
      else and_then
        (map_err (\<lambda>e. ''parse candidate Cargo workspace '' @ display manifest_path @ '': '' @ e)
           (load manifest_path))
        (\<lambda>m. if m_workspace m \<noteq> None then Ok (Some (normalize_lexical_path candidate))
             else workspace_root_of_candidates is_file load rest))"

definition find_required_cargo_workspace_root ::
  "(path \<Rightarrow> bool) \<Rightarrow> manifest_loader \<Rightarrow> path \<Rightarrow> path result" where
  "find_required_cargo_workspace_root is_file load start =
     and_then (workspace_root_of_candidates is_file load (path_ancestors start))
       (ok_or (''no Cargo workspace manifest owns '' @ display start))"

section \<open>Workspace membership\<close>

definition compile_workspace_patterns ::
  "('g, 's) globset \<Rightarrow> string list \<Rightarrow> string \<Rightarrow> 's result" where
  "compile_workspace_patterns gs patterns kind =
     and_then
       (collect_results
          (\<lambda>pattern. map_err (\<lambda>e. ''invalid Cargo workspace '' @ kind @ '' `'' @ pattern @ ''`: '' @ e)
             (glob_new gs pattern)) patterns)
       (\<lambda>globs. map_err (\<lambda>e. ''compile Cargo workspace '' @ kind @ '' patterns: '' @ e)
          (glob_set_build gs globs))"

definition member_retained ::
  "('g, 's) globset \<Rightarrow> path \<Rightarrow> bool \<Rightarrow> 's \<Rightarrow> 's \<Rightarrow> path \<Rightarrow> bool" where
  "member_retained gs workspace_root is_package members excludes root =
     (if root = workspace_root then is_package
      else case strip_prefix root workspace_root of
        None \<Rightarrow> False
      | Some relative \<Rightarrow> is_match gs members relative \<and> \<not> is_match gs excludes relative)"

definition retain_cargo_workspace_member_roots ::
  "manifest_loader \<Rightarrow> ('g, 's) globset \<Rightarrow> path \<Rightarrow> path list \<Rightarrow> path list result" where
  "retain_cargo_workspace_member_roots load gs workspace_root discovered_roots =
     (let manifest_path = path_push workspace_root ''Cargo.toml'' in
      and_then (map_err (\<lambda>e. ''parse Cargo workspace membership '' @ display manifest_path @ '': '' @ e)
          (load manifest_path))
        (\<lambda>m. and_then
          (ok_or (''Cargo Build DAG root is not a workspace: '' @ display manifest_path) (m_workspace m))
          (\<lambda>workspace. and_then (compile_workspace_patterns gs (workspace_members workspace) ''member'')
            (\<lambda>members. and_then (compile_workspace_patterns gs (workspace_exclude workspace) ''exclude'')
              (\<lambda>excludes.
                 let normalized_workspace_root = normalize_lexical_path workspace_root;
                     retained = remdups_adj (sort
                       (filter (member_retained gs normalized_workspace_root (m_package m \<noteq> None) members excludes)
                          (map normalize_lexical_path discovered_roots)))
                 in if retained = []
                    then Err (''Cargo workspace contains no admitted package members: '' @ display manifest_path)
                    else Ok retained)))))"

section \<open>Dependency edges\<close>

text \<open>\<open>dependency_path_root\<close> of this module reads only \<open>Dependency::Detailed\<close>.\<close>

definition graph_dependency_path_root :: "path \<Rightarrow> dependency \<Rightarrow> path option" where
  "graph_dependency_path_root base_root dep =
     (case dep_shape dep of
        Detailed detail_path \<Rightarrow> map_option (\<lambda>p. path_push base_root p) detail_path
      | _ \<Rightarrow> None)"

definition resolve_graph_dependency ::
  "path \<Rightarrow> path \<Rightarrow> deps_set option \<Rightarrow> string \<Rightarrow> dependency \<Rightarrow> path option" where
  "resolve_graph_dependency package_root workspace_root workspace_deps dependency_name dep =
     (if dep_shape dep = Inherited True
      then Option.bind workspace_deps
             (\<lambda>ds. Option.bind (bmap_get ds dependency_name) (graph_dependency_path_root workspace_root))
      else graph_dependency_path_root package_root dep)"

definition collect_graph_dependency_roots ::
  "path \<Rightarrow> path \<Rightarrow> deps_set \<Rightarrow> deps_set option \<Rightarrow> path list \<Rightarrow> path list" where
  "collect_graph_dependency_roots package_root workspace_root dependencies workspace_deps roots =
     fold (\<lambda>(dependency_name, dep) roots.
         case resolve_graph_dependency package_root workspace_root workspace_deps dependency_name dep of
           Some root \<Rightarrow> bset_insert (normalize_lexical_path root) roots | None \<Rightarrow> roots)
       dependencies roots"

definition parse_required_cargo_package_graph_facts ::
  "manifest_loader \<Rightarrow> path \<Rightarrow> path \<Rightarrow> deps_set option \<Rightarrow> cargo_package_graph_facts result" where
  "parse_required_cargo_package_graph_facts load package_root workspace_root workspace_deps =
     (let manifest_path = path_push package_root ''Cargo.toml'' in
      and_then (map_err (\<lambda>e. ''parse Cargo dependency graph package '' @ display manifest_path @ '': '' @ e)
          (load manifest_path))
        (\<lambda>m. and_then
          (ok_or (''Cargo graph package has no package.name: '' @ display manifest_path)
             (Option.bind (m_package m)
                (\<lambda>p. if trim (package_name p) \<noteq> [] then Some (package_name p) else None)))
          (\<lambda>name.
             let collect = (\<lambda>ds. collect_graph_dependency_roots package_root workspace_root ds workspace_deps);
                 roots = collect (m_dependencies m) [];
                 roots = collect (m_dev_dependencies m) roots;
                 roots = collect (m_build_dependencies m) roots;
                 roots = fold (\<lambda>target roots.
                     collect (target_build_dependencies target)
                       (collect (target_dev_dependencies target)
                          (collect (target_dependencies target) roots)))
                   (bmap_values (m_target m)) roots
             in Ok \<lparr>graph_package_name = name, local_dependency_roots = roots\<rparr>)))"

definition parse_required_cargo_workspace_package_graph_facts ::
  "manifest_loader \<Rightarrow> path list \<Rightarrow> path \<Rightarrow> cargo_workspace_package_graph_facts result" where
  "parse_required_cargo_workspace_package_graph_facts load package_roots workspace_root =
     (let manifest_path = path_push workspace_root ''Cargo.toml'' in
      and_then (map_err (\<lambda>e. ''parse Cargo dependency graph workspace '' @ display manifest_path @ '': '' @ e)
          (load manifest_path))
        (\<lambda>m. let workspace_deps = map_option workspace_dependencies (m_workspace m) in
           map_ok (\<lambda>packages. \<lparr>graph_packages = packages, graph_parsed_manifest_count = length packages + 1\<rparr>)
             (collect_results
                (\<lambda>package_root. map_ok (\<lambda>facts. (package_root, facts))
                   (parse_required_cargo_package_graph_facts load package_root workspace_root workspace_deps))
                package_roots)))"

section \<open>Facts\<close>

definition graph_table_roots :: "path \<Rightarrow> path \<Rightarrow> deps_set option \<Rightarrow> deps_set \<Rightarrow> path set" where
  "graph_table_roots package_root workspace_root wds ds =
     {normalize_lexical_path r | r n d. (n, d) \<in> set ds \<and>
        resolve_graph_dependency package_root workspace_root wds n d = Some r}"

lemma set_collect_graph_dependency_roots:
  "set (collect_graph_dependency_roots package_root workspace_root ds wds roots) =
     set roots \<union> graph_table_roots package_root workspace_root wds ds"
  unfolding collect_graph_dependency_roots_def
  by (induction ds arbitrary: roots) (force simp: graph_table_roots_def split: option.splits)+

lemma ascending_collect_graph_dependency_roots:
  "ascending roots \<Longrightarrow>
   ascending (collect_graph_dependency_roots package_root workspace_root ds wds roots)"
  unfolding collect_graph_dependency_roots_def
  by (induction ds arbitrary: roots) (auto split: option.splits)

text \<open>All dependency tables of a manifest, in the order the code reads them.\<close>

definition dependency_tables :: "manifest \<Rightarrow> deps_set list" where
  "dependency_tables m = [m_dependencies m, m_dev_dependencies m, m_build_dependencies m] @
     concat (map (\<lambda>t. [target_dependencies t, target_dev_dependencies t, target_build_dependencies t])
       (bmap_values (m_target m)))"

lemma fold_target_tables:
  "fold (\<lambda>t roots. collect (target_build_dependencies t)
       (collect (target_dev_dependencies t) (collect (target_dependencies t) roots))) ts roots =
     fold collect (concat (map (\<lambda>t. [target_dependencies t, target_dev_dependencies t,
       target_build_dependencies t]) ts)) roots"
  by (induction ts arbitrary: roots) auto

lemma fold_collect_graph:
  "set (fold (\<lambda>ds. collect_graph_dependency_roots package_root workspace_root ds wds) tables roots) =
     set roots \<union> (\<Union>ds \<in> set tables. graph_table_roots package_root workspace_root wds ds)"
  "ascending roots \<Longrightarrow> ascending
     (fold (\<lambda>ds. collect_graph_dependency_roots package_root workspace_root ds wds) tables roots)"
proof (induction tables arbitrary: roots)
  case (Cons ds tables)
  { case 1 show ?case by (auto simp: Cons.IH(1) set_collect_graph_dependency_roots)
  next
    case 2 then show ?case by (simp add: Cons.IH(2) ascending_collect_graph_dependency_roots) }
qed auto

lemma parse_required_cargo_package_graph_facts_Ok:
  assumes "parse_required_cargo_package_graph_facts load package_root workspace_root wds = Ok facts"
  obtains m p where "load (path_push package_root ''Cargo.toml'') = Ok m" "m_package m = Some p"
    "trim (package_name p) \<noteq> []" "graph_package_name facts = package_name p"
    "local_dependency_roots facts =
       fold (\<lambda>ds. collect_graph_dependency_roots package_root workspace_root ds wds) (dependency_tables m) []"
  using assms
  by (auto simp: parse_required_cargo_package_graph_facts_def Let_def result_iffs map_err_Inr_iff
      bind_eq_Some_conv fold_target_tables dependency_tables_def split: if_splits)

lemma parse_graph_facts_Ok:
  assumes "parse_required_cargo_workspace_package_graph_facts load roots workspace_root = Ok facts"
  obtains m where "load (path_push workspace_root ''Cargo.toml'') = Ok m"
    "map fst (graph_packages facts) = roots" "graph_parsed_manifest_count facts = length roots + 1"
    "\<And>root f. (root, f) \<in> set (graph_packages facts) \<Longrightarrow>
       parse_required_cargo_package_graph_facts load root workspace_root
         (map_option workspace_dependencies (m_workspace m)) = Ok f"
proof -
  from assms obtain m packages where m: "load (path_push workspace_root ''Cargo.toml'') = Ok m"
    and c: "collect_results (\<lambda>package_root. map_ok (\<lambda>facts. (package_root, facts))
        (parse_required_cargo_package_graph_facts load package_root workspace_root
          (map_option workspace_dependencies (m_workspace m)))) roots = Ok packages"
    and f: "facts = \<lparr>graph_packages = packages, graph_parsed_manifest_count = length packages + 1\<rparr>"
    by (auto simp: parse_required_cargo_workspace_package_graph_facts_def Let_def result_iffs map_err_Inr_iff)
  from collect_results_Ok [OF c] have len: "length packages = length roots"
    and nth: "\<And>i. i < length roots \<Longrightarrow> fst (packages ! i) = roots ! i \<and>
       parse_required_cargo_package_graph_facts load (roots ! i) workspace_root
         (map_option workspace_dependencies (m_workspace m)) = Ok (snd (packages ! i))"
    by (auto simp: result_iffs)
  show thesis
  proof (rule that [OF m])
    show "map fst (graph_packages facts) = roots" by (rule nth_equalityI) (auto simp: f len nth)
    show "graph_parsed_manifest_count facts = length roots + 1" by (simp add: f len)
    fix root g assume "(root, g) \<in> set (graph_packages facts)"
    then obtain i where "i < length packages" "packages ! i = (root, g)"
      by (auto simp: f in_set_conv_nth)
    with nth [of i] len show "parse_required_cargo_package_graph_facts load root workspace_root
        (map_option workspace_dependencies (m_workspace m)) = Ok g" by simp
  qed
qed

lemma retain_cargo_workspace_member_roots_Ok:
  assumes "retain_cargo_workspace_member_roots load gs workspace_root roots = Ok retained"
  shows "ascending retained \<and> retained \<noteq> [] \<and> set retained \<subseteq> set (map normalize_lexical_path roots)"
  using assms
  by (auto simp: retain_cargo_workspace_member_roots_def Let_def result_iffs split: if_splits)

text \<open>
  \<open>find_required_cargo_workspace_root\<close> returns the normalised form of the nearest ancestor whose
  manifest declares a workspace: every nearer ancestor either has no manifest or has one without a
  workspace.
\<close>

lemma find_required_cargo_workspace_root_nearest:
  assumes "find_required_cargo_workspace_root is_file load start = Ok root"
  shows "\<exists>nearer candidate farther m. path_ancestors start = nearer @ candidate # farther \<and>
    root = normalize_lexical_path candidate \<and> is_file (path_push candidate ''Cargo.toml'') \<and>
    load (path_push candidate ''Cargo.toml'') = Ok m \<and> m_workspace m \<noteq> None \<and>
    (\<forall>c \<in> set nearer. is_file (path_push c ''Cargo.toml'') \<longrightarrow>
       (\<exists>m. load (path_push c ''Cargo.toml'') = Ok m \<and> m_workspace m = None))"
proof -
  have "workspace_root_of_candidates is_file load cs = Ok (Some root) \<Longrightarrow>
    \<exists>nearer candidate farther m. cs = nearer @ candidate # farther \<and>
      root = normalize_lexical_path candidate \<and> is_file (path_push candidate ''Cargo.toml'') \<and>
      load (path_push candidate ''Cargo.toml'') = Ok m \<and> m_workspace m \<noteq> None \<and>
      (\<forall>c \<in> set nearer. is_file (path_push c ''Cargo.toml'') \<longrightarrow>
         (\<exists>m. load (path_push c ''Cargo.toml'') = Ok m \<and> m_workspace m = None))" for cs
  proof (induction cs)
    case (Cons c cs)
    show ?case
    proof (cases "is_file (path_push c ''Cargo.toml'') \<and>
        (\<exists>m. load (path_push c ''Cargo.toml'') = Ok m \<and> m_workspace m \<noteq> None)")
      case True
      with Cons.prems have "root = normalize_lexical_path c" by (auto simp: Let_def)
      with True show ?thesis
        by - (rule exI [of _ "[]"], rule exI [of _ c], rule exI [of _ cs], auto)
    next
      case False
      with Cons.prems have "workspace_root_of_candidates is_file load cs = Ok (Some root)"
        and "is_file (path_push c ''Cargo.toml'') \<longrightarrow>
          (\<exists>m. load (path_push c ''Cargo.toml'') = Ok m \<and> m_workspace m = None)"
        by (auto simp: Let_def result_iffs map_err_Inr_iff split: if_splits)
      note c = this(2) and rest = this(1)
      from Cons.IH [OF rest] obtain nearer candidate farther m where n: "cs = nearer @ candidate # farther"
        "root = normalize_lexical_path candidate" "is_file (path_push candidate ''Cargo.toml'')"
        "load (path_push candidate ''Cargo.toml'') = Ok m" "m_workspace m \<noteq> None"
        "\<forall>c \<in> set nearer. is_file (path_push c ''Cargo.toml'') \<longrightarrow>
           (\<exists>m. load (path_push c ''Cargo.toml'') = Ok m \<and> m_workspace m = None)" by blast
      with c show ?thesis
        by - (rule exI [of _ "c # nearer"], rule exI [of _ candidate], rule exI [of _ farther], auto)
    qed
  qed simp
  with assms show ?thesis
    by (auto simp: find_required_cargo_workspace_root_def result_iffs)
qed


end
