(* ===== verification/Discovery.thy ===== *)
theory Discovery
  imports Cargo_Manifest
begin

text \<open>
  \<open>src/discovery.rs\<close>: the recursive walks that find Rust files and Cargo manifests, the expansion
  of workspace members and path dependencies into package roots, and the conventional scope of a
  package.

  The file system is an input: a function from the paths the code names to the node found there.
  A directory node holds the entries that \<open>read_dir\<close> yields in any order; a symbolic link node
  holds the node that following it reaches, if any (the operating system bounds the number of links
  it follows, so this is a finite tree). Manifest parsing is a parameter as in
  \<^verbatim>\<open>Cargo_Manifest\<close>. The loop of \<open>insert_path_dependency_roots\<close> runs as long as it finds new
  package roots; it is a partial function, proved to return when finitely many directories hold
  a manifest.
\<close>

section \<open>The file system\<close>

datatype fs_node =
    File_node
  | Dir_node (dir_readable: bool) (dir_entries: "(string \<times> fs_node) list")
  | Link_node "fs_node option"
  | Other_node

type_synonym file_system = "path \<Rightarrow> fs_node option"

fun node_is_file :: "fs_node \<Rightarrow> bool" where
  "node_is_file File_node = True"
| "node_is_file (Link_node (Some target)) = node_is_file target"
| "node_is_file _ = False"

fun node_exists :: "fs_node \<Rightarrow> bool" where
  "node_exists (Link_node None) = False"
| "node_exists (Link_node (Some target)) = node_exists target"
| "node_exists _ = True"

definition fs_is_file :: "file_system \<Rightarrow> path \<Rightarrow> bool" where
  "fs_is_file fs p = (case fs p of Some node \<Rightarrow> node_is_file node | None \<Rightarrow> False)"

definition fs_exists :: "file_system \<Rightarrow> path \<Rightarrow> bool" where
  "fs_exists fs p = (case fs p of Some node \<Rightarrow> node_exists node | None \<Rightarrow> False)"

section \<open>Names\<close>

definition default_ignored_dir_names :: "string list" where
  "default_ignored_dir_names =
     [''.cache'', ''.direnv'', ''.git'', ''.idea'', ''.jj'', ''.run'', ''.vscode'', ''node_modules'', ''target'']"

definition should_ignore_dir_name :: "string \<Rightarrow> string list \<Rightarrow> string list \<Rightarrow> bool" where
  "should_ignore_dir_name name ignored_dir_names include_hidden_dir_names \<longleftrightarrow>
     name \<in> set ignored_dir_names \<or>
     (starts_with name ''.'' \<and> name \<noteq> ''.'' \<and> name \<noteq> ''..'' \<and> name \<notin> set include_hidden_dir_names)"

definition should_ignore :: "path \<Rightarrow> string list \<Rightarrow> string list \<Rightarrow> bool" where
  "should_ignore p ignored_dir_names include_hidden_dir_names =
     (case Option.bind (path_file_name p) to_str of
        Some name \<Rightarrow> should_ignore_dir_name name ignored_dir_names include_hidden_dir_names
      | None \<Rightarrow> False)"

definition is_rust_file :: "path \<Rightarrow> bool" where
  "is_rust_file p =
     (case Option.bind (path_extension p) to_str of
        Some extension \<Rightarrow> to_ascii_lowercase extension = ''rs'' | None \<Rightarrow> False)"

definition is_symlink_node :: "fs_node \<Rightarrow> bool" where
  "is_symlink_node node = (case node of Link_node _ \<Rightarrow> True | _ \<Rightarrow> False)"

definition is_symlink_path :: "file_system \<Rightarrow> path \<Rightarrow> bool" where
  "is_symlink_path fs p = (case fs p of Some node \<Rightarrow> is_symlink_node node | None \<Rightarrow> False)"

section \<open>Walks\<close>

abbreviation entry_path :: "path \<Rightarrow> string \<Rightarrow> path" where
  "entry_path dir name \<equiv> path_join dir [Normal name]"

fun discover_path ::
  "string list \<Rightarrow> string list \<Rightarrow> path \<Rightarrow> fs_node \<Rightarrow> path list \<Rightarrow> bool \<Rightarrow> path list"
and discover_path_entries ::
  "string list \<Rightarrow> string list \<Rightarrow> path \<Rightarrow> (string \<times> fs_node) list \<Rightarrow> path list \<Rightarrow> path list"
where
  "discover_path ignored hidden p node files ignore_current =
     (if ignore_current \<and> should_ignore p ignored hidden then files
      else case node of
        Link_node _ \<Rightarrow> files
      | File_node \<Rightarrow> if is_rust_file p then bset_insert p files else files
      | Dir_node readable entries \<Rightarrow>
          if readable then discover_path_entries ignored hidden p entries files else files
      | Other_node \<Rightarrow> files)"
| "discover_path_entries ignored hidden p [] files = files"
| "discover_path_entries ignored hidden p ((name, node) # entries) files =
     discover_path_entries ignored hidden p entries
       (discover_path ignored hidden (entry_path p name) node files True)"

definition discover_rust_files ::
  "file_system \<Rightarrow> path list \<Rightarrow> string list \<Rightarrow> string list \<Rightarrow> path list" where
  "discover_rust_files fs paths ignored hidden =
     fold (\<lambda>p files. case fs p of
             Some node \<Rightarrow> discover_path ignored hidden p node files False | None \<Rightarrow> files)
       paths []"

fun discover_path_with_package_boundary ::
  "path list \<Rightarrow> string list \<Rightarrow> string list \<Rightarrow> path \<Rightarrow> fs_node \<Rightarrow> path list \<Rightarrow> bool \<Rightarrow> path list"
and discover_boundary_entries ::
  "path list \<Rightarrow> string list \<Rightarrow> string list \<Rightarrow> path \<Rightarrow> (string \<times> fs_node) list \<Rightarrow> path list \<Rightarrow> path list"
where
  "discover_path_with_package_boundary excluded ignored hidden p node files ignore_current =
     (if ignore_current \<and> should_ignore p ignored hidden then files
      else case node of
        Link_node _ \<Rightarrow> files
      | File_node \<Rightarrow> if is_rust_file p then bset_insert p files else files
      | Dir_node readable entries \<Rightarrow>
          if normalize_lexical_path p \<in> set excluded then files
          else if readable then discover_boundary_entries excluded ignored hidden p entries files
          else files
      | Other_node \<Rightarrow> files)"
| "discover_boundary_entries excluded ignored hidden p [] files = files"
| "discover_boundary_entries excluded ignored hidden p ((name, node) # entries) files =
     discover_boundary_entries excluded ignored hidden p entries
       (discover_path_with_package_boundary excluded ignored hidden (entry_path p name) node files True)"

text \<open>
  The manifest walk has no symbolic link check: it follows a link to a directory, and a link to
  a file counts as the file.
\<close>

fun discover_cargo_manifests ::
  "string list \<Rightarrow> string list \<Rightarrow> path \<Rightarrow> fs_node \<Rightarrow> path list \<Rightarrow> bool \<Rightarrow> path list"
and discover_manifest_entries ::
  "string list \<Rightarrow> string list \<Rightarrow> path \<Rightarrow> (string \<times> fs_node) list \<Rightarrow> path list \<Rightarrow> path list"
where
  "discover_cargo_manifests ignored hidden p node manifests ignore_current =
     (if ignore_current \<and> should_ignore p ignored hidden then manifests
      else case node of
        File_node \<Rightarrow>
          if Option.bind (path_file_name p) to_str = Some ''Cargo.toml'' then bset_insert p manifests
          else manifests
      | Dir_node readable entries \<Rightarrow>
          if readable then discover_manifest_entries ignored hidden p entries manifests else manifests
      | Link_node target \<Rightarrow>
          (case target of
             Some target_node \<Rightarrow> discover_cargo_manifests ignored hidden p target_node manifests ignore_current
           | None \<Rightarrow> manifests)
      | Other_node \<Rightarrow> manifests)"
| "discover_manifest_entries ignored hidden p [] manifests = manifests"
| "discover_manifest_entries ignored hidden p ((name, node) # entries) manifests =
     discover_manifest_entries ignored hidden p entries
       (discover_cargo_manifests ignored hidden (entry_path p name) node manifests True)"

declare discover_path.simps [simp del] discover_path_with_package_boundary.simps [simp del]
  discover_cargo_manifests.simps [simp del]


section \<open>Package roots\<close>

definition is_excluded_member :: "path \<Rightarrow> path list \<Rightarrow> bool" where
  "is_excluded_member member_root excludes =
     list_ex (\<lambda>excluded. member_root = excluded \<or> path_starts_with member_root excluded) excludes"

definition ignored_path_contains_ignored_segment :: "path \<Rightarrow> string list \<Rightarrow> string list \<Rightarrow> bool" where
  "ignored_path_contains_ignored_segment p ignored hidden =
     list_ex (\<lambda>name. should_ignore_dir_name name ignored hidden)
       (List.map_filter (\<lambda>c. to_str (component_str c)) p)"

text \<open>\<open>BTreeSet::insert\<close> also reports whether the value is new.\<close>

definition insert_explicit_path_dependency_root ::
  "file_system \<Rightarrow> path list \<Rightarrow> path list \<Rightarrow> path \<Rightarrow> bool \<times> path list" where
  "insert_explicit_path_dependency_root fs excludes roots dependency_root =
     (let root = normalize_lexical_path dependency_root in
      if is_excluded_member root excludes \<or> \<not> fs_is_file fs (path_push root ''Cargo.toml'')
      then (False, roots)
      else (root \<notin> set roots, bset_insert root roots))"

definition push_dependency ::
  "file_system \<Rightarrow> path list \<Rightarrow> path \<Rightarrow> path list \<times> path list \<Rightarrow> path list \<times> path list" where
  "push_dependency fs excludes dependency_root = (\<lambda>(roots, pending).
     case insert_explicit_path_dependency_root fs excludes roots dependency_root of
       (new, roots') \<Rightarrow>
         (roots', if new then normalize_lexical_path dependency_root # pending else pending))"

text \<open>The vector \<open>pending\<close> is a stack; its top is the head of the list.\<close>

partial_function (option) path_dependency_loop ::
  "file_system \<Rightarrow> manifest_loader \<Rightarrow> path list \<Rightarrow> path list \<Rightarrow> path list \<Rightarrow> path list \<Rightarrow> path list option"
where
  "path_dependency_loop fs load excludes pending visited roots =
     (case pending of
        [] \<Rightarrow> Some roots
      | package_root # rest \<Rightarrow>
          if package_root \<in> set visited
          then path_dependency_loop fs load excludes rest visited roots
          else (let facts = parse_cargo_manifest (fs_is_file fs) load package_root;
                    st = fold (push_dependency fs excludes) (path_dependency_roots facts) (roots, rest)
                in path_dependency_loop fs load excludes (snd st) (bset_insert package_root visited) (fst st)))"

declare path_dependency_loop.simps [code]

definition insert_path_dependency_roots ::
  "file_system \<Rightarrow> manifest_loader \<Rightarrow> path list \<Rightarrow> path list \<Rightarrow> path list option" where
  "insert_path_dependency_roots fs load excludes roots =
     path_dependency_loop fs load excludes (rev roots) [] roots"

definition insert_package_root ::
  "file_system \<Rightarrow> path \<Rightarrow> string list \<Rightarrow> string list \<Rightarrow> path list \<Rightarrow> path list \<Rightarrow> path \<Rightarrow> path list" where
  "insert_package_root fs project_root ignored hidden excludes roots package_root =
     (let root = normalize_lexical_path package_root; base = normalize_lexical_path project_root in
      if \<not> path_starts_with root base then roots
      else if is_excluded_member root excludes then roots
      else if ignored_path_contains_ignored_segment
          (case strip_prefix root base of Some relative \<Rightarrow> relative | None \<Rightarrow> root) ignored hidden
      then roots
      else if \<not> fs_is_file fs (path_push root ''Cargo.toml'') then roots
      else bset_insert root roots)"

definition fixed_prefix_root :: "path \<Rightarrow> string \<Rightarrow> path" where
  "fixed_prefix_root project_root pattern =
     (let before_star = hd (split_on CHR ''*'' pattern);
          pre = (case rsplit_once ''/'' before_star of Some (a, b) \<Rightarrow> a | None \<Rightarrow> [])
      in if pre = [] then project_root else path_push project_root pre)"

definition expand_workspace_member_pattern ::
  "file_system \<Rightarrow> path \<Rightarrow> string \<Rightarrow> string list \<Rightarrow> string list \<Rightarrow> path list" where
  "expand_workspace_member_pattern fs project_root pattern ignored hidden =
     (if CHR ''*'' \<notin> set pattern then [path_push project_root pattern]
      else let search_root = fixed_prefix_root project_root pattern;
               manifests = (case fs search_root of
                   Some node \<Rightarrow> discover_cargo_manifests ignored hidden search_root node [] False
                 | None \<Rightarrow> [])
           in filter (\<lambda>root. case Option.bind (strip_prefix root project_root) (\<lambda>r. to_str (display r)) of
                        Some relative \<Rightarrow> glob_pattern_matches pattern relative | None \<Rightarrow> False)
                (List.map_filter path_parent manifests))"

definition workspace_member_roots ::
  "file_system \<Rightarrow> path \<Rightarrow> string list \<Rightarrow> string list \<Rightarrow> path list \<Rightarrow> cargo_manifest_facts \<Rightarrow> path list" where
  "workspace_member_roots fs project_root ignored hidden excludes facts =
     fold (\<lambda>member_pattern roots.
         fold (\<lambda>member_root roots. insert_package_root fs project_root ignored hidden excludes roots member_root)
           (expand_workspace_member_pattern fs project_root member_pattern ignored hidden) roots)
       (facts_workspace_members facts)
       (if has_package facts then bset_insert project_root [] else [])"

definition discover_package_roots_from_manifest ::
  "file_system \<Rightarrow> manifest_loader \<Rightarrow> path \<Rightarrow> string list \<Rightarrow> string list \<Rightarrow> path list option" where
  "discover_package_roots_from_manifest fs load project_root ignored hidden =
     (let facts = parse_cargo_manifest (fs_is_file fs) load project_root in
      if facts_workspace_members facts = [] then
        insert_path_dependency_roots fs load [] [project_root]
      else
        let excludes = map (\<lambda>pattern. path_push project_root pattern) (facts_workspace_excludes facts)
        in insert_path_dependency_roots fs load excludes
             (workspace_member_roots fs project_root ignored hidden excludes facts))"

definition discover_cargo_package_roots ::
  "file_system \<Rightarrow> manifest_loader \<Rightarrow> path \<Rightarrow> string list \<Rightarrow> string list \<Rightarrow> path list option" where
  "discover_cargo_package_roots fs load project_root ignored hidden =
     (if \<not> fs_is_file fs (path_push project_root ''Cargo.toml'') then Some []
      else discover_package_roots_from_manifest fs load project_root ignored hidden)"

definition cargo_package_exclusion_roots ::
  "file_system \<Rightarrow> manifest_loader \<Rightarrow> path \<Rightarrow> string list \<Rightarrow> string list \<Rightarrow> path list option" where
  "cargo_package_exclusion_roots fs load package_root ignored hidden =
     (let root = normalize_lexical_path package_root in
      map_option
        (\<lambda>roots. bset_of_list (filter (\<lambda>r. r \<noteq> root) (map normalize_lexical_path roots)))
        (discover_cargo_package_roots fs load root ignored hidden))"

definition discover_rust_package_files ::
  "file_system \<Rightarrow> manifest_loader \<Rightarrow> path list \<Rightarrow> path \<Rightarrow> string list \<Rightarrow> string list \<Rightarrow> path list option" where
  "discover_rust_package_files fs load paths package_root ignored hidden =
     map_option
       (\<lambda>excluded. fold (\<lambda>p files. case fs p of
             Some node \<Rightarrow> discover_path_with_package_boundary excluded ignored hidden p node files False
           | None \<Rightarrow> files) paths [])
       (cargo_package_exclusion_roots fs load package_root ignored hidden)"

section \<open>Conventional scopes\<close>

record asp_rust_scope =
  scope_project_root :: path
  scope_source_paths :: "path list"
  scope_test_paths :: "path list"
  scope_package_paths :: "path list"
  scope_fallback_paths :: "path list"

definition existing_paths :: "file_system \<Rightarrow> path list \<Rightarrow> path list" where
  "existing_paths fs paths = bset_of_list (filter (fs_exists fs) paths)"

definition configured_existing_paths :: "file_system \<Rightarrow> path \<Rightarrow> string list \<Rightarrow> path list" where
  "configured_existing_paths fs project_root relative_paths =
     existing_paths fs (map (\<lambda>name. path_push project_root name) relative_paths)"

definition target_parent_paths :: "path list \<Rightarrow> path list" where
  "target_parent_paths target_files = List.map_filter path_parent target_files"

definition asp_rust_scope_of ::
  "file_system \<Rightarrow> manifest_loader \<Rightarrow> path \<Rightarrow> bool \<Rightarrow> string list \<Rightarrow> string list \<Rightarrow> asp_rust_scope" where
  "asp_rust_scope_of fs load project_root include_tests source_dir_names test_dir_names =
     (let facts = parse_cargo_manifest (fs_is_file fs) load project_root;
          package_paths = existing_paths fs
            (map (\<lambda>name. path_push project_root name) [''build.rs'', ''examples'', ''benches'']);
          package_paths = bset_extend package_paths
            (filter (fs_exists fs)
               (map example_path (example_targets facts) @ map bench_path (bench_targets facts)));
          source_paths = configured_existing_paths fs project_root source_dir_names;
          source_paths = bset_extend source_paths (existing_paths fs [path_push project_root ''src'']);
          source_paths = bset_extend source_paths
            (existing_paths fs (target_parent_paths (source_target_files facts)));
          test_paths = (if include_tests then
            bset_extend
              (bset_extend (configured_existing_paths fs project_root test_dir_names)
                (existing_paths fs [path_push project_root ''tests'']))
              (existing_paths fs (target_parent_paths (test_target_files facts)))
            else [])
      in \<lparr>scope_project_root = project_root, scope_source_paths = source_paths,
          scope_test_paths = test_paths, scope_package_paths = package_paths,
          scope_fallback_paths = [project_root]\<rparr>)"


section \<open>What the file walks find\<close>

lemma entry_path_append [simp]: "entry_path p name = p @ [Normal name]"
  by (simp add: path_join_def is_absolute_def)

text \<open>\<open>descends node names m\<close>: the names lead from \<open>node\<close> to \<open>m\<close> through readable directories and no link.\<close>

fun descends :: "fs_node \<Rightarrow> string list \<Rightarrow> fs_node \<Rightarrow> bool" where
  "descends node [] m \<longleftrightarrow> node = m"
| "descends node (name # names) m \<longleftrightarrow>
     (\<exists>entries child. node = Dir_node True entries \<and> (name, child) \<in> set entries \<and> descends child names m)"

definition visible :: "string list \<Rightarrow> string list \<Rightarrow> string \<Rightarrow> bool" where
  "visible ignored hidden name \<longleftrightarrow> \<not> (utf8_valid name \<and> should_ignore_dir_name name ignored hidden)"

lemma should_ignore_entry [simp]:
  "should_ignore (p @ [Normal name]) ignored hidden \<longleftrightarrow> \<not> visible ignored hidden name"
  by (auto simp: should_ignore_def visible_def path_file_name_def to_str_def)

definition rust_files_below :: "path list \<Rightarrow> string list \<Rightarrow> string list \<Rightarrow> path \<Rightarrow> fs_node \<Rightarrow> path set" where
  "rust_files_below excluded ignored hidden p node =
     {p @ map Normal names | names. descends node names File_node \<and>
        list_all (visible ignored hidden) names \<and> is_rust_file (p @ map Normal names) \<and>
        (\<forall>k < length names. normalize_lexical_path (p @ map Normal (take k names)) \<notin> set excluded)}"

lemma rust_files_below_file:
  "rust_files_below excluded ignored hidden p File_node = (if is_rust_file p then {p} else {})"
proof -
  have "descends File_node names File_node \<longleftrightarrow> names = []" for names by (cases names) auto
  then show ?thesis by (auto simp: rust_files_below_def)
qed

lemma rust_files_below_none:
  "node = Link_node t \<or> node = Other_node \<or> node = Dir_node False es \<Longrightarrow>
     rust_files_below excluded ignored hidden p node = {}"
proof -
  assume "node = Link_node t \<or> node = Other_node \<or> node = Dir_node False es"
  then have "\<not> descends node names File_node" for names by (cases names) auto
  then show ?thesis by (simp add: rust_files_below_def)
qed

lemma rust_files_below_excluded:
  assumes "normalize_lexical_path p \<in> set excluded"
  shows "rust_files_below excluded ignored hidden p (Dir_node r es) = {}"
proof -
  have "\<not> (descends (Dir_node r es) names File_node \<and>
      (\<forall>k < length names. normalize_lexical_path (p @ map Normal (take k names)) \<notin> set excluded))" for names
    using assms by (cases names) auto
  then show ?thesis unfolding rust_files_below_def by blast
qed

definition entry_files ::
  "path list \<Rightarrow> string list \<Rightarrow> string list \<Rightarrow> path \<Rightarrow> (string \<times> fs_node) list \<Rightarrow> path set" where
  "entry_files excluded ignored hidden p entries =
     (\<Union>(name, child) \<in> set entries. if visible ignored hidden name
        then rust_files_below excluded ignored hidden (p @ [Normal name]) child else {})"

lemma entry_files_simps [simp]:
  "entry_files excluded ignored hidden p [] = {}"
  "entry_files excluded ignored hidden p ((name, child) # entries) =
     (if visible ignored hidden name then rust_files_below excluded ignored hidden (p @ [Normal name]) child else {})
       \<union> entry_files excluded ignored hidden p entries"
  by (auto simp: entry_files_def)

lemma rust_files_below_dir:
  assumes "normalize_lexical_path p \<notin> set excluded"
  shows "rust_files_below excluded ignored hidden p (Dir_node True es) = entry_files excluded ignored hidden p es"
    (is "?L = ?R")
proof
  show "?L \<subseteq> ?R"
  proof
    fix q assume "q \<in> ?L"
    then obtain names where n: "q = p @ map Normal names" "descends (Dir_node True es) names File_node"
      "list_all (visible ignored hidden) names" "is_rust_file q"
      "\<forall>k < length names. normalize_lexical_path (p @ map Normal (take k names)) \<notin> set excluded"
      by (auto simp: rust_files_below_def)
    then obtain x xs child where x: "names = x # xs" "(x, child) \<in> set es" "descends child xs File_node"
      by (cases names) auto
    have "normalize_lexical_path ((p @ [Normal x]) @ map Normal (take k xs)) \<notin> set excluded"
      if "k < length xs" for k
      using n(5) [rule_format, of "Suc k"] that x(1) by simp
    with n x have "q \<in> rust_files_below excluded ignored hidden (p @ [Normal x]) child"
      by (auto simp: rust_files_below_def intro!: exI [of _ xs])
    with n(3) x show "q \<in> ?R" by (auto simp: entry_files_def intro!: bexI [of _ "(x, child)"])
  qed
  show "?R \<subseteq> ?L"
  proof
    fix q assume "q \<in> ?R"
    then obtain x child where x: "(x, child) \<in> set es" "visible ignored hidden x"
      "q \<in> rust_files_below excluded ignored hidden (p @ [Normal x]) child"
      by (auto simp: entry_files_def split: if_splits)
    then obtain xs where xs: "q = p @ map Normal (x # xs)" "descends child xs File_node"
      "list_all (visible ignored hidden) xs" "is_rust_file (p @ map Normal (x # xs))"
      "\<forall>k < length xs. normalize_lexical_path (p @ map Normal (x # take k xs)) \<notin> set excluded"
      by (auto simp: rust_files_below_def)
    have "normalize_lexical_path (p @ map Normal (take k (x # xs))) \<notin> set excluded"
      if "k < length (x # xs)" for k
      using that xs(5) assms by (cases k) auto
    with x xs show "q \<in> ?L"
      unfolding rust_files_below_def by (intro CollectI exI [of _ "x # xs"]) auto
  qed
qed

lemma discover_path_with_package_boundary_set:
  "set (discover_path_with_package_boundary excluded ignored hidden p node files ign) = set files \<union>
     (if ign \<and> should_ignore p ignored hidden then {} else rust_files_below excluded ignored hidden p node)"
  "set (discover_boundary_entries excluded ignored hidden p entries files) =
     set files \<union> entry_files excluded ignored hidden p entries"
proof (induction excluded ignored hidden p node files ign and excluded ignored hidden p entries files
    rule: discover_path_with_package_boundary_discover_boundary_entries.induct)
  case (1 excluded ignored hidden p node files ign)
  show ?case
  proof (cases node)
    case (Dir_node r es)
    with 1 show ?thesis
      by (cases r) (auto simp: discover_path_with_package_boundary.simps rust_files_below_none
          rust_files_below_excluded rust_files_below_dir)
  qed (auto simp: discover_path_with_package_boundary.simps rust_files_below_file rust_files_below_none)
qed auto

text \<open>The walk without a package boundary is the one with no excluded root.\<close>

lemma discover_path_no_boundary:
  "discover_path ignored hidden p node files ign =
     discover_path_with_package_boundary [] ignored hidden p node files ign"
  "discover_path_entries ignored hidden p entries files =
     discover_boundary_entries [] ignored hidden p entries files"
proof (induction ignored hidden p node files ign and ignored hidden p entries files
    rule: discover_path_discover_path_entries.induct)
  case (1 ignored hidden p node files ign)
  then show ?case
    by (cases node) (auto simp: discover_path.simps discover_path_with_package_boundary.simps)
qed auto

lemma ascending_boundary:
  "ascending files \<Longrightarrow> ascending (discover_path_with_package_boundary excluded ignored hidden p node files ign)"
  "ascending files \<Longrightarrow> ascending (discover_boundary_entries excluded ignored hidden p entries files)"
proof (induction excluded ignored hidden p node files ign and excluded ignored hidden p entries files
    rule: discover_path_with_package_boundary_discover_boundary_entries.induct)
  case (1 excluded ignored hidden p node files ign)
  then show ?case by (cases node) (auto simp: discover_path_with_package_boundary.simps)
qed auto

definition boundary_walk ::
  "file_system \<Rightarrow> path list \<Rightarrow> string list \<Rightarrow> string list \<Rightarrow> path list \<Rightarrow> path list \<Rightarrow> path list" where
  "boundary_walk fs excluded ignored hidden paths files =
     fold (\<lambda>p files. case fs p of
         Some node \<Rightarrow> discover_path_with_package_boundary excluded ignored hidden p node files False
       | None \<Rightarrow> files) paths files"

lemma boundary_walk_set:
  "set (boundary_walk fs excluded ignored hidden paths files) = set files \<union>
     {q. \<exists>p node. p \<in> set paths \<and> fs p = Some node \<and> q \<in> rust_files_below excluded ignored hidden p node}"
proof (induction paths arbitrary: files)
  case (Cons p paths)
  then show ?case
    by (cases "fs p") (auto simp: boundary_walk_def discover_path_with_package_boundary_set)
qed (simp add: boundary_walk_def)

lemma ascending_boundary_walk:
  "ascending files \<Longrightarrow> ascending (boundary_walk fs excluded ignored hidden paths files)"
  by (induction paths arbitrary: files)
    (auto simp: boundary_walk_def ascending_boundary split: option.splits)

lemma discover_rust_files_walk:
  "discover_rust_files fs paths ignored hidden = boundary_walk fs [] ignored hidden paths []"
  by (simp add: discover_rust_files_def boundary_walk_def discover_path_no_boundary cong: option.case_cong)



section \<open>The path dependency closure\<close>

definition admits :: "file_system \<Rightarrow> path list \<Rightarrow> path \<Rightarrow> bool" where
  "admits fs excludes root \<longleftrightarrow>
     \<not> is_excluded_member root excludes \<and> fs_is_file fs (path_push root ''Cargo.toml'')"

definition dependency_roots_of :: "file_system \<Rightarrow> manifest_loader \<Rightarrow> path list \<Rightarrow> path \<Rightarrow> path set" where
  "dependency_roots_of fs load excludes root =
     {d. \<exists>r \<in> set (path_dependency_roots (parse_cargo_manifest (fs_is_file fs) load root)).
        d = normalize_lexical_path r \<and> admits fs excludes d}"

definition dependency_edges :: "file_system \<Rightarrow> manifest_loader \<Rightarrow> path list \<Rightarrow> (path \<times> path) set" where
  "dependency_edges fs load excludes = {(r, d). d \<in> dependency_roots_of fs load excludes r}"

lemma push_dependency_eq:
  "push_dependency fs excludes r (roots, pending) =
     (if admits fs excludes (normalize_lexical_path r)
      then (bset_insert (normalize_lexical_path r) roots,
            if normalize_lexical_path r \<in> set roots then pending else normalize_lexical_path r # pending)
      else (roots, pending))"
  by (auto simp: push_dependency_def insert_explicit_path_dependency_root_def admits_def Let_def)

lemma worklist_grows:
  assumes "R1 = insert n R" "P \<subseteq> P1" "P1 \<subseteq> insert n P" "n \<in> R \<union> P1"
    and "R' = R1 \<union> D" "P1 \<subseteq> P'" "P' \<subseteq> P1 \<union> R'" "R' - R1 \<subseteq> P'"
  shows "R' = R \<union> insert n D \<and> P \<subseteq> P' \<and> P' \<subseteq> P \<union> R' \<and> R' - R \<subseteq> P'"
  using assms by (intro conjI) auto

lemma fold_push_dependency:
  "fold (push_dependency fs excludes) rs (roots, pending) = (roots', pending') \<Longrightarrow>
   set roots' = set roots \<union> {d. \<exists>r \<in> set rs. d = normalize_lexical_path r \<and> admits fs excludes d} \<and>
   set pending \<subseteq> set pending' \<and> set pending' \<subseteq> set pending \<union> set roots' \<and>
   set roots' - set roots \<subseteq> set pending' \<and> (ascending roots \<longrightarrow> ascending roots')"
proof (induction rs arbitrary: roots pending)
  case (Cons r rs)
  obtain roots1 pending1 where one: "push_dependency fs excludes r (roots, pending) = (roots1, pending1)"
    by fastforce
  with Cons.prems have "fold (push_dependency fs excludes) rs (roots1, pending1) = (roots', pending')"
    by simp
  note IH = Cons.IH [OF this]
  show ?case
  proof (cases "admits fs excludes (normalize_lexical_path r)")
    case True
    with one have "roots1 = bset_insert (normalize_lexical_path r) roots"
      "pending1 = (if normalize_lexical_path r \<in> set roots then pending else normalize_lexical_path r # pending)"
      by (auto simp: push_dependency_eq)
    note step = this
    have D: "{d. \<exists>r' \<in> set (r # rs). d = normalize_lexical_path r' \<and> admits fs excludes d} =
      insert (normalize_lexical_path r) {d. \<exists>r' \<in> set rs. d = normalize_lexical_path r' \<and> admits fs excludes d}"
      using True by auto
    have "set roots1 = insert (normalize_lexical_path r) (set roots)" "set pending \<subseteq> set pending1"
      "set pending1 \<subseteq> insert (normalize_lexical_path r) (set pending)"
      "normalize_lexical_path r \<in> set roots \<union> set pending1" "ascending roots \<longrightarrow> ascending roots1"
      using step by auto
    note step1 = this
    note ih = IH [THEN conjunct1] IH [THEN conjunct2, THEN conjunct1]
      IH [THEN conjunct2, THEN conjunct2, THEN conjunct1]
      IH [THEN conjunct2, THEN conjunct2, THEN conjunct2, THEN conjunct1]
    from IH step1(5) have "ascending roots \<longrightarrow> ascending roots'" by simp
    with worklist_grows [OF step1(1-4) ih] show ?thesis unfolding D by (elim conjE) (intro conjI; assumption)
  next
    case False
    with one IH show ?thesis by (auto simp: push_dependency_eq)
  qed
qed auto

definition loop_inv ::
  "file_system \<Rightarrow> manifest_loader \<Rightarrow> path list \<Rightarrow> path list \<Rightarrow> path list \<Rightarrow> path list \<Rightarrow> path list \<Rightarrow> bool" where
  "loop_inv fs load excludes start pending visited roots \<longleftrightarrow>
     ascending roots \<and> set start \<subseteq> set roots \<and> set roots \<subseteq> (dependency_edges fs load excludes)\<^sup>* `` set start \<and>
     set pending \<subseteq> set roots \<and> set visited \<subseteq> set roots \<and> set roots \<subseteq> set visited \<union> set pending \<and>
     (\<forall>r \<in> set visited. dependency_roots_of fs load excludes r \<subseteq> set roots)"

lemma loop_inv_step:
  assumes inv: "loop_inv fs load excludes start (r # pending) visited roots"
    and st: "fold (push_dependency fs excludes)
      (path_dependency_roots (parse_cargo_manifest (fs_is_file fs) load r)) (roots, pending) = (roots', pending')"
  shows "loop_inv fs load excludes start pending' (bset_insert r visited) roots'"
proof -
  note f = fold_push_dependency [OF st]
  have new: "set roots' = set roots \<union> dependency_roots_of fs load excludes r"
    using f by (simp add: dependency_roots_of_def)
  have pend: "set pending \<subseteq> set pending'" "set pending' \<subseteq> set pending \<union> set roots'"
    "set roots' - set roots \<subseteq> set pending'" "ascending roots \<longrightarrow> ascending roots'"
    using f by blast+
  have r: "r \<in> (dependency_edges fs load excludes)\<^sup>* `` set start"
    using inv by (auto simp: loop_inv_def)
  have "dependency_roots_of fs load excludes r \<subseteq> (dependency_edges fs load excludes)\<^sup>* `` set start"
    using r by (auto simp: dependency_edges_def intro: rtrancl_into_rtrancl)
  with inv pend new show ?thesis unfolding loop_inv_def by auto
qed

lemma closed_rtrancl:
  assumes "set start \<subseteq> R" "\<And>r d. r \<in> R \<Longrightarrow> (r, d) \<in> E \<Longrightarrow> d \<in> R"
  shows "E\<^sup>* `` set start \<subseteq> R"
proof
  fix q assume "q \<in> E\<^sup>* `` set start"
  then obtain p where "p \<in> set start" "(p, q) \<in> E\<^sup>*" by blast
  with assms(1) have "p \<in> R" by blast
  from \<open>(p, q) \<in> E\<^sup>*\<close> this show "q \<in> R" by (induction rule: rtrancl_induct) (auto intro: assms(2))
qed

lemma path_dependency_loop_returns:
  assumes fin: "finite ((dependency_edges fs load excludes)\<^sup>* `` set start)" (is "finite ?C")
    and "loop_inv fs load excludes start pending visited roots"
  shows "\<exists>out. path_dependency_loop fs load excludes pending visited roots = Some out \<and>
    ascending out \<and> set out = ?C"
  using assms(2)
proof (induction "(card (?C - set visited), length pending)" arbitrary: pending visited roots
    rule: less_induct)
  case less
  note unfold = path_dependency_loop.simps [of fs load excludes pending visited roots]
  show ?case
  proof (cases pending)
    case Nil
    with less.prems have "set roots = set visited" "set roots \<subseteq> ?C" "ascending roots"
      by (auto simp: loop_inv_def)
    moreover have "?C \<subseteq> set roots"
      using less.prems Nil by (intro closed_rtrancl) (auto simp: loop_inv_def dependency_edges_def)
    ultimately show ?thesis unfolding unfold using Nil by simp
  next
    case (Cons r rest)
    show ?thesis
    proof (cases "r \<in> set visited")
      case True
      from less.prems Cons True have "loop_inv fs load excludes start rest visited roots"
        by (auto simp: loop_inv_def)
      with less.hyps [of visited rest roots] Cons True show ?thesis unfolding unfold by simp
    next
      case False
      obtain roots' pending' where st: "fold (push_dependency fs excludes)
          (path_dependency_roots (parse_cargo_manifest (fs_is_file fs) load r)) (roots, rest) = (roots', pending')"
        by fastforce
      note inv' = loop_inv_step [OF less.prems [unfolded Cons] st]
      have "r \<in> ?C" using less.prems Cons by (auto simp: loop_inv_def)
      with False fin have "card (?C - set (bset_insert r visited)) < card (?C - set visited)"
        by (intro psubset_card_mono) auto
      with less.hyps [OF _ inv'] Cons False st show ?thesis unfolding unfold by simp
    qed
  qed
qed

lemma insert_path_dependency_roots_closure:
  assumes "finite ((dependency_edges fs load excludes)\<^sup>* `` set roots)" "ascending roots"
  shows "\<exists>out. insert_path_dependency_roots fs load excludes roots = Some out \<and> ascending out \<and>
    set out = (dependency_edges fs load excludes)\<^sup>* `` set roots"
  unfolding insert_path_dependency_roots_def
  by (rule path_dependency_loop_returns [OF assms(1)]) (use assms(2) in \<open>auto simp: loop_inv_def\<close>)

lemma dependency_closure_finite:
  assumes "finite {p. fs_is_file fs (path_push p ''Cargo.toml'')}"
  shows "finite ((dependency_edges fs load excludes)\<^sup>* `` set roots)"
proof (rule finite_subset)
  show "(dependency_edges fs load excludes)\<^sup>* `` set roots \<subseteq>
      set roots \<union> {p. fs_is_file fs (path_push p ''Cargo.toml'')}"
    by (auto elim!: rtranclE simp: dependency_edges_def dependency_roots_of_def admits_def)
qed (use assms in simp)


lemma path_push_manifest [simp]: "path_push p ''Cargo.toml'' = p @ [Normal ''Cargo.toml'']"
  by (simp add: path_of_string_name wf_name_def)

lemma finite_manifest_dirs:
  assumes "finite (dom fs)"
  shows "finite {p. fs_is_file fs (path_push p ''Cargo.toml'')}"
proof (rule finite_subset)
  show "{p. fs_is_file fs (path_push p ''Cargo.toml'')} \<subseteq> (\<lambda>p. p @ [Normal ''Cargo.toml'']) -` dom fs"
    by (auto simp: fs_is_file_def split: option.splits)
  show "finite ((\<lambda>p. p @ [Normal ''Cargo.toml'']) -` dom fs)"
    by (rule finite_vimageI [OF assms]) (simp add: inj_def)
qed

section \<open>Workspace members\<close>

definition member_admitted ::
  "file_system \<Rightarrow> path \<Rightarrow> string list \<Rightarrow> string list \<Rightarrow> path list \<Rightarrow> path \<Rightarrow> bool" where
  "member_admitted fs project_root ignored hidden excludes root \<longleftrightarrow>
     admits fs excludes root \<and>
     (\<exists>relative. root = normalize_lexical_path project_root @ relative \<and>
        \<not> ignored_path_contains_ignored_segment relative ignored hidden)"

lemma insert_package_root_eq:
  "insert_package_root fs project_root ignored hidden excludes roots package_root =
     (if member_admitted fs project_root ignored hidden excludes (normalize_lexical_path package_root)
      then bset_insert (normalize_lexical_path package_root) roots else roots)"
proof (cases "path_starts_with (normalize_lexical_path package_root) (normalize_lexical_path project_root)")
  case True
  then obtain q where "normalize_lexical_path package_root = normalize_lexical_path project_root @ q"
    by (auto simp: path_starts_with_iff)
  then show ?thesis
    by (auto simp: insert_package_root_def member_admitted_def admits_def Let_def path_starts_with_iff)
next
  case False
  then show ?thesis
    by (auto simp: insert_package_root_def member_admitted_def Let_def path_starts_with_iff)
qed

lemma fold_insert_package_root:
  "set (fold (\<lambda>m roots. insert_package_root fs project_root ignored hidden excludes roots m) ms roots) =
     set roots \<union> {r. \<exists>m \<in> set ms. r = normalize_lexical_path m \<and>
       member_admitted fs project_root ignored hidden excludes r}"
  "ascending roots \<Longrightarrow>
   ascending (fold (\<lambda>m roots. insert_package_root fs project_root ignored hidden excludes roots m) ms roots)"
  by (induction ms arbitrary: roots) (auto simp: insert_package_root_eq)

lemma fold_members:
  "set (fold (\<lambda>pattern roots.
       fold (\<lambda>m roots. insert_package_root fs project_root ignored hidden excludes roots m)
         (expand pattern) roots) patterns roots) =
     set roots \<union> {r. \<exists>pattern \<in> set patterns. \<exists>m \<in> set (expand pattern). r = normalize_lexical_path m \<and>
       member_admitted fs project_root ignored hidden excludes r}"
  "ascending roots \<Longrightarrow> ascending (fold (\<lambda>pattern roots.
       fold (\<lambda>m roots. insert_package_root fs project_root ignored hidden excludes roots m)
         (expand pattern) roots) patterns roots)"
  by (induction patterns arbitrary: roots) (auto simp: fold_insert_package_root)

definition start_roots ::
  "file_system \<Rightarrow> manifest_loader \<Rightarrow> path \<Rightarrow> string list \<Rightarrow> string list \<Rightarrow> path set" where
  "start_roots fs load project_root ignored hidden =
     (let facts = parse_cargo_manifest (fs_is_file fs) load project_root;
          excludes = map (\<lambda>pattern. path_push project_root pattern) (facts_workspace_excludes facts)
      in if facts_workspace_members facts = [] then {project_root}
         else {r. r = project_root \<and> has_package facts} \<union>
           {r. \<exists>pattern \<in> set (facts_workspace_members facts).
              \<exists>m \<in> set (expand_workspace_member_pattern fs project_root pattern ignored hidden).
              r = normalize_lexical_path m \<and> member_admitted fs project_root ignored hidden excludes r})"

definition workspace_exclude_roots :: "file_system \<Rightarrow> manifest_loader \<Rightarrow> path \<Rightarrow> path list" where
  "workspace_exclude_roots fs load project_root =
     (let facts = parse_cargo_manifest (fs_is_file fs) load project_root
      in if facts_workspace_members facts = [] then []
         else map (\<lambda>pattern. path_push project_root pattern) (facts_workspace_excludes facts))"

lemma workspace_member_roots_correct:
  "ascending (workspace_member_roots fs project_root ignored hidden excludes facts) \<and>
   set (workspace_member_roots fs project_root ignored hidden excludes facts) =
     {r. r = project_root \<and> has_package facts} \<union>
     {r. \<exists>pattern \<in> set (facts_workspace_members facts).
        \<exists>m \<in> set (expand_workspace_member_pattern fs project_root pattern ignored hidden).
        r = normalize_lexical_path m \<and> member_admitted fs project_root ignored hidden excludes r}"
  unfolding workspace_member_roots_def by (auto simp: fold_members)

text \<open>
  C35: on a file system with finitely many manifests, \<open>discover_cargo_package_roots\<close> returns, and its
  result lists in ascending order, once each, exactly the package roots reachable by path
  dependencies that are admitted (a manifest exists, no exclude covers them) from the start roots: the
  project root when no workspace members are declared, otherwise the project root if it is
  a package and every admitted workspace member.
\<close>

theorem discover_cargo_package_roots_closure:
  assumes "finite {p. fs_is_file fs (path_push p ''Cargo.toml'')}"
    and "fs_is_file fs (path_push project_root ''Cargo.toml'')"
  shows "\<exists>roots. discover_cargo_package_roots fs load project_root ignored hidden = Some roots \<and>
    ascending roots \<and> set roots =
      (dependency_edges fs load (workspace_exclude_roots fs load project_root))\<^sup>* ``
        start_roots fs load project_root ignored hidden"
proof -
  let ?facts = "parse_cargo_manifest (fs_is_file fs) load project_root"
  note closure = insert_path_dependency_roots_closure [OF dependency_closure_finite [OF assms(1)]]
  show ?thesis
  proof (cases "facts_workspace_members ?facts = []")
    case True
    with assms(2) closure [of "[project_root]" load "[]"] show ?thesis
      by (simp add: discover_cargo_package_roots_def discover_package_roots_from_manifest_def
          start_roots_def workspace_exclude_roots_def Let_def)
  next
    case False
    let ?ex = "map (\<lambda>pattern. path_push project_root pattern) (facts_workspace_excludes ?facts)"
    let ?ws = "workspace_member_roots fs project_root ignored hidden ?ex ?facts"
    have "set ?ws = start_roots fs load project_root ignored hidden"
      using False by (simp add: start_roots_def workspace_member_roots_correct Let_def)
    with False assms(2) closure [of ?ws load ?ex] show ?thesis
      by (simp add: discover_cargo_package_roots_def discover_package_roots_from_manifest_def
          workspace_exclude_roots_def workspace_member_roots_correct Let_def)
  qed
qed


text \<open>A package at \<open>/ws\<close> with a path dependency on the package at \<open>/ws/core\<close>.\<close>

definition sample_manifest :: "string \<Rightarrow> deps_set \<Rightarrow> manifest" where
  "sample_manifest name dependencies = \<lparr>
     m_package = Some \<lparr>package_name = name, package_edition = ''2024''\<rparr>, m_workspace = None,
     m_dependencies = dependencies, m_dev_dependencies = [], m_build_dependencies = [], m_target = [],
     m_lib = None, m_bin = [], m_test = [], m_example = [], m_bench = []\<rparr>"

definition sample_dependency :: "string \<Rightarrow> dependency" where
  "sample_dependency p = \<lparr>dep_shape = Detailed (Some p), dep_detail_path = Some p, dep_optional = False,
     dep_package = None, dep_req_features = [], dep_try_req = None\<rparr>"

definition sample_root :: path where
  "sample_root = [RootDir, Normal ''ws'']"

definition sample_load :: manifest_loader where
  "sample_load p =
     (if p = sample_root @ [Normal ''Cargo.toml''] then
        Ok (sample_manifest ''app'' [(''core'', sample_dependency ''./core'')])
      else if p = sample_root @ [Normal ''core'', Normal ''Cargo.toml''] then Ok (sample_manifest ''core'' [])
      else Err ''not found'')"

definition sample_fs :: file_system where
  "sample_fs = map_of
     [(sample_root, Dir_node True [(''Cargo.toml'', File_node), (''lib.rs'', File_node),
         (''core'', Dir_node True [(''Cargo.toml'', File_node), (''core.rs'', File_node)])]),
      (sample_root @ [Normal ''Cargo.toml''], File_node),
      (sample_root @ [Normal ''core'', Normal ''Cargo.toml''], File_node)]"

theorem discover_cargo_package_roots_closure_witness:
  "\<exists>roots. discover_cargo_package_roots sample_fs sample_load sample_root [] [] = Some roots \<and>
     ascending roots \<and> sample_root @ [Normal ''core''] \<in> set roots"
proof -
  have fin: "finite {p. fs_is_file sample_fs (path_push p ''Cargo.toml'')}"
    unfolding sample_fs_def by (rule finite_manifest_dirs) (rule finite_dom_map_of)
  have isf: "fs_is_file sample_fs (path_push sample_root ''Cargo.toml'')" by code_simp
  have none: "facts_workspace_members (parse_cargo_manifest (fs_is_file sample_fs) sample_load sample_root) = []"
    by code_simp
  have core: "normalize_lexical_path (hd (path_dependency_roots
      (parse_cargo_manifest (fs_is_file sample_fs) sample_load sample_root))) = sample_root @ [Normal ''core'']"
    and ne: "path_dependency_roots (parse_cargo_manifest (fs_is_file sample_fs) sample_load sample_root) \<noteq> []"
    and adm: "fs_is_file sample_fs (path_push (sample_root @ [Normal ''core'']) ''Cargo.toml'')"
    by code_simp+
  have "(sample_root, sample_root @ [Normal ''core'']) \<in> dependency_edges sample_fs sample_load []"
    using hd_in_set [OF ne] core [symmetric] adm
    unfolding dependency_edges_def dependency_roots_of_def admits_def is_excluded_member_def by auto
  then have "sample_root @ [Normal ''core''] \<in> (dependency_edges sample_fs sample_load
      (workspace_exclude_roots sample_fs sample_load sample_root))\<^sup>* ``
        start_roots sample_fs sample_load sample_root [] []"
    using none by (auto simp: start_roots_def workspace_exclude_roots_def Let_def)
  with discover_cargo_package_roots_closure [OF fin isf, of sample_load "[]" "[]"] show ?thesis by auto
qed

text \<open>
  Whenever the roots of the other packages are known, \<open>discover_rust_package_files\<close> returns, in
  ascending order, exactly the Rust files below the start paths that no ignored name, symbolic
  link or directory belonging to another package hides: a package walk never enters another package.
\<close>

lemma discover_rust_package_files_respects_boundary:
  assumes "cargo_package_exclusion_roots fs load package_root ignored hidden = Some excluded"
  shows "\<exists>files. discover_rust_package_files fs load paths package_root ignored hidden = Some files \<and>
    ascending files \<and> set files =
      {q. \<exists>p node names. p \<in> set paths \<and> fs p = Some node \<and> q = p @ map Normal names \<and>
         descends node names File_node \<and> list_all (visible ignored hidden) names \<and> is_rust_file q \<and>
         (\<forall>k < length names. normalize_lexical_path (p @ map Normal (take k names)) \<notin> set excluded)}"
proof -
  have "discover_rust_package_files fs load paths package_root ignored hidden =
      Some (boundary_walk fs excluded ignored hidden paths [])"
    by (simp add: discover_rust_package_files_def assms boundary_walk_def)
  then show ?thesis
    by (auto simp: boundary_walk_set ascending_boundary_walk rust_files_below_def)
qed



lemma discover_cargo_package_roots_returns:
  assumes "finite {p. fs_is_file fs (path_push p ''Cargo.toml'')}"
  shows "discover_cargo_package_roots fs load project_root ignored hidden \<noteq> None"
proof -
  note closure = insert_path_dependency_roots_closure [OF dependency_closure_finite [OF assms]]
  have "discover_package_roots_from_manifest fs load project_root ignored hidden \<noteq> None"
    using closure [of "[project_root]"] closure [OF workspace_member_roots_correct [THEN conjunct1]]
    by (fastforce simp: discover_package_roots_from_manifest_def Let_def)
  then show ?thesis by (simp add: discover_cargo_package_roots_def)
qed

end
