(* ===== verification/Workspace_Build_Dag.thy ===== *)
theory Workspace_Build_Dag
  imports Dependency_Order Package_Graph Discovery
begin

text \<open>
  \<open>src/workspace_dependency_graph.rs\<close>: deriving the dependency-first Build DAG of a Cargo workspace
  from package discovery, workspace membership, the dependency edges and the depth-first order.

  A derivation is an \<open>option\<close> of a \<open>result\<close>: \<open>None\<close> when the call does not return (package discovery runs
  forever, or an \<open>expect\<close> panics), \<open>Some\<close> of an error message or of the derivation otherwise. Of the
  configuration only the two name sets matter, which are arguments here.
\<close>

record workspace_package_catalog =
  facts_by_root :: "(path \<times> cargo_package_graph_facts) list"
  root_by_name :: "(string \<times> path) list"
  discovered_package_root_count :: nat
  parsed_manifest_count :: nat

record asp_rust_workspace_build_dag_package =
  dag_package_name :: string
  dag_package_root :: path
  local_dependencies :: "string list"
  execution_index :: nat

record asp_rust_workspace_build_dag =
  schema_id :: string
  schema_version :: string
  dag_workspace_root :: path
  dag_packages :: "asp_rust_workspace_build_dag_package list"

record asp_rust_workspace_build_dag_metrics =
  metrics_discovered_package_root_count :: nat
  admitted_package_count :: nat
  metrics_parsed_manifest_count :: nat
  local_dependency_edge_count :: nat

record asp_rust_workspace_build_dag_derivation =
  build_dag :: asp_rust_workspace_build_dag
  metrics :: asp_rust_workspace_build_dag_metrics

section \<open>The catalog of packages\<close>

definition insert_unique_dependency_graph_package ::
  "(string \<times> path) list \<Rightarrow> path \<Rightarrow> cargo_package_graph_facts \<Rightarrow> (string \<times> path) list result" where
  "insert_unique_dependency_graph_package names root facts =
     (case bmap_get names (graph_package_name facts) of
        None \<Rightarrow> Ok (bmap_insert (graph_package_name facts) root names)
      | Some previous \<Rightarrow>
          Err (''Cargo dependency graph has duplicate local package name `'' @ graph_package_name facts @
               ''` at '' @ display previous @ '' and '' @ display root))"

fun catalog_packages ::
  "(path \<times> cargo_package_graph_facts) list \<Rightarrow> (path \<times> cargo_package_graph_facts) list \<Rightarrow>
   (string \<times> path) list \<Rightarrow> ((path \<times> cargo_package_graph_facts) list \<times> (string \<times> path) list) result"
where
  "catalog_packages [] by_root by_name = Ok (by_root, by_name)"
| "catalog_packages ((package_root, facts) # rest) by_root by_name =
     (let root = normalize_lexical_path package_root in
      and_then (insert_unique_dependency_graph_package by_name root facts)
        (\<lambda>by_name'. catalog_packages rest (bmap_insert root facts by_root) by_name'))"

definition discover_dependency_graph_packages ::
  "file_system \<Rightarrow> manifest_loader \<Rightarrow> ('g, 's) globset \<Rightarrow> string list \<Rightarrow> string list \<Rightarrow> path \<Rightarrow>
   workspace_package_catalog result option" where
  "discover_dependency_graph_packages fs load gs ignored hidden workspace_root =
     map_option
       (\<lambda>discovered_roots.
          if discovered_roots = []
          then Err (''Cargo dependency graph contains no packages: '' @ display workspace_root)
          else and_then (retain_cargo_workspace_member_roots load gs workspace_root discovered_roots)
            (\<lambda>package_roots. and_then
               (parse_required_cargo_workspace_package_graph_facts load package_roots workspace_root)
               (\<lambda>graph_facts. map_ok
                  (\<lambda>(by_root, by_name). \<lparr>facts_by_root = by_root, root_by_name = by_name,
                     discovered_package_root_count = length discovered_roots,
                     parsed_manifest_count = graph_parsed_manifest_count graph_facts\<rparr>)
                  (catalog_packages (graph_packages graph_facts) [] []))))
       (discover_cargo_package_roots fs load workspace_root ignored hidden)"

section \<open>Dependency names\<close>

definition local_dependency_names ::
  "cargo_package_graph_facts \<Rightarrow> (path \<times> cargo_package_graph_facts) list \<Rightarrow> string list" where
  "local_dependency_names facts by_root =
     remdups_adj (sort (List.map_filter
       (\<lambda>dependency_root. map_option graph_package_name
          (bmap_get by_root (normalize_lexical_path dependency_root)))
       (local_dependency_roots facts)))"

text \<open>
  The \<open>debug_assert_eq\<close> of the closure is compiled out of a release build; that it holds is part
  of the catalog invariant below.
\<close>

definition dependency_names_by_package ::
  "(path \<times> cargo_package_graph_facts) list \<Rightarrow> dependency_map" where
  "dependency_names_by_package by_root =
     bmap_of_list (map (\<lambda>(root, facts). (graph_package_name facts, local_dependency_names facts by_root)) by_root)"

section \<open>The Build DAG\<close>

definition materialize_package ::
  "(string \<times> path) list \<Rightarrow> dependency_map \<Rightarrow> nat \<times> string \<Rightarrow> asp_rust_workspace_build_dag_package option" where
  "materialize_package by_name dependencies_by_name = (\<lambda>(index, name).
     Option.bind (bmap_get by_name name)
       (\<lambda>root. map_option
          (\<lambda>dependencies. \<lparr>dag_package_name = name, dag_package_root = root,
             local_dependencies = dependencies, execution_index = index\<rparr>)
          (bmap_get dependencies_by_name name)))"

definition materialize_dependency_graph_packages ::
  "string list \<Rightarrow> (string \<times> path) list \<Rightarrow> dependency_map \<Rightarrow>
   asp_rust_workspace_build_dag_package list option" where
  "materialize_dependency_graph_packages names by_name dependencies_by_name =
     those (map (materialize_package by_name dependencies_by_name) (enumerate 0 names))"

definition derive_build_dag ::
  "path \<Rightarrow> workspace_package_catalog \<Rightarrow> asp_rust_workspace_build_dag_derivation result option" where
  "derive_build_dag workspace_root catalog =
     (let dependencies_by_name = dependency_names_by_package (facts_by_root catalog);
          workspace_packages = bmap_keys (root_by_name catalog)
      in case dependency_first_package_order workspace_packages dependencies_by_name of
           Inl e \<Rightarrow> Some (Err e)
         | Inr names \<Rightarrow>
             map_option
               (\<lambda>packages. Ok \<lparr>
                  build_dag = \<lparr>schema_id = ''asp-rust.workspace-build-dag'', schema_version = ''1'',
                    dag_workspace_root = workspace_root, dag_packages = packages\<rparr>,
                  metrics = \<lparr>
                    metrics_discovered_package_root_count = discovered_package_root_count catalog,
                    admitted_package_count = length packages,
                    metrics_parsed_manifest_count = parsed_manifest_count catalog,
                    local_dependency_edge_count = sum_list (map length (bmap_values dependencies_by_name))\<rparr>\<rparr>)
               (materialize_dependency_graph_packages names (root_by_name catalog) dependencies_by_name))"

definition asp_rust_workspace_build_dag_with_metrics ::
  "file_system \<Rightarrow> manifest_loader \<Rightarrow> ('g, 's) globset \<Rightarrow> string list \<Rightarrow> string list \<Rightarrow> path \<Rightarrow>
   asp_rust_workspace_build_dag_derivation result option" where
  "asp_rust_workspace_build_dag_with_metrics fs load gs ignored hidden workspace_path =
     (let workspace_root = normalize_lexical_path workspace_path in
      case discover_dependency_graph_packages fs load gs ignored hidden workspace_root of
        None \<Rightarrow> None
      | Some (Inl e) \<Rightarrow> Some (Err e)
      | Some (Inr catalog) \<Rightarrow> derive_build_dag workspace_root catalog)"

definition asp_rust_workspace_build_dag_of ::
  "file_system \<Rightarrow> manifest_loader \<Rightarrow> ('g, 's) globset \<Rightarrow> string list \<Rightarrow> string list \<Rightarrow> path \<Rightarrow>
   asp_rust_workspace_build_dag result option" where
  "asp_rust_workspace_build_dag_of fs load gs ignored hidden workspace_root =
     map_option (map_ok build_dag)
       (asp_rust_workspace_build_dag_with_metrics fs load gs ignored hidden workspace_root)"

text \<open>\<open>manifest_dir\<close> is the value of the environment variable \<open>CARGO_MANIFEST_DIR\<close>, if set.\<close>

definition asp_rust_workspace_build_dag_from_env_with_metrics ::
  "file_system \<Rightarrow> manifest_loader \<Rightarrow> ('g, 's) globset \<Rightarrow> string list \<Rightarrow> string list \<Rightarrow> string option \<Rightarrow>
   asp_rust_workspace_build_dag_derivation result option" where
  "asp_rust_workspace_build_dag_from_env_with_metrics fs load gs ignored hidden manifest_dir =
     (case and_then (ok_or ''CARGO_MANIFEST_DIR is required for ASP Rust workspace policy''
               (map_option path_of_string manifest_dir))
             (find_required_cargo_workspace_root (fs_is_file fs) load) of
        Inl e \<Rightarrow> Some (Err e)
      | Inr workspace_root \<Rightarrow>
          asp_rust_workspace_build_dag_with_metrics fs load gs ignored hidden workspace_root)"

definition asp_rust_workspace_build_dag_from_env ::
  "file_system \<Rightarrow> manifest_loader \<Rightarrow> ('g, 's) globset \<Rightarrow> string list \<Rightarrow> string list \<Rightarrow> string option \<Rightarrow>
   asp_rust_workspace_build_dag result option" where
  "asp_rust_workspace_build_dag_from_env fs load gs ignored hidden manifest_dir =
     map_option (map_ok build_dag)
       (asp_rust_workspace_build_dag_from_env_with_metrics fs load gs ignored hidden manifest_dir)"

section \<open>The catalog invariant\<close>

definition catalog_inv ::
  "(path \<times> cargo_package_graph_facts) list \<Rightarrow> (string \<times> path) list \<Rightarrow> bool" where
  "catalog_inv by_root by_name \<longleftrightarrow> ascending (bmap_keys by_root) \<and> ascending (bmap_keys by_name) \<and>
     (\<forall>name root. bmap_get by_name name = Some root \<longleftrightarrow>
        (\<exists>facts. bmap_get by_root root = Some facts \<and> graph_package_name facts = name))"

lemma catalog_inv_step:
  assumes "catalog_inv by_root by_name" "bmap_get by_root root = None"
    and "insert_unique_dependency_graph_package by_name root facts = Ok by_name'"
  shows "catalog_inv (bmap_insert root facts by_root) by_name'"
proof -
  from assms(3) have "bmap_get by_name (graph_package_name facts) = None"
    and new: "by_name' = bmap_insert (graph_package_name facts) root by_name"
    by (auto simp: insert_unique_dependency_graph_package_def split: option.splits)
  note fresh = this(1)
  have asc: "ascending (bmap_keys by_root)" "ascending (bmap_keys by_name)"
    and iff: "\<And>name r. bmap_get by_name name = Some r \<longleftrightarrow>
      (\<exists>f. bmap_get by_root r = Some f \<and> graph_package_name f = name)"
    using assms(1) by (auto simp: catalog_inv_def)
  have "bmap_get by_name' name = Some r \<longleftrightarrow>
      (\<exists>f. bmap_get (bmap_insert root facts by_root) r = Some f \<and> graph_package_name f = name)" for name r
    using iff [of name r] fresh assms(2) asc new
    by (cases "r = root"; cases "name = graph_package_name facts") (auto simp: bmap_simps)
  with asc new show ?thesis by (simp add: catalog_inv_def bmap_simps)
qed

lemma catalog_packages_inv:
  assumes "catalog_packages ps by_root by_name = Ok (by_root', by_name')" "catalog_inv by_root by_name"
    and "distinct (map (normalize_lexical_path \<circ> fst) ps)"
    and "\<forall>p \<in> set ps. bmap_get by_root (normalize_lexical_path (fst p)) = None"
  shows "catalog_inv by_root' by_name' \<and>
    bmap_get by_root' = bmap_get by_root ++ map_of (map (apfst normalize_lexical_path) ps)"
  using assms
proof (induction ps by_root by_name rule: catalog_packages.induct)
  case (2 package_root facts rest by_root by_name)
  let ?root = "normalize_lexical_path package_root"
  from "2.prems"(1) obtain by_name1 where
    one: "insert_unique_dependency_graph_package by_name ?root facts = Ok by_name1"
      "catalog_packages rest (bmap_insert ?root facts by_root) by_name1 = Ok (by_root', by_name')"
    by (auto simp: Let_def result_iffs)
  have asc: "ascending (bmap_keys by_root)" using "2.prems"(2) by (simp add: catalog_inv_def)
  have inv1: "catalog_inv (bmap_insert ?root facts by_root) by_name1"
    using catalog_inv_step "2.prems"(2,4) one(1) by simp
  have fresh: "\<forall>p \<in> set rest. bmap_get (bmap_insert ?root facts by_root) (normalize_lexical_path (fst p)) = None"
    using "2.prems"(3,4) asc by (force simp: bmap_simps)
  have "?root \<notin> dom (map_of (map (apfst normalize_lexical_path) rest))"
    using "2.prems"(3) by (simp add: dom_map_of_conv_image_fst image_comp comp_def)
  then have upd: "(bmap_get by_root)(?root \<mapsto> facts) ++ map_of (map (apfst normalize_lexical_path) rest) =
      bmap_get by_root ++ (map_of (map (apfst normalize_lexical_path) rest))(?root \<mapsto> facts)"
    by (auto simp: map_add_def fun_eq_iff domIff split: option.splits)
  have "catalog_inv by_root' by_name' \<and> bmap_get by_root' =
      bmap_get (bmap_insert ?root facts by_root) ++ map_of (map (apfst normalize_lexical_path) rest)"
    by (rule "2.IH" [OF refl one(2) inv1 _ fresh]) (use "2.prems"(3) in simp)
  moreover have "bmap_get (bmap_insert ?root facts by_root) = (bmap_get by_root)(?root \<mapsto> facts)"
    using asc by (rule bmap_get_insert)
  ultimately show ?case using upd by (simp only: list.map map_of.simps apfst_conv fst_conv snd_conv simp_thms)
qed simp


section \<open>The dependency map of a catalog\<close>

lemma catalog_names_distinct:
  assumes "catalog_inv by_root by_name"
  shows "distinct (map (\<lambda>(root, facts). graph_package_name facts) by_root)"
proof -
  have asc: "ascending (bmap_keys by_root)"
    and iff: "\<And>name r. bmap_get by_name name = Some r \<longleftrightarrow>
      (\<exists>f. bmap_get by_root r = Some f \<and> graph_package_name f = name)"
    using assms by (auto simp: catalog_inv_def)
  have "inj_on (\<lambda>(root, facts). graph_package_name facts) (set by_root)"
  proof (rule inj_onI)
    fix x y assume xy: "x \<in> set by_root" "y \<in> set by_root"
      "(\<lambda>(root, facts). graph_package_name facts) x = (\<lambda>(root, facts). graph_package_name facts) y"
    obtain r f r' f' where p: "x = (r, f)" "y = (r', f')" by fastforce
    with xy asc have g: "bmap_get by_root r = Some f" "bmap_get by_root r' = Some f'"
      by (auto simp: bmap_in_set_iff [symmetric])
    with iff xy(3) p have "bmap_get by_name (graph_package_name f) = Some r"
      "bmap_get by_name (graph_package_name f) = Some r'" by auto
    with g p show "x = y" by auto
  qed
  moreover have "distinct by_root" using ascending_distinct [OF asc] by (simp add: distinct_map)
  ultimately show ?thesis by (simp add: distinct_map)
qed

lemma dependency_names_get:
  assumes "catalog_inv by_root by_name"
  shows "bmap_get (dependency_names_by_package by_root) name = Some ds \<longleftrightarrow>
    (\<exists>root facts. bmap_get by_root root = Some facts \<and> graph_package_name facts = name \<and>
       ds = local_dependency_names facts by_root)"
proof -
  let ?l = "map (\<lambda>(root, facts). (graph_package_name facts, local_dependency_names facts by_root)) by_root"
  have "map fst ?l = map (\<lambda>(root, facts). graph_package_name facts) by_root" by auto
  with catalog_names_distinct [OF assms] have d: "distinct (map fst ?l)" by metis
  then have "map_of (rev ?l) = map_of ?l" by (rule map_of_rev)
  then have "bmap_get (dependency_names_by_package by_root) = map_of ?l"
    by (simp only: dependency_names_by_package_def bmap_get_of_list)
  with map_of_eq_Some_iff [OF d]
  have "bmap_get (dependency_names_by_package by_root) name = Some ds \<longleftrightarrow> (name, ds) \<in> set ?l" by simp
  moreover have "ascending (bmap_keys by_root)" using assms by (simp add: catalog_inv_def)
  ultimately show ?thesis by (force simp: bmap_in_set_iff [symmetric])
qed

lemma local_dependency_names_correct:
  "ascending (local_dependency_names facts by_root)"
  "set (local_dependency_names facts by_root) =
     {name. \<exists>r \<in> set (local_dependency_roots facts). \<exists>f.
        bmap_get by_root (normalize_lexical_path r) = Some f \<and> graph_package_name f = name}"
  by (auto simp: local_dependency_names_def set_map_filter)

lemma catalog_keys:
  assumes "catalog_inv by_root by_name"
  shows "set (bmap_keys (dependency_names_by_package by_root)) = set (bmap_keys by_name)"
proof -
  have "dom (bmap_get (dependency_names_by_package by_root)) = dom (bmap_get by_name)"
    using assms dependency_names_get [OF assms] by (auto simp: dom_def catalog_inv_def)
  then show ?thesis by (simp add: dom_map_of_conv_image_fst)
qed

lemma catalog_edges_closed:
  assumes "catalog_inv by_root by_name"
  shows "(edges (dependency_names_by_package by_root))\<^sup>* `` set (bmap_keys by_name) = set (bmap_keys by_name)"
proof -
  let ?E = "edges (dependency_names_by_package by_root)"
  have "d \<in> set (bmap_keys by_name)" if "(p, d) \<in> ?E" for p d
  proof -
    from that obtain ds where "bmap_get (dependency_names_by_package by_root) p = Some ds" "d \<in> set ds"
      by (auto simp: edges_def)
    then obtain facts r f where "bmap_get by_root r = Some f" "graph_package_name f = d"
      using dependency_names_get [OF assms] by (auto simp: local_dependency_names_correct)
    then have "bmap_get by_name d = Some r" using assms by (auto simp: catalog_inv_def)
    then show ?thesis by (force dest: map_of_SomeD)
  qed
  then have "?E\<^sup>* `` set (bmap_keys by_name) \<subseteq> set (bmap_keys by_name)"
    by (intro closed_rtrancl) auto
  then show ?thesis by blast
qed

text \<open>On a catalog the order is total up to cycles: no package is ever missing.\<close>

lemma catalog_order:
  assumes inv: "catalog_inv by_root by_name"
  shows "case dependency_first_package_order (bmap_keys by_name) (dependency_names_by_package by_root) of
      Inl e \<Rightarrow> \<exists>q \<in> set (bmap_keys by_name). e = cycle_error q \<and>
        (q, q) \<in> (edges (dependency_names_by_package by_root))\<^sup>+
    | Inr names \<Rightarrow> distinct names \<and> set names = set (bmap_keys by_name) \<and>
        dependency_first (dependency_names_by_package by_root) names"
proof (cases "dependency_first_package_order (bmap_keys by_name) (dependency_names_by_package by_root)")
  case (Inl e)
  have "bmap_get (dependency_names_by_package by_root) q \<noteq> None" if "q \<in> set (bmap_keys by_name)" for q
    using that catalog_keys [OF inv] by (simp add: map_of_eq_None_iff)
  with dependency_first_package_order_Err [OF Inl] Inl show ?thesis
    unfolding visit_error_def catalog_edges_closed [OF inv] by auto
next
  case (Inr names)
  with dependency_first_package_order_Ok [OF Inr] show ?thesis
    unfolding catalog_edges_closed [OF inv] by simp
qed

lemma materialize_total:
  assumes inv: "catalog_inv by_root by_name" and names: "set names \<subseteq> set (bmap_keys by_name)"
  obtains ps where "materialize_dependency_graph_packages names by_name (dependency_names_by_package by_root) = Some ps"
    "length ps = length names"
    "\<And>i. i < length names \<Longrightarrow> materialize_package by_name (dependency_names_by_package by_root) (i, names ! i) = Some (ps ! i)"
proof -
  let ?m = "materialize_package by_name (dependency_names_by_package by_root)"
  have some: "\<exists>p. ?m (i, names ! i) = Some p" if "i < length names" for i
  proof -
    have "names ! i \<in> set (bmap_keys by_name)" using that names by auto
    moreover from this have "names ! i \<in> set (bmap_keys (dependency_names_by_package by_root))"
      using catalog_keys [OF inv] by simp
    ultimately obtain r ds where "bmap_get by_name (names ! i) = Some r"
      "bmap_get (dependency_names_by_package by_root) (names ! i) = Some ds"
      by (metis (no_types, lifting) image_set map_of_eq_None_iff not_None_eq)
    then show ?thesis by (simp add: materialize_package_def)
  qed
  have those_map: "\<exists>ps. those (map f xs) = Some ps \<and> length ps = length xs \<and>
      (\<forall>i < length xs. f (xs ! i) = Some (ps ! i))"
    if "\<forall>x \<in> set xs. f x \<noteq> None" for f :: "nat \<times> string \<Rightarrow> asp_rust_workspace_build_dag_package option" and xs
    using that
  proof (induction xs)
    case (Cons x xs)
    then obtain p ps where "f x = Some p" "those (map f xs) = Some ps" "length ps = length xs"
      "\<forall>i < length xs. f (xs ! i) = Some (ps ! i)" by auto
    then show ?case by (auto simp: nth_Cons split: nat.splits)
  qed simp
  have "\<forall>x \<in> set (enumerate 0 names). ?m x \<noteq> None"
    using some by (auto simp: in_set_conv_nth nth_enumerate_eq)
  from those_map [OF this] that show thesis
    by (auto simp: materialize_dependency_graph_packages_def nth_enumerate_eq)
qed


section \<open>What a derivation promises\<close>

definition discovered_wf :: "file_system \<Rightarrow> manifest_loader \<Rightarrow> string list \<Rightarrow> string list \<Rightarrow> path \<Rightarrow> bool" where
  "discovered_wf fs load ignored hidden root \<longleftrightarrow>
     (case discover_cargo_package_roots fs load root ignored hidden of
        None \<Rightarrow> True | Some roots \<Rightarrow> list_all wf_path roots)"

lemma catalog_of_discovery:
  assumes cat: "discover_dependency_graph_packages fs load gs ignored hidden ws = Some (Ok catalog)"
    and wf: "discovered_wf fs load ignored hidden ws"
  obtains roots retained gf where
    "discover_cargo_package_roots fs load ws ignored hidden = Some roots"
    "retain_cargo_workspace_member_roots load gs ws roots = Ok retained"
    "parse_required_cargo_workspace_package_graph_facts load retained ws = Ok gf"
    "catalog_inv (facts_by_root catalog) (root_by_name catalog)"
    "bmap_get (facts_by_root catalog) = map_of (graph_packages gf)"
    "ascending retained" "map fst (graph_packages gf) = retained"
    "discovered_package_root_count catalog = length roots"
    "parsed_manifest_count catalog = length retained + 1"
proof -
  from cat obtain roots retained gf by_root by_name where
    r: "discover_cargo_package_roots fs load ws ignored hidden = Some roots"
      "retain_cargo_workspace_member_roots load gs ws roots = Ok retained"
      "parse_required_cargo_workspace_package_graph_facts load retained ws = Ok gf"
      "catalog_packages (graph_packages gf) [] [] = Ok (by_root, by_name)"
    and c: "catalog = \<lparr>facts_by_root = by_root, root_by_name = by_name,
       discovered_package_root_count = length roots,
       parsed_manifest_count = graph_parsed_manifest_count gf\<rparr>"
    by (auto simp: discover_dependency_graph_packages_def result_iffs split: if_splits)
  from parse_graph_facts_Ok [OF r(3)] have keys: "map fst (graph_packages gf) = retained"
    and cnt: "graph_parsed_manifest_count gf = length retained + 1" by metis+
  note ret = retain_cargo_workspace_member_roots_Ok [OF r(2)]
  have normal: "normalize_lexical_path p = p" if "p \<in> set retained" for p
  proof -
    from that ret obtain q where "q \<in> set roots" "p = normalize_lexical_path q" by auto
    with wf r(1) have "lexical_normal p"
      by (auto simp: discovered_wf_def list_all_iff intro: normalize_lexical_normal)
    then show ?thesis by (rule normalize_fixes_normal)
  qed
  have "fst x \<in> set retained" if "x \<in> set (graph_packages gf)" for x
    using that keys by force
  with normal have same: "map (apfst normalize_lexical_path) (graph_packages gf) = graph_packages gf"
    by (intro map_idI) (auto simp: apfst_def map_prod_def split: prod.splits)
  have "map (normalize_lexical_path \<circ> fst) (graph_packages gf) = retained"
    using arg_cong [OF same, of "map fst"] keys by (simp add: comp_def)
  then have dist: "distinct (map (normalize_lexical_path \<circ> fst) (graph_packages gf))"
    using ret by (simp add: ascending_distinct)
  from catalog_packages_inv [OF r(4) _ dist] have
    "catalog_inv by_root by_name" "bmap_get by_root = map_of (graph_packages gf)"
    by (auto simp: catalog_inv_def same)
  with that r c keys cnt ret show thesis by simp
qed

lemma derive_build_dag_cases:
  assumes inv: "catalog_inv (facts_by_root catalog) (root_by_name catalog)"
  obtains (cycle) q where "derive_build_dag ws catalog = Some (Err (cycle_error q))"
      "(q, q) \<in> (edges (dependency_names_by_package (facts_by_root catalog)))\<^sup>+"
  | (dag) names ps d where "derive_build_dag ws catalog = Some (Ok d)" "dag_packages (build_dag d) = ps"
      "distinct names" "set names = set (bmap_keys (root_by_name catalog))"
      "dependency_first (dependency_names_by_package (facts_by_root catalog)) names"
      "length ps = length names"
      "\<And>i. i < length names \<Longrightarrow> materialize_package (root_by_name catalog)
         (dependency_names_by_package (facts_by_root catalog)) (i, names ! i) = Some (ps ! i)"
      "metrics d = \<lparr>metrics_discovered_package_root_count = discovered_package_root_count catalog,
         admitted_package_count = length ps, metrics_parsed_manifest_count = parsed_manifest_count catalog,
         local_dependency_edge_count =
           sum_list (map length (bmap_values (dependency_names_by_package (facts_by_root catalog))))\<rparr>"
proof (cases "dependency_first_package_order (bmap_keys (root_by_name catalog))
    (dependency_names_by_package (facts_by_root catalog))")
  case (Inl e)
  with catalog_order [OF inv] cycle show thesis by (auto simp: derive_build_dag_def Let_def)
next
  case (Inr names)
  with catalog_order [OF inv] have n: "distinct names" "set names = set (bmap_keys (root_by_name catalog))"
    "dependency_first (dependency_names_by_package (facts_by_root catalog)) names" by auto
  obtain ps where ps: "materialize_dependency_graph_packages names (root_by_name catalog)
      (dependency_names_by_package (facts_by_root catalog)) = Some ps" "length ps = length names"
    "\<And>i. i < length names \<Longrightarrow> materialize_package (root_by_name catalog)
       (dependency_names_by_package (facts_by_root catalog)) (i, names ! i) = Some (ps ! i)"
    using materialize_total [OF inv, of names] n(2) by blast
  from Inr ps(1) n ps(2,3) show thesis
    by - (rule dag, auto simp: derive_build_dag_def Let_def)
qed


lemma build_dag_cases:
  assumes dag: "asp_rust_workspace_build_dag_with_metrics fs load gs ignored hidden ws = Some (Ok d)"
    and wf: "discovered_wf fs load ignored hidden (normalize_lexical_path ws)"
  obtains catalog names where
    "discover_dependency_graph_packages fs load gs ignored hidden (normalize_lexical_path ws) = Some (Ok catalog)"
    "catalog_inv (facts_by_root catalog) (root_by_name catalog)"
    "distinct names" "set names = set (bmap_keys (root_by_name catalog))"
    "dependency_first (dependency_names_by_package (facts_by_root catalog)) names"
    "length (dag_packages (build_dag d)) = length names"
    "\<And>i. i < length names \<Longrightarrow> materialize_package (root_by_name catalog)
       (dependency_names_by_package (facts_by_root catalog)) (i, names ! i) = Some (dag_packages (build_dag d) ! i)"
    "metrics d = \<lparr>metrics_discovered_package_root_count = discovered_package_root_count catalog,
       admitted_package_count = length (dag_packages (build_dag d)),
       metrics_parsed_manifest_count = parsed_manifest_count catalog,
       local_dependency_edge_count =
         sum_list (map length (bmap_values (dependency_names_by_package (facts_by_root catalog))))\<rparr>"
proof -
  from dag obtain catalog where c: "discover_dependency_graph_packages fs load gs ignored hidden
      (normalize_lexical_path ws) = Some (Ok catalog)"
    "derive_build_dag (normalize_lexical_path ws) catalog = Some (Ok d)"
    by (auto simp: asp_rust_workspace_build_dag_with_metrics_def Let_def split: option.splits sum.splits)
  from catalog_of_discovery [OF c(1) wf] have inv: "catalog_inv (facts_by_root catalog) (root_by_name catalog)" .
  from derive_build_dag_cases [OF inv, of "normalize_lexical_path ws"] c(2) that [OF c(1) inv]
  show thesis by cases auto
qed

lemma materialized_package:
  assumes "catalog_inv by_root by_name"
    and "materialize_package by_name (dependency_names_by_package by_root) (i, name) = Some p"
  obtains facts where "dag_package_name p = name" "execution_index p = i"
    "bmap_get by_root (dag_package_root p) = Some facts" "graph_package_name facts = name"
    "bmap_get by_name name = Some (dag_package_root p)"
    "local_dependencies p = local_dependency_names facts by_root"
    "bmap_get (dependency_names_by_package by_root) name = Some (local_dependencies p)"
proof -
  from assms(2) obtain root ds where g: "bmap_get by_name name = Some root"
    "bmap_get (dependency_names_by_package by_root) name = Some ds"
    "p = \<lparr>dag_package_name = name, dag_package_root = root, local_dependencies = ds, execution_index = i\<rparr>"
    by (auto simp: materialize_package_def bind_eq_Some_conv)
  from dependency_names_get [OF assms(1)] g(2) obtain root' facts where
    f: "bmap_get by_root root' = Some facts" "graph_package_name facts = name"
       "ds = local_dependency_names facts by_root" by blast
  with assms(1) have "bmap_get by_name name = Some root'" by (auto simp: catalog_inv_def)
  with g f that show thesis by simp
qed

lemma catalog_roots:
  assumes "catalog_inv by_root by_name"
  shows "{root. \<exists>name. bmap_get by_name name = Some root} = dom (bmap_get by_root)"
  using assms by (auto simp: catalog_inv_def)

lemma build_dag_shape:
  assumes dag: "asp_rust_workspace_build_dag_with_metrics fs load gs ignored hidden ws = Some (Ok d)"
    and wf: "discovered_wf fs load ignored hidden (normalize_lexical_path ws)"
    and ps: "ps = dag_packages (build_dag d)"
  obtains catalog where
    "discover_dependency_graph_packages fs load gs ignored hidden (normalize_lexical_path ws) = Some (Ok catalog)"
    "catalog_inv (facts_by_root catalog) (root_by_name catalog)"
    "distinct (map dag_package_name ps)" "set (map dag_package_name ps) = set (bmap_keys (root_by_name catalog))"
    "dependency_first (dependency_names_by_package (facts_by_root catalog)) (map dag_package_name ps)"
    "\<And>i. i < length ps \<Longrightarrow> materialize_package (root_by_name catalog)
       (dependency_names_by_package (facts_by_root catalog)) (i, dag_package_name (ps ! i)) = Some (ps ! i)"
    "metrics d = \<lparr>metrics_discovered_package_root_count = discovered_package_root_count catalog,
       admitted_package_count = length ps, metrics_parsed_manifest_count = parsed_manifest_count catalog,
       local_dependency_edge_count =
         sum_list (map length (bmap_values (dependency_names_by_package (facts_by_root catalog))))\<rparr>"
proof (rule build_dag_cases [OF dag wf])
  fix catalog names
  assume c: "discover_dependency_graph_packages fs load gs ignored hidden (normalize_lexical_path ws) = Some (Ok catalog)"
      "catalog_inv (facts_by_root catalog) (root_by_name catalog)"
    and n: "distinct names" "set names = set (bmap_keys (root_by_name catalog))"
      "dependency_first (dependency_names_by_package (facts_by_root catalog)) names"
      "length (dag_packages (build_dag d)) = length names"
    and m: "\<And>i. i < length names \<Longrightarrow> materialize_package (root_by_name catalog)
       (dependency_names_by_package (facts_by_root catalog)) (i, names ! i) = Some (dag_packages (build_dag d) ! i)"
    and metrics: "metrics d = \<lparr>metrics_discovered_package_root_count = discovered_package_root_count catalog,
       admitted_package_count = length (dag_packages (build_dag d)),
       metrics_parsed_manifest_count = parsed_manifest_count catalog,
       local_dependency_edge_count =
         sum_list (map length (bmap_values (dependency_names_by_package (facts_by_root catalog))))\<rparr>"
  have nth: "dag_package_name (ps ! i) = names ! i" if "i < length names" for i
    using materialized_package [OF c(2) m [OF that]] ps by metis
  have names: "map dag_package_name ps = names"
    by (rule nth_equalityI) (auto simp: ps n(4) nth [unfolded ps])
  show thesis
    by (rule that [OF c]) (use n m metrics nth in \<open>auto simp: names ps [symmetric]\<close>)
qed

lemma catalog_names_inj:
  assumes "catalog_inv by_root by_name" "bmap_get by_name x = Some r" "bmap_get by_name y = Some r"
  shows "x = y"
  using assms by (auto simp: catalog_inv_def)

lemma catalog_package_roots:
  assumes inv: "catalog_inv by_root by_name"
    and names: "distinct (map dag_package_name ps)" "set (map dag_package_name ps) = set (bmap_keys by_name)"
    and roots: "\<And>p. p \<in> set ps \<Longrightarrow> bmap_get by_name (dag_package_name p) = Some (dag_package_root p)"
  shows "distinct (map dag_package_root ps)" "set (map dag_package_root ps) = dom (bmap_get by_root)"
proof -
  have "inj_on dag_package_root (set ps)"
  proof (rule inj_onI)
    fix p q assume pq: "p \<in> set ps" "q \<in> set ps" "dag_package_root p = dag_package_root q"
    with roots catalog_names_inj [OF inv] have "dag_package_name p = dag_package_name q" by metis
    with pq names(1) show "p = q" by (auto simp: distinct_map inj_on_def)
  qed
  with names(1) show "distinct (map dag_package_root ps)" by (simp add: distinct_map)
  have "r \<in> set (map dag_package_root ps)" if r: "bmap_get by_name n = Some r" for n r
  proof -
    from r have "n \<in> set (map dag_package_name ps)" unfolding names(2) by (force dest: map_of_SomeD)
    then obtain p where "p \<in> set ps" "n = dag_package_name p" by auto
    with roots r show ?thesis by force
  qed
  with roots show "set (map dag_package_root ps) = dom (bmap_get by_root)"
    unfolding catalog_roots [OF inv, symmetric] by auto
qed

text \<open>
  C28: a derived Build DAG lists every admitted workspace package exactly once, numbers the packages by
  their position, and lists for each package, sorted and without repetition, dependencies that all
  stand earlier in the list: executing the packages by index never meets an unbuilt local dependency.
\<close>

theorem workspace_build_dag_dependency_first:
  assumes "asp_rust_workspace_build_dag_with_metrics fs load gs ignored hidden ws = Some (Ok d)"
    and "discovered_wf fs load ignored hidden (normalize_lexical_path ws)"
    and "ps = dag_packages (build_dag d)"
  shows "distinct (map dag_package_name ps) \<and> distinct (map dag_package_root ps) \<and>
    (\<exists>roots retained. discover_cargo_package_roots fs load (normalize_lexical_path ws) ignored hidden = Some roots \<and>
       retain_cargo_workspace_member_roots load gs (normalize_lexical_path ws) roots = Ok retained \<and>
       set (map dag_package_root ps) = set retained) \<and>
    (\<forall>i < length ps. execution_index (ps ! i) = i \<and> ascending (local_dependencies (ps ! i)) \<and>
       set (local_dependencies (ps ! i)) \<subseteq> set (map dag_package_name (take i ps)))"
proof (rule build_dag_shape [OF assms])
  fix catalog
  assume c: "discover_dependency_graph_packages fs load gs ignored hidden (normalize_lexical_path ws) = Some (Ok catalog)"
      "catalog_inv (facts_by_root catalog) (root_by_name catalog)"
    and n: "distinct (map dag_package_name ps)" "set (map dag_package_name ps) = set (bmap_keys (root_by_name catalog))"
      "dependency_first (dependency_names_by_package (facts_by_root catalog)) (map dag_package_name ps)"
    and m: "\<And>i. i < length ps \<Longrightarrow> materialize_package (root_by_name catalog)
       (dependency_names_by_package (facts_by_root catalog)) (i, dag_package_name (ps ! i)) = Some (ps ! i)"
  have nth: "execution_index (ps ! i) = i" "ascending (local_dependencies (ps ! i))"
    "bmap_get (root_by_name catalog) (dag_package_name (ps ! i)) = Some (dag_package_root (ps ! i))"
    "bmap_get (dependency_names_by_package (facts_by_root catalog)) (dag_package_name (ps ! i)) =
       Some (local_dependencies (ps ! i))" if "i < length ps" for i
    using materialized_package [OF c(2) m [OF that]] by (metis local_dependency_names_correct(1))+
  have deps: "set (local_dependencies (ps ! i)) \<subseteq> set (map dag_package_name (take i ps))"
    if "i < length ps" for i
    using n(3) nth(4) [of i] that by (fastforce simp: dependency_first_def take_map)
  have "bmap_get (root_by_name catalog) (dag_package_name p) = Some (dag_package_root p)" if "p \<in> set ps" for p
    using that nth(3) by (auto simp: in_set_conv_nth)
  note roots = catalog_package_roots [OF c(2) n(1,2) this]
  show ?thesis
  proof (rule catalog_of_discovery [OF c(1) assms(2)])
    fix discovered retained gf
    assume r: "discover_cargo_package_roots fs load (normalize_lexical_path ws) ignored hidden = Some discovered"
      "retain_cargo_workspace_member_roots load gs (normalize_lexical_path ws) discovered = Ok retained"
      and f: "bmap_get (facts_by_root catalog) = map_of (graph_packages gf)" "map fst (graph_packages gf) = retained"
    have "dom (bmap_get (facts_by_root catalog)) = set retained"
      by (simp add: f(1) dom_map_of_conv_image_fst flip: f(2))
    with roots(2) have "set (map dag_package_root ps) = set retained" by simp
    with r have "\<exists>roots retained.
        discover_cargo_package_roots fs load (normalize_lexical_path ws) ignored hidden = Some roots \<and>
        retain_cargo_workspace_member_roots load gs (normalize_lexical_path ws) roots = Ok retained \<and>
        set (map dag_package_root ps) = set retained" by blast
    then show ?thesis
      by (intro conjI n(1) roots(1) allI impI) (simp_all only: nth(1,2) deps)
  qed
qed


lemma bmap_values_sum:
  assumes "distinct (bmap_keys m)" "distinct ks" "set ks = set (bmap_keys m)"
  shows "sum_list (map f (bmap_values m)) = (sum_list (map (\<lambda>k. f (the (bmap_get m k))) ks) :: nat)"
proof -
  let ?g = "\<lambda>k. f (the (bmap_get m k))"
  have "map f (bmap_values m) = map ?g (bmap_keys m)"
    using assms(1) by (auto simp: map_of_is_SomeI)
  then have "sum_list (map f (bmap_values m)) = sum ?g (set (bmap_keys m))"
    by (simp only: sum_list_distinct_conv_sum_set [OF assms(1)])
  also have "\<dots> = sum_list (map ?g ks)"
    by (simp only: sum_list_distinct_conv_sum_set [OF assms(2)] assms(3))
  finally show ?thesis .
qed

text \<open>
  The parser-work metrics of a derivation are exact: one manifest parse for the workspace and one
  per admitted package, the number of packages of the DAG, the number of package roots discovered, and
  the number of dependency edges the DAG retains.
\<close>

lemma workspace_build_dag_metrics_exact:
  assumes "asp_rust_workspace_build_dag_with_metrics fs load gs ignored hidden ws = Some (Ok d)"
    and "discovered_wf fs load ignored hidden (normalize_lexical_path ws)"
    and "ps = dag_packages (build_dag d)"
  shows "admitted_package_count (metrics d) = length ps \<and>
    metrics_parsed_manifest_count (metrics d) = length ps + 1 \<and>
    local_dependency_edge_count (metrics d) = sum_list (map (\<lambda>p. length (local_dependencies p)) ps) \<and>
    (\<exists>roots. discover_cargo_package_roots fs load (normalize_lexical_path ws) ignored hidden = Some roots \<and>
       metrics_discovered_package_root_count (metrics d) = length roots)"
proof (rule build_dag_shape [OF assms])
  fix catalog :: workspace_package_catalog
  let ?deps = "dependency_names_by_package (facts_by_root catalog)"
  assume c: "discover_dependency_graph_packages fs load gs ignored hidden (normalize_lexical_path ws) = Some (Ok catalog)"
      "catalog_inv (facts_by_root catalog) (root_by_name catalog)"
    and n: "distinct (map dag_package_name ps)" "set (map dag_package_name ps) = set (bmap_keys (root_by_name catalog))"
    and m: "\<And>i. i < length ps \<Longrightarrow>
      materialize_package (root_by_name catalog) ?deps (i, dag_package_name (ps ! i)) = Some (ps ! i)"
    and d: "metrics d = \<lparr>metrics_discovered_package_root_count = discovered_package_root_count catalog,
       admitted_package_count = length ps, metrics_parsed_manifest_count = parsed_manifest_count catalog,
       local_dependency_edge_count = sum_list (map length (bmap_values ?deps))\<rparr>"
  have get: "bmap_get ?deps (dag_package_name p) = Some (local_dependencies p)"
    "bmap_get (root_by_name catalog) (dag_package_name p) = Some (dag_package_root p)" if "p \<in> set ps" for p
  proof -
    from that obtain i where "i < length ps" "p = ps ! i" by (auto simp: in_set_conv_nth)
    with materialized_package [OF c(2) m [of i]]
    show "bmap_get ?deps (dag_package_name p) = Some (local_dependencies p)"
      "bmap_get (root_by_name catalog) (dag_package_name p) = Some (dag_package_root p)" by metis+
  qed
  have "distinct (bmap_keys ?deps)"
    unfolding dependency_names_by_package_def by (rule ascending_distinct) simp
  then have "sum_list (map length (bmap_values ?deps)) =
      sum_list (map (\<lambda>k. length (the (bmap_get ?deps k))) (map dag_package_name ps))"
    using n catalog_keys [OF c(2)] by (intro bmap_values_sum) simp_all
  also have "map (\<lambda>k. length (the (bmap_get ?deps k))) (map dag_package_name ps) =
      map (\<lambda>p. length (local_dependencies p)) ps"
    using get(1) by simp
  finally have edges: "local_dependency_edge_count (metrics d) = sum_list (map (\<lambda>p. length (local_dependencies p)) ps)"
    by (simp add: d)
  note roots = catalog_package_roots [OF c(2) n get(2)]
  show ?thesis
  proof (rule catalog_of_discovery [OF c(1) assms(2)])
    fix discovered retained gf
    assume r: "discover_cargo_package_roots fs load (normalize_lexical_path ws) ignored hidden = Some discovered"
      "ascending retained" "discovered_package_root_count catalog = length discovered"
      "parsed_manifest_count catalog = length retained + 1"
      and f: "bmap_get (facts_by_root catalog) = map_of (graph_packages gf)" "map fst (graph_packages gf) = retained"
    have "dom (bmap_get (facts_by_root catalog)) = set retained"
      by (simp add: f(1) dom_map_of_conv_image_fst flip: f(2))
    with roots(2) have "set (map dag_package_root ps) = set retained" by simp
    then have "length ps = length retained"
      using distinct_card [OF roots(1)] distinct_card [OF ascending_distinct [OF r(2)]] by simp
    with edges d r show ?thesis by simp
  qed
qed

text \<open>
  C29: an edge of the Build DAG is exactly a path dependency between admitted packages: package \<open>q\<close> is
  listed as a dependency of package \<open>p\<close> if and only if some dependency table of \<open>p\<close>'s manifest (normal,
  dev, build, or of a target) resolves, directly or through the workspace table, to \<open>q\<close>'s root.
\<close>

theorem workspace_build_dag_edges_exact:
  assumes "asp_rust_workspace_build_dag_with_metrics fs load gs ignored hidden ws = Some (Ok d)"
    and "discovered_wf fs load ignored hidden (normalize_lexical_path ws)"
    and "p \<in> set (dag_packages (build_dag d))" "q \<in> set (dag_packages (build_dag d))"
  shows "\<exists>m wm. load (path_push (dag_package_root p) ''Cargo.toml'') = Ok m \<and>
    load (path_push (normalize_lexical_path ws) ''Cargo.toml'') = Ok wm \<and>
    (dag_package_name q \<in> set (local_dependencies p) \<longleftrightarrow>
      (\<exists>ds \<in> set (dependency_tables m). dag_package_root q \<in> normalize_lexical_path `
         graph_table_roots (dag_package_root p) (normalize_lexical_path ws)
           (map_option workspace_dependencies (m_workspace wm)) ds))"
proof (rule build_dag_shape [OF assms(1,2) refl])
  fix catalog
  let ?ws = "normalize_lexical_path ws"
  assume c: "discover_dependency_graph_packages fs load gs ignored hidden ?ws = Some (Ok catalog)"
      "catalog_inv (facts_by_root catalog) (root_by_name catalog)"
    and m: "\<And>i. i < length (dag_packages (build_dag d)) \<Longrightarrow> materialize_package (root_by_name catalog)
       (dependency_names_by_package (facts_by_root catalog)) (i, dag_package_name (dag_packages (build_dag d) ! i)) =
         Some (dag_packages (build_dag d) ! i)"
  from assms(3,4) m obtain i j where ij:
    "materialize_package (root_by_name catalog) (dependency_names_by_package (facts_by_root catalog))
       (i, dag_package_name p) = Some p"
    "materialize_package (root_by_name catalog) (dependency_names_by_package (facts_by_root catalog))
       (j, dag_package_name q) = Some q"
    by (metis in_set_conv_nth)
  obtain facts where facts: "bmap_get (facts_by_root catalog) (dag_package_root p) = Some facts"
    "local_dependencies p = local_dependency_names facts (facts_by_root catalog)"
    using materialized_package [OF c(2) ij(1)] by metis
  have q: "bmap_get (root_by_name catalog) (dag_package_name q) = Some (dag_package_root q)"
    using materialized_package [OF c(2) ij(2)] by metis
  have edge: "dag_package_name q \<in> set (local_dependencies p) \<longleftrightarrow>
      dag_package_root q \<in> normalize_lexical_path ` set (local_dependency_roots facts)"
  proof -
    have "(\<exists>f. bmap_get (facts_by_root catalog) r = Some f \<and> graph_package_name f = dag_package_name q) \<longleftrightarrow>
        r = dag_package_root q" for r
    proof -
      have "bmap_get (root_by_name catalog) (dag_package_name q) = Some r \<longleftrightarrow>
          (\<exists>f. bmap_get (facts_by_root catalog) r = Some f \<and> graph_package_name f = dag_package_name q)"
        using c(2) unfolding catalog_inv_def by blast
      with q show ?thesis by auto
    qed
    note root = this
    show ?thesis
      unfolding facts(2) local_dependency_names_correct(2) mem_Collect_eq image_iff root
      by (rule bex_cong [OF refl]) (rule eq_commute)
  qed
  show ?thesis
  proof (rule catalog_of_discovery [OF c(1) assms(2)])
    fix discovered retained gf
    assume gf: "parse_required_cargo_workspace_package_graph_facts load retained ?ws = Ok gf"
      and f: "bmap_get (facts_by_root catalog) = map_of (graph_packages gf)"
    from facts(1) f have "(dag_package_root p, facts) \<in> set (graph_packages gf)"
      by (simp add: map_of_SomeD)
    with parse_graph_facts_Ok [OF gf] obtain wm where
      wm: "load (path_push ?ws ''Cargo.toml'') = Ok wm" "parse_required_cargo_package_graph_facts load
        (dag_package_root p) ?ws (map_option workspace_dependencies (m_workspace wm)) = Ok facts" by metis
    obtain pm where pm: "load (path_push (dag_package_root p) ''Cargo.toml'') = Ok pm"
      "local_dependency_roots facts = fold (\<lambda>ds. collect_graph_dependency_roots (dag_package_root p) ?ws ds
         (map_option workspace_dependencies (m_workspace wm))) (dependency_tables pm) []"
      using parse_required_cargo_package_graph_facts_Ok [OF wm(2)] by metis
    show ?thesis
      by (rule exI [of _ pm], rule exI [of _ wm])
        (use wm(1) pm(1) edge in \<open>auto simp: pm(2) fold_collect_graph(1)\<close>)
  qed
qed


text \<open>
  Deriving a Build DAG always returns when finitely many directories hold a manifest: neither
  \<open>expect\<close> of \<open>materialize_dependency_graph_packages\<close> can panic, and after a catalog was built the
  only possible error names a package on a dependency cycle.
\<close>

lemma workspace_build_dag_total:
  assumes "finite {p. fs_is_file fs (path_push p ''Cargo.toml'')}"
    and "discovered_wf fs load ignored hidden (normalize_lexical_path ws)"
  shows "\<exists>r. asp_rust_workspace_build_dag_with_metrics fs load gs ignored hidden ws = Some r \<and>
    (case discover_dependency_graph_packages fs load gs ignored hidden (normalize_lexical_path ws) of
       Some (Inr catalog) \<Rightarrow> (\<forall>e. r = Err e \<longrightarrow> (\<exists>q. e = cycle_error q \<and>
         (q, q) \<in> (edges (dependency_names_by_package (facts_by_root catalog)))\<^sup>+))
     | _ \<Rightarrow> True)"
proof -
  let ?ws = "normalize_lexical_path ws"
  have "discover_cargo_package_roots fs load ?ws ignored hidden \<noteq> None"
    using discover_cargo_package_roots_returns [OF assms(1)] by simp
  then obtain c where c: "discover_dependency_graph_packages fs load gs ignored hidden ?ws = Some c"
    by (auto simp: discover_dependency_graph_packages_def)
  show ?thesis
  proof (cases c)
    case (Inl e)
    with c show ?thesis by (simp add: asp_rust_workspace_build_dag_with_metrics_def Let_def)
  next
    case (Inr catalog)
    from catalog_of_discovery [OF c [unfolded Inr] assms(2)]
    have inv: "catalog_inv (facts_by_root catalog) (root_by_name catalog)" .
    have "asp_rust_workspace_build_dag_with_metrics fs load gs ignored hidden ws = derive_build_dag ?ws catalog"
      using c Inr by (simp add: asp_rust_workspace_build_dag_with_metrics_def Let_def)
    with c Inr derive_build_dag_cases [OF inv, of ?ws] show ?thesis by (cases rule: derive_build_dag_cases [OF inv, of ?ws]) auto
  qed
qed

section \<open>A sample workspace\<close>

text \<open>Two members, \<open>/ws/app\<close> with a path dependency on \<open>/ws/core\<close>.\<close>

definition sample_ws_load :: manifest_loader where
  "sample_ws_load p =
     (if p = [RootDir, Normal ''ws'', Normal ''Cargo.toml''] then
        Ok ((sample_manifest [] [])\<lparr>m_package := None, m_workspace := Some
          \<lparr>workspace_members = [''app'', ''core''], workspace_exclude = [], workspace_dependencies = []\<rparr>\<rparr>)
      else if p = [RootDir, Normal ''ws'', Normal ''app'', Normal ''Cargo.toml''] then
        Ok (sample_manifest ''app'' [(''core'', sample_dependency ''../core'')])
      else if p = [RootDir, Normal ''ws'', Normal ''core'', Normal ''Cargo.toml''] then
        Ok (sample_manifest ''core'' [])
      else Err ''not found'')"

definition sample_ws_fs :: file_system where
  "sample_ws_fs = map_of
     [([RootDir, Normal ''ws'', Normal ''Cargo.toml''], File_node),
      ([RootDir, Normal ''ws'', Normal ''app'', Normal ''Cargo.toml''], File_node),
      ([RootDir, Normal ''ws'', Normal ''core'', Normal ''Cargo.toml''], File_node)]"

definition literal_globset :: "(string, string list) globset" where
  "literal_globset = \<lparr>glob_new = Ok, glob_set_build = Ok, is_match = (\<lambda>pats p. display p \<in> set pats)\<rparr>"

definition sample_derivation :: asp_rust_workspace_build_dag_derivation where
  "sample_derivation = \<lparr>
     build_dag = \<lparr>schema_id = ''asp-rust.workspace-build-dag'', schema_version = ''1'',
       dag_workspace_root = [RootDir, Normal ''ws''],
       dag_packages =
         [\<lparr>dag_package_name = ''core'', dag_package_root = [RootDir, Normal ''ws'', Normal ''core''],
           local_dependencies = [], execution_index = 0\<rparr>,
          \<lparr>dag_package_name = ''app'', dag_package_root = [RootDir, Normal ''ws'', Normal ''app''],
           local_dependencies = [''core''], execution_index = 1\<rparr>]\<rparr>,
     metrics = \<lparr>metrics_discovered_package_root_count = 2, admitted_package_count = 2,
       metrics_parsed_manifest_count = 3, local_dependency_edge_count = 1\<rparr>\<rparr>"

lemma sample_workspace_dag:
  "asp_rust_workspace_build_dag_with_metrics sample_ws_fs sample_ws_load literal_globset [] []
     [RootDir, Normal ''ws''] = Some (Ok sample_derivation)"
  by code_simp

lemma sample_workspace_wf:
  "discovered_wf sample_ws_fs sample_ws_load [] [] (normalize_lexical_path [RootDir, Normal ''ws''])"
  by code_simp


theorem workspace_build_dag_dependency_first_witness:
  "distinct (map dag_package_name (dag_packages (build_dag sample_derivation))) \<and>
   execution_index (dag_packages (build_dag sample_derivation) ! 0) = 0 \<and>
   execution_index (dag_packages (build_dag sample_derivation) ! 1) = 1"
  using workspace_build_dag_dependency_first [OF sample_workspace_dag sample_workspace_wf refl]
  by (simp add: sample_derivation_def)


theorem workspace_build_dag_edges_exact_witness:
  "\<exists>m. sample_ws_load [RootDir, Normal ''ws'', Normal ''app'', Normal ''Cargo.toml''] = Ok m \<and>
     (\<exists>ds \<in> set (dependency_tables m). [RootDir, Normal ''ws'', Normal ''core''] \<in>
        normalize_lexical_path ` graph_table_roots [RootDir, Normal ''ws'', Normal ''app''] [RootDir, Normal ''ws'']
          (Some []) ds)"
proof -
  let ?p = "dag_packages (build_dag sample_derivation) ! 1"
  let ?q = "dag_packages (build_dag sample_derivation) ! 0"
  have root: "normalize_lexical_path [RootDir, Normal ''ws''] = [RootDir, Normal ''ws'']" by code_simp
  have "?p \<in> set (dag_packages (build_dag sample_derivation))" "?q \<in> set (dag_packages (build_dag sample_derivation))"
    by (simp_all add: sample_derivation_def)
  from workspace_build_dag_edges_exact [OF sample_workspace_dag sample_workspace_wf this]
  show ?thesis by (simp add: sample_derivation_def root) (auto simp: sample_ws_load_def)
qed


end
