(* ===== verification/Verification_Model.thy ===== *)
theory Verification_Model
  imports Lexical_Path
begin

text \<open>
  The data of the verification planner: \<open>src/verification/model.rs\<close>,
  \<open>src/verification/skill_descriptor.rs\<close> and \<open>src/verification/stability_config.rs\<close>. Enums
  that are keys of ordered collections carry the order of their declaration, as their derived
  \<open>Ord\<close> does. Builder methods that set one field are record updates of the same name.
\<close>

section \<open>Enumerations\<close>

datatype task_kind =
  Stress | Performance | Stability | Chaos | Security | Regression | ResponsibilityReview

primrec task_kind_rank :: "task_kind \<Rightarrow> nat" where
  "task_kind_rank Stress = 0"
| "task_kind_rank Performance = 1"
| "task_kind_rank Stability = 2"
| "task_kind_rank Chaos = 3"
| "task_kind_rank Security = 4"
| "task_kind_rank Regression = 5"
| "task_kind_rank ResponsibilityReview = 6"

lemma task_kind_rank_inj: "task_kind_rank a = task_kind_rank b \<longleftrightarrow> a = b"
  by (cases a; cases b) auto

instantiation task_kind :: linorder
begin

definition less_eq_task_kind :: "task_kind \<Rightarrow> task_kind \<Rightarrow> bool" where
  "a \<le> b \<longleftrightarrow> task_kind_rank a \<le> task_kind_rank b"

definition less_task_kind :: "task_kind \<Rightarrow> task_kind \<Rightarrow> bool" where
  "a < b \<longleftrightarrow> task_kind_rank a < task_kind_rank b"

instance
  by intro_classes
    (auto simp only: less_eq_task_kind_def less_task_kind_def task_kind_rank_inj [symmetric])

end

primrec task_kind_str :: "task_kind \<Rightarrow> string" where
  "task_kind_str Stress = ''stress''"
| "task_kind_str Performance = ''performance''"
| "task_kind_str Stability = ''stability''"
| "task_kind_str Chaos = ''chaos''"
| "task_kind_str Security = ''security''"
| "task_kind_str Regression = ''regression''"
| "task_kind_str ResponsibilityReview = ''responsibility_review''"

lemma task_kind_str_inj: "task_kind_str a = task_kind_str b \<longleftrightarrow> a = b"
  by (cases a; cases b) auto

datatype responsibility =
    PureDomainLogic | PublicApi | ExternalDependency | Persistence | SecurityBoundary
  | LatencySensitive | AvailabilityCritical

primrec responsibility_rank :: "responsibility \<Rightarrow> nat" where
  "responsibility_rank PureDomainLogic = 0"
| "responsibility_rank PublicApi = 1"
| "responsibility_rank ExternalDependency = 2"
| "responsibility_rank Persistence = 3"
| "responsibility_rank SecurityBoundary = 4"
| "responsibility_rank LatencySensitive = 5"
| "responsibility_rank AvailabilityCritical = 6"

lemma responsibility_rank_inj: "responsibility_rank a = responsibility_rank b \<longleftrightarrow> a = b"
  by (cases a; cases b) auto

instantiation responsibility :: linorder
begin

definition less_eq_responsibility :: "responsibility \<Rightarrow> responsibility \<Rightarrow> bool" where
  "a \<le> b \<longleftrightarrow> responsibility_rank a \<le> responsibility_rank b"

definition less_responsibility :: "responsibility \<Rightarrow> responsibility \<Rightarrow> bool" where
  "a < b \<longleftrightarrow> responsibility_rank a < responsibility_rank b"

instance
  by intro_classes
    (auto simp only: less_eq_responsibility_def less_responsibility_def responsibility_rank_inj [symmetric])

end

primrec responsibility_str :: "responsibility \<Rightarrow> string" where
  "responsibility_str PureDomainLogic = ''pure_domain_logic''"
| "responsibility_str PublicApi = ''public_api''"
| "responsibility_str ExternalDependency = ''external_dependency''"
| "responsibility_str Persistence = ''persistence''"
| "responsibility_str SecurityBoundary = ''security_boundary''"
| "responsibility_str LatencySensitive = ''latency_sensitive''"
| "responsibility_str AvailabilityCritical = ''availability_critical''"

datatype phase = AfterUnitTestsPass | BeforeRelease | ScheduledRegression | BeforeVerification

primrec phase_str :: "phase \<Rightarrow> string" where
  "phase_str AfterUnitTestsPass = ''after_unit_tests_pass''"
| "phase_str BeforeRelease = ''before_release''"
| "phase_str ScheduledRegression = ''scheduled_regression''"
| "phase_str BeforeVerification = ''before_verification''"

datatype task_state = Pending | Satisfied | Failed | Waived

definition state_is_active :: "task_state \<Rightarrow> bool" where
  "state_is_active s = (case s of Pending \<Rightarrow> True | Failed \<Rightarrow> True | _ \<Rightarrow> False)"

primrec task_state_str :: "task_state \<Rightarrow> string" where
  "task_state_str Pending = ''pending''"
| "task_state_str Satisfied = ''satisfied''"
| "task_state_str Failed = ''failed''"
| "task_state_str Waived = ''waived''"

datatype receipt_status = ReceiptPassed | ReceiptFailed

section \<open>Evidence, requirements and contracts\<close>

record evidence =
  ev_label :: string
  ev_value :: string

definition evidence_new :: "string \<Rightarrow> string \<Rightarrow> evidence" where
  "evidence_new label v = \<lparr>ev_label = label, ev_value = v\<rparr>"

record requirement =
  req_key :: string
  req_description :: string

definition requirement_new :: "string \<Rightarrow> string \<Rightarrow> requirement" where
  "requirement_new key description = \<lparr>req_key = key, req_description = description\<rparr>"

record task_contract =
  contract_phase :: phase
  contract_required_receipt :: string
  contract_required_evidence :: "requirement list"

definition task_contract_new :: "phase \<Rightarrow> string \<Rightarrow> requirement list \<Rightarrow> task_contract" where
  "task_contract_new p receipt required = \<lparr>contract_phase = p, contract_required_receipt = receipt,
     contract_required_evidence = required\<rparr>"

record skill_binding =
  binding_skill_id :: string
  binding_adapter :: "string option"

definition skill_binding_new :: "string \<Rightarrow> skill_binding" where
  "skill_binding_new skill_id = \<lparr>binding_skill_id = skill_id, binding_adapter = None\<rparr>"

definition binding_with_adapter :: "string \<Rightarrow> skill_binding \<Rightarrow> skill_binding" where
  "binding_with_adapter adapter b = b\<lparr>binding_adapter := Some adapter\<rparr>"

definition binding_is_configured :: "skill_binding \<Rightarrow> bool" where
  "binding_is_configured b \<longleftrightarrow> trim (binding_skill_id b) \<noteq> []"

text \<open>The shared body of the two \<open>compact_label\<close> methods.\<close>

definition skill_label :: "string \<Rightarrow> string option \<Rightarrow> string" where
  "skill_label skill_id adapter =
     (case Option.bind adapter (\<lambda>a. if trim a = [] then None else Some (trim a)) of
        None \<Rightarrow> skill_id | Some a \<Rightarrow> skill_id @ ''@'' @ a)"

definition binding_compact_label :: "skill_binding \<Rightarrow> string" where
  "binding_compact_label b = skill_label (binding_skill_id b) (binding_adapter b)"

section \<open>Skill descriptors\<close>

record skill_descriptor =
  descriptor_skill_id :: string
  descriptor_adapter :: "string option"
  descriptor_tool :: string
  descriptor_command :: string
  descriptor_standard :: string
  descriptor_required_inputs :: "string list"
  descriptor_pass_criteria :: "string list"
  descriptor_receipt_fields :: "string list"

definition skill_descriptor_new :: "string \<Rightarrow> skill_descriptor" where
  "skill_descriptor_new skill_id = \<lparr>descriptor_skill_id = skill_id, descriptor_adapter = None,
     descriptor_tool = [], descriptor_command = [], descriptor_standard = [],
     descriptor_required_inputs = [], descriptor_pass_criteria = [], descriptor_receipt_fields = []\<rparr>"

definition k6_stress :: skill_descriptor where
  "k6_stress = (skill_descriptor_new ''rust-verification-stress'')\<lparr>
     descriptor_adapter := Some ''k6'', descriptor_tool := ''k6'',
     descriptor_command := ''k6 run <script>'',
     descriptor_standard := ''scenarios define load shape; thresholds define pass/fail'',
     descriptor_required_inputs := [''script'', ''target_url'', ''scenario'', ''thresholds''],
     descriptor_pass_criteria := [''exit=0'', ''thresholds=pass''],
     descriptor_receipt_fields := [''p50'', ''p99'', ''p999'', ''load_steps'', ''sla_result'', ''artifact'']\<rparr>"

definition criterion_performance :: skill_descriptor where
  "criterion_performance = (skill_descriptor_new ''rust-verification-performance'')\<lparr>
     descriptor_adapter := Some ''criterion'', descriptor_tool := ''criterion'',
     descriptor_command := ''cargo bench'',
     descriptor_standard := ''statistical benchmark baseline detects runtime regression'',
     descriptor_required_inputs := [''bench_target'', ''baseline'', ''regression_threshold''],
     descriptor_pass_criteria := [''regression<=threshold''],
     descriptor_receipt_fields := [''benchmark_command'', ''baseline'', ''regression_threshold'',
       ''latency_or_throughput'', ''allocation_profile'', ''profile_artifact'']\<rparr>"

definition divan_performance :: skill_descriptor where
  "divan_performance = (skill_descriptor_new ''rust-verification-performance'')\<lparr>
     descriptor_adapter := Some ''divan'', descriptor_tool := ''divan'',
     descriptor_command := ''cargo bench'',
     descriptor_standard := ''sampled Rust benchmark summary stays within regression threshold'',
     descriptor_required_inputs := [''bench_target'', ''baseline'', ''regression_threshold''],
     descriptor_pass_criteria := [''median_or_mean_delta<=threshold''],
     descriptor_receipt_fields := [''benchmark_command'', ''baseline'', ''regression_threshold'',
       ''latency_or_throughput'', ''allocation_profile'', ''profile_artifact'', ''samples'', ''iters'']\<rparr>"

definition iai_callgrind_performance :: skill_descriptor where
  "iai_callgrind_performance = (skill_descriptor_new ''rust-verification-performance'')\<lparr>
     descriptor_adapter := Some ''iai-callgrind'', descriptor_tool := ''iai-callgrind'',
     descriptor_command := ''cargo bench'',
     descriptor_standard := ''instruction/cache/allocation metrics stay within regression threshold'',
     descriptor_required_inputs := [''bench_target'', ''baseline'', ''metric'', ''regression_threshold''],
     descriptor_pass_criteria := [''metric_delta<=threshold''],
     descriptor_receipt_fields := [''benchmark_command'', ''baseline'', ''regression_threshold'',
       ''latency_or_throughput'', ''allocation_profile'', ''profile_artifact'', ''instructions'', ''cache_misses'']\<rparr>"

definition descriptor_compact_label :: "skill_descriptor \<Rightarrow> string" where
  "descriptor_compact_label d = skill_label (descriptor_skill_id d) (descriptor_adapter d)"

definition fingerprint_material :: "skill_descriptor \<Rightarrow> string" where
  "fingerprint_material d =
     ''tool='' @ descriptor_tool d @ '';command='' @ descriptor_command d @
     '';standard='' @ descriptor_standard d @
     '';inputs='' @ join_with '','' (descriptor_required_inputs d) @
     '';pass='' @ join_with '','' (descriptor_pass_criteria d) @
     '';receipt='' @ join_with '','' (descriptor_receipt_fields d)"

section \<open>Stability picture configuration\<close>

record stability_config =
  require_long_running_simulation :: bool
  require_performance_interface :: bool
  require_resource_delta :: bool
  require_state_growth :: bool
  require_determinism :: bool
  require_stability_artifact :: bool
  min_iterations :: "nat option"
  min_duration_seconds :: "nat option"

definition stability_config_default :: stability_config where
  "stability_config_default = \<lparr>require_long_running_simulation = True,
     require_performance_interface = True, require_resource_delta = True, require_state_growth = True,
     require_determinism = True, require_stability_artifact = True,
     min_iterations = None, min_duration_seconds = None\<rparr>"

definition required_receipt_evidence_keys :: "stability_config \<Rightarrow> string list" where
  "required_receipt_evidence_keys c =
     (if require_long_running_simulation c then [''stability_command'', ''iteration_window''] else [])
     @ (if require_performance_interface c then [''latency_distribution''] else [])
     @ (if require_resource_delta c then [''resource_delta''] else [])
     @ (if require_state_growth c then [''state_growth''] else [])
     @ (if require_determinism c then [''determinism''] else [])
     @ (if require_stability_artifact c then [''stability_artifact''] else [])"

text \<open>A warning is a key and a message.\<close>

definition stability_config_review :: "stability_config \<Rightarrow> (string \<times> string) list" where
  "stability_config_review c =
     (if required_receipt_evidence_keys c = []
      then [(''no_required_axes'', ''stability picture has no required evidence axes'')] else [])
     @ (if \<not> require_long_running_simulation c \<and> min_iterations c \<noteq> None
        then [(''min_iterations_without_long_run'',
               ''min_iterations is ignored unless long-running simulation is required'')] else [])
     @ (if \<not> require_long_running_simulation c \<and> min_duration_seconds c \<noteq> None
        then [(''min_duration_without_long_run'',
               ''min_duration_seconds is ignored unless long-running simulation is required'')] else [])"

section \<open>Tasks, receipts and waivers\<close>

record resolution_note =
  note_label :: string
  note_detail :: string

record task =
  fingerprint :: string
  kind :: task_kind
  state :: task_state
  package_root :: path
  owner_path :: path
  owner_namespace :: "string list"
  line :: "nat option"
  task_phase :: phase
  reason :: string
  required_receipt :: string
  task_skill_binding :: "skill_binding option"
  skill_contract_ref :: "string option"
  required_evidence :: "requirement list"
  task_evidence :: "evidence list"
  resolution_notes :: "resolution_note list"
  receipt_summary :: "string option"
  receipt_evidence :: "evidence list"
  receipt_evidence_uri :: "string option"
  receipt_observed_at :: "string option"
  waiver_reason :: "string option"

definition is_active :: "task \<Rightarrow> bool" where
  "is_active t = state_is_active (state t)"

record report_obligation =
  obligation_key :: string
  obligation_renderer :: string
  suggested_artifact_name :: string
  obligation_reason :: string
  obligation_task_kinds :: "task_kind list"
  obligation_task_fingerprints :: "string list"

definition report_obligation_new ::
  "string \<Rightarrow> string \<Rightarrow> string \<Rightarrow> string \<Rightarrow> task_kind list \<Rightarrow> string list \<Rightarrow> report_obligation" where
  "report_obligation_new key renderer artifact why kinds fingerprints =
     \<lparr>obligation_key = key, obligation_renderer = renderer, suggested_artifact_name = artifact,
      obligation_reason = why, obligation_task_kinds = bset_of_list kinds,
      obligation_task_fingerprints = fingerprints\<rparr>"

definition obligation_task_count :: "report_obligation \<Rightarrow> nat" where
  "obligation_task_count r = length (obligation_task_fingerprints r)"

record receipt =
  receipt_task_fingerprint :: string
  receipt_kind :: task_kind
  receipt_status_of :: receipt_status
  summary :: string
  evidence_uri :: "string option"
  evidence_of_receipt :: "evidence list"
  observed_at :: "string option"

definition receipt_passed :: "string \<Rightarrow> task_kind \<Rightarrow> receipt" where
  "receipt_passed fp k = \<lparr>receipt_task_fingerprint = fp, receipt_kind = k,
     receipt_status_of = ReceiptPassed, summary = ''passed'', evidence_uri = None,
     evidence_of_receipt = [], observed_at = None\<rparr>"

definition receipt_failed :: "string \<Rightarrow> task_kind \<Rightarrow> string \<Rightarrow> receipt" where
  "receipt_failed fp k s = \<lparr>receipt_task_fingerprint = fp, receipt_kind = k,
     receipt_status_of = ReceiptFailed, summary = s, evidence_uri = None,
     evidence_of_receipt = [], observed_at = None\<rparr>"

definition receipt_with_evidence :: "string \<Rightarrow> string \<Rightarrow> receipt \<Rightarrow> receipt" where
  "receipt_with_evidence label v r =
     r\<lparr>evidence_of_receipt := evidence_of_receipt r @ [evidence_new label v]\<rparr>"

record waiver =
  waiver_task_fingerprint :: string
  waiver_owner :: string
  reason_of_waiver :: string
  expires_at :: string

definition waiver_is_complete :: "waiver \<Rightarrow> bool" where
  "waiver_is_complete w \<longleftrightarrow>
     trim (waiver_owner w) \<noteq> [] \<and> trim (reason_of_waiver w) \<noteq> [] \<and> trim (expires_at w) \<noteq> []"

section \<open>Hints, baselines and signals\<close>

record profile_hint =
  hint_owner_path :: path
  hint_responsibilities :: "responsibility list"
  hint_task_kinds :: "task_kind list option"
  hint_task_contract_overrides :: "(task_kind \<times> task_contract) list"
  hint_stability_picture :: "stability_config option"
  hint_rationale :: "string option"

definition profile_hint_new :: "path \<Rightarrow> responsibility list \<Rightarrow> profile_hint" where
  "profile_hint_new owner rs = \<lparr>hint_owner_path = owner, hint_responsibilities = bset_of_list rs,
     hint_task_kinds = None, hint_task_contract_overrides = [], hint_stability_picture = None,
     hint_rationale = None\<rparr>"

definition hint_with_task_kinds :: "task_kind list \<Rightarrow> profile_hint \<Rightarrow> profile_hint" where
  "hint_with_task_kinds kinds h = h\<lparr>hint_task_kinds := Some (bset_of_list kinds)\<rparr>"

definition hint_with_task_contract :: "task_kind \<Rightarrow> task_contract \<Rightarrow> profile_hint \<Rightarrow> profile_hint" where
  "hint_with_task_contract k c h =
     h\<lparr>hint_task_contract_overrides := bmap_insert k c (hint_task_contract_overrides h)\<rparr>"

definition hint_with_rationale :: "string \<Rightarrow> profile_hint \<Rightarrow> profile_hint" where
  "hint_with_rationale r h = h\<lparr>hint_rationale := Some r\<rparr>"

record api_path_baseline =
  api_owner_path :: path
  api_method :: string
  api_path :: string
  api_responsibilities :: "responsibility list"
  api_task_kinds :: "task_kind list option"
  api_task_contract_overrides :: "(task_kind \<times> task_contract) list"
  api_stability_picture :: "stability_config option"
  api_rationale :: "string option"

definition normalize_api_method :: "string \<Rightarrow> string" where
  "normalize_api_method m = to_ascii_uppercase (trim m)"

definition normalize_api_path :: "string \<Rightarrow> string" where
  "normalize_api_path p = trim p"

definition api_path_baseline_new :: "path \<Rightarrow> string \<Rightarrow> string \<Rightarrow> api_path_baseline" where
  "api_path_baseline_new owner m p = \<lparr>api_owner_path = owner, api_method = normalize_api_method m,
     api_path = normalize_api_path p, api_responsibilities = [PublicApi], api_task_kinds = None,
     api_task_contract_overrides = [], api_stability_picture = None, api_rationale = None\<rparr>"

definition api_with_responsibilities :: "responsibility list \<Rightarrow> api_path_baseline \<Rightarrow> api_path_baseline" where
  "api_with_responsibilities rs b = b\<lparr>api_responsibilities := bset_of_list rs\<rparr>"

definition api_with_responsibility :: "responsibility \<Rightarrow> api_path_baseline \<Rightarrow> api_path_baseline" where
  "api_with_responsibility r b = b\<lparr>api_responsibilities := bset_insert r (api_responsibilities b)\<rparr>"

definition compact_api_label :: "api_path_baseline \<Rightarrow> string" where
  "compact_api_label b = api_method b @ '':'' @ api_path b"

definition api_evidence_value :: "api_path_baseline \<Rightarrow> string" where
  "api_evidence_value b = api_method b @ '' '' @ api_path b"

record dependency_signal =
  signal_dependency :: string
  signal_responsibilities :: "responsibility list"

definition dependency_signal_new :: "string \<Rightarrow> responsibility list \<Rightarrow> dependency_signal" where
  "dependency_signal_new d rs = \<lparr>signal_dependency = d, signal_responsibilities = bset_of_list rs\<rparr>"

section \<open>Policies and plans\<close>

record policy =
  profile_hints :: "profile_hint list"
  api_path_baselines :: "api_path_baseline list"
  receipts :: "receipt list"
  waivers :: "waiver list"
  disabled_task_kinds :: "task_kind list"
  task_contract_overrides :: "(task_kind \<times> task_contract) list"
  skill_bindings :: "(task_kind \<times> skill_binding) list"
  skill_descriptors :: "(string \<times> skill_descriptor) list"
  responsibility_task_overrides :: "(responsibility \<times> task_kind list) list"
  dependency_signals :: "dependency_signal list"
  stability_picture :: "stability_config option"

definition policy_default :: policy where
  "policy_default = \<lparr>profile_hints = [], api_path_baselines = [], receipts = [], waivers = [],
     disabled_task_kinds = [], task_contract_overrides = [], skill_bindings = [],
     skill_descriptors = [], responsibility_task_overrides = [], dependency_signals = [],
     stability_picture = None\<rparr>"

definition policy_is_empty :: "policy \<Rightarrow> bool" where
  "policy_is_empty p \<longleftrightarrow> profile_hints p = [] \<and> api_path_baselines p = [] \<and> receipts p = [] \<and>
     waivers p = [] \<and> disabled_task_kinds p = [] \<and> task_contract_overrides p = [] \<and>
     skill_bindings p = [] \<and> skill_descriptors p = [] \<and> responsibility_task_overrides p = [] \<and>
     dependency_signals p = [] \<and> stability_picture p = None"

definition with_profile_hint :: "profile_hint \<Rightarrow> policy \<Rightarrow> policy" where
  "with_profile_hint h p = p\<lparr>profile_hints := profile_hints p @ [h]\<rparr>"

definition with_api_path_baseline :: "api_path_baseline \<Rightarrow> policy \<Rightarrow> policy" where
  "with_api_path_baseline b p = p\<lparr>api_path_baselines := api_path_baselines p @ [b]\<rparr>"

definition with_receipt :: "receipt \<Rightarrow> policy \<Rightarrow> policy" where
  "with_receipt r p = p\<lparr>receipts := receipts p @ [r]\<rparr>"

definition with_waiver :: "waiver \<Rightarrow> policy \<Rightarrow> policy" where
  "with_waiver w p = p\<lparr>waivers := waivers p @ [w]\<rparr>"

definition with_disabled_task_kind :: "task_kind \<Rightarrow> policy \<Rightarrow> policy" where
  "with_disabled_task_kind k p = p\<lparr>disabled_task_kinds := bset_insert k (disabled_task_kinds p)\<rparr>"

definition with_task_contract :: "task_kind \<Rightarrow> task_contract \<Rightarrow> policy \<Rightarrow> policy" where
  "with_task_contract k c p = p\<lparr>task_contract_overrides := bmap_insert k c (task_contract_overrides p)\<rparr>"

definition with_skill_binding :: "task_kind \<Rightarrow> skill_binding \<Rightarrow> policy \<Rightarrow> policy" where
  "with_skill_binding k b p = p\<lparr>skill_bindings := bmap_insert k b (skill_bindings p)\<rparr>"

definition with_skill_descriptor :: "skill_descriptor \<Rightarrow> policy \<Rightarrow> policy" where
  "with_skill_descriptor d p =
     p\<lparr>skill_descriptors := bmap_insert (descriptor_compact_label d) d (skill_descriptors p)\<rparr>"

definition with_responsibility_task_kinds :: "responsibility \<Rightarrow> task_kind list \<Rightarrow> policy \<Rightarrow> policy" where
  "with_responsibility_task_kinds r kinds p =
     p\<lparr>responsibility_task_overrides := bmap_insert r (bset_of_list kinds) (responsibility_task_overrides p)\<rparr>"

definition with_dependency_signal :: "dependency_signal \<Rightarrow> policy \<Rightarrow> policy" where
  "with_dependency_signal s p = p\<lparr>dependency_signals := dependency_signals p @ [s]\<rparr>"

definition with_stability_picture :: "stability_config \<Rightarrow> policy \<Rightarrow> policy" where
  "with_stability_picture c p = p\<lparr>stability_picture := Some c\<rparr>"

record plan =
  plan_project_root :: path
  tasks :: "task list"
  report_obligations :: "report_obligation list"
  plan_skill_descriptors :: "skill_descriptor list"

definition active_tasks :: "plan \<Rightarrow> task list" where
  "active_tasks p = filter is_active (tasks p)"

definition is_clear :: "plan \<Rightarrow> bool" where
  "is_clear p \<longleftrightarrow> active_tasks p = []"

end
