(* ===== verification/Rule_Catalog.thy ===== *)
theory Rule_Catalog
  imports Verification_Model
begin

text \<open>
  The rule catalogs: severities, rule packs and rule metadata of \<open>src/model.rs\<close>, the pack
  descriptors of \<open>src/rules/catalog.rs\<close> and the four catalogs of rules under \<open>src/rules/\<close>.
\<close>

section \<open>Severities\<close>

datatype severity = SeverityInfo | SeverityWarning | SeverityError

primrec severity_rank :: "severity \<Rightarrow> nat" where
  "severity_rank SeverityInfo = 0"
| "severity_rank SeverityWarning = 1"
| "severity_rank SeverityError = 2"

lemma severity_rank_inj: "severity_rank a = severity_rank b \<longleftrightarrow> a = b"
  by (cases a; cases b) auto

instantiation severity :: linorder
begin

definition less_eq_severity :: "severity \<Rightarrow> severity \<Rightarrow> bool" where
  "a \<le> b \<longleftrightarrow> severity_rank a \<le> severity_rank b"

definition less_severity :: "severity \<Rightarrow> severity \<Rightarrow> bool" where
  "a < b \<longleftrightarrow> severity_rank a < severity_rank b"

instance
  by intro_classes
    (auto simp only: less_eq_severity_def less_severity_def severity_rank_inj [symmetric])

end

primrec severity_str :: "severity \<Rightarrow> string" where
  "severity_str SeverityInfo = ''info''"
| "severity_str SeverityWarning = ''warning''"
| "severity_str SeverityError = ''error''"

section \<open>Rule packs\<close>

datatype rule_pack = SyntaxPack | ProjectPolicyPack | ModularityPack | AgentPolicyPack

primrec rule_pack_id :: "rule_pack \<Rightarrow> string" where
  "rule_pack_id SyntaxPack = ''rust.syntax''"
| "rule_pack_id ProjectPolicyPack = ''rust.project_policy''"
| "rule_pack_id ModularityPack = ''rust.modularity''"
| "rule_pack_id AgentPolicyPack = ''rust.agent_policy''"

definition rule_ids :: "rule_pack \<Rightarrow> string list" where
  "rule_ids p = (case p of
     SyntaxPack \<Rightarrow> [''RUST-SYN-R001'']
   | ProjectPolicyPack \<Rightarrow>
       [''RUST-AGENT-PROJECT-001'', ''RUST-AGENT-PROJECT-002'', ''RUST-AGENT-PROJECT-003'',
        ''RUST-AGENT-PROJECT-004'', ''RUST-AGENT-PROJECT-005'', ''RUST-AGENT-PROJECT-006'',
        ''RUST-AGENT-PROJECT-007'', ''RUST-AGENT-PROJECT-008'', ''RUST-AGENT-PROJECT-009'',
        ''RUST-AGENT-PROJECT-010'', ''RUST-AGENT-PROJECT-011'', ''RUST-AGENT-PROJECT-012'',
        ''RUST-AGENT-PROJECT-013'', ''RUST-AGENT-PROJECT-014'', ''RUST-AGENT-PROJECT-015'',
        ''RUST-AGENT-PROJECT-016'']
   | ModularityPack \<Rightarrow>
       [''RUST-MOD-R001'', ''RUST-MOD-R002'', ''RUST-MOD-R003'', ''RUST-MOD-R004'', ''RUST-MOD-R005'',
        ''RUST-MOD-R006'', ''RUST-MOD-R007'', ''RUST-MOD-R008'', ''RUST-MOD-R009'', ''RUST-MOD-R010'',
        ''RUST-MOD-R011'']
   | AgentPolicyPack \<Rightarrow>
       [''RUST-AGENT-DOCS-MODULE-001'', ''RUST-AGENT-DOCS-PUBLIC-002'',
        ''RUST-AGENT-SOURCE-NAMESPACE-003'', ''RUST-AGENT-API-NAME-004'',
        ''RUST-AGENT-API-FACADE-005'', ''RUST-AGENT-SOURCE-MODULE-006'',
        ''RUST-AGENT-SOURCE-PATH-007'', ''RUST-AGENT-DOCS-BRANCH-008'',
        ''RUST-AGENT-OWNER-GRAPH-009'', ''RUST-AGENT-OWNER-BOUNDARY-010'',
        ''RUST-AGENT-DOCS-OWNER-FANOUT-011'', ''RUST-AGENT-API-TYPE-012'',
        ''RUST-AGENT-API-ERROR-013'', ''RUST-AGENT-TEST-SUPPORT-014'', ''RUST-AGENT-CFG-PUBLIC-015'',
        ''RUST-AGENT-CFG-PUBLIC-016'', ''RUST-AGENT-ITER-PUBLIC-017'', ''RUST-AGENT-API-FLAGS-018'',
        ''RUST-AGENT-API-PARAMETERS-019'', ''RUST-AGENT-DATA-FIELD-020'',
        ''RUST-AGENT-DATA-ENUM-PAYLOAD-021'', ''RUST-AGENT-DATA-BOUNDS-022'',
        ''RUST-AGENT-API-SHAPE-023'', ''RUST-AGENT-DATA-ENUM-TUPLE-024'', ''RUST-AGENT-CFG-IMPL-025'',
        ''RUST-AGENT-ITER-IMPL-026'', ''RUST-AGENT-API-TYPE-ALIAS-027'',
        ''RUST-AGENT-DATA-STATE-028''])"

record rule_pack_descriptor =
  pack_descriptor_id :: string
  pack_descriptor_version :: string
  pack_descriptor_domains :: "string list"
  pack_descriptor_default_mode :: string

definition rust_rule_pack_descriptors :: "rule_pack_descriptor list" where
  "rust_rule_pack_descriptors =
     [\<lparr>pack_descriptor_id = ''rust.syntax'', pack_descriptor_version = ''1'',
       pack_descriptor_domains = [''rust'', ''syntax''], pack_descriptor_default_mode = ''blocking''\<rparr>,
      \<lparr>pack_descriptor_id = ''rust.project_policy'', pack_descriptor_version = ''1'',
       pack_descriptor_domains = [''rust'', ''project-policy'', ''tests''], pack_descriptor_default_mode = ''blocking''\<rparr>,
      \<lparr>pack_descriptor_id = ''rust.modularity'', pack_descriptor_version = ''1'',
       pack_descriptor_domains = [''rust'', ''modularity''], pack_descriptor_default_mode = ''blocking''\<rparr>,
      \<lparr>pack_descriptor_id = ''rust.agent_policy'', pack_descriptor_version = ''1'',
       pack_descriptor_domains = [''rust'', ''agent-policy''], pack_descriptor_default_mode = ''advisory''\<rparr>]"

section \<open>Rules\<close>

record asp_rust_rule =
  rule_id :: string
  pack_id :: string
  rule_severity :: severity
  rule_title :: string
  rule_requirement :: string
  rule_label_map :: "(string \<times> string) list"

definition asp_rust_rule_new ::
  "string \<Rightarrow> string \<Rightarrow> severity \<Rightarrow> string \<Rightarrow> string \<Rightarrow> (string \<times> string) list \<Rightarrow> asp_rust_rule" where
  "asp_rust_rule_new rid pid sev title requirement lbls = \<lparr>rule_id = rid, pack_id = pid,
     rule_severity = sev, rule_title = title, rule_requirement = requirement, rule_label_map = lbls\<rparr>"

definition rule_labels :: "string \<Rightarrow> (string \<times> string) list" where
  "rule_labels domain = bmap_of_list [(''language'', ''rust''), (''domain'', domain)]"

definition rules_by_id :: "asp_rust_rule list \<Rightarrow> (string \<times> asp_rust_rule) list" where
  "rules_by_id rules = bmap_of_list (map (\<lambda>r. (rule_id r, r)) rules)"

abbreviation syntax_pack_id :: string where "syntax_pack_id \<equiv> ''rust.syntax''"
abbreviation project_policy_pack_id :: string where "project_policy_pack_id \<equiv> ''rust.project_policy''"
abbreviation modularity_pack_id :: string where "modularity_pack_id \<equiv> ''rust.modularity''"
abbreviation agent_policy_pack_id :: string where "agent_policy_pack_id \<equiv> ''rust.agent_policy''"

section \<open>Catalogs\<close>

definition syntax_rule_list :: "asp_rust_rule list" where
  "syntax_rule_list = [
     asp_rust_rule_new ''RUST-SYN-R001'' syntax_pack_id SeverityError
       ''Rust source does not parse''
       ''Fix Rust syntax so the file parses through syn before project policy rules run.''
       (rule_labels ''syntax'')]"

definition syntax_rules :: "asp_rust_rule list" where
  "syntax_rules = syntax_rule_list"

definition project_policy_rule_list_1 :: "asp_rust_rule list" where
  "project_policy_rule_list_1 = [
     asp_rust_rule_new ''RUST-AGENT-PROJECT-001'' project_policy_pack_id SeverityWarning
       ''Root test file lacks explicit harness role''
       ''Move root-level test files under tests/unit or tests/integration and declare nonstandard isolated targets directly in Cargo.toml.''
       (rule_labels ''project-policy''),
     asp_rust_rule_new ''RUST-AGENT-PROJECT-002'' project_policy_pack_id SeverityWarning
       ''Unexpected tests directory''
       ''Keep only standard suite directories directly under tests; project-local layout exceptions are not accepted.''
       (rule_labels ''project-policy''),
     asp_rust_rule_new ''RUST-AGENT-PROJECT-003'' project_policy_pack_id SeverityWarning
       ''Inline source test module''
       ''Keep test bodies out of src files; mount source-backed unit tests from tests/unit with #[path].''
       (rule_labels ''project-policy''),
     asp_rust_rule_new ''RUST-AGENT-PROJECT-004'' project_policy_pack_id SeverityWarning
       ''External test mount is missing or misplaced''
       ''External source-backed tests must resolve to existing files under tests/unit.''
       (rule_labels ''project-policy''),
     asp_rust_rule_new ''RUST-AGENT-PROJECT-005'' project_policy_pack_id SeverityWarning
       ''Large test leaf should split''
       ''Split oversized test leaves into folder-first suites with focused modules.''
       (rule_labels ''project-policy''),
     asp_rust_rule_new ''RUST-AGENT-PROJECT-006'' project_policy_pack_id SeverityWarning
       ''ASP Rust must stay in the test dependency graph''
       ''Policy providers belong under dev-dependencies so ordinary builds and downstream package consumers do not compile ASP Rust.''
       (rule_labels ''project-policy''),
     asp_rust_rule_new ''RUST-AGENT-PROJECT-007'' project_policy_pack_id SeverityWarning
       ''Root test target contains implementation''
       ''Keep root Cargo test targets as thin aggregates with external module mounts only.''
       (rule_labels ''project-policy''),
     asp_rust_rule_new ''RUST-AGENT-PROJECT-008'' project_policy_pack_id SeverityWarning
       ''Root test module mount is implicit or misplaced''
       ''Root Cargo test targets must mount external modules with explicit #[path] attributes pointing under an allowed tests suite directory.''
       (rule_labels ''project-policy''),
     asp_rust_rule_new ''RUST-AGENT-PROJECT-009'' project_policy_pack_id SeverityWarning
       ''Build-script ASP Rust gate should migrate''
       ''ASP Rust policy should execute from cargo test rather than build.rs.''
       (rule_labels ''project-policy''),
     asp_rust_rule_new ''RUST-AGENT-PROJECT-010'' project_policy_pack_id SeverityWarning
       ''Performance verification skill lacks Cargo bench target''
       ''When a Rust-native performance skill is configured, expose a runnable harness=false [[bench]] target and benchmark framework dev-dependency; keep build.rs as a structural gate and record benchmark runs through performance receipts.''
       (rule_labels ''project-policy''),
     asp_rust_rule_new ''RUST-AGENT-PROJECT-011'' project_policy_pack_id SeverityWarning
       ''Reserved legacy cargo-check gate rule''
       ''Legacy cargo-check policy activation is superseded by the cargo-test gate.''
       (rule_labels ''project-policy''),
     asp_rust_rule_new ''RUST-AGENT-PROJECT-012'' project_policy_pack_id SeverityWarning
       ''ASP Rust cargo-test policy gate is incomplete''
       ''ASP Rust-enabled packages must mount a cargo-test policy gate backed by a direct provider or workspace Build Support dev-dependency.''
       (rule_labels ''project-policy''),
     asp_rust_rule_new ''RUST-AGENT-PROJECT-013'' project_policy_pack_id SeverityWarning
       ''Custom harness scope path lacks explanation''
       ''Custom source or test scope paths must be added with an explicit explanation so agents cannot shrink the harness to avoid existing policy debt.''
       (rule_labels ''project-policy''),
     asp_rust_rule_new ''RUST-AGENT-PROJECT-014'' project_policy_pack_id SeverityWarning
       ''Cargo-backed harness scope reduction lacks explanation''
       ''Cargo-backed source or test scopes that exist in the package must stay covered or be removed with an explicit explanation so agents cannot skip existing source or test debt.''
       (rule_labels ''project-policy''),
     asp_rust_rule_new ''RUST-AGENT-PROJECT-015'' project_policy_pack_id SeverityWarning
       ''Retired cargo-test advice allowance lacks explanation''
       ''Retired cargo-test advice allowance must include an explicit explanation so agents cannot silence advisory policy just to pass the test layer.''
       (rule_labels ''project-policy''),
     asp_rust_rule_new ''RUST-AGENT-PROJECT-016'' project_policy_pack_id SeverityWarning
       ''Retired cargo-test gate uses empty verification config''
       ''Source cargo-test gates that remain in use must declare verification profile hints, task suppressions, or skill bindings for the test layer.''
       (rule_labels ''project-policy'')]"

definition project_policy_rule_list_2 :: "asp_rust_rule list" where
  "project_policy_rule_list_2 = [
     asp_rust_rule_new ''RUST-AGENT-PROJECT-017'' project_policy_pack_id SeverityWarning
       ''Advice allowance explanation is too weak''
       ''Advice allowances must state scope, owner, finding category, why the code is safe now, and the cleanup trigger so agents cannot use explanations as blanket waivers.''
       (rule_labels ''project-policy''),
     asp_rust_rule_new ''RUST-AGENT-PROJECT-018'' project_policy_pack_id SeverityWarning
       ''Policy identity fallback is fake''
       ''Policy and evidence identity must fail closed when Cargo identity is missing; do not synthesize unknown/default/todo labels that can enter receipts.''
       (rule_labels ''project-policy''),
     asp_rust_rule_new ''RUST-AGENT-PROJECT-019'' project_policy_pack_id SeverityWarning
       ''Workspace member dev-gate wrapper alias is redundant''
       ''Expose one canonical workspace member dev-gate entrypoint; duplicate public aliases need deprecation metadata and a bounded migration plan.''
       (rule_labels ''project-policy''),
     asp_rust_rule_new ''RUST-AGENT-PROJECT-020'' project_policy_pack_id SeverityWarning
       ''Evidence pipeline silently defaults missing data''
       ''Search, graph, policy, and evidence code must not turn missing lineage, identity, or candidate data into a default value without a typed reason or diagnostic.''
       (rule_labels ''project-policy''),
     asp_rust_rule_new ''RUST-AGENT-PROJECT-021'' project_policy_pack_id SeverityWarning
       ''Source location conversion uses sentinel''
       ''Line, column, range, and source-location conversions must not use sentinel values such as usize::MAX; reject the candidate or report a decode error.''
       (rule_labels ''project-policy''),
     asp_rust_rule_new ''RUST-AGENT-PROJECT-022'' project_policy_pack_id SeverityWarning
       ''Candidate loop drops rows without telemetry''
       ''Streaming candidate loops that skip scored rows should record filtered or rejected rows so query quality and recall gaps are observable.''
       (rule_labels ''project-policy''),
     asp_rust_rule_new ''RUST-AGENT-PROJECT-MANIFEST-023'' project_policy_pack_id SeverityWarning
       ''Cargo package edition is stale''
       ''Agent-authored Rust packages should target edition 2024 by default; older editions need an explicit compatibility reason and migration plan.''
       (rule_labels ''project-policy''),
     asp_rust_rule_new ''RUST-AGENT-PROJECT-024'' project_policy_pack_id SeverityWarning
       ''Test support module is too large''
       ''Split oversized test support and fixture modules into folder-first support owners with focused responsibilities.''
       (rule_labels ''project-policy'')]"

definition project_policy_rules :: "asp_rust_rule list" where
  "project_policy_rules = bmap_values (rules_by_id (project_policy_rule_list_1 @ project_policy_rule_list_2))"

definition modularity_rule_list :: "asp_rust_rule list" where
  "modularity_rule_list = [
     asp_rust_rule_new ''RUST-MOD-R001'' modularity_pack_id SeverityWarning
       ''mod.rs contains implementation''
       ''Keep mod.rs as an interface file with module declarations and re-exports only.''
       (rule_labels ''modularity''),
     asp_rust_rule_new ''RUST-MOD-R002'' modularity_pack_id SeverityWarning
       ''Source file carries too many responsibilities''
       ''Split oversized source files into smaller owner modules with clear public boundaries.''
       (rule_labels ''modularity''),
     asp_rust_rule_new ''RUST-MOD-R003'' modularity_pack_id SeverityWarning
       ''Deep relative import crosses owner boundaries''
       ''Replace super::super imports with crate::... owner/facade imports; if the target is a leaf implementation, expose the needed API through an owner facade first.''
       (rule_labels ''modularity''),
     asp_rust_rule_new ''RUST-MOD-R004'' modularity_pack_id SeverityWarning
       ''lib.rs contains implementation''
       ''Keep lib.rs as a crate facade with external module declarations, re-exports, and parser-proven boundary macros only.''
       (rule_labels ''modularity''),
     asp_rust_rule_new ''RUST-MOD-R005'' modularity_pack_id SeverityWarning
       ''Binary entrypoint contains implementation''
       ''Keep src/main.rs and src/bin entrypoints as thin adapters with use declarations and fn main only.''
       (rule_labels ''modularity''),
     asp_rust_rule_new ''RUST-MOD-R006'' modularity_pack_id SeverityWarning
       ''Build script contains implementation''
       ''Keep root build.rs as a thin Cargo build-script entrypoint with use declarations and fn main only.''
       (rule_labels ''modularity''),
     asp_rust_rule_new ''RUST-MOD-R007'' modularity_pack_id SeverityWarning
       ''Module source has file and mod.rs forms''
       ''Do not keep both foo.rs and foo/mod.rs for the same Rust module owner; choose one source layout.''
       (rule_labels ''modularity''),
     asp_rust_rule_new ''RUST-MOD-R008'' modularity_pack_id SeverityWarning
       ''Source module is inline''
       ''Keep reasoning-tree branches file-backed; move inline source modules into external module files.''
       (rule_labels ''modularity''),
     asp_rust_rule_new ''RUST-MOD-R009'' modularity_pack_id SeverityWarning
       ''Source file is orphaned from the module tree''
       ''Every scanned source file must be reachable from a crate or binary root through external mod declarations.''
       (rule_labels ''modularity''),
     asp_rust_rule_new ''RUST-MOD-R010'' modularity_pack_id SeverityWarning
       ''Glob import hides owner scope''
       ''Avoid every Rust glob import, including absolute crate globs; import owner names explicitly so module dependencies stay visible.''
       (rule_labels ''modularity''),
     asp_rust_rule_new ''RUST-MOD-R011'' modularity_pack_id SeverityWarning
       ''Sibling file and directory share an owner name''
       ''Do not keep both foo.rs and foo/ child sources at the same filesystem level; move the owner interface to foo/mod.rs and keep implementation under foo/*.''
       (rule_labels ''modularity'')]"

definition modularity_rules :: "asp_rust_rule list" where
  "modularity_rules = bmap_values (rules_by_id (modularity_rule_list))"

definition agent_policy_rule_list_1 :: "asp_rust_rule list" where
  "agent_policy_rule_list_1 = [
     asp_rust_rule_new ''RUST-AGENT-DOCS-MODULE-001'' agent_policy_pack_id SeverityInfo
       ''Public module lacks an intent doc''
       ''Add a concise `//!` module-level intent doc using `clippy::doc_markdown` style, with technical identifiers in backticks.''
       (rule_labels ''agent-policy''),
     asp_rust_rule_new ''RUST-AGENT-DOCS-PUBLIC-002'' agent_policy_pack_id SeverityInfo
       ''Public item lacks a doc comment''
       ''Document public Rust boundaries using `clippy::doc_markdown` style so agents can reason from native syntax without guessing intent.''
       (rule_labels ''agent-policy''),
     asp_rust_rule_new ''RUST-AGENT-SOURCE-NAMESPACE-003'' agent_policy_pack_id SeverityInfo
       ''Namespace path repeats a segment''
       ''Keep Rust module namespaces branch-unique, including file stems; rename repeated path segments so agents see one clear ownership path.''
       (rule_labels ''agent-policy''),
     asp_rust_rule_new ''RUST-AGENT-API-NAME-004'' agent_policy_pack_id SeverityInfo
       ''Public item name conflicts across namespaces''
       ''Give project-level public items unambiguous names or move them behind a clear domain namespace.''
       (rule_labels ''agent-policy''),
     asp_rust_rule_new ''RUST-AGENT-API-FACADE-005'' agent_policy_pack_id SeverityInfo
       ''Facade exports too many public groups''
       ''Keep facade exports grouped by owner so agents can identify the right repair surface quickly.''
       (rule_labels ''agent-policy''),
     asp_rust_rule_new ''RUST-AGENT-SOURCE-MODULE-006'' agent_policy_pack_id SeverityInfo
       ''Public module name is generic''
       ''Name public Rust modules after the domain they own; avoid generic buckets such as utils, common, helpers, or shared.''
       (rule_labels ''agent-policy''),
     asp_rust_rule_new ''RUST-AGENT-SOURCE-PATH-007'' agent_policy_pack_id SeverityInfo
       ''Module path segment is generic''
       ''Avoid generic Rust module file or directory names in source roots; name paths after the owner responsibility.''
       (rule_labels ''agent-policy''),
     asp_rust_rule_new ''RUST-AGENT-DOCS-BRANCH-008'' agent_policy_pack_id SeverityInfo
       ''Branch module lacks reasoning-tree intent doc''
       ''Document source modules that own multiple resolved child edges with a `//!` intent doc in `clippy::doc_markdown` style.''
       (rule_labels ''agent-policy''),
     asp_rust_rule_new ''RUST-AGENT-OWNER-GRAPH-009'' agent_policy_pack_id SeverityInfo
       ''Owner dependency cycle crosses branches''
       ''Keep owner dependency edges acyclic so agents can follow the reasoning tree without circular repair ownership.''
       (rule_labels ''agent-policy''),
     asp_rust_rule_new ''RUST-AGENT-OWNER-BOUNDARY-010'' agent_policy_pack_id SeverityInfo
       ''Owner branch imports another owner leaf''
       ''Depend on another owner through its branch boundary instead of importing leaf implementation modules directly.''
       (rule_labels ''agent-policy''),
     asp_rust_rule_new ''RUST-AGENT-DOCS-OWNER-FANOUT-011'' agent_policy_pack_id SeverityInfo
       ''Owner fan-out lacks intent doc''
       ''Document branch modules that coordinate several owner dependencies with a `//!` intent doc in `clippy::doc_markdown` style.''
       (rule_labels ''agent-policy''),
     asp_rust_rule_new ''RUST-AGENT-API-TYPE-012'' agent_policy_pack_id SeverityInfo
       ''Public semantic identifier uses a primitive type''
       ''Give public semantic identifiers a named domain type so agents can preserve invariants without guessing from parameter names.''
       (rule_labels ''agent-policy''),
     asp_rust_rule_new ''RUST-AGENT-API-ERROR-013'' agent_policy_pack_id SeverityInfo
       ''Public error boundary uses an application error type''
       ''Keep public library error boundaries typed so agents and callers can handle recovery without inspecting application error context.''
       (rule_labels ''agent-policy''),
     asp_rust_rule_new ''RUST-AGENT-TEST-SUPPORT-014'' agent_policy_pack_id SeverityInfo
       ''Test support re-export is unused''
       ''Keep test support facades narrow; re-export only names consumed through the same support surface or used by support helpers.''
       (rule_labels ''agent-policy''),
     asp_rust_rule_new ''RUST-AGENT-CFG-PUBLIC-015'' agent_policy_pack_id SeverityInfo
       ''Public function hides algorithm behind nested control flow''
       ''Expose public Rust algorithm shape through guard clauses, `match`, typed dispatch, or small named pipeline steps so agents can reason about the branch structure before editing.''
       (rule_labels ''agent-policy''),
     asp_rust_rule_new ''RUST-AGENT-CFG-PUBLIC-016'' agent_policy_pack_id SeverityInfo
       ''Public function owns a broad linear algorithm surface''
       ''Split broad public Rust functions into small named helpers or pipeline steps so agents can edit one algorithm responsibility at a time.''
       (rule_labels ''agent-policy'')]"

definition agent_policy_rule_list_2 :: "asp_rust_rule list" where
  "agent_policy_rule_list_2 = [
     asp_rust_rule_new ''RUST-AGENT-ITER-PUBLIC-017'' agent_policy_pack_id SeverityInfo
       ''Public function manually spells an iterator transform''
       ''Use Rust iterator adapters and consumers such as `map`, `filter`, `filter_map`, `collect`, `sum`, `count`, `any`, `all`, or a named iterator pipeline helper when loops only map, filter, collect, count, sum, answer a predicate, or repeatedly scan the same iterator source.''
       (rule_labels ''agent-policy''),
     asp_rust_rule_new ''RUST-AGENT-API-FLAGS-018'' agent_policy_pack_id SeverityInfo
       ''Public function exposes multiple flag parameters''
       ''Replace multiple public `bool` or `Option<bool>` parameters with a named enum, newtype, or config struct so agents can preserve mode semantics without reading every branch.''
       (rule_labels ''agent-policy''),
     asp_rust_rule_new ''RUST-AGENT-API-PARAMETERS-019'' agent_policy_pack_id SeverityInfo
       ''Public function exposes a broad positional parameter surface''
       ''Replace broad public positional parameter lists with a named config, request type, or builder surface so agents can preserve constructor semantics without re-reading every call site.''
       (rule_labels ''agent-policy''),
     asp_rust_rule_new ''RUST-AGENT-DATA-FIELD-020'' agent_policy_pack_id SeverityInfo
       ''Public data struct exposes primitive semantic fields''
       ''Wrap repeated public semantic primitive fields in named domain types so agents preserve data invariants instead of extending stringly typed state.''
       (rule_labels ''agent-policy''),
     asp_rust_rule_new ''RUST-AGENT-DATA-ENUM-PAYLOAD-021'' agent_policy_pack_id SeverityInfo
       ''Public enum variant exposes primitive semantic payload fields''
       ''Move broad public enum variant payloads into named domain types or a named payload struct so agents preserve event and command invariants instead of extending raw primitive state.''
       (rule_labels ''agent-policy''),
     asp_rust_rule_new ''RUST-AGENT-DATA-BOUNDS-022'' agent_policy_pack_id SeverityInfo
       ''Public generic data type carries duplicated derivable bounds''
       ''Move derivable or formatting trait bounds off public data type definitions and onto the impl or methods that need them so agents do not over-constrain the API contract.''
       (rule_labels ''agent-policy''),
     asp_rust_rule_new ''RUST-AGENT-API-SHAPE-023'' agent_policy_pack_id SeverityInfo
       ''Public API exposes an anonymous primitive tuple''
       ''Replace public tuple parameter or return bundles of primitive semantic values with named structs, enums, or newtypes so agents can preserve field intent.''
       (rule_labels ''agent-policy''),
     asp_rust_rule_new ''RUST-AGENT-DATA-ENUM-TUPLE-024'' agent_policy_pack_id SeverityInfo
       ''Public enum tuple variant exposes anonymous primitive payload''
       ''Replace public enum tuple variant payloads that bundle primitive semantic values with named fields, named payload structs, or domain newtypes so agents preserve event and command intent.''
       (rule_labels ''agent-policy''),
     asp_rust_rule_new ''RUST-AGENT-CFG-IMPL-025'' agent_policy_pack_id SeverityInfo
       ''Implementation function nests traversal scaffolding''
       ''Extract nested internal traversals into named iterator, predicate, or receipt-processing helpers so agents can see the algorithm boundary instead of extending raw loop and guard scaffolding.''
       (rule_labels ''agent-policy''),
     asp_rust_rule_new ''RUST-AGENT-ITER-IMPL-026'' agent_policy_pack_id SeverityInfo
       ''Implementation function manually spells an iterator transform''
       ''Use Rust iterator adapters or a named iterator helper when internal loops only map, filter, collect, count, sum, answer a predicate, or repeatedly scan the same iterator source.''
       (rule_labels ''agent-policy''),
     asp_rust_rule_new ''RUST-AGENT-API-TYPE-ALIAS-027'' agent_policy_pack_id SeverityInfo
       ''Public semantic type alias hides a primitive carrier''
       ''Use a public newtype or named struct instead of a primitive type alias for semantic identifiers, tokens, paths, durations, byte sizes, or flags so agents preserve invariants across call sites.''
       (rule_labels ''agent-policy''),
     asp_rust_rule_new ''RUST-AGENT-DATA-STATE-028'' agent_policy_pack_id SeverityInfo
       ''Public data model exposes a stringly state field''
       ''Use a public enum, newtype, or typed catalog boundary instead of `String` or `Option<String>` for public state, status, kind, mode, phase, type, tag, or category fields.''
       (rule_labels ''agent-policy''),
     asp_rust_rule_new ''RUST-AGENT-DATA-MEMBERSHIP-029'' agent_policy_pack_id SeverityInfo
       ''Function performs a linear membership scan inside a loop''
       ''Build a `HashSet`, `BTreeSet`, `HashMap`, or `BTreeMap` index before the loop, or document why the nested linear scan is bounded, so agents preserve the algorithmic complexity contract.''
       (rule_labels ''agent-policy''),
     asp_rust_rule_new ''RUST-AGENT-ASYNC-BLOCKING-030'' agent_policy_pack_id SeverityInfo
       ''Async task performs blocking work on the runtime''
       ''Move blocking I/O, sleeps, or CPU-heavy loops behind `spawn_blocking`, a dedicated worker, or an explicit sync boundary so agents preserve Tokio runtime responsiveness.''
       (rule_labels ''agent-policy''),
     asp_rust_rule_new ''RUST-AGENT-ASYNC-SYNC-LOCK-031'' agent_policy_pack_id SeverityInfo
       ''Async task holds a sync lock guard across await''
       ''Drop `std::sync` or `parking_lot` lock guards before `.await`, switch the boundary to `tokio::sync`, or isolate the critical section so agents preserve runtime progress and cancellation behavior.''
       (rule_labels ''agent-policy''),
     asp_rust_rule_new ''RUST-AGENT-ASYNC-BACKPRESSURE-032'' agent_policy_pack_id SeverityInfo
       ''Async queue lacks a backpressure boundary''
       ''Use a bounded channel, expose `poll_ready`/`try_send`/`reserve`, or guard an unbounded channel with an explicit capacity or semaphore boundary so agents preserve async backpressure and memory behavior.''
       (rule_labels ''agent-policy'')]"

definition agent_policy_rule_list_3 :: "asp_rust_rule list" where
  "agent_policy_rule_list_3 = [
     asp_rust_rule_new ''RUST-AGENT-ASYNC-CANCEL-SAFETY-033'' agent_policy_pack_id SeverityInfo
       ''Tokio select branch uses cancellation-unsafe I/O''
       ''Keep `tokio::select!` branches cancellation-safe; avoid `read_exact`, `read_to_end`, `read_to_string`, `write_all`, or `write_all_buf` inside select branches unless the partial-progress contract is explicit.''
       (rule_labels ''agent-policy''),
     asp_rust_rule_new ''RUST-AGENT-ASYNC-CANCEL-SAFETY-034'' agent_policy_pack_id SeverityInfo
       ''Tokio timeout wraps cancellation-unsafe I/O''
       ''Keep `tokio::time::timeout` boundaries cancellation-safe; avoid wrapping `read_exact`, `read_to_end`, `read_to_string`, `write_all`, or `write_all_buf` unless partial progress is owned outside the timed future.''
       (rule_labels ''agent-policy''),
     asp_rust_rule_new ''RUST-AGENT-ASYNC-TASK-LIFECYCLE-001'' agent_policy_pack_id SeverityInfo
       ''Tokio task handle is discarded''
       ''Keep spawned Tokio tasks behind an explicit lifecycle contract: return, store, await, abort, or supervise the `JoinHandle`, or isolate intentionally detached work behind a named boundary.''
       (rule_labels ''agent-policy''),
     asp_rust_rule_new ''RUST-AGENT-API-SHAPE-036'' agent_policy_pack_id SeverityInfo
       ''Public API exposes dynamic JSON''
       ''Replace public `serde_json::Value` parameters or returns with named request, response, enum, or documented boundary types so agents preserve payload contracts without re-reading untyped JSON shape.''
       (rule_labels ''agent-policy''),
     asp_rust_rule_new ''RUST-AGENT-PROC-001'' agent_policy_pack_id SeverityInfo
       ''Process command probe mixes execution and receipt ownership''
       ''Keep process command probes split into command construction, execution, environment/path shaping, and typed receipt parsing owners so agents can edit runtime behavior without coupling all effects.''
       (rule_labels ''agent-policy''),
     asp_rust_rule_new ''RUST-AGENT-TOKIO-RUNTIME-002'' agent_policy_pack_id SeverityInfo
       ''Tokio runtime operation bypasses a runtime owner''
       ''Route Tokio spawn, blocking work, and runtime construction through a typed runtime facade so agents preserve task tracking, shutdown, cancellation, thread model, and observability behavior.''
       (rule_labels ''agent-policy''),
     asp_rust_rule_new ''RUST-AGENT-NATIVE-ABI-001'' agent_policy_pack_id SeverityInfo
       ''Native ABI layout lacks a co-located contract''
       ''Keep public `repr(C)` native ABI layouts beside ABI version, ABI id, header path, and header source constants so agents preserve Rust, C, and projection compatibility.''
       (rule_labels ''agent-policy'')]"

definition agent_policy_rules :: "asp_rust_rule list" where
  "agent_policy_rules = bmap_values (rules_by_id (agent_policy_rule_list_1 @ agent_policy_rule_list_2 @ agent_policy_rule_list_3))"

definition pack_rules :: "rule_pack \<Rightarrow> asp_rust_rule list" where
  "pack_rules p = (case p of
     SyntaxPack \<Rightarrow> syntax_rules
   | ProjectPolicyPack \<Rightarrow> project_policy_rules
   | ModularityPack \<Rightarrow> modularity_rules
   | AgentPolicyPack \<Rightarrow> agent_policy_rules)"

section \<open>Catalog coherence\<close>

lemma rules_by_id_keys:
  assumes "m = bmap_of_list (map (\<lambda>r. (rule_id r, r)) rules)"
  shows "map rule_id (bmap_values m) = bmap_keys m"
proof -
  have "rule_id v = k" if "(k, v) \<in> set m" for k v
  proof -
    from that have "map_of (rev (map (\<lambda>r. (rule_id r, r)) rules)) k = Some v"
      unfolding assms by (simp add: bmap_in_set_iff bmap_get_of_list)
    then show ?thesis by (auto dest!: map_of_SomeD)
  qed
  then show ?thesis by auto
qed

lemma rules_by_id_values:
  "distinct (map rule_id (bmap_values (rules_by_id rules)))"
  "set (map rule_id (bmap_values (rules_by_id rules))) = rule_id ` set rules"
  "set (bmap_values (rules_by_id rules)) \<subseteq> set rules"
proof -
  have keys: "map rule_id (bmap_values (rules_by_id rules)) = bmap_keys (rules_by_id rules)"
    by (rule rules_by_id_keys) (simp add: rules_by_id_def)
  show "distinct (map rule_id (bmap_values (rules_by_id rules)))"
    unfolding keys unfolding rules_by_id_def by (rule ascending_distinct) simp
  show "set (map rule_id (bmap_values (rules_by_id rules))) = rule_id ` set rules"
    unfolding keys unfolding rules_by_id_def bmap_keys_of_list by (simp add: image_comp comp_def)
  have "(k, v) \<in> set (rules_by_id rules) \<Longrightarrow> v \<in> set rules" for k v
    by (auto simp: rules_by_id_def bmap_in_set_iff bmap_get_of_list dest!: map_of_SomeD)
  then show "set (bmap_values (rules_by_id rules)) \<subseteq> set rules" by auto
qed

definition catalog_list :: "rule_pack \<Rightarrow> asp_rust_rule list" where
  "catalog_list p = (case p of
     SyntaxPack \<Rightarrow> syntax_rule_list
   | ProjectPolicyPack \<Rightarrow> project_policy_rule_list_1 @ project_policy_rule_list_2
   | ModularityPack \<Rightarrow> modularity_rule_list
   | AgentPolicyPack \<Rightarrow> agent_policy_rule_list_1 @ agent_policy_rule_list_2 @ agent_policy_rule_list_3)"

lemmas rule_lists = syntax_rule_list_def project_policy_rule_list_1_def project_policy_rule_list_2_def
  modularity_rule_list_def agent_policy_rule_list_1_def agent_policy_rule_list_2_def
  agent_policy_rule_list_3_def asp_rust_rule_new_def

lemma pack_rules_catalog:
  "distinct (map rule_id (pack_rules p))" "set (map rule_id (pack_rules p)) = rule_id ` set (catalog_list p)"
  "set (pack_rules p) \<subseteq> set (catalog_list p)"
proof (induct p)
  case SyntaxPack
  { case 1 show ?case by (simp add: pack_rules_def syntax_rules_def syntax_rule_list_def)
  next case 2 show ?case by (simp add: pack_rules_def syntax_rules_def catalog_list_def)
  next case 3 show ?case by (simp add: pack_rules_def syntax_rules_def catalog_list_def) }
next
  case ProjectPolicyPack
  note eq = pack_rules_def project_policy_rules_def catalog_list_def rule_pack.case append_assoc
  { case 1 show ?case unfolding eq by (rule rules_by_id_values)
  next case 2 show ?case unfolding eq by (rule rules_by_id_values)
  next case 3 show ?case unfolding eq by (rule rules_by_id_values) }
next
  case ModularityPack
  note eq = pack_rules_def modularity_rules_def catalog_list_def rule_pack.case
  { case 1 show ?case unfolding eq by (rule rules_by_id_values)
  next case 2 show ?case unfolding eq by (rule rules_by_id_values)
  next case 3 show ?case unfolding eq by (rule rules_by_id_values) }
next
  case AgentPolicyPack
  note eq = pack_rules_def agent_policy_rules_def catalog_list_def rule_pack.case append_assoc
  { case 1 show ?case unfolding eq by (rule rules_by_id_values)
  next case 2 show ?case unfolding eq by (rule rules_by_id_values)
  next case 3 show ?case unfolding eq by (rule rules_by_id_values) }
qed

definition unlisted_rule_ids :: "rule_pack \<Rightarrow> string list" where
  "unlisted_rule_ids p = (case p of
     ProjectPolicyPack \<Rightarrow>
       [''RUST-AGENT-PROJECT-017'', ''RUST-AGENT-PROJECT-018'', ''RUST-AGENT-PROJECT-019'',
        ''RUST-AGENT-PROJECT-020'', ''RUST-AGENT-PROJECT-021'', ''RUST-AGENT-PROJECT-022'',
        ''RUST-AGENT-PROJECT-MANIFEST-023'', ''RUST-AGENT-PROJECT-024'']
   | AgentPolicyPack \<Rightarrow>
       [''RUST-AGENT-DATA-MEMBERSHIP-029'', ''RUST-AGENT-ASYNC-BLOCKING-030'',
        ''RUST-AGENT-ASYNC-SYNC-LOCK-031'', ''RUST-AGENT-ASYNC-BACKPRESSURE-032'',
        ''RUST-AGENT-ASYNC-CANCEL-SAFETY-033'', ''RUST-AGENT-ASYNC-CANCEL-SAFETY-034'',
        ''RUST-AGENT-ASYNC-TASK-LIFECYCLE-001'', ''RUST-AGENT-API-SHAPE-036'', ''RUST-AGENT-PROC-001'',
        ''RUST-AGENT-TOKIO-RUNTIME-002'', ''RUST-AGENT-NATIVE-ABI-001'']
   | _ \<Rightarrow> [])"

lemma catalog_ids: "map rule_id (catalog_list p) = rule_ids p @ unlisted_rule_ids p"
  by (cases p) (simp_all add: catalog_list_def rule_lists rule_ids_def unlisted_rule_ids_def)

lemma catalog_pack_ids: "list_all (\<lambda>r. pack_id r = rule_pack_id p) (catalog_list p)"
  by (cases p) (simp_all add: catalog_list_def rule_lists)

lemma pack_rule_ids: "set (map rule_id (pack_rules p)) = set (rule_ids p) \<union> set (unlisted_rule_ids p)"
  unfolding pack_rules_catalog(2) set_map [symmetric] catalog_ids by simp

lemma unlisted_disjoint: "set (rule_ids p) \<inter> set (unlisted_rule_ids p) = {}"
  by (cases p) (simp_all add: rule_ids_def unlisted_rule_ids_def)

text \<open>
  The catalog of each rule pack has no repeated rule id, every rule in it carries that pack's id,
  and every id that \<open>rule_ids\<close> attributes to the pack is a rule of its catalog; the syntax and
  modularity packs list exactly the ids of their catalogs.
\<close>

lemma pack_catalog_coherent:
  "distinct (map rule_id (pack_rules p)) \<and> list_all (\<lambda>r. pack_id r = rule_pack_id p) (pack_rules p) \<and>
   set (rule_ids p) \<subseteq> set (map rule_id (pack_rules p)) \<and>
   set (rule_ids SyntaxPack) = set (map rule_id (pack_rules SyntaxPack)) \<and>
   set (rule_ids ModularityPack) = set (map rule_id (pack_rules ModularityPack))"
proof -
  have "list_all (\<lambda>r. pack_id r = rule_pack_id p) (pack_rules p)"
    using catalog_pack_ids [of p] pack_rules_catalog(3) [of p] by (auto simp: list_all_iff)
  then show ?thesis
    using pack_rules_catalog(1) by (auto simp only: pack_rule_ids unlisted_rule_ids_def rule_pack.case list.set)
qed

end
