(* ===== verification/Policy_Config.thy ===== *)
theory Policy_Config
  imports Rule_Catalog Discovery
begin

text \<open>
  The run configuration, findings and reports of \<open>src/model.rs\<close>, the application of the configuration
  to the findings in \<open>src/rules/engine.rs\<close>, and the invariant candidates of
  \<open>src/invariant_catalog.rs\<close>. The findings that the four rule packs raise are an input here: they come
  from the syntax tree of the analysed sources.
\<close>

section \<open>Findings\<close>

record source_location =
  loc_path :: "path option"
  loc_line :: nat
  loc_column :: nat

record asp_rust_finding =
  finding_rule_id :: string
  finding_pack_id :: string
  severity :: severity
  finding_title :: string
  finding_summary :: string
  location :: source_location
  finding_requirement :: string
  source_line :: "string option"
  finding_label :: string
  finding_labels :: "(string \<times> string) list"

definition finding_from_rule ::
  "asp_rust_rule \<Rightarrow> string \<Rightarrow> source_location \<Rightarrow> string option \<Rightarrow> string \<Rightarrow> asp_rust_finding" where
  "finding_from_rule rule summ loc src lbl = \<lparr>finding_rule_id = rule_id rule,
     finding_pack_id = pack_id rule, severity = rule_severity rule, finding_title = rule_title rule,
     finding_summary = summ, location = loc, finding_requirement = rule_requirement rule,
     source_line = src, finding_label = lbl, finding_labels = bmap_of_list (rule_label_map rule)\<rparr>"

section \<open>Configuration\<close>

record asp_rust_config =
  ignored_dir_names :: "string list"
  include_hidden_dir_names :: "string list"
  blocking_severities :: "severity list"
  disabled_rules :: "string list"
  rule_severity_overrides :: "(string \<times> severity) list"
  include_tests :: bool
  source_dir_names :: "string list"
  test_dir_names :: "string list"
  source_path_explanations :: "(string \<times> string) list"
  test_path_explanations :: "(string \<times> string) list"
  source_path_exclusion_explanations :: "(string \<times> string) list"
  test_path_exclusion_explanations :: "(string \<times> string) list"
  agent_advice_allow_explanation :: "string option"
  cargo_check_advice_allow_explanation :: "string option"
  cargo_test_advice_allow_explanation :: "string option"
  verification_policy :: policy

definition default_config :: asp_rust_config where
  "default_config = \<lparr>ignored_dir_names = bset_of_list default_ignored_dir_names,
     include_hidden_dir_names = [], blocking_severities = bset_of_list [SeverityWarning, SeverityError],
     disabled_rules = [], rule_severity_overrides = [], include_tests = True,
     source_dir_names = [''src''], test_dir_names = [''tests''],
     source_path_explanations = [], test_path_explanations = [],
     source_path_exclusion_explanations = [], test_path_exclusion_explanations = [],
     agent_advice_allow_explanation = None, cargo_check_advice_allow_explanation = None,
     cargo_test_advice_allow_explanation = None, verification_policy = policy_default\<rparr>"

definition with_disabled_rule :: "string \<Rightarrow> asp_rust_config \<Rightarrow> asp_rust_config" where
  "with_disabled_rule rid c = c\<lparr>disabled_rules := bset_insert rid (disabled_rules c)\<rparr>"

definition with_disabled_rules :: "string list \<Rightarrow> asp_rust_config \<Rightarrow> asp_rust_config" where
  "with_disabled_rules ids c = c\<lparr>disabled_rules := bset_extend (disabled_rules c) ids\<rparr>"

definition with_disabled_rule_pack :: "rule_pack \<Rightarrow> asp_rust_config \<Rightarrow> asp_rust_config" where
  "with_disabled_rule_pack p c = c\<lparr>disabled_rules := bset_extend (disabled_rules c) (rule_ids p)\<rparr>"

definition with_rule_severity :: "string \<Rightarrow> severity \<Rightarrow> asp_rust_config \<Rightarrow> asp_rust_config" where
  "with_rule_severity rid s c =
     c\<lparr>rule_severity_overrides := bmap_insert rid s (rule_severity_overrides c)\<rparr>"

definition with_rule_pack_severity :: "rule_pack \<Rightarrow> severity \<Rightarrow> asp_rust_config \<Rightarrow> asp_rust_config" where
  "with_rule_pack_severity p s c = c\<lparr>rule_severity_overrides :=
     fold (\<lambda>rid. bmap_insert rid s) (rule_ids p) (rule_severity_overrides c)\<rparr>"

definition with_blocking_severities :: "severity list \<Rightarrow> asp_rust_config \<Rightarrow> asp_rust_config" where
  "with_blocking_severities ss c = c\<lparr>blocking_severities := bset_of_list ss\<rparr>"

definition normalize_config_scope_path :: "string \<Rightarrow> string" where
  "normalize_config_scope_path p =
     replace_char CHR 0x5C CHR ''/'' (trim_matches_char CHR ''/'' (trim p))"

definition push_unique_scope_path :: "string list \<Rightarrow> string \<Rightarrow> string list" where
  "push_unique_scope_path paths p = (if p \<in> set paths then paths else paths @ [p])"

definition retain_scope_paths_except :: "string list \<Rightarrow> string \<Rightarrow> string list" where
  "retain_scope_paths_except paths excluded_path =
     filter (\<lambda>p. normalize_config_scope_path p \<noteq> excluded_path) paths"

definition with_source_path :: "string \<Rightarrow> string \<Rightarrow> asp_rust_config \<Rightarrow> asp_rust_config" where
  "with_source_path p explanation c =
     (let p' = normalize_config_scope_path p in
      c\<lparr>source_dir_names := push_unique_scope_path (source_dir_names c) p',
        source_path_explanations := bmap_insert p' explanation (source_path_explanations c)\<rparr>)"

definition with_test_path :: "string \<Rightarrow> string \<Rightarrow> asp_rust_config \<Rightarrow> asp_rust_config" where
  "with_test_path p explanation c =
     (let p' = normalize_config_scope_path p in
      c\<lparr>test_dir_names := push_unique_scope_path (test_dir_names c) p',
        test_path_explanations := bmap_insert p' explanation (test_path_explanations c)\<rparr>)"

definition with_source_path_excluded :: "string \<Rightarrow> string \<Rightarrow> asp_rust_config \<Rightarrow> asp_rust_config" where
  "with_source_path_excluded p explanation c =
     (let p' = normalize_config_scope_path p in
      c\<lparr>source_dir_names := retain_scope_paths_except (source_dir_names c) p',
        source_path_exclusion_explanations := bmap_insert p' explanation (source_path_exclusion_explanations c)\<rparr>)"

definition with_test_path_excluded :: "string \<Rightarrow> string \<Rightarrow> asp_rust_config \<Rightarrow> asp_rust_config" where
  "with_test_path_excluded p explanation c =
     (let p' = normalize_config_scope_path p in
      c\<lparr>test_dir_names := retain_scope_paths_except (test_dir_names c) p',
        test_path_exclusion_explanations := bmap_insert p' explanation (test_path_exclusion_explanations c)\<rparr>)"

definition with_tests_excluded :: "string \<Rightarrow> asp_rust_config \<Rightarrow> asp_rust_config" where
  "with_tests_excluded explanation c = c\<lparr>include_tests := False,
     test_path_exclusion_explanations := bmap_insert ''tests'' explanation (test_path_exclusion_explanations c)\<rparr>"

definition with_cargo_check_advice_allow_explanation :: "string \<Rightarrow> asp_rust_config \<Rightarrow> asp_rust_config" where
  "with_cargo_check_advice_allow_explanation e c = c\<lparr>cargo_check_advice_allow_explanation := Some e\<rparr>"

definition with_cargo_test_advice_allow_explanation :: "string \<Rightarrow> asp_rust_config \<Rightarrow> asp_rust_config" where
  "with_cargo_test_advice_allow_explanation e c = c\<lparr>cargo_test_advice_allow_explanation := Some e\<rparr>"

definition with_agent_advice_allow_explanation :: "string \<Rightarrow> asp_rust_config \<Rightarrow> asp_rust_config" where
  "with_agent_advice_allow_explanation e c = c\<lparr>agent_advice_allow_explanation := Some e\<rparr>"

definition with_verification_policy :: "policy \<Rightarrow> asp_rust_config \<Rightarrow> asp_rust_config" where
  "with_verification_policy p c = c\<lparr>verification_policy := p\<rparr>"

text \<open>The builders that update the verification policy of a configuration.\<close>

definition update_policy :: "(policy \<Rightarrow> policy) \<Rightarrow> asp_rust_config \<Rightarrow> asp_rust_config" where
  "update_policy f c = c\<lparr>verification_policy := f (verification_policy c)\<rparr>"

definition with_verification_profile_hint :: "profile_hint \<Rightarrow> asp_rust_config \<Rightarrow> asp_rust_config" where
  "with_verification_profile_hint h = update_policy (with_profile_hint h)"

definition with_verification_api_path_baseline :: "api_path_baseline \<Rightarrow> asp_rust_config \<Rightarrow> asp_rust_config" where
  "with_verification_api_path_baseline b = update_policy (with_api_path_baseline b)"

definition with_verification_receipt :: "receipt \<Rightarrow> asp_rust_config \<Rightarrow> asp_rust_config" where
  "with_verification_receipt r = update_policy (with_receipt r)"

definition with_verification_waiver :: "waiver \<Rightarrow> asp_rust_config \<Rightarrow> asp_rust_config" where
  "with_verification_waiver w = update_policy (with_waiver w)"

definition with_verification_task_contract :: "task_kind \<Rightarrow> task_contract \<Rightarrow> asp_rust_config \<Rightarrow> asp_rust_config" where
  "with_verification_task_contract k contract = update_policy (with_task_contract k contract)"

definition with_verification_skill_binding :: "task_kind \<Rightarrow> skill_binding \<Rightarrow> asp_rust_config \<Rightarrow> asp_rust_config" where
  "with_verification_skill_binding k b = update_policy (with_skill_binding k b)"

definition with_verification_skill_descriptor :: "skill_descriptor \<Rightarrow> asp_rust_config \<Rightarrow> asp_rust_config" where
  "with_verification_skill_descriptor d = update_policy (with_skill_descriptor d)"

definition with_verification_responsibility_task_kinds ::
  "responsibility \<Rightarrow> task_kind list \<Rightarrow> asp_rust_config \<Rightarrow> asp_rust_config" where
  "with_verification_responsibility_task_kinds r kinds = update_policy (with_responsibility_task_kinds r kinds)"

definition with_verification_dependency_signal :: "dependency_signal \<Rightarrow> asp_rust_config \<Rightarrow> asp_rust_config" where
  "with_verification_dependency_signal s = update_policy (with_dependency_signal s)"

definition with_verification_stability_picture :: "stability_config \<Rightarrow> asp_rust_config \<Rightarrow> asp_rust_config" where
  "with_verification_stability_picture sc = update_policy (with_stability_picture sc)"

definition with_criterion_performance_verification :: "asp_rust_config \<Rightarrow> asp_rust_config" where
  "with_criterion_performance_verification c =
     (let d = criterion_performance;
          b = binding_with_adapter (case descriptor_adapter d of Some a \<Rightarrow> a | None \<Rightarrow> ''criterion'')
                (skill_binding_new (descriptor_skill_id d))
      in with_verification_skill_descriptor d (with_verification_skill_binding Performance b c))"

definition with_latency_sensitive_performance_owner ::
  "path \<Rightarrow> string \<Rightarrow> asp_rust_config \<Rightarrow> asp_rust_config" where
  "with_latency_sensitive_performance_owner owner rationale =
     with_verification_profile_hint (hint_with_rationale rationale
       (hint_with_task_kinds [Performance] (profile_hint_new owner [LatencySensitive])))"

definition with_availability_stability_owner ::
  "path \<Rightarrow> string \<Rightarrow> asp_rust_config \<Rightarrow> asp_rust_config" where
  "with_availability_stability_owner owner rationale =
     with_verification_profile_hint (hint_with_rationale rationale
       (hint_with_task_kinds [Stability] (profile_hint_new owner [AvailabilityCritical])))"

section \<open>The rule engine\<close>

definition configured_finding :: "asp_rust_config \<Rightarrow> asp_rust_finding \<Rightarrow> asp_rust_finding option" where
  "configured_finding c f =
     (if finding_rule_id f \<in> set (disabled_rules c) then None
      else Some (case bmap_get (rule_severity_overrides c) (finding_rule_id f) of
                   Some s \<Rightarrow> f\<lparr>severity := s\<rparr> | None \<Rightarrow> f))"

definition apply_policy_config :: "asp_rust_finding list \<Rightarrow> asp_rust_config \<Rightarrow> asp_rust_finding list" where
  "apply_policy_config findings c = List.map_filter (configured_finding c) findings"

section \<open>Invariant candidates\<close>

datatype invariant_kind =
    PrimitiveIdentifierBoundary | PublicDataPrimitiveFields | AnonymousTupleApiSurface
  | PrimitiveTypeAliasBoundary | StringlyStateBoundary | InvariantParserFact | PublicApiShape
  | ModuleReasoningTree | DependencyGraphAcyclicity | InvariantCustom

datatype invariant_status = Candidate | Accepted | Verified | InvariantWaived | Stale

datatype invariant_receipt_kind =
  CargoCheck | CargoTest | Clippy | ExpectTest | Proptest | CargoFuzz | Kani | Creusot | Verus | WaiverReceipt

datatype invariant_evidence_kind =
  FindingEvidence | ParserFactEvidence | ReceiptEvidence | ProofEvidence | CustomEvidence

record invariant_evidence =
  inv_ev_kind :: invariant_evidence_kind
  inv_ev_summary :: string
  inv_ev_location :: "source_location option"
  inv_ev_fields :: "(string \<times> string) list"

record invariant_candidate =
  invariant_id :: string
  source_rule_id :: string
  rule_pack_id_of :: string
  invariant_kind_of :: invariant_kind
  invariant_status_of :: invariant_status
  invariant_severity :: severity
  invariant_title :: string
  hypothesis :: string
  invariant_location :: source_location
  invariant_evidence_of :: "invariant_evidence list"
  required_receipts :: "invariant_receipt_kind list"
  proof_targets :: "invariant_kind list"
  invariant_fields :: "(string \<times> string) list"

record invariant_spec =
  spec_kind :: invariant_kind
  spec_hypothesis :: string
  spec_required_receipts :: "invariant_receipt_kind list"
  spec_proof_targets :: "invariant_kind list"

definition base_receipts :: "invariant_receipt_kind list" where
  "base_receipts = [CargoCheck, CargoTest, Clippy]"

definition behavior_receipts :: "invariant_receipt_kind list" where
  "behavior_receipts = [CargoCheck, CargoTest, Clippy, ExpectTest]"

definition invariant_spec_of :: "string \<Rightarrow> invariant_spec option" where
  "invariant_spec_of rid =
     (let spec = (\<lambda>k h rs. Some \<lparr>spec_kind = k, spec_hypothesis = h, spec_required_receipts = rs,
                    spec_proof_targets = [PublicApiShape]\<rparr>) in
      if rid = ''RUST-AGENT-API-TYPE-012'' then
        spec PrimitiveIdentifierBoundary ''Public identifier parameters should cross API boundaries as owner-named types or documented raw boundaries.'' base_receipts
      else if rid = ''RUST-AGENT-DATA-FIELD-020'' then
        spec PublicDataPrimitiveFields ''Public data structs with several semantic primitive fields should expose named domain fields or documented raw DTO boundaries.'' base_receipts
      else if rid = ''RUST-AGENT-API-SHAPE-023'' then
        spec AnonymousTupleApiSurface ''Public APIs should not expose anonymous tuple payloads when named structs, enums, or newtypes can carry field intent.'' behavior_receipts
      else if rid = ''RUST-AGENT-API-TYPE-ALIAS-027'' then
        spec PrimitiveTypeAliasBoundary ''Public semantic aliases over primitive carriers should become named newtype or struct boundaries.'' base_receipts
      else if rid = ''RUST-AGENT-DATA-STATE-028'' then
        spec StringlyStateBoundary ''Public stringly state fields should become enums, newtypes, or typed catalog boundaries.'' behavior_receipts
      else None)"

text \<open>
  \<open>sanitize_candidate_id\<close> maps characters. A character outside ASCII, a sequence of bytes whose first
  byte is at least 192 (to the continuation bytes that follow), becomes one dot.
\<close>

definition sanitize_byte :: "char \<Rightarrow> char list" where
  "sanitize_byte c =
     (if CHR ''A'' \<le> c \<and> c \<le> CHR ''Z'' then [char_of (byte c + 32)]
      else if (CHR ''a'' \<le> c \<and> c \<le> CHR ''z'') \<or> (CHR ''0'' \<le> c \<and> c \<le> CHR ''9'') \<or> c \<in> set ''-_.:'' then [c]
      else if cont_byte c then [] else [CHR ''.''])"

definition sanitize_candidate_id :: "string \<Rightarrow> string" where
  "sanitize_candidate_id raw = concat (map sanitize_byte raw)"

definition finding_invariant_id :: "asp_rust_finding \<Rightarrow> string" where
  "finding_invariant_id f =
     (let p = (case loc_path (location f) of
          Some p \<Rightarrow> replace_char CHR 0x5C CHR ''/'' (display p) | None \<Rightarrow> ''unknown'')
      in sanitize_candidate_id (finding_rule_id f @ '':'' @ p @ '':'' @ show_nat (loc_line (location f))))"

definition invariant_candidate_from_finding :: "asp_rust_finding \<Rightarrow> invariant_candidate option" where
  "invariant_candidate_from_finding f =
     map_option
       (\<lambda>spec. \<lparr>invariant_id = finding_invariant_id f, source_rule_id = finding_rule_id f,
          rule_pack_id_of = finding_pack_id f, invariant_kind_of = spec_kind spec,
          invariant_status_of = Candidate, invariant_severity = severity f,
          invariant_title = finding_title f, hypothesis = spec_hypothesis spec,
          invariant_location = location f,
          invariant_evidence_of = [\<lparr>inv_ev_kind = FindingEvidence, inv_ev_summary = finding_summary f,
            inv_ev_location = Some (location f),
            inv_ev_fields = bmap_insert ''label'' (finding_label f)
              (bmap_insert ''requirement'' (finding_requirement f) [])\<rparr>],
          required_receipts = spec_required_receipts spec, proof_targets = spec_proof_targets spec,
          invariant_fields = bmap_insert ''sourceRuleId'' (finding_rule_id f) (finding_labels f)\<rparr>)
       (invariant_spec_of (finding_rule_id f))"

definition invariant_candidates_from_findings :: "asp_rust_finding list \<Rightarrow> invariant_candidate list" where
  "invariant_candidates_from_findings fs = List.map_filter invariant_candidate_from_finding fs"

section \<open>Reports\<close>

record rust_module_report =
  module_path :: path
  module_is_valid :: bool
  module_parse_error :: "string option"

record asp_rust_report =
  modules :: "rust_module_report list"
  findings :: "asp_rust_finding list"
  invariant_candidates :: "invariant_candidate list"
  root_paths :: "path list"
  report_blocking_severities :: "severity list"
  report_project_resolution :: "asp_rust_scope option"
  workspace_member_scopes :: "asp_rust_scope list"

definition monitored_paths :: "asp_rust_scope \<Rightarrow> path list" where
  "monitored_paths s =
     (let selected = scope_source_paths s @ scope_test_paths s @ scope_package_paths s
      in if selected = [] then scope_fallback_paths s else selected)"

definition parsed_count :: "asp_rust_report \<Rightarrow> nat" where
  "parsed_count r = length (filter module_is_valid (modules r))"

definition file_count :: "asp_rust_report \<Rightarrow> nat" where
  "file_count r = length (modules r)"

definition blocking_findings :: "asp_rust_report \<Rightarrow> severity list option \<Rightarrow> asp_rust_finding list" where
  "blocking_findings r severities =
     (let selected = (case severities of Some s \<Rightarrow> s | None \<Rightarrow> report_blocking_severities r)
      in filter (\<lambda>f. severity f \<in> set selected) (findings r))"

definition is_clean :: "asp_rust_report \<Rightarrow> bool" where
  "is_clean r \<longleftrightarrow> blocking_findings r None = []"

definition advisory_findings :: "asp_rust_report \<Rightarrow> asp_rust_finding list" where
  "advisory_findings r = filter (\<lambda>f. severity f = SeverityInfo) (findings r)"

section \<open>What the configuration decides\<close>

definition effective_severity :: "asp_rust_config \<Rightarrow> asp_rust_finding \<Rightarrow> severity" where
  "effective_severity c f =
     (case bmap_get (rule_severity_overrides c) (finding_rule_id f) of Some s \<Rightarrow> s | None \<Rightarrow> severity f)"

lemma apply_policy_config_eq:
  "apply_policy_config fs c = map (\<lambda>f. f\<lparr>severity := effective_severity c f\<rparr>)
     (filter (\<lambda>f. finding_rule_id f \<notin> set (disabled_rules c)) fs)"
  by (induction fs)
    (auto simp: apply_policy_config_def map_filter_def configured_finding_def effective_severity_def
      split: option.splits)

text \<open>
  A report built from configured findings is clean exactly when every raised finding either belongs
  to a disabled rule or has an effective severity, the override of its rule or else its own, that the
  configuration does not block on.
\<close>

lemma configured_report_is_clean_iff:
  "is_clean (r\<lparr>findings := apply_policy_config fs c, report_blocking_severities := blocking_severities c\<rparr>) \<longleftrightarrow>
   (\<forall>f \<in> set fs. finding_rule_id f \<in> set (disabled_rules c) \<or>
      effective_severity c f \<notin> set (blocking_severities c))"
  by (auto simp: is_clean_def blocking_findings_def apply_policy_config_eq filter_empty_conv)


lemma bmap_get_fold_insert:
  "ascending (bmap_keys m) \<Longrightarrow> bmap_get (fold (\<lambda>k. bmap_insert k v) ks m) k =
     (if k \<in> set ks then Some v else bmap_get m k)"
  by (induction ks arbitrary: m) (auto simp: bmap_simps)

text \<open>
  Assigning a severity to a rule pack reclassifies exactly the findings of the rules the pack lists,
  whatever was configured for them before, and changes nothing else: the same findings, in the same order.
\<close>

lemma rule_pack_severity_reclassifies:
  assumes "ascending (bmap_keys (rule_severity_overrides c))"
  shows "apply_policy_config fs (with_rule_pack_severity p s c) =
    map (\<lambda>f. if finding_rule_id f \<in> set (rule_ids p) then f\<lparr>severity := s\<rparr> else f) (apply_policy_config fs c)"
  using assms
  by (auto simp: apply_policy_config_eq with_rule_pack_severity_def effective_severity_def bmap_get_fold_insert)


text \<open>
  Disabling a whole rule pack leaves rules of that pack enabled: the rules of the pack's catalog that
  stay enabled are exactly those missing from \<open>rule_ids\<close>, eight of the project pack and eleven of the
  agent pack.
\<close>

lemma disabled_rule_pack_leaves_rules_enabled:
  "{rid \<in> set (map rule_id (pack_rules p)). rid \<notin> set (disabled_rules (with_disabled_rule_pack p default_config))} =
     set (unlisted_rule_ids p) \<and>
   length (unlisted_rule_ids ProjectPolicyPack) = 8 \<and> length (unlisted_rule_ids AgentPolicyPack) = 11"
  using unlisted_disjoint [of p]
  by (auto simp only: pack_rule_ids) (auto simp: with_disabled_rule_pack_def default_config_def unlisted_rule_ids_def)

text \<open>
  Excluding a source path removes every configured spelling of it when its normal form is stable
  under normalisation; but a path written with a leading backslash is not stable: excluding it right after
  adding it leaves it in the scanned source paths.
\<close>

lemma source_path_exclusion:
  "(normalize_config_scope_path (normalize_config_scope_path p) = normalize_config_scope_path p \<longrightarrow>
      normalize_config_scope_path p \<notin> set (source_dir_names (with_source_path_excluded p e c))) \<and>
   normalize_config_scope_path [CHR 0x5C, CHR ''l''] \<in> set (source_dir_names
     (with_source_path_excluded [CHR 0x5C, CHR ''l''] e (with_source_path [CHR 0x5C, CHR ''l''] e' c)))"
proof
  show "normalize_config_scope_path (normalize_config_scope_path p) = normalize_config_scope_path p \<longrightarrow>
      normalize_config_scope_path p \<notin> set (source_dir_names (with_source_path_excluded p e c))"
    by (simp add: with_source_path_excluded_def retain_scope_paths_except_def Let_def)
  have "normalize_config_scope_path [CHR 0x5C, CHR ''l''] = ''/l''" "normalize_config_scope_path ''/l'' = ''l''"
    by code_simp+
  then show "normalize_config_scope_path [CHR 0x5C, CHR ''l''] \<in> set (source_dir_names
     (with_source_path_excluded [CHR 0x5C, CHR ''l''] e (with_source_path [CHR 0x5C, CHR ''l''] e' c)))"
    by (simp add: with_source_path_excluded_def retain_scope_paths_except_def with_source_path_def
        push_unique_scope_path_def Let_def)
qed


end
