(* ===== verification/Verification_Profile.thy ===== *)
theory Verification_Profile
  imports Verification_Model
begin

text \<open>
  \<open>src/verification/profile.rs\<close>: which verification task kinds follow from declared
  responsibilities, the contract of each task, and the reasons and evidence attached to it.
\<close>

section \<open>Labels and evidence\<close>

definition responsibility_labels :: "responsibility list \<Rightarrow> string" where
  "responsibility_labels rs = (if rs = [] then ''<none>'' else join_with '','' (map responsibility_str rs))"

definition task_kind_labels :: "task_kind list \<Rightarrow> string" where
  "task_kind_labels ks = (if ks = [] then ''<none>'' else join_with '','' (map task_kind_str ks))"

definition normalized_rationale :: "string option \<Rightarrow> string option" where
  "normalized_rationale r = Option.bind r (\<lambda>s. if trim s = [] then None else Some (trim s))"

definition normalized_hint_rationale :: "profile_hint \<Rightarrow> string option" where
  "normalized_hint_rationale h = normalized_rationale (hint_rationale h)"

definition normalized_api_path_rationale :: "api_path_baseline \<Rightarrow> string option" where
  "normalized_api_path_rationale b = normalized_rationale (api_rationale b)"

definition hint_rationale_is_empty :: "profile_hint \<Rightarrow> bool" where
  "hint_rationale_is_empty h \<longleftrightarrow> normalized_hint_rationale h = None"

definition api_path_rationale_is_empty :: "api_path_baseline \<Rightarrow> bool" where
  "api_path_rationale_is_empty b \<longleftrightarrow> normalized_api_path_rationale b = None"

definition rationale_evidence :: "string option \<Rightarrow> evidence list" where
  "rationale_evidence r = (case r of Some s \<Rightarrow> [evidence_new ''rationale'' s] | None \<Rightarrow> [])"

definition profile_evidence :: "profile_hint \<Rightarrow> evidence list" where
  "profile_evidence h = evidence_new ''profile'' (responsibility_labels (hint_responsibilities h))
     # rationale_evidence (normalized_hint_rationale h)"

definition api_path_baseline_evidence :: "api_path_baseline \<Rightarrow> evidence list" where
  "api_path_baseline_evidence b =
     [evidence_new ''api_path'' (api_evidence_value b),
      evidence_new ''profile'' (responsibility_labels (api_responsibilities b))]
     @ rationale_evidence (normalized_api_path_rationale b)"

section \<open>Task kinds\<close>

fun default_task_kinds_for_responsibility :: "responsibility \<Rightarrow> task_kind list" where
  "default_task_kinds_for_responsibility PublicApi = [Stress]"
| "default_task_kinds_for_responsibility LatencySensitive = [Performance]"
| "default_task_kinds_for_responsibility ExternalDependency = [Chaos]"
| "default_task_kinds_for_responsibility Persistence = [Chaos]"
| "default_task_kinds_for_responsibility AvailabilityCritical = bset_of_list [Chaos, Stability]"
| "default_task_kinds_for_responsibility SecurityBoundary = [Security]"
| "default_task_kinds_for_responsibility PureDomainLogic = []"

definition responsibility_task_kinds :: "policy \<Rightarrow> responsibility \<Rightarrow> task_kind list" where
  "responsibility_task_kinds p r =
     (case bmap_get (responsibility_task_overrides p) r of
        Some ks \<Rightarrow> ks | None \<Rightarrow> default_task_kinds_for_responsibility r)"

definition task_kinds_for_responsibilities :: "responsibility list \<Rightarrow> policy \<Rightarrow> task_kind list" where
  "task_kinds_for_responsibilities rs p = bset_of_list (concat (map (responsibility_task_kinds p) rs))"

definition task_kinds_for_profile :: "profile_hint \<Rightarrow> policy \<Rightarrow> task_kind list" where
  "task_kinds_for_profile h p =
     (case hint_task_kinds h of Some ks \<Rightarrow> ks
      | None \<Rightarrow> task_kinds_for_responsibilities (hint_responsibilities h) p)"

definition task_kinds_for_api_path_baseline :: "api_path_baseline \<Rightarrow> policy \<Rightarrow> task_kind list" where
  "task_kinds_for_api_path_baseline b p =
     (case api_task_kinds b of Some ks \<Rightarrow> ks
      | None \<Rightarrow> task_kinds_for_responsibilities (api_responsibilities b) p)"

section \<open>Reasons\<close>

fun default_profile_task_reason :: "task_kind \<Rightarrow> string" where
  "default_profile_task_reason Stress = ''profile declares public API or integration surface''"
| "default_profile_task_reason Performance = ''profile declares latency-sensitive Rust owner''"
| "default_profile_task_reason Stability = ''profile declares availability-critical Rust owner''"
| "default_profile_task_reason Chaos = ''profile declares dependency, persistence, or availability responsibility''"
| "default_profile_task_reason Security = ''profile declares auth, authorization, secret, or trust-boundary logic''"
| "default_profile_task_reason Regression = ''profile config maps responsibilities to regression verification''"
| "default_profile_task_reason ResponsibilityReview = ''profile config maps responsibilities to responsibility review''"

definition profile_task_reason :: "task_kind \<Rightarrow> responsibility list \<Rightarrow> bool \<Rightarrow> string" where
  "profile_task_reason k rs uses_owner_task_override =
     (if uses_owner_task_override
      then ''owner profile explicitly requests '' @ task_kind_str k @ '' verification''
      else if list_ex (\<lambda>r. k \<in> set (default_task_kinds_for_responsibility r)) rs
      then default_profile_task_reason k
      else ''profile config maps responsibilities to '' @ task_kind_str k @ '' verification'')"

definition api_path_task_reason :: "task_kind \<Rightarrow> api_path_baseline \<Rightarrow> bool \<Rightarrow> string" where
  "api_path_task_reason k b uses_path_task_override =
     (if uses_path_task_override
      then ''API path baseline '' @ compact_api_label b @ '' explicitly requests '' @ task_kind_str k @ '' verification''
      else if list_ex (\<lambda>r. k \<in> set (default_task_kinds_for_responsibility r)) (api_responsibilities b)
      then ''API path baseline '' @ compact_api_label b @ '' declares '' @
           responsibility_labels (api_responsibilities b) @ '' responsibility''
      else ''API path baseline '' @ compact_api_label b @ '' maps responsibilities to '' @ task_kind_str k @ '' verification'')"

section \<open>Contracts\<close>

definition requirements :: "(string \<times> string) list \<Rightarrow> requirement list" where
  "requirements rs = map (\<lambda>(key, description). requirement_new key description) rs"

definition stress_requirements :: "requirement list" where
  "stress_requirements = requirements
     [(''p50'',
       ''median latency under the chosen load step''),
      (''p99'',
       ''p99 latency under the chosen load step''),
      (''p999'',
       ''p999 latency when available or explicitly unsupported''),
      (''load_steps'',
       ''pressure staircase and concurrency/request rates''),
      (''sla_result'',
       ''whether the declared SLA was held or broken'')]"

definition performance_requirements :: "requirement list" where
  "performance_requirements = requirements
     [(''benchmark_command'',
       ''cargo bench or project-owned command that exercises this owner''),
      (''baseline'',
       ''baseline commit, release, or previous artifact used for comparison''),
      (''regression_threshold'',
       ''accepted slowdown, throughput drop, or allocation growth limit''),
      (''latency_or_throughput'',
       ''ns/op, ops/sec, or domain-specific throughput result''),
      (''allocation_profile'',
       ''allocation count, bytes, or explicit unsupported result''),
      (''profile_artifact'',
       ''criterion, divan, iai-callgrind, flamegraph, or equivalent artifact'')]"

definition stability_requirements :: "requirement list" where
  "stability_requirements = requirements
     [(''stability_command'',
       ''long-running verification command or project-owned replay scenario''),
      (''iteration_window'',
       ''iterations, duration, warmup, and sample window used for the run''),
      (''latency_distribution'',
       ''p50/p95/p99/max latency or explicit unsupported result''),
      (''resource_delta'',
       ''RSS, heap, file descriptor, thread, or handle growth over the run''),
      (''state_growth'',
       ''cache, index, queue, database, or artifact growth over the run''),
      (''determinism'',
       ''repeated-run drift, replay consistency, or explicit nondeterminism bound''),
      (''stability_artifact'',
       ''machine-readable report, trace, profile, or log bundle artifact'')]"

definition chaos_requirements :: "requirement list" where
  "chaos_requirements = requirements
     [(''injected_failures'',
       ''dependencies and failure modes injected''),
      (''degradation'',
       ''observed degraded behavior during the fault''),
      (''recovery'',
       ''recovery signal and time after the fault is removed'')]"

definition security_requirements :: "requirement list" where
  "security_requirements = requirements
     [(''attack_classes'',
       ''common attack classes scanned''),
      (''authorization_boundary'',
       ''authorization or trust-boundary result''),
      (''findings'',
       ''confirmed findings or explicit none result'')]"

definition regression_requirements :: "requirement list" where
  "regression_requirements = requirements
     [(''source_growth'',
       ''source growth or owner bloat trend''),
      (''dependency_drift'',
       ''owner dependency drift or fan-out change''),
      (''module_cycles'',
       ''module or owner-cycle status'')]"

definition responsibility_review_requirements :: "requirement list" where
  "responsibility_review_requirements = requirements
     [(''profile_resolution'',
       ''updated responsibility hint or complete waiver rationale'')]"

fun default_task_contract :: "task_kind \<Rightarrow> task_contract" where
  "default_task_contract Stress = task_contract_new AfterUnitTestsPass
     ''stress skill must report p50/p99/p999, load steps, and SLA result for this fingerprint''
     stress_requirements"
| "default_task_contract Performance = task_contract_new AfterUnitTestsPass
     ''performance skill must report benchmark command, baseline, regression threshold, latency or throughput, allocation profile, and profiling artifact for this fingerprint''
     performance_requirements"
| "default_task_contract Stability = task_contract_new ScheduledRegression
     ''stability skill must report long-run command, iteration window, latency distribution, resource delta, state growth, determinism, and artifact for this fingerprint''
     stability_requirements"
| "default_task_contract Chaos = task_contract_new BeforeRelease
     ''chaos skill must report injected failures, degradation behavior, and recovery result for this fingerprint''
     chaos_requirements"
| "default_task_contract Security = task_contract_new BeforeRelease
     ''security skill must report scanned attack classes and authorization-boundary result for this fingerprint''
     security_requirements"
| "default_task_contract Regression = task_contract_new ScheduledRegression
     ''regression skill must report source growth, dependency drift, and module-cycle status for this fingerprint''
     regression_requirements"
| "default_task_contract ResponsibilityReview = task_contract_new BeforeVerification
     ''update the verification profile hint to match parser facts, or attach a complete waiver''
     responsibility_review_requirements"

definition task_contract_from_overrides ::
  "policy \<Rightarrow> (task_kind \<times> task_contract) list option \<Rightarrow> task_kind \<Rightarrow> task_contract" where
  "task_contract_from_overrides p local_overrides k =
     (case Option.bind local_overrides (\<lambda>m. bmap_get m k) of
        Some c \<Rightarrow> c
      | None \<Rightarrow> (case bmap_get (task_contract_overrides p) k of Some c \<Rightarrow> c | None \<Rightarrow> default_task_contract k))"

definition task_contract_for_profile :: "policy \<Rightarrow> profile_hint option \<Rightarrow> task_kind \<Rightarrow> task_contract" where
  "task_contract_for_profile p h k =
     task_contract_from_overrides p (map_option hint_task_contract_overrides h) k"

definition task_contract_for_api_path_baseline :: "policy \<Rightarrow> api_path_baseline \<Rightarrow> task_kind \<Rightarrow> task_contract" where
  "task_contract_for_api_path_baseline p b k =
     task_contract_from_overrides p (Some (api_task_contract_overrides b)) k"

section \<open>What the mapping yields\<close>

lemma ascending_task_kinds_for_responsibilities: "ascending (task_kinds_for_responsibilities rs p)"
  by (simp add: task_kinds_for_responsibilities_def)

lemma in_responsibility_task_kinds:
  "k \<in> set (responsibility_task_kinds p r) \<longleftrightarrow>
     (\<exists>ks. bmap_get (responsibility_task_overrides p) r = Some ks \<and> k \<in> set ks) \<or>
     (bmap_get (responsibility_task_overrides p) r = None \<and> k \<in> set (default_task_kinds_for_responsibility r))"
  by (auto simp: responsibility_task_kinds_def split: option.splits)

text \<open>
  The task kinds of a profile are its explicit ones when it has any setting, and otherwise exactly
  the kinds its responsibilities map to, by the policy override of a responsibility or else by default;
  an owner whose only responsibility is pure domain logic gets none under a default policy.
\<close>

lemma task_kinds_for_profile_exact:
  "(\<forall>ks. hint_task_kinds h = Some ks \<longrightarrow> task_kinds_for_profile h p = ks) \<and>
   (hint_task_kinds h = None \<longrightarrow> ascending (task_kinds_for_profile h p) \<and>
     set (task_kinds_for_profile h p) =
       {k. \<exists>r \<in> set (hint_responsibilities h).
          (\<exists>ks. bmap_get (responsibility_task_overrides p) r = Some ks \<and> k \<in> set ks) \<or>
          (bmap_get (responsibility_task_overrides p) r = None \<and>
            k \<in> set (default_task_kinds_for_responsibility r))}) \<and>
   task_kinds_for_profile (profile_hint_new owner [PureDomainLogic]) policy_default = []"
proof (intro conjI)
  show "\<forall>ks. hint_task_kinds h = Some ks \<longrightarrow> task_kinds_for_profile h p = ks"
    by (simp add: task_kinds_for_profile_def)
  show "hint_task_kinds h = None \<longrightarrow> ascending (task_kinds_for_profile h p) \<and>
     set (task_kinds_for_profile h p) =
       {k. \<exists>r \<in> set (hint_responsibilities h).
          (\<exists>ks. bmap_get (responsibility_task_overrides p) r = Some ks \<and> k \<in> set ks) \<or>
          (bmap_get (responsibility_task_overrides p) r = None \<and>
            k \<in> set (default_task_kinds_for_responsibility r))}"
    unfolding in_responsibility_task_kinds [symmetric]
    by (auto simp: task_kinds_for_profile_def task_kinds_for_responsibilities_def)
  show "task_kinds_for_profile (profile_hint_new owner [PureDomainLogic]) policy_default = []"
    by (simp add: task_kinds_for_profile_def profile_hint_new_def task_kinds_for_responsibilities_def
        responsibility_task_kinds_def policy_default_def bset_of_list_def)
qed


text \<open>
  A task's contract is the owner's own override if there is one, else the policy's, else the default
  of its kind; and every default contract requires at least one piece of evidence, without repeating a key.
\<close>

lemma task_contract_precedence:
  "(bmap_get (hint_task_contract_overrides h) k = Some c \<longrightarrow> task_contract_for_profile p (Some h) k = c) \<and>
   (bmap_get (hint_task_contract_overrides h) k = None \<longrightarrow>
     task_contract_for_profile p (Some h) k = task_contract_for_profile p None k) \<and>
   task_contract_for_profile p None k =
     (case bmap_get (task_contract_overrides p) k of Some c' \<Rightarrow> c' | None \<Rightarrow> default_task_contract k) \<and>
   contract_required_evidence (default_task_contract k) \<noteq> [] \<and>
   distinct (map req_key (contract_required_evidence (default_task_contract k)))"
proof -
  have "contract_required_evidence (default_task_contract k) \<noteq> [] \<and>
      distinct (map req_key (contract_required_evidence (default_task_contract k)))"
    by (cases k) (simp_all add: task_contract_new_def stress_requirements_def performance_requirements_def
      stability_requirements_def chaos_requirements_def security_requirements_def
      regression_requirements_def responsibility_review_requirements_def requirements_def requirement_new_def)
  then show ?thesis
    by (auto simp: task_contract_for_profile_def task_contract_from_overrides_def)
qed

lemma task_contract_precedence_witness:
  "task_contract_for_profile policy_default
     (Some (hint_with_task_contract Chaos (default_task_contract Stress) (profile_hint_new [] []))) Chaos =
   default_task_contract Stress"
  using task_contract_precedence
    [of "hint_with_task_contract Chaos (default_task_contract Stress) (profile_hint_new [] [])" Chaos
      "default_task_contract Stress" policy_default]
  by (simp add: hint_with_task_contract_def profile_hint_new_def)

end
