(* ===== verification/Fingerprint.thy ===== *)
theory Fingerprint
  imports Verification_Model "HOL-Library.Word"
begin

unbundle bit_operations_syntax

text \<open>
  \<open>src/verification/fingerprint.rs\<close>: task fingerprints, the FNV-1a hash of a textual material on
  64-bit words, and what they distinguish.
\<close>

record fingerprint_input =
  fp_kind :: task_kind
  fp_project_root :: path
  fp_package_root :: path
  fp_owner_path :: path
  fp_line :: "nat option"
  fp_required_evidence :: "requirement list"
  fp_evidence :: "evidence list"
  fp_skill_contract_material :: "string option"

definition relative_display :: "path \<Rightarrow> path \<Rightarrow> string" where
  "relative_display p base = replace_char CHR 0x5C CHR ''/''
     (display (case strip_prefix p base of Some r \<Rightarrow> r | None \<Rightarrow> p))"

definition fnv1a_step :: "64 word \<Rightarrow> char \<Rightarrow> 64 word" where
  "fnv1a_step hash b = (hash XOR of_nat (byte b)) * 0x100000001b3"

definition fnv1a_64 :: "string \<Rightarrow> 64 word" where
  "fnv1a_64 bytes = foldl fnv1a_step 0xcbf29ce484222325 bytes"

definition fingerprint_text :: "fingerprint_input \<Rightarrow> string" where
  "fingerprint_text source =
     (let relative_package = relative_display (fp_package_root source) (fp_project_root source);
          relative_owner = relative_display (fp_owner_path source) (fp_package_root source);
          package_label = (if relative_package = [] then ''.'' else relative_package)
      in ''kind='' @ task_kind_str (fp_kind source) @ '';package='' @ package_label @
         '';owner='' @ relative_owner @ '';'' @
         (case fp_line source of Some n \<Rightarrow> ''line='' @ show_nat n @ '';'' | None \<Rightarrow> []) @
         concat (map (\<lambda>r. ''requires='' @ req_key r @ '';'') (fp_required_evidence source)) @
         concat (map (\<lambda>e. ev_label e @ ''='' @ ev_value e @ '';'') (fp_evidence source)) @
         (case fp_skill_contract_material source of
            Some m \<Rightarrow> ''skill_contract='' @ m @ '';'' | None \<Rightarrow> []))"

definition verification_task_fingerprint :: "fingerprint_input \<Rightarrow> string" where
  "verification_task_fingerprint source = ''rustv:'' @ hex_pad 16 (unat (fnv1a_64 (fingerprint_text source)))"

section \<open>The hash step is a bijection\<close>

text \<open>The multiplier is odd, so it has an inverse modulo \<open>2 ^ 64\<close>.\<close>

lemma fnv_prime_inverse: "(0x100000001b3 :: 64 word) * 0xce965057aff6957b = 1"
  by simp

lemma fnv_mult_cancel: "a * (0x100000001b3 :: 64 word) = b * 0x100000001b3 \<longleftrightarrow> a = b"
proof
  assume "a * (0x100000001b3 :: 64 word) = b * 0x100000001b3"
  then have "a * (0x100000001b3 * 0xce965057aff6957b) = b * (0x100000001b3 * 0xce965057aff6957b)"
    by (simp only: mult.assoc [symmetric])
  then show "a = b" by (simp only: fnv_prime_inverse mult_1_right)
qed simp

lemma xor_left_cancel: "a XOR b = a XOR c \<longleftrightarrow> b = (c :: 'a::len word)"
  by (metis xor_self_eq xor.assoc xor.left_neutral)

lemma xor_right_cancel: "a XOR c = b XOR c \<longleftrightarrow> a = (b :: 'a::len word)"
  by (metis xor_left_cancel xor.commute)

lemma byte_word_inj: "(of_nat (byte c) :: 64 word) = of_nat (byte d) \<longleftrightarrow> c = d"
proof
  assume eq: "(of_nat (byte c) :: 64 word) = of_nat (byte d)"
  have "byte x < 2 ^ 64" for x
    by (rule less_trans [OF nat_of_char_less_256]) simp
  then have small: "byte x mod 2 ^ 64 = byte x" for x by simp
  from arg_cong [OF eq, of unat] have "byte c mod 2 ^ 64 = byte d mod 2 ^ 64"
    unfolding unat_of_nat by simp
  then have "byte c = byte d" unfolding small .
  then show "c = d" by simp
qed simp

lemma fnv1a_step_hash: "fnv1a_step h b = fnv1a_step h' b \<longleftrightarrow> h = h'"
  by (simp only: fnv1a_step_def fnv_mult_cancel xor_right_cancel)

lemma fnv1a_step_byte: "fnv1a_step h b = fnv1a_step h b' \<longleftrightarrow> b = b'"
  by (simp only: fnv1a_step_def fnv_mult_cancel xor_left_cancel byte_word_inj)

lemma foldl_fnv1a: "foldl fnv1a_step h s = foldl fnv1a_step h' s \<longleftrightarrow> h = h'"
  by (induction s arbitrary: h h') (simp_all add: fnv1a_step_hash)

lemma fnv1a_suffix: "fnv1a_64 (a @ s) = fnv1a_64 (b @ s) \<longleftrightarrow> fnv1a_64 a = fnv1a_64 b"
  by (simp add: fnv1a_64_def foldl_fnv1a)

lemma fnv1a_one_byte: "c \<noteq> d \<Longrightarrow> fnv1a_64 (a @ c # s) \<noteq> fnv1a_64 (a @ d # s)"
  by (simp add: fnv1a_64_def foldl_fnv1a fnv1a_step_byte)

lemma fingerprint_eq_iff:
  "verification_task_fingerprint i = verification_task_fingerprint j \<longleftrightarrow>
     fnv1a_64 (fingerprint_text i) = fnv1a_64 (fingerprint_text j)"
proof
  have bound: "unat (w :: 64 word) < 16 ^ 16" for w
    using unsigned_less [of w, where ?'a = nat] by simp
  assume "verification_task_fingerprint i = verification_task_fingerprint j"
  then have "unat (fnv1a_64 (fingerprint_text i)) = unat (fnv1a_64 (fingerprint_text j))"
    unfolding verification_task_fingerprint_def by (intro hex_pad_inj [OF _ bound bound]) simp
  then show "fnv1a_64 (fingerprint_text i) = fnv1a_64 (fingerprint_text j)"
    unfolding word_unat_eq_iff .
qed (simp add: verification_task_fingerprint_def)

text \<open>
  C36: two task inputs whose fingerprint materials differ in exactly one byte never receive the same
  fingerprint: the hash has no collision at distance one, whatever surrounds the changed byte.
\<close>

theorem fingerprint_detects_byte_change:
  assumes "fingerprint_text i = pre @ c # suf" "fingerprint_text j = pre @ d # suf" "c \<noteq> d"
  shows "verification_task_fingerprint i \<noteq> verification_task_fingerprint j"
  using assms fnv1a_one_byte by (simp add: fingerprint_eq_iff)

definition sample_input :: "nat option \<Rightarrow> evidence list \<Rightarrow> fingerprint_input" where
  "sample_input n ev = \<lparr>fp_kind = Chaos, fp_project_root = [Normal ''ws''], fp_package_root = [Normal ''ws''],
     fp_owner_path = [Normal ''ws'', Normal ''lib.rs''], fp_line = n, fp_required_evidence = [],
     fp_evidence = ev, fp_skill_contract_material = None\<rparr>"

theorem fingerprint_detects_byte_change_witness:
  "verification_task_fingerprint (sample_input (Some 7) []) \<noteq>
   verification_task_fingerprint (sample_input (Some 8) [])"
proof (rule fingerprint_detects_byte_change)
  show "fingerprint_text (sample_input (Some 7) []) =
      ''kind=chaos;package=.;owner=lib.rs;line='' @ CHR ''7'' # '';''" by code_simp
  show "fingerprint_text (sample_input (Some 8) []) =
      ''kind=chaos;package=.;owner=lib.rs;line='' @ CHR ''8'' # '';''" by code_simp
qed simp

text \<open>
  The fingerprint does not separate evidence lists: one fact whose value contains
  \<open>;label=value\<close> gets the same fingerprint as the two facts it spells.
\<close>

lemma fingerprint_conflates_evidence:
  "[evidence_new ''role'' ''api;line_hint=9''] \<noteq> [evidence_new ''role'' ''api'', evidence_new ''line_hint'' ''9''] \<and>
   verification_task_fingerprint (sample_input None [evidence_new ''role'' ''api;line_hint=9'']) =
   verification_task_fingerprint (sample_input None [evidence_new ''role'' ''api'', evidence_new ''line_hint'' ''9''])"
proof
  show "verification_task_fingerprint (sample_input None [evidence_new ''role'' ''api;line_hint=9'']) =
   verification_task_fingerprint (sample_input None [evidence_new ''role'' ''api'', evidence_new ''line_hint'' ''9''])"
    unfolding fingerprint_eq_iff by (rule arg_cong [of _ _ fnv1a_64]) code_simp
qed (simp add: evidence_new_def)

lemma fingerprint_shape:
  "starts_with (verification_task_fingerprint i) ''rustv:''" "length (verification_task_fingerprint i) = 22"
  by (simp_all add: verification_task_fingerprint_def starts_with_def)

end
