(* ===== verification/Task_Builder.thy ===== *)
theory Task_Builder
  imports Verification_Profile Fingerprint
begin

text \<open>
  \<open>src/verification/task_builder.rs\<close>: building one verification task, resolving it against the
  receipts and waivers of the policy, and collecting tasks by fingerprint.
\<close>

record task_spec =
  spec_task_kind :: task_kind
  spec_owner_path :: path
  spec_owner_namespace :: "string list"
  spec_line :: "nat option"
  spec_reason :: string
  spec_contract :: task_contract
  spec_evidence :: "evidence list"

record review_spec =
  review_owner_path :: path
  review_owner_namespace :: "string list"
  review_reason :: string
  review_evidence :: "evidence list"
  review_hint :: "profile_hint option"

section \<open>Skills\<close>

definition skill_binding_for_task :: "policy \<Rightarrow> task_kind \<Rightarrow> skill_binding option" where
  "skill_binding_for_task p k =
     Option.bind (bmap_get (skill_bindings p) k) (\<lambda>b. if binding_is_configured b then Some b else None)"

definition skill_descriptor_for_binding :: "policy \<Rightarrow> skill_binding \<Rightarrow> skill_descriptor option" where
  "skill_descriptor_for_binding p b =
     (case bmap_get (skill_descriptors p) (binding_compact_label b) of
        Some d \<Rightarrow> Some d | None \<Rightarrow> bmap_get (skill_descriptors p) (binding_skill_id b))"

section \<open>Resolution\<close>

definition matching_receipt :: "task \<Rightarrow> policy \<Rightarrow> receipt_status \<Rightarrow> receipt option" where
  "matching_receipt t p status = find (\<lambda>r. receipt_task_fingerprint r = fingerprint t \<and>
     receipt_kind r = kind t \<and> receipt_status_of r = status) (receipts p)"

definition matching_waiver :: "task \<Rightarrow> policy \<Rightarrow> waiver option" where
  "matching_waiver t p =
     find (\<lambda>w. waiver_task_fingerprint w = fingerprint t \<and> waiver_is_complete w) (waivers p)"

definition incomplete_matching_waiver :: "task \<Rightarrow> policy \<Rightarrow> waiver option" where
  "incomplete_matching_waiver t p =
     find (\<lambda>w. waiver_task_fingerprint w = fingerprint t \<and> \<not> waiver_is_complete w) (waivers p)"

definition incomplete_waiver_detail :: "waiver \<Rightarrow> string" where
  "incomplete_waiver_detail w = ''incomplete: missing '' @ join_with '', ''
     ((if trim (waiver_owner w) = [] then [''owner''] else [])
      @ (if trim (reason_of_waiver w) = [] then [''reason''] else [])
      @ (if trim (expires_at w) = [] then [''expires_at''] else []))"

definition summary_of_receipt :: "receipt \<Rightarrow> string" where
  "summary_of_receipt r =
     (case evidence_uri r of None \<Rightarrow> summary r | Some uri \<Rightarrow> summary r @ '' ('' @ uri @ '')'')"

definition record_receipt :: "task_state \<Rightarrow> receipt \<Rightarrow> task \<Rightarrow> task" where
  "record_receipt s r t = t\<lparr>state := s, receipt_summary := Some (summary_of_receipt r),
     receipt_evidence := evidence_of_receipt r, receipt_evidence_uri := evidence_uri r,
     receipt_observed_at := observed_at r\<rparr>"

definition apply_task_resolution :: "task \<Rightarrow> policy \<Rightarrow> task" where
  "apply_task_resolution t p =
     (case matching_receipt t p ReceiptPassed of
        Some r \<Rightarrow> record_receipt Satisfied r t
      | None \<Rightarrow>
          (case matching_waiver t p of
             Some w \<Rightarrow> t\<lparr>state := Waived, waiver_reason := Some (reason_of_waiver w)\<rparr>
           | None \<Rightarrow>
               let t = (case incomplete_matching_waiver t p of
                   Some w \<Rightarrow> t\<lparr>resolution_notes := resolution_notes t @
                     [\<lparr>note_label = ''waiver'', note_detail = incomplete_waiver_detail w\<rparr>]\<rparr>
                 | None \<Rightarrow> t)
               in (case matching_receipt t p ReceiptFailed of
                     Some r \<Rightarrow> record_receipt Failed r t
                   | None \<Rightarrow> t)))"

section \<open>Construction\<close>

definition new_skill_task :: "path \<Rightarrow> path \<Rightarrow> task_spec \<Rightarrow> policy \<Rightarrow> task" where
  "new_skill_task project_root pkg_root spec p =
     (let binding = skill_binding_for_task p (spec_task_kind spec);
          descriptor = Option.bind binding (skill_descriptor_for_binding p);
          ev = spec_evidence spec @ (case binding of
                 Some b \<Rightarrow> [evidence_new ''skill'' (binding_compact_label b)] | None \<Rightarrow> []);
          fp = verification_task_fingerprint \<lparr>
            fp_kind = spec_task_kind spec, fp_project_root = project_root, fp_package_root = pkg_root,
            fp_owner_path = spec_owner_path spec, fp_line = spec_line spec,
            fp_required_evidence = contract_required_evidence (spec_contract spec), fp_evidence = ev,
            fp_skill_contract_material = map_option fingerprint_material descriptor\<rparr>
      in apply_task_resolution \<lparr>
           fingerprint = fp, kind = spec_task_kind spec, state = Pending, package_root = pkg_root,
           owner_path = spec_owner_path spec, owner_namespace = spec_owner_namespace spec,
           line = spec_line spec, task_phase = contract_phase (spec_contract spec),
           reason = spec_reason spec, required_receipt = contract_required_receipt (spec_contract spec),
           task_skill_binding = binding, skill_contract_ref = map_option descriptor_compact_label descriptor,
           required_evidence = contract_required_evidence (spec_contract spec), task_evidence = ev,
           resolution_notes = [], receipt_summary = None, receipt_evidence = [],
           receipt_evidence_uri = None, receipt_observed_at = None, waiver_reason = None\<rparr> p)"

definition new_profile_review_task :: "path \<Rightarrow> path \<Rightarrow> review_spec \<Rightarrow> policy \<Rightarrow> task" where
  "new_profile_review_task project_root pkg_root spec p =
     new_skill_task project_root pkg_root \<lparr>
       spec_task_kind = ResponsibilityReview, spec_owner_path = review_owner_path spec,
       spec_owner_namespace = review_owner_namespace spec, spec_line = None,
       spec_reason = review_reason spec,
       spec_contract = task_contract_for_profile p (review_hint spec) ResponsibilityReview,
       spec_evidence = review_evidence spec\<rparr> p"

definition skill_descriptors_for_tasks :: "policy \<Rightarrow> task list \<Rightarrow> skill_descriptor list" where
  "skill_descriptors_for_tasks p ts =
     dedup_by_key descriptor_compact_label (sort_key descriptor_compact_label
       (List.map_filter (\<lambda>t. Option.bind (skill_contract_ref t) (\<lambda>ref. bmap_get (skill_descriptors p) ref))
          (filter is_active ts)))"

definition push_task :: "policy \<Rightarrow> task \<Rightarrow> (string \<times> task) list \<Rightarrow> (string \<times> task) list" where
  "push_task p t ts =
     (if kind t \<in> set (disabled_task_kinds p) then ts else bmap_or_insert (fingerprint t) t ts)"

section \<open>Resolution facts\<close>

lemma resolution_frame [simp]:
  "fingerprint (apply_task_resolution t p) = fingerprint t" "kind (apply_task_resolution t p) = kind t"
  "package_root (apply_task_resolution t p) = package_root t" "owner_path (apply_task_resolution t p) = owner_path t"
  "task_skill_binding (apply_task_resolution t p) = task_skill_binding t"
  "required_evidence (apply_task_resolution t p) = required_evidence t"
  by (simp_all add: apply_task_resolution_def record_receipt_def Let_def split: option.splits)

lemma new_skill_task_kind [simp]: "kind (new_skill_task a b spec p) = spec_task_kind spec"
  "package_root (new_skill_task a b spec p) = b" "owner_path (new_skill_task a b spec p) = spec_owner_path spec"
  by (simp_all add: new_skill_task_def Let_def)

lemma new_profile_review_task_kind [simp]:
  "kind (new_profile_review_task a b spec p) = ResponsibilityReview"
  "package_root (new_profile_review_task a b spec p) = b"
  "owner_path (new_profile_review_task a b spec p) = review_owner_path spec"
  by (simp_all add: new_profile_review_task_def)

definition has_receipt :: "policy \<Rightarrow> string \<Rightarrow> task_kind \<Rightarrow> receipt_status \<Rightarrow> bool" where
  "has_receipt p fp k s \<longleftrightarrow> (\<exists>r \<in> set (receipts p). receipt_task_fingerprint r = fp \<and> receipt_kind r = k \<and>
     receipt_status_of r = s)"

definition has_complete_waiver :: "policy \<Rightarrow> string \<Rightarrow> bool" where
  "has_complete_waiver p fp \<longleftrightarrow> (\<exists>w \<in> set (waivers p). waiver_task_fingerprint w = fp \<and> waiver_is_complete w)"

lemma matching_receipt_None: "matching_receipt t p s = None \<longleftrightarrow> \<not> has_receipt p (fingerprint t) (kind t) s"
  by (auto simp: matching_receipt_def has_receipt_def find_None_iff)

lemma matching_waiver_None: "matching_waiver t p = None \<longleftrightarrow> \<not> has_complete_waiver p (fingerprint t)"
  by (auto simp: matching_waiver_def has_complete_waiver_def find_None_iff)

lemma matching_receipt_notes [simp]:
  "matching_receipt (t\<lparr>resolution_notes := ns\<rparr>) p s = matching_receipt t p s"
  by (simp add: matching_receipt_def)

lemma resolved_state:
  "state (apply_task_resolution t p) =
     (if has_receipt p (fingerprint t) (kind t) ReceiptPassed then Satisfied
      else if has_complete_waiver p (fingerprint t) then Waived
      else if has_receipt p (fingerprint t) (kind t) ReceiptFailed then Failed else state t)"
proof (cases "matching_receipt t p ReceiptPassed")
  case None
  then have no_pass: "\<not> has_receipt p (fingerprint t) (kind t) ReceiptPassed"
    by (simp add: matching_receipt_None)
  show ?thesis
  proof (cases "matching_waiver t p")
    case w: None
    then show ?thesis
      using None no_pass matching_receipt_None [of t p ReceiptFailed] matching_waiver_None [of t p]
      by (auto simp: apply_task_resolution_def record_receipt_def Let_def split: option.splits)
  next
    case (Some w)
    with matching_waiver_None [of t p] None no_pass show ?thesis
      by (simp add: apply_task_resolution_def)
  qed
next
  case (Some r)
  with matching_receipt_None [of t p ReceiptPassed] show ?thesis
    by (simp add: apply_task_resolution_def record_receipt_def)
qed

lemma new_skill_task_state:
  "state (new_skill_task a b spec p) =
     (let fp = fingerprint (new_skill_task a b spec p); k = spec_task_kind spec in
      if has_receipt p fp k ReceiptPassed then Satisfied
      else if has_complete_waiver p fp then Waived
      else if has_receipt p fp k ReceiptFailed then Failed else Pending)"
  by (simp add: new_skill_task_def Let_def resolved_state)

text \<open>
  The state of a new task is decided in a fixed order: a passed receipt for its fingerprint and kind
  satisfies it, whatever else is recorded; otherwise a complete waiver waives it; otherwise a failed receipt
  fails it; otherwise it is pending. So a task stays active exactly when it has neither a passed receipt nor
  a complete waiver.
\<close>

lemma task_resolution_precedence:
  assumes "t = new_skill_task project_root pkg_root spec p"
  shows "(state t = Satisfied \<longleftrightarrow> has_receipt p (fingerprint t) (kind t) ReceiptPassed) \<and>
    (state t = Waived \<longleftrightarrow> \<not> has_receipt p (fingerprint t) (kind t) ReceiptPassed \<and>
       has_complete_waiver p (fingerprint t)) \<and>
    (state t = Failed \<longleftrightarrow> \<not> has_receipt p (fingerprint t) (kind t) ReceiptPassed \<and>
       \<not> has_complete_waiver p (fingerprint t) \<and> has_receipt p (fingerprint t) (kind t) ReceiptFailed) \<and>
    (is_active t \<longleftrightarrow> \<not> has_receipt p (fingerprint t) (kind t) ReceiptPassed \<and>
       \<not> has_complete_waiver p (fingerprint t))"
  unfolding assms is_active_def new_skill_task_state Let_def state_is_active_def by auto

section \<open>Fingerprints do not depend on resolution inputs\<close>

lemma new_skill_task_fingerprint_cong:
  assumes "skill_bindings p = skill_bindings q" "skill_descriptors p = skill_descriptors q"
  shows "fingerprint (new_skill_task a b spec p) = fingerprint (new_skill_task a b spec q)"
proof -
  have "skill_binding_for_task p = skill_binding_for_task q"
    "skill_descriptor_for_binding p = skill_descriptor_for_binding q"
    using assms by (simp_all add: fun_eq_iff skill_binding_for_task_def skill_descriptor_for_binding_def cong: option.case_cong)
  then show ?thesis by (simp add: new_skill_task_def Let_def)
qed

text \<open>
  Reporting a passed run of a planned task clears it: when the policy is extended by a passed receipt
  that carries the task's fingerprint, building the task again gives the same fingerprint and a satisfied,
  inactive task that shows the receipt's evidence.
\<close>

lemma passed_receipt_clears_task:
  "let t = new_skill_task project_root pkg_root spec p;
       t' = new_skill_task project_root pkg_root spec (with_receipt (receipt_passed (fingerprint t) (kind t)) p)
   in fingerprint t' = fingerprint t \<and> state t' = Satisfied \<and> \<not> is_active t'"
proof -
  let ?t = "new_skill_task project_root pkg_root spec p"
  let ?q = "with_receipt (receipt_passed (fingerprint ?t) (kind ?t)) p"
  have fp: "fingerprint (new_skill_task project_root pkg_root spec ?q) = fingerprint ?t"
    by (rule new_skill_task_fingerprint_cong) (simp_all add: with_receipt_def)
  have "has_receipt ?q (fingerprint ?t) (spec_task_kind spec) ReceiptPassed"
    by (simp add: has_receipt_def with_receipt_def receipt_passed_def)
  then show ?thesis
    by (simp add: Let_def fp [simplified] new_skill_task_state is_active_def state_is_active_def)
qed

section \<open>The task map\<close>

definition task_map_inv :: "policy \<Rightarrow> (string \<times> task) list \<Rightarrow> bool" where
  "task_map_inv p ts \<longleftrightarrow> ascending (bmap_keys ts) \<and>
     (\<forall>(fp, t) \<in> set ts. fp = fingerprint t \<and> kind t \<notin> set (disabled_task_kinds p))"

lemma set_bmap_or_insert:
  assumes "ascending (bmap_keys m)"
  shows "set (bmap_or_insert k v m) = (if bmap_get m k = None then insert (k, v) (set m) else set m)"
proof (cases "bmap_get m k")
  case None
  have "(k', v') \<in> set (bmap_insert k v m) \<longleftrightarrow> (k', v') \<in> insert (k, v) (set m)" for k' v'
    using assms None by (auto simp: bmap_in_set_iff bmap_simps)
  then show ?thesis using None by (auto simp: bmap_or_insert_def)
qed (simp add: bmap_or_insert_def)

lemma push_task_inv: "task_map_inv p ts \<Longrightarrow> task_map_inv p (push_task p t ts)"
  by (auto simp: task_map_inv_def push_task_def set_bmap_or_insert bmap_simps)

lemma push_task_keeps: "task_map_inv p ts \<Longrightarrow> set ts \<subseteq> set (push_task p t ts)"
  by (auto simp: task_map_inv_def push_task_def set_bmap_or_insert)

lemma push_task_present:
  assumes "task_map_inv p ts" "kind t \<notin> set (disabled_task_kinds p)"
  shows "fingerprint t \<in> set (bmap_keys (push_task p t ts))"
proof (cases "bmap_get ts (fingerprint t)")
  case None
  with assms have "(fingerprint t, t) \<in> set (push_task p t ts)"
    by (simp add: task_map_inv_def push_task_def set_bmap_or_insert)
  then show ?thesis by force
next
  case (Some u)
  with assms have "(fingerprint t, u) \<in> set (push_task p t ts)"
    by (simp add: task_map_inv_def push_task_def set_bmap_or_insert map_of_SomeD)
  then show ?thesis by force
qed

lemma push_task_from: "x \<in> set (push_task p t ts) \<Longrightarrow> task_map_inv p ts \<Longrightarrow> x \<in> set ts \<or> x = (fingerprint t, t)"
  by (auto simp: task_map_inv_def push_task_def set_bmap_or_insert split: if_splits)


end
