(* ===== verification/Reasoning_Facts.thy ===== *)
theory Reasoning_Facts
  imports Lexical_Path
begin

text \<open>
  The facts the parser keeps about a source module: \<open>src/parser/source_path.rs\<close>, computed here,
  and the records of \<open>src/parser/reasoning_tree.rs\<close> that the verification planner and the owner cycle
  rule read. The import summaries and child edges themselves come from the syntax tree.
\<close>

section \<open>Source path facts\<close>

record source_path_facts =
  namespace_components :: "string list"
  repeated_namespace_segments :: "string list"
  repeated_namespace_branch :: "path option"
  is_special_entrypoint :: bool
  is_test_source :: bool
  is_test_support_module :: bool
  is_crate_facade :: bool
  is_interface_mod :: bool
  is_binary_entrypoint :: bool
  is_package_entrypoint :: bool
  is_build_script_entrypoint :: bool

definition is_under_any_dir :: "path \<Rightarrow> path list \<Rightarrow> bool" where
  "is_under_any_dir p dirs = list_ex (\<lambda>dir. path_starts_with p dir) dirs"

definition namespace_components_of :: "path \<Rightarrow> path \<Rightarrow> string list option" where
  "namespace_components_of project_root p =
     Option.bind (strip_prefix p project_root)
       (\<lambda>relative. Option.bind (path_parent relative)
          (\<lambda>parent. Option.bind (path_file_stem relative)
             (\<lambda>file_stem.
                let components = map component_str parent;
                    components = (if file_stem \<in> {''lib'', ''main'', ''mod''} then components
                                  else components @ [file_stem])
                in if components = [] then None else Some components)))"

text \<open>The counting map of \<open>repeated_segments\<close>, and the keys it keeps.\<close>

definition count_segment :: "string \<Rightarrow> (string \<times> nat) list \<Rightarrow> (string \<times> nat) list" where
  "count_segment component counts =
     bmap_insert component (Suc (case bmap_get counts component of Some n \<Rightarrow> n | None \<Rightarrow> 0)) counts"

definition repeated_segments :: "string list \<Rightarrow> string list" where
  "repeated_segments components =
     bset_of_list (List.map_filter (\<lambda>(component, n). if n > 1 then Some component else None)
       (fold count_segment components []))"

definition offending_branch :: "string list \<Rightarrow> string list \<Rightarrow> path" where
  "offending_branch components repeated =
     (let indices = filter (\<lambda>i. components ! i \<in> set repeated) [0..<length components];
          deepest_index = (if indices = [] then length components - 1 else last indices)
      in fold (\<lambda>c p. path_push p c) (take (deepest_index + 1) components) [])"

definition file_name_is :: "path \<Rightarrow> string \<Rightarrow> bool" where
  "file_name_is p name = (Option.bind (path_file_name p) to_str = Some name)"

definition file_stem_is :: "path \<Rightarrow> string \<Rightarrow> bool" where
  "file_stem_is p stem = (Option.bind (path_file_stem p) to_str = Some stem)"

definition file_name_matches :: "path \<Rightarrow> string list \<Rightarrow> bool" where
  "file_name_matches p names =
     (case Option.bind (path_file_name p) to_str of Some name \<Rightarrow> name \<in> set names | None \<Rightarrow> False)"

definition is_binary_entrypoint_of :: "path list \<Rightarrow> path \<Rightarrow> bool" where
  "is_binary_entrypoint_of source_paths p =
     list_ex (\<lambda>source_root.
         p = path_push source_root ''main.rs'' \<or>
         (case strip_prefix p source_root of
            None \<Rightarrow> False
          | Some relative \<Rightarrow>
              (case map component_str relative of
                 [first, _] \<Rightarrow> first = ''bin''
               | [first, _, entry] \<Rightarrow> first = ''bin'' \<and> entry = ''main.rs''
               | _ \<Rightarrow> False)))
       source_paths"

definition rust_source_path_facts ::
  "path \<Rightarrow> path list \<Rightarrow> path list \<Rightarrow> path list \<Rightarrow> path \<Rightarrow> source_path_facts" where
  "rust_source_path_facts project_root source_paths test_paths package_paths p =
     (let components = (case namespace_components_of project_root p of
          Some cs \<Rightarrow> cs
        | None \<Rightarrow> [case Option.bind (path_file_stem p) to_str of Some stem \<Rightarrow> stem | None \<Rightarrow> ''unknown-source'']);
          repeated = repeated_segments components;
          package_entrypoint = list_ex (\<lambda>entrypoint. entrypoint = p) package_paths;
          test_source = is_under_any_dir p test_paths
      in \<lparr>namespace_components = components,
          repeated_namespace_segments = repeated,
          repeated_namespace_branch = (if repeated \<noteq> [] then Some (offending_branch components repeated) else None),
          is_special_entrypoint = file_name_matches p [''lib.rs'', ''main.rs'', ''mod.rs''],
          is_test_source = test_source,
          is_test_support_module = (test_source \<and> file_stem_is p ''support''),
          is_crate_facade = file_name_is p ''lib.rs'',
          is_interface_mod = file_name_is p ''mod.rs'',
          is_binary_entrypoint = is_binary_entrypoint_of source_paths p,
          is_package_entrypoint = package_entrypoint,
          is_build_script_entrypoint = (package_entrypoint \<and> file_name_is p ''build.rs'')\<rparr>)"

section \<open>Reasoning tree records\<close>

datatype import_root_kind = RootAbsolute | RootCrate | RootSelfScope | RootParent | RootExternal | RootUnknown

datatype use_visibility =
    UsePrivate | UsePublic | UseCrate | UseSuper | UseSelfScope | UseRestricted "string list" | UseUnknown

datatype child_edge_kind = ModEdge | PathAttrModEdge | IncludeLiteralEdge

record child_edge =
  child_path :: path
  child_edge_kind_of :: child_edge_kind

record deep_relative_import =
  deep_line :: nat
  deep_original_segments :: "string list"
  deep_crate_segments :: "string list option"
  deep_parent_hops :: nat
  deep_visibility :: use_visibility
  deep_is_reexport :: bool
  deep_is_test_context :: bool

definition rendered_path :: "deep_relative_import \<Rightarrow> string" where
  "rendered_path d = join_with ''::'' (deep_original_segments d)"

definition rendered_crate_path :: "deep_relative_import \<Rightarrow> string option" where
  "rendered_crate_path d = map_option (join_with ''::'') (deep_crate_segments d)"

record owner_dependency =
  dep_source_path :: path
  dep_source_namespace :: "string list"
  dep_target_path :: path
  dep_target_namespace :: "string list"
  dep_via_root :: import_root_kind
  dep_line :: nat
  dep_is_test_context :: bool

record import_facts =
  total_imports :: nat
  crate_imports :: nat
  self_imports :: nat
  parent_imports :: nat
  external_imports :: nat
  absolute_imports :: nat
  unknown_imports :: nat
  glob_imports :: nat
  deep_relative_imports :: nat
  deep_relative_import_facts :: "deep_relative_import list"
  prelude_imports :: nat
  test_context_imports :: nat
  production_external_imports :: "string list list"
  local_owner_imports :: "string list list"
  local_owner_dependencies :: "owner_dependency list"

record public_api_facts =
  public_items :: nat
  public_exports :: nat
  public_functions :: nat

record reasoning_module =
  mod_path :: path
  mod_source_path :: source_path_facts
  mod_import_summary :: import_facts
  mod_public_api :: public_api_facts
  mod_is_source :: bool
  mod_is_test :: bool
  mod_is_tree_root :: bool
  mod_child_edges :: "child_edge list"

datatype owner_branch_role =
    RoleRoot | RoleFacade | RoleInterface | RoleBinary | RolePackageEntrypoint
  | RoleRepeatedNamespace "string list" | RoleBranch

record owner_branch =
  branch_path :: path
  branch_namespace :: "string list"
  branch_roles :: "owner_branch_role list"
  branch_import_summary :: import_facts
  branch_child_edges :: "child_edge list"

record source_shadow =
  shadow_file_form :: path
  shadow_mod_form :: path

record reasoning_tree =
  tree_package_root :: path
  tree_source_roots :: "path list"
  tree_package_entrypoints :: "path list"
  tree_modules :: "reasoning_module list"
  tree_owner_branches :: "owner_branch list"
  tree_owner_dependencies :: "owner_dependency list"
  tree_shadowed_module_sources :: "source_shadow list"
  tree_unreachable_source_files :: "path list"

definition reasoning_module_at :: "reasoning_tree \<Rightarrow> path \<Rightarrow> reasoning_module option" where
  "reasoning_module_at t p = find (\<lambda>m. mod_path m = p) (tree_modules t)"

section \<open>Repeated segments\<close>

lemma fold_count_segment:
  "ascending (bmap_keys counts) \<Longrightarrow> ascending (bmap_keys (fold count_segment cs counts)) \<and>
   (case bmap_get (fold count_segment cs counts) c of Some n \<Rightarrow> n | None \<Rightarrow> 0) =
     (case bmap_get counts c of Some n \<Rightarrow> n | None \<Rightarrow> 0) + count_list cs c"
  by (induction cs arbitrary: counts) (auto simp: count_segment_def bmap_simps split: option.splits)

lemma set_repeated_segments: "set (repeated_segments cs) = {c. 1 < count_list cs c}"
proof -
  let ?m = "fold count_segment cs []"
  have asc: "ascending (bmap_keys ?m)"
    and get: "(case bmap_get ?m c of Some n \<Rightarrow> n | None \<Rightarrow> 0) = count_list cs c" for c
    using fold_count_segment [of "[]" cs] by auto
  have "c \<in> set (repeated_segments cs) \<longleftrightarrow> (\<exists>n > 1. bmap_get ?m c = Some n)" for c
    using asc by (force simp: repeated_segments_def set_map_filter bmap_in_set_iff split: if_splits
        intro: bexI [of _ "(c, n)" for n])
  also have "(\<exists>n > 1. bmap_get ?m c = Some n) \<longleftrightarrow> 1 < count_list cs c" for c
    using get [of c] by (auto split: option.splits)
  finally show ?thesis by blast
qed

text \<open>
  The namespace of a source path is flagged exactly when some segment occurs twice: the reported
  segments are, in ascending order, those that occur more than once, and a branch is reported if and
  only if there is one.
\<close>

lemma repeated_namespace_exact:
  "ascending (repeated_namespace_segments (rust_source_path_facts root srcs tests pkgs p)) \<and>
   set (repeated_namespace_segments (rust_source_path_facts root srcs tests pkgs p)) =
     {c. 1 < count_list (namespace_components (rust_source_path_facts root srcs tests pkgs p)) c} \<and>
   (repeated_namespace_branch (rust_source_path_facts root srcs tests pkgs p) = None \<longleftrightarrow>
     distinct (namespace_components (rust_source_path_facts root srcs tests pkgs p)))"
proof -
  have dist: "repeated_segments cs = [] \<longleftrightarrow> distinct cs" for cs
  proof -
    have "repeated_segments cs = [] \<longleftrightarrow> (\<forall>c. count_list cs c \<le> 1)"
      using set_repeated_segments [of cs] by (auto simp: not_less simp flip: set_empty)
    also have "\<dots> \<longleftrightarrow> distinct cs"
      by (induction cs) (auto simp: count_list_0_iff le_Suc_eq)
    finally show ?thesis .
  qed
  show ?thesis
    by (auto simp: rust_source_path_facts_def Let_def set_repeated_segments dist)
      (simp_all add: repeated_segments_def)
qed

end
