(* ===== verification/Planner.thy ===== *)
theory Planner
  imports Task_Builder Reasoning_Facts
begin

text \<open>
  The verification planner: \<open>src/verification/planner.rs\<close>, \<open>src/verification/api_path.rs\<close> and
  \<open>src/verification/module_lookup.rs\<close>. A plan is computed from the reasoning trees of the packages, which
  are an input, and the verification policy.
\<close>

section \<open>Module lookup\<close>

record module_lookup =
  lookup_absolute :: "(path \<times> reasoning_module) list"
  lookup_project_relative :: "(path \<times> reasoning_module) list"
  lookup_package_relative :: "(path \<times> reasoning_module) list"

definition relative_entry ::
  "path \<Rightarrow> reasoning_module \<Rightarrow> (path \<times> reasoning_module) list \<Rightarrow> (path \<times> reasoning_module) list" where
  "relative_entry root m entries =
     (case strip_prefix (mod_path m) root of Some r \<Rightarrow> bmap_or_insert r m entries | None \<Rightarrow> entries)"

definition lookup_add :: "path \<Rightarrow> path \<Rightarrow> reasoning_module \<Rightarrow> module_lookup \<Rightarrow> module_lookup" where
  "lookup_add project_root pkg_root m l = \<lparr>
     lookup_absolute = bmap_or_insert (mod_path m) m (lookup_absolute l),
     lookup_project_relative = relative_entry project_root m (lookup_project_relative l),
     lookup_package_relative = relative_entry pkg_root m (lookup_package_relative l)\<rparr>"

definition lookup_new :: "path \<Rightarrow> path \<Rightarrow> reasoning_module list \<Rightarrow> module_lookup" where
  "lookup_new project_root pkg_root ms =
     fold (lookup_add project_root pkg_root) ms
       \<lparr>lookup_absolute = [], lookup_project_relative = [], lookup_package_relative = []\<rparr>"

definition get_config_path :: "module_lookup \<Rightarrow> path \<Rightarrow> reasoning_module option" where
  "get_config_path l owner =
     (if is_absolute owner then bmap_get (lookup_absolute l) owner
      else case bmap_get (lookup_project_relative l) owner of
             Some m \<Rightarrow> Some m | None \<Rightarrow> bmap_get (lookup_package_relative l) owner)"

section \<open>Profile tasks\<close>

type_synonym task_map = "(string \<times> task) list"

definition non_test_owner_dependency_count :: "import_facts \<Rightarrow> nat" where
  "non_test_owner_dependency_count imports =
     length (filter (\<lambda>d. \<not> dep_is_test_context d) (local_owner_dependencies imports))"

definition push_profile_config_review_task ::
  "path \<Rightarrow> path \<Rightarrow> policy \<Rightarrow> reasoning_module \<Rightarrow> profile_hint \<Rightarrow> string \<Rightarrow> evidence list \<Rightarrow> task_map \<Rightarrow> task_map" where
  "push_profile_config_review_task project_root pkg_root p m h why ev ts =
     push_task p (new_profile_review_task project_root pkg_root
       \<lparr>review_owner_path = mod_path m,
        review_owner_namespace = namespace_components (mod_source_path m),
        review_reason = why, review_evidence = ev, review_hint = Some h\<rparr> p) ts"

definition collect_profile_conflict_task ::
  "path \<Rightarrow> path \<Rightarrow> policy \<Rightarrow> reasoning_module \<Rightarrow> profile_hint \<Rightarrow> task_map \<Rightarrow> task_map" where
  "collect_profile_conflict_task project_root pkg_root p m h ts =
     (if PureDomainLogic \<notin> set (hint_responsibilities h) then ts
      else let owner_deps = non_test_owner_dependency_count (mod_import_summary m) in
        if external_imports (mod_import_summary m) = 0 \<and> owner_deps = 0 then ts
        else push_task p (new_profile_review_task project_root pkg_root
          \<lparr>review_owner_path = mod_path m,
           review_owner_namespace = namespace_components (mod_source_path m),
           review_reason = ''profile declares pure domain logic but parser facts show runtime or owner dependencies'',
           review_evidence =
             [evidence_new ''profile'' (responsibility_labels (hint_responsibilities h)),
              evidence_new ''parser'' (''external_imports='' @ show_nat (external_imports (mod_import_summary m))
                @ '' owner_deps='' @ show_nat owner_deps)],
           review_hint = Some h\<rparr> p) ts)"

definition profile_no_responsibilities_task ::
  "path \<Rightarrow> path \<Rightarrow> policy \<Rightarrow> reasoning_module \<Rightarrow> profile_hint \<Rightarrow> task_map \<Rightarrow> task_map" where
  "profile_no_responsibilities_task project_root pkg_root p m h ts =
     (if hint_responsibilities h = [] then
        push_profile_config_review_task project_root pkg_root p m h
          ''profile hint declares no responsibilities for owner''
          [evidence_new ''profile'' ''responsibilities=<none>''] ts
      else ts)"

definition profile_override_tasks ::
  "path \<Rightarrow> path \<Rightarrow> policy \<Rightarrow> reasoning_module \<Rightarrow> profile_hint \<Rightarrow> task_map \<Rightarrow> task_map" where
  "profile_override_tasks project_root pkg_root p m h ts =
     (case hint_task_kinds h of
        None \<Rightarrow> ts
      | Some owner_kinds \<Rightarrow>
          let derived = task_kinds_for_responsibilities (hint_responsibilities h) p;
              ts = (if owner_kinds \<noteq> derived \<and> hint_rationale_is_empty h then
                      push_profile_config_review_task project_root pkg_root p m h
                        ''owner-local verification override needs compact rationale''
                        [evidence_new ''profile'' (responsibility_labels (hint_responsibilities h)),
                         evidence_new ''derived'' (task_kind_labels derived),
                         evidence_new ''configured'' (task_kind_labels owner_kinds)] ts
                    else ts);
              disabled = bset_inter owner_kinds (disabled_task_kinds p)
          in if disabled \<noteq> [] then
               push_profile_config_review_task project_root pkg_root p m h
                 ''owner-local verification override references disabled task kind''
                 [evidence_new ''configured'' (task_kind_labels owner_kinds),
                  evidence_new ''disabled'' (task_kind_labels disabled)] ts
             else ts)"

definition profile_unused_contract_task ::
  "path \<Rightarrow> path \<Rightarrow> policy \<Rightarrow> reasoning_module \<Rightarrow> profile_hint \<Rightarrow> task_map \<Rightarrow> task_map" where
  "profile_unused_contract_task project_root pkg_root p m h ts =
     (let effective = task_kinds_for_profile h p;
          unused = bset_of_list (filter (\<lambda>k. k \<notin> set effective) (bmap_keys (hint_task_contract_overrides h)))
      in if unused \<noteq> [] then
           push_profile_config_review_task project_root pkg_root p m h
             ''owner-local task contract is not used by effective task kinds''
             [evidence_new ''effective'' (task_kind_labels effective),
              evidence_new ''unused_contracts'' (task_kind_labels unused)] ts
         else ts)"

definition collect_profile_config_review_tasks ::
  "path \<Rightarrow> path \<Rightarrow> policy \<Rightarrow> reasoning_module \<Rightarrow> profile_hint \<Rightarrow> task_map \<Rightarrow> task_map" where
  "collect_profile_config_review_tasks project_root pkg_root p m h ts =
     profile_unused_contract_task project_root pkg_root p m h
       (profile_override_tasks project_root pkg_root p m h
         (profile_no_responsibilities_task project_root pkg_root p m h ts))"

definition profile_skill_task :: "path \<Rightarrow> path \<Rightarrow> policy \<Rightarrow> reasoning_module \<Rightarrow> profile_hint \<Rightarrow> task_kind \<Rightarrow> task" where
  "profile_skill_task project_root pkg_root p m h k =
     new_skill_task project_root pkg_root
       \<lparr>spec_task_kind = k, spec_owner_path = mod_path m,
        spec_owner_namespace = namespace_components (mod_source_path m), spec_line = None,
        spec_reason = profile_task_reason k (hint_responsibilities h) (hint_task_kinds h \<noteq> None),
        spec_contract = task_contract_for_profile p (Some h) k, spec_evidence = profile_evidence h\<rparr> p"

definition collect_skill_tasks_from_profile ::
  "path \<Rightarrow> path \<Rightarrow> policy \<Rightarrow> reasoning_module \<Rightarrow> profile_hint \<Rightarrow> task_map \<Rightarrow> task_map" where
  "collect_skill_tasks_from_profile project_root pkg_root p m h ts =
     fold (\<lambda>k. push_task p (profile_skill_task project_root pkg_root p m h k)) (task_kinds_for_profile h p) ts"

definition collect_profile_hint ::
  "path \<Rightarrow> path \<Rightarrow> module_lookup \<Rightarrow> policy \<Rightarrow> nat \<times> profile_hint \<Rightarrow> nat list \<times> task_map \<Rightarrow> nat list \<times> task_map" where
  "collect_profile_hint project_root pkg_root l p = (\<lambda>(i, h) (matched, ts).
     case get_config_path l (hint_owner_path h) of
       None \<Rightarrow> (matched, ts)
     | Some m \<Rightarrow>
         (bset_insert i matched,
          collect_skill_tasks_from_profile project_root pkg_root p m h
            (collect_profile_config_review_tasks project_root pkg_root p m h
              (collect_profile_conflict_task project_root pkg_root p m h ts))))"

definition collect_profile_tasks ::
  "path \<Rightarrow> path \<Rightarrow> module_lookup \<Rightarrow> policy \<Rightarrow> nat list \<times> task_map \<Rightarrow> nat list \<times> task_map" where
  "collect_profile_tasks project_root pkg_root l p st =
     fold (collect_profile_hint project_root pkg_root l p) (enumerate 0 (profile_hints p)) st"

definition unmatched_owner_path :: "path \<Rightarrow> path \<Rightarrow> path" where
  "unmatched_owner_path project_root owner = (if is_absolute owner then owner else path_join project_root owner)"

definition unmatched_hint_task :: "path \<Rightarrow> policy \<Rightarrow> profile_hint \<Rightarrow> task" where
  "unmatched_hint_task project_root p h =
     new_profile_review_task project_root project_root
       \<lparr>review_owner_path = unmatched_owner_path project_root (hint_owner_path h),
        review_owner_namespace = [],
        review_reason = ''profile hint target is not a parser-known Rust source module'',
        review_evidence = [evidence_new ''hint''
          (''responsibilities='' @ responsibility_labels (hint_responsibilities h))],
        review_hint = Some h\<rparr> p"

definition collect_unmatched_profile_hints :: "path \<Rightarrow> policy \<Rightarrow> nat list \<Rightarrow> task_map \<Rightarrow> task_map" where
  "collect_unmatched_profile_hints project_root p matched ts =
     fold (\<lambda>(i, h) ts. if i \<in> set matched then ts else push_task p (unmatched_hint_task project_root p h) ts)
       (enumerate 0 (profile_hints p)) ts"

section \<open>API path tasks\<close>

definition api_path_config_review_evidence :: "api_path_baseline \<Rightarrow> evidence list \<Rightarrow> evidence list" where
  "api_path_config_review_evidence b extras = api_path_baseline_evidence b @ extras"

definition push_api_path_config_review_task ::
  "path \<Rightarrow> path \<Rightarrow> policy \<Rightarrow> reasoning_module \<Rightarrow> string \<Rightarrow> evidence list \<Rightarrow> task_map \<Rightarrow> task_map" where
  "push_api_path_config_review_task project_root pkg_root p m why ev ts =
     push_task p (new_profile_review_task project_root pkg_root
       \<lparr>review_owner_path = mod_path m,
        review_owner_namespace = namespace_components (mod_source_path m),
        review_reason = why, review_evidence = ev, review_hint = None\<rparr> p) ts"

definition api_no_responsibilities_task ::
  "path \<Rightarrow> path \<Rightarrow> policy \<Rightarrow> reasoning_module \<Rightarrow> api_path_baseline \<Rightarrow> task_map \<Rightarrow> task_map" where
  "api_no_responsibilities_task project_root pkg_root p m b ts =
     (if api_responsibilities b = [] then
        push_api_path_config_review_task project_root pkg_root p m
          ''API path baseline declares no responsibilities''
          (api_path_config_review_evidence b [evidence_new ''profile'' ''responsibilities=<none>'']) ts
      else ts)"

definition api_override_tasks ::
  "path \<Rightarrow> path \<Rightarrow> policy \<Rightarrow> reasoning_module \<Rightarrow> api_path_baseline \<Rightarrow> task_map \<Rightarrow> task_map" where
  "api_override_tasks project_root pkg_root p m b ts =
     (case api_task_kinds b of
        None \<Rightarrow> ts
      | Some path_kinds \<Rightarrow>
          let derived = task_kinds_for_responsibilities (api_responsibilities b) p;
              ts = (if path_kinds \<noteq> derived \<and> api_path_rationale_is_empty b then
                      push_api_path_config_review_task project_root pkg_root p m
                        ''API path verification override needs compact rationale''
                        (api_path_config_review_evidence b
                           [evidence_new ''derived'' (task_kind_labels derived),
                            evidence_new ''configured'' (task_kind_labels path_kinds)]) ts
                    else ts);
              disabled = bset_inter path_kinds (disabled_task_kinds p)
          in if disabled \<noteq> [] then
               push_api_path_config_review_task project_root pkg_root p m
                 ''API path verification override references disabled task kind''
                 (api_path_config_review_evidence b
                    [evidence_new ''disabled'' (task_kind_labels disabled)]) ts
             else ts)"

definition api_unused_contract_task ::
  "path \<Rightarrow> path \<Rightarrow> policy \<Rightarrow> reasoning_module \<Rightarrow> api_path_baseline \<Rightarrow> task_map \<Rightarrow> task_map" where
  "api_unused_contract_task project_root pkg_root p m b ts =
     (let effective = task_kinds_for_api_path_baseline b p;
          unused = bset_of_list (filter (\<lambda>k. k \<notin> set effective) (bmap_keys (api_task_contract_overrides b)))
      in if unused \<noteq> [] then
           push_api_path_config_review_task project_root pkg_root p m
             ''API path task contract is not used by effective task kinds''
             (api_path_config_review_evidence b
                [evidence_new ''effective'' (task_kind_labels effective),
                 evidence_new ''unused_contracts'' (task_kind_labels unused)]) ts
         else ts)"

definition collect_api_path_config_review_tasks ::
  "path \<Rightarrow> path \<Rightarrow> policy \<Rightarrow> reasoning_module \<Rightarrow> api_path_baseline \<Rightarrow> task_map \<Rightarrow> task_map" where
  "collect_api_path_config_review_tasks project_root pkg_root p m b ts =
     api_unused_contract_task project_root pkg_root p m b
       (api_override_tasks project_root pkg_root p m b
         (api_no_responsibilities_task project_root pkg_root p m b ts))"

definition api_skill_task :: "path \<Rightarrow> path \<Rightarrow> policy \<Rightarrow> reasoning_module \<Rightarrow> api_path_baseline \<Rightarrow> task_kind \<Rightarrow> task" where
  "api_skill_task project_root pkg_root p m b k =
     new_skill_task project_root pkg_root
       \<lparr>spec_task_kind = k, spec_owner_path = mod_path m,
        spec_owner_namespace = namespace_components (mod_source_path m), spec_line = None,
        spec_reason = api_path_task_reason k b (api_task_kinds b \<noteq> None),
        spec_contract = task_contract_for_api_path_baseline p b k,
        spec_evidence = api_path_baseline_evidence b\<rparr> p"

definition collect_skill_tasks_from_api_path_baseline ::
  "path \<Rightarrow> path \<Rightarrow> policy \<Rightarrow> reasoning_module \<Rightarrow> api_path_baseline \<Rightarrow> task_map \<Rightarrow> task_map" where
  "collect_skill_tasks_from_api_path_baseline project_root pkg_root p m b ts =
     fold (\<lambda>k. push_task p (api_skill_task project_root pkg_root p m b k))
       (task_kinds_for_api_path_baseline b p) ts"

definition collect_api_path_baseline ::
  "path \<Rightarrow> path \<Rightarrow> module_lookup \<Rightarrow> policy \<Rightarrow> nat \<times> api_path_baseline \<Rightarrow> nat list \<times> task_map \<Rightarrow> nat list \<times> task_map" where
  "collect_api_path_baseline project_root pkg_root l p = (\<lambda>(i, b) (matched, ts).
     case get_config_path l (api_owner_path b) of
       None \<Rightarrow> (matched, ts)
     | Some m \<Rightarrow>
         (bset_insert i matched,
          collect_skill_tasks_from_api_path_baseline project_root pkg_root p m b
            (collect_api_path_config_review_tasks project_root pkg_root p m b ts)))"

definition collect_api_path_baseline_tasks ::
  "path \<Rightarrow> path \<Rightarrow> module_lookup \<Rightarrow> policy \<Rightarrow> nat list \<times> task_map \<Rightarrow> nat list \<times> task_map" where
  "collect_api_path_baseline_tasks project_root pkg_root l p st =
     fold (collect_api_path_baseline project_root pkg_root l p) (enumerate 0 (api_path_baselines p)) st"

definition unmatched_baseline_task :: "path \<Rightarrow> policy \<Rightarrow> api_path_baseline \<Rightarrow> task" where
  "unmatched_baseline_task project_root p b =
     new_profile_review_task project_root project_root
       \<lparr>review_owner_path = unmatched_owner_path project_root (api_owner_path b),
        review_owner_namespace = [],
        review_reason = ''API path baseline target is not a parser-known Rust source module'',
        review_evidence = api_path_config_review_evidence b
          [evidence_new ''responsibilities'' (responsibility_labels (api_responsibilities b)),
           evidence_new ''task_kinds'' (task_kind_labels (task_kinds_for_api_path_baseline b p))],
        review_hint = None\<rparr> p"

definition collect_unmatched_api_path_baselines :: "path \<Rightarrow> policy \<Rightarrow> nat list \<Rightarrow> task_map \<Rightarrow> task_map" where
  "collect_unmatched_api_path_baselines project_root p matched ts =
     fold (\<lambda>(i, b) ts. if i \<in> set matched then ts else push_task p (unmatched_baseline_task project_root p b) ts)
       (enumerate 0 (api_path_baselines p)) ts"

section \<open>Regression tasks\<close>

definition regression_branch :: "owner_branch \<Rightarrow> bool" where
  "regression_branch br \<longleftrightarrow> RoleRoot \<notin> set (branch_roles br) \<and>
     \<not> (length (branch_child_edges br) < 3 \<and> non_test_owner_dependency_count (branch_import_summary br) < 3)"

definition regression_task :: "path \<Rightarrow> path \<Rightarrow> policy \<Rightarrow> owner_branch \<Rightarrow> task" where
  "regression_task project_root pkg_root p br =
     new_skill_task project_root pkg_root
       \<lparr>spec_task_kind = Regression, spec_owner_path = branch_path br,
        spec_owner_namespace = branch_namespace br, spec_line = None,
        spec_reason = ''parser facts show a branch coordinating several child modules or local owners'',
        spec_contract = task_contract_for_profile p None Regression,
        spec_evidence =
          [evidence_new ''child_modules'' (show_nat (length (branch_child_edges br))),
           evidence_new ''owner_deps'' (show_nat (non_test_owner_dependency_count (branch_import_summary br)))]\<rparr> p"

definition collect_regression_tasks :: "path \<Rightarrow> path \<Rightarrow> owner_branch list \<Rightarrow> policy \<Rightarrow> task_map \<Rightarrow> task_map" where
  "collect_regression_tasks project_root pkg_root branches p ts =
     fold (\<lambda>br ts. if regression_branch br then push_task p (regression_task project_root pkg_root p br) ts else ts)
       branches ts"

section \<open>Report obligations\<close>

record obligation_facts =
  of_task_kinds :: "task_kind list"
  of_task_fingerprints :: "string list"
  of_configured_kinds :: "task_kind list"
  of_configured_fingerprints :: "string list"
  of_performance_fingerprints :: "string list"
  of_stability_fingerprints :: "string list"

definition record_task :: "task \<Rightarrow> obligation_facts \<Rightarrow> obligation_facts" where
  "record_task t f = f\<lparr>
     of_task_kinds := bset_insert (kind t) (of_task_kinds f),
     of_task_fingerprints := of_task_fingerprints f @ [fingerprint t],
     of_configured_kinds := (if task_skill_binding t \<noteq> None then bset_insert (kind t) (of_configured_kinds f)
       else of_configured_kinds f),
     of_configured_fingerprints := (if task_skill_binding t \<noteq> None then of_configured_fingerprints f @ [fingerprint t]
       else of_configured_fingerprints f),
     of_performance_fingerprints := (if kind t = Performance then of_performance_fingerprints f @ [fingerprint t]
       else of_performance_fingerprints f),
     of_stability_fingerprints := (if kind t = Stability then of_stability_fingerprints f @ [fingerprint t]
       else of_stability_fingerprints f)\<rparr>"

definition obligation_facts_from_tasks :: "task list \<Rightarrow> obligation_facts" where
  "obligation_facts_from_tasks ts = fold record_task (filter is_active ts)
     \<lparr>of_task_kinds = [], of_task_fingerprints = [], of_configured_kinds = [], of_configured_fingerprints = [],
      of_performance_fingerprints = [], of_stability_fingerprints = []\<rparr>"

definition report_obligations_for_tasks :: "task list \<Rightarrow> report_obligation list" where
  "report_obligations_for_tasks ts =
     (let f = obligation_facts_from_tasks ts in
      if of_task_fingerprints f = [] then []
      else [report_obligation_new ''verification_plan_json'' ''render_rust_verification_plan_json''
              ''verification_plan.json''
              ''persist active verification policy state so receipts, waivers, and task drift stay comparable''
              (of_task_kinds f) (of_task_fingerprints f)]
        @ (if of_configured_fingerprints f \<noteq> [] then
             [report_obligation_new ''task_index_json''
                ''build_rust_verification_task_index + render_rust_verification_task_index_json'' ''task_index.json''
                ''persist compact configured-skill task state for security, performance, stress, chaos, and regression''
                (of_configured_kinds f) (of_configured_fingerprints f)] else [])
        @ (if of_performance_fingerprints f \<noteq> [] then
             [report_obligation_new ''performance_index_json''
                ''build_rust_verification_performance_index + render_rust_verification_performance_index_json''
                ''performance_index.json''
                ''persist Rust performance state for benchmark, receipt, and missing-evidence metrics''
                [Performance] (of_performance_fingerprints f)] else [])
        @ (if of_stability_fingerprints f \<noteq> [] then
             [report_obligation_new ''stability_index_json''
                ''build_rust_verification_stability_index + render_rust_verification_stability_index_json''
                ''stability_index.json''
                ''persist Rust stability state for long-run drift, resource growth, and missing-evidence metrics''
                [Stability] (of_stability_fingerprints f),
              report_obligation_new ''stability_picture_json''
                ''build_rust_verification_stability_picture_with_policy + render_rust_verification_stability_picture_json''
                ''stability_picture.json''
                ''persist Agent-facing stability action picture with project and owner-local configuration''
                [Stability] (of_stability_fingerprints (obligation_facts_from_tasks ts))] else []))"

section \<open>Plans\<close>

record collections =
  matched_profile_hints :: "nat list"
  matched_api_path_baselines :: "nat list"
  collected_tasks :: task_map

definition collect_package_verification_tasks ::
  "path \<Rightarrow> policy \<Rightarrow> reasoning_tree \<Rightarrow> collections \<Rightarrow> collections" where
  "collect_package_verification_tasks project_root p tree c =
     (let pkg_root = tree_package_root tree;
          l = lookup_new project_root pkg_root (filter mod_is_source (tree_modules tree));
          (hints, ts) = collect_profile_tasks project_root pkg_root l p (matched_profile_hints c, collected_tasks c);
          (baselines, ts) = collect_api_path_baseline_tasks project_root pkg_root l p
            (matched_api_path_baselines c, ts)
      in \<lparr>matched_profile_hints = hints, matched_api_path_baselines = baselines,
          collected_tasks = collect_regression_tasks project_root pkg_root (tree_owner_branches tree) p ts\<rparr>)"

definition collect_all_tasks :: "path \<Rightarrow> policy \<Rightarrow> reasoning_tree list \<Rightarrow> task_map" where
  "collect_all_tasks project_root p trees =
     (let c = fold (collect_package_verification_tasks project_root p) trees
          \<lparr>matched_profile_hints = [], matched_api_path_baselines = [], collected_tasks = []\<rparr>
      in collect_unmatched_api_path_baselines project_root p (matched_api_path_baselines c)
           (collect_unmatched_profile_hints project_root p (matched_profile_hints c) (collected_tasks c)))"

definition task_sort_key :: "task \<Rightarrow> path \<times> path \<times> task_kind \<times> string" where
  "task_sort_key t = (package_root t, owner_path t, kind t, fingerprint t)"

definition plan_rust_verification_from_analysis :: "path \<Rightarrow> policy \<Rightarrow> reasoning_tree list \<Rightarrow> plan" where
  "plan_rust_verification_from_analysis project_root p trees =
     (let task_values = bmap_values (collect_all_tasks project_root p trees) in
      \<lparr>plan_project_root = project_root,
       tasks = sort_key task_sort_key task_values,
       report_obligations = report_obligations_for_tasks task_values,
       plan_skill_descriptors = skill_descriptors_for_tasks p task_values\<rparr>)"

section \<open>Module lookup facts\<close>

lemma fold_lookup_add:
  "fold (lookup_add project_root pkg_root) ms l = \<lparr>
     lookup_absolute = fold (\<lambda>m. bmap_or_insert (mod_path m) m) ms (lookup_absolute l),
     lookup_project_relative = fold (relative_entry project_root) ms (lookup_project_relative l),
     lookup_package_relative = fold (relative_entry pkg_root) ms (lookup_package_relative l)\<rparr>"
  by (induction ms arbitrary: l) (simp_all add: lookup_add_def)

lemma get_fold_or_insert:
  "bmap_get (fold (\<lambda>m. bmap_or_insert (key m) m) ms []) k = find (\<lambda>m. key m = k) ms"
proof -
  have "fold (\<lambda>m. bmap_or_insert (key m) m) ms es = fold (\<lambda>(k, v). bmap_or_insert k v) (map (\<lambda>m. (key m, m)) ms) es" for es
    by (induction ms arbitrary: es) simp_all
  then have "bmap_get (fold (\<lambda>m. bmap_or_insert (key m) m) ms []) k = map_of (map (\<lambda>m. (key m, m)) ms) k"
    using bm.collect_or_put [of "map (\<lambda>m. (key m, m)) ms"] by (simp add: fun_eq_iff)
  also have "\<dots> = find (\<lambda>m. key m = k) ms" by (induction ms) simp_all
  finally show ?thesis .
qed

lemma fold_relative_entry:
  "fold (relative_entry root) ms es =
     fold (\<lambda>m. bmap_or_insert (the (strip_prefix (mod_path m) root)) m)
       (filter (\<lambda>m. strip_prefix (mod_path m) root \<noteq> None) ms) es"
  by (induction ms arbitrary: es) (auto simp: relative_entry_def split: option.splits)

lemma get_relative_entry:
  "bmap_get (fold (relative_entry root) ms []) k = find (\<lambda>m. strip_prefix (mod_path m) root = Some k) ms"
proof -
  have "find (\<lambda>m. the (strip_prefix (mod_path m) root) = k) (filter (\<lambda>m. strip_prefix (mod_path m) root \<noteq> None) ms) =
    find (\<lambda>m. strip_prefix (mod_path m) root = Some k) ms"
    by (induction ms) auto
  then show ?thesis by (simp only: fold_relative_entry get_fold_or_insert)
qed

lemma get_config_path_lookup:
  "get_config_path (lookup_new project_root pkg_root ms) owner =
     (if is_absolute owner then find (\<lambda>m. mod_path m = owner) ms
      else case find (\<lambda>m. strip_prefix (mod_path m) project_root = Some owner) ms of
             Some m \<Rightarrow> Some m
           | None \<Rightarrow> find (\<lambda>m. strip_prefix (mod_path m) pkg_root = Some owner) ms)"
  by (simp add: get_config_path_def lookup_new_def fold_lookup_add get_relative_entry get_fold_or_insert cong: option.case_cong)

section \<open>Task collectors\<close>

text \<open>
  Every collector of the planner extends a task map. Its contract names the tasks it must have recorded,
  unless their kind is disabled, and the tasks it may add.
\<close>

lemma task_map_inv_Nil: "task_map_inv p []"
  by (simp add: task_map_inv_def)

locale task_collector =
  fixes p :: policy and required allowed :: "task set" and collect :: "task_map \<Rightarrow> task_map"
  assumes inv: "task_map_inv p ts \<Longrightarrow> task_map_inv p (collect ts)"
    and keeps: "task_map_inv p ts \<Longrightarrow> set ts \<subseteq> set (collect ts)"
    and bounded: "task_map_inv p ts \<Longrightarrow> (fp, t) \<in> set (collect ts) \<Longrightarrow> (fp, t) \<in> set ts \<or> t \<in> allowed"
    and covers: "task_map_inv p ts \<Longrightarrow> t \<in> required \<Longrightarrow> kind t \<notin> set (disabled_task_kinds p) \<Longrightarrow>
      fingerprint t \<in> set (bmap_keys (collect ts))"
begin

lemma collected_keys: "task_map_inv p ts \<Longrightarrow> map fingerprint (bmap_values (collect ts)) = bmap_keys (collect ts)"
  using inv [of ts] by (auto simp: task_map_inv_def)

lemma collected_fingerprints_ascending: "ascending (map fingerprint (bmap_values (collect [])))"
  using inv [of "[]"] unfolding collected_keys [OF task_map_inv_Nil] by (simp add: task_map_inv_def)

lemma collected_enabled: "t \<in> set (bmap_values (collect [])) \<Longrightarrow> kind t \<notin> set (disabled_task_kinds p)"
  using inv [of "[]"] by (auto simp: task_map_inv_def)

lemma collected_allowed: "t \<in> set (bmap_values (collect [])) \<Longrightarrow> t \<in> allowed"
  using bounded [of "[]"] by (auto simp: task_map_inv_def)

lemma collected_required:
  "t \<in> required \<Longrightarrow> kind t \<notin> set (disabled_task_kinds p) \<Longrightarrow>
   \<exists>t' \<in> set (bmap_values (collect [])). fingerprint t' = fingerprint t"
  using covers [OF task_map_inv_Nil, of t] unfolding collected_keys [OF task_map_inv_Nil, symmetric] by force

end

lemma collector_push: "task_collector p {t} {t} (push_task p t)"
  using push_task_inv push_task_keeps push_task_present push_task_from
  by unfold_locales (blast | fastforce)+

lemma collector_skip: "task_collector p {} U (\<lambda>ts. ts)"
  by unfold_locales auto

lemma collector_weaken: "task_collector p R U f \<Longrightarrow> R' \<subseteq> R \<Longrightarrow> U \<subseteq> U' \<Longrightarrow> task_collector p R' U' f"
  unfolding task_collector_def by blast

lemma collector_then:
  assumes f: "task_collector p R U f" and g: "task_collector p R' U g"
  shows "task_collector p (R \<union> R') U (\<lambda>ts. g (f ts))"
proof unfold_locales
  fix ts :: task_map and t :: task and fp :: string
  assume inv: "task_map_inv p ts"
  note inv_f = task_collector.inv [OF f inv] and keeps_g = task_collector.keeps [OF g task_collector.inv [OF f inv]]
  show "task_map_inv p (g (f ts))" by (rule task_collector.inv [OF g inv_f])
  show "set ts \<subseteq> set (g (f ts))" using task_collector.keeps [OF f inv] keeps_g by blast
  show "(fp, t) \<in> set ts \<or> t \<in> U" if "(fp, t) \<in> set (g (f ts))"
    using task_collector.bounded [OF g inv_f that] task_collector.bounded [OF f inv] by blast
  show "fingerprint t \<in> set (bmap_keys (g (f ts)))"
    if "t \<in> R \<union> R'" "kind t \<notin> set (disabled_task_kinds p)"
    using that task_collector.covers [OF f inv, of t] task_collector.covers [OF g inv_f, of t] keeps_g by fastforce
qed

lemma collector_fold:
  assumes "\<And>x. x \<in> set xs \<Longrightarrow> task_collector p (R x) U (f x)"
  shows "task_collector p (\<Union>x \<in> set xs. R x) U (fold f xs)"
  using assms
proof (induction xs)
  case Nil
  then show ?case using collector_skip by (simp add: id_def)
next
  case (Cons x xs)
  then show ?case using collector_then [of p "R x" U "f x" "\<Union>x \<in> set xs. R x" "fold f xs"] by (simp add: comp_def)
qed

definition review_tasks :: "task set" where
  "review_tasks = {t. kind t = ResponsibilityReview}"

definition review_extension :: "policy \<Rightarrow> task_map \<Rightarrow> task_map \<Rightarrow> bool" where
  "review_extension p ts ts' \<longleftrightarrow> (task_map_inv p ts \<longrightarrow> task_map_inv p ts' \<and> set ts \<subseteq> set ts' \<and>
     (\<forall>(fp, t) \<in> set ts'. (fp, t) \<in> set ts \<or> t \<in> review_tasks))"

lemma review_extension_refl: "review_extension p ts ts"
  by (auto simp: review_extension_def)

lemma review_extension_push:
  assumes "kind t = ResponsibilityReview" "review_extension p ts ts'"
  shows "review_extension p ts (push_task p t ts')"
proof -
  have "(fp, u) \<in> set ts \<or> u \<in> review_tasks"
    if "task_map_inv p ts" "(fp, u) \<in> set (push_task p t ts')" for fp u
    using assms that push_task_from [of "(fp, u)" p t ts'] unfolding review_extension_def review_tasks_def by auto
  moreover have "set ts \<subseteq> set (push_task p t ts')" if "task_map_inv p ts"
    using assms that push_task_keeps [of p ts' t] unfolding review_extension_def by auto
  ultimately show ?thesis using assms push_task_inv [of p ts' t] unfolding review_extension_def by auto
qed

lemmas review_extension_intros = review_extension_refl review_extension_push

lemma collector_of_reviews:
  assumes "\<And>ts. review_extension p ts (f ts)" "review_tasks \<subseteq> U"
  shows "task_collector p {} U f"
  using assms unfolding review_extension_def by unfold_locales blast+

lemma profile_reviews:
  "review_extension p ts0 ts \<Longrightarrow> review_extension p ts0 (collect_profile_conflict_task a b p m h ts)"
  "review_extension p ts0 ts \<Longrightarrow> review_extension p ts0 (profile_no_responsibilities_task a b p m h ts)"
  "review_extension p ts0 ts \<Longrightarrow> review_extension p ts0 (profile_override_tasks a b p m h ts)"
  "review_extension p ts0 ts \<Longrightarrow> review_extension p ts0 (profile_unused_contract_task a b p m h ts)"
  unfolding collect_profile_conflict_task_def profile_no_responsibilities_task_def profile_override_tasks_def
    profile_unused_contract_task_def push_profile_config_review_task_def Let_def
  by (auto intro!: review_extension_push split: option.split)

lemma api_reviews:
  "review_extension p ts0 ts \<Longrightarrow> review_extension p ts0 (api_no_responsibilities_task a b p m x ts)"
  "review_extension p ts0 ts \<Longrightarrow> review_extension p ts0 (api_override_tasks a b p m x ts)"
  "review_extension p ts0 ts \<Longrightarrow> review_extension p ts0 (api_unused_contract_task a b p m x ts)"
  unfolding api_no_responsibilities_task_def api_override_tasks_def api_unused_contract_task_def
    push_api_path_config_review_task_def Let_def
  by (auto intro!: review_extension_push split: option.split)

lemma fold_matched:
  fixes g :: "'a \<Rightarrow> 'm option" and f :: "'a \<Rightarrow> 'm \<Rightarrow> task_map \<Rightarrow> task_map"
  defines "step \<equiv> \<lambda>(i, x) (ms, ts). case g x of None \<Rightarrow> (ms, ts) | Some m \<Rightarrow> (bset_insert i ms, f x m ts)"
  shows "snd (fold step (enumerate n xs) st) = fold (\<lambda>x ts. case g x of None \<Rightarrow> ts | Some m \<Rightarrow> f x m ts) xs (snd st)"
    and "set (fst (fold step (enumerate n xs) st)) =
      set (fst st) \<union> {i. \<exists>x. (i, x) \<in> set (enumerate n xs) \<and> g x \<noteq> None}"
proof -
  show "snd (fold step (enumerate n xs) st) = fold (\<lambda>x ts. case g x of None \<Rightarrow> ts | Some m \<Rightarrow> f x m ts) xs (snd st)"
    by (induction xs arbitrary: n st) (auto simp: step_def split_def split: option.split)
  show "set (fst (fold step (enumerate n xs) st)) =
      set (fst st) \<union> {i. \<exists>x. (i, x) \<in> set (enumerate n xs) \<and> g x \<noteq> None}"
    by (induction xs arbitrary: n st) (auto simp: step_def split_def split: option.split)
qed

definition tree_lookup :: "path \<Rightarrow> reasoning_tree \<Rightarrow> module_lookup" where
  "tree_lookup project_root tree = lookup_new project_root (tree_package_root tree) (filter mod_is_source (tree_modules tree))"

definition profile_tasks_of :: "path \<Rightarrow> policy \<Rightarrow> reasoning_tree \<Rightarrow> task set" where
  "profile_tasks_of project_root p tree = {profile_skill_task project_root (tree_package_root tree) p m h k |h m k.
     h \<in> set (profile_hints p) \<and> get_config_path (tree_lookup project_root tree) (hint_owner_path h) = Some m \<and>
     k \<in> set (task_kinds_for_profile h p)}"

definition api_path_tasks_of :: "path \<Rightarrow> policy \<Rightarrow> reasoning_tree \<Rightarrow> task set" where
  "api_path_tasks_of project_root p tree = {api_skill_task project_root (tree_package_root tree) p m b k |b m k.
     b \<in> set (api_path_baselines p) \<and> get_config_path (tree_lookup project_root tree) (api_owner_path b) = Some m \<and>
     k \<in> set (task_kinds_for_api_path_baseline b p)}"

definition regression_tasks_of :: "path \<Rightarrow> policy \<Rightarrow> reasoning_tree \<Rightarrow> task set" where
  "regression_tasks_of project_root p tree =
     regression_task project_root (tree_package_root tree) p ` {br \<in> set (tree_owner_branches tree). regression_branch br}"

definition package_tasks_of :: "path \<Rightarrow> policy \<Rightarrow> reasoning_tree \<Rightarrow> task set" where
  "package_tasks_of project_root p tree =
     profile_tasks_of project_root p tree \<union> api_path_tasks_of project_root p tree \<union> regression_tasks_of project_root p tree"

lemma collector_hint:
  "task_collector p (profile_skill_task a b p m h ` set (task_kinds_for_profile h p))
     (profile_skill_task a b p m h ` set (task_kinds_for_profile h p) \<union> review_tasks)
     (\<lambda>ts. collect_skill_tasks_from_profile a b p m h (collect_profile_config_review_tasks a b p m h
        (collect_profile_conflict_task a b p m h ts)))"
proof -
  let ?S = "profile_skill_task a b p m h ` set (task_kinds_for_profile h p)"
  have "task_collector p (\<Union>k \<in> set (task_kinds_for_profile h p). {profile_skill_task a b p m h k}) (?S \<union> review_tasks)
    (collect_skill_tasks_from_profile a b p m h)"
    unfolding collect_skill_tasks_from_profile_def [abs_def]
    by (rule collector_fold, rule collector_weaken [OF collector_push]) auto
  moreover have "task_collector p {} (?S \<union> review_tasks) (\<lambda>ts. collect_profile_config_review_tasks a b p m h
      (collect_profile_conflict_task a b p m h ts))"
    unfolding collect_profile_config_review_tasks_def
    by (rule collector_of_reviews) (auto intro!: profile_reviews review_extension_refl)
  ultimately show ?thesis
    using collector_then [of p "{}" "?S \<union> review_tasks" _ ?S "collect_skill_tasks_from_profile a b p m h"]
    by (simp add: UNION_singleton_eq_range)
qed

lemma collector_baseline:
  "task_collector p (api_skill_task a b p m x ` set (task_kinds_for_api_path_baseline x p))
     (api_skill_task a b p m x ` set (task_kinds_for_api_path_baseline x p) \<union> review_tasks)
     (\<lambda>ts. collect_skill_tasks_from_api_path_baseline a b p m x (collect_api_path_config_review_tasks a b p m x ts))"
proof -
  let ?S = "api_skill_task a b p m x ` set (task_kinds_for_api_path_baseline x p)"
  have "task_collector p (\<Union>k \<in> set (task_kinds_for_api_path_baseline x p). {api_skill_task a b p m x k})
    (?S \<union> review_tasks) (collect_skill_tasks_from_api_path_baseline a b p m x)"
    unfolding collect_skill_tasks_from_api_path_baseline_def [abs_def]
    by (rule collector_fold, rule collector_weaken [OF collector_push]) auto
  moreover have "task_collector p {} (?S \<union> review_tasks) (collect_api_path_config_review_tasks a b p m x)"
    unfolding collect_api_path_config_review_tasks_def [abs_def]
    by (rule collector_of_reviews) (auto intro!: api_reviews review_extension_refl)
  ultimately show ?thesis
    using collector_then [of p "{}" "?S \<union> review_tasks" _ ?S "collect_skill_tasks_from_api_path_baseline a b p m x"]
    by (simp add: UNION_singleton_eq_range)
qed

definition collect_matched ::
  "('a \<Rightarrow> reasoning_module option) \<Rightarrow> ('a \<Rightarrow> reasoning_module \<Rightarrow> task_map \<Rightarrow> task_map) \<Rightarrow> 'a list \<Rightarrow> task_map \<Rightarrow> task_map" where
  "collect_matched g f xs ts = fold (\<lambda>x ts. case g x of None \<Rightarrow> ts | Some m \<Rightarrow> f x m ts) xs ts"

lemma collector_matched:
  assumes "\<And>x m. x \<in> set xs \<Longrightarrow> g x = Some m \<Longrightarrow> task_collector p (R x m) U (f x m)"
  shows "task_collector p {t. \<exists>x m. x \<in> set xs \<and> g x = Some m \<and> t \<in> R x m} U (collect_matched g f xs)"
proof -
  have "task_collector p (\<Union>x \<in> set xs. case g x of None \<Rightarrow> {} | Some m \<Rightarrow> R x m) U (collect_matched g f xs)"
    unfolding collect_matched_def [abs_def]
    using assms collector_skip by (intro collector_fold) (simp split: option.split)
  then show ?thesis by (rule collector_weaken) force+
qed

lemma collect_profile_tasks_split:
  "snd (collect_profile_tasks a b l p st) =
     collect_matched (\<lambda>h. get_config_path l (hint_owner_path h)) (\<lambda>h m ts. collect_skill_tasks_from_profile a b p m h
       (collect_profile_config_review_tasks a b p m h (collect_profile_conflict_task a b p m h ts))) (profile_hints p) (snd st)"
  "set (fst (collect_profile_tasks a b l p st)) = set (fst st) \<union>
     {i. i < length (profile_hints p) \<and> get_config_path l (hint_owner_path (profile_hints p ! i)) \<noteq> None}"
  unfolding collect_profile_tasks_def collect_profile_hint_def collect_matched_def fold_matched
  by (auto simp: in_set_enumerate_eq)

lemma collect_api_path_baseline_tasks_split:
  "snd (collect_api_path_baseline_tasks a b l p st) =
     collect_matched (\<lambda>x. get_config_path l (api_owner_path x)) (\<lambda>x m ts. collect_skill_tasks_from_api_path_baseline a b p m x
       (collect_api_path_config_review_tasks a b p m x ts)) (api_path_baselines p) (snd st)"
  "set (fst (collect_api_path_baseline_tasks a b l p st)) = set (fst st) \<union>
     {i. i < length (api_path_baselines p) \<and> get_config_path l (api_owner_path (api_path_baselines p ! i)) \<noteq> None}"
  unfolding collect_api_path_baseline_tasks_def collect_api_path_baseline_def collect_matched_def fold_matched
  by (auto simp: in_set_enumerate_eq)

definition package_collector :: "path \<Rightarrow> policy \<Rightarrow> reasoning_tree \<Rightarrow> task_map \<Rightarrow> task_map" where
  "package_collector a p tree ts =
     (let l = tree_lookup a tree; b = tree_package_root tree in
      collect_regression_tasks a b (tree_owner_branches tree) p
        (snd (collect_api_path_baseline_tasks a b l p ([], snd (collect_profile_tasks a b l p ([], ts))))))"

lemma collect_package_split:
  "collected_tasks (collect_package_verification_tasks a p tree c) = package_collector a p tree (collected_tasks c)"
  "set (matched_profile_hints (collect_package_verification_tasks a p tree c)) = set (matched_profile_hints c) \<union>
     {i. i < length (profile_hints p) \<and> get_config_path (tree_lookup a tree) (hint_owner_path (profile_hints p ! i)) \<noteq> None}"
  "set (matched_api_path_baselines (collect_package_verification_tasks a p tree c)) = set (matched_api_path_baselines c) \<union>
     {i. i < length (api_path_baselines p) \<and>
       get_config_path (tree_lookup a tree) (api_owner_path (api_path_baselines p ! i)) \<noteq> None}"
  unfolding collect_package_verification_tasks_def package_collector_def tree_lookup_def [symmetric] Let_def split_def
  by (simp_all add: collect_profile_tasks_split collect_api_path_baseline_tasks_split)

lemma collector_regression:
  "task_collector p (regression_task a b p ` {br \<in> set branches. regression_branch br})
     (regression_task a b p ` {br \<in> set branches. regression_branch br}) (collect_regression_tasks a b branches p)"
proof -
  let ?S = "regression_task a b p ` {br \<in> set branches. regression_branch br}"
  have "task_collector p (if regression_branch br then {regression_task a b p br} else {}) ?S
    (\<lambda>ts. if regression_branch br then push_task p (regression_task a b p br) ts else ts)" if "br \<in> set branches" for br
    using that collector_skip [of p ?S] collector_weaken [OF collector_push, of "{regression_task a b p br}" _ ?S] by auto
  then have "task_collector p (\<Union>br \<in> set branches. if regression_branch br then {regression_task a b p br} else {}) ?S
    (collect_regression_tasks a b branches p)"
    unfolding collect_regression_tasks_def [abs_def] by (rule collector_fold)
  then show ?thesis by (rule collector_weaken) auto
qed

lemma collector_package:
  "task_collector p (package_tasks_of a p tree) (package_tasks_of a p tree \<union> review_tasks) (package_collector a p tree)"
proof -
  let ?b = "tree_package_root tree" and ?U = "package_tasks_of a p tree \<union> review_tasks"
  have hints: "task_collector p (profile_tasks_of a p tree) ?U (\<lambda>ts. snd (collect_profile_tasks a ?b (tree_lookup a tree) p ([], ts)))"
    unfolding collect_profile_tasks_split snd_conv
    by (rule collector_weaken [OF collector_matched [where U = ?U, OF collector_weaken [OF collector_hint order_refl]]])
      (auto simp: package_tasks_of_def profile_tasks_of_def)
  have apis: "task_collector p (api_path_tasks_of a p tree) ?U
      (\<lambda>ts. snd (collect_api_path_baseline_tasks a ?b (tree_lookup a tree) p ([], ts)))"
    unfolding collect_api_path_baseline_tasks_split snd_conv
    by (rule collector_weaken [OF collector_matched [where U = ?U, OF collector_weaken [OF collector_baseline order_refl]]])
      (auto simp: package_tasks_of_def api_path_tasks_of_def)
  have regs: "task_collector p (regression_tasks_of a p tree) ?U (collect_regression_tasks a ?b (tree_owner_branches tree) p)"
    by (rule collector_weaken [OF collector_regression]) (auto simp: package_tasks_of_def regression_tasks_of_def)
  show ?thesis
    using collector_then [OF collector_then [OF hints apis] regs]
    by (simp add: package_collector_def [abs_def] Let_def package_tasks_of_def)
qed

section \<open>The collected tasks\<close>

definition hint_matched :: "path \<Rightarrow> reasoning_tree list \<Rightarrow> path \<Rightarrow> bool" where
  "hint_matched a trees owner \<longleftrightarrow> (\<exists>tree \<in> set trees. get_config_path (tree_lookup a tree) owner \<noteq> None)"

definition unmatched_tasks_of :: "path \<Rightarrow> policy \<Rightarrow> reasoning_tree list \<Rightarrow> task set" where
  "unmatched_tasks_of a p trees =
     unmatched_hint_task a p ` {h \<in> set (profile_hints p). \<not> hint_matched a trees (hint_owner_path h)} \<union>
     unmatched_baseline_task a p ` {b \<in> set (api_path_baselines p). \<not> hint_matched a trees (api_owner_path b)}"

definition plan_tasks_of :: "path \<Rightarrow> policy \<Rightarrow> reasoning_tree list \<Rightarrow> task set" where
  "plan_tasks_of a p trees = (\<Union>tree \<in> set trees. package_tasks_of a p tree) \<union> unmatched_tasks_of a p trees"

lemma fold_collect_package:
  fixes a p trees c
  defines "c' \<equiv> fold (collect_package_verification_tasks a p) trees c"
  shows "collected_tasks c' = fold (package_collector a p) trees (collected_tasks c)"
    "set (matched_profile_hints c') = set (matched_profile_hints c) \<union>
       {i. i < length (profile_hints p) \<and> hint_matched a trees (hint_owner_path (profile_hints p ! i))}"
    "set (matched_api_path_baselines c') = set (matched_api_path_baselines c) \<union>
       {i. i < length (api_path_baselines p) \<and> hint_matched a trees (api_owner_path (api_path_baselines p ! i))}"
proof -
  show "collected_tasks c' = fold (package_collector a p) trees (collected_tasks c)"
    unfolding c'_def by (induction trees arbitrary: c) (simp_all add: collect_package_split)
  show "set (matched_profile_hints c') = set (matched_profile_hints c) \<union>
       {i. i < length (profile_hints p) \<and> hint_matched a trees (hint_owner_path (profile_hints p ! i))}"
    unfolding c'_def hint_matched_def by (induction trees arbitrary: c) (auto simp: collect_package_split)
  show "set (matched_api_path_baselines c') = set (matched_api_path_baselines c) \<union>
       {i. i < length (api_path_baselines p) \<and> hint_matched a trees (api_owner_path (api_path_baselines p ! i))}"
    unfolding c'_def hint_matched_def by (induction trees arbitrary: c) (auto simp: collect_package_split)
qed

lemma collector_unmatched:
  assumes "set ms = {i. i < length xs \<and> P (xs ! i)}" "\<And>x. kind (t x) = ResponsibilityReview"
  shows "task_collector p (t ` {x \<in> set xs. \<not> P x}) review_tasks
    (\<lambda>ts. fold (\<lambda>(i, x) ts. if i \<in> set ms then ts else push_task p (t x) ts) (enumerate 0 xs) ts)"
proof -
  have "task_collector p (if fst ix \<in> set ms then {} else {t (snd ix)}) review_tasks
    ((\<lambda>(i, x) ts. if i \<in> set ms then ts else push_task p (t x) ts) ix)" for ix
    using assms(2) collector_skip collector_weaken [OF collector_push, of "{t (snd ix)}" "t (snd ix)" review_tasks p]
    by (auto simp: split_def review_tasks_def)
  then have "task_collector p (\<Union>ix \<in> set (enumerate 0 xs). if fst ix \<in> set ms then {} else {t (snd ix)}) review_tasks
    (fold (\<lambda>(i, x) ts. if i \<in> set ms then ts else push_task p (t x) ts) (enumerate 0 xs))"
    by (rule collector_fold)
  moreover have "t x \<in> (\<Union>ix \<in> set (enumerate 0 xs). if fst ix \<in> set ms then {} else {t (snd ix)})"
    if "x \<in> set xs" "\<not> P x" for x
  proof -
    from that obtain i where i: "i < length xs" "xs ! i = x" by (auto simp: in_set_conv_nth)
    with that assms(1) have "(i, x) \<in> set (enumerate 0 xs)" "i \<notin> set ms" by (auto simp: in_set_enumerate_eq)
    then show ?thesis by (intro UN_I [of "(i, x)"]) simp_all
  qed
  ultimately show ?thesis by (elim collector_weaken) auto
qed

definition plan_collector :: "path \<Rightarrow> policy \<Rightarrow> reasoning_tree list \<Rightarrow> task_map \<Rightarrow> task_map" where
  "plan_collector a p trees ts =
     (let c = fold (collect_package_verification_tasks a p) trees
          \<lparr>matched_profile_hints = [], matched_api_path_baselines = [], collected_tasks = ts\<rparr>
      in collect_unmatched_api_path_baselines a p (matched_api_path_baselines c)
           (collect_unmatched_profile_hints a p (matched_profile_hints c) (collected_tasks c)))"

lemma collect_all_tasks_collector: "collect_all_tasks a p trees = plan_collector a p trees []"
  by (simp add: collect_all_tasks_def plan_collector_def)

lemma unmatched_hint_task_kind [simp]: "kind (unmatched_hint_task a p h) = ResponsibilityReview"
  by (simp add: unmatched_hint_task_def)

lemma unmatched_baseline_task_kind [simp]: "kind (unmatched_baseline_task a p b) = ResponsibilityReview"
  by (simp add: unmatched_baseline_task_def)

interpretation planned: task_collector p "plan_tasks_of a p trees"
  "(\<Union>tree \<in> set trees. package_tasks_of a p tree) \<union> review_tasks" "plan_collector a p trees"
proof -
  let ?U = "(\<Union>tree \<in> set trees. package_tasks_of a p tree) \<union> review_tasks"
  let ?hints = "{h \<in> set (profile_hints p). \<not> hint_matched a trees (hint_owner_path h)}"
  let ?apis = "{b \<in> set (api_path_baselines p). \<not> hint_matched a trees (api_owner_path b)}"
  define c where "c = fold (collect_package_verification_tasks a p) trees
    \<lparr>matched_profile_hints = [], matched_api_path_baselines = [], collected_tasks = []\<rparr>"
  define c' where "c' ts = fold (collect_package_verification_tasks a p) trees
    \<lparr>matched_profile_hints = [], matched_api_path_baselines = [], collected_tasks = ts\<rparr>" for ts
  have packages: "task_collector p (\<Union>tree \<in> set trees. package_tasks_of a p tree) ?U (fold (package_collector a p) trees)"
    by (rule collector_fold, rule collector_weaken [OF collector_package]) auto
  have hints: "task_collector p (unmatched_hint_task a p ` ?hints) ?U
      (\<lambda>ts. fold (\<lambda>(i, h) ts. if i \<in> set (matched_profile_hints c) then ts
        else push_task p (unmatched_hint_task a p h) ts) (enumerate 0 (profile_hints p)) ts)"
    by (rule collector_weaken [OF collector_unmatched]) (auto simp: c_def fold_collect_package)
  have apis: "task_collector p (unmatched_baseline_task a p ` ?apis) ?U
      (\<lambda>ts. fold (\<lambda>(i, b) ts. if i \<in> set (matched_api_path_baselines c) then ts
        else push_task p (unmatched_baseline_task a p b) ts) (enumerate 0 (api_path_baselines p)) ts)"
    by (rule collector_weaken [OF collector_unmatched]) (auto simp: c_def fold_collect_package)
  have "set (matched_profile_hints (c' ts)) = set (matched_profile_hints c)"
    "set (matched_api_path_baselines (c' ts)) = set (matched_api_path_baselines c)"
    "collected_tasks (c' ts) = fold (package_collector a p) trees ts" for ts
    by (simp_all add: c_def c'_def fold_collect_package)
  then have "plan_collector a p trees = (\<lambda>ts. fold (\<lambda>(i, b) ts. if i \<in> set (matched_api_path_baselines c) then ts
        else push_task p (unmatched_baseline_task a p b) ts) (enumerate 0 (api_path_baselines p))
      (fold (\<lambda>(i, h) ts. if i \<in> set (matched_profile_hints c) then ts
        else push_task p (unmatched_hint_task a p h) ts) (enumerate 0 (profile_hints p)) (fold (package_collector a p) trees ts)))"
    by (simp add: fun_eq_iff plan_collector_def c'_def [symmetric] collect_unmatched_api_path_baselines_def
        collect_unmatched_profile_hints_def Let_def)
  then show "task_collector p (plan_tasks_of a p trees) ?U (plan_collector a p trees)"
    using collector_then [OF collector_then [OF packages hints] apis]
    by (simp add: plan_tasks_of_def unmatched_tasks_of_def Un_assoc)
qed

section \<open>Plan properties\<close>

definition sample_imports :: import_facts where
  "sample_imports = \<lparr>total_imports = 0, crate_imports = 0, self_imports = 0, parent_imports = 0, external_imports = 0,
     absolute_imports = 0, unknown_imports = 0, glob_imports = 0, deep_relative_imports = 0,
     deep_relative_import_facts = [], prelude_imports = 0, test_context_imports = 0, production_external_imports = [],
     local_owner_imports = [], local_owner_dependencies = []\<rparr>"

definition sample_module :: "path \<Rightarrow> path \<Rightarrow> reasoning_module" where
  "sample_module root relative = \<lparr>mod_path = root @ relative,
     mod_source_path = rust_source_path_facts root [root @ [Normal ''src'']] [] [] (root @ relative),
     mod_import_summary = sample_imports, mod_public_api = \<lparr>public_items = 0, public_exports = 0, public_functions = 0\<rparr>,
     mod_is_source = True, mod_is_test = False, mod_is_tree_root = False, mod_child_edges = []\<rparr>"

definition sample_tree :: "path \<Rightarrow> reasoning_module list \<Rightarrow> reasoning_tree" where
  "sample_tree root ms = \<lparr>tree_package_root = root, tree_source_roots = [root @ [Normal ''src'']],
     tree_package_entrypoints = [], tree_modules = ms, tree_owner_branches = [], tree_owner_dependencies = [],
     tree_shadowed_module_sources = [], tree_unreachable_source_files = []\<rparr>"

lemma set_plan_tasks:
  "set (tasks (plan_rust_verification_from_analysis a p trees)) = set (bmap_values (plan_collector a p trees []))"
  by (simp add: plan_rust_verification_from_analysis_def Let_def collect_all_tasks_collector)

lemma plan_required:
  assumes "t \<in> plan_tasks_of a p trees" "kind t \<notin> set (disabled_task_kinds p)"
  shows "\<exists>t' \<in> set (tasks (plan_rust_verification_from_analysis a p trees)). fingerprint t' = fingerprint t"
  using planned.collected_required [OF assms] by (simp only: set_plan_tasks)

lemma distinct_map_sort_key: "distinct (map g (sort_key f xs)) \<longleftrightarrow> distinct (map g xs)"
  by (simp add: distinct_map)

text \<open>
  C30: a verification plan lists each obligation once and in a stable order: the task fingerprints are distinct,
  the tasks are sorted by package root, owner, kind and fingerprint, and no task is of a kind the policy
  disables.
\<close>

theorem plan_tasks_unique_sorted:
  "let ts = tasks (plan_rust_verification_from_analysis project_root p trees)
   in distinct (map fingerprint ts) \<and> sorted (map task_sort_key ts) \<and>
      kind ` set ts \<inter> set (disabled_task_kinds p) = {}"
proof -
  have "distinct (map fingerprint (bmap_values (plan_collector project_root p trees [])))"
    by (rule ascending_distinct [OF planned.collected_fingerprints_ascending])
  moreover have "kind ` set (tasks (plan_rust_verification_from_analysis project_root p trees)) \<inter>
      set (disabled_task_kinds p) = {}"
    unfolding set_plan_tasks using planned.collected_enabled by fast
  ultimately show ?thesis
    by (simp only: Let_def plan_rust_verification_from_analysis_def collect_all_tasks_collector plan.simps
        distinct_map_sort_key sorted_sort_key simp_thms)
qed

text \<open>
  C31: what the policy asks for is planned, up to fingerprints and disabled kinds. For every profile hint and API path baseline that resolves to a module
  of a package and each of its task kinds, for every hint or baseline that resolves in no package (its review task), and for every branch that
  coordinates at least three children or local owners (its regression task): either the kind of that task is disabled by the policy
  (for a review task \<open>ResponsibilityReview\<close>), and then nothing is planned for it, or the plan holds a task with the fingerprint of that task. Of several
  tasks with one fingerprint the plan keeps the first; the fingerprint covers kind, package, owner, evidence and required evidence, and neither the phase nor the
  required receipt of the contract, as the lemma after the witness shows.
\<close>

theorem plan_covers_configuration:
  fixes project_root p trees
  defines "planned t \<equiv> kind t \<in> set (disabled_task_kinds p) \<or>
    (\<exists>t' \<in> set (tasks (plan_rust_verification_from_analysis project_root p trees)). fingerprint t' = fingerprint t)"
  shows "(\<forall>h \<in> set (profile_hints p).
      (\<forall>tree \<in> set trees. \<forall>m. get_config_path (tree_lookup project_root tree) (hint_owner_path h) = Some m \<longrightarrow>
         (\<forall>k \<in> set (task_kinds_for_profile h p). planned (profile_skill_task project_root (tree_package_root tree) p m h k))) \<and>
      (hint_matched project_root trees (hint_owner_path h) \<or> planned (unmatched_hint_task project_root p h))) \<and>
    (\<forall>b \<in> set (api_path_baselines p).
      (\<forall>tree \<in> set trees. \<forall>m. get_config_path (tree_lookup project_root tree) (api_owner_path b) = Some m \<longrightarrow>
         (\<forall>k \<in> set (task_kinds_for_api_path_baseline b p). planned (api_skill_task project_root (tree_package_root tree) p m b k))) \<and>
      (hint_matched project_root trees (api_owner_path b) \<or> planned (unmatched_baseline_task project_root p b))) \<and>
    (\<forall>tree \<in> set trees. \<forall>br \<in> set (tree_owner_branches tree).
      regression_branch br \<longrightarrow> planned (regression_task project_root (tree_package_root tree) p br))"
proof -
  have planned: "planned t" if "t \<in> plan_tasks_of project_root p trees" for t
    unfolding planned_def using plan_required [OF that] by blast
  show ?thesis
    by (intro conjI ballI allI impI, goal_cases)
      (auto 4 4 intro!: planned simp: plan_tasks_of_def unmatched_tasks_of_def package_tasks_of_def profile_tasks_of_def
        api_path_tasks_of_def regression_tasks_of_def)
qed

theorem plan_covers_configuration_witness:
  "let root = [RootDir, Normal ''w'']; owner = [Normal ''src'', Normal ''api.rs''];
       h = profile_hint_new owner [PublicApi];
       p = with_profile_hint (profile_hint_new [Normal ''gone.rs''] [PublicApi]) (with_profile_hint h policy_default);
       ts = tasks (plan_rust_verification_from_analysis root p [sample_tree root [sample_module root owner]])
   in fingerprint (profile_skill_task root root p (sample_module root owner) h Stress) \<in> fingerprint ` set ts \<and>
      fingerprint (unmatched_hint_task root p (profile_hint_new [Normal ''gone.rs''] [PublicApi])) \<in> fingerprint ` set ts"
proof -
  define root owner where "root = [RootDir, Normal ''w'']" and "owner = [Normal ''src'', Normal ''api.rs'']"
  define h g where "h = profile_hint_new owner [PublicApi]" and "g = profile_hint_new [Normal ''gone.rs''] [PublicApi]"
  define p m where "p = with_profile_hint g (with_profile_hint h policy_default)" and "m = sample_module root owner"
  define tree where "tree = sample_tree root [m]"
  have p: "h \<in> set (profile_hints p)" "g \<in> set (profile_hints p)" "k \<notin> set (disabled_task_kinds p)" for k
    by (simp_all add: p_def with_profile_hint_def policy_default_def)
  have resolved: "get_config_path (tree_lookup root tree) (hint_owner_path h) = Some m"
    and root: "tree_package_root tree = root" and tree: "tree \<in> set [tree]"
    by (simp_all add: tree_lookup_def get_config_path_lookup sample_tree_def sample_module_def profile_hint_new_def
        is_absolute_def strip_prefix_Some h_def m_def tree_def root_def owner_def)
  have unresolved: "\<not> hint_matched root [tree] (hint_owner_path g)"
    by (simp add: hint_matched_def tree_lookup_def get_config_path_lookup sample_tree_def sample_module_def
        profile_hint_new_def is_absolute_def strip_prefix_Some g_def m_def tree_def root_def owner_def)
  have stress: "Stress \<in> set (task_kinds_for_profile h p)"
    by (simp add: task_kinds_for_profile_def profile_hint_new_def task_kinds_for_responsibilities_def
        responsibility_task_kinds_def with_profile_hint_def policy_default_def h_def p_def)
  note hints = conjunct1 [OF plan_covers_configuration [where p = p and project_root = root and trees = "[tree]"]]
  have "\<exists>t' \<in> set (tasks (plan_rust_verification_from_analysis root p [tree])).
      fingerprint t' = fingerprint (profile_skill_task root root p m h Stress)"
    using conjunct1 [OF bspec [OF hints p(1)]] tree resolved stress p(3) root by metis
  moreover have "\<exists>t' \<in> set (tasks (plan_rust_verification_from_analysis root p [tree])).
      fingerprint t' = fingerprint (unmatched_hint_task root p g)"
    using conjunct2 [OF bspec [OF hints p(2)]] unresolved p(3) by blast
  ultimately show ?thesis
    unfolding Let_def image_iff p_def h_def g_def m_def tree_def root_def owner_def by metis
qed

text \<open>
  A fingerprint does not cover the phase and the required receipt of a contract: two hints on one owner that differ only in these two give
  tasks with the same fingerprint, and the second is not added.
\<close>

lemma contract_phase_not_planned_twice:
  fixes a b :: path and p m h k overrides ts
  defines "t \<equiv> profile_skill_task a b p m h k"
    and "t' \<equiv> profile_skill_task a b p m (h\<lparr>hint_task_contract_overrides := overrides\<rparr>) k"
  assumes "contract_required_evidence (task_contract_for_profile p (Some (h\<lparr>hint_task_contract_overrides := overrides\<rparr>)) k) =
      contract_required_evidence (task_contract_for_profile p (Some h) k)"
    and inv: "task_map_inv p ts"
  shows "fingerprint t' = fingerprint t \<and> push_task p t' (push_task p t ts) = push_task p t ts"
proof -
  have fp: "fingerprint t' = fingerprint t" "kind t' = kind t"
    using assms(3) by (simp_all add: t_def t'_def profile_skill_task_def new_skill_task_def profile_evidence_def normalized_hint_rationale_def Let_def)
  have "push_task p t' (push_task p t ts) = push_task p t ts"
  proof (cases "kind t \<in> set (disabled_task_kinds p)")
    case False
    with inv have "fingerprint t \<in> set (bmap_keys (push_task p t ts))" by (rule push_task_present)
    then have "map_of (push_task p t ts) (fingerprint t) \<noteq> None" by (simp add: map_of_eq_None_iff)
    with False fp show ?thesis by (auto simp: push_task_def [of p t'] bmap_or_insert_def)
  qed (simp add: push_task_def fp)
  with fp(1) show ?thesis by simp
qed

lemma two_phases_one_fingerprint:
  "let h = profile_hint_new [Normal ''src'', Normal ''api.rs''] [PublicApi];
       early = (default_task_contract Stress)\<lparr>contract_phase := BeforeRelease\<rparr>;
       h' = h\<lparr>hint_task_contract_overrides := [(Stress, early)]\<rparr>;
       root = [RootDir, Normal ''w'']; m = sample_module root [Normal ''src'', Normal ''api.rs'']
   in task_phase (profile_skill_task root root policy_default m h Stress) = AfterUnitTestsPass \<and>
      task_phase (profile_skill_task root root policy_default m h' Stress) = BeforeRelease \<and>
      fingerprint (profile_skill_task root root policy_default m h' Stress) = fingerprint (profile_skill_task root root policy_default m h Stress)"
  by (simp add: Let_def profile_skill_task_def new_skill_task_def profile_evidence_def normalized_hint_rationale_def task_contract_for_profile_def
      task_contract_from_overrides_def profile_hint_new_def policy_default_def task_contract_new_def apply_task_resolution_def
      matching_receipt_def matching_waiver_def incomplete_matching_waiver_def)

text \<open>
  A plan invents nothing: every task that is not a responsibility review is the task of a profile hint, of
  an API path baseline or of a coordinating branch of one of the packages.
\<close>

lemma plan_tasks_justified:
  "{t \<in> set (tasks (plan_rust_verification_from_analysis project_root p trees)). kind t \<noteq> ResponsibilityReview}
     \<subseteq> (\<Union>tree \<in> set trees. package_tasks_of project_root p tree)"
  using planned.collected_allowed [of _ project_root p trees]
  by (auto simp only: set_plan_tasks review_tasks_def)

text \<open>
  An owner path of the policy is resolved in one order. An absolute path names the first source module
  with that path. A relative one names the first module at that place below the project root and, only
  when there is none, the first module at that place below the package root.
\<close>

lemma get_config_path_resolution:
  "get_config_path (lookup_new project_root pkg_root ms) owner =
     (if is_absolute owner then find (\<lambda>m. mod_path m = owner) ms
      else case find (\<lambda>m. mod_path m = project_root @ owner) ms of
             Some m \<Rightarrow> Some m
           | None \<Rightarrow> find (\<lambda>m. mod_path m = pkg_root @ owner) ms)"
  unfolding get_config_path_lookup strip_prefix_Some ..

section \<open>Report obligations\<close>

lemma fold_record_task:
  fixes f ts
  defines "f' \<equiv> fold record_task ts f"
  shows "of_task_fingerprints f' = of_task_fingerprints f @ map fingerprint ts"
    "of_configured_fingerprints f' = of_configured_fingerprints f @ map fingerprint (filter (\<lambda>t. task_skill_binding t \<noteq> None) ts)"
    "of_performance_fingerprints f' = of_performance_fingerprints f @ map fingerprint (filter (\<lambda>t. kind t = Performance) ts)"
    "of_stability_fingerprints f' = of_stability_fingerprints f @ map fingerprint (filter (\<lambda>t. kind t = Stability) ts)"
    "set (of_task_kinds f') = set (of_task_kinds f) \<union> kind ` set ts"
  unfolding f'_def by (induction ts arbitrary: f) (simp_all add: record_task_def)

lemma obligation_facts:
  fixes ts
  defines "f \<equiv> obligation_facts_from_tasks ts" and "active \<equiv> filter is_active ts"
  shows "of_task_fingerprints f = map fingerprint active"
    "of_configured_fingerprints f = map fingerprint (filter (\<lambda>t. task_skill_binding t \<noteq> None) active)"
    "of_performance_fingerprints f = map fingerprint (filter (\<lambda>t. kind t = Performance) active)"
    "of_stability_fingerprints f = map fingerprint (filter (\<lambda>t. kind t = Stability) active)"
    "set (of_task_kinds f) = kind ` set active"
  unfolding f_def active_def obligation_facts_from_tasks_def by (simp_all add: fold_record_task)

definition obligation_fingerprints :: "report_obligation list \<Rightarrow> string \<Rightarrow> string list" where
  "obligation_fingerprints obs key =
     concat (map obligation_task_fingerprints (filter (\<lambda>ob. obligation_key ob = key) obs))"

lemma report_obligation_new_sel [simp]:
  "obligation_key (report_obligation_new key r n w ks fs) = key"
  "obligation_task_fingerprints (report_obligation_new key r n w ks fs) = fs"
  by (simp_all add: report_obligation_new_def)

lemma obligation_fingerprints_simps:
  "obligation_fingerprints [] key = []"
  "obligation_fingerprints (obs @ obs') key = obligation_fingerprints obs key @ obligation_fingerprints obs' key"
  "obligation_fingerprints [report_obligation_new k r n w ks fs] key = (if k = key then fs else [])"
  "obligation_fingerprints (report_obligation_new k r n w ks fs # ob # obs) key =
     (if k = key then fs else []) @ obligation_fingerprints (ob # obs) key"
  by (simp_all add: obligation_fingerprints_def)

lemma obligation_fingerprints_report:
  fixes ts
  defines "f \<equiv> obligation_facts_from_tasks ts"
  shows "obligation_fingerprints (report_obligations_for_tasks ts) key =
    (if of_task_fingerprints f = [] then []
     else (if key = ''verification_plan_json'' then of_task_fingerprints f else []) @
       (if key = ''task_index_json'' then of_configured_fingerprints f else []) @
       (if key = ''performance_index_json'' then of_performance_fingerprints f else []) @
       (if key = ''stability_index_json'' then of_stability_fingerprints f else []) @
       (if key = ''stability_picture_json'' then of_stability_fingerprints f else []))"
proof -
  have "obligation_fingerprints (if fs \<noteq> [] then [report_obligation_new k r n w ks fs] else []) key = (if key = k then fs else [])"
    "obligation_fingerprints (if fs \<noteq> [] then [report_obligation_new k r n w ks fs, report_obligation_new k' r' n' w' ks' fs] else []) key =
      (if key = k then fs else []) @ (if key = k' then fs else [])" for k r n w ks k' r' n' w' ks' and fs
    by (auto simp: obligation_fingerprints_simps)
  then show ?thesis
    unfolding report_obligations_for_tasks_def Let_def f_def [symmetric]
    by (simp only: if_distrib [where f = "\<lambda>obs. obligation_fingerprints obs key"] obligation_fingerprints_simps if_True if_False
        eq_commute [of key] split: if_split)
qed

lemma obligation_fingerprints_for_tasks:
  fixes ts
  defines "active \<equiv> filter is_active ts" and "obs \<equiv> report_obligations_for_tasks ts"
  shows "obs = [] \<longleftrightarrow> active = []"
    "obligation_fingerprints obs ''verification_plan_json'' = map fingerprint active"
    "obligation_fingerprints obs ''task_index_json'' =
       map fingerprint (filter (\<lambda>t. task_skill_binding t \<noteq> None) active)"
    "obligation_fingerprints obs ''performance_index_json'' = map fingerprint (filter (\<lambda>t. kind t = Performance) active)"
    "obligation_fingerprints obs ''stability_index_json'' = map fingerprint (filter (\<lambda>t. kind t = Stability) active)"
    "obligation_fingerprints obs ''stability_picture_json'' = map fingerprint (filter (\<lambda>t. kind t = Stability) active)"
proof -
  have all: "active = [] \<longleftrightarrow> of_task_fingerprints (obligation_facts_from_tasks ts) = []"
    by (simp add: obligation_facts active_def)
  show "obs = [] \<longleftrightarrow> active = []" by (simp add: all obs_def report_obligations_for_tasks_def Let_def)
  note facts = obligation_facts(2-5) [of ts, folded active_def] obligation_facts(1) [of ts, folded active_def]
  show "obligation_fingerprints obs ''verification_plan_json'' = map fingerprint active"
    unfolding obs_def obligation_fingerprints_report by (simp add: facts)
  show "obligation_fingerprints obs ''task_index_json'' =
       map fingerprint (filter (\<lambda>t. task_skill_binding t \<noteq> None) active)"
    unfolding obs_def obligation_fingerprints_report by (simp add: facts)
  show "obligation_fingerprints obs ''performance_index_json'' = map fingerprint (filter (\<lambda>t. kind t = Performance) active)"
    unfolding obs_def obligation_fingerprints_report by (simp add: facts)
  show "obligation_fingerprints obs ''stability_index_json'' = map fingerprint (filter (\<lambda>t. kind t = Stability) active)"
    unfolding obs_def obligation_fingerprints_report by (simp add: facts)
  show "obligation_fingerprints obs ''stability_picture_json'' = map fingerprint (filter (\<lambda>t. kind t = Stability) active)"
    unfolding obs_def obligation_fingerprints_report by (simp add: facts)
qed

text \<open>
  C32: the report obligations of a plan follow from its active tasks alone. A plan asks for no report exactly
  when it is clear; otherwise the plan artifact names exactly the active tasks, the task index those with a
  configured skill, and the performance and stability artifacts those of their kind.
\<close>

theorem report_obligations_cover_active_tasks:
  "let plan = plan_rust_verification_from_analysis project_root p trees;
       named = (\<lambda>key. set (obligation_fingerprints (report_obligations plan) key));
       active = (\<lambda>P. fingerprint ` {t \<in> set (active_tasks plan). P t})
   in (report_obligations plan = [] \<longleftrightarrow> is_clear plan) \<and>
      named ''verification_plan_json'' = active (\<lambda>_. True) \<and>
      named ''task_index_json'' = active (\<lambda>t. task_skill_binding t \<noteq> None) \<and>
      named ''performance_index_json'' = active (\<lambda>t. kind t = Performance) \<and>
      named ''stability_index_json'' = active (\<lambda>t. kind t = Stability) \<and>
      named ''stability_picture_json'' = active (\<lambda>t. kind t = Stability)"
proof -
  let ?plan = "plan_rust_verification_from_analysis project_root p trees"
  let ?ts = "bmap_values (plan_collector project_root p trees [])"
  have obs: "report_obligations ?plan = report_obligations_for_tasks ?ts"
    by (simp add: plan_rust_verification_from_analysis_def Let_def collect_all_tasks_collector)
  have act: "set (active_tasks ?plan) = set (filter is_active ?ts)"
    by (simp only: active_tasks_def set_filter set_plan_tasks)
  have clear: "is_clear ?plan \<longleftrightarrow> filter is_active ?ts = []"
    unfolding is_clear_def using act by (metis set_empty)
  show ?thesis
    unfolding Let_def obs clear act obligation_fingerprints_for_tasks by auto
qed

end
