(* ===== verification/Plan_Resolution.thy ===== *)
theory Plan_Resolution
  imports Planner
begin

text \<open>
  How a plan changes when receipts are recorded. Two policies that differ in their receipts only lead the
  planner through the same obligations, so a run of the recorded tasks resolves the next plan.
\<close>

section \<open>Policies that differ in their receipts\<close>

lemma receipts_frame [simp]:
  "responsibility_task_kinds (p\<lparr>receipts := rs\<rparr>) = responsibility_task_kinds p"
  "task_contract_for_profile (p\<lparr>receipts := rs\<rparr>) = task_contract_for_profile p"
  "task_contract_for_api_path_baseline (p\<lparr>receipts := rs\<rparr>) = task_contract_for_api_path_baseline p"
  by (simp_all add: fun_eq_iff responsibility_task_kinds_def task_contract_for_profile_def
      task_contract_for_api_path_baseline_def task_contract_from_overrides_def cong: option.case_cong)

lemma receipts_task_kinds [simp]:
  "task_kinds_for_responsibilities r (p\<lparr>receipts := rs\<rparr>) = task_kinds_for_responsibilities r p"
  "task_kinds_for_profile h (p\<lparr>receipts := rs\<rparr>) = task_kinds_for_profile h p"
  "task_kinds_for_api_path_baseline b (p\<lparr>receipts := rs\<rparr>) = task_kinds_for_api_path_baseline b p"
  by (simp_all add: task_kinds_for_responsibilities_def task_kinds_for_profile_def
      task_kinds_for_api_path_baseline_def cong: option.case_cong)

definition built_with :: "policy \<Rightarrow> task set" where
  "built_with p = {t. \<exists>a b spec. t = new_skill_task a b spec p}"

definition same_obligations :: "policy \<Rightarrow> task_map \<Rightarrow> task_map \<Rightarrow> bool" where
  "same_obligations q ts ts' \<longleftrightarrow> map (\<lambda>(fp, t). (fp, fingerprint t, kind t)) ts = map (\<lambda>(fp, t). (fp, fingerprint t, kind t)) ts' \<and>
     snd ` set ts' \<subseteq> built_with q"

lemma same_obligations_keys: "same_obligations q ts ts' \<Longrightarrow> bmap_keys ts = bmap_keys ts'"
  unfolding same_obligations_def by (auto simp: comp_def split_def dest: arg_cong [of _ _ "map fst"])

lemma map_bmap_insert:
  "map (\<lambda>(k, v). (k, g v)) (bmap_insert k v m) = bmap_insert k (g v) (map (\<lambda>(k, v). (k, g v)) m)"
  by (induction k v m rule: bmap_insert.induct) auto

lemma set_bmap_insert_values: "snd ` set (bmap_insert k v m) \<subseteq> insert v (snd ` set m)"
  by (induction k v m rule: bmap_insert.induct) auto

lemma same_obligations_push_built:
  assumes sim: "same_obligations q ts ts'" and fp: "fingerprint t' = fingerprint t" and kind: "kind t' = kind t"
    and new: "t' \<in> built_with q" and disabled: "disabled_task_kinds q = disabled_task_kinds p"
  shows "same_obligations q (push_task p t ts) (push_task q t' ts')"
proof -
  have get: "bmap_get ts (fingerprint t) = None \<longleftrightarrow> bmap_get ts' (fingerprint t) = None"
    using same_obligations_keys [OF sim] by (metis map_of_eq_None_iff list.set_map)
  have "same_obligations q (bmap_insert (fingerprint t) t ts) (bmap_insert (fingerprint t) t' ts')"
    unfolding same_obligations_def map_bmap_insert [of "\<lambda>t. (fingerprint t, kind t)"] fp kind
    using sim new set_bmap_insert_values [of "fingerprint t" t' ts'] unfolding same_obligations_def by (intro conjI) (simp, blast)
  with sim show ?thesis by (simp add: push_task_def bmap_or_insert_def fp kind disabled get)
qed

lemma same_obligations_push:
  assumes "same_obligations (p\<lparr>receipts := rs\<rparr>) ts ts'"
  shows "same_obligations (p\<lparr>receipts := rs\<rparr>) (push_task p (new_skill_task a b spec p) ts)
    (push_task (p\<lparr>receipts := rs\<rparr>) (new_skill_task a b spec (p\<lparr>receipts := rs\<rparr>)) ts')"
proof (rule same_obligations_push_built [OF assms])
  show "fingerprint (new_skill_task a b spec (p\<lparr>receipts := rs\<rparr>)) = fingerprint (new_skill_task a b spec p)"
    by (rule new_skill_task_fingerprint_cong) simp_all
qed (auto simp: built_with_def)

lemma same_obligations_fold:
  assumes "\<And>x ts ts'. x \<in> set xs \<Longrightarrow> same_obligations q ts ts' \<Longrightarrow> same_obligations q (f x ts) (g x ts')" "same_obligations q ts ts'"
  shows "same_obligations q (fold f xs ts) (fold g xs ts')"
  using assms by (induction xs arbitrary: ts ts') auto

section \<open>The collectors\<close>

lemma review_same_obligations:
  assumes "same_obligations (p\<lparr>receipts := rs\<rparr>) ts ts'"
  shows "same_obligations (p\<lparr>receipts := rs\<rparr>) (collect_profile_conflict_task a b p m h ts)
      (collect_profile_conflict_task a b (p\<lparr>receipts := rs\<rparr>) m h ts')"
    "same_obligations (p\<lparr>receipts := rs\<rparr>) (profile_no_responsibilities_task a b p m h ts)
      (profile_no_responsibilities_task a b (p\<lparr>receipts := rs\<rparr>) m h ts')"
    "same_obligations (p\<lparr>receipts := rs\<rparr>) (profile_override_tasks a b p m h ts)
      (profile_override_tasks a b (p\<lparr>receipts := rs\<rparr>) m h ts')"
    "same_obligations (p\<lparr>receipts := rs\<rparr>) (profile_unused_contract_task a b p m h ts)
      (profile_unused_contract_task a b (p\<lparr>receipts := rs\<rparr>) m h ts')"
    "same_obligations (p\<lparr>receipts := rs\<rparr>) (api_no_responsibilities_task a b p m x ts)
      (api_no_responsibilities_task a b (p\<lparr>receipts := rs\<rparr>) m x ts')"
    "same_obligations (p\<lparr>receipts := rs\<rparr>) (api_override_tasks a b p m x ts)
      (api_override_tasks a b (p\<lparr>receipts := rs\<rparr>) m x ts')"
    "same_obligations (p\<lparr>receipts := rs\<rparr>) (api_unused_contract_task a b p m x ts)
      (api_unused_contract_task a b (p\<lparr>receipts := rs\<rparr>) m x ts')"
  using assms
  unfolding collect_profile_conflict_task_def profile_no_responsibilities_task_def profile_override_tasks_def
    profile_unused_contract_task_def push_profile_config_review_task_def Let_def new_profile_review_task_def
    api_no_responsibilities_task_def api_override_tasks_def api_unused_contract_task_def push_api_path_config_review_task_def
  by (auto intro!: same_obligations_push split: option.split)

lemma hint_same_obligations:
  assumes "same_obligations (p\<lparr>receipts := rs\<rparr>) ts ts'"
  shows "same_obligations (p\<lparr>receipts := rs\<rparr>)
     (collect_skill_tasks_from_profile a b p m h (collect_profile_config_review_tasks a b p m h
        (collect_profile_conflict_task a b p m h ts)))
     (collect_skill_tasks_from_profile a b (p\<lparr>receipts := rs\<rparr>) m h (collect_profile_config_review_tasks a b (p\<lparr>receipts := rs\<rparr>) m h
        (collect_profile_conflict_task a b (p\<lparr>receipts := rs\<rparr>) m h ts')))"
  unfolding collect_skill_tasks_from_profile_def receipts_task_kinds collect_profile_config_review_tasks_def profile_skill_task_def
  by (rule same_obligations_fold) (auto intro!: same_obligations_push review_same_obligations assms)

lemma baseline_same_obligations:
  assumes "same_obligations (p\<lparr>receipts := rs\<rparr>) ts ts'"
  shows "same_obligations (p\<lparr>receipts := rs\<rparr>)
     (collect_skill_tasks_from_api_path_baseline a b p m x (collect_api_path_config_review_tasks a b p m x ts))
     (collect_skill_tasks_from_api_path_baseline a b (p\<lparr>receipts := rs\<rparr>) m x
        (collect_api_path_config_review_tasks a b (p\<lparr>receipts := rs\<rparr>) m x ts'))"
  unfolding collect_skill_tasks_from_api_path_baseline_def receipts_task_kinds collect_api_path_config_review_tasks_def
    api_skill_task_def
  by (rule same_obligations_fold) (auto intro!: same_obligations_push review_same_obligations assms)

lemma matched_same_obligations:
  assumes "same_obligations q ts ts'"
    "\<And>x m ts ts'. same_obligations q ts ts' \<Longrightarrow> same_obligations q (f x m ts) (f' x m ts')"
  shows "same_obligations q (collect_matched g f xs ts) (collect_matched g f' xs ts')"
  unfolding collect_matched_def using assms by (intro same_obligations_fold) (auto split: option.split)

lemma package_same_obligations:
  assumes "same_obligations (p\<lparr>receipts := rs\<rparr>) ts ts'"
  shows "same_obligations (p\<lparr>receipts := rs\<rparr>) (package_collector a p tree ts) (package_collector a (p\<lparr>receipts := rs\<rparr>) tree ts')"
proof -
  have regression: "same_obligations (p\<lparr>receipts := rs\<rparr>) (collect_regression_tasks a b brs p us)
      (collect_regression_tasks a b brs (p\<lparr>receipts := rs\<rparr>) us')" if "same_obligations (p\<lparr>receipts := rs\<rparr>) us us'" for b brs us us'
    unfolding collect_regression_tasks_def regression_task_def receipts_frame
    by (rule same_obligations_fold [OF _ that]) (auto intro!: same_obligations_push)
  show ?thesis
    unfolding package_collector_def Let_def collect_profile_tasks_split collect_api_path_baseline_tasks_split snd_conv
    by (intro regression) (simp add: matched_same_obligations hint_same_obligations baseline_same_obligations assms)
qed

lemma fold_enumerate_snd: "fold (\<lambda>(i, x). f x) (enumerate n xs) ts = fold f xs ts"
  by (induction xs arbitrary: n ts) simp_all

lemma fold_unmatched:
  "fold (\<lambda>(i, x) ts. if i \<in> {i. i < length xs \<and> P (xs ! i)} then ts else f x ts) (enumerate 0 xs) ts =
     fold (\<lambda>x ts. if P x then ts else f x ts) xs ts"
proof -
  have "fold (\<lambda>(i, x) ts. if i \<in> {i. i < length xs \<and> P (xs ! i)} then ts else f x ts) (enumerate 0 xs) ts =
    fold (\<lambda>(i, x) ts. if P x then ts else f x ts) (enumerate 0 xs) ts"
    by (intro fold_cong refl) (auto simp: in_set_enumerate_eq)
  then show ?thesis by (simp only: fold_enumerate_snd)
qed

lemma plan_collector_split:
  "plan_collector a p trees ts =
     fold (\<lambda>b ts. if hint_matched a trees (api_owner_path b) then ts else push_task p (unmatched_baseline_task a p b) ts) (api_path_baselines p)
       (fold (\<lambda>h ts. if hint_matched a trees (hint_owner_path h) then ts else push_task p (unmatched_hint_task a p h) ts) (profile_hints p)
         (fold (package_collector a p) trees ts))"
proof -
  let ?c = "fold (collect_package_verification_tasks a p) trees
    \<lparr>matched_profile_hints = [], matched_api_path_baselines = [], collected_tasks = ts\<rparr>"
  have "set (matched_profile_hints ?c) = {i. i < length (profile_hints p) \<and> hint_matched a trees (hint_owner_path (profile_hints p ! i))}"
    "set (matched_api_path_baselines ?c) =
      {i. i < length (api_path_baselines p) \<and> hint_matched a trees (api_owner_path (api_path_baselines p ! i))}"
    "collected_tasks ?c = fold (package_collector a p) trees ts"
    by (simp_all add: fold_collect_package)
  then show ?thesis
    unfolding plan_collector_def Let_def collect_unmatched_api_path_baselines_def collect_unmatched_profile_hints_def
    by (simp only: fold_unmatched [where P = "\<lambda>h. hint_matched a trees (hint_owner_path h)"]
        fold_unmatched [where P = "\<lambda>b. hint_matched a trees (api_owner_path b)"])
qed

lemma plan_same_obligations:
  "same_obligations (p\<lparr>receipts := rs\<rparr>) (plan_collector a p trees []) (plan_collector a (p\<lparr>receipts := rs\<rparr>) trees [])"
proof -
  have unmatched: "same_obligations (p\<lparr>receipts := rs\<rparr>) (push_task p (unmatched_hint_task a p h) us)
      (push_task (p\<lparr>receipts := rs\<rparr>) (unmatched_hint_task a (p\<lparr>receipts := rs\<rparr>) h) us')"
    "same_obligations (p\<lparr>receipts := rs\<rparr>) (push_task p (unmatched_baseline_task a p b) us)
      (push_task (p\<lparr>receipts := rs\<rparr>) (unmatched_baseline_task a (p\<lparr>receipts := rs\<rparr>) b) us')"
    if "same_obligations (p\<lparr>receipts := rs\<rparr>) us us'" for h b us us'
    using that by (simp_all add: unmatched_hint_task_def unmatched_baseline_task_def new_profile_review_task_def same_obligations_push)
  have "same_obligations (p\<lparr>receipts := rs\<rparr>) [] []" by (simp add: same_obligations_def)
  then show ?thesis
    unfolding plan_collector_split
    by (simp add: same_obligations_fold package_same_obligations unmatched)
qed

section \<open>Recording a run\<close>

definition record_passed_run :: "plan \<Rightarrow> policy \<Rightarrow> policy" where
  "record_passed_run pl p = fold (\<lambda>t. with_receipt (receipt_passed (fingerprint t) (kind t))) (active_tasks pl) p"

lemma record_passed_run_receipts:
  "record_passed_run pl p = p\<lparr>receipts := receipts p @ map (\<lambda>t. receipt_passed (fingerprint t) (kind t)) (active_tasks pl)\<rparr>"
proof -
  have "fold (\<lambda>t. with_receipt (receipt_passed (fingerprint t) (kind t))) ts p =
      p\<lparr>receipts := receipts p @ map (\<lambda>t. receipt_passed (fingerprint t) (kind t)) ts\<rparr>" for ts
    by (induction ts arbitrary: p) (simp_all add: with_receipt_def)
  then show ?thesis by (simp add: record_passed_run_def)
qed

lemma same_obligations_member:
  assumes "same_obligations q ts ts'" "(fp, t') \<in> set ts'"
  obtains t where "(fp, t) \<in> set ts" "fingerprint t = fingerprint t'" "kind t = kind t'"
proof -
  have "(fp, fingerprint t', kind t') \<in> set (map (\<lambda>(fp, t). (fp, fingerprint t, kind t)) ts)"
    using assms unfolding same_obligations_def by force
  then show ?thesis using that by auto
qed

lemma built_inactive:
  "t \<in> built_with q \<Longrightarrow> \<not> is_active t \<longleftrightarrow> has_receipt q (fingerprint t) (kind t) ReceiptPassed \<or> has_complete_waiver q (fingerprint t)"
  by (auto simp: built_with_def is_active_def new_skill_task_state Let_def state_is_active_def split: if_splits)

lemma plan_tasks_built: "t \<in> set (tasks (plan_rust_verification_from_analysis a p trees)) \<Longrightarrow> t \<in> built_with p"
  using plan_same_obligations [where p = p and rs = "receipts p" and a = a and trees = trees] by (auto simp: same_obligations_def set_plan_tasks)

lemma plan_obligations_kept:
  assumes "t' \<in> set (tasks (plan_rust_verification_from_analysis a (p\<lparr>receipts := rs\<rparr>) trees))"
  shows "\<exists>t \<in> set (tasks (plan_rust_verification_from_analysis a p trees)). fingerprint t = fingerprint t' \<and> kind t = kind t'"
  using assms plan_same_obligations [where p = p and rs = rs and a = a and trees = trees] unfolding set_plan_tasks set_map
  by (force elim: same_obligations_member)

lemma plan_fingerprints_kept:
  "fingerprint ` set (tasks (plan_rust_verification_from_analysis a (p\<lparr>receipts := rs\<rparr>) trees)) =
   fingerprint ` set (tasks (plan_rust_verification_from_analysis a p trees))"
proof -
  let ?f = "\<lambda>(fp, t). (fp, fingerprint t, kind t)"
  have "map (\<lambda>x. fst (snd x)) (map ?f (plan_collector a p trees [])) =
      map (\<lambda>x. fst (snd x)) (map ?f (plan_collector a (p\<lparr>receipts := rs\<rparr>) trees []))"
    using plan_same_obligations [where p = p and rs = rs and a = a and trees = trees] unfolding same_obligations_def by simp
  then have "map (fingerprint \<circ> snd) (plan_collector a p trees []) = map (fingerprint \<circ> snd) (plan_collector a (p\<lparr>receipts := rs\<rparr>) trees [])"
    by (simp only: map_map comp_def split_def fst_conv snd_conv)
  then show ?thesis unfolding set_plan_tasks by (metis list.set_map list.map_comp)
qed

text \<open>
  C33: a plan can be worked off. When a passed receipt is recorded for each active task of a plan, with the task's
  fingerprint and kind, planning the same packages again gives a plan for the same obligations that is clear and asks
  for no report.
\<close>

theorem passed_run_clears_plan:
  "let plan = plan_rust_verification_from_analysis project_root p trees;
       replan = plan_rust_verification_from_analysis project_root (record_passed_run plan p) trees
   in fingerprint ` set (tasks replan) = fingerprint ` set (tasks plan) \<and> is_clear replan \<and> report_obligations replan = []"
proof -
  let ?plan = "plan_rust_verification_from_analysis project_root p trees"
  define q where "q = record_passed_run ?plan p"
  let ?next = "plan_rust_verification_from_analysis project_root q trees"
  have q: "q = p\<lparr>receipts := receipts p @ map (\<lambda>t. receipt_passed (fingerprint t) (kind t)) (active_tasks ?plan)\<rparr>"
    by (simp add: q_def record_passed_run_receipts)
  have same: "fingerprint ` set (tasks ?next) = fingerprint ` set (tasks ?plan)"
    unfolding q by (rule plan_fingerprints_kept)
  have "\<not> is_active t'" if t': "t' \<in> set (tasks ?next)" for t'
  proof -
    obtain t where t: "t \<in> set (tasks ?plan)" "fingerprint t = fingerprint t'" "kind t = kind t'"
      using plan_obligations_kept [where t' = t' and a = project_root and p = p and trees = trees] t' unfolding q by blast
    have "has_receipt q (fingerprint t') (kind t') ReceiptPassed \<or> has_complete_waiver q (fingerprint t')"
    proof (cases "is_active t")
      case True
      with t have "receipt_passed (fingerprint t') (kind t') \<in> set (receipts q)"
        by (auto simp: q active_tasks_def image_iff intro!: bexI [of _ t])
      moreover have "receipt_task_fingerprint (receipt_passed fp k) = fp" "receipt_kind (receipt_passed fp k) = k"
        "receipt_status_of (receipt_passed fp k) = ReceiptPassed" for fp k by (simp_all add: receipt_passed_def)
      ultimately show ?thesis unfolding has_receipt_def by blast
    next
      case False
      with plan_tasks_built [OF t(1)] t(2,3) show ?thesis
        by (auto simp: built_inactive has_receipt_def has_complete_waiver_def q)
    qed
    with plan_tasks_built [OF t'] show ?thesis by (simp add: built_inactive)
  qed
  then have clear: "is_clear ?next" by (auto simp: is_clear_def active_tasks_def filter_empty_conv)
  moreover have "report_obligations ?next = []"
    using clear obligation_fingerprints_for_tasks(1) set_plan_tasks [of project_root q trees]
    by (simp add: is_clear_def active_tasks_def plan_rust_verification_from_analysis_def Let_def collect_all_tasks_collector
        filter_empty_conv set_plan_tasks)
  ultimately show ?thesis using same by (simp add: Let_def q_def)
qed

end
