(* ===== verification/Structural_Selector.thy ===== *)
theory Structural_Selector
  imports Prelude
begin

text \<open>
  Canonical item identities (\<open>src/content_identity.rs\<close>) and their percent-encoded selectors
  (\<open>src/structural_selector.rs\<close>). The text newtypes of the identity are strings here.
\<close>

section \<open>Identities\<close>

record canonical_item_scope =
  scope_relation :: string
  scope_kind :: string
  scope_symbol :: string

record canonical_item_identity =
  identity_language_id :: string
  identity_kind :: string
  identity_symbol :: string
  identity_scopes :: "canonical_item_scope list"

definition scope_new :: "string \<Rightarrow> string \<Rightarrow> string \<Rightarrow> canonical_item_scope" where
  "scope_new relation k symbol = \<lparr>scope_relation = relation, scope_kind = k, scope_symbol = symbol\<rparr>"

definition identity_new :: "string \<Rightarrow> string \<Rightarrow> string \<Rightarrow> canonical_item_identity" where
  "identity_new language_id k symbol =
     \<lparr>identity_language_id = language_id, identity_kind = k, identity_symbol = symbol, identity_scopes = []\<rparr>"

definition with_scope :: "string \<Rightarrow> string \<Rightarrow> string \<Rightarrow> canonical_item_identity \<Rightarrow> canonical_item_identity" where
  "with_scope relation k symbol identity =
     identity\<lparr>identity_scopes := identity_scopes identity @ [scope_new relation k symbol]\<rparr>"

fun validate_fields :: "string \<Rightarrow> (string \<times> string) list \<Rightarrow> unit result" where
  "validate_fields what [] = Ok ()"
| "validate_fields what ((field, val) # pairs) =
     (if trim val = [] then Err (''canonical item identity '' @ what @ field @ '' must not be empty'')
      else validate_fields what pairs)"

fun validate_scopes :: "canonical_item_scope list \<Rightarrow> unit result" where
  "validate_scopes [] = Ok ()"
| "validate_scopes (scope # scopes) =
     and_then (validate_fields ''scope ''
       [(''relation'', scope_relation scope), (''kind'', scope_kind scope), (''symbol'', scope_symbol scope)])
       (\<lambda>_. validate_scopes scopes)"

definition validate_identity :: "canonical_item_identity \<Rightarrow> unit result" where
  "validate_identity identity =
     and_then (validate_fields []
       [(''languageId'', identity_language_id identity), (''kind'', identity_kind identity),
        (''symbol'', identity_symbol identity)])
       (\<lambda>_. validate_scopes (identity_scopes identity))"

record canonical_item_selector =
  selector_schema_id :: string
  selector_schema_version :: string
  selector_language_id :: string
  selector_kind :: string
  selector_symbol :: string
  selector_scopes :: "canonical_item_scope list"
  structural_selector :: string

definition selector_new :: "canonical_item_identity \<Rightarrow> string \<Rightarrow> canonical_item_selector" where
  "selector_new identity text =
     \<lparr>selector_schema_id = ''asp.canonical-item-selector.v1'', selector_schema_version = ''1'',
      selector_language_id = identity_language_id identity, selector_kind = identity_kind identity,
      selector_symbol = identity_symbol identity, selector_scopes = identity_scopes identity,
      structural_selector = text\<rparr>"

definition identity_of_selector :: "canonical_item_selector \<Rightarrow> canonical_item_identity" where
  "identity_of_selector s =
     \<lparr>identity_language_id = selector_language_id s, identity_kind = selector_kind s,
      identity_symbol = selector_symbol s, identity_scopes = selector_scopes s\<rparr>"

section \<open>Percent encoding\<close>

definition unreserved :: "char \<Rightarrow> bool" where
  "unreserved b \<longleftrightarrow> (48 \<le> byte b \<and> byte b \<le> 57) \<or> (65 \<le> byte b \<and> byte b \<le> 90) \<or> (97 \<le> byte b \<and> byte b \<le> 122)
     \<or> b \<in> {CHR ''-'', CHR ''.'', CHR ''_'', CHR ''~''}"

definition encode_byte :: "char \<Rightarrow> string" where
  "encode_byte b = (if unreserved b then [b]
     else [CHR ''%'', hex_digit_upper (byte b div 16), hex_digit_upper (byte b mod 16)])"

definition encode_component :: "string \<Rightarrow> string" where
  "encode_component component = concat (map encode_byte component)"

definition encode_scope :: "canonical_item_scope \<Rightarrow> string" where
  "encode_scope scope = ''/scope/'' @ encode_component (scope_relation scope) @ ''/''
     @ encode_component (scope_kind scope) @ ''/'' @ encode_component (scope_symbol scope)"

definition encode_canonical_item_identity_path :: "canonical_item_identity \<Rightarrow> string" where
  "encode_canonical_item_identity_path identity =
     ''item/'' @ encode_component (identity_kind identity) @ ''/'' @ encode_component (identity_symbol identity)
       @ concat (map encode_scope (identity_scopes identity))"

definition decode_hex :: "char \<Rightarrow> nat option" where
  "decode_hex b =
     (if 48 \<le> byte b \<and> byte b \<le> 57 then Some (byte b - 48)
      else if 97 \<le> byte b \<and> byte b \<le> 102 then Some (byte b - 97 + 10)
      else if 65 \<le> byte b \<and> byte b \<le> 70 then Some (byte b - 65 + 10) else None)"

definition percent_error :: "string \<Rightarrow> string" where
  "percent_error component = ''invalid percent escape in selector component: '' @ component"

fun decode_bytes :: "string \<Rightarrow> string \<Rightarrow> string result" where
  "decode_bytes component [] = Ok []"
| "decode_bytes component (b # bytes) =
     (if b \<noteq> CHR ''%'' then map_ok (Cons b) (decode_bytes component bytes)
      else case bytes of
        high # low # rest \<Rightarrow>
          (case (decode_hex high, decode_hex low) of
             (Some h, Some l) \<Rightarrow> map_ok (Cons (char_of (h * 16 + l))) (decode_bytes component rest)
           | _ \<Rightarrow> Err (percent_error component))
      | _ \<Rightarrow> Err (percent_error component))"

definition decode_component :: "string \<Rightarrow> string result" where
  "decode_component component =
     and_then (decode_bytes component component) (\<lambda>decoded.
       if utf8_valid decoded then Ok decoded
       else Err (''selector component is not valid UTF-8: '' @ component))"

section \<open>Parsing\<close>

definition next_component :: "string \<Rightarrow> string list \<Rightarrow> (string \<times> string list) result" where
  "next_component missing components =
     (case components of
        [] \<Rightarrow> Err missing
      | c # rest \<Rightarrow> map_ok (\<lambda>decoded. (decoded, rest)) (decode_component c))"

lemma next_component_shrinks: "next_component e cs = Inr (c, rest) \<Longrightarrow> length rest < length cs"
  by (auto simp: next_component_def map_ok_Inr_iff split: list.splits)

function parse_scopes :: "string list \<Rightarrow> canonical_item_identity \<Rightarrow> canonical_item_identity result" where
  "parse_scopes [] identity = Ok identity"
| "parse_scopes (marker # components) identity =
     (if marker \<noteq> ''scope'' then
        Err (''canonical item selector contains an unexpected identity component: '' @ marker)
      else case next_component ''canonical item selector scope is missing its relation'' components of
        Inl e \<Rightarrow> Err e
      | Inr (relation, components) \<Rightarrow>
         (case next_component ''canonical item selector scope is missing its kind'' components of
            Inl e \<Rightarrow> Err e
          | Inr (k, components) \<Rightarrow>
             (case next_component ''canonical item selector scope is missing its symbol'' components of
                Inl e \<Rightarrow> Err e
              | Inr (symbol, components) \<Rightarrow> parse_scopes components (with_scope relation k symbol identity))))"
  by pat_completeness auto
termination
  by (relation "measure (\<lambda>(cs, _). length cs)") (auto dest!: next_component_shrinks)

definition parse_identity_path :: "string \<Rightarrow> string \<Rightarrow> canonical_item_identity result" where
  "parse_identity_path language_id identity_path =
     and_then (next_component ''canonical item selector is missing the item kind'' (split_on CHR ''/'' identity_path))
       (\<lambda>(k, components).
     and_then (next_component ''canonical item selector is missing the item symbol'' components)
       (\<lambda>(symbol, components).
     if language_id = [] \<or> k = [] \<or> symbol = [] then
       Err ''canonical item selector contains an empty identity component''
     else and_then (parse_scopes components (identity_new language_id k symbol))
       (\<lambda>identity. map_ok (\<lambda>_. identity) (validate_identity identity))))"

definition parse_canonical_item_selector :: "string \<Rightarrow> canonical_item_selector result" where
  "parse_canonical_item_selector selector =
     and_then (ok_or ''canonical item selector is missing the language scheme'' (split_once ''://'' selector))
       (\<lambda>(language_id, locator).
     and_then (ok_or ''canonical item selector is missing the item identity fragment'' (rsplit_once ''#item/'' locator))
       (\<lambda>(_, identity_path).
     map_ok (\<lambda>identity. selector_new identity selector) (parse_identity_path language_id identity_path)))"

section \<open>Round trips\<close>

lemma decode_hex_digit: "d < 16 \<Longrightarrow> decode_hex (hex_digit_upper d) = Some d"
  by (auto simp: decode_hex_def hex_digit_upper_def)

lemma decode_encode_byte: "decode_bytes c (encode_byte b @ bytes) = map_ok (Cons b) (decode_bytes c bytes)"
proof (cases "unreserved b")
  case True
  then have "b \<noteq> CHR ''%''" by (auto simp: unreserved_def)
  with True show ?thesis by (simp add: encode_byte_def)
next
  case False
  have "byte b < 256" by simp
  then have "byte b div 16 < 16" by linarith
  then show ?thesis
    using False by (simp add: encode_byte_def decode_hex_digit)
qed

lemma decode_encode_bytes: "decode_bytes c (encode_component s) = Ok s"
  by (induction s) (simp_all add: encode_component_def decode_encode_byte)

lemma decode_encode_component: "utf8_valid s \<Longrightarrow> decode_component (encode_component s) = Ok s"
  by (simp add: decode_component_def decode_encode_bytes)

lemma encode_component_chars:
  assumes "c \<in> set (encode_component s)"
  shows "unreserved c \<or> c = CHR ''%''"
proof -
  have digit: "unreserved (hex_digit_upper d)" if "d < 16" for d
    using that by (auto simp: hex_digit_upper_def unreserved_def)
  from assms obtain b where "b \<in> set s" "c \<in> set (encode_byte b)" by (auto simp: encode_component_def)
  moreover have "byte b < 256" by simp
  moreover from this have "byte b div 16 < 16" "byte b mod 16 < 16" by linarith+
  ultimately show ?thesis using digit by (auto simp: encode_byte_def split: if_splits)
qed

lemma encode_component_no_separator: "CHR ''/'' \<notin> set (encode_component s)" "CHR ''#'' \<notin> set (encode_component s)"
  using encode_component_chars by (force simp: unreserved_def)+

definition path_components :: "canonical_item_identity \<Rightarrow> string list" where
  "path_components identity = encode_component (identity_kind identity) # encode_component (identity_symbol identity)
     # concat (map (\<lambda>scope. [''scope'', encode_component (scope_relation scope), encode_component (scope_kind scope),
         encode_component (scope_symbol scope)]) (identity_scopes identity))"

lemma join_with_Cons: "ys \<noteq> [] \<Longrightarrow> join_with sep (x # ys) = x @ sep @ join_with sep ys"
  by (cases ys) auto

lemma join_with_append_concat:
  "xs \<noteq> [] \<Longrightarrow> join_with sep (xs @ ys) = join_with sep xs @ concat (map (\<lambda>y. sep @ y) ys)"
proof (induction xs)
  case (Cons x xs)
  show ?case
  proof (cases xs)
    case Nil
    have "join_with sep (x # ys) = x @ concat (map (\<lambda>y. sep @ y) ys)"
      by (induction ys arbitrary: x) (simp, metis append_assoc concat.simps(2) join_with_Cons list.simps(3) list.simps(9))
    with Nil show ?thesis by simp
  qed (use Cons in \<open>simp add: join_with_Cons\<close>)
qed simp

lemma encoded_path_components:
  "encode_canonical_item_identity_path identity = ''item/'' @ join_with ''/'' (path_components identity)"
proof -
  have "concat (map encode_scope scopes) = concat (map (\<lambda>y. ''/'' @ y)
    (concat (map (\<lambda>scope. [''scope'', encode_component (scope_relation scope), encode_component (scope_kind scope),
         encode_component (scope_symbol scope)]) scopes)))" for scopes
    by (induction scopes) (simp_all add: encode_scope_def)
  then show ?thesis
    using join_with_append_concat [of "[encode_component (identity_kind identity), encode_component (identity_symbol identity)]" "''/''"]
    by (simp add: encode_canonical_item_identity_path_def path_components_def)
qed

lemma path_components_no_separator:
  "c \<in> set (path_components identity) \<Longrightarrow> CHR ''/'' \<notin> set c \<and> CHR ''#'' \<notin> set c"
  by (auto simp: path_components_def encode_component_no_separator split: if_splits)

definition utf8_identity :: "canonical_item_identity \<Rightarrow> bool" where
  "utf8_identity identity \<longleftrightarrow> utf8_valid (identity_kind identity) \<and> utf8_valid (identity_symbol identity) \<and>
     list_all (\<lambda>scope. utf8_valid (scope_relation scope) \<and> utf8_valid (scope_kind scope) \<and> utf8_valid (scope_symbol scope))
       (identity_scopes identity)"

lemma next_component_encoded: "utf8_valid s \<Longrightarrow> next_component e (encode_component s # cs) = Inr (s, cs)"
  by (simp add: next_component_def decode_encode_component)

lemma parse_scopes_encoded:
  "list_all (\<lambda>scope. utf8_valid (scope_relation scope) \<and> utf8_valid (scope_kind scope) \<and> utf8_valid (scope_symbol scope)) scopes \<Longrightarrow>
   parse_scopes (concat (map (\<lambda>scope. [''scope'', encode_component (scope_relation scope), encode_component (scope_kind scope),
         encode_component (scope_symbol scope)]) scopes)) identity =
     Ok (identity\<lparr>identity_scopes := identity_scopes identity @ scopes\<rparr>)"
  by (induction scopes arbitrary: identity) (simp_all add: next_component_encoded with_scope_def scope_new_def)

lemma parse_identity_path_encoded:
  assumes "utf8_identity identity" "validate_identity identity = Ok ()"
  shows "parse_identity_path (identity_language_id identity) (join_with ''/'' (path_components identity)) = Ok identity"
proof -
  have split: "split_on CHR ''/'' (join_with ''/'' (path_components identity)) = path_components identity"
    using path_components_no_separator by (intro split_join) (auto simp: path_components_def)
  have scopes: "parse_scopes (tl (tl (path_components identity)))
      (identity_new (identity_language_id identity) (identity_kind identity) (identity_symbol identity)) = Ok identity"
    using assms(1) by (simp add: path_components_def parse_scopes_encoded utf8_identity_def identity_new_def)
  have "trim [] = []" by (simp add: trim_def trim_start_def trim_end_def strip_all.simps white_space_def starts_with_def)
  with assms(2) have "identity_language_id identity \<noteq> []" "identity_kind identity \<noteq> []" "identity_symbol identity \<noteq> []"
    by (auto simp: validate_identity_def and_then_Inr_iff split: if_splits)
  with scopes assms show ?thesis
    unfolding parse_identity_path_def split
    by (simp add: path_components_def utf8_identity_def next_component_encoded)
qed

lemma find_sub_fresh_head:
  "c \<notin> set a \<Longrightarrow> find_sub (c # m) (a @ (c # m) @ b) = Some (length a)"
  by (induction a) (auto simp: prefix_def)

lemma find_sub_fresh_last:
  assumes "c \<notin> set a" "c \<notin> set m"
  shows "find_sub (m @ [c]) (a @ (m @ [c]) @ b) = Some (length a)"
proof -
  let ?s = "a @ (m @ [c]) @ b"
  obtain i where i: "find_sub (m @ [c]) ?s = Some i" "i \<le> length a" using find_sub_leftmost by blast
  from find_sub_Some [OF i(1)] obtain a' b' where "?s = a' @ (m @ [c]) @ b'" "length a' = i" by blast
  then have c: "?s ! (i + length m) = c" by (metis append.assoc append_Cons length_append nth_append_length)
  have "\<not> i < length a"
  proof
    assume "i < length a"
    then have "i + length m < length (a @ m)" by simp
    with c have "c \<in> set (a @ m)" by (metis append.assoc nth_append nth_mem)
    with assms show False by simp
  qed
  with i show ?thesis by simp
qed

lemma split_once_fresh:
  "c \<notin> set a \<Longrightarrow> split_once (c # m) (a @ (c # m) @ b) = Some (a, b)"
  unfolding split_once_def find_sub_fresh_head by simp

lemma rsplit_once_fresh:
  assumes "c \<notin> set b" "c \<notin> set m"
  shows "rsplit_once (c # m) (a @ (c # m) @ b) = Some (a, b)"
proof -
  have "find_sub (rev m @ [c]) (rev b @ (rev m @ [c]) @ rev a) = Some (length (rev b))"
    using assms by (intro find_sub_fresh_last) auto
  then show ?thesis by (simp add: rsplit_once_def)
qed

lemma join_with_no_separator:
  "c \<notin> set sep \<Longrightarrow> (\<And>x. x \<in> set xs \<Longrightarrow> c \<notin> set x) \<Longrightarrow> c \<notin> set (join_with sep xs)"
  by (induction sep xs rule: join_with.induct) auto

text \<open>
  C38: a canonical item selector carries its identity through any owner path. For a valid identity in UTF-8 whose language
  has no colon, parsing \<open>language://owner#path\<close> with the encoded identity path gives the selector of exactly that
  identity, whatever the owner text contains.
\<close>

theorem canonical_selector_round_trip:
  assumes valid: "validate_identity identity = Ok ()" and utf8: "utf8_identity identity"
    and scheme: "CHR '':'' \<notin> set (identity_language_id identity)"
    and sel: "sel = identity_language_id identity @ ''://'' @ owner @ ''#'' @ encode_canonical_item_identity_path identity"
  shows "parse_canonical_item_selector sel = Ok (selector_new identity sel) \<and>
    identity_of_selector (selector_new identity sel) = identity"
proof -
  let ?path = "join_with ''/'' (path_components identity)"
  have "CHR ''#'' \<notin> set ?path" by (rule join_with_no_separator) (auto dest: path_components_no_separator)
  then have locator: "rsplit_once ''#item/'' (owner @ ''#item/'' @ ?path) = Some (owner, ?path)"
    by (intro rsplit_once_fresh) auto
  have sel': "sel = identity_language_id identity @ ''://'' @ owner @ ''#item/'' @ ?path"
    by (simp add: sel encoded_path_components)
  have "split_once ''://'' sel = Some (identity_language_id identity, owner @ ''#item/'' @ ?path)"
    unfolding sel' by (rule split_once_fresh [OF scheme])
  with locator parse_identity_path_encoded [OF utf8 valid] show ?thesis
    by (simp add: parse_canonical_item_selector_def identity_of_selector_def selector_new_def)
qed

theorem canonical_selector_round_trip_witness:
  "parse_canonical_item_selector ''rust://src/a#item/x.rs#item/function/run/scope/impl/type/Vec%3CT%3E'' =
     Ok (selector_new (with_scope ''impl'' ''type'' ''Vec<T>'' (identity_new ''rust'' ''function'' ''run''))
       ''rust://src/a#item/x.rs#item/function/run/scope/impl/type/Vec%3CT%3E'')"
  by (rule canonical_selector_round_trip [where owner = "''src/a#item/x.rs''", THEN conjunct1]; code_simp)

end
