(* ===== verification/Use_Tree.thy ===== *)
theory Use_Tree
  imports Reasoning_Facts
begin

text \<open>
  The facts about \<open>use\<close> items: \<open>src/parser/use_tree.rs\<close>. The syntax tree of a \<open>use\<close> item is an input; its
  shape (a path, a name, a renamed name, a glob or a group) is that of the parser's \<open>UseTree\<close>.

  The collector walks the tree with one mutable prefix that is pushed and popped around every path
  segment. Its equivalence with the plain expansion of a \<open>use\<close> tree into import paths is the property of
  this theory: the prefix is restored on every branch, and no import is lost, duplicated or reordered.
\<close>

section \<open>The syntax of use items\<close>

datatype use_tree =
    UsePath string use_tree
  | UseName string
  | UseRename string string
  | UseGlob
  | UseGroup "use_tree list"

datatype syn_visibility = VisInherited | VisPublic | VisRestricted "string list"

record item_use =
  item_use_line :: nat
  item_use_vis :: syn_visibility
  item_use_leading_colon :: bool
  item_use_tree :: use_tree

section \<open>Facts\<close>

datatype use_glob_scope_kind = GlobAbsolute | GlobCrateOwner | GlobSelfScope | GlobParentScope | GlobExternal | GlobUnknown

record use_statement_context =
  enclosing_modules :: "string list"
  is_top_level :: bool
  is_inside_inline_module :: bool
  is_inside_cfg_test_module :: bool

record use_import =
  imp_segments :: "string list"
  imp_exposed_name :: "string option"
  imp_is_absolute :: bool
  imp_root_kind :: import_root_kind
  imp_parent_hops :: nat
  imp_is_glob :: bool
  imp_is_prelude_import :: bool

record use_reexport =
  reexport_line :: nat
  reexport_source_segments :: "string list"
  reexport_exposed_name :: string
  reexport_visibility :: use_visibility

record use_deep_relative_import =
  udri_line :: nat
  udri_prefix_segments :: "string list"
  udri_parent_hops :: nat
  udri_visibility :: use_visibility
  udri_is_reexport :: bool

record use_glob_import =
  glob_prefix_segments :: "string list"
  glob_is_absolute :: bool
  glob_scope_kind_of :: use_glob_scope_kind
  is_direct_parent_scope_glob :: bool
  is_parent_relative_glob :: bool
  is_prelude_glob :: bool

record use_statement =
  use_line :: nat
  use_vis :: use_visibility
  use_context :: use_statement_context
  use_imports :: "use_import list"
  use_reexports :: "use_reexport list"
  use_deep_relative_imports :: "use_deep_relative_import list"
  contains_glob_import :: bool
  use_glob_imports :: "use_glob_import list"

definition from_enclosing_modules :: "string list \<Rightarrow> bool \<Rightarrow> use_statement_context" where
  "from_enclosing_modules mods in_cfg_test = \<lparr>enclosing_modules = mods, is_top_level = (mods = []),
     is_inside_inline_module = (mods \<noteq> []), is_inside_cfg_test_module = in_cfg_test\<rparr>"

definition rendered_glob_path :: "use_glob_import \<Rightarrow> string" where
  "rendered_glob_path g =
     (let absolute_prefix = (if glob_is_absolute g then ''::'' else '''') in
      if glob_prefix_segments g = [] then absolute_prefix @ ''*''
      else absolute_prefix @ join_with ''::'' (glob_prefix_segments g) @ ''::*'')"

definition vis_is_reexport :: "use_visibility \<Rightarrow> bool" where
  "vis_is_reexport v \<longleftrightarrow> v \<noteq> UsePrivate"

definition import_root_kind_of :: "bool \<Rightarrow> string list \<Rightarrow> import_root_kind" where
  "import_root_kind_of absolute segments =
     (if absolute then RootAbsolute
      else (case segments of
          [] \<Rightarrow> RootUnknown
        | first # _ \<Rightarrow>
            if first = ''crate'' then RootCrate
            else if first = ''self'' then RootSelfScope
            else if first = ''super'' then RootParent
            else RootExternal))"

definition parent_hops :: "string list \<Rightarrow> nat" where
  "parent_hops segments = length (takeWhile (\<lambda>segment. segment = ''super'') segments)"

definition import_syntax :: "string list \<Rightarrow> string option \<Rightarrow> bool \<Rightarrow> bool \<Rightarrow> use_import" where
  "import_syntax segments exposed absolute glob = \<lparr>imp_segments = segments, imp_exposed_name = exposed,
     imp_is_absolute = absolute, imp_root_kind = import_root_kind_of absolute segments,
     imp_parent_hops = parent_hops segments, imp_is_glob = glob,
     imp_is_prelude_import = list_ex (\<lambda>segment. segment = ''prelude'') segments\<rparr>"

definition push_named_import ::
  "string list \<Rightarrow> string \<Rightarrow> string \<Rightarrow> bool \<Rightarrow> use_import list \<Rightarrow> use_import list" where
  "push_named_import pre ident exposed absolute imports =
     imports @ [import_syntax (pre @ [ident]) (Some exposed) absolute False]"

text \<open>The two mutable vectors of the collector, the path prefix and the imports, are passed and returned.\<close>

fun collect_use_tree_imports ::
  "use_tree \<Rightarrow> bool \<Rightarrow> string list \<times> use_import list \<Rightarrow> string list \<times> use_import list"
  and collect_use_group ::
  "use_tree list \<Rightarrow> bool \<Rightarrow> string list \<times> use_import list \<Rightarrow> string list \<times> use_import list" where
  "collect_use_tree_imports (UsePath ident t) absolute (pre, imports) =
     (let (pre', imports') = collect_use_tree_imports t absolute (pre @ [ident], imports)
      in (butlast pre', imports'))"
| "collect_use_tree_imports (UseGroup items) absolute (pre, imports) = collect_use_group items absolute (pre, imports)"
| "collect_use_tree_imports (UseName ident) absolute (pre, imports) =
     (pre, push_named_import pre ident ident absolute imports)"
| "collect_use_tree_imports (UseRename ident renamed) absolute (pre, imports) =
     (pre, push_named_import pre ident renamed absolute imports)"
| "collect_use_tree_imports UseGlob absolute (pre, imports) =
     (pre, imports @ [import_syntax pre None absolute True])"
| "collect_use_group [] absolute st = st"
| "collect_use_group (t # ts) absolute st = collect_use_group ts absolute (collect_use_tree_imports t absolute st)"

definition use_item_imports :: "item_use \<Rightarrow> use_import list" where
  "use_item_imports item = snd (collect_use_tree_imports (item_use_tree item) (item_use_leading_colon item) ([], []))"

definition reexport_syntax :: "nat \<Rightarrow> use_visibility \<Rightarrow> use_import \<Rightarrow> use_reexport option" where
  "reexport_syntax line_no vis imp =
     map_option (\<lambda>exposed. \<lparr>reexport_line = line_no, reexport_source_segments = imp_segments imp,
         reexport_exposed_name = exposed, reexport_visibility = vis\<rparr>) (imp_exposed_name imp)"

definition deep_relative_import_syntax :: "nat \<Rightarrow> use_visibility \<Rightarrow> use_import \<Rightarrow> use_deep_relative_import" where
  "deep_relative_import_syntax line_no vis imp = \<lparr>udri_line = line_no, udri_prefix_segments = imp_segments imp,
     udri_parent_hops = imp_parent_hops imp, udri_visibility = vis, udri_is_reexport = vis_is_reexport vis\<rparr>"

definition is_deep_relative_import :: "use_import \<Rightarrow> bool" where
  "is_deep_relative_import imp \<longleftrightarrow> imp_root_kind imp = RootParent \<and> imp_parent_hops imp \<ge> 2"

fun glob_scope_kind :: "import_root_kind \<Rightarrow> use_glob_scope_kind" where
  "glob_scope_kind RootAbsolute = GlobAbsolute"
| "glob_scope_kind RootCrate = GlobCrateOwner"
| "glob_scope_kind RootSelfScope = GlobSelfScope"
| "glob_scope_kind RootParent = GlobParentScope"
| "glob_scope_kind RootExternal = GlobExternal"
| "glob_scope_kind RootUnknown = GlobUnknown"

definition glob_import_syntax :: "use_import \<Rightarrow> use_glob_import" where
  "glob_import_syntax imp = \<lparr>glob_prefix_segments = imp_segments imp, glob_is_absolute = imp_is_absolute imp,
     glob_scope_kind_of = glob_scope_kind (imp_root_kind imp),
     is_direct_parent_scope_glob = (imp_segments imp = [''super'']),
     is_parent_relative_glob = (imp_segments imp \<noteq> [] \<and> hd (imp_segments imp) = ''super''),
     is_prelude_glob = (imp_segments imp \<noteq> [] \<and> last (imp_segments imp) = ''prelude'')\<rparr>"

definition restricted_visibility_kind :: "string list \<Rightarrow> use_visibility" where
  "restricted_visibility_kind segments =
     (if segments = [''crate''] then UseCrate
      else if segments = [''super''] then UseSuper
      else if segments = [''self''] then UseSelfScope
      else if segments = [] then UseUnknown
      else UseRestricted segments)"

fun use_visibility_kind :: "syn_visibility \<Rightarrow> use_visibility" where
  "use_visibility_kind VisInherited = UsePrivate"
| "use_visibility_kind VisPublic = UsePublic"
| "use_visibility_kind (VisRestricted segments) = restricted_visibility_kind segments"

definition rust_use_statement_syntax :: "item_use \<Rightarrow> use_statement_context \<Rightarrow> use_statement" where
  "rust_use_statement_syntax item ctx =
     (let imports = use_item_imports item;
          vis = use_visibility_kind (item_use_vis item);
          line_no = max (item_use_line item) 1;
          globs = map glob_import_syntax (filter imp_is_glob imports)
      in \<lparr>use_line = line_no, use_vis = vis, use_context = ctx, use_imports = imports,
          use_reexports = (if vis_is_reexport vis then List.map_filter (reexport_syntax line_no vis) imports else []),
          use_deep_relative_imports = map (deep_relative_import_syntax line_no vis) (filter is_deep_relative_import imports),
          contains_glob_import = (globs \<noteq> []), use_glob_imports = globs\<rparr>)"

section \<open>Expansion of a use tree\<close>

text \<open>
  What a \<open>use\<close> tree means: the list of the paths it imports, each with the name it is bound to, or none for a
  glob. No state is involved.
\<close>

fun use_paths :: "use_tree \<Rightarrow> (string list \<times> string option) list" where
  "use_paths (UsePath ident t) = map (\<lambda>(segments, exposed). (ident # segments, exposed)) (use_paths t)"
| "use_paths (UseName ident) = [([ident], Some ident)]"
| "use_paths (UseRename ident renamed) = [([ident], Some renamed)]"
| "use_paths UseGlob = [([], None)]"
| "use_paths (UseGroup items) = concat (map use_paths items)"

definition import_of_path :: "bool \<Rightarrow> string list \<times> string option \<Rightarrow> use_import" where
  "import_of_path absolute p = import_syntax (fst p) (snd p) absolute (snd p = None)"

definition below :: "string list \<Rightarrow> string list \<times> string option \<Rightarrow> string list \<times> string option" where
  "below pre p = (pre @ fst p, snd p)"

lemma below_Nil: "below [] = id"
  by (auto simp: below_def)

lemma collect_use_tree_expands:
  "collect_use_tree_imports t absolute (pre, imps) =
     (pre, imps @ map (import_of_path absolute \<circ> below pre) (use_paths t))"
  "collect_use_group ts absolute (pre, imps) =
     (pre, imps @ map (import_of_path absolute \<circ> below pre) (concat (map use_paths ts)))"
  by (induction t absolute "(pre, imps)" and ts absolute "(pre, imps)"
      arbitrary: pre imps and pre imps rule: collect_use_tree_imports_collect_use_group.induct)
    (auto simp: push_named_import_def import_of_path_def below_def)

lemma import_of_path_simps [simp]:
  "imp_segments (import_of_path a p) = fst p" "imp_exposed_name (import_of_path a p) = snd p"
  "imp_is_absolute (import_of_path a p) = a" "imp_is_glob (import_of_path a p) \<longleftrightarrow> snd p = None"
  "imp_parent_hops (import_of_path a p) = parent_hops (fst p)"
  by (simp_all add: import_of_path_def import_syntax_def)

lemma import_of_path_deep:
  "is_deep_relative_import (import_of_path a p) \<longleftrightarrow> \<not> a \<and> prefix [''super'', ''super''] (fst p)"
proof (cases "fst p")
  case (Cons x xs)
  then show ?thesis
    by (cases xs) (auto simp: is_deep_relative_import_def import_of_path_def import_syntax_def
        import_root_kind_of_def parent_hops_def)
qed (simp add: is_deep_relative_import_def import_of_path_def import_syntax_def import_root_kind_of_def)

text \<open>
  The facts of a \<open>use\<close> item are those of its expansion into import paths. The imports are the paths
  of the expansion in order, the globs are its unnamed paths, a visible item re-exports exactly its named
  paths, and the deep relative imports are the paths of an item without leading colons that climb at least
  two modules.
\<close>

lemma use_statement_expands_tree:
  fixes item ctx
  defines "paths \<equiv> use_paths (item_use_tree item)" and "s \<equiv> rust_use_statement_syntax item ctx"
  shows "use_imports s = map (import_of_path (item_use_leading_colon item)) paths \<and>
    map glob_prefix_segments (use_glob_imports s) = map fst (filter (\<lambda>p. snd p = None) paths) \<and>
    map (\<lambda>r. (reexport_source_segments r, Some (reexport_exposed_name r))) (use_reexports s) =
      (if use_vis s = UsePrivate then [] else filter (\<lambda>p. snd p \<noteq> None) paths) \<and>
    map udri_prefix_segments (use_deep_relative_imports s) =
      (if item_use_leading_colon item then []
       else map fst (filter (\<lambda>p. prefix [''super'', ''super''] (fst p)) paths))"
proof (intro conjI)
  let ?a = "item_use_leading_colon item"
  show exp: "use_imports s = map (import_of_path ?a) paths"
    by (simp add: s_def paths_def rust_use_statement_syntax_def Let_def use_item_imports_def
        collect_use_tree_expands below_Nil)
  from exp have items: "use_item_imports item = map (import_of_path ?a) paths"
    by (simp add: s_def rust_use_statement_syntax_def Let_def)
  show "map glob_prefix_segments (use_glob_imports s) = map fst (filter (\<lambda>p. snd p = None) paths)"
    by (simp add: s_def rust_use_statement_syntax_def Let_def items filter_map o_def glob_import_syntax_def)
  have "map (\<lambda>r. (reexport_source_segments r, Some (reexport_exposed_name r)))
          (List.map_filter (reexport_syntax l v) (map (import_of_path ?a) ps)) = filter (\<lambda>p. snd p \<noteq> None) ps" for l v ps
    by (induction ps) (auto simp: List.map_filter_def reexport_syntax_def)
  then show "map (\<lambda>r. (reexport_source_segments r, Some (reexport_exposed_name r))) (use_reexports s) =
           (if use_vis s = UsePrivate then [] else filter (\<lambda>p. snd p \<noteq> None) paths)"
    by (simp add: s_def rust_use_statement_syntax_def Let_def items vis_is_reexport_def)
  show "map udri_prefix_segments (use_deep_relative_imports s) =
           (if ?a then [] else map fst (filter (\<lambda>p. prefix [''super'', ''super''] (fst p)) paths))"
    by (simp add: s_def rust_use_statement_syntax_def Let_def items filter_map o_def import_of_path_deep
        deep_relative_import_syntax_def)
qed

end
