(* ===== verification/Parsed_Module.thy ===== *)
theory Parsed_Module
  imports Policy_Config Use_Tree Structural_Selector
begin

text \<open>
  A parsed source module: the syntax facts of \<open>src/parser/native_syntax/\<close> as records, the module record and
  the parse entry points of \<open>src/parser/parsed_module.rs\<close>, source lines and locations
  (\<open>src/parser/location.rs\<close>) and line metrics (\<open>src/parser/source_metrics.rs\<close>). The syntax facts of a text
  come from the parser crate and the visitors over its tree: \<open>parse_rust_source\<close> takes that composition as
  an argument.
\<close>

section \<open>Syntax facts\<close>

record public_api_callable =
  callable_line :: nat
  callable_kind :: string
  callable_name :: string
  callable_has_doc :: bool
  callable_is_public :: bool
  callable_is_test_context :: bool

record module_declaration =
  decl_line :: nat
  decl_ident :: string
  decl_path_attr :: "string option"
  decl_resolved_path_attr :: "path option"
  decl_is_inline :: bool
  decl_is_cfg_test :: bool

record item_projection_node =
  node_line :: nat
  node_end_line :: nat
  node_kind :: string
  node_role :: string
  node_label :: string
  node_depth :: nat
  node_canonical_item_identity :: "canonical_item_identity option"

record top_level_item =
  item_line :: nat
  item_end_line :: nat
  item_kind :: string
  item_name :: "string option"
  item_impl_target_name :: "string option"
  item_trait_owner_name :: "string option"
  item_has_doc :: bool
  item_is_public :: bool
  item_is_public_use :: bool
  item_is_use :: bool
  item_is_extern_crate :: bool
  item_is_macro :: bool
  item_has_proc_macro_export_attr :: bool
  item_has_cfg_attr :: bool
  item_is_implementation_item :: bool
  item_function_name :: "string option"
  item_macro_name :: "string option"
  item_macro_declares_module :: bool
  item_macro_body_is_facade_boundary :: bool
  item_include_target :: "string option"
  item_module :: "module_declaration option"
  item_cfg_predicates :: "string list"
  item_projection_responsibilities :: "string list"
  item_projection_nodes :: "item_projection_node list"

record path_reference =
  ref_line :: nat
  ref_segments :: "string list"
  ref_terminal_name :: string
  ref_is_test_context :: bool

record invocation =
  inv_line :: nat
  inv_terminal_name :: string
  inv_argument_token_count :: nat
  inv_argument_top_level_idents :: "string list"

record public_struct_field =
  sf_line :: nat
  sf_struct_line :: nat
  sf_struct_name :: string
  sf_field_name :: string
  sf_type_text :: string
  sf_primitive_contract_type :: "string option"
  sf_flag_contract_type :: "string option"
  sf_is_test_context :: bool

record public_enum_variant_field =
  vf_line :: nat
  vf_enum_line :: nat
  vf_variant_line :: nat
  vf_enum_name :: string
  vf_variant_name :: string
  vf_field_name :: string
  vf_type_text :: string
  vf_primitive_contract_type :: "string option"
  vf_flag_contract_type :: "string option"
  vf_is_test_context :: bool

record public_enum_tuple_variant_field =
  tf_line :: nat
  tf_enum_line :: nat
  tf_variant_line :: nat
  tf_enum_name :: string
  tf_variant_name :: string
  tf_field_index :: nat
  tf_type_text :: string
  tf_primitive_contract_type :: "string option"
  tf_flag_contract_type :: "string option"
  tf_is_test_context :: bool

record public_type_generic_bound =
  gb_line :: nat
  gb_type_line :: nat
  gb_type_kind :: string
  gb_type_name :: string
  gb_param_name :: string
  gb_bound_name :: string
  gb_is_test_context :: bool

record public_type_alias =
  ta_line :: nat
  ta_alias_name :: string
  ta_target_type_text :: string
  ta_primitive_contract_type :: "string option"
  ta_flag_contract_type :: "string option"
  ta_is_test_context :: bool

record function_param =
  fp_line :: nat
  fp_function_line :: nat
  fp_function_name :: string
  fp_param_name :: string
  fp_type_text :: string
  fp_primitive_contract_type :: "string option"
  fp_flag_contract_type :: "string option"
  fp_is_test_context :: bool

record function_return =
  fr_line :: nat
  fr_function_name :: string
  fr_type_text :: string
  fr_is_async :: bool
  fr_is_unsafe :: bool
  fr_receiver :: "string option"
  fr_impl_type :: "string option"
  fr_trait_path :: "string option"
  fr_application_error_boundary :: "string option"
  fr_is_test_context :: bool

record function_tuple_api =
  tu_line :: nat
  tu_function_line :: nat
  tu_function_name :: string
  tu_surface_name :: string
  tu_type_text :: string
  tu_element_contract_types :: "string list"
  tu_is_test_context :: bool

record function_dynamic_json_api =
  dj_line :: nat
  dj_function_line :: nat
  dj_function_name :: string
  dj_surface_name :: string
  dj_type_text :: string
  dj_json_type_name :: string
  dj_is_test_context :: bool

record native_abi_surface =
  abi_line :: nat
  abi_item_kind :: string
  abi_item_name :: string
  has_abi_version_const :: bool
  has_abi_id_const :: bool
  has_header_path_const :: bool
  has_header_source_const :: bool
  has_extern_block :: bool
  has_native_abi_marker :: bool
  abi_is_test_context :: bool

record process_command_execution =
  pc_line :: nat
  pc_function_line :: nat
  pc_function_name :: string
  pc_terminal_operation :: string
  pc_command_expr :: string
  pc_has_current_dir :: bool
  pc_has_env :: bool
  pc_is_test_context :: bool

record tokio_runtime_operation =
  tk_function_name :: string
  tk_function_line :: nat
  tk_line :: nat
  tk_operation :: string
  tk_call_expr :: string
  tk_is_test_context :: bool

record function_control_flow =
  cf_line :: nat
  cf_function_name :: string
  cf_is_public :: bool
  cf_is_async :: bool
  cf_line_span :: nat
  cf_statement_count :: nat
  cf_max_block_statement_count :: nat
  cf_branch_count :: nat
  cf_loop_count :: nat
  cf_max_nesting_depth :: nat
  cf_max_loop_nesting_depth :: nat
  cf_match_count :: nat
  cf_literal_dispatch_chain_count :: nat
  cf_manual_collection_loop_count :: nat
  cf_manual_predicate_loop_count :: nat
  cf_manual_numeric_accumulator_loop_count :: nat
  cf_manual_count_loop_count :: nat
  cf_repeated_iterator_source_loop_count :: nat
  cf_linear_membership_scan_loop_count :: nat
  cf_blocking_call_count :: nat
  cf_sync_lock_guard_across_await_count :: nat
  cf_unbounded_async_queue_call_count :: nat
  cf_backpressure_boundary_signal_count :: nat
  cf_tokio_select_cancel_unsafe_io_count :: nat
  cf_tokio_timeout_cancel_unsafe_io_count :: nat
  cf_discarded_tokio_spawn_count :: nat
  cf_is_test_context :: bool

record native_syntax_facts =
  has_module_doc :: bool
  top_level_items :: "top_level_item list"
  public_api_callables :: "public_api_callable list"
  cfg_test_modules :: "module_declaration list"
  test_function_count :: nat
  use_statements :: "use_statement list"
  path_references :: "path_reference list"
  public_struct_fields :: "public_struct_field list"
  public_enum_variant_fields :: "public_enum_variant_field list"
  public_enum_tuple_variant_fields :: "public_enum_tuple_variant_field list"
  public_type_generic_bounds :: "public_type_generic_bound list"
  public_type_aliases :: "public_type_alias list"
  public_function_params :: "function_param list"
  public_function_returns :: "function_return list"
  public_tuple_api_surfaces :: "function_tuple_api list"
  public_dynamic_json_api_surfaces :: "function_dynamic_json_api list"
  native_abi_surfaces :: "native_abi_surface list"
  process_command_executions :: "process_command_execution list"
  tokio_runtime_operations :: "tokio_runtime_operation list"
  all_function_control_flows :: "function_control_flow list"
  public_function_control_flows :: "function_control_flow list"
  macro_invocations :: "invocation list"
  function_calls :: "invocation list"

definition native_syntax_facts_default :: native_syntax_facts where
  "native_syntax_facts_default = \<lparr>has_module_doc = False, top_level_items = [], public_api_callables = [],
     cfg_test_modules = [], test_function_count = 0, use_statements = [], path_references = [],
     public_struct_fields = [], public_enum_variant_fields = [], public_enum_tuple_variant_fields = [],
     public_type_generic_bounds = [], public_type_aliases = [], public_function_params = [],
     public_function_returns = [], public_tuple_api_surfaces = [], public_dynamic_json_api_surfaces = [],
     native_abi_surfaces = [], process_command_executions = [], tokio_runtime_operations = [],
     all_function_control_flows = [], public_function_control_flows = [], macro_invocations = [],
     function_calls = []\<rparr>"

definition contains_function_call_named :: "native_syntax_facts \<Rightarrow> string list \<Rightarrow> bool" where
  "contains_function_call_named facts names =
     list_ex (\<lambda>call. inv_terminal_name call \<in> set names) (function_calls facts)"

section \<open>Source lines and metrics\<close>

text \<open>
  \<open>str::lines\<close>: the text is cut after every line feed; a line that ends in one loses it, together with a carriage
  return before it; an unfinished last line is kept as it is, and there is none after a final line feed.
\<close>

definition strip_carriage_return :: "string \<Rightarrow> string" where
  "strip_carriage_return l = (if l \<noteq> [] \<and> last l = CHR 0x0D then butlast l else l)"

definition str_lines :: "string \<Rightarrow> string list" where
  "str_lines s =
     (let pieces = split_on CHR 0x0A s
      in map strip_carriage_return (butlast pieces) @ (if last pieces = [] then [] else [last pieces]))"

definition source_line_at :: "string \<Rightarrow> nat \<Rightarrow> string option" where
  "source_line_at src n = (if n - 1 < length (str_lines src) then Some (str_lines src ! (n - 1)) else None)"

record source_metrics =
  source_lines :: nat
  effective_code_lines :: nat

definition count_source_lines :: "string \<Rightarrow> nat" where
  "count_source_lines src = length (str_lines src)"

definition is_effective_line :: "string \<Rightarrow> bool" where
  "is_effective_line l \<longleftrightarrow> l \<noteq> [] \<and> \<not> starts_with l ''//'' \<and> \<not> starts_with l ''/*'' \<and> \<not> starts_with l ''*'' \<and>
     \<not> starts_with l ''*/'' \<and> \<not> starts_with l ''#['' \<and> \<not> starts_with l ''#![''"

definition count_effective_code_lines :: "string \<Rightarrow> nat" where
  "count_effective_code_lines src = length (filter is_effective_line (map trim (str_lines src)))"

definition rust_source_metrics :: "string \<Rightarrow> source_metrics" where
  "rust_source_metrics src = \<lparr>source_lines = count_source_lines src,
     effective_code_lines = count_effective_code_lines src\<rparr>"

definition source_metrics_default :: source_metrics where
  "source_metrics_default = \<lparr>source_lines = 0, effective_code_lines = 0\<rparr>"

section \<open>Locations\<close>

type_synonym line_column = "nat \<times> nat"

definition span_location :: "path option \<Rightarrow> line_column \<Rightarrow> source_location" where
  "span_location p start = \<lparr>loc_path = p, loc_line = max (fst start) 1, loc_column = snd start\<rparr>"

definition file_location :: "path \<Rightarrow> source_location" where
  "file_location p = \<lparr>loc_path = Some p, loc_line = 1, loc_column = 0\<rparr>"

definition path_line_location :: "path \<Rightarrow> nat \<Rightarrow> source_location" where
  "path_line_location p n = \<lparr>loc_path = Some p, loc_line = max n 1, loc_column = 0\<rparr>"

section \<open>Parsed modules\<close>

record parsed_module =
  pm_report :: rust_module_report
  pm_source :: string
  pm_syntax_facts :: native_syntax_facts
  pm_source_metrics :: source_metrics
  pm_error_span :: "line_column option"

abbreviation pm_path :: "parsed_module \<Rightarrow> path" where
  "pm_path m \<equiv> module_path (pm_report m)"

text \<open>The parser of a text gives its syntax facts, or a message and the position of the error.\<close>

type_synonym source_parser = "path \<Rightarrow> string \<Rightarrow> (string \<times> line_column) + native_syntax_facts"

definition parse_rust_source :: "source_parser \<Rightarrow> path \<Rightarrow> string \<Rightarrow> parsed_module" where
  "parse_rust_source parse p src =
     (case parse p src of
        Inr facts \<Rightarrow> \<lparr>pm_report = \<lparr>module_path = p, module_is_valid = True, module_parse_error = None\<rparr>,
          pm_source = src, pm_syntax_facts = facts, pm_source_metrics = rust_source_metrics src, pm_error_span = None\<rparr>
      | Inl (message, start) \<Rightarrow> \<lparr>pm_report = \<lparr>module_path = p, module_is_valid = False,
            module_parse_error = Some message\<rparr>,
          pm_source = src, pm_syntax_facts = native_syntax_facts_default,
          pm_source_metrics = rust_source_metrics src, pm_error_span = Some start\<rparr>)"

definition parse_rust_file :: "source_parser \<Rightarrow> (path \<Rightarrow> string result) \<Rightarrow> path \<Rightarrow> parsed_module" where
  "parse_rust_file parse read_to_string p =
     (case read_to_string p of
        Inr src \<Rightarrow> parse_rust_source parse p src
      | Inl e \<Rightarrow> \<lparr>pm_report = \<lparr>module_path = p, module_is_valid = False,
            module_parse_error = Some (''failed to read Rust source: '' @ e)\<rparr>,
          pm_source = '''', pm_syntax_facts = native_syntax_facts_default,
          pm_source_metrics = source_metrics_default, pm_error_span = None\<rparr>)"

section \<open>Facts on source lines\<close>

text \<open>A line never contains a line feed, and at most the lines of a text are effective.\<close>

lemma str_lines_no_newline: "l \<in> set (str_lines s) \<Longrightarrow> CHR 0x0A \<notin> set l"
proof -
  have last: "CHR 0x0A \<notin> set (last (split_on CHR 0x0A s))"
    by (rule split_on_no_sep [of _ _ s]) simp
  show "l \<in> set (str_lines s) \<Longrightarrow> CHR 0x0A \<notin> set l"
    using last by (auto simp: str_lines_def Let_def strip_carriage_return_def split: if_splits
        dest!: in_set_butlastD split_on_no_sep)
qed

lemma effective_le_source_lines:
  "effective_code_lines (rust_source_metrics s) \<le> source_lines (rust_source_metrics s)"
  using length_filter_le [of is_effective_line "map trim (str_lines s)"]
  by (simp add: rust_source_metrics_def count_source_lines_def count_effective_code_lines_def)

end
