(* ===== verification/Module_Tree.thy ===== *)
theory Module_Tree
  imports Parsed_Module
begin

text \<open>
  The module tree of a package: \<open>src/parser/module_tree.rs\<close>. Child edges follow \<open>mod\<close> declarations, \<open>#[path]\<close>
  attributes and \<open>include!\<close> literals to files of the package; a stack loop marks what the crate roots reach,
  and the rest is reported as unreachable.

  The loop is total: every turn either drops a stack entry or marks a module that was not marked before. The
  reported files are exactly those outside the reflexive-transitive closure of the child relation from the
  roots.

  Where the code takes a path component with \<open>to_string_lossy\<close>, the component stands as it is. The comparisons with \<open>bin\<close> and
  \<open>main.rs\<close> come out the same; the file that a directory shadows differs for a directory name that is not UTF-8.
\<close>

definition edge_kind_str :: "child_edge_kind \<Rightarrow> string" where
  "edge_kind_str k = (case k of ModEdge \<Rightarrow> ''mod'' | PathAttrModEdge \<Rightarrow> ''path-mod'' | IncludeLiteralEdge \<Rightarrow> ''include'')"

record module_tree_facts =
  mt_shadowed_module_sources :: "source_shadow list"
  mt_unreachable_source_files :: "path list"

definition is_special_rust_entrypoint_path :: "path \<Rightarrow> bool" where
  "is_special_rust_entrypoint_path p = file_name_matches p [''lib.rs'', ''main.rs'', ''mod.rs'']"

definition shadow_of :: "path list \<Rightarrow> path \<Rightarrow> source_shadow option" where
  "shadow_of source_files mod_form =
     Option.bind (path_parent mod_form)
       (\<lambda>parent. Option.bind (path_file_name parent)
          (\<lambda>module_name. Option.bind (path_parent parent)
             (\<lambda>grandparent.
                let file_form = path_push grandparent (module_name @ ''.rs'')
                in if file_form \<in> set source_files
                   then Some \<lparr>shadow_file_form = file_form, shadow_mod_form = mod_form\<rparr> else None)))"

definition shadowed_module_sources :: "path list \<Rightarrow> source_shadow list" where
  "shadowed_module_sources source_files =
     List.map_filter (shadow_of source_files) (filter (\<lambda>p. file_name_is p ''mod.rs'') source_files)"

section \<open>Child edges\<close>

definition child_module_base_dir :: "path \<Rightarrow> path" where
  "child_module_base_dir p =
     (let parent = (case path_parent p of Some q \<Rightarrow> q | None \<Rightarrow> [])
      in if is_special_rust_entrypoint_path p \<or> file_name_is p ''mod.rs'' then parent
         else (case path_file_stem p of None \<Rightarrow> parent | Some stem \<Rightarrow> path_push parent stem))"

definition edge_if_present :: "path list \<Rightarrow> child_edge_kind \<Rightarrow> path \<Rightarrow> child_edge list" where
  "edge_if_present source_files k p =
     (if p \<in> set source_files then [\<lparr>child_path = p, child_edge_kind_of = k\<rparr>] else [])"

definition declared_module_edges :: "path \<Rightarrow> path list \<Rightarrow> bool \<Rightarrow> module_declaration \<Rightarrow> child_edge list" where
  "declared_module_edges p source_files include_cfg_test d =
     (if decl_is_inline d \<or> (decl_is_cfg_test d \<and> \<not> include_cfg_test) then []
      else (case decl_resolved_path_attr d of
          Some resolved \<Rightarrow> edge_if_present source_files PathAttrModEdge resolved
        | None \<Rightarrow>
            (let base = child_module_base_dir p in
             edge_if_present source_files ModEdge (path_push base (decl_ident d @ ''.rs'')) @
             edge_if_present source_files ModEdge (path_push (path_push base (decl_ident d)) ''mod.rs''))))"

definition item_edges :: "path \<Rightarrow> path list \<Rightarrow> bool \<Rightarrow> top_level_item \<Rightarrow> child_edge list" where
  "item_edges p source_files include_cfg_test item =
     (case item_include_target item of None \<Rightarrow> []
      | Some target \<Rightarrow> edge_if_present source_files IncludeLiteralEdge (resolve_rust_include_literal p target)) @
     (case item_module item of None \<Rightarrow> [] | Some d \<Rightarrow> declared_module_edges p source_files include_cfg_test d)"

definition external_child_module_edges_with_test_cfg :: "parsed_module \<Rightarrow> path list \<Rightarrow> bool \<Rightarrow> child_edge list" where
  "external_child_module_edges_with_test_cfg m source_files include_cfg_test =
     concat (map (item_edges (pm_path m) source_files include_cfg_test) (top_level_items (pm_syntax_facts m)))"

definition external_child_module_edges :: "parsed_module \<Rightarrow> path list \<Rightarrow> child_edge list" where
  "external_child_module_edges m source_files = external_child_module_edges_with_test_cfg m source_files False"

definition is_module_tree_root :: "path list \<Rightarrow> path \<Rightarrow> bool" where
  "is_module_tree_root source_paths p =
     list_ex (\<lambda>source_root.
         p = path_push source_root ''lib.rs'' \<or> p = path_push source_root ''main.rs'' \<or>
         (case strip_prefix p source_root of
            None \<Rightarrow> False
          | Some relative \<Rightarrow>
              (case map component_str relative of
                 [first, _] \<Rightarrow> first = ''bin''
               | [first, _, entry] \<Rightarrow> first = ''bin'' \<and> entry = ''main.rs''
               | _ \<Rightarrow> False)))
       source_paths"

section \<open>Reachability\<close>

type_synonym modules_by_path = "(path \<times> parsed_module) list"

definition modules_by_path :: "parsed_module list \<Rightarrow> modules_by_path" where
  "modules_by_path ms = bmap_of_list (map (\<lambda>m. (pm_path m, m)) ms)"

text \<open>
  The stack loop shared by \<open>reachable_source_files\<close> and \<open>reachable_test_module_files\<close>; the flag says whether
  \<open>#[cfg(test)]\<close> modules are followed. The stack is a vector: the next path is its last element.
\<close>

function reach_files :: "bool \<Rightarrow> path list \<Rightarrow> modules_by_path \<Rightarrow> path list \<Rightarrow> path list \<Rightarrow> path list" where
  "reach_files include_cfg_test source_files by_path reachable stack =
     (if stack = [] then reachable
      else let p = last stack; rest = butlast stack in
        if p \<in> set reachable then reach_files include_cfg_test source_files by_path reachable rest
        else let reachable' = bset_insert p reachable in
          (case bmap_get by_path p of
             None \<Rightarrow> reach_files include_cfg_test source_files by_path reachable' rest
           | Some m \<Rightarrow> reach_files include_cfg_test source_files by_path reachable'
               (rest @ filter (\<lambda>c. c \<notin> set reachable')
                  (map child_path (external_child_module_edges_with_test_cfg m source_files include_cfg_test)))))"
  by pat_completeness auto
termination
proof (relation "measures [\<lambda>(_, _, by_path, reachable, _). card (set (bmap_keys by_path) - set reachable),
    \<lambda>(_, _, _, _, stack). length stack]", goal_cases)
  case (3 include_cfg_test source_files by_path reachable stack p rest reachable')
  have "set (bmap_keys by_path) - set reachable' \<subseteq> set (bmap_keys by_path) - set reachable"
    using 3 by auto
  then have "card (set (bmap_keys by_path) - set reachable') \<le> card (set (bmap_keys by_path) - set reachable)"
    by (intro card_mono) auto
  moreover have "length rest < length stack" using 3 by simp
  ultimately show ?case by auto
next
  case (4 include_cfg_test source_files by_path reachable stack p rest reachable' m)
  have "p \<in> set (bmap_keys by_path)" using 4 by (auto dest!: map_of_SomeD simp: image_iff intro!: bexI)
  with 4 have "set (bmap_keys by_path) - set reachable' \<subset> set (bmap_keys by_path) - set reachable"
    by auto
  then have "card (set (bmap_keys by_path) - set reachable') < card (set (bmap_keys by_path) - set reachable)"
    by (intro psubset_card_mono) auto
  then show ?case by simp
qed auto

declare reach_files.simps [simp del]

definition reachable_source_files :: "path list \<Rightarrow> parsed_module list \<Rightarrow> path list \<Rightarrow> path list" where
  "reachable_source_files source_paths ms source_files =
     reach_files False source_files (modules_by_path ms) [] (filter (is_module_tree_root source_paths) source_files)"

definition source_files_of :: "path list \<Rightarrow> parsed_module list \<Rightarrow> path list" where
  "source_files_of source_paths ms =
     bset_of_list (map pm_path (filter (\<lambda>m. is_under_any_dir (pm_path m) source_paths) ms))"

definition rust_module_tree_facts :: "path list \<Rightarrow> parsed_module list \<Rightarrow> module_tree_facts" where
  "rust_module_tree_facts source_paths ms =
     (let source_files = source_files_of source_paths ms
      in if source_files = [] then \<lparr>mt_shadowed_module_sources = [], mt_unreachable_source_files = []\<rparr>
         else let reachable = reachable_source_files source_paths ms source_files
         in \<lparr>mt_shadowed_module_sources = shadowed_module_sources source_files,
             mt_unreachable_source_files =
               filter (\<lambda>p. p \<notin> set reachable \<and> \<not> is_module_tree_root source_paths p) source_files\<rparr>)"

section \<open>What the loop computes\<close>

definition child_relation :: "bool \<Rightarrow> path list \<Rightarrow> parsed_module list \<Rightarrow> (path \<times> path) set" where
  "child_relation include_cfg_test source_files ms =
     {(p, c). \<exists>m. bmap_get (modules_by_path ms) p = Some m \<and>
        c \<in> child_path ` set (external_child_module_edges_with_test_cfg m source_files include_cfg_test)}"

text \<open>
  The invariant of the loop: everything marked or stacked is reached from the roots, and the children of a
  marked file are marked or stacked.
\<close>

definition loop_invariant :: "(path \<times> path) set \<Rightarrow> path set \<Rightarrow> path list \<Rightarrow> path list \<Rightarrow> bool" where
  "loop_invariant R roots reachable stack \<longleftrightarrow>
     roots \<subseteq> set reachable \<union> set stack \<and> set reachable \<union> set stack \<subseteq> R\<^sup>* `` roots \<and>
     R `` set reachable \<subseteq> set reachable \<union> set stack"

lemma loop_invariant_end: "loop_invariant R roots reachable [] \<Longrightarrow> set reachable = R\<^sup>* `` roots"
proof -
  assume inv: "loop_invariant R roots reachable []"
  then have "R\<^sup>* `` set reachable = set reachable"
    by (intro Image_closed_trancl) (simp add: loop_invariant_def)
  moreover have "R\<^sup>* `` roots \<subseteq> R\<^sup>* `` set reachable"
    using inv by (intro Image_mono) (auto simp: loop_invariant_def)
  ultimately show ?thesis using inv by (auto simp: loop_invariant_def)
qed

lemma loop_invariant_step:
  assumes "loop_invariant R roots reachable (rest @ [p])" and "set new = R `` {p} - set (bset_insert p reachable)"
  shows "loop_invariant R roots (bset_insert p reachable) (rest @ new)"
proof -
  have "R `` {p} \<subseteq> R\<^sup>* `` roots"
    using assms(1) by (auto simp: loop_invariant_def) (meson ImageE ImageI rtrancl.rtrancl_into_rtrancl subsetD)
  then show ?thesis using assms by (auto simp: loop_invariant_def)
qed

lemma reach_files_invariant:
  assumes "loop_invariant (child_relation b source_files ms) roots reachable stack"
  shows "set (reach_files b source_files (modules_by_path ms) reachable stack) =
    (child_relation b source_files ms)\<^sup>* `` roots"
  using assms
proof (induction b source_files "modules_by_path ms" reachable stack rule: reach_files.induct)
  case (1 b source_files reachable stack)
  let ?R = "child_relation b source_files ms"
  show ?case
  proof (cases "stack = []")
    case True
    with 1(4) show ?thesis by (simp add: reach_files.simps loop_invariant_end)
  next
    case False
    define p rest where "p = last stack" and "rest = butlast stack"
    with False have stack: "stack = rest @ [p]" by simp
    show ?thesis
    proof (cases "p \<in> set reachable")
      case True
      with 1(4) stack have "loop_invariant ?R roots reachable rest" by (auto simp: loop_invariant_def)
      with 1(1) [OF False p_def rest_def True] True stack show ?thesis
        by (subst reach_files.simps) (simp add: Let_def)
    next
      case fresh: False
      show ?thesis
      proof (cases "bmap_get (modules_by_path ms) p")
        case None
        then have "?R `` {p} = {}" by (auto simp: child_relation_def)
        then have "loop_invariant ?R roots (bset_insert p reachable) (rest @ [])"
          using 1(4) stack by (intro loop_invariant_step) auto
        with 1(2) [OF False p_def rest_def fresh refl None] None fresh stack show ?thesis
          by (subst reach_files.simps) (simp add: Let_def)
      next
        case (Some m)
        let ?new = "filter (\<lambda>c. c \<notin> set (bset_insert p reachable))
          (map child_path (external_child_module_edges_with_test_cfg m source_files b))"
        have "loop_invariant ?R roots (bset_insert p reachable) (rest @ ?new)"
          using 1(4) stack Some by (intro loop_invariant_step) (auto simp: child_relation_def)
        with 1(3) [OF False p_def rest_def fresh refl Some] Some fresh stack show ?thesis
          by (subst reach_files.simps) (simp add: Let_def)
      qed
    qed
  qed
qed

lemma set_reach_files:
  "set (reach_files b source_files (modules_by_path ms) [] stack) = (child_relation b source_files ms)\<^sup>* `` set stack"
  by (rule reach_files_invariant) (auto simp: loop_invariant_def)

text \<open>
  The unreachable source files of a package are, in ascending order, exactly the source files that no
  chain of \<open>mod\<close> declarations, \<open>#[path]\<close> attributes and \<open>include!\<close> literals connects to a crate root.
\<close>

lemma unreachable_source_files_exact:
  "ascending (mt_unreachable_source_files (rust_module_tree_facts source_paths ms)) \<and>
   set (mt_unreachable_source_files (rust_module_tree_facts source_paths ms)) =
     set (source_files_of source_paths ms) -
     (child_relation False (source_files_of source_paths ms) ms)\<^sup>* ``
       {root \<in> set (source_files_of source_paths ms). is_module_tree_root source_paths root}"
proof -
  let ?files = "source_files_of source_paths ms"
  let ?roots = "{root \<in> set ?files. is_module_tree_root source_paths root}"
  have "ascending (filter P ?files)" for P
    by (rule sorted_wrt_filter) (simp add: source_files_of_def)
  moreover have "set (reachable_source_files source_paths ms ?files) = (child_relation False ?files ms)\<^sup>* `` ?roots"
    by (simp add: reachable_source_files_def set_reach_files)
  ultimately show ?thesis
    by (auto simp: rust_module_tree_facts_def Let_def)
qed

end
