(* ===== verification/Reasoning_Tree.thy ===== *)
theory Reasoning_Tree
  imports Module_Tree
begin

text \<open>
  The construction of the reasoning tree: \<open>src/parser/reasoning_tree.rs\<close>, from the scope of a package, its
  parsed modules and its Cargo manifest. The records are those of \<open>Reasoning_Facts\<close>, which the planner and the
  rules read.

  Shown: which test files the tree marks, and that the owner dependencies of a tree are exactly the resolved
  imports, merged per source, target, root kind and test context with the smallest line kept.
\<close>

section \<open>Import resolution\<close>

definition use_statement_namespace :: "string list \<Rightarrow> string list \<Rightarrow> string list" where
  "use_statement_namespace module_namespace enclosing = module_namespace @ enclosing"

definition parent_import_candidate_namespace :: "string list \<Rightarrow> string list \<Rightarrow> nat \<Rightarrow> string list option" where
  "parent_import_candidate_namespace current segments hops =
     (if hops > length current then None
      else Some (take (length current - hops) current @ drop hops segments))"

definition crate_relative_segments :: "string list \<Rightarrow> string list \<Rightarrow> string list" where
  "crate_relative_segments current candidate =
     ''crate'' # (if current \<noteq> [] \<and> candidate \<noteq> [] \<and> hd candidate = hd current then tl candidate else candidate)"

definition crate_relative_deep_relative_import_segments ::
  "string list \<Rightarrow> use_deep_relative_import \<Rightarrow> string list option" where
  "crate_relative_deep_relative_import_segments current imp =
     map_option (crate_relative_segments current)
       (parent_import_candidate_namespace current (udri_prefix_segments imp) (udri_parent_hops imp))"

definition deep_relative_import_fact ::
  "string list \<Rightarrow> bool \<Rightarrow> use_deep_relative_import \<Rightarrow> deep_relative_import" where
  "deep_relative_import_fact current in_test imp = \<lparr>deep_line = udri_line imp,
     deep_original_segments = udri_prefix_segments imp,
     deep_crate_segments = crate_relative_deep_relative_import_segments current imp,
     deep_parent_hops = udri_parent_hops imp, deep_visibility = udri_visibility imp,
     deep_is_reexport = udri_is_reexport imp, deep_is_test_context = in_test\<rparr>"

fun local_import_candidate_namespace :: "string list \<Rightarrow> use_import \<Rightarrow> string list option" where
  "local_import_candidate_namespace current imp =
     (case imp_root_kind imp of
        RootCrate \<Rightarrow> (case current of [] \<Rightarrow> None | root # _ \<Rightarrow> Some (root # drop 1 (imp_segments imp)))
      | RootSelfScope \<Rightarrow> Some (current @ drop 1 (imp_segments imp))
      | RootParent \<Rightarrow> parent_import_candidate_namespace current (imp_segments imp) (imp_parent_hops imp)
      | _ \<Rightarrow> None)"

type_synonym known_namespaces = "(string list \<times> path) list"

definition longest_known_namespace_prefix :: "string list \<Rightarrow> known_namespaces \<Rightarrow> string list option" where
  "longest_known_namespace_prefix candidate known =
     map_option (\<lambda>n. take n candidate)
       (find (\<lambda>n. bmap_get known (take n candidate) \<noteq> None) (rev [1..<Suc (length candidate)]))"

definition local_owner_dependency ::
  "path \<Rightarrow> string list \<Rightarrow> string list \<Rightarrow> use_import \<Rightarrow> nat \<Rightarrow> bool \<Rightarrow> known_namespaces \<Rightarrow> owner_dependency option" where
  "local_owner_dependency current_path source_namespace import_namespace imp line_no in_test known =
     Option.bind (local_import_candidate_namespace import_namespace imp)
       (\<lambda>candidate. Option.bind (longest_known_namespace_prefix candidate known)
          (\<lambda>target.
             if length target \<le> 1 \<or> target = source_namespace then None
             else map_option (\<lambda>target_path. \<lparr>dep_source_path = current_path,
                 dep_source_namespace = source_namespace, dep_target_path = target_path,
                 dep_target_namespace = target, dep_via_root = imp_root_kind imp, dep_line = line_no,
                 dep_is_test_context = in_test\<rparr>)
               (bmap_get known target)))"

section \<open>Merging dependencies\<close>

fun import_root_kind_rank :: "import_root_kind \<Rightarrow> nat" where
  "import_root_kind_rank RootAbsolute = 0"
| "import_root_kind_rank RootCrate = 1"
| "import_root_kind_rank RootSelfScope = 2"
| "import_root_kind_rank RootParent = 3"
| "import_root_kind_rank RootExternal = 4"
| "import_root_kind_rank RootUnknown = 5"

lemma import_root_kind_rank_inj: "import_root_kind_rank a = import_root_kind_rank b \<longleftrightarrow> a = b"
  by (cases a; cases b) auto

instantiation import_root_kind :: linorder
begin

definition less_eq_import_root_kind :: "import_root_kind \<Rightarrow> import_root_kind \<Rightarrow> bool" where
  "a \<le> b \<longleftrightarrow> import_root_kind_rank a \<le> import_root_kind_rank b"

definition less_import_root_kind :: "import_root_kind \<Rightarrow> import_root_kind \<Rightarrow> bool" where
  "a < b \<longleftrightarrow> import_root_kind_rank a < import_root_kind_rank b"

instance
  by intro_classes
    (auto simp only: less_eq_import_root_kind_def less_import_root_kind_def import_root_kind_rank_inj [symmetric])

end

type_synonym owner_dependency_key = "path \<times> path \<times> import_root_kind \<times> bool"
type_synonym owner_dependency_map = "(owner_dependency_key \<times> owner_dependency) list"

definition owner_dependency_key :: "owner_dependency \<Rightarrow> owner_dependency_key" where
  "owner_dependency_key d = (dep_source_path d, dep_target_path d, dep_via_root d, dep_is_test_context d)"

definition merge_owner_dependency :: "owner_dependency \<Rightarrow> owner_dependency_map \<Rightarrow> owner_dependency_map" where
  "merge_owner_dependency d deps =
     (case bmap_get deps (owner_dependency_key d) of
        Some existing \<Rightarrow> if dep_line d < dep_line existing then bmap_insert (owner_dependency_key d) d deps else deps
      | None \<Rightarrow> bmap_insert (owner_dependency_key d) d deps)"

section \<open>Import summaries\<close>

definition import_facts_default :: import_facts where
  "import_facts_default = \<lparr>total_imports = 0, crate_imports = 0, self_imports = 0, parent_imports = 0,
     external_imports = 0, absolute_imports = 0, unknown_imports = 0, glob_imports = 0,
     deep_relative_imports = 0, deep_relative_import_facts = [], prelude_imports = 0,
     test_context_imports = 0, production_external_imports = [], local_owner_imports = [],
     local_owner_dependencies = []\<rparr>"

record import_accumulators =
  acc_summary :: import_facts
  acc_production_external_imports :: "string list list"
  acc_local_owner_imports :: "string list list"
  acc_local_owner_dependencies :: owner_dependency_map

definition record_import_root :: "import_root_kind \<Rightarrow> import_facts \<Rightarrow> import_facts" where
  "record_import_root k s =
     (case k of
        RootAbsolute \<Rightarrow> s\<lparr>absolute_imports := absolute_imports s + 1\<rparr>
      | RootCrate \<Rightarrow> s\<lparr>crate_imports := crate_imports s + 1\<rparr>
      | RootSelfScope \<Rightarrow> s\<lparr>self_imports := self_imports s + 1\<rparr>
      | RootParent \<Rightarrow> s\<lparr>parent_imports := parent_imports s + 1\<rparr>
      | RootExternal \<Rightarrow> s\<lparr>external_imports := external_imports s + 1\<rparr>
      | RootUnknown \<Rightarrow> s\<lparr>unknown_imports := unknown_imports s + 1\<rparr>)"

definition record_import_shape :: "use_import \<Rightarrow> import_facts \<Rightarrow> import_facts" where
  "record_import_shape imp s =
     (let s1 = (if imp_is_glob imp then s\<lparr>glob_imports := glob_imports s + 1\<rparr> else s)
      in if imp_is_prelude_import imp then s1\<lparr>prelude_imports := prelude_imports s1 + 1\<rparr> else s1)"

definition record_deep_relative_import_facts :: "string list \<Rightarrow> use_statement \<Rightarrow> import_facts \<Rightarrow> import_facts" where
  "record_deep_relative_import_facts import_namespace u s =
     s\<lparr>deep_relative_imports := deep_relative_imports s + length (use_deep_relative_imports u),
       deep_relative_import_facts := deep_relative_import_facts s @
         map (deep_relative_import_fact import_namespace (is_inside_cfg_test_module (use_context u)))
           (use_deep_relative_imports u)\<rparr>"

definition record_import_fact ::
  "reasoning_module \<Rightarrow> string list \<Rightarrow> use_statement \<Rightarrow> known_namespaces \<Rightarrow> use_import \<Rightarrow>
    import_accumulators \<Rightarrow> import_accumulators" where
  "record_import_fact mf import_namespace u known imp acc =
     (let acc1 = acc\<lparr>acc_summary := record_import_shape imp (record_import_root (imp_root_kind imp) (acc_summary acc))\<rparr>
      in case local_owner_dependency (mod_path mf) (namespace_components (mod_source_path mf)) import_namespace imp
           (use_line u) (is_inside_cfg_test_module (use_context u)) known of
           None \<Rightarrow> acc1
         | Some d \<Rightarrow> acc1\<lparr>acc_local_owner_imports := bset_insert (dep_target_namespace d) (acc_local_owner_imports acc1),
             acc_local_owner_dependencies := merge_owner_dependency d (acc_local_owner_dependencies acc1)\<rparr>)"

definition record_use_statement_imports ::
  "reasoning_module \<Rightarrow> known_namespaces \<Rightarrow> use_statement \<Rightarrow> import_accumulators \<Rightarrow> import_accumulators" where
  "record_use_statement_imports mf known u acc =
     (let import_namespace = use_statement_namespace (namespace_components (mod_source_path mf))
            (enclosing_modules (use_context u));
          s = acc_summary acc;
          s1 = s\<lparr>total_imports := total_imports s + length (use_imports u)\<rparr>;
          s2 = (if is_inside_cfg_test_module (use_context u)
                then s1\<lparr>test_context_imports := test_context_imports s1 + length (use_imports u)\<rparr> else s1);
          acc1 = fold (record_import_fact mf import_namespace u known) (use_imports u) (acc\<lparr>acc_summary := s2\<rparr>)
      in acc1\<lparr>acc_summary := record_deep_relative_import_facts import_namespace u (acc_summary acc1)\<rparr>)"

definition record_production_imports :: "use_statement \<Rightarrow> import_accumulators \<Rightarrow> import_accumulators" where
  "record_production_imports u acc =
     (if is_inside_cfg_test_module (use_context u) then acc
      else acc\<lparr>acc_production_external_imports := bset_extend (acc_production_external_imports acc)
        (map imp_segments (filter (\<lambda>imp. imp_root_kind imp = RootExternal \<or> imp_root_kind imp = RootAbsolute)
          (use_imports u)))\<rparr>)"

definition import_summary :: "parsed_module \<Rightarrow> reasoning_module \<Rightarrow> known_namespaces \<Rightarrow> import_facts" where
  "import_summary m mf known =
     (let acc = fold (\<lambda>u acc. record_use_statement_imports mf known u (record_production_imports u acc))
            (use_statements (pm_syntax_facts m))
            \<lparr>acc_summary = import_facts_default, acc_production_external_imports = [],
             acc_local_owner_imports = [], acc_local_owner_dependencies = []\<rparr>
      in (acc_summary acc)\<lparr>production_external_imports := acc_production_external_imports acc,
          local_owner_imports := acc_local_owner_imports acc,
          local_owner_dependencies := bmap_values (acc_local_owner_dependencies acc)\<rparr>)"

definition count_public_item :: "top_level_item \<Rightarrow> public_api_facts \<Rightarrow> public_api_facts" where
  "count_public_item item s =
     (let s1 = (if item_is_public item \<and> item_kind item \<noteq> ''mod'' then s\<lparr>public_items := public_items s + 1\<rparr> else s);
          s2 = (if item_is_public_use item then s1\<lparr>public_exports := public_exports s1 + 1\<rparr> else s1)
      in if item_is_public item \<and> item_kind item = ''fn'' then s2\<lparr>public_functions := public_functions s2 + 1\<rparr> else s2)"

definition public_api_summary :: "parsed_module \<Rightarrow> public_api_facts" where
  "public_api_summary m = fold count_public_item (top_level_items (pm_syntax_facts m))
     \<lparr>public_items = 0, public_exports = 0, public_functions = 0\<rparr>"

section \<open>Branches\<close>

definition owner_branch_roles :: "reasoning_module \<Rightarrow> owner_branch_role list" where
  "owner_branch_roles m =
     (let sp = mod_source_path m;
          roles = (if mod_is_tree_root m then [RoleRoot] else []) @
            (if is_crate_facade sp then [RoleFacade] else []) @
            (if is_interface_mod sp then [RoleInterface] else []) @
            (if is_binary_entrypoint sp then [RoleBinary] else []) @
            (if is_package_entrypoint sp then [RolePackageEntrypoint] else []) @
            (if repeated_namespace_segments sp \<noteq> [] then [RoleRepeatedNamespace (repeated_namespace_segments sp)] else [])
      in if roles = [] then [RoleBranch] else roles)"

definition is_owner_branch :: "reasoning_module \<Rightarrow> bool" where
  "is_owner_branch m \<longleftrightarrow> mod_is_tree_root m \<or> mod_child_edges m \<noteq> [] \<or>
     is_special_entrypoint (mod_source_path m) \<or> repeated_namespace_segments (mod_source_path m) \<noteq> []"

definition owner_branch_facts :: "reasoning_module list \<Rightarrow> owner_branch list" where
  "owner_branch_facts ms =
     sort_key (\<lambda>b. (RoleRoot \<notin> set (branch_roles b), branch_path b))
       (map (\<lambda>m. \<lparr>branch_path = mod_path m, branch_namespace = namespace_components (mod_source_path m),
            branch_roles = owner_branch_roles m, branch_import_summary = mod_import_summary m,
            branch_child_edges = mod_child_edges m\<rparr>)
         (filter is_owner_branch (filter mod_is_source ms)))"

definition owner_dependency_facts :: "reasoning_module list \<Rightarrow> owner_dependency list" where
  "owner_dependency_facts ms =
     sort_key (\<lambda>d. (length (dep_source_namespace d), dep_source_path d, dep_target_path d))
       (bmap_values (fold merge_owner_dependency
         (concat (map (\<lambda>m. local_owner_dependencies (mod_import_summary m)) ms)) []))"

definition known_module_namespace_paths :: "reasoning_module list \<Rightarrow> known_namespaces" where
  "known_module_namespace_paths ms =
     bmap_of_list (map (\<lambda>m. (namespace_components (mod_source_path m), mod_path m))
       (filter (\<lambda>m. namespace_components (mod_source_path m) \<noteq> []) (filter mod_is_source ms)))"

section \<open>The tree\<close>

definition reachable_test_module_files ::
  "(path \<Rightarrow> bool) \<Rightarrow> manifest_loader \<Rightarrow> asp_rust_scope \<Rightarrow> parsed_module list \<Rightarrow> path list" where
  "reachable_test_module_files is_file load scope ms =
     (let manifest_facts = parse_cargo_manifest is_file load (scope_project_root scope);
          candidate_files = bset_of_list (map pm_path ms);
          stack = filter (\<lambda>p. p \<in> set candidate_files)
            (source_target_files manifest_facts @ test_target_files manifest_facts)
      in filter (\<lambda>p. is_under_any_dir p (scope_test_paths scope))
           (reach_files True candidate_files (modules_by_path ms) [] stack))"

definition preliminary_module ::
  "asp_rust_scope \<Rightarrow> path list \<Rightarrow> path list \<Rightarrow> parsed_module \<Rightarrow> reasoning_module" where
  "preliminary_module scope source_files test_module_files m =
     (let is_source = pm_path m \<in> set source_files
      in \<lparr>mod_path = pm_path m,
          mod_source_path = rust_source_path_facts (scope_project_root scope) (scope_source_paths scope)
            (scope_test_paths scope) (scope_package_paths scope) (pm_path m),
          mod_import_summary = import_facts_default,
          mod_public_api = public_api_summary m,
          mod_is_source = is_source,
          mod_is_test = (pm_path m \<in> set test_module_files),
          mod_is_tree_root = (is_source \<and> is_module_tree_root (scope_source_paths scope) (pm_path m)),
          mod_child_edges = (if is_source then external_child_module_edges m source_files else [])\<rparr>)"

definition rust_reasoning_tree_facts ::
  "(path \<Rightarrow> bool) \<Rightarrow> manifest_loader \<Rightarrow> asp_rust_scope \<Rightarrow> parsed_module list \<Rightarrow> reasoning_tree" where
  "rust_reasoning_tree_facts is_file load scope ms =
     (let module_tree = rust_module_tree_facts (scope_source_paths scope) ms;
          source_files = source_files_of (scope_source_paths scope) ms;
          test_module_files = reachable_test_module_files is_file load scope ms;
          preliminary = map (preliminary_module scope source_files test_module_files) ms;
          known = known_module_namespace_paths preliminary;
          module_facts = map (\<lambda>(mf, m). mf\<lparr>mod_import_summary := import_summary m mf known\<rparr>) (zip preliminary ms)
      in \<lparr>tree_package_root = scope_project_root scope, tree_source_roots = scope_source_paths scope,
          tree_package_entrypoints = scope_package_paths scope, tree_modules = module_facts,
          tree_owner_branches = owner_branch_facts module_facts,
          tree_owner_dependencies = owner_dependency_facts module_facts,
          tree_shadowed_module_sources = mt_shadowed_module_sources module_tree,
          tree_unreachable_source_files = mt_unreachable_source_files module_tree\<rparr>)"

section \<open>Merged dependencies\<close>

text \<open>A dependency map holds, under each key of a list, a dependency of the list with the least line.\<close>

definition least_dependencies :: "owner_dependency set \<Rightarrow> owner_dependency_map \<Rightarrow> bool" where
  "least_dependencies D m \<longleftrightarrow> ascending (bmap_keys m) \<and>
     (\<forall>k d. bmap_get m k = Some d \<longrightarrow>
        d \<in> D \<and> owner_dependency_key d = k \<and> (\<forall>d' \<in> D. owner_dependency_key d' = k \<longrightarrow> dep_line d \<le> dep_line d')) \<and>
     owner_dependency_key ` D \<subseteq> dom (bmap_get m)"

lemma least_dependencies_merge:
  assumes m: "least_dependencies D m"
  shows "least_dependencies (insert d D) (merge_owner_dependency d m)"
proof -
  have asc: "ascending (bmap_keys m)" and dom: "owner_dependency_key ` D \<subseteq> dom (bmap_get m)"
    and old: "bmap_get m k = Some e \<Longrightarrow> e \<in> D \<and> owner_dependency_key e = k \<and>
      (\<forall>d' \<in> D. owner_dependency_key d' = k \<longrightarrow> dep_line e \<le> dep_line d')" for k e
    using m by (auto simp: least_dependencies_def simp del: split_paired_All)
  show ?thesis
  proof (cases "bmap_get m (owner_dependency_key d)")
    case None
    with dom have "owner_dependency_key d \<notin> owner_dependency_key ` D" by auto
    with None asc dom old show ?thesis
      by (auto simp: least_dependencies_def merge_owner_dependency_def bmap_simps simp del: split_paired_All
          split: if_splits)
  next
    case (Some e)
    let ?e = "if dep_line d < dep_line e then d else e"
    have get: "bmap_get (merge_owner_dependency d m) = (bmap_get m)(owner_dependency_key d \<mapsto> ?e)"
      and asc': "ascending (bmap_keys (merge_owner_dependency d m))"
      using Some asc by (auto simp: merge_owner_dependency_def bmap_simps)
    have "?e \<in> insert d D \<and> owner_dependency_key ?e = owner_dependency_key d \<and>
        (\<forall>d' \<in> insert d D. owner_dependency_key d' = owner_dependency_key d \<longrightarrow> dep_line ?e \<le> dep_line d')"
      using old [OF Some] by fastforce
    then show ?thesis
      using asc' dom old by (auto simp: least_dependencies_def get simp del: insert_iff split_paired_All)
  qed
qed

lemma least_dependencies_fold:
  "least_dependencies D m \<Longrightarrow> least_dependencies (set ds \<union> D) (fold merge_owner_dependency ds m)"
proof (induction ds arbitrary: m D)
  case (Cons d ds)
  from Cons.IH [OF least_dependencies_merge [OF Cons.prems, of d]] show ?case by simp
qed simp

lemma least_dependencies_collect: "least_dependencies (set ds) (fold merge_owner_dependency ds [])"
  using least_dependencies_fold [of "{}" "[]" ds] by (simp add: least_dependencies_def)

lemma least_dependencies_values:
  assumes m: "least_dependencies D m"
  shows "map owner_dependency_key (bmap_values m) = bmap_keys m" "set (bmap_values m) \<subseteq> D"
    "owner_dependency_key ` set (bmap_values m) = owner_dependency_key ` D"
    "d \<in> set (bmap_values m) \<Longrightarrow> d' \<in> D \<Longrightarrow> owner_dependency_key d' = owner_dependency_key d \<Longrightarrow> dep_line d \<le> dep_line d'"
proof -
  have entry: "d \<in> D \<and> owner_dependency_key d = k \<and>
      (\<forall>d' \<in> D. owner_dependency_key d' = k \<longrightarrow> dep_line d \<le> dep_line d')" if "(k, d) \<in> set m" for k d
    using m that by (auto simp: least_dependencies_def bmap_in_set_iff simp del: split_paired_All)
  then show keys: "map owner_dependency_key (bmap_values m) = bmap_keys m" and sub: "set (bmap_values m) \<subseteq> D"
    by force+
  show "owner_dependency_key ` set (bmap_values m) = owner_dependency_key ` D"
  proof
    show "owner_dependency_key ` set (bmap_values m) \<subseteq> owner_dependency_key ` D" using sub by blast
    have "owner_dependency_key ` D \<subseteq> set (bmap_keys m)"
      using m by (auto simp: least_dependencies_def dom_map_of_conv_image_fst)
    then show "owner_dependency_key ` D \<subseteq> owner_dependency_key ` set (bmap_values m)"
      by (metis keys list.set_map)
  qed
  show "dep_line d \<le> dep_line d'" if "d \<in> set (bmap_values m)" "d' \<in> D" "owner_dependency_key d' = owner_dependency_key d"
    using that entry by force
qed

text \<open>The dependencies of the imports of one statement and of one module, before they are merged.\<close>

definition statement_dependencies ::
  "reasoning_module \<Rightarrow> known_namespaces \<Rightarrow> use_statement \<Rightarrow> owner_dependency list" where
  "statement_dependencies mf known u =
     List.map_filter (\<lambda>imp. local_owner_dependency (mod_path mf) (namespace_components (mod_source_path mf))
         (use_statement_namespace (namespace_components (mod_source_path mf)) (enclosing_modules (use_context u)))
         imp (use_line u) (is_inside_cfg_test_module (use_context u)) known)
       (use_imports u)"

definition module_dependencies ::
  "parsed_module \<Rightarrow> reasoning_module \<Rightarrow> known_namespaces \<Rightarrow> owner_dependency list" where
  "module_dependencies m mf known = concat (map (statement_dependencies mf known) (use_statements (pm_syntax_facts m)))"

lemma fold_record_import_fact:
  "acc_local_owner_dependencies (fold (record_import_fact mf ns u known) imps acc) =
     fold merge_owner_dependency
       (List.map_filter (\<lambda>imp. local_owner_dependency (mod_path mf) (namespace_components (mod_source_path mf)) ns
          imp (use_line u) (is_inside_cfg_test_module (use_context u)) known) imps)
       (acc_local_owner_dependencies acc)"
  by (induction imps arbitrary: acc) (auto simp: List.map_filter_def record_import_fact_def Let_def split: option.splits)

lemma record_use_statement_dependencies:
  "acc_local_owner_dependencies (record_use_statement_imports mf known u (record_production_imports u acc)) =
     fold merge_owner_dependency (statement_dependencies mf known u) (acc_local_owner_dependencies acc)"
  by (simp add: record_use_statement_imports_def record_production_imports_def Let_def fold_record_import_fact
      statement_dependencies_def)

lemma fold_record_use_statements:
  "acc_local_owner_dependencies
     (fold (\<lambda>u acc. record_use_statement_imports mf known u (record_production_imports u acc)) us acc) =
   fold merge_owner_dependency (concat (map (statement_dependencies mf known) us)) (acc_local_owner_dependencies acc)"
  by (induction us arbitrary: acc) (simp_all add: record_use_statement_dependencies)

lemma import_summary_dependencies:
  "local_owner_dependencies (import_summary m mf known) =
     bmap_values (fold merge_owner_dependency (module_dependencies m mf known) [])"
  by (simp add: import_summary_def Let_def fold_record_use_statements module_dependencies_def)

text \<open>Every dependency that an import of the package resolves to, with repetitions.\<close>

definition import_dependencies ::
  "(path \<Rightarrow> bool) \<Rightarrow> manifest_loader \<Rightarrow> asp_rust_scope \<Rightarrow> parsed_module list \<Rightarrow> owner_dependency list" where
  "import_dependencies is_file load scope ms =
     (let prelim = preliminary_module scope (source_files_of (scope_source_paths scope) ms)
            (reachable_test_module_files is_file load scope ms);
          known = known_module_namespace_paths (map prelim ms)
      in concat (map (\<lambda>m. module_dependencies m (prelim m) known) ms))"

lemma tree_modules_summary:
  fixes is_file load scope ms
  defines "prelim \<equiv> preliminary_module scope (source_files_of (scope_source_paths scope) ms)
            (reachable_test_module_files is_file load scope ms)"
  shows "tree_modules (rust_reasoning_tree_facts is_file load scope ms) =
    map (\<lambda>m. (prelim m)\<lparr>mod_import_summary := import_summary m (prelim m) (known_module_namespace_paths (map prelim ms))\<rparr>) ms"
  by (simp add: rust_reasoning_tree_facts_def Let_def zip_map1 prelim_def) (simp add: zip_same_conv_map)

lemma least_dependencies_superset:
  assumes m: "least_dependencies D m" and sub: "D \<subseteq> D'"
    and keys: "owner_dependency_key ` D = owner_dependency_key ` D'"
    and below: "\<And>d'. d' \<in> D' \<Longrightarrow> \<exists>e \<in> D. owner_dependency_key e = owner_dependency_key d' \<and> dep_line e \<le> dep_line d'"
  shows "least_dependencies D' m"
proof -
  have "d \<in> D' \<and> owner_dependency_key d = k \<and> (\<forall>d' \<in> D'. owner_dependency_key d' = k \<longrightarrow> dep_line d \<le> dep_line d')"
    if "bmap_get m k = Some d" for k d
  proof (intro conjI ballI impI)
    have d: "d \<in> D" "owner_dependency_key d = k"
      and le: "e \<in> D \<Longrightarrow> owner_dependency_key e = k \<Longrightarrow> dep_line d \<le> dep_line e" for e
      using m that by (auto simp: least_dependencies_def simp del: split_paired_All)
    show "d \<in> D'" "owner_dependency_key d = k" using d sub by auto
    fix d' assume d': "d' \<in> D'" "owner_dependency_key d' = k"
    from below [OF d'(1)] obtain e where "e \<in> D" "owner_dependency_key e = k" "dep_line e \<le> dep_line d'"
      using d'(2) by auto
    with le show "dep_line d \<le> dep_line d'" by (metis le_trans)
  qed
  with m keys show ?thesis by (auto simp: least_dependencies_def simp del: split_paired_All)
qed

text \<open>Merging per module and then over all modules keeps a least dependency of every key.\<close>

lemma least_dependencies_nested:
  "least_dependencies (\<Union>m \<in> set ms. set (f m))
     (fold merge_owner_dependency (concat (map (\<lambda>m. bmap_values (fold merge_owner_dependency (f m) [])) ms)) [])"
  (is "least_dependencies ?D (fold _ ?ds [])")
proof -
  note inner = least_dependencies_values [OF least_dependencies_collect]
  have sub: "set ?ds \<subseteq> ?D" using inner(2) by fastforce
  have keys: "owner_dependency_key ` set ?ds = owner_dependency_key ` ?D"
  proof -
    have "owner_dependency_key ` set ?ds =
      (\<Union>m \<in> set ms. owner_dependency_key ` set (bmap_values (fold merge_owner_dependency (f m) [])))"
      by (simp add: image_UN)
    also have "\<dots> = (\<Union>m \<in> set ms. owner_dependency_key ` set (f m))"
      by (simp only: inner(3))
    finally show ?thesis by (simp add: image_UN)
  qed
  have below: "\<exists>e \<in> set ?ds. owner_dependency_key e = owner_dependency_key d' \<and> dep_line e \<le> dep_line d'" if "d' \<in> ?D" for d'
  proof -
    from that obtain m where m: "m \<in> set ms" "d' \<in> set (f m)" by auto
    then have "owner_dependency_key d' \<in> owner_dependency_key ` set (bmap_values (fold merge_owner_dependency (f m) []))"
      by (simp only: inner(3)) blast
    then obtain e where "e \<in> set (bmap_values (fold merge_owner_dependency (f m) []))"
      "owner_dependency_key e = owner_dependency_key d'" by (auto simp del: set_map)
    with inner(4) [OF this(1) m(2)] m show ?thesis by (auto intro!: bexI [of _ e])
  qed
  show ?thesis
    by (rule least_dependencies_superset [OF least_dependencies_collect sub keys]) (rule below)
qed

text \<open>
  The owner dependencies of a reasoning tree are the dependencies its imports resolve to, one for each
  combination of source file, target file, root kind and test context, at the smallest line of that
  combination.
\<close>

lemma owner_dependencies_exact:
  fixes is_file load scope ms
  defines "deps \<equiv> tree_owner_dependencies (rust_reasoning_tree_facts is_file load scope ms)"
    and "imported \<equiv> import_dependencies is_file load scope ms"
  shows "distinct (map owner_dependency_key deps) \<and> set deps \<subseteq> set imported \<and>
    (\<lambda>d. (owner_dependency_key d, dep_line d)) ` set deps =
      (\<lambda>k. (k, Min (dep_line ` {d \<in> set imported. owner_dependency_key d = k}))) `
        owner_dependency_key ` set imported"
proof -
  define prelim where "prelim = preliminary_module scope (source_files_of (scope_source_paths scope) ms)
            (reachable_test_module_files is_file load scope ms)"
  define f where "f m = module_dependencies m (prelim m) (known_module_namespace_paths (map prelim ms))" for m
  define merged where "merged = fold merge_owner_dependency
    (concat (map (\<lambda>m. bmap_values (fold merge_owner_dependency (f m) [])) ms)) []"
  have imported: "set imported = (\<Union>m \<in> set ms. set (f m))"
    by (auto simp: imported_def import_dependencies_def Let_def f_def prelim_def)
  have least: "least_dependencies (set imported) merged"
    unfolding imported merged_def by (rule least_dependencies_nested)
  have deps: "deps = sort_key (\<lambda>d. (length (dep_source_namespace d), dep_source_path d, dep_target_path d)) (bmap_values merged)"
    unfolding deps_def merged_def f_def prelim_def rust_reasoning_tree_facts_def Let_def owner_dependency_facts_def
    by (simp add: zip_map1 o_def zip_same_conv_map import_summary_dependencies)
  have set_deps: "set deps = set (bmap_values merged)" by (simp add: deps)
  have "distinct (map owner_dependency_key (bmap_values merged))"
    using least by (simp only: least_dependencies_values(1) [OF least])
      (simp add: least_dependencies_def ascending_distinct)
  then have distinct: "distinct (map owner_dependency_key deps)"
    by (metis (no_types, lifting) deps distinct_map distinct_sort set_sort)
  have line_no: "dep_line d = Min (dep_line ` {d' \<in> set imported. owner_dependency_key d' = owner_dependency_key d})"
    if "d \<in> set deps" for d
  proof (rule Min_eqI [symmetric])
    show "dep_line d \<in> dep_line ` {d' \<in> set imported. owner_dependency_key d' = owner_dependency_key d}"
      using that least_dependencies_values(2) [OF least] by (auto simp: set_deps simp del: set_map)
  qed (use that least_dependencies_values(4) [OF least] in \<open>auto simp: set_deps simp del: set_map\<close>)
  have keys: "owner_dependency_key ` set deps = owner_dependency_key ` set imported"
    unfolding set_deps by (rule least_dependencies_values(3) [OF least])
  have "(\<lambda>d. (owner_dependency_key d, dep_line d)) ` set deps =
      (\<lambda>k. (k, Min (dep_line ` {d \<in> set imported. owner_dependency_key d = k}))) ` owner_dependency_key ` set deps"
    by (auto simp: image_iff line_no)
  with distinct keys show ?thesis
    using least_dependencies_values(2) [OF least] by (simp add: set_deps del: set_map)
qed

end
