(* ===== verification/Rule_Evaluation.thy ===== *)
theory Rule_Evaluation
  imports Reasoning_Tree
begin

text \<open>
  What the rule evaluators share: the rule map that a pack builds, the indexing \<open>rules[ID]\<close>, which panics when
  the id is missing, the display helper of \<open>src/rules/support.rs\<close>, the documentation markers of
  \<open>src/rules/agent_policy/doc_boundary.rs\<close>, and the syntax pack of \<open>src/rules/syntax.rs\<close>.

  An evaluator returns its findings, or \<open>None\<close> for a panic. The locale \<open>rule_catalog\<close> is the contract between a
  catalog and the evaluators that index it: the ids they use are present, and every entry is filed under its
  own id and pack. The lemmas that a finding is well formed are proved once inside it and reach the packs
  through its interpretations on their catalogs.
\<close>

type_synonym rule_map = "(string \<times> asp_rust_rule) list"
type_synonym raised = "asp_rust_finding list option"

definition with_rule :: "rule_map \<Rightarrow> string \<Rightarrow> (asp_rust_rule \<Rightarrow> asp_rust_finding list) \<Rightarrow> raised" where
  "with_rule rules rid f = map_option f (bmap_get rules rid)"

definition raise_all :: "raised list \<Rightarrow> raised" where
  "raise_all rs = map_option concat (those rs)"

text \<open>\<open>xs[i]\<close>, which panics outside the list.\<close>

definition nth_opt :: "'a list \<Rightarrow> nat \<Rightarrow> 'a option" where
  "nth_opt xs i = (if i < length xs then Some (xs ! i) else None)"

definition display_path :: "path \<Rightarrow> string" where
  "display_path p = replace_char CHR 0x5C CHR ''/'' (display p)"

text \<open>\<open>map.entry(k).or_default().push(v)\<close>, and the groups it collects over a list.\<close>

definition group_push :: "'k::linorder \<Rightarrow> 'v \<Rightarrow> ('k \<times> 'v list) list \<Rightarrow> ('k \<times> 'v list) list" where
  "group_push k v m = bmap_insert k ((case bmap_get m k of Some vs \<Rightarrow> vs | None \<Rightarrow> []) @ [v]) m"

definition group_by :: "('a \<Rightarrow> 'k::linorder) \<Rightarrow> ('a \<Rightarrow> 'v) \<Rightarrow> 'a list \<Rightarrow> ('k \<times> 'v list) list" where
  "group_by key val xs = fold (\<lambda>x. group_push (key x) (val x)) xs []"

lemma fold_group_push:
  "ascending (bmap_keys m) \<Longrightarrow> ascending (bmap_keys (fold (\<lambda>x. group_push (key x) (val x)) xs m)) \<and>
   bmap_get (fold (\<lambda>x. group_push (key x) (val x)) xs m) k =
     (case map val (filter (\<lambda>x. key x = k) xs) of [] \<Rightarrow> bmap_get m k
      | vs \<Rightarrow> Some ((case bmap_get m k of Some us \<Rightarrow> us | None \<Rightarrow> []) @ vs))"
proof (induction xs arbitrary: m)
  case (Cons x xs)
  from Cons.IH [of "group_push (key x) (val x) m"] Cons.prems show ?case
    by (auto simp: group_push_def bmap_simps split: option.splits list.splits)
qed simp

lemma group_by_iff:
  "(k, vs) \<in> set (group_by key val xs) \<longleftrightarrow> vs = map val (filter (\<lambda>x. key x = k) xs) \<and> vs \<noteq> []"
proof -
  have "ascending (bmap_keys (group_by key val xs))"
    "bmap_get (group_by key val xs) k = (case map val (filter (\<lambda>x. key x = k) xs) of [] \<Rightarrow> None | vs \<Rightarrow> Some vs)"
    using fold_group_push [of "[]" key val xs k] by (auto simp: group_by_def split: list.splits)
  then show ?thesis by (auto simp: bmap_in_set_iff split: list.splits)
qed

text \<open>Mapping the values of a group by the way, or afterwards.\<close>

lemma bmap_insert_map: "bmap_insert k (g v) (map (map_prod id g) m) = map (map_prod id g) (bmap_insert k v m)"
  by (induction k v m rule: bmap_insert.induct) auto

lemma map_of_map_prod: "map_of (map (map_prod id g) m) k = map_option g (map_of m k)"
  by (induction m) auto

lemma group_push_map: "group_push k (f v) (map (map_prod id (map f)) m) = map (map_prod id (map f)) (group_push k v m)"
  unfolding group_push_def bmap_insert_map [symmetric] map_of_map_prod by (simp split: option.split)

lemma group_by_map: "group_by key (\<lambda>x. f (val x)) xs = map (map_prod id (map f)) (group_by key val xs)"
proof -
  have "fold (\<lambda>x. group_push (key x) (f (val x))) xs (map (map_prod id (map f)) m) =
      map (map_prod id (map f)) (fold (\<lambda>x. group_push (key x) (val x)) xs m)" for m
    by (induction xs arbitrary: m) (simp_all add: group_push_map)
  from this [of "[]"] show ?thesis by (simp add: group_by_def)
qed

lemma group_by_cong: "(\<And>x. x \<in> set xs \<Longrightarrow> key x = key' x \<and> val x = val' x) \<Longrightarrow> group_by key val xs = group_by key' val' xs"
  unfolding group_by_def by (intro fold_cong) auto

lemma group_by_mapped: "group_by key val (map f xs) = group_by (\<lambda>x. key (f x)) (\<lambda>x. val (f x)) xs"
  by (simp add: group_by_def fold_map comp_def)

text \<open>
  Grouping the positions of a list and reading them back with \<open>xs[i]\<close> gives the groups of its elements, and no index is out of range.
\<close>

lemma group_indices:
  "map (map_prod id (map (nth_opt xs))) (group_by (\<lambda>e. key (snd e)) fst (filter (\<lambda>e. P (snd e)) (enumerate 0 xs))) =
   map (map_prod id (map Some)) (group_by key id (filter P xs))"
proof -
  let ?es = "filter (\<lambda>e. P (snd e)) (enumerate 0 xs)"
  have "nth_opt xs (fst e) = Some (snd e)" if "e \<in> set ?es" for e
    using that by (auto simp: in_set_enumerate_eq nth_opt_def)
  then have "group_by (\<lambda>e. key (snd e)) (\<lambda>e. nth_opt xs (fst e)) ?es = group_by (\<lambda>e. key (snd e)) (\<lambda>e. Some (snd e)) ?es"
    by (intro group_by_cong) simp
  then have "map (map_prod id (map (nth_opt xs))) (group_by (\<lambda>e. key (snd e)) fst ?es) =
      map (map_prod id (map Some)) (group_by (\<lambda>e. key (snd e)) snd ?es)"
    by (simp only: group_by_map)
  also have "group_by (\<lambda>e. key (snd e)) snd ?es = group_by key id (map snd ?es)" by (simp add: group_by_mapped)
  also have "map snd ?es = filter P (map snd (enumerate 0 xs))" unfolding filter_map comp_def by (rule refl)
  finally show ?thesis unfolding map_snd_enumerate .
qed

lemma those_map_Some_id [simp]: "those (map Some xs) = Some xs"
  by (induction xs) simp_all

section \<open>Documentation markers\<close>

definition docs_contain_marker :: "string \<Rightarrow> string list \<Rightarrow> bool" where
  "docs_contain_marker docs markers =
     list_ex (\<lambda>marker. contains_sub (to_ascii_lowercase docs) (to_ascii_lowercase marker)) markers"

text \<open>
  The upward scan of \<open>documented_agent_boundary\<close>: the lines at and above the anchor, nearest first. The flag says
  whether the line at hand is still the anchor line, which need not be a comment.
\<close>

fun collect_boundary_docs :: "string list \<Rightarrow> bool \<Rightarrow> string \<Rightarrow> string" where
  "collect_boundary_docs [] is_anchor docs = docs"
| "collect_boundary_docs (l # ls) is_anchor docs =
     (let trimmed = trim_start l in
      if starts_with trimmed ''///'' then collect_boundary_docs ls False (docs @ drop 3 trimmed @ [CHR 0x0A])
      else if starts_with trimmed ''//!'' then collect_boundary_docs ls False (docs @ drop 3 trimmed @ [CHR 0x0A])
      else if starts_with trimmed ''#['' \<or> trimmed = [] then collect_boundary_docs ls False docs
      else if is_anchor then collect_boundary_docs ls False docs
      else docs)"

definition documented_agent_boundary :: "string \<Rightarrow> nat \<Rightarrow> string list \<Rightarrow> bool" where
  "documented_agent_boundary src n markers =
     docs_contain_marker (collect_boundary_docs (rev (take n (str_lines src))) True '''') markers"

text \<open>The scan as the code writes it, with \<open>lines[index]\<close>: its index is never out of range, so it does not panic.\<close>

fun boundary_docs_above :: "string list \<Rightarrow> nat \<Rightarrow> bool \<Rightarrow> string \<Rightarrow> string option" where
  "boundary_docs_above ls 0 is_anchor docs = Some docs"
| "boundary_docs_above ls (Suc index) is_anchor docs =
     (case nth_opt ls index of
        None \<Rightarrow> None
      | Some l \<Rightarrow>
          (let trimmed = trim_start l in
           if starts_with trimmed ''///'' then boundary_docs_above ls index False (docs @ drop 3 trimmed @ [CHR 0x0A])
           else if starts_with trimmed ''//!'' then boundary_docs_above ls index False (docs @ drop 3 trimmed @ [CHR 0x0A])
           else if starts_with trimmed ''#['' \<or> trimmed = [] then boundary_docs_above ls index False docs
           else if is_anchor then boundary_docs_above ls index False docs
           else Some docs))"

definition documented_agent_boundary_at :: "string \<Rightarrow> nat \<Rightarrow> string list \<Rightarrow> bool option" where
  "documented_agent_boundary_at src n markers =
     (let ls = str_lines src in
      map_option (\<lambda>docs. docs_contain_marker docs markers) (boundary_docs_above ls (min n (length ls)) True []))"

lemma boundary_docs_above_eq:
  "n \<le> length ls \<Longrightarrow> boundary_docs_above ls n is_anchor docs = Some (collect_boundary_docs (rev (take n ls)) is_anchor docs)"
  by (induction n arbitrary: is_anchor docs) (simp_all add: nth_opt_def take_Suc_conv_app_nth Let_def)

lemma documented_agent_boundary_at_eq:
  "documented_agent_boundary_at src n markers = Some (documented_agent_boundary src n markers)"
  by (simp add: documented_agent_boundary_at_def documented_agent_boundary_def boundary_docs_above_eq Let_def min_def)

fun collect_module_docs :: "string list \<Rightarrow> string \<Rightarrow> string" where
  "collect_module_docs [] docs = docs"
| "collect_module_docs (l # ls) docs =
     (let trimmed = trim_start l in
      if starts_with trimmed ''//!'' then collect_module_docs ls (docs @ drop 3 trimmed @ [CHR 0x0A])
      else if starts_with trimmed ''#!['' \<or> trimmed = [] then collect_module_docs ls docs
      else docs)"

definition module_doc_contains :: "string \<Rightarrow> string list \<Rightarrow> bool" where
  "module_doc_contains src markers = docs_contain_marker (collect_module_docs (str_lines src) '''') markers"

section \<open>The syntax pack\<close>

definition syntax_finding :: "asp_rust_rule \<Rightarrow> parsed_module \<Rightarrow> asp_rust_finding" where
  "syntax_finding rule m =
     (let loc = (case pm_error_span m of
            None \<Rightarrow> file_location (pm_path m)
          | Some start \<Rightarrow> span_location (Some (pm_path m)) start)
      in finding_from_rule rule
           (display_path (pm_path m) @ '' could not be parsed as Rust syntax: '' @
            (case module_parse_error (pm_report m) of Some e \<Rightarrow> e | None \<Rightarrow> ''unknown parse error''))
           loc (source_line_at (pm_source m) (loc_line loc)) ''repair Rust syntax near this token'')"

definition syntax_evaluate :: "parsed_module list \<Rightarrow> asp_rust_finding list" where
  "syntax_evaluate ms =
     map (syntax_finding (hd syntax_rule_list)) (filter (\<lambda>m. \<not> module_is_valid (pm_report m)) ms)"

section \<open>The contract of a catalog\<close>

definition of_rule :: "asp_rust_rule \<Rightarrow> asp_rust_finding \<Rightarrow> bool" where
  "of_rule r f \<longleftrightarrow> finding_rule_id f = rule_id r \<and> finding_pack_id f = pack_id r \<and> severity f = rule_severity r \<and>
     finding_title f = rule_title r \<and> finding_requirement f = rule_requirement r"

lemma of_rule_finding [simp]: "of_rule r (finding_from_rule r s l src lbl)"
  by (simp add: of_rule_def finding_from_rule_def)

text \<open>A well-raised result is not a panic, and each of its findings is of a rule of the map with an id of the set.\<close>

definition well_raised :: "rule_map \<Rightarrow> string set \<Rightarrow> raised \<Rightarrow> bool" where
  "well_raised rules ids x \<longleftrightarrow> (\<exists>fs. x = Some fs \<and>
     (\<forall>f \<in> set fs. finding_rule_id f \<in> ids \<and> (\<exists>r. bmap_get rules (finding_rule_id f) = Some r \<and> of_rule r f)))"

lemma well_raised_empty [simp]: "well_raised rules ids (Some [])"
  by (simp add: well_raised_def)

lemma well_raised_mono: "well_raised rules ids x \<Longrightarrow> ids \<subseteq> ids' \<Longrightarrow> well_raised rules ids' x"
  by (fastforce simp: well_raised_def)

lemma raise_all_Nil [simp]: "raise_all [] = Some []"
  by (simp add: raise_all_def)

lemma raise_all_Cons:
  "raise_all (x # xs) = (case x of None \<Rightarrow> None | Some fs \<Rightarrow> map_option (\<lambda>gs. fs @ gs) (raise_all xs))"
  by (auto simp: raise_all_def option.map_comp comp_def split: option.splits)

lemma well_raised_all:
  "(\<And>x. x \<in> set xs \<Longrightarrow> well_raised rules ids x) \<Longrightarrow> well_raised rules ids (raise_all xs)"
proof (induction xs)
  case (Cons x xs)
  from Cons.prems [of x] obtain fs where fs: "x = Some fs"
    and fs_ok: "\<forall>f \<in> set fs. finding_rule_id f \<in> ids \<and> (\<exists>r. bmap_get rules (finding_rule_id f) = Some r \<and> of_rule r f)"
    by (auto simp: well_raised_def)
  from Cons have "well_raised rules ids (raise_all xs)" by simp
  then obtain gs where gs: "raise_all xs = Some gs"
    and gs_ok: "\<forall>f \<in> set gs. finding_rule_id f \<in> ids \<and> (\<exists>r. bmap_get rules (finding_rule_id f) = Some r \<and> of_rule r f)"
    by (auto simp: well_raised_def)
  from fs gs fs_ok gs_ok show ?case by (auto simp: well_raised_def raise_all_Cons)
qed simp

text \<open>The findings of one rule in a combined result come from the parts that can raise it.\<close>

lemma raise_all_filter:
  "raise_all xs = Some fs \<Longrightarrow> filter P fs = concat (map (\<lambda>x. filter P (the x)) xs)"
  by (induction xs arbitrary: fs) (auto simp: raise_all_Cons split: option.splits)

lemma well_raised_filter:
  "well_raised rules S x \<Longrightarrow> rid \<notin> S \<Longrightarrow> filter (\<lambda>f. finding_rule_id f = rid) (the x) = []"
  by (auto simp: well_raised_def filter_empty_conv)

lemma well_raised_if:
  "(P \<Longrightarrow> well_raised rules ids x) \<Longrightarrow> (\<not> P \<Longrightarrow> well_raised rules ids y) \<Longrightarrow> well_raised rules ids (if P then x else y)"
  by simp

locale rule_catalog =
  fixes rules :: rule_map and ids :: "string set" and pack :: string
  assumes present: "rid \<in> ids \<Longrightarrow> \<exists>r. bmap_get rules rid = Some r"
    and entry: "bmap_get rules rid = Some r \<Longrightarrow> rule_id r = rid \<and> pack_id r = pack"
begin

lemma well_raised_with_rule:
  assumes "rid \<in> ids" and "rid \<in> S" and "\<And>r f. f \<in> set (g r) \<Longrightarrow> of_rule r f"
  shows "well_raised rules S (with_rule rules rid g)"
proof -
  from present [OF assms(1)] obtain r where r: "bmap_get rules rid = Some r" by blast
  with entry assms show ?thesis
    by (auto simp: well_raised_def with_rule_def of_rule_def)
qed

lemma well_raised_pack:
  "well_raised rules ids x \<Longrightarrow> \<exists>fs. x = Some fs \<and> list_all (\<lambda>f. finding_pack_id f = pack \<and> finding_rule_id f \<in> ids) fs"
  by (auto simp: well_raised_def of_rule_def list_all_iff dest: entry)

end

text \<open>A map built from a list of rules of one pack satisfies the contract for the ids of the list.\<close>

lemma rule_catalog_of_list:
  assumes "list_all (\<lambda>r. pack_id r = pack) L"
  shows "rule_catalog (rules_by_id L) (set (map rule_id L)) pack"
proof
  fix rid assume "rid \<in> set (map rule_id L)"
  then have "rid \<in> set (bmap_keys (rules_by_id L))"
    unfolding rules_by_id_def bmap_keys_of_list by (simp add: image_comp comp_def)
  then show "\<exists>r. bmap_get (rules_by_id L) rid = Some r"
    by (metis dom_map_of_conv_image_fst domD list.set_map)
next
  fix rid r assume "bmap_get (rules_by_id L) rid = Some r"
  then show "rule_id r = rid \<and> pack_id r = pack"
    using assms by (auto simp: rules_by_id_def bmap_get_of_list list_all_iff dest!: map_of_SomeD)
qed

definition catalog_id_set :: "rule_pack \<Rightarrow> string set" where
  "catalog_id_set p = set (map rule_id (catalog_list p))"

lemma catalog_contract: "rule_catalog (rules_by_id (catalog_list p)) (catalog_id_set p) (rule_pack_id p)"
  unfolding catalog_id_set_def by (rule rule_catalog_of_list) (rule catalog_pack_ids)

interpretation modularity_catalog: rule_catalog "rules_by_id (catalog_list ModularityPack)"
  "catalog_id_set ModularityPack" "rule_pack_id ModularityPack"
  by (rule catalog_contract)

interpretation agent_catalog: rule_catalog "rules_by_id (catalog_list AgentPolicyPack)"
  "catalog_id_set AgentPolicyPack" "rule_pack_id AgentPolicyPack"
  by (rule catalog_contract)

interpretation project_catalog: rule_catalog "rules_by_id (catalog_list ProjectPolicyPack)"
  "catalog_id_set ProjectPolicyPack" "rule_pack_id ProjectPolicyPack"
  by (rule catalog_contract)

abbreviation modularity_rule_map :: rule_map where
  "modularity_rule_map \<equiv> rules_by_id (catalog_list ModularityPack)"

abbreviation agent_policy_rule_map :: rule_map where
  "agent_policy_rule_map \<equiv> rules_by_id (catalog_list AgentPolicyPack)"

abbreviation project_policy_rule_map :: rule_map where
  "project_policy_rule_map \<equiv> rules_by_id (catalog_list ProjectPolicyPack)"

text \<open>The ids of a catalog, enumerated; membership of a literal id is then decided by evaluation.\<close>

lemma catalog_id_set_eq: "catalog_id_set p = set (rule_ids p @ unlisted_rule_ids p)"
  by (simp only: catalog_id_set_def catalog_ids)

end
