(* ===== verification/Cargo_Dependency_Facts.thy ===== *)
theory Cargo_Dependency_Facts
  imports Cargo_Manifest "HOL-Library.Option_ord"
begin

text \<open>
  The dependency facts of a manifest: \<open>src/parser/cargo_dependency_facts.rs\<close>. The facts of all dependency tables,
  target tables included, are sorted by their fields and repeated facts are dropped.
\<close>

datatype cargo_dependency_kind = NormalDep | DevDep | BuildDep

fun cargo_dependency_kind_rank :: "cargo_dependency_kind \<Rightarrow> nat" where
  "cargo_dependency_kind_rank NormalDep = 0"
| "cargo_dependency_kind_rank DevDep = 1"
| "cargo_dependency_kind_rank BuildDep = 2"

record cargo_dependency_facts =
  cd_dependency_key :: string
  cd_import_name :: string
  cd_package_name :: string
  cd_version_req :: "string option"
  cd_kind :: cargo_dependency_kind
  cd_target :: "string option"
  cd_optional :: bool
  cd_features :: "string list"

text \<open>The derived order compares the fields in the order of their declaration.\<close>

definition cargo_dependency_key ::
  "cargo_dependency_facts \<Rightarrow> string \<times> string \<times> string \<times> string option \<times> nat \<times> string option \<times> bool \<times> string list" where
  "cargo_dependency_key d = (cd_dependency_key d, cd_import_name d, cd_package_name d, cd_version_req d,
     cargo_dependency_kind_rank (cd_kind d), cd_target d, cd_optional d, cd_features d)"

function drop_white_space :: "string \<Rightarrow> string" where
  "drop_white_space s = (case s of [] \<Rightarrow> []
     | c # cs \<Rightarrow> (case strip_head white_space s of Some t \<Rightarrow> drop_white_space t | None \<Rightarrow> c # drop_white_space cs))"
  by pat_completeness auto
termination
  by (relation "measure length") (auto dest: strip_head_length)

declare drop_white_space.simps [simp del]

definition compact_cfg_expression :: "string \<Rightarrow> string" where
  "compact_cfg_expression = drop_white_space"

definition dependency_fact :: "cargo_dependency_kind \<Rightarrow> string option \<Rightarrow> string \<times> dependency \<Rightarrow> cargo_dependency_facts" where
  "dependency_fact k target nd = (let (name, d) = nd in
     \<lparr>cd_dependency_key = name, cd_import_name = replace_char CHR ''-'' CHR ''_'' name,
      cd_package_name = (case dep_package d of Some p \<Rightarrow> p | None \<Rightarrow> name),
      cd_version_req = dep_try_req d, cd_kind = k, cd_target = map_option compact_cfg_expression target,
      cd_optional = dep_optional d, cd_features = remdups_adj (sort (dep_req_features d))\<rparr>)"

definition dependency_table_facts :: "cargo_dependency_kind \<Rightarrow> string option \<Rightarrow> deps_set \<Rightarrow> cargo_dependency_facts list" where
  "dependency_table_facts k target deps = map (dependency_fact k target) deps"

definition manifest_dependency_facts :: "manifest \<Rightarrow> cargo_dependency_facts list" where
  "manifest_dependency_facts m =
     dependency_table_facts NormalDep None (m_dependencies m) @
     dependency_table_facts DevDep None (m_dev_dependencies m) @
     dependency_table_facts BuildDep None (m_build_dependencies m) @
     concat (map (\<lambda>(target, t).
         dependency_table_facts NormalDep (Some target) (target_dependencies t) @
         dependency_table_facts DevDep (Some target) (target_dev_dependencies t) @
         dependency_table_facts BuildDep (Some target) (target_build_dependencies t))
       (m_target m))"

definition cargo_dependency_facts_from_manifest :: "manifest \<Rightarrow> cargo_dependency_facts list" where
  "cargo_dependency_facts_from_manifest m = remdups_adj (sort_key cargo_dependency_key (manifest_dependency_facts m))"

definition parse_cargo_dependency_facts :: "manifest_loader \<Rightarrow> path \<Rightarrow> cargo_dependency_facts list" where
  "parse_cargo_dependency_facts load project_root =
     (case read_manifest load project_root of
        None \<Rightarrow> [] | Some m \<Rightarrow> cargo_dependency_facts_from_manifest m)"

section \<open>Sorted and complete\<close>

lemma cargo_dependency_key_inj: "cargo_dependency_key a = cargo_dependency_key b \<Longrightarrow> a = b"
proof -
  have rank: "cargo_dependency_kind_rank k = cargo_dependency_kind_rank l \<Longrightarrow> k = l" for k l
    by (cases k; cases l) auto
  show "cargo_dependency_key a = cargo_dependency_key b \<Longrightarrow> a = b"
    by (auto simp: cargo_dependency_key_def dest: rank intro!: cargo_dependency_facts.equality)
qed

text \<open>Sorting by an injective key brings equal facts together, so dropping adjacent repetitions drops all of them.\<close>

lemma ascending_remdups_adj:
  fixes f :: "'a \<Rightarrow> 'b::linorder"
  assumes "inj f" "sorted (map f xs)"
  shows "ascending (map f (remdups_adj xs))"
  using assms(2)
proof (induction xs rule: remdups_adj.induct)
  case (3 x y xs)
  show ?case
  proof (cases "x = y")
    case False
    with assms(1) "3.prems" have "f x < f y" by (metis inj_eq list.simps(9) order.strict_iff_order sorted2)
    moreover have "\<forall>z \<in> set (y # xs). f y \<le> f z" using "3.prems" by auto
    ultimately have "\<forall>z \<in> set (remdups_adj (y # xs)). f x < f z" by (metis order_less_le_trans remdups_adj_set)
    with 3 False show ?thesis by auto
  qed (use 3 in auto)
qed auto

lemma ascending_dependency_facts:
  "ascending (map cargo_dependency_key (cargo_dependency_facts_from_manifest m))"
  unfolding cargo_dependency_facts_from_manifest_def
  by (rule ascending_remdups_adj) (auto intro: injI cargo_dependency_key_inj)

lemma set_dependency_facts: "set (cargo_dependency_facts_from_manifest m) = set (manifest_dependency_facts m)"
  by (simp add: cargo_dependency_facts_from_manifest_def)

end
