(* ===== verification/Project_Layout_Rules.thy ===== *)
theory Project_Layout_Rules
  imports Rule_Evaluation
begin

text \<open>
  The project rules on layout, scope and gates: \<open>config.rs\<close>, \<open>test_layout.rs\<close>, \<open>manifest.rs\<close>, \<open>source_scope.rs\<close>,
  \<open>source_tests.rs\<close>, \<open>test_bloat.rs\<close>, \<open>test_targets.rs\<close> and \<open>dev_gate.rs\<close> of \<open>src/rules/project_policy/\<close>, and the test
  target parser \<open>src/parser/cargo_test_targets.rs\<close>.

  What the rules ask of the operating system (files, directory entries, canonical paths) and of the parsers is
  one record of functions, the host.
\<close>

record host =
  host_fs :: file_system
  host_load :: manifest_loader
  host_canonicalize :: "path \<Rightarrow> path option"
  host_read_to_string :: "path \<Rightarrow> string result"
  host_parse :: source_parser

abbreviation host_exists :: "host \<Rightarrow> path \<Rightarrow> bool" where "host_exists h \<equiv> fs_exists (host_fs h)"
abbreviation host_is_file :: "host \<Rightarrow> path \<Rightarrow> bool" where "host_is_file h \<equiv> fs_is_file (host_fs h)"

text \<open>\<open>fs::read_dir\<close> and \<open>Path::is_dir\<close> follow links.\<close>

fun node_entries :: "fs_node \<Rightarrow> (string \<times> fs_node) list option" where
  "node_entries (Dir_node readable entries) = (if readable then Some entries else None)"
| "node_entries (Link_node (Some target)) = node_entries target"
| "node_entries _ = None"

fun node_is_dir :: "fs_node \<Rightarrow> bool" where
  "node_is_dir (Dir_node _ _) = True"
| "node_is_dir (Link_node (Some target)) = node_is_dir target"
| "node_is_dir _ = False"

definition read_dir :: "file_system \<Rightarrow> path \<Rightarrow> (string \<times> fs_node) list option" where
  "read_dir fs p = Option.bind (fs p) node_entries"

definition display_policy_path :: "path \<Rightarrow> path \<Rightarrow> string" where
  "display_policy_path project_root p =
     display_path (case strip_prefix p project_root of Some relative \<Rightarrow> relative | None \<Rightarrow> p)"

section \<open>Test targets\<close>

definition collect_test_target_files :: "host \<Rightarrow> path \<Rightarrow> cargo_manifest_facts \<Rightarrow> path list" where
  "collect_test_target_files h project_root facts =
     (let tests_dir = path_push project_root ''tests'';
          targets = (case read_dir (host_fs h) tests_dir of
            None \<Rightarrow> []
          | Some entries \<Rightarrow> fold (\<lambda>(name, node) ts.
              let p = entry_path tests_dir name in
              if node_is_file node \<and> is_rust_file p then bset_insert p ts else ts) entries [])
      in bset_extend targets (test_target_files facts))"

definition parse_cargo_test_targets :: "host \<Rightarrow> path \<Rightarrow> cargo_manifest_facts \<Rightarrow> parsed_module list" where
  "parse_cargo_test_targets h project_root facts =
     map (parse_rust_file (host_parse h) (host_read_to_string h)) (collect_test_target_files h project_root facts)"

section \<open>The fixed test layout\<close>

definition ALLOWED_TEST_DIRS :: "string list" where
  "ALLOWED_TEST_DIRS = [''common'', ''fixtures'', ''integration'', ''performance'', ''scenarios'', ''snapshots'', ''support'', ''unit'']"

definition ALLOWED_TEST_ROOT_FILES :: "string list" where
  "ALLOWED_TEST_ROOT_FILES = [''integration_test.rs'', ''lib.rs'', ''mod.rs'', ''performance_test.rs'', ''asp-rust-gate.rs'',
     ''scenarios_test.rs'', ''unit_test.rs'', ''xiuxian-testing-gate.rs'']"

definition is_allowed_test_dir :: "string \<Rightarrow> bool" where
  "is_allowed_test_dir name \<longleftrightarrow> name \<in> set ALLOWED_TEST_DIRS"

definition is_allowed_test_root_file :: "string \<Rightarrow> bool" where
  "is_allowed_test_root_file name \<longleftrightarrow> name \<in> set ALLOWED_TEST_ROOT_FILES"

definition is_allowed_root_test_suite_path :: "path \<Rightarrow> bool" where
  "is_allowed_root_test_suite_path p =
     (case p of
        Normal first # Normal suite # _ \<Rightarrow>
          first = ''tests'' \<and> (case to_str suite of Some s \<Rightarrow> is_allowed_test_dir s | None \<Rightarrow> False)
      | _ \<Rightarrow> False)"

definition crate_local_test_suite_path :: "host \<Rightarrow> path \<Rightarrow> path \<Rightarrow> path option" where
  "crate_local_test_suite_path h project_root p =
     (let ancestors = (case path_parent p of None \<Rightarrow> [] | Some parent \<Rightarrow> path_ancestors parent);
          crate_root = find (\<lambda>parent. parent \<noteq> [] \<and>
            host_is_file h (path_push (path_join project_root parent) ''Cargo.toml'')) ancestors
      in Option.bind (Option.bind crate_root (strip_prefix p))
           (\<lambda>relative. if path_starts_with relative [Normal ''tests''] then Some relative else None))"

definition is_allowed_test_suite_path :: "host \<Rightarrow> path \<Rightarrow> path \<Rightarrow> bool" where
  "is_allowed_test_suite_path h project_root p =
     (case crate_local_test_suite_path h project_root p of
        Some crate_local \<Rightarrow> is_allowed_root_test_suite_path crate_local
      | None \<Rightarrow> is_allowed_root_test_suite_path p)"

definition test_layout_entry :: "rule_map \<Rightarrow> path \<Rightarrow> string \<times> fs_node \<Rightarrow> raised" where
  "test_layout_entry rules tests_dir e =
     (let (name, node) = e; p = entry_path tests_dir name in
      if node_is_dir node then
        if is_allowed_test_dir name then Some []
        else with_rule rules ''RUST-AGENT-PROJECT-002'' (\<lambda>rule. [finding_from_rule rule
          (''tests/'' @ name @ '' is not a standard ASP Rust suite directory.'') (file_location p) None
          ''move or explicitly justify this tests directory''])
      else if \<not> is_rust_file p \<or> is_allowed_test_root_file name then Some []
      else with_rule rules ''RUST-AGENT-PROJECT-001'' (\<lambda>rule. [finding_from_rule rule
        (''tests/'' @ name @ '' is a root-level test file without an explicit harness role.'') (file_location p) None
        ''move this file under tests/unit or tests/integration'']))"

definition test_layout_findings :: "rule_map \<Rightarrow> host \<Rightarrow> path \<Rightarrow> raised" where
  "test_layout_findings rules h project_root =
     (case read_dir (host_fs h) (path_push project_root ''tests'') of
        None \<Rightarrow> Some []
      | Some entries \<Rightarrow> raise_all (map (test_layout_entry rules (path_push project_root ''tests'')) entries))"

section \<open>Manifest and scope\<close>

definition manifest_findings :: "rule_map \<Rightarrow> path \<Rightarrow> cargo_manifest_facts \<Rightarrow> raised" where
  "manifest_findings rules project_root facts =
     (if \<not> has_package facts then Some []
      else (case facts_package_edition facts of
          None \<Rightarrow> Some []
        | Some edition \<Rightarrow>
            if edition = ''2024'' then Some []
            else with_rule rules ''RUST-AGENT-PROJECT-MANIFEST-023'' (\<lambda>rule. [finding_from_rule rule
              (''Cargo.toml declares Rust edition '' @ edition @
               ''; current agent-authored packages should use edition 2024.'')
              (file_location (path_push project_root ''Cargo.toml''))
              (Some (''edition = '' @ [CHR 0x22] @ edition @ [CHR 0x22]))
              (''set package edition to '' @ [CHR 0x22] @ ''2024'' @ [CHR 0x22] @
               '' or document a bounded compatibility reason and migration plan'')])))"

definition normalize_scope_path :: "string \<Rightarrow> string" where
  "normalize_scope_path p = replace_char CHR 0x5C CHR ''/'' (trim_matches_char CHR ''/'' (trim p))"

definition explanation_is_missing :: "string \<Rightarrow> (string \<times> string) list \<Rightarrow> bool" where
  "explanation_is_missing p explanations =
     (case bmap_get explanations p of None \<Rightarrow> True | Some explanation \<Rightarrow> trim explanation = [])"

definition custom_path_lacks_explanation :: "string list \<Rightarrow> (string \<times> string) list \<Rightarrow> string \<Rightarrow> bool" where
  "custom_path_lacks_explanation default_paths explanations p =
     (let normalized = normalize_scope_path p in
      normalized \<noteq> [] \<and> normalized \<notin> set default_paths \<and> explanation_is_missing normalized explanations)"

definition custom_scope_path_finding :: "host \<Rightarrow> path \<Rightarrow> string \<Rightarrow> asp_rust_rule \<Rightarrow> string \<Rightarrow> asp_rust_finding" where
  "custom_scope_path_finding h project_root scope_label rule p =
     (let absolute_path = path_push project_root (normalize_scope_path p)
      in finding_from_rule rule
           (''Config adds custom '' @ scope_label @ '' scope path `'' @ display_policy_path project_root absolute_path @
            ''` without a non-empty explanation.'')
           (file_location (if host_exists h absolute_path then absolute_path else project_root)) None
           ''use with_source_path(path, explanation) or with_test_path(path, explanation) so the Agent explains why this scope is necessary'')"

definition default_scope_reduction_finding :: "path \<Rightarrow> path \<Rightarrow> string \<Rightarrow> string \<Rightarrow> asp_rust_rule \<Rightarrow> asp_rust_finding" where
  "default_scope_reduction_finding project_root p scope_label fix_text rule = finding_from_rule rule
     (''Config excludes Cargo-backed '' @ scope_label @ '' scope path `'' @ display_policy_path project_root p @
      ''` without a non-empty explanation.'')
     (file_location p) None
     (''use '' @ fix_text @ '' so the Agent explains why this Cargo-backed scope is reduced'')"

definition existing_cargo_test_targets :: "host \<Rightarrow> cargo_manifest_facts \<Rightarrow> path list" where
  "existing_cargo_test_targets h facts = filter (host_exists h) (test_target_files facts)"

definition default_source_reduction :: "host \<Rightarrow> path \<Rightarrow> asp_rust_config \<Rightarrow> asp_rust_rule \<Rightarrow> raised" where
  "default_source_reduction h project_root config rule =
     (if host_exists h (path_push project_root ''src'') \<and>
         ''src'' \<notin> set (map normalize_scope_path (source_dir_names config)) \<and>
         explanation_is_missing ''src'' (source_path_exclusion_explanations config)
      then Some [default_scope_reduction_finding project_root (path_push project_root ''src'') ''source''
        ''with_source_path_excluded(path, explanation)'' rule]
      else Some [])"

text \<open>\<open>cargo_test_targets[0]\<close> panics on an empty list.\<close>

definition default_test_reduction :: "host \<Rightarrow> path \<Rightarrow> asp_rust_config \<Rightarrow> cargo_manifest_facts \<Rightarrow> asp_rust_rule \<Rightarrow> raised" where
  "default_test_reduction h project_root config facts rule =
     (let default_test_path = path_push project_root ''tests'';
          targets = existing_cargo_test_targets h facts;
          has_cargo_test_coverage = (host_exists h default_test_path \<or> targets \<noteq> [])
      in if \<not> include_tests config then
           if has_cargo_test_coverage \<and> explanation_is_missing ''tests'' (test_path_exclusion_explanations config)
           then map_option (\<lambda>finding_path. [default_scope_reduction_finding project_root finding_path ''test''
               ''with_tests_excluded(explanation)'' rule])
             (if host_exists h default_test_path then Some default_test_path else nth_opt targets 0)
           else Some []
         else if \<not> host_exists h default_test_path then Some []
         else if ''tests'' \<notin> set (map normalize_scope_path (test_dir_names config)) \<and>
             explanation_is_missing ''tests'' (test_path_exclusion_explanations config)
         then Some [default_scope_reduction_finding project_root default_test_path ''test''
           ''with_test_path_excluded(path, explanation)'' rule]
         else Some [])"

definition source_scope_findings :: "rule_map \<Rightarrow> host \<Rightarrow> path \<Rightarrow> asp_rust_config \<Rightarrow> cargo_manifest_facts \<Rightarrow> raised" where
  "source_scope_findings rules h project_root config facts =
     (case bmap_get rules ''RUST-AGENT-PROJECT-013'' of
        None \<Rightarrow> None
      | Some custom_rule \<Rightarrow> (case bmap_get rules ''RUST-AGENT-PROJECT-014'' of
          None \<Rightarrow> None
        | Some reduction_rule \<Rightarrow> raise_all
            [Some (map (custom_scope_path_finding h project_root ''source'' custom_rule)
               (filter (custom_path_lacks_explanation [''src''] (source_path_explanations config)) (source_dir_names config))),
             Some (map (custom_scope_path_finding h project_root ''test'' custom_rule)
               (filter (custom_path_lacks_explanation [''tests''] (test_path_explanations config)) (test_dir_names config))),
             default_source_reduction h project_root config reduction_rule,
             default_test_reduction h project_root config facts reduction_rule]))"

section \<open>Source test mounts\<close>

definition mount_finding :: "parsed_module \<Rightarrow> asp_rust_rule \<Rightarrow> nat \<Rightarrow> string \<Rightarrow> string \<Rightarrow> asp_rust_finding" where
  "mount_finding m rule n summ advice = finding_from_rule rule summ
     (path_line_location (pm_path m) n) (source_line_at (pm_source m) n) advice"

definition source_test_mount :: "rule_map \<Rightarrow> host \<Rightarrow> path \<Rightarrow> parsed_module \<Rightarrow> module_declaration \<Rightarrow> raised" where
  "source_test_mount rules h project_root m d =
     (if decl_is_inline d then with_rule rules ''RUST-AGENT-PROJECT-003'' (\<lambda>rule. [mount_finding m rule (decl_line d)
         (display_path (pm_path m) @ '' contains inline #[cfg(test)] module `'' @ decl_ident d @ ''`.'')
         ''move this test module to tests/unit and mount it with #[path]''])
      else (case decl_path_attr d of
          None \<Rightarrow> with_rule rules ''RUST-AGENT-PROJECT-003'' (\<lambda>rule. [mount_finding m rule (decl_line d)
            (display_path (pm_path m) @ '' declares cfg(test) module `'' @ decl_ident d @ ''` without an external #[path].'')
            (''add a #[path = '' @ [CHR 0x22] @ ''...'' @ [CHR 0x22] @ ''] mount into tests/unit'')])
        | Some path_value \<Rightarrow> (case decl_resolved_path_attr d of
            None \<Rightarrow> Some []
          | Some resolved \<Rightarrow>
              (let relative = (case strip_prefix resolved project_root of Some r \<Rightarrow> r | None \<Rightarrow> resolved) in
               if \<not> host_exists h resolved \<or> \<not> path_starts_with relative [Normal ''tests'', Normal ''unit''] then
                 with_rule rules ''RUST-AGENT-PROJECT-004'' (\<lambda>rule. [mount_finding m rule (decl_line d)
                   (display_path (pm_path m) @ '' mounts `'' @ path_value @
                    ''`, but the resolved path should exist under tests/unit.'')
                   ''point this external test mount at an existing tests/unit file''])
               else Some []))))"

definition source_test_mount_findings :: "rule_map \<Rightarrow> host \<Rightarrow> asp_rust_scope \<Rightarrow> parsed_module list \<Rightarrow> raised" where
  "source_test_mount_findings rules h scope ms = raise_all
     (concat (map (\<lambda>m. map (source_test_mount rules h (scope_project_root scope) m) (cfg_test_modules (pm_syntax_facts m)))
       (filter (\<lambda>m. is_under_any_dir (pm_path m) (scope_source_paths scope)) ms)))"

section \<open>Test bloat\<close>

definition MAX_UNIT_TEST_EFFECTIVE_LINES :: nat where "MAX_UNIT_TEST_EFFECTIVE_LINES = 1000"
definition MIN_UNIT_TEST_FUNCTIONS :: nat where "MIN_UNIT_TEST_FUNCTIONS = 8"
definition MAX_INTEGRATION_TEST_EFFECTIVE_LINES :: nat where "MAX_INTEGRATION_TEST_EFFECTIVE_LINES = 1000"
definition MIN_INTEGRATION_TEST_FUNCTIONS :: nat where "MIN_INTEGRATION_TEST_FUNCTIONS = 12"
definition MAX_TEST_SUPPORT_EFFECTIVE_LINES :: nat where "MAX_TEST_SUPPORT_EFFECTIVE_LINES = 1000"

record leaf_bloat_limits =
  suite_name :: string
  max_effective_lines :: nat
  min_test_functions :: nat

definition is_under_suite :: "path \<Rightarrow> path \<Rightarrow> string \<Rightarrow> bool" where
  "is_under_suite project_root p suite =
     (case strip_prefix p project_root of
        None \<Rightarrow> False
      | Some relative \<Rightarrow> (case map component_str relative of
          tests_name # suite_dir # _ \<Rightarrow> tests_name = ''tests'' \<and> suite_dir = suite
        | _ \<Rightarrow> False))"

definition test_support_names :: "string list" where
  "test_support_names = [''support'', ''supports'', ''fixture'', ''fixtures'', ''helper'', ''helpers'']"

definition is_test_support_path :: "path \<Rightarrow> bool" where
  "is_test_support_path p \<longleftrightarrow> list_ex (\<lambda>c. component_str c \<in> set test_support_names) p \<or>
     (case path_file_stem p of Some stem \<Rightarrow> stem \<in> set test_support_names | None \<Rightarrow> False)"

definition is_suite_test_module :: "path \<Rightarrow> reasoning_tree \<Rightarrow> string \<Rightarrow> parsed_module \<Rightarrow> bool" where
  "is_suite_test_module project_root t suite m =
     (case reasoning_module_at t (pm_path m) of
        None \<Rightarrow> False
      | Some mf \<Rightarrow> module_is_valid (pm_report m) \<and> is_test_source (mod_source_path mf) \<and>
          is_under_suite project_root (pm_path m) suite)"

definition leaf_bloat_finding :: "rule_map \<Rightarrow> path \<Rightarrow> leaf_bloat_limits \<Rightarrow> reasoning_tree \<Rightarrow> parsed_module \<Rightarrow> raised" where
  "leaf_bloat_finding rules project_root limits t m =
     (let effective_lines = effective_code_lines (pm_source_metrics m);
          test_functions = test_function_count (pm_syntax_facts m)
      in if \<not> is_suite_test_module project_root t (suite_name limits) m \<or>
            effective_lines < max_effective_lines limits \<or> test_functions < min_test_functions limits then Some []
         else with_rule rules ''RUST-AGENT-PROJECT-005'' (\<lambda>rule. [finding_from_rule rule
           (display_policy_path project_root (pm_path m) @ '' carries '' @ show_nat effective_lines @
            '' effective lines across '' @ show_nat test_functions @ '' test functions.'')
           (file_location (pm_path m)) None ''split this test leaf into a folder-first suite'']))"

definition support_bloat_finding :: "rule_map \<Rightarrow> path \<Rightarrow> string \<Rightarrow> reasoning_tree \<Rightarrow> parsed_module \<Rightarrow> raised" where
  "support_bloat_finding rules project_root suite t m =
     (let effective_lines = effective_code_lines (pm_source_metrics m)
      in if \<not> is_suite_test_module project_root t suite m \<or> \<not> is_test_support_path (pm_path m) \<or>
            effective_lines < MAX_TEST_SUPPORT_EFFECTIVE_LINES then Some []
         else with_rule rules ''RUST-AGENT-PROJECT-024'' (\<lambda>rule. [finding_from_rule rule
           (display_policy_path project_root (pm_path m) @ '' carries '' @ show_nat effective_lines @
            '' effective lines in a test support module.'')
           (file_location (pm_path m)) None ''split this test support module into focused support owners'']))"

definition test_bloat_findings :: "rule_map \<Rightarrow> path \<Rightarrow> reasoning_tree \<Rightarrow> parsed_module list \<Rightarrow> raised" where
  "test_bloat_findings rules project_root t ms = raise_all
     (map (leaf_bloat_finding rules project_root \<lparr>suite_name = ''unit'',
         max_effective_lines = MAX_UNIT_TEST_EFFECTIVE_LINES, min_test_functions = MIN_UNIT_TEST_FUNCTIONS\<rparr> t) ms @
      map (leaf_bloat_finding rules project_root \<lparr>suite_name = ''integration'',
         max_effective_lines = MAX_INTEGRATION_TEST_EFFECTIVE_LINES, min_test_functions = MIN_INTEGRATION_TEST_FUNCTIONS\<rparr> t) ms @
      map (support_bloat_finding rules project_root ''unit'' t) ms @
      map (support_bloat_finding rules project_root ''integration'' t) ms)"

section \<open>Test target rules\<close>

definition is_explicit_suite_leaf_target :: "host \<Rightarrow> path \<Rightarrow> path \<Rightarrow> bool" where
  "is_explicit_suite_leaf_target h project_root candidate =
     is_allowed_test_suite_path h project_root
       (case strip_prefix candidate project_root of Some r \<Rightarrow> r | None \<Rightarrow> candidate)"

definition is_allowed_resolved_test_suite_path :: "host \<Rightarrow> path \<Rightarrow> path \<Rightarrow> bool" where
  "is_allowed_resolved_test_suite_path h project_root candidate \<longleftrightarrow> host_exists h candidate \<and>
     is_allowed_test_suite_path h project_root
       (case strip_prefix candidate project_root of Some r \<Rightarrow> r | None \<Rightarrow> candidate)"

definition is_test_target_aggregate_item_syntax :: "top_level_item \<Rightarrow> bool" where
  "is_test_target_aggregate_item_syntax item \<longleftrightarrow> item_is_macro item \<or> item_is_use item \<or>
     (case item_module item of Some d \<Rightarrow> \<not> decl_is_inline d | None \<Rightarrow> False)"

definition test_target_aggregate_findings :: "rule_map \<Rightarrow> host \<Rightarrow> path \<Rightarrow> parsed_module list \<Rightarrow> raised" where
  "test_target_aggregate_findings rules h project_root targets = with_rule rules ''RUST-AGENT-PROJECT-007'' (\<lambda>rule.
     concat (map (\<lambda>m. map (\<lambda>item. mount_finding m rule (item_line item)
           (display_policy_path project_root (pm_path m) @ '' contains top-level implementation item `'' @ item_kind item @ ''`.'')
           ''move test implementation into a suite module and mount it from the root target'')
         (filter (\<lambda>item. \<not> is_test_target_aggregate_item_syntax item) (top_level_items (pm_syntax_facts m))))
       (filter (\<lambda>m. \<not> is_explicit_suite_leaf_target h project_root (pm_path m)) targets)))"

definition target_mount_finding ::
  "host \<Rightarrow> path \<Rightarrow> parsed_module \<Rightarrow> asp_rust_rule \<Rightarrow> module_declaration \<Rightarrow> asp_rust_finding option" where
  "target_mount_finding h project_root m rule d =
     (case decl_path_attr d of
        None \<Rightarrow> Some (mount_finding m rule (decl_line d)
          (display_policy_path project_root (pm_path m) @ '' declares root module `'' @ decl_ident d @
           ''` without an explicit #[path].'')
          (''mount this root test module with #[path = '' @ [CHR 0x22] @ ''suite/file.rs'' @ [CHR 0x22] @ '']''))
      | Some path_value \<Rightarrow> (case decl_resolved_path_attr d of
          None \<Rightarrow> None
        | Some resolved \<Rightarrow>
            if is_allowed_resolved_test_suite_path h project_root resolved \<or>
               (case path_parent (pm_path m) of
                  Some parent \<Rightarrow> is_allowed_resolved_test_suite_path h project_root (path_push parent path_value)
                | None \<Rightarrow> False) then None
            else Some (mount_finding m rule (decl_line d)
              (display_policy_path project_root (pm_path m) @ '' mounts `'' @ path_value @
               ''`, but root test modules must resolve under an allowed tests suite directory.'')
              ''point this root test module at tests/unit, tests/integration, or another standard suite'')))"

definition test_target_module_mount_findings :: "rule_map \<Rightarrow> host \<Rightarrow> path \<Rightarrow> parsed_module list \<Rightarrow> raised" where
  "test_target_module_mount_findings rules h project_root targets = with_rule rules ''RUST-AGENT-PROJECT-008'' (\<lambda>rule.
     concat (map (\<lambda>m. List.map_filter (target_mount_finding h project_root m rule)
         (filter (\<lambda>d. \<not> decl_is_inline d) (List.map_filter item_module (top_level_items (pm_syntax_facts m)))))
       (filter (\<lambda>m. \<not> is_explicit_suite_leaf_target h project_root (pm_path m)) targets)))"

section \<open>The cargo test gate\<close>

definition same_path :: "host \<Rightarrow> path \<Rightarrow> path \<Rightarrow> bool" where
  "same_path h left right \<longleftrightarrow> left = right \<or>
     (case (host_canonicalize h left, host_canonicalize h right) of (Some l, Some r) \<Rightarrow> l = r | _ \<Rightarrow> False)"

definition LEGACY_BUILD_POLICY_FUNCTIONS :: "string list" where
  "LEGACY_BUILD_POLICY_FUNCTIONS = [''assert_asp_rust_build_clean'', ''assert_asp_rust_build_clean_with_config'',
     ''assert_asp_rust_build_clean_from_env'', ''assert_asp_rust_build_clean_from_env_with_config'',
     ''assert_asp_rust_cargo_check_clean'', ''assert_asp_rust_cargo_check_clean_with_config'',
     ''assert_asp_rust_cargo_check_clean_from_env'', ''assert_asp_rust_cargo_check_clean_from_env_with_config'',
     ''assert_asp_rust_downstream_policy'', ''assert_asp_rust_downstream_policy_from_env'',
     ''assert_asp_rust_downstream_policy_with_authority'']"

definition is_workspace_dev_gate_wrapper_function :: "string \<Rightarrow> bool" where
  "is_workspace_dev_gate_wrapper_function name \<longleftrightarrow>
     name \<notin> {''asp_rust_gate'', ''asp_rust_cargo_test_gate''} \<and>
     (starts_with name ''assert_'' \<or> ends_with name ''_gate'') \<and>
     (contains_sub name ''asp'' \<or> contains_sub name ''harness'') \<and>
     (contains_sub name ''gate'' \<or> contains_sub name ''policy'') \<and> contains_sub name ''_from_env''"

definition is_workspace_dev_gate_wrapper_macro :: "string \<Rightarrow> bool" where
  "is_workspace_dev_gate_wrapper_macro name \<longleftrightarrow>
     name \<notin> {''asp_rust_gate'', ''asp_rust_cargo_test_gate''} \<and> ends_with name ''_gate'' \<and>
     (contains_sub name ''asp'' \<or> contains_sub name ''harness'') \<and>
     (contains_sub name ''gate'' \<or> contains_sub name ''policy'')"

definition module_contains_cargo_test_gate :: "parsed_module \<Rightarrow> bool" where
  "module_contains_cargo_test_gate m =
     list_ex (\<lambda>i. inv_terminal_name i \<in> {''asp_rust_gate'', ''asp_rust_cargo_test_gate''}) (macro_invocations (pm_syntax_facts m))"

definition module_contains_workspace_dev_gate_wrapper_call :: "parsed_module \<Rightarrow> bool" where
  "module_contains_workspace_dev_gate_wrapper_call m =
     list_ex (\<lambda>i. is_workspace_dev_gate_wrapper_function (inv_terminal_name i)) (function_calls (pm_syntax_facts m))"

definition module_contains_dev_gate_call :: "parsed_module \<Rightarrow> bool" where
  "module_contains_dev_gate_call m \<longleftrightarrow>
     contains_function_call_named (pm_syntax_facts m) LEGACY_BUILD_POLICY_FUNCTIONS \<or>
     module_contains_workspace_dev_gate_wrapper_call m"

definition module_contains_workspace_test_gate_wrapper :: "parsed_module \<Rightarrow> bool" where
  "module_contains_workspace_test_gate_wrapper m \<longleftrightarrow> module_contains_workspace_dev_gate_wrapper_call m \<or>
     list_ex (\<lambda>i. is_workspace_dev_gate_wrapper_macro (inv_terminal_name i)) (macro_invocations (pm_syntax_facts m))"

definition root_build_script_module :: "host \<Rightarrow> path \<Rightarrow> parsed_module list \<Rightarrow> parsed_module option" where
  "root_build_script_module h project_root ms =
     find (\<lambda>m. same_path h (pm_path m) (path_push project_root ''build.rs'')) ms"

definition cargo_test_gate_findings ::
  "rule_map \<Rightarrow> host \<Rightarrow> path \<Rightarrow> cargo_manifest_facts \<Rightarrow> parsed_module list \<Rightarrow> parsed_module list \<Rightarrow> raised" where
  "cargo_test_gate_findings rules h project_root facts ms targets =
     (let build_script_path = path_push project_root ''build.rs'';
          manifest_path = path_push project_root ''Cargo.toml'';
          has_dev_gate_call = (case root_build_script_module h project_root ms of
            Some m \<Rightarrow> module_contains_dev_gate_call m | None \<Rightarrow> False);
          has_direct_cargo_test_gate = list_ex module_contains_cargo_test_gate (ms @ targets);
          has_build_support_test_gate = list_ex module_contains_workspace_test_gate_wrapper targets;
          has_cargo_test_gate = (has_direct_cargo_test_gate \<or> has_build_support_test_gate);
          harness_enabled = (references_harness_dev_dependency facts \<or> references_harness_build_dependency facts \<or>
            references_harness_non_optional_normal_dependency facts \<or> has_dev_gate_call \<or> has_cargo_test_gate)
      in if \<not> harness_enabled then Some []
         else raise_all
           [if references_harness_build_dependency facts \<or>
               (references_harness_non_optional_normal_dependency facts \<and> \<not> is_build_support_package facts)
            then with_rule rules ''RUST-AGENT-PROJECT-006'' (\<lambda>rule. [finding_from_rule rule
              (display_policy_path project_root manifest_path @ '' activates ASP Rust outside the test dependency graph.'')
              (file_location manifest_path) None
              ''move asp-rust to [dev-dependencies] so ordinary builds and downstream package consumers do not compile the policy provider''])
            else Some [],
            if has_dev_gate_call
            then with_rule rules ''RUST-AGENT-PROJECT-009'' (\<lambda>rule. [finding_from_rule rule
              (display_policy_path project_root build_script_path @ '' activates ASP Rust while Cargo is building the package.'')
              (file_location build_script_path) None
              ''remove the ASP Rust call from build.rs and mount asp_rust_cargo_test_gate! from a cargo-test target''])
            else Some [],
            if \<not> is_build_support_package facts \<and>
               ((\<not> references_harness_dev_dependency facts \<and> \<not> is_asp_rust_package facts \<and> \<not> has_build_support_test_gate) \<or>
                \<not> has_cargo_test_gate)
            then with_rule rules ''RUST-AGENT-PROJECT-012'' (\<lambda>rule. [finding_from_rule rule
              (display_policy_path project_root manifest_path @ '' does not have a complete cargo-test ASP Rust policy gate.'')
              (file_location manifest_path) None
              ''declare asp-rust or the workspace Build Support crate under [dev-dependencies], then mount its policy macro in a cargo-test target''])
            else Some []])"

end
