(* ===== verification/Project_Quality_Rules.thy ===== *)
theory Project_Quality_Rules
  imports Rule_Evaluation Cargo_Dependency_Facts Project_Layout_Rules
begin

text \<open>
  The project rules on quality and verification: \<open>quality.rs\<close> and \<open>verification_integration.rs\<close> of
  \<open>src/rules/project_policy/\<close>.
\<close>

fun list_position :: "('a \<Rightarrow> bool) \<Rightarrow> 'a list \<Rightarrow> nat option" where
  "list_position P [] = None"
| "list_position P (x # xs) = (if P x then Some 0 else map_option Suc (list_position P xs))"

definition quoted :: "string \<Rightarrow> string" where
  "quoted s = [CHR 0x22] @ s @ [CHR 0x22]"

section \<open>Waivers and wrappers\<close>

definition build_script_or_manifest :: "host \<Rightarrow> path \<Rightarrow> path" where
  "build_script_or_manifest h project_root =
     (let build_script = path_push project_root ''build.rs'' in
      if host_exists h build_script then build_script else path_push project_root ''Cargo.toml'')"

definition advice_explanation_is_structured :: "string \<Rightarrow> bool" where
  "advice_explanation_is_structured explanation =
     list_all (contains_sub (to_ascii_lowercase explanation))
       [''scope='', ''owner='', ''finding_category='', ''why_safe_now='', ''cleanup_trigger='']"

definition weak_advice_explanation_findings :: "rule_map \<Rightarrow> host \<Rightarrow> path \<Rightarrow> asp_rust_config \<Rightarrow> raised" where
  "weak_advice_explanation_findings rules h project_root config = raise_all
     (map (\<lambda>(field_name, explanation).
        case explanation of
          None \<Rightarrow> Some []
        | Some e \<Rightarrow> if advice_explanation_is_structured e then Some []
            else with_rule rules ''RUST-AGENT-PROJECT-017'' (\<lambda>rule. [finding_from_rule rule
              (field_name @ '' is configured without a structured allowance contract.'')
              (file_location (build_script_or_manifest h project_root)) None
              ''rewrite the explanation with scope=..., owner=..., finding_category=..., why_safe_now=..., and cleanup_trigger=...'']))
       [(''agent_advice_allow_explanation'', agent_advice_allow_explanation config),
        (''cargo_check_advice_allow_explanation'', cargo_check_advice_allow_explanation config),
        (''cargo_test_advice_allow_explanation'', cargo_test_advice_allow_explanation config)])"

definition line_has_fake_identity_fallback :: "string \<Rightarrow> bool" where
  "line_has_fake_identity_fallback l =
     list_ex (\<lambda>sentinel. contains_sub l (quoted sentinel))
       [''unknown'', ''unknown-cargo-package'', ''unknown-crate'', ''unknown-package'', ''default-crate'', ''todo'']"

text \<open>The first line with a given property, as a finding of the module.\<close>

definition module_line_finding ::
  "path \<Rightarrow> asp_rust_rule \<Rightarrow> string \<Rightarrow> string \<Rightarrow> parsed_module \<Rightarrow> nat \<Rightarrow> asp_rust_finding" where
  "module_line_finding project_root rule summ advice m n =
     mount_finding m rule n (display_policy_path project_root (pm_path m) @ summ) advice"

definition first_line_finding ::
  "path \<Rightarrow> asp_rust_rule \<Rightarrow> (string \<Rightarrow> bool) \<Rightarrow> string \<Rightarrow> string \<Rightarrow> parsed_module \<Rightarrow> asp_rust_finding option" where
  "first_line_finding project_root rule P summ advice m =
     map_option (\<lambda>i. module_line_finding project_root rule summ advice m (i + 1)) (list_position P (str_lines (pm_source m)))"

definition fake_identity_fallback_findings :: "rule_map \<Rightarrow> path \<Rightarrow> parsed_module list \<Rightarrow> raised" where
  "fake_identity_fallback_findings rules project_root ms = with_rule rules ''RUST-AGENT-PROJECT-018'' (\<lambda>rule.
     List.map_filter (first_line_finding project_root rule line_has_fake_identity_fallback
         '' synthesizes a fake Cargo package identity fallback.''
         ''fail closed when CARGO_PKG_NAME is missing or empty, or pass the crate label explicitly from the caller'')
       (filter (\<lambda>m. contains_sub (pm_source m) ''CARGO_PKG_NAME'') ms))"

definition is_redundant_member_dev_gate_alias :: "string \<Rightarrow> bool" where
  "is_redundant_member_dev_gate_alias function_name \<longleftrightarrow> starts_with function_name ''assert_member_'' \<and>
     contains_sub function_name ''dev_gate'' \<and> contains_sub function_name ''_from_env'' \<and>
     \<not> contains_sub function_name ''harness''"

text \<open>The subtractions saturate at zero, as those on naturals do.\<close>

definition item_range_contains_harness_alias_target :: "parsed_module \<Rightarrow> nat \<Rightarrow> nat \<Rightarrow> bool" where
  "item_range_contains_harness_alias_target m start_line end_line =
     list_ex (\<lambda>l. contains_sub l ''assert_member_harness_dev_gate_from_env'')
       (take ((end_line - start_line) + 1) (drop (start_line - 1) (str_lines (pm_source m))))"

definition redundant_workspace_wrapper_findings :: "rule_map \<Rightarrow> path \<Rightarrow> parsed_module list \<Rightarrow> raised" where
  "redundant_workspace_wrapper_findings rules project_root ms = with_rule rules ''RUST-AGENT-PROJECT-019'' (\<lambda>rule.
     concat (map (\<lambda>m. List.map_filter (\<lambda>item. case item_function_name item of
          None \<Rightarrow> None
        | Some function_name \<Rightarrow>
            if \<not> item_is_public item \<or> \<not> is_redundant_member_dev_gate_alias function_name \<or>
               \<not> item_range_contains_harness_alias_target m (item_line item) (item_end_line item) then None
            else Some (module_line_finding project_root rule
              ('' exposes redundant public dev-gate alias `'' @ function_name @ ''`.'')
              ''remove the alias, or add deprecation metadata plus a bounded migration deadline'' m (item_line item)))
        (top_level_items (pm_syntax_facts m))) ms))"

section \<open>Silent defaults, sentinels and telemetry\<close>

definition is_test_path_module :: "parsed_module \<Rightarrow> bool" where
  "is_test_path_module m \<longleftrightarrow> contains_sub (display (pm_path m)) ''/tests/'' \<or>
     contains_sub (display (pm_path m)) ([CHR 0x5C] @ ''tests'' @ [CHR 0x5C])"

definition is_quality_sensitive_module :: "parsed_module \<Rightarrow> bool" where
  "is_quality_sensitive_module m =
     list_ex (contains_sub (to_ascii_lowercase (display (pm_path m))))
       [''candidate'', ''dedup'', ''evidence'', ''graph'', ''lookup'', ''orchestrate'', ''policy'', ''query'', ''search'']"

definition line_has_silent_evidence_default :: "string \<Rightarrow> bool" where
  "line_has_silent_evidence_default l \<longleftrightarrow> contains_sub l ''unwrap_or_default'' \<and>
     list_ex (contains_sub (to_ascii_lowercase l))
       [''anchor'', ''candidate'', ''canonical'', ''entity'', ''evidence'', ''identity'', ''lineage'', ''path'', ''policy'', ''semantic'']"

definition silent_evidence_default_findings :: "rule_map \<Rightarrow> path \<Rightarrow> parsed_module list \<Rightarrow> raised" where
  "silent_evidence_default_findings rules project_root ms = with_rule rules ''RUST-AGENT-PROJECT-020'' (\<lambda>rule.
     List.map_filter (first_line_finding project_root rule line_has_silent_evidence_default
         '' silently defaults missing evidence-bearing data.''
         ''return Option/Result, skip with typed telemetry, or provide an explicit non-empty fallback reason'')
       (filter (\<lambda>m. \<not> is_test_path_module m \<and> is_quality_sensitive_module m) ms))"

definition line_has_source_location_sentinel :: "string \<Rightarrow> bool" where
  "line_has_source_location_sentinel l =
     (let trimmed = trim_start l in
      if starts_with trimmed [CHR 0x22] \<or> contains_sub trimmed ''line.contains('' then False
      else contains_sub l ''usize::MAX'' \<and>
        list_ex (contains_sub (to_ascii_lowercase l)) [''line'', ''column'', ''range'', ''location''])"

definition source_location_sentinel_findings :: "rule_map \<Rightarrow> path \<Rightarrow> parsed_module list \<Rightarrow> raised" where
  "source_location_sentinel_findings rules project_root ms = with_rule rules ''RUST-AGENT-PROJECT-021'' (\<lambda>rule.
     List.map_filter (first_line_finding project_root rule line_has_source_location_sentinel
         '' uses a sentinel source location value.''
         ''propagate a decode error or drop the candidate with explicit telemetry instead of inventing a source location'')
       (filter (\<lambda>m. \<not> is_test_path_module m \<and> is_quality_sensitive_module m) ms))"

definition is_candidate_lookup_module :: "parsed_module \<Rightarrow> bool" where
  "is_candidate_lookup_module m =
     (let p = to_ascii_lowercase (display (pm_path m)) in
      contains_sub p ''candidate'' \<or> (contains_sub p ''query'' \<and> contains_sub p ''lookup''))"

definition module_records_candidate_rejection :: "parsed_module \<Rightarrow> bool" where
  "module_records_candidate_rejection m =
     list_ex (contains_sub (pm_source m)) [''observe_skip'', ''observe_reject'', ''observe_filtered'', ''observe_miss'']"

text \<open>The lines are scanned with their one-based numbers; the window of four starts at the line at hand.\<close>

fun score_continue_line :: "nat \<Rightarrow> string list \<Rightarrow> nat option" where
  "score_continue_line n [] = None"
| "score_continue_line n (l # ls) =
     (let lower = to_ascii_lowercase l in
      if (contains_sub lower ''score <= 0.0'' \<or> contains_sub lower ''score == 0.0'') \<and>
         list_ex (\<lambda>c. contains_sub c ''continue;'') (take 4 (l # ls)) then Some n
      else score_continue_line (n + 1) ls)"

definition first_score_continue_line :: "string \<Rightarrow> nat option" where
  "first_score_continue_line src = score_continue_line 1 (str_lines src)"

definition candidate_loop_telemetry_findings :: "rule_map \<Rightarrow> path \<Rightarrow> parsed_module list \<Rightarrow> raised" where
  "candidate_loop_telemetry_findings rules project_root ms = with_rule rules ''RUST-AGENT-PROJECT-022'' (\<lambda>rule.
     List.map_filter (\<lambda>m. map_option (module_line_finding project_root rule
           '' skips candidate rows without rejection telemetry.''
           ''record skipped/filtered candidate counts or route the loop through a shared telemetry-aware candidate collector'' m)
         (first_score_continue_line (pm_source m)))
       (filter (\<lambda>m. \<not> is_test_path_module m \<and> is_candidate_lookup_module m \<and>
         contains_sub (pm_source m) ''observe_batch'' \<and> contains_sub (pm_source m) ''observe_match'' \<and>
         \<not> module_records_candidate_rejection m) ms))"

definition quality_findings :: "rule_map \<Rightarrow> host \<Rightarrow> path \<Rightarrow> asp_rust_config \<Rightarrow> parsed_module list \<Rightarrow> raised" where
  "quality_findings rules h project_root config ms = raise_all
     [weak_advice_explanation_findings rules h project_root config,
      fake_identity_fallback_findings rules project_root ms,
      redundant_workspace_wrapper_findings rules project_root ms,
      silent_evidence_default_findings rules project_root ms,
      source_location_sentinel_findings rules project_root ms,
      candidate_loop_telemetry_findings rules project_root ms]"

section \<open>Verification integration\<close>

definition has_explanation :: "string option \<Rightarrow> bool" where
  "has_explanation explanation = (case explanation of None \<Rightarrow> False | Some e \<Rightarrow> trim e \<noteq> [])"

definition config_allows_cargo_test_advice :: "asp_rust_config \<Rightarrow> bool" where
  "config_allows_cargo_test_advice config \<longleftrightarrow>
     has_explanation (cargo_test_advice_allow_explanation config) \<or> has_explanation (agent_advice_allow_explanation config)"

definition tree_source_modules :: "reasoning_tree \<Rightarrow> parsed_module list \<Rightarrow> parsed_module list" where
  "tree_source_modules t ms =
     filter (\<lambda>m. case reasoning_module_at t (pm_path m) of None \<Rightarrow> False | Some mf \<Rightarrow> mod_is_source mf) ms"

definition gate_invocation_findings ::
  "path \<Rightarrow> asp_rust_rule \<Rightarrow> (invocation \<Rightarrow> bool) \<Rightarrow> string \<Rightarrow> string \<Rightarrow> parsed_module list \<Rightarrow> asp_rust_finding list" where
  "gate_invocation_findings project_root rule P summ advice ms =
     List.map_filter (\<lambda>m. map_option (\<lambda>i. module_line_finding project_root rule summ advice m (inv_line i))
       (find (\<lambda>i. inv_terminal_name i = ''asp_rust_cargo_test_gate'' \<and> P i) (macro_invocations (pm_syntax_facts m)))) ms"

definition empty_cargo_test_gate_config_findings :: "rule_map \<Rightarrow> path \<Rightarrow> reasoning_tree \<Rightarrow> parsed_module list \<Rightarrow> raised" where
  "empty_cargo_test_gate_config_findings rules project_root t ms = with_rule rules ''RUST-AGENT-PROJECT-016'' (\<lambda>rule.
     gate_invocation_findings project_root rule (\<lambda>i. ''config'' \<notin> set (inv_argument_top_level_idents i))
       '' mounts the cargo-test harness gate without explicit verification config.''
       ''use asp_rust_cargo_test_gate!(config = { ... }) and declare verification profile hints, explicit suppressions, or skill bindings''
       (tree_source_modules t ms))"

definition advice_allow_explanation_findings ::
  "rule_map \<Rightarrow> path \<Rightarrow> reasoning_tree \<Rightarrow> asp_rust_config \<Rightarrow> parsed_module list \<Rightarrow> raised" where
  "advice_allow_explanation_findings rules project_root t config ms =
     (if config_allows_cargo_test_advice config then Some []
      else with_rule rules ''RUST-AGENT-PROJECT-015'' (\<lambda>rule.
        gate_invocation_findings project_root rule
          (\<lambda>i. ''advice'' \<in> set (inv_argument_top_level_idents i) \<and> ''allow'' \<in> set (inv_argument_top_level_idents i))
          '' mounts the cargo-test harness gate with advice allowance but no explicit allow explanation.''
          ''use with_cargo_test_advice_allow_explanation(...) to explain why advisory findings may pass this retired cargo-test gate''
          (tree_source_modules t ms)))"

definition verification_integration_findings ::
  "rule_map \<Rightarrow> path \<Rightarrow> reasoning_tree \<Rightarrow> asp_rust_config \<Rightarrow> parsed_module list \<Rightarrow> raised" where
  "verification_integration_findings rules project_root t config ms = raise_all
     [empty_cargo_test_gate_config_findings rules project_root t ms,
      advice_allow_explanation_findings rules project_root t config ms]"

section \<open>Performance benches of the workspace\<close>

definition is_rust_native_performance_adapter :: "string \<Rightarrow> bool" where
  "is_rust_native_performance_adapter adapter \<longleftrightarrow>
     adapter \<in> set [''criterion'', ''divan'', ''iai-callgrind'', ''iai_callgrind'']"

definition active_rust_native_performance_adapters :: "asp_rust_config \<Rightarrow> string list" where
  "active_rust_native_performance_adapters config =
     (let p = verification_policy config in
      if Performance \<in> set (disabled_task_kinds p) then []
      else (case bmap_get (skill_bindings p) Performance of
          None \<Rightarrow> []
        | Some b \<Rightarrow> if \<not> binding_is_configured b then []
            else (case binding_adapter b of
                None \<Rightarrow> []
              | Some adapter \<Rightarrow> if is_rust_native_performance_adapter adapter then [adapter] else [])))"

definition adapter_package_name :: "string \<Rightarrow> string" where
  "adapter_package_name adapter =
     (if adapter = ''criterion'' then ''criterion'' else if adapter = ''divan'' then ''divan''
      else if adapter = ''iai-callgrind'' \<or> adapter = ''iai_callgrind'' then ''iai-callgrind'' else '''')"

definition manifest_has_adapter_dependency :: "cargo_dependency_facts list \<Rightarrow> string \<Rightarrow> bool" where
  "manifest_has_adapter_dependency dependencies adapter =
     list_ex (\<lambda>d. cd_kind d \<in> {NormalDep, DevDep} \<and> cd_package_name d = adapter_package_name adapter) dependencies"

definition source_uses_criterion_macros :: "string \<Rightarrow> bool" where
  "source_uses_criterion_macros src \<longleftrightarrow> contains_sub src ''criterion_group!'' \<and> contains_sub src ''criterion_main!''"

definition source_uses_manual_criterion_main :: "string \<Rightarrow> bool" where
  "source_uses_manual_criterion_main src \<longleftrightarrow> contains_sub src ''Criterion::'' \<and> contains_sub src ''.final_summary()'' \<and>
     (contains_sub src ''.bench_function('' \<or> contains_sub src ''.benchmark_group('')"

definition bench_target_uses_adapter :: "host \<Rightarrow> cargo_bench_target_facts \<Rightarrow> string \<Rightarrow> bool" where
  "bench_target_uses_adapter h target adapter =
     (case host_read_to_string h (bench_path target) of
        Inl e \<Rightarrow> False
      | Inr src \<Rightarrow>
          if adapter = ''criterion'' then source_uses_criterion_macros src \<or> source_uses_manual_criterion_main src
          else if adapter = ''divan'' then contains_sub src ''divan::main'' \<or> contains_sub src ''#[divan::bench]''
          else if adapter = ''iai-callgrind'' \<or> adapter = ''iai_callgrind'' then
            contains_sub src ''iai_callgrind::'' \<or> contains_sub src ''library_benchmark_group!'' \<or> contains_sub src ''main!(''
          else False)"

definition target_matches_rust_native_performance ::
  "host \<Rightarrow> string list \<Rightarrow> cargo_dependency_facts list \<Rightarrow> cargo_bench_target_facts \<Rightarrow> bool" where
  "target_matches_rust_native_performance h adapters dependencies target \<longleftrightarrow>
     \<not> bench_harness target \<and> host_exists h (bench_path target) \<and>
     list_ex (\<lambda>adapter. manifest_has_adapter_dependency dependencies adapter \<and> bench_target_uses_adapter h target adapter) adapters"

definition has_rust_native_performance_bench ::
  "host \<Rightarrow> path \<Rightarrow> cargo_manifest_facts \<Rightarrow> string list \<Rightarrow> bool" where
  "has_rust_native_performance_bench h project_root facts adapters =
     list_ex (target_matches_rust_native_performance h adapters (parse_cargo_dependency_facts (host_load h) project_root))
       (bench_targets facts)"

definition workspace_performance_verification_findings ::
  "rule_map \<Rightarrow> host \<Rightarrow> path \<Rightarrow> asp_rust_scope list \<Rightarrow> asp_rust_config \<Rightarrow> raised" where
  "workspace_performance_verification_findings rules h workspace_root package_scopes config =
     (let performance_adapters = active_rust_native_performance_adapters config in
      if performance_adapters = [] then Some []
      else if list_ex (\<lambda>scope. has_rust_native_performance_bench h (scope_project_root scope)
          (parse_cargo_manifest (host_is_file h) (host_load h) (scope_project_root scope)) performance_adapters) package_scopes
      then Some []
      else with_rule rules ''RUST-AGENT-PROJECT-010'' (\<lambda>rule. [finding_from_rule rule
        (display_policy_path workspace_root (path_push workspace_root ''Cargo.toml'') @
         '' configures a Rust-native performance verification skill, but Cargo.toml does not expose a runnable Criterion, Divan, or iai-callgrind harness=false [[bench]] target.'')
        (file_location (path_push workspace_root ''Cargo.toml'')) None
        ''add a Criterion, Divan, or iai-callgrind [[bench]] target, declare the matching benchmark framework dependency, and keep the verification contract command pointed at it'']))"

end
