(* ===== verification/Project_Policy.thy ===== *)
theory Project_Policy
  imports Project_Quality_Rules
begin

text \<open>
  The project policy pack of \<open>src/rules/project_policy/pack.rs\<close>, evaluated over a package and over a workspace.
\<close>

definition project_findings ::
  "rule_map \<Rightarrow> host \<Rightarrow> asp_rust_scope \<Rightarrow> cargo_manifest_facts \<Rightarrow> reasoning_tree \<Rightarrow> parsed_module list \<Rightarrow> asp_rust_config \<Rightarrow> raised" where
  "project_findings rules h scope facts t ms config =
     (let project_root = scope_project_root scope; targets = parse_cargo_test_targets h project_root facts
      in raise_all
        [test_layout_findings rules h project_root,
         manifest_findings rules project_root facts,
         source_scope_findings rules h project_root config facts,
         source_test_mount_findings rules h scope ms,
         test_bloat_findings rules project_root t ms,
         test_target_aggregate_findings rules h project_root targets,
         test_target_module_mount_findings rules h project_root targets,
         verification_integration_findings rules project_root t config ms,
         quality_findings rules h project_root config ms,
         cargo_test_gate_findings rules h project_root facts ms targets])"

definition project_evaluate :: "host \<Rightarrow> asp_rust_scope option \<Rightarrow> parsed_module list \<Rightarrow> asp_rust_config \<Rightarrow> raised" where
  "project_evaluate h scope ms config =
     (case scope of
        None \<Rightarrow> Some []
      | Some s \<Rightarrow> project_findings project_policy_rule_map h s
          (parse_cargo_manifest (host_is_file h) (host_load h) (scope_project_root s))
          (rust_reasoning_tree_facts (host_is_file h) (host_load h) s ms) ms config)"

definition evaluate_workspace :: "host \<Rightarrow> path \<Rightarrow> asp_rust_scope list \<Rightarrow> asp_rust_config \<Rightarrow> raised" where
  "evaluate_workspace h workspace_root package_scopes config =
     workspace_performance_verification_findings project_policy_rule_map h workspace_root package_scopes config"

section \<open>Evaluation is total and stays in the catalog\<close>

text \<open>Every part but the test layout raises rules other than those of the test layout.\<close>

definition layout_ids :: "string set" where
  "layout_ids = {''RUST-AGENT-PROJECT-001'', ''RUST-AGENT-PROJECT-002''}"

definition project_other_ids :: "string set" where
  "project_other_ids = catalog_id_set ProjectPolicyPack - layout_ids"

abbreviation project_ok :: "raised \<Rightarrow> bool" where
  "project_ok \<equiv> well_raised project_policy_rule_map project_other_ids"

lemma project_ids [simp]:
  "layout_ids \<subseteq> catalog_id_set ProjectPolicyPack" "project_other_ids \<subseteq> catalog_id_set ProjectPolicyPack"
  "''RUST-AGENT-PROJECT-003'' \<in> project_other_ids" "''RUST-AGENT-PROJECT-004'' \<in> project_other_ids"
  "''RUST-AGENT-PROJECT-005'' \<in> project_other_ids" "''RUST-AGENT-PROJECT-006'' \<in> project_other_ids"
  "''RUST-AGENT-PROJECT-007'' \<in> project_other_ids" "''RUST-AGENT-PROJECT-008'' \<in> project_other_ids"
  "''RUST-AGENT-PROJECT-009'' \<in> project_other_ids" "''RUST-AGENT-PROJECT-010'' \<in> project_other_ids"
  "''RUST-AGENT-PROJECT-012'' \<in> project_other_ids" "''RUST-AGENT-PROJECT-013'' \<in> project_other_ids"
  "''RUST-AGENT-PROJECT-014'' \<in> project_other_ids" "''RUST-AGENT-PROJECT-015'' \<in> project_other_ids"
  "''RUST-AGENT-PROJECT-016'' \<in> project_other_ids" "''RUST-AGENT-PROJECT-017'' \<in> project_other_ids"
  "''RUST-AGENT-PROJECT-018'' \<in> project_other_ids" "''RUST-AGENT-PROJECT-019'' \<in> project_other_ids"
  "''RUST-AGENT-PROJECT-020'' \<in> project_other_ids" "''RUST-AGENT-PROJECT-021'' \<in> project_other_ids"
  "''RUST-AGENT-PROJECT-022'' \<in> project_other_ids" "''RUST-AGENT-PROJECT-024'' \<in> project_other_ids"
  "''RUST-AGENT-PROJECT-MANIFEST-023'' \<in> project_other_ids"
  by (simp_all add: catalog_id_set_eq rule_ids_def unlisted_rule_ids_def layout_ids_def project_other_ids_def)

lemma project_ok_with_rule:
  "rid \<in> project_other_ids \<Longrightarrow> (\<And>r f. f \<in> set (g r) \<Longrightarrow> of_rule r f) \<Longrightarrow>
   project_ok (with_rule project_policy_rule_map rid g)"
  by (rule project_catalog.well_raised_with_rule [OF subsetD [OF project_ids(2)]])

lemma raised_findings_of_rule [simp]:
  "of_rule r (mount_finding m r n s a)"
  "of_rule r (module_line_finding root r s a m n)"
  "of_rule r (custom_scope_path_finding h root label r scope_path)"
  "of_rule r (default_scope_reduction_finding root p label advice r)"
  by (simp_all add: mount_finding_def module_line_finding_def custom_scope_path_finding_def
      default_scope_reduction_finding_def Let_def)

lemma in_map_filter: "x \<in> set (List.map_filter f xs) \<longleftrightarrow> (\<exists>y \<in> set xs. f y = Some x)"
  by (induction xs) (auto simp: map_filter_simps split: option.splits)

lemma optional_findings_of_rule:
  "target_mount_finding h root m r d = Some f \<Longrightarrow> of_rule r f"
  "first_line_finding root r P s a m = Some f \<Longrightarrow> of_rule r f"
  "f \<in> set (gate_invocation_findings root r Q s a ms) \<Longrightarrow> of_rule r f"
  by (auto simp: target_mount_finding_def first_line_finding_def gate_invocation_findings_def in_map_filter
      split: option.splits if_splits)

lemma test_layout_findings_ok: "well_raised project_policy_rule_map layout_ids (test_layout_findings project_policy_rule_map h root)"
proof -
  have ids: "''RUST-AGENT-PROJECT-001'' \<in> layout_ids" "''RUST-AGENT-PROJECT-002'' \<in> layout_ids"
    by (simp_all add: layout_ids_def)
  note layout_rule = project_catalog.well_raised_with_rule [OF subsetD [OF project_ids(1)]]
  show ?thesis
    unfolding test_layout_findings_def test_layout_entry_def Let_def
    by (auto intro!: well_raised_all well_raised_if layout_rule simp: ids split: option.splits prod.splits)
qed

lemma layout_findings_ok:
  "project_ok (manifest_findings project_policy_rule_map root facts)"
  "project_ok (source_test_mount_findings project_policy_rule_map h scope ms)"
  "project_ok (test_bloat_findings project_policy_rule_map root t ms)"
  unfolding manifest_findings_def source_test_mount_findings_def
    source_test_mount_def test_bloat_findings_def leaf_bloat_finding_def support_bloat_finding_def Let_def
  by (auto intro!: well_raised_all well_raised_if project_ok_with_rule split: option.splits prod.splits)

lemma well_raised_either:
  "well_raised rules ids x \<Longrightarrow> well_raised rules ids y \<Longrightarrow> well_raised rules ids (if P then x else y)"
  by simp

lemma target_findings_ok:
  "project_ok (test_target_aggregate_findings project_policy_rule_map h root targets)"
  "project_ok (test_target_module_mount_findings project_policy_rule_map h root targets)"
  unfolding test_target_aggregate_findings_def test_target_module_mount_findings_def
  by (rule project_ok_with_rule, simp, auto simp: in_map_filter optional_findings_of_rule)+

lemma gate_findings_ok: "project_ok (cargo_test_gate_findings project_policy_rule_map h root facts ms targets)"
  unfolding cargo_test_gate_findings_def Let_def
  by (intro well_raised_either well_raised_all well_raised_empty)
    (auto intro!: well_raised_either project_ok_with_rule simp del: split_paired_All)

text \<open>The index of the first test target is in range: the branch is reached only when there is one.\<close>

lemma default_reductions:
  "\<exists>fs. default_source_reduction h root config r = Some fs \<and> (\<forall>f \<in> set fs. of_rule r f)"
  "\<exists>fs. default_test_reduction h root config facts r = Some fs \<and> (\<forall>f \<in> set fs. of_rule r f)"
  by (auto simp: default_source_reduction_def default_test_reduction_def nth_opt_def Let_def)

lemma well_raised_of_rule:
  "bmap_get project_policy_rule_map rid = Some r \<Longrightarrow> rid \<in> project_other_ids \<Longrightarrow>
   \<forall>f \<in> set fs. of_rule r f \<Longrightarrow> project_ok (Some fs)"
  using project_catalog.entry by (auto simp: well_raised_def of_rule_def)

lemma source_scope_findings_ok: "project_ok (source_scope_findings project_policy_rule_map h root config facts)"
proof -
  obtain r s where r: "bmap_get project_policy_rule_map ''RUST-AGENT-PROJECT-013'' = Some r"
    and s: "bmap_get project_policy_rule_map ''RUST-AGENT-PROJECT-014'' = Some s"
    using project_catalog.present [OF subsetD [OF project_ids(2) project_ids(12)]] project_catalog.present [OF subsetD [OF project_ids(2) project_ids(13)]] by blast
  have custom: "project_ok (Some (map (custom_scope_path_finding h root label r) ps))" for label ps
    by (rule well_raised_of_rule [OF r]) auto
  have reduced: "project_ok (Some fs)" if "\<forall>f \<in> set fs. of_rule s f" for fs
    using that by (rule well_raised_of_rule [OF s, rotated]) simp
  show ?thesis
    using default_reductions(1) [of h root config s] default_reductions(2) [of h root config facts s]
    by (auto simp: source_scope_findings_def r s intro!: well_raised_all custom reduced)
qed

lemma quality_rule_findings_ok:
  "project_ok (weak_advice_explanation_findings project_policy_rule_map h root config)"
  "project_ok (fake_identity_fallback_findings project_policy_rule_map root ms)"
  "project_ok (redundant_workspace_wrapper_findings project_policy_rule_map root ms)"
  "project_ok (silent_evidence_default_findings project_policy_rule_map root ms)"
  "project_ok (source_location_sentinel_findings project_policy_rule_map root ms)"
  "project_ok (candidate_loop_telemetry_findings project_policy_rule_map root ms)"
proof -
  show "project_ok (weak_advice_explanation_findings project_policy_rule_map h root config)"
    unfolding weak_advice_explanation_findings_def
    by (rule well_raised_all) (auto intro!: well_raised_either project_ok_with_rule split: option.split)
  show "project_ok (fake_identity_fallback_findings project_policy_rule_map root ms)"
    "project_ok (silent_evidence_default_findings project_policy_rule_map root ms)"
    "project_ok (source_location_sentinel_findings project_policy_rule_map root ms)"
    unfolding fake_identity_fallback_findings_def silent_evidence_default_findings_def source_location_sentinel_findings_def
    by (rule project_ok_with_rule, simp, unfold in_map_filter, blast dest: optional_findings_of_rule(2))+
  show "project_ok (redundant_workspace_wrapper_findings project_policy_rule_map root ms)"
    unfolding redundant_workspace_wrapper_findings_def
    by (rule project_ok_with_rule) (auto simp: in_map_filter split: option.splits if_splits)
  show "project_ok (candidate_loop_telemetry_findings project_policy_rule_map root ms)"
    unfolding candidate_loop_telemetry_findings_def
    by (rule project_ok_with_rule) (auto simp: in_map_filter)
qed

lemma quality_findings_ok: "project_ok (quality_findings project_policy_rule_map h root config ms)"
  unfolding quality_findings_def by (rule well_raised_all) (auto intro: quality_rule_findings_ok)

lemma verification_findings_ok:
  "project_ok (verification_integration_findings project_policy_rule_map root t config ms)"
  "project_ok (workspace_performance_verification_findings project_policy_rule_map h root scopes config)"
  unfolding verification_integration_findings_def empty_cargo_test_gate_config_findings_def
    advice_allow_explanation_findings_def workspace_performance_verification_findings_def Let_def
  by (auto intro!: well_raised_all well_raised_if project_ok_with_rule simp: optional_findings_of_rule)

lemma well_raised_Cons:
  "well_raised rules ids x \<Longrightarrow> well_raised rules ids (raise_all xs) \<Longrightarrow> well_raised rules ids (raise_all (x # xs))"
  by (auto simp: well_raised_def raise_all_Cons)

lemma project_parts_ok:
  "project_ok (raise_all
    [manifest_findings project_policy_rule_map root facts,
     source_scope_findings project_policy_rule_map h root config facts,
     source_test_mount_findings project_policy_rule_map h scope ms,
     test_bloat_findings project_policy_rule_map root t ms,
     test_target_aggregate_findings project_policy_rule_map h root targets,
     test_target_module_mount_findings project_policy_rule_map h root targets,
     verification_integration_findings project_policy_rule_map root t config ms,
     quality_findings project_policy_rule_map h root config ms,
     cargo_test_gate_findings project_policy_rule_map h root facts ms targets])"
  by (auto intro!: well_raised_all layout_findings_ok target_findings_ok gate_findings_ok source_scope_findings_ok
      quality_findings_ok verification_findings_ok)

text \<open>The pack raises the findings of the test layout first, and no other finding of their two rules.\<close>

lemma project_evaluate_parts:
  "\<exists>fs gs. test_layout_findings project_policy_rule_map h (scope_project_root s) = Some fs \<and>
     project_evaluate h (Some s) ms config = Some (fs @ gs) \<and>
     (\<forall>f \<in> set fs. finding_rule_id f \<in> layout_ids) \<and> (\<forall>f \<in> set gs. finding_rule_id f \<in> project_other_ids)"
  using test_layout_findings_ok [of h "scope_project_root s", unfolded well_raised_def]
    project_parts_ok [unfolded well_raised_def]
  by (fastforce simp: project_evaluate_def project_findings_def Let_def raise_all_Cons [of "test_layout_findings _ _ _"])

lemma project_evaluate_ok:
  "well_raised project_policy_rule_map (catalog_id_set ProjectPolicyPack) (project_evaluate h scope ms config)"
  using well_raised_Cons [OF well_raised_mono [OF test_layout_findings_ok project_ids(1)] well_raised_mono [OF project_parts_ok project_ids(2)]]
  by (auto simp: project_evaluate_def project_findings_def Let_def split: option.split)

lemma evaluate_workspace_ok: "project_ok (evaluate_workspace h root scopes config)"
  by (simp add: evaluate_workspace_def verification_findings_ok)

end
