(* ===== verification/Modularity_Rules.thy ===== *)
theory Modularity_Rules
  imports Rule_Evaluation
begin

text \<open>
  The modularity pack: \<open>src/rules/modularity/\<close> (\<open>pack.rs\<close>, \<open>source_shape.rs\<close>, \<open>reasoning_tree.rs\<close>,
  \<open>entrypoints.rs\<close>), from parsed modules and the reasoning tree to findings.

  Shown: an evaluation never panics on a missing rule, every finding carries an entry of the catalog, and the
  files reported as orphans are exactly the source files outside the module tree.
\<close>

abbreviation RUST_MOD_R001 :: string where "RUST_MOD_R001 \<equiv> ''RUST-MOD-R001''"
abbreviation RUST_MOD_R002 :: string where "RUST_MOD_R002 \<equiv> ''RUST-MOD-R002''"
abbreviation RUST_MOD_R003 :: string where "RUST_MOD_R003 \<equiv> ''RUST-MOD-R003''"
abbreviation RUST_MOD_R004 :: string where "RUST_MOD_R004 \<equiv> ''RUST-MOD-R004''"
abbreviation RUST_MOD_R005 :: string where "RUST_MOD_R005 \<equiv> ''RUST-MOD-R005''"
abbreviation RUST_MOD_R006 :: string where "RUST_MOD_R006 \<equiv> ''RUST-MOD-R006''"
abbreviation RUST_MOD_R007 :: string where "RUST_MOD_R007 \<equiv> ''RUST-MOD-R007''"
abbreviation RUST_MOD_R008 :: string where "RUST_MOD_R008 \<equiv> ''RUST-MOD-R008''"
abbreviation RUST_MOD_R009 :: string where "RUST_MOD_R009 \<equiv> ''RUST-MOD-R009''"
abbreviation RUST_MOD_R010 :: string where "RUST_MOD_R010 \<equiv> ''RUST-MOD-R010''"
abbreviation RUST_MOD_R011 :: string where "RUST_MOD_R011 \<equiv> ''RUST-MOD-R011''"

definition MAX_SOURCE_EFFECTIVE_LINES :: nat where "MAX_SOURCE_EFFECTIVE_LINES = 650"
definition MAX_SOURCE_LINES :: nat where "MAX_SOURCE_LINES = 1000"
definition MIN_SOURCE_PUBLIC_ITEMS :: nat where "MIN_SOURCE_PUBLIC_ITEMS = 12"
definition MIN_SOURCE_IMPLEMENTATION_ITEMS :: nat where "MIN_SOURCE_IMPLEMENTATION_ITEMS = 45"

section \<open>Source shape\<close>

definition source_file_bloat_findings :: "rule_map \<Rightarrow> parsed_module \<Rightarrow> raised" where
  "source_file_bloat_findings rules m =
     (let source_line_count = source_lines (pm_source_metrics m);
          effective_lines = effective_code_lines (pm_source_metrics m);
          has_absolute_line_pressure = source_line_count \<ge> MAX_SOURCE_LINES;
          has_effective_line_pressure = effective_lines \<ge> MAX_SOURCE_EFFECTIVE_LINES;
          public_item_count = length (filter item_is_public (top_level_items (pm_syntax_facts m)));
          implementation_items = length (filter item_is_implementation_item (top_level_items (pm_syntax_facts m)));
          has_item_pressure = (public_item_count \<ge> MIN_SOURCE_PUBLIC_ITEMS \<or>
            implementation_items \<ge> MIN_SOURCE_IMPLEMENTATION_ITEMS);
          has_effective_item_pressure = (has_effective_line_pressure \<and> has_item_pressure)
      in if \<not> has_absolute_line_pressure \<and> \<not> has_effective_item_pressure then Some []
         else with_rule rules RUST_MOD_R002 (\<lambda>rule. [finding_from_rule rule
           (display_path (pm_path m) @ '' carries '' @ show_nat source_line_count @ '' source lines, '' @
            show_nat effective_lines @ '' effective code lines, '' @ show_nat public_item_count @ '' public items, '' @
            show_nat implementation_items @ '' top-level implementation items, and '' @
            (if has_item_pressure then ''large item pressure'' else ''absolute source line pressure'') @ ''.'')
           (file_location (pm_path m)) None ''split this source file by responsibility'']))"

definition has_rs_extension :: "path \<Rightarrow> bool" where
  "has_rs_extension p \<longleftrightarrow> path_extension p = Some ''rs''"

definition rust_source_paths :: "parsed_module list \<Rightarrow> path list" where
  "rust_source_paths ms = bset_of_list (map pm_path (filter (\<lambda>m. has_rs_extension (pm_path m)) ms))"

definition rust_source_ancestor_dirs :: "path list \<Rightarrow> path list" where
  "rust_source_ancestor_dirs rust_sources =
     fold (\<lambda>source dirs. case path_parent source of None \<Rightarrow> dirs | Some parent \<Rightarrow> bset_extend dirs (path_ancestors parent))
       rust_sources []"

definition is_named_rust_file :: "path \<Rightarrow> bool" where
  "is_named_rust_file p \<longleftrightarrow> has_rs_extension p \<and>
     \<not> (case Option.bind (path_file_stem p) to_str of Some stem \<Rightarrow> stem \<in> {''lib'', ''main'', ''mod''} | None \<Rightarrow> False)"

definition is_under_tests_dir :: "path \<Rightarrow> bool" where
  "is_under_tests_dir p = list_ex (\<lambda>c. component_str c = ''tests'') p"

text \<open>One turn of the collision loop: the reported paths and the findings so far.\<close>

definition collision_step :: "rule_map \<Rightarrow> path list \<Rightarrow> path \<Rightarrow> path list \<times> raised list \<Rightarrow> path list \<times> raised list" where
  "collision_step rules ancestor_dirs file_path st =
     (if \<not> is_named_rust_file file_path \<or> is_under_tests_dir file_path then st
      else (case Option.bind (path_file_stem file_path) to_str of
          None \<Rightarrow> st
        | Some stem \<Rightarrow> (case path_parent file_path of
            None \<Rightarrow> st
          | Some parent \<Rightarrow>
              (let owner_dir = path_push parent stem in
               if owner_dir \<notin> set ancestor_dirs \<or> file_path \<in> set (fst st) then st
               else (bset_insert file_path (fst st), snd st @ [with_rule rules RUST_MOD_R011 (\<lambda>rule. [finding_from_rule rule
                 (display_path file_path @ '' and '' @ display_path owner_dir @
                  ''/ share the same owner name at one filesystem level.'')
                 (file_location file_path) None ''move the owner interface to mod.rs under the directory''])])))))"

definition sibling_file_dir_owner_collision_findings :: "rule_map \<Rightarrow> parsed_module list \<Rightarrow> raised" where
  "sibling_file_dir_owner_collision_findings rules ms =
     (let rust_sources = rust_source_paths ms;
          ancestor_dirs = rust_source_ancestor_dirs rust_sources
      in raise_all (snd (fold (collision_step rules ancestor_dirs) rust_sources ([], []))))"

definition deep_relative_import_finding :: "parsed_module \<Rightarrow> asp_rust_rule \<Rightarrow> deep_relative_import \<Rightarrow> asp_rust_finding" where
  "deep_relative_import_finding m rule d =
     (let crate_path = rendered_crate_path d;
          suggestion = (case crate_path of Some p \<Rightarrow> p | None \<Rightarrow> ''a crate::... owner/facade import'');
          summary_suffix = (case crate_path of Some p \<Rightarrow> ''; parser suggests `'' @ p @ ''`.''
            | None \<Rightarrow> ''; parser could not derive a safe crate-relative replacement.'')
      in finding_from_rule rule
           (display_path (pm_path m) @ '' uses deep relative import `'' @ rendered_path d @ ''`'' @ summary_suffix)
           (path_line_location (pm_path m) (deep_line d)) (source_line_at (pm_source m) (deep_line d))
           (''replace with '' @ suggestion @ '' or expose it through an owner facade''))"

definition deep_relative_import_findings :: "rule_map \<Rightarrow> reasoning_module \<Rightarrow> parsed_module \<Rightarrow> raised" where
  "deep_relative_import_findings rules mf m = with_rule rules RUST_MOD_R003 (\<lambda>rule.
     map (deep_relative_import_finding m rule) (deep_relative_import_facts (mod_import_summary mf)))"

definition glob_import_descriptor :: "use_statement \<Rightarrow> string" where
  "glob_import_descriptor u =
     (case use_glob_imports u of
        [] \<Rightarrow> ''a Rust glob import''
      | first # rest \<Rightarrow>
          if length (use_glob_imports u) > 1 then
            show_nat (length (use_glob_imports u)) @ '' Rust glob imports ('' @
            join_with '', '' (map rendered_glob_path (use_glob_imports u)) @ '')''
          else if is_direct_parent_scope_glob first then ''parent-scope glob import `'' @ rendered_glob_path first @ ''`''
          else if is_parent_relative_glob first then ''parent-relative glob import `'' @ rendered_glob_path first @ ''`''
          else if is_prelude_glob first then ''prelude glob import `'' @ rendered_glob_path first @ ''`''
          else if glob_scope_kind_of first = GlobCrateOwner then ''crate-owner glob import `'' @ rendered_glob_path first @ ''`''
          else ''Rust glob import `'' @ rendered_glob_path first @ ''`'')"

definition glob_import_context :: "reasoning_module \<Rightarrow> use_statement \<Rightarrow> string" where
  "glob_import_context mf u =
     (if is_test_source (mod_source_path mf) \<or> is_inside_cfg_test_module (use_context u) then '' in test context''
      else if is_inside_inline_module (use_context u) then '' inside inline module''
      else '''')"

definition glob_import_summary :: "reasoning_module \<Rightarrow> parsed_module \<Rightarrow> use_statement \<Rightarrow> string" where
  "glob_import_summary mf m u =
     display_path (pm_path m) @ '' uses '' @ glob_import_descriptor u @ glob_import_context mf u @ ''.''"

definition glob_import_label :: "use_statement \<Rightarrow> string" where
  "glob_import_label u =
     (if list_ex is_direct_parent_scope_glob (use_glob_imports u)
      then ''replace parent-scope glob with explicit imports''
      else ''replace glob import with explicit owner imports'')"

definition glob_import_findings :: "rule_map \<Rightarrow> reasoning_module \<Rightarrow> parsed_module \<Rightarrow> raised" where
  "glob_import_findings rules mf m = with_rule rules RUST_MOD_R010 (\<lambda>rule.
     map (\<lambda>u. finding_from_rule rule (glob_import_summary mf m u)
         (path_line_location (pm_path m) (use_line u)) (source_line_at (pm_source m) (use_line u))
         (glob_import_label u))
       (filter contains_glob_import (use_statements (pm_syntax_facts m))))"

section \<open>Reasoning-tree shape\<close>

definition module_source_shadow_findings :: "rule_map \<Rightarrow> reasoning_tree \<Rightarrow> raised" where
  "module_source_shadow_findings rules t = with_rule rules RUST_MOD_R007 (\<lambda>rule.
     map (\<lambda>s. finding_from_rule rule
         (display_path (shadow_file_form s) @ '' and '' @ display_path (shadow_mod_form s) @
          '' both define the same Rust module source.'')
         (file_location (shadow_mod_form s)) None ''choose one module source layout for this owner'')
       (tree_shadowed_module_sources t))"

definition orphan_source_module_findings :: "rule_map \<Rightarrow> reasoning_tree \<Rightarrow> raised" where
  "orphan_source_module_findings rules t = with_rule rules RUST_MOD_R009 (\<lambda>rule.
     map (\<lambda>p. finding_from_rule rule
         (display_path p @ '' is not reachable from a crate or binary module tree.'')
         (file_location p) None ''attach this file with a parent mod declaration or remove it'')
       (tree_unreachable_source_files t))"

definition inline_source_module_findings :: "rule_map \<Rightarrow> reasoning_module \<Rightarrow> parsed_module \<Rightarrow> raised" where
  "inline_source_module_findings rules mf m =
     (if is_special_entrypoint (mod_source_path mf) then Some []
      else with_rule rules RUST_MOD_R008 (\<lambda>rule.
        map (\<lambda>d. finding_from_rule rule
            (display_path (pm_path m) @ '' contains inline module `'' @ decl_ident d @ ''`.'')
            (path_line_location (pm_path m) (decl_line d)) (source_line_at (pm_source m) (decl_line d))
            ''move this inline module into its own source file'')
          (filter (\<lambda>d. decl_is_inline d \<and> \<not> decl_is_cfg_test d)
            (List.map_filter item_module (top_level_items (pm_syntax_facts m))))))"

section \<open>Entrypoints\<close>

definition is_source_gate_macro_name :: "string \<Rightarrow> bool" where
  "is_source_gate_macro_name name \<longleftrightarrow> name \<in> set [''asp_rust_gate'', ''asp_rust_cargo_test_gate'',
     ''asp_rust_source_gate'', ''crate_test_policy_source_harness'', ''crate_testing_source_gate'',
     ''crate_testing_gate'', ''crate_test_policy_harness'']"

definition is_crate_boundary_macro :: "top_level_item \<Rightarrow> bool" where
  "is_crate_boundary_macro item =
     (case item_macro_name item of
        None \<Rightarrow> False
      | Some name \<Rightarrow> is_source_gate_macro_name name \<or> (name = ''compile_error'' \<and> item_has_cfg_attr item) \<or>
          (name \<noteq> ''macro_rules'' \<and> item_macro_body_is_facade_boundary item))"

definition declares_external_module :: "top_level_item \<Rightarrow> bool" where
  "declares_external_module item = (case item_module item of Some d \<Rightarrow> \<not> decl_is_inline d | None \<Rightarrow> False)"

definition is_interface_item :: "top_level_item \<Rightarrow> bool" where
  "is_interface_item item \<longleftrightarrow> declares_external_module item \<or> item_is_use item"

definition is_crate_facade_item :: "top_level_item \<Rightarrow> bool" where
  "is_crate_facade_item item \<longleftrightarrow> declares_external_module item \<or> item_is_use item \<or> item_is_extern_crate item \<or>
     item_has_proc_macro_export_attr item \<or> is_crate_boundary_macro item"

definition is_binary_entrypoint_item :: "top_level_item \<Rightarrow> bool" where
  "is_binary_entrypoint_item item \<longleftrightarrow> item_function_name item = Some ''main'' \<or> item_is_use item"

definition is_build_script_entrypoint_item :: "top_level_item \<Rightarrow> bool" where
  "is_build_script_entrypoint_item item \<longleftrightarrow> item_function_name item = Some ''main'' \<or> item_is_use item"

definition item_finding :: "parsed_module \<Rightarrow> string \<Rightarrow> string \<Rightarrow> asp_rust_rule \<Rightarrow> top_level_item \<Rightarrow> asp_rust_finding" where
  "item_finding m place advice rule item = finding_from_rule rule
     (display_path (pm_path m) @ '' contains implementation item `'' @ item_kind item @ ''` inside '' @ place @ ''.'')
     (path_line_location (pm_path m) (item_line item)) (source_line_at (pm_source m) (item_line item)) advice"

definition crate_facade_findings :: "rule_map \<Rightarrow> reasoning_module \<Rightarrow> parsed_module \<Rightarrow> raised" where
  "crate_facade_findings rules mf m =
     (if \<not> is_crate_facade (mod_source_path mf) then Some []
      else with_rule rules RUST_MOD_R004 (\<lambda>rule.
        map (item_finding m ''lib.rs'' ''move facade implementation out of lib.rs into an owned module'' rule)
          (filter (\<lambda>item. \<not> is_crate_facade_item item) (top_level_items (pm_syntax_facts m)))))"

definition binary_entrypoint_findings :: "rule_map \<Rightarrow> reasoning_module \<Rightarrow> parsed_module \<Rightarrow> raised" where
  "binary_entrypoint_findings rules mf m =
     (if \<not> is_binary_entrypoint (mod_source_path mf) then Some []
      else with_rule rules RUST_MOD_R005 (\<lambda>rule.
        map (item_finding m ''a binary entrypoint'' ''move binary implementation out of the entrypoint into an owned module'' rule)
          (filter (\<lambda>item. \<not> is_binary_entrypoint_item item) (top_level_items (pm_syntax_facts m)))))"

definition build_script_entrypoint_findings :: "rule_map \<Rightarrow> reasoning_module \<Rightarrow> parsed_module \<Rightarrow> raised" where
  "build_script_entrypoint_findings rules mf m =
     (if \<not> is_build_script_entrypoint (mod_source_path mf) then Some []
      else with_rule rules RUST_MOD_R006 (\<lambda>rule.
        map (item_finding m ''build.rs'' ''move build script implementation out of build.rs into a build dependency'' rule)
          (filter (\<lambda>item. \<not> is_build_script_entrypoint_item item) (top_level_items (pm_syntax_facts m)))))"

definition interface_mod_findings :: "rule_map \<Rightarrow> reasoning_module \<Rightarrow> parsed_module \<Rightarrow> raised" where
  "interface_mod_findings rules mf m =
     (if \<not> is_interface_mod (mod_source_path mf) then Some []
      else with_rule rules RUST_MOD_R001 (\<lambda>rule.
        map (item_finding m ''mod.rs'' ''move implementation out of mod.rs into an owned leaf module'' rule)
          (filter (\<lambda>item. \<not> is_interface_item item) (top_level_items (pm_syntax_facts m)))))"

section \<open>The pack\<close>

definition modularity_module_findings :: "rule_map \<Rightarrow> reasoning_tree \<Rightarrow> parsed_module \<Rightarrow> raised" where
  "modularity_module_findings rules t m =
     (case reasoning_module_at t (pm_path m) of
        None \<Rightarrow> Some []
      | Some mf \<Rightarrow>
          if \<not> mod_is_source mf \<and> \<not> is_test_source (mod_source_path mf) \<and> \<not> is_package_entrypoint (mod_source_path mf)
          then Some []
          else raise_all (source_file_bloat_findings rules m #
            (if \<not> module_is_valid (pm_report m) then []
             else (if mod_is_source mf then
                 [crate_facade_findings rules mf m, binary_entrypoint_findings rules mf m,
                  inline_source_module_findings rules mf m] else []) @
               (if mod_is_source mf \<or> mod_is_test mf then [interface_mod_findings rules mf m] else []) @
               (if mod_is_source mf \<or> mod_is_test mf then
                 [deep_relative_import_findings rules mf m, glob_import_findings rules mf m] else []) @
               [build_script_entrypoint_findings rules mf m])))"

definition modularity_tree_findings :: "rule_map \<Rightarrow> reasoning_tree \<Rightarrow> parsed_module list \<Rightarrow> raised" where
  "modularity_tree_findings rules t ms = raise_all
     ([module_source_shadow_findings rules t, orphan_source_module_findings rules t,
       sibling_file_dir_owner_collision_findings rules ms] @
      map (modularity_module_findings rules t) ms)"

definition modularity_evaluate ::
  "(path \<Rightarrow> bool) \<Rightarrow> manifest_loader \<Rightarrow> asp_rust_scope option \<Rightarrow> parsed_module list \<Rightarrow> raised" where
  "modularity_evaluate is_file load scope ms =
     (case scope of
        None \<Rightarrow> Some []
      | Some s \<Rightarrow> modularity_tree_findings modularity_rule_map (rust_reasoning_tree_facts is_file load s ms) ms)"

section \<open>Evaluation is total and stays in the catalog\<close>

text \<open>Every part but the orphan search raises rules other than the orphan rule.\<close>

definition other_ids :: "string set" where
  "other_ids = catalog_id_set ModularityPack - {RUST_MOD_R009}"

abbreviation mod_ok :: "raised \<Rightarrow> bool" where
  "mod_ok \<equiv> well_raised modularity_rule_map other_ids"

lemma modularity_ids [simp]:
  "RUST_MOD_R001 \<in> catalog_id_set ModularityPack" "RUST_MOD_R002 \<in> catalog_id_set ModularityPack"
  "RUST_MOD_R003 \<in> catalog_id_set ModularityPack" "RUST_MOD_R004 \<in> catalog_id_set ModularityPack"
  "RUST_MOD_R005 \<in> catalog_id_set ModularityPack" "RUST_MOD_R006 \<in> catalog_id_set ModularityPack"
  "RUST_MOD_R007 \<in> catalog_id_set ModularityPack" "RUST_MOD_R008 \<in> catalog_id_set ModularityPack"
  "RUST_MOD_R009 \<in> catalog_id_set ModularityPack" "RUST_MOD_R010 \<in> catalog_id_set ModularityPack"
  "RUST_MOD_R011 \<in> catalog_id_set ModularityPack"
  by (simp_all add: catalog_id_set_eq rule_ids_def)

lemma other_idsI: "rid \<in> catalog_id_set ModularityPack \<Longrightarrow> rid \<noteq> RUST_MOD_R009 \<Longrightarrow> rid \<in> other_ids"
  by (simp add: other_ids_def)

lemmas mod_ok_with_rule = modularity_catalog.well_raised_with_rule [OF _ other_idsI]

lemma item_finding_of_rule [simp]: "of_rule r (item_finding m place advice r item)"
  by (simp add: item_finding_def)

lemma module_findings_ok:
  "mod_ok (source_file_bloat_findings modularity_rule_map m)"
  "mod_ok (crate_facade_findings modularity_rule_map mf m)"
  "mod_ok (binary_entrypoint_findings modularity_rule_map mf m)"
  "mod_ok (build_script_entrypoint_findings modularity_rule_map mf m)"
  "mod_ok (interface_mod_findings modularity_rule_map mf m)"
  "mod_ok (inline_source_module_findings modularity_rule_map mf m)"
  "mod_ok (deep_relative_import_findings modularity_rule_map mf m)"
  "mod_ok (glob_import_findings modularity_rule_map mf m)"
  unfolding source_file_bloat_findings_def crate_facade_findings_def binary_entrypoint_findings_def
    build_script_entrypoint_findings_def interface_mod_findings_def inline_source_module_findings_def
    deep_relative_import_findings_def glob_import_findings_def Let_def
  by (auto intro!: well_raised_if mod_ok_with_rule simp: deep_relative_import_finding_def Let_def)

lemma shadow_findings_ok: "mod_ok (module_source_shadow_findings modularity_rule_map t)"
  unfolding module_source_shadow_findings_def by (auto intro!: mod_ok_with_rule)

lemma collision_step_ok:
  "(\<forall>x \<in> set (snd st). mod_ok x) \<Longrightarrow> (\<forall>x \<in> set (snd (collision_step modularity_rule_map dirs p st)). mod_ok x)"
  unfolding collision_step_def Let_def by (auto intro!: mod_ok_with_rule split: option.splits if_splits)

lemma collision_findings_ok: "mod_ok (sibling_file_dir_owner_collision_findings modularity_rule_map ms)"
proof -
  have "\<forall>x \<in> set (snd (fold (collision_step modularity_rule_map dirs) ps st)). mod_ok x"
    if "\<forall>x \<in> set (snd st). mod_ok x" for dirs ps and st :: "path list \<times> raised list"
    using that
  proof (induction ps arbitrary: st)
    case (Cons p ps)
    from Cons.IH [OF collision_step_ok [OF Cons.prems]] show ?case by simp
  qed simp
  then show ?thesis
    unfolding sibling_file_dir_owner_collision_findings_def Let_def
    by (intro well_raised_all) (metis empty_iff list.set(1) snd_conv)
qed

lemma modularity_module_findings_ok: "mod_ok (modularity_module_findings modularity_rule_map t m)"
  unfolding modularity_module_findings_def
  by (auto intro!: well_raised_if well_raised_all module_findings_ok split: option.splits if_splits)

lemma orphan_findings_ok:
  "well_raised modularity_rule_map {RUST_MOD_R009} (orphan_source_module_findings modularity_rule_map t)"
  unfolding orphan_source_module_findings_def by (auto intro!: modularity_catalog.well_raised_with_rule)

lemma modularity_tree_findings_ok:
  "well_raised modularity_rule_map (catalog_id_set ModularityPack) (modularity_tree_findings modularity_rule_map t ms)"
  unfolding modularity_tree_findings_def
  by (rule well_raised_all)
    (auto intro: well_raised_mono [OF orphan_findings_ok] well_raised_mono [OF shadow_findings_ok]
      well_raised_mono [OF collision_findings_ok] well_raised_mono [OF modularity_module_findings_ok]
      simp: other_ids_def)

lemma modularity_evaluate_ok:
  "well_raised modularity_rule_map (catalog_id_set ModularityPack) (modularity_evaluate is_file load scope ms)"
  by (auto simp: modularity_evaluate_def modularity_tree_findings_ok split: option.split)

lemma orphan_findings_paths:
  assumes "modularity_tree_findings modularity_rule_map t ms = Some fs"
  shows "map (loc_path \<circ> location) (filter (\<lambda>f. finding_rule_id f = RUST_MOD_R009) fs) =
    map Some (tree_unreachable_source_files t)"
proof -
  let ?P = "\<lambda>f. finding_rule_id f = RUST_MOD_R009"
  have others: "filter ?P (the x) = []" if "mod_ok x" for x
    using that by (rule well_raised_filter) (simp add: other_ids_def)
  have "filter ?P fs = filter ?P (the (orphan_source_module_findings modularity_rule_map t))"
    using raise_all_filter [OF assms [unfolded modularity_tree_findings_def], of ?P]
    by (simp add: others shadow_findings_ok collision_findings_ok modularity_module_findings_ok)
  also obtain r where r: "bmap_get modularity_rule_map RUST_MOD_R009 = Some r" "rule_id r = RUST_MOD_R009"
    using modularity_catalog.present [of RUST_MOD_R009] modularity_catalog.entry by auto
  then have "map (loc_path \<circ> location) (filter ?P (the (orphan_source_module_findings modularity_rule_map t))) =
    map Some (tree_unreachable_source_files t)"
    by (simp add: orphan_source_module_findings_def with_rule_def filter_map comp_def finding_from_rule_def file_location_def)
  finally show ?thesis by (simp add: comp_def)
qed

text \<open>
  C39: evaluating the modularity pack on a package never panics on a missing rule; every finding is of the
  pack and of a rule of its catalog; and the files reported as orphans are, in ascending order, exactly the
  source files that no chain of \<open>mod\<close> declarations, \<open>#[path]\<close> attributes and \<open>include!\<close> literals connects to a
  crate or binary root.
\<close>

theorem modularity_findings_exact:
  fixes scope ms
  defines "source_files \<equiv> source_files_of (scope_source_paths scope) ms"
  shows "\<exists>fs orphans. modularity_evaluate is_file load (Some scope) ms = Some fs \<and>
    list_all (\<lambda>f. finding_pack_id f = rule_pack_id ModularityPack \<and> finding_rule_id f \<in> set (rule_ids ModularityPack)) fs \<and>
    map (loc_path \<circ> location) (filter (\<lambda>f. finding_rule_id f = RUST_MOD_R009) fs) = map Some orphans \<and>
    ascending orphans \<and>
    set orphans = set source_files - (child_relation False source_files ms)\<^sup>* ``
      {root \<in> set source_files. is_module_tree_root (scope_source_paths scope) root}"
proof -
  let ?t = "rust_reasoning_tree_facts is_file load scope ms"
  obtain fs where fs: "modularity_tree_findings modularity_rule_map ?t ms = Some fs"
    and pack: "list_all (\<lambda>f. finding_pack_id f = rule_pack_id ModularityPack \<and>
      finding_rule_id f \<in> catalog_id_set ModularityPack) fs"
    using modularity_catalog.well_raised_pack [OF modularity_tree_findings_ok [of ?t ms]] by blast
  have ids: "catalog_id_set ModularityPack = set (rule_ids ModularityPack)"
    by (simp add: catalog_id_set_eq unlisted_rule_ids_def)
  have "tree_unreachable_source_files ?t = mt_unreachable_source_files (rust_module_tree_facts (scope_source_paths scope) ms)"
    by (simp add: rust_reasoning_tree_facts_def Let_def)
  with unreachable_source_files_exact [of "scope_source_paths scope" ms] orphan_findings_paths [OF fs] fs pack show ?thesis
    by (auto simp: modularity_evaluate_def ids source_files_def intro!: exI)
qed

end
