(* ===== verification/Agent_Algorithm_Rules.thy ===== *)
theory Agent_Algorithm_Rules
  imports Rule_Evaluation
begin

text \<open>
  The rules over the control flow of functions: \<open>src/rules/agent_policy/algorithm_shape.rs\<close>. Each rule selects
  the functions whose counters pass its thresholds and labels its findings with software criteria.
\<close>

text \<open>The ids of the agent pack other than the owner cycle rule, which only the owner graph raises.\<close>

definition agent_other_ids :: "string set" where
  "agent_other_ids = catalog_id_set AgentPolicyPack - {''RUST-AGENT-OWNER-GRAPH-009''}"

abbreviation agent_ok :: "raised \<Rightarrow> bool" where
  "agent_ok \<equiv> well_raised agent_policy_rule_map agent_other_ids"

definition MAX_LINEAR_NESTING_DEPTH :: nat where "MAX_LINEAR_NESTING_DEPTH = 2"
definition MAX_NATIVE_IDIOM_NESTING_DEPTH :: nat where "MAX_NATIVE_IDIOM_NESTING_DEPTH = 2"
definition MIN_BROAD_FUNCTION_LINES :: nat where "MIN_BROAD_FUNCTION_LINES = 72"
definition MIN_BROAD_FUNCTION_STATEMENTS :: nat where "MIN_BROAD_FUNCTION_STATEMENTS = 22"
definition MIN_LINEAR_BLOCK_STATEMENTS :: nat where "MIN_LINEAR_BLOCK_STATEMENTS = 14"
definition MIN_INTERNAL_TRAVERSAL_NESTING_DEPTH :: nat where "MIN_INTERNAL_TRAVERSAL_NESTING_DEPTH = 4"
definition MIN_INTERNAL_TRAVERSAL_LOOP_NESTING_DEPTH :: nat where "MIN_INTERNAL_TRAVERSAL_LOOP_NESTING_DEPTH = 2"
definition MIN_INTERNAL_TRAVERSAL_BRANCH_COUNT :: nat where "MIN_INTERNAL_TRAVERSAL_BRANCH_COUNT = 2"

abbreviation CONTROL_FLOW_BROAD_LINEAR_PHASE :: string where
  "CONTROL_FLOW_BROAD_LINEAR_PHASE \<equiv> ''control-flow.broad-linear-phase''"
abbreviation CONTROL_FLOW_DECISION_STACK :: string where
  "CONTROL_FLOW_DECISION_STACK \<equiv> ''control-flow.decision-stack''"
abbreviation CONTROL_FLOW_LITERAL_DISPATCH_CHAIN :: string where
  "CONTROL_FLOW_LITERAL_DISPATCH_CHAIN \<equiv> ''control-flow.literal-dispatch-chain''"
abbreviation CONTROL_FLOW_TRAVERSAL_KNOT :: string where
  "CONTROL_FLOW_TRAVERSAL_KNOT \<equiv> ''control-flow.traversal-knot''"
abbreviation DATA_STRUCTURE_LINEAR_MEMBERSHIP_SCAN :: string where
  "DATA_STRUCTURE_LINEAR_MEMBERSHIP_SCAN \<equiv> ''data-structure.linear-membership-scan''"
abbreviation NATIVE_IDIOM_MANUAL_TRANSFORM_LOOP :: string where
  "NATIVE_IDIOM_MANUAL_TRANSFORM_LOOP \<equiv> ''native-idiom.manual-transform-loop''"

definition compact_software_criterion :: "string \<Rightarrow> string" where
  "compact_software_criterion c =
     (if starts_with c ''software-criterion/'' then c else ''software-criterion/'' @ c)"

definition compact_software_criteria :: "string list \<Rightarrow> string" where
  "compact_software_criteria cs = join_with '', '' (map compact_software_criterion cs)"

definition with_software_criteria :: "string list \<Rightarrow> asp_rust_finding \<Rightarrow> asp_rust_finding" where
  "with_software_criteria criteria f =
     f\<lparr>finding_labels := bmap_insert ''softwareCriteria'' (join_with '','' criteria) (finding_labels f)\<rparr>"

section \<open>Profiles\<close>

definition push_signal :: "string list \<Rightarrow> string \<Rightarrow> string list" where
  "push_signal criteria signal = (if signal \<in> set criteria then criteria else criteria @ [signal])"

definition nested_algorithm_profile :: "function_control_flow \<Rightarrow> string list" where
  "nested_algorithm_profile cf =
     (if cf_max_nesting_depth cf \<ge> 4 then [''deep control-flow nesting''] else []) @
     (if cf_max_loop_nesting_depth cf \<ge> 2 \<and> cf_branch_count cf \<ge> 3 then [''nested loops mixed with branches''] else []) @
     (if cf_literal_dispatch_chain_count cf > 0 then [''literal dispatch chain without match''] else []) @
     (if cf_branch_count cf \<ge> 8 \<and> cf_match_count cf = 0 then [''large branch surface without match''] else [])"

definition nested_algorithm_software_criteria :: "string list \<Rightarrow> string list" where
  "nested_algorithm_software_criteria profile =
     fold (\<lambda>indicator criteria.
         if indicator = ''deep control-flow nesting'' \<or> indicator = ''large branch surface without match''
         then push_signal criteria CONTROL_FLOW_DECISION_STACK
         else if indicator = ''nested loops mixed with branches'' then push_signal criteria CONTROL_FLOW_TRAVERSAL_KNOT
         else if indicator = ''literal dispatch chain without match''
         then push_signal criteria CONTROL_FLOW_LITERAL_DISPATCH_CHAIN
         else criteria)
       profile []"

definition implementation_traversal_profile :: "function_control_flow \<Rightarrow> string list" where
  "implementation_traversal_profile cf =
     (if cf_max_nesting_depth cf \<ge> MIN_INTERNAL_TRAVERSAL_NESTING_DEPTH \<and>
         cf_max_loop_nesting_depth cf \<ge> MIN_INTERNAL_TRAVERSAL_LOOP_NESTING_DEPTH \<and>
         cf_branch_count cf \<ge> MIN_INTERNAL_TRAVERSAL_BRANCH_COUNT
      then [''nested loops guarded by branches''] else []) @
     (if cf_repeated_iterator_source_loop_count cf > 0 \<and> cf_branch_count cf \<ge> 2
      then [''repeated guarded scans over one source''] else [])"

definition broad_linear_profile :: "function_control_flow \<Rightarrow> string list" where
  "broad_linear_profile cf =
     (if cf_max_nesting_depth cf > MAX_LINEAR_NESTING_DEPTH then []
      else (if cf_line_span cf \<ge> MIN_BROAD_FUNCTION_LINES \<and> cf_statement_count cf \<ge> MIN_BROAD_FUNCTION_STATEMENTS
            then [''long public function body''] else []) @
        (if cf_max_block_statement_count cf \<ge> MIN_LINEAR_BLOCK_STATEMENTS then [''large linear statement block''] else []))"

definition native_iterator_idiom_profile :: "function_control_flow \<Rightarrow> string list" where
  "native_iterator_idiom_profile cf =
     (if cf_max_nesting_depth cf > MAX_NATIVE_IDIOM_NESTING_DEPTH then []
      else (if cf_manual_collection_loop_count cf > 0 then [''manual collection accumulator loop''] else []) @
        (if cf_manual_predicate_loop_count cf > 0 then [''manual predicate loop''] else []) @
        (if cf_manual_count_loop_count cf > 0 then [''manual count loop''] else []) @
        (if cf_manual_numeric_accumulator_loop_count cf > 0 then [''manual numeric accumulator loop''] else []) @
        (if cf_repeated_iterator_source_loop_count cf > 0 then [''repeated pass over the same iterator source''] else []))"

section \<open>Rules\<close>

text \<open>The finding that each rule builds for a function: summary, place, source line, advice and criteria.\<close>

definition flow_finding ::
  "parsed_module \<Rightarrow> asp_rust_rule \<Rightarrow> function_control_flow \<Rightarrow> string \<Rightarrow> string \<Rightarrow> string list \<Rightarrow> asp_rust_finding" where
  "flow_finding m rule cf summary_tail advice criteria = with_software_criteria criteria
     (finding_from_rule rule (display_path (pm_path m) @ summary_tail)
       (path_line_location (pm_path m) (cf_line cf)) (source_line_at (pm_source m) (cf_line cf)) advice)"

abbreviation criteria_suffix :: "string \<Rightarrow> string" where
  "criteria_suffix c \<equiv> '' Criteria: '' @ compact_software_criterion c @ ''.''"

abbreviation production_flows :: "parsed_module \<Rightarrow> function_control_flow list" where
  "production_flows m \<equiv> filter (\<lambda>cf. \<not> cf_is_test_context cf) (all_function_control_flows (pm_syntax_facts m))"

abbreviation production_public_flows :: "parsed_module \<Rightarrow> function_control_flow list" where
  "production_public_flows m \<equiv> filter (\<lambda>cf. \<not> cf_is_test_context cf) (public_function_control_flows (pm_syntax_facts m))"

definition nested_algorithm_findings :: "rule_map \<Rightarrow> parsed_module \<Rightarrow> raised" where
  "nested_algorithm_findings rules m = with_rule rules ''RUST-AGENT-CFG-PUBLIC-015'' (\<lambda>rule.
     map (\<lambda>cf. let criteria = nested_algorithm_software_criteria (nested_algorithm_profile cf) in
         flow_finding m rule cf
           ('' public function `'' @ cf_function_name cf @ ''` hides algorithm shape. Criteria: '' @
            compact_software_criteria criteria @ ''.'')
           ''make this public algorithm shape explicit'' criteria)
       (filter (\<lambda>cf. nested_algorithm_profile cf \<noteq> []) (production_public_flows m)))"

definition broad_linear_algorithm_findings :: "rule_map \<Rightarrow> parsed_module \<Rightarrow> raised" where
  "broad_linear_algorithm_findings rules m = with_rule rules ''RUST-AGENT-CFG-PUBLIC-016'' (\<lambda>rule.
     map (\<lambda>cf. flow_finding m rule cf
           ('' public function `'' @ cf_function_name cf @ ''` spans '' @ show_nat (cf_line_span cf) @ '' lines with '' @
            show_nat (cf_statement_count cf) @ '' statements and a '' @ show_nat (cf_max_block_statement_count cf) @
            ''-statement block.'' @ criteria_suffix CONTROL_FLOW_BROAD_LINEAR_PHASE)
           ''split this broad function into named algorithm steps'' [CONTROL_FLOW_BROAD_LINEAR_PHASE])
       (filter (\<lambda>cf. broad_linear_profile cf \<noteq> []) (production_public_flows m)))"

definition implementation_traversal_findings :: "rule_map \<Rightarrow> parsed_module \<Rightarrow> raised" where
  "implementation_traversal_findings rules m = with_rule rules ''RUST-AGENT-CFG-IMPL-025'' (\<lambda>rule.
     map (\<lambda>cf. flow_finding m rule cf
           ('' implementation function `'' @ cf_function_name cf @ ''` nests traversal scaffolding.'' @
            criteria_suffix CONTROL_FLOW_TRAVERSAL_KNOT)
           ''extract this traversal into named iterator, predicate, or receipt-processing helpers''
           [CONTROL_FLOW_TRAVERSAL_KNOT])
       (filter (\<lambda>cf. \<not> cf_is_public cf \<and> implementation_traversal_profile cf \<noteq> []) (production_flows m)))"

definition implementation_iterator_idiom_findings :: "rule_map \<Rightarrow> parsed_module \<Rightarrow> raised" where
  "implementation_iterator_idiom_findings rules m = with_rule rules ''RUST-AGENT-ITER-IMPL-026'' (\<lambda>rule.
     map (\<lambda>cf. flow_finding m rule cf
           ('' implementation function `'' @ cf_function_name cf @ ''` manually spells iterator boilerplate.'' @
            criteria_suffix NATIVE_IDIOM_MANUAL_TRANSFORM_LOOP)
           ''extract this loop into Rust iterator adapters or a named helper'' [NATIVE_IDIOM_MANUAL_TRANSFORM_LOOP])
       (filter (\<lambda>cf. \<not> cf_is_public cf \<and> implementation_traversal_profile cf = [] \<and> native_iterator_idiom_profile cf \<noteq> [])
         (production_flows m)))"

definition native_iterator_idiom_findings :: "rule_map \<Rightarrow> parsed_module list \<Rightarrow> raised" where
  "native_iterator_idiom_findings rules ms = with_rule rules ''RUST-AGENT-ITER-PUBLIC-017'' (\<lambda>rule.
     concat (map (\<lambda>m.
       map (\<lambda>cf. flow_finding m rule cf
           ('' public function `'' @ cf_function_name cf @ ''` manually spells iterator boilerplate. Criteria: '' @
            NATIVE_IDIOM_MANUAL_TRANSFORM_LOOP @ ''.'')
           ''replace this boilerplate loop with a Rust iterator idiom'' [NATIVE_IDIOM_MANUAL_TRANSFORM_LOOP])
         (filter (\<lambda>cf. native_iterator_idiom_profile cf \<noteq> []) (production_public_flows m))) ms))"

definition linear_membership_scan_findings :: "rule_map \<Rightarrow> parsed_module \<Rightarrow> raised" where
  "linear_membership_scan_findings rules m = with_rule rules ''RUST-AGENT-DATA-MEMBERSHIP-029'' (\<lambda>rule.
     map (\<lambda>cf. flow_finding m rule cf
           ('' function `'' @ cf_function_name cf @ ''` performs '' @ show_nat (cf_linear_membership_scan_loop_count cf) @
            '' loop-local linear membership scan(s).'' @ criteria_suffix DATA_STRUCTURE_LINEAR_MEMBERSHIP_SCAN)
           ''build a set or map index before the loop, or document why this scan is bounded''
           [DATA_STRUCTURE_LINEAR_MEMBERSHIP_SCAN])
       (filter (\<lambda>cf. cf_linear_membership_scan_loop_count cf > 0) (production_flows m)))"

definition async_blocking_boundary_findings :: "rule_map \<Rightarrow> parsed_module \<Rightarrow> raised" where
  "async_blocking_boundary_findings rules m = with_rule rules ''RUST-AGENT-ASYNC-BLOCKING-030'' (\<lambda>rule.
     map (\<lambda>cf. flow_finding m rule cf
           ('' async function `'' @ cf_function_name cf @ ''` performs '' @ show_nat (cf_blocking_call_count cf) @
            '' blocking call(s) without an explicit runtime boundary.'' @ criteria_suffix ''async.blocking-boundary'')
           ''move blocking work behind spawn_blocking, block_in_place, or a dedicated synchronous boundary''
           [''async.blocking-boundary''])
       (filter (\<lambda>cf. cf_is_async cf \<and> cf_blocking_call_count cf > 0) (production_flows m)))"

definition async_sync_lock_across_await_findings :: "rule_map \<Rightarrow> parsed_module \<Rightarrow> raised" where
  "async_sync_lock_across_await_findings rules m = with_rule rules ''RUST-AGENT-ASYNC-SYNC-LOCK-031'' (\<lambda>rule.
     map (\<lambda>cf. flow_finding m rule cf
           ('' async function `'' @ cf_function_name cf @ ''` holds '' @ show_nat (cf_sync_lock_guard_across_await_count cf) @
            '' sync lock guard(s) across `.await`.'' @ criteria_suffix ''async.sync-lock-across-await'')
           ''drop sync lock guards before `.await`, use `tokio::sync` primitives, or move the critical section behind a synchronous boundary''
           [''async.sync-lock-across-await''])
       (filter (\<lambda>cf. cf_is_async cf \<and> cf_sync_lock_guard_across_await_count cf > 0) (production_flows m)))"

definition async_unbounded_queue_backpressure_findings :: "rule_map \<Rightarrow> parsed_module \<Rightarrow> raised" where
  "async_unbounded_queue_backpressure_findings rules m = with_rule rules ''RUST-AGENT-ASYNC-BACKPRESSURE-032'' (\<lambda>rule.
     if list_ex (\<lambda>cf. cf_backpressure_boundary_signal_count cf > 0) (production_flows m) then []
     else map (\<lambda>cf. flow_finding m rule cf
           ('' function `'' @ cf_function_name cf @ ''` creates '' @ show_nat (cf_unbounded_async_queue_call_count cf) @
            '' unbounded async queue(s) without a readiness or capacity boundary.'' @
            criteria_suffix ''async.unbounded-queue-backpressure'')
           ''use a bounded channel or add an explicit poll_ready, try_send, reserve, or semaphore backpressure boundary''
           [''async.unbounded-queue-backpressure''])
       (filter (\<lambda>cf. cf_unbounded_async_queue_call_count cf > 0) (production_flows m)))"

definition async_select_cancellation_safety_findings :: "rule_map \<Rightarrow> parsed_module \<Rightarrow> raised" where
  "async_select_cancellation_safety_findings rules m = with_rule rules ''RUST-AGENT-ASYNC-CANCEL-SAFETY-033'' (\<lambda>rule.
     map (\<lambda>cf. flow_finding m rule cf
           ('' function `'' @ cf_function_name cf @ ''` places '' @ show_nat (cf_tokio_select_cancel_unsafe_io_count cf) @
            '' cancellation-unsafe I/O future(s) inside `tokio::select!`.'' @ criteria_suffix ''async.select-cancellation-safety'')
           ''split exact read/write progress out of the select branch or use cancellation-safe read/write polling''
           [''async.select-cancellation-safety''])
       (filter (\<lambda>cf. cf_tokio_select_cancel_unsafe_io_count cf > 0) (production_flows m)))"

definition async_timeout_cancellation_safety_findings :: "rule_map \<Rightarrow> parsed_module \<Rightarrow> raised" where
  "async_timeout_cancellation_safety_findings rules m = with_rule rules ''RUST-AGENT-ASYNC-CANCEL-SAFETY-034'' (\<lambda>rule.
     map (\<lambda>cf. flow_finding m rule cf
           ('' function `'' @ cf_function_name cf @ ''` wraps '' @ show_nat (cf_tokio_timeout_cancel_unsafe_io_count cf) @
            '' cancellation-unsafe I/O future(s) in `tokio::time::timeout`.'' @
            criteria_suffix ''async.timeout-cancellation-safety'')
           ''move exact read/write progress outside the timeout future or use a cancellation-safe polling loop with explicit partial-progress state''
           [''async.timeout-cancellation-safety''])
       (filter (\<lambda>cf. cf_tokio_timeout_cancel_unsafe_io_count cf > 0) (production_flows m)))"

definition async_task_lifecycle_boundary_findings :: "rule_map \<Rightarrow> parsed_module \<Rightarrow> raised" where
  "async_task_lifecycle_boundary_findings rules m = with_rule rules ''RUST-AGENT-ASYNC-TASK-LIFECYCLE-001'' (\<lambda>rule.
     map (\<lambda>cf. flow_finding m rule cf
           ('' function `'' @ cf_function_name cf @ ''` discards '' @ show_nat (cf_discarded_tokio_spawn_count cf) @
            '' Tokio task handle(s) without a lifecycle boundary.'' @ criteria_suffix ''async.task-lifecycle-boundary'')
           ''return, store, await, abort, or supervise the JoinHandle, or isolate the task behind an explicit detached-task boundary''
           [''async.task-lifecycle-boundary''])
       (filter (\<lambda>cf. cf_discarded_tokio_spawn_count cf > 0) (production_flows m)))"

definition algorithm_shape_module_findings :: "rule_map \<Rightarrow> parsed_module \<Rightarrow> raised" where
  "algorithm_shape_module_findings rules m = raise_all
     [nested_algorithm_findings rules m, broad_linear_algorithm_findings rules m,
      implementation_traversal_findings rules m, implementation_iterator_idiom_findings rules m,
      linear_membership_scan_findings rules m, async_blocking_boundary_findings rules m,
      async_sync_lock_across_await_findings rules m, async_unbounded_queue_backpressure_findings rules m,
      async_select_cancellation_safety_findings rules m, async_timeout_cancellation_safety_findings rules m,
      async_task_lifecycle_boundary_findings rules m]"

definition algorithm_shape_findings :: "rule_map \<Rightarrow> parsed_module list \<Rightarrow> raised" where
  "algorithm_shape_findings rules ms = raise_all (map (algorithm_shape_module_findings rules) ms)"

section \<open>The findings are of the catalog\<close>

lemma of_rule_flow_finding [simp]: "of_rule r (flow_finding m r cf s a cs)"
  by (simp add: flow_finding_def with_software_criteria_def of_rule_def finding_from_rule_def)

text \<open>A literal id other than the cycle rule's is looked up in the enumerated catalog.\<close>

lemma agent_idI:
  "rid \<in> set (rule_ids AgentPolicyPack @ unlisted_rule_ids AgentPolicyPack) \<Longrightarrow> rid \<noteq> ''RUST-AGENT-OWNER-GRAPH-009'' \<Longrightarrow>
   rid \<in> agent_other_ids"
  by (simp only: agent_other_ids_def catalog_id_set_eq Diff_iff singleton_iff not_False_eq_True simp_thms)

lemma agent_ok_with_rule:
  assumes "rid \<in> agent_other_ids" "\<And>r f. f \<in> set (g r) \<Longrightarrow> of_rule r f"
  shows "agent_ok (with_rule agent_policy_rule_map rid g)"
  by (rule agent_catalog.well_raised_with_rule) (use assms in \<open>auto simp: agent_other_ids_def\<close>)

lemma algorithm_ids [simp]:
  "''RUST-AGENT-CFG-PUBLIC-015'' \<in> agent_other_ids"
  "''RUST-AGENT-CFG-PUBLIC-016'' \<in> agent_other_ids"
  "''RUST-AGENT-CFG-IMPL-025'' \<in> agent_other_ids"
  "''RUST-AGENT-ITER-IMPL-026'' \<in> agent_other_ids"
  "''RUST-AGENT-ITER-PUBLIC-017'' \<in> agent_other_ids"
  "''RUST-AGENT-DATA-MEMBERSHIP-029'' \<in> agent_other_ids"
  "''RUST-AGENT-ASYNC-BLOCKING-030'' \<in> agent_other_ids"
  "''RUST-AGENT-ASYNC-SYNC-LOCK-031'' \<in> agent_other_ids"
  "''RUST-AGENT-ASYNC-BACKPRESSURE-032'' \<in> agent_other_ids"
  "''RUST-AGENT-ASYNC-CANCEL-SAFETY-033'' \<in> agent_other_ids"
  "''RUST-AGENT-ASYNC-CANCEL-SAFETY-034'' \<in> agent_other_ids"
  "''RUST-AGENT-ASYNC-TASK-LIFECYCLE-001'' \<in> agent_other_ids"
  by (rule agent_idI, simp add: rule_ids_def unlisted_rule_ids_def, simp)+

lemma algorithm_shape_findings_ok: "agent_ok (algorithm_shape_findings agent_policy_rule_map ms)"
proof -
  have "agent_ok (algorithm_shape_module_findings agent_policy_rule_map m)" for m
    unfolding algorithm_shape_module_findings_def nested_algorithm_findings_def broad_linear_algorithm_findings_def
      implementation_traversal_findings_def implementation_iterator_idiom_findings_def linear_membership_scan_findings_def
      async_blocking_boundary_findings_def async_sync_lock_across_await_findings_def
      async_unbounded_queue_backpressure_findings_def async_select_cancellation_safety_findings_def
      async_timeout_cancellation_safety_findings_def async_task_lifecycle_boundary_findings_def
    by (rule well_raised_all) (auto intro!: agent_ok_with_rule simp: Let_def split: if_splits)
  then show ?thesis unfolding algorithm_shape_findings_def by (intro well_raised_all) auto
qed

lemma native_iterator_idiom_findings_ok: "agent_ok (native_iterator_idiom_findings agent_policy_rule_map ms)"
  unfolding native_iterator_idiom_findings_def by (auto intro!: agent_ok_with_rule)

end
