(* ===== verification/Agent_Surface_Rules.thy ===== *)
theory Agent_Surface_Rules
  imports Agent_Algorithm_Rules
begin

text \<open>
  The rules over the public surface of source modules: \<open>src/rules/agent_policy/source_surface.rs\<close>. Where the
  source groups indices into the parameter list and looks the parameters up again, the groups here hold the
  parameters themselves.
\<close>

definition MAX_FACADE_REEXPORTS :: nat where "MAX_FACADE_REEXPORTS = 28"
definition MIN_BRANCH_CHILD_MODULES :: nat where "MIN_BRANCH_CHILD_MODULES = 2"
definition MIN_BROAD_POSITIONAL_PARAMS :: nat where "MIN_BROAD_POSITIONAL_PARAMS = 5"
definition MIN_FLAG_PARAMS :: nat where "MIN_FLAG_PARAMS = 2"
definition GENERIC_MODULE_NAMES :: "string list" where
  "GENERIC_MODULE_NAMES = [''common'', ''helper'', ''helpers'', ''misc'', ''shared'', ''stuff'', ''util'', ''utils'']"

definition is_generic_module_name :: "string \<Rightarrow> bool" where
  "is_generic_module_name name \<longleftrightarrow> name \<in> set GENERIC_MODULE_NAMES"

definition is_semantic_identifier_param :: "string \<Rightarrow> bool" where
  "is_semantic_identifier_param name \<longleftrightarrow> name = ''id'' \<or> ends_with name ''_id''"

definition public_named_item :: "top_level_item \<Rightarrow> string option" where
  "public_named_item item =
     (if item_kind item = ''mod'' then None else if item_is_public item then item_name item else None)"

definition has_public_surface :: "parsed_module \<Rightarrow> bool" where
  "has_public_surface m = list_ex (\<lambda>item. public_named_item item \<noteq> None) (top_level_items (pm_syntax_facts m))"

text \<open>A finding at a line of a module, whose summary starts with the path of the module.\<close>

definition line_finding :: "parsed_module \<Rightarrow> asp_rust_rule \<Rightarrow> string \<Rightarrow> nat \<Rightarrow> string \<Rightarrow> asp_rust_finding" where
  "line_finding m rule summary_tail n advice = finding_from_rule rule (display_path (pm_path m) @ summary_tail)
     (path_line_location (pm_path m) n) (source_line_at (pm_source m) n) advice"

definition head_finding :: "parsed_module \<Rightarrow> asp_rust_rule \<Rightarrow> string \<Rightarrow> string \<Rightarrow> asp_rust_finding" where
  "head_finding m rule summary_tail advice = finding_from_rule rule (display_path (pm_path m) @ summary_tail)
     (file_location (pm_path m)) (source_line_at (pm_source m) 1) advice"

section \<open>One module\<close>

definition module_intent_findings :: "rule_map \<Rightarrow> parsed_module \<Rightarrow> raised" where
  "module_intent_findings rules m =
     (if has_module_doc (pm_syntax_facts m) \<or> \<not> has_public_surface m then Some []
      else with_rule rules ''RUST-AGENT-DOCS-MODULE-001'' (\<lambda>rule.
        [head_finding m rule '' has public Rust surface without a module intent doc.''
           ''add a module intent doc using doc_markdown style'']))"

definition public_doc_findings :: "rule_map \<Rightarrow> parsed_module \<Rightarrow> raised" where
  "public_doc_findings rules m = with_rule rules ''RUST-AGENT-DOCS-PUBLIC-002'' (\<lambda>rule.
     List.map_filter (\<lambda>item. Option.bind (public_named_item item) (\<lambda>public_name.
         if item_has_doc item then None
         else Some (line_finding m rule ('' exposes public item `'' @ public_name @ ''` without a doc comment.'')
           (item_line item) ''add a doc comment using clippy::doc_markdown style'')))
       (top_level_items (pm_syntax_facts m)))"

definition facade_reexport_findings :: "rule_map \<Rightarrow> reasoning_tree \<Rightarrow> parsed_module \<Rightarrow> raised" where
  "facade_reexport_findings rules t m =
     (if \<not> (case reasoning_module_at t (pm_path m) of Some mf \<Rightarrow> is_crate_facade (mod_source_path mf) | None \<Rightarrow> False)
      then Some []
      else let reexport_count = length (filter item_is_public_use (top_level_items (pm_syntax_facts m))) in
        if reexport_count \<le> MAX_FACADE_REEXPORTS then Some []
        else with_rule rules ''RUST-AGENT-API-FACADE-005'' (\<lambda>rule.
          [head_finding m rule ('' re-exports '' @ show_nat reexport_count @ '' public use groups from the crate facade.'')
             ''group facade exports behind smaller owner modules'']))"

definition generic_public_module_findings :: "rule_map \<Rightarrow> parsed_module \<Rightarrow> raised" where
  "generic_public_module_findings rules m = with_rule rules ''RUST-AGENT-SOURCE-MODULE-006'' (\<lambda>rule.
     List.map_filter (\<lambda>item. Option.bind (item_module item) (\<lambda>d.
         if \<not> item_is_public item \<or> \<not> is_generic_module_name (decl_ident d) then None
         else Some (line_finding m rule ('' exposes generic public module `'' @ decl_ident d @ ''`.'')
           (item_line item) ''rename this public module to the domain it owns'')))
       (top_level_items (pm_syntax_facts m)))"

definition branch_module_intent_findings :: "rule_map \<Rightarrow> reasoning_tree \<Rightarrow> parsed_module \<Rightarrow> raised" where
  "branch_module_intent_findings rules t m =
     (if has_module_doc (pm_syntax_facts m) then Some []
      else let child_modules = (case reasoning_module_at t (pm_path m) of
            None \<Rightarrow> 0 | Some mf \<Rightarrow> length (mod_child_edges mf)) in
        if child_modules < MIN_BRANCH_CHILD_MODULES then Some []
        else with_rule rules ''RUST-AGENT-DOCS-BRANCH-008'' (\<lambda>rule.
          [head_finding m rule ('' owns '' @ show_nat child_modules @
             '' resolved child edges without a reasoning-tree intent doc.'')
             ''add a branch intent doc using doc_markdown style'']))"

definition public_primitive_identifier_findings :: "rule_map \<Rightarrow> parsed_module \<Rightarrow> raised" where
  "public_primitive_identifier_findings rules m = with_rule rules ''RUST-AGENT-API-TYPE-012'' (\<lambda>rule.
     List.map_filter (\<lambda>param.
         if fp_is_test_context param \<or> \<not> is_semantic_identifier_param (fp_param_name param) then None
         else Option.bind (fp_primitive_contract_type param) (\<lambda>primitive_type.
           if documented_agent_boundary (pm_source m) (fp_function_line param)
                [''primitive boundary'', ''identifier boundary'', ''raw dto boundary''] then None
           else Some (line_finding m rule ('' exposes public function `'' @ fp_function_name param @ ''` parameter `'' @
               fp_param_name param @ ''` as primitive `'' @ primitive_type @ ''`.'') (fp_line param)
             ''wrap this identifier in an owner-named newtype or document why the primitive boundary is intentional'')))
       (public_function_params (pm_syntax_facts m)))"

text \<open>
  The two rules on parameter lists group the positions of the parameters by function, and read the parameters of a group back with
  \<open>public_function_params[index]\<close>, which panics (\<open>None\<close>) out of range.
\<close>

definition params_at :: "parsed_module \<Rightarrow> nat list \<Rightarrow> function_param list option" where
  "params_at m indices = those (map (nth_opt (public_function_params (pm_syntax_facts m))) indices)"

definition flag_params_finding :: "parsed_module \<Rightarrow> asp_rust_rule \<Rightarrow> string \<Rightarrow> function_param list \<Rightarrow> asp_rust_finding option" where
  "flag_params_finding m rule fn_name params =
     (case params of [] \<Rightarrow> None | first # _ \<Rightarrow>
        if documented_agent_boundary (pm_source m) (fp_function_line first)
             [''flag mode boundary'', ''typed flag boundary'', ''positional boundary''] then None
        else let first_param = arg_min_list fp_line params;
                 flag_list = join_with '', '' (map (\<lambda>param. fp_param_name param @ '': '' @
                   (case fp_flag_contract_type param of Some t \<Rightarrow> t | None \<Rightarrow> ''bool'')) params)
             in Some (line_finding m rule ('' exposes public function `'' @ fn_name @
                  ''` with multiple flag parameters: '' @ flag_list @ ''.'') (fp_line first_param)
                  ''replace these public flags with a typed mode or config surface''))"

definition flag_group_finding :: "parsed_module \<Rightarrow> asp_rust_rule \<Rightarrow> string \<times> nat list \<Rightarrow> asp_rust_finding option option" where
  "flag_group_finding m rule g =
     (let (fn_name, indices) = g in
      if length indices < MIN_FLAG_PARAMS then Some None
      else map_option (flag_params_finding m rule fn_name) (params_at m indices))"

definition is_flag_param :: "function_param \<Rightarrow> bool" where
  "is_flag_param param \<longleftrightarrow> \<not> (fp_is_test_context param \<or> fp_flag_contract_type param = None)"

definition public_flag_parameter_findings :: "rule_map \<Rightarrow> parsed_module \<Rightarrow> raised" where
  "public_flag_parameter_findings rules m =
     (let params_by_function = group_by (\<lambda>e. fp_function_name (snd e)) fst
        (filter (\<lambda>e. is_flag_param (snd e)) (enumerate 0 (public_function_params (pm_syntax_facts m))))
      in Option.bind (bmap_get rules ''RUST-AGENT-API-FLAGS-018'') (\<lambda>rule.
           map_option (List.map_filter id) (those (map (flag_group_finding m rule) params_by_function))))"

definition broad_params_finding :: "parsed_module \<Rightarrow> asp_rust_rule \<Rightarrow> nat \<times> string \<Rightarrow> function_param list \<Rightarrow> asp_rust_finding option" where
  "broad_params_finding m rule fn params =
     (let (fn_line, fn_name) = fn in
      Some (line_finding m rule ('' exposes public function `'' @ fn_name @ ''` with '' @ show_nat (length params) @
        '' positional parameters: '' @ join_with '', '' (map fp_param_name params) @ ''.'') fn_line
        ''replace this positional surface with a named config, request type, or builder''))"

definition broad_group_finding ::
  "parsed_module \<Rightarrow> asp_rust_rule \<Rightarrow> (nat \<times> string) \<times> nat list \<Rightarrow> asp_rust_finding option option" where
  "broad_group_finding m rule g =
     (let (fn, indices) = g in
      if length indices < MIN_BROAD_POSITIONAL_PARAMS then Some None
      else if documented_agent_boundary (pm_source m) (fst fn) [''positional boundary'', ''builder compatibility boundary'']
      then Some None
      else map_option (broad_params_finding m rule fn) (params_at m indices))"

definition public_broad_parameter_surface_findings :: "rule_map \<Rightarrow> parsed_module \<Rightarrow> raised" where
  "public_broad_parameter_surface_findings rules m =
     (let params_by_function = group_by (\<lambda>e. (fp_function_line (snd e), fp_function_name (snd e))) fst
        (filter (\<lambda>e. \<not> fp_is_test_context (snd e)) (enumerate 0 (public_function_params (pm_syntax_facts m))))
      in Option.bind (bmap_get rules ''RUST-AGENT-API-PARAMETERS-019'') (\<lambda>rule.
           map_option (List.map_filter id) (those (map (broad_group_finding m rule) params_by_function))))"

definition public_application_error_boundary_findings :: "rule_map \<Rightarrow> parsed_module \<Rightarrow> raised" where
  "public_application_error_boundary_findings rules m = with_rule rules ''RUST-AGENT-API-ERROR-013'' (\<lambda>rule.
     List.map_filter (\<lambda>ret. if fr_is_test_context ret then None
         else map_option (\<lambda>boundary. line_finding m rule ('' exposes public function `'' @ fr_function_name ret @
             ''` with application error boundary `'' @ boundary @ ''`.'') (fr_line ret)
           ''return a crate-owned typed error at the public boundary or document why this is an application boundary'')
           (fr_application_error_boundary ret))
       (public_function_returns (pm_syntax_facts m)))"

definition source_module_findings :: "rule_map \<Rightarrow> reasoning_tree \<Rightarrow> parsed_module \<Rightarrow> raised" where
  "source_module_findings rules t m = raise_all
     [module_intent_findings rules m, public_doc_findings rules m, facade_reexport_findings rules t m,
      generic_public_module_findings rules m, branch_module_intent_findings rules t m,
      public_primitive_identifier_findings rules m, public_flag_parameter_findings rules m,
      public_broad_parameter_surface_findings rules m, public_application_error_boundary_findings rules m]"

section \<open>All modules\<close>

text \<open>The branches with a repeated segment, each with the first module of the branch and its segments.\<close>

definition record_repeated_branch ::
  "reasoning_tree \<Rightarrow> parsed_module \<Rightarrow> (path \<times> path \<times> string list) list \<Rightarrow> (path \<times> path \<times> string list) list" where
  "record_repeated_branch t m branches =
     (case reasoning_module_at t (pm_path m) of
        None \<Rightarrow> branches
      | Some mf \<Rightarrow> (case repeated_namespace_branch (mod_source_path mf) of
          None \<Rightarrow> branches
        | Some branch \<Rightarrow>
            if repeated_namespace_segments (mod_source_path mf) = [] then branches
            else let (p, repeated) = (case bmap_get branches branch of Some e \<Rightarrow> e | None \<Rightarrow> (pm_path m, []))
              in bmap_insert branch (p, bset_extend repeated (repeated_namespace_segments (mod_source_path mf))) branches))"

definition repeated_namespace_findings :: "rule_map \<Rightarrow> reasoning_tree \<Rightarrow> parsed_module list \<Rightarrow> raised" where
  "repeated_namespace_findings rules t ms = with_rule rules ''RUST-AGENT-SOURCE-NAMESPACE-003'' (\<lambda>rule.
     map (\<lambda>(branch, p, repeated). finding_from_rule rule
         (display_path branch @ '' repeats namespace segment(s): '' @ join_with '', '' repeated @ ''.'')
         (file_location p) None ''rename the deepest repeated path segment to its real responsibility'')
       (fold (record_repeated_branch t) ms []))"

definition generic_module_path_findings :: "rule_map \<Rightarrow> reasoning_tree \<Rightarrow> parsed_module list \<Rightarrow> raised" where
  "generic_module_path_findings rules t ms = with_rule rules ''RUST-AGENT-SOURCE-PATH-007'' (\<lambda>rule.
     List.map_filter (\<lambda>m. Option.bind (reasoning_module_at t (pm_path m)) (\<lambda>mf.
         Option.bind (find is_generic_module_name (namespace_components (mod_source_path mf))) (\<lambda>generic_segment.
           if module_doc_contains (pm_source m) [''generic path boundary'', ''compatibility path boundary''] then None
           else Some (head_finding m rule ('' uses generic module path segment `'' @ generic_segment @ ''`.'')
             ''rename this module path segment to the responsibility it owns'')))) ms)"

definition public_names :: "parsed_module list \<Rightarrow> (string \<times> parsed_module \<times> nat) list" where
  "public_names ms = concat (map (\<lambda>m.
     if \<not> module_is_valid (pm_report m) then []
     else List.map_filter (\<lambda>item. Option.bind (public_named_item item) (\<lambda>name.
         if documented_agent_boundary (pm_source m) (item_line item)
              [''namespace boundary'', ''compatibility namespace boundary''] then None
         else Some (name, m, item_line item)))
       (top_level_items (pm_syntax_facts m))) ms)"

definition public_name_conflict_findings :: "rule_map \<Rightarrow> parsed_module list \<Rightarrow> raised" where
  "public_name_conflict_findings rules ms = with_rule rules ''RUST-AGENT-API-NAME-004'' (\<lambda>rule.
     concat (map (\<lambda>(name, locations).
         if length locations < 2 then []
         else map (\<lambda>(m, n). finding_from_rule rule
             (''Public item `'' @ name @ ''` appears in multiple Rust modules and may be ambiguous for agents.'')
             (path_line_location (pm_path m) n) (source_line_at (pm_source m) n)
             ''rename or namespace this public item so the owner is unambiguous'') locations)
       (group_by fst snd (public_names ms))))"

section \<open>Test support re-exports\<close>

definition test_support_modules :: "reasoning_tree \<Rightarrow> known_namespaces" where
  "test_support_modules t =
     bmap_of_list (map (\<lambda>mf. (namespace_components (mod_source_path mf), mod_path mf))
       (filter (\<lambda>mf. namespace_components (mod_source_path mf) \<noteq> [])
         (filter (\<lambda>mf. is_test_support_module (mod_source_path mf)) (tree_modules t))))"

definition local_reference_candidate_namespace ::
  "string list \<Rightarrow> string list \<Rightarrow> import_root_kind \<Rightarrow> nat \<Rightarrow> string list option" where
  "local_reference_candidate_namespace current segments root hops =
     (case root of
        RootCrate \<Rightarrow> (case current of [] \<Rightarrow> None | r # _ \<Rightarrow> Some (r # drop 1 segments))
      | RootSelfScope \<Rightarrow> Some (current @ drop 1 segments)
      | RootParent \<Rightarrow> if hops > length current then None
          else Some (take (length current - hops) current @ drop hops segments)
      | _ \<Rightarrow> None)"

definition longest_test_support_namespace_prefix :: "string list \<Rightarrow> known_namespaces \<Rightarrow> (string list \<times> path) option" where
  "longest_test_support_namespace_prefix candidate support =
     Option.bind (find (\<lambda>n. bmap_get support (take n candidate) \<noteq> None) (rev [1..<Suc (length candidate)]))
       (\<lambda>n. map_option (\<lambda>p. (take n candidate, p)) (bmap_get support (take n candidate)))"

definition test_support_reference ::
  "string list \<Rightarrow> string list \<Rightarrow> import_root_kind \<Rightarrow> nat \<Rightarrow> known_namespaces \<Rightarrow> (path \<times> string) option" where
  "test_support_reference current segments root hops support =
     Option.bind (local_reference_candidate_namespace current segments root hops) (\<lambda>candidate.
       Option.bind (longest_test_support_namespace_prefix candidate support) (\<lambda>(ns, p).
         if length ns < length candidate then Some (p, candidate ! length ns) else None))"

definition path_root_kind :: "string list \<Rightarrow> import_root_kind" where
  "path_root_kind segments =
     (case segments of
        [] \<Rightarrow> RootUnknown
      | first # _ \<Rightarrow>
          if first = ''crate'' then RootCrate
          else if first = ''self'' then RootSelfScope
          else if first = ''super'' then RootParent
          else RootExternal)"

definition consumed_test_support_references ::
  "reasoning_tree \<Rightarrow> known_namespaces \<Rightarrow> parsed_module \<Rightarrow> (path \<times> string) list" where
  "consumed_test_support_references t support m =
     (case reasoning_module_at t (pm_path m) of
        None \<Rightarrow> []
      | Some mf \<Rightarrow>
          (let current = namespace_components (mod_source_path mf) in
           List.map_filter (\<lambda>imp. test_support_reference current (imp_segments imp) (imp_root_kind imp)
               (imp_parent_hops imp) support) (concat (map use_imports (use_statements (pm_syntax_facts m)))) @
           List.map_filter (\<lambda>ref. test_support_reference current (ref_segments ref) (path_root_kind (ref_segments ref))
               (parent_hops (ref_segments ref)) support) (path_references (pm_syntax_facts m))))"

definition consumed_test_support_names ::
  "reasoning_tree \<Rightarrow> parsed_module list \<Rightarrow> known_namespaces \<Rightarrow> (path \<times> string list) list" where
  "consumed_test_support_names t ms support =
     fold (\<lambda>(p, name) names. bmap_insert p (bset_insert name (case bmap_get names p of Some s \<Rightarrow> s | None \<Rightarrow> [])) names)
       (concat (map (consumed_test_support_references t support) ms)) []"

definition local_path_reference_lines_by_name :: "parsed_module \<Rightarrow> (string \<times> nat list) list" where
  "local_path_reference_lines_by_name m =
     fold (\<lambda>ref refs. bmap_insert (ref_terminal_name ref)
         (bset_insert (ref_line ref) (case bmap_get refs (ref_terminal_name ref) of Some s \<Rightarrow> s | None \<Rightarrow> [])) refs)
       (path_references (pm_syntax_facts m)) []"

definition locally_referenced_after_reexport :: "(string \<times> nat list) list \<Rightarrow> string \<Rightarrow> nat \<Rightarrow> bool" where
  "locally_referenced_after_reexport refs exposed_name reexport_line_no =
     (case bmap_get refs exposed_name of None \<Rightarrow> False | Some ls \<Rightarrow> list_ex (\<lambda>n. n \<noteq> reexport_line_no) ls)"

definition unused_reexports :: "parsed_module \<Rightarrow> string list option \<Rightarrow> use_reexport list" where
  "unused_reexports m consumed =
     filter (\<lambda>r. \<not> (\<not> vis_is_reexport (reexport_visibility r) \<or>
         locally_referenced_after_reexport (local_path_reference_lines_by_name m) (reexport_exposed_name r) (reexport_line r) \<or>
         (case consumed of None \<Rightarrow> False | Some names \<Rightarrow> reexport_exposed_name r \<in> set names)))
       (concat (map use_reexports (use_statements (pm_syntax_facts m))))"

definition test_support_module_reexport_findings :: "rule_map \<Rightarrow> string list option \<Rightarrow> parsed_module \<Rightarrow> raised" where
  "test_support_module_reexport_findings rules consumed m = with_rule rules ''RUST-AGENT-TEST-SUPPORT-014'' (\<lambda>rule.
     map (\<lambda>(n, names). line_finding m rule ('' re-exports unused test support scope name(s): '' @
         join_with '', '' (map (\<lambda>name. ''`'' @ name @ ''`'') (remdups_adj (sort names))) @ ''.'') n
         ''remove unused support re-export names or import them directly at the call site'')
       (group_by reexport_line reexport_exposed_name (unused_reexports m consumed)))"

definition test_support_reexport_findings :: "rule_map \<Rightarrow> reasoning_tree \<Rightarrow> parsed_module list \<Rightarrow> raised" where
  "test_support_reexport_findings rules t ms =
     (let consumed = consumed_test_support_names t ms (test_support_modules t)
      in raise_all (map (\<lambda>m. test_support_module_reexport_findings rules (bmap_get consumed (pm_path m)) m)
        (filter (\<lambda>m. module_is_valid (pm_report m) \<and>
            (case reasoning_module_at t (pm_path m) of
               Some mf \<Rightarrow> is_test_support_module (mod_source_path mf) | None \<Rightarrow> False)) ms)))"

section \<open>The findings are of the catalog\<close>

lemma of_rule_line_finding [simp]: "of_rule r (line_finding m r s n a)" "of_rule r (head_finding m r s a)"
  by (simp_all add: line_finding_def head_finding_def)

lemma agent_ok_map_filter:
  assumes "rid \<in> agent_other_ids" "\<And>r x f. h r x = Some f \<Longrightarrow> of_rule r f"
  shows "agent_ok (with_rule agent_policy_rule_map rid (\<lambda>rule. List.map_filter (h rule) xs))"
  using assms by (auto intro!: agent_ok_with_rule simp: set_map_filter)

lemma surface_ids [simp]:
  "''RUST-AGENT-DOCS-MODULE-001'' \<in> agent_other_ids"
  "''RUST-AGENT-DOCS-PUBLIC-002'' \<in> agent_other_ids"
  "''RUST-AGENT-SOURCE-NAMESPACE-003'' \<in> agent_other_ids"
  "''RUST-AGENT-API-NAME-004'' \<in> agent_other_ids"
  "''RUST-AGENT-API-FACADE-005'' \<in> agent_other_ids"
  "''RUST-AGENT-SOURCE-MODULE-006'' \<in> agent_other_ids"
  "''RUST-AGENT-SOURCE-PATH-007'' \<in> agent_other_ids"
  "''RUST-AGENT-DOCS-BRANCH-008'' \<in> agent_other_ids"
  "''RUST-AGENT-API-TYPE-012'' \<in> agent_other_ids"
  "''RUST-AGENT-API-ERROR-013'' \<in> agent_other_ids"
  "''RUST-AGENT-TEST-SUPPORT-014'' \<in> agent_other_ids"
  "''RUST-AGENT-API-FLAGS-018'' \<in> agent_other_ids"
  "''RUST-AGENT-API-PARAMETERS-019'' \<in> agent_other_ids"
  by (rule agent_idI, simp add: rule_ids_def unlisted_rule_ids_def, simp)+

text \<open>
  A finding for each group of positions is a finding for each group of parameters: the positions of a group are in range, so reading
  them never panics.
\<close>

lemma findings_of_groups:
  fixes finding :: "'k::linorder \<times> nat list \<Rightarrow> asp_rust_finding option option"
  assumes "\<And>k indices. finding (k, indices) = found k (map (nth_opt (public_function_params (pm_syntax_facts m))) indices)"
    and "\<And>k params. found k (map Some params) = Some (grouped (k, params))"
  shows "map_option (List.map_filter id) (those (map finding
      (group_by (\<lambda>e. key (snd e)) fst (filter (\<lambda>e. P (snd e)) (enumerate 0 (public_function_params (pm_syntax_facts m))))))) =
    Some (List.map_filter grouped (group_by key id (filter P (public_function_params (pm_syntax_facts m)))))"
proof -
  let ?ps = "public_function_params (pm_syntax_facts m)"
  let ?indices = "group_by (\<lambda>e. key (snd e)) fst (filter (\<lambda>e. P (snd e)) (enumerate 0 ?ps))"
  have "map finding ?indices = map (\<lambda>(k, os). found k os) (map (map_prod id (map (nth_opt ?ps))) ?indices)"
    by (auto simp: assms(1))
  also have "\<dots> = map (\<lambda>(k, os). found k os) (map (map_prod id (map Some)) (group_by key id (filter P ?ps)))"
    unfolding group_indices ..
  also have "\<dots> = map Some (map grouped (group_by key id (filter P ?ps)))" by (auto simp: assms(2))
  finally have "those (map finding ?indices) = Some (map grouped (group_by key id (filter P ?ps)))" by (simp only: those_map_Some_id)
  then show ?thesis by (simp add: List.map_filter_def filter_map comp_def)
qed

definition flag_finding_of :: "parsed_module \<Rightarrow> asp_rust_rule \<Rightarrow> string \<times> function_param list \<Rightarrow> asp_rust_finding option" where
  "flag_finding_of m rule g = (if length (snd g) < MIN_FLAG_PARAMS then None else flag_params_finding m rule (fst g) (snd g))"

lemma public_flag_parameter_findings_grouped:
  "public_flag_parameter_findings rules m = with_rule rules ''RUST-AGENT-API-FLAGS-018'' (\<lambda>rule.
     List.map_filter (flag_finding_of m rule) (group_by fp_function_name id (filter is_flag_param (public_function_params (pm_syntax_facts m)))))"
proof -
  let ?found = "\<lambda>rule k os. if length os < MIN_FLAG_PARAMS then Some None else map_option (flag_params_finding m rule k) (those os)"
  have "map_option (List.map_filter id) (those (map (flag_group_finding m rule) (group_by (\<lambda>e. fp_function_name (snd e)) fst
        (filter (\<lambda>e. is_flag_param (snd e)) (enumerate 0 (public_function_params (pm_syntax_facts m))))))) =
    Some (List.map_filter (flag_finding_of m rule) (group_by fp_function_name id (filter is_flag_param (public_function_params (pm_syntax_facts m)))))" for rule
    by (rule findings_of_groups [where found = "?found rule"]) (simp_all add: flag_group_finding_def params_at_def flag_finding_of_def)
  then show ?thesis
    by (cases "bmap_get rules ''RUST-AGENT-API-FLAGS-018''") (simp_all add: public_flag_parameter_findings_def with_rule_def)
qed

definition broad_finding_of :: "parsed_module \<Rightarrow> asp_rust_rule \<Rightarrow> (nat \<times> string) \<times> function_param list \<Rightarrow> asp_rust_finding option" where
  "broad_finding_of m rule g =
     (if length (snd g) < MIN_BROAD_POSITIONAL_PARAMS \<or>
         documented_agent_boundary (pm_source m) (fst (fst g)) [''positional boundary'', ''builder compatibility boundary'']
      then None else broad_params_finding m rule (fst g) (snd g))"

lemma public_broad_parameter_surface_findings_grouped:
  "public_broad_parameter_surface_findings rules m = with_rule rules ''RUST-AGENT-API-PARAMETERS-019'' (\<lambda>rule.
     List.map_filter (broad_finding_of m rule) (group_by (\<lambda>param. (fp_function_line param, fp_function_name param)) id
       (filter (\<lambda>param. \<not> fp_is_test_context param) (public_function_params (pm_syntax_facts m)))))"
proof -
  let ?found = "\<lambda>rule k os. if length os < MIN_BROAD_POSITIONAL_PARAMS \<or>
      documented_agent_boundary (pm_source m) (fst k) [''positional boundary'', ''builder compatibility boundary'']
    then Some None else map_option (broad_params_finding m rule k) (those os)"
  have "map_option (List.map_filter id) (those (map (broad_group_finding m rule)
      (group_by (\<lambda>e. (fp_function_line (snd e), fp_function_name (snd e))) fst
        (filter (\<lambda>e. \<not> fp_is_test_context (snd e)) (enumerate 0 (public_function_params (pm_syntax_facts m))))))) =
    Some (List.map_filter (broad_finding_of m rule) (group_by (\<lambda>param. (fp_function_line param, fp_function_name param)) id
       (filter (\<lambda>param. \<not> fp_is_test_context param) (public_function_params (pm_syntax_facts m)))))" for rule
    by (rule findings_of_groups [where found = "?found rule" and key = "\<lambda>param. (fp_function_line param, fp_function_name param)"])
      (simp_all add: broad_group_finding_def params_at_def broad_finding_of_def)
  then show ?thesis
    by (cases "bmap_get rules ''RUST-AGENT-API-PARAMETERS-019''") (simp_all add: public_broad_parameter_surface_findings_def with_rule_def)
qed

lemma flag_finding_of_rule: "flag_finding_of m r g = Some f \<Longrightarrow> of_rule r f"
  by (auto simp: flag_finding_of_def flag_params_finding_def Let_def split: if_splits list.splits)

lemma broad_finding_of_rule: "broad_finding_of m r g = Some f \<Longrightarrow> of_rule r f"
  by (auto simp: broad_finding_of_def broad_params_finding_def Let_def split: prod.splits if_splits)

lemma source_module_findings_ok: "agent_ok (source_module_findings agent_policy_rule_map t m)"
proof -
  have "agent_ok (module_intent_findings agent_policy_rule_map m)"
    "agent_ok (facade_reexport_findings agent_policy_rule_map t m)"
    "agent_ok (branch_module_intent_findings agent_policy_rule_map t m)"
    unfolding module_intent_findings_def facade_reexport_findings_def branch_module_intent_findings_def Let_def
    by (auto intro!: well_raised_if agent_ok_with_rule)
  moreover have "agent_ok (public_doc_findings agent_policy_rule_map m)"
    "agent_ok (generic_public_module_findings agent_policy_rule_map m)"
    "agent_ok (public_primitive_identifier_findings agent_policy_rule_map m)"
    "agent_ok (public_application_error_boundary_findings agent_policy_rule_map m)"
    unfolding public_doc_findings_def generic_public_module_findings_def public_primitive_identifier_findings_def
      public_application_error_boundary_findings_def
    by (auto intro!: agent_ok_map_filter simp: bind_eq_Some_conv split: if_splits)
  moreover have "agent_ok (public_flag_parameter_findings agent_policy_rule_map m)"
    "agent_ok (public_broad_parameter_surface_findings agent_policy_rule_map m)"
    unfolding public_flag_parameter_findings_grouped public_broad_parameter_surface_findings_grouped
    by (auto intro!: agent_ok_map_filter dest: flag_finding_of_rule broad_finding_of_rule)
  ultimately show ?thesis
    unfolding source_module_findings_def by (intro well_raised_all) auto
qed

lemma surface_findings_ok:
  "agent_ok (repeated_namespace_findings agent_policy_rule_map t ms)"
  "agent_ok (generic_module_path_findings agent_policy_rule_map t ms)"
  "agent_ok (public_name_conflict_findings agent_policy_rule_map ms)"
  "agent_ok (test_support_reexport_findings agent_policy_rule_map t ms)"
proof -
  show "agent_ok (repeated_namespace_findings agent_policy_rule_map t ms)"
    unfolding repeated_namespace_findings_def by (auto intro!: agent_ok_with_rule)
  show "agent_ok (generic_module_path_findings agent_policy_rule_map t ms)"
    unfolding generic_module_path_findings_def
    by (auto intro!: agent_ok_map_filter simp: bind_eq_Some_conv split: if_splits)
  show "agent_ok (public_name_conflict_findings agent_policy_rule_map ms)"
    unfolding public_name_conflict_findings_def by (auto intro!: agent_ok_with_rule split: if_splits)
  have "agent_ok (test_support_module_reexport_findings agent_policy_rule_map consumed m)" for consumed m
    unfolding test_support_module_reexport_findings_def by (auto intro!: agent_ok_with_rule)
  then show "agent_ok (test_support_reexport_findings agent_policy_rule_map t ms)"
    unfolding test_support_reexport_findings_def Let_def by (intro well_raised_all) auto
qed

end
