(* ===== verification/Agent_Shape_Rules.thy ===== *)
theory Agent_Shape_Rules
  imports Agent_Surface_Rules
begin

text \<open>
  The rules over public data and API shapes and over runtime boundaries: \<open>data_shape.rs\<close>, \<open>api_shape.rs\<close>,
  \<open>native_abi.rs\<close>, \<open>process_command.rs\<close> and \<open>tokio_runtime.rs\<close> of \<open>src/rules/agent_policy/\<close>.
\<close>

definition MIN_SEMANTIC_PRIMITIVE_FIELDS :: nat where "MIN_SEMANTIC_PRIMITIVE_FIELDS = 3"
definition MIN_ENUM_VARIANT_SEMANTIC_PRIMITIVE_FIELDS :: nat where "MIN_ENUM_VARIANT_SEMANTIC_PRIMITIVE_FIELDS = 2"
definition MIN_ENUM_TUPLE_VARIANT_SEMANTIC_PRIMITIVE_FIELDS :: nat where
  "MIN_ENUM_TUPLE_VARIANT_SEMANTIC_PRIMITIVE_FIELDS = 2"

section \<open>Names that carry meaning\<close>

definition is_semantic_identifier :: "string \<Rightarrow> bool" where
  "is_semantic_identifier name \<longleftrightarrow> name = ''id'' \<or> ends_with name ''_id''"

definition is_semantic_public_data_field :: "string \<Rightarrow> bool" where
  "is_semantic_public_data_field name \<longleftrightarrow> is_semantic_identifier name \<or>
     name \<in> set [''path'', ''url'', ''uri'', ''key'', ''token''] \<or>
     list_ex (ends_with name) [''_path'', ''_url'', ''_uri'', ''_key'', ''_token'', ''_ms'', ''_secs'', ''_seconds'', ''_bytes'']"

definition is_stringly_state_field :: "string \<Rightarrow> bool" where
  "is_stringly_state_field raw =
     (let name = (if starts_with raw ''r#'' then drop 2 raw else raw) in
      name \<in> set [''kind'', ''type'', ''status'', ''state'', ''mode'', ''phase'', ''tag'', ''category''] \<or>
      list_ex (ends_with name) [''_kind'', ''_type'', ''_status'', ''_state'', ''_mode'', ''_phase'', ''_tag'', ''_category''])"

definition string_contract_type :: "string option \<Rightarrow> string option" where
  "string_contract_type t =
     (case t of None \<Rightarrow> None | Some c \<Rightarrow> if c \<in> {''String'', ''Option<String>''} then Some c else None)"

definition is_semantic_public_type_alias :: "string \<Rightarrow> bool" where
  "is_semantic_public_type_alias name \<longleftrightarrow> name = ''Id'' \<or>
     list_ex (ends_with name) [''Id'', ''ID'', ''Path'', ''Url'', ''URL'', ''Uri'', ''URI'', ''Key'', ''Token'', ''Ms'',
       ''Secs'', ''Seconds'', ''Bytes'']"

definition is_public_flag_field :: "string \<Rightarrow> bool" where
  "is_public_flag_field name \<longleftrightarrow> name \<in> {''enabled'', ''disabled''} \<or>
     list_ex (starts_with name) [''is_'', ''has_'', ''can_'', ''allow_'', ''include_'', ''should_'']"

definition is_public_flag_type_alias :: "string \<Rightarrow> bool" where
  "is_public_flag_type_alias name =
     list_ex (ends_with name) [''Flag'', ''Enabled'', ''Disabled'', ''Allowed'', ''Included'']"

definition option_or :: "'a option \<Rightarrow> 'a option \<Rightarrow> 'a option" where
  "option_or a b = (case a of Some x \<Rightarrow> Some x | None \<Rightarrow> b)"

definition named_field_contract_type :: "string \<Rightarrow> string option \<Rightarrow> string option \<Rightarrow> string option" where
  "named_field_contract_type name primitive flag =
     (if is_semantic_public_data_field name then option_or primitive flag
      else if is_public_flag_field name then flag else None)"

definition public_data_field_contract_type :: "public_struct_field \<Rightarrow> string option" where
  "public_data_field_contract_type f =
     named_field_contract_type (sf_field_name f) (sf_primitive_contract_type f) (sf_flag_contract_type f)"

definition public_enum_payload_field_contract_type :: "public_enum_variant_field \<Rightarrow> string option" where
  "public_enum_payload_field_contract_type f =
     named_field_contract_type (vf_field_name f) (vf_primitive_contract_type f) (vf_flag_contract_type f)"

definition public_enum_tuple_payload_field_contract_type :: "public_enum_tuple_variant_field \<Rightarrow> string option" where
  "public_enum_tuple_payload_field_contract_type f = option_or (tf_primitive_contract_type f) (tf_flag_contract_type f)"

definition public_type_alias_contract_type :: "public_type_alias \<Rightarrow> string option" where
  "public_type_alias_contract_type a =
     (if is_semantic_public_type_alias (ta_alias_name a) \<or> is_public_flag_type_alias (ta_alias_name a)
      then option_or (ta_primitive_contract_type a) (ta_flag_contract_type a) else None)"

section \<open>Data shapes\<close>

text \<open>The fields of a group in the order of their lines, as the summary lists them.\<close>

definition field_list :: "(nat \<times> string) list \<Rightarrow> string" where
  "field_list fs = join_with '', '' (map snd (sort_key fst fs))"

definition struct_field_group ::
  "(public_struct_field \<Rightarrow> string option) \<Rightarrow> parsed_module \<Rightarrow> ((nat \<times> string) \<times> (nat \<times> string) list) list" where
  "struct_field_group contract m =
     group_by fst snd (List.map_filter (\<lambda>f. if sf_is_test_context f then None
         else map_option (\<lambda>t. ((sf_struct_line f, sf_struct_name f), (sf_line f, sf_field_name f @ '': '' @ t))) (contract f))
       (public_struct_fields (pm_syntax_facts m)))"

definition variant_field_group ::
  "(public_enum_variant_field \<Rightarrow> string option) \<Rightarrow> parsed_module \<Rightarrow>
    ((nat \<times> string \<times> string) \<times> (nat \<times> string) list) list" where
  "variant_field_group contract m =
     group_by fst snd (List.map_filter (\<lambda>f. if vf_is_test_context f then None
         else map_option (\<lambda>t. ((vf_variant_line f, vf_enum_name f, vf_variant_name f),
           (vf_line f, vf_field_name f @ '': '' @ t))) (contract f))
       (public_enum_variant_fields (pm_syntax_facts m)))"

definition public_data_struct_primitive_field_findings :: "rule_map \<Rightarrow> parsed_module \<Rightarrow> raised" where
  "public_data_struct_primitive_field_findings rules m = with_rule rules ''RUST-AGENT-DATA-FIELD-020'' (\<lambda>rule.
     List.map_filter (\<lambda>((struct_line, struct_name), fs).
         if length fs < MIN_SEMANTIC_PRIMITIVE_FIELDS \<or> documented_agent_boundary (pm_source m) struct_line
              [''raw dto boundary'', ''primitive field boundary'', ''semantic field boundary''] then None
         else Some (line_finding m rule ('' exposes public data struct `'' @ struct_name @
           ''` with primitive semantic fields: '' @ field_list fs @ ''.'') struct_line
           ''wrap these fields in named domain types or make the raw DTO boundary explicit''))
       (struct_field_group public_data_field_contract_type m))"

definition public_enum_variant_primitive_payload_findings :: "rule_map \<Rightarrow> parsed_module \<Rightarrow> raised" where
  "public_enum_variant_primitive_payload_findings rules m = with_rule rules ''RUST-AGENT-DATA-ENUM-PAYLOAD-021'' (\<lambda>rule.
     List.map_filter (\<lambda>((variant_line, enum_name, variant_name), fs).
         if length fs < MIN_ENUM_VARIANT_SEMANTIC_PRIMITIVE_FIELDS \<or> documented_agent_boundary (pm_source m) variant_line
              [''raw dto boundary'', ''primitive payload boundary'', ''semantic payload boundary''] then None
         else Some (line_finding m rule ('' exposes public enum `'' @ enum_name @ ''` variant `'' @ variant_name @
           ''` with primitive semantic payload fields: '' @ field_list fs @ ''.'') variant_line
           ''wrap this variant payload in named domain types or move it into a named payload struct''))
       (variant_field_group public_enum_payload_field_contract_type m))"

definition public_type_generic_bound_findings :: "rule_map \<Rightarrow> parsed_module \<Rightarrow> raised" where
  "public_type_generic_bound_findings rules m = with_rule rules ''RUST-AGENT-DATA-BOUNDS-022'' (\<lambda>rule.
     List.map_filter (\<lambda>((type_line, type_kind, type_name), bounds).
         if documented_agent_boundary (pm_source m) type_line [''generic bound boundary'', ''derived bound boundary''] then None
         else Some (line_finding m rule ('' exposes public '' @ type_kind @ '' `'' @ type_name @
           ''` with duplicated data-type bounds: '' @
           join_with '', '' (map snd (remdups_adj (sort_key fst bounds))) @ ''.'') type_line
           ''move these bounds to derived impls, inherent impls, or methods that actually require them''))
       (group_by (\<lambda>b. (gb_type_line b, gb_type_kind b, gb_type_name b))
         (\<lambda>b. (gb_line b, gb_param_name b @ '': '' @ gb_bound_name b))
         (filter (\<lambda>b. \<not> gb_is_test_context b) (public_type_generic_bounds (pm_syntax_facts m)))))"

definition public_enum_tuple_variant_payload_findings :: "rule_map \<Rightarrow> parsed_module \<Rightarrow> raised" where
  "public_enum_tuple_variant_payload_findings rules m = with_rule rules ''RUST-AGENT-DATA-ENUM-TUPLE-024'' (\<lambda>rule.
     List.map_filter (\<lambda>((variant_line, enum_name, variant_name), fs).
         if length fs < MIN_ENUM_TUPLE_VARIANT_SEMANTIC_PRIMITIVE_FIELDS \<or> documented_agent_boundary (pm_source m) variant_line
              [''tuple payload boundary'', ''raw dto boundary'', ''anonymous payload boundary''] then None
         else Some (line_finding m rule ('' exposes public enum `'' @ enum_name @ ''` tuple variant `'' @ variant_name @
           ''` with anonymous primitive payload fields: '' @ field_list fs @ ''.'') variant_line
           ''replace the tuple variant payload with named fields, a named payload struct, or domain newtypes''))
       (group_by fst snd (List.map_filter (\<lambda>f. if tf_is_test_context f then None
           else map_option (\<lambda>t. ((tf_variant_line f, tf_enum_name f, tf_variant_name f),
             (tf_line f, ''#'' @ show_nat (tf_field_index f + 1) @ '': '' @ t)))
             (public_enum_tuple_payload_field_contract_type f))
         (public_enum_tuple_variant_fields (pm_syntax_facts m)))))"

definition public_type_alias_primitive_findings :: "rule_map \<Rightarrow> parsed_module \<Rightarrow> raised" where
  "public_type_alias_primitive_findings rules m = with_rule rules ''RUST-AGENT-API-TYPE-ALIAS-027'' (\<lambda>rule.
     List.map_filter (\<lambda>a.
         if documented_agent_boundary (pm_source m) (ta_line a)
              [''primitive alias boundary'', ''newtype compatibility boundary''] then None
         else map_option (\<lambda>t. line_finding m rule ('' exposes public semantic type alias `'' @ ta_alias_name a @ ''` = `'' @
             ta_target_type_text a @ ''` over primitive carrier '' @ t @ ''.'') (ta_line a)
             ''replace this alias with a newtype or named struct boundary'')
           (public_type_alias_contract_type a))
       (filter (\<lambda>a. \<not> ta_is_test_context a) (public_type_aliases (pm_syntax_facts m))))"

definition public_struct_stringly_state_field_findings :: "parsed_module \<Rightarrow> asp_rust_rule \<Rightarrow> asp_rust_finding list" where
  "public_struct_stringly_state_field_findings m rule =
     List.map_filter (\<lambda>((struct_line, struct_name), fs).
         if documented_agent_boundary (pm_source m) struct_line [''stringly state boundary'', ''typed catalog boundary''] then None
         else Some (line_finding m rule ('' exposes public data struct `'' @ struct_name @
           ''` with stringly state fields: '' @ field_list fs @ ''.'') struct_line
           ''replace this stringly state surface with an enum, newtype, or typed catalog boundary''))
       (struct_field_group (\<lambda>f. if is_stringly_state_field (sf_field_name f)
          then string_contract_type (sf_primitive_contract_type f) else None) m)"

definition public_enum_variant_stringly_state_field_findings :: "parsed_module \<Rightarrow> asp_rust_rule \<Rightarrow> asp_rust_finding list" where
  "public_enum_variant_stringly_state_field_findings m rule =
     List.map_filter (\<lambda>((variant_line, enum_name, variant_name), fs).
         if documented_agent_boundary (pm_source m) variant_line [''stringly state boundary'', ''typed catalog boundary''] then None
         else Some (line_finding m rule ('' exposes public enum `'' @ enum_name @ ''` variant `'' @ variant_name @
           ''` with stringly state fields: '' @ field_list fs @ ''.'') variant_line
           ''replace this stringly state payload with an enum, newtype, or typed catalog boundary''))
       (variant_field_group (\<lambda>f. if is_stringly_state_field (vf_field_name f)
          then string_contract_type (vf_primitive_contract_type f) else None) m)"

definition public_stringly_state_field_findings :: "rule_map \<Rightarrow> parsed_module \<Rightarrow> raised" where
  "public_stringly_state_field_findings rules m = with_rule rules ''RUST-AGENT-DATA-STATE-028'' (\<lambda>rule.
     public_struct_stringly_state_field_findings m rule @ public_enum_variant_stringly_state_field_findings m rule)"

definition data_shape_findings :: "rule_map \<Rightarrow> parsed_module \<Rightarrow> raised" where
  "data_shape_findings rules m = raise_all
     [public_data_struct_primitive_field_findings rules m, public_enum_variant_primitive_payload_findings rules m,
      public_type_generic_bound_findings rules m, public_enum_tuple_variant_payload_findings rules m,
      public_type_alias_primitive_findings rules m, public_stringly_state_field_findings rules m]"

section \<open>API shapes\<close>

definition public_tuple_api_surface_findings :: "rule_map \<Rightarrow> parsed_module \<Rightarrow> raised" where
  "public_tuple_api_surface_findings rules m = with_rule rules ''RUST-AGENT-API-SHAPE-023'' (\<lambda>rule.
     List.map_filter (\<lambda>s.
         if documented_agent_boundary (pm_source m) (tu_function_line s)
              [''tuple api boundary'', ''raw dto boundary'', ''anonymous payload boundary''] then None
         else Some (line_finding m rule ('' exposes public function `'' @ tu_function_name s @ ''` '' @ tu_surface_name s @
           '' as anonymous tuple with primitive elements: '' @ join_with '', '' (tu_element_contract_types s) @ ''.'') (tu_line s)
           ''replace the tuple with a named struct, enum, or newtype that carries field intent''))
       (filter (\<lambda>s. \<not> tu_is_test_context s) (public_tuple_api_surfaces (pm_syntax_facts m))))"

definition public_dynamic_json_api_surface_findings :: "rule_map \<Rightarrow> parsed_module \<Rightarrow> raised" where
  "public_dynamic_json_api_surface_findings rules m = with_rule rules ''RUST-AGENT-API-SHAPE-036'' (\<lambda>rule.
     List.map_filter (\<lambda>s.
         if documented_agent_boundary (pm_source m) (dj_function_line s)
              [''dynamic json api boundary'', ''raw json api boundary'', ''serde_json value boundary'', ''untyped payload boundary'']
         then None
         else Some (line_finding m rule ('' exposes public function `'' @ dj_function_name s @ ''` '' @ dj_surface_name s @
           '' as dynamic JSON `'' @ dj_json_type_name s @ ''` through `'' @ dj_type_text s @ ''`.'') (dj_line s)
           ''replace `serde_json::Value` with a named request, response, enum, or documented boundary type''))
       (filter (\<lambda>s. \<not> dj_is_test_context s) (public_dynamic_json_api_surfaces (pm_syntax_facts m))))"

definition api_shape_findings :: "rule_map \<Rightarrow> parsed_module \<Rightarrow> raised" where
  "api_shape_findings rules m = raise_all
     [public_tuple_api_surface_findings rules m, public_dynamic_json_api_surface_findings rules m]"

section \<open>Runtime boundaries\<close>

definition missing_abi_constants :: "native_abi_surface \<Rightarrow> string list" where
  "missing_abi_constants s =
     (if has_abi_version_const s then [] else [''ABI_VERSION'']) @
     (if has_abi_id_const s then [] else [''ABI_ID'']) @
     (if has_header_path_const s then [] else [''HEADER_PATH'']) @
     (if has_header_source_const s then [] else [''HEADER_SOURCE''])"

definition native_abi_contract_findings :: "rule_map \<Rightarrow> parsed_module \<Rightarrow> raised" where
  "native_abi_contract_findings rules m = with_rule rules ''RUST-AGENT-NATIVE-ABI-001'' (\<lambda>rule.
     List.map_filter (\<lambda>s.
         if missing_abi_constants s = [] then None
         else Some (line_finding m rule ('' exposes native ABI '' @ abi_item_kind s @ '' `'' @ abi_item_name s @ ''` without '' @
           join_with '', '' (missing_abi_constants s) @ '' in the same owner.'') (abi_line s)
           ''co-locate native ABI layout types with ABI version, ABI id, header path, and header source constants so agents update Rust, C, and projection contracts together''))
       (filter (\<lambda>s. \<not> abi_is_test_context s \<and> has_native_abi_marker s) (native_abi_surfaces (pm_syntax_facts m))))"

definition is_process_command_boundary_context :: "string \<Rightarrow> string \<Rightarrow> string \<Rightarrow> bool" where
  "is_process_command_boundary_context p fn_name command_expr =
     (let haystack = to_ascii_lowercase (p @ '' '' @ fn_name @ '' '' @ command_expr) in
      list_ex (contains_sub haystack) [''binding'', ''process command'', ''process-command'', ''process_command'', ''probe''])"

definition process_command_findings :: "rule_map \<Rightarrow> parsed_module \<Rightarrow> raised" where
  "process_command_findings rules m = with_rule rules ''RUST-AGENT-PROC-001'' (\<lambda>rule.
     List.map_filter (\<lambda>e.
         if \<not> is_process_command_boundary_context (display (pm_path m)) (pc_function_name e) (pc_command_expr e) then None
         else if documented_agent_boundary (pm_source m) (pc_function_line e)
              [''process command probe'', ''process command boundary'', ''command execution boundary'',
               ''process runner'', ''typed command receipt''] then None
         else let parts = (if pc_has_current_dir e then [''cwd''] else []) @ (if pc_has_env e then [''env''] else []);
                  boundary = (if parts = [] then ''without cwd/env shaping'' else ''with '' @ join_with ''+'' parts @ '' shaping'')
              in Some (line_finding m rule ('' executes process command `'' @ pc_command_expr e @ ''` in `'' @
                   pc_function_name e @ ''` via `'' @ pc_terminal_operation e @ ''` '' @ boundary @ ''.'') (pc_line e)
                   ''split command construction, execution, and receipt parsing into named owners or document the process runner boundary''))
       (filter (\<lambda>e. \<not> pc_is_test_context e) (process_command_executions (pm_syntax_facts m))))"

definition is_runtime_owner_context :: "string \<Rightarrow> string \<Rightarrow> bool" where
  "is_runtime_owner_context p fn_name =
     (let np = to_ascii_lowercase (replace_char CHR 0x5C CHR ''/'' p); nf = to_ascii_lowercase fn_name in
      list_ex (contains_sub np) [''/runtime/'', ''tokio_runtime'', ''runtime.rs''] \<and>
      list_ex (contains_sub nf) [''spawn'', ''runtime'', ''blocking'', ''task''])"

definition tokio_runtime_boundary_findings :: "rule_map \<Rightarrow> parsed_module \<Rightarrow> raised" where
  "tokio_runtime_boundary_findings rules m = with_rule rules ''RUST-AGENT-TOKIO-RUNTIME-002'' (\<lambda>rule.
     List.map_filter (\<lambda>op.
         if is_runtime_owner_context (display (pm_path m)) (tk_function_name op) then None
         else if documented_agent_boundary (pm_source m) (tk_function_line op)
              [''tokio runtime boundary'', ''runtime task boundary'', ''runtime owner'', ''runtime facade'',
               ''task lifecycle boundary'', ''blocking task boundary''] then None
         else Some (line_finding m rule ('' calls Tokio runtime operation `'' @ tk_call_expr op @ ''` in `'' @
           tk_function_name op @ ''` without a runtime owner boundary.'') (tk_line op)
           ''route Tokio spawn/blocking/runtime construction through a typed runtime facade with task tracking, shutdown, cancellation, and observability''))
       (filter (\<lambda>op. \<not> tk_is_test_context op) (tokio_runtime_operations (pm_syntax_facts m))))"

section \<open>The findings are of the catalog\<close>

lemma shape_ids [simp]:
  "''RUST-AGENT-DATA-FIELD-020'' \<in> agent_other_ids"
  "''RUST-AGENT-DATA-ENUM-PAYLOAD-021'' \<in> agent_other_ids"
  "''RUST-AGENT-DATA-BOUNDS-022'' \<in> agent_other_ids"
  "''RUST-AGENT-API-SHAPE-023'' \<in> agent_other_ids"
  "''RUST-AGENT-DATA-ENUM-TUPLE-024'' \<in> agent_other_ids"
  "''RUST-AGENT-API-TYPE-ALIAS-027'' \<in> agent_other_ids"
  "''RUST-AGENT-DATA-STATE-028'' \<in> agent_other_ids"
  "''RUST-AGENT-API-SHAPE-036'' \<in> agent_other_ids"
  "''RUST-AGENT-PROC-001'' \<in> agent_other_ids"
  "''RUST-AGENT-TOKIO-RUNTIME-002'' \<in> agent_other_ids"
  "''RUST-AGENT-NATIVE-ABI-001'' \<in> agent_other_ids"
  by (rule agent_idI, simp add: rule_ids_def unlisted_rule_ids_def, simp)+

lemma data_shape_findings_ok: "agent_ok (data_shape_findings agent_policy_rule_map m)"
proof -
  have "agent_ok (public_data_struct_primitive_field_findings agent_policy_rule_map m)"
    "agent_ok (public_enum_variant_primitive_payload_findings agent_policy_rule_map m)"
    "agent_ok (public_type_generic_bound_findings agent_policy_rule_map m)"
    "agent_ok (public_enum_tuple_variant_payload_findings agent_policy_rule_map m)"
    "agent_ok (public_type_alias_primitive_findings agent_policy_rule_map m)"
    unfolding public_data_struct_primitive_field_findings_def public_enum_variant_primitive_payload_findings_def
      public_type_generic_bound_findings_def public_enum_tuple_variant_payload_findings_def
      public_type_alias_primitive_findings_def
    by (auto intro!: agent_ok_map_filter split: prod.splits if_splits)
  moreover have "agent_ok (public_stringly_state_field_findings agent_policy_rule_map m)"
    unfolding public_stringly_state_field_findings_def public_struct_stringly_state_field_findings_def
      public_enum_variant_stringly_state_field_findings_def
    by (rule agent_ok_with_rule) (auto simp: set_map_filter split: if_splits)
  ultimately show ?thesis unfolding data_shape_findings_def by (intro well_raised_all) auto
qed

lemma api_shape_findings_ok: "agent_ok (api_shape_findings agent_policy_rule_map m)"
  unfolding api_shape_findings_def public_tuple_api_surface_findings_def public_dynamic_json_api_surface_findings_def
  by (rule well_raised_all) (auto intro!: agent_ok_map_filter split: if_splits)

lemma boundary_findings_ok:
  "agent_ok (native_abi_contract_findings agent_policy_rule_map m)"
  "agent_ok (process_command_findings agent_policy_rule_map m)"
  "agent_ok (tokio_runtime_boundary_findings agent_policy_rule_map m)"
  unfolding native_abi_contract_findings_def process_command_findings_def tokio_runtime_boundary_findings_def
  by (auto intro!: agent_ok_map_filter simp: Let_def split: if_splits)

end
