(* ===== verification/Owner_Graph.thy ===== *)
theory Owner_Graph
  imports Policy_Config Reasoning_Facts
begin

text \<open>
  The owner dependency rules of \<open>src/rules/agent_policy/dependency_graph.rs\<close>: cycles between owners,
  imports that reach into a leaf of another owner, and owners with a wide fan-out. The search for a cycle is a
  depth-first search that threads its set of visited namespaces through failed branches.
\<close>

section \<open>Cycle search\<close>

type_synonym namespace = "string list"

record proof_edge =
  source_namespace :: namespace
  target_namespace :: namespace

type_synonym outgoing_map = "(namespace \<times> nat list) list"

definition outgoing_add :: "nat \<times> proof_edge \<Rightarrow> outgoing_map \<Rightarrow> outgoing_map" where
  "outgoing_add = (\<lambda>(i, e) outgoing.
     bmap_insert (source_namespace e)
       ((case bmap_get outgoing (source_namespace e) of Some is \<Rightarrow> is | None \<Rightarrow> []) @ [i]) outgoing)"

definition outgoing_edges :: "proof_edge list \<Rightarrow> outgoing_map" where
  "outgoing_edges deps = fold outgoing_add (enumerate 0 deps) []"

definition unexplored :: "outgoing_map \<Rightarrow> namespace list \<Rightarrow> nat" where
  "unexplored outgoing visited = card (set (bmap_keys outgoing) - set visited)"

lemma unexplored_insert:
  assumes "cur \<notin> set visited" "bmap_get outgoing cur = Some is"
  shows "unexplored outgoing (bset_insert cur visited) < unexplored outgoing visited"
proof -
  from assms(2) have "cur \<in> set (bmap_keys outgoing)" by (force dest: map_of_SomeD)
  with assms(1) show ?thesis unfolding unexplored_def by (intro psubset_card_mono) auto
qed

lemma unexplored_mono: "set visited \<subseteq> set visited' \<Longrightarrow> unexplored outgoing visited' \<le> unexplored outgoing visited"
  unfolding unexplored_def by (intro card_mono) auto

function dependency_path_to_namespace ::
    "proof_edge list \<Rightarrow> outgoing_map \<Rightarrow> namespace \<Rightarrow> namespace \<Rightarrow> namespace list \<Rightarrow> nat list option \<times> namespace list"
  and follow_edges ::
    "proof_edge list \<Rightarrow> outgoing_map \<Rightarrow> nat list \<Rightarrow> namespace \<Rightarrow> namespace list \<Rightarrow> nat list option \<times> namespace list"
where
  "dependency_path_to_namespace deps outgoing cur target visited =
     (if cur \<in> set visited then (None, visited)
      else case bmap_get outgoing cur of
        None \<Rightarrow> (None, bset_insert cur visited)
      | Some indices \<Rightarrow> follow_edges deps outgoing indices target (bset_insert cur visited))"
| "follow_edges deps outgoing [] target visited = (None, visited)"
| "follow_edges deps outgoing (i # indices) target visited =
     (if target_namespace (deps ! i) = target then (Some [i], visited)
      else case dependency_path_to_namespace deps outgoing (target_namespace (deps ! i)) target visited of
        (Some tail, visited) \<Rightarrow> (Some (i # tail), visited)
      | (None, visited) \<Rightarrow> follow_edges deps outgoing indices target visited)"
  by pat_completeness auto
termination
proof -
  let ?dom = dependency_path_to_namespace_follow_edges_dom
  have grows:
    "?dom (Inl (deps, outgoing, cur, target, visited)) \<Longrightarrow>
       set visited \<subseteq> set (snd (dependency_path_to_namespace deps outgoing cur target visited))"
    "?dom (Inr (deps, outgoing, indices, target, visited)) \<Longrightarrow>
       set visited \<subseteq> set (snd (follow_edges deps outgoing indices target visited))"
    for deps outgoing cur target visited indices
  proof (induct deps outgoing cur target visited and deps outgoing indices target visited
      rule: dependency_path_to_namespace_follow_edges.pinduct)
    case (1 deps outgoing cur target visited)
    then show ?case by (auto simp: dependency_path_to_namespace.psimps split: option.splits)
  next
    case (2 deps outgoing target visited)
    then show ?case by (simp add: follow_edges.psimps)
  next
    case (3 deps outgoing i indices target visited)
    then show ?case
      by (cases "dependency_path_to_namespace deps outgoing (target_namespace (deps ! i)) target visited")
        (auto simp: follow_edges.psimps split: option.splits)
  qed
  show "All ?dom"
  proof (relation "measures
      [case_sum (\<lambda>(deps, outgoing, cur, target, visited). unexplored outgoing visited)
         (\<lambda>(deps, outgoing, indices, target, visited). unexplored outgoing visited),
       case_sum (\<lambda>_. 0) (\<lambda>(deps, outgoing, indices, target, visited). Suc (length indices))]", goal_cases)
    case (2 deps outgoing cur target visited indices)
    then show ?case by (simp add: unexplored_insert)
  next
    case (4 deps outgoing i indices target visited x y)
    have "?dom (Inl (deps, outgoing, target_namespace (deps ! i), target, visited))" using 4 by blast
    from grows(1) [OF this] have "set visited \<subseteq> set y" by (simp flip: 4(2))
    from unexplored_mono [OF this] show ?case by (auto simp: le_less)
  qed auto
qed

declare dependency_path_to_namespace.simps [simp del]

definition rotations :: "string list \<Rightarrow> string list" where
  "rotations nodes = map (\<lambda>i. join_with ''->'' (drop i nodes @ take i nodes)) [0..<length nodes]"

definition dependency_cycle_key :: "proof_edge list \<Rightarrow> nat list \<Rightarrow> string" where
  "dependency_cycle_key deps cyc =
     (case rotations (map (\<lambda>i. join_with ''/'' (source_namespace (deps ! i))) cyc) of
        [] \<Rightarrow> []
      | k # ks \<Rightarrow> fold min ks k)"

definition collect_cycle ::
  "proof_edge list \<Rightarrow> outgoing_map \<Rightarrow> nat \<times> proof_edge \<Rightarrow> string list \<times> nat list list \<Rightarrow> string list \<times> nat list list" where
  "collect_cycle deps outgoing = (\<lambda>(i, e) (seen, cycles).
     case fst (dependency_path_to_namespace deps outgoing (target_namespace e) (source_namespace e) []) of
       None \<Rightarrow> (seen, cycles)
     | Some tail \<Rightarrow>
         let cyc = i # tail; key = dependency_cycle_key deps cyc in
         if key \<in> set seen then (seen, cycles) else (bset_insert key seen, cycles @ [cyc]))"

definition owner_dependency_cycle_indices :: "proof_edge list \<Rightarrow> nat list list" where
  "owner_dependency_cycle_indices deps =
     snd (fold (collect_cycle deps (outgoing_edges deps)) (enumerate 0 deps) ([], []))"

section \<open>Correctness of the search\<close>

definition edge_relation :: "proof_edge list \<Rightarrow> (namespace \<times> namespace) set" where
  "edge_relation deps = (\<lambda>e. (source_namespace e, target_namespace e)) ` set deps"

text \<open>A sequence of edge indices that leads from one namespace to another.\<close>

fun walk :: "proof_edge list \<Rightarrow> namespace \<Rightarrow> nat list \<Rightarrow> namespace \<Rightarrow> bool" where
  "walk deps a [] b \<longleftrightarrow> a = b"
| "walk deps a (i # is) b \<longleftrightarrow> i < length deps \<and> source_namespace (deps ! i) = a \<and> walk deps (target_namespace (deps ! i)) is b"

lemma walk_rtrancl: "walk deps a is b \<Longrightarrow> (a, b) \<in> (edge_relation deps)\<^sup>*"
proof (induction "is" arbitrary: a)
  case (Cons i js)
  then have "(a, target_namespace (deps ! i)) \<in> edge_relation deps" by (auto simp: edge_relation_def image_iff)
  with Cons show ?case by (auto intro: converse_rtrancl_into_rtrancl)
qed simp

lemma walk_trancl: "walk deps a is b \<Longrightarrow> is \<noteq> [] \<Longrightarrow> (a, b) \<in> (edge_relation deps)\<^sup>+"
proof (cases "is")
  case (Cons i js)
  assume w: "walk deps a is b"
  with Cons have "(a, target_namespace (deps ! i)) \<in> edge_relation deps" by (auto simp: edge_relation_def image_iff)
  moreover from w Cons have "(target_namespace (deps ! i), b) \<in> (edge_relation deps)\<^sup>*" by (auto intro: walk_rtrancl)
  ultimately show ?thesis by (rule rtrancl_into_trancl2)
qed simp

lemma fold_outgoing_add:
  assumes "ascending (bmap_keys m)"
  shows "ascending (bmap_keys (fold outgoing_add xs m)) \<and>
    (let js = map fst (filter (\<lambda>(i, e). source_namespace e = ns) xs);
         old = (case bmap_get m ns of Some is \<Rightarrow> is | None \<Rightarrow> [])
     in bmap_get (fold outgoing_add xs m) ns = (if bmap_get m ns = None \<and> js = [] then None else Some (old @ js)))"
  using assms
proof (induction xs arbitrary: m)
  case Nil
  then show ?case by (auto split: option.splits)
next
  case (Cons x xs)
  obtain i e where x: "x = (i, e)" by (cases x)
  have asc: "ascending (bmap_keys (outgoing_add (i, e) m))" using Cons.prems by (simp add: outgoing_add_def bmap_simps)
  have get: "bmap_get (outgoing_add (i, e) m) ns = (if source_namespace e = ns
      then Some ((case bmap_get m ns of Some is \<Rightarrow> is | None \<Rightarrow> []) @ [i]) else bmap_get m ns)"
    using Cons.prems by (auto simp: outgoing_add_def bmap_simps)
  show ?case using Cons.IH [OF asc] unfolding x by (cases "source_namespace e = ns") (simp_all add: Let_def get)
qed

lemma outgoing_edges_get:
  "case bmap_get (outgoing_edges deps) ns of
     None \<Rightarrow> (\<nexists>e. e \<in> set deps \<and> source_namespace e = ns)
   | Some is \<Rightarrow> set is = {i. i < length deps \<and> source_namespace (deps ! i) = ns}"
proof -
  define js where "js = map fst (filter (\<lambda>(i, e). source_namespace e = ns) (enumerate 0 deps))"
  have js: "set js = {i. i < length deps \<and> source_namespace (deps ! i) = ns}"
    by (auto simp: js_def in_set_enumerate_eq image_iff)
  have get: "bmap_get (outgoing_edges deps) ns = (if js = [] then None else Some js)"
    using fold_outgoing_add [of "[]" "enumerate 0 deps" ns] by (simp add: outgoing_edges_def Let_def js_def)
  show ?thesis
  proof (cases "js = []")
    case True
    have False if "e \<in> set deps" "source_namespace e = ns" for e
    proof -
      from that obtain i where "i < length deps" "source_namespace (deps ! i) = ns" by (auto simp: in_set_conv_nth)
      with js have "i \<in> set js" by blast
      with True show False by simp
    qed
    with True get show ?thesis by auto
  next
    case False
    with get js show ?thesis by simp
  qed
qed

lemma dependency_path_sound:
  "dependency_path_to_namespace deps outgoing cur target visited = (Some is, visited') \<Longrightarrow> outgoing = outgoing_edges deps \<Longrightarrow>
     is \<noteq> [] \<and> walk deps cur is target"
  "follow_edges deps outgoing indices target visited = (Some is, visited') \<Longrightarrow> outgoing = outgoing_edges deps \<Longrightarrow>
     set indices \<subseteq> {i. i < length deps \<and> source_namespace (deps ! i) = cur'} \<Longrightarrow> is \<noteq> [] \<and> walk deps cur' is target"
proof (induct deps outgoing cur target visited and deps outgoing indices target visited arbitrary: "is" visited' and "is" visited' cur'
    rule: dependency_path_to_namespace_follow_edges.induct)
  case (1 deps outgoing cur target visited)
  from "1.prems" obtain indices where *: "cur \<notin> set visited" "bmap_get outgoing cur = Some indices"
    "follow_edges deps outgoing indices target (bset_insert cur visited) = (Some is, visited')"
    by (auto simp: dependency_path_to_namespace.simps split: if_splits option.splits)
  from *(2) outgoing_edges_get [of deps cur] "1.prems" have "set indices \<subseteq> {i. i < length deps \<and> source_namespace (deps ! i) = cur}"
    by simp
  from "1.hyps" [OF *(1,2,3) "1.prems"(2) this] show ?case .
next
  case (2 deps outgoing target visited)
  then show ?case by simp
next
  case (3 deps outgoing i indices target visited)
  show ?case
  proof (cases "target_namespace (deps ! i) = target")
    case True
    with "3.prems" show ?thesis by auto
  next
    case False
    obtain r v where dfs: "dependency_path_to_namespace deps outgoing (target_namespace (deps ! i)) target visited = (r, v)"
      by fastforce
    show ?thesis
    proof (cases r)
      case None
      with dfs False "3.prems"(1) have "follow_edges deps outgoing indices target v = (Some is, visited')" by simp
      moreover from "3.prems"(3) have "set indices \<subseteq> {i. i < length deps \<and> source_namespace (deps ! i) = cur'}" by simp
      ultimately show ?thesis by (rule "3.hyps"(2) [OF False dfs [symmetric, unfolded None] refl _ "3.prems"(2)])
    next
      case (Some tail)
      with dfs False "3.prems"(1) have "is = i # tail" by simp
      with "3.hyps"(1) [OF False dfs [unfolded Some] "3.prems"(2)] "3.prems"(3) show ?thesis by simp
    qed
  qed
qed

definition explored :: "proof_edge list \<Rightarrow> namespace \<Rightarrow> namespace list \<Rightarrow> namespace list \<Rightarrow> bool" where
  "explored deps target visited visited' \<longleftrightarrow> set visited \<subseteq> set visited' \<and>
     (\<forall>e \<in> set deps. source_namespace e \<in> set visited' - set visited \<longrightarrow>
        target_namespace e \<noteq> target \<and> target_namespace e \<in> set visited')"

lemma explored_refl: "explored deps target visited visited"
  by (simp add: explored_def)

lemma explored_trans: "explored deps target u v \<Longrightarrow> explored deps target v w \<Longrightarrow> explored deps target u w"
  unfolding explored_def by blast

lemma dependency_path_complete:
  "dependency_path_to_namespace deps outgoing cur target visited = (None, visited') \<Longrightarrow> outgoing = outgoing_edges deps \<Longrightarrow>
     explored deps target visited visited' \<and> cur \<in> set visited'"
  "follow_edges deps outgoing indices target visited = (None, visited') \<Longrightarrow> outgoing = outgoing_edges deps \<Longrightarrow>
     explored deps target visited visited' \<and>
     (\<forall>i \<in> set indices. target_namespace (deps ! i) \<noteq> target \<and> target_namespace (deps ! i) \<in> set visited')"
proof (induct deps outgoing cur target visited and deps outgoing indices target visited arbitrary: visited' and visited'
    rule: dependency_path_to_namespace_follow_edges.induct)
  case (1 deps outgoing cur target visited)
  consider "cur \<in> set visited" | "cur \<notin> set visited" "bmap_get outgoing cur = None"
    | indices where "cur \<notin> set visited" "bmap_get outgoing cur = Some indices" by fastforce
  then show ?case
  proof cases
    case 1
    with "1.prems" show ?thesis by (simp add: dependency_path_to_namespace.simps explored_refl)
  next
    case 2
    with outgoing_edges_get [of deps cur] "1.prems" show ?thesis
      by (auto simp: dependency_path_to_namespace.simps explored_def)
  next
    case 3
    with "1.prems" have "follow_edges deps outgoing indices target (bset_insert cur visited) = (None, visited')"
      by (simp add: dependency_path_to_namespace.simps)
    from "1.hyps" [OF 3 this "1.prems"(2)] have ex: "explored deps target (bset_insert cur visited) visited'"
      and ind: "\<forall>i \<in> set indices. target_namespace (deps ! i) \<noteq> target \<and> target_namespace (deps ! i) \<in> set visited'" by auto
    have "set indices = {i. i < length deps \<and> source_namespace (deps ! i) = cur}"
      using outgoing_edges_get [of deps cur] 3(2) "1.prems"(2) by simp
    with ind have "target_namespace e \<noteq> target \<and> target_namespace e \<in> set visited'" if "e \<in> set deps" "source_namespace e = cur" for e
      using that by (auto simp: in_set_conv_nth)
    with ex show ?thesis unfolding explored_def by auto
  qed
next
  case (2 deps outgoing target visited)
  then show ?case by (simp add: explored_refl)
next
  case (3 deps outgoing i indices target visited)
  from "3.prems"(1) have ne: "target_namespace (deps ! i) \<noteq> target" by (auto split: if_splits)
  with "3.prems"(1) obtain v where dfs: "dependency_path_to_namespace deps outgoing (target_namespace (deps ! i)) target visited = (None, v)"
    and rest: "follow_edges deps outgoing indices target v = (None, visited')"
    by (auto split: prod.splits option.splits)
  from "3.hyps"(1) [OF ne dfs "3.prems"(2)] have a: "explored deps target visited v" "target_namespace (deps ! i) \<in> set v" by auto
  from "3.hyps"(2) [OF ne dfs [symmetric] refl rest "3.prems"(2)] have b: "explored deps target v visited'"
    "\<forall>i \<in> set indices. target_namespace (deps ! i) \<noteq> target \<and> target_namespace (deps ! i) \<in> set visited'" by auto
  from explored_trans [OF a(1) b(1)] a(2) b ne show ?case by (auto simp: explored_def)
qed

lemma dependency_path_iff:
  "fst (dependency_path_to_namespace deps (outgoing_edges deps) a b []) \<noteq> None \<longleftrightarrow> (a, b) \<in> (edge_relation deps)\<^sup>+"
proof
  assume "fst (dependency_path_to_namespace deps (outgoing_edges deps) a b []) \<noteq> None"
  then obtain js v where "dependency_path_to_namespace deps (outgoing_edges deps) a b [] = (Some js, v)"
    by (metis option.exhaust prod.collapse)
  from dependency_path_sound(1) [OF this refl] show "(a, b) \<in> (edge_relation deps)\<^sup>+" by (auto intro: walk_trancl)
next
  assume ab: "(a, b) \<in> (edge_relation deps)\<^sup>+"
  show "fst (dependency_path_to_namespace deps (outgoing_edges deps) a b []) \<noteq> None"
  proof
    assume "fst (dependency_path_to_namespace deps (outgoing_edges deps) a b []) = None"
    then obtain v where "dependency_path_to_namespace deps (outgoing_edges deps) a b [] = (None, v)" by (metis prod.collapse)
    from dependency_path_complete(1) [OF this refl] have v: "explored deps b [] v" "a \<in> set v" by auto
    from ab have "b \<in> set v \<and> (\<exists>c \<in> set v. (c, b) \<in> edge_relation deps)"
    proof (induction rule: trancl_induct)
      case (base y)
      then show ?case using v unfolding explored_def edge_relation_def by auto
    next
      case (step y z)
      then show ?case using v unfolding explored_def edge_relation_def by auto
    qed
    with v show False unfolding explored_def edge_relation_def by auto
  qed
qed

section \<open>The reported cycles\<close>

definition closed_cycle :: "proof_edge list \<Rightarrow> nat list \<Rightarrow> bool" where
  "closed_cycle deps cyc \<longleftrightarrow> (\<exists>i tail. cyc = i # tail \<and>
     walk deps (source_namespace (deps ! i)) cyc (source_namespace (deps ! i)))"

definition cycle_through :: "proof_edge list \<Rightarrow> nat \<Rightarrow> nat list option" where
  "cycle_through deps i = map_option (Cons i)
     (fst (dependency_path_to_namespace deps (outgoing_edges deps) (target_namespace (deps ! i)) (source_namespace (deps ! i)) []))"

lemma cycle_through_closed:
  assumes "cycle_through deps i = Some cyc" "i < length deps"
  shows "closed_cycle deps cyc \<and> hd cyc = i"
proof -
  from assms(1) obtain tail v where t: "cyc = i # tail"
    "dependency_path_to_namespace deps (outgoing_edges deps) (target_namespace (deps ! i)) (source_namespace (deps ! i)) [] = (Some tail, v)"
    by (cases "dependency_path_to_namespace deps (outgoing_edges deps) (target_namespace (deps ! i)) (source_namespace (deps ! i)) []")
      (auto simp: cycle_through_def)
  from dependency_path_sound(1) [OF t(2) refl] assms(2) t(1) show ?thesis by (auto simp: closed_cycle_def)
qed

lemma cycle_through_iff:
  "cycle_through deps i \<noteq> None \<longleftrightarrow> (target_namespace (deps ! i), source_namespace (deps ! i)) \<in> (edge_relation deps)\<^sup>+"
  by (simp add: cycle_through_def dependency_path_iff flip: not_None_eq)

definition report_cycle :: "proof_edge list \<Rightarrow> nat list \<Rightarrow> string list \<times> nat list list \<Rightarrow> string list \<times> nat list list" where
  "report_cycle deps cyc = (\<lambda>(seen, cycles).
     if dependency_cycle_key deps cyc \<in> set seen then (seen, cycles)
     else (bset_insert (dependency_cycle_key deps cyc) seen, cycles @ [cyc]))"

lemma fold_collect_cycle:
  assumes "set ies \<subseteq> set (enumerate 0 deps)"
  shows "fold (collect_cycle deps (outgoing_edges deps)) ies st =
    fold (report_cycle deps) (List.map_filter (\<lambda>(i, e). cycle_through deps i) ies) st"
  using assms
proof (induction ies arbitrary: st)
  case (Cons x ies)
  obtain i e where x: "x = (i, e)" "e = deps ! i" using Cons.prems by (cases x) (auto simp: in_set_enumerate_eq)
  have "collect_cycle deps (outgoing_edges deps) x st =
      (case cycle_through deps i of None \<Rightarrow> st | Some cyc \<Rightarrow> report_cycle deps cyc st)"
    by (cases st) (simp add: collect_cycle_def cycle_through_def report_cycle_def x Let_def split: option.split)
  then show ?case using Cons by (simp add: x List.map_filter_simps split: option.split)
qed (simp add: List.map_filter_simps)

lemma report_cycle_simps:
  "dependency_cycle_key deps c \<in> set seen \<Longrightarrow> report_cycle deps c (seen, cycles) = (seen, cycles)"
  "dependency_cycle_key deps c \<notin> set seen \<Longrightarrow>
     report_cycle deps c (seen, cycles) = (bset_insert (dependency_cycle_key deps c) seen, cycles @ [c])"
  by (simp_all add: report_cycle_def)

lemma fold_report_cycle:
  assumes "fold (report_cycle deps) cs (seen, cycles) = (seen', cycles')"
    and "set seen = dependency_cycle_key deps ` set cycles" "distinct (map (dependency_cycle_key deps) cycles)"
  shows "set cycles \<subseteq> set cycles' \<and> set cycles' \<subseteq> set cycles \<union> set cs \<and> distinct (map (dependency_cycle_key deps) cycles') \<and>
    dependency_cycle_key deps ` set cycles' = dependency_cycle_key deps ` (set cycles \<union> set cs)"
  using assms
proof (induction cs arbitrary: seen cycles)
  case (Cons c cs)
  show ?case
  proof (cases "dependency_cycle_key deps c \<in> set seen")
    case True
    with Cons.prems have "fold (report_cycle deps) cs (seen, cycles) = (seen', cycles')" by (simp add: report_cycle_simps)
    from Cons.IH [OF this Cons.prems(2,3)] True Cons.prems(2) show ?thesis by auto
  next
    case False
    with Cons.prems have "fold (report_cycle deps) cs (bset_insert (dependency_cycle_key deps c) seen, cycles @ [c]) = (seen', cycles')"
      by (simp add: report_cycle_simps)
    from Cons.IH [OF this] False Cons.prems(2,3) show ?thesis by auto
  qed
qed simp

lemma owner_dependency_cycle_facts:
  fixes deps
  defines "cycles \<equiv> owner_dependency_cycle_indices deps"
  shows "(\<forall>cyc \<in> set cycles. closed_cycle deps cyc) \<and> distinct (map (dependency_cycle_key deps) cycles) \<and>
    (\<forall>i < length deps. (target_namespace (deps ! i), source_namespace (deps ! i)) \<in> (edge_relation deps)\<^sup>* \<longrightarrow>
       (\<exists>cyc \<in> set cycles. \<exists>own. closed_cycle deps own \<and> hd own = i \<and>
          dependency_cycle_key deps cyc = dependency_cycle_key deps own)) \<and>
    (cycles = [] \<longleftrightarrow> acyclic (edge_relation deps))"
proof -
  define found where "found = List.map_filter (\<lambda>(i, e). cycle_through deps i) (enumerate 0 deps)"
  have set_found: "set found = {cyc. \<exists>i < length deps. cycle_through deps i = Some cyc}"
    by (force simp: found_def set_map_filter in_set_enumerate_eq Bex_def)
  obtain seen where "fold (report_cycle deps) found ([], []) = (seen, cycles)"
    unfolding cycles_def owner_dependency_cycle_indices_def fold_collect_cycle [OF order_refl] found_def by (metis prod.collapse)
  from fold_report_cycle [OF this] have sub: "set cycles \<subseteq> set found" and dist: "distinct (map (dependency_cycle_key deps) cycles)"
    and keys: "dependency_cycle_key deps ` set cycles = dependency_cycle_key deps ` set found" by auto
  have closed: "\<forall>cyc \<in> set cycles. closed_cycle deps cyc"
    using sub cycle_through_closed unfolding set_found by blast
  have on_cycle: "cycle_through deps i \<noteq> None"
    if "i < length deps" "(target_namespace (deps ! i), source_namespace (deps ! i)) \<in> (edge_relation deps)\<^sup>*" for i
  proof -
    have "(source_namespace (deps ! i), target_namespace (deps ! i)) \<in> edge_relation deps"
      using that(1) by (auto simp: edge_relation_def)
    with that(2) have "(target_namespace (deps ! i), source_namespace (deps ! i)) \<in> (edge_relation deps)\<^sup>+"
      by (metis rtranclD trancl.r_into_trancl)
    then show ?thesis by (simp only: cycle_through_iff not_False_eq_True)
  qed
  have represented: "\<exists>cyc \<in> set cycles. \<exists>own. closed_cycle deps own \<and> hd own = i \<and>
      dependency_cycle_key deps cyc = dependency_cycle_key deps own"
    if "i < length deps" "(target_namespace (deps ! i), source_namespace (deps ! i)) \<in> (edge_relation deps)\<^sup>*" for i
  proof -
    from on_cycle [OF that] obtain own where own: "cycle_through deps i = Some own" by auto
    with that(1) have "dependency_cycle_key deps own \<in> dependency_cycle_key deps ` set cycles" unfolding keys set_found by auto
    then obtain cyc where "cyc \<in> set cycles" "dependency_cycle_key deps cyc = dependency_cycle_key deps own" by (metis imageE)
    with cycle_through_closed [OF own that(1)] show ?thesis by blast
  qed
  have "acyclic (edge_relation deps) \<longleftrightarrow> found = []"
  proof
    assume "acyclic (edge_relation deps)"
    then have "\<not> closed_cycle deps cyc" for cyc
      unfolding closed_cycle_def acyclic_def by (metis list.distinct(1) walk_trancl)
    then have "set found = {}" unfolding set_found using cycle_through_closed by blast
    then show "found = []" by simp
  next
    assume "found = []"
    show "acyclic (edge_relation deps)"
    proof (rule acyclicI, intro allI notI)
      fix a assume "(a, a) \<in> (edge_relation deps)\<^sup>+"
      then obtain b where ab: "(a, b) \<in> edge_relation deps" "(b, a) \<in> (edge_relation deps)\<^sup>*" by (metis tranclD)
      then obtain i where "i < length deps" "source_namespace (deps ! i) = a" "target_namespace (deps ! i) = b"
        by (auto simp: edge_relation_def in_set_conv_nth)
      with ab(2) on_cycle [of i] set_found \<open>found = []\<close> show False by auto
    qed
  qed
  moreover have "cycles = [] \<longleftrightarrow> found = []" using keys by (metis image_is_empty set_empty)
  ultimately show ?thesis using closed dist represented by blast
qed

text \<open>
  The owner cycle rule reports cycles and misses none. Every reported list of edges is a closed walk of the owner
  graph, no two have the same key, an edge that lies on a cycle is accounted for by a reported cycle with the key of a
  cycle through that edge, and nothing is reported exactly when the graph is acyclic.
\<close>

lemma owner_dependency_cycles_exact:
  fixes deps
  defines "cycles \<equiv> owner_dependency_cycle_indices deps"
  shows "(\<forall>cyc \<in> set cycles. closed_cycle deps cyc) \<and> distinct (map (dependency_cycle_key deps) cycles) \<and>
    (\<forall>i < length deps. (target_namespace (deps ! i), source_namespace (deps ! i)) \<in> (edge_relation deps)\<^sup>* \<longrightarrow>
       (\<exists>cyc \<in> set cycles. \<exists>own. closed_cycle deps own \<and> hd own = i \<and>
          dependency_cycle_key deps cyc = dependency_cycle_key deps own)) \<and>
    (cycles = [] \<longleftrightarrow> acyclic (edge_relation deps))"
  unfolding cycles_def by (rule owner_dependency_cycle_facts)


end
