(* ===== verification/Agent_Policy.thy ===== *)
theory Agent_Policy
  imports Agent_Shape_Rules Owner_Graph
begin

text \<open>
  The owner graph findings of \<open>src/rules/agent_policy/dependency_graph.rs\<close> and the evaluation of the agent pack
  (\<open>src/rules/agent_policy/pack.rs\<close>).

  Shown: an evaluation of the pack neither misses a rule of its catalog nor indexes outside the dependency list
  when it renders a cycle, and the cycle rule fires exactly when the owner dependencies outside test code form
  a cycle.
\<close>

definition MIN_OWNER_FAN_OUT :: nat where "MIN_OWNER_FAN_OUT = 3"

abbreviation OWNER_CYCLE_RULE :: string where "OWNER_CYCLE_RULE \<equiv> ''RUST-AGENT-OWNER-GRAPH-009''"

section \<open>Owner graph findings\<close>

definition non_test_owner_dependencies :: "reasoning_tree \<Rightarrow> owner_dependency list" where
  "non_test_owner_dependencies t = filter (\<lambda>d. \<not> dep_is_test_context d) (tree_owner_dependencies t)"

definition owner_branch_paths :: "reasoning_tree \<Rightarrow> path list" where
  "owner_branch_paths t = bset_of_list (map branch_path (tree_owner_branches t))"

definition owner_branch_namespaces :: "reasoning_tree \<Rightarrow> string list list" where
  "owner_branch_namespaces t = bset_of_list (map branch_namespace (tree_owner_branches t))"

definition nearest_owner_branch_namespace :: "string list \<Rightarrow> string list list \<Rightarrow> string list option" where
  "nearest_owner_branch_namespace ns branches =
     map_option (\<lambda>n. take n ns) (find (\<lambda>n. take n ns \<in> set branches) (rev [1..<Suc (length ns)]))"

definition dependency_source_line :: "modules_by_path \<Rightarrow> owner_dependency \<Rightarrow> string option" where
  "dependency_source_line by_path d =
     Option.bind (bmap_get by_path (dep_source_path d)) (\<lambda>m. source_line_at (pm_source m) (dep_line d))"

definition display_tree_path :: "reasoning_tree \<Rightarrow> path \<Rightarrow> string" where
  "display_tree_path t p =
     (case strip_prefix p (tree_package_root t) of None \<Rightarrow> display_path p | Some relative \<Rightarrow> display_path relative)"

definition display_dependency_cycle :: "reasoning_tree \<Rightarrow> owner_dependency list \<Rightarrow> string" where
  "display_dependency_cycle t deps = join_with '' -> ''
     (map (\<lambda>d. display_tree_path t (dep_source_path d)) deps @
      (case deps of [] \<Rightarrow> [] | first # _ \<Rightarrow> [display_tree_path t (dep_source_path first)]))"

definition proof_edge_of :: "owner_dependency \<Rightarrow> proof_edge" where
  "proof_edge_of d = \<lparr>source_namespace = dep_source_namespace d, target_namespace = dep_target_namespace d\<rparr>"

text \<open>The body of the cycle loop: \<open>dependencies[index]\<close> panics outside the list.\<close>

definition cycle_finding :: "rule_map \<Rightarrow> reasoning_tree \<Rightarrow> modules_by_path \<Rightarrow> owner_dependency list \<Rightarrow> nat list \<Rightarrow> raised" where
  "cycle_finding rules t by_path deps cyc =
     (case those (map (nth_opt deps) cyc) of
        None \<Rightarrow> None
      | Some [] \<Rightarrow> Some []
      | Some (d # ds) \<Rightarrow> with_rule rules OWNER_CYCLE_RULE (\<lambda>rule. [finding_from_rule rule
          (''Owner dependency cycle crosses '' @ display_dependency_cycle t (d # ds) @ ''.'')
          (path_line_location (dep_source_path d) (dep_line d)) (dependency_source_line by_path d)
          ''break the cycle by moving the shared contract behind one owner boundary'']))"

definition owner_dependency_cycle_findings :: "rule_map \<Rightarrow> reasoning_tree \<Rightarrow> modules_by_path \<Rightarrow> raised" where
  "owner_dependency_cycle_findings rules t by_path =
     (let deps = non_test_owner_dependencies t
      in raise_all (map (cycle_finding rules t by_path deps) (owner_dependency_cycle_indices (map proof_edge_of deps))))"

definition cross_owner_leaf_import_findings :: "rule_map \<Rightarrow> reasoning_tree \<Rightarrow> modules_by_path \<Rightarrow> raised" where
  "cross_owner_leaf_import_findings rules t by_path = with_rule rules ''RUST-AGENT-OWNER-BOUNDARY-010'' (\<lambda>rule.
     List.map_filter (\<lambda>d. Option.bind (nearest_owner_branch_namespace (dep_target_namespace d) (owner_branch_namespaces t))
         (\<lambda>target_owner. if target_owner = dep_source_namespace d then None
           else Some (finding_from_rule rule
             (display_path (dep_source_path d) @ '' imports leaf '' @ display_path (dep_target_path d) @
              '' across owner boundary.'')
             (path_line_location (dep_source_path d) (dep_line d)) (dependency_source_line by_path d)
             ''depend on the target owner branch instead of reaching into its leaf module'')))
       (filter (\<lambda>d. \<not> dep_is_test_context d \<and> dep_source_path d \<in> set (owner_branch_paths t) \<and>
          dep_target_path d \<notin> set (owner_branch_paths t)) (tree_owner_dependencies t)))"

definition record_fan_out ::
  "string list list \<Rightarrow> owner_dependency \<Rightarrow> (path \<times> string list list) list \<Rightarrow> (path \<times> string list list) list" where
  "record_fan_out branches d by_source =
     (case nearest_owner_branch_namespace (dep_target_namespace d) branches of
        None \<Rightarrow> by_source
      | Some target_owner \<Rightarrow>
          if target_owner = dep_source_namespace d then by_source
          else bmap_insert (dep_source_path d)
            (bset_insert target_owner (case bmap_get by_source (dep_source_path d) of Some s \<Rightarrow> s | None \<Rightarrow> [])) by_source)"

definition owner_fan_out_intent_findings :: "rule_map \<Rightarrow> reasoning_tree \<Rightarrow> modules_by_path \<Rightarrow> raised" where
  "owner_fan_out_intent_findings rules t by_path =
     (let by_source = fold (record_fan_out (owner_branch_namespaces t)) (non_test_owner_dependencies t) []
      in with_rule rules ''RUST-AGENT-DOCS-OWNER-FANOUT-011'' (\<lambda>rule.
        List.map_filter (\<lambda>b. Option.bind (bmap_get by_source (branch_path b)) (\<lambda>fan_out.
            if length fan_out < MIN_OWNER_FAN_OUT then None
            else Option.bind (bmap_get by_path (branch_path b)) (\<lambda>m.
              if has_module_doc (pm_syntax_facts m) then None
              else Some (finding_from_rule rule
                (display_path (branch_path b) @ '' depends on '' @ show_nat (length fan_out) @
                 '' owner branches without an intent doc.'')
                (file_location (branch_path b)) (source_line_at (pm_source m) 1)
                ''add an owner fan-out intent doc using doc_markdown style''))))
          (tree_owner_branches t)))"

definition dependency_graph_findings :: "rule_map \<Rightarrow> reasoning_tree \<Rightarrow> modules_by_path \<Rightarrow> raised" where
  "dependency_graph_findings rules t by_path = raise_all
     [owner_dependency_cycle_findings rules t by_path, cross_owner_leaf_import_findings rules t by_path,
      owner_fan_out_intent_findings rules t by_path]"

section \<open>The pack\<close>

definition agent_tree_findings :: "rule_map \<Rightarrow> reasoning_tree \<Rightarrow> parsed_module list \<Rightarrow> raised" where
  "agent_tree_findings rules t ms =
     (let by_path = modules_by_path ms;
          source_modules = filter (\<lambda>m. case reasoning_module_at t (pm_path m) of
            Some mf \<Rightarrow> mod_is_source mf | None \<Rightarrow> False) ms
      in raise_all
        (map (process_command_findings rules) (filter (\<lambda>m. module_is_valid (pm_report m)) ms) @
         concat (map (\<lambda>m. [source_module_findings rules t m, data_shape_findings rules m, api_shape_findings rules m,
             tokio_runtime_boundary_findings rules m, native_abi_contract_findings rules m])
           (filter (\<lambda>m. module_is_valid (pm_report m)) source_modules)) @
         [repeated_namespace_findings rules t ms, generic_module_path_findings rules t source_modules,
          public_name_conflict_findings rules source_modules, test_support_reexport_findings rules t ms,
          algorithm_shape_findings rules source_modules, native_iterator_idiom_findings rules source_modules,
          dependency_graph_findings rules t by_path]))"

definition agent_policy_evaluate ::
  "(path \<Rightarrow> bool) \<Rightarrow> manifest_loader \<Rightarrow> asp_rust_scope option \<Rightarrow> parsed_module list \<Rightarrow> raised" where
  "agent_policy_evaluate is_file load scope ms =
     (case scope of
        None \<Rightarrow> Some []
      | Some s \<Rightarrow> agent_tree_findings agent_policy_rule_map (rust_reasoning_tree_facts is_file load s ms) ms)"

section \<open>Cycles are rendered without a panic\<close>

lemma owner_ids [simp]:
  "''RUST-AGENT-OWNER-BOUNDARY-010'' \<in> agent_other_ids" "''RUST-AGENT-DOCS-OWNER-FANOUT-011'' \<in> agent_other_ids"
  by (rule agent_idI, simp add: rule_ids_def unlisted_rule_ids_def, simp)+

lemma owner_cycle_id: "OWNER_CYCLE_RULE \<in> catalog_id_set AgentPolicyPack"
  by (simp add: catalog_id_set_eq rule_ids_def unlisted_rule_ids_def)

lemma walk_in_range: "walk deps a is b \<Longrightarrow> i \<in> set is \<Longrightarrow> i < length deps"
  by (induction "is" arbitrary: a) auto

lemma those_in_range: "\<forall>i \<in> set is. i < length xs \<Longrightarrow> those (map (nth_opt xs) is) = Some (map (nth xs) is)"
  by (induction "is") (auto simp: nth_opt_def)

lemma cycle_finding_ok:
  assumes "cyc \<in> set (owner_dependency_cycle_indices (map proof_edge_of deps))"
  shows "\<exists>f. cycle_finding agent_policy_rule_map t by_path deps cyc = Some [f] \<and>
    well_raised agent_policy_rule_map {OWNER_CYCLE_RULE} (Some [f])"
proof -
  from assms owner_dependency_cycle_facts [of "map proof_edge_of deps"]
  have "closed_cycle (map proof_edge_of deps) cyc" by blast
  then obtain i rest a where cyc: "cyc = i # rest" and walk: "walk (map proof_edge_of deps) a cyc a"
    unfolding closed_cycle_def by blast
  from walk have "\<forall>j \<in> set cyc. j < length deps" using walk_in_range by fastforce
  then have "those (map (nth_opt deps) cyc) = Some (deps ! i # map (nth deps) rest)"
    using those_in_range [of cyc deps] by (simp only: cyc list.map)
  then have eq: "cycle_finding agent_policy_rule_map t by_path deps cyc = with_rule agent_policy_rule_map OWNER_CYCLE_RULE
      (\<lambda>rule. [finding_from_rule rule
          (''Owner dependency cycle crosses '' @ display_dependency_cycle t (deps ! i # map (nth deps) rest) @ ''.'')
          (path_line_location (dep_source_path (deps ! i)) (dep_line (deps ! i))) (dependency_source_line by_path (deps ! i))
          ''break the cycle by moving the shared contract behind one owner boundary''])"
    by (simp add: cycle_finding_def)
  have ok: "well_raised agent_policy_rule_map {OWNER_CYCLE_RULE} (cycle_finding agent_policy_rule_map t by_path deps cyc)"
    unfolding eq by (rule agent_catalog.well_raised_with_rule) (simp_all add: owner_cycle_id)
  from agent_catalog.present [OF owner_cycle_id] obtain r where "bmap_get agent_policy_rule_map OWNER_CYCLE_RULE = Some r"
    by blast
  then obtain f where "cycle_finding agent_policy_rule_map t by_path deps cyc = Some [f]"
    unfolding eq with_rule_def by simp
  with ok show ?thesis by auto
qed

lemma owner_dependency_cycle_findings_ok:
  "\<exists>fs. owner_dependency_cycle_findings agent_policy_rule_map t by_path = Some fs \<and>
    well_raised agent_policy_rule_map {OWNER_CYCLE_RULE} (Some fs) \<and>
    (fs = [] \<longleftrightarrow> acyclic (edge_relation (map proof_edge_of (non_test_owner_dependencies t))))"
proof -
  define deps where "deps = non_test_owner_dependencies t"
  define cycles where "cycles = owner_dependency_cycle_indices (map proof_edge_of deps)"
  have ok: "well_raised agent_policy_rule_map {OWNER_CYCLE_RULE} (owner_dependency_cycle_findings agent_policy_rule_map t by_path)"
    unfolding owner_dependency_cycle_findings_def Let_def
  proof (rule well_raised_all)
    fix x assume "x \<in> set (map (cycle_finding agent_policy_rule_map t by_path (non_test_owner_dependencies t))
      (owner_dependency_cycle_indices (map proof_edge_of (non_test_owner_dependencies t))))"
    then obtain cyc where "cyc \<in> set (owner_dependency_cycle_indices (map proof_edge_of (non_test_owner_dependencies t)))"
      and x: "x = cycle_finding agent_policy_rule_map t by_path (non_test_owner_dependencies t) cyc" by auto
    from cycle_finding_ok [OF this(1)] show "well_raised agent_policy_rule_map {OWNER_CYCLE_RULE} x"
      unfolding x by metis
  qed
  then obtain fs where fs: "owner_dependency_cycle_findings agent_policy_rule_map t by_path = Some fs"
    by (auto simp: well_raised_def)
  have "fs = concat (map (\<lambda>x. the x) (map (cycle_finding agent_policy_rule_map t by_path deps) cycles))"
    using raise_all_filter [OF fs [unfolded owner_dependency_cycle_findings_def Let_def], of "\<lambda>_. True"]
    by (simp add: deps_def cycles_def)
  then have "fs = [] \<longleftrightarrow> cycles = []"
    using cycle_finding_ok [of _ deps t by_path] unfolding cycles_def [symmetric]
    by (cases cycles) force+
  with owner_dependency_cycle_facts [of "map proof_edge_of deps"] have
    "fs = [] \<longleftrightarrow> acyclic (edge_relation (map proof_edge_of deps))" by (simp add: cycles_def)
  with fs ok show ?thesis by (auto simp: deps_def)
qed

lemma graph_findings_ok:
  "agent_ok (cross_owner_leaf_import_findings agent_policy_rule_map t by_path)"
  "agent_ok (owner_fan_out_intent_findings agent_policy_rule_map t by_path)"
  unfolding cross_owner_leaf_import_findings_def owner_fan_out_intent_findings_def Let_def
  by (auto intro!: agent_ok_map_filter simp: bind_eq_Some_conv split: if_splits)

lemma agent_part_ok:
  "x \<in> set (map (process_command_findings agent_policy_rule_map) vs @
     concat (map (\<lambda>m. [source_module_findings agent_policy_rule_map t m, data_shape_findings agent_policy_rule_map m,
       api_shape_findings agent_policy_rule_map m, tokio_runtime_boundary_findings agent_policy_rule_map m,
       native_abi_contract_findings agent_policy_rule_map m]) ws) @
     [repeated_namespace_findings agent_policy_rule_map t ms, generic_module_path_findings agent_policy_rule_map t ss,
      public_name_conflict_findings agent_policy_rule_map ss, test_support_reexport_findings agent_policy_rule_map t ms,
      algorithm_shape_findings agent_policy_rule_map ss, native_iterator_idiom_findings agent_policy_rule_map ss]) \<Longrightarrow>
   agent_ok x"
  by (auto intro: boundary_findings_ok source_module_findings_ok data_shape_findings_ok api_shape_findings_ok
      surface_findings_ok algorithm_shape_findings_ok native_iterator_idiom_findings_ok)

text \<open>The evaluation is a sequence of parts that never raise the cycle rule, and then the dependency graph.\<close>

lemma agent_tree_findings_split:
  "\<exists>parts. (\<forall>x \<in> set parts. agent_ok x) \<and> agent_tree_findings agent_policy_rule_map t ms =
    raise_all (parts @ [dependency_graph_findings agent_policy_rule_map t (modules_by_path ms)])"
proof -
  define source_modules where "source_modules = filter (\<lambda>m. case reasoning_module_at t (pm_path m) of
    Some mf \<Rightarrow> mod_is_source mf | None \<Rightarrow> False) ms"
  define parts where "parts = map (process_command_findings agent_policy_rule_map) (filter (\<lambda>m. module_is_valid (pm_report m)) ms) @
    concat (map (\<lambda>m. [source_module_findings agent_policy_rule_map t m, data_shape_findings agent_policy_rule_map m,
        api_shape_findings agent_policy_rule_map m, tokio_runtime_boundary_findings agent_policy_rule_map m,
        native_abi_contract_findings agent_policy_rule_map m])
      (filter (\<lambda>m. module_is_valid (pm_report m)) source_modules)) @
    [repeated_namespace_findings agent_policy_rule_map t ms, generic_module_path_findings agent_policy_rule_map t source_modules,
     public_name_conflict_findings agent_policy_rule_map source_modules, test_support_reexport_findings agent_policy_rule_map t ms,
     algorithm_shape_findings agent_policy_rule_map source_modules, native_iterator_idiom_findings agent_policy_rule_map source_modules]"
  have "agent_ok x" if "x \<in> set parts" for x
    using that unfolding parts_def by (rule agent_part_ok)
  moreover have "agent_tree_findings agent_policy_rule_map t ms =
    raise_all (parts @ [dependency_graph_findings agent_policy_rule_map t (modules_by_path ms)])"
    by (simp add: agent_tree_findings_def parts_def source_modules_def Let_def)
  ultimately show ?thesis by blast
qed

lemma agent_ids_sub:
  "agent_other_ids \<subseteq> catalog_id_set AgentPolicyPack" "{OWNER_CYCLE_RULE} \<subseteq> catalog_id_set AgentPolicyPack"
  using owner_cycle_id by (auto simp: agent_other_ids_def)

lemma agent_ok_no_cycle: "agent_ok x \<Longrightarrow> filter (\<lambda>f. finding_rule_id f = OWNER_CYCLE_RULE) (the x) = []"
  by (erule well_raised_filter) (simp add: agent_other_ids_def)

lemma dependency_graph_findings_ok:
  "\<exists>gs. dependency_graph_findings agent_policy_rule_map t by_path = Some gs \<and>
    well_raised agent_policy_rule_map (catalog_id_set AgentPolicyPack) (Some gs) \<and>
    (filter (\<lambda>f. finding_rule_id f = OWNER_CYCLE_RULE) gs = [] \<longleftrightarrow>
      acyclic (edge_relation (map proof_edge_of (non_test_owner_dependencies t))))"
proof -
  obtain cs where cs: "owner_dependency_cycle_findings agent_policy_rule_map t by_path = Some cs"
    and cs_ok: "well_raised agent_policy_rule_map {OWNER_CYCLE_RULE} (Some cs)"
    and cs_iff: "cs = [] \<longleftrightarrow> acyclic (edge_relation (map proof_edge_of (non_test_owner_dependencies t)))"
    using owner_dependency_cycle_findings_ok [of t by_path] by blast
  have ok: "well_raised agent_policy_rule_map (catalog_id_set AgentPolicyPack) (dependency_graph_findings agent_policy_rule_map t by_path)"
    unfolding dependency_graph_findings_def cs
    using well_raised_mono [OF graph_findings_ok(1) agent_ids_sub(1)] well_raised_mono [OF graph_findings_ok(2) agent_ids_sub(1)]
      well_raised_mono [OF cs_ok agent_ids_sub(2)] by (intro well_raised_all) auto
  then obtain gs where gs: "dependency_graph_findings agent_policy_rule_map t by_path = Some gs"
    by (auto simp: well_raised_def)
  have "filter (\<lambda>f. finding_rule_id f = OWNER_CYCLE_RULE) gs = cs"
    using raise_all_filter [OF gs [unfolded dependency_graph_findings_def], of "\<lambda>f. finding_rule_id f = OWNER_CYCLE_RULE"] cs_ok
    by (auto simp: cs graph_findings_ok [THEN agent_ok_no_cycle] well_raised_def filter_id_conv)
  with gs ok cs_iff show ?thesis by simp
qed

lemma agent_tree_findings_ok:
  "\<exists>fs. agent_tree_findings agent_policy_rule_map t ms = Some fs \<and>
    well_raised agent_policy_rule_map (catalog_id_set AgentPolicyPack) (Some fs) \<and>
    (filter (\<lambda>f. finding_rule_id f = OWNER_CYCLE_RULE) fs = [] \<longleftrightarrow>
      acyclic (edge_relation (map proof_edge_of (non_test_owner_dependencies t))))"
proof -
  obtain parts where parts: "\<And>x. x \<in> set parts \<Longrightarrow> agent_ok x"
    and eval: "agent_tree_findings agent_policy_rule_map t ms =
      raise_all (parts @ [dependency_graph_findings agent_policy_rule_map t (modules_by_path ms)])"
    using agent_tree_findings_split by blast
  obtain gs where gs: "dependency_graph_findings agent_policy_rule_map t (modules_by_path ms) = Some gs"
    and gs_ok: "well_raised agent_policy_rule_map (catalog_id_set AgentPolicyPack) (Some gs)"
    and gs_iff: "filter (\<lambda>f. finding_rule_id f = OWNER_CYCLE_RULE) gs = [] \<longleftrightarrow>
      acyclic (edge_relation (map proof_edge_of (non_test_owner_dependencies t)))"
    using dependency_graph_findings_ok by blast
  have ok: "well_raised agent_policy_rule_map (catalog_id_set AgentPolicyPack) (agent_tree_findings agent_policy_rule_map t ms)"
    unfolding eval gs by (rule well_raised_all) (auto intro: gs_ok well_raised_mono [OF parts agent_ids_sub(1)])
  then obtain fs where fs: "agent_tree_findings agent_policy_rule_map t ms = Some fs" by (auto simp: well_raised_def)
  have "filter (\<lambda>f. finding_rule_id f = OWNER_CYCLE_RULE) fs = filter (\<lambda>f. finding_rule_id f = OWNER_CYCLE_RULE) gs"
    using raise_all_filter [OF fs [unfolded eval], of "\<lambda>f. finding_rule_id f = OWNER_CYCLE_RULE"] parts agent_ok_no_cycle
    by (auto simp: gs)
  with fs ok gs_iff show ?thesis by auto
qed

lemma agent_evaluate_ok:
  "well_raised agent_policy_rule_map (catalog_id_set AgentPolicyPack) (agent_policy_evaluate is_file load scope ms)"
proof (cases scope)
  case (Some s)
  with agent_tree_findings_ok [of "rust_reasoning_tree_facts is_file load s ms" ms] show ?thesis
    by (auto simp: agent_policy_evaluate_def)
qed (simp add: agent_policy_evaluate_def)

text \<open>
  C40: evaluating the agent pack on a package never panics: no rule is missing from its catalog, no parameter of a public function is
  indexed out of range when it is read back from its group, no owner dependency is indexed out of range when a cycle is rendered, and
  the scan of the comments above a line, which every rule with a documented exception uses, stays inside the lines. Every finding is of the pack and of a
  rule of its catalog, and there is a finding of the owner cycle rule exactly when the owner dependencies outside test context have a
  cycle; a cycle that needs a dependency in test context is not reported.
\<close>

theorem agent_policy_findings_exact:
  fixes is_file load scope ms
  defines "deps \<equiv> non_test_owner_dependencies (rust_reasoning_tree_facts is_file load scope ms)"
  shows "(\<exists>fs. agent_policy_evaluate is_file load (Some scope) ms = Some fs \<and>
    list_all (\<lambda>f. finding_pack_id f = rule_pack_id AgentPolicyPack \<and>
      finding_rule_id f \<in> set (map rule_id (pack_rules AgentPolicyPack))) fs \<and>
    (list_ex (\<lambda>f. finding_rule_id f = OWNER_CYCLE_RULE) fs \<longleftrightarrow>
      \<not> acyclic ((\<lambda>d. (dep_source_namespace d, dep_target_namespace d)) ` set deps))) \<and>
    documented_agent_boundary_at src n markers = Some (documented_agent_boundary src n markers)"
proof -
  define t where "t = rust_reasoning_tree_facts is_file load scope ms"
  obtain fs where fs: "agent_policy_evaluate is_file load (Some scope) ms = Some fs"
    and ok: "well_raised agent_policy_rule_map (catalog_id_set AgentPolicyPack) (Some fs)"
    and iff: "filter (\<lambda>f. finding_rule_id f = OWNER_CYCLE_RULE) fs = [] \<longleftrightarrow>
      acyclic (edge_relation (map proof_edge_of (non_test_owner_dependencies t)))"
    using agent_tree_findings_ok [of t ms] by (auto simp: agent_policy_evaluate_def t_def)
  have "list_ex (\<lambda>f. finding_rule_id f = OWNER_CYCLE_RULE) fs \<longleftrightarrow>
      \<not> acyclic ((\<lambda>d. (dep_source_namespace d, dep_target_namespace d)) ` set deps)"
    using iff unfolding list_ex_iff filter_empty_conv
    by (auto simp: edge_relation_def image_image proof_edge_of_def deps_def t_def)
  moreover have "catalog_id_set AgentPolicyPack = set (map rule_id (pack_rules AgentPolicyPack))"
    by (simp only: catalog_id_set_eq pack_rule_ids set_append)
  ultimately show ?thesis using agent_catalog.well_raised_pack [OF ok] fs documented_agent_boundary_at_eq by auto
qed


section \<open>Flag parameters of functions with one name\<close>

definition flag_param :: "nat \<Rightarrow> string \<Rightarrow> string \<Rightarrow> function_param" where
  "flag_param n fn_name name = \<lparr>fp_line = n, fp_function_line = n, fp_function_name = fn_name, fp_param_name = name,
     fp_type_text = ''bool'', fp_primitive_contract_type = None, fp_flag_contract_type = Some ''bool'', fp_is_test_context = False\<rparr>"

text \<open>A module in which the methods \<open>new\<close> of two types each take one flag.\<close>

definition two_constructors :: parsed_module where
  "two_constructors = \<lparr>pm_report = \<lparr>module_path = [Normal ''lib.rs''], module_is_valid = True, module_parse_error = None\<rparr>,
     pm_source = [], pm_syntax_facts = native_syntax_facts_default\<lparr>public_function_params :=
       [flag_param 2 ''new'' ''strict'', flag_param 8 ''new'' ''verbose'']\<rparr>,
     pm_source_metrics = source_metrics_default, pm_error_span = None\<rparr>"

text \<open>
  The rule against several flag parameters groups parameters by the name of the function alone. Two functions of
  the same name with one flag each, such as the constructors of two types, are reported as one function with several flags,
  although no function has more than one.
\<close>

lemma flag_parameters_merge_namesakes:
  "list_all (\<lambda>n. length (filter (\<lambda>param. fp_function_line param = n) (public_function_params (pm_syntax_facts two_constructors))) \<le> 1)
     (map fp_function_line (public_function_params (pm_syntax_facts two_constructors))) \<and>
   map_option (map (loc_line \<circ> location)) (public_flag_parameter_findings agent_policy_rule_map two_constructors) = Some [2]"
proof -
  obtain r where "bmap_get agent_policy_rule_map ''RUST-AGENT-API-FLAGS-018'' = Some r"
    using agent_catalog.present [of "''RUST-AGENT-API-FLAGS-018''"]
    by (auto simp: catalog_id_set_eq rule_ids_def unlisted_rule_ids_def)
  moreover have "public_function_params (pm_syntax_facts two_constructors) = [flag_param 2 ''new'' ''strict'', flag_param 8 ''new'' ''verbose'']"
    "is_flag_param (flag_param k fn_name name)" for k fn_name name
    by (simp_all add: two_constructors_def is_flag_param_def flag_param_def)
  moreover have "group_by fp_function_name id [flag_param 2 ''new'' ''strict'', flag_param 8 ''new'' ''verbose''] =
      [(''new'', [flag_param 2 ''new'' ''strict'', flag_param 8 ''new'' ''verbose''])]" by code_simp
  moreover have "\<not> documented_agent_boundary (pm_source two_constructors) 2
      [''flag mode boundary'', ''typed flag boundary'', ''positional boundary'']" by code_simp
  ultimately show ?thesis
    by (simp add: public_flag_parameter_findings_grouped with_rule_def map_filter_simps flag_finding_of_def flag_params_finding_def MIN_FLAG_PARAMS_def
        flag_param_def line_finding_def finding_from_rule_def path_line_location_def Let_def)
qed

end
