(* ===== verification/Rule_Engine.thy ===== *)
theory Rule_Engine
  imports Project_Policy Modularity_Rules Agent_Policy
begin

text \<open>
  The default rule packs run over a package and over a workspace: \<open>src/rules/engine.rs\<close>. The four packs raise their
  findings in a fixed order; the configuration then drops disabled rules and overrides severities.
\<close>

definition evaluate_default_rule_packs_with_config ::
  "host \<Rightarrow> asp_rust_scope option \<Rightarrow> parsed_module list \<Rightarrow> asp_rust_config \<Rightarrow> raised" where
  "evaluate_default_rule_packs_with_config h scope ms config =
     map_option (\<lambda>fs. apply_policy_config fs config)
       (raise_all
         [Some (syntax_evaluate ms),
          project_evaluate h scope ms config,
          modularity_evaluate (host_is_file h) (host_load h) scope ms,
          agent_policy_evaluate (host_is_file h) (host_load h) scope ms])"

definition evaluate_workspace_rule_packs_with_config ::
  "host \<Rightarrow> path \<Rightarrow> asp_rust_scope list \<Rightarrow> asp_rust_config \<Rightarrow> raised" where
  "evaluate_workspace_rule_packs_with_config h workspace_root package_scopes config =
     map_option (\<lambda>fs. apply_policy_config fs config) (evaluate_workspace h workspace_root package_scopes config)"

section \<open>Every finding is of a catalog rule\<close>

definition catalog_finding :: "asp_rust_finding \<Rightarrow> bool" where
  "catalog_finding f \<longleftrightarrow> (\<exists>p. \<exists>r \<in> set (catalog_list p). finding_pack_id f = rule_pack_id p \<and> of_rule r f)"

text \<open>What a configuration makes of a finding of a catalog rule: the rule is enabled and the override, if any, is its severity.\<close>

definition configured_of :: "asp_rust_config \<Rightarrow> asp_rust_finding \<Rightarrow> bool" where
  "configured_of config f \<longleftrightarrow> finding_rule_id f \<notin> set (disabled_rules config) \<and>
     (\<exists>p. \<exists>r \<in> set (catalog_list p). finding_pack_id f = rule_pack_id p \<and> finding_rule_id f = rule_id r \<and>
       finding_title f = rule_title r \<and> finding_requirement f = rule_requirement r \<and>
       severity f = (case bmap_get (rule_severity_overrides config) (rule_id r) of Some s \<Rightarrow> s | None \<Rightarrow> rule_severity r))"

lemma well_raised_catalog:
  assumes "well_raised (rules_by_id (catalog_list p)) (catalog_id_set p) x"
  shows "\<exists>fs. x = Some fs \<and> (\<forall>f \<in> set fs. catalog_finding f \<and> finding_rule_id f \<in> catalog_id_set p)"
proof -
  have "r \<in> set (catalog_list p) \<and> pack_id r = rule_pack_id p"
    if "bmap_get (rules_by_id (catalog_list p)) k = Some r" for k r
    using that catalog_pack_ids [of p]
    by (auto simp: rules_by_id_def bmap_get_of_list list_all_iff dest!: map_of_SomeD)
  with assms show ?thesis
    unfolding well_raised_def catalog_finding_def by (fastforce simp: of_rule_def)
qed

lemma syntax_findings_catalog: "f \<in> set (syntax_evaluate ms) \<Longrightarrow> catalog_finding f \<and> finding_rule_id f = ''RUST-SYN-R001''"
  unfolding catalog_finding_def
  by (auto simp: syntax_evaluate_def syntax_finding_def Let_def catalog_list_def syntax_rule_list_def
      finding_from_rule_def asp_rust_rule_new_def of_rule_def intro!: exI [of _ SyntaxPack])

lemma catalog_finding_configured:
  "f \<in> set (apply_policy_config fs config) \<Longrightarrow> \<forall>f \<in> set fs. catalog_finding f \<Longrightarrow> configured_of config f"
  unfolding apply_policy_config_eq catalog_finding_def configured_of_def of_rule_def
  by (fastforce simp: effective_severity_def split: option.splits)

lemma syntax_id_not_in: "p \<noteq> SyntaxPack \<Longrightarrow> ''RUST-SYN-R001'' \<notin> catalog_id_set p"
  by (cases p) (simp_all add: catalog_id_set_eq rule_ids_def unlisted_rule_ids_def)

lemma pack_findings:
  "\<exists>fs. project_evaluate h scope ms config = Some fs \<and>
     (\<forall>f \<in> set fs. catalog_finding f \<and> finding_rule_id f \<noteq> ''RUST-SYN-R001'')"
  "\<exists>fs. modularity_evaluate is_file load scope ms = Some fs \<and>
     (\<forall>f \<in> set fs. catalog_finding f \<and> finding_rule_id f \<noteq> ''RUST-SYN-R001'')"
  "\<exists>fs. agent_policy_evaluate is_file load scope ms = Some fs \<and>
     (\<forall>f \<in> set fs. catalog_finding f \<and> finding_rule_id f \<noteq> ''RUST-SYN-R001'')"
  using well_raised_catalog [OF project_evaluate_ok] well_raised_catalog [OF modularity_evaluate_ok]
    well_raised_catalog [OF agent_evaluate_ok] syntax_id_not_in by (metis rule_pack.distinct)+

lemma syntax_findings_paths: "map (loc_path \<circ> location) (syntax_evaluate ms) =
  map (\<lambda>m. Some (pm_path m)) (filter (\<lambda>m. \<not> module_is_valid (pm_report m)) ms)"
  by (auto simp: syntax_evaluate_def syntax_finding_def finding_from_rule_def file_location_def span_location_def
      Let_def split: option.splits)

lemma default_rule_packs_ok:
  "\<exists>fs. evaluate_default_rule_packs_with_config h scope ms config = Some fs \<and> list_all (configured_of config) fs"
proof -
  obtain ps mo as where parts: "project_evaluate h scope ms config = Some ps"
      "modularity_evaluate (host_is_file h) (host_load h) scope ms = Some mo"
      "agent_policy_evaluate (host_is_file h) (host_load h) scope ms = Some as"
    and others: "\<forall>f \<in> set (ps @ mo @ as). catalog_finding f"
    using pack_findings(1) [of h scope ms config] pack_findings(2,3) [of "host_is_file h" "host_load h" scope ms]
    by (metis UnE set_append)
  have "\<forall>f \<in> set (syntax_evaluate ms @ ps @ mo @ as). catalog_finding f"
    using others syntax_findings_catalog by fastforce
  from catalog_finding_configured [OF _ this] show ?thesis
    by (auto simp: evaluate_default_rule_packs_with_config_def parts raise_all_Cons list_all_iff)
qed

text \<open>
  C2: running the default rule packs over a package, with or without a scope, never panics; every finding is of a
  rule of one of the four catalogs, with that rule's title and requirement, of a rule that is not disabled, and with
  the configured severity or else that of the rule; and the syntax findings are, in the order of the modules,
  exactly those of the modules that do not parse, or none when the syntax rule is disabled.
\<close>

theorem default_rule_packs_total:
  "\<exists>fs. evaluate_default_rule_packs_with_config h scope ms config = Some fs \<and> list_all (configured_of config) fs \<and>
     map (loc_path \<circ> location) (filter (\<lambda>f. finding_rule_id f = ''RUST-SYN-R001'') fs) =
       (if ''RUST-SYN-R001'' \<in> set (disabled_rules config) then []
        else map (\<lambda>m. Some (pm_path m)) (filter (\<lambda>m. \<not> module_is_valid (pm_report m)) ms))"
proof -
  obtain ps mo as where parts: "project_evaluate h scope ms config = Some ps"
      "modularity_evaluate (host_is_file h) (host_load h) scope ms = Some mo"
      "agent_policy_evaluate (host_is_file h) (host_load h) scope ms = Some as"
    and others: "\<forall>f \<in> set (ps @ mo @ as). catalog_finding f \<and> finding_rule_id f \<noteq> ''RUST-SYN-R001''"
    using pack_findings(1) [of h scope ms config] pack_findings(2,3) [of "host_is_file h" "host_load h" scope ms]
    by (metis UnE set_append)
  let ?all = "syntax_evaluate ms @ ps @ mo @ as"
  let ?syn = "\<lambda>f. finding_rule_id f = ''RUST-SYN-R001''"
  have eval: "evaluate_default_rule_packs_with_config h scope ms config = Some (apply_policy_config ?all config)"
    by (simp add: evaluate_default_rule_packs_with_config_def parts raise_all_Cons)
  have catalog: "\<forall>f \<in> set ?all. catalog_finding f" using others syntax_findings_catalog by fastforce
  have syn: "filter (\<lambda>f. ?syn f \<and> P f) (ps @ mo @ as) = []" "filter ?syn (syntax_evaluate ms) = syntax_evaluate ms" for P
    using others syntax_findings_catalog by (auto simp: filter_empty_conv filter_id_conv)
  have "map (loc_path \<circ> location) (filter ?syn (apply_policy_config ?all config)) =
    map (loc_path \<circ> location) (filter (\<lambda>f. ?syn f \<and> finding_rule_id f \<notin> set (disabled_rules config)) ?all)"
    by (simp add: apply_policy_config_eq filter_map comp_def conj_commute)
  also have "\<dots> = (if ''RUST-SYN-R001'' \<in> set (disabled_rules config) then [] else map (loc_path \<circ> location) (syntax_evaluate ms))"
    unfolding filter_append [of _ "syntax_evaluate ms"] syn(1) using syntax_findings_catalog [of _ ms]
    by (auto simp: filter_empty_conv filter_id_conv)
  finally show ?thesis
    using catalog_finding_configured [OF _ catalog] by (simp add: eval list_all_iff syntax_findings_paths)
qed

lemma workspace_rule_packs_ok:
  "\<exists>fs. evaluate_workspace_rule_packs_with_config h root scopes config = Some fs \<and> list_all (configured_of config) fs"
  using well_raised_catalog [OF well_raised_mono [OF evaluate_workspace_ok project_ids(2)], of h root scopes config] catalog_finding_configured
  by (fastforce simp: evaluate_workspace_rule_packs_with_config_def list_all_iff)


section \<open>The test layout\<close>

text \<open>The rule an entry of a test directory breaks, with the path it is reported at.\<close>

definition layout_violation :: "path \<Rightarrow> string \<times> fs_node \<Rightarrow> (string \<times> path) list" where
  "layout_violation tests_dir e =
     (if node_is_dir (snd e) then
        (if is_allowed_test_dir (fst e) then [] else [(''RUST-AGENT-PROJECT-002'', entry_path tests_dir (fst e))])
      else if is_rust_file (entry_path tests_dir (fst e)) \<and> \<not> is_allowed_test_root_file (fst e)
      then [(''RUST-AGENT-PROJECT-001'', entry_path tests_dir (fst e))] else [])"

definition layout_violations :: "host \<Rightarrow> path \<Rightarrow> (string \<times> path) list" where
  "layout_violations h root =
     (case read_dir (host_fs h) (path_push root ''tests'') of
        None \<Rightarrow> [] | Some entries \<Rightarrow> concat (map (layout_violation (path_push root ''tests'')) entries))"

definition reported_at :: "asp_rust_finding \<Rightarrow> string \<times> path option" where
  "reported_at f = (finding_rule_id f, loc_path (location f))"

lemma test_layout_entry_reported:
  "\<exists>fs. test_layout_entry project_policy_rule_map dir e = Some fs \<and>
     map reported_at fs = map (map_prod id Some) (layout_violation dir e)"
proof -
  obtain r s where r: "bmap_get project_policy_rule_map ''RUST-AGENT-PROJECT-001'' = Some r"
    and s: "bmap_get project_policy_rule_map ''RUST-AGENT-PROJECT-002'' = Some s"
    using project_catalog.present [OF subsetD [OF project_ids(1)], of "''RUST-AGENT-PROJECT-001''"]
      project_catalog.present [OF subsetD [OF project_ids(1)], of "''RUST-AGENT-PROJECT-002''"] by (auto simp: layout_ids_def)
  moreover have "rule_id r = ''RUST-AGENT-PROJECT-001''" "rule_id s = ''RUST-AGENT-PROJECT-002''"
    using project_catalog.entry [OF r] project_catalog.entry [OF s] by simp_all
  ultimately show ?thesis
    by (cases e) (simp add: test_layout_entry_def layout_violation_def with_rule_def reported_at_def finding_from_rule_def
        file_location_def Let_def)
qed

lemma test_layout_reported:
  "\<exists>fs. test_layout_findings project_policy_rule_map h root = Some fs \<and>
     map reported_at fs = map (map_prod id Some) (layout_violations h root)"
proof -
  have "\<exists>fs. raise_all (map (test_layout_entry project_policy_rule_map dir) es) = Some fs \<and>
      map reported_at fs = map (map_prod id Some) (concat (map (layout_violation dir) es))" for dir es
  proof (induction es)
    case (Cons e es)
    with test_layout_entry_reported [of dir e] show ?case by (fastforce simp: raise_all_Cons)
  qed simp
  then show ?thesis by (auto simp: test_layout_findings_def layout_violations_def split: option.splits)
qed

lemma layout_ids_disjoint: "rid \<in> layout_ids \<Longrightarrow> rid \<notin> project_other_ids"
  by (simp add: project_other_ids_def)

lemma layout_ids_foreign:
  "rid \<in> layout_ids \<Longrightarrow> p \<noteq> ProjectPolicyPack \<Longrightarrow> rid \<notin> catalog_id_set p"
  by (cases p) (auto simp: layout_ids_def catalog_id_set_eq rule_ids_def unlisted_rule_ids_def)

abbreviation layout_findings :: "asp_rust_finding list \<Rightarrow> asp_rust_finding list" where
  "layout_findings \<equiv> filter (\<lambda>f. finding_rule_id f \<in> layout_ids)"

lemma other_layout_findings [simp]: "\<forall>f \<in> set fs. finding_rule_id f \<notin> layout_ids \<Longrightarrow> layout_findings fs = []"
  by (simp add: filter_empty_conv)

lemma reported_at_configured: "map reported_at (layout_findings (apply_policy_config fs config)) =
  filter (\<lambda>v. fst v \<notin> set (disabled_rules config)) (map reported_at (layout_findings fs))"
  by (simp add: apply_policy_config_eq filter_map comp_def reported_at_def conj_commute)

lemma default_rule_packs_layout:
  "\<exists>fs. evaluate_default_rule_packs_with_config h (Some s) ms config = Some fs \<and>
     map reported_at (layout_findings fs) =
       map (map_prod id Some) (filter (\<lambda>v. fst v \<notin> set (disabled_rules config)) (layout_violations h (scope_project_root s)))"
proof -
  obtain ps gs where ps: "test_layout_findings project_policy_rule_map h (scope_project_root s) = Some ps"
      "project_evaluate h (Some s) ms config = Some (ps @ gs)"
    and ids: "\<forall>f \<in> set ps. finding_rule_id f \<in> layout_ids" "\<forall>f \<in> set gs. finding_rule_id f \<in> project_other_ids"
    using project_evaluate_parts by blast
  obtain mo as where parts: "modularity_evaluate (host_is_file h) (host_load h) (Some s) ms = Some mo"
      "agent_policy_evaluate (host_is_file h) (host_load h) (Some s) ms = Some as"
    and others: "\<forall>f \<in> set mo. finding_rule_id f \<in> catalog_id_set ModularityPack"
      "\<forall>f \<in> set as. finding_rule_id f \<in> catalog_id_set AgentPolicyPack"
    using well_raised_catalog [OF modularity_evaluate_ok] well_raised_catalog [OF agent_evaluate_ok] by metis
  have none: "layout_findings (syntax_evaluate ms) = []" "layout_findings gs = []" "layout_findings mo = []" "layout_findings as = []"
    using ids(2) others layout_ids_foreign layout_ids_disjoint syntax_findings_catalog [of _ ms]
    by (auto simp: filter_empty_conv layout_ids_def)
  have all: "layout_findings ps = ps" using ids(1) by (simp add: filter_id_conv)
  from test_layout_reported [of h "scope_project_root s"] ps(1) show ?thesis
    by (simp add: evaluate_default_rule_packs_with_config_def ps(2) parts raise_all_Cons reported_at_configured none all
        filter_map comp_def)
qed

lemma workspace_rule_packs_layout:
  "evaluate_workspace_rule_packs_with_config h root scopes config = Some fs \<Longrightarrow> layout_findings fs = []"
proof -
  assume eval: "evaluate_workspace_rule_packs_with_config h root scopes config = Some fs"
  obtain gs where "evaluate_workspace h root scopes config = Some gs" "\<forall>f \<in> set gs. finding_rule_id f \<notin> layout_ids"
    using evaluate_workspace_ok [of h root scopes config] unfolding well_raised_def by (metis layout_ids_disjoint)
  with eval show ?thesis by (auto simp: evaluate_workspace_rule_packs_with_config_def apply_policy_config_eq filter_empty_conv)
qed

end
