(* ===== verification/Report_Rendering.thy ===== *)
theory Report_Rendering
  imports Rule_Evaluation
begin

text \<open>
  The compact text of a report: \<open>src/render.rs\<close>. A finding is a block of lines; the failure frontier names at most
  a given number of source windows, one per file.
\<close>

text \<open>The words whose first letter is raised are those of the severities.\<close>

definition title_case :: "string \<Rightarrow> string" where
  "title_case s = to_ascii_uppercase (take 1 s) @ drop 1 s"

definition render_finding :: "asp_rust_finding \<Rightarrow> string" where
  "render_finding f =
     (let nl = [CHR 0x0A];
          loc = location f;
          p = (case loc_path loc of None \<Rightarrow> ''<memory>'' | Some q \<Rightarrow> display_path q)
      in ''['' @ finding_rule_id f @ ''] '' @ title_case (severity_str (severity f)) @ '': '' @ finding_title f @ nl @
         ''@ '' @ p @ '':'' @ show_nat (loc_line loc) @ '':'' @ show_nat (loc_column loc + 1) @ nl @
         ''fix: '' @ finding_label f @ nl @
         (case source_line f of
            None \<Rightarrow> []
          | Some l \<Rightarrow> ''line: '' @ show_nat (loc_line loc) @ '' | '' @ l @ nl) @
         ''Help: '' @ finding_summary f @ nl @
         ''Contract: '' @ finding_requirement f @ nl)"

definition render_finding_list :: "asp_rust_finding list \<Rightarrow> string" where
  "render_finding_list fs = join_with [CHR 0x0A] (map render_finding fs)"

definition finding_key :: "asp_rust_finding \<Rightarrow> string \<times> string option \<times> nat \<times> nat" where
  "finding_key f = (finding_rule_id f, map_option display_path (loc_path (location f)), loc_line (location f), loc_column (location f))"

definition deduplicate_advice_findings :: "asp_rust_finding list \<Rightarrow> asp_rust_finding list \<Rightarrow> asp_rust_finding list" where
  "deduplicate_advice_findings advice blocking =
     filter (\<lambda>f. finding_key f \<notin> set (map finding_key blocking)) advice"

definition render_asp_rust_with_options :: "asp_rust_report \<Rightarrow> severity list option \<Rightarrow> bool \<Rightarrow> string" where
  "render_asp_rust_with_options r severities include_advice =
     (let blocking = blocking_findings r severities;
          advice = (if include_advice then deduplicate_advice_findings (advisory_findings r) blocking else []);
          shown = blocking @ advice
      in if shown = [] then ''[ok] rust'' @ [CHR 0x0A] else render_finding_list shown)"

definition render_asp_rust :: "asp_rust_report \<Rightarrow> string" where
  "render_asp_rust r = render_asp_rust_with_options r None True"

definition render_asp_rust_advice :: "asp_rust_report \<Rightarrow> string" where
  "render_asp_rust_advice r = render_finding_list (blocking_findings r (Some [SeverityInfo]))"

section \<open>The failure frontier\<close>

definition FAILURE_FRONTIER_CONTEXT_LINES :: nat where "FAILURE_FRONTIER_CONTEXT_LINES = 12"

record hot_block =
  hot_selector :: string
  hot_source :: string
  hot_rule_id :: string
  hot_line :: nat

definition project_relative_display_path :: "path \<Rightarrow> path \<Rightarrow> string" where
  "project_relative_display_path project_root p =
     (case strip_prefix p project_root of
        Some relative \<Rightarrow> if relative \<noteq> [] then display_path relative else display_path p
      | None \<Rightarrow> display_path p)"

text \<open>What the three loops push: the place and the rule of a candidate or a finding.\<close>

record frontier_entry =
  fe_path :: "path option"
  fe_line :: nat
  fe_rule_id :: string

type_synonym frontier = "hot_block list \<times> string list"

definition push_failure_frontier_hot_block :: "path \<Rightarrow> string \<Rightarrow> frontier_entry \<Rightarrow> frontier \<Rightarrow> frontier" where
  "push_failure_frontier_hot_block project_root source e st =
     (let (blocks, seen) = st in
      case fe_path e of
        None \<Rightarrow> st
      | Some p \<Rightarrow>
          let shown = project_relative_display_path project_root p in
          if shown \<in> set seen then st
          else
            let line_no = max (fe_line e) 1;
                start_line = max (line_no - FAILURE_FRONTIER_CONTEXT_LINES) 1;
                end_line = line_no + FAILURE_FRONTIER_CONTEXT_LINES
            in (blocks @ [\<lparr>hot_selector = shown @ '':'' @ show_nat start_line @ ''-'' @ show_nat end_line,
                  hot_source = source, hot_rule_id = fe_rule_id e, hot_line = line_no\<rparr>], bset_insert shown seen))"

text \<open>A loop over entries; \<open>Inl\<close> is the early return at the limit.\<close>

fun push_hot_blocks :: "nat \<Rightarrow> path \<Rightarrow> string \<Rightarrow> frontier_entry list \<Rightarrow> frontier \<Rightarrow> hot_block list + frontier" where
  "push_hot_blocks limit project_root source [] st = Inr st"
| "push_hot_blocks limit project_root source (e # es) st =
     (let st' = push_failure_frontier_hot_block project_root source e st in
      if length (fst st') \<ge> limit then Inl (fst st') else push_hot_blocks limit project_root source es st')"

definition candidate_entry :: "invariant_candidate \<Rightarrow> frontier_entry" where
  "candidate_entry c = \<lparr>fe_path = loc_path (invariant_location c), fe_line = loc_line (invariant_location c), fe_rule_id = source_rule_id c\<rparr>"

definition finding_entry :: "asp_rust_finding \<Rightarrow> frontier_entry" where
  "finding_entry f = \<lparr>fe_path = loc_path (location f), fe_line = loc_line (location f), fe_rule_id = finding_rule_id f\<rparr>"

definition failure_frontier_hot_blocks :: "asp_rust_report \<Rightarrow> path \<Rightarrow> nat \<Rightarrow> hot_block list" where
  "failure_frontier_hot_blocks r project_root max_hot_blocks =
     (if max_hot_blocks = 0 then []
      else case push_hot_blocks max_hot_blocks project_root ''invariant'' (map candidate_entry (invariant_candidates r)) ([], []) of
        Inl blocks \<Rightarrow> blocks
      | Inr st \<Rightarrow>
          if fst st \<noteq> [] then fst st
          else case push_hot_blocks max_hot_blocks project_root ''finding'' (map finding_entry (blocking_findings r None)) st of
            Inl blocks \<Rightarrow> blocks
          | Inr st' \<Rightarrow>
              (case push_hot_blocks max_hot_blocks project_root ''advice'' (map finding_entry (advisory_findings r)) st' of
                Inl blocks \<Rightarrow> blocks | Inr st'' \<Rightarrow> fst st''))"

definition render_asp_rust_failure_frontier :: "asp_rust_report \<Rightarrow> path \<Rightarrow> nat \<Rightarrow> string" where
  "render_asp_rust_failure_frontier r project_root max_hot_blocks =
     (let hot_blocks = failure_frontier_hot_blocks r project_root max_hot_blocks; nl = [CHR 0x0A] in
      if hot_blocks = [] then []
      else ''[fail] rust blockingFindings='' @ show_nat (length (blocking_findings r None)) @
        '' advisoryFindings='' @ show_nat (length (advisory_findings r)) @
        '' changedInvariants='' @ show_nat (length (invariant_candidates r)) @
        '' hotBlocks='' @ show_nat (length hot_blocks) @ nl @
        ''|failureFrontier status=ready source=rust-check hotBlocks='' @ show_nat (length hot_blocks) @
        '' directSourceReadCode<='' @ show_nat (length hot_blocks) @
        '' changedInvariants='' @ show_nat (length (invariant_candidates r)) @
        '' findings='' @ show_nat (length (findings r)) @ nl @
        concat (map (\<lambda>b. ''|hotBlock selector='' @ hot_selector b @ '' source='' @ hot_source b @ '' rule='' @
          hot_rule_id b @ '' line='' @ show_nat (hot_line b) @ nl) hot_blocks))"

section \<open>The frontier is bounded and names each file once\<close>

text \<open>The window of a block: its line, at least one, with up to twelve lines of context, in a file shown by its path.\<close>

definition window_of :: "string \<Rightarrow> hot_block \<Rightarrow> bool" where
  "window_of shown b \<longleftrightarrow> 1 \<le> hot_line b \<and>
     hot_selector b = shown @ '':'' @ show_nat (max (hot_line b - 12) 1) @ ''-'' @ show_nat (hot_line b + 12)"

text \<open>The state of the loops: the blocks are windows of distinct files, and the seen set holds these files.\<close>

definition frontier_inv :: "path \<Rightarrow> path set \<Rightarrow> frontier \<Rightarrow> bool" where
  "frontier_inv project_root ps st \<longleftrightarrow> (\<exists>shown. list_all2 window_of shown (fst st) \<and> distinct shown \<and>
     set shown = set (snd st) \<and> set shown = project_relative_display_path project_root ` ps)"

definition entry_paths :: "frontier_entry list \<Rightarrow> path set" where
  "entry_paths es = {p. \<exists>e \<in> set es. fe_path e = Some p}"

lemma push_inv:
  assumes "frontier_inv root ps st"
  shows "frontier_inv root (ps \<union> entry_paths [e]) (push_failure_frontier_hot_block root source e st) \<and>
    length (fst (push_failure_frontier_hot_block root source e st)) \<le> length (fst st) + 1"
proof (cases "fe_path e")
  case None
  with assms show ?thesis by (simp add: push_failure_frontier_hot_block_def entry_paths_def split_beta)
next
  case (Some p)
  let ?d = "project_relative_display_path root p"
  from assms obtain shown where inv: "list_all2 window_of shown (fst st)" "distinct shown"
    "set shown = set (snd st)" "set shown = project_relative_display_path root ` ps"
    by (auto simp: frontier_inv_def)
  show ?thesis
  proof (cases "?d \<in> set (snd st)")
    case True
    with inv Some show ?thesis
      by (auto simp: push_failure_frontier_hot_block_def split_beta Let_def entry_paths_def frontier_inv_def insert_absorb)
  next
    case False
    define b where "b = \<lparr>hot_selector = ?d @ '':'' @ show_nat (max (max (fe_line e) 1 - 12) 1) @ ''-'' @ show_nat (max (fe_line e) 1 + 12),
      hot_source = source, hot_rule_id = fe_rule_id e, hot_line = max (fe_line e) 1\<rparr>"
    have "window_of ?d b" by (simp add: b_def window_of_def)
    with inv(1) have "list_all2 window_of (shown @ [?d]) (fst st @ [b])" by (simp add: list_all2_appendI)
    moreover have "push_failure_frontier_hot_block root source e st = (fst st @ [b], bset_insert ?d (snd st))"
      using False Some by (simp add: push_failure_frontier_hot_block_def split_beta Let_def b_def FAILURE_FRONTIER_CONTEXT_LINES_def)
    moreover have "project_relative_display_path root ` (ps \<union> entry_paths [e]) = insert ?d (set shown)"
      using inv(4) Some by (simp add: entry_paths_def image_Un)
    ultimately show ?thesis
      using inv(2,3) False by (auto simp: frontier_inv_def intro!: exI [of _ "shown @ [?d]"])
  qed
qed

lemma push_hot_blocks_inv:
  assumes "frontier_inv root ps st" and "length (fst st) < limit"
  shows "case push_hot_blocks limit root source es st of
      Inl blocks \<Rightarrow> (\<exists>qs seen. frontier_inv root (ps \<union> qs) (blocks, seen) \<and> qs \<subseteq> entry_paths es) \<and> length blocks = limit
    | Inr st' \<Rightarrow> frontier_inv root (ps \<union> entry_paths es) st' \<and> length (fst st') < limit"
  using assms
proof (induction es arbitrary: ps st)
  case (Cons e es)
  let ?st = "push_failure_frontier_hot_block root source e st"
  from push_inv [OF Cons.prems(1), of e source] Cons.prems(2)
  have inv: "frontier_inv root (ps \<union> entry_paths [e]) ?st" and len: "length (fst ?st) \<le> limit" by auto
  have es: "entry_paths (e # es) = entry_paths [e] \<union> entry_paths es" by (auto simp: entry_paths_def)
  show ?case
  proof (cases "length (fst ?st) \<ge> limit")
    case True
    with inv len show ?thesis by (cases ?st) (auto simp: es Let_def intro!: exI [of _ "entry_paths [e]"])
  next
    case False
    then have "length (fst ?st) < limit" by simp
    from Cons.IH [OF inv this] False show ?thesis
      unfolding es by (fastforce simp: Let_def Un_assoc split: sum.splits)
  qed
qed (simp add: entry_paths_def)

text \<open>A bounded frontier over some paths: windows of distinct files, none only when there is no path.\<close>

definition bounded_frontier :: "path \<Rightarrow> nat \<Rightarrow> path set \<Rightarrow> hot_block list \<Rightarrow> bool" where
  "bounded_frontier project_root limit ps blocks \<longleftrightarrow> length blocks \<le> limit \<and> (blocks = [] \<longleftrightarrow> limit = 0 \<or> ps = {}) \<and>
     (\<exists>shown. list_all2 window_of shown blocks \<and> distinct shown \<and> set shown \<subseteq> project_relative_display_path project_root ` ps)"

lemma bounded_frontier_full:
  "frontier_inv root qs (blocks, seen) \<Longrightarrow> qs \<subseteq> ps \<Longrightarrow> length blocks = limit \<Longrightarrow> 0 < limit \<Longrightarrow> bounded_frontier root limit ps blocks"
  unfolding frontier_inv_def bounded_frontier_def by fastforce

lemma bounded_frontier_all:
  "frontier_inv root qs (blocks, seen) \<Longrightarrow> qs \<subseteq> ps \<Longrightarrow> length blocks < limit \<Longrightarrow> qs = {} \<longleftrightarrow> ps = {} \<Longrightarrow>
   bounded_frontier root limit ps blocks"
  unfolding frontier_inv_def bounded_frontier_def by (fastforce dest: list_all2_lengthD)

lemma frontier_inv_empty: "frontier_inv root {} ([], [])"
  by (simp add: frontier_inv_def)

lemma frontier_inv_none: "frontier_inv root ps st \<Longrightarrow> fst st = [] \<longleftrightarrow> ps = {}"
  by (auto simp: frontier_inv_def)

text \<open>One more loop: it either returns a full frontier or goes on with a larger one.\<close>

lemma push_hot_blocks_bounded:
  assumes "frontier_inv root ps st" "length (fst st) < limit" "ps \<union> entry_paths es \<subseteq> qs"
  shows "case push_hot_blocks limit root source es st of
      Inl blocks \<Rightarrow> bounded_frontier root limit qs blocks
    | Inr st' \<Rightarrow> frontier_inv root (ps \<union> entry_paths es) st' \<and> length (fst st') < limit"
  using push_hot_blocks_inv [OF assms(1,2), where source = source and es = es] assms(2,3)
  by (fastforce split: sum.splits intro: bounded_frontier_full)

text \<open>
  The failure frontier of a report has at most the requested number of hot blocks and names no file twice;
  each block shows, for a line that is at least one, the window from twelve lines before (but not before the first
  line) to twelve lines after; and there is no block only when none was asked for or when no invariant
  candidate, blocking finding or advisory finding has a path.
\<close>

lemma failure_frontier_bounded:
  "bounded_frontier project_root n
     (entry_paths (map candidate_entry (invariant_candidates r) @ map finding_entry (blocking_findings r None @ advisory_findings r)))
     (failure_frontier_hot_blocks r project_root n)"
proof (cases "n = 0")
  case True
  then show ?thesis by (simp add: failure_frontier_hot_blocks_def bounded_frontier_def)
next
  case False
  let ?cs = "map candidate_entry (invariant_candidates r)" and ?bs = "map finding_entry (blocking_findings r None)"
    and ?as = "map finding_entry (advisory_findings r)"
  have all: "entry_paths (?cs @ map finding_entry (blocking_findings r None @ advisory_findings r)) =
    entry_paths ?cs \<union> entry_paths ?bs \<union> entry_paths ?as" by (auto simp: entry_paths_def)
  let ?ps = "entry_paths ?cs \<union> entry_paths ?bs \<union> entry_paths ?as"
  have "bounded_frontier project_root n ?ps (failure_frontier_hot_blocks r project_root n)"
  proof (cases "push_hot_blocks n project_root ''invariant'' ?cs ([], [])")
    case (Inl blocks)
    with push_hot_blocks_bounded [OF frontier_inv_empty, of n ?cs ?ps project_root "''invariant''"] False show ?thesis
      by (auto simp: failure_frontier_hot_blocks_def)
  next
    case (Inr st)
    with push_hot_blocks_bounded [OF frontier_inv_empty, of n ?cs ?ps project_root "''invariant''"] False
    have st: "frontier_inv project_root (entry_paths ?cs) st" "length (fst st) < n" by auto
    have eval: "failure_frontier_hot_blocks r project_root n = (if fst st \<noteq> [] then fst st
      else case push_hot_blocks n project_root ''finding'' ?bs st of Inl blocks \<Rightarrow> blocks
        | Inr st' \<Rightarrow> (case push_hot_blocks n project_root ''advice'' ?as st' of Inl blocks \<Rightarrow> blocks | Inr st'' \<Rightarrow> fst st''))"
      using False Inr by (simp add: failure_frontier_hot_blocks_def)
    show ?thesis
    proof (cases "fst st = []")
      case True
      have rest: "bounded_frontier project_root n ?ps
          (case push_hot_blocks n project_root ''advice'' ?as st' of Inl blocks \<Rightarrow> blocks | Inr st'' \<Rightarrow> fst st'')"
        if "frontier_inv project_root (entry_paths ?cs \<union> entry_paths ?bs) st'" "length (fst st') < n" for st'
        using push_hot_blocks_bounded [OF that, of ?as ?ps "''advice''"] that(2)
        by (auto split: sum.splits intro: bounded_frontier_all)
      show ?thesis
      proof (cases "push_hot_blocks n project_root ''finding'' ?bs st")
        case (Inr st')
        with push_hot_blocks_bounded [OF st, of ?bs ?ps "''finding''"] rest [of st'] True show ?thesis
          by (simp add: eval le_supI1)
      qed (use push_hot_blocks_bounded [OF st, of ?bs ?ps "''finding''"] True in \<open>auto simp: eval\<close>)
    next
      case False
      with st frontier_inv_none [OF st(1)] show ?thesis by (cases st) (auto simp: eval intro: bounded_frontier_all)
    qed
  qed
  then show ?thesis by (simp only: all)
qed

end
