(* ===== verification/Project_Runner.thy ===== *)
theory Project_Runner
  imports Rule_Engine Report_Rendering
begin

text \<open>
  Running the harness: \<open>src/runner.rs\<close>. A run discovers the files of a package, or of each package of a workspace,
  parses each once, evaluates the rule packs and collects one report. An outer \<open>None\<close> is a panic or a discovery
  that does not return.
\<close>

datatype run_scope = PackageScope | ProjectWorkspaceScope

record package_analysis =
  pa_scope :: asp_rust_scope
  pa_parsed_modules :: "parsed_module list"

record asp_rust_analysis =
  an_project_root :: path
  an_project_resolution :: asp_rust_scope
  an_package_analyses :: "package_analysis list"
  an_member_scoped :: bool
  an_parse_pass_count :: nat

section \<open>Parsing\<close>

abbreviation host_parse_file :: "host \<Rightarrow> path \<Rightarrow> parsed_module" where
  "host_parse_file h \<equiv> parse_rust_file (host_parse h) (host_read_to_string h)"

definition parse_paths :: "host \<Rightarrow> path list \<Rightarrow> asp_rust_config \<Rightarrow> parsed_module list" where
  "parse_paths h paths config =
     map (host_parse_file h) (discover_rust_files (host_fs h) paths (ignored_dir_names config) (include_hidden_dir_names config))"

definition parse_package_paths :: "host \<Rightarrow> path list \<Rightarrow> path \<Rightarrow> asp_rust_config \<Rightarrow> parsed_module list option" where
  "parse_package_paths h paths member_root config =
     map_option (map (host_parse_file h))
       (discover_rust_package_files (host_fs h) (host_load h) paths member_root
         (ignored_dir_names config) (include_hidden_dir_names config))"

section \<open>Analysis\<close>

definition config_scope :: "host \<Rightarrow> path \<Rightarrow> asp_rust_config \<Rightarrow> asp_rust_scope" where
  "config_scope h project_root config =
     asp_rust_scope_of (host_fs h) (host_load h) project_root (include_tests config) (source_dir_names config) (test_dir_names config)"

definition analyze_package :: "host \<Rightarrow> asp_rust_config \<Rightarrow> path \<Rightarrow> package_analysis option" where
  "analyze_package h config member_root =
     (let scope = config_scope h member_root config in
      map_option (\<lambda>ms. \<lparr>pa_scope = scope, pa_parsed_modules = ms\<rparr>)
        (parse_package_paths h (monitored_paths scope) member_root config))"

definition analyze_single_project :: "host \<Rightarrow> path \<Rightarrow> asp_rust_config \<Rightarrow> asp_rust_analysis option" where
  "analyze_single_project h project_root config =
     map_option (\<lambda>a. \<lparr>an_project_root = project_root, an_project_resolution = pa_scope a,
         an_package_analyses = [a], an_member_scoped = False, an_parse_pass_count = 1\<rparr>)
       (analyze_package h config project_root)"

definition analyze_member_scoped_project :: "host \<Rightarrow> path \<Rightarrow> path list \<Rightarrow> asp_rust_config \<Rightarrow> asp_rust_analysis option" where
  "analyze_member_scoped_project h project_root package_roots config =
     map_option (\<lambda>as. \<lparr>an_project_root = project_root, an_project_resolution = config_scope h project_root config,
         an_package_analyses = as, an_member_scoped = True, an_parse_pass_count = length as\<rparr>)
       (those (map (analyze_package h config) package_roots))"

definition should_run_member_scopes :: "path \<Rightarrow> path list \<Rightarrow> bool" where
  "should_run_member_scopes project_root package_roots \<longleftrightarrow> length package_roots > 1 \<or>
     (case package_roots of [] \<Rightarrow> False | root # _ \<Rightarrow> root \<noteq> project_root)"

definition analyze_rust_project_once ::
  "host \<Rightarrow> path \<Rightarrow> asp_rust_config \<Rightarrow> run_scope \<Rightarrow> asp_rust_analysis result option" where
  "analyze_rust_project_once h project_root config scope =
     (if \<not> host_exists h project_root then Some (Err (''project root does not exist: '' @ display project_root))
      else case parse_required_cargo_manifest (host_is_file h) (host_load h) project_root of
        Inl e \<Rightarrow> Some (Err e)
      | Inr facts \<Rightarrow>
          if scope = PackageScope then
            if \<not> has_package facts then
              Some (Err (''Cargo graph anchor is a virtual workspace, not a package: '' @
                display (path_push project_root ''Cargo.toml'')))
            else map_option Ok (analyze_single_project h project_root config)
          else
            (case discover_cargo_package_roots (host_fs h) (host_load h) project_root
                (ignored_dir_names config) (include_hidden_dir_names config) of
               None \<Rightarrow> None
             | Some package_roots \<Rightarrow>
                 if should_run_member_scopes project_root package_roots
                 then map_option Ok (analyze_member_scoped_project h project_root package_roots config)
                 else map_option Ok (analyze_single_project h project_root config)))"

definition analysis_monitored_paths :: "asp_rust_analysis \<Rightarrow> path list" where
  "analysis_monitored_paths a = bset_of_list (concat (map (monitored_paths \<circ> pa_scope) (an_package_analyses a)))"

section \<open>Reports\<close>

text \<open>The parse count is a debug assertion, and the first analysis is indexed: both panic.\<close>

definition to_report :: "host \<Rightarrow> asp_rust_config \<Rightarrow> asp_rust_analysis \<Rightarrow> asp_rust_report option" where
  "to_report h config a =
     (if an_parse_pass_count a \<noteq> length (an_package_analyses a) then None
      else
        let as = an_package_analyses a;
            raised = raise_all
              (map (\<lambda>p. evaluate_default_rule_packs_with_config h (Some (pa_scope p)) (pa_parsed_modules p) config) as @
               [evaluate_workspace_rule_packs_with_config h (an_project_root a) (map pa_scope as) config]);
            reports = concat (map (\<lambda>p. map pm_report (pa_parsed_modules p)) as);
            reports = (if an_member_scoped a then sort_key module_path reports else reports);
            roots = (if an_member_scoped a then Some [an_project_root a]
              else map_option (monitored_paths \<circ> pa_scope) (nth_opt as 0))
        in case raised of
             None \<Rightarrow> None
           | Some fs \<Rightarrow> map_option (\<lambda>rs.
               \<lparr>modules = reports, findings = fs, invariant_candidates = invariant_candidates_from_findings fs,
                root_paths = rs, report_blocking_severities = blocking_severities config,
                report_project_resolution = Some (an_project_resolution a),
                workspace_member_scopes = (if an_member_scoped a then map pa_scope as else [])\<rparr>) roots)"

definition run_asp_rust_with_config_for_scope ::
  "host \<Rightarrow> path \<Rightarrow> asp_rust_config \<Rightarrow> run_scope \<Rightarrow> asp_rust_report result option" where
  "run_asp_rust_with_config_for_scope h project_root config scope =
     (case analyze_rust_project_once h project_root config scope of
        None \<Rightarrow> None
      | Some (Inl e) \<Rightarrow> Some (Err e)
      | Some (Inr a) \<Rightarrow> map_option Ok (to_report h config a))"

definition run_paths :: "host \<Rightarrow> path list \<Rightarrow> asp_rust_config \<Rightarrow> asp_rust_report option" where
  "run_paths h paths config =
     (let ms = parse_paths h paths config in
      map_option (\<lambda>fs. \<lparr>modules = map pm_report ms, findings = fs,
          invariant_candidates = invariant_candidates_from_findings fs, root_paths = paths,
          report_blocking_severities = blocking_severities config, report_project_resolution = None,
          workspace_member_scopes = []\<rparr>)
        (evaluate_default_rule_packs_with_config h None ms config))"

definition run_asp_rust_paths_with_config :: "host \<Rightarrow> path list \<Rightarrow> asp_rust_config \<Rightarrow> asp_rust_report result option" where
  "run_asp_rust_paths_with_config h paths config =
     (case find (\<lambda>p. \<not> host_exists h p) paths of
        Some p \<Rightarrow> Some (Err (''harness path does not exist: '' @ display p))
      | None \<Rightarrow> map_option Ok (run_paths h paths config))"

definition run_asp_rust_paths :: "host \<Rightarrow> path list \<Rightarrow> asp_rust_report result option" where
  "run_asp_rust_paths h paths = run_asp_rust_paths_with_config h paths default_config"

section \<open>The configuration file\<close>

text \<open>The TOML reader gives the two name sets of the discovery table of \<open>asp.toml\<close>.\<close>

type_synonym toml_reader = "string \<Rightarrow> (string list \<times> string list) option"

definition nearest_asp_toml :: "host \<Rightarrow> path \<Rightarrow> path option" where
  "nearest_asp_toml h project_root =
     find (host_is_file h) (map (\<lambda>ancestor. path_push ancestor ''asp.toml'') (path_ancestors project_root))"

definition apply_asp_project_config :: "host \<Rightarrow> toml_reader \<Rightarrow> path \<Rightarrow> asp_rust_config \<Rightarrow> asp_rust_config" where
  "apply_asp_project_config h toml project_root config =
     (case nearest_asp_toml h project_root of
        None \<Rightarrow> config
      | Some config_path \<Rightarrow> (case host_read_to_string h config_path of
          Inl e \<Rightarrow> config
        | Inr contents \<Rightarrow> (case toml contents of
            None \<Rightarrow> config
          | Some (ignored, hidden) \<Rightarrow> config\<lparr>ignored_dir_names := bset_extend (ignored_dir_names config) ignored,
              include_hidden_dir_names := bset_extend (include_hidden_dir_names config) hidden\<rparr>)))"

definition asp_rust_config_for_project :: "host \<Rightarrow> toml_reader \<Rightarrow> path \<Rightarrow> asp_rust_config" where
  "asp_rust_config_for_project h toml project_root = apply_asp_project_config h toml project_root default_config"

definition run_asp_rust_for_scope :: "host \<Rightarrow> toml_reader \<Rightarrow> path \<Rightarrow> run_scope \<Rightarrow> asp_rust_report result option" where
  "run_asp_rust_for_scope h toml project_root scope =
     run_asp_rust_with_config_for_scope h project_root (asp_rust_config_for_project h toml project_root) scope"

section \<open>Assertions\<close>

text \<open>An assertion returns the report it accepts, or panics.\<close>

definition assert_clean :: "asp_rust_report \<Rightarrow> asp_rust_report option" where
  "assert_clean r = (if is_clean r then Some r else None)"

definition assert_no_advisory_findings :: "asp_rust_report \<Rightarrow> asp_rust_report option" where
  "assert_no_advisory_findings r = (if render_asp_rust_advice r = [] then Some r else None)"

definition unwrap_report :: "asp_rust_report result option \<Rightarrow> asp_rust_report option" where
  "unwrap_report x = (case x of Some (Inr r) \<Rightarrow> Some r | _ \<Rightarrow> None)"

definition assert_asp_rust_clean_with_config :: "host \<Rightarrow> path \<Rightarrow> asp_rust_config \<Rightarrow> asp_rust_report option" where
  "assert_asp_rust_clean_with_config h project_root config =
     Option.bind (unwrap_report (run_asp_rust_with_config_for_scope h project_root config PackageScope)) assert_clean"

definition assert_asp_rust_clean :: "host \<Rightarrow> toml_reader \<Rightarrow> path \<Rightarrow> asp_rust_report option" where
  "assert_asp_rust_clean h toml project_root =
     Option.bind (unwrap_report (run_asp_rust_for_scope h toml project_root PackageScope)) assert_clean"

definition assert_asp_rust_cargo_test_clean_with_config :: "host \<Rightarrow> path \<Rightarrow> asp_rust_config \<Rightarrow> asp_rust_report option" where
  "assert_asp_rust_cargo_test_clean_with_config h project_root config =
     Option.bind (Option.bind (unwrap_report (run_asp_rust_with_config_for_scope h project_root config PackageScope)) assert_clean)
       assert_no_advisory_findings"

definition assert_asp_rust_cargo_test_clean :: "host \<Rightarrow> toml_reader \<Rightarrow> path \<Rightarrow> asp_rust_report option" where
  "assert_asp_rust_cargo_test_clean h toml project_root =
     Option.bind (Option.bind (unwrap_report (run_asp_rust_for_scope h toml project_root PackageScope)) assert_clean)
       assert_no_advisory_findings"

definition assert_asp_rust_workspace_clean_with_config :: "host \<Rightarrow> path \<Rightarrow> asp_rust_config \<Rightarrow> asp_rust_report option" where
  "assert_asp_rust_workspace_clean_with_config h workspace_root config =
     Option.bind (unwrap_report (run_asp_rust_with_config_for_scope h workspace_root config ProjectWorkspaceScope)) assert_clean"

definition assert_asp_rust_paths_clean :: "host \<Rightarrow> path list \<Rightarrow> asp_rust_report option" where
  "assert_asp_rust_paths_clean h paths = Option.bind (unwrap_report (run_asp_rust_paths h paths)) assert_clean"

section \<open>Runs return\<close>

text \<open>The packages a run analyses, and the files it finds for one of them.\<close>

definition run_roots :: "host \<Rightarrow> path \<Rightarrow> asp_rust_config \<Rightarrow> run_scope \<Rightarrow> path list" where
  "run_roots h project_root config scope =
     (let roots = the (discover_cargo_package_roots (host_fs h) (host_load h) project_root
        (ignored_dir_names config) (include_hidden_dir_names config))
      in if scope = ProjectWorkspaceScope \<and> should_run_member_scopes project_root roots then roots else [project_root])"

definition package_files :: "host \<Rightarrow> asp_rust_config \<Rightarrow> path \<Rightarrow> path list" where
  "package_files h config member_root =
     the (discover_rust_package_files (host_fs h) (host_load h) (monitored_paths (config_scope h member_root config)) member_root
       (ignored_dir_names config) (include_hidden_dir_names config))"

abbreviation finite_manifests :: "host \<Rightarrow> bool" where
  "finite_manifests h \<equiv> finite {p. host_is_file h (path_push p ''Cargo.toml'')}"

lemma parsed_file_path [simp]: "pm_path (parse_rust_file parse read p) = p"
  by (auto simp: parse_rust_file_def parse_rust_source_def split: sum.splits prod.splits)

lemma discover_rust_package_files_returns:
  assumes "finite {p. fs_is_file fs (path_push p ''Cargo.toml'')}"
  shows "discover_rust_package_files fs load paths root ignored hidden \<noteq> None"
  using discover_cargo_package_roots_returns [OF assms, of load "normalize_lexical_path root" ignored hidden]
  by (simp add: discover_rust_package_files_def cargo_package_exclusion_roots_def Let_def)

lemma analyze_package_returns:
  assumes "finite_manifests h"
  shows "analyze_package h config root = Some \<lparr>pa_scope = config_scope h root config,
    pa_parsed_modules = map (host_parse_file h) (package_files h config root)\<rparr>"
  using discover_rust_package_files_returns [OF assms, of "host_load h" "monitored_paths (config_scope h root config)"
      root "ignored_dir_names config" "include_hidden_dir_names config"]
  by (auto simp: analyze_package_def parse_package_paths_def package_files_def Let_def)

lemma analyze_members_return:
  "finite_manifests h \<Longrightarrow> those (map (analyze_package h config) roots) =
     Some (map (\<lambda>root. \<lparr>pa_scope = config_scope h root config,
       pa_parsed_modules = map (host_parse_file h) (package_files h config root)\<rparr>) roots)"
  by (induction roots) (simp_all add: analyze_package_returns)

text \<open>An analysis as the two analysers build it.\<close>

definition analysis_of :: "host \<Rightarrow> asp_rust_config \<Rightarrow> path list \<Rightarrow> asp_rust_analysis \<Rightarrow> bool" where
  "analysis_of h config roots a \<longleftrightarrow> an_parse_pass_count a = length (an_package_analyses a) \<and>
     (an_member_scoped a \<or> an_package_analyses a \<noteq> []) \<and>
     map (map pm_path \<circ> pa_parsed_modules) (an_package_analyses a) = map (package_files h config) roots"

lemma analyze_returns:
  assumes "finite_manifests h"
  shows "\<exists>a. analyze_single_project h root config = Some a \<and> analysis_of h config [root] a"
    "\<exists>a. analyze_member_scoped_project h root roots config = Some a \<and> analysis_of h config roots a"
  by (auto simp: analyze_single_project_def analyze_member_scoped_project_def analyze_package_returns [OF assms]
      analyze_members_return [OF assms] analysis_of_def comp_def)

lemma analyze_rust_project_once_returns:
  assumes "finite_manifests h"
  shows "\<exists>res. analyze_rust_project_once h root config scope = Some res \<and>
    (isl res \<longleftrightarrow> \<not> host_exists h root \<or> isl (host_load h (path_push root ''Cargo.toml'')) \<or>
      (scope = PackageScope \<and> \<not> has_package (parse_cargo_manifest (host_is_file h) (host_load h) root))) \<and>
    (\<forall>a. res = Inr a \<longrightarrow> analysis_of h config (run_roots h root config scope) a)"
proof -
  obtain roots where roots: "discover_cargo_package_roots (host_fs h) (host_load h) root
      (ignored_dir_names config) (include_hidden_dir_names config) = Some roots"
    using discover_cargo_package_roots_returns [OF assms] by blast
  obtain a b where single: "analyze_single_project h root config = Some a" "analysis_of h config [root] a"
    and members: "analyze_member_scoped_project h root roots config = Some b" "analysis_of h config roots b"
    using analyze_returns [OF assms] by blast
  show ?thesis
    by (cases scope)
      (auto simp: analyze_rust_project_once_def parse_required_cargo_manifest_def parse_cargo_manifest_def
        read_manifest_def run_roots_def roots single members Let_def split: sum.splits)
qed

lemma raise_all_configured:
  "(\<And>x. x \<in> set xs \<Longrightarrow> \<exists>fs. x = Some fs \<and> list_all P fs) \<Longrightarrow> \<exists>fs. raise_all xs = Some fs \<and> list_all P fs"
  by (induction xs) (fastforce simp: raise_all_Cons)+

lemma to_report_returns:
  assumes "analysis_of h config roots a"
  shows "\<exists>r. to_report h config a = Some r \<and> list_all (configured_of config) (findings r) \<and>
    report_blocking_severities r = blocking_severities config \<and>
    set (map module_path (modules r)) = (\<Union>root \<in> set roots. set (package_files h config root))"
proof -
  let ?as = "an_package_analyses a"
  have "\<exists>fs. raise_all (map (\<lambda>p. evaluate_default_rule_packs_with_config h (Some (pa_scope p)) (pa_parsed_modules p) config) ?as @
      [evaluate_workspace_rule_packs_with_config h (an_project_root a) (map pa_scope ?as) config]) = Some fs \<and>
      list_all (configured_of config) fs"
    by (rule raise_all_configured) (use default_rule_packs_ok workspace_rule_packs_ok in auto)
  moreover have "(\<Union>ps \<in> set (map (map pm_path \<circ> pa_parsed_modules) ?as). set ps) =
      (\<Union>ps \<in> set (map (package_files h config) roots). set ps)"
    using assms by (simp only: analysis_of_def)
  then have "(\<Union>p \<in> set ?as. pm_path ` set (pa_parsed_modules p)) = (\<Union>root \<in> set roots. set (package_files h config root))"
    by simp
  ultimately show ?thesis
    using assms unfolding analysis_of_def by (auto simp del: map_eq_conv simp: to_report_def nth_opt_def Let_def image_image image_UN)
qed

text \<open>
  C1: on a file system with finitely many manifests a run always returns, and neither panics nor loops: it is an
  error exactly when the project root is missing, its manifest does not load, or a package run is anchored at
  a virtual workspace; otherwise every finding of its report is of an enabled catalog rule with its
  configured severity, and the modules of the report are exactly the files found for the anchored package,
  or for every discovered package when the workspace has other packages than the anchor.
\<close>

theorem run_project_returns:
  assumes "finite_manifests h"
  shows "\<exists>res. run_asp_rust_with_config_for_scope h root config scope = Some res \<and>
    (isl res \<longleftrightarrow> \<not> host_exists h root \<or> isl (host_load h (path_push root ''Cargo.toml'')) \<or>
      (scope = PackageScope \<and> \<not> has_package (parse_cargo_manifest (host_is_file h) (host_load h) root))) \<and>
    (case res of Inl e \<Rightarrow> True | Inr r \<Rightarrow> list_all (configured_of config) (findings r) \<and>
      set (map module_path (modules r)) =
        (\<Union>p \<in> set (run_roots h root config scope). set (package_files h config p)))"
proof -
  obtain res where res: "analyze_rust_project_once h root config scope = Some res"
    and err: "isl res \<longleftrightarrow> \<not> host_exists h root \<or> isl (host_load h (path_push root ''Cargo.toml'')) \<or>
      (scope = PackageScope \<and> \<not> has_package (parse_cargo_manifest (host_is_file h) (host_load h) root))"
    and ok: "\<And>a. res = Inr a \<Longrightarrow> analysis_of h config (run_roots h root config scope) a"
    using analyze_rust_project_once_returns [OF assms, of root config scope] by blast
  show ?thesis
  proof (cases res)
    case (Inl e)
    with res err show ?thesis by (simp add: run_asp_rust_with_config_for_scope_def)
  next
    case (Inr a)
    with res err to_report_returns [OF ok [OF Inr]] show ?thesis
      by (auto simp: run_asp_rust_with_config_for_scope_def)
  qed
qed

definition sample_host :: host where
  "sample_host = \<lparr>host_fs = sample_fs, host_load = sample_load, host_canonicalize = Some,
     host_read_to_string = (\<lambda>_. Ok []), host_parse = (\<lambda>_ _. Inr native_syntax_facts_default)\<rparr>"

theorem run_project_returns_witness:
  "\<exists>r. run_asp_rust_with_config_for_scope sample_host sample_root default_config PackageScope = Some (Inr r) \<and>
     list_all (configured_of default_config) (findings r)"
proof -
  have fin: "finite_manifests sample_host"
    unfolding sample_host_def host.select_convs sample_fs_def by (rule finite_manifest_dirs) (rule finite_dom_map_of)
  have "host_exists sample_host sample_root" "\<not> isl (host_load sample_host (path_push sample_root ''Cargo.toml''))"
    "has_package (parse_cargo_manifest (host_is_file sample_host) (host_load sample_host) sample_root)"
    by code_simp+
  with run_project_returns [OF fin, of sample_root default_config PackageScope] obtain res where
    res: "run_asp_rust_with_config_for_scope sample_host sample_root default_config PackageScope = Some res" "\<not> isl res"
      "case res of Inl e \<Rightarrow> True | Inr r \<Rightarrow> list_all (configured_of default_config) (findings r) \<and>
        set (map module_path (modules r)) = (\<Union>p \<in> set (run_roots sample_host sample_root default_config PackageScope).
          set (package_files sample_host default_config p))" by blast
  then show ?thesis by (cases res) auto
qed

section \<open>What an assertion accepts\<close>

lemma render_finding_nonempty [simp]: "render_finding f \<noteq> []"
  by (simp add: render_finding_def Let_def)

lemma render_finding_list_empty [simp]: "render_finding_list fs = [] \<longleftrightarrow> fs = []"
  by (cases fs; cases "tl fs") (auto simp: render_finding_list_def)

lemma run_report_blocking:
  "run_asp_rust_with_config_for_scope h root config scope = Some (Inr r) \<Longrightarrow> report_blocking_severities r = blocking_severities config"
  by (auto simp: run_asp_rust_with_config_for_scope_def to_report_def Let_def split: option.splits sum.splits if_splits)

lemma unwrap_report_eq: "unwrap_report x = Some r \<longleftrightarrow> x = Some (Inr r)"
  by (auto simp: unwrap_report_def split: option.splits sum.splits)

lemma bind_assertions:
  "Option.bind x assert_clean = Some r \<longleftrightarrow> x = Some r \<and> is_clean r"
  "Option.bind x assert_no_advisory_findings = Some r \<longleftrightarrow> x = Some r \<and> blocking_findings r (Some [SeverityInfo]) = []"
  by (cases x; auto simp: assert_clean_def assert_no_advisory_findings_def render_asp_rust_advice_def)+

text \<open>
  C3: the cargo-test assertion accepts a report exactly when the package run returns it and none of its findings
  has a severity that the configuration blocks on or is advice.
\<close>

theorem cargo_test_clean_accepts:
  "assert_asp_rust_cargo_test_clean_with_config h root config = Some r \<longleftrightarrow>
   run_asp_rust_with_config_for_scope h root config PackageScope = Some (Inr r) \<and>
   list_all (\<lambda>f. severity f \<notin> set (blocking_severities config) \<and> severity f \<noteq> SeverityInfo) (findings r)"
  unfolding assert_asp_rust_cargo_test_clean_with_config_def bind_assertions unwrap_report_eq
  by (auto simp: is_clean_def blocking_findings_def filter_empty_conv list_all_iff dest: run_report_blocking)


section \<open>The test layout of a package\<close>

lemma config_scope_root [simp]: "scope_project_root (config_scope h root config) = root"
  by (simp add: config_scope_def asp_rust_scope_of_def Let_def)

lemma package_analysis_layout:
  assumes "analyze_rust_project_once h root config PackageScope = Some (Inr a)" "to_report h config a = Some r"
  shows "map reported_at (layout_findings (findings r)) =
    map (map_prod id Some) (filter (\<lambda>v. fst v \<notin> set (disabled_rules config)) (layout_violations h root))"
proof -
  from assms(1) obtain p where p: "an_package_analyses a = [p]" "pa_scope p = config_scope h root config"
    by (auto simp: analyze_rust_project_once_def analyze_single_project_def analyze_package_def Let_def split: if_splits sum.splits)
  obtain fs where fs: "evaluate_default_rule_packs_with_config h (Some (pa_scope p)) (pa_parsed_modules p) config = Some fs"
    "map reported_at (layout_findings fs) =
      map (map_prod id Some) (filter (\<lambda>v. fst v \<notin> set (disabled_rules config)) (layout_violations h root))"
    using default_rule_packs_layout [of h "pa_scope p" "pa_parsed_modules p" config] by (auto simp: p(2))
  from assms(2) fs(1) obtain gs where "findings r = fs @ gs"
    "evaluate_workspace_rule_packs_with_config h (an_project_root a) [pa_scope p] config = Some gs"
    by (auto simp: to_report_def p(1) raise_all_Cons Let_def split: if_splits option.splits)
  with fs(2) workspace_rule_packs_layout show ?thesis by simp
qed

text \<open>
  In the report of a package run the findings of the two test layout rules are, in the order of the directory
  listing, exactly the entries of \<open>tests/\<close> that break one of these rules while it is enabled: a directory with no standard
  suite name, or a Rust file at the root of \<open>tests/\<close> without a harness role. No other part of any pack raises these ids.
\<close>

lemma package_run_layout_exact:
  "case run_asp_rust_with_config_for_scope h root config PackageScope of
     Some (Inr r) \<Rightarrow> map reported_at (filter (\<lambda>f. finding_rule_id f \<in> layout_ids) (findings r)) =
       map (map_prod id Some) (filter (\<lambda>v. fst v \<notin> set (disabled_rules config)) (layout_violations h root))
   | _ \<Rightarrow> True"
  using package_analysis_layout [of h root config]
  by (auto simp: run_asp_rust_with_config_for_scope_def split: option.split sum.split)

end
