(* ===== verification/Verification_Analysis.thy ===== *)
theory Verification_Analysis
  imports Project_Runner Plan_Resolution
begin

text \<open>
  From a harness run to a verification plan: \<open>src/verification/analysis.rs\<close> and the entry points of
  \<open>src/verification/planner.rs\<close>. The reasoning trees that the planner takes are those of the analysed packages.

  The measured durations are arguments: \<open>clock\<close> gives the microseconds spent on a package, and \<open>total_micros\<close> those of
  the whole pass.
\<close>

datatype cargo_dependency_analysis = SkipDependencies | ParseDependencies

record package_analysis_profile =
  pp_package_root :: path
  pp_elapsed_micros :: nat
  pp_rust_file_count :: nat
  pp_source_module_count :: nat
  pp_owner_branch_count :: nat
  pp_cargo_dependency_count :: nat

record analysis_profile =
  ap_project_root :: path
  ap_elapsed_micros :: nat
  ap_package_count :: nat
  ap_rust_file_count :: nat
  ap_source_module_count :: nat
  ap_owner_branch_count :: nat
  ap_cargo_dependency_count :: nat
  ap_packages :: "package_analysis_profile list"

record verification_package_analysis =
  va_reasoning_tree :: reasoning_tree
  va_cargo_dependencies :: "cargo_dependency_facts list"
  va_profile :: package_analysis_profile

record verification_project_analysis =
  vp_package_analyses :: "verification_package_analysis list"
  vp_profile :: analysis_profile

record analysis_totals =
  at_rust_file_count :: nat
  at_source_module_count :: nat
  at_owner_branch_count :: nat
  at_cargo_dependency_count :: nat

text \<open>\<open>u64::try_from(micros).unwrap_or(u64::MAX)\<close>.\<close>

definition elapsed_micros :: "nat \<Rightarrow> nat" where
  "elapsed_micros micros = (if micros < 2 ^ 64 then micros else 2 ^ 64 - 1)"

definition package_profile_from_analysis ::
  "path \<Rightarrow> parsed_module list \<Rightarrow> reasoning_tree \<Rightarrow> cargo_dependency_facts list \<Rightarrow> nat \<Rightarrow> package_analysis_profile" where
  "package_profile_from_analysis root ms t dependencies elapsed =
     \<lparr>pp_package_root = root, pp_elapsed_micros = elapsed, pp_rust_file_count = length ms,
      pp_source_module_count = length (filter mod_is_source (tree_modules t)),
      pp_owner_branch_count = length (tree_owner_branches t), pp_cargo_dependency_count = length dependencies\<rparr>"

definition record_package :: "package_analysis_profile \<Rightarrow> analysis_totals \<Rightarrow> analysis_totals" where
  "record_package p totals =
     \<lparr>at_rust_file_count = at_rust_file_count totals + pp_rust_file_count p,
      at_source_module_count = at_source_module_count totals + pp_source_module_count p,
      at_owner_branch_count = at_owner_branch_count totals + pp_owner_branch_count p,
      at_cargo_dependency_count = at_cargo_dependency_count totals + pp_cargo_dependency_count p\<rparr>"

definition profile_from_package_profiles :: "path \<Rightarrow> package_analysis_profile list \<Rightarrow> nat \<Rightarrow> analysis_profile" where
  "profile_from_package_profiles root ps elapsed =
     (let totals = fold record_package ps \<lparr>at_rust_file_count = 0, at_source_module_count = 0,
          at_owner_branch_count = 0, at_cargo_dependency_count = 0\<rparr>
      in \<lparr>ap_project_root = root, ap_elapsed_micros = elapsed, ap_package_count = length ps,
          ap_rust_file_count = at_rust_file_count totals, ap_source_module_count = at_source_module_count totals,
          ap_owner_branch_count = at_owner_branch_count totals,
          ap_cargo_dependency_count = at_cargo_dependency_count totals, ap_packages = ps\<rparr>)"

definition package_analysis_from_parsed ::
  "host \<Rightarrow> (path \<Rightarrow> nat) \<Rightarrow> asp_rust_scope \<Rightarrow> parsed_module list \<Rightarrow> cargo_dependency_facts list \<Rightarrow> verification_package_analysis" where
  "package_analysis_from_parsed h clock scope ms dependencies =
     (let t = rust_reasoning_tree_facts (host_is_file h) (host_load h) scope ms in
      \<lparr>va_reasoning_tree = t, va_cargo_dependencies = dependencies,
       va_profile = package_profile_from_analysis (tree_package_root t) ms t dependencies
         (elapsed_micros (clock (tree_package_root t)))\<rparr>)"

definition analyze_rust_verification_from_harness_analysis ::
  "host \<Rightarrow> (path \<Rightarrow> nat) \<Rightarrow> nat \<Rightarrow> asp_rust_analysis \<Rightarrow> cargo_dependency_analysis \<Rightarrow> verification_project_analysis" where
  "analyze_rust_verification_from_harness_analysis h clock total_micros a mode =
     (let as = map (\<lambda>p. package_analysis_from_parsed h clock (pa_scope p) (pa_parsed_modules p)
            (case mode of SkipDependencies \<Rightarrow> []
             | ParseDependencies \<Rightarrow> parse_cargo_dependency_facts (host_load h) (scope_project_root (pa_scope p))))
          (an_package_analyses a)
      in \<lparr>vp_package_analyses = as,
          vp_profile = profile_from_package_profiles (an_project_root a) (map va_profile as) (elapsed_micros total_micros)\<rparr>)"

definition analyze_rust_verification_project ::
  "host \<Rightarrow> (path \<Rightarrow> nat) \<Rightarrow> nat \<Rightarrow> path \<Rightarrow> asp_rust_config \<Rightarrow> cargo_dependency_analysis \<Rightarrow> verification_project_analysis result option" where
  "analyze_rust_verification_project h clock total_micros root config mode =
     map_option (map_ok (\<lambda>a. analyze_rust_verification_from_harness_analysis h clock total_micros a mode))
       (analyze_rust_project_once h root config ProjectWorkspaceScope)"

definition build_rust_verification_analysis_profile_with_config ::
  "host \<Rightarrow> (path \<Rightarrow> nat) \<Rightarrow> nat \<Rightarrow> path \<Rightarrow> asp_rust_config \<Rightarrow> analysis_profile result option" where
  "build_rust_verification_analysis_profile_with_config h clock total_micros root config =
     map_option (map_ok vp_profile) (analyze_rust_verification_project h clock total_micros root config ParseDependencies)"

definition compact_package_root :: "path \<Rightarrow> path \<Rightarrow> string" where
  "compact_package_root project_root member_root =
     (case strip_prefix member_root project_root of
        Some relative \<Rightarrow> if relative = [] then ''.'' else display_path relative
      | None \<Rightarrow> display_path member_root)"

definition counts_text :: "nat \<Rightarrow> nat \<Rightarrow> nat \<Rightarrow> nat \<Rightarrow> nat \<Rightarrow> string" where
  "counts_text files sources branches dependencies elapsed =
     '' rust_files='' @ show_nat files @ '' source_modules='' @ show_nat sources @ '' owner_branches='' @ show_nat branches @
     '' cargo_dependencies='' @ show_nat dependencies @ '' elapsed_us='' @ show_nat elapsed @ [CHR 0x0A]"

definition render_rust_verification_analysis_profile :: "analysis_profile \<Rightarrow> string" where
  "render_rust_verification_analysis_profile p =
     ''[verify-analysis] packages='' @ show_nat (ap_package_count p) @
     counts_text (ap_rust_file_count p) (ap_source_module_count p) (ap_owner_branch_count p)
       (ap_cargo_dependency_count p) (ap_elapsed_micros p) @
     concat (map (\<lambda>q. ''   |package: '' @ compact_package_root (ap_project_root p) (pp_package_root q) @
       counts_text (pp_rust_file_count q) (pp_source_module_count q) (pp_owner_branch_count q)
         (pp_cargo_dependency_count q) (pp_elapsed_micros q)) (ap_packages p))"

section \<open>Plans of a project\<close>

definition plan_rust_verification_from_harness_analysis :: "host \<Rightarrow> asp_rust_analysis \<Rightarrow> policy \<Rightarrow> plan" where
  "plan_rust_verification_from_harness_analysis h a p =
     plan_rust_verification_from_analysis (an_project_root a) p
       (map va_reasoning_tree (vp_package_analyses
         (analyze_rust_verification_from_harness_analysis h (\<lambda>_. 0) 0 a SkipDependencies)))"

definition plan_rust_project_verification_with_policy ::
  "host \<Rightarrow> path \<Rightarrow> asp_rust_config \<Rightarrow> policy \<Rightarrow> plan result option" where
  "plan_rust_project_verification_with_policy h root config p =
     map_option (map_ok (\<lambda>a. plan_rust_verification_from_analysis root p (map va_reasoning_tree (vp_package_analyses a))))
       (analyze_rust_verification_project h (\<lambda>_. 0) 0 root config SkipDependencies)"

definition plan_rust_project_verification_with_config :: "host \<Rightarrow> path \<Rightarrow> asp_rust_config \<Rightarrow> plan result option" where
  "plan_rust_project_verification_with_config h root config =
     plan_rust_project_verification_with_policy h root config (verification_policy config)"

definition plan_rust_project_verification :: "host \<Rightarrow> path \<Rightarrow> plan result option" where
  "plan_rust_project_verification h root = plan_rust_project_verification_with_config h root default_config"

section \<open>Totals\<close>

lemma fold_record_package:
  "fold record_package ps totals =
     \<lparr>at_rust_file_count = at_rust_file_count totals + sum_list (map pp_rust_file_count ps),
      at_source_module_count = at_source_module_count totals + sum_list (map pp_source_module_count ps),
      at_owner_branch_count = at_owner_branch_count totals + sum_list (map pp_owner_branch_count ps),
      at_cargo_dependency_count = at_cargo_dependency_count totals + sum_list (map pp_cargo_dependency_count ps)\<rparr>"
  by (induction ps arbitrary: totals) (simp_all add: record_package_def add.assoc)

text \<open>The totals of a profile are the sums over its packages, and a duration fits 64 bits.\<close>

lemma analysis_profile_totals:
  fixes a h clock total_micros mode
  defines "p \<equiv> vp_profile (analyze_rust_verification_from_harness_analysis h clock total_micros a mode)"
  shows "ap_package_count p = length (an_package_analyses a)"
    "ap_rust_file_count p = sum_list (map (length \<circ> pa_parsed_modules) (an_package_analyses a))"
    "ap_elapsed_micros p < 2 ^ 64"
  by (simp_all add: p_def analyze_rust_verification_from_harness_analysis_def profile_from_package_profiles_def
      fold_record_package package_analysis_from_parsed_def package_profile_from_analysis_def elapsed_micros_def
      Let_def comp_def)

text \<open>The planner reads the trees only, so the durations do not matter.\<close>

lemma plan_ignores_clock:
  "map va_reasoning_tree (vp_package_analyses (analyze_rust_verification_from_harness_analysis h clock total_micros a mode)) =
   map (\<lambda>p. rust_reasoning_tree_facts (host_is_file h) (host_load h) (pa_scope p) (pa_parsed_modules p)) (an_package_analyses a)"
  by (simp add: analyze_rust_verification_from_harness_analysis_def package_analysis_from_parsed_def Let_def comp_def)

lemma plan_project_returns:
  assumes "finite_manifests h"
  shows "\<exists>res. plan_rust_project_verification_with_policy h root config p = Some res \<and>
    (isl res \<longleftrightarrow> \<not> host_exists h root \<or> isl (host_load h (path_push root ''Cargo.toml'')))"
proof -
  obtain res where res: "analyze_rust_project_once h root config ProjectWorkspaceScope = Some res"
    "isl res \<longleftrightarrow> \<not> host_exists h root \<or> isl (host_load h (path_push root ''Cargo.toml''))"
    using analyze_rust_project_once_returns [OF assms, of root config ProjectWorkspaceScope] by auto
  then show ?thesis
    by (cases res) (simp_all add: plan_rust_project_verification_with_policy_def analyze_rust_verification_project_def)
qed

end
