(* ===== verification/Dev_Gate_Policy.thy ===== *)
theory Dev_Gate_Policy
  imports Verification_Analysis
begin

text \<open>
  The policies a development gate enforces: \<open>policy.rs\<close>, \<open>dependency_baseline.rs\<close>, \<open>receipt.rs\<close>, \<open>verification_gate.rs\<close> and
  \<open>rerun.rs\<close> of \<open>src/dev_gate/\<close>. A gate that panics with a message is a predicate that fails; the parsed lock file is
  a parameter, and so is the \<open>dependency-baseline\<close> feature of the build.
\<close>

section \<open>The dependency baseline\<close>

record dependency_baseline_package =
  bp_name :: string
  bp_version :: string
  bp_source_contains :: string

record dependency_baseline =
  baseline_packages :: "dependency_baseline_package list"

definition baseline_new :: dependency_baseline where
  "baseline_new = \<lparr>baseline_packages = []\<rparr>"

definition require_git_package :: "string \<Rightarrow> string \<Rightarrow> string \<Rightarrow> dependency_baseline \<Rightarrow> dependency_baseline" where
  "require_git_package name version source_contains b =
     \<lparr>baseline_packages = baseline_packages b @
       [\<lparr>bp_name = name, bp_version = version, bp_source_contains = source_contains\<rparr>]\<rparr>"

record lock_package =
  lp_name :: string
  lp_version :: string
  lp_source :: "string option"

type_synonym lock_loader = "path \<Rightarrow> lock_package list result"

definition find_cargo_lock :: "host \<Rightarrow> path \<Rightarrow> path option" where
  "find_cargo_lock h project_root =
     find (host_exists h) (map (\<lambda>root. path_push root ''Cargo.lock'') (path_ancestors project_root))"

definition assert_dependency_baseline_package :: "lock_package list \<Rightarrow> dependency_baseline_package \<Rightarrow> bool" where
  "assert_dependency_baseline_package lock required =
     (case filter (\<lambda>p. lp_name p = bp_name required) lock of
        [p] \<Rightarrow> lp_version p = bp_version required \<and>
          contains_sub (case lp_source p of Some s \<Rightarrow> s | None \<Rightarrow> ''<none>'') (bp_source_contains required)
      | _ \<Rightarrow> False)"

definition assert_dependency_baseline_enabled :: "host \<Rightarrow> lock_loader \<Rightarrow> path \<Rightarrow> dependency_baseline \<Rightarrow> bool" where
  "assert_dependency_baseline_enabled h load_lock project_root b =
     (if baseline_packages b = [] then True
      else case find_cargo_lock h project_root of
        None \<Rightarrow> False
      | Some lock_path \<Rightarrow> (case load_lock lock_path of
          Inl e \<Rightarrow> False
        | Inr lock \<Rightarrow> list_all (assert_dependency_baseline_package lock) (baseline_packages b)))"

definition assert_asp_rust_dependency_baseline ::
  "bool \<Rightarrow> host \<Rightarrow> lock_loader \<Rightarrow> path \<Rightarrow> dependency_baseline \<Rightarrow> bool" where
  "assert_asp_rust_dependency_baseline feature h load_lock project_root b =
     (if feature then assert_dependency_baseline_enabled h load_lock project_root b else baseline_packages b = [])"

section \<open>Policies\<close>

record dev_gate_authority =
  authority_cache_root :: path
  authority_policy_digest :: string

definition authority_new :: "path \<Rightarrow> string \<Rightarrow> dev_gate_authority result" where
  "authority_new cache_root policy_digest =
     (if cache_root = [] then Err ''dev-gate cache root must not be empty''
      else if \<not> starts_with policy_digest ''blake3-256:'' \<or> length policy_digest \<le> length ''blake3-256:''
      then Err ''dev-gate policy digest must use blake3-256 identity''
      else Ok \<lparr>authority_cache_root = cache_root, authority_policy_digest = policy_digest\<rparr>)"

record downstream_policy =
  gate_label :: string
  downstream_config :: asp_rust_config
  downstream_baseline :: "dependency_baseline option"

definition downstream_policy_new :: "string \<Rightarrow> asp_rust_config \<Rightarrow> downstream_policy" where
  "downstream_policy_new label config = \<lparr>gate_label = label, downstream_config = config, downstream_baseline = None\<rparr>"

definition downstream_with_dependency_baseline :: "dependency_baseline \<Rightarrow> downstream_policy \<Rightarrow> downstream_policy" where
  "downstream_with_dependency_baseline b p = p\<lparr>downstream_baseline := Some b\<rparr>"

record workspace_policy =
  workspace_label :: string
  workspace_config :: asp_rust_config
  workspace_baseline :: "dependency_baseline option"

definition workspace_policy_new :: "string \<Rightarrow> asp_rust_config \<Rightarrow> workspace_policy" where
  "workspace_policy_new label config = \<lparr>workspace_label = label, workspace_config = config, workspace_baseline = None\<rparr>"

definition workspace_with_dependency_baseline :: "dependency_baseline \<Rightarrow> workspace_policy \<Rightarrow> workspace_policy" where
  "workspace_with_dependency_baseline b p = p\<lparr>workspace_baseline := Some b\<rparr>"

definition member_gate_label :: "workspace_policy \<Rightarrow> string \<Rightarrow> string" where
  "member_gate_label p crate_label = workspace_label p @ ''::'' @ crate_label"

definition attach_dependency_baseline :: "workspace_policy \<Rightarrow> downstream_policy \<Rightarrow> downstream_policy" where
  "attach_dependency_baseline p q =
     (case workspace_baseline p of Some b \<Rightarrow> downstream_with_dependency_baseline b q | None \<Rightarrow> q)"

definition member_crate_with_config ::
  "workspace_policy \<Rightarrow> string \<Rightarrow> (asp_rust_config \<Rightarrow> asp_rust_config) \<Rightarrow> downstream_policy" where
  "member_crate_with_config p crate_label configure =
     attach_dependency_baseline p (downstream_policy_new (member_gate_label p crate_label) (configure (workspace_config p)))"

definition member_crate :: "workspace_policy \<Rightarrow> string \<Rightarrow> downstream_policy" where
  "member_crate p crate_label =
     attach_dependency_baseline p (downstream_policy_new (member_gate_label p crate_label) (workspace_config p))"

section \<open>Verification coverage\<close>

definition configured_verification_task_kind :: "policy \<Rightarrow> task_kind \<Rightarrow> bool" where
  "configured_verification_task_kind p k \<longleftrightarrow> k \<notin> set (disabled_task_kinds p) \<and>
     (k \<in> set (bmap_keys (skill_bindings p)) \<or> k \<in> set (bmap_keys (task_contract_overrides p)) \<or>
      list_ex (\<lambda>ks. k \<in> set ks) (bmap_values (responsibility_task_overrides p)) \<or>
      (k = Stability \<and> stability_picture p \<noteq> None))"

definition has_report_obligation :: "plan \<Rightarrow> string \<Rightarrow> bool" where
  "has_report_obligation pl key = list_ex (\<lambda>ob. obligation_key ob = key) (report_obligations pl)"

definition assert_active_verification_task :: "plan \<Rightarrow> task_kind \<Rightarrow> bool" where
  "assert_active_verification_task pl k = list_ex (\<lambda>t. kind t = k \<and> is_active t) (tasks pl)"

definition assert_asp_rust_verification_plan :: "plan \<Rightarrow> policy \<Rightarrow> bool" where
  "assert_asp_rust_verification_plan pl p =
     (let performance = configured_verification_task_kind p Performance;
          stability = configured_verification_task_kind p Stability
      in (\<not> performance \<or>
           assert_active_verification_task pl Performance \<and> has_report_obligation pl ''performance_index_json'') \<and>
         (\<not> stability \<or>
           assert_active_verification_task pl Stability \<and> has_report_obligation pl ''stability_index_json''))"

definition assert_asp_rust_verification_with_config :: "host \<Rightarrow> path \<Rightarrow> asp_rust_config \<Rightarrow> bool" where
  "assert_asp_rust_verification_with_config h project_root config =
     (if \<not> configured_verification_task_kind (verification_policy config) Performance \<and>
         \<not> configured_verification_task_kind (verification_policy config) Stability then True
      else case plan_rust_project_verification_with_config h project_root config of
        Some (Inr pl) \<Rightarrow> assert_asp_rust_verification_plan pl (verification_policy config)
      | _ \<Rightarrow> False)"

section \<open>Receipts\<close>

record report_obligation_receipt =
  ro_key :: string
  ro_renderer :: string
  ro_suggested_artifact_name :: string
  ro_reason :: string
  ro_task_kinds :: "string list"
  ro_task_fingerprints :: "string list"

record downstream_policy_receipt =
  dr_schema_id :: string
  dr_schema_version :: string
  dr_gate_label :: string
  dr_dependency_baseline_packages :: "dependency_baseline_package list"
  dr_active_verification_task_count :: nat
  dr_performance_task_count :: nat
  dr_stability_task_count :: nat
  dr_performance_report_obligation :: bool
  dr_stability_report_obligation :: bool
  dr_report_obligations :: "report_obligation_receipt list"

fun verification_task_kind_key :: "task_kind \<Rightarrow> string" where
  "verification_task_kind_key Stress = ''stress''"
| "verification_task_kind_key Performance = ''performance''"
| "verification_task_kind_key Stability = ''stability''"
| "verification_task_kind_key Chaos = ''chaos''"
| "verification_task_kind_key Security = ''security''"
| "verification_task_kind_key Regression = ''regression''"
| "verification_task_kind_key ResponsibilityReview = ''responsibility_review''"

definition active_task_count :: "plan \<Rightarrow> task_kind \<Rightarrow> nat" where
  "active_task_count pl k = length (filter (\<lambda>t. kind t = k \<and> is_active t) (tasks pl))"

definition dependency_baseline_package_receipts :: "downstream_policy \<Rightarrow> dependency_baseline_package list" where
  "dependency_baseline_package_receipts p =
     (case downstream_baseline p of None \<Rightarrow> [] | Some b \<Rightarrow> baseline_packages b)"

definition downstream_policy_receipt_from_plan :: "downstream_policy \<Rightarrow> plan \<Rightarrow> downstream_policy_receipt" where
  "downstream_policy_receipt_from_plan p pl =
     \<lparr>dr_schema_id = ''asp-rust.downstream-policy-receipt'', dr_schema_version = ''1'', dr_gate_label = gate_label p,
      dr_dependency_baseline_packages = dependency_baseline_package_receipts p,
      dr_active_verification_task_count = length (active_tasks pl),
      dr_performance_task_count = active_task_count pl Performance,
      dr_stability_task_count = active_task_count pl Stability,
      dr_performance_report_obligation = has_report_obligation pl ''performance_index_json'',
      dr_stability_report_obligation = has_report_obligation pl ''stability_index_json'',
      dr_report_obligations = map (\<lambda>ob. \<lparr>ro_key = obligation_key ob, ro_renderer = obligation_renderer ob,
          ro_suggested_artifact_name = suggested_artifact_name ob, ro_reason = obligation_reason ob,
          ro_task_kinds = map verification_task_kind_key (obligation_task_kinds ob),
          ro_task_fingerprints = obligation_task_fingerprints ob\<rparr>) (report_obligations pl)\<rparr>"

definition asp_rust_downstream_policy_receipt :: "host \<Rightarrow> path \<Rightarrow> downstream_policy \<Rightarrow> downstream_policy_receipt result option" where
  "asp_rust_downstream_policy_receipt h project_root p =
     map_option (map_ok (downstream_policy_receipt_from_plan p))
       (plan_rust_project_verification_with_config h project_root (downstream_config p))"

section \<open>Rerun inputs\<close>

definition rerun_inputs :: "host \<Rightarrow> path \<Rightarrow> asp_rust_analysis \<Rightarrow> path list" where
  "rerun_inputs h project_root a = filter (host_exists h)
     (bset_extend (bset_of_list [path_push project_root ''Cargo.toml'', path_push project_root ''Cargo.lock'',
        path_push project_root ''build.rs'']) (analysis_monitored_paths a))"

definition rerun_line :: "path \<Rightarrow> string" where
  "rerun_line p = ''cargo:rerun-if-changed='' @ display p"

definition emit_cargo_rerun_inputs :: "host \<Rightarrow> path \<Rightarrow> asp_rust_analysis \<Rightarrow> string list" where
  "emit_cargo_rerun_inputs h project_root a = map rerun_line (rerun_inputs h project_root a)"

definition emit_cargo_rerun_paths :: "path \<Rightarrow> path list \<Rightarrow> string list" where
  "emit_cargo_rerun_paths project_root relative_paths =
     rerun_line project_root # map (\<lambda>p. rerun_line (path_join project_root p)) relative_paths"

section \<open>What the gates accept\<close>

text \<open>A baseline is accepted exactly when each required package has one entry in the lock file, of the required version and source.\<close>

lemma assert_dependency_baseline_package_iff:
  "assert_dependency_baseline_package lock required \<longleftrightarrow>
   (\<exists>p. filter (\<lambda>q. lp_name q = bp_name required) lock = [p] \<and> lp_version p = bp_version required \<and>
     contains_sub (case lp_source p of Some s \<Rightarrow> s | None \<Rightarrow> ''<none>'') (bp_source_contains required))"
  by (auto simp: assert_dependency_baseline_package_def split: list.splits)


section \<open>What the verification gate asks of a plan\<close>

lemma active_task_has_obligation:
  assumes "assert_active_verification_task (plan_rust_verification_from_analysis root p trees) k"
    and "(k, key) \<in> {(Performance, ''performance_index_json''), (Stability, ''stability_index_json'')}"
  shows "has_report_obligation (plan_rust_verification_from_analysis root p trees) key"
proof -
  let ?plan = "plan_rust_verification_from_analysis root p trees"
  let ?ts = "bmap_values (plan_collector root p trees [])"
  have obs: "report_obligations ?plan = report_obligations_for_tasks ?ts"
    by (simp add: plan_rust_verification_from_analysis_def Let_def collect_all_tasks_collector)
  from assms(1) have "filter (\<lambda>t. kind t = k) (filter is_active ?ts) \<noteq> []"
    unfolding assert_active_verification_task_def list_ex_iff set_plan_tasks filter_empty_conv set_filter by blast
  with assms(2) have "obligation_fingerprints (report_obligations ?plan) key \<noteq> []"
    by (auto simp: obs obligation_fingerprints_for_tasks simp del: filter_filter)
  then show ?thesis by (auto simp: obligation_fingerprints_def has_report_obligation_def list_ex_iff filter_empty_conv)
qed

text \<open>
  C6: the verification gate accepts a plan of the planner exactly when each of the performance and
  stability kinds that the policy configures has an active task. The report the gate asks for besides is never the reason of a
  rejection, and a gate whose configured tasks are all satisfied or waived is rejected.
\<close>

theorem verification_gate_exact:
  "assert_asp_rust_verification_plan (plan_rust_verification_from_analysis root p trees) p \<longleftrightarrow>
     list_all (assert_active_verification_task (plan_rust_verification_from_analysis root p trees))
       (filter (configured_verification_task_kind p) [Performance, Stability])"
  using active_task_has_obligation [of root p trees Performance "''performance_index_json''"]
    active_task_has_obligation [of root p trees Stability "''stability_index_json''"]
  by (auto simp: assert_asp_rust_verification_plan_def Let_def)

end
