(* ===== verification/Dev_Gate_Cache.thy ===== *)
theory Dev_Gate_Cache
  imports Dev_Gate_Policy
begin

text \<open>
  The cache of a development gate: \<open>src/dev_gate/cache.rs\<close>. A gate run takes a snapshot of its input files, hashes it
  with the configuration into a key, and stores the report, plan and receipts under that key.

  What the code takes from elsewhere is the record \<open>gate_host\<close>: file metadata and contents, the SHA-256 function,
  the JSON text of each serialised value, and the outcomes of writing a file. A cache file is modelled by the value
  that its JSON text encodes, \<open>None\<close> for text that encodes none; a malformed index is an absent one. The temporary file that a value is
  written to before it is renamed has a fresh name, and is not modelled.
\<close>

section \<open>Data\<close>

record snapshot_file =
  sf_path :: path
  sf_byte_count :: nat
  sf_content_digest :: string

record dev_gate_snapshot =
  snapshot_digest :: string
  snapshot_file_count :: nat
  snapshot_byte_count :: nat
  snapshot_files :: "snapshot_file list"

record cache_record =
  cr_schema_id :: string
  cr_schema_version :: string
  cr_cache_key :: string
  cr_snapshot :: dev_gate_snapshot
  cr_payload_digest :: string
  cr_report :: asp_rust_report
  cr_verification_plan :: plan
  cr_downstream_policy_receipt :: downstream_policy_receipt
  cr_dependency_baseline_receipts :: "dependency_baseline_package list"

record cache_key_material =
  km_schema_id :: string
  km_schema_version :: string
  km_harness_version :: string
  km_harness_provider_digest :: string
  km_policy_authority_digest :: string
  km_scope :: string
  km_config :: asp_rust_config
  km_dependency_baseline_receipts :: "dependency_baseline_package list"
  km_content_snapshot_digest :: string

record cache_payload =
  pl_report :: asp_rust_report
  pl_verification_plan :: plan
  pl_downstream_policy_receipt :: downstream_policy_receipt
  pl_dependency_baseline_receipts :: "dependency_baseline_package list"

record digest_index_file =
  ix_byte_count :: nat
  ix_modified_nanos :: nat
  ix_content_digest :: string

record digest_index =
  ix_schema_id :: string
  ix_schema_version :: string
  ix_files :: "(path \<times> digest_index_file) list"

record cache_store =
  store_records :: "(path \<times> cache_record option) list"
  store_indexes :: "(path \<times> digest_index) list"

text \<open>The modification time is in nanoseconds from the epoch.\<close>

record file_metadata =
  fm_len :: nat
  fm_modified :: "int result"

record gate_host =
  gh_host :: host
  gh_metadata :: "path \<Rightarrow> file_metadata result"
  gh_read :: "path \<Rightarrow> string result"
  gh_canonicalize_error :: "path \<Rightarrow> string"
  gh_read_dir_error :: "path \<Rightarrow> string"
  gh_sha256 :: "string \<Rightarrow> string"
  gh_files_json :: "snapshot_file list \<Rightarrow> string result"
  gh_key_json :: "cache_key_material \<Rightarrow> string result"
  gh_payload_json :: "cache_payload \<Rightarrow> string result"
  gh_record_json :: "cache_record \<Rightarrow> string result"
  gh_index_json :: "digest_index \<Rightarrow> string result"
  gh_create_dir :: "path \<Rightarrow> string option"
  gh_create_file :: "path \<Rightarrow> string option"
  gh_write_file :: "path \<Rightarrow> string option"
  gh_rename :: "path \<Rightarrow> string option"
  gh_harness_version :: string
  gh_provider_digest :: string

definition CACHE_SCHEMA_ID :: string where
  "CACHE_SCHEMA_ID = ''agent.semantic-protocols.asp-rust.dev-gate-cache''"
definition CACHE_SCHEMA_VERSION :: string where "CACHE_SCHEMA_VERSION = ''1''"
definition INDEX_SCHEMA_ID :: string where
  "INDEX_SCHEMA_ID = ''agent.semantic-protocols.asp-rust.dev-gate-snapshot-index''"
definition INDEX_SCHEMA_VERSION :: string where "INDEX_SCHEMA_VERSION = ''1''"

section \<open>Digests and paths\<close>

text \<open>\<open>u64::to_be_bytes\<close>.\<close>

fun be_bytes :: "nat \<Rightarrow> nat \<Rightarrow> string" where
  "be_bytes 0 n = []"
| "be_bytes (Suc w) n = be_bytes w (n div 256) @ [char_of (n mod 256)]"

definition digest_input :: "string \<Rightarrow> string \<Rightarrow> string" where
  "digest_input namespace content =
     be_bytes 8 (length namespace) @ namespace @ be_bytes 8 (length content) @ content"

definition cache_digest_hex :: "gate_host \<Rightarrow> string \<Rightarrow> string \<Rightarrow> string" where
  "cache_digest_hex g namespace content =
     concat (map (\<lambda>b. hex_pad 2 (of_char b)) (gh_sha256 g (digest_input namespace content)))"

definition content_digest :: "gate_host \<Rightarrow> string \<Rightarrow> string" where
  "content_digest g content = ''sha256:'' @ cache_digest_hex g ''asp-rust.dev-gate-cache.content.v1'' content"

definition project_identity_stem :: "string \<Rightarrow> string" where
  "project_identity_stem identity = (if 32 \<le> length identity then take 32 identity else identity)"

definition project_cache_root :: "path \<Rightarrow> string \<Rightarrow> path" where
  "project_cache_root base identity =
     path_push (path_push (path_push (path_push base ''rph'') ''bg'') (''v'' @ CACHE_SCHEMA_VERSION)) (project_identity_stem identity)"

definition dev_gate_cache_root :: "gate_host \<Rightarrow> path \<Rightarrow> path option \<Rightarrow> path option" where
  "dev_gate_cache_root g project_root state_home =
     (case host_canonicalize (gh_host g) project_root of
        None \<Rightarrow> None
      | Some canonical_root \<Rightarrow>
          map_option (\<lambda>home. project_cache_root (path_push (path_push home ''runtime'') ''dev-gates'')
            (cache_digest_hex g ''asp-rust.dev-gate-cache.project.v1'' (display canonical_root))) state_home)"

definition cache_file_stem :: "string \<Rightarrow> string" where
  "cache_file_stem cache_key = (case rsplit_once '':'' cache_key of Some (_, digest) \<Rightarrow> digest | None \<Rightarrow> cache_key)"

definition cache_path :: "path \<Rightarrow> string \<Rightarrow> path" where
  "cache_path cache_root cache_key = path_push cache_root (cache_file_stem cache_key @ ''.json'')"

definition snapshot_digest_index_path :: "path \<Rightarrow> path" where
  "snapshot_digest_index_path cache_root = path_push cache_root ''snapshot-digest-index.v1.json''"

section \<open>The snapshot\<close>

definition should_skip_directory :: "string \<Rightarrow> asp_rust_config \<Rightarrow> bool" where
  "should_skip_directory name config \<longleftrightarrow> name \<in> set (ignored_dir_names config) \<or>
     (starts_with name ''.'' \<and> name \<notin> set (include_hidden_dir_names config))"

definition snapshot_file_of :: "gate_host \<Rightarrow> digest_index \<Rightarrow> path \<Rightarrow> path \<Rightarrow> digest_index_file result" where
  "snapshot_file_of g previous p relative_path =
     (case gh_metadata g p of
        Inl e \<Rightarrow> Err (''inspect dev-gate snapshot file '' @ display p @ '': '' @ e)
      | Inr md \<Rightarrow> (case fm_modified md of
          Inl e \<Rightarrow> Err (''inspect dev-gate snapshot mtime '' @ display p @ '': '' @ e)
        | Inr t \<Rightarrow>
            if t < 0 then Err (''normalize dev-gate snapshot mtime '' @ display p @ '': second time provided was later than self'')
            else
              (case Option.bind (bmap_get (ix_files previous) relative_path)
                  (\<lambda>f. if ix_byte_count f = fm_len md \<and> ix_modified_nanos f = nat t then Some f else None) of
                 Some f \<Rightarrow> Ok f
               | None \<Rightarrow> (case gh_read g p of
                   Inl e \<Rightarrow> Err (''read dev-gate snapshot file '' @ display p @ '': '' @ e)
                 | Inr content \<Rightarrow> Ok \<lparr>ix_byte_count = fm_len md, ix_modified_nanos = nat t,
                     ix_content_digest = content_digest g content\<rparr>))))"

text \<open>The files and the next index, collected together.\<close>

type_synonym snapshot_state = "(path \<times> digest_index_file) list \<times> (path \<times> snapshot_file) list"

definition record_snapshot_file ::
  "gate_host \<Rightarrow> path \<Rightarrow> digest_index \<Rightarrow> path \<Rightarrow> snapshot_state \<Rightarrow> snapshot_state result" where
  "record_snapshot_file g project_root previous p st =
     and_then (ok_or ''relativize dev-gate snapshot path: prefix not found'' (strip_prefix p project_root)) (\<lambda>relative.
       map_ok (\<lambda>f. (bmap_insert relative f (fst st),
           bmap_insert relative \<lparr>sf_path = relative, sf_byte_count = ix_byte_count f, sf_content_digest = ix_content_digest f\<rparr> (snd st)))
         (snapshot_file_of g previous p relative))"

function collect_snapshot_node ::
  "gate_host \<Rightarrow> asp_rust_config \<Rightarrow> path \<Rightarrow> path list \<Rightarrow> digest_index \<Rightarrow> path \<Rightarrow> fs_node \<Rightarrow> snapshot_state \<Rightarrow> snapshot_state result"
and collect_snapshot_entries ::
  "gate_host \<Rightarrow> asp_rust_config \<Rightarrow> path \<Rightarrow> path list \<Rightarrow> digest_index \<Rightarrow> path \<Rightarrow> (string \<times> fs_node) list \<Rightarrow> snapshot_state \<Rightarrow> snapshot_state result"
where
  "collect_snapshot_node g config project_root excluded previous p node st =
     (case node of
        Link_node _ \<Rightarrow> Ok st
      | File_node \<Rightarrow> record_snapshot_file g project_root previous p st
      | Other_node \<Rightarrow> Ok st
      | Dir_node readable entries \<Rightarrow>
          if normalize_lexical_path p \<in> set excluded then Ok st
          else if \<not> readable then Err (''read dev-gate snapshot directory: '' @ gh_read_dir_error g p)
          else collect_snapshot_entries g config project_root excluded previous p (sort_key fst entries) st)"
| "collect_snapshot_entries g config project_root excluded previous p [] st = Ok st"
| "collect_snapshot_entries g config project_root excluded previous p ((name, node) # rest) st =
     and_then
       (case node of
          Dir_node _ _ \<Rightarrow>
            if should_skip_directory name config then Ok st
            else collect_snapshot_node g config project_root excluded previous (entry_path p name) node st
        | File_node \<Rightarrow> record_snapshot_file g project_root previous (entry_path p name) st
        | _ \<Rightarrow> Ok st)
       (collect_snapshot_entries g config project_root excluded previous p rest)"
  by pat_completeness auto
termination
  by (relation "measure (\<lambda>x. case x of Inl (_, _, _, _, _, _, node, _) \<Rightarrow> size node
      | Inr (_, _, _, _, _, _, es, _) \<Rightarrow> size_list (size_prod (\<lambda>_. 0) size) es)") auto

declare collect_snapshot_node.simps [simp del]

definition collect_snapshot_path ::
  "gate_host \<Rightarrow> asp_rust_config \<Rightarrow> path \<Rightarrow> path list \<Rightarrow> digest_index \<Rightarrow> path \<Rightarrow> snapshot_state \<Rightarrow> snapshot_state result" where
  "collect_snapshot_path g config project_root excluded previous p st =
     (case host_fs (gh_host g) p of
        None \<Rightarrow> Ok st
      | Some node \<Rightarrow> collect_snapshot_node g config project_root excluded previous p node st)"

fun collect_snapshot_paths ::
  "gate_host \<Rightarrow> asp_rust_config \<Rightarrow> path \<Rightarrow> path list \<Rightarrow> digest_index \<Rightarrow> path list \<Rightarrow> snapshot_state \<Rightarrow> snapshot_state result" where
  "collect_snapshot_paths g config project_root excluded previous [] st = Ok st"
| "collect_snapshot_paths g config project_root excluded previous (p # ps) st =
     and_then (collect_snapshot_path g config project_root excluded previous p st)
       (collect_snapshot_paths g config project_root excluded previous ps)"

text \<open>\<open>try_fold(0_u64, checked_add)\<close>.\<close>

fun checked_sum :: "nat list \<Rightarrow> nat \<Rightarrow> nat option" where
  "checked_sum [] acc = Some acc"
| "checked_sum (n # ns) acc = (if acc + n < 2 ^ 64 then checked_sum ns (acc + n) else None)"

definition empty_index :: digest_index where
  "empty_index = \<lparr>ix_schema_id = [], ix_schema_version = [], ix_files = []\<rparr>"

definition load_snapshot_digest_index :: "cache_store \<Rightarrow> path \<Rightarrow> digest_index option" where
  "load_snapshot_digest_index store cache_root =
     Option.bind (bmap_get (store_indexes store) (snapshot_digest_index_path cache_root))
       (\<lambda>ix. if ix_schema_id ix = INDEX_SCHEMA_ID \<and> ix_schema_version ix = INDEX_SCHEMA_VERSION then Some ix else None)"

text \<open>What fails before a file is renamed into place: its directory, its text, the temporary file, the writing.\<close>

definition prepare_publish :: "gate_host \<Rightarrow> path \<Rightarrow> string \<Rightarrow> string result \<Rightarrow> path \<Rightarrow> unit result" where
  "prepare_publish g cache_root what json destination =
     (case gh_create_dir g cache_root of
        Some e \<Rightarrow> Err (''create '' @ what @ '' directory: '' @ e)
      | None \<Rightarrow> (case json of
          Inl e \<Rightarrow> Err e
        | Inr bytes \<Rightarrow> (case gh_create_file g destination of
            Some e \<Rightarrow> Err (''create '' @ what @ '' temporary file: '' @ e)
          | None \<Rightarrow> (case gh_write_file g destination of
              Some e \<Rightarrow> Err (''write '' @ what @ '' temporary file: '' @ e)
            | None \<Rightarrow> Ok ()))))"

definition map_error :: "string \<Rightarrow> 'a result \<Rightarrow> 'a result" where
  "map_error what r = (case r of Inl e \<Rightarrow> Err (what @ '': '' @ e) | Inr x \<Rightarrow> Ok x)"

definition store_snapshot_digest_index :: "gate_host \<Rightarrow> path \<Rightarrow> digest_index \<Rightarrow> cache_store \<Rightarrow> cache_store result" where
  "store_snapshot_digest_index g cache_root ix store =
     (let destination = snapshot_digest_index_path cache_root in
      and_then (prepare_publish g cache_root ''dev-gate snapshot index''
          (map_error ''serialize dev-gate snapshot index'' (gh_index_json g ix)) destination) (\<lambda>_.
        case gh_rename g destination of
          Some e \<Rightarrow> Err (''publish dev-gate snapshot index: '' @ e)
        | None \<Rightarrow> Ok (store\<lparr>store_indexes := bmap_insert destination ix (store_indexes store)\<rparr>)))"

definition snapshot_inputs :: "gate_host \<Rightarrow> path \<Rightarrow> asp_rust_config \<Rightarrow> path list" where
  "snapshot_inputs g root config =
     (let manifest = path_push root ''Cargo.toml'' in
      monitored_paths (config_scope (gh_host g) root config) @ (if host_is_file (gh_host g) manifest then [manifest] else []))"

definition snapshot_of_files :: "gate_host \<Rightarrow> snapshot_file list \<Rightarrow> dev_gate_snapshot result" where
  "snapshot_of_files g files =
     (case checked_sum (map sf_byte_count files) 0 of
        None \<Rightarrow> Err ''dev-gate snapshot byte count overflow''
      | Some bytes \<Rightarrow> map_ok (\<lambda>json. \<lparr>snapshot_digest = content_digest g json, snapshot_file_count = length files,
            snapshot_byte_count = bytes, snapshot_files = files\<rparr>)
          (map_error ''serialize dev-gate snapshot files'' (gh_files_json g files)))"

text \<open>The outer option is the discovery of package roots, which may not return; the store carries the index.\<close>

definition snapshot_dev_gate_inputs_with_cache ::
  "gate_host \<Rightarrow> path \<Rightarrow> asp_rust_config \<Rightarrow> path option \<Rightarrow> cache_store \<Rightarrow> (dev_gate_snapshot \<times> cache_store) result option" where
  "snapshot_dev_gate_inputs_with_cache g project_root config cache_root store =
     (case host_canonicalize (gh_host g) project_root of
        None \<Rightarrow> Some (Err (''canonicalize dev-gate project root: '' @ gh_canonicalize_error g project_root))
      | Some root \<Rightarrow>
          map_option (\<lambda>excluded.
            let previous = (case Option.bind cache_root (load_snapshot_digest_index store) of
                  Some ix \<Rightarrow> ix | None \<Rightarrow> empty_index)
            in and_then (collect_snapshot_paths g config root excluded previous (snapshot_inputs g root config) ([], [])) (\<lambda>st.
                 and_then (snapshot_of_files g (bmap_values (snd st))) (\<lambda>snapshot.
                   case cache_root of
                     None \<Rightarrow> Ok (snapshot, store)
                   | Some dir \<Rightarrow> map_ok (\<lambda>store'. (snapshot, store'))
                       (store_snapshot_digest_index g dir \<lparr>ix_schema_id = INDEX_SCHEMA_ID,
                          ix_schema_version = INDEX_SCHEMA_VERSION, ix_files = fst st\<rparr> store))))
          (cargo_package_exclusion_roots (host_fs (gh_host g)) (host_load (gh_host g)) root
            (ignored_dir_names config) (include_hidden_dir_names config)))"

section \<open>Keys and records\<close>

definition scope_str :: "run_scope \<Rightarrow> string" where
  "scope_str s = (case s of PackageScope \<Rightarrow> ''package'' | ProjectWorkspaceScope \<Rightarrow> ''project-workspace'')"

definition dev_gate_cache_key_with_policy_digest ::
  "gate_host \<Rightarrow> asp_rust_config \<Rightarrow> run_scope \<Rightarrow> dependency_baseline_package list \<Rightarrow> dev_gate_snapshot \<Rightarrow> string \<Rightarrow> string result" where
  "dev_gate_cache_key_with_policy_digest g config scope baseline snapshot policy_digest =
     map_ok (content_digest g) (map_error ''serialize dev-gate cache key'' (gh_key_json g
       \<lparr>km_schema_id = CACHE_SCHEMA_ID, km_schema_version = CACHE_SCHEMA_VERSION,
        km_harness_version = gh_harness_version g, km_harness_provider_digest = gh_provider_digest g,
        km_policy_authority_digest = policy_digest, km_scope = scope_str scope, km_config = config,
        km_dependency_baseline_receipts = sort_key (\<lambda>p. (bp_name p, bp_version p, bp_source_contains p)) baseline,
        km_content_snapshot_digest = snapshot_digest snapshot\<rparr>))"

definition dev_gate_cache_payload_digest ::
  "gate_host \<Rightarrow> asp_rust_report \<Rightarrow> plan \<Rightarrow> downstream_policy_receipt \<Rightarrow> dependency_baseline_package list \<Rightarrow> string result" where
  "dev_gate_cache_payload_digest g r pl receipt baseline =
     map_ok (content_digest g) (map_error ''serialize dev-gate cache payload'' (gh_payload_json g
       \<lparr>pl_report = r, pl_verification_plan = pl, pl_downstream_policy_receipt = receipt,
        pl_dependency_baseline_receipts = baseline\<rparr>))"

definition record_is_sound :: "gate_host \<Rightarrow> string \<Rightarrow> cache_record \<Rightarrow> bool" where
  "record_is_sound g cache_key rec \<longleftrightarrow>
     cr_schema_id rec = CACHE_SCHEMA_ID \<and> cr_schema_version rec = CACHE_SCHEMA_VERSION \<and>
     cr_cache_key rec = cache_key \<and>
     snapshot_file_count (cr_snapshot rec) = length (snapshot_files (cr_snapshot rec)) \<and>
     checked_sum (map sf_byte_count (snapshot_files (cr_snapshot rec))) 0 = Some (snapshot_byte_count (cr_snapshot rec)) \<and>
     map_ok (content_digest g) (gh_files_json g (snapshot_files (cr_snapshot rec))) = Ok (snapshot_digest (cr_snapshot rec)) \<and>
     dev_gate_cache_payload_digest g (cr_report rec) (cr_verification_plan rec) (cr_downstream_policy_receipt rec)
       (cr_dependency_baseline_receipts rec) = Ok (cr_payload_digest rec)"

definition load_dev_gate_cache :: "gate_host \<Rightarrow> cache_store \<Rightarrow> path \<Rightarrow> string \<Rightarrow> cache_record option" where
  "load_dev_gate_cache g store cache_root cache_key =
     Option.bind (Option.bind (bmap_get (store_records store) (cache_path cache_root cache_key)) (\<lambda>x. x))
       (\<lambda>rec. if record_is_sound g cache_key rec then Some rec else None)"

text \<open>A failed rename is an error only when no earlier record is in place.\<close>

definition store_dev_gate_cache :: "gate_host \<Rightarrow> path \<Rightarrow> cache_record \<Rightarrow> cache_store \<Rightarrow> cache_store result" where
  "store_dev_gate_cache g cache_root rec store =
     (let destination = cache_path cache_root (cr_cache_key rec) in
      and_then (prepare_publish g cache_root ''dev-gate cache''
          (map_error ''serialize dev-gate cache record'' (gh_record_json g rec)) destination) (\<lambda>_.
        case gh_rename g destination of
          Some e \<Rightarrow> if bmap_get (store_records store) destination = None
            then Err (''publish dev-gate cache record: '' @ e) else Ok store
        | None \<Rightarrow> Ok (store\<lparr>store_records := bmap_insert destination (Some rec) (store_records store)\<rparr>)))"

section \<open>The digest input determines its parts\<close>

lemma length_be_bytes [simp]: "length (be_bytes w n) = w"
  by (induction w arbitrary: n) auto

lemma be_bytes_inj: "be_bytes w a = be_bytes w b \<Longrightarrow> a < 256 ^ w \<Longrightarrow> b < 256 ^ w \<Longrightarrow> a = b"
proof (induction w arbitrary: a b)
  case (Suc w)
  from Suc.prems(1) have "be_bytes w (a div 256) = be_bytes w (b div 256)" "(char_of (a mod 256) :: char) = char_of (b mod 256)"
    by simp_all
  moreover have "a div 256 < 256 ^ w" "b div 256 < 256 ^ w"
    using Suc.prems(2,3) by (simp_all add: less_mult_imp_div_less mult.commute)
  ultimately have "a div 256 = b div 256" using Suc.IH by blast
  moreover from \<open>(char_of (a mod 256) :: char) = char_of (b mod 256)\<close> have "a mod 256 = b mod 256"
    by (simp add: char_of_eq_iff take_bit_eq_mod)
  ultimately show ?case by (metis div_mult_mod_eq)
qed simp

lemma digest_input_inj:
  assumes "digest_input a x = digest_input b y"
    and "length a < 2 ^ 64" "length b < 2 ^ 64" "length x < 2 ^ 64" "length y < 2 ^ 64"
  shows "a = b \<and> x = y"
proof -
  have pow: "(256 :: nat) ^ 8 = 2 ^ 64" by simp
  from assms(1) have len: "be_bytes 8 (length a) = be_bytes 8 (length b)"
    and rest: "a @ be_bytes 8 (length x) @ x = b @ be_bytes 8 (length y) @ y"
    by (auto simp: digest_input_def)
  from be_bytes_inj [OF len] assms(2,3) pow have "length a = length b" by simp
  with rest show ?thesis by simp
qed

section \<open>Snapshots with and without an index\<close>

text \<open>
  An index agrees with the host when every entry whose size and time are those of the file still holds the digest
  of the file's contents.
\<close>

definition index_agrees :: "gate_host \<Rightarrow> path \<Rightarrow> digest_index \<Rightarrow> bool" where
  "index_agrees g root ix \<longleftrightarrow> (\<forall>p rel f md. strip_prefix p root = Some rel \<longrightarrow> bmap_get (ix_files ix) rel = Some f \<longrightarrow>
     gh_metadata g p = Ok md \<longrightarrow> fm_modified md = Ok (int (ix_modified_nanos f)) \<longrightarrow> ix_byte_count f = fm_len md \<longrightarrow>
     (\<exists>content. gh_read g p = Ok content \<and> ix_content_digest f = content_digest g content))"

lemma index_agrees_empty [simp]: "index_agrees g root empty_index"
  by (simp add: index_agrees_def empty_index_def)

lemma snapshot_file_of_agrees:
  assumes "index_agrees g root ix" "strip_prefix p root = Some rel"
  shows "snapshot_file_of g ix p rel = snapshot_file_of g empty_index p rel"
proof (cases "\<exists>md f. gh_metadata g p = Ok md \<and> bmap_get (ix_files ix) rel = Some f \<and>
    fm_modified md = Ok (int (ix_modified_nanos f)) \<and> ix_byte_count f = fm_len md")
  case True
  then obtain md f where hit: "gh_metadata g p = Ok md" "bmap_get (ix_files ix) rel = Some f"
    "fm_modified md = Ok (int (ix_modified_nanos f))" "ix_byte_count f = fm_len md" by blast
  with assms obtain content where "gh_read g p = Ok content" "ix_content_digest f = content_digest g content"
    unfolding index_agrees_def by metis
  with hit show ?thesis by (cases f) (simp add: snapshot_file_of_def empty_index_def)
next
  case False
  then have "Option.bind (bmap_get (ix_files ix) rel) (\<lambda>f. if ix_byte_count f = fm_len md \<and> ix_modified_nanos f = nat t then Some f else None) = None"
    if "gh_metadata g p = Ok md" "fm_modified md = Ok t" "\<not> t < 0" for md t
    using that by (cases "bmap_get (ix_files ix) rel") auto
  then show ?thesis by (auto simp: snapshot_file_of_def empty_index_def split: sum.split)
qed

lemma record_snapshot_file_agrees:
  "index_agrees g root ix \<Longrightarrow> record_snapshot_file g root ix p st = record_snapshot_file g root empty_index p st"
  by (cases "strip_prefix p root") (simp_all add: record_snapshot_file_def snapshot_file_of_agrees [of g root ix p])

lemma collect_snapshot_agrees:
  "index_agrees g root ix \<Longrightarrow> collect_snapshot_node g config root excluded ix p node st =
     collect_snapshot_node g config root excluded empty_index p node st"
  "index_agrees g root ix \<Longrightarrow> collect_snapshot_entries g config root excluded ix p entries st =
     collect_snapshot_entries g config root excluded empty_index p entries st"
proof (induction g config root excluded ix p node st and g config root excluded ix p entries st
    rule: collect_snapshot_node_collect_snapshot_entries.induct)
  case (1 g config root excluded ix p node st)
  then show ?case
    by (cases node) (simp_all add: collect_snapshot_node.simps record_snapshot_file_agrees [OF "1.prems"])
next
  case (3 g config root excluded ix p name node rest st)
  then have "collect_snapshot_entries g config root excluded ix p rest =
      collect_snapshot_entries g config root excluded empty_index p rest" by (simp add: fun_eq_iff)
  with 3 show ?case by (cases node) (simp_all add: record_snapshot_file_agrees [OF "3.prems"])
qed simp

lemma collect_snapshot_paths_agrees:
  "index_agrees g root ix \<Longrightarrow> collect_snapshot_paths g config root excluded ix ps st =
     collect_snapshot_paths g config root excluded empty_index ps st"
proof (induction ps arbitrary: st)
  case (Cons p ps)
  then have "collect_snapshot_paths g config root excluded ix ps = collect_snapshot_paths g config root excluded empty_index ps"
    by (simp add: fun_eq_iff)
  then show ?case
    using Cons.prems by (simp add: collect_snapshot_path_def collect_snapshot_agrees [OF Cons.prems] split: option.split)
qed simp

text \<open>The index that a snapshot leaves holds the digests of the files as they are.\<close>

definition fresh_entries :: "gate_host \<Rightarrow> path \<Rightarrow> (path \<times> digest_index_file) list \<Rightarrow> bool" where
  "fresh_entries g root fs \<longleftrightarrow> ascending (bmap_keys fs) \<and> (\<forall>rel f. bmap_get fs rel = Some f \<longrightarrow>
     (\<exists>p. strip_prefix p root = Some rel \<and> snapshot_file_of g empty_index p rel = Ok f))"

lemma record_snapshot_file_fresh:
  "record_snapshot_file g root empty_index p st = Ok st' \<Longrightarrow> fresh_entries g root (fst st) \<Longrightarrow> fresh_entries g root (fst st')"
  by (auto simp: record_snapshot_file_def and_then_Inr_iff map_ok_Inr_iff ok_or_Inr_iff fresh_entries_def bmap_simps split: if_splits)

lemma collect_snapshot_fresh:
  "ix = empty_index \<Longrightarrow> collect_snapshot_node g config root excluded ix p node st = Ok st' \<Longrightarrow>
     fresh_entries g root (fst st) \<Longrightarrow> fresh_entries g root (fst st')"
  "ix = empty_index \<Longrightarrow> collect_snapshot_entries g config root excluded ix p entries st = Ok st' \<Longrightarrow>
     fresh_entries g root (fst st) \<Longrightarrow> fresh_entries g root (fst st')"
proof (induction g config root excluded ix p node st and g config root excluded ix p entries st
    arbitrary: st' and st' rule: collect_snapshot_node_collect_snapshot_entries.induct)
  case (1 g config root excluded ix p node st)
  then show ?case
    by (cases node) (auto simp: collect_snapshot_node.simps record_snapshot_file_fresh split: if_splits)
next
  case (3 g config root excluded ix p name node rest st)
  from "3.prems"(2) obtain st1 where st1: "(case node of
          Dir_node _ _ \<Rightarrow> if should_skip_directory name config then Ok st
            else collect_snapshot_node g config root excluded ix (entry_path p name) node st
        | File_node \<Rightarrow> record_snapshot_file g root ix (entry_path p name) st | _ \<Rightarrow> Ok st) = Ok st1"
    and rest: "collect_snapshot_entries g config root excluded ix p rest st1 = Ok st'"
    by (auto simp only: collect_snapshot_entries.simps and_then_Inr_iff)
  have "fresh_entries g root (fst st1)"
    using st1 "3.prems"(1,3) "3.IH"(1) by (cases node) (auto intro: record_snapshot_file_fresh split: if_splits)
  with "3.IH"(2) "3.prems"(1) rest show ?case by blast
qed simp

lemma collect_snapshot_paths_fresh:
  "collect_snapshot_paths g config root excluded empty_index ps st = Ok st' \<Longrightarrow>
     fresh_entries g root (fst st) \<Longrightarrow> fresh_entries g root (fst st')"
proof (induction ps arbitrary: st)
  case (Cons p ps)
  then show ?case
    by (auto simp: and_then_Inr_iff collect_snapshot_path_def split: option.splits dest: collect_snapshot_fresh(1) [OF refl])
qed simp

lemma index_agrees_fresh:
  assumes "fresh_entries g root (ix_files ix)"
  shows "index_agrees g root ix"
  unfolding index_agrees_def
proof (intro allI impI)
  fix p rel f md
  assume p: "strip_prefix p root = Some rel" and f: "bmap_get (ix_files ix) rel = Some f"
    and md: "gh_metadata g p = Ok md" "fm_modified md = Ok (int (ix_modified_nanos f))" "ix_byte_count f = fm_len md"
  from assms f obtain q where q: "strip_prefix q root = Some rel" "snapshot_file_of g empty_index q rel = Ok f"
    unfolding fresh_entries_def by blast
  from p q(1) have "q = p" by (metis strip_prefix_Some)
  with q(2) md show "\<exists>content. gh_read g p = Ok content \<and> ix_content_digest f = content_digest g content"
    by (cases f) (auto simp: snapshot_file_of_def empty_index_def split: sum.splits)
qed

text \<open>The snapshot as it is taken without a cache.\<close>

definition plain_snapshot :: "gate_host \<Rightarrow> path \<Rightarrow> asp_rust_config \<Rightarrow> dev_gate_snapshot option" where
  "plain_snapshot g project_root config =
     (case snapshot_dev_gate_inputs_with_cache g project_root config None \<lparr>store_records = [], store_indexes = []\<rparr> of
        Some (Inr (snapshot, _)) \<Rightarrow> Some snapshot | _ \<Rightarrow> None)"

definition indexes_agree :: "gate_host \<Rightarrow> path \<Rightarrow> path \<Rightarrow> cache_store \<Rightarrow> bool" where
  "indexes_agree g project_root dir store \<longleftrightarrow> (\<forall>root ix. host_canonicalize (gh_host g) project_root = Some root \<longrightarrow>
     load_snapshot_digest_index store dir = Some ix \<longrightarrow> index_agrees g root ix)"

definition stored_index :: "(path \<times> digest_index_file) list \<Rightarrow> digest_index" where
  "stored_index fs = \<lparr>ix_schema_id = INDEX_SCHEMA_ID, ix_schema_version = INDEX_SCHEMA_VERSION, ix_files = fs\<rparr>"

lemma snapshot_with_agreeing_index:
  assumes agree: "indexes_agree g project_root dir store" and ascending: "ascending (bmap_keys (store_indexes store))"
    and snapshot: "snapshot_dev_gate_inputs_with_cache g project_root config (Some dir) store = Some (Ok (snap, store'))"
  shows "plain_snapshot g project_root config = Some snap \<and> indexes_agree g project_root dir store' \<and>
    store_records store' = store_records store \<and> ascending (bmap_keys (store_indexes store'))"
proof -
  let ?fs = "host_fs (gh_host g)" and ?load = "host_load (gh_host g)"
  from snapshot obtain root excluded where root: "host_canonicalize (gh_host g) project_root = Some root"
    and ex: "cargo_package_exclusion_roots ?fs ?load root (ignored_dir_names config) (include_hidden_dir_names config) = Some excluded"
    by (auto simp: snapshot_dev_gate_inputs_with_cache_def split: option.splits)
  define previous where "previous = (case load_snapshot_digest_index store dir of Some ix \<Rightarrow> ix | None \<Rightarrow> empty_index)"
  have agrees: "index_agrees g root previous"
    using agree root by (auto simp: previous_def indexes_agree_def split: option.split)
  from snapshot obtain st where st: "collect_snapshot_paths g config root excluded previous (snapshot_inputs g root config) ([], []) = Ok st"
    and snap: "snapshot_of_files g (bmap_values (snd st)) = Ok snap"
    and store': "store_snapshot_digest_index g dir (stored_index (fst st)) store = Ok store'"
    by (auto simp: snapshot_dev_gate_inputs_with_cache_def root ex Let_def and_then_Inr_iff map_ok_Inr_iff previous_def stored_index_def)
  from st have st0: "collect_snapshot_paths g config root excluded empty_index (snapshot_inputs g root config) ([], []) = Ok st"
    using collect_snapshot_paths_agrees [OF agrees] by simp
  then have plain: "plain_snapshot g project_root config = Some snap"
    by (simp add: plain_snapshot_def snapshot_dev_gate_inputs_with_cache_def root ex snap Let_def)
  have "fresh_entries g root (fst st)"
    using collect_snapshot_paths_fresh [OF st0] by (simp add: fresh_entries_def)
  then have fresh: "index_agrees g root (stored_index (fst st))"
    by (intro index_agrees_fresh) (simp add: stored_index_def)
  from store' have "store' = store\<lparr>store_indexes := bmap_insert (snapshot_digest_index_path dir) (stored_index (fst st)) (store_indexes store)\<rparr>"
    by (auto simp: store_snapshot_digest_index_def Let_def and_then_Inr_iff split: option.splits)
  with plain fresh root ascending show ?thesis
    by (auto simp: indexes_agree_def load_snapshot_digest_index_def bmap_simps stored_index_def)
qed

text \<open>A published record is found again under its key when it is sound.\<close>

lemma load_stored_record:
  assumes "store_dev_gate_cache g dir rec store = Ok store'" "ascending (bmap_keys (store_records store))"
    and "load_dev_gate_cache g store' dir' key = Some rec'"
  shows "load_dev_gate_cache g store dir' key = Some rec' \<or> rec' = rec"
  using assms
  by (auto simp: store_dev_gate_cache_def load_dev_gate_cache_def Let_def and_then_Inr_iff bmap_simps bind_eq_Some_conv
      split: option.splits if_splits)

end
