(* ===== verification/Downstream_Gate.thy ===== *)
theory Downstream_Gate
  imports Dev_Gate_Cache Workspace_Build_Dag
begin

text \<open>
  The development gate of a package, \<open>src/dev_gate/downstream.rs\<close>, and its composition over the packages of a
  workspace, \<open>src/workspace_policy.rs\<close>. A gate takes the cache store and returns the report with the new store, or
  \<open>None\<close> when it panics. The lines printed for Cargo are those of \<open>emit_cargo_rerun_inputs\<close> and
  \<open>emit_cargo_rerun_paths\<close>, and do not influence the result.
\<close>

section \<open>One package\<close>

definition config_allows_agent_advice :: "asp_rust_config \<Rightarrow> bool" where
  "config_allows_agent_advice config \<longleftrightarrow>
     has_explanation (cargo_check_advice_allow_explanation config) \<or> has_explanation (agent_advice_allow_explanation config)"

definition guidance_text :: "string \<Rightarrow> string" where
  "guidance_text label =
     ''[asp-rust-agent-guidance]'' @ [CHR 0x0A] @ ''gate: '' @ label @ [CHR 0x0A] @
     ''trigger: cargo test runs the shared Build Support policy gate.'' @ [CHR 0x0A] @
     ''repair:'' @ [CHR 0x0A] @
     ''- keep member crates free of policy-only build scripts.'' @ [CHR 0x0A] @
     ''- declare the shared Build Support crate under [dev-dependencies].'' @ [CHR 0x0A] @
     ''- put common policy in the shared workspace policy package.'' @ [CHR 0x0A] @
     ''- mount its policy macro from a thin Cargo test target.'' @ [CHR 0x0A] @
     ''- construct AspRustWorkspacePolicy once, then derive members with member_crate or member_crate_with_config.'' @ [CHR 0x0A] @
     ''- add crate-local owners, receipts, waivers, or report obligations in the member override only.'' @ [CHR 0x0A] @
     ''- rerun cargo test after updating policy or evidence.'' @ [CHR 0x0A]"

definition build_report_rejection :: "asp_rust_report \<Rightarrow> asp_rust_config \<Rightarrow> string \<Rightarrow> string option" where
  "build_report_rejection r config label =
     (if \<not> is_clean r then Some (render_asp_rust r @ [CHR 0x0A] @ guidance_text label)
      else if \<not> config_allows_agent_advice config \<and> render_asp_rust_advice r \<noteq> []
      then Some (render_asp_rust_advice r @ [CHR 0x0A] @ guidance_text label)
      else None)"

text \<open>What a gate takes from its build: the feature of the baseline and the lock file reader.\<close>

record gate_build =
  gb_baseline_feature :: bool
  gb_load_lock :: lock_loader

definition assert_baseline_of :: "gate_build \<Rightarrow> gate_host \<Rightarrow> path \<Rightarrow> downstream_policy \<Rightarrow> bool" where
  "assert_baseline_of b g project_root p =
     (case downstream_baseline p of
        None \<Rightarrow> True
      | Some baseline \<Rightarrow>
          assert_asp_rust_dependency_baseline (gb_baseline_feature b) (gh_host g) (gb_load_lock b) project_root baseline)"

definition report_accepted :: "bool \<Rightarrow> asp_rust_report \<Rightarrow> downstream_policy \<Rightarrow> bool" where
  "report_accepted assert_report r p \<longleftrightarrow> \<not> assert_report \<or> build_report_rejection r (downstream_config p) (gate_label p) = None"

definition cached_gate ::
  "gate_build \<Rightarrow> gate_host \<Rightarrow> path \<Rightarrow> downstream_policy \<Rightarrow> bool \<Rightarrow> cache_record \<Rightarrow> asp_rust_report option" where
  "cached_gate b g project_root p assert_report rec =
     (if report_accepted assert_report (cr_report rec) p \<and>
         assert_asp_rust_verification_plan (cr_verification_plan rec) (verification_policy (downstream_config p)) \<and>
         cr_downstream_policy_receipt rec = downstream_policy_receipt_from_plan p (cr_verification_plan rec) \<and>
         cr_dependency_baseline_receipts rec = dependency_baseline_package_receipts p \<and>
         assert_baseline_of b g project_root p
      then Some (cr_report rec) else None)"

definition publish_record ::
  "gate_host \<Rightarrow> path option \<Rightarrow> downstream_policy \<Rightarrow> string \<Rightarrow> dev_gate_snapshot \<Rightarrow> asp_rust_report \<Rightarrow> plan \<Rightarrow> cache_store \<Rightarrow>
   cache_store option" where
  "publish_record g cache_root p cache_key snapshot r pl store =
     (case cache_root of
        None \<Rightarrow> Some store
      | Some dir \<Rightarrow>
          (let receipt = downstream_policy_receipt_from_plan p pl; baseline = dependency_baseline_package_receipts p in
           case dev_gate_cache_payload_digest g r pl receipt baseline of
             Inl e \<Rightarrow> None
           | Inr digest \<Rightarrow> (case store_dev_gate_cache g dir
               \<lparr>cr_schema_id = CACHE_SCHEMA_ID, cr_schema_version = CACHE_SCHEMA_VERSION, cr_cache_key = cache_key,
                cr_snapshot = snapshot, cr_payload_digest = digest, cr_report = r, cr_verification_plan = pl,
                cr_downstream_policy_receipt = receipt, cr_dependency_baseline_receipts = baseline\<rparr> store of
               Inl e \<Rightarrow> None | Inr store' \<Rightarrow> Some store')))"

text \<open>The analysis, report and plan of a gate run that finds no record.\<close>

definition fresh_gate ::
  "gate_build \<Rightarrow> gate_host \<Rightarrow> path \<Rightarrow> downstream_policy \<Rightarrow> bool \<Rightarrow> (asp_rust_report \<times> plan) option" where
  "fresh_gate b g project_root p assert_report =
     (case analyze_rust_project_once (gh_host g) project_root (downstream_config p) PackageScope of
        Some (Inr a) \<Rightarrow>
          (case to_report (gh_host g) (downstream_config p) a of
             None \<Rightarrow> None
           | Some r \<Rightarrow>
               let pl = plan_rust_verification_from_harness_analysis (gh_host g) a (verification_policy (downstream_config p)) in
               if report_accepted assert_report r p \<and>
                  assert_asp_rust_verification_plan pl (verification_policy (downstream_config p)) \<and>
                  assert_baseline_of b g project_root p
               then Some (r, pl) else None)
      | _ \<Rightarrow> None)"

definition run_asp_rust_downstream_policy ::
  "gate_build \<Rightarrow> gate_host \<Rightarrow> path \<Rightarrow> downstream_policy \<Rightarrow> path option \<Rightarrow> string \<Rightarrow> bool \<Rightarrow> cache_store \<Rightarrow>
   (asp_rust_report \<times> cache_store) option" where
  "run_asp_rust_downstream_policy b g project_root p cache_root policy_digest assert_report store =
     (case snapshot_dev_gate_inputs_with_cache g project_root (downstream_config p) cache_root store of
        Some (Inr (snapshot, store')) \<Rightarrow>
          (case dev_gate_cache_key_with_policy_digest g (downstream_config p) PackageScope
              (dependency_baseline_package_receipts p) snapshot policy_digest of
             Inl e \<Rightarrow> None
           | Inr cache_key \<Rightarrow>
               (case Option.bind cache_root (\<lambda>dir. load_dev_gate_cache g store' dir cache_key) of
                  Some rec \<Rightarrow> map_option (\<lambda>r. (r, store')) (cached_gate b g project_root p assert_report rec)
                | None \<Rightarrow>
                    (case fresh_gate b g project_root p assert_report of
                       None \<Rightarrow> None
                     | Some (r, pl) \<Rightarrow> map_option (\<lambda>store''. (r, store''))
                         (publish_record g cache_root p cache_key snapshot r pl store'))))
      | _ \<Rightarrow> None)"

definition assert_asp_rust_downstream_policy ::
  "gate_build \<Rightarrow> gate_host \<Rightarrow> path option \<Rightarrow> path \<Rightarrow> downstream_policy \<Rightarrow> cache_store \<Rightarrow> (asp_rust_report \<times> cache_store) option" where
  "assert_asp_rust_downstream_policy b g state_home project_root p =
     run_asp_rust_downstream_policy b g project_root p (dev_gate_cache_root g project_root state_home)
       ''blake3-256:legacy-unbound-policy-authority'' True"

definition evaluate_asp_rust_downstream_policy ::
  "gate_build \<Rightarrow> gate_host \<Rightarrow> path option \<Rightarrow> path \<Rightarrow> downstream_policy \<Rightarrow> cache_store \<Rightarrow> (asp_rust_report \<times> cache_store) option" where
  "evaluate_asp_rust_downstream_policy b g state_home project_root p =
     run_asp_rust_downstream_policy b g project_root p (dev_gate_cache_root g project_root state_home)
       ''blake3-256:workspace-policy-authority'' False"

definition assert_asp_rust_downstream_policy_with_authority ::
  "gate_build \<Rightarrow> gate_host \<Rightarrow> path \<Rightarrow> downstream_policy \<Rightarrow> dev_gate_authority \<Rightarrow> cache_store \<Rightarrow> (asp_rust_report \<times> cache_store) option" where
  "assert_asp_rust_downstream_policy_with_authority b g project_root p a =
     run_asp_rust_downstream_policy b g project_root p (Some (authority_cache_root a)) (authority_policy_digest a) True"

section \<open>A workspace\<close>

record workspace_member_run_report =
  member_crate_label :: string
  member_project_root :: path
  member_report :: asp_rust_report

record workspace_run_report =
  run_workspace_root :: path
  run_build_dag :: asp_rust_workspace_build_dag
  run_members :: "workspace_member_run_report list"

definition evaluate_member ::
  "gate_build \<Rightarrow> gate_host \<Rightarrow> path option \<Rightarrow> workspace_policy \<Rightarrow> (string \<Rightarrow> asp_rust_config \<Rightarrow> asp_rust_config) \<Rightarrow>
   asp_rust_workspace_build_dag_package \<Rightarrow> cache_store \<Rightarrow> (workspace_member_run_report \<times> cache_store) option" where
  "evaluate_member b g state_home wp configure_member pkg store =
     (case evaluate_asp_rust_downstream_policy b g state_home (dag_package_root pkg)
         (member_crate_with_config wp (dag_package_name pkg) (configure_member (dag_package_name pkg))) store of
        None \<Rightarrow> None
      | Some (r, store') \<Rightarrow>
          if list_all (\<lambda>p. path_starts_with p (dag_package_root pkg)) (root_paths r)
          then Some (\<lparr>member_crate_label = dag_package_name pkg, member_project_root = dag_package_root pkg, member_report = r\<rparr>, store')
          else None)"

fun evaluate_members ::
  "gate_build \<Rightarrow> gate_host \<Rightarrow> path option \<Rightarrow> workspace_policy \<Rightarrow> (string \<Rightarrow> asp_rust_config \<Rightarrow> asp_rust_config) \<Rightarrow>
   asp_rust_workspace_build_dag_package list \<Rightarrow> cache_store \<Rightarrow> (workspace_member_run_report list \<times> cache_store) option" where
  "evaluate_members b g state_home wp configure_member [] store = Some ([], store)"
| "evaluate_members b g state_home wp configure_member (pkg # pkgs) store =
     (case evaluate_member b g state_home wp configure_member pkg store of
        None \<Rightarrow> None
      | Some (m, store') \<Rightarrow> map_option (\<lambda>(ms, store''). (m # ms, store''))
          (evaluate_members b g state_home wp configure_member pkgs store'))"

definition evaluate_asp_rust_workspace_build_dag_policy_with ::
  "gate_build \<Rightarrow> gate_host \<Rightarrow> path option \<Rightarrow> asp_rust_workspace_build_dag \<Rightarrow> workspace_policy \<Rightarrow>
   (string \<Rightarrow> asp_rust_config \<Rightarrow> asp_rust_config) \<Rightarrow> cache_store \<Rightarrow> (workspace_run_report \<times> cache_store) option" where
  "evaluate_asp_rust_workspace_build_dag_policy_with b g state_home dag wp configure_member store =
     map_option (\<lambda>(ms, store'). (\<lparr>run_workspace_root = dag_workspace_root dag, run_build_dag = dag, run_members = ms\<rparr>, store'))
       (evaluate_members b g state_home wp configure_member (dag_packages dag) store)"

definition assert_workspace_report_clean :: "workspace_run_report \<Rightarrow> bool" where
  "assert_workspace_report_clean r = (filter (\<lambda>m. \<not> is_clean (member_report m)) (run_members r) = [])"

definition accept_workspace_run :: "(workspace_run_report \<times> cache_store) option \<Rightarrow> (workspace_run_report \<times> cache_store) option" where
  "accept_workspace_run x = Option.bind x (\<lambda>(r, store). if assert_workspace_report_clean r then Some (r, store) else None)"

definition assert_asp_rust_workspace_build_dag_policy_with ::
  "gate_build \<Rightarrow> gate_host \<Rightarrow> path option \<Rightarrow> asp_rust_workspace_build_dag \<Rightarrow> workspace_policy \<Rightarrow>
   (string \<Rightarrow> asp_rust_config \<Rightarrow> asp_rust_config) \<Rightarrow> cache_store \<Rightarrow> (workspace_run_report \<times> cache_store) option" where
  "assert_asp_rust_workspace_build_dag_policy_with b g state_home dag wp configure_member store =
     accept_workspace_run (evaluate_asp_rust_workspace_build_dag_policy_with b g state_home dag wp configure_member store)"

definition evaluate_asp_rust_workspace_policy_with ::
  "gate_build \<Rightarrow> gate_host \<Rightarrow> ('g, 's) globset \<Rightarrow> path option \<Rightarrow> path \<Rightarrow> workspace_policy \<Rightarrow>
   (string \<Rightarrow> asp_rust_config \<Rightarrow> asp_rust_config) \<Rightarrow> cache_store \<Rightarrow> (workspace_run_report \<times> cache_store) option" where
  "evaluate_asp_rust_workspace_policy_with b g gs state_home workspace_root wp configure_member store =
     (case asp_rust_workspace_build_dag_of (host_fs (gh_host g)) (host_load (gh_host g)) gs
         (ignored_dir_names (workspace_config wp)) (include_hidden_dir_names (workspace_config wp)) workspace_root of
        Some (Inr dag) \<Rightarrow> evaluate_asp_rust_workspace_build_dag_policy_with b g state_home dag wp configure_member store
      | _ \<Rightarrow> None)"

definition assert_asp_rust_workspace_policy_with ::
  "gate_build \<Rightarrow> gate_host \<Rightarrow> ('g, 's) globset \<Rightarrow> path option \<Rightarrow> path \<Rightarrow> workspace_policy \<Rightarrow>
   (string \<Rightarrow> asp_rust_config \<Rightarrow> asp_rust_config) \<Rightarrow> cache_store \<Rightarrow> (workspace_run_report \<times> cache_store) option" where
  "assert_asp_rust_workspace_policy_with b g gs state_home workspace_root wp configure_member store =
     accept_workspace_run (evaluate_asp_rust_workspace_policy_with b g gs state_home workspace_root wp configure_member store)"

definition evaluate_asp_rust_workspace_policy ::
  "gate_build \<Rightarrow> gate_host \<Rightarrow> ('g, 's) globset \<Rightarrow> path option \<Rightarrow> path \<Rightarrow> workspace_policy \<Rightarrow> cache_store \<Rightarrow>
   (workspace_run_report \<times> cache_store) option" where
  "evaluate_asp_rust_workspace_policy b g gs state_home workspace_root wp =
     evaluate_asp_rust_workspace_policy_with b g gs state_home workspace_root wp (\<lambda>_ config. config)"

definition assert_asp_rust_workspace_policy ::
  "gate_build \<Rightarrow> gate_host \<Rightarrow> ('g, 's) globset \<Rightarrow> path option \<Rightarrow> path \<Rightarrow> workspace_policy \<Rightarrow> cache_store \<Rightarrow>
   (workspace_run_report \<times> cache_store) option" where
  "assert_asp_rust_workspace_policy b g gs state_home workspace_root wp =
     assert_asp_rust_workspace_policy_with b g gs state_home workspace_root wp (\<lambda>_ config. config)"

text \<open>The workspace that owns \<open>CARGO_MANIFEST_DIR\<close>; a missing variable panics.\<close>

definition assert_asp_rust_workspace_policy_from_env ::
  "gate_build \<Rightarrow> gate_host \<Rightarrow> ('g, 's) globset \<Rightarrow> path option \<Rightarrow> path option \<Rightarrow> workspace_policy \<Rightarrow> cache_store \<Rightarrow>
   (workspace_run_report \<times> cache_store) option" where
  "assert_asp_rust_workspace_policy_from_env b g gs state_home manifest_dir wp store =
     (case manifest_dir of
        None \<Rightarrow> None
      | Some dir \<Rightarrow> (case find_required_cargo_workspace_root (host_is_file (gh_host g)) (host_load (gh_host g)) dir of
          Inl e \<Rightarrow> None
        | Inr workspace_root \<Rightarrow> assert_asp_rust_workspace_policy b g gs state_home workspace_root wp store))"

definition evaluate_asp_rust_workspace_policy_from_env ::
  "gate_build \<Rightarrow> gate_host \<Rightarrow> ('g, 's) globset \<Rightarrow> path option \<Rightarrow> path option \<Rightarrow> workspace_policy \<Rightarrow> cache_store \<Rightarrow>
   (workspace_run_report \<times> cache_store) option" where
  "evaluate_asp_rust_workspace_policy_from_env b g gs state_home manifest_dir wp store =
     (case manifest_dir of
        None \<Rightarrow> None
      | Some dir \<Rightarrow> (case find_required_cargo_workspace_root (host_is_file (gh_host g)) (host_load (gh_host g)) dir of
          Inl e \<Rightarrow> None
        | Inr workspace_root \<Rightarrow> evaluate_asp_rust_workspace_policy b g gs state_home workspace_root wp store))"

section \<open>The cache is transparent\<close>

text \<open>What a gate computes before its assertions, without a cache, and the key it looks up.\<close>

definition gate_result :: "gate_host \<Rightarrow> path \<Rightarrow> downstream_policy \<Rightarrow> (asp_rust_report \<times> plan) option" where
  "gate_result g project_root p =
     (case analyze_rust_project_once (gh_host g) project_root (downstream_config p) PackageScope of
        Some (Inr a) \<Rightarrow> map_option (\<lambda>r. (r, plan_rust_verification_from_harness_analysis (gh_host g) a (verification_policy (downstream_config p))))
          (to_report (gh_host g) (downstream_config p) a)
      | _ \<Rightarrow> None)"

definition gate_accepts :: "gate_build \<Rightarrow> gate_host \<Rightarrow> path \<Rightarrow> downstream_policy \<Rightarrow> bool \<Rightarrow> asp_rust_report \<Rightarrow> plan \<Rightarrow> bool" where
  "gate_accepts b g project_root p assert_report r pl \<longleftrightarrow> report_accepted assert_report r p \<and>
     assert_asp_rust_verification_plan pl (verification_policy (downstream_config p)) \<and> assert_baseline_of b g project_root p"

definition current_key :: "gate_host \<Rightarrow> path \<Rightarrow> downstream_policy \<Rightarrow> string \<Rightarrow> string option" where
  "current_key g project_root p policy_digest =
     (case plain_snapshot g project_root (downstream_config p) of
        None \<Rightarrow> None
      | Some snapshot \<Rightarrow> (case dev_gate_cache_key_with_policy_digest g (downstream_config p) PackageScope
          (dependency_baseline_package_receipts p) snapshot policy_digest of Inl e \<Rightarrow> None | Inr key \<Rightarrow> Some key))"

text \<open>
  The invariant of a store on an unchanged host: the index agrees with the files, and a record under the current
  key holds what a run without the cache computes.
\<close>

definition cache_inv :: "gate_host \<Rightarrow> path \<Rightarrow> downstream_policy \<Rightarrow> string \<Rightarrow> path \<Rightarrow> cache_store \<Rightarrow> bool" where
  "cache_inv g project_root p policy_digest dir store \<longleftrightarrow>
     ascending (bmap_keys (store_records store)) \<and> ascending (bmap_keys (store_indexes store)) \<and>
     indexes_agree g project_root dir store \<and>
     (\<forall>key rec. current_key g project_root p policy_digest = Some key \<longrightarrow> load_dev_gate_cache g store dir key = Some rec \<longrightarrow>
       gate_result g project_root p = Some (cr_report rec, cr_verification_plan rec))"

lemma cache_inv_empty: "cache_inv g project_root p policy_digest dir \<lparr>store_records = [], store_indexes = []\<rparr>"
  by (simp add: cache_inv_def indexes_agree_def load_snapshot_digest_index_def load_dev_gate_cache_def)

lemma fresh_gate_eq:
  "fresh_gate b g project_root p assert_report = (case gate_result g project_root p of
     None \<Rightarrow> None | Some (r, pl) \<Rightarrow> if gate_accepts b g project_root p assert_report r pl then Some (r, pl) else None)"
  by (auto simp: fresh_gate_def gate_result_def gate_accepts_def Let_def split: option.splits sum.splits)

lemma run_without_cache:
  assumes "current_key g project_root p policy_digest = Some key"
  shows "run_asp_rust_downstream_policy b g project_root p None policy_digest assert_report store =
    map_option (\<lambda>(r, pl). (r, store)) (fresh_gate b g project_root p assert_report)"
proof -
  from assms obtain snap where "plain_snapshot g project_root (downstream_config p) = Some snap"
    and key: "dev_gate_cache_key_with_policy_digest g (downstream_config p) PackageScope
      (dependency_baseline_package_receipts p) snap policy_digest = Ok key"
    by (auto simp: current_key_def split: option.splits sum.splits)
  then have "snapshot_dev_gate_inputs_with_cache g project_root (downstream_config p) None store = Some (Ok (snap, store))"
    by (auto simp: plain_snapshot_def snapshot_dev_gate_inputs_with_cache_def and_then_Inr_iff Let_def split: option.splits sum.splits)
  then show ?thesis
    by (auto simp: run_asp_rust_downstream_policy_def key publish_record_def split: option.splits)
qed

lemma publish_record_inv:
  assumes "cache_inv g project_root p policy_digest dir store" "gate_result g project_root p = Some (r, pl)"
    and "publish_record g (Some dir) p key snap r pl store = Some store'"
  shows "cache_inv g project_root p policy_digest dir store'"
proof -
  from assms(3) obtain rec where rec: "store_dev_gate_cache g dir rec store = Ok store'"
    and r: "cr_report rec = r" "cr_verification_plan rec = pl"
    by (auto simp: publish_record_def Let_def split: sum.splits)
  from rec have indexes: "store_indexes store' = store_indexes store"
    and keys: "ascending (bmap_keys (store_records store)) \<Longrightarrow> ascending (bmap_keys (store_records store'))"
    by (auto simp: store_dev_gate_cache_def Let_def and_then_Inr_iff bmap_simps split: option.splits if_splits)
  have "gate_result g project_root p = Some (cr_report rec', cr_verification_plan rec')"
    if "current_key g project_root p policy_digest = Some key" "load_dev_gate_cache g store' dir key = Some rec'" for key rec'
    using load_stored_record [OF rec _ that(2)] assms(1,2) that(1) r by (auto simp: cache_inv_def)
  with assms(1) keys indexes show ?thesis
    by (simp add: cache_inv_def indexes_agree_def load_snapshot_digest_index_def)
qed

text \<open>
  C4: on an unchanged project a cached gate is transparent. Whatever a gate returns with a store that satisfies the
  invariant, it returns without a cache as well, and the new store satisfies the invariant again; the
  empty store satisfies it. So no sequence of cached gates accepts a report that the gate itself would not produce
  and accept.
\<close>

theorem cached_gate_transparent:
  assumes inv: "cache_inv g project_root p policy_digest dir store"
    and run: "run_asp_rust_downstream_policy b g project_root p (Some dir) policy_digest assert_report store = Some (r, store')"
  shows "run_asp_rust_downstream_policy b g project_root p None policy_digest assert_report store = Some (r, store) \<and>
    cache_inv g project_root p policy_digest dir store' \<and>
    cache_inv g project_root p policy_digest dir \<lparr>store_records = [], store_indexes = []\<rparr>"
proof -
  from run obtain snap store1 key where
    snapshot: "snapshot_dev_gate_inputs_with_cache g project_root (downstream_config p) (Some dir) store = Some (Ok (snap, store1))"
    and key: "dev_gate_cache_key_with_policy_digest g (downstream_config p) PackageScope
      (dependency_baseline_package_receipts p) snap policy_digest = Ok key"
    and rest: "(case load_dev_gate_cache g store1 dir key of
        Some rec \<Rightarrow> map_option (\<lambda>r. (r, store1)) (cached_gate b g project_root p assert_report rec)
      | None \<Rightarrow> (case fresh_gate b g project_root p assert_report of None \<Rightarrow> None
          | Some (r, pl) \<Rightarrow> map_option (\<lambda>store''. (r, store'')) (publish_record g (Some dir) p key snap r pl store1))) = Some (r, store')"
    by (auto simp: run_asp_rust_downstream_policy_def split: option.splits sum.splits)
  from snapshot_with_agreeing_index [OF _ _ snapshot] inv
  have plain: "plain_snapshot g project_root (downstream_config p) = Some snap"
    and inv1: "cache_inv g project_root p policy_digest dir store1"
    by (auto simp: cache_inv_def load_dev_gate_cache_def)
  have current: "current_key g project_root p policy_digest = Some key"
    by (simp add: current_key_def plain key)
  show ?thesis
  proof (cases "load_dev_gate_cache g store1 dir key")
    case (Some rec)
    with inv1 current have res: "gate_result g project_root p = Some (cr_report rec, cr_verification_plan rec)"
      by (auto simp: cache_inv_def)
    from rest Some have cached: "cached_gate b g project_root p assert_report rec = Some r" "store' = store1" by auto
    then have "r = cr_report rec" "gate_accepts b g project_root p assert_report r (cr_verification_plan rec)"
      by (auto simp: cached_gate_def gate_accepts_def split: if_splits)
    with res inv1 cached(2) run_without_cache [OF current] show ?thesis by (simp add: fresh_gate_eq cache_inv_empty)
  next
    case None
    with rest obtain pl where fresh: "fresh_gate b g project_root p assert_report = Some (r, pl)"
      and pub: "publish_record g (Some dir) p key snap r pl store1 = Some store'" by (auto split: option.splits)
    from fresh have "gate_result g project_root p = Some (r, pl)" by (auto simp: fresh_gate_eq split: option.splits if_splits)
    from publish_record_inv [OF inv1 this pub] fresh run_without_cache [OF current] show ?thesis by (simp add: cache_inv_empty)
  qed
qed


text \<open>A host whose files are empty and never fail, with a constant for every JSON text.\<close>

definition sample_gate :: "host \<Rightarrow> gate_host" where
  "sample_gate h = \<lparr>gh_host = h, gh_metadata = (\<lambda>_. Ok \<lparr>fm_len = 0, fm_modified = Ok 7\<rparr>), gh_read = (\<lambda>_. Ok []),
     gh_canonicalize_error = (\<lambda>_. []), gh_read_dir_error = (\<lambda>_. []), gh_sha256 = take 2,
     gh_files_json = (\<lambda>files. Ok (concat (map (\<lambda>f. display (sf_path f) @ [CHR 0x0A]) files))), gh_key_json = (\<lambda>k. Ok (km_content_snapshot_digest k)),
     gh_payload_json = (\<lambda>_. Ok []), gh_record_json = (\<lambda>_. Ok []), gh_index_json = (\<lambda>_. Ok []),
     gh_create_dir = (\<lambda>_. None), gh_create_file = (\<lambda>_. None), gh_write_file = (\<lambda>_. None), gh_rename = (\<lambda>_. None),
     gh_harness_version = ''1'', gh_provider_digest = ''p''\<rparr>"

abbreviation empty_store :: cache_store where
  "empty_store \<equiv> \<lparr>store_records = [], store_indexes = []\<rparr>"

lemma gate_result_returns:
  assumes "finite_manifests (gh_host g)" "host_exists (gh_host g) root" "\<not> isl (host_load (gh_host g) (path_push root ''Cargo.toml''))"
    and "has_package (parse_cargo_manifest (host_is_file (gh_host g)) (host_load (gh_host g)) root)"
  shows "gate_result g root p \<noteq> None"
proof -
  from analyze_rust_project_once_returns [OF assms(1), of root "downstream_config p" PackageScope] assms(2-4)
  obtain res where "analyze_rust_project_once (gh_host g) root (downstream_config p) PackageScope = Some res" "\<not> isl res"
    and of_res: "\<forall>a. res = Inr a \<longrightarrow> analysis_of (gh_host g) (downstream_config p) (run_roots (gh_host g) root (downstream_config p) PackageScope) a"
    by blast
  moreover from this obtain a where "res = Inr a" by (cases res) auto
  moreover from this of_res to_report_returns obtain r where "to_report (gh_host g) (downstream_config p) a = Some r" by blast
  ultimately show ?thesis by (simp add: gate_result_def)
qed

lemma run_with_empty_cache:
  assumes "snapshot_dev_gate_inputs_with_cache g root (downstream_config p) (Some dir) empty_store = Some (Ok (snap, store1))"
    and "dev_gate_cache_key_with_policy_digest g (downstream_config p) PackageScope (dependency_baseline_package_receipts p) snap digest = Ok key"
    and "gate_result g root p = Some (r, pl)" "gate_accepts b g root p assert_report r pl"
    and "store_records store1 = []" "publish_record g (Some dir) p key snap r pl store1 = Some store2"
  shows "run_asp_rust_downstream_policy b g root p (Some dir) digest assert_report empty_store = Some (r, store2)"
  using assms by (simp add: run_asp_rust_downstream_policy_def load_dev_gate_cache_def fresh_gate_eq)

definition sample_policy :: downstream_policy where
  "sample_policy = downstream_policy_new ''app'' default_config"

definition sample_build :: gate_build where
  "sample_build = \<lparr>gb_baseline_feature = True, gb_load_lock = (\<lambda>_. Err ''no lock'')\<rparr>"

definition sample_cache :: path where
  "sample_cache = [RootDir, Normal ''cache'']"

lemma snapshot_returns:
  assumes "host_canonicalize h root = Some root"
    and "cargo_package_exclusion_roots (host_fs h) (host_load h) root (ignored_dir_names config) (include_hidden_dir_names config) = Some excluded"
    and "case collect_snapshot_paths (sample_gate h) config root excluded empty_index (snapshot_inputs (sample_gate h) root config) ([], []) of
       Inl e \<Rightarrow> False | Inr st \<Rightarrow> list_all (\<lambda>f. sf_byte_count (snd f) = 0) (snd st)"
  shows "\<exists>snap store1. snapshot_dev_gate_inputs_with_cache (sample_gate h) root config (Some dir) empty_store = Some (Ok (snap, store1)) \<and>
    store_records store1 = []"
proof -
  have "list_all (\<lambda>f. sf_byte_count (snd f) = 0) fs \<Longrightarrow> checked_sum (map sf_byte_count (bmap_values fs)) 0 = Some 0" for fs :: "(path \<times> snapshot_file) list"
    by (induction fs) auto
  with assms show ?thesis
    by (auto simp: snapshot_dev_gate_inputs_with_cache_def load_snapshot_digest_index_def snapshot_of_files_def map_error_def
      store_snapshot_digest_index_def prepare_publish_def sample_gate_def split: sum.splits option.splits)
qed

lemma sample_key_and_record:
  "\<exists>key. dev_gate_cache_key_with_policy_digest (sample_gate h) config PackageScope baseline snap digest = Ok key"
  "\<exists>store2. publish_record (sample_gate h) (Some dir) p key snap r pl store = Some store2"
  by (simp_all add: dev_gate_cache_key_with_policy_digest_def publish_record_def dev_gate_cache_payload_digest_def
      store_dev_gate_cache_def prepare_publish_def map_error_def sample_gate_def Let_def)

theorem cached_gate_transparent_witness:
  "\<exists>r store. run_asp_rust_downstream_policy sample_build (sample_gate sample_host) sample_root sample_policy (Some sample_cache) ''d'' False empty_store = Some (r, store) \<and>
     run_asp_rust_downstream_policy sample_build (sample_gate sample_host) sample_root sample_policy None ''d'' False empty_store = Some (r, empty_store)"
proof -
  let ?g = "sample_gate sample_host"
  have excluded: "cargo_package_exclusion_roots (host_fs sample_host) (host_load sample_host) sample_root
      (ignored_dir_names default_config) (include_hidden_dir_names default_config) = Some [sample_root @ [Normal ''core'']]"
    by code_simp
  have collected: "case collect_snapshot_paths ?g default_config sample_root [sample_root @ [Normal ''core'']] empty_index
      (snapshot_inputs ?g sample_root default_config) ([], []) of
      Inl e \<Rightarrow> False | Inr st \<Rightarrow> list_all (\<lambda>f. sf_byte_count (snd f) = 0) (snd st)"
    by code_simp
  have config: "downstream_config sample_policy = default_config" "downstream_baseline sample_policy = None"
    by (simp_all add: sample_policy_def downstream_policy_new_def)
  obtain snap store1 where snapshot: "snapshot_dev_gate_inputs_with_cache ?g sample_root (downstream_config sample_policy)
      (Some sample_cache) empty_store = Some (Ok (snap, store1))" "store_records store1 = []"
    using snapshot_returns [OF _ excluded collected, of sample_cache] by (auto simp: sample_host_def config)
  obtain key where key: "dev_gate_cache_key_with_policy_digest ?g (downstream_config sample_policy) PackageScope
      (dependency_baseline_package_receipts sample_policy) snap ''d'' = Ok key"
    using sample_key_and_record(1) by blast
  have host: "gh_host ?g = sample_host" by (simp add: sample_gate_def)
  have "finite_manifests sample_host"
    unfolding sample_host_def host.select_convs sample_fs_def by (rule finite_manifest_dirs) (rule finite_dom_map_of)
  moreover have "host_exists sample_host sample_root" "\<not> isl (host_load sample_host (path_push sample_root ''Cargo.toml''))"
    "has_package (parse_cargo_manifest (host_is_file sample_host) (host_load sample_host) sample_root)"
    by code_simp+
  ultimately obtain r pl where result: "gate_result ?g sample_root sample_policy = Some (r, pl)"
    using gate_result_returns [of ?g sample_root sample_policy] unfolding host by auto
  have none: "\<not> configured_verification_task_kind (verification_policy default_config) Performance"
    "\<not> configured_verification_task_kind (verification_policy default_config) Stability" by code_simp+
  then have accepts: "gate_accepts sample_build ?g sample_root sample_policy False r pl"
    by (simp add: gate_accepts_def report_accepted_def assert_asp_rust_verification_plan_def assert_baseline_of_def config)
  obtain store2 where "publish_record ?g (Some sample_cache) sample_policy key snap r pl store1 = Some store2"
    using sample_key_and_record(2) by blast
  note run = run_with_empty_cache [OF snapshot(1) key result accepts snapshot(2) this]
  from run cached_gate_transparent [OF cache_inv_empty run] show ?thesis by blast
qed


section \<open>What the snapshot leaves out\<close>

text \<open>A package whose configuration excludes tests, before and after a file is put at the root of \<open>tests/\<close>.\<close>

definition late_fs :: "bool \<Rightarrow> file_system" where
  "late_fs late = map_of
     ((if late then [(sample_root @ [Normal ''tests''], Dir_node True [(''late.rs'', File_node)])] else []) @
      [(sample_root, Dir_node True ([(''Cargo.toml'', File_node), (''src'', Dir_node True [(''lib.rs'', File_node)])] @
          (if late then [(''tests'', Dir_node True [(''late.rs'', File_node)])] else []))),
       (sample_root @ [Normal ''Cargo.toml''], File_node),
       (sample_root @ [Normal ''src''], Dir_node True [(''lib.rs'', File_node)])])"

definition late_load :: manifest_loader where
  "late_load p = (if p = sample_root @ [Normal ''Cargo.toml''] then Ok (sample_manifest ''app'' []) else Err ''not found'')"

definition late_host :: "bool \<Rightarrow> host" where
  "late_host late = \<lparr>host_fs = late_fs late, host_load = late_load, host_canonicalize = Some,
     host_read_to_string = (\<lambda>_. Ok []), host_parse = (\<lambda>_ _. Inr native_syntax_facts_default)\<rparr>"

definition late_policy :: downstream_policy where
  "late_policy = downstream_policy_new ''app'' (default_config\<lparr>include_tests := False\<rparr>)"

lemma late_config: "downstream_config late_policy = default_config\<lparr>include_tests := False\<rparr>"
  by (simp add: late_policy_def downstream_policy_new_def)

lemma late_finite: "finite_manifests (late_host late)"
  unfolding late_host_def host.select_convs late_fs_def by (rule finite_manifest_dirs) (rule finite_dom_map_of)

lemma late_project:
  "host_exists (late_host late) sample_root" "\<not> isl (host_load (late_host late) (path_push sample_root ''Cargo.toml''))"
  "has_package (parse_cargo_manifest (host_is_file (late_host late)) (host_load (late_host late)) sample_root)"
  "cargo_package_exclusion_roots (host_fs (late_host late)) (host_load (late_host late)) sample_root
     (ignored_dir_names default_config) (include_hidden_dir_names default_config) = Some []"
  "monitored_paths (config_scope (late_host late) sample_root (default_config\<lparr>include_tests := False\<rparr>)) = [sample_root @ [Normal ''src'']]"
  "layout_violations (late_host late) sample_root =
     (if late then [(''RUST-AGENT-PROJECT-001'', sample_root @ [Normal ''tests'', Normal ''late.rs''])] else [])"
  "host_is_file (late_host late) (sample_root @ [Normal ''Cargo.toml''])"
  by (induction late; code_simp)+

lemma late_nodes:
  "host_fs (late_host late) (sample_root @ [Normal ''src'']) = Some (Dir_node True [(''lib.rs'', File_node)])"
  "host_fs (late_host late) (sample_root @ [Normal ''Cargo.toml'']) = Some File_node"
  by (simp_all add: late_host_def late_fs_def sample_root_def)

text \<open>A snapshot reads the host only through the listing of its inputs.\<close>

lemma gate_host_fields:
  "gh_metadata (g\<lparr>gh_host := h\<rparr>) = gh_metadata g" "gh_read (g\<lparr>gh_host := h\<rparr>) = gh_read g"
  "gh_files_json (g\<lparr>gh_host := h\<rparr>) = gh_files_json g" "gh_key_json (g\<lparr>gh_host := h\<rparr>) = gh_key_json g"
  "gh_harness_version (g\<lparr>gh_host := h\<rparr>) = gh_harness_version g" "gh_provider_digest (g\<lparr>gh_host := h\<rparr>) = gh_provider_digest g"
  "content_digest (g\<lparr>gh_host := h\<rparr>) = content_digest g"
  by (simp_all add: fun_eq_iff content_digest_def cache_digest_hex_def)

lemma snapshot_host:
  "record_snapshot_file (g\<lparr>gh_host := h\<rparr>) = record_snapshot_file g"
  "snapshot_of_files (g\<lparr>gh_host := h\<rparr>) = snapshot_of_files g"
  "dev_gate_cache_key_with_policy_digest (g\<lparr>gh_host := h\<rparr>) = dev_gate_cache_key_with_policy_digest g"
  unfolding record_snapshot_file_def snapshot_file_of_def snapshot_of_files_def
    dev_gate_cache_key_with_policy_digest_def gate_host_fields by (rule refl)+

lemma late_snapshot:
  "plain_snapshot (g\<lparr>gh_host := late_host True\<rparr>) sample_root (downstream_config late_policy) =
   plain_snapshot (g\<lparr>gh_host := late_host False\<rparr>) sample_root (downstream_config late_policy)"
proof -
  have "collect_snapshot_paths (g\<lparr>gh_host := late_host late\<rparr>) config sample_root [] empty_index
      (snapshot_inputs (g\<lparr>gh_host := late_host late\<rparr>) sample_root (default_config\<lparr>include_tests := False\<rparr>)) st =
    and_then (record_snapshot_file g sample_root empty_index (sample_root @ [Normal ''src'', Normal ''lib.rs'']) st)
      (record_snapshot_file g sample_root empty_index (sample_root @ [Normal ''Cargo.toml'']))" for late config st
    by (simp add: snapshot_inputs_def late_project late_nodes collect_snapshot_path_def collect_snapshot_node.simps
        snapshot_host Let_def and_then_def split: sum.split)
  moreover have "host_canonicalize (late_host late) root = Some root" for late root by (simp add: late_host_def)
  ultimately show ?thesis
    by (simp add: plain_snapshot_def snapshot_dev_gate_inputs_with_cache_def late_config late_project snapshot_host)
qed

text \<open>
  C7: a stale report from the cache, on a concrete project: a package with \<open>Cargo.toml\<close> and \<open>src/lib.rs\<close>, under a
  policy that excludes tests. Its snapshot lists \<open>Cargo.toml\<close> and \<open>src/\<close> and not \<open>tests/\<close>, although the test layout rules read it.
  Whatever the digests and the serialisation are, putting the file \<open>tests/late.rs\<close> into the package leaves the cache key as it was, while a run
  without the cache now reports it; so a gate with a cache goes on returning the earlier report. (A package with no \<open>src/\<close> is
  monitored at its root, and there a file of \<open>tests/\<close> does change the key.)
\<close>

theorem gate_key_misses_tests:
  "current_key (g\<lparr>gh_host := late_host True\<rparr>) sample_root late_policy digest =
     current_key (g\<lparr>gh_host := late_host False\<rparr>) sample_root late_policy digest \<and>
   (\<exists>r0 pl0 r1 pl1. gate_result (g\<lparr>gh_host := late_host False\<rparr>) sample_root late_policy = Some (r0, pl0) \<and>
     gate_result (g\<lparr>gh_host := late_host True\<rparr>) sample_root late_policy = Some (r1, pl1) \<and>
     map reported_at (layout_findings (findings r0)) = [] \<and>
     map reported_at (layout_findings (findings r1)) =
       [(''RUST-AGENT-PROJECT-001'', Some (sample_root @ [Normal ''tests'', Normal ''late.rs'']))])"
proof -
  have "\<exists>r pl. gate_result (g\<lparr>gh_host := late_host late\<rparr>) sample_root late_policy = Some (r, pl) \<and>
      map reported_at (layout_findings (findings r)) = map (map_prod id Some) (layout_violations (late_host late) sample_root)" for late
  proof -
    obtain r pl where result: "gate_result (g\<lparr>gh_host := late_host late\<rparr>) sample_root late_policy = Some (r, pl)"
      using gate_result_returns [of "g\<lparr>gh_host := late_host late\<rparr>" sample_root late_policy] late_finite late_project(1-3) by auto
    then obtain a where "analyze_rust_project_once (late_host late) sample_root (downstream_config late_policy) PackageScope = Some (Inr a)"
      "to_report (late_host late) (downstream_config late_policy) a = Some r"
      by (auto simp: gate_result_def split: option.splits sum.splits)
    from package_analysis_layout [OF this] result show ?thesis by (auto simp: late_config default_config_def)
  qed
  from this [of True] this [of False] obtain r0 pl0 r1 pl1 where
    "gate_result (g\<lparr>gh_host := late_host False\<rparr>) sample_root late_policy = Some (r0, pl0)"
    "map reported_at (layout_findings (findings r0)) = []"
    "gate_result (g\<lparr>gh_host := late_host True\<rparr>) sample_root late_policy = Some (r1, pl1)"
    "map reported_at (layout_findings (findings r1)) = map (map_prod id Some) (layout_violations (late_host True) sample_root)"
    by (metis late_project(6) list.map(1))
  moreover have "current_key (g\<lparr>gh_host := late_host True\<rparr>) sample_root late_policy digest =
      current_key (g\<lparr>gh_host := late_host False\<rparr>) sample_root late_policy digest"
    unfolding current_key_def late_snapshot snapshot_host by (rule refl)
  ultimately show ?thesis by (simp add: late_project(6))
qed


section \<open>The audit of a workspace\<close>

abbreviation confined :: "workspace_member_run_report \<Rightarrow> bool" where
  "confined m \<equiv> list_all (\<lambda>p. path_starts_with p (member_project_root m)) (root_paths (member_report m))"

lemma evaluate_members_follow_packages:
  "evaluate_members b g home wp configure pkgs store = Some (ms, store') \<Longrightarrow>
   map (\<lambda>m. (member_crate_label m, member_project_root m)) ms = map (\<lambda>p. (dag_package_name p, dag_package_root p)) pkgs \<and>
   list_all confined ms"
  by (induction pkgs arbitrary: ms store)
    (auto simp: evaluate_member_def split: option.splits if_splits)

text \<open>
  C5: the audit of a workspace reports on every package of the build DAG, once and in the order of the DAG, under its
  name and root, and no member report scans a path outside its package; the assertion of the workspace policy returns
  that report exactly when every member is clean, and panics otherwise or when one of the member gates panics.
\<close>

theorem workspace_audit_exact:
  "case evaluate_asp_rust_workspace_build_dag_policy_with b g home dag wp configure store of
     None \<Rightarrow> assert_asp_rust_workspace_build_dag_policy_with b g home dag wp configure store = None
   | Some (r, store') \<Rightarrow>
       map (\<lambda>m. (member_crate_label m, member_project_root m)) (run_members r) =
         map (\<lambda>p. (dag_package_name p, dag_package_root p)) (dag_packages dag) \<and>
       list_all (\<lambda>m. list_all (\<lambda>p. path_starts_with p (member_project_root m)) (root_paths (member_report m))) (run_members r) \<and>
       assert_asp_rust_workspace_build_dag_policy_with b g home dag wp configure store =
         (if list_all (\<lambda>m. is_clean (member_report m)) (run_members r) then Some (r, store') else None)"
  by (auto simp: assert_asp_rust_workspace_build_dag_policy_with_def accept_workspace_run_def assert_workspace_report_clean_def
      evaluate_asp_rust_workspace_build_dag_policy_with_def filter_empty_conv list_all_iff
      dest: evaluate_members_follow_packages split: option.split)

end
