(* ===== verification/Verification_Index.thy ===== *)
theory Verification_Index
  imports Planner Rule_Evaluation
begin

text \<open>
  What is read off a verification plan: the task index (\<open>src/verification/task_index.rs\<close>), the performance and
  stability indexes (\<open>performance.rs\<close>, \<open>stability.rs\<close>), the stability picture (\<open>stability_picture.rs\<close>) and the
  compact renderer of plans (\<open>render.rs\<close>). The records of the performance and of the stability index have the same
  fields, so both are the record \<open>status_record\<close>; the JSON renderers are calls of \<open>serde_json\<close> and have no counterpart.
\<close>

section \<open>The task index\<close>

record task_record =
  tr_fingerprint :: string
  tr_kind :: task_kind
  tr_state :: task_state
  tr_phase :: phase
  tr_package_root :: path
  tr_owner_path :: path
  tr_owner_namespace :: "string list"
  tr_line :: "nat option"
  tr_skill :: "string option"
  tr_contract_ref :: "string option"
  tr_required_evidence_keys :: "string list"
  tr_task_evidence :: "evidence list"
  tr_receipt_summary :: "string option"
  tr_receipt_evidence_uri :: "string option"
  tr_receipt_observed_at :: "string option"

record task_index =
  ti_project_root :: path
  ti_records :: "task_record list"

definition task_index_is_empty :: "task_index \<Rightarrow> bool" where
  "task_index_is_empty ix \<longleftrightarrow> ti_records ix = []"

definition task_records_in_state :: "task_state \<Rightarrow> task_index \<Rightarrow> task_record list" where
  "task_records_in_state s ix = filter (\<lambda>r. tr_state r = s) (ti_records ix)"

definition task_records_for_kind :: "task_kind \<Rightarrow> task_index \<Rightarrow> task_record list" where
  "task_records_for_kind k ix = filter (\<lambda>r. tr_kind r = k) (ti_records ix)"

definition task_record_of :: "task \<Rightarrow> task_record" where
  "task_record_of t = \<lparr>tr_fingerprint = fingerprint t, tr_kind = kind t, tr_state = state t, tr_phase = task_phase t,
     tr_package_root = package_root t, tr_owner_path = owner_path t, tr_owner_namespace = owner_namespace t, tr_line = line t,
     tr_skill = map_option binding_compact_label (task_skill_binding t), tr_contract_ref = skill_contract_ref t,
     tr_required_evidence_keys = map req_key (required_evidence t), tr_task_evidence = task_evidence t,
     tr_receipt_summary = receipt_summary t, tr_receipt_evidence_uri = receipt_evidence_uri t,
     tr_receipt_observed_at = receipt_observed_at t\<rparr>"

definition build_rust_verification_task_index :: "plan \<Rightarrow> task_index" where
  "build_rust_verification_task_index pl =
     \<lparr>ti_project_root = plan_project_root pl,
      ti_records = sort_key (\<lambda>r. (tr_kind r, tr_owner_path r, tr_fingerprint r))
        (map task_record_of (filter (\<lambda>t. task_skill_binding t \<noteq> None) (tasks pl)))\<rparr>"

section \<open>The performance and stability indexes\<close>

record status_record =
  sr_fingerprint :: string
  sr_state :: task_state
  sr_phase :: phase
  sr_package_root :: path
  sr_owner_path :: path
  sr_owner_namespace :: "string list"
  sr_skill :: "string option"
  sr_contract_ref :: "string option"
  sr_required_evidence_keys :: "string list"
  sr_task_evidence :: "evidence list"
  sr_receipt_summary :: "string option"
  sr_receipt_evidence_uri :: "string option"
  sr_receipt_observed_at :: "string option"
  sr_receipt_evidence :: "evidence list"

record status_index =
  si_project_root :: path
  si_records :: "status_record list"

type_synonym performance_record = status_record
type_synonym stability_record = status_record
type_synonym performance_index = status_index
type_synonym stability_index = status_index

definition receipt_evidence_value :: "string \<Rightarrow> status_record \<Rightarrow> string option" where
  "receipt_evidence_value key r = map_option ev_value (find (\<lambda>e. ev_label e = key) (sr_receipt_evidence r))"

definition owner_matches :: "path \<Rightarrow> path \<Rightarrow> status_record \<Rightarrow> bool" where
  "owner_matches project_root owner r \<longleftrightarrow> sr_owner_path r = owner \<or>
     strip_prefix (sr_owner_path r) project_root = Some owner \<or> strip_prefix (sr_owner_path r) (sr_package_root r) = Some owner"

definition records_for_owner :: "path \<Rightarrow> status_index \<Rightarrow> status_record list" where
  "records_for_owner owner ix = filter (owner_matches (si_project_root ix) owner) (si_records ix)"

definition records_for_package :: "path \<Rightarrow> status_index \<Rightarrow> status_record list" where
  "records_for_package root ix = filter (\<lambda>r. sr_package_root r = root \<or>
     strip_prefix (sr_package_root r) (si_project_root ix) = Some root) (si_records ix)"

definition records_in_state :: "task_state \<Rightarrow> status_index \<Rightarrow> status_record list" where
  "records_in_state s ix = filter (\<lambda>r. sr_state r = s) (si_records ix)"

definition records_with_receipt_evidence :: "string \<Rightarrow> status_index \<Rightarrow> status_record list" where
  "records_with_receipt_evidence key ix = filter (\<lambda>r. receipt_evidence_value key r \<noteq> None) (si_records ix)"

text \<open>The keys a receipt lacks, with a set of the present keys and by looking each key up.\<close>

definition performance_missing_keys :: "performance_record \<Rightarrow> string list" where
  "performance_missing_keys r =
     (let present_keys = bset_of_list (map ev_label (sr_receipt_evidence r))
      in filter (\<lambda>key. key \<notin> set present_keys) (sr_required_evidence_keys r))"

definition stability_missing_keys :: "stability_record \<Rightarrow> string list" where
  "stability_missing_keys r = List.map_filter (\<lambda>key. if receipt_evidence_value key r = None then Some key else None)
     (sr_required_evidence_keys r)"

definition performance_record_of :: "task \<Rightarrow> performance_record" where
  "performance_record_of t = \<lparr>sr_fingerprint = fingerprint t, sr_state = state t, sr_phase = task_phase t,
     sr_package_root = package_root t, sr_owner_path = owner_path t, sr_owner_namespace = owner_namespace t,
     sr_skill = map_option binding_compact_label (task_skill_binding t), sr_contract_ref = skill_contract_ref t,
     sr_required_evidence_keys = map req_key (required_evidence t), sr_task_evidence = task_evidence t,
     sr_receipt_summary = receipt_summary t, sr_receipt_evidence_uri = receipt_evidence_uri t,
     sr_receipt_observed_at = receipt_observed_at t, sr_receipt_evidence = receipt_evidence t\<rparr>"

definition build_rust_verification_performance_index :: "plan \<Rightarrow> performance_index" where
  "build_rust_verification_performance_index pl =
     \<lparr>si_project_root = plan_project_root pl,
      si_records = sort_key (\<lambda>r. (sr_owner_path r, sr_fingerprint r))
        (map performance_record_of (filter (\<lambda>t. kind t = Performance) (tasks pl)))\<rparr>"

definition stability_record_of :: "task \<Rightarrow> stability_record" where
  "stability_record_of t = \<lparr>sr_fingerprint = fingerprint t, sr_state = state t, sr_phase = task_phase t,
     sr_package_root = package_root t, sr_owner_path = owner_path t, sr_owner_namespace = owner_namespace t,
     sr_skill = map_option binding_compact_label (task_skill_binding t), sr_contract_ref = skill_contract_ref t,
     sr_required_evidence_keys = map req_key (required_evidence t), sr_task_evidence = task_evidence t,
     sr_receipt_summary = receipt_summary t, sr_receipt_evidence_uri = receipt_evidence_uri t,
     sr_receipt_observed_at = receipt_observed_at t, sr_receipt_evidence = receipt_evidence t\<rparr>"

definition build_rust_verification_stability_index :: "plan \<Rightarrow> stability_index" where
  "build_rust_verification_stability_index pl =
     \<lparr>si_project_root = plan_project_root pl,
      si_records = sort_key (\<lambda>r. (sr_owner_path r, sr_fingerprint r))
        (map stability_record_of (filter (\<lambda>t. kind t = Stability) (tasks pl)))\<rparr>"

subsection \<open>Rendering\<close>

abbreviation newline :: string where "newline \<equiv> [CHR 0x0A]"

definition display_root_of :: "path \<Rightarrow> path option" where
  "display_root_of project_root = (if project_root = [] then None else Some project_root)"

definition optional_text :: "string \<Rightarrow> string option \<Rightarrow> string \<Rightarrow> string" where
  "optional_text label x ending = (case x of None \<Rightarrow> [] | Some v \<Rightarrow> label @ v @ ending)"

definition render_status_record :: "string \<Rightarrow> (status_record \<Rightarrow> string list) \<Rightarrow> path option \<Rightarrow> status_record \<Rightarrow> string" where
  "render_status_record head missing_keys display_root r =
     (let root = (case display_root of Some d \<Rightarrow> d | None \<Rightarrow> sr_package_root r); missing = missing_keys r in
      head @ display_project_path root (sr_owner_path r) @ newline @
      (if sr_owner_namespace r = [] then [] else ''   |owner: '' @ join_with ''/'' (sr_owner_namespace r) @ newline) @
      ''   |state: '' @ task_state_str (sr_state r) @ '' phase='' @ phase_str (sr_phase r) @
      '' fingerprint='' @ sr_fingerprint r @
      optional_text '' skill='' (sr_skill r) [] @ optional_text '' contract_ref='' (sr_contract_ref r) [] @ newline @
      optional_text ''   |receipt: '' (sr_receipt_summary r) newline @
      optional_text ''   |observed_at: '' (sr_receipt_observed_at r) newline @
      (if sr_receipt_evidence r = [] then []
       else ''   |evidence: '' @ join_with '','' (map (\<lambda>e. ev_label e @ ''='' @ ev_value e) (sr_receipt_evidence r)) @ newline) @
      (if state_is_active (sr_state r) \<and> missing \<noteq> [] then ''   |missing: '' @ join_with '','' missing @ newline else []) @
      optional_text ''   |artifact: '' (sr_receipt_evidence_uri r) newline)"

definition render_performance_record :: "path option \<Rightarrow> performance_record \<Rightarrow> string" where
  "render_performance_record = render_status_record ''[perf-state] '' performance_missing_keys"

definition render_rust_verification_performance_index :: "performance_index \<Rightarrow> string" where
  "render_rust_verification_performance_index ix =
     join_with newline (map (render_performance_record (display_root_of (si_project_root ix))) (si_records ix))"

definition render_stability_record :: "path option \<Rightarrow> stability_record \<Rightarrow> string" where
  "render_stability_record = render_status_record ''[stability-state] '' stability_missing_keys"

definition render_rust_verification_stability_index :: "stability_index \<Rightarrow> string" where
  "render_rust_verification_stability_index ix =
     join_with newline (map (render_stability_record (display_root_of (si_project_root ix))) (si_records ix))"


section \<open>The stability picture\<close>

text \<open>The setters of the configuration.\<close>

definition with_long_running_simulation_required :: "bool \<Rightarrow> stability_config \<Rightarrow> stability_config" where
  "with_long_running_simulation_required required c = c\<lparr>require_long_running_simulation := required\<rparr>"
definition with_performance_interface_required :: "bool \<Rightarrow> stability_config \<Rightarrow> stability_config" where
  "with_performance_interface_required required c = c\<lparr>require_performance_interface := required\<rparr>"
definition with_resource_delta_required :: "bool \<Rightarrow> stability_config \<Rightarrow> stability_config" where
  "with_resource_delta_required required c = c\<lparr>require_resource_delta := required\<rparr>"
definition with_state_growth_required :: "bool \<Rightarrow> stability_config \<Rightarrow> stability_config" where
  "with_state_growth_required required c = c\<lparr>require_state_growth := required\<rparr>"
definition with_determinism_required :: "bool \<Rightarrow> stability_config \<Rightarrow> stability_config" where
  "with_determinism_required required c = c\<lparr>require_determinism := required\<rparr>"
definition with_stability_artifact_required :: "bool \<Rightarrow> stability_config \<Rightarrow> stability_config" where
  "with_stability_artifact_required required c = c\<lparr>require_stability_artifact := required\<rparr>"
definition with_min_iterations :: "nat \<Rightarrow> stability_config \<Rightarrow> stability_config" where
  "with_min_iterations iterations c = c\<lparr>min_iterations := Some iterations\<rparr>"
definition with_min_duration_seconds :: "nat \<Rightarrow> stability_config \<Rightarrow> stability_config" where
  "with_min_duration_seconds seconds c = c\<lparr>min_duration_seconds := Some seconds\<rparr>"

record picture_record =
  pr_fingerprint :: string
  pr_state :: task_state
  pr_package_root :: path
  pr_owner_path :: path
  pr_required_evidence_keys :: "string list"
  pr_missing_evidence_keys :: "string list"
  pr_config_warnings :: "(string \<times> string) list"
  pr_next_actions :: "string list"

record picture =
  pic_project_root :: path
  pic_config :: stability_config
  pic_records :: "picture_record list"

definition actionable_records :: "picture \<Rightarrow> picture_record list" where
  "actionable_records pic = filter (\<lambda>r. state_is_active (pr_state r) \<or> pr_missing_evidence_keys r \<noteq> []) (pic_records pic)"

definition stability_picture_next_actions :: "stability_config \<Rightarrow> string list \<Rightarrow> string list" where
  "stability_picture_next_actions c missing =
     (if list_ex (\<lambda>key. key = ''stability_command'' \<or> key = ''iteration_window'') missing
      then [''add long-running simulation receipt'' @
        optional_text '' iterations>='' (map_option show_nat (min_iterations c)) [] @
        optional_text '' duration_s>='' (map_option show_nat (min_duration_seconds c)) []] else []) @
     (if ''latency_distribution'' \<in> set missing then [''add performance interface latency distribution''] else []) @
     (if ''resource_delta'' \<in> set missing then [''add resource growth evidence''] else []) @
     (if ''state_growth'' \<in> set missing then [''add state growth evidence''] else []) @
     (if ''determinism'' \<in> set missing then [''add deterministic replay evidence''] else []) @
     (if ''stability_artifact'' \<in> set missing then [''persist stability artifact''] else [])"

definition picture_record_of :: "stability_config \<Rightarrow> stability_record \<Rightarrow> picture_record" where
  "picture_record_of c r =
     (let required = required_receipt_evidence_keys c;
          missing = filter (\<lambda>key. receipt_evidence_value key r = None) required
      in \<lparr>pr_fingerprint = sr_fingerprint r, pr_state = sr_state r, pr_package_root = sr_package_root r,
          pr_owner_path = sr_owner_path r, pr_required_evidence_keys = required, pr_missing_evidence_keys = missing,
          pr_config_warnings = stability_config_review c, pr_next_actions = stability_picture_next_actions c missing\<rparr>)"

definition picture_from_index_with_config :: "stability_index \<Rightarrow> (stability_record \<Rightarrow> stability_config) \<Rightarrow> picture" where
  "picture_from_index_with_config ix config_for_record =
     \<lparr>pic_project_root = si_project_root ix,
      pic_config = (case si_records ix of [] \<Rightarrow> stability_config_default | r # _ \<Rightarrow> config_for_record r),
      pic_records = map (\<lambda>r. picture_record_of (config_for_record r) r) (si_records ix)\<rparr>"

definition build_rust_verification_stability_picture_from_index :: "stability_index \<Rightarrow> stability_config \<Rightarrow> picture" where
  "build_rust_verification_stability_picture_from_index ix c = picture_from_index_with_config ix (\<lambda>_. c)"

definition build_rust_verification_stability_picture :: "plan \<Rightarrow> stability_config \<Rightarrow> picture" where
  "build_rust_verification_stability_picture pl c =
     build_rust_verification_stability_picture_from_index (build_rust_verification_stability_index pl) c"

definition profile_hint_matches_record :: "profile_hint \<Rightarrow> stability_record \<Rightarrow> bool" where
  "profile_hint_matches_record h r \<longleftrightarrow> sr_owner_path r = hint_owner_path h \<or>
     strip_prefix (sr_owner_path r) (sr_package_root r) = Some (hint_owner_path h)"

definition api_path_baseline_matches_record :: "api_path_baseline \<Rightarrow> stability_record \<Rightarrow> bool" where
  "api_path_baseline_matches_record b r \<longleftrightarrow>
     profile_hint_matches_record (profile_hint_new (api_owner_path b) (api_responsibilities b)) r \<and>
     list_ex (\<lambda>e. ev_label e = ''api_path'' \<and> ev_value e = api_evidence_value b) (sr_task_evidence r)"

definition stability_picture_config_for_record :: "policy \<Rightarrow> stability_config \<Rightarrow> stability_record \<Rightarrow> stability_config" where
  "stability_picture_config_for_record p fallback r =
     (case Option.bind (find (\<lambda>b. api_path_baseline_matches_record b r) (api_path_baselines p)) api_stability_picture of
        Some c \<Rightarrow> c
      | None \<Rightarrow> (case Option.bind (find (\<lambda>h. profile_hint_matches_record h r) (profile_hints p)) hint_stability_picture of
          Some c \<Rightarrow> c | None \<Rightarrow> fallback))"

definition build_rust_verification_stability_picture_from_index_with_policy ::
  "stability_index \<Rightarrow> policy \<Rightarrow> stability_config \<Rightarrow> picture" where
  "build_rust_verification_stability_picture_from_index_with_policy ix p fallback =
     picture_from_index_with_config ix (stability_picture_config_for_record p fallback)"

definition build_rust_verification_stability_picture_with_policy :: "plan \<Rightarrow> policy \<Rightarrow> stability_config \<Rightarrow> picture" where
  "build_rust_verification_stability_picture_with_policy pl p fallback =
     build_rust_verification_stability_picture_from_index_with_policy (build_rust_verification_stability_index pl) p fallback"

definition render_stability_picture_record :: "path option \<Rightarrow> picture_record \<Rightarrow> string" where
  "render_stability_picture_record display_root r =
     (let root = (case display_root of Some d \<Rightarrow> d | None \<Rightarrow> pr_package_root r) in
      ''   |owner: '' @ display_project_path root (pr_owner_path r) @ '' state='' @ task_state_str (pr_state r) @
      '' fingerprint='' @ pr_fingerprint r @ newline @
      (if pr_missing_evidence_keys r = [] then [] else ''   |missing: '' @ join_with '','' (pr_missing_evidence_keys r) @ newline) @
      (if pr_config_warnings r = [] then []
       else ''   |config_warnings: '' @ join_with '','' (map fst (pr_config_warnings r)) @ newline) @
      (if pr_next_actions r = [] then [] else ''   |next: '' @ join_with '';'' (pr_next_actions r) @ newline))"

definition render_rust_verification_stability_picture :: "picture \<Rightarrow> string" where
  "render_rust_verification_stability_picture pic = trim_end (
     ''[stability-picture] records='' @ show_nat (length (pic_records pic)) @
     '' actionable='' @ show_nat (length (actionable_records pic)) @
     '' axes='' @ join_with '','' (required_receipt_evidence_keys (pic_config pic)) @ newline @
     optional_text ''   |min_iterations: '' (map_option show_nat (min_iterations (pic_config pic))) newline @
     optional_text ''   |min_duration_seconds: '' (map_option show_nat (min_duration_seconds (pic_config pic))) newline @
     concat (map (render_stability_picture_record (display_root_of (pic_project_root pic))) (pic_records pic)))"

section \<open>The compact plan\<close>

definition display_path_below :: "path \<Rightarrow> path \<Rightarrow> string" where
  "display_path_below root p = replace_char (CHR 0x5C) (CHR ''/'')
     (display (case strip_prefix p root of Some relative \<Rightarrow> relative | None \<Rightarrow> p))"

text \<open>\<open>replacen(' ', ":", 1)\<close>.\<close>

fun replace_first_space :: "string \<Rightarrow> string" where
  "replace_first_space [] = []"
| "replace_first_space (c # cs) = (if c = CHR '' '' then CHR '':'' # cs else c # replace_first_space cs)"

definition task_api_path :: "task \<Rightarrow> string option" where
  "task_api_path t = map_option (replace_first_space \<circ> ev_value) (find (\<lambda>e. ev_label e = ''api_path'') (task_evidence t))"

definition render_task_resolution :: "task \<Rightarrow> string" where
  "render_task_resolution t =
     optional_text (''   |receipt: '' @ task_kind_str (kind t) @ ''='') (receipt_summary t) newline @
     concat (map (\<lambda>note. ''   |resolution: '' @ task_kind_str (kind t) @ ''.'' @ note_label note @ ''='' @ note_detail note @ newline)
       (resolution_notes t))"

definition render_task :: "task \<Rightarrow> string" where
  "render_task t =
     (let k = task_kind_str (kind t) in
      ''   |'' @ k @ '': '' @ task_state_str (state t) @ '' phase='' @ phase_str (task_phase t) @ '' fingerprint='' @ fingerprint t @
      optional_text '' skill='' (map_option binding_compact_label (task_skill_binding t)) [] @
      optional_text '' contract_ref='' (skill_contract_ref t) [] @
      optional_text '' api='' (task_api_path t) [] @ newline @
      optional_text (''   |line: '' @ k @ ''='') (map_option show_nat (line t)) newline @
      (if task_skill_binding t \<noteq> None then render_task_resolution t
       else ''   |why: '' @ k @ ''='' @ reason t @ newline @ render_task_resolution t @
         (if required_evidence t = [] then []
          else ''   |requires: '' @ k @ ''='' @ join_with '','' (map req_key (required_evidence t)) @ newline) @
         concat (map (\<lambda>e. ''   |fact: '' @ k @ ''.'' @ ev_label e @ ''='' @ ev_value e @ newline) (task_evidence t)) @
         ''   |contract: '' @ k @ ''='' @ required_receipt t @ newline))"

definition owner_key :: "task \<Rightarrow> path \<times> path \<times> string list" where
  "owner_key t = (package_root t, owner_path t, owner_namespace t)"

definition render_owner_group :: "path option \<Rightarrow> (path \<times> path \<times> string list) \<times> task list \<Rightarrow> string" where
  "render_owner_group display_root g =
     (let ((root, owner, namespace), ts) = g in
      ''[verify] '' @ display_path_below (case display_root of Some d \<Rightarrow> d | None \<Rightarrow> root) owner @ newline @
      (if namespace = [] then [] else ''   |owner: '' @ join_with ''/'' namespace @ newline) @
      concat (map render_task (sort_key (\<lambda>t. (kind t, fingerprint t)) ts)))"

definition render_report_obligations :: "plan \<Rightarrow> string" where
  "render_report_obligations pl =
     (if report_obligations pl = [] then []
      else trim_end (''[verify-report]'' @ newline @
        ''   |bundle: renderer=render_rust_verification_report_bundle_json artifact=verification_report_bundle.json artifacts='' @
        show_nat (length (report_obligations pl)) @ newline @
        concat (map (\<lambda>ob. ''   |required: '' @ obligation_key ob @ '' renderer='' @ obligation_renderer ob @
          '' artifact='' @ suggested_artifact_name ob @ '' tasks='' @ show_nat (obligation_task_count ob) @
          '' kinds='' @ join_with '','' (map task_kind_str (obligation_task_kinds ob)) @ newline) (report_obligations pl))))"

definition render_rust_verification_plan :: "plan \<Rightarrow> string" where
  "render_rust_verification_plan pl =
     (let rendered = join_with newline (map (render_owner_group (display_root_of (plan_project_root pl)))
            (group_by owner_key id (active_tasks pl)));
          obligations = render_report_obligations pl
      in if rendered = [] then obligations
         else if obligations = [] then rendered
         else rendered @ newline @ obligations)"

definition render_skill_descriptor :: "skill_descriptor \<Rightarrow> string" where
  "render_skill_descriptor d =
     (let entry = (\<lambda>label v. if v = [] then [] else label @ v @ newline);
          entries = (\<lambda>label vs. if vs = [] then [] else label @ join_with '','' vs @ newline)
      in ''[skill-contract] '' @ descriptor_compact_label d @ newline @
         entry ''   |tool: '' (descriptor_tool d) @ entry ''   |run: '' (descriptor_command d) @
         entry ''   |standard: '' (descriptor_standard d) @ entries ''   |inputs: '' (descriptor_required_inputs d) @
         entries ''   |pass: '' (descriptor_pass_criteria d) @ entries ''   |receipt: '' (descriptor_receipt_fields d))"

definition render_rust_verification_skill_contracts :: "plan \<Rightarrow> string" where
  "render_rust_verification_skill_contracts pl = join_with newline (map render_skill_descriptor (plan_skill_descriptors pl))"


section \<open>What the indexes contain\<close>

lemma find_None_label: "find (\<lambda>e. ev_label e = key) es = None \<longleftrightarrow> key \<notin> ev_label ` set es"
  by (auto simp: find_None_iff)

lemma map_filter_if: "List.map_filter (\<lambda>x. if P x then Some x else None) xs = filter P xs"
  by (induction xs) (simp_all add: map_filter_simps)

lemma missing_keys_agree: "performance_missing_keys r = stability_missing_keys r"
  by (simp add: performance_missing_keys_def stability_missing_keys_def receipt_evidence_value_def find_None_label map_filter_if)

lemma trim_end_keeps:
  assumes "c \<in> set s" "list_all (\<lambda>w. c \<notin> set w) white_space"
  shows "c \<in> set (trim_end s)"
proof -
  have head: "c \<in> set t'" if "strip_head ws t = Some t'" "c \<in> set t" "list_all (\<lambda>w. c \<notin> set w) ws" for ws t t'
    using that
  proof (induction ws)
    case (Cons w ws)
    show ?case
    proof (cases "w \<noteq> [] \<and> starts_with t w")
      case True
      with Cons.prems have "t = w @ t'" by (auto simp: starts_with_def) (metis append_take_drop_id)
      with Cons.prems show ?thesis by simp
    qed (use Cons in auto)
  qed simp
  have "c \<in> set t \<Longrightarrow> list_all (\<lambda>w. c \<notin> set w) ws \<Longrightarrow> c \<in> set (strip_all ws t)" for ws t
    by (induction ws t rule: strip_all.induct) (subst strip_all.simps, auto split: option.split dest: head)
  with assms show ?thesis by (simp add: trim_end_def list_all_iff)
qed

lemma render_report_obligations_empty: "render_report_obligations pl = [] \<longleftrightarrow> report_obligations pl = []"
proof -
  have "list_all (\<lambda>w. CHR ''['' \<notin> set w) white_space" by code_simp
  then have "CHR ''['' \<in> set (trim_end (CHR ''['' # s))" for s by (rule trim_end_keeps [rotated]) simp
  then have "trim_end (CHR ''['' # s) \<noteq> []" for s by (metis list.set_intros(1) list.set(1) empty_iff)
  then show ?thesis by (simp add: render_report_obligations_def)
qed

lemma join_with_empty: "(\<And>x. x \<in> set xs \<Longrightarrow> x \<noteq> []) \<Longrightarrow> join_with sep xs = [] \<longleftrightarrow> xs = []"
  by (cases xs; cases "tl xs") auto

lemma group_by_empty: "group_by f g xs = [] \<longleftrightarrow> xs = []"
proof -
  have "xs \<noteq> [] \<Longrightarrow> group_by f g xs \<noteq> []"
    using group_by_iff [of "f (hd xs)" "map g (filter (\<lambda>x. f x = f (hd xs)) xs)" f g xs]
    by (cases xs) auto
  then show ?thesis by (auto simp: group_by_def)
qed

lemma render_plan_empty:
  "render_rust_verification_plan pl = [] \<longleftrightarrow> is_clear pl \<and> report_obligations pl = []"
proof -
  have "join_with newline (map (render_owner_group d) gs) = [] \<longleftrightarrow> gs = []" for d gs
    by (subst join_with_empty) (auto simp: render_owner_group_def Let_def split: prod.splits)
  then show ?thesis
    by (simp add: render_rust_verification_plan_def Let_def group_by_empty render_report_obligations_empty is_clear_def)
qed

lemma plan_obligations_empty:
  "report_obligations (plan_rust_verification_from_analysis root p trees) = [] \<longleftrightarrow>
   is_clear (plan_rust_verification_from_analysis root p trees)"
proof -
  let ?plan = "plan_rust_verification_from_analysis root p trees"
  let ?ts = "bmap_values (plan_collector root p trees [])"
  have "report_obligations ?plan = report_obligations_for_tasks ?ts"
    by (simp add: plan_rust_verification_from_analysis_def Let_def collect_all_tasks_collector)
  moreover have "set (active_tasks ?plan) = set (filter is_active ?ts)"
    by (simp only: active_tasks_def set_filter set_plan_tasks)
  ultimately show ?thesis unfolding is_clear_def obligation_fingerprints_for_tasks(1) [symmetric] by (metis obligation_fingerprints_for_tasks(1) set_empty)
qed

text \<open>
  The compact rendering of a plan of the planner is empty exactly when the plan has no active task. The renderer
  omits satisfied and waived tasks and prints the report obligations after the owners; no active task is
  rendered as nothing, and a clear plan asks for no report.
\<close>

lemma plan_rendering_empty_iff_clear:
  "render_rust_verification_plan (plan_rust_verification_from_analysis root p trees) = [] \<longleftrightarrow>
   is_clear (plan_rust_verification_from_analysis root p trees)"
  by (simp add: render_plan_empty plan_obligations_empty)

section \<open>Pictures of hints below the project root\<close>

text \<open>A workspace package whose stability task comes from a hint that names its owner below the project root.\<close>

definition relaxed_picture :: stability_config where
  "relaxed_picture = with_determinism_required False stability_config_default"

definition member_hint :: profile_hint where
  "member_hint = (hint_with_rationale ''soak'' (hint_with_task_kinds [Stability]
     (profile_hint_new [Normal ''app'', Normal ''src'', Normal ''lib.rs''] [AvailabilityCritical])))
     \<lparr>hint_stability_picture := Some relaxed_picture\<rparr>"

definition member_policy :: policy where
  "member_policy = with_profile_hint member_hint policy_default"

definition member_root :: path where "member_root = [RootDir, Normal ''ws'', Normal ''app'']"

definition member_module :: reasoning_module where
  "member_module = sample_module member_root [Normal ''src'', Normal ''lib.rs'']"

definition member_plan :: plan where
  "member_plan = plan_rust_verification_from_analysis [RootDir, Normal ''ws''] member_policy
     [sample_tree member_root [member_module]]"

lemma member_hint_fields [simp]:
  "hint_owner_path member_hint = [Normal ''app'', Normal ''src'', Normal ''lib.rs'']"
  "hint_responsibilities member_hint = [AvailabilityCritical]" "hint_task_kinds member_hint = Some [Stability]"
  "hint_task_contract_overrides member_hint = []" "hint_rationale member_hint = Some ''soak''"
  "hint_stability_picture member_hint = Some relaxed_picture"
  by (simp_all add: member_hint_def hint_with_rationale_def hint_with_task_kinds_def profile_hint_new_def bset_of_list_def)

lemma member_policy_fields [simp]:
  "profile_hints member_policy = [member_hint]" "api_path_baselines member_policy = []" "disabled_task_kinds member_policy = []"
  by (simp_all add: member_policy_def with_profile_hint_def policy_default_def)

lemma member_resolved:
  "get_config_path (tree_lookup [RootDir, Normal ''ws''] (sample_tree member_root [member_module]))
     [Normal ''app'', Normal ''src'', Normal ''lib.rs''] = Some member_module"
  by (simp add: tree_lookup_def get_config_path_lookup sample_tree_def sample_module_def is_absolute_def strip_prefix_Some
      member_module_def member_root_def)

lemma member_plan_tasks:
  "tasks member_plan = [profile_skill_task [RootDir, Normal ''ws''] member_root member_policy member_module member_hint Stability]"
proof -
  have rationale: "normalized_hint_rationale member_hint \<noteq> None" by code_simp
  have collected: "collect_profile_tasks [RootDir, Normal ''ws''] member_root
      (tree_lookup [RootDir, Normal ''ws''] (sample_tree member_root [member_module])) member_policy ([], []) =
    ([0], [(fingerprint t, t)])"
    if t: "t = profile_skill_task [RootDir, Normal ''ws''] member_root member_policy member_module member_hint Stability" for t
    unfolding collect_profile_tasks_def collect_profile_hint_def
    by (simp add: member_resolved collect_skill_tasks_from_profile_def collect_profile_config_review_tasks_def
        collect_profile_conflict_task_def profile_no_responsibilities_task_def profile_override_tasks_def
        profile_unused_contract_task_def task_kinds_for_profile_def hint_rationale_is_empty_def push_task_def rationale
        bset_of_list_def bset_inter_def bmap_or_insert_def t Let_def)
  then show ?thesis
    by (simp add: member_plan_def plan_rust_verification_from_analysis_def collect_all_tasks_def
        collect_package_verification_tasks_def tree_lookup_def collect_unmatched_profile_hints_def
        collect_unmatched_api_path_baselines_def collect_api_path_baseline_tasks_def collect_regression_tasks_def
        sample_tree_def [of member_root, THEN arg_cong [of _ _ tree_package_root]]
        sample_tree_def [of member_root, THEN arg_cong [of _ _ tree_owner_branches]] Let_def)
qed


lemma member_fields [simp]:
  "plan_project_root member_plan = [RootDir, Normal ''ws'']"
  "mod_path member_module = [RootDir, Normal ''ws'', Normal ''app'', Normal ''src'', Normal ''lib.rs'']"
  by (simp_all add: member_plan_def plan_rust_verification_from_analysis_def member_module_def sample_module_def member_root_def Let_def)

lemma skill_task_fields [simp]:
  "kind (profile_skill_task a b p m h k) = k" "owner_path (profile_skill_task a b p m h k) = mod_path m"
  "package_root (profile_skill_task a b p m h k) = b"
  by (simp_all add: profile_skill_task_def new_skill_task_def Let_def)

text \<open>
  A hint that names its owner below the project root yields its stability task, and the index finds
  that task under the same path, but the stability picture looks for an absolute path or one below the package
  root only: the picture configured in the hint is not used, and every record gets the default configuration.
\<close>

lemma picture_misses_project_relative_hint:
  "map kind (tasks member_plan) = [Stability] \<and>
   map sr_owner_path (records_for_owner (hint_owner_path member_hint) (build_rust_verification_stability_index member_plan)) =
     [[RootDir, Normal ''ws'', Normal ''app'', Normal ''src'', Normal ''lib.rs'']] \<and>
   map (stability_picture_config_for_record member_policy fallback) (si_records (build_rust_verification_stability_index member_plan)) =
     [fallback] \<and>
   hint_stability_picture member_hint = Some relaxed_picture"
  by (simp add: member_plan_tasks build_rust_verification_stability_index_def records_for_owner_def owner_matches_def
      stability_record_of_def stability_picture_config_for_record_def profile_hint_matches_record_def member_root_def
      strip_prefix_Some)

section \<open>What a picture asks for\<close>

lemma known_axes: "set (required_receipt_evidence_keys c) \<subseteq> {''stability_command'', ''iteration_window'', ''latency_distribution'',
    ''resource_delta'', ''state_growth'', ''determinism'', ''stability_artifact''}"
  by (auto simp: required_receipt_evidence_keys_def)

text \<open>Every missing axis has an action, and nothing else has: a record asks for nothing exactly when its receipt is complete.\<close>

lemma picture_actions_iff_missing:
  "list_all (\<lambda>r. (pr_next_actions r = []) = (pr_missing_evidence_keys r = [])) (pic_records (picture_from_index_with_config ix f))"
proof -
  have "stability_picture_next_actions c missing = [] \<longleftrightarrow> missing = []" if sub: "set missing \<subseteq> set (required_receipt_evidence_keys c)" for c missing
  proof
    have nil: "(if P then [x] else []) = [] \<longleftrightarrow> \<not> P" for P and x :: string by simp
    assume "stability_picture_next_actions c missing = []"
    then have "set missing \<inter> {''stability_command'', ''iteration_window'', ''latency_distribution'',
        ''resource_delta'', ''state_growth'', ''determinism'', ''stability_artifact''} = {}"
      unfolding stability_picture_next_actions_def append_is_Nil_conv nil list_ex_iff by blast
    then have "set missing = {}" using order_trans [OF sub known_axes] by (simp only: Int_absorb2)
    then show "missing = []" by simp
  qed (simp add: stability_picture_next_actions_def)
  then show ?thesis by (auto simp: picture_from_index_with_config_def picture_record_of_def list_all_iff Let_def)
qed

end
