(* ===== verification/Stability_Runtime.thy ===== *)
theory Stability_Runtime
  imports Verification_Index "HOL-Library.Word"
begin

text \<open>
  Receipts of long-running stability runs and the comparison of two of them, \<open>src/verification/stability_runtime.rs\<close>.
  Counts are \<open>u64\<close> and deltas \<open>i64\<close>, both words of 64 bits: \<open>as i64\<close> keeps the bits, and \<open>sint\<close> reads a delta. A
  subtraction that overflows panics in a build with overflow checks and wraps in one without; the flag
  \<open>checked\<close> says which build runs.
\<close>

record stability_run =
  run_command :: string
  run_iterations :: "64 word"
  run_duration_seconds :: "64 word"
  run_rss_delta_bytes :: "64 word option"
  run_fd_delta :: "64 word option"
  run_thread_delta :: "64 word option"
  run_state_delta_bytes :: "64 word option"
  run_determinism_hash :: "string option"

definition stability_run_new :: "string \<Rightarrow> 64 word \<Rightarrow> 64 word \<Rightarrow> stability_run" where
  "stability_run_new command iterations seconds = \<lparr>run_command = command, run_iterations = iterations,
     run_duration_seconds = seconds, run_rss_delta_bytes = None, run_fd_delta = None, run_thread_delta = None,
     run_state_delta_bytes = None, run_determinism_hash = None\<rparr>"

definition with_resource_deltas :: "64 word \<Rightarrow> 64 word \<Rightarrow> 64 word \<Rightarrow> stability_run \<Rightarrow> stability_run" where
  "with_resource_deltas rss fd threads r =
     r\<lparr>run_rss_delta_bytes := Some rss, run_fd_delta := Some fd, run_thread_delta := Some threads\<rparr>"

definition with_state_delta_bytes :: "64 word \<Rightarrow> stability_run \<Rightarrow> stability_run" where
  "with_state_delta_bytes delta r = r\<lparr>run_state_delta_bytes := Some delta\<rparr>"

definition with_determinism_hash :: "string \<Rightarrow> stability_run \<Rightarrow> stability_run" where
  "with_determinism_hash hash r = r\<lparr>run_determinism_hash := Some hash\<rparr>"

definition receipt_evidence_of_run :: "stability_run \<Rightarrow> (string \<times> string) list" where
  "receipt_evidence_of_run r =
     (let show_delta = (\<lambda>d. show_int (case d of None \<Rightarrow> 0 | Some v \<Rightarrow> sint v)) in
      [(''stability_command'', run_command r),
       (''iteration_window'', show_nat (unat (run_iterations r)) @ '' iterations duration_s='' @ show_nat (unat (run_duration_seconds r)))] @
      (if run_rss_delta_bytes r \<noteq> None \<or> run_fd_delta r \<noteq> None \<or> run_thread_delta r \<noteq> None
       then [(''resource_delta'', ''rss_bytes='' @ show_delta (run_rss_delta_bytes r) @ '' fd='' @ show_delta (run_fd_delta r) @
         '' threads='' @ show_delta (run_thread_delta r))] else []) @
      (case run_state_delta_bytes r of None \<Rightarrow> [] | Some d \<Rightarrow> [(''state_growth'', ''state_delta_bytes='' @ show_int (sint d))]) @
      (case run_determinism_hash r of None \<Rightarrow> [] | Some hash \<Rightarrow> [(''determinism'', ''hash='' @ hash)]))"

record baseline_delta =
  iteration_delta :: "64 word"
  duration_delta_seconds :: "64 word"
  delta_rss_bytes :: "64 word option"
  delta_fd :: "64 word option"
  delta_thread :: "64 word option"
  delta_state_bytes :: "64 word option"
  determinism_changed :: bool

definition i64_range :: "int \<Rightarrow> bool" where
  "i64_range i \<longleftrightarrow> - (2 ^ 63) \<le> i \<and> i < 2 ^ 63"

definition sub_i64 :: "bool \<Rightarrow> 64 word \<Rightarrow> 64 word \<Rightarrow> 64 word option" where
  "sub_i64 checked a b = (if checked \<and> \<not> i64_range (sint a - sint b) then None else Some (a - b))"

text \<open>The outer option is a panic.\<close>

definition optional_delta :: "bool \<Rightarrow> 64 word option \<Rightarrow> 64 word option \<Rightarrow> 64 word option option" where
  "optional_delta checked baseline current =
     (case (baseline, current) of
        (Some b, Some c) \<Rightarrow> map_option Some (sub_i64 checked c b)
      | _ \<Rightarrow> Some None)"

definition compare_rust_verification_stability_runs :: "bool \<Rightarrow> stability_run \<Rightarrow> stability_run \<Rightarrow> baseline_delta option" where
  "compare_rust_verification_stability_runs checked baseline current =
     Option.bind (sub_i64 checked (run_iterations current) (run_iterations baseline)) (\<lambda>iterations.
     Option.bind (sub_i64 checked (run_duration_seconds current) (run_duration_seconds baseline)) (\<lambda>seconds.
     Option.bind (optional_delta checked (run_rss_delta_bytes baseline) (run_rss_delta_bytes current)) (\<lambda>rss.
     Option.bind (optional_delta checked (run_fd_delta baseline) (run_fd_delta current)) (\<lambda>fd.
     Option.bind (optional_delta checked (run_thread_delta baseline) (run_thread_delta current)) (\<lambda>threads.
     Option.bind (optional_delta checked (run_state_delta_bytes baseline) (run_state_delta_bytes current)) (\<lambda>state_bytes.
       Some \<lparr>iteration_delta = iterations, duration_delta_seconds = seconds, delta_rss_bytes = rss, delta_fd = fd,
             delta_thread = threads, delta_state_bytes = state_bytes,
             determinism_changed = (run_determinism_hash baseline \<noteq> None \<and> run_determinism_hash current \<noteq> None \<and>
               run_determinism_hash baseline \<noteq> run_determinism_hash current)\<rparr>))))))"

section \<open>When the deltas are exact\<close>

lemma sint_of_small:
  assumes "unat (a :: 64 word) < 2 ^ 63"
  shows "sint a = int (unat a)"
proof -
  from assms have "int (unat a) < int (2 ^ 63)" by (simp only: of_nat_less_iff)
  then have "signed_take_bit 63 (uint a) = uint a" by (intro signed_take_bit_int_eq_self) (simp_all add: order_trans [OF _ uint_ge_0])
  then show ?thesis by (simp add: sint_uint)
qed

lemma sub_i64_exact: "i64_range (sint a - sint b) \<Longrightarrow> \<exists>d. sub_i64 checked a b = Some d \<and> sint d = sint a - sint b"
  using signed_take_bit_int_eq_self [of 63 "sint a - sint b"] by (simp add: sub_i64_def i64_range_def sint_word_diff)

lemma sub_counts_exact:
  "unat a < 2 ^ 63 \<Longrightarrow> unat b < 2 ^ 63 \<Longrightarrow> \<exists>d. sub_i64 checked a b = Some d \<and> sint d = int (unat a) - int (unat b)"
  using sub_i64_exact [of a b checked] sint_of_small [of a] sint_of_small [of b]
  by (simp add: i64_range_def del: of_nat_unat)

definition exact_delta :: "64 word option \<Rightarrow> 64 word option \<Rightarrow> int option" where
  "exact_delta baseline current = (case (baseline, current) of (Some b, Some c) \<Rightarrow> Some (sint c - sint b) | _ \<Rightarrow> None)"

definition delta_fits :: "64 word option \<Rightarrow> 64 word option \<Rightarrow> bool" where
  "delta_fits baseline current = (case exact_delta baseline current of None \<Rightarrow> True | Some i \<Rightarrow> i64_range i)"

lemma optional_delta_exact:
  "delta_fits b c \<Longrightarrow> \<exists>d. optional_delta checked b c = Some d \<and> map_option sint d = exact_delta b c"
  using sub_i64_exact by (fastforce simp: delta_fits_def optional_delta_def exact_delta_def split: option.splits)

text \<open>
  C9: two stability runs with counts below \<open>2\<^sup>6\<^sup>3\<close>, whose paired resource deltas differ by a number that fits an
  \<open>i64\<close>, are compared without a panic in either kind of build, and every delta is the mathematical difference, present exactly when both
  runs report the measure. The bound on the counts is sharp: a run of \<open>2\<^sup>6\<^sup>3\<close> iterations after one of none is reported as
  a loss of that many.
\<close>

theorem stability_deltas_exact:
  assumes "unat (run_iterations b) < 2 ^ 63" "unat (run_iterations c) < 2 ^ 63"
    and "unat (run_duration_seconds b) < 2 ^ 63" "unat (run_duration_seconds c) < 2 ^ 63"
    and "delta_fits (run_rss_delta_bytes b) (run_rss_delta_bytes c)" "delta_fits (run_fd_delta b) (run_fd_delta c)"
    and "delta_fits (run_thread_delta b) (run_thread_delta c)" "delta_fits (run_state_delta_bytes b) (run_state_delta_bytes c)"
  shows "(\<exists>d. compare_rust_verification_stability_runs checked b c = Some d \<and>
      sint (iteration_delta d) = int (unat (run_iterations c)) - int (unat (run_iterations b)) \<and>
      sint (duration_delta_seconds d) = int (unat (run_duration_seconds c)) - int (unat (run_duration_seconds b)) \<and>
      map_option sint (delta_rss_bytes d) = exact_delta (run_rss_delta_bytes b) (run_rss_delta_bytes c) \<and>
      map_option sint (delta_fd d) = exact_delta (run_fd_delta b) (run_fd_delta c) \<and>
      map_option sint (delta_thread d) = exact_delta (run_thread_delta b) (run_thread_delta c) \<and>
      map_option sint (delta_state_bytes d) = exact_delta (run_state_delta_bytes b) (run_state_delta_bytes c)) \<and>
    map_option (sint \<circ> iteration_delta)
      (compare_rust_verification_stability_runs checked (stability_run_new cmd 0 s) (stability_run_new cmd (2 ^ 63) s)) = Some (- (2 ^ 63))"
proof
  from sub_counts_exact [OF assms(2,1), of checked] sub_counts_exact [OF assms(4,3), of checked] optional_delta_exact [OF assms(5), of checked] optional_delta_exact [OF assms(6), of checked]
    optional_delta_exact [OF assms(7), of checked] optional_delta_exact [OF assms(8), of checked]
  show "\<exists>d. compare_rust_verification_stability_runs checked b c = Some d \<and>
      sint (iteration_delta d) = int (unat (run_iterations c)) - int (unat (run_iterations b)) \<and>
      sint (duration_delta_seconds d) = int (unat (run_duration_seconds c)) - int (unat (run_duration_seconds b)) \<and>
      map_option sint (delta_rss_bytes d) = exact_delta (run_rss_delta_bytes b) (run_rss_delta_bytes c) \<and>
      map_option sint (delta_fd d) = exact_delta (run_fd_delta b) (run_fd_delta c) \<and>
      map_option sint (delta_thread d) = exact_delta (run_thread_delta b) (run_thread_delta c) \<and>
      map_option sint (delta_state_bytes d) = exact_delta (run_state_delta_bytes b) (run_state_delta_bytes c)"
    unfolding compare_rust_verification_stability_runs_def by (auto simp: bind_eq_Some_conv)
  have "sub_i64 checked s s = Some 0" by (simp add: sub_i64_def i64_range_def)
  moreover have "sub_i64 checked (2 ^ 63) 0 = Some (2 ^ 63)" "sint (2 ^ 63 :: 64 word) = - (2 ^ 63)"
    by (simp_all add: sub_i64_def i64_range_def)
  ultimately show "map_option (sint \<circ> iteration_delta)
      (compare_rust_verification_stability_runs checked (stability_run_new cmd 0 s) (stability_run_new cmd (2 ^ 63) s)) = Some (- (2 ^ 63))"
    by (simp add: compare_rust_verification_stability_runs_def stability_run_new_def optional_delta_def)
qed

theorem stability_deltas_exact_witness:
  "\<exists>d. compare_rust_verification_stability_runs True (with_resource_deltas 9 (- 4) 2 (stability_run_new ''soak'' 500 60))
       (with_resource_deltas (- 1) 3 2 (stability_run_new ''soak'' 400 90)) = Some d \<and>
     sint (iteration_delta d) = - 100 \<and> sint (duration_delta_seconds d) = 30 \<and> map_option sint (delta_rss_bytes d) = Some (- 10) \<and>
     map_option sint (delta_fd d) = Some 7 \<and> delta_state_bytes d = None"
  using stability_deltas_exact [of "with_resource_deltas 9 (- 4) 2 (stability_run_new ''soak'' 500 60)"
      "with_resource_deltas (- 1) 3 2 (stability_run_new ''soak'' 400 90)" True "[]" 0]
  by (auto simp: with_resource_deltas_def stability_run_new_def delta_fits_def exact_delta_def i64_range_def)

end
