(* ===== verification/Verification_Reports.thy ===== *)
theory Verification_Reports
  imports Verification_Index Verification_Analysis
begin

text \<open>
  The modular report manifests of a verification plan: the options and roles of \<open>src/verification/report_options.rs\<close>, the
  bundle of \<open>report.rs\<close>, its schema check (\<open>report_manifest.rs\<close>), the reading order for agents
  (\<open>report_select.rs\<close>) and the payload of an artifact (\<open>report_artifact.rs\<close>). The encoders of \<open>serde_json\<close> are the fields
  of the record \<open>json_encoders\<close>; each gives the text or its error.
\<close>

section \<open>Options and roles\<close>

definition ANALYSIS_PROFILE_ARTIFACT_KEY :: string where "ANALYSIS_PROFILE_ARTIFACT_KEY = ''analysis_profile_json''"
definition SELECTION_ADVICE_SIDECAR_KEY :: string where "SELECTION_ADVICE_SIDECAR_KEY = ''selection_advice_json''"
definition STABILITY_PICTURE_ARTIFACT_KEY :: string where "STABILITY_PICTURE_ARTIFACT_KEY = ''stability_picture_json''"

datatype report_persistence = RuntimeCache | SourceBaseline

primrec persistence_str :: "report_persistence \<Rightarrow> string" where
  "persistence_str RuntimeCache = ''runtime_cache''"
| "persistence_str SourceBaseline = ''source_baseline''"

datatype artifact_role = PromptState | SkillDispatchIndex | BaselineEvidence | AnalysisProfile | CustomArtifact

primrec artifact_role_str :: "artifact_role \<Rightarrow> string" where
  "artifact_role_str PromptState = ''prompt_state''"
| "artifact_role_str SkillDispatchIndex = ''skill_dispatch_index''"
| "artifact_role_str BaselineEvidence = ''baseline_evidence''"
| "artifact_role_str AnalysisProfile = ''analysis_profile''"
| "artifact_role_str CustomArtifact = ''custom''"

datatype sidecar_role = SelectionAdvice | CustomSidecar

primrec sidecar_role_str :: "sidecar_role \<Rightarrow> string" where
  "sidecar_role_str SelectionAdvice = ''selection_advice''"
| "sidecar_role_str CustomSidecar = ''custom''"

record trace_config =
  trace_profile :: string
  trace_max_seconds :: "nat option"
  trace_sample_interval_ms :: "nat option"
  trace_include_raw :: bool

definition trace_new :: "string \<Rightarrow> trace_config" where
  "trace_new profile = \<lparr>trace_profile = profile, trace_max_seconds = None, trace_sample_interval_ms = None, trace_include_raw = False\<rparr>"

definition trace_with_max_seconds :: "nat \<Rightarrow> trace_config \<Rightarrow> trace_config" where
  "trace_with_max_seconds n t = t\<lparr>trace_max_seconds := Some n\<rparr>"

definition trace_with_sample_interval_ms :: "nat \<Rightarrow> trace_config \<Rightarrow> trace_config" where
  "trace_with_sample_interval_ms n t = t\<lparr>trace_sample_interval_ms := Some n\<rparr>"

definition trace_with_raw_traces :: "trace_config \<Rightarrow> trace_config" where
  "trace_with_raw_traces t = t\<lparr>trace_include_raw := True\<rparr>"

record report_template =
  template_id :: string
  template_schema_version :: string
  template_required_sections :: "string list"

definition template_new :: "string \<Rightarrow> string \<Rightarrow> string list \<Rightarrow> report_template" where
  "template_new i v sections = \<lparr>template_id = i, template_schema_version = v, template_required_sections = sections\<rparr>"

record report_options =
  include_analysis_profile :: bool
  include_selection_advice :: bool
  default_trace :: "trace_config option"
  artifact_traces :: "(string \<times> trace_config) list"
  artifact_templates :: "(string \<times> report_template) list"
  artifact_persistence :: "(string \<times> report_persistence) list"

definition default_artifact_traces :: "(string \<times> trace_config) list" where
  "default_artifact_traces = bmap_of_list
     [(''performance_index_json'',
         trace_with_raw_traces (trace_with_sample_interval_ms 250 (trace_with_max_seconds 300 (trace_new ''performance'')))),
      (''stability_index_json'',
         trace_with_raw_traces (trace_with_sample_interval_ms 1000 (trace_with_max_seconds 900 (trace_new ''stability'')))),
      (STABILITY_PICTURE_ARTIFACT_KEY,
         trace_with_sample_interval_ms 1000 (trace_with_max_seconds 60 (trace_new ''stability-picture''))),
      (ANALYSIS_PROFILE_ARTIFACT_KEY,
         trace_with_sample_interval_ms 1000 (trace_with_max_seconds 60 (trace_new ''analysis'')))]"

definition default_artifact_templates :: "(string \<times> report_template) list" where
  "default_artifact_templates = bmap_of_list
     [(''verification_plan_json'', template_new ''verification-plan'' ''1'' [''tasks'', ''obligations'', ''receipts'', ''waivers'']),
      (''task_index_json'', template_new ''verification-task-index'' ''1''
         [''kind'', ''state'', ''skill'', ''required_evidence_keys'', ''task_evidence'']),
      (''performance_index_json'', template_new ''performance-index'' ''1''
         [''benchmark_command'', ''baseline'', ''regression_threshold'', ''latency_or_throughput'', ''profile_artifact'']),
      (''stability_index_json'', template_new ''stability-index'' ''1''
         [''stability_command'', ''iteration_window'', ''latency_distribution'', ''resource_delta'', ''state_growth'',
          ''determinism'', ''stability_artifact'']),
      (STABILITY_PICTURE_ARTIFACT_KEY, template_new ''stability-picture'' ''1''
         [''configured_axes'', ''owner_overrides'', ''api_path_overrides'', ''missing_evidence'', ''next_actions'', ''config_warnings'']),
      (ANALYSIS_PROFILE_ARTIFACT_KEY, template_new ''verification-analysis-profile'' ''1''
         [''package_count'', ''rust_file_count'', ''source_module_count'', ''owner_branch_count'', ''cargo_dependency_count'', ''packages''])]"

definition default_artifact_persistence :: "(string \<times> report_persistence) list" where
  "default_artifact_persistence = bmap_of_list
     [(''verification_plan_json'', RuntimeCache), (''task_index_json'', SourceBaseline),
      (''performance_index_json'', SourceBaseline), (''stability_index_json'', SourceBaseline),
      (STABILITY_PICTURE_ARTIFACT_KEY, RuntimeCache), (ANALYSIS_PROFILE_ARTIFACT_KEY, RuntimeCache)]"

definition report_options_default :: report_options where
  "report_options_default = \<lparr>include_analysis_profile = False, include_selection_advice = False,
     default_trace = Some (trace_with_sample_interval_ms 1000 (trace_with_max_seconds 60 (trace_new ''standard''))),
     artifact_traces = default_artifact_traces, artifact_templates = default_artifact_templates,
     artifact_persistence = default_artifact_persistence\<rparr>"

definition with_analysis_profile_artifact :: "report_options \<Rightarrow> report_options" where
  "with_analysis_profile_artifact options = options\<lparr>include_analysis_profile := True\<rparr>"
definition with_selection_advice_sidecar :: "report_options \<Rightarrow> report_options" where
  "with_selection_advice_sidecar options = options\<lparr>include_selection_advice := True\<rparr>"
definition without_default_trace :: "report_options \<Rightarrow> report_options" where
  "without_default_trace options = options\<lparr>default_trace := None\<rparr>"
definition with_default_trace :: "trace_config \<Rightarrow> report_options \<Rightarrow> report_options" where
  "with_default_trace t options = options\<lparr>default_trace := Some t\<rparr>"
definition with_artifact_trace :: "string \<Rightarrow> trace_config \<Rightarrow> report_options \<Rightarrow> report_options" where
  "with_artifact_trace key t options = options\<lparr>artifact_traces := bmap_insert key t (artifact_traces options)\<rparr>"
definition with_artifact_template :: "string \<Rightarrow> report_template \<Rightarrow> report_options \<Rightarrow> report_options" where
  "with_artifact_template key t options = options\<lparr>artifact_templates := bmap_insert key t (artifact_templates options)\<rparr>"
definition with_artifact_persistence :: "string \<Rightarrow> report_persistence \<Rightarrow> report_options \<Rightarrow> report_options" where
  "with_artifact_persistence key p options = options\<lparr>artifact_persistence := bmap_insert key p (artifact_persistence options)\<rparr>"

section \<open>The manifest schema\<close>

definition MANIFEST_SCHEMA_ID :: string where "MANIFEST_SCHEMA_ID = ''rust_verification_report_manifest''"
definition MANIFEST_SCHEMA_VERSION :: string where "MANIFEST_SCHEMA_VERSION = ''1''"

record manifest_schema =
  ms_schema_id :: string
  ms_schema_version :: string

definition manifest_schema_default :: manifest_schema where
  "manifest_schema_default = \<lparr>ms_schema_id = MANIFEST_SCHEMA_ID, ms_schema_version = MANIFEST_SCHEMA_VERSION\<rparr>"

definition schema_compact_label :: "manifest_schema \<Rightarrow> string" where
  "schema_compact_label s = ms_schema_id s @ ''/'' @ ms_schema_version s"

datatype manifest_compatibility =
    Supported
  | UnsupportedSchemaId (expected_text: string) (actual_text: string)
  | UnsupportedSchemaVersion (expected_text: string) (actual_text: string)

definition is_supported :: "manifest_compatibility \<Rightarrow> bool" where
  "is_supported c \<longleftrightarrow> c = Supported"

primrec compatibility_str :: "manifest_compatibility \<Rightarrow> string" where
  "compatibility_str Supported = ''supported''"
| "compatibility_str (UnsupportedSchemaId e a) = ''unsupported_schema_id''"
| "compatibility_str (UnsupportedSchemaVersion e a) = ''unsupported_schema_version''"

definition compatibility_action :: "manifest_compatibility \<Rightarrow> string" where
  "compatibility_action c = (if is_supported c then ''read_manifest_payloads'' else ''stop_and_refresh_harness_contract'')"

primrec compatibility_reason :: "manifest_compatibility \<Rightarrow> string option" where
  "compatibility_reason Supported = None"
| "compatibility_reason (UnsupportedSchemaId e a) = Some ''unsupported manifest schema id''"
| "compatibility_reason (UnsupportedSchemaVersion e a) = Some ''unsupported manifest schema version''"

definition check_rust_verification_report_manifest_schema :: "manifest_schema \<Rightarrow> manifest_compatibility" where
  "check_rust_verification_report_manifest_schema s =
     (if ms_schema_id s \<noteq> MANIFEST_SCHEMA_ID then UnsupportedSchemaId MANIFEST_SCHEMA_ID (ms_schema_id s)
      else if ms_schema_version s \<noteq> MANIFEST_SCHEMA_VERSION then UnsupportedSchemaVersion MANIFEST_SCHEMA_VERSION (ms_schema_version s)
      else Supported)"

text \<open>The expectation on the reason of an unsupported schema panics, hence the option.\<close>

definition render_rust_verification_report_manifest_compatibility :: "manifest_compatibility \<Rightarrow> string option" where
  "render_rust_verification_report_manifest_compatibility c =
     (case c of
        Supported \<Rightarrow> Some (''[verify-report-manifest] state='' @ compatibility_str c @ '' action='' @ compatibility_action c)
      | _ \<Rightarrow> map_option (\<lambda>why. ''[verify-report-manifest] state='' @ compatibility_str c @ '' expected='' @ expected_text c @
          '' actual='' @ actual_text c @ '' reason='' @ [CHR 0x22] @ why @ [CHR 0x22] @ '' action='' @ compatibility_action c)
          (compatibility_reason c))"

definition render_rust_verification_report_manifest_schema_compatibility :: "manifest_schema \<Rightarrow> string option" where
  "render_rust_verification_report_manifest_schema_compatibility s =
     (let c = check_rust_verification_report_manifest_schema s in
      case c of
        Supported \<Rightarrow> Some (''[verify-report-manifest] state='' @ compatibility_str c @ '' schema='' @ schema_compact_label s @
          '' action='' @ compatibility_action c)
      | _ \<Rightarrow> render_rust_verification_report_manifest_compatibility c)"


section \<open>The bundle\<close>

record report_artifact =
  art_key :: string
  art_role :: artifact_role
  art_name :: string
  art_renderer :: string
  art_reason :: string
  art_task_kinds :: "task_kind list"
  art_task_fingerprints :: "string list"
  art_persistence :: report_persistence
  art_template :: "report_template option"
  art_trace :: "trace_config option"

record report_sidecar =
  side_key :: string
  side_role :: sidecar_role
  side_name :: string
  side_renderer :: string
  side_reason :: string
  side_persistence :: report_persistence

record report_bundle =
  bundle_schema :: manifest_schema
  bundle_project_root :: path
  bundle_artifacts :: "report_artifact list"
  bundle_sidecars :: "report_sidecar list"

definition report_artifact_role :: "string \<Rightarrow> artifact_role" where
  "report_artifact_role key =
     (if key = ''verification_plan_json'' then PromptState
      else if key = ''task_index_json'' then SkillDispatchIndex
      else if key = ''performance_index_json'' then BaselineEvidence
      else if key = ''stability_index_json'' then BaselineEvidence
      else if key = STABILITY_PICTURE_ARTIFACT_KEY then PromptState
      else if key = ANALYSIS_PROFILE_ARTIFACT_KEY then AnalysisProfile
      else CustomArtifact)"

definition persistence_of :: "report_options \<Rightarrow> string \<Rightarrow> report_persistence" where
  "persistence_of options key = (case bmap_get (artifact_persistence options) key of Some p \<Rightarrow> p | None \<Rightarrow> RuntimeCache)"

definition trace_of :: "report_options \<Rightarrow> string \<Rightarrow> trace_config option" where
  "trace_of options key = (case bmap_get (artifact_traces options) key of Some t \<Rightarrow> Some t | None \<Rightarrow> default_trace options)"

definition artifact_from_obligation :: "report_options \<Rightarrow> report_obligation \<Rightarrow> report_artifact" where
  "artifact_from_obligation options ob =
     \<lparr>art_key = obligation_key ob, art_role = report_artifact_role (obligation_key ob), art_name = suggested_artifact_name ob,
      art_renderer = obligation_renderer ob, art_reason = obligation_reason ob, art_task_kinds = obligation_task_kinds ob,
      art_task_fingerprints = obligation_task_fingerprints ob, art_persistence = persistence_of options (obligation_key ob),
      art_template = bmap_get (artifact_templates options) (obligation_key ob), art_trace = trace_of options (obligation_key ob)\<rparr>"

definition artifact_task_count :: "report_artifact \<Rightarrow> nat" where
  "artifact_task_count a = length (art_task_fingerprints a)"

definition bundle_is_empty :: "report_bundle \<Rightarrow> bool" where
  "bundle_is_empty b \<longleftrightarrow> bundle_artifacts b = []"

definition bundle_artifact :: "string \<Rightarrow> report_bundle \<Rightarrow> report_artifact option" where
  "bundle_artifact key b = find (\<lambda>a. art_key a = key) (bundle_artifacts b)"

definition source_baseline_artifacts :: "report_bundle \<Rightarrow> report_artifact list" where
  "source_baseline_artifacts b = filter (\<lambda>a. art_persistence a = SourceBaseline) (bundle_artifacts b)"

definition runtime_cache_artifacts :: "report_bundle \<Rightarrow> report_artifact list" where
  "runtime_cache_artifacts b = filter (\<lambda>a. art_persistence a = RuntimeCache) (bundle_artifacts b)"

definition source_baseline_sidecars :: "report_bundle \<Rightarrow> report_sidecar list" where
  "source_baseline_sidecars b = filter (\<lambda>s. side_persistence s = SourceBaseline) (bundle_sidecars b)"

definition runtime_cache_sidecars :: "report_bundle \<Rightarrow> report_sidecar list" where
  "runtime_cache_sidecars b = filter (\<lambda>s. side_persistence s = RuntimeCache) (bundle_sidecars b)"

definition artifacts_for_role :: "report_bundle \<Rightarrow> artifact_role \<Rightarrow> report_artifact list" where
  "artifacts_for_role b r = filter (\<lambda>a. art_role a = r) (bundle_artifacts b)"

definition bundle_sidecar :: "string \<Rightarrow> report_bundle \<Rightarrow> report_sidecar option" where
  "bundle_sidecar key b = find (\<lambda>s. side_key s = key) (bundle_sidecars b)"

definition sidecars_for_role :: "report_bundle \<Rightarrow> sidecar_role \<Rightarrow> report_sidecar list" where
  "sidecars_for_role b r = filter (\<lambda>s. side_role s = r) (bundle_sidecars b)"

definition bundle_with_parts :: "report_artifact list \<Rightarrow> report_sidecar list \<Rightarrow> report_bundle \<Rightarrow> report_bundle" where
  "bundle_with_parts artifacts sidecars b = b\<lparr>bundle_artifacts := artifacts, bundle_sidecars := sidecars\<rparr>"

definition analysis_profile_artifact :: "report_options \<Rightarrow> report_artifact" where
  "analysis_profile_artifact options =
     \<lparr>art_key = ANALYSIS_PROFILE_ARTIFACT_KEY, art_role = AnalysisProfile, art_name = ''analysis_profile.json'',
      art_renderer = ''build_rust_verification_analysis_profile_with_config + render_rust_verification_analysis_profile_json'',
      art_reason = ''persist parser analysis scale profile for Agent planning and optimization passes'',
      art_task_kinds = [], art_task_fingerprints = [], art_persistence = persistence_of options ANALYSIS_PROFILE_ARTIFACT_KEY,
      art_template = bmap_get (artifact_templates options) ANALYSIS_PROFILE_ARTIFACT_KEY,
      art_trace = trace_of options ANALYSIS_PROFILE_ARTIFACT_KEY\<rparr>"

definition selection_advice_sidecar :: report_sidecar where
  "selection_advice_sidecar =
     \<lparr>side_key = SELECTION_ADVICE_SIDECAR_KEY, side_role = SelectionAdvice, side_name = ''selection_advice.json'',
      side_renderer = ''build_rust_verification_report_selection_advice + render_rust_verification_report_selection_advice_json'',
      side_reason = ''persist Agent report reading order next to the runtime manifest'', side_persistence = RuntimeCache\<rparr>"

definition build_rust_verification_report_bundle_with_options :: "plan \<Rightarrow> report_options \<Rightarrow> report_bundle" where
  "build_rust_verification_report_bundle_with_options pl options =
     \<lparr>bundle_schema = manifest_schema_default, bundle_project_root = plan_project_root pl,
      bundle_artifacts = map (artifact_from_obligation options) (report_obligations pl) @
        (if include_analysis_profile options then [analysis_profile_artifact options] else []),
      bundle_sidecars = (if include_selection_advice options then [selection_advice_sidecar] else [])\<rparr>"

definition build_rust_verification_report_bundle :: "plan \<Rightarrow> report_bundle" where
  "build_rust_verification_report_bundle pl = build_rust_verification_report_bundle_with_options pl report_options_default"

definition render_report_bundle_artifact :: "report_artifact \<Rightarrow> string" where
  "render_report_bundle_artifact a =
     ''   |artifact: role='' @ artifact_role_str (art_role a) @ '' key='' @ art_key a @ '' persistence='' @ persistence_str (art_persistence a) @
     '' file='' @ art_name a @ '' tasks='' @ show_nat (artifact_task_count a) @
     (case art_trace a of None \<Rightarrow> []
      | Some t \<Rightarrow> '' trace='' @ trace_profile t @ optional_text '' max_s='' (map_option show_nat (trace_max_seconds t)) [] @
          optional_text '' sample_ms='' (map_option show_nat (trace_sample_interval_ms t)) [] @
          (if trace_include_raw t then '' raw=true'' else [])) @
     optional_text '' template='' (map_option template_id (art_template a)) [] @ newline @
     ''   |renderer: '' @ art_key a @ ''='' @ art_renderer a @ newline"

definition render_report_bundle_sidecar :: "report_sidecar \<Rightarrow> string" where
  "render_report_bundle_sidecar s =
     ''   |sidecar: role='' @ sidecar_role_str (side_role s) @ '' key='' @ side_key s @ '' persistence='' @ persistence_str (side_persistence s) @
     '' file='' @ side_name s @ newline @ ''   |renderer: '' @ side_key s @ ''='' @ side_renderer s @ newline"

definition render_rust_verification_report_bundle :: "report_bundle \<Rightarrow> string" where
  "render_rust_verification_report_bundle b = trim_end (
     ''[verify-report-bundle] artifacts='' @ show_nat (length (bundle_artifacts b)) @ '' sidecars='' @ show_nat (length (bundle_sidecars b)) @
     '' source_baseline='' @ show_nat (length (source_baseline_artifacts b)) @
     '' runtime_cache='' @ show_nat (length (runtime_cache_artifacts b)) @ '' schema='' @ schema_compact_label (bundle_schema b) @ newline @
     concat (map render_report_bundle_artifact (bundle_artifacts b)) @ concat (map render_report_bundle_sidecar (bundle_sidecars b)))"

section \<open>The reading order\<close>

record selection_artifact =
  sel_key :: string
  sel_role :: artifact_role
  sel_artifact_name :: string
  sel_persistence :: report_persistence

record selection_scale =
  scale_package_count :: nat
  scale_rust_file_count :: nat
  scale_source_module_count :: nat
  scale_owner_branch_count :: nat
  scale_cargo_dependency_count :: nat

datatype selection_reason =
    NoActiveReportArtifactsReason
  | LoadAnalysisProfileBeforePayloadSelection
  | LargeAnalysisSurfaceScopeWindowFirst
  | LoadBaselineEvidenceForActiveTasks
  | LoadSkillDispatchIndexBeforePromptState
  | LoadPromptStateForReceiptMatching
  | SingleCustomArtifact
  | FallbackToManifestOrder

primrec selection_reason_str :: "selection_reason \<Rightarrow> string" where
  "selection_reason_str NoActiveReportArtifactsReason = ''no_active_report_artifacts''"
| "selection_reason_str LoadAnalysisProfileBeforePayloadSelection = ''load_analysis_profile_before_payload_selection''"
| "selection_reason_str LargeAnalysisSurfaceScopeWindowFirst = ''large_analysis_surface_scope_window_first''"
| "selection_reason_str LoadBaselineEvidenceForActiveTasks = ''load_baseline_evidence_for_active_tasks''"
| "selection_reason_str LoadSkillDispatchIndexBeforePromptState = ''load_skill_dispatch_index_before_prompt_state''"
| "selection_reason_str LoadPromptStateForReceiptMatching = ''load_prompt_state_for_receipt_matching''"
| "selection_reason_str SingleCustomArtifact = ''single_custom_artifact''"
| "selection_reason_str FallbackToManifestOrder = ''fallback_to_manifest_order''"

record selection_advice =
  adv_artifact_count :: nat
  adv_first :: "selection_artifact option"
  adv_reason :: selection_reason
  adv_scale :: "selection_scale option"
  adv_order :: "selection_artifact list"

definition selection_artifact_of :: "report_artifact \<Rightarrow> selection_artifact" where
  "selection_artifact_of a = \<lparr>sel_key = art_key a, sel_role = art_role a, sel_artifact_name = art_name a, sel_persistence = art_persistence a\<rparr>"

definition selection_scale_of :: "analysis_profile \<Rightarrow> selection_scale" where
  "selection_scale_of p = \<lparr>scale_package_count = ap_package_count p, scale_rust_file_count = ap_rust_file_count p,
     scale_source_module_count = ap_source_module_count p, scale_owner_branch_count = ap_owner_branch_count p,
     scale_cargo_dependency_count = ap_cargo_dependency_count p\<rparr>"

definition is_large_analysis_profile :: "analysis_profile \<Rightarrow> bool" where
  "is_large_analysis_profile p \<longleftrightarrow> ap_package_count p > 1 \<or> ap_rust_file_count p \<ge> 50 \<or> ap_source_module_count p \<ge> 80 \<or>
     ap_owner_branch_count p \<ge> 20 \<or> ap_cargo_dependency_count p \<ge> 20"

definition should_scope_with_analysis :: "analysis_profile option \<Rightarrow> bool" where
  "should_scope_with_analysis profile = (case profile of None \<Rightarrow> True | Some p \<Rightarrow> is_large_analysis_profile p)"

definition first_artifact_for_role :: "report_bundle \<Rightarrow> artifact_role \<Rightarrow> report_artifact option" where
  "first_artifact_for_role b r = find (\<lambda>a. art_role a = r) (bundle_artifacts b)"

fun first_artifact_of_roles :: "report_bundle \<Rightarrow> artifact_role list \<Rightarrow> report_artifact option" where
  "first_artifact_of_roles b [] = None"
| "first_artifact_of_roles b (r # rs) = (case first_artifact_for_role b r of Some a \<Rightarrow> Some a | None \<Rightarrow> first_artifact_of_roles b rs)"

text \<open>The expectation on a non-empty bundle panics, hence the option.\<close>

definition select_first_artifact :: "report_bundle \<Rightarrow> analysis_profile option \<Rightarrow> report_artifact option" where
  "select_first_artifact b profile =
     (case (if should_scope_with_analysis profile then first_artifact_for_role b AnalysisProfile else None) of
        Some a \<Rightarrow> Some a
      | None \<Rightarrow> (case first_artifact_of_roles b [BaselineEvidence, SkillDispatchIndex, PromptState, AnalysisProfile, CustomArtifact] of
          Some a \<Rightarrow> Some a
        | None \<Rightarrow> nth_opt (bundle_artifacts b) 0))"

definition selection_reason_of :: "report_artifact \<Rightarrow> report_bundle \<Rightarrow> analysis_profile option \<Rightarrow> selection_reason" where
  "selection_reason_of first b profile =
     (case art_role first of
        AnalysisProfile \<Rightarrow> if profile = None then LoadAnalysisProfileBeforePayloadSelection else LargeAnalysisSurfaceScopeWindowFirst
      | BaselineEvidence \<Rightarrow> LoadBaselineEvidenceForActiveTasks
      | SkillDispatchIndex \<Rightarrow> LoadSkillDispatchIndexBeforePromptState
      | PromptState \<Rightarrow> LoadPromptStateForReceiptMatching
      | CustomArtifact \<Rightarrow> if length (bundle_artifacts b) = 1 then SingleCustomArtifact else FallbackToManifestOrder)"

definition remaining_role_order :: "report_artifact \<Rightarrow> analysis_profile option \<Rightarrow> artifact_role list" where
  "remaining_role_order first profile =
     [BaselineEvidence, SkillDispatchIndex, PromptState] @
     (if should_scope_with_analysis profile \<or> art_role first \<noteq> AnalysisProfile then [AnalysisProfile] else []) @ [CustomArtifact]"

definition push_ordered :: "report_artifact \<Rightarrow> string list \<times> report_artifact list \<Rightarrow> string list \<times> report_artifact list" where
  "push_ordered a st = (let (keys, ordered) = st in
     if art_key a \<in> set keys then st else (bset_insert (art_key a) keys, ordered @ [a]))"

definition ordered_artifacts :: "report_bundle \<Rightarrow> report_artifact \<Rightarrow> analysis_profile option \<Rightarrow> report_artifact list" where
  "ordered_artifacts b first profile =
     snd (fold push_ordered (bundle_artifacts b)
       (fold push_ordered (concat (map (artifacts_for_role b) (remaining_role_order first profile))) ([art_key first], [first])))"

definition build_rust_verification_report_selection_advice ::
  "report_bundle \<Rightarrow> analysis_profile option \<Rightarrow> selection_advice option" where
  "build_rust_verification_report_selection_advice b profile =
     (if bundle_is_empty b then
        Some \<lparr>adv_artifact_count = 0, adv_first = None, adv_reason = NoActiveReportArtifactsReason,
              adv_scale = map_option selection_scale_of profile, adv_order = []\<rparr>
      else map_option (\<lambda>first. \<lparr>adv_artifact_count = length (bundle_artifacts b), adv_first = Some (selection_artifact_of first),
              adv_reason = selection_reason_of first b profile, adv_scale = map_option selection_scale_of profile,
              adv_order = map selection_artifact_of (ordered_artifacts b first profile)\<rparr>) (select_first_artifact b profile))"

definition render_scale_line :: "selection_scale \<Rightarrow> string" where
  "render_scale_line s = ''   |scale: packages='' @ show_nat (scale_package_count s) @ '' rust_files='' @ show_nat (scale_rust_file_count s) @
     '' source_modules='' @ show_nat (scale_source_module_count s) @ '' owner_branches='' @ show_nat (scale_owner_branch_count s) @
     '' cargo_dependencies='' @ show_nat (scale_cargo_dependency_count s) @ newline"

definition render_order_line :: "selection_artifact list \<Rightarrow> string" where
  "render_order_line order = ''   |order: '' @ join_with '' -> '' (map sel_key order)"

definition render_selection_advice_compact :: "selection_advice \<Rightarrow> string" where
  "render_selection_advice_compact a =
     (case adv_first a of
        None \<Rightarrow> ''[verify-report-select] artifacts=0 first=<none> reason='' @ selection_reason_str (adv_reason a)
      | Some first \<Rightarrow> trim_end (''[verify-report-select] artifacts='' @ show_nat (adv_artifact_count a) @ '' first='' @ sel_key first @
          '' role='' @ artifact_role_str (sel_role first) @ '' reason='' @ selection_reason_str (adv_reason a) @ newline @
          (case adv_scale a of None \<Rightarrow> [] | Some s \<Rightarrow> render_scale_line s) @ render_order_line (adv_order a)))"

definition render_rust_verification_report_selection_advice :: "report_bundle \<Rightarrow> analysis_profile option \<Rightarrow> string option" where
  "render_rust_verification_report_selection_advice b profile =
     map_option render_selection_advice_compact (build_rust_verification_report_selection_advice b profile)"


section \<open>The reading order lists every artifact\<close>

text \<open>The accumulator holds the keys of the artifacts listed so far, each once.\<close>

definition ordered_invariant :: "string list \<times> report_artifact list \<Rightarrow> bool" where
  "ordered_invariant st \<longleftrightarrow> set (fst st) = art_key ` set (snd st) \<and> distinct (map art_key (snd st))"

lemma push_ordered_invariant: "ordered_invariant st \<Longrightarrow> ordered_invariant (push_ordered a st)"
  by (cases st) (simp add: ordered_invariant_def push_ordered_def)

lemma push_ordered_keys:
  "ordered_invariant st \<Longrightarrow> art_key ` set (snd (push_ordered a st)) = insert (art_key a) (art_key ` set (snd st))"
  by (cases st) (simp add: ordered_invariant_def push_ordered_def insert_absorb)

lemma push_ordered_subset: "set (snd (push_ordered a st)) \<subseteq> insert a (set (snd st))"
  by (cases st) (auto simp: push_ordered_def)

lemma push_ordered_head: "\<exists>rest. snd (push_ordered a st) = snd st @ rest"
  by (cases st) (simp add: push_ordered_def)

lemma fold_push_ordered_invariant: "ordered_invariant st \<Longrightarrow> ordered_invariant (fold push_ordered as st)"
  by (induction as arbitrary: st) (simp_all add: push_ordered_invariant)

lemma fold_push_ordered_keys:
  "ordered_invariant st \<Longrightarrow> art_key ` set (snd (fold push_ordered as st)) = art_key ` set (snd st) \<union> art_key ` set as"
  by (induction as arbitrary: st) (simp_all add: push_ordered_invariant push_ordered_keys)

lemma fold_push_ordered_subset: "set (snd (fold push_ordered as st)) \<subseteq> set (snd st) \<union> set as"
proof (induction as arbitrary: st)
  case (Cons a as)
  have "set (snd (fold push_ordered as (push_ordered a st))) \<subseteq> insert a (set (snd st)) \<union> set as"
    using Cons.IH [of "push_ordered a st"] push_ordered_subset [of a st] by blast
  then show ?case by simp
qed simp

lemma fold_push_ordered_head: "\<exists>rest. snd (fold push_ordered as st) = snd st @ rest"
proof (induction as arbitrary: st)
  case (Cons a as)
  from Cons.IH [of "push_ordered a st"] obtain r1 where "snd (fold push_ordered as (push_ordered a st)) = snd (push_ordered a st) @ r1" ..
  moreover from push_ordered_head obtain r2 where "snd (push_ordered a st) = snd st @ r2" by blast
  ultimately show ?case by simp
qed simp

lemma artifacts_for_roles_subset: "set (concat (map (artifacts_for_role b) rs)) \<subseteq> set (bundle_artifacts b)"
  by (induction rs) (simp_all add: artifacts_for_role_def)

lemma ordered_artifacts_complete:
  assumes "first \<in> set (bundle_artifacts b)"
  shows "\<exists>rest. ordered_artifacts b first profile = first # rest" (is ?head)
    and "set (ordered_artifacts b first profile) \<subseteq> set (bundle_artifacts b)" (is ?sub)
    and "distinct (map art_key (ordered_artifacts b first profile))" (is ?once)
    and "art_key ` set (ordered_artifacts b first profile) = art_key ` set (bundle_artifacts b)" (is ?all)
proof -
  define by_role where "by_role = concat (map (artifacts_for_role b) (remaining_role_order first profile))"
  define st where "st = fold push_ordered by_role ([art_key first], [first])"
  have ordered: "ordered_artifacts b first profile = snd (fold push_ordered (bundle_artifacts b) st)"
    by (simp add: ordered_artifacts_def st_def by_role_def)
  have start: "ordered_invariant ([art_key first], [first])" by (simp add: ordered_invariant_def)
  have sub: "set by_role \<subseteq> set (bundle_artifacts b)" unfolding by_role_def by (rule artifacts_for_roles_subset)
  have inv: "ordered_invariant st" unfolding st_def by (rule fold_push_ordered_invariant [OF start])
  have st_sub: "set (snd st) \<subseteq> set (bundle_artifacts b)"
    using fold_push_ordered_subset [of by_role "([art_key first], [first])"] sub assms unfolding st_def by auto
  from fold_push_ordered_head [of by_role "([art_key first], [first])"] obtain r1 where "snd st = first # r1"
    unfolding st_def by auto
  with fold_push_ordered_head [of "bundle_artifacts b" st] show ?head unfolding ordered by auto
  show ?sub using fold_push_ordered_subset [of "bundle_artifacts b" st] st_sub unfolding ordered by blast
  show ?once using fold_push_ordered_invariant [OF inv, of "bundle_artifacts b"] unfolding ordered ordered_invariant_def by blast
  have "art_key ` set (snd st) \<subseteq> art_key ` set (bundle_artifacts b)" using st_sub by (rule image_mono)
  then show ?all unfolding ordered fold_push_ordered_keys [OF inv] by (rule Un_absorb1)
qed

lemma select_first_artifact_in: "select_first_artifact b profile = Some a \<Longrightarrow> a \<in> set (bundle_artifacts b)"
  by (auto simp: select_first_artifact_def first_artifact_for_role_def nth_opt_def find_Some_iff
      split: option.splits if_splits)

lemma select_first_artifact_Some: "bundle_artifacts b \<noteq> [] \<Longrightarrow> select_first_artifact b profile \<noteq> None"
  by (auto simp: select_first_artifact_def nth_opt_def split: option.splits if_splits)

text \<open>
  The reading advice for a bundle always exists: its order lists every artifact key of the bundle exactly once, by an
  artifact of the bundle, whatever the roles and the profile are, and the first artifact is the head of the order.
\<close>

lemma report_order_complete:
  "\<exists>advice. build_rust_verification_report_selection_advice b profile = Some advice \<and>
     distinct (map sel_key (adv_order advice)) \<and> set (map sel_key (adv_order advice)) = art_key ` set (bundle_artifacts b) \<and>
     set (adv_order advice) \<subseteq> selection_artifact_of ` set (bundle_artifacts b) \<and>
     adv_first advice = (case adv_order advice of [] \<Rightarrow> None | a # _ \<Rightarrow> Some a)"
proof (cases "bundle_artifacts b = []")
  case True
  then show ?thesis by (simp add: build_rust_verification_report_selection_advice_def bundle_is_empty_def)
next
  case False
  with select_first_artifact_Some obtain first where first: "select_first_artifact b profile = Some first" by blast
  note complete = ordered_artifacts_complete [OF select_first_artifact_in [OF first], of profile]
  from complete(1) obtain rest where rest: "ordered_artifacts b first profile = first # rest" ..
  have keys: "map sel_key (map selection_artifact_of xs) = map art_key xs" for xs by (simp add: selection_artifact_of_def)
  let ?order = "map selection_artifact_of (ordered_artifacts b first profile)"
  have advice: "build_rust_verification_report_selection_advice b profile =
    Some \<lparr>adv_artifact_count = length (bundle_artifacts b), adv_first = Some (selection_artifact_of first),
      adv_reason = selection_reason_of first b profile, adv_scale = map_option selection_scale_of profile, adv_order = ?order\<rparr>"
    using False by (simp add: build_rust_verification_report_selection_advice_def bundle_is_empty_def first)
  have "distinct (map sel_key ?order)" unfolding keys by (rule complete(3))
  moreover have "set (map sel_key ?order) = art_key ` set (bundle_artifacts b)"
    unfolding keys set_map by (rule complete(4))
  moreover have "set ?order \<subseteq> selection_artifact_of ` set (bundle_artifacts b)"
    unfolding set_map using complete(2) by (rule image_mono)
  moreover have "Some (selection_artifact_of first) = (case ?order of [] \<Rightarrow> None | a # _ \<Rightarrow> Some a)" by (simp add: rest)
  ultimately show ?thesis unfolding advice by - (rule exI, rule conjI, rule refl, simp only: selection_advice.simps)
qed

end
