(* ===== verification/Report_Writer.thy ===== *)
theory Report_Writer
  imports Verification_Reports
begin

text \<open>
  The payloads of report artifacts (\<open>src/verification/report_artifact.rs\<close>), the writer that persists a bundle
  (\<open>report_write.rs\<close>) and the advice on which file to open first (\<open>report_entry.rs\<close>).

  A step of the writer takes the files and returns its result with the new files, or \<open>None\<close> when it panics or does not
  return; an error leaves the files written so far. The outcomes of \<open>create_dir_all\<close> and \<open>write\<close>, the encoders of
  \<open>serde_json\<close> and the measured times are fields of the environment.
\<close>

record json_encoders =
  json_plan :: "plan \<Rightarrow> string result"
  json_task_index :: "task_index \<Rightarrow> string result"
  json_performance_index :: "performance_index \<Rightarrow> string result"
  json_stability_index :: "stability_index \<Rightarrow> string result"
  json_stability_picture :: "picture \<Rightarrow> string result"
  json_analysis_profile :: "analysis_profile \<Rightarrow> string result"
  json_bundle :: "report_bundle \<Rightarrow> string result"
  json_selection_advice :: "selection_advice \<Rightarrow> string result"
  json_string :: "string \<Rightarrow> string result"

record report_env =
  re_host :: host
  re_json :: json_encoders
  re_create_dir :: "path \<Rightarrow> string option"
  re_write :: "path \<Rightarrow> string option"
  re_selection_clock :: "(path \<Rightarrow> nat) \<times> nat"
  re_artifact_clock :: "(path \<Rightarrow> nat) \<times> nat"

datatype render_error = RenderJson string | RenderAnalysis string
datatype write_error = RenderFailed render_error | JsonFailed string | IoFailed path string

definition map_error_to :: "('e \<Rightarrow> 'f) \<Rightarrow> 'e + 'a \<Rightarrow> 'f + 'a" where
  "map_error_to f r = (case r of Inl e \<Rightarrow> Inl (f e) | Inr x \<Rightarrow> Inr x)"

section \<open>Payloads\<close>

definition render_rust_verification_report_artifact_json :: "json_encoders \<Rightarrow> plan \<Rightarrow> string \<Rightarrow> string option result" where
  "render_rust_verification_report_artifact_json j pl key =
     (if key = ''verification_plan_json'' then map_ok Some (json_plan j pl)
      else if key = ''task_index_json'' then map_ok Some (json_task_index j (build_rust_verification_task_index pl))
      else if key = ''performance_index_json'' then map_ok Some (json_performance_index j (build_rust_verification_performance_index pl))
      else if key = ''stability_index_json'' then map_ok Some (json_stability_index j (build_rust_verification_stability_index pl))
      else Ok None)"

definition render_rust_verification_report_artifact_json_with_config ::
  "report_env \<Rightarrow> plan \<Rightarrow> asp_rust_config \<Rightarrow> string \<Rightarrow> (render_error + string option) option" where
  "render_rust_verification_report_artifact_json_with_config env pl harness_config key =
     (let j = re_json env in
      if key = ANALYSIS_PROFILE_ARTIFACT_KEY then
        map_option (\<lambda>profile. and_then (map_error_to RenderAnalysis profile)
            (\<lambda>p. map_error_to RenderJson (map_ok Some (json_analysis_profile j p))))
          (build_rust_verification_analysis_profile_with_config (re_host env) (fst (re_artifact_clock env))
            (snd (re_artifact_clock env)) (plan_project_root pl) harness_config)
      else if key = STABILITY_PICTURE_ARTIFACT_KEY then
        (let p = verification_policy harness_config;
             c = (case stability_picture p of Some c \<Rightarrow> c | None \<Rightarrow> stability_config_default)
         in Some (map_error_to RenderJson (map_ok Some
              (json_stability_picture j (build_rust_verification_stability_picture_with_policy pl p c)))))
      else Some (map_error_to RenderJson (render_rust_verification_report_artifact_json j pl key)))"

section \<open>Compacting the project root\<close>

text \<open>\<open>str::replace\<close> with a pattern that is not empty.\<close>

function replace_sub :: "string \<Rightarrow> string \<Rightarrow> string \<Rightarrow> string" where
  "replace_sub needle replacement s =
     (case s of
        [] \<Rightarrow> []
      | c # cs \<Rightarrow> if needle \<noteq> [] \<and> prefix needle s then replacement @ replace_sub needle replacement (drop (length needle) s)
          else c # replace_sub needle replacement cs)"
  by pat_completeness auto
termination
  by (relation "measure (\<lambda>(_, _, s). length s)") (auto split: list.splits)

declare replace_sub.simps [simp del]

definition strip_quotes :: "string \<Rightarrow> string option" where
  "strip_quotes s =
     (if s \<noteq> [] \<and> hd s = CHR 0x22 \<and> tl s \<noteq> [] \<and> last (tl s) = CHR 0x22 then Some (butlast (tl s)) else None)"

definition json_string_fragment :: "json_encoders \<Rightarrow> string \<Rightarrow> string" where
  "json_string_fragment j v =
     (case json_string j v of
        Inl _ \<Rightarrow> v
      | Inr encoded \<Rightarrow> (case strip_quotes encoded of Some fragment \<Rightarrow> fragment | None \<Rightarrow> v))"

definition project_root_compaction_candidates :: "json_encoders \<Rightarrow> string \<Rightarrow> string list" where
  "project_root_compaction_candidates j root =
     (let normalized = replace_char (CHR 0x5C) (CHR ''/'') root in
      bset_of_list (filter (\<lambda>c. c \<noteq> [])
        (concat (map (\<lambda>c. [c, json_string_fragment j c]) [root, normalized]))))"

definition compact_project_root :: "json_encoders \<Rightarrow> string \<Rightarrow> path \<Rightarrow> string \<Rightarrow> string" where
  "compact_project_root j payload project_root placeholder =
     (let root = display project_root in
      if root = [] then payload
      else fold (\<lambda>c. replace_sub c (json_string_fragment j placeholder)) (project_root_compaction_candidates j root) payload)"

section \<open>Writing\<close>

record write_config =
  wc_project_root :: path
  wc_source_baseline_dir :: path
  wc_runtime_cache_dir :: path
  wc_project_root_placeholder :: string

definition write_config_new :: "path \<Rightarrow> path \<Rightarrow> path \<Rightarrow> write_config" where
  "write_config_new root source runtime = \<lparr>wc_project_root = root, wc_source_baseline_dir = source, wc_runtime_cache_dir = runtime,
     wc_project_root_placeholder = ''$CRATE_ROOT''\<rparr>"

definition recommended_source_baseline_dir :: "path \<Rightarrow> path" where
  "recommended_source_baseline_dir root = root @ [Normal ''resources'', Normal ''verification'', Normal ''reports'']"

definition with_project_root_placeholder :: "string \<Rightarrow> write_config \<Rightarrow> write_config" where
  "with_project_root_placeholder placeholder c = c\<lparr>wc_project_root_placeholder := placeholder\<rparr>"

record artifact_write_receipt =
  awr_key :: string
  awr_role :: artifact_role
  awr_persistence :: report_persistence
  awr_path :: path

record sidecar_write_receipt =
  swr_key :: string
  swr_role :: sidecar_role
  swr_path :: path

record materialization_advice =
  mat_persistence :: report_persistence
  mat_path :: path
  mat_recommended_dir :: path
  mat_reason :: string
  mat_action :: string
  mat_artifact_keys :: "string list"

record write_receipt =
  wr_manifest_schema :: manifest_schema
  wr_source_baseline_paths :: "path list"
  wr_runtime_cache_paths :: "path list"
  wr_artifact_paths :: "artifact_write_receipt list"
  wr_selection_advice_path :: "path option"
  wr_sidecar_paths :: "sidecar_write_receipt list"
  wr_materialization_advice :: "materialization_advice list"

definition artifact_receipt_from :: "report_artifact \<Rightarrow> path \<Rightarrow> artifact_write_receipt" where
  "artifact_receipt_from a p = \<lparr>awr_key = art_key a, awr_role = art_role a, awr_persistence = art_persistence a, awr_path = p\<rparr>"

definition find_manifest_path :: "path list \<Rightarrow> path option" where
  "find_manifest_path = find (\<lambda>p. path_file_name p = Some ''verification_report_manifest.json'')"

definition receipt_artifact_path :: "string \<Rightarrow> write_receipt \<Rightarrow> path option" where
  "receipt_artifact_path key r = map_option awr_path (find (\<lambda>a. awr_key a = key) (wr_artifact_paths r))"

definition receipt_sidecar_path :: "string \<Rightarrow> write_receipt \<Rightarrow> path option" where
  "receipt_sidecar_path key r = map_option swr_path (find (\<lambda>s. swr_key s = key) (wr_sidecar_paths r))"

definition path_same_or_under :: "path \<Rightarrow> path \<Rightarrow> bool" where
  "path_same_or_under p root \<longleftrightarrow> root \<noteq> [] \<and> (p = root \<or> path_starts_with p root)"

definition transient_project_dir :: "string \<Rightarrow> bool" where
  "transient_project_dir c \<longleftrightarrow> c \<in> {''.cache'', ''.run'', ''target'', ''tmp'', ''temp''}"

definition component_text :: "component \<Rightarrow> string" where
  "component_text c = (case c of RootDir \<Rightarrow> ''/'' | CurDir \<Rightarrow> ''.'' | ParentDir \<Rightarrow> ''..'' | Normal s \<Rightarrow> s)"

definition source_dir_is_under_transient_project_dir :: "path \<Rightarrow> path \<Rightarrow> bool" where
  "source_dir_is_under_transient_project_dir dir root =
     (case strip_prefix dir root of
        None \<Rightarrow> False
      | Some relative \<Rightarrow> (case relative of [] \<Rightarrow> False | c # _ \<Rightarrow> transient_project_dir (component_text c)))"

definition source_baseline_dir_issue :: "write_config \<Rightarrow> string option" where
  "source_baseline_dir_issue c =
     (let dir = wc_source_baseline_dir c in
      if dir = [] then Some ''source_baseline_dir_empty''
      else if \<not> is_absolute dir then Some ''source_baseline_dir_not_project_anchored''
      else if path_same_or_under dir (wc_runtime_cache_dir c) then Some ''source_baseline_dir_under_runtime_cache''
      else if \<not> path_same_or_under dir (wc_project_root c) then Some ''source_baseline_dir_outside_project_root''
      else if source_dir_is_under_transient_project_dir dir (wc_project_root c)
      then Some ''source_baseline_dir_under_transient_project_dir''
      else None)"

definition source_baseline_artifact_keys :: "report_artifact list \<Rightarrow> report_sidecar list \<Rightarrow> string list" where
  "source_baseline_artifact_keys artifacts sidecars = map art_key artifacts @ map side_key sidecars"

definition source_baseline_materialization_advice ::
  "write_config \<Rightarrow> report_artifact list \<Rightarrow> report_sidecar list \<Rightarrow> materialization_advice list" where
  "source_baseline_materialization_advice c artifacts sidecars =
     (if artifacts = [] \<and> sidecars = [] then []
      else case source_baseline_dir_issue c of
        None \<Rightarrow> []
      | Some why \<Rightarrow> [\<lparr>mat_persistence = SourceBaseline, mat_path = wc_source_baseline_dir c,
          mat_recommended_dir = recommended_source_baseline_dir (wc_project_root c), mat_reason = why,
          mat_action = ''move_source_baseline_reports_to_repo'', mat_artifact_keys = source_baseline_artifact_keys artifacts sidecars\<rparr>])"


subsection \<open>Steps\<close>

type_synonym files = "(path \<times> string) list"
type_synonym 'a write_step = "files \<Rightarrow> ((write_error + 'a) \<times> files) option"

definition return_step :: "'a \<Rightarrow> 'a write_step" where
  "return_step x fs = Some (Inr x, fs)"

definition bind_step :: "'a write_step \<Rightarrow> ('a \<Rightarrow> 'b write_step) \<Rightarrow> 'b write_step" where
  "bind_step m f fs =
     (case m fs of
        None \<Rightarrow> None
      | Some (Inl e, fs') \<Rightarrow> Some (Inl e, fs')
      | Some (Inr x, fs') \<Rightarrow> f x fs')"

definition lift_step :: "(write_error + 'a) option \<Rightarrow> 'a write_step" where
  "lift_step x fs = map_option (\<lambda>r. (r, fs)) x"

definition create_dir_all :: "report_env \<Rightarrow> path \<Rightarrow> unit write_step" where
  "create_dir_all env p fs = Some (case re_create_dir env p of Some e \<Rightarrow> Inl (IoFailed p e) | None \<Rightarrow> Inr (), fs)"

definition write_json :: "report_env \<Rightarrow> path \<Rightarrow> string \<Rightarrow> unit write_step" where
  "write_json env p payload fs =
     Some (case re_write env p of Some e \<Rightarrow> (Inl (IoFailed p e), fs) | None \<Rightarrow> (Inr (), bmap_insert p payload fs))"

definition prepare_report_directories :: "report_env \<Rightarrow> write_config \<Rightarrow> unit write_step" where
  "prepare_report_directories env c =
     bind_step (create_dir_all env (wc_source_baseline_dir c)) (\<lambda>_. create_dir_all env (wc_runtime_cache_dir c))"

definition compact_payload :: "report_env \<Rightarrow> write_config \<Rightarrow> string \<Rightarrow> string" where
  "compact_payload env c payload = compact_project_root (re_json env) payload (wc_project_root c) (wc_project_root_placeholder c)"

definition write_report_manifest :: "report_env \<Rightarrow> report_bundle \<Rightarrow> path \<Rightarrow> write_config \<Rightarrow> path list \<Rightarrow> path list write_step" where
  "write_report_manifest env b dir c paths =
     (let manifest = path_push dir ''verification_report_manifest.json'' in
      bind_step (lift_step (Some (map_error_to JsonFailed (json_bundle (re_json env) b)))) (\<lambda>payload.
      bind_step (write_json env manifest (compact_payload env c payload)) (\<lambda>_. return_step (paths @ [manifest]))))"

definition write_artifact ::
  "report_env \<Rightarrow> plan \<Rightarrow> asp_rust_config \<Rightarrow> path \<Rightarrow> write_config \<Rightarrow> report_artifact \<Rightarrow> path option write_step" where
  "write_artifact env pl harness_config dir c a =
     bind_step (lift_step (map_option (map_error_to RenderFailed)
         (render_rust_verification_report_artifact_json_with_config env pl harness_config (art_key a)))) (\<lambda>payload.
       case payload of
         None \<Rightarrow> return_step None
       | Some text \<Rightarrow> bind_step (write_json env (path_push dir (art_name a)) (compact_payload env c text))
           (\<lambda>_. return_step (Some (path_push dir (art_name a)))))"

fun write_report_artifacts ::
  "report_env \<Rightarrow> plan \<Rightarrow> asp_rust_config \<Rightarrow> path \<Rightarrow> write_config \<Rightarrow> report_artifact list \<Rightarrow>
   path list \<times> artifact_write_receipt list \<Rightarrow> (path list \<times> artifact_write_receipt list) write_step" where
  "write_report_artifacts env pl harness_config dir c [] acc = return_step acc"
| "write_report_artifacts env pl harness_config dir c (a # as) acc =
     bind_step (write_artifact env pl harness_config dir c a) (\<lambda>written.
       write_report_artifacts env pl harness_config dir c as
         (case written of None \<Rightarrow> acc | Some p \<Rightarrow> (fst acc @ [p], snd acc @ [artifact_receipt_from a p])))"

definition build_selection_advice_profile ::
  "report_env \<Rightarrow> plan \<Rightarrow> asp_rust_config \<Rightarrow> report_options \<Rightarrow> (write_error + analysis_profile option) option" where
  "build_selection_advice_profile env pl harness_config options =
     (if \<not> include_selection_advice options \<or> \<not> include_analysis_profile options then Some (Inr None)
      else map_option (\<lambda>profile. map_error_to (RenderFailed \<circ> RenderAnalysis) (map_ok Some profile))
        (build_rust_verification_analysis_profile_with_config (re_host env) (fst (re_selection_clock env))
          (snd (re_selection_clock env)) (plan_project_root pl) harness_config))"

definition render_report_sidecar_json ::
  "report_env \<Rightarrow> report_bundle \<Rightarrow> analysis_profile option \<Rightarrow> report_sidecar \<Rightarrow> (write_error + string option) option" where
  "render_report_sidecar_json env b profile s =
     (case side_role s of
        SelectionAdvice \<Rightarrow> map_option (\<lambda>advice. map_error_to JsonFailed (map_ok Some (json_selection_advice (re_json env) advice)))
          (build_rust_verification_report_selection_advice b profile)
      | CustomSidecar \<Rightarrow> Some (Inr None))"

definition write_report_sidecar ::
  "report_env \<Rightarrow> report_bundle \<Rightarrow> analysis_profile option \<Rightarrow> write_config \<Rightarrow> report_sidecar \<Rightarrow> write_receipt \<Rightarrow> write_receipt write_step" where
  "write_report_sidecar env b profile c s r =
     bind_step (lift_step (render_report_sidecar_json env b profile s)) (\<lambda>payload.
       case payload of
         None \<Rightarrow> return_step r
       | Some text \<Rightarrow>
           (let p = path_push (wc_runtime_cache_dir c) (side_name s) in
            bind_step (write_json env p (compact_payload env c text)) (\<lambda>_. return_step
              (r\<lparr>wr_selection_advice_path := (if side_role s = SelectionAdvice then Some p else wr_selection_advice_path r),
                 wr_sidecar_paths := wr_sidecar_paths r @ [\<lparr>swr_key = side_key s, swr_role = side_role s, swr_path = p\<rparr>],
                 wr_runtime_cache_paths := wr_runtime_cache_paths r @ [p]\<rparr>))))"

fun write_report_sidecars ::
  "report_env \<Rightarrow> report_bundle \<Rightarrow> analysis_profile option \<Rightarrow> write_config \<Rightarrow> report_sidecar list \<Rightarrow> write_receipt \<Rightarrow> write_receipt write_step" where
  "write_report_sidecars env b profile c [] r = return_step r"
| "write_report_sidecars env b profile c (s # ss) r =
     bind_step (write_report_sidecar env b profile c s r) (write_report_sidecars env b profile c ss)"

definition write_rust_verification_reports_with_options ::
  "report_env \<Rightarrow> plan \<Rightarrow> asp_rust_config \<Rightarrow> write_config \<Rightarrow> report_options \<Rightarrow> write_receipt write_step" where
  "write_rust_verification_reports_with_options env pl harness_config c options =
     bind_step (prepare_report_directories env c) (\<lambda>_.
       let b = build_rust_verification_report_bundle_with_options pl options;
           source_artifacts = source_baseline_artifacts b;
           source_sidecars = source_baseline_sidecars b
       in bind_step (lift_step (build_selection_advice_profile env pl harness_config options)) (\<lambda>profile.
          bind_step (write_report_manifest env (bundle_with_parts source_artifacts source_sidecars b) (wc_source_baseline_dir c) c [])
            (\<lambda>source_paths.
          bind_step (write_report_manifest env b (wc_runtime_cache_dir c) c []) (\<lambda>cache_paths.
          bind_step (write_report_artifacts env pl harness_config (wc_source_baseline_dir c) c source_artifacts (source_paths, []))
            (\<lambda>(source_paths, artifact_paths).
          bind_step (write_report_artifacts env pl harness_config (wc_runtime_cache_dir c) c (runtime_cache_artifacts b)
              (cache_paths, artifact_paths)) (\<lambda>(cache_paths, artifact_paths).
          write_report_sidecars env b profile c (runtime_cache_sidecars b)
            \<lparr>wr_manifest_schema = bundle_schema b, wr_source_baseline_paths = source_paths, wr_runtime_cache_paths = cache_paths,
             wr_artifact_paths = artifact_paths, wr_selection_advice_path = None, wr_sidecar_paths = [],
             wr_materialization_advice = source_baseline_materialization_advice c source_artifacts source_sidecars\<rparr>))))))"

definition write_rust_verification_reports :: "report_env \<Rightarrow> plan \<Rightarrow> write_config \<Rightarrow> write_receipt write_step" where
  "write_rust_verification_reports env pl c =
     write_rust_verification_reports_with_options env pl default_config c report_options_default"

definition render_rust_verification_report_write_receipt :: "write_receipt \<Rightarrow> string" where
  "render_rust_verification_report_write_receipt r =
     ''[verify-report-write] schema='' @ schema_compact_label (wr_manifest_schema r) @
     '' source_paths='' @ show_nat (length (wr_source_baseline_paths r)) @ '' runtime_paths='' @ show_nat (length (wr_runtime_cache_paths r)) @
     '' sidecars='' @ show_nat (length (wr_sidecar_paths r)) @
     optional_text (newline @ ''   |source_manifest: '') (map_option display_path (find_manifest_path (wr_source_baseline_paths r))) [] @
     optional_text (newline @ ''   |runtime_manifest: '') (map_option display_path (find_manifest_path (wr_runtime_cache_paths r))) [] @
     optional_text (newline @ ''   |selection_advice: '') (map_option display_path (wr_selection_advice_path r)) [] @
     concat (map (\<lambda>s. newline @ ''   |sidecar: role='' @ sidecar_role_str (swr_role s) @ '' key='' @ swr_key s @
       '' path='' @ display_path (swr_path s)) (wr_sidecar_paths r)) @
     concat (map (\<lambda>a. newline @ ''   |materialize: '' @ persistence_str (mat_persistence a) @ '' reason='' @ mat_reason a @
       '' action='' @ mat_action a @ '' path='' @ display_path (mat_path a) @ '' recommend='' @ display_path (mat_recommended_dir a) @
       '' artifacts='' @ join_with '','' (mat_artifact_keys a)) (wr_materialization_advice r))"

section \<open>Which file to open first\<close>

datatype entry_action = StopAndRefreshHarnessContract | LoadSelectionAdviceSidecar | ReadFirstArtifact | NoActiveReportArtifacts

primrec entry_action_str :: "entry_action \<Rightarrow> string" where
  "entry_action_str StopAndRefreshHarnessContract = ''stop_and_refresh_harness_contract''"
| "entry_action_str LoadSelectionAdviceSidecar = ''load_selection_advice_sidecar''"
| "entry_action_str ReadFirstArtifact = ''read_first_artifact''"
| "entry_action_str NoActiveReportArtifacts = ''no_active_report_artifacts''"

record entry_artifact =
  ea_key :: string
  ea_role :: artifact_role
  ea_path :: path

record entry_sidecar =
  es_key :: string
  es_role :: sidecar_role
  es_path :: path

record entry_advice =
  en_schema :: manifest_schema
  en_schema_compatibility :: manifest_compatibility
  en_action :: entry_action
  en_selection :: "selection_advice option"
  en_first_artifact :: "entry_artifact option"
  en_selection_sidecar :: "entry_sidecar option"

definition entry_sidecar_from :: "sidecar_write_receipt \<Rightarrow> entry_sidecar" where
  "entry_sidecar_from s = \<lparr>es_key = swr_key s, es_role = swr_role s, es_path = swr_path s\<rparr>"

definition entry_artifact_from :: "artifact_write_receipt \<Rightarrow> entry_artifact" where
  "entry_artifact_from a = \<lparr>ea_key = awr_key a, ea_role = awr_role a, ea_path = awr_path a\<rparr>"

definition selection_sidecar_from_receipt :: "write_receipt \<Rightarrow> entry_sidecar option" where
  "selection_sidecar_from_receipt r = map_option entry_sidecar_from (find (\<lambda>s. swr_role s = SelectionAdvice) (wr_sidecar_paths r))"

definition first_artifact_from_receipt :: "selection_advice option \<Rightarrow> write_receipt \<Rightarrow> entry_artifact option" where
  "first_artifact_from_receipt selection r =
     Option.bind (Option.bind selection adv_first) (\<lambda>first.
       map_option entry_artifact_from (find (\<lambda>a. awr_key a = sel_key first) (wr_artifact_paths r)))"

definition select_entry_action :: "manifest_compatibility \<Rightarrow> selection_advice option \<Rightarrow> entry_sidecar option \<Rightarrow> entry_action" where
  "select_entry_action compatibility selection sidecar =
     (if \<not> is_supported compatibility then StopAndRefreshHarnessContract
      else if Option.bind selection adv_first = None then NoActiveReportArtifacts
      else if sidecar \<noteq> None then LoadSelectionAdviceSidecar
      else ReadFirstArtifact)"

definition build_rust_verification_report_entry_advice_with_receipt ::
  "report_bundle \<Rightarrow> analysis_profile option \<Rightarrow> write_receipt option \<Rightarrow> entry_advice option" where
  "build_rust_verification_report_entry_advice_with_receipt b profile receipt_opt =
     (let compatibility = check_rust_verification_report_manifest_schema (bundle_schema b);
          sidecar = Option.bind receipt_opt selection_sidecar_from_receipt
      in map_option (\<lambda>selection.
           \<lparr>en_schema = bundle_schema b, en_schema_compatibility = compatibility,
            en_action = select_entry_action compatibility selection sidecar, en_selection = selection,
            en_first_artifact = Option.bind receipt_opt (first_artifact_from_receipt selection), en_selection_sidecar = sidecar\<rparr>)
         (if is_supported compatibility then map_option Some (build_rust_verification_report_selection_advice b profile) else Some None))"

definition build_rust_verification_report_entry_advice :: "report_bundle \<Rightarrow> analysis_profile option \<Rightarrow> entry_advice option" where
  "build_rust_verification_report_entry_advice b profile = build_rust_verification_report_entry_advice_with_receipt b profile None"

definition render_unsupported_entry_advice :: "entry_advice \<Rightarrow> string option" where
  "render_unsupported_entry_advice a =
     (case en_schema_compatibility a of
        Supported \<Rightarrow> None
      | c \<Rightarrow> map_option (\<lambda>why. ''[verify-report-entry] state='' @ compatibility_str c @ '' action='' @ entry_action_str (en_action a) @
          '' expected='' @ expected_text c @ '' actual='' @ actual_text c @ '' reason='' @ [CHR 0x22] @ why @ [CHR 0x22])
          (compatibility_reason c))"

definition render_entry_order_line :: "selection_advice \<Rightarrow> string" where
  "render_entry_order_line s = (if adv_order s = [] then [] else newline @ ''   |order: '' @ join_with '' -> '' (map sel_key (adv_order s)))"

definition render_rust_verification_report_entry_advice :: "entry_advice \<Rightarrow> string option" where
  "render_rust_verification_report_entry_advice a =
     (if \<not> is_supported (en_schema_compatibility a) then render_unsupported_entry_advice a
      else Some (
        ''[verify-report-entry] schema='' @ schema_compact_label (en_schema a) @ '' state='' @ compatibility_str (en_schema_compatibility a) @
        '' action='' @ entry_action_str (en_action a) @
        (case Option.bind (en_selection a) (\<lambda>s. map_option (\<lambda>first. (first, adv_reason s)) (adv_first s)) of
           Some (first, why) \<Rightarrow> '' first='' @ sel_key first @ '' role='' @ artifact_role_str (sel_role first) @ '' reason='' @ selection_reason_str why
         | None \<Rightarrow> '' first=<none> reason='' @
             (case en_selection a of Some s \<Rightarrow> selection_reason_str (adv_reason s) | None \<Rightarrow> ''schema_unsupported'')) @
        (case en_selection_sidecar a of None \<Rightarrow> []
         | Some s \<Rightarrow> newline @ ''   |sidecar: key='' @ es_key s @ '' role='' @ sidecar_role_str (es_role s) @ '' path='' @ display_path (es_path s)) @
        (case en_first_artifact a of None \<Rightarrow> []
         | Some f \<Rightarrow> newline @ ''   |artifact: key='' @ ea_key f @ '' role='' @ artifact_role_str (ea_role f) @ '' path='' @ display_path (ea_path f)) @
        (case en_selection a of None \<Rightarrow> [] | Some s \<Rightarrow> render_entry_order_line s)))"

section \<open>What a successful run writes\<close>

text \<open>The keys that have a payload; artifacts with other keys are listed in the manifests only.\<close>

definition rendered_keys :: "string set" where
  "rendered_keys = {''verification_plan_json'', ''task_index_json'', ''performance_index_json'', ''stability_index_json'',
     ANALYSIS_PROFILE_ARTIFACT_KEY, STABILITY_PICTURE_ARTIFACT_KEY}"

definition rendered :: "report_artifact list \<Rightarrow> report_artifact list" where
  "rendered = filter (\<lambda>a. art_key a \<in> rendered_keys)"

abbreviation artifact_path_in :: "path \<Rightarrow> report_artifact \<Rightarrow> path" where
  "artifact_path_in dir a \<equiv> path_push dir (art_name a)"

abbreviation manifest_in :: "path \<Rightarrow> path" where
  "manifest_in dir \<equiv> path_push dir ''verification_report_manifest.json''"

definition file_paths :: "files \<Rightarrow> path set" where
  "file_paths fs = set (bmap_keys fs)"

lemma file_paths_insert: "file_paths (bmap_insert p payload fs) = insert p (file_paths fs)"
  unfolding file_paths_def by (rule bmap_insert_keys)

lemma bind_step_Inr_iff:
  "bind_step m f fs = Some (Inr y, fs'') \<longleftrightarrow> (\<exists>x fs'. m fs = Some (Inr x, fs') \<and> f x fs' = Some (Inr y, fs''))"
  by (auto simp: bind_step_def split: option.splits sum.splits prod.splits)

lemma return_step_Inr_iff: "return_step x fs = Some (Inr y, fs') \<longleftrightarrow> y = x \<and> fs' = fs"
  by (auto simp: return_step_def)

lemma lift_step_Inr_iff: "lift_step m fs = Some (Inr y, fs') \<longleftrightarrow> m = Some (Inr y) \<and> fs' = fs"
  by (auto simp: lift_step_def)

lemma create_dir_all_Inr_iff: "create_dir_all env p fs = Some (Inr u, fs') \<longleftrightarrow> re_create_dir env p = None \<and> fs' = fs"
  by (auto simp: create_dir_all_def split: option.splits)

lemma write_json_Inr_iff:
  "write_json env p payload fs = Some (Inr u, fs') \<longleftrightarrow> re_write env p = None \<and> fs' = bmap_insert p payload fs"
  by (auto simp: write_json_def split: option.splits)

lemmas step_iffs = bind_step_Inr_iff return_step_Inr_iff lift_step_Inr_iff create_dir_all_Inr_iff write_json_Inr_iff

lemma map_error_to_Inr_iff [simp]: "map_error_to f r = Inr x \<longleftrightarrow> r = Inr x"
  by (auto simp: map_error_to_def split: sum.splits)

lemma rendered_payload:
  assumes "render_rust_verification_report_artifact_json_with_config env pl hc key = Some (Inr payload)"
  shows "payload = None \<longleftrightarrow> key \<notin> rendered_keys"
  using assms
  by (auto simp: render_rust_verification_report_artifact_json_with_config_def render_rust_verification_report_artifact_json_def
      rendered_keys_def and_then_Inr_iff map_ok_Inr_iff Let_def split: if_splits)

lemma write_artifact_Inr:
  assumes "write_artifact env pl hc dir c a fs = Some (Inr written, fs')"
  shows "written = (if art_key a \<in> rendered_keys then Some (artifact_path_in dir a) else None)"
    and "file_paths fs' = file_paths fs \<union> set_option written"
  using assms
  by (auto simp: write_artifact_def step_iffs file_paths_insert dest!: rendered_payload split: option.splits)

lemma write_report_artifacts_Inr:
  assumes "write_report_artifacts env pl hc dir c as acc fs = Some (Inr acc', fs')"
  shows "acc' = (fst acc @ map (artifact_path_in dir) (rendered as),
                 snd acc @ map (\<lambda>a. artifact_receipt_from a (artifact_path_in dir a)) (rendered as))"
    and "file_paths fs' = file_paths fs \<union> artifact_path_in dir ` set (rendered as)"
  using assms
proof (induction as arbitrary: acc fs)
  case (Cons a as)
  {
    case 1
    then obtain written fs1 where w: "write_artifact env pl hc dir c a fs = Some (Inr written, fs1)"
      and rest: "write_report_artifacts env pl hc dir c as
        (case written of None \<Rightarrow> acc | Some p \<Rightarrow> (fst acc @ [p], snd acc @ [artifact_receipt_from a p])) fs1 = Some (Inr acc', fs')"
      by (auto simp: step_iffs)
    from Cons.IH(1) [OF rest] write_artifact_Inr(1) [OF w] show ?case by (simp add: rendered_def)
  next
    case 2
    then obtain written fs1 where w: "write_artifact env pl hc dir c a fs = Some (Inr written, fs1)"
      and rest: "write_report_artifacts env pl hc dir c as
        (case written of None \<Rightarrow> acc | Some p \<Rightarrow> (fst acc @ [p], snd acc @ [artifact_receipt_from a p])) fs1 = Some (Inr acc', fs')"
      by (auto simp: step_iffs)
    from Cons.IH(2) [OF rest] write_artifact_Inr [OF w] show ?case by (simp add: rendered_def)
  }
qed (simp_all add: rendered_def step_iffs)

lemma write_report_manifest_Inr:
  assumes "write_report_manifest env b dir c paths fs = Some (Inr paths', fs')"
  shows "paths' = paths @ [manifest_in dir]" and "file_paths fs' = insert (manifest_in dir) (file_paths fs)"
  using assms by (auto simp: write_report_manifest_def step_iffs file_paths_insert Let_def)

text \<open>A bundle has one kind of sidecar, the reading advice, and a plan's own obligations all have payloads.\<close>

lemma runtime_cache_sidecars_of_bundle:
  "runtime_cache_sidecars (build_rust_verification_report_bundle_with_options pl options) =
     (if include_selection_advice options then [selection_advice_sidecar] else [])"
  by (simp add: runtime_cache_sidecars_def build_rust_verification_report_bundle_with_options_def selection_advice_sidecar_def)

lemma write_selection_advice_Inr:
  assumes "write_report_sidecar env b profile c selection_advice_sidecar r fs = Some (Inr r', fs')"
  defines "p \<equiv> path_push (wc_runtime_cache_dir c) ''selection_advice.json''"
  shows "r' = r\<lparr>wr_selection_advice_path := Some p,
      wr_sidecar_paths := wr_sidecar_paths r @ [\<lparr>swr_key = SELECTION_ADVICE_SIDECAR_KEY, swr_role = SelectionAdvice, swr_path = p\<rparr>],
      wr_runtime_cache_paths := wr_runtime_cache_paths r @ [p]\<rparr>"
    and "file_paths fs' = insert p (file_paths fs)"
  using assms(1) unfolding p_def
  by (auto simp: write_report_sidecar_def render_report_sidecar_json_def selection_advice_sidecar_def step_iffs
      file_paths_insert map_ok_Inr_iff Let_def)

text \<open>The receipt before the sidecars, and the step that adds them.\<close>

lemma write_reports_Inr:
  assumes run: "write_rust_verification_reports_with_options env pl hc c options fs = Some (Inr r, fs')"
  defines "b \<equiv> build_rust_verification_report_bundle_with_options pl options"
    and "src \<equiv> wc_source_baseline_dir c" and "cch \<equiv> wc_runtime_cache_dir c"
  obtains profile r0 fs0 where
    "wr_source_baseline_paths r0 = manifest_in src # map (artifact_path_in src) (rendered (source_baseline_artifacts b))"
    "wr_runtime_cache_paths r0 = manifest_in cch # map (artifact_path_in cch) (rendered (runtime_cache_artifacts b))"
    "wr_artifact_paths r0 =
       map (\<lambda>a. artifact_receipt_from a (artifact_path_in src a)) (rendered (source_baseline_artifacts b)) @
       map (\<lambda>a. artifact_receipt_from a (artifact_path_in cch a)) (rendered (runtime_cache_artifacts b))"
    "wr_sidecar_paths r0 = []"
    "file_paths fs0 = file_paths fs \<union> set (wr_source_baseline_paths r0) \<union> set (wr_runtime_cache_paths r0)"
    "write_report_sidecars env b profile c (runtime_cache_sidecars b) r0 fs0 = Some (Inr r, fs')"
proof -
  from run obtain profile sp fs1 cp fs2 acc1 fs3 acc2 fs4 where
    m1: "write_report_manifest env (bundle_with_parts (source_baseline_artifacts b) (source_baseline_sidecars b) b) src c [] fs = Some (Inr sp, fs1)"
    and m2: "write_report_manifest env b cch c [] fs1 = Some (Inr cp, fs2)"
    and a1: "write_report_artifacts env pl hc src c (source_baseline_artifacts b) (sp, []) fs2 = Some (Inr acc1, fs3)"
    and a2: "write_report_artifacts env pl hc cch c (runtime_cache_artifacts b) (cp, snd acc1) fs3 = Some (Inr acc2, fs4)"
    and side: "write_report_sidecars env b profile c (runtime_cache_sidecars b)
      \<lparr>wr_manifest_schema = bundle_schema b, wr_source_baseline_paths = fst acc1, wr_runtime_cache_paths = fst acc2,
       wr_artifact_paths = snd acc2, wr_selection_advice_path = None, wr_sidecar_paths = [],
       wr_materialization_advice = source_baseline_materialization_advice c (source_baseline_artifacts b) (source_baseline_sidecars b)\<rparr>
      fs4 = Some (Inr r, fs')"
    by (auto simp: write_rust_verification_reports_with_options_def prepare_report_directories_def step_iffs Let_def
        case_prod_beta b_def src_def cch_def simp del: write_report_artifacts.simps write_report_sidecars.simps)
  note w = write_report_manifest_Inr [OF m1] write_report_manifest_Inr [OF m2] write_report_artifacts_Inr [OF a1]
    write_report_artifacts_Inr [OF a2]
  show thesis by (rule that [OF _ _ _ _ _ side]) (use w in auto)
qed

lemma written_reports:
  assumes run: "write_rust_verification_reports_with_options env pl hc c options fs = Some (Inr r, fs')"
  defines "b \<equiv> build_rust_verification_report_bundle_with_options pl options"
    and "src \<equiv> wc_source_baseline_dir c" and "cch \<equiv> wc_runtime_cache_dir c"
    and "advice \<equiv> (if include_selection_advice options then [path_push (wc_runtime_cache_dir c) ''selection_advice.json''] else [])"
  shows "wr_source_baseline_paths r = manifest_in src # map (artifact_path_in src) (rendered (source_baseline_artifacts b))"
    and "wr_runtime_cache_paths r = manifest_in cch # map (artifact_path_in cch) (rendered (runtime_cache_artifacts b)) @ advice"
    and "wr_artifact_paths r =
      map (\<lambda>a. artifact_receipt_from a (artifact_path_in src a)) (rendered (source_baseline_artifacts b)) @
      map (\<lambda>a. artifact_receipt_from a (artifact_path_in cch a)) (rendered (runtime_cache_artifacts b))"
    and "wr_sidecar_paths r = map (\<lambda>p. \<lparr>swr_key = SELECTION_ADVICE_SIDECAR_KEY, swr_role = SelectionAdvice, swr_path = p\<rparr>) advice"
    and "file_paths fs' = file_paths fs \<union> set (wr_source_baseline_paths r) \<union> set (wr_runtime_cache_paths r)"
proof -
  from write_reports_Inr [OF run] obtain profile r0 fs0 where
    r0: "wr_source_baseline_paths r0 = manifest_in src # map (artifact_path_in src) (rendered (source_baseline_artifacts b))"
      "wr_runtime_cache_paths r0 = manifest_in cch # map (artifact_path_in cch) (rendered (runtime_cache_artifacts b))"
      "wr_artifact_paths r0 =
         map (\<lambda>a. artifact_receipt_from a (artifact_path_in src a)) (rendered (source_baseline_artifacts b)) @
         map (\<lambda>a. artifact_receipt_from a (artifact_path_in cch a)) (rendered (runtime_cache_artifacts b))"
      "wr_sidecar_paths r0 = []"
    and fs0: "file_paths fs0 = file_paths fs \<union> set (wr_source_baseline_paths r0) \<union> set (wr_runtime_cache_paths r0)"
    and side: "write_report_sidecars env b profile c (runtime_cache_sidecars b) r0 fs0 = Some (Inr r, fs')"
    unfolding b_def src_def cch_def .
  have summary: "r = r0\<lparr>wr_selection_advice_path := wr_selection_advice_path r, wr_runtime_cache_paths := wr_runtime_cache_paths r0 @ advice,
      wr_sidecar_paths := map (\<lambda>p. \<lparr>swr_key = SELECTION_ADVICE_SIDECAR_KEY, swr_role = SelectionAdvice, swr_path = p\<rparr>) advice\<rparr>
    \<and> file_paths fs' = file_paths fs0 \<union> set advice"
  proof (cases "include_selection_advice options")
    case False
    with side have "r = r0" "fs' = fs0" by (simp_all add: b_def runtime_cache_sidecars_of_bundle step_iffs)
    with False r0(4) show ?thesis by (simp add: advice_def)
  next
    case True
    with side have "write_report_sidecar env b profile c selection_advice_sidecar r0 fs0 = Some (Inr r, fs')"
      by (auto simp: b_def runtime_cache_sidecars_of_bundle step_iffs)
    from write_selection_advice_Inr [OF this] True r0(4) show ?thesis by (simp add: advice_def)
  qed
  then have r: "wr_source_baseline_paths r = wr_source_baseline_paths r0" "wr_runtime_cache_paths r = wr_runtime_cache_paths r0 @ advice"
    "wr_artifact_paths r = wr_artifact_paths r0"
    "wr_sidecar_paths r = map (\<lambda>p. \<lparr>swr_key = SELECTION_ADVICE_SIDECAR_KEY, swr_role = SelectionAdvice, swr_path = p\<rparr>) advice"
    by (metis (no_types, lifting) write_receipt.select_convs write_receipt.update_convs write_receipt.surjective)+
  show "wr_source_baseline_paths r = manifest_in src # map (artifact_path_in src) (rendered (source_baseline_artifacts b))"
    "wr_runtime_cache_paths r = manifest_in cch # map (artifact_path_in cch) (rendered (runtime_cache_artifacts b)) @ advice"
    "wr_artifact_paths r =
      map (\<lambda>a. artifact_receipt_from a (artifact_path_in src a)) (rendered (source_baseline_artifacts b)) @
      map (\<lambda>a. artifact_receipt_from a (artifact_path_in cch a)) (rendered (runtime_cache_artifacts b))"
    "wr_sidecar_paths r = map (\<lambda>p. \<lparr>swr_key = SELECTION_ADVICE_SIDECAR_KEY, swr_role = SelectionAdvice, swr_path = p\<rparr>) advice"
    "file_paths fs' = file_paths fs \<union> set (wr_source_baseline_paths r) \<union> set (wr_runtime_cache_paths r)"
    using r0 fs0 summary by (auto simp: r)
qed

text \<open>
  C8: when the writer succeeds, its receipt is exact: the source directory holds its manifest and then every artifact with a
  payload that the options keep as a source baseline, the cache directory its manifest, every other artifact with a payload and,
  when asked for, the reading advice; the artifact entries name the same files, and the files on disk afterwards are the old
  ones and those of the receipt, nothing else.
\<close>

theorem report_writer_exact:
  "let b = build_rust_verification_report_bundle_with_options pl options;
       source = rendered (source_baseline_artifacts b); cache = rendered (runtime_cache_artifacts b);
       advice = (if include_selection_advice options then [path_push (wc_runtime_cache_dir c) ''selection_advice.json''] else [])
   in case write_rust_verification_reports_with_options env pl hc c options fs of
        Some (Inr r, fs') \<Rightarrow>
          wr_source_baseline_paths r = manifest_in (wc_source_baseline_dir c) # map (artifact_path_in (wc_source_baseline_dir c)) source \<and>
          wr_runtime_cache_paths r =
            manifest_in (wc_runtime_cache_dir c) # map (artifact_path_in (wc_runtime_cache_dir c)) cache @ advice \<and>
          wr_artifact_paths r =
            map (\<lambda>a. artifact_receipt_from a (artifact_path_in (wc_source_baseline_dir c) a)) source @
            map (\<lambda>a. artifact_receipt_from a (artifact_path_in (wc_runtime_cache_dir c) a)) cache \<and>
          map swr_path (wr_sidecar_paths r) = advice \<and>
          file_paths fs' = file_paths fs \<union> set (wr_source_baseline_paths r) \<union> set (wr_runtime_cache_paths r)
      | _ \<Rightarrow> True"
proof (cases "\<exists>r fs'. write_rust_verification_reports_with_options env pl hc c options fs = Some (Inr r, fs')")
  case False
  then show ?thesis by (auto simp: Let_def split: option.splits prod.splits sum.splits)
next
  case True
  then obtain r fs' where run: "write_rust_verification_reports_with_options env pl hc c options fs = Some (Inr r, fs')" by blast
  note w = written_reports [OF run]
  have "map swr_path (wr_sidecar_paths r) =
      (if include_selection_advice options then [path_push (wc_runtime_cache_dir c) ''selection_advice.json''] else [])"
    by (simp add: w(4))
  then show ?thesis unfolding Let_def run option.case prod.case sum.case using w(1,2,3,5) by blast
qed

section \<open>Opening what was written\<close>

lemma render_entry_total: "render_rust_verification_report_entry_advice a \<noteq> None"
  by (cases "en_schema_compatibility a")
    (simp_all add: render_rust_verification_report_entry_advice_def render_unsupported_entry_advice_def is_supported_def)

lemma entry_action_stops_iff:
  assumes "build_rust_verification_report_entry_advice_with_receipt b profile receipt_opt = Some a"
  shows "en_action a = StopAndRefreshHarnessContract \<longleftrightarrow> bundle_schema b \<noteq> manifest_schema_default"
  using assms
  by (cases "bundle_schema b")
    (auto simp: build_rust_verification_report_entry_advice_with_receipt_def select_entry_action_def is_supported_def
      check_rust_verification_report_manifest_schema_def manifest_schema_default_def Let_def split: if_splits)

lemma selection_advice_first:
  obtains advice where "build_rust_verification_report_selection_advice b profile = Some advice"
    "if bundle_artifacts b = [] then adv_first advice = None
     else \<exists>first \<in> set (bundle_artifacts b). adv_first advice = Some (selection_artifact_of first)"
proof (cases "bundle_artifacts b = []")
  case True
  then have "build_rust_verification_report_selection_advice b profile =
    Some \<lparr>adv_artifact_count = 0, adv_first = None, adv_reason = NoActiveReportArtifactsReason,
          adv_scale = map_option selection_scale_of profile, adv_order = []\<rparr>"
    by (simp add: build_rust_verification_report_selection_advice_def bundle_is_empty_def)
  from that [OF this] True show thesis by simp
next
  case False
  with select_first_artifact_Some obtain first where first: "select_first_artifact b profile = Some first" by blast
  with False select_first_artifact_in [OF first] show thesis
    by (intro that) (auto simp: build_rust_verification_report_selection_advice_def bundle_is_empty_def)
qed

lemma obligation_keys_rendered: "obligation_key ` set (report_obligations_for_tasks ts) \<subseteq> rendered_keys"
  by (auto simp: report_obligations_for_tasks_def rendered_keys_def STABILITY_PICTURE_ARTIFACT_KEY_def Let_def)

text \<open>The plan as the planner completes it.\<close>

definition with_obligations :: "task list \<Rightarrow> plan \<Rightarrow> plan" where
  "with_obligations ts pl = pl\<lparr>report_obligations := report_obligations_for_tasks ts\<rparr>"

lemma bundle_keys_rendered:
  "art_key ` set (bundle_artifacts (build_rust_verification_report_bundle_with_options (with_obligations ts pl) options)) \<subseteq> rendered_keys"
  using obligation_keys_rendered [of ts]
  by (auto simp: build_rust_verification_report_bundle_with_options_def with_obligations_def artifact_from_obligation_def
      analysis_profile_artifact_def rendered_keys_def)

lemma rendered_all: "art_key ` set (bundle_artifacts b) \<subseteq> rendered_keys \<Longrightarrow>
    set (rendered (source_baseline_artifacts b)) \<union> set (rendered (runtime_cache_artifacts b)) = set (bundle_artifacts b)"
  by (auto simp: rendered_def source_baseline_artifacts_def runtime_cache_artifacts_def)
    (metis report_persistence.exhaust)

lemma written_artifact_found:
  assumes run: "write_rust_verification_reports_with_options env pl hc c options fs = Some (Inr r, fs')"
    and keys: "art_key ` set (bundle_artifacts (build_rust_verification_report_bundle_with_options pl options)) \<subseteq> rendered_keys"
    and "a \<in> set (bundle_artifacts (build_rust_verification_report_bundle_with_options pl options))"
  obtains p where "receipt_artifact_path (art_key a) r = Some p" "p \<in> file_paths fs'"
proof -
  note w = written_reports [OF run]
  from assms(3) rendered_all [OF keys] have "art_key a \<in> awr_key ` set (wr_artifact_paths r)"
    unfolding w(3) by (force simp: artifact_receipt_from_def image_iff)
  then obtain x where x: "find (\<lambda>y. awr_key y = art_key a) (wr_artifact_paths r) = Some x"
    by (cases "find (\<lambda>y. awr_key y = art_key a) (wr_artifact_paths r)") (auto simp: find_None_iff)
  then have "x \<in> set (wr_artifact_paths r)" by (auto simp: find_Some_iff)
  then have "awr_path x \<in> file_paths fs'" unfolding w(5) w(1) w(2) unfolding w(3) by (auto simp: artifact_receipt_from_def)
  with x that show thesis by (simp add: receipt_artifact_path_def)
qed

text \<open>
  Whoever opens what the writer wrote finds it: after a successful run for a plan with the planner's own obligations the
  entry advice exists, never asks to refresh the contract, points at the reading advice exactly when it was asked for, says that
  there is nothing to read exactly when the bundle is empty, and otherwise names an artifact that is on disk.
\<close>

lemma written_reports_open:
  "let pl' = with_obligations ts pl; b = build_rust_verification_report_bundle_with_options pl' options
   in case write_rust_verification_reports_with_options env pl' hc c options fs of
        Some (Inr r, fs') \<Rightarrow>
          (case build_rust_verification_report_entry_advice_with_receipt b profile (Some r) of
             None \<Rightarrow> False
           | Some advice \<Rightarrow>
               en_action advice = (if bundle_artifacts b = [] then NoActiveReportArtifacts
                 else if include_selection_advice options then LoadSelectionAdviceSidecar else ReadFirstArtifact) \<and>
               (case en_first_artifact advice of
                  None \<Rightarrow> bundle_artifacts b = []
                | Some f \<Rightarrow> ea_key f \<in> art_key ` set (bundle_artifacts b) \<and> ea_path f \<in> file_paths fs'))
      | _ \<Rightarrow> True"
proof (cases "\<exists>r fs'. write_rust_verification_reports_with_options env (with_obligations ts pl) hc c options fs = Some (Inr r, fs')")
  case False
  then show ?thesis by (auto simp: Let_def split: option.splits prod.splits sum.splits)
next
  case True
  then obtain r fs' where run: "write_rust_verification_reports_with_options env (with_obligations ts pl) hc c options fs = Some (Inr r, fs')"
    by blast
  let ?b = "build_rust_verification_report_bundle_with_options (with_obligations ts pl) options"
  obtain advice where advice: "build_rust_verification_report_selection_advice ?b profile = Some advice"
    and first: "if bundle_artifacts ?b = [] then adv_first advice = None
     else \<exists>first \<in> set (bundle_artifacts ?b). adv_first advice = Some (selection_artifact_of first)" by (rule selection_advice_first)
  have schema: "check_rust_verification_report_manifest_schema (bundle_schema ?b) = Supported"
    by (simp add: build_rust_verification_report_bundle_with_options_def check_rust_verification_report_manifest_schema_def
        manifest_schema_default_def)
  have sidecar: "selection_sidecar_from_receipt r = None \<longleftrightarrow> \<not> include_selection_advice options"
    by (simp add: selection_sidecar_from_receipt_def written_reports(4) [OF run])
  note entry = build_rust_verification_report_entry_advice_with_receipt_def advice schema is_supported_def select_entry_action_def
    first_artifact_from_receipt_def
  show ?thesis
  proof (cases "bundle_artifacts ?b = []")
    case True
    with first show ?thesis by (simp add: run Let_def entry)
  next
    case False
    with first obtain a where a: "a \<in> set (bundle_artifacts ?b)" "adv_first advice = Some (selection_artifact_of a)" by auto
    from written_artifact_found [OF run bundle_keys_rendered a(1)] obtain p where
      p: "receipt_artifact_path (art_key a) r = Some p" "p \<in> file_paths fs'" .
    then obtain x where "find (\<lambda>y. awr_key y = art_key a) (wr_artifact_paths r) = Some x" "awr_path x = p" "awr_key x = art_key a"
      by (auto simp: receipt_artifact_path_def find_Some_iff)
    with False a p(2) sidecar show ?thesis
      by (simp add: run Let_def entry selection_artifact_of_def entry_artifact_from_def)
  qed
qed

section \<open>Limits of the compaction\<close>

text \<open>
  The root is replaced as text, so the path of a sibling directory whose name extends the root's name is rewritten too, and
  names a directory that does not exist.
\<close>

lemma json_string_fragment_quoted:
  "json_string j v = Ok ([CHR 0x22] @ v @ [CHR 0x22]) \<Longrightarrow> json_string_fragment j v = v"
  by (simp add: json_string_fragment_def strip_quotes_def)

lemma compaction_rewrites_sibling:
  assumes "\<And>v. json_string j v = Ok ([CHR 0x22] @ v @ [CHR 0x22])"
  shows "compact_project_root j ''/ws/app-core/src'' [RootDir, Normal ''ws'', Normal ''app''] ''$CRATE_ROOT'' = ''$CRATE_ROOT-core/src''"
  unfolding compact_project_root_def project_root_compaction_candidates_def json_string_fragment_quoted [OF assms] by code_simp

text \<open>The reason given for reading the analysis profile first does not look at its size.\<close>

lemma small_profile_called_large:
  assumes "\<not> is_large_analysis_profile p"
  shows "map_option adv_reason (build_rust_verification_report_selection_advice
      (bundle_with_parts [analysis_profile_artifact report_options_default] [] b) (Some p)) = Some LargeAnalysisSurfaceScopeWindowFirst"
  using assms by (simp add: build_rust_verification_report_selection_advice_def bundle_is_empty_def bundle_with_parts_def
      select_first_artifact_def should_scope_with_analysis_def first_artifact_for_role_def analysis_profile_artifact_def
      selection_reason_of_def)

end
