(* ===== verification/Profile_Index.thy ===== *)
theory Profile_Index
  imports Verification_Index Verification_Analysis
begin

text \<open>
  Suggested responsibility profiles (\<open>src/verification/profile_index/\<close>): for each package the branches and the modules no
  branch covers are aggregated into signals, the signals into responsibilities, and an owner with responsibilities becomes a
  candidate whose state says whether the configured hints cover it. Counters are natural numbers; sets of roots and of
  responsibilities are ascending lists.
\<close>

section \<open>Candidates\<close>

datatype candidate_state = MissingProfile | ProfileDrift | Configured

primrec candidate_state_str :: "candidate_state \<Rightarrow> string" where
  "candidate_state_str MissingProfile = ''missing_profile''"
| "candidate_state_str ProfileDrift = ''profile_drift''"
| "candidate_state_str Configured = ''configured''"

definition state_requires_action :: "candidate_state \<Rightarrow> bool" where
  "state_requires_action s \<longleftrightarrow> s \<in> {MissingProfile, ProfileDrift}"

record profile_candidate =
  pc_package_root :: path
  pc_owner_path :: path
  pc_hint_path :: path
  pc_owner_namespace :: "string list"
  pc_state :: candidate_state
  pc_suggested_responsibilities :: "responsibility list"
  pc_configured_responsibilities :: "responsibility list"
  pc_suggested_task_kinds :: "task_kind list"
  pc_evidence :: "evidence list"

definition candidate_requires_action :: "profile_candidate \<Rightarrow> bool" where
  "candidate_requires_action c = state_requires_action (pc_state c)"

definition to_profile_hint :: "profile_candidate \<Rightarrow> profile_hint" where
  "to_profile_hint c = profile_hint_new (pc_hint_path c) (pc_suggested_responsibilities c)"

record profile_index =
  pi_project_root :: path
  pi_candidates :: "profile_candidate list"
  pi_configured_profile_hint_count :: nat

definition active_candidates :: "profile_index \<Rightarrow> profile_candidate list" where
  "active_candidates ix = filter candidate_requires_action (pi_candidates ix)"

definition profile_index_is_clear :: "profile_index \<Rightarrow> bool" where
  "profile_index_is_clear ix \<longleftrightarrow> active_candidates ix = []"

definition needs_profile_configuration :: "profile_index \<Rightarrow> bool" where
  "needs_profile_configuration ix \<longleftrightarrow> pi_configured_profile_hint_count ix = 0 \<and> active_candidates ix \<noteq> []"

definition candidates_for_package :: "path \<Rightarrow> profile_index \<Rightarrow> profile_candidate list" where
  "candidates_for_package root ix = filter (\<lambda>c. pc_package_root c = root \<or>
     strip_prefix (pc_package_root c) (pi_project_root ix) = Some root) (pi_candidates ix)"

definition active_profile_hints :: "profile_index \<Rightarrow> profile_hint list" where
  "active_profile_hints ix = map to_profile_hint (active_candidates ix)"

section \<open>Signals\<close>

record profile_signals =
  sig_owner_modules :: nat
  sig_public_items :: nat
  sig_public_exports :: nat
  sig_public_functions :: nat
  sig_owner_deps :: nat
  sig_child_modules :: nat
  sig_dependency_roots :: "string list"
  sig_configured_dependency_roots :: "string list"
  sig_unconfigured_dependency_roots :: "string list"
  sig_external_roots :: "string list"
  sig_network_roots :: "string list"
  sig_persistence_roots :: "string list"
  sig_security_roots :: "string list"
  sig_performance_roots :: "string list"

definition profile_signals_default :: profile_signals where
  "profile_signals_default = \<lparr>sig_owner_modules = 0, sig_public_items = 0, sig_public_exports = 0, sig_public_functions = 0,
     sig_owner_deps = 0, sig_child_modules = 0, sig_dependency_roots = [], sig_configured_dependency_roots = [],
     sig_unconfigured_dependency_roots = [], sig_external_roots = [], sig_network_roots = [], sig_persistence_roots = [],
     sig_security_roots = [], sig_performance_roots = []\<rparr>"

definition standard_import_responsibilities :: "string list \<Rightarrow> responsibility list" where
  "standard_import_responsibilities segments =
     (case segments of
        first # second # _ \<Rightarrow> if first = ''std'' \<and> second = ''fs'' then bset_of_list [ExternalDependency, Persistence] else []
      | _ \<Rightarrow> [])"

record hint_lookup =
  hl_absolute :: "(path \<times> profile_hint) list"
  hl_relative :: "(path \<times> profile_hint) list"

definition hint_lookup_add :: "profile_hint \<Rightarrow> hint_lookup \<Rightarrow> hint_lookup" where
  "hint_lookup_add h l =
     (if is_absolute (hint_owner_path h) then l\<lparr>hl_absolute := bmap_or_insert (hint_owner_path h) h (hl_absolute l)\<rparr>
      else l\<lparr>hl_relative := bmap_or_insert (hint_owner_path h) h (hl_relative l)\<rparr>)"

definition hint_lookup_new :: "profile_hint list \<Rightarrow> hint_lookup" where
  "hint_lookup_new hints = fold hint_lookup_add hints \<lparr>hl_absolute = [], hl_relative = []\<rparr>"

definition hint_lookup_get :: "hint_lookup \<Rightarrow> path \<Rightarrow> path \<Rightarrow> path \<Rightarrow> profile_hint option" where
  "hint_lookup_get l project_root pkg_root owner =
     (case bmap_get (hl_absolute l) owner of
        Some h \<Rightarrow> Some h
      | None \<Rightarrow>
          (case Option.bind (strip_prefix owner project_root) (bmap_get (hl_relative l)) of
             Some h \<Rightarrow> Some h
           | None \<Rightarrow> Option.bind (strip_prefix owner pkg_root) (bmap_get (hl_relative l))))"

record dependency_lookup =
  dl_cargo_by_import_name :: "(string \<times> cargo_dependency_facts) list"
  dl_responsibilities_by_dependency :: "(string \<times> responsibility list) list"

definition add_dependency_signal :: "dependency_signal \<Rightarrow> (string \<times> responsibility list) list \<Rightarrow> (string \<times> responsibility list) list" where
  "add_dependency_signal s m =
     bmap_insert (signal_dependency s)
       (bset_extend (case bmap_get m (signal_dependency s) of Some rs \<Rightarrow> rs | None \<Rightarrow> []) (signal_responsibilities s)) m"

definition dependency_lookup_new :: "cargo_dependency_facts list \<Rightarrow> dependency_signal list \<Rightarrow> dependency_lookup" where
  "dependency_lookup_new deps signals =
     \<lparr>dl_cargo_by_import_name = bmap_of_list (map (\<lambda>d. (cd_import_name d, d)) deps),
      dl_responsibilities_by_dependency = fold add_dependency_signal signals []\<rparr>"

definition matching_cargo_dependency :: "dependency_lookup \<Rightarrow> string list \<Rightarrow> cargo_dependency_facts option" where
  "matching_cargo_dependency l segments =
     (case segments of [] \<Rightarrow> None | root # _ \<Rightarrow> bmap_get (dl_cargo_by_import_name l) root)"

definition configured_dependency_responsibilities :: "dependency_lookup \<Rightarrow> cargo_dependency_facts \<Rightarrow> responsibility list" where
  "configured_dependency_responsibilities l d =
     fold (\<lambda>key rs. case bmap_get (dl_responsibilities_by_dependency l) key of Some c \<Rightarrow> bset_extend rs c | None \<Rightarrow> rs)
       [cd_dependency_key d, cd_import_name d, cd_package_name d] []"

definition compact_import_label :: "string list \<Rightarrow> string" where
  "compact_import_label segments = join_with ''::'' (take 2 segments)"

definition compact_dependency_label :: "cargo_dependency_facts \<Rightarrow> string" where
  "compact_dependency_label d =
     (let base = (if cd_import_name d = cd_package_name d then cd_import_name d else cd_import_name d @ ''->'' @ cd_package_name d);
          qualifiers =
            (case cd_kind d of NormalDep \<Rightarrow> [] | DevDep \<Rightarrow> [''dev''] | BuildDep \<Rightarrow> [''build'']) @
            (case cd_target d of None \<Rightarrow> [] | Some target \<Rightarrow> [''target='' @ target]) @
            (if cd_optional d then [''optional''] else []) @
            (if cd_features d \<noteq> [] then [''features='' @ join_with ''+'' (cd_features d)] else [])
      in if qualifiers = [] then base else base @ ''('' @ join_with '','' qualifiers @ '')'')"

definition add_import_responsibility :: "string \<Rightarrow> responsibility \<Rightarrow> profile_signals \<Rightarrow> profile_signals" where
  "add_import_responsibility label r s =
     (case r of
        ExternalDependency \<Rightarrow> s\<lparr>sig_external_roots := bset_insert label (sig_external_roots s)\<rparr>
      | Persistence \<Rightarrow> s\<lparr>sig_persistence_roots := bset_insert label (sig_persistence_roots s)\<rparr>
      | SecurityBoundary \<Rightarrow> s\<lparr>sig_security_roots := bset_insert label (sig_security_roots s)\<rparr>
      | LatencySensitive \<Rightarrow> s\<lparr>sig_performance_roots := bset_insert label (sig_performance_roots s)\<rparr>
      | AvailabilityCritical \<Rightarrow> s\<lparr>sig_network_roots := bset_insert label (sig_network_roots s)\<rparr>
      | PublicApi \<Rightarrow> s
      | PureDomainLogic \<Rightarrow> s)"

definition add_import_signal :: "dependency_lookup \<Rightarrow> string list \<Rightarrow> profile_signals \<Rightarrow> profile_signals" where
  "add_import_signal l segments s =
     (if segments = [] then s
      else
        let label = compact_import_label segments; standard = standard_import_responsibilities segments in
        (case matching_cargo_dependency l segments of
           None \<Rightarrow> fold (add_import_responsibility label) standard s
         | Some d \<Rightarrow>
             (let dependency_label = compact_dependency_label d;
                  s1 = s\<lparr>sig_dependency_roots := bset_insert dependency_label (sig_dependency_roots s)\<rparr>;
                  configured = configured_dependency_responsibilities l d;
                  s2 = (if configured = []
                    then s1\<lparr>sig_unconfigured_dependency_roots := bset_insert dependency_label (sig_unconfigured_dependency_roots s1)\<rparr>
                    else s1\<lparr>sig_configured_dependency_roots := bset_insert dependency_label (sig_configured_dependency_roots s1)\<rparr>)
              in fold (add_import_responsibility label) (bset_extend standard configured) s2)))"

definition merge_profile_signals :: "dependency_lookup \<Rightarrow> reasoning_module \<Rightarrow> profile_signals \<Rightarrow> profile_signals" where
  "merge_profile_signals l m s =
     fold (add_import_signal l) (production_external_imports (mod_import_summary m))
       (s\<lparr>sig_owner_deps := sig_owner_deps s + non_test_owner_dependency_count (mod_import_summary m),
          sig_public_items := sig_public_items s + public_items (mod_public_api m),
          sig_public_exports := sig_public_exports s + public_exports (mod_public_api m),
          sig_public_functions := sig_public_functions s + public_functions (mod_public_api m)\<rparr>)"

definition aggregate_profile_signals :: "dependency_lookup \<Rightarrow> owner_branch option \<Rightarrow> reasoning_module list \<Rightarrow> profile_signals" where
  "aggregate_profile_signals l branch ms =
     fold (merge_profile_signals l) ms
       (profile_signals_default\<lparr>sig_owner_modules := length ms,
          sig_child_modules := (case branch of None \<Rightarrow> 0 | Some b \<Rightarrow> length (branch_child_edges b))\<rparr>)"

section \<open>Responsibilities\<close>

definition is_crate_root_facade :: "reasoning_module \<Rightarrow> bool" where
  "is_crate_root_facade m \<longleftrightarrow> mod_is_tree_root m \<and> is_crate_facade (mod_source_path m)"

definition branch_is_profile_owner :: "owner_branch \<Rightarrow> bool" where
  "branch_is_profile_owner b \<longleftrightarrow> RoleRoot \<notin> set (branch_roles b) \<or> RoleBinary \<in> set (branch_roles b) \<or>
     RolePackageEntrypoint \<in> set (branch_roles b)"

definition branch_is_public_surface :: "owner_branch \<Rightarrow> bool" where
  "branch_is_public_surface b \<longleftrightarrow> RoleRoot \<notin> set (branch_roles b) \<and>
     list_ex (\<lambda>r. r \<in> {RoleFacade, RoleInterface, RoleBinary, RolePackageEntrypoint}) (branch_roles b)"

definition suggested_responsibilities :: "reasoning_module \<Rightarrow> owner_branch option \<Rightarrow> profile_signals \<Rightarrow> responsibility list" where
  "suggested_responsibilities m branch s = bset_of_list (
     (if sig_public_functions s > 0 \<or> sig_public_items s > 0 \<or> (sig_public_exports s > 0 \<and> \<not> is_crate_root_facade m) \<or>
         (case branch of None \<Rightarrow> False | Some b \<Rightarrow> branch_is_public_surface b) then [PublicApi] else []) @
     (if sig_external_roots s \<noteq> [] \<or> sig_network_roots s \<noteq> [] \<or> sig_persistence_roots s \<noteq> [] \<or> sig_owner_deps s \<ge> 3
      then [ExternalDependency] else []) @
     (if sig_persistence_roots s \<noteq> [] then [Persistence] else []) @
     (if sig_security_roots s \<noteq> [] then [SecurityBoundary] else []) @
     (if sig_performance_roots s \<noteq> [] then [LatencySensitive] else []) @
     (if sig_network_roots s \<noteq> [] then [AvailabilityCritical] else []))"

definition usize_evidence :: "string \<Rightarrow> nat \<Rightarrow> evidence list" where
  "usize_evidence label n = (if n > 0 then [evidence_new label (show_nat n)] else [])"

definition set_evidence :: "string \<Rightarrow> string list \<Rightarrow> evidence list" where
  "set_evidence label values = (if values \<noteq> [] then [evidence_new label (join_with '','' values)] else [])"

definition signal_evidence :: "profile_signals \<Rightarrow> evidence list" where
  "signal_evidence s =
     (if sig_owner_modules s > 1 then usize_evidence ''owner_modules'' (sig_owner_modules s) else []) @
     usize_evidence ''public_items'' (sig_public_items s) @ usize_evidence ''public_exports'' (sig_public_exports s) @
     usize_evidence ''public_fns'' (sig_public_functions s) @ usize_evidence ''owner_deps'' (sig_owner_deps s) @
     usize_evidence ''child_modules'' (sig_child_modules s) @ set_evidence ''dependency_roots'' (sig_dependency_roots s) @
     set_evidence ''configured_dependency_roots'' (sig_configured_dependency_roots s) @
     set_evidence ''unconfigured_dependency_roots'' (sig_unconfigured_dependency_roots s) @
     set_evidence ''external_roots'' (sig_external_roots s) @ set_evidence ''network_roots'' (sig_network_roots s) @
     set_evidence ''persistence_roots'' (sig_persistence_roots s) @ set_evidence ''security_roots'' (sig_security_roots s) @
     set_evidence ''performance_roots'' (sig_performance_roots s)"

definition profile_candidate_state :: "profile_hint option \<Rightarrow> responsibility list \<Rightarrow> candidate_state" where
  "profile_candidate_state hint suggested =
     (case hint of
        None \<Rightarrow> MissingProfile
      | Some h \<Rightarrow> if set suggested \<subseteq> set (hint_responsibilities h) then Configured else ProfileDrift)"

definition recommended_hint_path :: "path \<Rightarrow> path \<Rightarrow> path \<Rightarrow> path" where
  "recommended_hint_path project_root pkg_root owner =
     (case strip_prefix owner project_root of
        Some relative \<Rightarrow> relative
      | None \<Rightarrow> (case strip_prefix owner pkg_root of Some relative \<Rightarrow> relative | None \<Rightarrow> owner))"

section \<open>Collecting the candidates of a package\<close>

record candidate_input =
  ci_project_root :: path
  ci_package_root :: path
  ci_modules :: "reasoning_module list"
  ci_branches :: "owner_branch list"
  ci_cargo_dependencies :: "cargo_dependency_facts list"
  ci_policy :: policy

definition push_profile_candidate ::
  "candidate_input \<Rightarrow> hint_lookup \<Rightarrow> reasoning_module \<Rightarrow> owner_branch option \<Rightarrow> profile_signals \<Rightarrow>
   profile_candidate list \<Rightarrow> profile_candidate list" where
  "push_profile_candidate ci hints m branch s cs =
     (let rs = suggested_responsibilities m branch s in
      if rs = [] then cs
      else
        let hint = hint_lookup_get hints (ci_project_root ci) (ci_package_root ci) (mod_path m) in
        cs @ [\<lparr>pc_package_root = ci_package_root ci, pc_owner_path = mod_path m,
               pc_hint_path = recommended_hint_path (ci_project_root ci) (ci_package_root ci) (mod_path m),
               pc_owner_namespace = namespace_components (mod_source_path m), pc_state = profile_candidate_state hint rs,
               pc_suggested_responsibilities = rs,
               pc_configured_responsibilities = (case hint of None \<Rightarrow> [] | Some h \<Rightarrow> hint_responsibilities h),
               pc_suggested_task_kinds = task_kinds_for_responsibilities rs (ci_policy ci), pc_evidence = signal_evidence s\<rparr>])"

definition branch_lookup_new :: "owner_branch list \<Rightarrow> (string list \<times> owner_branch) list" where
  "branch_lookup_new bs = fold (\<lambda>b. bmap_or_insert (branch_namespace b) b) bs []"

fun nearest_branch :: "(string list \<times> owner_branch) list \<Rightarrow> string list \<Rightarrow> nat \<Rightarrow> owner_branch option" where
  "nearest_branch l namespace 0 = bmap_get l []"
| "nearest_branch l namespace (Suc n) =
     (case bmap_get l (take (Suc n) namespace) of Some b \<Rightarrow> Some b | None \<Rightarrow> nearest_branch l namespace n)"

definition nearest_profile_branch :: "(string list \<times> owner_branch) list \<Rightarrow> reasoning_module \<Rightarrow> owner_branch option" where
  "nearest_profile_branch l m =
     nearest_branch l (namespace_components (mod_source_path m)) (length (namespace_components (mod_source_path m)))"

definition cover_module ::
  "(string list \<times> owner_branch) list \<Rightarrow> reasoning_module \<Rightarrow> path list \<times> (path \<times> reasoning_module list) list \<Rightarrow>
   path list \<times> (path \<times> reasoning_module list) list" where
  "cover_module l m st =
     (case nearest_profile_branch l m of
        None \<Rightarrow> st
      | Some b \<Rightarrow> (if mod_path m \<noteq> branch_path b then bset_insert (mod_path m) (fst st) else fst st,
          group_push (branch_path b) m (snd st)))"

definition push_branch_candidate ::
  "candidate_input \<Rightarrow> hint_lookup \<Rightarrow> dependency_lookup \<Rightarrow> (path \<times> reasoning_module) list \<Rightarrow> (path \<times> reasoning_module list) list \<Rightarrow>
   owner_branch \<Rightarrow> profile_candidate list \<Rightarrow> profile_candidate list" where
  "push_branch_candidate ci hints deps mods_by_path branch_modules b cs =
     (case (bmap_get mods_by_path (branch_path b), bmap_get branch_modules (branch_path b)) of
        (Some m, Some ms) \<Rightarrow> push_profile_candidate ci hints m (Some b) (aggregate_profile_signals deps (Some b) ms) cs
      | _ \<Rightarrow> cs)"

definition push_module_candidate ::
  "candidate_input \<Rightarrow> hint_lookup \<Rightarrow> dependency_lookup \<Rightarrow> (path \<times> owner_branch) list \<Rightarrow> reasoning_module \<Rightarrow>
   profile_candidate list \<Rightarrow> profile_candidate list" where
  "push_module_candidate ci hints deps branches_by_path m cs =
     (let branch = bmap_get branches_by_path (mod_path m) in
      if (case branch of None \<Rightarrow> False | Some b \<Rightarrow> branch_is_profile_owner b) then cs
      else push_profile_candidate ci hints m branch (aggregate_profile_signals deps branch [m]) cs)"

definition collect_package_candidates :: "candidate_input \<Rightarrow> profile_candidate list \<Rightarrow> profile_candidate list" where
  "collect_package_candidates ci cs =
     (let mods_by_path = bmap_of_list (map (\<lambda>m. (mod_path m, m)) (ci_modules ci));
          branches_by_path = bmap_of_list (map (\<lambda>b. (branch_path b, b)) (ci_branches ci));
          profiled = filter branch_is_profile_owner (ci_branches ci);
          hints = hint_lookup_new (profile_hints (ci_policy ci));
          deps = dependency_lookup_new (ci_cargo_dependencies ci) (dependency_signals (ci_policy ci));
          source_modules = filter mod_is_source (ci_modules ci);
          (covered, branch_modules) = fold (cover_module (branch_lookup_new profiled)) source_modules ([], [])
      in fold (push_module_candidate ci hints deps branches_by_path) (filter (\<lambda>m. mod_path m \<notin> set covered) source_modules)
           (fold (push_branch_candidate ci hints deps mods_by_path branch_modules) profiled cs))"

definition candidate_input_of :: "path \<Rightarrow> policy \<Rightarrow> verification_package_analysis \<Rightarrow> candidate_input" where
  "candidate_input_of project_root p a =
     \<lparr>ci_project_root = project_root, ci_package_root = tree_package_root (va_reasoning_tree a),
      ci_modules = tree_modules (va_reasoning_tree a), ci_branches = tree_owner_branches (va_reasoning_tree a),
      ci_cargo_dependencies = va_cargo_dependencies a, ci_policy = p\<rparr>"

definition profile_index_of_analyses :: "path \<Rightarrow> policy \<Rightarrow> verification_package_analysis list \<Rightarrow> profile_index" where
  "profile_index_of_analyses project_root p as =
     \<lparr>pi_project_root = project_root,
      pi_candidates = sort_key (\<lambda>c. (pc_package_root c, pc_owner_path c))
        (fold (\<lambda>a. collect_package_candidates (candidate_input_of project_root p a)) as []),
      pi_configured_profile_hint_count = length (profile_hints p)\<rparr>"

definition build_rust_verification_profile_index_with_policy ::
  "host \<Rightarrow> path \<Rightarrow> asp_rust_config \<Rightarrow> policy \<Rightarrow> profile_index result option" where
  "build_rust_verification_profile_index_with_policy h project_root config p =
     map_option (map_ok (\<lambda>a. profile_index_of_analyses project_root p (vp_package_analyses a)))
       (analyze_rust_verification_project h (\<lambda>_. 0) 0 project_root config ParseDependencies)"

definition build_rust_verification_profile_index_with_config :: "host \<Rightarrow> path \<Rightarrow> asp_rust_config \<Rightarrow> profile_index result option" where
  "build_rust_verification_profile_index_with_config h project_root config =
     build_rust_verification_profile_index_with_policy h project_root config (verification_policy config)"

definition build_rust_verification_profile_index :: "host \<Rightarrow> path \<Rightarrow> profile_index result option" where
  "build_rust_verification_profile_index h project_root =
     build_rust_verification_profile_index_with_config h project_root default_config"

section \<open>Rendering\<close>

definition compact_fact :: "string \<Rightarrow> bool" where
  "compact_fact label \<longleftrightarrow> label \<noteq> ''dependency_roots''"

definition render_profile_candidate :: "path option \<Rightarrow> profile_candidate \<Rightarrow> string" where
  "render_profile_candidate display_root c =
     (let root = (case display_root of Some d \<Rightarrow> d | None \<Rightarrow> pc_package_root c) in
      ''[verify-profile] '' @ display_path_below root (pc_owner_path c) @ newline @
      (if pc_owner_namespace c \<noteq> [] then ''   |owner: '' @ join_with ''/'' (pc_owner_namespace c) @ newline else []) @
      ''   |state: '' @ candidate_state_str (pc_state c) @ newline @
      (if pc_configured_responsibilities c \<noteq> []
       then ''   |configured: '' @ responsibility_labels (pc_configured_responsibilities c) @ newline else []) @
      ''   |suggest: '' @ responsibility_labels (pc_suggested_responsibilities c) @ newline @
      ''   |tasks: '' @ task_kind_labels (pc_suggested_task_kinds c) @ newline @
      concat (map (\<lambda>e. ''   |fact: '' @ ev_label e @ ''='' @ ev_value e @ newline)
        (filter (\<lambda>e. compact_fact (ev_label e)) (pc_evidence c))))"

definition render_profile_configuration_reminder :: "profile_index \<Rightarrow> string" where
  "render_profile_configuration_reminder ix =
     ''[verify-profile] profile_hints'' @ newline @ ''   |state: missing_profile_config'' @ newline @
     ''   |action: configure RustVerificationProfileHint entries'' @ newline @
     ''   |candidates: '' @ show_nat (length (active_candidates ix))"

definition render_rust_verification_profile_index :: "profile_index \<Rightarrow> string" where
  "render_rust_verification_profile_index ix =
     (let candidates = join_with newline (map (render_profile_candidate (display_root_of (pi_project_root ix))) (active_candidates ix))
      in if \<not> needs_profile_configuration ix then candidates
         else if candidates = [] then render_profile_configuration_reminder ix
         else render_profile_configuration_reminder ix @ newline @ candidates)"

section \<open>Accepting the suggestions\<close>

lemma fold_hint_lookup_add:
  "fold hint_lookup_add hs l =
     \<lparr>hl_absolute = fold (\<lambda>h. bmap_or_insert (hint_owner_path h) h) (filter (is_absolute \<circ> hint_owner_path) hs) (hl_absolute l),
      hl_relative = fold (\<lambda>h. bmap_or_insert (hint_owner_path h) h) (filter (Not \<circ> is_absolute \<circ> hint_owner_path) hs) (hl_relative l)\<rparr>"
  by (induction hs arbitrary: l) (simp_all add: hint_lookup_add_def)

lemma hint_lookup_new_get:
  "bmap_get (hl_absolute (hint_lookup_new hs)) q = find (\<lambda>h. hint_owner_path h = q) (filter (is_absolute \<circ> hint_owner_path) hs)"
  "bmap_get (hl_relative (hint_lookup_new hs)) q = find (\<lambda>h. hint_owner_path h = q) (filter (Not \<circ> is_absolute \<circ> hint_owner_path) hs)"
  by (simp_all add: hint_lookup_new_def fold_hint_lookup_add get_fold_or_insert)

text \<open>What of a candidate depends on the configured hints.\<close>

definition resolve_candidate :: "profile_hint list \<Rightarrow> path \<Rightarrow> profile_candidate \<Rightarrow> profile_candidate" where
  "resolve_candidate hs project_root c =
     (let hint = hint_lookup_get (hint_lookup_new hs) project_root (pc_package_root c) (pc_owner_path c) in
      c\<lparr>pc_state := profile_candidate_state hint (pc_suggested_responsibilities c),
        pc_configured_responsibilities := (case hint of None \<Rightarrow> [] | Some h \<Rightarrow> hint_responsibilities h)\<rparr>)"

abbreviation with_hints :: "profile_hint list \<Rightarrow> policy \<Rightarrow> policy" where
  "with_hints hs p \<equiv> p\<lparr>profile_hints := hs\<rparr>"

lemma task_kinds_with_hints [simp]: "task_kinds_for_responsibilities rs (with_hints hs p) = task_kinds_for_responsibilities rs p"
proof -
  have "responsibility_task_kinds (with_hints hs p) = responsibility_task_kinds p" by (rule ext) (simp add: responsibility_task_kinds_def)
  then show ?thesis by (simp add: task_kinds_for_responsibilities_def)
qed

lemma push_profile_candidate_resolve:
  "push_profile_candidate (ci\<lparr>ci_policy := with_hints hs p\<rparr>) (hint_lookup_new hs) m branch s (map (resolve_candidate hs (ci_project_root ci)) cs) =
     map (resolve_candidate hs (ci_project_root ci)) (push_profile_candidate (ci\<lparr>ci_policy := with_hints [] p\<rparr>) (hint_lookup_new []) m branch s cs)"
  by (simp add: push_profile_candidate_def resolve_candidate_def Let_def)

lemma fold_resolve:
  assumes "\<And>x cs. f x (map g cs) = map g (f' x cs)"
  shows "fold f xs (map g cs) = map g (fold f' xs cs)"
  by (induction xs arbitrary: cs) (simp_all add: assms)

lemma collect_package_candidates_resolve:
  "collect_package_candidates (candidate_input_of root (with_hints hs p) a) (map (resolve_candidate hs root) cs) =
     map (resolve_candidate hs root) (collect_package_candidates (candidate_input_of root (with_hints [] p) a) cs)"
proof -
  define ci where "ci = candidate_input_of root p a"
  have ci: "candidate_input_of root (with_hints hs p) a = ci\<lparr>ci_policy := with_hints hs p\<rparr>" for hs
    by (simp add: ci_def candidate_input_of_def)
  have root: "ci_project_root ci = root" by (simp add: ci_def candidate_input_of_def)
  note push = push_profile_candidate_resolve [where ci = ci and hs = hs and p = p, unfolded root]
  have branch: "push_branch_candidate (ci\<lparr>ci_policy := with_hints hs p\<rparr>) (hint_lookup_new hs) deps mods bms b (map (resolve_candidate hs root) cs) =
      map (resolve_candidate hs root) (push_branch_candidate (ci\<lparr>ci_policy := with_hints [] p\<rparr>) (hint_lookup_new []) deps mods bms b cs)"
    for deps mods bms b cs by (simp add: push_branch_candidate_def push split: option.split)
  have module: "push_module_candidate (ci\<lparr>ci_policy := with_hints hs p\<rparr>) (hint_lookup_new hs) deps bs m (map (resolve_candidate hs root) cs) =
      map (resolve_candidate hs root) (push_module_candidate (ci\<lparr>ci_policy := with_hints [] p\<rparr>) (hint_lookup_new []) deps bs m cs)"
    for deps bs m cs by (simp add: push_module_candidate_def push Let_def)
  show ?thesis unfolding ci
    by (simp add: collect_package_candidates_def Let_def case_prod_beta
        fold_resolve [where f = "push_branch_candidate (ci\<lparr>ci_policy := with_hints hs p\<rparr>) (hint_lookup_new hs) deps mods bms"
            and f' = "push_branch_candidate (ci\<lparr>ci_policy := with_hints [] p\<rparr>) (hint_lookup_new []) deps mods bms" for deps mods bms, OF branch]
        fold_resolve [where f = "push_module_candidate (ci\<lparr>ci_policy := with_hints hs p\<rparr>) (hint_lookup_new hs) deps bs"
            and f' = "push_module_candidate (ci\<lparr>ci_policy := with_hints [] p\<rparr>) (hint_lookup_new []) deps bs" for deps bs, OF module])
qed

lemma sort_key_map_same:
  assumes "\<And>x. k (g x) = k x"
  shows "sort_key k (map g xs) = map g (sort_key k xs)"
proof -
  have "insort_key k (g x) (map g ys) = map g (insort_key k x ys)" for x ys by (induction ys) (simp_all add: assms)
  then show ?thesis by (induction xs) simp_all
qed

text \<open>The candidates with any hints are those without, resolved against the hints.\<close>

lemma profile_index_resolve:
  "pi_candidates (profile_index_of_analyses root (with_hints hs p) as) =
     map (resolve_candidate hs root) (pi_candidates (profile_index_of_analyses root (with_hints [] p) as))"
proof -
  have "fold (\<lambda>a. collect_package_candidates (candidate_input_of root (with_hints hs p) a)) as (map (resolve_candidate hs root) []) =
    map (resolve_candidate hs root) (fold (\<lambda>a. collect_package_candidates (candidate_input_of root (with_hints [] p) a)) as [])"
    by (rule fold_resolve) (rule collect_package_candidates_resolve)
  then show ?thesis by (simp add: profile_index_of_analyses_def sort_key_map_same resolve_candidate_def Let_def)
qed

lemma hint_lookup_none [simp]: "hint_lookup_get (hint_lookup_new []) project_root pkg_root owner = None"
  by (cases "strip_prefix owner project_root"; cases "strip_prefix owner pkg_root")
    (simp_all add: hint_lookup_get_def hint_lookup_new_get)

lemma unconfigured_candidate:
  assumes "c \<in> set (pi_candidates (profile_index_of_analyses root (with_hints [] p) as))"
  shows "pc_state c = MissingProfile"
proof -
  from assms obtain d where "c = resolve_candidate [] root d" by (subst (asm) profile_index_resolve) auto
  then show ?thesis by (simp add: resolve_candidate_def profile_candidate_state_def)
qed

lemma accepted_hint_found:
  assumes c: "c \<in> set cs" and distinct: "distinct (map pc_owner_path cs)"
    and below: "list_all (\<lambda>c. strip_prefix (pc_owner_path c) root = Some (pc_hint_path c) \<and> \<not> is_absolute (pc_hint_path c)) cs"
  shows "hint_lookup_get (hint_lookup_new (map to_profile_hint cs)) root pkg (pc_owner_path c) = Some (to_profile_hint c)"
proof -
  let ?hs = "map to_profile_hint cs"
  have path [simp]: "hint_owner_path (to_profile_hint d) = pc_hint_path d" for d by (simp add: to_profile_hint_def profile_hint_new_def)
  have rel: "filter (is_absolute \<circ> hint_owner_path) ?hs = []" "filter (Not \<circ> is_absolute \<circ> hint_owner_path) ?hs = ?hs"
    using below by (auto simp: list_all_iff filter_empty_conv filter_id_conv)
  have inj: "d = c" if "d \<in> set cs" "pc_hint_path d = pc_hint_path c" for d
  proof -
    from that c below have "pc_owner_path d = pc_owner_path c" by (auto simp: list_all_iff strip_prefix_Some)
    with that(1) c distinct show ?thesis by (auto simp: distinct_map inj_on_def)
  qed
  have "find (\<lambda>h. hint_owner_path h = pc_hint_path c) ?hs = Some (to_profile_hint c)"
  proof (cases "find (\<lambda>h. hint_owner_path h = pc_hint_path c) ?hs")
    case None
    with c show ?thesis by (auto simp: find_None_iff)
  next
    case (Some h)
    then have "h \<in> set ?hs" "hint_owner_path h = pc_hint_path c" by (auto simp: find_Some_iff)
    then obtain d where "h = to_profile_hint d" "d \<in> set cs" "pc_hint_path d = pc_hint_path c" by auto
    with inj [of d] Some show ?thesis by simp
  qed
  moreover from c below have "strip_prefix (pc_owner_path c) root = Some (pc_hint_path c)" by (auto simp: list_all_iff)
  ultimately show ?thesis by (simp add: hint_lookup_get_def hint_lookup_new_get rel)
qed

text \<open>
  C11: accepting the suggestions settles a fresh project whose owners lie below its root: when no hint is configured yet, the candidate
  owners have distinct paths, and the suggested path of each is its relative path below the project root, adding the suggested hints to the
  policy leaves no candidate that needs action, and the candidates are the same owners with the same suggestions. (For packages outside
  the project root it can fail, as the lemma at the end shows.)
\<close>

theorem accepted_profile_hints_clear:
  fixes as :: "verification_package_analysis list" and p :: policy and root :: path
  defines "ix \<equiv> profile_index_of_analyses root p as"
  assumes fresh: "profile_hints p = []" and distinct: "distinct (map pc_owner_path (pi_candidates ix))"
    and below: "list_all (\<lambda>c. strip_prefix (pc_owner_path c) root = Some (pc_hint_path c) \<and> \<not> is_absolute (pc_hint_path c)) (pi_candidates ix)"
  shows "profile_index_is_clear (profile_index_of_analyses root (fold with_profile_hint (active_profile_hints ix) p) as) \<and>
    map (\<lambda>c. (pc_package_root c, pc_owner_path c, pc_suggested_responsibilities c))
        (pi_candidates (profile_index_of_analyses root (fold with_profile_hint (active_profile_hints ix) p) as)) =
      map (\<lambda>c. (pc_package_root c, pc_owner_path c, pc_suggested_responsibilities c)) (pi_candidates ix)"
proof -
  have p: "p = with_hints [] p" using fresh by simp
  then have ix: "pi_candidates ix = pi_candidates (profile_index_of_analyses root (with_hints [] p) as)" by (simp add: ix_def)
  have missing: "pc_state c = MissingProfile" if "c \<in> set (pi_candidates ix)" for c
    using that unfolding ix by (rule unconfigured_candidate)
  have active: "active_profile_hints ix = map to_profile_hint (pi_candidates ix)"
    using missing by (simp add: active_profile_hints_def active_candidates_def candidate_requires_action_def state_requires_action_def)
  have "fold with_profile_hint hs p' = with_hints (profile_hints p' @ hs) p'" for hs p'
    by (induction hs arbitrary: p') (simp_all add: with_profile_hint_def)
  then have accepted: "fold with_profile_hint (active_profile_hints ix) p = with_hints (map to_profile_hint (pi_candidates ix)) p"
    by (simp add: active fresh)
  have new: "pi_candidates (profile_index_of_analyses root (fold with_profile_hint (active_profile_hints ix) p) as) =
    map (resolve_candidate (map to_profile_hint (pi_candidates ix)) root) (pi_candidates ix)"
    unfolding accepted ix by (rule profile_index_resolve)
  have state: "pc_state (resolve_candidate (map to_profile_hint (pi_candidates ix)) root c) = Configured" if "c \<in> set (pi_candidates ix)" for c
    by (simp add: resolve_candidate_def accepted_hint_found [OF that distinct below] profile_candidate_state_def to_profile_hint_def
        profile_hint_new_def)
  have "profile_index_is_clear (profile_index_of_analyses root (fold with_profile_hint (active_profile_hints ix) p) as)"
    using state by (auto simp: profile_index_is_clear_def active_candidates_def new candidate_requires_action_def
        state_requires_action_def filter_empty_conv)
  moreover have "map (\<lambda>c. (pc_package_root c, pc_owner_path c, pc_suggested_responsibilities c))
      (map (resolve_candidate hs root) cs) = map (\<lambda>c. (pc_package_root c, pc_owner_path c, pc_suggested_responsibilities c)) cs" for hs cs
    by (simp add: resolve_candidate_def Let_def)
  ultimately show ?thesis unfolding new by blast
qed

definition sample_owner_analysis :: "path \<Rightarrow> verification_package_analysis" where
  "sample_owner_analysis root =
     \<lparr>va_reasoning_tree = sample_tree root [(sample_module root [Normal ''src'', Normal ''api.rs''])
        \<lparr>mod_public_api := \<lparr>public_items = 1, public_exports = 0, public_functions = 1\<rparr>\<rparr>],
      va_cargo_dependencies = [],
      va_profile = \<lparr>pp_package_root = root, pp_elapsed_micros = 0, pp_rust_file_count = 1, pp_source_module_count = 1,
        pp_owner_branch_count = 0, pp_cargo_dependency_count = 0\<rparr>\<rparr>"

theorem accepted_profile_hints_clear_witness:
  "let root = [RootDir, Normal ''ws'']; as = [sample_owner_analysis root];
       ix = profile_index_of_analyses root policy_default as
   in \<not> profile_index_is_clear ix \<and>
      profile_index_is_clear (profile_index_of_analyses root (fold with_profile_hint (active_profile_hints ix) policy_default) as)"
proof -
  let ?root = "[RootDir, Normal ''ws'']"
  let ?ix = "profile_index_of_analyses ?root policy_default [sample_owner_analysis ?root]"
  have "profile_hints policy_default = []" by (simp add: policy_default_def)
  moreover have "distinct (map pc_owner_path (pi_candidates ?ix))" by code_simp
  moreover have "list_all (\<lambda>c. strip_prefix (pc_owner_path c) ?root = Some (pc_hint_path c) \<and> \<not> is_absolute (pc_hint_path c)) (pi_candidates ?ix)"
    by code_simp
  ultimately have "profile_index_is_clear (profile_index_of_analyses ?root (fold with_profile_hint (active_profile_hints ?ix) policy_default)
      [sample_owner_analysis ?root])"
    using accepted_profile_hints_clear [of policy_default ?root "[sample_owner_analysis ?root]"] by blast
  moreover have "\<not> profile_index_is_clear ?ix" by code_simp
  ultimately show ?thesis by (simp add: Let_def)
qed


text \<open>
  The side condition is needed. A suggested hint names its owner relative to the package when the package lies outside the project root, as the
  package of a path dependency may. Two such packages with an owner at the same place get the same hint path; the first hint is then found for
  both owners, and accepting the suggestions leaves the second one in drift.
\<close>

definition outside_analysis :: "string \<Rightarrow> string list list \<Rightarrow> verification_package_analysis" where
  "outside_analysis name used =
     (let root = [RootDir, Normal ''ext'', Normal name]; m = sample_module root [Normal ''src'', Normal ''api.rs''] in
      (sample_owner_analysis root)\<lparr>va_reasoning_tree := sample_tree root
        [m\<lparr>mod_public_api := \<lparr>public_items = 1, public_exports = 0, public_functions = 1\<rparr>,
           mod_import_summary := (mod_import_summary m)\<lparr>production_external_imports := used\<rparr>\<rparr>]\<rparr>)"

lemma outside_owners_drift:
  "let root = [RootDir, Normal ''ws'']; as = [outside_analysis ''a'' [], outside_analysis ''b'' [[''std'', ''fs'']]];
       ix = profile_index_of_analyses root policy_default as;
       ix' = profile_index_of_analyses root (fold with_profile_hint (active_profile_hints ix) policy_default) as
   in map pc_hint_path (pi_candidates ix) = [[Normal ''src'', Normal ''api.rs''], [Normal ''src'', Normal ''api.rs'']] \<and>
      distinct (map pc_owner_path (pi_candidates ix)) \<and>
      map pc_state (pi_candidates ix') = [Configured, ProfileDrift] \<and> \<not> profile_index_is_clear ix'"
  by code_simp

end
