(* ===== verification/Formal_Proof_Pilot.thy ===== *)
theory Formal_Proof_Pilot
  imports Owner_Graph
begin

text \<open>
  The bounded proof of the owner cycle rule (\<open>src/verification/formal_proof_pilot.rs\<close>): every directed graph without self
  loops on at most five nodes is enumerated, and the cycles the rule reports are compared with a three-colour depth-first search.
  An index out of range panics, hence the outer option.
\<close>

section \<open>The reference search\<close>

datatype dfs_state = Unvisited | Visiting | Visited

definition unvisited_count :: "dfs_state list \<Rightarrow> nat" where
  "unvisited_count st = length (filter (\<lambda>s. s = Unvisited) st)"

lemma unvisited_count_update:
  "i < length st \<Longrightarrow> s \<noteq> Unvisited \<Longrightarrow>
   unvisited_count (st[i := s]) + (if st ! i = Unvisited then 1 else 0) = unvisited_count st"
proof (induction st arbitrary: i)
  case (Cons x st)
  show ?case
  proof (cases i)
    case 0
    with Cons.prems show ?thesis by (simp add: unvisited_count_def)
  next
    case (Suc j)
    with Cons.IH [of j] Cons.prems show ?thesis by (simp add: unvisited_count_def)
  qed
qed simp

lemma unvisited_count_start:
  assumes "node < length st" "st ! node = Unvisited"
  shows "unvisited_count (st[node := Visiting]) < unvisited_count st"
  using unvisited_count_update [OF assms(1), of Visiting] assms(2) by simp

lemma unvisited_count_finish: "unvisited_count (st[i := Visited]) \<le> unvisited_count st"
  using unvisited_count_update [of i st Visited] by (cases "i < length st") (auto simp: list_update_beyond)

function graph_dfs_has_cycle :: "nat list list \<Rightarrow> nat \<Rightarrow> dfs_state list \<Rightarrow> (bool \<times> dfs_state list) option"
  and any_dfs_has_cycle :: "nat list list \<Rightarrow> nat list \<Rightarrow> dfs_state list \<Rightarrow> (bool \<times> dfs_state list) option"
where
  "graph_dfs_has_cycle adj node st =
     (if node \<ge> length st then None
      else case st ! node of
        Visiting \<Rightarrow> Some (True, st)
      | Visited \<Rightarrow> Some (False, st)
      | Unvisited \<Rightarrow>
          if node \<ge> length adj then None
          else map_option (\<lambda>(has_cycle, st'). (has_cycle, if has_cycle then st' else st'[node := Visited]))
            (any_dfs_has_cycle adj (adj ! node) (st[node := Visiting])))"
| "any_dfs_has_cycle adj [] st = Some (False, st)"
| "any_dfs_has_cycle adj (next # nexts) st =
     (case graph_dfs_has_cycle adj next st of
        None \<Rightarrow> None
      | Some (True, st') \<Rightarrow> Some (True, st')
      | Some (False, st') \<Rightarrow> any_dfs_has_cycle adj nexts st')"
  by pat_completeness auto
termination
proof -
  let ?dom = graph_dfs_has_cycle_any_dfs_has_cycle_dom
  have shrinks:
    "?dom (Inl (adj, node, st)) \<Longrightarrow> graph_dfs_has_cycle adj node st = Some r \<Longrightarrow> unvisited_count (snd r) \<le> unvisited_count st"
    "?dom (Inr (adj, nexts, st)) \<Longrightarrow> any_dfs_has_cycle adj nexts st = Some r \<Longrightarrow> unvisited_count (snd r) \<le> unvisited_count st"
    for adj node nexts st r
  proof (induct adj node st and adj nexts st arbitrary: r and r rule: graph_dfs_has_cycle_any_dfs_has_cycle.pinduct)
    case (1 adj node st)
    show ?case
    proof (cases "node < length st \<and> st ! node = Unvisited \<and> node < length adj")
      case True
      with 1(3) [unfolded graph_dfs_has_cycle.psimps [OF 1(1)]] obtain b st' where
        run: "any_dfs_has_cycle adj (adj ! node) (st[node := Visiting]) = Some (b, st')"
        and r: "r = (b, if b then st' else st'[node := Visited])" by auto
      from 1(2) [OF _ _ _ run] True have "unvisited_count st' \<le> unvisited_count (st[node := Visiting])" by simp
      with unvisited_count_start [of node st] True unvisited_count_finish [of st' node] show ?thesis by (auto simp: r)
    next
      case False
      with 1(3) [unfolded graph_dfs_has_cycle.psimps [OF 1(1)]] show ?thesis by (auto split: if_splits dfs_state.splits)
    qed
  next
    case (2 adj st)
    then show ?case by (auto simp: any_dfs_has_cycle.psimps)
  next
    case (3 adj "next" nexts st)
    from 3(4) [unfolded any_dfs_has_cycle.psimps(2) [OF 3(1)]] obtain b st' where
      step: "graph_dfs_has_cycle adj next st = Some (b, st')"
      and rest: "if b then r = (True, st') else any_dfs_has_cycle adj nexts st' = Some r" by (auto split: option.splits bool.splits)
    from 3(2) [OF step] have le: "unvisited_count st' \<le> unvisited_count st" by simp
    show ?case
    proof (cases b)
      case True
      with rest le show ?thesis by simp
    next
      case False
      with 3(3) [OF step refl, of r] rest le show ?thesis by simp
    qed
  qed
  show "All ?dom"
  proof (relation "measures [case_sum (\<lambda>(adj, node, st). unvisited_count st) (\<lambda>(adj, nexts, st). unvisited_count st),
      case_sum (\<lambda>_. 0) (\<lambda>(adj, nexts, st). Suc (length nexts))]", goal_cases)
    case (2 adj node st)
    then show ?case by (simp add: unvisited_count_start)
  next
    case (4 adj "next" nexts st r b st')
    then show ?case using shrinks(1) [of adj "next" st r] by (auto simp: le_less)
  qed auto
qed

declare graph_dfs_has_cycle.simps [simp del]

section \<open>The search decides acyclicity\<close>

definition adjacency_relation :: "nat list list \<Rightarrow> (nat \<times> nat) set" where
  "adjacency_relation adj = {(a, b). a < length adj \<and> b \<in> set (adj ! a)}"

definition nodes_in :: "dfs_state \<Rightarrow> dfs_state list \<Rightarrow> nat set" where
  "nodes_in s st = {i. i < length st \<and> st ! i = s}"

text \<open>Finished nodes are closed under edges and lie on no cycle.\<close>

definition search_invariant :: "nat list list \<Rightarrow> dfs_state list \<Rightarrow> bool" where
  "search_invariant adj st \<longleftrightarrow> length st = length adj \<and> adjacency_relation adj `` nodes_in Visited st \<subseteq> nodes_in Visited st \<and>
     (\<forall>a \<in> nodes_in Visited st. (a, a) \<notin> (adjacency_relation adj)\<^sup>+)"

lemma nodes_in_update:
  "i < length st \<Longrightarrow> nodes_in s (st[i := t]) = (if s = t then insert i (nodes_in s st) else nodes_in s st - {i})"
  by (auto simp: nodes_in_def nth_list_update)

text \<open>What a search from some nodes establishes.\<close>

definition searched :: "nat list list \<Rightarrow> nat set \<Rightarrow> dfs_state list \<Rightarrow> (bool \<times> dfs_state list) option \<Rightarrow> bool" where
  "searched adj starts st r \<longleftrightarrow>
     (case r of None \<Rightarrow> False
      | Some (b, st') \<Rightarrow> if b then \<not> acyclic (adjacency_relation adj)
          else search_invariant adj st' \<and> nodes_in Visiting st' = nodes_in Visiting st \<and>
            nodes_in Visited st \<union> starts \<subseteq> nodes_in Visited st')"

lemma visited_start:
  "node < length st \<Longrightarrow> st ! node = Unvisited \<Longrightarrow> nodes_in Visited (st[node := Visiting]) = nodes_in Visited st"
  by (auto simp: nodes_in_def nth_list_update split: if_splits)

lemma search_invariant_start:
  assumes "search_invariant adj st" "node < length st" "st ! node = Unvisited"
  shows "search_invariant adj (st[node := Visiting])"
  using assms by (simp add: search_invariant_def visited_start)

lemma search_invariant_finish:
  assumes inv: "search_invariant adj st" and node: "node \<in> nodes_in Visiting st" and nexts: "set (adj ! node) \<subseteq> nodes_in Visited st"
  shows "search_invariant adj (st[node := Visited])"
proof -
  let ?R = "adjacency_relation adj" and ?V = "nodes_in Visited st"
  have len: "node < length st" using node by (simp add: nodes_in_def)
  have V: "nodes_in Visited (st[node := Visited]) = insert node ?V" using len by (simp add: nodes_in_update)
  have closed: "?R `` ?V \<subseteq> ?V" using inv by (simp add: search_invariant_def)
  have succ: "?R `` {node} \<subseteq> ?V" using nexts by (auto simp: adjacency_relation_def)
  have "node \<notin> ?V" using node by (simp add: nodes_in_def)
  moreover have "b \<in> ?V" if "(node, b) \<in> ?R\<^sup>+" for b
    using that succ closed by (induction rule: trancl_induct) blast+
  ultimately have "(node, node) \<notin> ?R\<^sup>+" by blast
  with inv closed succ show ?thesis by (auto simp: search_invariant_def V)
qed

lemma search_correct:
  "search_invariant adj st \<Longrightarrow> list_all (list_all (\<lambda>b. b < length adj)) adj \<Longrightarrow> node < length adj \<Longrightarrow>
     (\<And>v. v \<in> nodes_in Visiting st \<Longrightarrow> (v, node) \<in> (adjacency_relation adj)\<^sup>+) \<Longrightarrow>
     searched adj {node} st (graph_dfs_has_cycle adj node st)"
  "search_invariant adj st \<Longrightarrow> list_all (list_all (\<lambda>b. b < length adj)) adj \<Longrightarrow> list_all (\<lambda>b. b < length adj) nexts \<Longrightarrow>
     (\<And>v c. v \<in> nodes_in Visiting st \<Longrightarrow> c \<in> set nexts \<Longrightarrow> (v, c) \<in> (adjacency_relation adj)\<^sup>+) \<Longrightarrow>
     searched adj (set nexts) st (any_dfs_has_cycle adj nexts st)"
proof (induction adj node st and adj nexts st rule: graph_dfs_has_cycle_any_dfs_has_cycle.induct)
  case (1 adj node st)
  let ?R = "adjacency_relation adj"
  have len: "length st = length adj" using "1.prems"(1) by (simp add: search_invariant_def)
  show ?case
  proof (cases "st ! node")
    case Visiting
    with "1.prems"(3) len "1.prems"(4) [of node] have "\<not> acyclic ?R" by (auto simp: nodes_in_def acyclic_def)
    with Visiting "1.prems"(3) len show ?thesis by (simp add: graph_dfs_has_cycle.simps searched_def)
  next
    case Visited
    with "1.prems" len show ?thesis by (simp add: graph_dfs_has_cycle.simps searched_def nodes_in_def)
  next
    case Unvisited
    let ?st = "st[node := Visiting]"
    have edge: "(node, c) \<in> ?R" if "c \<in> set (adj ! node)" for c using that "1.prems"(3) by (simp add: adjacency_relation_def)
    have visiting: "nodes_in Visiting ?st = insert node (nodes_in Visiting st)" using "1.prems"(3) len by (simp add: nodes_in_update)
    have "searched adj (set (adj ! node)) ?st (any_dfs_has_cycle adj (adj ! node) ?st)"
    proof (rule "1.IH")
      show "search_invariant adj ?st" using "1.prems"(1,3) Unvisited len by (simp add: search_invariant_start)
      show "(v, c) \<in> ?R\<^sup>+" if "v \<in> nodes_in Visiting ?st" "c \<in> set (adj ! node)" for v c
        using that edge "1.prems"(4) unfolding visiting by (auto intro: trancl_into_trancl)
    qed (use "1.prems"(2,3) Unvisited len in \<open>auto simp: list_all_iff\<close>)
    then obtain b st' where run: "any_dfs_has_cycle adj (adj ! node) ?st = Some (b, st')"
      and res: "if b then \<not> acyclic ?R else search_invariant adj st' \<and> nodes_in Visiting st' = nodes_in Visiting ?st \<and>
        nodes_in Visited ?st \<union> set (adj ! node) \<subseteq> nodes_in Visited st'" by (auto simp: searched_def split: option.splits)
    have call: "graph_dfs_has_cycle adj node st = Some (b, if b then st' else st'[node := Visited])"
      using Unvisited "1.prems"(3) len run by (simp add: graph_dfs_has_cycle.simps)
    show ?thesis
    proof (cases b)
      case True
      with res show ?thesis by (simp add: call searched_def)
    next
      case False
      with res visiting have st': "search_invariant adj st'" "node \<in> nodes_in Visiting st'" "set (adj ! node) \<subseteq> nodes_in Visited st'"
        "nodes_in Visiting st' = insert node (nodes_in Visiting st)" "nodes_in Visited ?st \<subseteq> nodes_in Visited st'" by auto
      have "node < length st'" using st'(2) by (simp add: nodes_in_def)
      moreover have "nodes_in Visited ?st = nodes_in Visited st" "node \<notin> nodes_in Visiting st"
        using Unvisited "1.prems"(3) len by (simp_all add: visited_start) (simp add: nodes_in_def)
      ultimately show ?thesis
        using False search_invariant_finish [OF st'(1-3)] st'(4,5) by (auto simp: call searched_def nodes_in_update)
    qed
  qed
next
  case (2 adj st)
  then show ?case by (simp add: searched_def)
next
  case (3 adj "next" nexts st)
  have "searched adj {next} st (graph_dfs_has_cycle adj next st)" using "3.prems" by (intro "3.IH"(1)) auto
  then obtain b st' where run: "graph_dfs_has_cycle adj next st = Some (b, st')"
    and res: "if b then \<not> acyclic (adjacency_relation adj) else search_invariant adj st' \<and>
      nodes_in Visiting st' = nodes_in Visiting st \<and> nodes_in Visited st \<union> {next} \<subseteq> nodes_in Visited st'"
    by (auto simp: searched_def split: option.splits)
  show ?case
  proof (cases b)
    case True
    with res run show ?thesis by (simp add: searched_def)
  next
    case False
    with res "3.prems" have "searched adj (set nexts) st' (any_dfs_has_cycle adj nexts st')"
      by (intro "3.IH"(2) [OF run]) auto
    with False res run show ?thesis by (auto simp: searched_def split: option.splits if_splits)
  qed
qed

section \<open>The exhaustive check\<close>

fun push_edges :: "(nat \<times> nat) list \<Rightarrow> nat list list \<Rightarrow> nat list list option" where
  "push_edges [] adj = Some adj"
| "push_edges ((source, target) # edges) adj =
     (if source < length adj then push_edges edges (adj[source := adj ! source @ [target]]) else None)"

definition graph_has_directed_cycle :: "nat \<Rightarrow> (nat \<times> nat) list \<Rightarrow> bool option" where
  "graph_has_directed_cycle node_count edges =
     Option.bind (push_edges edges (replicate node_count []))
       (\<lambda>adj. map_option fst (any_dfs_has_cycle adj [0..<node_count] (replicate node_count Unvisited)))"

definition possible_directed_edges :: "nat \<Rightarrow> (nat \<times> nat) list" where
  "possible_directed_edges node_count =
     concat (map (\<lambda>source. map (Pair source) (filter (\<lambda>target. source \<noteq> target) [0..<node_count])) [0..<node_count])"

definition edges_of_mask :: "(nat \<times> nat) list \<Rightarrow> nat \<Rightarrow> (nat \<times> nat) list" where
  "edges_of_mask possible_edges bits = map snd (filter (\<lambda>(b, edge). bit bits b) (enumerate 0 possible_edges))"

definition pilot_edge_of :: "nat \<times> nat \<Rightarrow> proof_edge" where
  "pilot_edge_of = (\<lambda>(source, target).
     \<lparr>source_namespace = [''n'' @ show_nat source], target_namespace = [''n'' @ show_nat target]\<rparr>)"

definition show_bool :: "bool \<Rightarrow> string" where
  "show_bool b = (if b then ''true'' else ''false'')"

definition debug_edges :: "(nat \<times> nat) list \<Rightarrow> string" where
  "debug_edges edges = ''['' @ join_with '', '' (map (\<lambda>(s, t). ''('' @ show_nat s @ '', '' @ show_nat t @ '')'') edges) @ '']''"

definition counterexample_text :: "nat \<Rightarrow> (nat \<times> nat) list \<Rightarrow> bool \<Rightarrow> bool \<Rightarrow> string" where
  "counterexample_text node_count edges expected actual =
     ''node_count='' @ show_nat node_count @ '' edges='' @ debug_edges edges @ '' expected_cycle='' @ show_bool expected @
     '' actual_cycle='' @ show_bool actual"

fun check_masks :: "nat \<Rightarrow> (nat \<times> nat) list \<Rightarrow> nat list \<Rightarrow> nat \<Rightarrow> (nat \<times> string option) option" where
  "check_masks node_count possible_edges [] models_checked = Some (models_checked, None)"
| "check_masks node_count possible_edges (bits # masks) models_checked =
     (let edges = edges_of_mask possible_edges bits;
          actual = (owner_dependency_cycle_indices (map pilot_edge_of edges) \<noteq> [])
      in case graph_has_directed_cycle node_count edges of
           None \<Rightarrow> None
         | Some expected \<Rightarrow>
             if actual \<noteq> expected then Some (models_checked + 1, Some (counterexample_text node_count edges expected actual))
             else check_masks node_count possible_edges masks (models_checked + 1))"

fun check_sizes :: "nat list \<Rightarrow> nat \<Rightarrow> (nat \<times> string option) option" where
  "check_sizes [] models_checked = Some (models_checked, None)"
| "check_sizes (node_count # node_counts) models_checked =
     (let possible_edges = possible_directed_edges node_count in
      case check_masks node_count possible_edges [0..<2 ^ length possible_edges] models_checked of
        None \<Rightarrow> None
      | Some (checked, Some counterexample) \<Rightarrow> Some (checked, Some counterexample)
      | Some (checked, None) \<Rightarrow> check_sizes node_counts checked)"

definition exhaustive_dependency_graph_check :: "nat \<Rightarrow> (nat \<times> string option) option" where
  "exhaustive_dependency_graph_check max_nodes = check_sizes [0..<max_nodes + 1] 0"

section \<open>The packet\<close>

text \<open>The string newtypes are strings, and the maps of additional fields are always empty.\<close>

datatype pilot_target_kind = ParserFactTarget | PublicApiShapeTarget | ModuleReasoningTreeTarget | DependencyGraphAcyclicityTarget | CustomTarget
datatype pilot_method_kind = ExhaustiveSmallModel | KaniMethod | CreusotMethod | VerusMethod | ManualProofOutline | CustomMethod
datatype pilot_status = PilotProved | PilotProvedBounded | PilotFailed | PilotSkipped | PilotUnknown

record pilot_producer =
  pilot_language_id :: string
  pilot_provider_id :: string
  pilot_namespace :: string

record pilot_target =
  target_kind :: pilot_target_kind
  target_name :: string
  target_rule_ids :: "string list"
  target_owner_path :: "string option"
  target_symbol :: "string option"

record pilot_method =
  method_kind :: pilot_method_kind
  method_tool :: string
  method_command :: "string list"

record pilot_claim =
  claim_id :: string
  claim_statement :: string
  claim_status :: pilot_status

record pilot_check =
  check_id :: string
  check_status :: pilot_status
  check_summary :: string
  check_models_checked :: "nat option"
  check_max_nodes :: "nat option"
  check_counterexample :: "string option"

record formal_proof_pilot =
  pilot_schema_id :: string
  pilot_schema_version :: string
  pilot_protocol_id :: string
  pilot_protocol_version :: string
  pilot_proof_id :: string
  pilot_producer_of :: pilot_producer
  pilot_target_of :: pilot_target
  pilot_method_of :: pilot_method
  pilot_status_of :: pilot_status
  pilot_claims :: "pilot_claim list"
  pilot_checks :: "pilot_check list"
  pilot_receipt_ids :: "string list"

definition pilot_default_producer :: pilot_producer where
  "pilot_default_producer = \<lparr>pilot_language_id = ''rust'', pilot_provider_id = ''asp-rust'',
     pilot_namespace = ''agent.semantic-protocols.languages.rust.asp-rust''\<rparr>"

definition pilot_packet :: "nat \<Rightarrow> nat \<times> string option \<Rightarrow> formal_proof_pilot" where
  "pilot_packet max_nodes result =
     (let status = (if snd result \<noteq> None then PilotFailed else PilotProvedBounded) in
      \<lparr>pilot_schema_id = ''agent.semantic-protocols.semantic-formal-proof-pilot'', pilot_schema_version = ''1'',
       pilot_protocol_id = ''agent.semantic-protocols.formal-proof-pilot'', pilot_protocol_version = ''1'',
       pilot_proof_id = ''rust.proof.dependency-graph-acyclicity'', pilot_producer_of = pilot_default_producer,
       pilot_target_of = \<lparr>target_kind = DependencyGraphAcyclicityTarget, target_name = ''owner dependency graph cycle detection'',
         target_rule_ids = [''RUST-AGENT-OWNER-GRAPH-009''], target_owner_path = Some ''src/rules/agent_policy/dependency_graph.rs'',
         target_symbol = Some ''owner_dependency_cycle_indices''\<rparr>,
       pilot_method_of = \<lparr>method_kind = ExhaustiveSmallModel, method_tool = ''asp-rust'',
         method_command = [''asp-rust'', ''proof'', ''pilot'', ''dependency-graph-acyclicity'', ''--max-nodes'', show_nat max_nodes, ''--json'']\<rparr>,
       pilot_status_of = status,
       pilot_claims = [\<lparr>claim_id = ''cycle-detection-iff-directed-cycle'',
         claim_statement = ''For all directed graphs up to '' @ show_nat max_nodes @
           '' nodes, the RUST-AGENT-OWNER-GRAPH-009 rule core reports a cycle iff the graph contains a directed cycle.'',
         claim_status = status\<rparr>],
       pilot_checks = [\<lparr>check_id = ''exhaustive-directed-graphs-up-to-'' @ show_nat max_nodes, check_status = status,
         check_summary = ''Checked all directed graphs with up to '' @ show_nat max_nodes @ '' nodes.'',
         check_models_checked = Some (fst result), check_max_nodes = Some max_nodes, check_counterexample = snd result\<rparr>],
       pilot_receipt_ids = []\<rparr>)"

definition build_rust_dependency_graph_acyclicity_proof_pilot :: "nat \<Rightarrow> formal_proof_pilot result option" where
  "build_rust_dependency_graph_acyclicity_proof_pilot max_nodes =
     (if max_nodes > 5 then Some (Err ''dependency graph proof pilot supports --max-nodes up to 5'')
      else map_option (\<lambda>result. Ok (pilot_packet max_nodes result)) (exhaustive_dependency_graph_check max_nodes))"

primrec pilot_target_kind_debug :: "pilot_target_kind \<Rightarrow> string" where
  "pilot_target_kind_debug ParserFactTarget = ''ParserFact''"
| "pilot_target_kind_debug PublicApiShapeTarget = ''PublicApiShape''"
| "pilot_target_kind_debug ModuleReasoningTreeTarget = ''ModuleReasoningTree''"
| "pilot_target_kind_debug DependencyGraphAcyclicityTarget = ''DependencyGraphAcyclicity''"
| "pilot_target_kind_debug CustomTarget = ''Custom''"

primrec pilot_status_debug :: "pilot_status \<Rightarrow> string" where
  "pilot_status_debug PilotProved = ''Proved''"
| "pilot_status_debug PilotProvedBounded = ''ProvedBounded''"
| "pilot_status_debug PilotFailed = ''Failed''"
| "pilot_status_debug PilotSkipped = ''Skipped''"
| "pilot_status_debug PilotUnknown = ''Unknown''"

definition render_rust_formal_proof_pilot :: "formal_proof_pilot \<Rightarrow> string" where
  "render_rust_formal_proof_pilot p =
     ''[formal-proof-pilot] target='' @ pilot_target_kind_debug (target_kind (pilot_target_of p)) @
     '' status='' @ pilot_status_debug (pilot_status_of p) @ '' checks='' @ show_nat (length (pilot_checks p)) @ [CHR 0x0A] @
     concat (map (\<lambda>c. ''|check id='' @ check_id c @ '' status='' @ pilot_status_debug (check_status c) @
       '' models='' @ show_nat (case check_models_checked c of None \<Rightarrow> 0 | Some n \<Rightarrow> n) @ '' summary='' @ check_summary c @ [CHR 0x0A])
       (pilot_checks p))"

section \<open>The check finds no counterexample\<close>

lemma push_edges_Some:
  "list_all (\<lambda>(s, t). s < length adj) edges \<Longrightarrow>
   \<exists>adj'. push_edges edges adj = Some adj' \<and> length adj' = length adj \<and>
     (\<forall>a < length adj. set (adj' ! a) = set (adj ! a) \<union> {t. (a, t) \<in> set edges})"
proof (induction edges adj rule: push_edges.induct)
  case (2 source target edges adj)
  then have "source < length adj" by simp
  moreover from "2.IH" [OF this] "2.prems" obtain adj' where "push_edges edges (adj[source := adj ! source @ [target]]) = Some adj'"
    "length adj' = length adj"
    "\<forall>a < length adj. set (adj' ! a) = set (adj[source := adj ! source @ [target]] ! a) \<union> {t. (a, t) \<in> set edges}" by auto
  ultimately show ?case by (auto simp: nth_list_update)
qed simp

lemma graph_has_directed_cycle_correct:
  assumes "list_all (\<lambda>(s, t). s < n \<and> t < n) edges"
  shows "graph_has_directed_cycle n edges = Some (\<not> acyclic (set edges))"
proof -
  have "list_all (\<lambda>(s, t). s < length (replicate n ([] :: nat list))) edges" using assms by (auto simp: list_all_iff)
  from push_edges_Some [OF this] obtain adj where adj: "push_edges edges (replicate n []) = Some adj" "length adj = n"
    "\<forall>a < n. set (adj ! a) = {t. (a, t) \<in> set edges}" by auto
  have R: "adjacency_relation adj = set edges" using assms adj(2,3) by (auto simp: adjacency_relation_def list_all_iff)
  have wf: "list_all (list_all (\<lambda>b. b < length adj)) adj"
    using assms adj(2,3) by (force simp: list_all_iff in_set_conv_nth [of _ adj])
  let ?st = "replicate n Unvisited"
  have "nodes_in Visiting ?st = {}" "nodes_in Visited ?st = {}" by (auto simp: nodes_in_def)
  moreover from this have "search_invariant adj ?st" by (simp add: search_invariant_def adj(2))
  ultimately have "searched adj {0..<n} ?st (any_dfs_has_cycle adj [0..<n] ?st)"
    using search_correct(2) [of adj ?st "[0..<n]"] wf adj(2) by (simp add: list_all_iff)
  then obtain b st' where run: "any_dfs_has_cycle adj [0..<n] ?st = Some (b, st')"
    and res: "if b then \<not> acyclic (set edges) else search_invariant adj st' \<and> {0..<n} \<subseteq> nodes_in Visited st'"
    by (auto simp: searched_def R split: option.splits if_splits)
  have "b \<longleftrightarrow> \<not> acyclic (set edges)"
  proof (cases b)
    case False
    with res have fin: "search_invariant adj st'" "{0..<n} \<subseteq> nodes_in Visited st'" by simp_all
    have "(a, a) \<notin> (set edges)\<^sup>+" for a
    proof (cases "a < n")
      case True
      with fin show ?thesis by (auto simp: search_invariant_def R)
    next
      case False
      with assms show ?thesis by (auto simp: list_all_iff dest!: tranclD)
    qed
    with False show ?thesis by (simp add: acyclic_def)
  qed (use res in simp)
  then show ?thesis by (simp add: graph_has_directed_cycle_def adj(1) run)
qed

lemma inj_node_name: "inj (\<lambda>n. [''n'' @ show_nat n])"
  by (rule injI) simp

lemma acyclic_image:
  assumes "inj f"
  shows "acyclic (map_prod f f ` r) \<longleftrightarrow> acyclic r"
proof -
  have fwd: "(f a, f b) \<in> (map_prod f f ` r)\<^sup>+" if "(a, b) \<in> r\<^sup>+" for a b
    using that by (induction rule: trancl_induct) (auto intro: trancl_into_trancl)
  have bwd: "\<exists>a b. x = f a \<and> y = f b \<and> (a, b) \<in> r\<^sup>+" if "(x, y) \<in> (map_prod f f ` r)\<^sup>+" for x y
    using that
  proof (induction rule: trancl_induct)
    case (step y z)
    then obtain a b c d where "x = f a" "y = f b" "(a, b) \<in> r\<^sup>+" "y = f c" "z = f d" "(c, d) \<in> r" by auto
    with assms show ?case by (metis injD trancl_into_trancl)
  qed auto
  show ?thesis unfolding acyclic_def using fwd bwd assms by (metis injD)
qed

lemma rule_agrees:
  "(owner_dependency_cycle_indices (map pilot_edge_of edges) \<noteq> []) = (\<not> acyclic (set edges))"
proof -
  let ?f = "\<lambda>n. [''n'' @ show_nat n]"
  have "edge_relation (map pilot_edge_of edges) = map_prod ?f ?f ` set edges"
    by (force simp: edge_relation_def pilot_edge_of_def image_iff)
  with acyclic_image [OF inj_node_name] owner_dependency_cycle_facts [of "map pilot_edge_of edges"] show ?thesis by simp
qed

lemma edges_of_mask_subset: "set (edges_of_mask es bits) \<subseteq> set es"
  by (auto simp: edges_of_mask_def in_set_enumerate_eq) (metis nth_mem)

lemma possible_directed_edges_bound: "list_all (\<lambda>(s, t). s < n \<and> t < n) (possible_directed_edges n)"
  by (auto simp: possible_directed_edges_def list_all_iff)

lemma length_possible_directed_edges: "length (possible_directed_edges n) = n * (n - 1)"
proof -
  have "length (filter (\<lambda>t. s \<noteq> t) [0..<n]) = n - 1" if "s < n" for s
  proof -
    have "length (filter (\<lambda>t. s \<noteq> t) [0..<n]) = card ({0..<n} - {s})"
      by (subst distinct_card [symmetric]) (auto intro!: arg_cong [of _ _ card])
    with that show ?thesis by simp
  qed
  then have "map (length \<circ> (\<lambda>s. map (Pair s) (filter (\<lambda>t. s \<noteq> t) [0..<n]))) [0..<n] = replicate n (n - 1)"
    by (intro nth_equalityI) auto
  then show ?thesis by (simp add: possible_directed_edges_def length_concat sum_list_replicate)
qed

lemma check_masks_agree:
  "check_masks n (possible_directed_edges n) masks models_checked = Some (models_checked + length masks, None)"
proof (induction masks arbitrary: models_checked)
  case (Cons bits masks)
  let ?edges = "edges_of_mask (possible_directed_edges n) bits"
  have "list_all (\<lambda>(s, t). s < n \<and> t < n) ?edges"
    using possible_directed_edges_bound [of n] edges_of_mask_subset [of "possible_directed_edges n" bits] by (auto simp: list_all_iff)
  from graph_has_directed_cycle_correct [OF this] show ?case by (simp add: Let_def rule_agrees Cons.IH)
qed simp

lemma check_sizes_agree:
  "check_sizes ns models_checked = Some (models_checked + (\<Sum>n\<leftarrow>ns. 2 ^ (n * (n - 1))), None)"
  by (induction ns arbitrary: models_checked) (simp_all add: Let_def check_masks_agree length_possible_directed_edges)

text \<open>
  C10: the bounded proof always succeeds: for every bound up to five the check compares the rule with the reference search on all
  directed graphs without self loops, finds no counterexample, never panics and reports a bounded proof with the number of
  graphs it looked at; a larger bound is refused.
\<close>

theorem proof_pilot_succeeds:
  "build_rust_dependency_graph_acyclicity_proof_pilot max_nodes = Some
     (if max_nodes > 5 then Err ''dependency graph proof pilot supports --max-nodes up to 5''
      else Ok (pilot_packet max_nodes (\<Sum>n\<leftarrow>[0..<max_nodes + 1]. 2 ^ (n * (n - 1)), None))) \<and>
   list_all (\<lambda>c. check_status c = PilotProvedBounded \<and> check_counterexample c = None)
     (pilot_checks (pilot_packet max_nodes (models, None)))"
  unfolding build_rust_dependency_graph_acyclicity_proof_pilot_def exhaustive_dependency_graph_check_def check_sizes_agree
  by (simp add: pilot_packet_def Let_def)

end
