(* ===== verification/Execution_Evidence.thy ===== *)
theory Execution_Evidence
  imports Policy_Config "HOL-Library.Word"
begin

text \<open>
  Receipts of executed tools (\<open>src/verification/execution_receipt.rs\<close>) and behaviour snapshots
  (\<open>behavior_snapshot.rs\<close>). The string newtypes are strings, an exit code is a 32-bit word read as signed, and the
  maps of additional fields are ascending association lists.
\<close>

section \<open>Execution receipts\<close>

type_synonym field_map = "(string \<times> string) list"

record execution_producer =
  ep_language_id :: string
  ep_provider_id :: string
  ep_adapter_id :: string
  ep_namespace :: string

definition execution_producer_default :: execution_producer where
  "execution_producer_default = \<lparr>ep_language_id = ''rust'', ep_provider_id = ''asp-rust'', ep_adapter_id = ''rust.unknown'',
     ep_namespace = ''agent.semantic-protocols.languages.rust.asp-rust''\<rparr>"

record execution_project =
  xp_name :: "string option"
  xp_workdir :: "path option"
  xp_package :: "string option"

datatype execution_tool = ToolCargoCheck | ToolCargoTest | ToolClippy | ToolExpectTest | ToolProptest | ToolCargoFuzz
  | ToolKani | ToolCreusot | ToolVerus

datatype execution_status = ExecutionPassed | ExecutionFailed | ExecutionSkipped | ExecutionError

datatype output_format = CargoJsonFormat | PlainTextFormat | LibtestFormat | ExpectTestFormat | FuzzCorpusFormat
  | ProofReportFormat | UnknownFormat

record execution_command =
  xc_argv :: "string list"
  xc_workdir :: "path option"
  xc_env :: field_map
  xc_output_format :: output_format

datatype observation_kind = ExitStatusObservation | StdoutObservation | StderrObservation | DiagnosticObservation
  | TestResultObservation | SnapshotDiffObservation | CoverageObservation | ArtifactObservation | NoteObservation

record execution_observation =
  xo_kind :: observation_kind
  xo_message :: string
  xo_path :: "path option"
  xo_line :: "nat option"
  xo_fields :: field_map

datatype artifact_kind = StdoutArtifact | StderrArtifact | CargoJsonArtifact | ExpectSnapshotArtifact | CoverageReportArtifact
  | ProofLogArtifact | FuzzArtifact | OtherArtifact

record execution_artifact =
  xa_kind :: artifact_kind
  xa_uri :: string
  xa_sha256 :: "string option"
  xa_fields :: field_map

record execution_receipt =
  xr_schema_id :: string
  xr_schema_version :: string
  xr_protocol_id :: string
  xr_protocol_version :: string
  xr_receipt_id :: string
  xr_producer :: execution_producer
  xr_project :: "execution_project option"
  xr_tool :: execution_tool
  xr_status :: execution_status
  xr_command :: execution_command
  xr_exit_code :: "32 word option"
  xr_duration_ms :: "nat option"
  xr_observed_at :: "string option"
  xr_summary :: string
  xr_observations :: "execution_observation list"
  xr_candidate_ids :: "string list"
  xr_task_fingerprints :: "string list"
  xr_artifacts :: "execution_artifact list"
  xr_fields :: field_map

datatype tool_adapter = CargoCheck | CargoTest | Clippy | ExpectTest | Proptest | CargoFuzz | Kani | Creusot | Verus

definition adapter_from_str :: "string \<Rightarrow> tool_adapter result" where
  "adapter_from_str s =
     (if s = ''cargo-check'' then Ok CargoCheck
      else if s = ''cargo-test'' then Ok CargoTest
      else if s = ''clippy'' then Ok Clippy
      else if s = ''expect-test'' then Ok ExpectTest
      else if s = ''proptest'' then Ok Proptest
      else if s = ''cargo-fuzz'' then Ok CargoFuzz
      else if s = ''kani'' then Ok Kani
      else if s = ''creusot'' then Ok Creusot
      else if s = ''verus'' then Ok Verus
      else Err (''unknown verification receipt adapter: '' @ s))"

primrec adapter_tool :: "tool_adapter \<Rightarrow> execution_tool" where
  "adapter_tool CargoCheck = ToolCargoCheck"
| "adapter_tool CargoTest = ToolCargoTest"
| "adapter_tool Clippy = ToolClippy"
| "adapter_tool ExpectTest = ToolExpectTest"
| "adapter_tool Proptest = ToolProptest"
| "adapter_tool CargoFuzz = ToolCargoFuzz"
| "adapter_tool Kani = ToolKani"
| "adapter_tool Creusot = ToolCreusot"
| "adapter_tool Verus = ToolVerus"

primrec adapter_id :: "tool_adapter \<Rightarrow> string" where
  "adapter_id CargoCheck = ''rust.cargo-check''"
| "adapter_id CargoTest = ''rust.cargo-test''"
| "adapter_id Clippy = ''rust.clippy''"
| "adapter_id ExpectTest = ''rust.expect-test''"
| "adapter_id Proptest = ''rust.proptest''"
| "adapter_id CargoFuzz = ''rust.cargo-fuzz''"
| "adapter_id Kani = ''rust.kani''"
| "adapter_id Creusot = ''rust.creusot''"
| "adapter_id Verus = ''rust.verus''"

primrec default_argv :: "tool_adapter \<Rightarrow> string list" where
  "default_argv CargoCheck = [''cargo'', ''check'', ''--message-format=json'']"
| "default_argv CargoTest = [''cargo'', ''test'', ''--no-fail-fast'']"
| "default_argv Clippy = [''cargo'', ''clippy'', ''--message-format=json'']"
| "default_argv ExpectTest = [''cargo'', ''test'']"
| "default_argv Proptest = [''cargo'', ''test'', ''--all-targets'', ''--'', ''--nocapture'']"
| "default_argv CargoFuzz = [''cargo'', ''fuzz'', ''run'']"
| "default_argv Kani = [''cargo'', ''kani'']"
| "default_argv Creusot = [''cargo'', ''creusot'']"
| "default_argv Verus = [''verus'']"

primrec adapter_output_format :: "tool_adapter \<Rightarrow> output_format" where
  "adapter_output_format CargoCheck = CargoJsonFormat"
| "adapter_output_format CargoTest = LibtestFormat"
| "adapter_output_format Clippy = CargoJsonFormat"
| "adapter_output_format ExpectTest = ExpectTestFormat"
| "adapter_output_format Proptest = LibtestFormat"
| "adapter_output_format CargoFuzz = FuzzCorpusFormat"
| "adapter_output_format Kani = ProofReportFormat"
| "adapter_output_format Creusot = ProofReportFormat"
| "adapter_output_format Verus = ProofReportFormat"

definition default_command :: "tool_adapter \<Rightarrow> execution_command" where
  "default_command a = \<lparr>xc_argv = default_argv a, xc_workdir = None, xc_env = [], xc_output_format = adapter_output_format a\<rparr>"

definition from_exit_code :: "string \<Rightarrow> tool_adapter \<Rightarrow> 32 word \<Rightarrow> string \<Rightarrow> execution_receipt" where
  "from_exit_code receipt_id a code summary_text =
     \<lparr>xr_schema_id = ''agent.semantic-protocols.semantic-verification-receipt'', xr_schema_version = ''1'',
      xr_protocol_id = ''agent.semantic-protocols.verification-receipt'', xr_protocol_version = ''1'',
      xr_receipt_id = receipt_id, xr_producer = execution_producer_default\<lparr>ep_adapter_id := adapter_id a\<rparr>,
      xr_project = None, xr_tool = adapter_tool a, xr_status = (if code = 0 then ExecutionPassed else ExecutionFailed),
      xr_command = default_command a, xr_exit_code = Some code, xr_duration_ms = None, xr_observed_at = None,
      xr_summary = summary_text,
      xr_observations = [\<lparr>xo_kind = ExitStatusObservation, xo_message = ''exit code '' @ show_int (sint code),
        xo_path = None, xo_line = None, xo_fields = []\<rparr>],
      xr_candidate_ids = [], xr_task_fingerprints = [], xr_artifacts = [], xr_fields = []\<rparr>"

section \<open>Behaviour snapshots\<close>

record snapshot_producer =
  sp_language_id :: string
  sp_provider_id :: string
  sp_namespace :: string

definition snapshot_producer_default :: snapshot_producer where
  "snapshot_producer_default = \<lparr>sp_language_id = ''rust'', sp_provider_id = ''asp-rust'',
     sp_namespace = ''agent.semantic-protocols.languages.rust.asp-rust''\<rparr>"

datatype subject_kind = PublicApiSubject | FunctionSubject | MethodSubject | ModuleSubject | CliSubject | TestSubject | CustomSubject

definition subject_kind_from_str :: "string \<Rightarrow> subject_kind result" where
  "subject_kind_from_str s =
     (if s = ''public-api'' then Ok PublicApiSubject
      else if s = ''function'' then Ok FunctionSubject
      else if s = ''method'' then Ok MethodSubject
      else if s = ''module'' then Ok ModuleSubject
      else if s = ''cli'' then Ok CliSubject
      else if s = ''test'' then Ok TestSubject
      else if s = ''custom'' then Ok CustomSubject
      else Err (''unknown behavior subject kind: '' @ s))"

record snapshot_subject =
  ss_kind :: subject_kind
  ss_path :: path
  ss_symbol :: "string option"
  ss_command :: "string list"
  ss_fields :: field_map

datatype snapshot_status = SnapshotMatched | SnapshotChanged | SnapshotMissing | SnapshotSkipped | SnapshotError

definition snapshot_status_from_str :: "string \<Rightarrow> snapshot_status result" where
  "snapshot_status_from_str s =
     (if s = ''matched'' then Ok SnapshotMatched
      else if s = ''changed'' then Ok SnapshotChanged
      else if s = ''missing'' then Ok SnapshotMissing
      else if s = ''skipped'' then Ok SnapshotSkipped
      else if s = ''error'' then Ok SnapshotError
      else Err (''unknown behavior snapshot status: '' @ s))"

datatype snapshot_observation_kind = SnapStdout | SnapStderr | SnapReturnValue | SnapSnapshot | SnapDiff | SnapDiagnostic | SnapNote

record snapshot_observation =
  so_kind :: snapshot_observation_kind
  so_message :: string
  so_path :: "path option"
  so_line :: "nat option"
  so_fields :: field_map

datatype value_format = TextFormat | JsonFormat | DebugFormat | BytesFormat | UnknownValueFormat

record snapshot_value =
  sv_format :: value_format
  sv_value :: string
  sv_sha256 :: "string option"
  sv_artifact_uri :: "string option"

definition snapshot_value_text :: "string \<Rightarrow> snapshot_value" where
  "snapshot_value_text v = \<lparr>sv_format = TextFormat, sv_value = v, sv_sha256 = None, sv_artifact_uri = None\<rparr>"

record behavior_snapshot =
  bs_schema_id :: string
  bs_schema_version :: string
  bs_protocol_id :: string
  bs_protocol_version :: string
  bs_snapshot_id :: string
  bs_producer :: snapshot_producer
  bs_subject :: snapshot_subject
  bs_status :: snapshot_status
  bs_observed_at :: "string option"
  bs_observations :: "snapshot_observation list"
  bs_expected :: "snapshot_value option"
  bs_actual :: "snapshot_value option"
  bs_diff :: "snapshot_value option"
  bs_receipt_ids :: "string list"
  bs_candidate_ids :: "string list"
  bs_fields :: field_map

record expect_test_input =
  et_snapshot_id :: string
  et_subject_path :: path
  et_symbol :: "string option"
  et_expected :: snapshot_value
  et_actual :: snapshot_value

record snapshot_input =
  sn_snapshot_id :: string
  sn_subject :: snapshot_subject
  sn_status :: snapshot_status
  sn_observations :: "snapshot_observation list"
  sn_expected :: "snapshot_value option"
  sn_actual :: "snapshot_value option"
  sn_diff :: "snapshot_value option"

definition behavior_snapshot_new :: "snapshot_input \<Rightarrow> behavior_snapshot" where
  "behavior_snapshot_new i =
     \<lparr>bs_schema_id = ''agent.semantic-protocols.semantic-behavior-snapshot'', bs_schema_version = ''1'',
      bs_protocol_id = ''agent.semantic-protocols.behavior-snapshot'', bs_protocol_version = ''1'',
      bs_snapshot_id = sn_snapshot_id i, bs_producer = snapshot_producer_default, bs_subject = sn_subject i,
      bs_status = sn_status i, bs_observed_at = None, bs_observations = sn_observations i, bs_expected = sn_expected i,
      bs_actual = sn_actual i, bs_diff = sn_diff i, bs_receipt_ids = [], bs_candidate_ids = [], bs_fields = []\<rparr>"

definition matched_expect_test :: "expect_test_input \<Rightarrow> behavior_snapshot" where
  "matched_expect_test i = behavior_snapshot_new
     \<lparr>sn_snapshot_id = et_snapshot_id i,
      sn_subject = \<lparr>ss_kind = PublicApiSubject, ss_path = et_subject_path i, ss_symbol = et_symbol i, ss_command = [], ss_fields = []\<rparr>,
      sn_status = SnapshotMatched,
      sn_observations = [\<lparr>so_kind = SnapSnapshot, so_message = ''expect-test snapshot matched'', so_path = None, so_line = None,
        so_fields = []\<rparr>],
      sn_expected = Some (et_expected i), sn_actual = Some (et_actual i), sn_diff = None\<rparr>"

section \<open>Receipts are well formed\<close>

text \<open>
  The name under which an adapter is parsed is its id without the namespace, so parsing is the inverse of naming on every
  adapter and refuses every other text.
\<close>

lemma adapter_from_str_iff: "adapter_from_str s = Ok a \<longleftrightarrow> adapter_id a = ''rust.'' @ s"
  by (cases a) (auto simp: adapter_from_str_def)

lemma adapter_id_inject: "adapter_id a = adapter_id b \<longleftrightarrow> a = b"
  by (cases a; cases b) simp_all

lemma adapter_tool_inject: "adapter_tool a = adapter_tool b \<longleftrightarrow> a = b"
  by (cases a; cases b) simp_all

lemma parsed_adapter: "adapter_from_str (drop 5 (adapter_id a)) = Ok a"
  by (cases a) (simp_all add: adapter_from_str_def)

lemma json_flag: "''--message-format=json'' \<in> set (default_argv a) \<longleftrightarrow> adapter_output_format a = CargoJsonFormat"
  by (cases a) simp_all

text \<open>A snapshot that is called matched is not compared: it may carry different expected and actual values.\<close>

lemma matched_expect_test_not_compared:
  "bs_status (matched_expect_test i) = SnapshotMatched" "bs_diff (matched_expect_test i) = None"
  "bs_expected (matched_expect_test i) = Some (et_expected i)" "bs_actual (matched_expect_test i) = Some (et_actual i)"
  by (simp_all add: matched_expect_test_def behavior_snapshot_new_def)

end
