(* ===== verification/Scenario_Duration.thy ===== *)
theory Scenario_Duration
  imports Prelude
begin

text \<open>
  Durations in benchmark contracts (\<open>src/verification/scenario_benchmark/contract.rs\<close>): the parser of texts such as
  \<open>75us\<close> or \<open>1.2ms\<close> and the text that \<open>Duration\<close> prints. A duration is its number of nanoseconds; the parser computes at
  128 bits and refuses what does not fit. An error is a value of \<open>duration_error\<close>, one constructor per message of the source.
\<close>

section \<open>Parsing\<close>

datatype duration_error =
    EmptyDuration | MissingUnit | MissingAmount | UnsupportedUnit string | AmountWithoutDigits
  | InvalidAmount string | AmountOverflow | InvalidFraction string | FractionTooPrecise | FractionOverflow
  | MorePreciseThanNanoseconds string | ExceedsDuration

abbreviation is_digit :: "char \<Rightarrow> bool" where
  "is_digit c \<equiv> CHR ''0'' \<le> c \<and> c \<le> CHR ''9''"

definition parse_u128 :: "string \<Rightarrow> nat option" where
  "parse_u128 s = (if s \<noteq> [] \<and> list_all is_digit s \<and> read_digits s < 2 ^ 128 then Some (read_digits s) else None)"

definition checked_mul :: "nat \<Rightarrow> nat \<Rightarrow> nat option" where
  "checked_mul a b = (if a * b < 2 ^ 128 then Some (a * b) else None)"

definition checked_add :: "nat \<Rightarrow> nat \<Rightarrow> nat option" where
  "checked_add a b = (if a + b < 2 ^ 128 then Some (a + b) else None)"

definition checked_pow10 :: "nat \<Rightarrow> nat option" where
  "checked_pow10 n = (if n < 2 ^ 32 \<and> 10 ^ n < (2 :: nat) ^ 128 then Some (10 ^ n) else None)"

definition or_fail :: "'e \<Rightarrow> 'a option \<Rightarrow> 'e + 'a" where
  "or_fail e x = (case x of None \<Rightarrow> Inl e | Some v \<Rightarrow> Inr v)"

definition split_once_dot :: "string \<Rightarrow> string \<times> string option" where
  "split_once_dot s =
     (case dropWhile (\<lambda>c. c \<noteq> CHR ''.'') s of
        [] \<Rightarrow> (s, None)
      | _ # fraction \<Rightarrow> (takeWhile (\<lambda>c. c \<noteq> CHR ''.'') s, Some fraction))"

definition whole_nanos :: "string \<Rightarrow> nat \<Rightarrow> string \<Rightarrow> duration_error + nat" where
  "whole_nanos amount nanos_per_unit whole =
     (if whole = [] then Inr 0
      else and_then (or_fail (InvalidAmount amount) (parse_u128 whole)) (\<lambda>n. or_fail AmountOverflow (checked_mul n nanos_per_unit)))"

definition parse_decimal_duration_nanos :: "string \<Rightarrow> nat \<Rightarrow> duration_error + nat" where
  "parse_decimal_duration_nanos amount nanos_per_unit =
     (let (whole, fraction) = split_once_dot amount in
      if whole = [] \<and> (fraction = None \<or> fraction = Some []) then Inl AmountWithoutDigits
      else and_then (whole_nanos amount nanos_per_unit whole) (\<lambda>w.
        case fraction of
          None \<Rightarrow> Inr w
        | Some f \<Rightarrow>
            if f = [] \<or> \<not> list_all is_digit f then Inl (InvalidFraction amount)
            else and_then (or_fail FractionTooPrecise (checked_pow10 (length f))) (\<lambda>scale.
              and_then (or_fail (InvalidFraction amount) (parse_u128 f)) (\<lambda>units.
              and_then (or_fail FractionOverflow (checked_mul units nanos_per_unit)) (\<lambda>nanos.
              if nanos mod scale \<noteq> 0 then Inl (MorePreciseThanNanoseconds amount)
              else or_fail AmountOverflow (checked_add w (nanos div scale)))))))"

abbreviation micro_sign :: string where "micro_sign \<equiv> [CHR 0xC2, CHR 0xB5]"
abbreviation greek_mu :: string where "greek_mu \<equiv> [CHR 0xCE, CHR 0xBC]"

definition nanos_per_unit_of :: "string \<Rightarrow> nat option" where
  "nanos_per_unit_of u =
     (if u = ''ns'' then Some 1
      else if u \<in> {''us'', micro_sign @ ''s'', greek_mu @ ''s''} then Some 1000
      else if u = ''ms'' then Some 1000000
      else if u = ''s'' then Some 1000000000
      else None)"

definition amount_char :: "char \<Rightarrow> bool" where
  "amount_char c \<longleftrightarrow> is_digit c \<or> c = CHR ''.''"

definition parse_rust_scenario_benchmark_duration :: "string \<Rightarrow> duration_error + nat" where
  "parse_rust_scenario_benchmark_duration text =
     (let value1 = trim text in
      if value1 = [] then Inl EmptyDuration
      else
        let amount = takeWhile amount_char value1;
            unit1 = dropWhile amount_char value1
        in if unit1 = [] then Inl MissingUnit
           else if amount = [] then Inl MissingAmount
           else and_then (or_fail (UnsupportedUnit unit1) (nanos_per_unit_of unit1)) (\<lambda>nanos_per_unit.
             and_then (parse_decimal_duration_nanos amount nanos_per_unit) (\<lambda>nanos.
             if nanos < 2 ^ 64 then Inr nanos else Inl ExceedsDuration)))"

section \<open>Printing\<close>

text \<open>The fraction digits of \<open>Duration\<close>, which end when the rest is zero.\<close>

fun fraction_digits :: "nat \<Rightarrow> nat \<Rightarrow> string" where
  "fraction_digits f 0 = []"
| "fraction_digits f (Suc k) = (if f = 0 then [] else char_of (48 + f div 10 ^ k) # fraction_digits (f mod 10 ^ k) k)"

definition show_decimal :: "nat \<Rightarrow> nat \<Rightarrow> nat \<Rightarrow> string \<Rightarrow> string" where
  "show_decimal i f k u = show_nat i @ (if f = 0 then [] else CHR ''.'' # fraction_digits f k) @ u"

definition show_duration :: "nat \<Rightarrow> string" where
  "show_duration n =
     (if n \<ge> 1000000000 then show_decimal (n div 1000000000) (n mod 1000000000) 9 ''s''
      else if n \<ge> 1000000 then show_decimal (n div 1000000) (n mod 1000000) 6 ''ms''
      else if n \<ge> 1000 then show_decimal (n div 1000) (n mod 1000) 3 (micro_sign @ ''s'')
      else show_decimal n 0 0 ''ns'')"

section \<open>Trimming\<close>

lemma strip_head_none: "list_all (\<lambda>w. w \<noteq> [] \<longrightarrow> hd w \<noteq> c) ws \<Longrightarrow> strip_head ws (c # s) = None"
proof (induction ws)
  case (Cons w ws)
  then show ?case by (cases w) (auto simp: starts_with_def)
qed simp

lemma trim_keeps:
  assumes "list_all (\<lambda>w. w \<noteq> [] \<longrightarrow> hd w \<noteq> c) white_space" "list_all (\<lambda>w. w \<noteq> [] \<longrightarrow> hd w \<noteq> d) (map rev white_space)"
  shows "trim (c # s @ [d]) = c # s @ [d]"
proof -
  have "trim_start (c # s @ [d]) = c # s @ [d]"
    using strip_head_none [OF assms(1)] by (simp add: trim_start_def strip_all.simps)
  moreover have "strip_all (map rev white_space) (d # rev s @ [c]) = d # rev s @ [c]"
    using strip_head_none [OF assms(2)] by (simp add: strip_all.simps)
  ultimately show ?thesis by (simp add: trim_def trim_end_def)
qed

lemma trim_digit_s:
  assumes "is_digit c"
  shows "trim (c # s @ ''s'') = c # s @ ''s''"
proof (rule trim_keeps)
  from assms have "c \<notin> set [CHR 0x09, CHR 0x0A, CHR 0x0B, CHR 0x0C, CHR 0x0D, CHR 0x20, CHR 0xC2, CHR 0xE1, CHR 0xE2, CHR 0xE3]"
    by (auto simp: less_eq_char_def)
  then show "list_all (\<lambda>w. w \<noteq> [] \<longrightarrow> hd w \<noteq> c) white_space" by (auto simp: white_space_def)
  show "list_all (\<lambda>w. w \<noteq> [] \<longrightarrow> hd w \<noteq> CHR ''s'') (map rev white_space)" by code_simp
qed

section \<open>Printed durations are read back\<close>

lemma digit_char: "d < 10 \<Longrightarrow> is_digit (char_of (48 + d))" for d :: nat
  by (simp add: less_eq_char_def)

lemma show_nat_all_digits: "list_all is_digit (show_nat n)"
proof -
  have "is_digit c" if "c \<in> set (show_nat n)" for c using show_nat_digits [OF that] by (simp add: less_eq_char_def)
  then show ?thesis by (simp add: list_all_iff)
qed

lemma read_digits_Cons: "read_digits (c # s) = (of_char c - 48) * 10 ^ length s + read_digits s"
proof -
  have "foldl (\<lambda>n c. 10 * n + (of_char c - 48)) k s = k * 10 ^ length s + read_digits s" for k
  proof (induction s rule: rev_induct)
    case (snoc x xs)
    then show ?case by (simp add: read_digits_def algebra_simps)
  qed (simp add: read_digits_def)
  from this [of "of_char c - 48"] show ?thesis by (simp add: read_digits_def)
qed

lemma fraction_digits_read:
  "f < 10 ^ k \<Longrightarrow> length (fraction_digits f k) \<le> k \<and> list_all is_digit (fraction_digits f k) \<and>
     read_digits (fraction_digits f k) * 10 ^ (k - length (fraction_digits f k)) = f"
proof (induction f k rule: fraction_digits.induct)
  case (2 f k)
  show ?case
  proof (cases "f = 0")
    case True
    then show ?thesis by (simp add: read_digits_def)
  next
    case False
    define ds where "ds = fraction_digits (f mod 10 ^ k) k"
    have d: "f div 10 ^ k < 10" using "2.prems" by (simp add: less_mult_imp_div_less)
    have IH: "length ds \<le> k" "list_all is_digit ds" "read_digits ds * 10 ^ (k - length ds) = f mod 10 ^ k"
      using "2.IH" False by (simp_all add: ds_def)
    have "((f div 10 ^ k) * 10 ^ length ds + read_digits ds) * 10 ^ (k - length ds) =
        (f div 10 ^ k) * (10 ^ length ds * 10 ^ (k - length ds)) + f mod 10 ^ k"
      unfolding IH(3) [symmetric] by (simp only: add_mult_distrib mult.assoc)
    also have "10 ^ length ds * 10 ^ (k - length ds) = (10 :: nat) ^ k" using IH(1) by (simp flip: power_add)
    finally have "((f div 10 ^ k) * 10 ^ length ds + read_digits ds) * 10 ^ (k - length ds) = f" unfolding div_mult_mod_eq .
    with False d IH digit_char [OF d] show ?thesis by (simp add: read_digits_Cons flip: ds_def)
  qed
qed (simp add: read_digits_def)

lemma parse_u128_digits: "s \<noteq> [] \<Longrightarrow> list_all is_digit s \<Longrightarrow> read_digits s < 2 ^ 128 \<Longrightarrow> parse_u128 s = Some (read_digits s)"
  by (simp add: parse_u128_def)

lemma split_once_dot_digits:
  assumes "list_all is_digit w"
  shows "split_once_dot w = (w, None)" and "split_once_dot (w @ CHR ''.'' # f) = (w, Some f)"
proof -
  have no_dot: "c \<noteq> CHR ''.''" if "c \<in> set w" for c using assms that by (auto simp: list_all_iff less_eq_char_def)
  have "dropWhile (\<lambda>c. c \<noteq> CHR ''.'') w = []" using no_dot unfolding dropWhile_eq_Nil_conv by blast
  moreover have "takeWhile (\<lambda>c. c \<noteq> CHR ''.'') (w @ CHR ''.'' # f) = w"
    using takeWhile_append2 [where P = "\<lambda>c. c \<noteq> CHR ''.''" and ys = "CHR ''.'' # f", OF no_dot] by simp
  moreover have "dropWhile (\<lambda>c. c \<noteq> CHR ''.'') (w @ CHR ''.'' # f) = CHR ''.'' # f"
    using dropWhile_append2 [where P = "\<lambda>c. c \<noteq> CHR ''.''" and ys = "CHR ''.'' # f", OF no_dot] by simp
  ultimately show "split_once_dot w = (w, None)" "split_once_dot (w @ CHR ''.'' # f) = (w, Some f)"
    unfolding split_once_dot_def by (simp_all only: list.case)
qed

lemma fraction_digits_nonempty: "f \<noteq> 0 \<Longrightarrow> f < 10 ^ k \<Longrightarrow> fraction_digits f k \<noteq> []"
  by (cases k) simp_all

lemma fraction_digits_numeral:
  "fraction_digits f (numeral k) =
     (if f = 0 then [] else char_of (48 + f div 10 ^ pred_numeral k) # fraction_digits (f mod 10 ^ pred_numeral k) (pred_numeral k))"
  by (simp add: numeral_eq_Suc)

lemma checked_simps:
  "checked_mul a b = Some c \<longleftrightarrow> c = a * b \<and> c < 2 ^ 128" "checked_add a b = Some c \<longleftrightarrow> c = a + b \<and> c < 2 ^ 128"
  "checked_pow10 k = Some c \<longleftrightarrow> c = 10 ^ k \<and> k < 2 ^ 32 \<and> c < 2 ^ 128"
  "parse_u128 s = Some c \<longleftrightarrow> s \<noteq> [] \<and> list_all is_digit s \<and> c = read_digits s \<and> c < 2 ^ 128"
  "or_fail e x = Inr v \<longleftrightarrow> x = Some v"
  by (auto simp: checked_mul_def checked_add_def checked_pow10_def parse_u128_def or_fail_def split: option.splits)

text \<open>The bounds that keep the arithmetic of a printed duration below 128 bits.\<close>

lemma parse_shown_amount:
  assumes "k \<le> 9" "f < 10 ^ k" "i * 10 ^ k + f < 2 ^ 64"
  shows "parse_decimal_duration_nanos (show_nat i @ (if f = 0 then [] else CHR ''.'' # fraction_digits f k)) (10 ^ k) = Inr (i * 10 ^ k + f)"
proof -
  let ?ds = "fraction_digits f k"
  have whole: "whole_nanos a (10 ^ k) (show_nat i) = Inr (i * 10 ^ k)" for a
  proof -
    have "i \<le> i * 10 ^ k" by simp
    with assms(3) have "i < 2 ^ 64" by linarith
    then have "i < 2 ^ 128" by simp
    then have "parse_u128 (show_nat i) = Some i" using show_nat_all_digits [of i] show_nat_ne [of i] by (simp add: checked_simps read_show_nat)
    moreover have "checked_mul i (10 ^ k) = Some (i * 10 ^ k)" using assms(3) by (simp add: checked_simps)
    ultimately show ?thesis by (simp add: whole_nanos_def or_fail_def show_nat_ne)
  qed
  show ?thesis
  proof (cases "f = 0")
    case True
    then show ?thesis using split_once_dot_digits(1) [OF show_nat_all_digits [of i]] whole
      by (simp add: parse_decimal_duration_nanos_def show_nat_ne)
  next
    case False
    from fraction_digits_read [OF assms(2)] have ds: "length ?ds \<le> k" "list_all is_digit ?ds"
      "read_digits ?ds * 10 ^ (k - length ?ds) = f" by simp_all
    have ne: "?ds \<noteq> []" using fraction_digits_nonempty [OF False assms(2)] .
    have "read_digits ?ds * 10 ^ k = read_digits ?ds * (10 ^ (k - length ?ds) * 10 ^ length ?ds)"
      using ds(1) by (simp flip: power_add)
    then have scaled: "read_digits ?ds * 10 ^ k = f * 10 ^ length ?ds" unfolding mult.assoc [symmetric] ds(3) .
    have ten: "(10 :: nat) ^ n \<le> 10 ^ 9" if "n \<le> 9" for n using that by (rule power_increasing) simp
    have "read_digits ?ds * 1 \<le> read_digits ?ds * 10 ^ (k - length ?ds)" by (rule mult_le_mono2) simp
    then have small: "read_digits ?ds < 10 ^ 9" using ds(3) assms(2) ten [OF assms(1)] by linarith
    have "parse_u128 ?ds = Some (read_digits ?ds)" using ne ds(2) small by (simp add: checked_simps)
    moreover have "checked_pow10 (length ?ds) = Some (10 ^ length ?ds)"
      using ten [of "length ?ds"] ds(1) assms(1) by (simp add: checked_simps)
    moreover have "checked_mul (read_digits ?ds) (10 ^ k) = Some (f * 10 ^ length ?ds)"
    proof -
      have "read_digits ?ds * 10 ^ k \<le> 10 ^ 9 * 10 ^ 9" using small ten [OF assms(1)] by (intro mult_le_mono) simp_all
      then show ?thesis using scaled by (simp add: checked_simps)
    qed
    moreover have "checked_add (i * 10 ^ k) f = Some (i * 10 ^ k + f)" using assms(3) by (simp add: checked_simps)
    ultimately show ?thesis
      using False ne ds(2) split_once_dot_digits(2) [OF show_nat_all_digits [of i], of ?ds] whole
      by (simp add: parse_decimal_duration_nanos_def or_fail_def)
  qed
qed

lemma amount_split:
  assumes "list_all amount_char a" "u = c # v" "\<not> amount_char c"
  shows "takeWhile amount_char (a @ u) = a" "dropWhile amount_char (a @ u) = u"
  using assms by (simp_all add: takeWhile_append2 dropWhile_append2 list_all_iff)

lemma parse_show_decimal:
  assumes "nanos_per_unit_of u = Some (10 ^ k)" "u = v @ ''s''" "u = c # w" "\<not> amount_char c"
    and "k \<le> 9" "f < 10 ^ k" "i * 10 ^ k + f < 2 ^ 64"
  shows "parse_rust_scenario_benchmark_duration (show_decimal i f k u) = Inr (i * 10 ^ k + f)"
proof -
  define a where "a = show_nat i @ (if f = 0 then [] else CHR ''.'' # fraction_digits f k)"
  obtain d s where d: "show_nat i = d # s" using show_nat_ne [of i] by (cases "show_nat i") auto
  have "is_digit d" using show_nat_all_digits [of i] d by simp
  have a: "show_decimal i f k u = a @ u" "a \<noteq> []" by (simp_all add: show_decimal_def a_def show_nat_ne)
  have au: "a @ u = d # (s @ (if f = 0 then [] else CHR ''.'' # fraction_digits f k) @ v) @ ''s''" by (simp add: a_def d assms(2))
  have trimmed: "trim (a @ u) = a @ u" unfolding au by (rule trim_digit_s [OF \<open>is_digit d\<close>])
  have "list_all amount_char a"
    using show_nat_all_digits [of i] fraction_digits_read [OF assms(6)] by (auto simp: a_def list_all_iff amount_char_def)
  from amount_split [OF this assms(3,4)] trimmed a(2) assms(1,3,7)
  show ?thesis unfolding a(1) parse_rust_scenario_benchmark_duration_def Let_def
    using parse_shown_amount [OF assms(5-7), folded a_def] by (simp add: or_fail_def)
qed

lemma shown_units:
  "nanos_per_unit_of ''s'' = Some 1000000000" "nanos_per_unit_of ''ms'' = Some 1000000" "nanos_per_unit_of ''ns'' = Some 1"
  "nanos_per_unit_of [CHR 0xC2, CHR 0xB5, CHR ''s''] = Some 1000"
  "\<not> amount_char (CHR ''s'')" "\<not> amount_char (CHR ''m'')" "\<not> amount_char (CHR ''n'')" "\<not> amount_char (CHR 0xC2)"
  by (simp_all add: nanos_per_unit_of_def amount_char_def less_eq_char_def)

lemma parse_show_duration:
  assumes "n < 2 ^ 64"
  shows "parse_rust_scenario_benchmark_duration (show_duration n) = Inr n"
proof -
  have shown: "parse_rust_scenario_benchmark_duration (show_decimal (n div 10 ^ k) (n mod 10 ^ k) k u) = Inr n"
    if "nanos_per_unit_of u = Some (10 ^ k)" "u = v @ ''s''" "u = c # w" "\<not> amount_char c" "k \<le> 9" for k u v c w
  proof -
    have "n div 10 ^ k * 10 ^ k + n mod 10 ^ k < 2 ^ 64" unfolding div_mult_mod_eq by (rule assms)
    from parse_show_decimal [OF that _ this] show ?thesis unfolding div_mult_mod_eq by simp
  qed
  have s: "parse_rust_scenario_benchmark_duration (show_decimal (n div 10 ^ 9) (n mod 10 ^ 9) 9 ''s'') = Inr n"
    by (rule shown [of _ _ "[]" "CHR ''s''" "[]"]) (simp_all add: shown_units)
  have ms: "parse_rust_scenario_benchmark_duration (show_decimal (n div 10 ^ 6) (n mod 10 ^ 6) 6 ''ms'') = Inr n"
    by (rule shown [of _ _ "''m''" "CHR ''m''" "''s''"]) (simp_all add: shown_units)
  have us: "parse_rust_scenario_benchmark_duration (show_decimal (n div 10 ^ 3) (n mod 10 ^ 3) 3 (micro_sign @ ''s'')) = Inr n"
    by (rule shown [of _ _ micro_sign "CHR 0xC2" "[CHR 0xB5] @ ''s''"]) (simp_all add: shown_units)
  have "parse_rust_scenario_benchmark_duration (show_decimal (n div 10 ^ 0) (n mod 10 ^ 0) 0 ''ns'') = Inr n"
    by (rule shown [of _ _ "''n''" "CHR ''n''" "''s''"]) (simp_all add: shown_units)
  then have ns: "parse_rust_scenario_benchmark_duration (show_decimal n 0 0 ''ns'') = Inr n"
    by (simp only: power_0 div_by_1 mod_by_1)
  have ten: "(10 :: nat) ^ 9 = 1000000000" "(10 :: nat) ^ 6 = 1000000" "(10 :: nat) ^ 3 = 1000" by simp_all
  show ?thesis unfolding show_duration_def
    by (simp only: s [unfolded ten] ms [unfolded ten] us [unfolded ten] ns if_distrib [of parse_rust_scenario_benchmark_duration] if_cancel)
qed

section \<open>Accepted durations are exact\<close>

text \<open>The number of nanoseconds that a text of whole digits, optional fraction digits and unit means.\<close>

definition denotes_duration :: "string \<Rightarrow> nat \<Rightarrow> bool" where
  "denotes_duration s n \<longleftrightarrow> (\<exists>w d f u m. s = w @ d @ u \<and> (d = [] \<and> f = [] \<or> d = CHR ''.'' # f) \<and> w @ f \<noteq> [] \<and>
     list_all is_digit (w @ f) \<and> nanos_per_unit_of u = Some m \<and>
     n * 10 ^ length f = (read_digits w * 10 ^ length f + read_digits f) * m)"

lemma split_once_dot_eq:
  "split_once_dot s = (w, None) \<Longrightarrow> s = w" "split_once_dot s = (w, Some f) \<Longrightarrow> s = w @ CHR ''.'' # f"
proof -
  have split: "s = takeWhile (\<lambda>c. c \<noteq> CHR ''.'') s @ dropWhile (\<lambda>c. c \<noteq> CHR ''.'') s" by simp
  show "split_once_dot s = (w, None) \<Longrightarrow> s = w" by (auto simp: split_once_dot_def split: list.splits)
  show "split_once_dot s = (w, Some f) \<Longrightarrow> s = w @ CHR ''.'' # f"
    using hd_dropWhile [of "\<lambda>c. c \<noteq> CHR ''.''" s] split
    by (cases "dropWhile (\<lambda>c. c \<noteq> CHR ''.'') s") (auto simp: split_once_dot_def simp del: takeWhile_dropWhile_id)
qed

lemma whole_nanos_Inr: "whole_nanos a m w = Inr n \<Longrightarrow> list_all is_digit w \<and> n = read_digits w * m"
  by (auto simp: whole_nanos_def and_then_Inr_iff checked_simps read_digits_def split: if_splits)

lemma parse_decimal_Inr:
  assumes "parse_decimal_duration_nanos a m = Inr n"
  shows "\<exists>w d f. a = w @ d \<and> (d = [] \<and> f = [] \<or> d = CHR ''.'' # f) \<and> w @ f \<noteq> [] \<and> list_all is_digit (w @ f) \<and>
    n * 10 ^ length f = (read_digits w * 10 ^ length f + read_digits f) * m"
proof (cases "split_once_dot a")
  case (Pair w fraction)
  show ?thesis
  proof (cases fraction)
    case None
    with assms Pair have "whole_nanos a m w = Inr n" "w \<noteq> []"
      by (auto simp: parse_decimal_duration_nanos_def and_then_Inr_iff split: if_splits)
    with whole_nanos_Inr [of a m w n] split_once_dot_eq(1) [of a w] Pair None show ?thesis
      by (intro exI [of _ w] exI [of _ "[]"]) (simp add: read_digits_def)
  next
    case (Some f)
    with assms Pair obtain x where x: "whole_nanos a m w = Inr x" "f \<noteq> []" "list_all is_digit f"
      "read_digits f * m mod 10 ^ length f = 0" "n = x + read_digits f * m div 10 ^ length f"
      by (auto simp: parse_decimal_duration_nanos_def and_then_Inr_iff checked_simps split: if_splits)
    have "n * 10 ^ length f = x * 10 ^ length f + (read_digits f * m div 10 ^ length f) * 10 ^ length f"
      unfolding x(5) by (rule add_mult_distrib)
    also have "(read_digits f * m div 10 ^ length f) * 10 ^ length f = read_digits f * m"
      using x(4) div_mult_mod_eq [of "read_digits f * m" "10 ^ length f"] by linarith
    finally have "n * 10 ^ length f = (read_digits w * 10 ^ length f + read_digits f) * m"
      using whole_nanos_Inr [OF x(1)] by (simp add: algebra_simps)
    with x(2,3) whole_nanos_Inr [OF x(1)] split_once_dot_eq(2) [of a w f] Pair Some show ?thesis
      by (intro exI [of _ w] exI [of _ "CHR ''.'' # f"] exI [of _ f]) simp
  qed
qed

lemma parse_duration_Inr:
  assumes "parse_rust_scenario_benchmark_duration t = Inr n"
  shows "n < 2 ^ 64 \<and> denotes_duration (trim t) n"
proof -
  from assms obtain m where m: "nanos_per_unit_of (dropWhile amount_char (trim t)) = Some m"
    "parse_decimal_duration_nanos (takeWhile amount_char (trim t)) m = Inr n" "n < 2 ^ 64"
    unfolding parse_rust_scenario_benchmark_duration_def Let_def
    by (auto simp: and_then_Inr_iff checked_simps split: if_splits)
  from parse_decimal_Inr [OF m(2)] obtain w d f where "takeWhile amount_char (trim t) = w @ d"
    "d = [] \<and> f = [] \<or> d = CHR ''.'' # f" "w @ f \<noteq> []" "list_all is_digit (w @ f)"
    "n * 10 ^ length f = (read_digits w * 10 ^ length f + read_digits f) * m" by blast
  moreover have "trim t = takeWhile amount_char (trim t) @ dropWhile amount_char (trim t)" by simp
  ultimately have "trim t = w @ d @ dropWhile amount_char (trim t) \<and> (d = [] \<and> f = [] \<or> d = CHR ''.'' # f) \<and> w @ f \<noteq> [] \<and>
      list_all is_digit (w @ f) \<and> nanos_per_unit_of (dropWhile amount_char (trim t)) = Some m \<and>
      n * 10 ^ length f = (read_digits w * 10 ^ length f + read_digits f) * m" using m(1)
    by (metis append.assoc)
  then have "denotes_duration (trim t) n" unfolding denotes_duration_def by blast
  with m(3) show ?thesis by blast
qed

text \<open>
  C25: a duration that the contract parser accepts is exact and survives printing: the trimmed text is digits, an optional fraction
  and a unit whose exact value in nanoseconds is the result, the result fits in 64 bits, and parsing the text the contract
  prints for it gives it back.
\<close>

theorem accepted_duration_exact:
  assumes "parse_rust_scenario_benchmark_duration t = Inr n"
  shows "n < 2 ^ 64 \<and> denotes_duration (trim t) n \<and> parse_rust_scenario_benchmark_duration (show_duration n) = Inr n"
  using parse_duration_Inr [OF assms] parse_show_duration by blast

theorem accepted_duration_exact_witness:
  "show_duration 1250000 = ''1.25ms'' \<and> parse_rust_scenario_benchmark_duration ''1.25ms'' = Inr 1250000 \<and>
   denotes_duration (trim ''1.25ms'') 1250000"
proof -
  have shown: "show_duration 1250000 = ''1.25ms''"
    by (simp add: show_duration_def show_decimal_def fraction_digits_numeral show_nat.simps [of "Suc 0"] char_of_def bit_0)
  have "parse_rust_scenario_benchmark_duration (show_duration 1250000) = Inr 1250000" by (rule parse_show_duration) simp
  from accepted_duration_exact [OF this] this show ?thesis unfolding shown by simp
qed

end
