(* ===== verification/Scenario_Benchmark.thy ===== *)
theory Scenario_Benchmark
  imports Scenario_Duration Project_Layout_Rules
begin

text \<open>
  Benchmark contracts of scenario fixtures (\<open>src/verification/scenario_benchmark/\<close>): the contract and its receipts, the discovery of
  the fixtures that need one, the checks of one contract, the suite with its coverage of the agent policies and the hard gate of
  downstream tests. Durations and byte counts are \<open>nat\<close>: they are only compared. A check that pushes onto the vector of violations
  is the list it pushes. The TOML and JSON decoders are arguments, and so is the message of a failed directory read. A panic in
  the middle of a check is \<open>None\<close>.
\<close>

section \<open>Data\<close>

datatype scenario_manifest_kind = ScenarioToml | AstPatchScenarioJson
datatype benchmark_metric_kind = StableMetric | ExactMetric | MaximumMetric | MinimumMetric
datatype benchmark_phase = ColdPhase | WarmPhase | ColdFunctionalPhase
datatype benchmark_status = BenchmarkPass | BenchmarkFail | BenchmarkInvalid
datatype violation_kind = ContractViolation | PerformanceViolation | MemoryViolation

primrec manifest_kind_as_str :: "scenario_manifest_kind \<Rightarrow> string" where
  "manifest_kind_as_str ScenarioToml = ''scenario.toml''"
| "manifest_kind_as_str AstPatchScenarioJson = ''ast-patch-scenario.json''"

primrec benchmark_status_as_str :: "benchmark_status \<Rightarrow> string" where
  "benchmark_status_as_str BenchmarkPass = ''pass''"
| "benchmark_status_as_str BenchmarkFail = ''fail''"
| "benchmark_status_as_str BenchmarkInvalid = ''invalid''"

primrec violation_kind_as_str :: "violation_kind \<Rightarrow> string" where
  "violation_kind_as_str ContractViolation = ''contract''"
| "violation_kind_as_str PerformanceViolation = ''performance''"
| "violation_kind_as_str MemoryViolation = ''memory''"

primrec metric_kind_debug :: "benchmark_metric_kind \<Rightarrow> string" where
  "metric_kind_debug StableMetric = ''Stable''"
| "metric_kind_debug ExactMetric = ''Exact''"
| "metric_kind_debug MaximumMetric = ''Maximum''"
| "metric_kind_debug MinimumMetric = ''Minimum''"

record scenario_requirement =
  sq_root :: path
  sq_manifest_kind :: scenario_manifest_kind

record policy_coverage =
  pc_rule_id :: string
  pc_scenario_id :: string
  pc_policy_id :: string
  pc_root :: path

record scenario_metadata =
  sm_id :: string
  sm_title :: string
  sm_policy_ids :: "string list"
  sm_agent_goal :: string
  sm_reference_repositories :: "string list"
  sm_reference_patterns :: "string list"
  sm_inputs :: string
  sm_expected :: string

record input_expected_comparison =
  ic_input_total :: nat
  ic_expected_total :: nat
  ic_input_memory_bytes :: nat
  ic_expected_memory_bytes :: nat
  ic_interpretation :: string
  ic_expected_not_faster_annotation :: "string option"

record benchmark_metric =
  bm_unit :: string
  bm_kind :: benchmark_metric_kind
  bm_target :: "nat option"
  bm_observed :: nat

record benchmark_measurement =
  me_clock :: string
  me_statistic :: string
  me_warmup_iterations :: nat
  me_measure_iterations :: nat
  me_total_p50 :: nat
  me_total_p95 :: nat
  me_total_p99 :: nat
  me_total_max :: nat

record phase_distribution =
  pd_p50 :: nat
  pd_p95 :: nat
  pd_p99 :: nat
  pd_max :: nat

record benchmark_contract =
  bc_harness :: string
  bc_test :: "string option"
  bc_bench :: "string option"
  bc_case :: "string option"
  bc_snapshot :: "string option"
  bc_phase :: "benchmark_phase option"
  bc_target_total :: nat
  bc_max_total :: nat
  bc_observed_total :: nat
  bc_regression_budget :: nat
  bc_memory_budget_bytes :: nat
  bc_observed_memory_bytes :: nat
  bc_route_source :: "string option"
  bc_max_provider_process_count :: "nat option"
  bc_max_stdout_bytes :: "nat option"
  bc_fallback_reason :: "string option"
  bc_target_rationale :: string
  bc_input_expected_comparison :: "input_expected_comparison option"
  bc_observed_timings :: "(string \<times> nat) list"
  bc_phase_distributions :: "(string \<times> phase_distribution) list"
  bc_metrics :: "(string \<times> benchmark_metric) list"
  bc_measurement :: "benchmark_measurement option"

record benchmark_violation =
  bv_kind :: violation_kind
  bv_field :: string
  bv_message :: string

record benchmark_receipt =
  br_root :: path
  br_scenario :: scenario_metadata
  br_benchmark :: benchmark_contract
  br_status :: benchmark_status
  br_violations :: "benchmark_violation list"

record benchmark_suite_receipt =
  bs_root :: path
  bs_requirements :: "scenario_requirement list"
  bs_receipts :: "benchmark_receipt list"
  bs_policy_coverage :: "policy_coverage list"
  bs_violations :: "benchmark_violation list"
  bs_status :: benchmark_status

record benchmark_error =
  be_path :: path
  be_message :: string

definition benchmark_error_text :: "benchmark_error \<Rightarrow> string" where
  "benchmark_error_text e = display (be_path e) @ '': '' @ be_message e"

record ast_patch_manifest =
  ap_mode :: string
  ap_expected_status :: string
  ap_expected_capability :: string
  ap_expected_operation :: "string option"

record scenario_host =
  sh_host :: host
  sh_read_dir_error :: "path \<Rightarrow> string"
  sh_decode_scenario :: "string \<Rightarrow> scenario_metadata result"
  sh_decode_benchmark :: "string \<Rightarrow> benchmark_contract result"
  sh_decode_ast_patch :: "string \<Rightarrow> ast_patch_manifest result"

section \<open>Required fixtures\<close>

function collect_scenario_toml_node :: "scenario_host \<Rightarrow> path \<Rightarrow> fs_node \<Rightarrow> benchmark_error + scenario_requirement list"
and collect_scenario_toml_entries :: "scenario_host \<Rightarrow> path \<Rightarrow> (string \<times> fs_node) list \<Rightarrow> benchmark_error + scenario_requirement list"
where
  "collect_scenario_toml_node h root node =
     (case node of
        Link_node None \<Rightarrow> Inr []
      | Link_node (Some target) \<Rightarrow> collect_scenario_toml_node h root target
      | Dir_node True entries \<Rightarrow>
          if host_exists (sh_host h) (path_push root ''scenario.toml'') then Inr [\<lparr>sq_root = root, sq_manifest_kind = ScenarioToml\<rparr>]
          else collect_scenario_toml_entries h root (sort_key fst entries)
      | _ \<Rightarrow> Inl \<lparr>be_path = root, be_message = sh_read_dir_error h root\<rparr>)"
| "collect_scenario_toml_entries h root [] = Inr []"
| "collect_scenario_toml_entries h root ((name, node) # rest) =
     and_then (if node_is_dir node then collect_scenario_toml_node h (entry_path root name) node else Inr []) (\<lambda>found.
       map_ok (\<lambda>more. found @ more) (collect_scenario_toml_entries h root rest))"
  by pat_completeness auto
termination
  by (relation "measure (\<lambda>x. case x of Inl (_, _, node) \<Rightarrow> size node | Inr (_, _, es) \<Rightarrow> size_list (size_prod (\<lambda>_. 0) size) es)") auto

declare collect_scenario_toml_node.simps [simp del]

definition collect_scenario_toml_requirements :: "scenario_host \<Rightarrow> path \<Rightarrow> benchmark_error + scenario_requirement list" where
  "collect_scenario_toml_requirements h root =
     (case host_fs (sh_host h) root of None \<Rightarrow> Inr [] | Some node \<Rightarrow> collect_scenario_toml_node h root node)"

definition collect_ast_patch_scenario_requirements :: "scenario_host \<Rightarrow> path \<Rightarrow> benchmark_error + scenario_requirement list" where
  "collect_ast_patch_scenario_requirements h root =
     (if \<not> host_exists (sh_host h) root then Inr []
      else case read_dir (host_fs (sh_host h)) root of
        None \<Rightarrow> Inl \<lparr>be_path = root, be_message = sh_read_dir_error h root\<rparr>
      | Some entries \<Rightarrow> Inr (List.map_filter (\<lambda>(name, node).
            if node_is_dir node \<and> host_exists (sh_host h) (path_push (entry_path root name) ''scenario.json'')
            then Some \<lparr>sq_root = entry_path root name, sq_manifest_kind = AstPatchScenarioJson\<rparr> else None)
          (sort_key fst entries)))"

definition discover_required_rust_scenario_benchmarks :: "scenario_host \<Rightarrow> path \<Rightarrow> benchmark_error + scenario_requirement list" where
  "discover_required_rust_scenario_benchmarks h crate_root =
     and_then (collect_scenario_toml_requirements h (path_push (path_push (path_push crate_root ''tests'') ''unit'') ''scenarios'')) (\<lambda>tomls.
       map_ok (\<lambda>patches. sort_key sq_root (tomls @ patches))
         (collect_ast_patch_scenario_requirements h (path_push (path_push (path_push crate_root ''tests'') ''fixtures'') ''ast_patch_scenarios'')))"

section \<open>Checks of single fields\<close>

definition contract_violation :: "string \<Rightarrow> string \<Rightarrow> benchmark_violation" where
  "contract_violation field1 message1 = \<lparr>bv_kind = ContractViolation, bv_field = field1, bv_message = message1\<rparr>"

definition require_non_empty :: "string \<Rightarrow> string \<Rightarrow> benchmark_violation list" where
  "require_non_empty field1 v = (if trim v = [] then [contract_violation field1 ''field must not be empty''] else [])"

definition require_non_empty_list :: "string \<Rightarrow> string list \<Rightarrow> benchmark_violation list" where
  "require_non_empty_list field1 vs =
     (if vs = [] \<or> list_ex (\<lambda>v. trim v = []) vs then [contract_violation field1 ''list must contain at least one non-empty value''] else [])"

definition require_positive :: "string \<Rightarrow> bool \<Rightarrow> benchmark_violation list" where
  "require_positive field1 is_zero = (if is_zero then [contract_violation field1 ''field must be greater than zero''] else [])"

definition is_upper_token :: "string \<Rightarrow> bool" where
  "is_upper_token v = (case v of [] \<Rightarrow> False | c # cs \<Rightarrow>
     CHR ''A'' \<le> c \<and> c \<le> CHR ''Z'' \<and> list_all (\<lambda>c. (CHR ''A'' \<le> c \<and> c \<le> CHR ''Z'') \<or> is_digit c) cs)"

definition is_ascii_digits :: "string \<Rightarrow> bool" where
  "is_ascii_digits v \<longleftrightarrow> v \<noteq> [] \<and> list_all is_digit v"

definition is_agent_policy_id :: "string \<Rightarrow> bool" where
  "is_agent_policy_id v =
     (let parts = split_on CHR ''-'' v; before = takeWhile (\<lambda>part. part \<noteq> ''AGENT'') parts; agent_index = length before in
      if length parts < 4 then False
      else if agent_index = length parts then False
      else if agent_index = 0 \<or> length parts \<le> agent_index + 2 then False
      else list_all is_upper_token (take agent_index parts) \<and>
        list_all is_upper_token (drop (agent_index + 1) (take (length parts - 1) parts)) \<and>
        3 \<le> length (last parts) \<and> is_ascii_digits (last parts))"

definition is_scenario_policy_id :: "string \<Rightarrow> bool" where
  "is_scenario_policy_id v = is_agent_policy_id v"

definition require_policy_ids :: "string \<Rightarrow> string list \<Rightarrow> benchmark_violation list" where
  "require_policy_ids field1 policy_ids =
     (if policy_ids = [] then [contract_violation field1 ''at least one policy id is required'']
      else List.map_filter (\<lambda>(index, policy_id).
          if \<not> is_scenario_policy_id policy_id
          then Some (contract_violation (field1 @ ''['' @ show_nat index @ '']'') ''policy id must match RUST-AGENT-<TAGS>-<NUMBER>'')
          else None) (enumerate 0 policy_ids))"

definition require_supported_harness :: "string \<Rightarrow> benchmark_violation list" where
  "require_supported_harness harness =
     (if trim harness = [] then []
      else if trim harness \<notin> {''libtest'', ''criterion'', ''divan'', ''iai-callgrind''}
      then [contract_violation ''benchmark.harness'' ''harness must be one of libtest, criterion, divan, or iai-callgrind'']
      else [])"

definition non_empty_opt :: "string option \<Rightarrow> string option" where
  "non_empty_opt v = (case map_option trim v of None \<Rightarrow> None | Some t \<Rightarrow> if t = [] then None else Some t)"

definition bench_entry :: "benchmark_contract \<Rightarrow> string" where
  "bench_entry b =
     (let labelled = (\<lambda>label v. case non_empty_opt v of None \<Rightarrow> [] | Some t \<Rightarrow> [label @ t]) in
      join_with '' '' ([''harness='' @ trim (bc_harness b)] @ labelled ''test='' (bc_test b) @ labelled ''bench='' (bc_bench b) @
        labelled ''case='' (bc_case b) @ labelled ''snapshot='' (bc_snapshot b)))"

definition require_benchmark_entry :: "benchmark_contract \<Rightarrow> benchmark_violation list" where
  "require_benchmark_entry b =
     (case (non_empty_opt (bc_test b), non_empty_opt (bc_bench b)) of
        (None, None) \<Rightarrow> [contract_violation ''benchmark.entry''
            ''set either test for libtest gates or bench plus case for benchmark harnesses'']
      | (Some _, Some _) \<Rightarrow> [contract_violation ''benchmark.entry'' ''set either test or bench, not both'']
      | (Some _, None) \<Rightarrow>
          (if trim (bc_harness b) \<noteq> ''libtest''
           then [contract_violation ''benchmark.test'' (''test entries must use harness = '' @ [CHR 0x22] @ ''libtest'' @ [CHR 0x22])] else []) @
          (if non_empty_opt (bc_case b) \<noteq> None
           then [contract_violation ''benchmark.case'' ''case is only valid with bench targets''] else [])
      | (None, Some _) \<Rightarrow>
          (if trim (bc_harness b) = ''libtest''
           then [contract_violation ''benchmark.bench'' ''bench entries must use criterion, divan, or iai-callgrind''] else []) @
          (if non_empty_opt (bc_case b) = None
           then [contract_violation ''benchmark.case'' ''bench entries must name a focused benchmark case, group, or function''] else []))"

text \<open>Only the tokens matter, and no white space byte occurs inside another character.\<close>

definition split_ascii_whitespace :: "string \<Rightarrow> string list" where
  "split_ascii_whitespace s = filter (\<lambda>token. token \<noteq> [])
     (split_on CHR '' '' (map (\<lambda>c. if c \<in> {CHR 0x09, CHR 0x0A, CHR 0x0C, CHR 0x0D} then CHR '' '' else c) s))"

definition targets_contract_gate :: "string \<Rightarrow> bool" where
  "targets_contract_gate token \<longleftrightarrow> token = ''assert_rule_fixture_scenario_benchmarks'' \<or>
     ends_with token ''_rule_fixtures_have_scenario_benchmarks''"

definition benchmark_entry_targets_contract_gate :: "benchmark_contract \<Rightarrow> bool" where
  "benchmark_entry_targets_contract_gate b =
     list_ex (\<lambda>v. list_ex targets_contract_gate (split_ascii_whitespace v))
       (List.map_filter id [bc_test b, bc_bench b, bc_case b, bc_snapshot b])"

definition default_benchmark_toml_template :: string where
  "default_benchmark_toml_template = join_with [CHR 0x0A]
     [''generator:'',
      ''use asp_rust_build_support::{asp_rust_scenario, measure_asp_rust_scenario, render_asp_rust_scenario_benchmark_toml};'',
      [],
      ''let scenario = asp_rust_scenario! {'',
      ''    # Declare identity, commands, budgets, warmup_iterations, measure_iterations, and typed metrics here.'',
      ''    # Do not declare observed_total or observed_timings.'',
      ''};'',
      ''let measurement = measure_asp_rust_scenario(&scenario, || run_real_scenario())?;'',
      ''let benchmark_toml = render_asp_rust_scenario_benchmark_toml(&scenario, &measurement)?;'',
      ''# Publish benchmark_toml as the measured receipt. A zero clock sample is remeasured, never replaced with 1ns/1us.'']"

section \<open>Checks of a contract\<close>

definition require_input_expected_comparison :: "benchmark_contract \<Rightarrow> benchmark_violation list" where
  "require_input_expected_comparison b =
     (case bc_input_expected_comparison b of
        None \<Rightarrow> []
      | Some c \<Rightarrow>
          require_positive ''benchmark.input_expected_comparison.input_total'' (ic_input_total c = 0) @
          require_positive ''benchmark.input_expected_comparison.expected_total'' (ic_expected_total c = 0) @
          require_positive ''benchmark.input_expected_comparison.input_memory_bytes'' (ic_input_memory_bytes c = 0) @
          require_positive ''benchmark.input_expected_comparison.expected_memory_bytes'' (ic_expected_memory_bytes c = 0) @
          require_non_empty ''benchmark.input_expected_comparison.interpretation'' (ic_interpretation c) @
          (if ic_input_total c \<le> ic_expected_total c \<or> ic_input_memory_bytes c \<le> ic_expected_memory_bytes c
           then require_non_empty ''benchmark.input_expected_comparison.expected_not_faster_annotation''
             (case ic_expected_not_faster_annotation c of Some a \<Rightarrow> a | None \<Rightarrow> [])
           else []))"

definition timing_violations :: "benchmark_contract \<Rightarrow> string \<Rightarrow> nat \<Rightarrow> benchmark_violation list" where
  "timing_violations b name timing =
     (if ends_with name ''_count''
      then [contract_violation (''benchmark.observed_timings.'' @ name) ''counts are typed metrics, not durations''] else []) @
     (if timing = 0
      then [contract_violation (''benchmark.observed_timings.'' @ name)
        ''measured phase resolved to zero; increase the sample workload and remeasure''] else []) @
     (case bmap_get (bc_phase_distributions b) name of
        None \<Rightarrow> []
      | Some d \<Rightarrow>
          (if pd_p95 d < pd_p50 d \<or> pd_p99 d < pd_p95 d \<or> pd_max d < pd_p99 d
           then [contract_violation (''benchmark.phase_distributions.'' @ name)
             ''measured phase distribution must satisfy p50 <= p95 <= p99 <= max''] else []) @
          (if timing \<noteq> pd_p95 d
           then [contract_violation (''benchmark.observed_timings.'' @ name)
             ''observed phase timing must equal its runner-generated p95 measurement''] else []))"

definition measurement_violations :: "benchmark_contract \<Rightarrow> benchmark_measurement \<Rightarrow> benchmark_violation list" where
  "measurement_violations b m =
     (if me_clock m \<noteq> ''std::time::Instant''
      then [contract_violation ''benchmark.measurement.clock'' ''generated Scenario observations must use std::time::Instant''] else []) @
     (if me_statistic m \<noteq> ''p95''
      then [contract_violation ''benchmark.measurement.statistic'' ''observed_total must be the measured p95 sample''] else []) @
     (if me_measure_iterations m = 0
      then [contract_violation ''benchmark.measurement.measure_iterations'' ''measurement must contain at least one real sample''] else []) @
     (if me_total_p95 m < me_total_p50 m \<or> me_total_p99 m < me_total_p95 m \<or> me_total_max m < me_total_p99 m
      then [contract_violation ''benchmark.measurement'' ''measured distribution must satisfy p50 <= p95 <= p99 <= max''] else []) @
     (if bc_observed_total b \<noteq> me_total_p95 m
      then [contract_violation ''benchmark.observed_total'' ''observed_total must equal the runner-generated p95 measurement''] else []) @
     (if me_total_p95 m = 0
      then [contract_violation ''benchmark.measurement.total_p95''
        ''measured p95 is zero; clock resolution or sample workload is insufficient, rerun the Scenario instead of inventing a duration''] else []) @
     concat (map (\<lambda>(name, timing). timing_violations b name timing) (bc_observed_timings b)) @
     concat (map (\<lambda>(name, _).
       if bmap_get (bc_observed_timings b) name = None
       then [contract_violation (''benchmark.phase_distributions.'' @ name)
         ''phase distribution must have a corresponding observed timing''] else []) (bc_phase_distributions b)) @
     (if bc_phase_distributions b \<noteq> [] \<and> length (bc_phase_distributions b) \<noteq> length (bc_observed_timings b)
      then [contract_violation ''benchmark.phase_distributions''
        ''runner-generated phase distributions must cover every observed timing''] else [])"

definition require_measurement_provenance :: "benchmark_contract \<Rightarrow> benchmark_violation list" where
  "require_measurement_provenance b =
     (if bc_metrics b = [] \<and> bc_measurement b = None then []
      else case bc_measurement b of
        None \<Rightarrow> [contract_violation ''benchmark.measurement'' ''generated metrics require monotonic-clock measurement provenance'']
      | Some m \<Rightarrow> measurement_violations b m)"

text \<open>\<open>Inl\<close> is the violation after which the loop continues, \<open>Inr\<close> whether the metric passes.\<close>

definition metric_passes :: "string \<Rightarrow> benchmark_metric \<Rightarrow> benchmark_violation + bool" where
  "metric_passes field1 m =
     (case (bm_kind m, bm_target m) of
        (StableMetric, None) \<Rightarrow> Inr True
      | (ExactMetric, Some target) \<Rightarrow> Inr (bm_observed m = target)
      | (MaximumMetric, Some target) \<Rightarrow> Inr (bm_observed m \<le> target)
      | (MinimumMetric, Some target) \<Rightarrow> Inr (target \<le> bm_observed m)
      | (StableMetric, Some _) \<Rightarrow> Inl (contract_violation (field1 @ ''.target'')
          ''stable observations must not duplicate a fixture value as a target'')
      | (_, None) \<Rightarrow> Inl (contract_violation (field1 @ ''.target'')
          ''exact, maximum, and minimum metrics require a declared target''))"

text \<open>The message of a failed metric expects a target.\<close>

definition metric_violations :: "string \<Rightarrow> benchmark_metric \<Rightarrow> benchmark_violation list option" where
  "metric_violations name m =
     (let field1 = ''benchmark.metrics.'' @ name;
          named = require_non_empty (field1 @ ''.name'') name @ require_non_empty (field1 @ ''.unit'') (bm_unit m)
      in case metric_passes field1 m of
           Inl v \<Rightarrow> Some (named @ [v])
         | Inr True \<Rightarrow> Some named
         | Inr False \<Rightarrow> map_option (\<lambda>target. named @
             [\<lparr>bv_kind = PerformanceViolation, bv_field = field1,
               bv_message = ''observed '' @ show_nat (bm_observed m) @ '' does not satisfy '' @ metric_kind_debug (bm_kind m) @
                 '' target '' @ show_nat target @ '' '' @ bm_unit m\<rparr>]) (bm_target m))"

definition require_custom_metrics :: "benchmark_contract \<Rightarrow> benchmark_violation list option" where
  "require_custom_metrics b = map_option concat (those (map (\<lambda>(name, m). metric_violations name m) (bc_metrics b)))"

definition hard_max_total :: nat where
  "hard_max_total = 500 * 1000000"

definition metadata_violations :: "scenario_metadata \<Rightarrow> benchmark_violation list" where
  "metadata_violations s =
     require_non_empty ''scenario.id'' (sm_id s) @
     require_non_empty ''scenario.title'' (sm_title s) @
     require_non_empty ''scenario.agent_goal'' (sm_agent_goal s) @
     require_non_empty ''scenario.inputs'' (sm_inputs s) @
     require_non_empty ''scenario.expected'' (sm_expected s) @
     require_non_empty_list ''scenario.reference_repositories'' (sm_reference_repositories s) @
     require_non_empty_list ''scenario.reference_patterns'' (sm_reference_patterns s) @
     require_policy_ids ''scenario.policy_ids'' (sm_policy_ids s)"

definition entry_violations :: "benchmark_contract \<Rightarrow> benchmark_violation list" where
  "entry_violations b =
     require_non_empty ''benchmark.harness'' (bc_harness b) @
     require_supported_harness (bc_harness b) @
     require_benchmark_entry b @
     (if benchmark_entry_targets_contract_gate b
      then [contract_violation ''benchmark.entry''
        ''benchmark entry must name a focused Rust test or bench case, not the scenario benchmark contract gate''] else []) @
     require_non_empty ''benchmark.target_rationale'' (bc_target_rationale b) @
     require_input_expected_comparison b"

definition budget_violations :: "benchmark_contract \<Rightarrow> benchmark_violation list" where
  "budget_violations b =
     require_positive ''benchmark.target_total'' (bc_target_total b = 0) @
     require_positive ''benchmark.max_total'' (bc_max_total b = 0) @
     require_positive ''benchmark.regression_budget'' (bc_regression_budget b = 0) @
     require_positive ''benchmark.memory_budget_bytes'' (bc_memory_budget_bytes b = 0) @
     (if bc_observed_timings b = []
      then [contract_violation ''benchmark.observed_timings'' ''at least one timing phase is required''] else []) @
     require_measurement_provenance b @
     (if bc_max_total b < bc_target_total b
      then [contract_violation ''benchmark.target_total'' ''target_total must be less than or equal to max_total''] else []) @
     (if hard_max_total < bc_max_total b
      then [contract_violation ''benchmark.max_total'' (''max_total must be <= '' @ show_duration hard_max_total @ '' for the hard gate'')]
      else []) @
     (if bc_max_total b < bc_observed_total b
      then [\<lparr>bv_kind = PerformanceViolation, bv_field = ''benchmark.observed_total'',
        bv_message = ''observed '' @ show_duration (bc_observed_total b) @ '' exceeds max '' @ show_duration (bc_max_total b)\<rparr>] else []) @
     (if bc_memory_budget_bytes b < bc_observed_memory_bytes b
      then [\<lparr>bv_kind = MemoryViolation, bv_field = ''benchmark.observed_memory_bytes'',
        bv_message = ''observed '' @ show_nat (bc_observed_memory_bytes b) @ '' bytes exceeds budget '' @
          show_nat (bc_memory_budget_bytes b) @ '' bytes''\<rparr>] else [])"

definition scenario_benchmark_violations :: "scenario_metadata \<Rightarrow> benchmark_contract \<Rightarrow> benchmark_violation list option" where
  "scenario_benchmark_violations s b =
     map_option (\<lambda>metrics1. metadata_violations s @ entry_violations b @ budget_violations b @ metrics1) (require_custom_metrics b)"

definition scenario_benchmark_status :: "benchmark_violation list \<Rightarrow> benchmark_status" where
  "scenario_benchmark_status vs =
     (if list_ex (\<lambda>v. bv_kind v = ContractViolation) vs then BenchmarkInvalid
      else if vs = [] then BenchmarkPass else BenchmarkFail)"

definition scenario_benchmark_suite_status :: "benchmark_receipt list \<Rightarrow> benchmark_violation list \<Rightarrow> benchmark_status" where
  "scenario_benchmark_suite_status found vs =
     (if vs \<noteq> [] \<or> list_ex (\<lambda>r. br_status r = BenchmarkInvalid) found then BenchmarkInvalid
      else if list_ex (\<lambda>r. br_status r = BenchmarkFail) found then BenchmarkFail
      else BenchmarkPass)"

section \<open>Receipts\<close>

text \<open>\<open>read_toml\<close> and \<open>read_json\<close> differ in the decoder.\<close>

definition read_decoded :: "scenario_host \<Rightarrow> (string \<Rightarrow> 'a result) \<Rightarrow> path \<Rightarrow> benchmark_error + 'a" where
  "read_decoded h decode p =
     (case host_read_to_string (sh_host h) p of
        Inl e \<Rightarrow> Inl \<lparr>be_path = p, be_message = e\<rparr>
      | Inr content \<Rightarrow> (case decode content of Inl e \<Rightarrow> Inl \<lparr>be_path = p, be_message = e\<rparr> | Inr v \<Rightarrow> Inr v))"

text \<open>\<open>None\<close> is a panic.\<close>

type_synonym 'a checked = "(benchmark_error + 'a) option"

definition validate_rust_scenario_benchmark :: "scenario_host \<Rightarrow> path \<Rightarrow> benchmark_receipt checked" where
  "validate_rust_scenario_benchmark h root =
     (case read_decoded h (sh_decode_scenario h) (path_push root ''scenario.toml'') of
        Inl e \<Rightarrow> Some (Inl e)
      | Inr s \<Rightarrow> (case read_decoded h (sh_decode_benchmark h) (path_push root ''benchmark.toml'') of
          Inl e \<Rightarrow> Some (Inl e)
        | Inr b \<Rightarrow> map_option (\<lambda>vs. Inr \<lparr>br_root = root, br_scenario = s, br_benchmark = b,
              br_status = scenario_benchmark_status vs, br_violations = vs\<rparr>) (scenario_benchmark_violations s b)))"

definition ast_patch_scenario_title :: "path \<Rightarrow> string" where
  "ast_patch_scenario_title root =
     ''AST patch scenario '' @ (case path_file_name root of Some name \<Rightarrow> name | None \<Rightarrow> ''ast_patch_scenario'')"

definition ast_patch_metadata :: "path \<Rightarrow> ast_patch_manifest \<Rightarrow> scenario_metadata" where
  "ast_patch_metadata root manifest =
     \<lparr>sm_id = (case path_file_name root of Some name \<Rightarrow> name | None \<Rightarrow> ''ast-patch-scenario''),
      sm_title = ast_patch_scenario_title root,
      sm_policy_ids = [''RUST-AGENT-AST-PATCH-SCENARIO-001''],
      sm_agent_goal = ''Keep AST patch '' @ ap_mode manifest @ '' scenario bounded for '' @ ap_expected_status manifest @ ''/'' @
        ap_expected_capability manifest @ ''.'',
      sm_reference_repositories = [''rust-lang/rust''],
      sm_reference_patterns = [''AST edits are validated through explicit operation receipts before mutation''],
      sm_inputs = ''input'', sm_expected = ''expected''\<rparr>"

definition ast_patch_violations :: "ast_patch_manifest \<Rightarrow> benchmark_violation list" where
  "ast_patch_violations manifest =
     require_non_empty ''scenario.mode'' (ap_mode manifest) @
     require_non_empty ''scenario.expected_status'' (ap_expected_status manifest) @
     require_non_empty ''scenario.expected_capability'' (ap_expected_capability manifest) @
     (if (case ap_expected_operation manifest of Some operation \<Rightarrow> operation | None \<Rightarrow> []) = [] \<and> ap_expected_status manifest = ''applied''
      then [contract_violation ''scenario.expected_operation'' ''applied AST patch scenarios must name the expected operation'']
      else [])"

definition validate_ast_patch_scenario_benchmark :: "scenario_host \<Rightarrow> path \<Rightarrow> benchmark_receipt checked" where
  "validate_ast_patch_scenario_benchmark h root =
     (case read_decoded h (sh_decode_ast_patch h) (path_push root ''scenario.json'') of
        Inl e \<Rightarrow> Some (Inl e)
      | Inr manifest \<Rightarrow> (case read_decoded h (sh_decode_benchmark h) (path_push root ''benchmark.toml'') of
          Inl e \<Rightarrow> Some (Inl e)
        | Inr b \<Rightarrow> map_option (\<lambda>checked. let vs = checked @ ast_patch_violations manifest in
              Inr \<lparr>br_root = root, br_scenario = ast_patch_metadata root manifest, br_benchmark = b,
                br_status = scenario_benchmark_status vs, br_violations = vs\<rparr>)
            (scenario_benchmark_violations (ast_patch_metadata root manifest) b)))"

definition validate_rust_scenario_benchmark_requirement :: "scenario_host \<Rightarrow> scenario_requirement \<Rightarrow> benchmark_receipt checked" where
  "validate_rust_scenario_benchmark_requirement h requirement =
     (case sq_manifest_kind requirement of
        ScenarioToml \<Rightarrow> validate_rust_scenario_benchmark h (sq_root requirement)
      | AstPatchScenarioJson \<Rightarrow> validate_ast_patch_scenario_benchmark h (sq_root requirement))"

section \<open>Coverage of the agent policies\<close>

record policy_scenario_requirement =
  pr_rule_id :: string
  pr_scenario_id :: string
  pr_policy_id :: string
  pr_scenario_root :: string

definition requirement_of :: "string \<Rightarrow> string \<Rightarrow> string \<Rightarrow> string \<Rightarrow> policy_scenario_requirement" where
  "requirement_of rule_id1 scenario_id policy_id scenario_root =
     \<lparr>pr_rule_id = rule_id1, pr_scenario_id = scenario_id, pr_policy_id = policy_id, pr_scenario_root = scenario_root\<rparr>"

definition rust_agent_policy_scenario_requirements :: "policy_scenario_requirement list" where
  "rust_agent_policy_scenario_requirements =
     [requirement_of ''RUST-AGENT-DOCS-MODULE-001'' ''control-flow-v1'' ''RUST-AGENT-CFG-001''
        ''tests/unit/scenarios/software_criteria/control_flow_v1'',
      requirement_of ''RUST-AGENT-DOCS-PUBLIC-002'' ''public-dynamic-json-api-boundary-v1'' ''RUST-AGENT-API-SHAPE-036''
        ''tests/unit/scenarios/software_criteria/public_dynamic_json_api_boundary_v1'',
      requirement_of ''RUST-AGENT-SOURCE-NAMESPACE-003'' ''control-flow-v1'' ''RUST-AGENT-CFG-001''
        ''tests/unit/scenarios/software_criteria/control_flow_v1'',
      requirement_of ''RUST-AGENT-API-NAME-004'' ''public-dynamic-json-api-boundary-v1'' ''RUST-AGENT-API-SHAPE-036''
        ''tests/unit/scenarios/software_criteria/public_dynamic_json_api_boundary_v1'',
      requirement_of ''RUST-AGENT-API-FACADE-005'' ''public-dynamic-json-api-boundary-v1'' ''RUST-AGENT-API-SHAPE-036''
        ''tests/unit/scenarios/software_criteria/public_dynamic_json_api_boundary_v1'',
      requirement_of ''RUST-AGENT-SOURCE-MODULE-006'' ''control-flow-v1'' ''RUST-AGENT-CFG-001''
        ''tests/unit/scenarios/software_criteria/control_flow_v1'',
      requirement_of ''RUST-AGENT-SOURCE-PATH-007'' ''control-flow-v1'' ''RUST-AGENT-CFG-001''
        ''tests/unit/scenarios/software_criteria/control_flow_v1'',
      requirement_of ''RUST-AGENT-DOCS-BRANCH-008'' ''control-flow-v1'' ''RUST-AGENT-CFG-001''
        ''tests/unit/scenarios/software_criteria/control_flow_v1'',
      requirement_of ''RUST-AGENT-OWNER-GRAPH-009'' ''control-flow-v1'' ''RUST-AGENT-CFG-001''
        ''tests/unit/scenarios/software_criteria/control_flow_v1'',
      requirement_of ''RUST-AGENT-OWNER-BOUNDARY-010'' ''control-flow-v1'' ''RUST-AGENT-CFG-001''
        ''tests/unit/scenarios/software_criteria/control_flow_v1'',
      requirement_of ''RUST-AGENT-DOCS-OWNER-FANOUT-011'' ''control-flow-v1'' ''RUST-AGENT-CFG-001''
        ''tests/unit/scenarios/software_criteria/control_flow_v1'',
      requirement_of ''RUST-AGENT-API-TYPE-012'' ''public-dynamic-json-api-boundary-v1'' ''RUST-AGENT-API-SHAPE-036''
        ''tests/unit/scenarios/software_criteria/public_dynamic_json_api_boundary_v1'',
      requirement_of ''RUST-AGENT-API-ERROR-013'' ''public-dynamic-json-api-boundary-v1'' ''RUST-AGENT-API-SHAPE-036''
        ''tests/unit/scenarios/software_criteria/public_dynamic_json_api_boundary_v1'',
      requirement_of ''RUST-AGENT-TEST-SUPPORT-014'' ''control-flow-v1'' ''RUST-AGENT-CFG-001''
        ''tests/unit/scenarios/software_criteria/control_flow_v1'',
      requirement_of ''RUST-AGENT-CFG-PUBLIC-015'' ''control-flow-v1'' ''RUST-AGENT-CFG-001''
        ''tests/unit/scenarios/software_criteria/control_flow_v1'',
      requirement_of ''RUST-AGENT-CFG-PUBLIC-016'' ''control-flow-v1'' ''RUST-AGENT-CFG-001''
        ''tests/unit/scenarios/software_criteria/control_flow_v1'',
      requirement_of ''RUST-AGENT-ITER-PUBLIC-017'' ''control-flow-v1'' ''RUST-AGENT-CFG-001''
        ''tests/unit/scenarios/software_criteria/control_flow_v1'',
      requirement_of ''RUST-AGENT-API-FLAGS-018'' ''public-dynamic-json-api-boundary-v1'' ''RUST-AGENT-API-SHAPE-036''
        ''tests/unit/scenarios/software_criteria/public_dynamic_json_api_boundary_v1'',
      requirement_of ''RUST-AGENT-API-PARAMETERS-019'' ''public-dynamic-json-api-boundary-v1'' ''RUST-AGENT-API-SHAPE-036''
        ''tests/unit/scenarios/software_criteria/public_dynamic_json_api_boundary_v1'',
      requirement_of ''RUST-AGENT-DATA-FIELD-020'' ''data-structure-linear-membership-scan-v1'' ''RUST-AGENT-DS-001''
        ''tests/unit/scenarios/software_criteria/data_structure_linear_membership_scan_v1'',
      requirement_of ''RUST-AGENT-DATA-ENUM-PAYLOAD-021'' ''data-structure-linear-membership-scan-v1'' ''RUST-AGENT-DS-001''
        ''tests/unit/scenarios/software_criteria/data_structure_linear_membership_scan_v1'',
      requirement_of ''RUST-AGENT-DATA-BOUNDS-022'' ''data-structure-linear-membership-scan-v1'' ''RUST-AGENT-DS-001''
        ''tests/unit/scenarios/software_criteria/data_structure_linear_membership_scan_v1'',
      requirement_of ''RUST-AGENT-API-SHAPE-023'' ''public-dynamic-json-api-boundary-v1'' ''RUST-AGENT-API-SHAPE-036''
        ''tests/unit/scenarios/software_criteria/public_dynamic_json_api_boundary_v1'',
      requirement_of ''RUST-AGENT-DATA-ENUM-TUPLE-024'' ''data-structure-linear-membership-scan-v1'' ''RUST-AGENT-DS-001''
        ''tests/unit/scenarios/software_criteria/data_structure_linear_membership_scan_v1'',
      requirement_of ''RUST-AGENT-CFG-IMPL-025'' ''control-flow-v1'' ''RUST-AGENT-CFG-001''
        ''tests/unit/scenarios/software_criteria/control_flow_v1'',
      requirement_of ''RUST-AGENT-ITER-IMPL-026'' ''control-flow-v1'' ''RUST-AGENT-CFG-001''
        ''tests/unit/scenarios/software_criteria/control_flow_v1'',
      requirement_of ''RUST-AGENT-API-TYPE-ALIAS-027'' ''public-dynamic-json-api-boundary-v1'' ''RUST-AGENT-API-SHAPE-036''
        ''tests/unit/scenarios/software_criteria/public_dynamic_json_api_boundary_v1'',
      requirement_of ''RUST-AGENT-DATA-STATE-028'' ''data-structure-linear-membership-scan-v1'' ''RUST-AGENT-DS-001''
        ''tests/unit/scenarios/software_criteria/data_structure_linear_membership_scan_v1'',
      requirement_of ''RUST-AGENT-DATA-MEMBERSHIP-029'' ''data-structure-linear-membership-scan-v1'' ''RUST-AGENT-DS-001''
        ''tests/unit/scenarios/software_criteria/data_structure_linear_membership_scan_v1'',
      requirement_of ''RUST-AGENT-ASYNC-BLOCKING-030'' ''async-blocking-boundary-v1'' ''RUST-AGENT-ASYNC-BLOCKING-001''
        ''tests/unit/scenarios/software_criteria/async_blocking_boundary_v1'',
      requirement_of ''RUST-AGENT-ASYNC-SYNC-LOCK-031'' ''async-sync-lock-boundary-v1'' ''RUST-AGENT-ASYNC-SYNC-LOCK-001''
        ''tests/unit/scenarios/software_criteria/async_sync_lock_boundary_v1'',
      requirement_of ''RUST-AGENT-ASYNC-BACKPRESSURE-032'' ''async-backpressure-boundary-v1'' ''RUST-AGENT-ASYNC-BACKPRESSURE-001''
        ''tests/unit/scenarios/software_criteria/async_backpressure_boundary_v1'',
      requirement_of ''RUST-AGENT-ASYNC-CANCEL-SAFETY-033'' ''async-select-cancellation-safety-v1'' ''RUST-AGENT-ASYNC-CANCEL-SAFETY-001''
        ''tests/unit/scenarios/software_criteria/async_select_cancellation_safety_v1'',
      requirement_of ''RUST-AGENT-ASYNC-CANCEL-SAFETY-034'' ''async-timeout-cancellation-safety-v1'' ''RUST-AGENT-ASYNC-CANCEL-SAFETY-002''
        ''tests/unit/scenarios/software_criteria/async_timeout_cancellation_safety_v1'',
      requirement_of ''RUST-AGENT-ASYNC-TASK-LIFECYCLE-001'' ''async-task-lifecycle-boundary-v1'' ''RUST-AGENT-ASYNC-TASK-LIFECYCLE-001''
        ''tests/unit/scenarios/software_criteria/async_task_lifecycle_boundary_v1'',
      requirement_of ''RUST-AGENT-API-SHAPE-036'' ''public-dynamic-json-api-boundary-v1'' ''RUST-AGENT-API-SHAPE-036''
        ''tests/unit/scenarios/software_criteria/public_dynamic_json_api_boundary_v1'',
      requirement_of ''RUST-AGENT-PROC-001'' ''process-command-probe-v1'' ''RUST-AGENT-PROC-001''
        ''tests/unit/scenarios/software_criteria/process_command_probe_v1'',
      requirement_of ''RUST-AGENT-TOKIO-RUNTIME-002'' ''tokio-runtime-boundary-v1'' ''RUST-AGENT-TOKIO-RUNTIME-002''
        ''tests/unit/scenarios/software_criteria/tokio_runtime_boundary_v1'',
      requirement_of ''RUST-AGENT-NATIVE-ABI-001'' ''native-abi-contract-surface-v1'' ''RUST-AGENT-NATIVE-ABI-001''
        ''tests/unit/scenarios/software_criteria/native_abi_contract_surface_v1'',
      requirement_of ''RUST-AGENT-PROJECT-MANIFEST-023'' ''rust-package-edition-2024-v1'' ''RUST-AGENT-PROJECT-MANIFEST-023''
        ''tests/unit/scenarios/software_criteria/rust_package_edition_2024_v1'']"

definition display_suite_path :: "path \<Rightarrow> path \<Rightarrow> string" where
  "display_suite_path root p =
     join_with ''/'' (map component_str (case strip_prefix p root of Some relative \<Rightarrow> relative | None \<Rightarrow> p))"

text \<open>What one requirement adds: a covered policy or a violation.\<close>

definition requirement_coverage ::
  "path \<Rightarrow> (path \<times> benchmark_receipt) list \<Rightarrow> (path \<times> string list) list \<Rightarrow> policy_scenario_requirement \<Rightarrow> benchmark_violation + policy_coverage" where
  "requirement_coverage crate_root receipt_by_root policy_ids_by_root requirement =
     (if \<not> is_agent_policy_id (pr_policy_id requirement)
      then Inl (contract_violation (''agent_policy_requirements.'' @ pr_rule_id requirement @ ''.policy_id'')
        (''policy id '' @ pr_policy_id requirement @ '' must match RUST-AGENT-<TAGS>-<NUMBER>''))
      else let scenario_root = path_push crate_root (pr_scenario_root requirement) in
        case bmap_get receipt_by_root scenario_root of
          None \<Rightarrow> Inl (contract_violation (display_suite_path crate_root scenario_root)
            (''agent policy '' @ pr_rule_id requirement @ '' requires scenario '' @ pr_scenario_id requirement @
             '' with policy '' @ pr_policy_id requirement))
        | Some receipt \<Rightarrow>
            let missing =
              (if sm_id (br_scenario receipt) \<noteq> pr_scenario_id requirement then [''scenario.id='' @ pr_scenario_id requirement] else []) @
              (if \<not> (case bmap_get policy_ids_by_root scenario_root of
                        Some policy_ids \<Rightarrow> pr_policy_id requirement \<in> set policy_ids | None \<Rightarrow> False)
               then [''policy_ids contains '' @ pr_policy_id requirement] else [])
            in if missing = []
               then Inr \<lparr>pc_rule_id = pr_rule_id requirement, pc_scenario_id = pr_scenario_id requirement,
                 pc_policy_id = pr_policy_id requirement, pc_root = scenario_root\<rparr>
               else Inl (contract_violation (display_suite_path crate_root scenario_root)
                 (''agent policy '' @ pr_rule_id requirement @ '' scenario coverage is incomplete: '' @ join_with '', '' missing)))"

definition validate_agent_policy_scenario_coverage ::
  "path \<Rightarrow> benchmark_receipt list \<Rightarrow> policy_coverage list \<times> benchmark_violation list" where
  "validate_agent_policy_scenario_coverage crate_root found =
     (let receipt_by_root = bmap_of_list (map (\<lambda>r. (br_root r, r)) found);
          policy_ids_by_root = bmap_of_list (map (\<lambda>r. (br_root r, bset_of_list (sm_policy_ids (br_scenario r)))) found);
          results = map (requirement_coverage crate_root receipt_by_root policy_ids_by_root) rust_agent_policy_scenario_requirements
      in (sort_key pc_rule_id (List.map_filter (\<lambda>r. case r of Inr c \<Rightarrow> Some c | Inl _ \<Rightarrow> None) results),
          List.map_filter (\<lambda>r. case r of Inl v \<Rightarrow> Some v | Inr _ \<Rightarrow> None) results))"

section \<open>The suite and the hard gate\<close>

fun validate_requirements ::
  "scenario_host \<Rightarrow> path \<Rightarrow> scenario_requirement list \<Rightarrow> (benchmark_receipt list \<times> benchmark_violation list) checked" where
  "validate_requirements h crate_root [] = Some (Inr ([], []))"
| "validate_requirements h crate_root (q # qs) =
     (if \<not> host_exists (sh_host h) (path_push (sq_root q) ''benchmark.toml'')
      then map_option (map_ok (\<lambda>(rs, vs). (rs,
          contract_violation (display_suite_path crate_root (path_push (sq_root q) ''benchmark.toml'')) ''required benchmark.toml is missing'' # vs)))
        (validate_requirements h crate_root qs)
      else case validate_rust_scenario_benchmark_requirement h q of
        None \<Rightarrow> None
      | Some (Inl e) \<Rightarrow> Some (Inl e)
      | Some (Inr r) \<Rightarrow> map_option (map_ok (\<lambda>(rs, vs). (r # rs, vs))) (validate_requirements h crate_root qs))"

definition suite_receipt ::
  "scenario_host \<Rightarrow> path \<Rightarrow> scenario_requirement list \<Rightarrow> benchmark_receipt list \<Rightarrow> benchmark_violation list \<Rightarrow> benchmark_suite_receipt" where
  "suite_receipt h crate_root requirements1 found vs =
     (let (coverage, uncovered) =
        (if host_is_file (sh_host h) (path_push crate_root ''src/rules/agent_policy/pack.rs'')
         then validate_agent_policy_scenario_coverage crate_root found else ([], []))
      in \<lparr>bs_root = crate_root, bs_requirements = requirements1, bs_receipts = found, bs_policy_coverage = coverage,
          bs_violations = vs @ uncovered, bs_status = scenario_benchmark_suite_status found (vs @ uncovered)\<rparr>)"

definition validate_required_rust_scenario_benchmarks :: "scenario_host \<Rightarrow> path \<Rightarrow> benchmark_suite_receipt checked" where
  "validate_required_rust_scenario_benchmarks h crate_root =
     (case discover_required_rust_scenario_benchmarks h crate_root of
        Inl e \<Rightarrow> Some (Inl e)
      | Inr requirements1 \<Rightarrow>
          map_option (map_ok (\<lambda>(found, vs). suite_receipt h crate_root requirements1 found vs))
            (validate_requirements h crate_root requirements1))"

definition scenario_benchmark_hard_gate_failure_message :: "benchmark_suite_receipt \<Rightarrow> string" where
  "scenario_benchmark_hard_gate_failure_message receipt = join_with [CHR 0x0A]
     ([''scenario benchmark hard gate failed'',
       ''preferred fix: add benchmark.toml next to the scenario fixture'',
       ''do not add advisory mode, fixture-local opt-out, or expires'',
       ''status: '' @ benchmark_status_as_str (bs_status receipt)] @
      concat (map (\<lambda>v. [''- '' @ violation_kind_as_str (bv_kind v) @ '':'' @ bv_field v @ '': '' @ bv_message v] @
        (if ends_with (bv_field v) ''benchmark.toml'' then [''create: '' @ bv_field v, default_benchmark_toml_template] else []))
        (bs_violations receipt)) @
      concat (map (\<lambda>r. map (\<lambda>v. ''- '' @ violation_kind_as_str (bv_kind v) @ '':'' @ display_suite_path (bs_root receipt) (br_root r) @
        '':'' @ bv_field v @ '': '' @ bv_message v) (br_violations r)) (bs_receipts receipt)))"

text \<open>\<open>Inl\<close> is a panic with its message.\<close>

definition assert_rule_fixture_scenario_benchmarks :: "scenario_host \<Rightarrow> path \<Rightarrow> string + unit" where
  "assert_rule_fixture_scenario_benchmarks h crate_root =
     (case validate_required_rust_scenario_benchmarks h crate_root of
        None \<Rightarrow> Inl ''validated constrained metric target''
      | Some (Inl e) \<Rightarrow> Inl (''scenario benchmark hard gate could not read '' @ display crate_root @ '': '' @ benchmark_error_text e)
      | Some (Inr receipt) \<Rightarrow>
          if bs_status receipt \<noteq> BenchmarkPass then Inl (scenario_benchmark_hard_gate_failure_message receipt) else Inr ())"

section \<open>What a passing contract guarantees\<close>

text \<open>The conditions, written without the checks.\<close>

definition metadata_complete :: "scenario_metadata \<Rightarrow> bool" where
  "metadata_complete s \<longleftrightarrow>
     list_all (\<lambda>v. trim v \<noteq> []) [sm_id s, sm_title s, sm_agent_goal s, sm_inputs s, sm_expected s] \<and>
     sm_reference_repositories s \<noteq> [] \<and> list_all (\<lambda>v. trim v \<noteq> []) (sm_reference_repositories s) \<and>
     sm_reference_patterns s \<noteq> [] \<and> list_all (\<lambda>v. trim v \<noteq> []) (sm_reference_patterns s) \<and>
     sm_policy_ids s \<noteq> [] \<and> list_all is_agent_policy_id (sm_policy_ids s)"

definition entry_focused :: "benchmark_contract \<Rightarrow> bool" where
  "entry_focused b \<longleftrightarrow>
     trim (bc_harness b) \<in> {''libtest'', ''criterion'', ''divan'', ''iai-callgrind''} \<and>
     (non_empty_opt (bc_test b) \<noteq> None \<longleftrightarrow> trim (bc_harness b) = ''libtest'') \<and>
     (non_empty_opt (bc_bench b) \<noteq> None \<longleftrightarrow> trim (bc_harness b) \<noteq> ''libtest'') \<and>
     (non_empty_opt (bc_case b) \<noteq> None \<longleftrightarrow> non_empty_opt (bc_bench b) \<noteq> None) \<and>
     \<not> benchmark_entry_targets_contract_gate b \<and> trim (bc_target_rationale b) \<noteq> []"

definition comparison_explained :: "benchmark_contract \<Rightarrow> bool" where
  "comparison_explained b = (case bc_input_expected_comparison b of
     None \<Rightarrow> True
   | Some c \<Rightarrow> 0 < ic_input_total c \<and> 0 < ic_expected_total c \<and> 0 < ic_input_memory_bytes c \<and> 0 < ic_expected_memory_bytes c \<and>
       trim (ic_interpretation c) \<noteq> [] \<and>
       (ic_expected_total c < ic_input_total c \<and> ic_expected_memory_bytes c < ic_input_memory_bytes c \<or>
        non_empty_opt (ic_expected_not_faster_annotation c) \<noteq> None))"

definition budgets_hold :: "benchmark_contract \<Rightarrow> bool" where
  "budgets_hold b \<longleftrightarrow> 0 < bc_target_total b \<and> bc_target_total b \<le> bc_max_total b \<and> bc_max_total b \<le> 500000000 \<and>
     bc_observed_total b \<le> bc_max_total b \<and> 0 < bc_regression_budget b \<and>
     0 < bc_memory_budget_bytes b \<and> bc_observed_memory_bytes b \<le> bc_memory_budget_bytes b \<and> bc_observed_timings b \<noteq> []"

definition timing_measured :: "benchmark_contract \<Rightarrow> string \<times> nat \<Rightarrow> bool" where
  "timing_measured b = (\<lambda>(name, timing). \<not> ends_with name ''_count'' \<and> 0 < timing \<and>
     (case map_of (bc_phase_distributions b) name of
        None \<Rightarrow> True
      | Some d \<Rightarrow> pd_p50 d \<le> pd_p95 d \<and> pd_p95 d \<le> pd_p99 d \<and> pd_p99 d \<le> pd_max d \<and> timing = pd_p95 d))"

definition measured :: "benchmark_contract \<Rightarrow> bool" where
  "measured b = (case bc_measurement b of
     None \<Rightarrow> bc_metrics b = []
   | Some m \<Rightarrow> me_clock m = ''std::time::Instant'' \<and> me_statistic m = ''p95'' \<and> 0 < me_measure_iterations m \<and>
       me_total_p50 m \<le> me_total_p95 m \<and> me_total_p95 m \<le> me_total_p99 m \<and> me_total_p99 m \<le> me_total_max m \<and>
       bc_observed_total b = me_total_p95 m \<and> 0 < me_total_p95 m \<and>
       list_all (timing_measured b) (bc_observed_timings b) \<and>
       fst ` set (bc_phase_distributions b) \<subseteq> fst ` set (bc_observed_timings b) \<and>
       (bc_phase_distributions b = [] \<or> length (bc_phase_distributions b) = length (bc_observed_timings b)))"

definition metric_holds :: "string \<times> benchmark_metric \<Rightarrow> bool" where
  "metric_holds = (\<lambda>(name, m). trim name \<noteq> [] \<and> trim (bm_unit m) \<noteq> [] \<and>
     (case bm_kind m of
        StableMetric \<Rightarrow> bm_target m = None
      | ExactMetric \<Rightarrow> bm_target m = Some (bm_observed m)
      | MaximumMetric \<Rightarrow> (case bm_target m of Some target \<Rightarrow> bm_observed m \<le> target | None \<Rightarrow> False)
      | MinimumMetric \<Rightarrow> (case bm_target m of Some target \<Rightarrow> target \<le> bm_observed m | None \<Rightarrow> False)))"

definition contract_holds :: "scenario_metadata \<Rightarrow> benchmark_contract \<Rightarrow> bool" where
  "contract_holds s b \<longleftrightarrow> metadata_complete s \<and> entry_focused b \<and> comparison_explained b \<and> budgets_hold b \<and> measured b \<and>
     list_all metric_holds (bc_metrics b)"

lemmas require_defs = require_non_empty_def require_non_empty_list_def require_positive_def

lemma map_filter_empty_iff: "List.map_filter f xs = [] \<longleftrightarrow> list_all (\<lambda>x. f x = None) xs"
  by (auto simp: List.map_filter_def filter_empty_conv list_all_iff)

lemma require_policy_ids_empty_iff: "require_policy_ids f ids = [] \<longleftrightarrow> ids \<noteq> [] \<and> list_all is_agent_policy_id ids"
proof -
  have "list_all (\<lambda>x. P (snd x)) (enumerate k ids) \<longleftrightarrow> list_all P ids" for P k
    by (induction ids arbitrary: k) simp_all
  from this [of is_agent_policy_id 0] show ?thesis
    by (simp add: require_policy_ids_def map_filter_empty_iff is_scenario_policy_id_def case_prod_beta if_distrib [of "\<lambda>x. x = None"] cong: if_cong)
qed

lemma metadata_violations_empty_iff: "metadata_violations s = [] \<longleftrightarrow> metadata_complete s"
  by (auto simp: metadata_violations_def metadata_complete_def require_defs require_policy_ids_empty_iff list_ex_iff list_all_iff)

lemma non_empty_opt_None_iff: "non_empty_opt v = None \<longleftrightarrow> trim (case v of Some a \<Rightarrow> a | None \<Rightarrow> []) = []"
proof -
  have "trim [] = []" by code_simp
  then show ?thesis by (simp add: non_empty_opt_def split: option.splits)
qed

lemma comparison_empty_iff: "require_input_expected_comparison b = [] \<longleftrightarrow> comparison_explained b"
  by (cases "bc_input_expected_comparison b")
    (auto simp: require_input_expected_comparison_def comparison_explained_def require_defs non_empty_opt_None_iff)

lemma entry_violations_empty_iff: "entry_violations b = [] \<longleftrightarrow> entry_focused b \<and> comparison_explained b"
proof -
  have "require_benchmark_entry b = [] \<longleftrightarrow>
      (non_empty_opt (bc_test b) \<noteq> None \<longleftrightarrow> trim (bc_harness b) = ''libtest'') \<and>
      (non_empty_opt (bc_bench b) \<noteq> None \<longleftrightarrow> trim (bc_harness b) \<noteq> ''libtest'') \<and>
      (non_empty_opt (bc_case b) \<noteq> None \<longleftrightarrow> non_empty_opt (bc_bench b) \<noteq> None)"
    by (cases "non_empty_opt (bc_test b)"; cases "non_empty_opt (bc_bench b)") (auto simp: require_benchmark_entry_def)
  moreover have "require_non_empty f (bc_harness b) @ require_supported_harness (bc_harness b) = [] \<longleftrightarrow>
      trim (bc_harness b) \<in> {''libtest'', ''criterion'', ''divan'', ''iai-callgrind''}" for f
    by (auto simp: require_defs require_supported_harness_def)
  ultimately show ?thesis
    by (auto simp: entry_violations_def entry_focused_def comparison_empty_iff require_defs)
qed

lemma timing_violations_empty_iff: "timing_violations b name timing = [] \<longleftrightarrow> timing_measured b (name, timing)"
  by (auto simp: timing_violations_def timing_measured_def not_less split: option.splits)

lemma measurement_violations_empty_iff:
  "bc_measurement b = Some m \<Longrightarrow> measurement_violations b m = [] \<longleftrightarrow> measured b"
proof -
  assume m: "bc_measurement b = Some m"
  have timings: "concat (map (\<lambda>(name, timing). timing_violations b name timing) ts) = [] \<longleftrightarrow> list_all (timing_measured b) ts" for ts
    by (induction ts) (auto simp: timing_violations_empty_iff)
  have dists: "concat (map (\<lambda>(name, _). if map_of ts name = None then [v name] else []) ds) = [] \<longleftrightarrow> fst ` set ds \<subseteq> fst ` set ts"
    for ts :: "(string \<times> nat) list" and ds :: "(string \<times> phase_distribution) list" and v :: "string \<Rightarrow> benchmark_violation"
    by (induction ds) (simp_all add: map_of_eq_None_iff case_prod_beta)
  show ?thesis
    unfolding measurement_violations_def append_is_Nil_conv timings dists measured_def m option.case
    by (simp add: not_less)
qed

lemma budget_violations_empty_iff: "budget_violations b = [] \<longleftrightarrow> budgets_hold b \<and> measured b"
proof -
  have "require_measurement_provenance b = [] \<longleftrightarrow> measured b"
    by (cases "bc_measurement b")
      (auto simp: require_measurement_provenance_def measurement_violations_empty_iff measured_def [of b] simp del: not_gr_zero)
  then show ?thesis
    unfolding budget_violations_def append_is_Nil_conv budgets_hold_def require_positive_def hard_max_total_def
    by (auto simp: not_less)
qed

lemma metric_violations_total: "\<exists>vs. metric_violations name m = Some vs \<and> (vs = [] \<longleftrightarrow> metric_holds (name, m))"
  by (cases "bm_kind m"; cases "bm_target m")
    (auto simp: metric_violations_def metric_passes_def metric_holds_def require_defs Let_def split: bool.splits)

lemma custom_metrics_total: "\<exists>vs. require_custom_metrics b = Some vs \<and> (vs = [] \<longleftrightarrow> list_all metric_holds (bc_metrics b))"
proof -
  have "\<exists>vss. those (map (\<lambda>(name, m). metric_violations name m) ms) = Some vss \<and> (concat vss = [] \<longleftrightarrow> list_all metric_holds ms)" for ms
  proof (induction ms)
    case (Cons a ms)
    obtain name m where a: "a = (name, m)" by (cases a)
    from metric_violations_total [of name m] Cons.IH show ?case by (auto simp: a)
  qed simp
  from this [of "bc_metrics b"] show ?thesis by (auto simp: require_custom_metrics_def)
qed

lemma violations_total: "\<exists>vs. scenario_benchmark_violations s b = Some vs \<and> (vs = [] \<longleftrightarrow> contract_holds s b)"
  using custom_metrics_total [of b]
  by (auto simp: scenario_benchmark_violations_def contract_holds_def metadata_violations_empty_iff entry_violations_empty_iff
      budget_violations_empty_iff)

lemma status_pass_iff: "scenario_benchmark_status vs = BenchmarkPass \<longleftrightarrow> vs = []"
  by (auto simp: scenario_benchmark_status_def)

text \<open>
  The check of a benchmark contract never panics on a metric without target, and a contract passes exactly when its metadata
  is complete, it names one focused entry of a supported harness, its budgets are positive, ordered and at most 500 milliseconds
  with observations within them, its measurements are consistent samples of a monotonic clock and each metric meets its target.
\<close>

lemma benchmark_contract_pass_exact:
  "case scenario_benchmark_violations s b of
     None \<Rightarrow> False
   | Some vs \<Rightarrow> scenario_benchmark_status vs = BenchmarkPass \<longleftrightarrow> contract_holds s b"
  using violations_total [of s b] by (auto simp: status_pass_iff)

section \<open>Policy ids\<close>

text \<open>The ids that the code accepts: any upper-case tokens may stand before \<open>AGENT\<close>.\<close>

lemma policy_id_grammar_wider: "is_agent_policy_id ''GO-AGENT-CFG-001'' \<and> \<not> starts_with ''GO-AGENT-CFG-001'' ''RUST-AGENT-''"
  by code_simp

lemma required_policy_ids: "list_all (\<lambda>q. is_agent_policy_id (pr_policy_id q)) rust_agent_policy_scenario_requirements"
  by code_simp

section \<open>The hard gate\<close>

text \<open>The receipt that counts for a root is the last one.\<close>

definition policies_covered :: "path \<Rightarrow> benchmark_receipt list \<Rightarrow> bool" where
  "policies_covered crate_root rs = list_all (\<lambda>q.
     case find (\<lambda>r. br_root r = path_push crate_root (pr_scenario_root q)) (rev rs) of
       None \<Rightarrow> False
     | Some r \<Rightarrow> sm_id (br_scenario r) = pr_scenario_id q \<and> pr_policy_id q \<in> set (sm_policy_ids (br_scenario r)))
     rust_agent_policy_scenario_requirements"

lemma map_of_find: "map_of (map (\<lambda>r. (k r, f r)) rs) x = map_option f (find (\<lambda>r. k r = x) rs)"
  by (induction rs) auto

lemma requirement_coverage_iff:
  assumes "is_agent_policy_id (pr_policy_id q)"
  shows "(\<exists>c. requirement_coverage crate_root (bmap_of_list (map (\<lambda>r. (br_root r, r)) rs))
      (bmap_of_list (map (\<lambda>r. (br_root r, bset_of_list (sm_policy_ids (br_scenario r)))) rs)) q = Inr c) \<longleftrightarrow>
    (case find (\<lambda>r. br_root r = path_push crate_root (pr_scenario_root q)) (rev rs) of
       None \<Rightarrow> False
     | Some r \<Rightarrow> sm_id (br_scenario r) = pr_scenario_id q \<and> pr_policy_id q \<in> set (sm_policy_ids (br_scenario r)))"
  using assms
  by (cases "find (\<lambda>r. br_root r = path_push crate_root (pr_scenario_root q)) (rev rs)")
    (auto simp: requirement_coverage_def bmap_get_of_list rev_map map_of_find Let_def)

lemma coverage_violations_empty_iff: "snd (validate_agent_policy_scenario_coverage crate_root rs) = [] \<longleftrightarrow> policies_covered crate_root rs"
proof -
  have "(case x of Inl v \<Rightarrow> Some v | Inr _ \<Rightarrow> None) = None \<longleftrightarrow> (\<exists>c. x = Inr c)" for x :: "benchmark_violation + policy_coverage"
    by (cases x) auto
  with required_policy_ids show ?thesis
    by (auto simp: validate_agent_policy_scenario_coverage_def policies_covered_def Let_def map_filter_empty_iff list_all_iff requirement_coverage_iff)
qed

lemma suite_pass_iff:
  "scenario_benchmark_suite_status rs vs = BenchmarkPass \<longleftrightarrow> vs = [] \<and> list_all (\<lambda>r. br_status r = BenchmarkPass) rs"
proof -
  have "st = BenchmarkPass \<longleftrightarrow> st \<noteq> BenchmarkInvalid \<and> st \<noteq> BenchmarkFail" for st by (cases st) simp_all
  then have "list_all (\<lambda>r. br_status r = BenchmarkPass) rs \<longleftrightarrow>
      \<not> list_ex (\<lambda>r. br_status r = BenchmarkInvalid) rs \<and> \<not> list_ex (\<lambda>r. br_status r = BenchmarkFail) rs"
    by (auto simp: list_ex_iff list_all_iff)
  then show ?thesis by (simp add: scenario_benchmark_suite_status_def)
qed

lemma suite_receipt_pass_iff:
  "bs_status (suite_receipt h crate_root qs rs vs) = BenchmarkPass \<longleftrightarrow>
     vs = [] \<and> list_all (\<lambda>r. br_status r = BenchmarkPass) rs \<and>
     (if host_is_file (sh_host h) (path_push crate_root ''src/rules/agent_policy/pack.rs'') then policies_covered crate_root rs else True)"
  using coverage_violations_empty_iff [of crate_root rs]
  by (auto simp: suite_receipt_def suite_pass_iff case_prod_beta)

lemma validate_requirements_clean_iff:
  "validate_requirements h crate_root qs = Some (Inr (rs, [])) \<longleftrightarrow>
     list_all (\<lambda>q. host_exists (sh_host h) (path_push (sq_root q) ''benchmark.toml'')) qs \<and>
     map (validate_rust_scenario_benchmark_requirement h) qs = map (Some \<circ> Inr) rs"
proof (induction qs arbitrary: rs)
  case (Cons q qs)
  show ?case
  proof (cases rs)
    case Nil
    then show ?thesis by (auto simp: map_ok_Inr_iff split: option.splits sum.splits)
  next
    case (Cons r rs')
    then show ?thesis using Cons.IH [of rs'] by (auto simp: map_ok_Inr_iff split: option.splits sum.splits)
  qed
qed auto

text \<open>
  C23: the hard gate of scenario benchmarks accepts a crate exactly when the search for fixtures succeeds, each fixture it discovers has a
  benchmark.toml whose validation passes, and, in a crate with the agent policy pack, every required policy is covered by the
  scenario of its root. The fixtures discovered are the outermost directories with a \<open>scenario.toml\<close> under \<open>tests/unit/scenarios\<close> and the
  directories directly below \<open>tests/fixtures/ast_patch_scenarios\<close> with a \<open>scenario.json\<close>: fewer than the documentation requires, as the two
  lemmas after the theorem show.
\<close>

theorem scenario_hard_gate_exact:
  "assert_rule_fixture_scenario_benchmarks h crate_root = Inr () \<longleftrightarrow>
     (\<exists>qs rs. discover_required_rust_scenario_benchmarks h crate_root = Inr qs \<and>
        list_all (\<lambda>q. host_exists (sh_host h) (path_push (sq_root q) ''benchmark.toml'')) qs \<and>
        map (validate_rust_scenario_benchmark_requirement h) qs = map (Some \<circ> Inr) rs \<and>
        list_all (\<lambda>r. br_status r = BenchmarkPass) rs \<and>
        (if host_is_file (sh_host h) (path_push crate_root ''src/rules/agent_policy/pack.rs'')
         then policies_covered crate_root rs else True))"
proof -
  have "assert_rule_fixture_scenario_benchmarks h crate_root = Inr () \<longleftrightarrow>
      (\<exists>receipt. validate_required_rust_scenario_benchmarks h crate_root = Some (Inr receipt) \<and> bs_status receipt = BenchmarkPass)"
    by (auto simp: assert_rule_fixture_scenario_benchmarks_def split: option.splits sum.splits if_splits)
  also have "\<dots> \<longleftrightarrow> (\<exists>qs rs vs. discover_required_rust_scenario_benchmarks h crate_root = Inr qs \<and>
      validate_requirements h crate_root qs = Some (Inr (rs, vs)) \<and> bs_status (suite_receipt h crate_root qs rs vs) = BenchmarkPass)"
    by (auto simp: validate_required_rust_scenario_benchmarks_def map_ok_Inr_iff split: sum.splits)
  also have "\<dots> \<longleftrightarrow> (\<exists>qs rs. discover_required_rust_scenario_benchmarks h crate_root = Inr qs \<and>
      validate_requirements h crate_root qs = Some (Inr (rs, [])) \<and> bs_status (suite_receipt h crate_root qs rs []) = BenchmarkPass)"
    unfolding suite_receipt_pass_iff by blast
  finally show ?thesis unfolding validate_requirements_clean_iff suite_receipt_pass_iff by blast
qed


text \<open>
  The documentation (\<open>docs/03_features/205\<close>) requires every directory with a \<open>scenario.toml\<close> below \<open>tests/unit/scenarios\<close>, and every directory
  with a \<open>scenario.json\<close> below \<open>tests/fixtures/ast_patch_scenarios\<close>, to carry a \<open>benchmark.toml\<close>. The search does not descend below a
  \<open>scenario.toml\<close>, and looks for \<open>scenario.json\<close> one level deep.
\<close>

definition nested_node :: "bool \<Rightarrow> string \<Rightarrow> fs_node" where
  "nested_node outer manifest = Dir_node True ([(''inner'', Dir_node True [(manifest, File_node)])] @ (if outer then [(manifest, File_node)] else []))"

definition nested_fs :: "path \<Rightarrow> bool \<Rightarrow> string \<Rightarrow> file_system" where
  "nested_fs root outer manifest = map_of
     ([(root, Dir_node True [(''outer'', nested_node outer manifest)]), (root @ [Normal ''outer''], nested_node outer manifest),
       (root @ [Normal ''outer'', Normal ''inner''], Dir_node True [(manifest, File_node)]),
       (root @ [Normal ''outer'', Normal ''inner'', Normal manifest], File_node)] @
      (if outer then [(root @ [Normal ''outer'', Normal manifest], File_node)] else []))"

definition nested_host :: "path \<Rightarrow> bool \<Rightarrow> string \<Rightarrow> scenario_host" where
  "nested_host root outer manifest =
     \<lparr>sh_host = \<lparr>host_fs = nested_fs root outer manifest, host_load = (\<lambda>_. Err []), host_canonicalize = Some, host_read_to_string = (\<lambda>_. Ok []),
        host_parse = (\<lambda>_ _. Inr native_syntax_facts_default)\<rparr>,
      sh_read_dir_error = (\<lambda>_. []), sh_decode_scenario = (\<lambda>_. Err []), sh_decode_benchmark = (\<lambda>_. Err []), sh_decode_ast_patch = (\<lambda>_. Err [])\<rparr>"

lemma nested_scenario_toml_not_required:
  "discover_required_rust_scenario_benchmarks
     (nested_host [RootDir, Normal ''c'', Normal ''tests'', Normal ''unit'', Normal ''scenarios''] True ''scenario.toml'') [RootDir, Normal ''c''] =
   Inr [\<lparr>sq_root = [RootDir, Normal ''c'', Normal ''tests'', Normal ''unit'', Normal ''scenarios'', Normal ''outer''], sq_manifest_kind = ScenarioToml\<rparr>]"
  by code_simp

text \<open>A patch scenario two levels deep, with no \<open>benchmark.toml\<close> anywhere: the hard gate accepts the crate.\<close>

lemma deep_patch_scenario_accepted:
  "assert_rule_fixture_scenario_benchmarks
     (nested_host [RootDir, Normal ''c'', Normal ''tests'', Normal ''fixtures'', Normal ''ast_patch_scenarios''] False ''scenario.json'')
     [RootDir, Normal ''c''] = Inr ()"
  by code_simp

end
