(* ===== verification/Scenario_Measurement.thy ===== *)
theory Scenario_Measurement
  imports Scenario_Benchmark
begin

text \<open>
  Measuring a scenario and publishing its benchmark contract (\<open>build-support/src/scenario.rs\<close>). The closure that runs the scenario
  and the clock are one argument: \<open>run i\<close> is the elapsed time, in nanoseconds, and the observation of the \<open>i\<close>-th call. A panic is
  \<open>None\<close>: an index out of range, the multiplication of \<open>usize\<close> values when the build checks overflow (the first argument; otherwise
  it wraps), and a vector whose capacity in bytes exceeds \<open>isize::MAX\<close>. Running out of memory and replacing the file on disk are not
  modelled.
\<close>

section \<open>Data\<close>

record scenario_command =
  co_label :: string
  co_argv :: "string list"

datatype scenario_metric_kind = SpecStable | SpecExact | SpecMaximum | SpecMinimum

primrec metric_kind_as_str :: "scenario_metric_kind \<Rightarrow> string" where
  "metric_kind_as_str SpecStable = ''stable''"
| "metric_kind_as_str SpecExact = ''exact''"
| "metric_kind_as_str SpecMaximum = ''maximum''"
| "metric_kind_as_str SpecMinimum = ''minimum''"

record scenario_metric_spec =
  mc_name :: string
  mc_unit :: string
  mc_kind :: scenario_metric_kind
  mc_target :: "nat option"

record scenario_observation =
  so_memory_bytes :: nat
  so_phase_timings :: "(string \<times> nat) list"
  so_metrics :: "(string \<times> nat) list"

definition with_memory_bytes :: "nat \<Rightarrow> scenario_observation \<Rightarrow> scenario_observation" where
  "with_memory_bytes n o1 = o1\<lparr>so_memory_bytes := n\<rparr>"

definition with_timing :: "string \<Rightarrow> nat \<Rightarrow> scenario_observation \<Rightarrow> scenario_observation" where
  "with_timing name d o1 = o1\<lparr>so_phase_timings := bmap_insert name d (so_phase_timings o1)\<rparr>"

definition with_metric :: "string \<Rightarrow> nat \<Rightarrow> scenario_observation \<Rightarrow> scenario_observation" where
  "with_metric name v o1 = o1\<lparr>so_metrics := bmap_insert name v (so_metrics o1)\<rparr>"

record scenario_benchmark_spec =
  sp_harness :: string
  sp_test :: string
  sp_snapshot :: string
  sp_target_total :: string
  sp_max_total :: string
  sp_regression_budget :: string
  sp_memory_budget_bytes :: nat
  sp_target_rationale :: string
  sp_warmup_iterations :: nat
  sp_measure_iterations :: nat
  sp_metrics :: "scenario_metric_spec list"

record asp_rust_scenario =
  as_name :: string
  as_package_name :: string
  as_description :: string
  as_fixture_root :: string
  as_tags :: "string list"
  as_commands :: "scenario_command list"
  as_benchmark :: "scenario_benchmark_spec option"

record scenario_package =
  sk_package_name :: string
  sk_scenarios :: "asp_rust_scenario list"

record scenario_measurement =
  sn_observed_total :: nat
  sn_total_p50 :: nat
  sn_total_p95 :: nat
  sn_total_p99 :: nat
  sn_total_max :: nat
  sn_observed_memory_bytes :: nat
  sn_observed_timings :: "(string \<times> nat) list"
  sn_timing_p50 :: "(string \<times> nat) list"
  sn_timing_p99 :: "(string \<times> nat) list"
  sn_timing_max :: "(string \<times> nat) list"
  sn_metrics :: "(string \<times> nat) list"
  sn_clock :: string
  sn_statistic :: string
  sn_warmup_iterations :: nat
  sn_measure_iterations :: nat

section \<open>Samples\<close>

text \<open>The product of two \<open>usize\<close> values, \<open>2 ^ 64\<close> written out.\<close>

definition usize_mul :: "bool \<Rightarrow> nat \<Rightarrow> nat \<Rightarrow> nat option" where
  "usize_mul overflow_checks a b =
     (let n = int a * int b in
      if n < 18446744073709551616 then Some (nat n)
      else if overflow_checks then None
      else Some (nat (n mod 18446744073709551616)))"

definition percentile :: "bool \<Rightarrow> nat list \<Rightarrow> nat \<Rightarrow> nat option" where
  "percentile overflow_checks samples p =
     Option.bind (usize_mul overflow_checks (length samples) p) (\<lambda>product. nth_opt (sort samples) ((product + 99) div 100 - 1))"

text \<open>The mutable variables of the measuring loop.\<close>

record measuring =
  mg_totals :: "nat list"
  mg_phase_samples :: "(string \<times> nat list) list"
  mg_phase_names :: "string list option"
  mg_metric_samples :: "(string \<times> nat list) list"
  mg_metric_names :: "string list option"
  mg_memory_bytes :: nat

definition measuring_start :: measuring where
  "measuring_start = \<lparr>mg_totals = [], mg_phase_samples = [], mg_phase_names = None, mg_metric_samples = [], mg_metric_names = None,
     mg_memory_bytes = 0\<rparr>"

definition same_names :: "string \<Rightarrow> string list option \<Rightarrow> string list \<Rightarrow> string list result" where
  "same_names message names current =
     (case names of None \<Rightarrow> Ok current | Some expected \<Rightarrow> if expected = current then Ok expected else Err message)"

definition record_sample :: "nat \<times> scenario_observation \<Rightarrow> measuring \<Rightarrow> measuring result" where
  "record_sample sample st =
     (let (elapsed, o1) = sample in
      and_then (same_names ''Scenario timing phases changed between samples'' (mg_phase_names st) (bmap_keys (so_phase_timings o1))) (\<lambda>phases.
      and_then (same_names ''Scenario custom metric names changed between samples'' (mg_metric_names st) (bmap_keys (so_metrics o1))) (\<lambda>names.
      Ok \<lparr>mg_totals = mg_totals st @ [elapsed],
          mg_phase_samples = fold (\<lambda>(name, d). group_push name d) (so_phase_timings o1) (mg_phase_samples st),
          mg_phase_names = Some phases,
          mg_metric_samples = fold (\<lambda>(name, v). group_push name v) (so_metrics o1) (mg_metric_samples st),
          mg_metric_names = Some names,
          mg_memory_bytes = max (mg_memory_bytes st) (so_memory_bytes o1)\<rparr>)))"

fun record_samples :: "(nat \<times> scenario_observation) list \<Rightarrow> measuring \<Rightarrow> measuring result" where
  "record_samples [] st = Ok st"
| "record_samples (sample # rest) st = and_then (record_sample sample st) (record_samples rest)"

section \<open>Metrics\<close>

definition observed_metric :: "scenario_metric_spec \<Rightarrow> nat list \<Rightarrow> nat result" where
  "observed_metric spec vs =
     (case vs of
        [] \<Rightarrow> Err (''Scenario metric '' @ mc_name spec @ '' has no samples'')
      | first # rest \<Rightarrow>
          (if mc_kind spec = SpecStable \<or> mc_kind spec = SpecExact
           then if list_ex (\<lambda>v. v \<noteq> first) vs
                then Err (''Scenario '' @ metric_kind_as_str (mc_kind spec) @ '' metric '' @ mc_name spec @ '' changed between samples'')
                else Ok first
           else if mc_kind spec = SpecMaximum then Ok (fold max rest first)
           else Ok (fold min rest first)))"

fun aggregate_metrics ::
  "scenario_metric_spec list \<Rightarrow> (string \<times> nat list) list \<Rightarrow> (string \<times> nat) list \<Rightarrow> ((string \<times> nat) list \<times> (string \<times> nat list) list) result" where
  "aggregate_metrics [] samples observations = Ok (observations, samples)"
| "aggregate_metrics (spec # specs) samples observations =
     and_then (ok_or (''Scenario metric '' @ mc_name spec @ '' is missing'') (bmap_get samples (mc_name spec))) (\<lambda>vs.
     and_then (observed_metric spec vs) (\<lambda>observed.
       aggregate_metrics specs (filter (\<lambda>e. fst e \<noteq> mc_name spec) samples) (bmap_insert (mc_name spec) observed observations)))"

definition aggregate_metric_observations :: "scenario_metric_spec list \<Rightarrow> (string \<times> nat list) list \<Rightarrow> (string \<times> nat) list result" where
  "aggregate_metric_observations specs samples =
     and_then (aggregate_metrics specs samples []) (\<lambda>(observations, rest).
       case rest of
         [] \<Rightarrow> Ok observations
       | (unregistered, _) # _ \<Rightarrow> Err (''Scenario metric '' @ unregistered @ '' has no benchmark specification''))"

definition metric_admitted :: "scenario_metric_spec \<Rightarrow> nat \<Rightarrow> bool result" where
  "metric_admitted spec observed =
     (case (mc_kind spec, mc_target spec) of
        (SpecStable, None) \<Rightarrow> Ok True
      | (SpecExact, Some target) \<Rightarrow> Ok (observed = target)
      | (SpecMaximum, Some target) \<Rightarrow> Ok (observed \<le> target)
      | (SpecMinimum, Some target) \<Rightarrow> Ok (target \<le> observed)
      | (SpecStable, Some _) \<Rightarrow> Err (''Scenario stable metric '' @ mc_name spec @ '' must not declare a target'')
      | (_, None) \<Rightarrow> Err (''Scenario constrained metric '' @ mc_name spec @ '' must declare a target''))"

fun validate_metric_observations :: "scenario_metric_spec list \<Rightarrow> (string \<times> nat) list \<Rightarrow> unit result option" where
  "validate_metric_observations [] observations = Some (Ok ())"
| "validate_metric_observations (spec # specs) observations =
     (case bmap_get observations (mc_name spec) of
        None \<Rightarrow> Some (Err (''Scenario metric '' @ mc_name spec @ '' is missing''))
      | Some observed \<Rightarrow> (case metric_admitted spec observed of
          Inl e \<Rightarrow> Some (Err e)
        | Inr True \<Rightarrow> validate_metric_observations specs observations
        | Inr False \<Rightarrow> map_option (\<lambda>target. Err (''Scenario metric '' @ mc_name spec @ '' observed '' @ show_nat observed @
            '' does not satisfy '' @ metric_kind_as_str (mc_kind spec) @ '' target '' @ show_nat target @ '' '' @ mc_unit spec))
            (mc_target spec)))"

section \<open>Measurements\<close>

text \<open>The loop over the phases fills maps with the keys of the samples, in their order.\<close>

definition phase_percentiles :: "bool \<Rightarrow> nat \<Rightarrow> (string \<times> nat list) list \<Rightarrow> (string \<times> nat) list option" where
  "phase_percentiles overflow_checks p phases =
     those (map (\<lambda>(name, samples). map_option (Pair name) (percentile overflow_checks samples p)) phases)"

definition measurement_of :: "bool \<Rightarrow> scenario_benchmark_spec \<Rightarrow> measuring \<Rightarrow> scenario_measurement result option" where
  "measurement_of overflow_checks spec st =
     (case (percentile overflow_checks (mg_totals st) 50, percentile overflow_checks (mg_totals st) 95,
            percentile overflow_checks (mg_totals st) 99, percentile overflow_checks (mg_totals st) 100) of
        (Some p50, Some p95, Some p99, Some p100) \<Rightarrow>
          if p95 = 0 then Some (Err ''Scenario measurement resolution is insufficient: p95 elapsed time is zero'')
          else (case (phase_percentiles overflow_checks 50 (mg_phase_samples st), phase_percentiles overflow_checks 95 (mg_phase_samples st),
                      phase_percentiles overflow_checks 99 (mg_phase_samples st), phase_percentiles overflow_checks 100 (mg_phase_samples st)) of
            (Some t50, Some t95, Some t99, Some t100) \<Rightarrow>
              (case aggregate_metric_observations (sp_metrics spec) (mg_metric_samples st) of
                 Inl e \<Rightarrow> Some (Err e)
               | Inr observed \<Rightarrow> map_option (map_ok (\<lambda>_.
                   \<lparr>sn_observed_total = p95, sn_total_p50 = p50, sn_total_p95 = p95, sn_total_p99 = p99, sn_total_max = p100,
                    sn_observed_memory_bytes = mg_memory_bytes st, sn_observed_timings = t95, sn_timing_p50 = t50, sn_timing_p99 = t99,
                    sn_timing_max = t100, sn_metrics = observed, sn_clock = ''std::time::Instant'', sn_statistic = ''p95'',
                    sn_warmup_iterations = sp_warmup_iterations spec, sn_measure_iterations = sp_measure_iterations spec\<rparr>))
                 (validate_metric_observations (sp_metrics spec) observed))
          | _ \<Rightarrow> None)
      | _ \<Rightarrow> None)"

definition measured_samples :: "scenario_benchmark_spec \<Rightarrow> (nat \<Rightarrow> nat \<times> scenario_observation) \<Rightarrow> (nat \<times> scenario_observation) list" where
  "measured_samples spec run =
     map run [sp_warmup_iterations spec ..< sp_warmup_iterations spec + sp_measure_iterations spec]"

text \<open>\<open>Vec::with_capacity\<close> panics when the elements, 16 bytes for a \<open>Duration\<close>, take more than \<open>isize::MAX\<close> bytes.\<close>

definition durations_capacity_fits :: "nat \<Rightarrow> bool" where
  "durations_capacity_fits n \<longleftrightarrow> 16 * int n \<le> 9223372036854775807"

definition measure_asp_rust_scenario ::
  "bool \<Rightarrow> asp_rust_scenario \<Rightarrow> (nat \<Rightarrow> nat \<times> scenario_observation) \<Rightarrow> scenario_measurement result option" where
  "measure_asp_rust_scenario overflow_checks scenario run =
     (case as_benchmark scenario of
        None \<Rightarrow> Some (Err (''Scenario '' @ as_name scenario @ '' has no benchmark contract''))
      | Some spec \<Rightarrow>
          if sp_measure_iterations spec = 0 then Some (Err ''Scenario measure_iterations must be nonzero'')
          else if \<not> durations_capacity_fits (sp_measure_iterations spec) then None
          else (case record_samples (measured_samples spec run) measuring_start of
            Inl e \<Rightarrow> Some (Err e)
          | Inr st \<Rightarrow> measurement_of overflow_checks spec st))"

section \<open>The published contract\<close>

definition format_duration :: "nat \<Rightarrow> string" where
  "format_duration nanos =
     (if 1000000 \<le> nanos \<and> nanos mod 1000000 = 0 then show_nat (nanos div 1000000) @ ''ms''
      else if 1000 \<le> nanos \<and> nanos mod 1000 = 0 then show_nat (nanos div 1000) @ ''us''
      else show_nat nanos @ ''ns'')"

definition escape_toml_char :: "char \<Rightarrow> string" where
  "escape_toml_char c =
     (if c = CHR 0x5C then [CHR 0x5C, CHR 0x5C] else if c = CHR 0x22 then [CHR 0x5C, CHR 0x22]
      else if c = CHR 0x0A then [CHR 0x5C, CHR ''n''] else if c = CHR 0x0D then [CHR 0x5C, CHR ''r'']
      else if c = CHR 0x09 then [CHR 0x5C, CHR ''t''] else [c])"

definition escape_toml_string :: "string \<Rightarrow> string" where
  "escape_toml_string v = concat (map escape_toml_char v)"

definition toml_string_line :: "string \<Rightarrow> string \<Rightarrow> string" where
  "toml_string_line key v = key @ '' = '' @ [CHR 0x22] @ escape_toml_string v @ [CHR 0x22, CHR 0x0A]"

definition toml_number_line :: "string \<Rightarrow> nat \<Rightarrow> string" where
  "toml_number_line key v = key @ '' = '' @ show_nat v @ [CHR 0x0A]"

definition render_phase :: "scenario_measurement \<Rightarrow> string \<Rightarrow> string option" where
  "render_phase m name =
     (case (bmap_get (sn_timing_p50 m) name, bmap_get (sn_observed_timings m) name, bmap_get (sn_timing_p99 m) name, bmap_get (sn_timing_max m) name) of
        (Some p50, Some p95, Some p99, Some p100) \<Rightarrow>
          Some ([CHR 0x0A] @ ''[phase_distributions.'' @ name @ '']'' @ [CHR 0x0A] @
            toml_string_line ''p50'' (format_duration p50) @ toml_string_line ''p95'' (format_duration p95) @
            toml_string_line ''p99'' (format_duration p99) @ toml_string_line ''max'' (format_duration p100))
      | _ \<Rightarrow> None)"

definition render_metric :: "scenario_measurement \<Rightarrow> scenario_metric_spec \<Rightarrow> string result" where
  "render_metric m spec =
     map_ok (\<lambda>observed. [CHR 0x0A] @ ''[metrics.'' @ mc_name spec @ '']'' @ [CHR 0x0A] @ toml_string_line ''unit'' (mc_unit spec) @
         toml_string_line ''kind'' (metric_kind_as_str (mc_kind spec)) @
         (case mc_target spec of Some target \<Rightarrow> toml_number_line ''target'' target | None \<Rightarrow> []) @
         toml_number_line ''observed'' observed)
       (ok_or (''Scenario metric '' @ mc_name spec @ '' is missing'') (bmap_get (sn_metrics m) (mc_name spec)))"

definition render_asp_rust_scenario_benchmark_toml :: "asp_rust_scenario \<Rightarrow> scenario_measurement \<Rightarrow> string result option" where
  "render_asp_rust_scenario_benchmark_toml scenario m =
     (case as_benchmark scenario of
        None \<Rightarrow> Some (Err (''Scenario '' @ as_name scenario @ '' has no benchmark contract''))
      | Some spec \<Rightarrow> (case those (map (render_phase m) (bmap_keys (sn_observed_timings m))) of
          None \<Rightarrow> None
        | Some phases \<Rightarrow> Some (map_ok (\<lambda>metrics1.
              toml_string_line ''harness'' (sp_harness spec) @ toml_string_line ''test'' (sp_test spec) @
              toml_string_line ''snapshot'' (sp_snapshot spec) @ toml_string_line ''target_total'' (sp_target_total spec) @
              toml_string_line ''max_total'' (sp_max_total spec) @ toml_string_line ''observed_total'' (format_duration (sn_observed_total m)) @
              toml_string_line ''regression_budget'' (sp_regression_budget spec) @
              toml_number_line ''memory_budget_bytes'' (sp_memory_budget_bytes spec) @
              toml_number_line ''observed_memory_bytes'' (sn_observed_memory_bytes m) @
              toml_string_line ''target_rationale'' (sp_target_rationale spec) @
              [CHR 0x0A] @ ''[measurement]'' @ [CHR 0x0A] @
              toml_string_line ''clock'' (sn_clock m) @ toml_string_line ''statistic'' (sn_statistic m) @
              toml_number_line ''warmup_iterations'' (sn_warmup_iterations m) @ toml_number_line ''measure_iterations'' (sn_measure_iterations m) @
              toml_string_line ''total_p50'' (format_duration (sn_total_p50 m)) @ toml_string_line ''total_p95'' (format_duration (sn_total_p95 m)) @
              toml_string_line ''total_p99'' (format_duration (sn_total_p99 m)) @ toml_string_line ''total_max'' (format_duration (sn_total_max m)) @
              [CHR 0x0A] @ ''[observed_timings]'' @ [CHR 0x0A] @
              concat (map (\<lambda>(name, d). toml_string_line name (format_duration d)) (sn_observed_timings m)) @
              concat phases @ concat metrics1)
            (collect_results (render_metric m) (sp_metrics spec)))))"

section \<open>Percentiles\<close>

text \<open>The nearest-rank percentile: a sample with enough samples at or below it and too few below it.\<close>

definition is_percentile :: "nat \<Rightarrow> nat list \<Rightarrow> nat \<Rightarrow> bool" where
  "is_percentile p xs v \<longleftrightarrow>
     v \<in> set xs \<and> p * length xs \<le> 100 * length (filter (\<lambda>x. x \<le> v) xs) \<and> 100 * length (filter (\<lambda>x. x < v) xs) < p * length xs"

lemma is_percentile_mono:
  assumes "is_percentile p xs a" "is_percentile q xs b" "p \<le> q"
  shows "a \<le> b"
proof (rule ccontr)
  assume "\<not> a \<le> b"
  then have "length (filter (\<lambda>x. x \<le> b) xs) \<le> length (filter (\<lambda>x. x < a) xs)"
    by (induction xs) auto
  moreover have "p * length xs \<le> q * length xs" using assms(3) by (rule mult_le_mono1)
  ultimately show False using assms(1,2) unfolding is_percentile_def by linarith
qed

lemma is_percentile_unique: "is_percentile p xs a \<Longrightarrow> is_percentile p xs b \<Longrightarrow> a = b"
  by (intro antisym is_percentile_mono [OF _ _ order_refl])

lemma is_percentile_100: "is_percentile 100 xs v \<Longrightarrow> v = Max (set xs)"
proof -
  assume v: "is_percentile 100 xs v"
  then have "length (filter (\<lambda>x. x \<le> v) xs) = length xs"
    using length_filter_le [of "\<lambda>x. x \<le> v" xs] by (simp add: is_percentile_def)
  then have "x \<le> v" if "x \<in> set xs" for x
    using that length_filter_less [OF that, of "\<lambda>x. x \<le> v"] by auto
  with v show ?thesis by (intro Max_eqI [symmetric]) (auto simp: is_percentile_def)
qed

abbreviation percentile_index :: "nat \<Rightarrow> nat \<Rightarrow> nat" where
  "percentile_index n p \<equiv> (n * p + 99) div 100 - 1"

definition percentile_value :: "nat \<Rightarrow> nat list \<Rightarrow> nat" where
  "percentile_value p xs = sort xs ! percentile_index (length xs) p"

lemma percentile_index_less: "0 < n \<Longrightarrow> p \<le> 100 \<Longrightarrow> percentile_index n p < n"
proof -
  assume "0 < n" "p \<le> 100"
  then have "n * p \<le> n * 100" by simp
  then have "(n * p + 99) div 100 \<le> (n * 100 + 99) div 100" by (intro div_le_mono) simp
  with \<open>0 < n\<close> show ?thesis by simp
qed

lemma usize_mul_exact: "a * b < 2 ^ 64 \<Longrightarrow> usize_mul checks a b = Some (a * b)"
proof -
  assume "a * b < 2 ^ 64"
  then have "int a * int b < 18446744073709551616" by (simp flip: of_nat_mult)
  then show ?thesis by (simp add: usize_mul_def nat_mult_distrib)
qed

text \<open>No product overflows while a hundred times the number of samples fits in 64 bits.\<close>

abbreviation countable_samples :: "nat \<Rightarrow> bool" where
  "countable_samples n \<equiv> 0 < n \<and> 100 * n < 2 ^ 64"

lemma percentile_Some:
  assumes "countable_samples (length xs)" "p \<le> 100"
  shows "percentile checks xs p = Some (percentile_value p xs)"
proof -
  have "length xs * p \<le> 100 * length xs" using assms(2) by simp
  with assms(1) have "length xs * p < 2 ^ 64" by linarith
  with percentile_index_less [of "length xs" p] assms show ?thesis
    by (simp add: percentile_def usize_mul_exact nth_opt_def percentile_value_def)
qed

lemma sorted_ranks:
  fixes ys :: "nat list"
  assumes "sorted ys" "i < length ys"
  shows "Suc i \<le> length (filter (\<lambda>x. x \<le> ys ! i) ys)" "length (filter (\<lambda>x. x < ys ! i) ys) \<le> i"
proof -
  have "filter (\<lambda>x. x \<le> ys ! i) (take (Suc i) ys) = take (Suc i) ys"
    using assms by (intro filter_True) (auto simp: in_set_conv_nth less_Suc_eq_le sorted_iff_nth_mono)
  then have "Suc i \<le> length (filter (\<lambda>x. x \<le> ys ! i) (take (Suc i) ys @ drop (Suc i) ys))"
    using assms(2) by (simp del: append_take_drop_id)
  then show "Suc i \<le> length (filter (\<lambda>x. x \<le> ys ! i) ys)" by simp
  have "filter (\<lambda>x. x < ys ! i) (drop i ys) = []"
    using assms by (auto simp: filter_empty_conv in_set_conv_nth not_less intro!: sorted_nth_mono)
  then have "length (filter (\<lambda>x. x < ys ! i) (take i ys @ drop i ys)) \<le> i"
    using length_filter_le [of "\<lambda>x. x < ys ! i" "take i ys"] by (simp del: append_take_drop_id)
  then show "length (filter (\<lambda>x. x < ys ! i) ys) \<le> i" by simp
qed

lemma nearest_rank: "0 < n \<Longrightarrow> n \<le> 100 * Suc ((n + 99) div 100 - 1) \<and> 100 * ((n + 99) div 100 - 1) < n" for n :: nat
proof -
  assume "0 < n"
  define d where "d = (n + 99) div 100"
  have "100 * d \<le> n + 99" "n + 99 < 100 * d + 100" unfolding d_def by linarith+
  with \<open>0 < n\<close> have "n \<le> 100 * Suc (d - 1) \<and> 100 * (d - 1) < n" by (cases d) simp_all
  then show ?thesis unfolding d_def .
qed

lemma percentile_value_exact:
  assumes "xs \<noteq> []" "1 \<le> p" "p \<le> 100"
  shows "is_percentile p xs (percentile_value p xs)"
proof -
  let ?i = "percentile_index (length xs) p" and ?ys = "sort xs"
  have i: "?i < length ?ys" using percentile_index_less [of "length xs" p] assms by simp
  have "0 < length xs * p" using assms by simp
  note rank = nearest_rank [OF this]
  have same: "length (filter P ?ys) = length (filter P xs)" for P by (simp add: filter_sort)
  have "percentile_value p xs \<in> set xs" using nth_mem [OF i] by (simp add: percentile_value_def)
  moreover note ranks = sorted_ranks [OF sorted_sort i, unfolded same]
  ultimately show ?thesis
    using rank by (simp add: is_percentile_def percentile_value_def mult.commute [of p])
qed

lemma those_map_Some: "list_all (\<lambda>x. f x = Some (g x)) xs \<Longrightarrow> those (map f xs) = Some (map g xs)"
  by (induction xs) auto

lemma those_total: "list_all (\<lambda>x. \<exists>y. f x = Some y) xs \<Longrightarrow> \<exists>ys. those (map f xs) = Some ys"
  by (induction xs) auto

lemma phase_percentiles_Some:
  assumes "list_all (\<lambda>e. countable_samples (length (snd e))) phases" "p \<le> 100"
  shows "phase_percentiles checks p phases = Some (map (\<lambda>e. (fst e, percentile_value p (snd e))) phases)"
  unfolding phase_percentiles_def using assms
  by (intro those_map_Some) (auto simp: list_all_iff percentile_Some)

section \<open>Recorded samples\<close>

text \<open>What the maps of a list of observations give for one name, and the vectors that the loop collects for it.\<close>

definition values_of :: "('a \<Rightarrow> (string \<times> nat) list) \<Rightarrow> 'a list \<Rightarrow> string \<Rightarrow> nat list" where
  "values_of f xs name = List.map_filter (\<lambda>x. map_of (f x) name) xs"

definition collected :: "('a \<Rightarrow> (string \<times> nat) list) \<Rightarrow> 'a list \<Rightarrow> string list option \<Rightarrow> (string \<times> nat list) list \<Rightarrow> bool" where
  "collected f xs names m \<longleftrightarrow>
     (case names of
        None \<Rightarrow> xs = [] \<and> m = []
      | Some ks \<Rightarrow> xs \<noteq> [] \<and> ascending ks \<and> list_all (\<lambda>x. bmap_keys (f x) = ks) xs \<and> m = map (\<lambda>k. (k, values_of f xs k)) ks)"

lemma bmap_by_lookup:
  assumes "ascending (bmap_keys m)" "ascending ks" "\<And>k. map_of m k = (if k \<in> set ks then Some (g k) else None)"
  shows "m = map (\<lambda>k. (k, g k)) ks"
proof -
  have "set (bmap_keys m) = dom (map_of m)" by (simp add: dom_map_of_conv_image_fst)
  also have "\<dots> = set ks" using assms(3) by (auto simp: dom_def)
  finally have keys: "bmap_keys m = ks" by (rule ascending_unique [OF assms(1,2)])
  have "e = (fst e, g (fst e))" if "e \<in> set m" for e
    using bmap_in_set_iff [OF assms(1), of "fst e" "snd e"] assms(3) [of "fst e"] that by (auto split: if_splits)
  then have "map (\<lambda>e. (fst e, g (fst e))) m = m" by (intro map_idI) simp
  with keys [symmetric] show ?thesis by (simp add: comp_def)
qed

lemma single_value: "distinct (map fst es) \<Longrightarrow> map snd (filter (\<lambda>e. fst e = k) es) = (case map_of es k of None \<Rightarrow> [] | Some v \<Rightarrow> [v])"
proof (induction es)
  case (Cons e es)
  have "filter (\<lambda>e. fst e = k) es = [] \<and> map_of es k = None" if "fst e = k"
  proof
    from Cons.prems that have k: "k \<notin> fst ` set es" by auto
    then show "filter (\<lambda>e. fst e = k) es = []" by (auto simp: filter_empty_conv)
    from k show "map_of es k = None" by (simp only: map_of_eq_None_iff not_False_eq_True)
  qed
  with Cons show ?case by (cases e) auto
qed simp

lemma keyed_lookup: "map_of (map (\<lambda>k. (k, g k)) ks) k = (if k \<in> set ks then Some (g k) else None)"
  by (induction ks) auto

lemma collected_push:
  assumes "collected f xs names m" "ascending (bmap_keys (f x))" "same_names message names (bmap_keys (f x)) = Inr ks"
  shows "collected f (xs @ [x]) (Some ks) (fold (\<lambda>(name, v). group_push name v) (f x) m)"
proof -
  let ?push = "\<lambda>m. fold (\<lambda>(name, v). group_push name v) (f x) m"
  have ks: "bmap_keys (f x) = ks" and before: "list_all (\<lambda>x. bmap_keys (f x) = ks) xs"
    using assms(1,3) by (auto simp: same_names_def collected_def split: option.splits if_splits)
  have "xs = [] \<and> m = [] \<or> xs \<noteq> [] \<and> ascending ks \<and> m = map (\<lambda>k. (k, values_of f xs k)) ks"
    using assms(1,3) by (auto simp: collected_def same_names_def simp del: map_map split: option.splits if_splits)
  then have m: "ascending (bmap_keys m)" "map_of m k = (if k \<in> set ks \<and> xs \<noteq> [] then Some (values_of f xs k) else None)" for k
    by (auto simp: keyed_lookup comp_def)
  have none: "values_of f [] k = []" for k by (simp add: values_of_def List.map_filter_def)
  have last: "values_of f (xs @ [x]) k = values_of f xs k @ (case map_of (f x) k of None \<Rightarrow> [] | Some v \<Rightarrow> [v])" for k
    by (simp add: values_of_def List.map_filter_def split: option.split)
  note push = fold_group_push [OF m(1), of fst snd "f x", folded case_prod_beta']
  have "map_of (?push m) k = (if k \<in> set ks then Some (values_of f (xs @ [x]) k) else None)" for k
  proof (cases "map_of (f x) k")
    case None
    then have "k \<notin> set ks" by (simp add: map_of_eq_None_iff flip: ks)
    with None push [of k] single_value [OF ascending_distinct [OF assms(2)], of k] show ?thesis by (simp add: m(2))
  next
    case (Some v)
    then have "k \<in> set ks" using ks by (force dest: map_of_SomeD)
    with Some push [of k] single_value [OF ascending_distinct [OF assms(2)], of k] none [of k] show ?thesis
      by (auto simp: m(2) last)
  qed
  then have "?push m = map (\<lambda>k. (k, values_of f (xs @ [x]) k)) ks"
    using push assms(2) ks by (intro bmap_by_lookup) simp_all
  with assms(2) ks before show ?thesis by (simp add: collected_def)
qed

text \<open>The maps of an observation are \<open>BTreeMap\<close>s: their keys ascend.\<close>

definition observation_wf :: "scenario_observation \<Rightarrow> bool" where
  "observation_wf o1 \<longleftrightarrow> ascending (bmap_keys (so_phase_timings o1)) \<and> ascending (bmap_keys (so_metrics o1))"

definition recorded :: "(nat \<times> scenario_observation) list \<Rightarrow> measuring \<Rightarrow> bool" where
  "recorded xs st \<longleftrightarrow>
     mg_totals st = map fst xs \<and> mg_memory_bytes st = Max (insert 0 (so_memory_bytes ` set (map snd xs))) \<and>
     collected so_phase_timings (map snd xs) (mg_phase_names st) (mg_phase_samples st) \<and>
     collected so_metrics (map snd xs) (mg_metric_names st) (mg_metric_samples st)"

lemma recorded_start: "recorded [] measuring_start"
  by (simp add: recorded_def measuring_start_def collected_def)

lemma record_sample_recorded:
  assumes "recorded xs st" "record_sample x st = Inr st'" "observation_wf (snd x)"
  shows "recorded (xs @ [x]) st'"
proof -
  from assms(2) obtain ps ms where
    same: "same_names ''Scenario timing phases changed between samples'' (mg_phase_names st) (bmap_keys (so_phase_timings (snd x))) = Inr ps"
      "same_names ''Scenario custom metric names changed between samples'' (mg_metric_names st) (bmap_keys (so_metrics (snd x))) = Inr ms" and
    st': "st' = \<lparr>mg_totals = mg_totals st @ [fst x],
        mg_phase_samples = fold (\<lambda>(name, d). group_push name d) (so_phase_timings (snd x)) (mg_phase_samples st), mg_phase_names = Some ps,
        mg_metric_samples = fold (\<lambda>(name, v). group_push name v) (so_metrics (snd x)) (mg_metric_samples st), mg_metric_names = Some ms,
        mg_memory_bytes = max (mg_memory_bytes st) (so_memory_bytes (snd x))\<rparr>"
    by (auto simp: record_sample_def and_then_Inr_iff case_prod_beta)
  have "max (Max (insert 0 (so_memory_bytes ` set (map snd xs)))) n = Max (insert 0 (insert n (so_memory_bytes ` set (map snd xs))))" for n
    by (simp add: insert_commute [of 0] max.commute)
  with assms(1,3) collected_push [where f = so_phase_timings and x = "snd x", OF _ _ same(1)]
    collected_push [where f = so_metrics and x = "snd x", OF _ _ same(2)] show ?thesis
    by (simp add: recorded_def st' observation_wf_def)
qed

lemma record_samples_recorded:
  "record_samples xs st = Inr st' \<Longrightarrow> recorded ys st \<Longrightarrow> list_all (\<lambda>x. observation_wf (snd x)) xs \<Longrightarrow> recorded (ys @ xs) st'"
proof (induction xs arbitrary: ys st)
  case (Cons x xs)
  from Cons.prems(1) obtain st1 where "record_sample x st = Inr st1" "record_samples xs st1 = Inr st'"
    by (auto simp: and_then_Inr_iff)
  with Cons.IH [of st1 "ys @ [x]"] record_sample_recorded [of ys st x st1] Cons.prems(2,3) show ?case by simp
qed simp

section \<open>Aggregated metrics\<close>

definition aggregates :: "scenario_metric_kind \<Rightarrow> nat list \<Rightarrow> nat \<Rightarrow> bool" where
  "aggregates how vs v \<longleftrightarrow> vs \<noteq> [] \<and>
     (case how of
        SpecStable \<Rightarrow> set vs = {v}
      | SpecExact \<Rightarrow> set vs = {v}
      | SpecMaximum \<Rightarrow> v = Max (set vs)
      | SpecMinimum \<Rightarrow> v = Min (set vs))"

lemma observed_metric_aggregates: "observed_metric spec vs = Inr v \<Longrightarrow> aggregates (mc_kind spec) vs v"
  by (cases "mc_kind spec"; cases vs)
    (auto simp: observed_metric_def aggregates_def list_ex_iff Max.set_eq_fold Min.set_eq_fold simp del: list.set intro: list.set_intros split: if_splits)

lemma aggregate_metrics_exact:
  assumes "aggregate_metrics specs samples observations = Inr (out, rest)" "ascending (bmap_keys observations)"
  shows "(\<forall>k. k \<notin> mc_name ` set specs \<longrightarrow> map_of out k = map_of observations k) \<and>
    list_all (\<lambda>spec. \<exists>vs v. map_of samples (mc_name spec) = Some vs \<and> map_of out (mc_name spec) = Some v \<and>
      observed_metric spec vs = Inr v) specs \<and>
    set (bmap_keys rest) = set (bmap_keys samples) - mc_name ` set specs"
  using assms
proof (induction specs arbitrary: samples observations)
  case (Cons spec specs)
  let ?left = "filter (\<lambda>e. fst e \<noteq> mc_name spec) samples"
  from Cons.prems(1) obtain vs v where vs: "map_of samples (mc_name spec) = Some vs" "observed_metric spec vs = Inr v"
      "aggregate_metrics specs ?left (bmap_insert (mc_name spec) v observations) = Inr (out, rest)"
    by (auto simp: result_iffs)
  have left: "map_of ?left k = (if k = mc_name spec then None else map_of samples k)" for k
    by (induction samples) auto
  have keys: "set (bmap_keys ?left) = set (bmap_keys samples) - {mc_name spec}" by auto
  from Cons.IH [OF vs(3) ascending_bmap_insert [OF Cons.prems(2)]]
  have ih: "\<forall>k. k \<notin> mc_name ` set specs \<longrightarrow> map_of out k = map_of (bmap_insert (mc_name spec) v observations) k"
    "list_all (\<lambda>spec. \<exists>vs v. map_of ?left (mc_name spec) = Some vs \<and> map_of out (mc_name spec) = Some v \<and> observed_metric spec vs = Inr v) specs"
    "set (bmap_keys rest) = set (bmap_keys ?left) - mc_name ` set specs"
    by blast+
  have other: "mc_name spec \<notin> mc_name ` set specs" using ih(2) left by (force simp: list_all_iff)
  have "list_all (\<lambda>spec. \<exists>vs v. map_of samples (mc_name spec) = Some vs \<and> map_of out (mc_name spec) = Some v \<and> observed_metric spec vs = Inr v) specs"
    using ih(2) other unfolding list_all_iff left by (metis imageI)
  moreover have "map_of out (mc_name spec) = Some v" using ih(1) other by (simp add: bmap_get_insert Cons.prems(2))
  ultimately show ?case using ih(1,3) vs(1,2) unfolding keys by (auto simp: bmap_get_insert Cons.prems(2))
qed auto

section \<open>Measured scenarios\<close>

definition spec_met :: "(string \<times> nat) list \<Rightarrow> scenario_metric_spec \<Rightarrow> bool" where
  "spec_met observations spec = (case map_of observations (mc_name spec) of
     None \<Rightarrow> False
   | Some v \<Rightarrow> (case mc_kind spec of
       SpecStable \<Rightarrow> mc_target spec = None
     | SpecExact \<Rightarrow> mc_target spec = Some v
     | SpecMaximum \<Rightarrow> (case mc_target spec of Some target \<Rightarrow> v \<le> target | None \<Rightarrow> False)
     | SpecMinimum \<Rightarrow> (case mc_target spec of Some target \<Rightarrow> target \<le> v | None \<Rightarrow> False)))"

lemma validate_step:
  "validate_metric_observations (spec # specs) observations =
     (if spec_met observations spec then validate_metric_observations specs observations
      else validate_metric_observations (spec # specs) observations)"
  by (cases "mc_kind spec"; cases "mc_target spec")
    (auto simp: spec_met_def metric_admitted_def split: option.splits)

lemma validate_unmet: "\<not> spec_met observations spec \<Longrightarrow> \<exists>e. validate_metric_observations (spec # specs) observations = Some (Inl e)"
  by (cases "mc_kind spec"; cases "mc_target spec")
    (auto simp: spec_met_def metric_admitted_def split: option.splits)

lemma validate_metrics_total:
  "validate_metric_observations specs observations \<noteq> None \<and>
   (validate_metric_observations specs observations = Some (Inr ()) \<longleftrightarrow> list_all (spec_met observations) specs)"
proof (induction specs)
  case (Cons spec specs)
  then show ?case using validate_step [of spec specs observations] validate_unmet [of observations spec specs]
    by (cases "spec_met observations spec") (auto simp del: validate_metric_observations.simps)
qed simp

text \<open>
  What a measurement says of its samples: each published number is the percentile, the maximum or the aggregate of the values that
  the measured runs gave, over the totals, over each phase and over each metric.
\<close>

definition phases_measured :: "nat \<Rightarrow> scenario_observation list \<Rightarrow> (string \<times> nat) list \<Rightarrow> bool" where
  "phases_measured p observations timings \<longleftrightarrow>
     list_all (\<lambda>o1. bmap_keys (so_phase_timings o1) = bmap_keys timings) observations \<and>
     list_all (\<lambda>(name, v). is_percentile p (values_of so_phase_timings observations name) v) timings"

definition metric_measured :: "scenario_observation list \<Rightarrow> (string \<times> nat) list \<Rightarrow> scenario_metric_spec \<Rightarrow> bool" where
  "metric_measured observations observed spec =
     (case map_of observed (mc_name spec) of
        None \<Rightarrow> False
      | Some v \<Rightarrow> aggregates (mc_kind spec) (values_of so_metrics observations (mc_name spec)) v)"

definition sound_measurement :: "scenario_benchmark_spec \<Rightarrow> (nat \<times> scenario_observation) list \<Rightarrow> scenario_measurement \<Rightarrow> bool" where
  "sound_measurement spec samples m \<longleftrightarrow>
     is_percentile 50 (map fst samples) (sn_total_p50 m) \<and> is_percentile 95 (map fst samples) (sn_total_p95 m) \<and>
     is_percentile 99 (map fst samples) (sn_total_p99 m) \<and> sn_total_max m = Max (set (map fst samples)) \<and>
     sn_observed_total m = sn_total_p95 m \<and> 0 < sn_total_p95 m \<and>
     sn_observed_memory_bytes m = Max (insert 0 (so_memory_bytes ` set (map snd samples))) \<and>
     phases_measured 50 (map snd samples) (sn_timing_p50 m) \<and> phases_measured 95 (map snd samples) (sn_observed_timings m) \<and>
     phases_measured 99 (map snd samples) (sn_timing_p99 m) \<and> phases_measured 100 (map snd samples) (sn_timing_max m) \<and>
     list_all (\<lambda>o1. set (bmap_keys (so_metrics o1)) = mc_name ` set (sp_metrics spec)) (map snd samples) \<and>
     list_all (metric_measured (map snd samples) (sn_metrics m)) (sp_metrics spec) \<and>
     list_all (spec_met (sn_metrics m)) (sp_metrics spec)"

lemma collected_lengths:
  assumes "collected f xs names m"
  shows "list_all (\<lambda>e. length (snd e) = length xs) m"
proof (cases names)
  case (Some ks)
  have "length (values_of f xs k) = length xs" if "k \<in> set ks" "list_all (\<lambda>x. bmap_keys (f x) = ks) xs" for k
    using that(2)
  proof (induction xs)
    case (Cons x xs)
    then have "map_of (f x) k \<noteq> None" using that(1) by (auto simp: map_of_eq_None_iff)
    with Cons show ?case by (auto simp: values_of_def List.map_filter_def)
  qed (simp add: values_of_def List.map_filter_def)
  with assms Some show ?thesis by (auto simp: collected_def list_all_iff)
qed (use assms in \<open>simp add: collected_def\<close>)

lemma phases_percentiles_measured:
  assumes "collected so_phase_timings xs names phases" "xs \<noteq> []" "1 \<le> p" "p \<le> 100"
  shows "phases_measured p xs (map (\<lambda>e. (fst e, percentile_value p (snd e))) phases)"
proof -
  from assms(1,2) obtain ks where ks: "list_all (\<lambda>x. bmap_keys (so_phase_timings x) = ks) xs"
      "phases = map (\<lambda>k. (k, values_of so_phase_timings xs k)) ks"
    by (auto simp: collected_def split: option.splits)
  have "is_percentile p (values_of so_phase_timings xs k) (percentile_value p (values_of so_phase_timings xs k))" if "k \<in> set ks" for k
  proof -
    from collected_lengths [OF assms(1)] that ks(2) have "length (values_of so_phase_timings xs k) = length xs"
      by (simp add: list_all_iff)
    with assms(2) have "values_of so_phase_timings xs k \<noteq> []" by auto
    then show ?thesis by (rule percentile_value_exact) (rule assms(3,4))+
  qed
  with ks show ?thesis by (simp add: phases_measured_def list_all_iff comp_def)
qed

lemma aggregates_measured:
  assumes "collected so_metrics xs names samples" "xs \<noteq> []" "aggregate_metric_observations specs samples = Inr observed"
  shows "list_all (metric_measured xs observed) specs \<and> list_all (\<lambda>o1. set (bmap_keys (so_metrics o1)) = mc_name ` set specs) xs"
proof -
  from assms(1,2) obtain ks where ks: "list_all (\<lambda>x. bmap_keys (so_metrics x) = ks) xs"
      "samples = map (\<lambda>k. (k, values_of so_metrics xs k)) ks"
    by (auto simp: collected_def split: option.splits)
  from assms(3) obtain rest where rest: "aggregate_metrics specs samples [] = Inr (observed, rest)"
      "(case rest of [] \<Rightarrow> Ok observed | (unregistered, _) # _ \<Rightarrow> Err (''Scenario metric '' @ unregistered @ '' has no benchmark specification'')) = Inr observed"
    by (cases "aggregate_metrics specs samples []")
      (auto simp: aggregate_metric_observations_def and_then_Inr_iff split: list.splits)
  have "rest = []" using rest(2) by (cases rest) auto
  with rest(1) have agg: "aggregate_metrics specs samples [] = Inr (observed, [])" by simp
  note exact = aggregate_metrics_exact [OF agg, simplified]
  have looked_up: "map_of samples k = (if k \<in> set ks then Some (values_of so_metrics xs k) else None)" for k
    unfolding ks(2) by (rule keyed_lookup)
  have found: "mc_name spec \<in> set ks \<and> metric_measured xs observed spec" if "spec \<in> set specs" for spec
  proof -
    from exact that obtain vs v where "map_of samples (mc_name spec) = Some vs" "map_of observed (mc_name spec) = Some v" "observed_metric spec vs = Inr v"
      by (auto simp: list_all_iff)
    with observed_metric_aggregates show ?thesis by (auto simp: looked_up metric_measured_def split: if_splits)
  qed
  have "set ks \<subseteq> mc_name ` set specs" using exact by (simp add: ks(2) image_image)
  with found have "set ks = mc_name ` set specs" by auto
  moreover from found have "list_all (metric_measured xs observed) specs" by (simp add: list_all_iff)
  ultimately show ?thesis using ks(1) unfolding list_all_iff by metis
qed

lemma measurement_of_sound:
  assumes "recorded samples st" "countable_samples (length samples)"
  shows "case measurement_of checks spec st of None \<Rightarrow> False | Some (Inl _) \<Rightarrow> True | Some (Inr m) \<Rightarrow> sound_measurement spec samples m"
proof -
  let ?v = "\<lambda>p. percentile_value p (map fst samples)"
  let ?ph = "\<lambda>q. map (\<lambda>e. (fst e, percentile_value q (snd e))) (mg_phase_samples st)"
  have rec: "mg_totals st = map fst samples" "mg_memory_bytes st = Max (insert 0 (so_memory_bytes ` set (map snd samples)))"
    "collected so_phase_timings (map snd samples) (mg_phase_names st) (mg_phase_samples st)"
    "collected so_metrics (map snd samples) (mg_metric_names st) (mg_metric_samples st)"
    using assms(1) by (simp_all add: recorded_def)
  have ne: "map fst samples \<noteq> []" "map snd samples \<noteq> []" using assms(2) by auto
  have p: "percentile checks (mg_totals st) q = Some (?v q)" if "q \<le> 100" for q
    unfolding rec(1) by (rule percentile_Some) (use assms(2) that in simp_all)
  have "list_all (\<lambda>e. countable_samples (length (snd e))) (mg_phase_samples st)"
    using collected_lengths [OF rec(3)] assms(2) by (auto simp: list_all_iff)
  then have ph: "phase_percentiles checks q (mg_phase_samples st) = Some (?ph q)" if "q \<le> 100" for q
    using that by (rule phase_percentiles_Some)
  show ?thesis
  proof (cases "measurement_of checks spec st")
    case None
    have "(validate_metric_observations (sp_metrics spec) observed = None) = False" for observed
      using validate_metrics_total by blast
    with None show ?thesis by (auto simp: measurement_of_def p ph simp del: not_None_eq split: if_splits sum.splits)
  next
    case (Some r)
    show ?thesis
    proof (cases r)
      case (Inr m)
      from Some [unfolded Inr] obtain observed where
        obs: "aggregate_metric_observations (sp_metrics spec) (mg_metric_samples st) = Inr observed"
          "validate_metric_observations (sp_metrics spec) observed = Some (Inr ())" "?v 95 \<noteq> 0" and
        m: "m = \<lparr>sn_observed_total = ?v 95, sn_total_p50 = ?v 50, sn_total_p95 = ?v 95, sn_total_p99 = ?v 99, sn_total_max = ?v 100,
          sn_observed_memory_bytes = mg_memory_bytes st, sn_observed_timings = ?ph 95, sn_timing_p50 = ?ph 50, sn_timing_p99 = ?ph 99,
          sn_timing_max = ?ph 100, sn_metrics = observed, sn_clock = ''std::time::Instant'', sn_statistic = ''p95'',
          sn_warmup_iterations = sp_warmup_iterations spec, sn_measure_iterations = sp_measure_iterations spec\<rparr>"
        by (auto simp: measurement_of_def p ph map_ok_Inr_iff split: if_splits sum.splits)
      have exact: "is_percentile q (map fst samples) (?v q)" if "1 \<le> q" "q \<le> 100" for q
        using percentile_value_exact [OF ne(1) that] .
      have "list_all (spec_met observed) (sp_metrics spec)" using obs(2) validate_metrics_total by simp
      with exact [of 50] exact [of 95] exact [of 99] is_percentile_100 [OF exact [of 100]] obs(3)
        phases_percentiles_measured [OF rec(3) ne(2)] aggregates_measured [OF rec(4) ne(2) obs(1)]
      have "sound_measurement spec samples m"
        unfolding sound_measurement_def m scenario_measurement.simps rec(2) by simp
      then show ?thesis unfolding Some Inr by simp
    qed (simp add: Some)
  qed
qed

text \<open>A sound measurement can be published: no lookup of its maps fails.\<close>

lemma sound_measurement_renders:
  assumes "as_benchmark scenario = Some spec" "sound_measurement spec samples m" "samples \<noteq> []"
  shows "\<exists>toml. render_asp_rust_scenario_benchmark_toml scenario m = Some (Inr toml)"
proof -
  from assms(2,3) have keys: "bmap_keys (sn_timing_p50 m) = bmap_keys (sn_observed_timings m)"
    "bmap_keys (sn_timing_p99 m) = bmap_keys (sn_observed_timings m)" "bmap_keys (sn_timing_max m) = bmap_keys (sn_observed_timings m)"
    by (cases samples; simp add: sound_measurement_def phases_measured_def)+
  have found: "\<exists>v. map_of ts name = Some v" if "name \<in> set (bmap_keys ts)" for ts :: "(string \<times> nat) list" and name
    using that by (metis map_of_eq_None_iff not_None_eq set_map)
  have "\<exists>t. render_phase m name = Some t" if "name \<in> set (bmap_keys (sn_observed_timings m))" for name
    using found [OF that] found [OF that [folded keys(1)]] found [OF that [folded keys(2)]] found [OF that [folded keys(3)]]
    by (auto simp: render_phase_def)
  then have "list_all (\<lambda>name. \<exists>t. render_phase m name = Some t) (bmap_keys (sn_observed_timings m))"
    by (simp add: list_all_iff)
  then obtain ts where ts: "those (map (render_phase m) (bmap_keys (sn_observed_timings m))) = Some ts" using those_total by blast
  have "\<exists>ms. collect_results (render_metric m) specs = Inr ms" if "list_all (spec_met (sn_metrics m)) specs" for specs
    using that by (induction specs) (auto simp: spec_met_def render_metric_def split: option.splits)
  then obtain ms where ms: "collect_results (render_metric m) (sp_metrics spec) = Inr ms"
    using assms(2) unfolding sound_measurement_def by blast
  show ?thesis unfolding render_asp_rust_scenario_benchmark_toml_def assms(1) option.case ts ms map_ok_simps by blast
qed

text \<open>Durations that are published are read back by the contract parser.\<close>

lemma format_duration_read_back: "n < 2 ^ 64 \<Longrightarrow> parse_rust_scenario_benchmark_duration (format_duration n) = Inr n"
proof -
  assume n: "n < 2 ^ 64"
  have shown: "parse_rust_scenario_benchmark_duration (show_nat (n div 10 ^ k) @ u) = Inr n"
    if "nanos_per_unit_of u = Some (10 ^ k)" "u = v @ ''s''" "u = c # w" "\<not> amount_char c" "k \<le> 9" "n mod 10 ^ k = 0" for k u v c w
  proof -
    have "n div 10 ^ k * 10 ^ k + 0 = n" using that(6) div_mult_mod_eq [of n "10 ^ k"] by simp
    with parse_show_decimal [OF that(1-5), of 0 "n div 10 ^ k"] n show ?thesis by (simp add: show_decimal_def)
  qed
  have ten: "(10 :: nat) ^ 6 = 1000000" "(10 :: nat) ^ 3 = 1000" "(10 :: nat) ^ 0 = 1" by simp_all
  have us: "nanos_per_unit_of ''us'' = Some 1000" "\<not> amount_char (CHR ''u'')"
    by (simp_all add: nanos_per_unit_of_def amount_char_def less_eq_char_def)
  have "parse_rust_scenario_benchmark_duration (show_nat (n div 1000000) @ ''ms'') = Inr n" if "n mod 1000000 = 0"
    by (rule shown [of _ 6 "''m''" "CHR ''m''" "''s''", unfolded ten]) (use that in \<open>simp_all add: shown_units\<close>)
  moreover have "parse_rust_scenario_benchmark_duration (show_nat (n div 1000) @ ''us'') = Inr n" if "n mod 1000 = 0"
    by (rule shown [of _ 3 "''u''" "CHR ''u''" "''s''", unfolded ten]) (use that in \<open>simp_all add: us\<close>)
  moreover have "parse_rust_scenario_benchmark_duration (show_nat (n div 1) @ ''ns'') = Inr n"
    by (rule shown [of _ 0 "''n''" "CHR ''n''" "''s''", unfolded ten]) (simp_all add: shown_units)
  ultimately show ?thesis unfolding format_duration_def div_by_1 by presburger
qed

definition countable_scenario :: "asp_rust_scenario \<Rightarrow> bool" where
  "countable_scenario scenario =
     (case as_benchmark scenario of None \<Rightarrow> True | Some spec \<Rightarrow> 100 * sp_measure_iterations spec < 2 ^ 64)"

text \<open>
  C24: while a hundred times the number of measured iterations fits in 64 bits, measuring a scenario whose observations are maps never
  panics, whether or not the build checks overflow. When it succeeds, the published numbers are exactly those of the measured runs: the 50th,
  95th and 99th percentiles are the nearest-rank percentiles of the totals, which determine them (enough samples at or below, too few
  below), the maximum is the largest total, the observed total is the 95th percentile and positive, the memory is the largest observed;
  every run had the same phases, with their exact 50th, 95th, 99th and 100th percentiles; every run had the metrics of the specification, each
  published as the aggregate of its kind, the common value, the maximum or the minimum, and meeting its target. The measurement can be
  rendered as a benchmark contract whose observed total, when it fits in 64 bits, the contract parser reads back.
\<close>

theorem scenario_measurement_sound:
  assumes "\<And>i. observation_wf (snd (run i))" "countable_scenario scenario"
  shows "case measure_asp_rust_scenario overflow_checks scenario run of
     None \<Rightarrow> False
   | Some (Inl _) \<Rightarrow> True
   | Some (Inr m) \<Rightarrow> (\<exists>spec toml. as_benchmark scenario = Some spec \<and>
       sound_measurement spec (measured_samples spec run) m \<and>
       render_asp_rust_scenario_benchmark_toml scenario m = Some (Inr toml) \<and>
       (if sn_observed_total m < 2 ^ 64
        then parse_rust_scenario_benchmark_duration (format_duration (sn_observed_total m)) = Inr (sn_observed_total m) else True))"
proof (cases "as_benchmark scenario")
  case (Some spec)
  note spec = this
  show ?thesis
  proof (cases "sp_measure_iterations spec = 0")
    case False
    have count: "countable_samples (length (measured_samples spec run))" and ne: "measured_samples spec run \<noteq> []"
      using False assms(2) spec by (simp_all add: countable_scenario_def measured_samples_def)
    have fits: "durations_capacity_fits (sp_measure_iterations spec)"
      using assms(2) spec by (simp add: countable_scenario_def durations_capacity_fits_def)
    show ?thesis
    proof (cases "record_samples (measured_samples spec run) measuring_start")
      case (Inr st)
      have "list_all (\<lambda>x. observation_wf (snd x)) (measured_samples spec run)"
        using assms(1) by (simp add: measured_samples_def list_all_iff)
      from record_samples_recorded [OF Inr recorded_start this] have "recorded (measured_samples spec run) st" by simp
      from measurement_of_sound [OF this count, where checks = overflow_checks and spec = spec] show ?thesis
        using sound_measurement_renders [OF spec _ ne] format_duration_read_back spec False Inr fits
        by (auto simp: measure_asp_rust_scenario_def split: option.splits sum.splits)
    qed (simp add: measure_asp_rust_scenario_def spec False fits)
  qed (simp add: measure_asp_rust_scenario_def spec)
qed (simp add: measure_asp_rust_scenario_def)

definition measured_scenario :: asp_rust_scenario where
  "measured_scenario =
     \<lparr>as_name = ''s'', as_package_name = ''p'', as_description = [], as_fixture_root = [], as_tags = [], as_commands = [],
      as_benchmark = Some \<lparr>sp_harness = ''libtest'', sp_test = ''t'', sp_snapshot = [], sp_target_total = ''1ms'', sp_max_total = ''2ms'',
        sp_regression_budget = ''1ms'', sp_memory_budget_bytes = 9, sp_target_rationale = ''r'', sp_warmup_iterations = 1,
        sp_measure_iterations = 2, sp_metrics = [\<lparr>mc_name = ''parses'', mc_unit = ''n'', mc_kind = SpecMaximum, mc_target = Some 3\<rparr>]\<rparr>\<rparr>"

definition measured_run :: "nat \<Rightarrow> nat \<times> scenario_observation" where
  "measured_run i = (7 - i, with_metric ''parses'' i (with_timing ''read'' 2 \<lparr>so_memory_bytes = i, so_phase_timings = [], so_metrics = []\<rparr>))"

lemma measured_example:
  "case measure_asp_rust_scenario True measured_scenario measured_run of
     Some (Inr m) \<Rightarrow> sn_total_p95 m = 6 \<and> sn_total_p50 m = 5 \<and> sn_metrics m = [(''parses'', 2)] | _ \<Rightarrow> False"
  by code_simp

theorem scenario_measurement_sound_witness:
  "\<exists>m spec. measure_asp_rust_scenario True measured_scenario measured_run = Some (Inr m) \<and> as_benchmark measured_scenario = Some spec \<and>
     sound_measurement spec (measured_samples spec measured_run) m \<and> sn_total_p95 m = 6 \<and> sn_total_p50 m = 5"
proof -
  have "observation_wf (snd (measured_run i))" for i
    by (simp add: observation_wf_def measured_run_def with_metric_def with_timing_def)
  moreover have "countable_scenario measured_scenario" by (simp add: countable_scenario_def measured_scenario_def)
  ultimately have "case measure_asp_rust_scenario True measured_scenario measured_run of None \<Rightarrow> False | Some (Inl _) \<Rightarrow> True
     | Some (Inr m) \<Rightarrow> (\<exists>spec toml. as_benchmark measured_scenario = Some spec \<and> sound_measurement spec (measured_samples spec measured_run) m \<and>
       render_asp_rust_scenario_benchmark_toml measured_scenario m = Some (Inr toml) \<and>
       (if sn_observed_total m < 2 ^ 64
        then parse_rust_scenario_benchmark_duration (format_duration (sn_observed_total m)) = Inr (sn_observed_total m) else True))"
    by (rule scenario_measurement_sound)
  with measured_example show ?thesis by (auto split: option.splits sum.splits)
qed

end
