(* ===== verification/Determinism_Readiness.thy ===== *)
theory Determinism_Readiness
  imports Project_Runner "HOL-Library.Multiset"
begin

text \<open>
  Direct access to clocks, randomness, files, networks, the environment and global state
  (\<open>src/verification/determinism_readiness.rs\<close>). A scan parses the files below the monitored paths of a project and turns calls,
  macros and static items into observations with a suggestion each. The string newtypes are strings.
\<close>

section \<open>Data\<close>

datatype readiness_status = Ready | NeedsInjection | Blocked | UnknownReadiness
datatype readiness_category = Clock | Random | Filesystem | Network | Environment | GlobalState
datatype evidence_kind = FunctionCall | MacroInvocation | PathReference | StaticItem
datatype readiness_severity = ReadinessInfo | ReadinessWarning | ReadinessError
datatype suggestion_kind = TraitInjection | ExplicitParameter | StateHandle | TestFixture

primrec category_as_id :: "readiness_category \<Rightarrow> string" where
  "category_as_id Clock = ''clock''"
| "category_as_id Random = ''random''"
| "category_as_id Filesystem = ''filesystem''"
| "category_as_id Network = ''network''"
| "category_as_id Environment = ''environment''"
| "category_as_id GlobalState = ''global-state''"

primrec category_rank :: "readiness_category \<Rightarrow> nat" where
  "category_rank Clock = 0"
| "category_rank Random = 1"
| "category_rank Filesystem = 2"
| "category_rank Network = 3"
| "category_rank Environment = 4"
| "category_rank GlobalState = 5"

primrec readiness_status_debug :: "readiness_status \<Rightarrow> string" where
  "readiness_status_debug Ready = ''Ready''"
| "readiness_status_debug NeedsInjection = ''NeedsInjection''"
| "readiness_status_debug Blocked = ''Blocked''"
| "readiness_status_debug UnknownReadiness = ''Unknown''"

primrec evidence_kind_debug :: "evidence_kind \<Rightarrow> string" where
  "evidence_kind_debug FunctionCall = ''FunctionCall''"
| "evidence_kind_debug MacroInvocation = ''MacroInvocation''"
| "evidence_kind_debug PathReference = ''PathReference''"
| "evidence_kind_debug StaticItem = ''StaticItem''"

record readiness_observation =
  ro_observation_id :: string
  ro_category :: readiness_category
  ro_evidence_kind :: evidence_kind
  ro_severity :: readiness_severity
  ro_summary :: string
  ro_path :: path
  ro_line :: nat
  ro_symbol :: "string option"
  ro_expression :: "string option"
  ro_source_line :: "string option"
  ro_direct :: bool
  ro_fields :: "(string \<times> string) list"

record readiness_suggestion =
  rs_kind :: suggestion_kind
  rs_category :: readiness_category
  rs_message :: string
  rs_path :: "path option"
  rs_line :: "nat option"
  rs_trait_name :: "string option"
  rs_fields :: "(string \<times> string) list"

record readiness_producer =
  rp_language_id :: string
  rp_provider_id :: string
  rp_namespace :: string

record readiness_project =
  rj_root :: path
  rj_package :: "string option"
  rj_fields :: "(string \<times> string) list"

record determinism_readiness =
  dr_schema_id :: string
  dr_schema_version :: string
  dr_protocol_id :: string
  dr_protocol_version :: string
  dr_readiness_id :: string
  dr_producer :: readiness_producer
  dr_project :: readiness_project
  dr_status :: readiness_status
  dr_observations :: "readiness_observation list"
  dr_suggestions :: "readiness_suggestion list"
  dr_candidate_ids :: "string list"
  dr_fields :: "(string \<times> string) list"

record readiness_input =
  ri_project_root :: path
  ri_include_tests :: bool

definition readiness_default_producer :: readiness_producer where
  "readiness_default_producer = \<lparr>rp_language_id = ''rust'', rp_provider_id = ''asp-rust'',
     rp_namespace = ''agent.semantic-protocols.languages.rust.asp-rust''\<rparr>"

section \<open>Classification\<close>

definition contains_utc_adjusted_datetime_type :: "string \<Rightarrow> bool" where
  "contains_utc_adjusted_datetime_type e = list_all (contains_sub e) [''Off'', ''set'', ''Date'', ''Time'']"

definition is_clock_call :: "string \<Rightarrow> string \<Rightarrow> bool" where
  "is_clock_call e terminal \<longleftrightarrow> terminal \<in> {''now'', ''now_utc'', ''now_local''} \<and>
     (contains_sub e ''SystemTime'' \<or> contains_sub e ''Instant'' \<or> contains_sub e ''Utc'' \<or> contains_sub e ''Local'' \<or>
      contains_utc_adjusted_datetime_type e)"

definition is_random_call :: "string \<Rightarrow> string \<Rightarrow> bool" where
  "is_random_call e terminal \<longleftrightarrow> starts_with e ''rand::'' \<or> starts_with e ''getrandom::'' \<or>
     terminal \<in> {''random'', ''thread_rng'', ''random_range'', ''from_entropy''}"

definition is_filesystem_call :: "string \<Rightarrow> string \<Rightarrow> bool" where
  "is_filesystem_call e terminal \<longleftrightarrow> starts_with e ''std::fs::'' \<or> starts_with e ''fs::'' \<or> starts_with e ''File::'' \<or>
     starts_with e ''std::fs::File::'' \<or> starts_with e ''OpenOptions::'' \<or>
     (contains_sub e ''fs::'' \<and> terminal \<in> {''read'', ''read_to_string'', ''write'', ''create'', ''open'', ''metadata'',
        ''canonicalize'', ''read_dir'', ''remove_file'', ''remove_dir_all''})"

definition is_network_call :: "string \<Rightarrow> bool" where
  "is_network_call e = list_ex (starts_with e)
     [''std::net::'', ''TcpStream::'', ''UdpSocket::'', ''TcpListener::'', ''reqwest::'', ''ureq::'', ''hyper::'']"

definition is_environment_call :: "string \<Rightarrow> string \<Rightarrow> bool" where
  "is_environment_call e terminal \<longleftrightarrow> (starts_with e ''std::env::'' \<or> starts_with e ''env::'') \<and>
     terminal \<in> {''var'', ''var_os'', ''vars'', ''vars_os'', ''args'', ''args_os'', ''current_dir'', ''set_var'', ''remove_var''}"

definition category_for_call :: "string \<Rightarrow> string \<Rightarrow> readiness_category option" where
  "category_for_call e terminal =
     (if is_clock_call e terminal then Some Clock
      else if is_random_call e terminal then Some Random
      else if is_filesystem_call e terminal then Some Filesystem
      else if is_network_call e then Some Network
      else if is_environment_call e terminal then Some Environment
      else None)"

definition category_for_macro :: "string \<Rightarrow> readiness_category option" where
  "category_for_macro name =
     (if name \<in> {''env'', ''option_env''} then Some Environment
      else if name \<in> {''include_str'', ''include_bytes''} then Some Filesystem else None)"

section \<open>Observations\<close>

text \<open>
  The characters of a UTF-8 text: a continuation byte belongs to the character before it, which is no ASCII character and becomes
  one dash.
\<close>

definition sanitize_char :: "char \<Rightarrow> string" where
  "sanitize_char c =
     (if 128 \<le> byte c \<and> byte c < 192 then []
      else if (CHR ''a'' \<le> c \<and> c \<le> CHR ''z'') \<or> (CHR ''A'' \<le> c \<and> c \<le> CHR ''Z'') \<or> (CHR ''0'' \<le> c \<and> c \<le> CHR ''9'')
      then to_ascii_lowercase [c]
      else if c \<in> {CHR ''.'', CHR '':'', CHR ''_'', CHR ''-''} then [c]
      else ''-'')"

definition sanitize_id_part :: "string \<Rightarrow> string" where
  "sanitize_id_part v = (let sanitized = concat (map sanitize_char v) in if sanitized = [] then ''x'' else sanitized)"

definition readiness_source_line :: "string \<Rightarrow> nat \<Rightarrow> string option" where
  "readiness_source_line src n =
     (case nth_opt (str_lines src) (n - 1) of
        None \<Rightarrow> None
      | Some l \<Rightarrow> if trim l = [] then None else Some (trim l))"

definition project_relative_path :: "host \<Rightarrow> path \<Rightarrow> path \<Rightarrow> path" where
  "project_relative_path h project_root p =
     (let root = (case host_canonicalize h project_root of Some r \<Rightarrow> r | None \<Rightarrow> project_root);
          source = (case host_canonicalize h p of Some r \<Rightarrow> r | None \<Rightarrow> p)
      in case strip_prefix source root of
           Some r \<Rightarrow> r
         | None \<Rightarrow> (case strip_prefix p project_root of Some r \<Rightarrow> r | None \<Rightarrow> p))"

definition summary_for_category :: "readiness_category \<Rightarrow> string option \<Rightarrow> string" where
  "summary_for_category c e =
     (let subject = (case e of Some s \<Rightarrow> s | None \<Rightarrow> ''direct source'') in
      (case c of
         Clock \<Rightarrow> ''Direct clock read uses ''
       | Random \<Rightarrow> ''Direct random source uses ''
       | Filesystem \<Rightarrow> ''Direct filesystem access uses ''
       | Network \<Rightarrow> ''Direct network access uses ''
       | Environment \<Rightarrow> ''Direct environment access uses ''
       | GlobalState \<Rightarrow> ''Direct global state declaration uses '') @ subject @ ''.'')"

definition observation_of ::
  "host \<Rightarrow> path \<Rightarrow> parsed_module \<Rightarrow> readiness_category \<Rightarrow> evidence_kind \<Rightarrow> nat \<Rightarrow> string option \<Rightarrow> string option \<Rightarrow> readiness_observation" where
  "observation_of h project_root m c k n symb e =
     (let relative = project_relative_path h project_root (pm_path m) in
      \<lparr>ro_observation_id = category_as_id c @ '':'' @ sanitize_id_part (display relative) @ '':'' @ show_nat n,
       ro_category = c, ro_evidence_kind = k, ro_severity = ReadinessWarning, ro_summary = summary_for_category c e,
       ro_path = relative, ro_line = max n 1, ro_symbol = symb, ro_expression = e,
       ro_source_line = readiness_source_line (pm_source m) n, ro_direct = True,
       ro_fields = [(''detection'', ''parser-owned-direct'')]\<rparr>)"

text \<open>\<open>max_by_key\<close> returns the last of the greatest elements.\<close>

definition last_longest :: "path_reference list \<Rightarrow> path_reference option" where
  "last_longest refs = fold (\<lambda>r best. case best of
       None \<Rightarrow> Some r
     | Some b \<Rightarrow> if length (ref_segments b) \<le> length (ref_segments r) then Some r else Some b) refs None"

definition expression_for_line_and_terminal :: "parsed_module \<Rightarrow> nat \<Rightarrow> string \<Rightarrow> string option" where
  "expression_for_line_and_terminal m n terminal =
     map_option (\<lambda>r. join_with ''::'' (ref_segments r))
       (last_longest (filter (\<lambda>r. ref_line r = n \<and> ref_terminal_name r = terminal) (path_references (pm_syntax_facts m))))"

definition call_expression :: "parsed_module \<Rightarrow> invocation \<Rightarrow> string" where
  "call_expression m call =
     (case expression_for_line_and_terminal m (inv_line call) (inv_terminal_name call) of
        Some e \<Rightarrow> e | None \<Rightarrow> inv_terminal_name call)"

definition observations_for_module :: "host \<Rightarrow> path \<Rightarrow> parsed_module \<Rightarrow> readiness_observation list" where
  "observations_for_module h project_root m =
     (if \<not> module_is_valid (pm_report m) then []
      else
        List.map_filter (\<lambda>call. map_option (\<lambda>c. observation_of h project_root m c FunctionCall (inv_line call)
            (Some (inv_terminal_name call)) (Some (call_expression m call)))
          (category_for_call (call_expression m call) (inv_terminal_name call))) (function_calls (pm_syntax_facts m)) @
        List.map_filter (\<lambda>i. map_option (\<lambda>c. observation_of h project_root m c MacroInvocation (inv_line i)
            (Some (inv_terminal_name i)) (Some (inv_terminal_name i @ ''!'')))
          (category_for_macro (inv_terminal_name i))) (macro_invocations (pm_syntax_facts m)) @
        map (\<lambda>i. observation_of h project_root m GlobalState StaticItem (item_line i) (item_name i)
            (map_option (\<lambda>name. ''static '' @ name) (item_name i)))
          (filter (\<lambda>i. item_kind i = ''static'') (top_level_items (pm_syntax_facts m))))"

definition suggestion_for_observation :: "readiness_observation \<Rightarrow> readiness_suggestion" where
  "suggestion_for_observation o1 =
     (let (k, trait, message) =
        (case ro_category o1 of
           Clock \<Rightarrow> (TraitInjection, Some ''Clock'', ''Inject a clock provider trait instead of reading time directly.'')
         | Random \<Rightarrow> (TraitInjection, Some ''RandomSource'',
             ''Inject a random source trait or deterministic seed instead of reading randomness directly.'')
         | Filesystem \<Rightarrow> (TraitInjection, Some ''Filesystem'',
             ''Inject a filesystem boundary or explicit path/content parameter instead of reading files directly.'')
         | Network \<Rightarrow> (TraitInjection, Some ''NetworkClient'',
             ''Inject a network client trait instead of opening network connections directly.'')
         | Environment \<Rightarrow> (ExplicitParameter, None,
             ''Pass environment-derived values explicitly instead of reading process environment directly.'')
         | GlobalState \<Rightarrow> (StateHandle, None,
             ''Move static state behind an explicit state handle or resettable test fixture.''))
      in \<lparr>rs_kind = k, rs_category = ro_category o1, rs_message = message, rs_path = Some (ro_path o1), rs_line = Some (ro_line o1),
          rs_trait_name = trait, rs_fields = []\<rparr>)"

section \<open>The packet\<close>

definition renumber :: "nat \<times> readiness_observation \<Rightarrow> readiness_observation" where
  "renumber = (\<lambda>(index, o1). o1\<lparr>ro_observation_id :=
     category_as_id (ro_category o1) @ '':'' @ sanitize_id_part (display (ro_path o1)) @ '':'' @ show_nat (index + 1)\<rparr>)"

definition readiness_modules :: "host \<Rightarrow> readiness_input \<Rightarrow> parsed_module list" where
  "readiness_modules h i =
     (let config = default_config\<lparr>include_tests := ri_include_tests i\<rparr>
      in parse_paths h (monitored_paths (config_scope h (ri_project_root i) config)) config)"

definition readiness_packet :: "readiness_observation list \<Rightarrow> determinism_readiness" where
  "readiness_packet obs =
     \<lparr>dr_schema_id = ''agent.semantic-protocols.semantic-determinism-readiness'', dr_schema_version = ''1'',
      dr_protocol_id = ''agent.semantic-protocols.determinism-readiness'', dr_protocol_version = ''1'',
      dr_readiness_id = ''rust.determinism-readiness.project'', dr_producer = readiness_default_producer,
      dr_project = \<lparr>rj_root = [CurDir], rj_package = None, rj_fields = []\<rparr>,
      dr_status = (if obs = [] then Ready else NeedsInjection), dr_observations = obs,
      dr_suggestions = map suggestion_for_observation obs, dr_candidate_ids = [], dr_fields = []\<rparr>"

definition build_rust_determinism_readiness :: "host \<Rightarrow> readiness_input \<Rightarrow> determinism_readiness result" where
  "build_rust_determinism_readiness h i =
     (if \<not> host_exists h (ri_project_root i) then Err (''project root does not exist: '' @ display (ri_project_root i))
      else Ok (readiness_packet (map renumber (enumerate 0
        (sort_key (\<lambda>o1. (ro_path o1, ro_line o1, category_rank (ro_category o1), ro_observation_id o1))
          (concat (map (observations_for_module h (ri_project_root i)) (readiness_modules h i))))))))"

definition render_rust_determinism_readiness :: "determinism_readiness \<Rightarrow> string" where
  "render_rust_determinism_readiness r =
     ''[determinism-readiness] status='' @ readiness_status_debug (dr_status r) @
     '' observations='' @ show_nat (length (dr_observations r)) @ '' suggestions='' @ show_nat (length (dr_suggestions r)) @ [CHR 0x0A] @
     concat (map (\<lambda>o1. ''|observation category='' @ category_as_id (ro_category o1) @ '' evidence='' @ evidence_kind_debug (ro_evidence_kind o1) @
       '' path='' @ display (ro_path o1) @ '' line='' @ show_nat (ro_line o1) @ '' summary='' @ ro_summary o1 @ [CHR 0x0A]) (dr_observations r))"

section \<open>Observations are told apart and none is lost\<close>

lemma show_nat_no_colon: "CHR '':'' \<notin> set (show_nat n)"
  using show_nat_digits [of "CHR '':''" n] by auto

text \<open>The text after the last colon of an id is its number.\<close>

lemma last_number_inject:
  assumes "xs @ '':'' @ show_nat m = ys @ '':'' @ show_nat n"
  shows "m = n"
proof -
  have rev: "takeWhile (\<lambda>c. c \<noteq> CHR '':'') (rev (zs @ '':'' @ show_nat k)) = rev (show_nat k)" for zs k
  proof -
    have "c \<noteq> CHR '':''" if "c \<in> set (rev (show_nat k))" for c using that show_nat_no_colon [of k] by auto
    then have "takeWhile (\<lambda>c. c \<noteq> CHR '':'') (rev (show_nat k) @ rev (zs @ '':'')) =
        rev (show_nat k) @ takeWhile (\<lambda>c. c \<noteq> CHR '':'') (rev (zs @ '':''))" by (rule takeWhile_append2)
    then show ?thesis by simp
  qed
  from rev [of xs m] rev [of ys n] assms have "show_nat m = show_nat n" by (metis rev_rev_ident)
  then show ?thesis by simp
qed

lemma renumbered_ids_distinct: "distinct (map (ro_observation_id \<circ> renumber) (enumerate k obs))"
proof (induction obs arbitrary: k)
  case (Cons o1 obs)
  have "ro_observation_id (renumber (k, o1)) \<noteq> ro_observation_id (renumber (j, o2))" if "Suc k \<le> j" for j o2
    using that last_number_inject [of "category_as_id (ro_category o1) @ '':'' @ sanitize_id_part (display (ro_path o1))" "k + 1"
        "category_as_id (ro_category o2) @ '':'' @ sanitize_id_part (display (ro_path o2))" "j + 1"]
    by (auto simp: renumber_def)
  then have "ro_observation_id (renumber (k, o1)) \<noteq> ro_observation_id (renumber p)" if "p \<in> set (enumerate (Suc k) obs)" for p
    using that by (cases p) (simp add: in_set_enumerate_eq)
  then have "ro_observation_id (renumber (k, o1)) \<notin> set (map (ro_observation_id \<circ> renumber) (enumerate (Suc k) obs))"
    unfolding set_map image_iff comp_apply by blast
  then show ?case using Cons.IH [of "Suc k"] by (simp only: enumerate_simps list.map distinct.simps comp_apply) simp
qed simp

lemma renumber_same:
  "ro_category (renumber (k, o1)) = ro_category o1" "ro_path (renumber (k, o1)) = ro_path o1" "ro_line (renumber (k, o1)) = ro_line o1"
  by (simp_all add: renumber_def)

text \<open>What makes a module depend on the outside.\<close>

definition direct_access :: "parsed_module \<Rightarrow> bool" where
  "direct_access m \<longleftrightarrow> module_is_valid (pm_report m) \<and>
     (list_ex (\<lambda>call. category_for_call (call_expression m call) (inv_terminal_name call) \<noteq> None) (function_calls (pm_syntax_facts m)) \<or>
      list_ex (\<lambda>i. category_for_macro (inv_terminal_name i) \<noteq> None) (macro_invocations (pm_syntax_facts m)) \<or>
      list_ex (\<lambda>i. item_kind i = ''static'') (top_level_items (pm_syntax_facts m)))"

lemma observations_for_module_empty_iff: "observations_for_module h root m = [] \<longleftrightarrow> \<not> direct_access m"
proof -
  have none: "List.map_filter (\<lambda>x. map_option (g x) (f x)) xs = [] \<longleftrightarrow> \<not> list_ex (\<lambda>x. f x \<noteq> None) xs"
    for f :: "'a \<Rightarrow> 'b option" and g :: "'a \<Rightarrow> 'b \<Rightarrow> 'c" and xs
    by (auto simp: List.map_filter_def filter_empty_conv list_ex_iff)
  show ?thesis
    by (auto simp: observations_for_module_def direct_access_def none filter_empty_conv list_ex_iff)
qed

text \<open>
  C21: a readiness scan of an existing project is exact: it reports ready exactly when no valid module of the project calls,
  expands or declares a source of nondeterminism, its observations are those of the modules in order of path and line, their ids
  are pairwise different, and each has one suggestion for its category, path and line.
\<close>

theorem readiness_scan_exact:
  "case build_rust_determinism_readiness h i of
     Inl _ \<Rightarrow> \<not> host_exists h (ri_project_root i)
   | Inr r \<Rightarrow>
       host_exists h (ri_project_root i) \<and>
       (dr_status r = Ready \<longleftrightarrow> \<not> list_ex direct_access (readiness_modules h i)) \<and>
       sorted (map (\<lambda>o1. (ro_path o1, ro_line o1)) (dr_observations r)) \<and>
       mset (map (\<lambda>o1. (ro_category o1, ro_path o1, ro_line o1, ro_expression o1)) (dr_observations r)) =
         mset (map (\<lambda>o1. (ro_category o1, ro_path o1, ro_line o1, ro_expression o1))
           (concat (map (observations_for_module h (ri_project_root i)) (readiness_modules h i)))) \<and>
       distinct (map ro_observation_id (dr_observations r)) \<and>
       map (\<lambda>s. (rs_category s, rs_path s, rs_line s)) (dr_suggestions r) =
         map (\<lambda>o1. (ro_category o1, Some (ro_path o1), Some (ro_line o1))) (dr_observations r)"
proof (cases "host_exists h (ri_project_root i)")
  case False
  then show ?thesis by (simp add: build_rust_determinism_readiness_def)
next
  case True
  define found where "found = concat (map (observations_for_module h (ri_project_root i)) (readiness_modules h i))"
  define key where "key = (\<lambda>o1 :: readiness_observation. (ro_path o1, ro_line o1, category_rank (ro_category o1), ro_observation_id o1))"
  define obs where "obs = map renumber (enumerate 0 (sort_key key found))"
  have built: "build_rust_determinism_readiness h i = Ok (readiness_packet obs)"
    using True by (simp add: build_rust_determinism_readiness_def obs_def key_def found_def)
  have same: "map (\<lambda>o1. f (ro_path o1) (ro_line o1) (ro_category o1) (ro_expression o1)) obs =
      map (\<lambda>o1. f (ro_path o1) (ro_line o1) (ro_category o1) (ro_expression o1)) (sort_key key found)" for f
  proof -
    have "map (\<lambda>o1. f (ro_path o1) (ro_line o1) (ro_category o1) (ro_expression o1)) (map renumber (enumerate k xs)) =
      map (\<lambda>o1. f (ro_path o1) (ro_line o1) (ro_category o1) (ro_expression o1)) xs" for k xs
      by (induction xs arbitrary: k) (simp_all add: renumber_def)
    then show ?thesis unfolding obs_def .
  qed
  have "sorted (map (\<lambda>o1. (ro_path o1, ro_line o1)) (sort_key key found))"
  proof -
    have "(ro_path a, ro_line a) \<le> (ro_path b, ro_line b)" if "key a \<le> key b" for a b
      using that unfolding key_def less_eq_prod_simp by (blast intro: less_imp_le)
    with sorted_sort_key [of key found] show ?thesis unfolding sorted_map by (rule sorted_wrt_mono_rel [rotated]) blast
  qed
  then have sorted: "sorted (map (\<lambda>o1. (ro_path o1, ro_line o1)) obs)" using same [of "\<lambda>p l _ _. (p, l)"] by simp
  have bag: "mset (map (\<lambda>o1. (ro_category o1, ro_path o1, ro_line o1, ro_expression o1)) obs) =
      mset (map (\<lambda>o1. (ro_category o1, ro_path o1, ro_line o1, ro_expression o1)) found)"
    using same [of "\<lambda>p l c e. (c, p, l, e)"] by (simp add: mset_map)
  have "length obs = length found" by (simp add: obs_def)
  then have "obs = [] \<longleftrightarrow> found = []" by (simp only: flip: length_0_conv)
  also have "\<dots> \<longleftrightarrow> \<not> list_ex direct_access (readiness_modules h i)"
    by (auto simp: found_def observations_for_module_empty_iff list_ex_iff)
  finally have "dr_status (readiness_packet obs) = Ready \<longleftrightarrow> \<not> list_ex direct_access (readiness_modules h i)"
    by (simp add: readiness_packet_def)
  moreover have "distinct (map ro_observation_id obs)" using renumbered_ids_distinct [of 0] by (simp add: obs_def)
  moreover have "map (\<lambda>s. (rs_category s, rs_path s, rs_line s)) (map suggestion_for_observation obs) =
      map (\<lambda>o1. (ro_category o1, Some (ro_path o1), Some (ro_line o1))) obs"
    by (simp add: suggestion_for_observation_def Let_def case_prod_beta)
  moreover have packet: "dr_observations (readiness_packet obs) = obs" "dr_suggestions (readiness_packet obs) = map suggestion_for_observation obs"
    by (simp_all add: readiness_packet_def)
  ultimately show ?thesis unfolding built sum.case packet found_def [symmetric] using True sorted bag by blast
qed

end
