(* ===== verification/Review_Packet.thy ===== *)
theory Review_Packet
  imports Execution_Evidence Determinism_Readiness Formal_Proof_Pilot
begin

text \<open>
  Review packets (\<open>src/verification/review_packet/\<close>): what a reviewer has to look at, from the invariant candidates of a report,
  the receipts of executed tools, behaviour snapshots, readiness scans, proof pilots and waivers. The sets of evidence are lists
  of which only membership is asked.
\<close>

section \<open>Data\<close>

datatype review_severity = ReviewInfo | ReviewWarning | ReviewError
datatype review_invariant_kind =
    ReviewPrimitiveIdentifierBoundary
  | ReviewPublicDataPrimitiveFields
  | ReviewAnonymousTupleApiSurface
  | ReviewPrimitiveTypeAliasBoundary
  | ReviewStringlyStateBoundary
  | ReviewParserFact
  | ReviewPublicApiShape
  | ReviewModuleReasoningTree
  | ReviewDependencyGraphAcyclicity
  | ReviewCustom
datatype review_receipt_kind =
    RunCargoCheck | RunCargoTest | RunClippy | RunExpectTest | RunProptest | RunCargoFuzz | RunKani | RunCreusot | RunVerus | RunWaiver
datatype review_behavior_status = BehaviorChanged | BehaviorMissing | BehaviorSkipped | BehaviorError
datatype review_waiver_status = WaiverCurrent | WaiverStale | WaiverExpired
datatype review_determinism_status = DeterminismReady | DeterminismNeedsInjection | DeterminismBlocked | DeterminismUnknown
datatype review_proof_status = ReviewProved | ReviewProvedBounded | ReviewFailed | ReviewSkipped | ReviewUnknown
datatype review_action_kind = VerifyInvariant | InspectBehavior | RunReceipt | RefreshWaiver | AddressDeterminism | InspectProof
datatype review_action_priority = P0 | P1 | P2 | P3

type_synonym review_fields = "(string \<times> string) list"

record review_location =
  rl_path :: "path option"
  rl_line :: nat
  rl_column :: nat

record changed_invariant =
  ci_invariant_id :: string
  ci_source_rule_id :: string
  ci_kind :: review_invariant_kind
  ci_severity :: review_severity
  ci_title :: string
  ci_hypothesis :: string
  ci_location :: review_location
  ci_required_receipts :: "review_receipt_kind list"
  ci_fields :: review_fields

record changed_behavior =
  cb_snapshot_id :: string
  cb_status :: review_behavior_status
  cb_subject :: string
  cb_summary :: string
  cb_receipt_ids :: "string list"
  cb_candidate_ids :: "string list"
  cb_fields :: review_fields

record missing_receipt =
  mr_invariant_id :: string
  mr_receipt_kind :: review_receipt_kind
  mr_reason :: string
  mr_fields :: review_fields

record review_waiver =
  rw_waiver_id :: string
  rw_invariant_id :: string
  rw_receipt_kind :: review_receipt_kind
  rw_status :: review_waiver_status
  rw_owner :: string
  rw_reason :: string
  rw_expires_at :: "string option"
  rw_fields :: review_fields

record determinism_summary =
  dm_readiness_id :: string
  dm_status :: review_determinism_status
  dm_observations :: nat
  dm_suggestions :: nat
  dm_fields :: review_fields

record proof_summary =
  py_proof_id :: string
  py_target :: string
  py_status :: review_proof_status
  py_claims :: nat
  py_checks :: nat
  py_fields :: review_fields

record review_action =
  ra_action_id :: string
  ra_kind :: review_action_kind
  ra_priority :: review_action_priority
  ra_summary :: string
  ra_target_id :: "string option"
  ra_fields :: review_fields

record review_summary =
  rsu_changed_invariants :: nat
  rsu_changed_behavior :: nat
  rsu_missing_receipts :: nat
  rsu_stale_waivers :: nat
  rsu_determinism_observations :: nat
  rsu_proof_claims :: nat
  rsu_fields :: review_fields

record review_producer =
  rpr_language_id :: string
  rpr_provider_id :: string
  rpr_namespace :: string

record review_project =
  rpj_root :: path
  rpj_package :: "string option"
  rpj_fields :: review_fields

record review_packet =
  rpk_schema_id :: string
  rpk_schema_version :: string
  rpk_protocol_id :: string
  rpk_protocol_version :: string
  rpk_packet_id :: string
  rpk_producer :: review_producer
  rpk_project :: review_project
  rpk_summary :: review_summary
  rpk_changed_invariants :: "changed_invariant list"
  rpk_changed_behavior :: "changed_behavior list"
  rpk_missing_receipts :: "missing_receipt list"
  rpk_stale_waivers :: "review_waiver list"
  rpk_determinism_readiness :: "determinism_summary list"
  rpk_proof_pilots :: "proof_summary list"
  rpk_review_actions :: "review_action list"
  rpk_fields :: review_fields

record review_input =
  rvi_project_root :: path
  rvi_report :: asp_rust_report
  rvi_receipts :: "execution_receipt list"
  rvi_behavior_snapshots :: "behavior_snapshot list"
  rvi_determinism_readiness :: "determinism_readiness list"
  rvi_proof_pilots :: "formal_proof_pilot list"
  rvi_waivers :: "review_waiver list"

section \<open>Translations of enumerations\<close>

primrec review_severity_of :: "severity \<Rightarrow> review_severity" where
  "review_severity_of SeverityInfo = ReviewInfo"
| "review_severity_of SeverityWarning = ReviewWarning"
| "review_severity_of SeverityError = ReviewError"

primrec review_invariant_kind_of :: "invariant_kind \<Rightarrow> review_invariant_kind" where
  "review_invariant_kind_of PrimitiveIdentifierBoundary = ReviewPrimitiveIdentifierBoundary"
| "review_invariant_kind_of PublicDataPrimitiveFields = ReviewPublicDataPrimitiveFields"
| "review_invariant_kind_of AnonymousTupleApiSurface = ReviewAnonymousTupleApiSurface"
| "review_invariant_kind_of PrimitiveTypeAliasBoundary = ReviewPrimitiveTypeAliasBoundary"
| "review_invariant_kind_of StringlyStateBoundary = ReviewStringlyStateBoundary"
| "review_invariant_kind_of InvariantParserFact = ReviewParserFact"
| "review_invariant_kind_of PublicApiShape = ReviewPublicApiShape"
| "review_invariant_kind_of ModuleReasoningTree = ReviewModuleReasoningTree"
| "review_invariant_kind_of DependencyGraphAcyclicity = ReviewDependencyGraphAcyclicity"
| "review_invariant_kind_of InvariantCustom = ReviewCustom"

primrec review_receipt_kind_of :: "invariant_receipt_kind \<Rightarrow> review_receipt_kind" where
  "review_receipt_kind_of invariant_receipt_kind.CargoCheck = RunCargoCheck"
| "review_receipt_kind_of invariant_receipt_kind.CargoTest = RunCargoTest"
| "review_receipt_kind_of invariant_receipt_kind.Clippy = RunClippy"
| "review_receipt_kind_of invariant_receipt_kind.ExpectTest = RunExpectTest"
| "review_receipt_kind_of invariant_receipt_kind.Proptest = RunProptest"
| "review_receipt_kind_of invariant_receipt_kind.CargoFuzz = RunCargoFuzz"
| "review_receipt_kind_of invariant_receipt_kind.Kani = RunKani"
| "review_receipt_kind_of invariant_receipt_kind.Creusot = RunCreusot"
| "review_receipt_kind_of invariant_receipt_kind.Verus = RunVerus"
| "review_receipt_kind_of WaiverReceipt = RunWaiver"

primrec receipt_tool_kind :: "execution_tool \<Rightarrow> review_receipt_kind" where
  "receipt_tool_kind ToolCargoCheck = RunCargoCheck"
| "receipt_tool_kind ToolCargoTest = RunCargoTest"
| "receipt_tool_kind ToolClippy = RunClippy"
| "receipt_tool_kind ToolExpectTest = RunExpectTest"
| "receipt_tool_kind ToolProptest = RunProptest"
| "receipt_tool_kind ToolCargoFuzz = RunCargoFuzz"
| "receipt_tool_kind ToolKani = RunKani"
| "receipt_tool_kind ToolCreusot = RunCreusot"
| "receipt_tool_kind ToolVerus = RunVerus"

primrec receipt_kind_id :: "review_receipt_kind \<Rightarrow> string" where
  "receipt_kind_id RunCargoCheck = ''cargo-check''"
| "receipt_kind_id RunCargoTest = ''cargo-test''"
| "receipt_kind_id RunClippy = ''clippy''"
| "receipt_kind_id RunExpectTest = ''expect-test''"
| "receipt_kind_id RunProptest = ''proptest''"
| "receipt_kind_id RunCargoFuzz = ''cargo-fuzz''"
| "receipt_kind_id RunKani = ''kani''"
| "receipt_kind_id RunCreusot = ''creusot''"
| "receipt_kind_id RunVerus = ''verus''"
| "receipt_kind_id RunWaiver = ''waiver''"

primrec invariant_candidate_status :: "invariant_status \<Rightarrow> string" where
  "invariant_candidate_status Candidate = ''candidate''"
| "invariant_candidate_status Accepted = ''accepted''"
| "invariant_candidate_status Verified = ''verified''"
| "invariant_candidate_status InvariantWaived = ''waived''"
| "invariant_candidate_status Stale = ''stale''"

primrec determinism_status_of :: "readiness_status \<Rightarrow> review_determinism_status" where
  "determinism_status_of Ready = DeterminismReady"
| "determinism_status_of NeedsInjection = DeterminismNeedsInjection"
| "determinism_status_of Blocked = DeterminismBlocked"
| "determinism_status_of UnknownReadiness = DeterminismUnknown"

primrec proof_status_of :: "pilot_status \<Rightarrow> review_proof_status" where
  "proof_status_of PilotProved = ReviewProved"
| "proof_status_of PilotProvedBounded = ReviewProvedBounded"
| "proof_status_of PilotFailed = ReviewFailed"
| "proof_status_of PilotSkipped = ReviewSkipped"
| "proof_status_of PilotUnknown = ReviewUnknown"

primrec priority_for_severity :: "review_severity \<Rightarrow> review_action_priority" where
  "priority_for_severity ReviewError = P1"
| "priority_for_severity ReviewWarning = P1"
| "priority_for_severity ReviewInfo = P2"

section \<open>Parts of a packet\<close>

definition review_relative_path :: "path \<Rightarrow> path \<Rightarrow> path option" where
  "review_relative_path project_root p =
     (if p = [CurDir] then Some [CurDir]
      else if is_absolute p then (case strip_prefix p project_root of
          Some relative \<Rightarrow> if relative = [] then None else Some relative | None \<Rightarrow> None)
      else Some p)"

definition review_location_of :: "path \<Rightarrow> source_location \<Rightarrow> review_location" where
  "review_location_of project_root l =
     \<lparr>rl_path = Option.bind (loc_path l) (review_relative_path project_root), rl_line = max (loc_line l) 1, rl_column = loc_column l\<rparr>"

definition changed_invariant_of :: "path \<Rightarrow> invariant_candidate \<Rightarrow> changed_invariant" where
  "changed_invariant_of project_root c =
     \<lparr>ci_invariant_id = invariant_id c, ci_source_rule_id = source_rule_id c, ci_kind = review_invariant_kind_of (invariant_kind_of c),
      ci_severity = review_severity_of (invariant_severity c), ci_title = invariant_title c, ci_hypothesis = hypothesis c,
      ci_location = review_location_of project_root (invariant_location c),
      ci_required_receipts = map review_receipt_kind_of (required_receipts c),
      ci_fields = [(''rulePackId'', rule_pack_id_of c), (''status'', invariant_candidate_status (invariant_status_of c))]\<rparr>"

definition passed_receipt_evidence :: "execution_receipt list \<Rightarrow> (string \<times> review_receipt_kind) list" where
  "passed_receipt_evidence rs =
     concat (map (\<lambda>r. map (\<lambda>candidate_id. (candidate_id, receipt_tool_kind (xr_tool r))) (xr_candidate_ids r))
       (filter (\<lambda>r. xr_status r = ExecutionPassed) rs))"

definition current_waiver_evidence :: "review_waiver list \<Rightarrow> (string \<times> review_receipt_kind) list" where
  "current_waiver_evidence ws = map (\<lambda>w. (rw_invariant_id w, rw_receipt_kind w)) (filter (\<lambda>w. rw_status w = WaiverCurrent) ws)"

definition missing_receipts_for_candidate ::
  "(string \<times> review_receipt_kind) list \<Rightarrow> (string \<times> review_receipt_kind) list \<Rightarrow> invariant_candidate \<Rightarrow> missing_receipt list" where
  "missing_receipts_for_candidate passed waived c =
     map (\<lambda>k. \<lparr>mr_invariant_id = invariant_id c, mr_receipt_kind = k,
         mr_reason = ''no passed '' @ receipt_kind_id k @ '' receipt linked to candidate'', mr_fields = []\<rparr>)
       (filter (\<lambda>k. (invariant_id c, k) \<notin> set passed \<and> (invariant_id c, k) \<notin> set waived)
         (map review_receipt_kind_of (required_receipts c)))"

definition behavior_subject :: "behavior_snapshot \<Rightarrow> string" where
  "behavior_subject s =
     (case ss_symbol (bs_subject s) of
        Some symb \<Rightarrow> display (ss_path (bs_subject s)) @ ''::'' @ symb
      | None \<Rightarrow> display (ss_path (bs_subject s)))"

definition behavior_status_of :: "snapshot_status \<Rightarrow> review_behavior_status option" where
  "behavior_status_of st =
     (case st of
        SnapshotMatched \<Rightarrow> None
      | SnapshotChanged \<Rightarrow> Some BehaviorChanged
      | SnapshotMissing \<Rightarrow> Some BehaviorMissing
      | SnapshotSkipped \<Rightarrow> Some BehaviorSkipped
      | SnapshotError \<Rightarrow> Some BehaviorError)"

definition changed_behavior_of :: "behavior_snapshot \<Rightarrow> changed_behavior option" where
  "changed_behavior_of s =
     map_option (\<lambda>st. \<lparr>cb_snapshot_id = bs_snapshot_id s, cb_status = st, cb_subject = behavior_subject s,
         cb_summary = (case bs_observations s of [] \<Rightarrow> ''behavior snapshot needs review'' | observation # _ \<Rightarrow> so_message observation),
         cb_receipt_ids = bs_receipt_ids s, cb_candidate_ids = bs_candidate_ids s, cb_fields = []\<rparr>)
       (behavior_status_of (bs_status s))"

definition determinism_summary_of :: "determinism_readiness \<Rightarrow> determinism_summary" where
  "determinism_summary_of r =
     \<lparr>dm_readiness_id = dr_readiness_id r, dm_status = determinism_status_of (dr_status r),
      dm_observations = length (dr_observations r), dm_suggestions = length (dr_suggestions r), dm_fields = []\<rparr>"

definition proof_summary_of :: "formal_proof_pilot \<Rightarrow> proof_summary" where
  "proof_summary_of p =
     \<lparr>py_proof_id = pilot_proof_id p, py_target = Formal_Proof_Pilot.target_name (pilot_target_of p),
      py_status = proof_status_of (pilot_status_of p), py_claims = length (pilot_claims p), py_checks = length (pilot_checks p), py_fields = []\<rparr>"

section \<open>Action ids\<close>

text \<open>A character that is no ASCII letter or digit becomes one dash; a continuation byte belongs to the character before it.\<close>

definition review_sanitize_char :: "char \<Rightarrow> string" where
  "review_sanitize_char c =
     (if 128 \<le> byte c \<and> byte c < 192 then []
      else if (CHR ''a'' \<le> c \<and> c \<le> CHR ''z'') \<or> (CHR ''A'' \<le> c \<and> c \<le> CHR ''Z'') \<or> (CHR ''0'' \<le> c \<and> c \<le> CHR ''9'')
      then to_ascii_lowercase [c]
      else ''-'')"

text \<open>\<open>replace\<close> of two dashes by one, from left to right.\<close>

fun halve_dashes :: "string \<Rightarrow> string" where
  "halve_dashes (c # d # s) = (if c = CHR ''-'' \<and> d = CHR ''-'' then CHR ''-'' # halve_dashes s else c # halve_dashes (d # s))"
| "halve_dashes s = s"

lemma halve_dashes_shorter: "length (halve_dashes s) \<le> length s \<and> (contains_sub s ''--'' \<longrightarrow> length (halve_dashes s) < length s)"
  by (induction s rule: halve_dashes.induct) (auto simp: contains_sub_iff Cons_eq_append_conv)

function collapse_dashes :: "string \<Rightarrow> string" where
  "collapse_dashes s = (if contains_sub s ''--'' then collapse_dashes (halve_dashes s) else s)"
  by pat_completeness auto
termination
  by (relation "measure length") (simp_all add: halve_dashes_shorter)

declare collapse_dashes.simps [simp del]

definition review_sanitize_id_part :: "string \<Rightarrow> string" where
  "review_sanitize_id_part v = trim_matches_char CHR ''-'' (collapse_dashes (concat (map review_sanitize_char v)))"

section \<open>Actions\<close>

definition review_action_of :: "string \<Rightarrow> review_action_kind \<Rightarrow> review_action_priority \<Rightarrow> string \<Rightarrow> string \<Rightarrow> review_action" where
  "review_action_of action_id k priority summary1 target =
     \<lparr>ra_action_id = action_id, ra_kind = k, ra_priority = priority, ra_summary = summary1, ra_target_id = Some target, ra_fields = []\<rparr>"

definition review_actions ::
  "changed_invariant list \<Rightarrow> changed_behavior list \<Rightarrow> missing_receipt list \<Rightarrow> review_waiver list \<Rightarrow> determinism_summary list \<Rightarrow>
   proof_summary list \<Rightarrow> review_action list" where
  "review_actions invariants behaviors missing stale readiness proofs =
     map (\<lambda>c. review_action_of (''verify-invariant.'' @ review_sanitize_id_part (ci_invariant_id c)) VerifyInvariant
       (priority_for_severity (ci_severity c)) (''Review invariant '' @ ci_invariant_id c) (ci_invariant_id c)) invariants @
     map (\<lambda>m. review_action_of (''run-receipt.'' @ review_sanitize_id_part (mr_invariant_id m) @ ''.'' @ receipt_kind_id (mr_receipt_kind m))
       RunReceipt P0 (''Run '' @ receipt_kind_id (mr_receipt_kind m) @ '' for '' @ mr_invariant_id m) (mr_invariant_id m)) missing @
     map (\<lambda>b. review_action_of (''inspect-behavior.'' @ review_sanitize_id_part (cb_snapshot_id b)) InspectBehavior P1
       (''Inspect behavior snapshot '' @ cb_snapshot_id b) (cb_snapshot_id b)) behaviors @
     map (\<lambda>w. review_action_of (''refresh-waiver.'' @ review_sanitize_id_part (rw_waiver_id w)) RefreshWaiver P1
       (''Refresh waiver '' @ rw_waiver_id w) (rw_waiver_id w)) stale @
     map (\<lambda>r. review_action_of (''address-determinism.'' @ review_sanitize_id_part (dm_readiness_id r)) AddressDeterminism P1
       (''Address '' @ show_nat (dm_observations r) @ '' determinism observations'') (dm_readiness_id r))
       (filter (\<lambda>r. dm_status r = DeterminismNeedsInjection) readiness) @
     map (\<lambda>p. review_action_of (''inspect-proof.'' @ review_sanitize_id_part (py_proof_id p)) InspectProof P0
       (''Inspect failed proof pilot '' @ py_proof_id p) (py_proof_id p))
       (filter (\<lambda>p. py_status p = ReviewFailed) proofs)"

section \<open>The packet\<close>

definition build_rust_review_packet :: "review_input \<Rightarrow> review_packet" where
  "build_rust_review_packet i =
     (let candidates = invariant_candidates (rvi_report i);
          invariants = map (changed_invariant_of (rvi_project_root i)) candidates;
          missing = concat (map (missing_receipts_for_candidate (passed_receipt_evidence (rvi_receipts i))
            (current_waiver_evidence (rvi_waivers i))) candidates);
          behaviors = List.map_filter changed_behavior_of (rvi_behavior_snapshots i);
          stale = filter (\<lambda>w. rw_status w \<noteq> WaiverCurrent) (rvi_waivers i);
          readiness = map determinism_summary_of (rvi_determinism_readiness i);
          proofs = map proof_summary_of (rvi_proof_pilots i)
      in \<lparr>rpk_schema_id = ''agent.semantic-protocols.semantic-review-packet'', rpk_schema_version = ''1'',
          rpk_protocol_id = ''agent.semantic-protocols.review-packet'', rpk_protocol_version = ''1'', rpk_packet_id = ''rust.review.packet'',
          rpk_producer = \<lparr>rpr_language_id = ''rust'', rpr_provider_id = ''asp-rust'',
            rpr_namespace = ''agent.semantic-protocols.languages.rust.asp-rust''\<rparr>,
          rpk_project = \<lparr>rpj_root = [CurDir], rpj_package = None, rpj_fields = []\<rparr>,
          rpk_summary = \<lparr>rsu_changed_invariants = length invariants, rsu_changed_behavior = length behaviors,
            rsu_missing_receipts = length missing, rsu_stale_waivers = length stale,
            rsu_determinism_observations = sum_list (map dm_observations readiness),
            rsu_proof_claims = sum_list (map py_claims proofs), rsu_fields = []\<rparr>,
          rpk_changed_invariants = invariants, rpk_changed_behavior = behaviors, rpk_missing_receipts = missing, rpk_stale_waivers = stale,
          rpk_determinism_readiness = readiness, rpk_proof_pilots = proofs,
          rpk_review_actions = review_actions invariants behaviors missing stale readiness proofs, rpk_fields = []\<rparr>)"

definition render_rust_review_packet :: "review_packet \<Rightarrow> string" where
  "render_rust_review_packet p =
     ''review-packet changed-invariants='' @ show_nat (rsu_changed_invariants (rpk_summary p)) @
     '' changed-behavior='' @ show_nat (rsu_changed_behavior (rpk_summary p)) @
     '' missing-receipts='' @ show_nat (rsu_missing_receipts (rpk_summary p)) @
     '' stale-waivers='' @ show_nat (rsu_stale_waivers (rpk_summary p)) @
     '' determinism-observations='' @ show_nat (rsu_determinism_observations (rpk_summary p)) @
     '' proof-claims='' @ show_nat (rsu_proof_claims (rpk_summary p)) @
     '' actions='' @ show_nat (length (rpk_review_actions p))"

section \<open>A packet asks for exactly what is open\<close>

lemma collapse_dashes_single: "\<not> contains_sub (collapse_dashes s) ''--''"
  by (induction s rule: collapse_dashes.induct) (subst collapse_dashes.simps, simp)

text \<open>The receipts that candidates require and nothing provides.\<close>

definition open_receipts :: "invariant_candidate list \<Rightarrow> execution_receipt list \<Rightarrow> review_waiver list \<Rightarrow> (string \<times> review_receipt_kind) set" where
  "open_receipts candidates rs ws =
     {(invariant_id c, review_receipt_kind_of k) | c k. c \<in> set candidates \<and> k \<in> set (required_receipts c) \<and>
        \<not> (\<exists>r \<in> set rs. xr_status r = ExecutionPassed \<and> receipt_tool_kind (xr_tool r) = review_receipt_kind_of k \<and>
             invariant_id c \<in> set (xr_candidate_ids r)) \<and>
        \<not> (\<exists>w \<in> set ws. rw_status w = WaiverCurrent \<and> rw_receipt_kind w = review_receipt_kind_of k \<and> rw_invariant_id w = invariant_id c)}"

lemma passed_receipt_evidence_iff:
  "(n, k) \<in> set (passed_receipt_evidence rs) \<longleftrightarrow>
     (\<exists>r \<in> set rs. xr_status r = ExecutionPassed \<and> receipt_tool_kind (xr_tool r) = k \<and> n \<in> set (xr_candidate_ids r))"
  by (auto simp: passed_receipt_evidence_def)

lemma current_waiver_evidence_iff:
  "(n, k) \<in> set (current_waiver_evidence ws) \<longleftrightarrow>
     (\<exists>w \<in> set ws. rw_status w = WaiverCurrent \<and> rw_receipt_kind w = k \<and> rw_invariant_id w = n)"
  by (auto simp: current_waiver_evidence_def)

lemma missing_receipts_open:
  "(\<lambda>m. (mr_invariant_id m, mr_receipt_kind m)) `
     set (concat (map (missing_receipts_for_candidate (passed_receipt_evidence rs) (current_waiver_evidence ws)) cs)) = open_receipts cs rs ws"
proof -
  have "(\<lambda>m. (mr_invariant_id m, mr_receipt_kind m)) ` set (missing_receipts_for_candidate (passed_receipt_evidence rs) (current_waiver_evidence ws) c) =
      open_receipts [c] rs ws" for c
    unfolding missing_receipts_for_candidate_def open_receipts_def set_map set_filter image_image
      passed_receipt_evidence_iff current_waiver_evidence_iff by (auto simp: image_iff)
  moreover have "open_receipts cs rs ws = (\<Union>c \<in> set cs. open_receipts [c] rs ws)" by (auto simp: open_receipts_def)
  ultimately show ?thesis by (simp add: image_UN)
qed

lemma changed_behavior_of_None_iff: "changed_behavior_of s = None \<longleftrightarrow> bs_status s = SnapshotMatched"
  by (cases "bs_status s") (simp_all add: changed_behavior_of_def behavior_status_of_def)

lemma determinism_needs_iff: "dm_status (determinism_summary_of r) = DeterminismNeedsInjection \<longleftrightarrow> dr_status r = NeedsInjection"
  by (cases "dr_status r") (simp_all add: determinism_summary_of_def)

lemma proof_failed_iff: "py_status (proof_summary_of p) = ReviewFailed \<longleftrightarrow> pilot_status_of p = PilotFailed"
  by (cases "pilot_status_of p") (simp_all add: proof_summary_of_def)

lemma priority_not_P0: "priority_for_severity s \<noteq> P0"
  by (cases s) simp_all

lemma review_actions_urgent_iff:
  "list_ex (\<lambda>a. ra_priority a = P0) (review_actions invariants behaviors missing stale readiness proofs) \<longleftrightarrow>
     missing \<noteq> [] \<or> list_ex (\<lambda>p. py_status p = ReviewFailed) proofs"
proof -
  have mapped: "list_ex P (map f xs) \<longleftrightarrow> list_ex (\<lambda>x. P (f x)) xs" for P f and xs :: "'a list" by (induction xs) simp_all
  have always: "list_ex (\<lambda>x. True) xs \<longleftrightarrow> xs \<noteq> []" for xs :: "'a list" by (cases xs) simp_all
  have never: "list_ex (\<lambda>x. False) xs \<longleftrightarrow> False" for xs :: "'a list" by (induction xs) simp_all
  have filtered: "filter P xs \<noteq> [] \<longleftrightarrow> list_ex P xs" for P and xs :: "'a list" by (induction xs) simp_all
  have prio: "ra_priority (review_action_of a k p s t) = p" for a k p s t by (simp add: review_action_of_def)
  show ?thesis
    unfolding review_actions_def list_ex_append mapped prio by (simp add: priority_not_P0 always never filtered)
qed

lemma review_actions_empty_iff:
  "review_actions invariants behaviors missing stale readiness proofs = [] \<longleftrightarrow>
     invariants = [] \<and> behaviors = [] \<and> missing = [] \<and> stale = [] \<and> \<not> list_ex (\<lambda>r. dm_status r = DeterminismNeedsInjection) readiness \<and>
     \<not> list_ex (\<lambda>p. py_status p = ReviewFailed) proofs"
  by (auto simp: review_actions_def list_ex_iff filter_empty_conv)

text \<open>
  C12: a review packet asks for exactly what is open: its missing receipts are those a candidate requires and neither a passed
  receipt of the tool nor a current waiver provides, its summary counts its parts, no action is urgent exactly when no receipt
  is missing and no proof failed, and it has no action exactly when there is no candidate, every snapshot matches, every waiver is
  current, no scan needs an injection and no proof failed.
\<close>

theorem review_packet_exact:
  "let p = build_rust_review_packet i; cs = invariant_candidates (rvi_report i) in
     (\<lambda>m. (mr_invariant_id m, mr_receipt_kind m)) ` set (rpk_missing_receipts p) = open_receipts cs (rvi_receipts i) (rvi_waivers i) \<and>
     rsu_missing_receipts (rpk_summary p) = length (rpk_missing_receipts p) \<and> rsu_changed_invariants (rpk_summary p) = length cs \<and>
     (\<not> list_ex (\<lambda>a. ra_priority a = P0) (rpk_review_actions p) \<longleftrightarrow>
        open_receipts cs (rvi_receipts i) (rvi_waivers i) = {} \<and> \<not> list_ex (\<lambda>q. pilot_status_of q = PilotFailed) (rvi_proof_pilots i)) \<and>
     (rpk_review_actions p = [] \<longleftrightarrow>
        cs = [] \<and> list_all (\<lambda>s. bs_status s = SnapshotMatched) (rvi_behavior_snapshots i) \<and>
        list_all (\<lambda>w. rw_status w = WaiverCurrent) (rvi_waivers i) \<and>
        \<not> list_ex (\<lambda>r. dr_status r = NeedsInjection) (rvi_determinism_readiness i) \<and>
        \<not> list_ex (\<lambda>q. pilot_status_of q = PilotFailed) (rvi_proof_pilots i))"
proof -
  define cs where "cs = invariant_candidates (rvi_report i)"
  define missing where "missing = concat (map (missing_receipts_for_candidate (passed_receipt_evidence (rvi_receipts i))
    (current_waiver_evidence (rvi_waivers i))) cs)"
  have open_missing: "(\<lambda>m. (mr_invariant_id m, mr_receipt_kind m)) ` set missing = open_receipts cs (rvi_receipts i) (rvi_waivers i)"
    unfolding missing_def by (rule missing_receipts_open)
  then have "missing = [] \<longleftrightarrow> open_receipts cs (rvi_receipts i) (rvi_waivers i) = {}" by (metis image_is_empty set_empty)
  moreover have "missing = []" if "cs = []" using that by (simp add: missing_def)
  moreover have "List.map_filter changed_behavior_of ss = [] \<longleftrightarrow> list_all (\<lambda>s. bs_status s = SnapshotMatched) ss" for ss
    by (induction ss) (auto simp: List.map_filter_simps simp flip: changed_behavior_of_None_iff split: option.splits)
  moreover have "list_ex (\<lambda>r. dm_status r = DeterminismNeedsInjection) (map determinism_summary_of rs) \<longleftrightarrow> list_ex (\<lambda>r. dr_status r = NeedsInjection) rs" for rs
    by (simp add: list_ex_iff determinism_needs_iff)
  moreover have "list_ex (\<lambda>p. py_status p = ReviewFailed) (map proof_summary_of qs) \<longleftrightarrow> list_ex (\<lambda>q. pilot_status_of q = PilotFailed) qs" for qs
    by (simp add: list_ex_iff proof_failed_iff)
  ultimately show ?thesis
    using open_missing
    by (auto simp: build_rust_review_packet_def Let_def review_actions_urgent_iff review_actions_empty_iff filter_empty_conv list_all_iff
        simp flip: cs_def missing_def)
qed

end
