(* ===== verification/Agent_Snapshot.thy ===== *)
theory Agent_Snapshot
  imports Project_Runner
begin

text \<open>
  The compact snapshot of a project for agents (\<open>src/agent_snapshot.rs\<close>): per package a summary of its modules, owner branches,
  owner dependencies grouped by their more compact direction and findings grouped by rule. Groups are ascending maps; the key of a
  dependency group holds the rank of the import root, the value the root itself. A panic is \<open>None\<close>.
\<close>

section \<open>Paths and lists\<close>

definition snapshot_display_path :: "path \<Rightarrow> string" where
  "snapshot_display_path p =
     (let rendered = replace_char CHR 0x5C CHR ''/'' (display p) in if rendered = [] then ''.'' else rendered)"

definition snapshot_project_path :: "path \<Rightarrow> path \<Rightarrow> string" where
  "snapshot_project_path root p = (case strip_prefix p root of Some relative \<Rightarrow> snapshot_display_path relative | None \<Rightarrow> snapshot_display_path p)"

definition snapshot_project_paths :: "path \<Rightarrow> path list \<Rightarrow> string" where
  "snapshot_project_paths root ps = join_with '', '' (map (snapshot_project_path root) ps)"

definition compact_lines :: "string list \<Rightarrow> nat \<Rightarrow> string \<Rightarrow> string list" where
  "compact_lines lines1 max_lines label1 =
     (if length lines1 \<le> max_lines then lines1
      else take max_lines lines1 @ ['' - ... +'' @ show_nat (length lines1 - max_lines) @ '' '' @ label1])"

definition display_child_edges :: "path \<Rightarrow> child_edge list \<Rightarrow> string" where
  "display_child_edges root edges =
     join_with '', ''
       (map (\<lambda>e. edge_kind_str (child_edge_kind_of e) @ '':'' @ snapshot_project_path root (child_path e)) (take 8 edges) @
        (if 8 < length edges then [''... +'' @ show_nat (length edges - 8) @ '' children''] else []))"

section \<open>Modules and branches\<close>

definition push_metric_if :: "string \<Rightarrow> nat \<Rightarrow> bool \<Rightarrow> string list" where
  "push_metric_if label1 n should_render = (if should_render then [label1 @ ''='' @ show_nat n] else [])"

definition display_module_summary :: "nat \<Rightarrow> nat \<Rightarrow> nat \<Rightarrow> nat \<Rightarrow> nat \<Rightarrow> nat \<Rightarrow> string" where
  "display_module_summary sources roots branches dependencies shadowed orphaned =
     ''Modules: '' @ join_with '' ''
       ([''source='' @ show_nat sources] @ push_metric_if ''roots'' roots (1 < roots) @ push_metric_if ''branches'' branches (0 < branches) @
        push_metric_if ''deps'' dependencies (0 < dependencies) @ push_metric_if ''shadowed'' shadowed (0 < shadowed) @
        push_metric_if ''orphaned'' orphaned (0 < orphaned))"

definition owner_branch_role_label :: "owner_branch_role \<Rightarrow> string" where
  "owner_branch_role_label role =
     (case role of
        RoleRoot \<Rightarrow> ''root''
      | RoleFacade \<Rightarrow> ''facade''
      | RoleInterface \<Rightarrow> ''interface''
      | RoleBinary \<Rightarrow> ''binary''
      | RolePackageEntrypoint \<Rightarrow> ''package-entrypoint''
      | RoleRepeatedNamespace segments \<Rightarrow> ''repeated:'' @ join_with '','' segments
      | RoleBranch \<Rightarrow> ''branch'')"

definition owner_branch_role_labels :: "owner_branch \<Rightarrow> string list" where
  "owner_branch_role_labels b = map owner_branch_role_label (branch_roles b)"

definition display_owner_namespace :: "owner_branch \<Rightarrow> string" where
  "display_owner_namespace b = (if branch_namespace b = [] then ''-'' else join_with ''/'' (branch_namespace b))"

definition push_count :: "string \<Rightarrow> nat \<Rightarrow> string list" where
  "push_count label1 n = (if 0 < n then [label1 @ '':'' @ show_nat n] else [])"

definition display_import_summary :: "import_facts \<Rightarrow> string" where
  "display_import_summary s =
     (if total_imports s = 0 then []
      else '' imports='' @ join_with '',''
        (push_count ''crate'' (crate_imports s) @ push_count ''self'' (self_imports s) @ push_count ''parent'' (parent_imports s) @
         push_count ''external'' (external_imports s) @ push_count ''absolute'' (absolute_imports s) @
         push_count ''unknown'' (unknown_imports s) @ push_count ''glob'' (glob_imports s) @ push_count ''deep'' (deep_relative_imports s) @
         push_count ''prelude'' (prelude_imports s) @ push_count ''test'' (test_context_imports s)))"

definition display_owner_branch_line :: "path \<Rightarrow> owner_branch \<Rightarrow> string" where
  "display_owner_branch_line root b =
     '' - '' @ snapshot_project_path root (branch_path b) @ '' ['' @ join_with '', '' (owner_branch_role_labels b) @ ''] owner='' @
     display_owner_namespace b @ display_import_summary (branch_import_summary b) @
     (if branch_child_edges b \<noteq> [] then '' -> '' @ display_child_edges root (branch_child_edges b) else [])"

section \<open>Owner dependencies\<close>

primrec import_root_label :: "import_root_kind \<Rightarrow> string" where
  "import_root_label RootAbsolute = ''absolute''"
| "import_root_label RootCrate = ''crate''"
| "import_root_label RootSelfScope = ''self''"
| "import_root_label RootParent = ''parent''"
| "import_root_label RootExternal = ''external''"
| "import_root_label RootUnknown = ''unknown''"

datatype owner_dependency_direction = FanOut | FanIn

type_synonym dependency_groups = "((path \<times> nat) \<times> import_root_kind \<times> path list) list"

definition dependency_ends :: "owner_dependency_direction \<Rightarrow> owner_dependency \<Rightarrow> path \<times> path" where
  "dependency_ends direction d =
     (case direction of FanOut \<Rightarrow> (dep_source_path d, dep_target_path d) | FanIn \<Rightarrow> (dep_target_path d, dep_source_path d))"

definition add_owner_dependency :: "owner_dependency_direction \<Rightarrow> owner_dependency \<Rightarrow> dependency_groups \<Rightarrow> dependency_groups" where
  "add_owner_dependency direction d groups =
     (let (owner, peer) = dependency_ends direction d; key = (owner, import_root_kind_rank (dep_via_root d));
          peers = (case bmap_get groups key of Some (_, ps) \<Rightarrow> ps | None \<Rightarrow> [])
      in bmap_insert key (dep_via_root d, bset_insert peer peers) groups)"

definition owner_dependency_groups :: "owner_dependency list \<Rightarrow> owner_dependency_direction \<Rightarrow> dependency_groups" where
  "owner_dependency_groups dependencies direction = fold (add_owner_dependency direction) dependencies []"

definition display_owner_dependency :: "path \<Rightarrow> owner_dependency \<Rightarrow> string" where
  "display_owner_dependency root d =
     '' - '' @ snapshot_project_path root (dep_source_path d) @ '' --'' @ import_root_label (dep_via_root d) @ ''--> '' @
     snapshot_project_path root (dep_target_path d)"

definition display_owner_dependency_lines :: "path \<Rightarrow> owner_dependency list \<Rightarrow> string list" where
  "display_owner_dependency_lines root dependencies =
     (let fan_out = owner_dependency_groups dependencies FanOut; fan_in = owner_dependency_groups dependencies FanIn in
      if length fan_in < length dependencies \<and> length fan_in < length fan_out
      then map (\<lambda>((target, _), via, sources). '' - '' @ snapshot_project_path root target @ '' <--'' @ import_root_label via @ ''-- '' @
        snapshot_project_paths root sources) fan_in
      else if length fan_out = length dependencies then map (display_owner_dependency root) dependencies
      else map (\<lambda>((source, _), via, targets). '' - '' @ snapshot_project_path root source @ '' --'' @ import_root_label via @ ''--> '' @
        snapshot_project_paths root targets) fan_out)"

section \<open>Findings\<close>

record finding_group =
  fg_count :: nat
  fg_first_path :: "path option"

type_synonym group_key = "nat \<times> string \<times> string"

definition finding_key_of :: "asp_rust_finding \<Rightarrow> group_key" where
  "finding_key_of f = (severity_rank (severity f), finding_rule_id f, finding_title f)"

definition add_finding ::
  "asp_rust_finding \<Rightarrow> (group_key \<times> severity \<times> finding_group) list \<Rightarrow> (group_key \<times> severity \<times> finding_group) list" where
  "add_finding f groups =
     (let (s, g) = (case bmap_get groups (finding_key_of f) of
            Some entry \<Rightarrow> entry | None \<Rightarrow> (severity f, \<lparr>fg_count = 0, fg_first_path = loc_path (location f)\<rparr>))
      in bmap_insert (finding_key_of f) (s, g\<lparr>fg_count := fg_count g + 1\<rparr>) groups)"

definition finding_groups :: "asp_rust_finding list \<Rightarrow> (group_key \<times> severity \<times> finding_group) list" where
  "finding_groups fs = fold add_finding fs []"

definition grouped_findings :: "path \<Rightarrow> asp_rust_finding list \<Rightarrow> string list" where
  "grouped_findings root fs =
     map (\<lambda>((_, rule_id1, title), s, g). '' - '' @ severity_str s @ '' '' @ rule_id1 @ '' x'' @ show_nat (fg_count g) @ '' first='' @
       (case fg_first_path g of Some p \<Rightarrow> snapshot_project_path root p | None \<Rightarrow> ''<memory>'') @ '' '' @ title) (finding_groups fs)"

section \<open>Snapshots\<close>

definition render_package_snapshot ::
  "path \<Rightarrow> reasoning_tree \<Rightarrow> asp_rust_finding list \<Rightarrow> bool \<Rightarrow> string" where
  "render_package_snapshot snapshot_root t fs include_package_heading =
     (let sources = length (filter mod_is_source (tree_modules t));
          roots = length (filter mod_is_tree_root (tree_modules t));
          branches = length (filter (\<lambda>m. mod_is_source m \<and> mod_child_edges m \<noteq> []) (tree_modules t));
          dependencies = filter (\<lambda>d. \<not> dep_is_test_context d) (tree_owner_dependencies t);
          root = tree_package_root t;
          branch_lines = map (display_owner_branch_line root) (tree_owner_branches t);
          dependency_lines = display_owner_dependency_lines root dependencies;
          finding_lines = grouped_findings root fs;
          section_of = (\<lambda>heading lines1. if lines1 = [] then [] else heading @ [CHR 0x0A] @ join_with [CHR 0x0A] lines1 @ [CHR 0x0A])
      in if sources = 0 \<and> fs = [] then []
         else (if include_package_heading then ''pkg '' @ snapshot_project_path snapshot_root root @ [CHR 0x0A] else []) @
           display_module_summary sources roots branches (length dependencies) (length (tree_shadowed_module_sources t))
             (length (tree_unreachable_source_files t)) @ [CHR 0x0A] @
           (if branch_lines = [] then [] else section_of ''OwnerBranches:'' (compact_lines branch_lines 24 ''owner branches'')) @
           section_of ''OwnerDependencies:'' dependency_lines @ section_of ''FindingGroups:'' finding_lines)"

definition render_package_snapshot_for_root :: "host \<Rightarrow> path \<Rightarrow> asp_rust_config \<Rightarrow> bool \<Rightarrow> path \<Rightarrow> string option" where
  "render_package_snapshot_for_root h snapshot_root config include_package_heading root =
     (let scope = config_scope h root config; ms = parse_paths h (monitored_paths scope) config in
      map_option (\<lambda>fs. render_package_snapshot snapshot_root (rust_reasoning_tree_facts (host_is_file h) (host_load h) scope ms) fs
          include_package_heading)
        (evaluate_default_rule_packs_with_config h (Some scope) ms config))"

definition render_asp_rust_agent_snapshot_with_config :: "host \<Rightarrow> path \<Rightarrow> asp_rust_config \<Rightarrow> string result option" where
  "render_asp_rust_agent_snapshot_with_config h project_root config =
     (if \<not> host_exists h project_root then Some (Err (''project root does not exist: '' @ display project_root))
      else case discover_cargo_package_roots (host_fs h) (host_load h) project_root (ignored_dir_names config) (include_hidden_dir_names config) of
        None \<Rightarrow> None
      | Some discovered \<Rightarrow>
          let roots = (if should_run_member_scopes project_root discovered then discovered else [project_root]) in
          map_option (\<lambda>snapshots. Ok (join_with [CHR 0x0A] (filter (\<lambda>s. s \<noteq> []) snapshots)))
            (those (map (render_package_snapshot_for_root h project_root config (1 < length roots)) roots)))"

definition render_asp_rust_agent_snapshot :: "host \<Rightarrow> path \<Rightarrow> string result option" where
  "render_asp_rust_agent_snapshot h project_root = render_asp_rust_agent_snapshot_with_config h project_root default_config"

section \<open>A snapshot returns\<close>

lemma agent_snapshot_returns:
  assumes "finite_manifests h"
  shows "\<exists>r. render_asp_rust_agent_snapshot_with_config h project_root config = Some r \<and>
    ((\<exists>e. r = Inl e) \<longleftrightarrow> \<not> host_exists h project_root)"
proof -
  obtain roots where roots: "discover_cargo_package_roots (host_fs h) (host_load h) project_root (ignored_dir_names config)
      (include_hidden_dir_names config) = Some roots" using discover_cargo_package_roots_returns [OF assms] by blast
  have "\<exists>s. render_package_snapshot_for_root h snapshot_root config heading root = Some s" for snapshot_root heading root
    using default_rule_packs_ok [of h "Some (config_scope h root config)" "parse_paths h (monitored_paths (config_scope h root config)) config" config]
    by (auto simp: render_package_snapshot_for_root_def Let_def)
  then have "\<exists>ss. those (map (render_package_snapshot_for_root h project_root config heading) rs) = Some ss" for heading rs
  proof (induction rs)
    case (Cons root rs)
    obtain s where "render_package_snapshot_for_root h project_root config heading root = Some s" using Cons.prems by blast
    with Cons.IH [OF Cons.prems] show ?case by auto
  qed simp
  moreover define rs where "rs = (if should_run_member_scopes project_root roots then roots else [project_root])"
  ultimately obtain ss where ss: "those (map (render_package_snapshot_for_root h project_root config (1 < length rs)) rs) = Some ss" by blast
  show ?thesis
  proof (cases "host_exists h project_root")
    case True
    then have "render_asp_rust_agent_snapshot_with_config h project_root config = Some (Ok (join_with [CHR 0x0A] (filter (\<lambda>s. s \<noteq> []) ss)))"
      unfolding render_asp_rust_agent_snapshot_with_config_def roots option.case Let_def rs_def [symmetric] ss by simp
    with True show ?thesis by simp
  qed (simp add: render_asp_rust_agent_snapshot_with_config_def)
qed

section \<open>Groups lose nothing\<close>

abbreviation total_count :: "(group_key \<times> severity \<times> finding_group) list \<Rightarrow> nat" where
  "total_count groups \<equiv> sum_list (map (\<lambda>e. fg_count (snd (snd e))) groups)"

abbreviation count_at :: "(group_key \<times> severity \<times> finding_group) list \<Rightarrow> group_key \<Rightarrow> nat" where
  "count_at groups k \<equiv> (case map_of groups k of Some e \<Rightarrow> fg_count (snd e) | None \<Rightarrow> 0)"

abbreviation first_at :: "(group_key \<times> severity \<times> finding_group) list \<Rightarrow> group_key \<Rightarrow> path option option" where
  "first_at groups k \<equiv> map_option (\<lambda>e. fg_first_path (snd e)) (map_of groups k)"

lemma total_count_insert:
  "ascending (bmap_keys groups) \<Longrightarrow> total_count (bmap_insert k v groups) + count_at groups k = total_count groups + fg_count (snd v)"
proof (induction k v groups rule: bmap_insert.induct)
  case (2 k v k' v' m)
  then show ?case by (auto dest: map_of_SomeD split: option.splits) (force dest: map_of_SomeD)+
qed simp

lemma add_finding_facts:
  assumes "ascending (bmap_keys groups)"
  shows "ascending (bmap_keys (add_finding f groups))"
    and "total_count (add_finding f groups) = total_count groups + 1"
    and "count_at (add_finding f groups) k = count_at groups k + (if finding_key_of f = k then 1 else 0)"
    and "first_at (add_finding f groups) k =
      (if finding_key_of f = k \<and> first_at groups k = None then Some (loc_path (location f)) else first_at groups k)"
proof -
  obtain s g where sg: "(case bmap_get groups (finding_key_of f) of
      Some entry \<Rightarrow> entry | None \<Rightarrow> (severity f, \<lparr>fg_count = 0, fg_first_path = loc_path (location f)\<rparr>)) = (s, g)" by (metis surj_pair)
  have added: "add_finding f groups = bmap_insert (finding_key_of f) (s, g\<lparr>fg_count := fg_count g + 1\<rparr>) groups"
    by (simp add: add_finding_def sg)
  have g: "fg_count g = count_at groups (finding_key_of f)"
    "fg_first_path g = (case first_at groups (finding_key_of f) of Some p \<Rightarrow> p | None \<Rightarrow> loc_path (location f))"
    using sg by (auto split: option.splits)
  show "ascending (bmap_keys (add_finding f groups))" unfolding added using assms by (rule ascending_bmap_insert)
  show "total_count (add_finding f groups) = total_count groups + 1"
    using total_count_insert [OF assms, of "finding_key_of f" "(s, g\<lparr>fg_count := fg_count g + 1\<rparr>)"] g(1) unfolding added by simp
  show "count_at (add_finding f groups) k = count_at groups k + (if finding_key_of f = k then 1 else 0)"
    unfolding added bmap_get_insert [OF assms] using g(1) by simp
  show "first_at (add_finding f groups) k =
      (if finding_key_of f = k \<and> first_at groups k = None then Some (loc_path (location f)) else first_at groups k)"
    unfolding added bmap_get_insert [OF assms] using g(2) by (auto split: option.splits)
qed

lemma fold_add_finding:
  assumes "ascending (bmap_keys groups)"
  shows "ascending (bmap_keys (fold add_finding fs groups)) \<and> total_count (fold add_finding fs groups) = total_count groups + length fs \<and>
    count_at (fold add_finding fs groups) k = count_at groups k + length (filter (\<lambda>f. finding_key_of f = k) fs) \<and>
    first_at (fold add_finding fs groups) k =
      (case first_at groups k of Some p \<Rightarrow> Some p | None \<Rightarrow> map_option (\<lambda>f. loc_path (location f)) (find (\<lambda>f. finding_key_of f = k) fs))"
  using assms
proof (induction fs arbitrary: groups)
  case (Cons f fs)
  note step = add_finding_facts [OF Cons.prems, of f]
  show ?case using Cons.IH [OF step(1)] unfolding fold_simps(2) step(2-4) by (simp split: option.splits)
qed (simp split: option.splits)

lemma finding_groups_exact:
  "total_count (finding_groups fs) = length fs \<and>
   list_all (\<lambda>(k, _, g). fg_count g = length (filter (\<lambda>f. finding_key_of f = k) fs) \<and>
     Some (fg_first_path g) = map_option (\<lambda>f. loc_path (location f)) (find (\<lambda>f. finding_key_of f = k) fs)) (finding_groups fs)"
proof -
  have asc: "ascending (bmap_keys (finding_groups fs))" using fold_add_finding [of "[]" fs] by (simp add: finding_groups_def)
  have "fg_count g = length (filter (\<lambda>f. finding_key_of f = k) fs) \<and>
      Some (fg_first_path g) = map_option (\<lambda>f. loc_path (location f)) (find (\<lambda>f. finding_key_of f = k) fs)"
    if "(k, s, g) \<in> set (finding_groups fs)" for k s g
  proof -
    have "map_of (finding_groups fs) k = Some (s, g)" using that asc by (simp add: map_of_is_SomeI ascending_distinct)
    with fold_add_finding [of "[]" fs k] show ?thesis by (simp add: finding_groups_def)
  qed
  then show ?thesis using fold_add_finding [of "[]" fs] by (auto simp: finding_groups_def list_all_iff)
qed

text \<open>What the groups say: owner, import root and peer.\<close>

definition group_relation :: "dependency_groups \<Rightarrow> (path \<times> import_root_kind \<times> path) set" where
  "group_relation groups = {(owner, via, peer). \<exists>peers. map_of groups (owner, import_root_kind_rank via) = Some (via, peers) \<and> peer \<in> set peers}"

definition keyed_by_root :: "dependency_groups \<Rightarrow> bool" where
  "keyed_by_root groups \<longleftrightarrow> ascending (bmap_keys groups) \<and>
     (\<forall>owner n via peers. map_of groups (owner, n) = Some (via, peers) \<longrightarrow> n = import_root_kind_rank via)"

lemma add_owner_dependency_facts:
  assumes "keyed_by_root groups" "dependency_ends direction d = (owner, peer)"
  shows "keyed_by_root (add_owner_dependency direction d groups)"
    and "group_relation (add_owner_dependency direction d groups) = insert (owner, dep_via_root d, peer) (group_relation groups)"
proof -
  let ?key = "(owner, import_root_kind_rank (dep_via_root d))"
  define peers where "peers = (case bmap_get groups ?key of Some (_, ps) \<Rightarrow> ps | None \<Rightarrow> [])"
  have added: "add_owner_dependency direction d groups = bmap_insert ?key (dep_via_root d, bset_insert peer peers) groups"
    by (simp add: add_owner_dependency_def assms(2) Let_def peers_def)
  have asc: "ascending (bmap_keys groups)" using assms(1) by (simp add: keyed_by_root_def)
  have get: "map_of (bmap_insert ?key (dep_via_root d, bset_insert peer peers) groups) = (map_of groups)(?key \<mapsto> (dep_via_root d, bset_insert peer peers))"
    by (rule bmap_get_insert [OF asc])
  show "keyed_by_root (add_owner_dependency direction d groups)"
    using assms(1) ascending_bmap_insert [OF asc] unfolding added keyed_by_root_def get by simp
  have old: "x \<in> set peers \<longleftrightarrow> (owner, dep_via_root d, x) \<in> group_relation groups" for x
  proof (cases "map_of groups ?key")
    case (Some e)
    then obtain via ps where e: "map_of groups ?key = Some (via, ps)" by (cases e) simp
    then have "import_root_kind_rank (dep_via_root d) = import_root_kind_rank via" using assms(1) unfolding keyed_by_root_def by blast
    then have "via = dep_via_root d" by (simp add: import_root_kind_rank_inj)
    with e show ?thesis by (simp add: peers_def group_relation_def)
  qed (simp add: peers_def group_relation_def)
  show "group_relation (add_owner_dependency direction d groups) = insert (owner, dep_via_root d, peer) (group_relation groups)"
  proof (intro set_eqI)
    fix t :: "path \<times> import_root_kind \<times> path"
    obtain a via x where t: "t = (a, via, x)" by (cases t) auto
    show "t \<in> group_relation (add_owner_dependency direction d groups) \<longleftrightarrow> t \<in> insert (owner, dep_via_root d, peer) (group_relation groups)"
    proof (cases "a = owner \<and> via = dep_via_root d")
      case True
      then have "t \<in> group_relation (add_owner_dependency direction d groups) \<longleftrightarrow> x = peer \<or> x \<in> set peers"
        unfolding t added group_relation_def get by (simp add: set_bset_insert)
      then show ?thesis using True old [of x] t by simp
    next
      case False
      then have "(a, import_root_kind_rank via) \<noteq> ?key" by (auto simp: import_root_kind_rank_inj)
      then have "t \<in> group_relation (add_owner_dependency direction d groups) \<longleftrightarrow> t \<in> group_relation groups"
        unfolding t added group_relation_def get by (auto simp: fun_upd_other)
      then show ?thesis using False t by auto
    qed
  qed
qed

lemma owner_dependency_groups_exact:
  "group_relation (owner_dependency_groups ds direction) =
     (\<lambda>d. (fst (dependency_ends direction d), dep_via_root d, snd (dependency_ends direction d))) ` set ds"
proof -
  have "group_relation (fold (add_owner_dependency direction) ds groups) =
      (\<lambda>d. (fst (dependency_ends direction d), dep_via_root d, snd (dependency_ends direction d))) ` set ds \<union> group_relation groups"
    if "keyed_by_root groups" for groups
    using that
  proof (induction ds arbitrary: groups)
    case (Cons d ds)
    obtain owner peer where ends: "dependency_ends direction d = (owner, peer)" by (cases "dependency_ends direction d")
    from Cons.IH [OF add_owner_dependency_facts(1) [OF Cons.prems ends]] add_owner_dependency_facts(2) [OF Cons.prems ends] ends
    show ?case by simp
  qed simp
  moreover have "keyed_by_root []" "group_relation [] = {}" by (auto simp: keyed_by_root_def group_relation_def)
  ultimately show ?thesis by (simp add: owner_dependency_groups_def)
qed

text \<open>
  The groups of a snapshot lose nothing: the counts of the finding groups add up to the findings, each group counts the
  findings of its severity, rule and title and shows the path of the first, the dependency groups in either direction say exactly
  the given dependencies, and a compacted list has at most one line more than its limit.
\<close>

lemma agent_snapshot_groups_exact:
  "sum_list (map (\<lambda>e. fg_count (snd (snd e))) (finding_groups fs)) = length fs \<and>
   list_all (\<lambda>(k, _, g). fg_count g = length (filter (\<lambda>f. finding_key_of f = k) fs) \<and>
     Some (fg_first_path g) = map_option (\<lambda>f. loc_path (location f)) (find (\<lambda>f. finding_key_of f = k) fs)) (finding_groups fs) \<and>
   group_relation (owner_dependency_groups ds FanOut) = (\<lambda>d. (dep_source_path d, dep_via_root d, dep_target_path d)) ` set ds \<and>
   group_relation (owner_dependency_groups ds FanIn) = (\<lambda>d. (dep_target_path d, dep_via_root d, dep_source_path d)) ` set ds \<and>
   length (compact_lines lines1 n label1) \<le> n + 1"
  using finding_groups_exact [of fs] owner_dependency_groups_exact [of ds]
  by (simp add: dependency_ends_def compact_lines_def)

end
