(* ===== verification/Exact_Source.thy ===== *)
theory Exact_Source
  imports Structural_Selector Use_Tree Parsed_Module
begin

text \<open>
  The exact items of a Rust source (\<open>src/exact_source_parse_artifact.rs\<close>) and their projections: the callable skeleton of
  \<open>src/exact_source_projection.rs\<close> and the owner projection of \<open>src/provider_server/projection.rs\<close>. The syntax tree that the
  parser crate gives is an input, with the parts the code reads: names, attributes, byte ranges, the tokens of types and, for
  the body of a callable, the statements and expressions that the crate's walk visits, in its order. JSON values are data here;
  their text is an argument.
\<close>

section \<open>The syntax tree\<close>

record syn_attribute =
  attr_is_cfg :: bool
  attr_list_tokens :: "string option"

record syn_span =
  span_start :: line_column
  span_end :: line_column

datatype expr_kind = ExprIf | ExprMatch | ExprLoop | ExprWhile | ExprForLoop | ExprReturn | ExprOther

datatype visited_node = VisitLocal syn_span | VisitExpr expr_kind syn_span

record syn_signature =
  sig_ident :: string
  sig_async :: bool
  sig_const :: bool
  sig_unsafe :: bool
  sig_input_count :: nat
  sig_generic_count :: nat

record item_head =
  head_ident :: string
  head_attrs :: "syn_attribute list"
  head_start :: nat
  head_end :: nat

record syn_method =
  method_head :: item_head
  method_signature :: syn_signature
  method_block :: "visited_node list option"

datatype syn_item =
    ItemConst item_head
  | ItemEnum item_head
  | ItemFn syn_method
  | ItemMacro bool item_head
  | ItemMod item_head "syn_item list option"
  | ItemStatic item_head
  | ItemStruct item_head
  | ItemTrait item_head "syn_method option list"
  | ItemTraitAlias item_head
  | ItemType item_head
  | ItemUnion item_head
  | ItemImpl string "string option" item_head "syn_method option list"
  | ItemUse syn_visibility use_tree nat nat
  | ItemOther

section \<open>Items\<close>

record parsed_callable =
  pc_signature :: syn_signature
  pc_block :: "visited_node list option"

record parse_artifact_item =
  pa_identity :: canonical_item_identity
  pa_start :: nat
  pa_end :: nat
  pa_callable :: "parsed_callable option"

definition with_cfg_scopes :: "canonical_item_identity \<Rightarrow> syn_attribute list \<Rightarrow> canonical_item_identity" where
  "with_cfg_scopes identity attrs =
     foldl (\<lambda>i attribute. case attr_list_tokens attribute of
        None \<Rightarrow> i
      | Some predicate \<Rightarrow> with_scope ''conditional-compilation'' ''cfg'' predicate i) identity (filter attr_is_cfg attrs)"

definition canonical_parse_artifact_item :: "canonical_item_identity \<Rightarrow> item_head \<Rightarrow> parse_artifact_item" where
  "canonical_parse_artifact_item identity h =
     \<lparr>pa_identity = identity, pa_start = head_start h, pa_end = head_end h, pa_callable = None\<rparr>"

definition push_parse_artifact_item :: "string \<Rightarrow> item_head \<Rightarrow> parse_artifact_item" where
  "push_parse_artifact_item k h =
     canonical_parse_artifact_item (with_cfg_scopes (identity_new ''rust'' k (head_ident h)) (head_attrs h)) h"

definition callable_parse_artifact_item :: "canonical_item_identity \<Rightarrow> syn_method \<Rightarrow> parse_artifact_item" where
  "callable_parse_artifact_item identity m =
     \<lparr>pa_identity = with_cfg_scopes identity (head_attrs (method_head m)), pa_start = head_start (method_head m),
      pa_end = head_end (method_head m),
      pa_callable = Some \<lparr>pc_signature = method_signature m, pc_block = method_block m\<rparr>\<rparr>"

definition without_spaces :: "string \<Rightarrow> string" where
  "without_spaces s = filter (\<lambda>c. c \<noteq> CHR '' '') s"

definition with_impl_scopes :: "string \<Rightarrow> string option \<Rightarrow> canonical_item_identity \<Rightarrow> canonical_item_identity" where
  "with_impl_scopes impl_owner trait_owner identity =
     (let owned = with_scope ''implementation-owner'' ''type'' impl_owner identity
      in case trait_owner of None \<Rightarrow> owned | Some t \<Rightarrow> with_scope ''trait-owner'' ''trait'' t owned)"

definition collect_impl_parse_artifact_items :: "string \<Rightarrow> string option \<Rightarrow> item_head \<Rightarrow> syn_method option list \<Rightarrow> parse_artifact_item list" where
  "collect_impl_parse_artifact_items self_tokens trait_tokens h methods =
     (let impl_owner = without_spaces self_tokens; trait_owner = map_option without_spaces trait_tokens
      in canonical_parse_artifact_item
           (with_cfg_scopes (with_impl_scopes impl_owner trait_owner (identity_new ''rust'' ''implementation'' impl_owner)) (head_attrs h)) h
         # map (\<lambda>m. callable_parse_artifact_item
             (with_impl_scopes impl_owner trait_owner (identity_new ''rust'' ''method'' (sig_ident (method_signature m)))) m)
             (List.map_filter (\<lambda>m. m) methods))"

definition collect_trait_parse_artifact_items :: "item_head \<Rightarrow> syn_method option list \<Rightarrow> parse_artifact_item list" where
  "collect_trait_parse_artifact_items h methods =
     push_parse_artifact_item ''trait'' h
     # map (\<lambda>m. callable_parse_artifact_item
         (with_scope ''trait-owner'' ''trait'' (head_ident h) (identity_new ''rust'' ''trait-function'' (sig_ident (method_signature m)))) m)
         (List.map_filter (\<lambda>m. m) methods)"

definition reexport_item :: "string \<Rightarrow> nat \<Rightarrow> nat \<Rightarrow> parse_artifact_item" where
  "reexport_item name start end1 =
     \<lparr>pa_identity = identity_new ''rust'' ''reexport'' name, pa_start = start, pa_end = end1, pa_callable = None\<rparr>"

fun collect_reexport_items :: "use_tree \<Rightarrow> nat \<Rightarrow> nat \<Rightarrow> parse_artifact_item list" where
  "collect_reexport_items (UseName name) start end1 = [reexport_item name start end1]"
| "collect_reexport_items (UseRename name rename) start end1 = [reexport_item rename start end1]"
| "collect_reexport_items (UsePath name tree) start end1 = collect_reexport_items tree start end1"
| "collect_reexport_items (UseGroup trees) start end1 = concat (map (\<lambda>t. collect_reexport_items t start end1) trees)"
| "collect_reexport_items UseGlob start end1 = []"

fun collect_parse_artifact_item :: "syn_item \<Rightarrow> parse_artifact_item list" where
  "collect_parse_artifact_item (ItemConst h) = [push_parse_artifact_item ''const'' h]"
| "collect_parse_artifact_item (ItemEnum h) = [push_parse_artifact_item ''enum'' h]"
| "collect_parse_artifact_item (ItemFn m) =
     [callable_parse_artifact_item (identity_new ''rust'' ''function'' (sig_ident (method_signature m))) m]"
| "collect_parse_artifact_item (ItemMacro named h) = (if named then [push_parse_artifact_item ''macro'' h] else [])"
| "collect_parse_artifact_item (ItemMod h content) =
     push_parse_artifact_item ''module'' h
     # (case content of None \<Rightarrow> [] | Some nested \<Rightarrow> concat (map collect_parse_artifact_item nested))"
| "collect_parse_artifact_item (ItemStatic h) = [push_parse_artifact_item ''static'' h]"
| "collect_parse_artifact_item (ItemStruct h) = [push_parse_artifact_item ''struct'' h]"
| "collect_parse_artifact_item (ItemTrait h methods) = collect_trait_parse_artifact_items h methods"
| "collect_parse_artifact_item (ItemTraitAlias h) = [push_parse_artifact_item ''trait-alias'' h]"
| "collect_parse_artifact_item (ItemType h) = [push_parse_artifact_item ''type'' h]"
| "collect_parse_artifact_item (ItemUnion h) = [push_parse_artifact_item ''union'' h]"
| "collect_parse_artifact_item (ItemImpl self_tokens trait_tokens h methods) =
     collect_impl_parse_artifact_items self_tokens trait_tokens h methods"
| "collect_parse_artifact_item (ItemUse vis tree start end1) =
     (if vis = VisInherited then [] else collect_reexport_items tree start end1)"
| "collect_parse_artifact_item ItemOther = []"

definition collect_parse_artifact_items :: "syn_item list \<Rightarrow> parse_artifact_item list" where
  "collect_parse_artifact_items items = concat (map collect_parse_artifact_item items)"

definition parse_owner_items_v1 :: "(string \<Rightarrow> string + syn_item list) \<Rightarrow> string \<Rightarrow> parse_artifact_item list result" where
  "parse_owner_items_v1 parse source =
     (case parse source of
        Inl e \<Rightarrow> Err (''failed to parse native owner-search source: '' @ e)
      | Inr items \<Rightarrow> Ok (collect_parse_artifact_items items))"


section \<open>JSON values\<close>

datatype json = JNull | JBool bool | JNum nat | JStr string | JArr "json list" | JObj "(string \<times> json) list"

fun json_get :: "string \<Rightarrow> json \<Rightarrow> json option" where
  "json_get k (JObj members) = map_of members k"
| "json_get k _ = None"

definition json_index :: "string \<Rightarrow> json \<Rightarrow> json" where
  "json_index k j = (case json_get k j of Some v \<Rightarrow> v | None \<Rightarrow> JNull)"

fun json_str :: "json \<Rightarrow> string option" where
  "json_str (JStr s) = Some s"
| "json_str _ = None"

section \<open>Exact selectors\<close>

record exact_projection_authority =
  epa_generation :: string
  epa_parser :: string
  epa_query_pack :: string

record resolved_exact_item =
  rx_selector :: canonical_item_selector
  rx_owner_path :: string
  rx_identity :: canonical_item_identity
  rx_code :: string
  rx_start :: nat
  rx_end :: nat
  rx_owner_blob_digest :: string
  rx_parser_artifact_digest :: "string option"

definition scope_json :: "canonical_item_scope \<Rightarrow> json" where
  "scope_json scope = JObj [(''relation'', JStr (scope_relation scope)), (''kind'', JStr (scope_kind scope)), (''symbol'', JStr (scope_symbol scope))]"

definition segment_selector :: "string \<Rightarrow> json list \<Rightarrow> string" where
  "segment_selector structural segments =
     (case segments of
        [] \<Rightarrow> structural
      | segment # _ \<Rightarrow> structural @ ''/segment/'' @ (case json_str (json_index ''kind'' segment) of Some k \<Rightarrow> k | None \<Rightarrow> ''node'')
          @ ''/'' @ (case json_str (json_index ''identity'' segment) of Some i \<Rightarrow> i | None \<Rightarrow> ''ordinal''))"

definition exact_selector_json :: "resolved_exact_item \<Rightarrow> exact_projection_authority \<Rightarrow> json list \<Rightarrow> json" where
  "exact_selector_json resolved authority segments =
     JObj [(''schemaId'', JStr ''asp.exact-structural-selector.v1''),
       (''schemaVersion'', JStr ''1''),
       (''languageId'', JStr ''rust''),
       (''ownerPath'', JStr (rx_owner_path resolved)),
       (''selector'', JStr (segment_selector (structural_selector (rx_selector resolved)) segments)),
       (''generationIdentityDigest'', JStr (epa_generation authority)),
       (''parserIdentityDigest'', JStr (epa_parser authority)),
       (''queryPackDigest'', JStr (epa_query_pack authority)),
       (''rootItemSelector'', JObj [(''schemaId'', JStr ''asp.canonical-item-selector.v1''),
          (''schemaVersion'', JStr ''1''),
          (''languageId'', JStr (selector_language_id (rx_selector resolved))),
          (''kind'', JStr (selector_kind (rx_selector resolved))),
          (''symbol'', JStr (selector_symbol (rx_selector resolved))),
          (''scopes'', JArr (map scope_json (selector_scopes (rx_selector resolved)))),
          (''structuralSelector'', JStr (structural_selector (rx_selector resolved)))]),
       (''segments'', JArr segments)]"

section \<open>Source positions\<close>

fun split_inclusive :: "string \<Rightarrow> string list" where
  "split_inclusive [] = []"
| "split_inclusive (c # s) =
     (if c = CHR 0x0A then [c] # split_inclusive s
      else case split_inclusive s of [] \<Rightarrow> [[c]] | l # ls \<Rightarrow> (c # l) # ls)"

definition line_column_offset :: "string \<Rightarrow> line_column \<Rightarrow> nat option" where
  "line_column_offset source loc =
     (if fst loc = 0 then None
      else let i = fst loc - 1; lines1 = split_inclusive source in
        if i < length lines1 then
          if snd loc \<le> length (lines1 ! i) then Some (sum_list (map length (take i lines1)) + snd loc) else None
        else if fst loc = length (str_lines source) + 1 \<and> snd loc = 0 then Some (length source) else None)"

section \<open>The callable skeleton\<close>

record skeleton_collector =
  sk_nodes :: "json list"
  sk_relations :: "json list"
  sk_next_order :: nat

definition push_skeleton ::
  "resolved_exact_item \<Rightarrow> exact_projection_authority \<Rightarrow> string \<Rightarrow> nat \<Rightarrow> string \<Rightarrow> string \<Rightarrow> syn_span \<Rightarrow> skeleton_collector \<Rightarrow> skeleton_collector" where
  "push_skeleton resolved authority span_source span_base k label1 sp c =
     (let order = sk_next_order c;
          node_id = k @ '':'' @ show_nat order;
          start = (case line_column_offset span_source (span_start sp) of Some i \<Rightarrow> i | None \<Rightarrow> 0);
          end1 = (case line_column_offset span_source (span_end sp) of Some i \<Rightarrow> i | None \<Rightarrow> start);
          segment = JObj [(''relation'', JStr ''contains''), (''kind'', JStr k), (''identity'', JStr (''ordinal-'' @ show_nat order)),
            (''label'', JStr label1)]
      in c\<lparr>sk_next_order := order + 1,
           sk_nodes := sk_nodes c @ [JObj [(''nodeId'', JStr node_id), (''kind'', JStr k), (''label'', JStr label1), (''order'', JNum order),
             (''queryable'', JBool True), (''selector'', json_index ''selector'' (exact_selector_json resolved authority [segment])),
             (''sourceLocatorHint'', JObj [(''sourceByteStart'', JNum (span_base + start)), (''sourceByteEnd'', JNum (span_base + end1))])]],
           sk_relations := sk_relations c @ [JObj [(''fromNodeId'', JStr ''callable:root''), (''toNodeId'', JStr node_id), (''kind'', JStr ''contains'')]]\<rparr>)"

fun node_label :: "visited_node \<Rightarrow> (string \<times> string \<times> syn_span) option" where
  "node_label (VisitLocal sp) = Some (''binding'', ''let'', sp)"
| "node_label (VisitExpr ExprIf sp) = Some (''branch'', ''if'', sp)"
| "node_label (VisitExpr ExprMatch sp) = Some (''branch'', ''match'', sp)"
| "node_label (VisitExpr ExprLoop sp) = Some (''loop'', ''loop'', sp)"
| "node_label (VisitExpr ExprWhile sp) = Some (''loop'', ''while'', sp)"
| "node_label (VisitExpr ExprForLoop sp) = Some (''loop'', ''for'', sp)"
| "node_label (VisitExpr ExprReturn sp) = Some (''exit'', ''return'', sp)"
| "node_label (VisitExpr ExprOther sp) = None"

definition visit_block ::
  "resolved_exact_item \<Rightarrow> exact_projection_authority \<Rightarrow> string \<Rightarrow> nat \<Rightarrow> visited_node list \<Rightarrow> skeleton_collector \<Rightarrow> skeleton_collector" where
  "visit_block resolved authority span_source span_base block c =
     foldl (\<lambda>c node. case node_label node of None \<Rightarrow> c
        | Some (k, label1, sp) \<Rightarrow> push_skeleton resolved authority span_source span_base k label1 sp c) c block"

definition root_node :: "syn_signature \<Rightarrow> json \<Rightarrow> json" where
  "root_node s root_selector =
     JObj [(''nodeId'', JStr ''callable:root''), (''kind'', JStr ''callable''), (''label'', JStr (sig_ident s)), (''order'', JNum 0),
       (''queryable'', JBool True), (''selector'', root_selector),
       (''languageFacts'', JObj [(''async'', JBool (sig_async s)), (''const'', JBool (sig_const s)), (''unsafe'', JBool (sig_unsafe s)),
          (''inputCount'', JNum (sig_input_count s)), (''genericParameterCount'', JNum (sig_generic_count s))])]"

definition callable_kind_of :: "string \<Rightarrow> string" where
  "callable_kind_of k = (if k = ''method'' \<or> k = ''trait-function'' then ''method'' else k)"

definition skeleton_payload :: "resolved_exact_item \<Rightarrow> syn_signature \<Rightarrow> json \<Rightarrow> skeleton_collector \<Rightarrow> nat \<Rightarrow> nat \<Rightarrow> json" where
  "skeleton_payload resolved s root_selector c projected omitted =
     JObj [(''rootSelector'', root_selector), (''rootNodeId'', JStr ''callable:root''),
       (''callable'', JObj [(''kind'', JStr (callable_kind_of (identity_kind (rx_identity resolved)))),
          (''displayName'', JStr (sig_ident s)), (''signature'', JStr (sig_ident s))]),
       (''nodes'', JArr (sk_nodes c)), (''relations'', JArr (sk_relations c)),
       (''cost'', JObj [(''sourceBytes'', JNum (length (rx_code resolved))), (''projectedBytes'', JNum projected), (''omittedBytes'', JNum omitted)]),
       (''languageFacts'', JObj [(''parser'', JStr ''syn''), (''syntax'', JStr ''rust'')])]"

fun settle_cost :: "(nat \<Rightarrow> nat \<Rightarrow> string result) \<Rightarrow> nat \<Rightarrow> nat \<Rightarrow> nat \<times> nat \<Rightarrow> (nat \<times> nat) result" where
  "settle_cost encode source_bytes 0 cost = Ok cost"
| "settle_cost encode source_bytes (Suc n) (projected, omitted) =
     (case encode projected omitted of
        Inl e \<Rightarrow> Err (''measure callable skeleton projection: '' @ e)
      | Inr bytes \<Rightarrow> settle_cost encode source_bytes n (length bytes, source_bytes - length bytes))"

definition render_callable_skeleton_projection ::
  "(json \<Rightarrow> string result) \<Rightarrow> resolved_exact_item \<Rightarrow> exact_projection_authority \<Rightarrow> parsed_callable \<Rightarrow> string \<Rightarrow> nat \<Rightarrow> json result" where
  "render_callable_skeleton_projection to_vec resolved authority callable span_source span_base =
     (case json_get ''selector'' (exact_selector_json resolved authority []) of
        None \<Rightarrow> Err ''callable root exact selector omitted selector''
      | Some root_selector \<Rightarrow>
          let start = \<lparr>sk_nodes = [root_node (pc_signature callable) root_selector], sk_relations = [], sk_next_order = 1\<rparr>;
              c = (case pc_block callable of None \<Rightarrow> start
                   | Some block \<Rightarrow> visit_block resolved authority span_source span_base block start);
              payload = skeleton_payload resolved (pc_signature callable) root_selector c
          in map_ok (\<lambda>(projected, omitted). payload projected omitted)
               (settle_cost (\<lambda>p m. to_vec (payload p m)) (length (rx_code resolved)) 3 (0, 0)))"

definition callable_skeleton_projection_from_owner_syntax ::
  "(json \<Rightarrow> string result) \<Rightarrow> resolved_exact_item \<Rightarrow> exact_projection_authority \<Rightarrow> parsed_callable \<Rightarrow> string \<Rightarrow> json result" where
  "callable_skeleton_projection_from_owner_syntax to_vec resolved authority callable owner_source =
     render_callable_skeleton_projection to_vec resolved authority callable owner_source 0"


section \<open>The reported cost\<close>

abbreviation digit_count :: "nat \<Rightarrow> nat" where "digit_count n \<equiv> length (show_nat n)"

lemma digit_count_upper: "n < 10 ^ digit_count n"
proof (induction n rule: show_nat.induct)
  case (1 n)
  then show ?case by (cases "n < 10") (auto simp: show_nat.simps [of n])
qed

lemma digit_count_lower: "0 < n \<Longrightarrow> 10 ^ digit_count n \<le> 10 * n"
proof (induction n rule: show_nat.induct)
  case (1 n)
  show ?case
  proof (cases "n < 10")
    case False
    then have "10 ^ digit_count (n div 10) \<le> 10 * (n div 10)" using 1 by simp
    also have "\<dots> \<le> n" by simp
    finally show ?thesis using False by (simp add: show_nat.simps [of n])
  qed (use 1 in \<open>simp add: show_nat.simps [of n]\<close>)
qed

lemma digit_count_eq: "0 < n \<Longrightarrow> 10 ^ d \<le> n \<Longrightarrow> n < 10 ^ Suc d \<Longrightarrow> digit_count n = Suc d"
proof -
  assume n: "0 < n" "10 ^ d \<le> n" "n < 10 ^ Suc d"
  have "(10 :: nat) ^ d < 10 ^ digit_count n" using n digit_count_upper [of n] by linarith
  moreover have "(10 :: nat) ^ digit_count n < 10 ^ Suc (Suc d)" using n digit_count_lower [of n] by simp
  ultimately have "d < digit_count n" "digit_count n < Suc (Suc d)" by (simp_all only: power_strict_increasing_iff)
  then show ?thesis by simp
qed

lemma digit_count_close:
  assumes "0 < a" "a \<le> b" "b < 9 * a"
  shows "digit_count b = digit_count a \<or> digit_count b = Suc (digit_count a) \<and> b + 1 < 10 ^ Suc (digit_count a)"
proof -
  define d where "d = digit_count a"
  have a: "a < 10 ^ d" "10 ^ d \<le> 10 * a" unfolding d_def using digit_count_upper digit_count_lower assms(1) by blast+
  have "0 < d" using show_nat_ne [of a] by (simp add: d_def)
  then obtain k where k: "d = Suc k" by (cases d) auto
  show ?thesis
  proof (cases "b < 10 ^ d")
    case True
    have "10 ^ k \<le> b" using a assms k by simp
    then show ?thesis using digit_count_eq [of b k] True k assms unfolding d_def by simp
  next
    case False
    have "b + 1 < 10 ^ Suc d" using a(1) assms(3) by simp
    then show ?thesis using digit_count_eq [of b d] False assms unfolding d_def by simp
  qed
qed

text \<open>
  The cost of a callable skeleton is the size of the packet that reports it. If the serializer prints the two counts in decimal and
  the rest of the packet has \<open>base\<close> bytes, then, while the width of the omitted count does not depend on the few bytes in
  question, three rounds settle: the reported projected bytes are the length of the packet with them, and the omitted bytes the rest.
\<close>

lemma skeleton_cost_settles:
  assumes encode: "\<And>p m. \<exists>bytes. encode p m = Ok bytes \<and> length bytes = base + digit_count p + digit_count m"
    and width: "\<And>p. base + 2 \<le> p \<Longrightarrow> p \<le> base + k + digit_count (base + 2) + 1 \<Longrightarrow> digit_count (source_bytes - p) = k"
    and large: "k + digit_count (base + 2) \<le> base"
  shows "\<exists>projected bytes. settle_cost encode source_bytes 3 (0, 0) = Ok (projected, source_bytes - projected) \<and>
    encode projected (source_bytes - projected) = Ok bytes \<and> length bytes = projected"
proof -
  define p1 where "p1 = base + 2"
  define p2 where "p2 = base + digit_count p1 + digit_count (source_bytes - p1)"
  define p3 where "p3 = base + digit_count p2 + digit_count (source_bytes - p2)"
  have "k \<noteq> 0" using width [of "base + 2"] show_nat_ne [of "source_bytes - (base + 2)"] show_nat_ne [of "base + 2"]
    by (cases k; cases "show_nat (base + 2)") auto
  have "digit_count p1 \<noteq> 0" using show_nat_ne [of p1] by simp
  have p2: "p2 = base + digit_count p1 + k" unfolding p2_def p1_def using width [of "base + 2"] \<open>k \<noteq> 0\<close> by simp
  then have "p1 \<le> p2" using \<open>k \<noteq> 0\<close> \<open>digit_count p1 \<noteq> 0\<close> unfolding p1_def by linarith
  have p3: "p3 = base + digit_count p2 + k" unfolding p3_def using width [of p2] p2 \<open>p1 \<le> p2\<close> by (simp add: p1_def)
  have "p2 < 9 * p1" using large unfolding p2 by (simp add: p1_def)
  from digit_count_close [OF _ \<open>p1 \<le> p2\<close> this]
  have "digit_count p2 = digit_count p1 \<or> digit_count p2 = Suc (digit_count p1) \<and> p2 + 1 < 10 ^ Suc (digit_count p1)"
    by (simp add: p1_def)
  then have settled: "digit_count p3 = digit_count p2 \<and> p1 \<le> p3 \<and> p3 \<le> p2 + 1"
  proof
    assume "digit_count p2 = digit_count p1"
    then have "p3 = p2" unfolding p3 p2 by simp
    with \<open>p1 \<le> p2\<close> show ?thesis by simp
  next
    assume grown: "digit_count p2 = Suc (digit_count p1) \<and> p2 + 1 < 10 ^ Suc (digit_count p1)"
    then have "p3 = p2 + 1" unfolding p3 p2 by simp
    moreover have "10 ^ digit_count p1 \<le> p3"
      using digit_count_lower [of p2] grown \<open>p3 = p2 + 1\<close> \<open>p1 \<le> p2\<close> by (simp add: p1_def)
    ultimately show ?thesis using digit_count_eq [of p3 "digit_count p1"] grown \<open>p1 \<le> p2\<close> by simp
  qed
  have out: "source_bytes - p3 = source_bytes - p3" "digit_count (source_bytes - p3) = k"
    using width [of p3] settled p2 by (simp_all add: p1_def)
  have zero: "digit_count 0 = 1" by (simp add: show_nat.simps)
  obtain b1 where b1: "encode 0 0 = Ok b1" "length b1 = p1" using encode [of 0 0] by (auto simp: zero p1_def)
  obtain b2 where b2: "encode p1 (source_bytes - p1) = Ok b2" "length b2 = p2" using encode p2_def by metis
  obtain b3 where b3: "encode p2 (source_bytes - p2) = Ok b3" "length b3 = p3" using encode p3_def by metis
  obtain b4 where b4: "encode p3 (source_bytes - p3) = Ok b4" "length b4 = p3"
    using encode [of p3 "source_bytes - p3"] settled out p3 by auto
  show ?thesis using b1 b2 b3 b4 by (auto simp: numeral_3_eq_3)
qed

text \<open>With a width that does depend on them the rounds alternate: a report of 1006 bytes for a packet of 1007.\<close>

definition sample_encode :: "nat \<Rightarrow> nat \<Rightarrow> string result" where
  "sample_encode p m = Ok (replicate 1000 CHR '' '' @ show_nat p @ show_nat m)"

lemma skeleton_cost_alternates:
  "settle_cost sample_encode 1106 3 (0, 0) = Ok (1006, 100) \<and> map_ok length (sample_encode 1006 100) = Ok 1007"
proof -
  have "digit_count 0 = 1" "digit_count 1002 = 4" "digit_count 104 = 3" "digit_count 1007 = 4" "digit_count 99 = 2"
    "digit_count 1006 = 4" "digit_count 100 = 3" by (simp_all add: show_nat.simps)
  then show ?thesis by (simp add: sample_encode_def numeral_3_eq_3)
qed



section \<open>Positions and identities\<close>

lemma split_inclusive_concat: "concat (split_inclusive s) = s"
  by (induction s) (auto split: list.splits)

lemma line_column_offset_within:
  assumes "line_column_offset source loc = Some i"
  shows "i \<le> length source"
proof -
  have "sum_list (map length (take n ls)) + length (ls ! n) \<le> length (concat ls)" if "n < length ls" for n and ls :: "string list"
    using that by (induction ls arbitrary: n) (auto simp: take_Cons nth_Cons split: nat.splits)
  from this [of _ "split_inclusive source"] show ?thesis
    using assms by (fastforce simp: line_column_offset_def Let_def split_inclusive_concat split: if_splits)
qed

text \<open>
  A column counts characters, the offset adds it to the bytes before the line: after a two-byte character the offset of the next
  token is a byte short.
\<close>

lemma column_is_not_a_byte_offset:
  "line_column_offset [CHR 0xC3, CHR 0xA9, CHR '' '', CHR ''x''] (1, 2) = Some 2 \<and>
   [CHR 0xC3, CHR 0xA9, CHR '' '', CHR ''x''] ! 3 = CHR ''x''"
  by (simp add: line_column_offset_def)

text \<open>The items of an inline module carry no scope for it: two modules that declare a name give the same identity twice.\<close>

lemma modules_share_identities:
  "map pa_identity (collect_parse_artifact_items [ItemMod a (Some [ItemStruct h]), ItemMod b (Some [ItemStruct h])]) =
   [pa_identity (push_parse_artifact_item ''module'' a), pa_identity (push_parse_artifact_item ''struct'' h),
    pa_identity (push_parse_artifact_item ''module'' b), pa_identity (push_parse_artifact_item ''struct'' h)]"
  by (simp add: collect_parse_artifact_items_def)

end
