(* ===== verification/Provider_Projection.thy ===== *)
theory Provider_Projection
  imports Exact_Source
begin

text \<open>
  The projection of owners for the server (\<open>src/provider_server/projection.rs\<close>): the checks of a batch, the items of an owner with
  their selectors, and the response. The decoder of base64, the parser and the two JSON writers, of a value and of a string, are
  arguments.
\<close>

section \<open>Batches\<close>

record projection_owner =
  po_path :: path
  po_digest :: string
  po_encoding :: string
  po_text :: "string option"
  po_base64 :: "string option"

record projection_header =
  pj_schema_id :: string
  pj_schema_version :: string
  pj_language_id :: string
  pj_provider_id :: string
  pj_workspace :: string
  pj_generation :: string
  pj_parser :: string
  pj_query_pack :: string
  pj_base_generation :: "string option"
  pj_owners :: "projection_owner list"
  pj_auxiliary :: "projection_owner list"

record projection_host =
  ph_base64 :: "string \<Rightarrow> string + string"
  ph_parse :: "string \<Rightarrow> string + syn_item list"
  ph_to_vec :: "json \<Rightarrow> string result"
  ph_string :: "string \<Rightarrow> string result"
  ph_utf8_error :: "string \<Rightarrow> string"

definition mismatch :: string where
  "mismatch = ''projection owner source encoding payload mismatch''"

definition decode_base64 :: "projection_host \<Rightarrow> string \<Rightarrow> string result" where
  "decode_base64 h s = (case ph_base64 h s of Inl e \<Rightarrow> Err (''decode projection owner base64 source: '' @ e) | Inr bytes \<Rightarrow> Ok bytes)"

definition validate_source_encoding_payload :: "projection_host \<Rightarrow> projection_owner \<Rightarrow> unit result" where
  "validate_source_encoding_payload h owner =
     (case (po_text owner, po_base64 owner) of
        (Some _, None) \<Rightarrow> if po_encoding owner = ''utf8'' then Ok () else Err mismatch
      | (None, Some encoded) \<Rightarrow>
          if po_encoding owner = ''base64'' then map_ok (\<lambda>_. ()) (decode_base64 h encoded) else Err mismatch
      | _ \<Rightarrow> Err mismatch)"

definition decode_source_text :: "projection_host \<Rightarrow> projection_owner \<Rightarrow> string result" where
  "decode_source_text h owner =
     (case (po_text owner, po_base64 owner) of
        (Some source, None) \<Rightarrow> if po_encoding owner = ''utf8'' then Ok source else Err mismatch
      | (None, Some encoded) \<Rightarrow>
          if po_encoding owner = ''base64'' then and_then (decode_base64 h encoded) (\<lambda>source.
            if utf8_valid source then Ok source else Err (''Rust projection owner is not UTF-8: '' @ ph_utf8_error h source))
          else Err mismatch
      | _ \<Rightarrow> Err mismatch)"

definition validate_relative_owner :: "path \<Rightarrow> unit result" where
  "validate_relative_owner owner =
     (if is_absolute owner \<or> list_ex (\<lambda>c. c = ParentDir \<or> c = RootDir) owner
      then Err ''projection owner must be a relative workspace path'' else Ok ())"

fun validate_owner_identities :: "projection_host \<Rightarrow> path list \<Rightarrow> projection_owner list \<Rightarrow> unit result" where
  "validate_owner_identities h paths [] = Ok ()"
| "validate_owner_identities h paths (owner # owners) =
     and_then (validate_relative_owner (po_path owner)) (\<lambda>_.
     and_then (validate_source_encoding_payload h owner) (\<lambda>_.
       if trim (po_digest owner) = [] \<or> po_path owner \<in> set paths
       then Err ''projection batch owner identities must be non-empty and unique''
       else validate_owner_identities h (po_path owner # paths) owners))"

definition validate_projection_batch_header :: "projection_host \<Rightarrow> projection_header \<Rightarrow> unit result" where
  "validate_projection_batch_header h header =
     (if pj_schema_id header \<noteq> ''agent.semantic-protocols.provider-language-projection-batch-request'' \<or>
         pj_schema_version header \<noteq> ''1'' \<or> pj_language_id header \<noteq> ''rust'' \<or> pj_provider_id header \<noteq> ''asp-rust''
      then Err ''projection batch header contract mismatch''
      else if trim (pj_workspace header) = [] \<or> trim (pj_generation header) = [] \<or> trim (pj_parser header) = [] \<or>
         trim (pj_query_pack header) = [] \<or> pj_base_generation header = Some [] \<or> pj_owners header = []
      then Err ''projection batch header requires generation identity and owners''
      else if list_ex (\<lambda>owner. trim (po_digest owner) = [] \<or> Option.bind (path_extension (po_path owner)) to_str \<noteq> Some ''rs'') (pj_owners header)
      then Err ''projection batch owners must be identified Rust sources''
      else validate_owner_identities h [] (pj_owners header @ pj_auxiliary header))"

section \<open>Items of an owner\<close>

datatype projection_items_error = SyntaxError string | IntegrityError string

definition project_path :: "path \<Rightarrow> string" where
  "project_path p = join_with ''/'' (List.map_filter (\<lambda>c. case c of Normal s \<Rightarrow> to_str s | _ \<Rightarrow> None) p)"

definition item_selector :: "string \<Rightarrow> canonical_item_identity \<Rightarrow> string" where
  "item_selector relative_path identity = ''rust://'' @ relative_path @ ''#'' @ encode_canonical_item_identity_path identity"

text \<open>\<open>str::get(a..b)\<close>: both ends on the boundary of a character of the source.\<close>

definition char_boundary :: "string \<Rightarrow> nat \<Rightarrow> bool" where
  "char_boundary s i \<longleftrightarrow> i = length s \<or> i < length s \<and> \<not> cont_byte (s ! i)"

definition str_get :: "string \<Rightarrow> nat \<Rightarrow> nat \<Rightarrow> string option" where
  "str_get s a b = (if a \<le> b \<and> char_boundary s a \<and> char_boundary s b then Some (drop a (take b s)) else None)"

definition item_projections ::
  "projection_host \<Rightarrow> string \<Rightarrow> string \<Rightarrow> string \<Rightarrow> exact_projection_authority option \<Rightarrow> parse_artifact_item \<Rightarrow> json list result" where
  "item_projections h source relative_path digest authority a =
     (case (pa_callable a, authority) of
        (Some callable, Some auth) \<Rightarrow>
          let sel = item_selector relative_path (pa_identity a) in
          and_then (ok_or (''callable projection range is outside owner: '' @ sel) (str_get source (pa_start a) (pa_end a))) (\<lambda>code.
          map_ok (\<lambda>payload. [JObj [(''projectionKind'', JStr ''callable-skeleton''), (''payload'', payload)]])
            (callable_skeleton_projection_from_owner_syntax (ph_to_vec h)
              \<lparr>rx_selector = selector_new (pa_identity a) sel, rx_owner_path = relative_path, rx_identity = pa_identity a, rx_code = code,
               rx_start = pa_start a, rx_end = pa_end a, rx_owner_blob_digest = digest, rx_parser_artifact_digest = None\<rparr>
              auth callable source))
      | _ \<Rightarrow> Ok [])"

definition projection_identity :: "canonical_item_identity \<Rightarrow> json" where
  "projection_identity identity =
     JObj [(''schemaId'', JStr ''agent.semantic-protocols.canonical-language-item-identity''), (''schemaVersion'', JStr ''1''),
       (''languageId'', JStr (identity_language_id identity)), (''kind'', JStr (identity_kind identity)),
       (''symbol'', JStr (identity_symbol identity)), (''scopes'', JArr (map scope_json (identity_scopes identity)))]"

definition item_id :: "canonical_item_identity \<Rightarrow> string" where
  "item_id identity = replace_char CHR ''/'' CHR '':'' (encode_canonical_item_identity_path identity)"

definition item_json :: "string \<Rightarrow> string \<Rightarrow> parse_artifact_item \<Rightarrow> json list \<Rightarrow> json" where
  "item_json relative_path owner_id a projections =
     JObj [(''itemId'', JStr (item_id (pa_identity a))), (''ownerId'', JStr owner_id), (''kind'', JStr (identity_kind (pa_identity a))),
       (''name'', JStr (identity_symbol (pa_identity a))), (''selector'', JStr (item_selector relative_path (pa_identity a))),
       (''sourceByteStart'', JNum (pa_start a)), (''sourceByteEnd'', JNum (pa_end a)),
       (''identity'', projection_identity (pa_identity a)), (''projections'', JArr projections)]"

fun project_artifacts ::
  "(parse_artifact_item \<Rightarrow> json result) \<Rightarrow> (parse_artifact_item \<Rightarrow> string) \<Rightarrow> string list \<Rightarrow> parse_artifact_item list \<Rightarrow> json list result" where
  "project_artifacts project selector_of seen [] = Ok []"
| "project_artifacts project selector_of seen (a # artifacts) =
     (if selector_of a \<in> set seen then project_artifacts project selector_of seen artifacts
      else and_then (project a) (\<lambda>item. map_ok (Cons item) (project_artifacts project selector_of (selector_of a # seen) artifacts)))"

definition projection_items ::
  "projection_host \<Rightarrow> string \<Rightarrow> string \<Rightarrow> string \<Rightarrow> string \<Rightarrow> exact_projection_authority option \<Rightarrow> projection_items_error + json list" where
  "projection_items h source relative_path owner_id digest authority =
     (case parse_owner_items_v1 (ph_parse h) source of
        Inl e \<Rightarrow> Inl (SyntaxError e)
      | Inr artifacts \<Rightarrow>
          (case project_artifacts
             (\<lambda>a. map_ok (item_json relative_path owner_id a) (item_projections h source relative_path digest authority a))
             (\<lambda>a. item_selector relative_path (pa_identity a)) [] artifacts of
             Inl e \<Rightarrow> Inl (IntegrityError e)
           | Inr items \<Rightarrow> Inr items))"

section \<open>Owners and batches\<close>

text \<open>\<open>chars().take(n)\<close>: a character starts at every byte that is not a continuation byte.\<close>

fun take_chars :: "nat \<Rightarrow> string \<Rightarrow> string" where
  "take_chars n [] = []"
| "take_chars n (c # s) =
     (if cont_byte c then c # take_chars n s
      else case n of 0 \<Rightarrow> [] | Suc k \<Rightarrow> c # take_chars k s)"

definition bounded_projection_diagnostic :: "string \<Rightarrow> string" where
  "bounded_projection_diagnostic message =
     take_chars 4096 (if trim message = [] then ''Rust parser rejected the source owner'' else trim message)"

definition contains_relation :: "string \<Rightarrow> json \<Rightarrow> json" where
  "contains_relation owner_id item =
     JObj [(''from'', JObj [(''kind'', JStr ''owner''), (''id'', JStr owner_id)]), (''kind'', JStr ''contains''),
       (''to'', JObj [(''kind'', JStr ''item''), (''id'', json_index ''itemId'' item)])]"

definition owner_json :: "string \<Rightarrow> string \<Rightarrow> string \<Rightarrow> json \<Rightarrow> json list \<Rightarrow> json list \<Rightarrow> json" where
  "owner_json relative_path digest projection_state diagnostic items relations =
     JObj [(''ownerPath'', JStr relative_path), (''sourceLeafDigest'', JStr digest), (''projectionState'', JStr projection_state),
       (''diagnostic'', diagnostic), (''items'', JArr items), (''relations'', JArr relations)]"

definition render_batch_owner_projection ::
  "projection_host \<Rightarrow> path \<Rightarrow> string \<Rightarrow> string \<Rightarrow> exact_projection_authority \<Rightarrow> json result" where
  "render_batch_owner_projection h owner digest source authority =
     (if trim digest = [] then Err ''projection owner sourceLeafDigest must be non-empty''
      else let relative_path = project_path owner; owner_id = ''owner:'' @ relative_path in
        case projection_items h source relative_path owner_id digest (Some authority) of
          Inl (SyntaxError message) \<Rightarrow>
            Ok (owner_json relative_path digest ''syntax-unavailable''
              (JObj [(''schemaId'', JStr ''agent.semantic-protocols.provider-language-projection-diagnostic''), (''schemaVersion'', JStr ''1''),
                 (''reasonKind'', JStr ''source-syntax-unavailable''), (''message'', JStr (bounded_projection_diagnostic message))]) [] [])
        | Inl (IntegrityError message) \<Rightarrow> Err message
        | Inr items \<Rightarrow> Ok (owner_json relative_path digest ''ready'' JNull items (map (contains_relation owner_id) items)))"

definition json_quoted :: "string \<Rightarrow> string" where "json_quoted s = [CHR 0x22] @ s @ [CHR 0x22]"

definition write_field :: "projection_host \<Rightarrow> string \<Rightarrow> string \<Rightarrow> string result" where
  "write_field h what s =
     (case ph_string h s of Inl e \<Rightarrow> Err (''encode projection response '' @ what @ '': '' @ e) | Inr written \<Rightarrow> Ok written)"

definition encode_projection_batch_response :: "projection_host \<Rightarrow> projection_header \<Rightarrow> string list \<Rightarrow> string result" where
  "encode_projection_batch_response h header projected_owners =
     and_then (write_field h ''languageId'' (pj_language_id header)) (\<lambda>language_id.
     and_then (write_field h ''providerId'' (pj_provider_id header)) (\<lambda>provider_id.
     and_then (write_field h ''generationRootDigest'' (pj_generation header)) (\<lambda>generation.
       Ok (''{'' @ json_quoted ''schemaId'' @ '':'' @ json_quoted ''agent.semantic-protocols.provider-language-projection-batch-response'' @ '','' @
           json_quoted ''schemaVersion'' @ '':'' @ json_quoted ''1'' @ '','' @ json_quoted ''languageId'' @ '':'' @ language_id @
           '','' @ json_quoted ''providerId'' @ '':'' @ provider_id @ '','' @ json_quoted ''generationRootDigest'' @ '':'' @ generation @
           '','' @ json_quoted ''owners'' @ '':['' @ join_with '','' projected_owners @ '']}''))))"

definition project_owner :: "projection_host \<Rightarrow> projection_header \<Rightarrow> projection_owner \<Rightarrow> string result" where
  "project_owner h header owner =
     and_then (decode_source_text h owner) (\<lambda>source.
     and_then (render_batch_owner_projection h (po_path owner) (po_digest owner) source
       \<lparr>epa_generation = pj_generation header, epa_parser = pj_parser header, epa_query_pack = pj_query_pack header\<rparr>) (\<lambda>projection.
       case ph_to_vec h projection of Inl e \<Rightarrow> Err (''encode projected Rust owner: '' @ e) | Inr bytes \<Rightarrow> Ok bytes))"

definition handle_language_projection_batch :: "projection_host \<Rightarrow> projection_header \<Rightarrow> string result" where
  "handle_language_projection_batch h header =
     and_then (validate_projection_batch_header h header) (\<lambda>_.
     and_then (collect_results (project_owner h header) (pj_owners header)) (\<lambda>projected_owners.
       encode_projection_batch_response h header projected_owners))"


section \<open>What an owner projection holds\<close>

definition first_occurrences :: "'a list \<Rightarrow> 'a list" where
  "first_occurrences xs = rev (remdups (rev xs))"

lemma remdups_filter: "remdups (filter P xs) = filter P (remdups xs)"
  by (induction xs) auto

lemma first_occurrences_Cons: "first_occurrences (x # xs) = x # filter (\<lambda>y. y \<noteq> x) (first_occurrences xs)"
proof -
  have "remdups (ys @ [x]) = filter (\<lambda>y. y \<noteq> x) (remdups ys) @ [x]" for ys by (induction ys) auto
  then show ?thesis by (simp add: first_occurrences_def rev_filter)
qed

lemma first_occurrences_filter: "filter P (first_occurrences xs) = first_occurrences (filter P xs)"
  by (simp add: first_occurrences_def rev_filter remdups_filter)

lemma project_artifacts_selectors:
  assumes "project_artifacts project selector_of seen artifacts = Ok items" "\<And>a item. project a = Ok item \<Longrightarrow> f item = selector_of a"
  shows "map f items = first_occurrences (filter (\<lambda>s. s \<notin> set seen) (map selector_of artifacts))"
  using assms(1)
proof (induction artifacts arbitrary: seen items)
  case Nil
  then show ?case by (simp add: first_occurrences_def)
next
  case (Cons a artifacts)
  show ?case
  proof (cases "selector_of a \<in> set seen")
    case False
    then obtain item rest where "project a = Ok item" "items = item # rest"
      "project_artifacts project selector_of (selector_of a # seen) artifacts = Ok rest"
      using Cons.prems by (auto simp: and_then_Inr_iff map_ok_Inr_iff)
    moreover have "filter (\<lambda>s. s \<notin> set (selector_of a # seen)) (map selector_of artifacts) =
        filter (\<lambda>s. s \<noteq> selector_of a) (filter (\<lambda>s. s \<notin> set seen) (map selector_of artifacts))"
      by (simp add: conj_commute)
    ultimately show ?thesis
      using Cons.IH [of "selector_of a # seen" rest] assms(2) False
      by (simp add: first_occurrences_Cons first_occurrences_filter del: filter_filter)
  qed (use Cons in simp)
qed

lemma encoded_path_no_colon: "CHR '':'' \<notin> set (encode_canonical_item_identity_path identity)"
proof -
  have comp: "CHR '':'' \<notin> set (encode_component s)" for s
    using encode_component_chars by (force simp: unreserved_def)
  then have "CHR '':'' \<notin> set (join_with ''/'' (path_components identity))"
    by (intro join_with_no_separator) (auto simp: path_components_def split: if_splits)
  then show ?thesis by (simp add: encoded_path_components)
qed

lemma item_id_selector: "item_id i = item_id j \<longleftrightarrow> item_selector p i = item_selector p j"
proof -
  have "replace_char CHR '':'' CHR ''/'' (replace_char CHR ''/'' CHR '':'' s) = s" if "CHR '':'' \<notin> set s" for s
    using that by (induction s) (auto simp: replace_char_def)
  then have "item_id i = item_id j \<longleftrightarrow> encode_canonical_item_identity_path i = encode_canonical_item_identity_path j"
    unfolding item_id_def by (metis encoded_path_no_colon)
  then show ?thesis by (simp add: item_selector_def)
qed

definition text_field :: "string \<Rightarrow> json \<Rightarrow> string" where
  "text_field k j = (case json_get k j of Some (JStr s) \<Rightarrow> s | _ \<Rightarrow> [])"

lemma item_json_fields:
  "text_field ''selector'' (item_json p owner_id a js) = item_selector p (pa_identity a)"
  "text_field ''itemId'' (item_json p owner_id a js) = item_id (pa_identity a)"
  by (simp_all add: text_field_def item_json_def)

lemma project_artifacts_from:
  "project_artifacts project selector_of seen artifacts = Ok items \<Longrightarrow> item \<in> set items \<Longrightarrow> \<exists>a\<in>set artifacts. project a = Ok item"
proof (induction artifacts arbitrary: seen items)
  case (Cons a artifacts)
  then show ?case by (fastforce simp: and_then_Inr_iff map_ok_Inr_iff split: if_splits)
qed simp

lemma projection_items_selectors:
  assumes "project_artifacts (\<lambda>a. map_ok (item_json p owner_id a) (projections a)) (\<lambda>a. item_selector p (pa_identity a)) [] artifacts = Ok items"
  shows "map (text_field ''selector'') items = first_occurrences (map (\<lambda>a. item_selector p (pa_identity a)) artifacts)"
proof -
  have "text_field ''selector'' item = item_selector p (pa_identity a)" if "map_ok (item_json p owner_id a) (projections a) = Ok item" for a item
    using that by (auto simp: map_ok_Inr_iff item_json_fields)
  from project_artifacts_selectors [OF assms this] show ?thesis by simp
qed

lemma projection_items_distinct_ids:
  assumes "project_artifacts (\<lambda>a. map_ok (item_json p owner_id a) (projections a)) (\<lambda>a. item_selector p (pa_identity a)) [] artifacts = Ok items"
  shows "distinct (map (text_field ''selector'') items) \<and> distinct (map (text_field ''itemId'') items)"
proof -
  have "distinct (map (text_field ''selector'') items)"
    unfolding projection_items_selectors [OF assms] by (simp add: first_occurrences_def)
  moreover have "text_field ''itemId'' x = text_field ''itemId'' y \<longleftrightarrow> text_field ''selector'' x = text_field ''selector'' y"
    if x: "x \<in> set items" and y: "y \<in> set items" for x y
  proof -
    obtain a js where a: "x = item_json p owner_id a js" using project_artifacts_from [OF assms x] by (auto simp: map_ok_Inr_iff)
    obtain b ks where b: "y = item_json p owner_id b ks" using project_artifacts_from [OF assms y] by (auto simp: map_ok_Inr_iff)
    show ?thesis unfolding a b item_json_fields by (rule item_id_selector)
  qed
  ultimately show ?thesis by (auto simp: distinct_map inj_on_def)
qed


lemma project_artifacts_error:
  "project_artifacts project selector_of seen artifacts = Err e \<Longrightarrow> \<exists>a\<in>set artifacts. project a = Err e"
proof (induction artifacts arbitrary: seen)
  case (Cons a artifacts)
  show ?case
  proof (cases "selector_of a \<in> set seen")
    case False
    with Cons.prems show ?thesis
      using Cons.IH [of "selector_of a # seen"]
      by (cases "project a"; cases "project_artifacts project selector_of (selector_of a # seen) artifacts") auto
  qed (use Cons in auto)
qed simp

text \<open>
  C18: the items of an owner are exactly the items its parser finds, one per selector. They carry the selectors of the parsed items in
  the order in which these first occur, with distinct selectors and distinct item ids; the projection is without syntax
  exactly when the parser rejects the source, and fails only with the error of some item's skeleton.
\<close>

theorem owner_projection_exact:
  "case projection_items h source relative_path owner_id digest authority of
     Inl (SyntaxError _) \<Rightarrow> \<exists>m. ph_parse h source = Inl m
   | Inl (IntegrityError e) \<Rightarrow> \<exists>parsed. ph_parse h source = Inr parsed \<and>
       list_ex (\<lambda>a. item_projections h source relative_path digest authority a = Err e) (collect_parse_artifact_items parsed)
   | Inr items \<Rightarrow> \<exists>parsed. ph_parse h source = Inr parsed \<and>
       map (text_field ''selector'') items =
         first_occurrences (map (\<lambda>a. item_selector relative_path (pa_identity a)) (collect_parse_artifact_items parsed)) \<and>
       distinct (map (text_field ''selector'') items) \<and> distinct (map (text_field ''itemId'') items)"
proof (cases "ph_parse h source")
  case (Inr parsed)
  let ?project = "\<lambda>a. map_ok (item_json relative_path owner_id a) (item_projections h source relative_path digest authority a)"
  let ?run = "project_artifacts ?project (\<lambda>a. item_selector relative_path (pa_identity a)) [] (collect_parse_artifact_items parsed)"
  show ?thesis
  proof (cases ?run)
    case (Inl e)
    from project_artifacts_error [OF this] obtain a where "a \<in> set (collect_parse_artifact_items parsed)" "?project a = Err e" by blast
    then have "list_ex (\<lambda>a. item_projections h source relative_path digest authority a = Err e) (collect_parse_artifact_items parsed)"
      by (auto simp: list_ex_iff map_ok_def split: sum.splits)
    with Inl Inr show ?thesis by (simp add: projection_items_def parse_owner_items_v1_def)
  next
    case (Inr items)
    with projection_items_selectors [OF Inr] projection_items_distinct_ids [OF Inr] \<open>ph_parse h source = Inr parsed\<close>
    show ?thesis by (simp add: projection_items_def parse_owner_items_v1_def)
  qed
qed (simp add: projection_items_def parse_owner_items_v1_def)

text \<open>
  The uniqueness check compares paths, the projection drops a leading \<open>.\<close>: two owners pass as distinct and are projected under
  one path.
\<close>

lemma current_dir_owner_collides:
  fixes owner :: projection_owner
  assumes "po_encoding owner = ''utf8''" "po_text owner = Some src" "po_base64 owner = None" "trim (po_digest owner) \<noteq> []"
  defines "a \<equiv> owner\<lparr>po_path := [Normal ''a.rs'']\<rparr>" and "b \<equiv> owner\<lparr>po_path := [CurDir, Normal ''a.rs'']\<rparr>"
  shows "validate_owner_identities h [] [a, b] = Ok () \<and> project_path (po_path a) = project_path (po_path b)"
  using assms
  by (simp add: validate_relative_owner_def is_absolute_def validate_source_encoding_payload_def project_path_def List.map_filter_simps)

end
