(* ===== verification/Syntax_Query.thy ===== *)
theory Syntax_Query
  imports Provider_Projection
begin

text \<open>
  The syntax query of the provider server (\<open>src/provider_server/syntax_query.rs\<close> and its wire values in \<open>contract.rs\<close>): patterns
  over the top-level items of one source, each match with its capture ranges. The digest, the two parsers, the regular
  expression engine and the codec of the wire values are arguments; a slice out of range is a panic, \<open>None\<close>.
\<close>

section \<open>Wire values\<close>

record syntax_query_pattern =
  sqp_index :: nat
  sqp_captures :: "string list"
  sqp_node_types :: "string list"
  sqp_fields :: "string list"

datatype syntax_predicate_op = PredEq | PredAnyEq | PredAnyOf | PredMatch | PredAnyMatch | PredNotEq | PredNotMatch

datatype syntax_predicate_value = StringValue string | CaptureValue string

record syntax_query_predicate =
  sqd_op :: syntax_predicate_op
  sqd_capture :: string
  sqd_values :: "syntax_predicate_value list"

record syntax_query_plan =
  pl_patterns :: "syntax_query_pattern list"
  pl_captures :: "string list"
  pl_node_types :: "string list"
  pl_fields :: "string list"
  pl_predicates :: "syntax_query_predicate list"

record syntax_query_request =
  sq_schema_id :: string
  sq_schema_version :: string
  sq_language_id :: string
  sq_provider_id :: string
  sq_owner_path :: string
  sq_source_digest :: string
  sq_query_digest :: string
  sq_source :: string
  sq_plan :: syntax_query_plan

record syntax_query_capture =
  sc_pattern_index :: nat
  sc_name :: string
  sc_native_fact_ref :: string
  sc_selector :: string
  sc_start :: nat
  sc_end :: nat

record syntax_query_response =
  sr_schema_id :: string
  sr_schema_version :: string
  sr_language_id :: string
  sr_provider_id :: string
  sr_owner_path :: string
  sr_source_digest :: string
  sr_query_digest :: string
  sr_parsed :: bool
  sr_captures :: "syntax_query_capture list"

record syntax_query_host =
  sh_blake3 :: "string \<Rightarrow> string"
  sh_parse_module :: source_parser
  sh_parse_items :: "string \<Rightarrow> string + syn_item list"
  sh_regex :: "string \<Rightarrow> string + (string \<Rightarrow> bool)"
  sh_encode :: "syntax_query_response \<Rightarrow> string result"

section \<open>Ranges\<close>

fun line_ends :: "nat \<Rightarrow> string list \<Rightarrow> (nat \<times> nat) list" where
  "line_ends offset [] = []"
| "line_ends offset (l # ls) = (offset, offset + length l) # line_ends (offset + length l) ls"

definition line_byte_range :: "string \<Rightarrow> nat \<Rightarrow> nat \<Rightarrow> nat \<times> nat" where
  "line_byte_range source start_line end_line =
     (let ends = line_ends 0 (split_inclusive source);
          start = (if start_line - 1 < length ends then fst (ends ! (start_line - 1)) else 0);
          end1 = (if end_line - 1 < length ends then snd (ends ! (end_line - 1)) else length source)
      in (min start (length source), min end1 (length source)))"

definition capture_source_range :: "string \<Rightarrow> nat \<Rightarrow> nat \<Rightarrow> string \<Rightarrow> string option \<Rightarrow> (nat \<times> nat) option" where
  "capture_source_range source item_start item_end capture_name name =
     (if \<not> ends_with capture_name ''name'' then Some (item_start, item_end)
      else case name of
        None \<Rightarrow> Some (item_start, item_end)
      | Some n \<Rightarrow> (case str_get source item_start item_end of
          None \<Rightarrow> None
        | Some item \<Rightarrow> Some (case find_sub n item of
            Some offset \<Rightarrow> (item_start + offset, item_start + offset + length n)
          | None \<Rightarrow> (item_start, item_end))))"

section \<open>Matching\<close>

definition node_type_matches :: "string \<Rightarrow> string \<Rightarrow> bool" where
  "node_type_matches node_type k =
     ((node_type, k) \<in> {(''function_item'', ''fn''), (''function_item'', ''function''), (''struct_item'', ''struct''), (''enum_item'', ''enum''),
        (''trait_item'', ''trait''), (''impl_item'', ''impl''), (''mod_item'', ''mod''), (''use_declaration'', ''use''), (''const_item'', ''const''),
        (''static_item'', ''static''), (''type_item'', ''type''), (''macro_definition'', ''macro'')})"

definition pattern_matches_item :: "syntax_query_pattern \<Rightarrow> string \<Rightarrow> bool" where
  "pattern_matches_item pat k = list_ex (\<lambda>node_type. node_type_matches node_type k) (sqp_node_types pat)"

definition regex_results :: "(string \<Rightarrow> string + (string \<Rightarrow> bool)) \<Rightarrow> string list \<Rightarrow> string \<Rightarrow> bool list result" where
  "regex_results regex vs actual =
     collect_results (\<lambda>v. case regex v of
        Inl e \<Rightarrow> Err (''invalid syntax-query predicate regex: '' @ e)
      | Inr matches \<Rightarrow> Ok (matches actual)) vs"

definition predicate_holds :: "(string \<Rightarrow> string + (string \<Rightarrow> bool)) \<Rightarrow> syntax_query_predicate \<Rightarrow> string \<Rightarrow> bool result" where
  "predicate_holds regex predicate actual =
     (let vs = map (\<lambda>v. case v of StringValue s \<Rightarrow> s | CaptureValue _ \<Rightarrow> actual) (sqd_values predicate)
      in case sqd_op predicate of
        PredMatch \<Rightarrow> map_ok (list_ex id) (regex_results regex vs actual)
      | PredAnyMatch \<Rightarrow> map_ok (list_ex id) (regex_results regex vs actual)
      | PredNotEq \<Rightarrow> Ok (list_all (\<lambda>v. v \<noteq> actual) vs)
      | PredNotMatch \<Rightarrow> map_ok (list_all Not) (regex_results regex vs actual)
      | _ \<Rightarrow> Ok (actual \<in> set vs))"

fun predicates_fold :: "(syntax_query_predicate \<Rightarrow> bool result) \<Rightarrow> bool \<Rightarrow> syntax_query_predicate list \<Rightarrow> bool result" where
  "predicates_fold holds matched [] = Ok matched"
| "predicates_fold holds matched (p # ps) =
     (if \<not> matched then predicates_fold holds False ps else and_then (holds p) (\<lambda>m. predicates_fold holds m ps))"

definition predicates_match_item ::
  "(string \<Rightarrow> string + (string \<Rightarrow> bool)) \<Rightarrow> syntax_query_predicate list \<Rightarrow> string list \<Rightarrow> string option \<Rightarrow> bool result" where
  "predicates_match_item regex predicates capture_names name =
     predicates_fold (\<lambda>p. predicate_holds regex p (case name of Some n \<Rightarrow> n | None \<Rightarrow> [])) True
       (filter (\<lambda>p. sqd_capture p \<in> set capture_names) predicates)"

section \<open>Captures\<close>

definition canonical_item_kind :: "string \<Rightarrow> string" where
  "canonical_item_kind k =
     (if k = ''fn'' then ''function'' else if k = ''mod'' then ''module'' else if k = ''trait_alias'' then ''trait-alias'' else k)"

text \<open>The map from kind and symbol to an item without scopes: of two items the later one.\<close>

definition exact_item_index :: "parse_artifact_item list \<Rightarrow> string \<times> string \<Rightarrow> parse_artifact_item option" where
  "exact_item_index items =
     map_of (rev (map (\<lambda>i. ((identity_kind (pa_identity i), identity_symbol (pa_identity i)), i))
       (filter (\<lambda>i. identity_scopes (pa_identity i) = []) items)))"

definition pbind :: "'a result option \<Rightarrow> ('a \<Rightarrow> 'b result option) \<Rightarrow> 'b result option" where
  "pbind x f = (case x of None \<Rightarrow> None | Some (Inl e) \<Rightarrow> Some (Inl e) | Some (Inr a) \<Rightarrow> f a)"

fun pcollect :: "('a \<Rightarrow> 'b list result option) \<Rightarrow> 'a list \<Rightarrow> 'b list result option" where
  "pcollect f [] = Some (Ok [])"
| "pcollect f (x # xs) = pbind (f x) (\<lambda>ys. pbind (pcollect f xs) (\<lambda>zs. Some (Ok (ys @ zs))))"

definition capture_of ::
  "syntax_query_request \<Rightarrow> syntax_query_pattern \<Rightarrow> top_level_item \<Rightarrow> string \<Rightarrow> parse_artifact_item \<Rightarrow> string \<Rightarrow> syntax_query_capture list result option" where
  "capture_of request pat item name exact capture_name =
     (let (item_start, item_end) = line_byte_range (sq_source request) (item_line item) (item_end_line item)
      in map_option (\<lambda>(start, end1). Ok [\<lparr>sc_pattern_index = sqp_index pat, sc_name = capture_name,
           sc_native_fact_ref = ''rust:item:'' @ sq_owner_path request @ '':'' @ show_nat (item_line item) @ '':'' @
             show_nat (item_end_line item) @ '':'' @ name,
           sc_selector = item_selector (sq_owner_path request) (pa_identity exact), sc_start = start, sc_end = end1\<rparr>])
         (capture_source_range (sq_source request) item_start item_end capture_name (Some name)))"

definition item_captures ::
  "syntax_query_host \<Rightarrow> syntax_query_request \<Rightarrow> (string \<times> string \<Rightarrow> parse_artifact_item option) \<Rightarrow> syntax_query_pattern \<Rightarrow> top_level_item \<Rightarrow>
   syntax_query_capture list result option" where
  "item_captures h request index pat item =
     (if \<not> pattern_matches_item pat (item_kind item) then Some (Ok [])
      else pbind (Some (predicates_match_item (sh_regex h) (pl_predicates (sq_plan request)) (sqp_captures pat) (item_name item)))
        (\<lambda>matched. if \<not> matched then Some (Ok [])
          else case item_name item of
            None \<Rightarrow> Some (Ok [])
          | Some name \<Rightarrow> (case index (canonical_item_kind (item_kind item), name) of
              None \<Rightarrow> Some (Ok [])
            | Some exact \<Rightarrow> pcollect (capture_of request pat item name exact) (sqp_captures pat))))"

definition collect_pattern_item_captures ::
  "syntax_query_host \<Rightarrow> syntax_query_request \<Rightarrow> parsed_module \<Rightarrow> syntax_query_capture list result option" where
  "collect_pattern_item_captures h request parsed =
     pbind (Some (parse_owner_items_v1 (sh_parse_items h) (sq_source request))) (\<lambda>exact_items.
       pcollect (\<lambda>pat. pcollect (item_captures h request (exact_item_index exact_items) pat)
         (top_level_items (pm_syntax_facts parsed))) (pl_patterns (sq_plan request)))"

definition syntax_query_request_schema :: string where
  "syntax_query_request_schema = ''agent.semantic-protocols.provider-syntax-query-request''"

definition syntax_query_response_schema :: string where
  "syntax_query_response_schema = ''agent.semantic-protocols.provider-syntax-query-response''"

definition handle_syntax_query_operation :: "syntax_query_host \<Rightarrow> syntax_query_request \<Rightarrow> string result option" where
  "handle_syntax_query_operation h request =
     (if sq_schema_id request \<noteq> syntax_query_request_schema \<or> sq_schema_version request \<noteq> ''1'' \<or> sq_language_id request \<noteq> ''rust'' \<or>
         sq_provider_id request \<noteq> ''asp-rust'' \<or> sq_owner_path request = [] \<or> pl_patterns (sq_plan request) = []
      then Some (Err ''provider syntax-query request identity or plan mismatch'')
      else if sh_blake3 h (sq_source request) \<noteq> sq_source_digest request
      then Some (Err ''provider syntax-query source digest mismatch'')
      else let parsed = parse_rust_source (sh_parse_module h) (path_of_string (sq_owner_path request)) (sq_source request) in
        if \<not> module_is_valid (pm_report parsed)
        then Some (Err (''native Rust parser rejected syntax-query owner '' @ sq_owner_path request @ '': '' @
          (case module_parse_error (pm_report parsed) of Some e \<Rightarrow> e | None \<Rightarrow> ''unknown parse error'')))
        else pbind (collect_pattern_item_captures h request parsed) (\<lambda>captures.
          Some (case sh_encode h \<lparr>sr_schema_id = syntax_query_response_schema, sr_schema_version = ''1'',
            sr_language_id = sq_language_id request, sr_provider_id = sq_provider_id request, sr_owner_path = sq_owner_path request,
            sr_source_digest = sq_source_digest request, sr_query_digest = sq_query_digest request, sr_parsed = True,
            sr_captures = captures\<rparr> of
            Inl e \<Rightarrow> Err (''encode provider syntax-query response: '' @ e)
          | Inr bytes \<Rightarrow> Ok bytes)))"


section \<open>Captures lie in the source\<close>

definition at_line :: "string \<Rightarrow> nat \<Rightarrow> bool" where
  "at_line s i \<longleftrightarrow> i = 0 \<or> i = length s \<or> i < length s \<and> s ! (i - 1) = CHR 0x0A"

lemma line_ends_nth:
  "i < length ls \<Longrightarrow> line_ends n ls ! i = (n + sum_list (map length (take i ls)), n + sum_list (map length (take (Suc i) ls)))"
  by (induction ls arbitrary: n i) (auto simp: nth_Cons take_Cons split: nat.splits)

lemma length_line_ends [simp]: "length (line_ends n ls) = length ls"
  by (induction ls arbitrary: n) auto

lemma line_ends_at_line:
  assumes "list_all (\<lambda>l. l \<noteq> [] \<and> last l = CHR 0x0A) (butlast ls)" "p = [] \<or> last p = CHR 0x0A" "(a, b) \<in> set (line_ends (length p) ls)"
  shows "at_line (p @ concat ls) a \<and> at_line (p @ concat ls) b"
  using assms
proof (induction ls arbitrary: p)
  case (Cons l ls)
  have start: "at_line (p @ concat (l # ls)) (length p)"
    using Cons.prems(2) by (cases p rule: rev_cases) (auto simp: at_line_def nth_append)
  show ?case
  proof (cases "ls = []")
    case True
    with Cons.prems start show ?thesis by (auto simp: at_line_def)
  next
    case False
    with Cons.prems have l: "l \<noteq> []" "last l = CHR 0x0A" "list_all (\<lambda>l. l \<noteq> [] \<and> last l = CHR 0x0A) (butlast ls)" by auto
    then have "last (p @ l) = CHR 0x0A" by simp
    note IH = Cons.IH [of "p @ l", OF l(3) disjI2 [OF this]]
    have "at_line (p @ concat (l # ls)) (length (p @ l))"
    proof -
      have "(p @ l @ concat ls) ! (length (p @ l) - 1) = last (p @ l)" using l(1) by (simp add: nth_append last_conv_nth)
      then show ?thesis using l by (auto simp: at_line_def)
    qed
    then show ?thesis using Cons.prems(3) IH start by auto
  qed
qed simp

lemma split_inclusive_lines: "list_all (\<lambda>l. l \<noteq> [] \<and> last l = CHR 0x0A) (butlast (split_inclusive s))"
proof (induction s)
  case (Cons c s)
  have "l \<noteq> []" if "l \<in> set (split_inclusive s)" for l
    using that by (induction s arbitrary: l) (auto split: list.splits if_splits)
  with Cons show ?case by (auto split: list.splits if_splits)
qed simp

lemma boundary_after_block:
  assumes "blk \<noteq> []" "\<not> cont_byte (hd blk)" "list_all (\<lambda>c. 128 \<le> byte c) blk"
    and rest: "\<And>j. j < length t \<Longrightarrow> j = 0 \<or> byte (t ! (j - 1)) < 128 \<Longrightarrow> \<not> cont_byte (t ! j)"
    and i: "i < length (blk @ t)" "i = 0 \<or> byte ((blk @ t) ! (i - 1)) < 128"
  shows "\<not> cont_byte ((blk @ t) ! i)"
proof (cases "i = 0")
  case True
  then show ?thesis using assms(1,2) by (simp add: hd_conv_nth nth_append)
next
  case False
  with i have prev: "byte ((blk @ t) ! (i - 1)) < 128" by simp
  have "\<not> i - 1 < length blk"
  proof
    assume "i - 1 < length blk"
    then have "(blk @ t) ! (i - 1) \<in> set blk" by (simp add: nth_append)
    then have "128 \<le> byte ((blk @ t) ! (i - 1))" using assms(3) by (simp only: list_all_iff)
    with prev show False by linarith
  qed
  then have "i = length blk + Suc (i - Suc (length blk))" using False by simp
  then obtain k where k: "i = length blk + Suc k" by blast
  then show ?thesis using rest [of "Suc k"] i by (simp add: nth_append)
qed

lemma utf8_line_boundary: "utf8_valid s \<Longrightarrow> at_line s i \<Longrightarrow> char_boundary s i"
proof -
  have "\<not> cont_byte (s ! i)" if "utf8_valid s" "i < length s" "i = 0 \<or> byte (s ! (i - 1)) < 128"
    using that
  proof (induction s arbitrary: i rule: utf8_valid.induct)
    case (2 a s)
    show ?case
    proof (cases i)
      case 0
      then show ?thesis using "2.prems" by (auto simp: cont_byte_def split: if_splits list.splits)
    next
      case (Suc j)
      consider (one) "byte a < 128" | (two) "194 \<le> byte a" "byte a \<le> 223" | (three) "224 \<le> byte a" "byte a \<le> 239" | (four) "240 \<le> byte a" "byte a \<le> 244"
        using "2.prems"(1) by (auto split: if_splits)
      then show ?thesis
      proof cases
        case one
        with "2.prems" "2.IH"(1) Suc show ?thesis by (cases j) auto
      next
        case two
        then obtain b t where s: "s = b # t" "cont_byte b" "utf8_valid t" using "2.prems"(1) by (auto split: list.splits)
        then show ?thesis
          using boundary_after_block [of "[a, b]" t i] two "2.IH"(2) [of b t] "2.prems"(2,3) by (simp add: cont_byte_def)
      next
        case three
        then obtain b c t where s: "s = b # c # t" "second_ok a b" "cont_byte c" "utf8_valid t" using "2.prems"(1) by (auto split: list.splits)
        have "128 \<le> byte b" using s(2) by (auto simp: second_ok_def cont_byte_def split: if_splits)
        then show ?thesis
          using boundary_after_block [of "[a, b, c]" t i] s three "2.IH"(3) [of b "c # t" c t] "2.prems"(2,3) by (simp add: cont_byte_def)
      next
        case four
        then obtain b c d t where s: "s = b # c # d # t" "second_ok a b" "cont_byte c" "cont_byte d" "utf8_valid t"
          using "2.prems"(1) by (auto split: list.splits)
        have "128 \<le> byte b" using s(2) by (auto simp: second_ok_def cont_byte_def split: if_splits)
        then show ?thesis
          using boundary_after_block [of "[a, b, c, d]" t i] s four "2.IH"(4) [of b "c # d # t" c "d # t" d t] "2.prems"(2,3)
          by (simp add: cont_byte_def)
      qed
    qed
  qed simp
  then show "utf8_valid s \<Longrightarrow> at_line s i \<Longrightarrow> char_boundary s i" by (cases "length s = 0") (auto simp: at_line_def char_boundary_def)
qed


lemma line_byte_range_ok:
  assumes "line_byte_range source start_line end_line = (a, b)" "start_line \<le> end_line"
  shows "a \<le> b" "b \<le> length source" "at_line source a" "at_line source b"
proof -
  let ?ls = "split_inclusive source"
  let ?ends = "line_ends 0 ?ls"
  have len: "sum_list (map length ?ls) = length source" using split_inclusive_concat [of source] by (metis length_concat)
  have le: "sum_list (map length (take m ?ls)) \<le> sum_list (map length (take n ?ls))" if "m \<le> n" for m n
    using that by (metis le_Suc_ex le_add1 map_append sum_list_append take_add)
  have top: "sum_list (map length (take n ?ls)) \<le> length source" for n
    using le [of n "max n (length ?ls)"] len by simp
  have line: "at_line source (fst (?ends ! i)) \<and> at_line source (snd (?ends ! i))" if "i < length ?ls" for i
    using line_ends_at_line [of ?ls "[]" "fst (?ends ! i)" "snd (?ends ! i)"] split_inclusive_lines [of source] that
    by (simp add: split_inclusive_concat)
  have here: "at_line source 0" "at_line source (length source)" by (simp_all add: at_line_def)
  have ends: "fst (?ends ! i) \<le> length source" "snd (?ends ! i) \<le> length source" if "i < length ?ls" for i
    using that top by (simp_all add: line_ends_nth)
  have ordered: "fst (?ends ! i) \<le> snd (?ends ! j)" if "i \<le> j" "j < length ?ls" for i j
    using that le [of i "Suc j"] by (simp add: line_ends_nth)
  show "a \<le> b" "b \<le> length source" "at_line source a" "at_line source b"
    using assms line here ends ordered [of "start_line - 1" "end_line - 1"]
    by (auto simp: line_byte_range_def Let_def min_absorb1 split: if_splits)
qed

lemma capture_source_range_ok:
  assumes "utf8_valid source" "line_byte_range source start_line end_line = (a, b)" "start_line \<le> end_line"
  shows "\<exists>x y. capture_source_range source a b capture_name name = Some (x, y) \<and> a \<le> x \<and> x \<le> y \<and> y \<le> b"
proof -
  note range = line_byte_range_ok [OF assms(2,3)]
  have "str_get source a b = Some (drop a (take b source))"
    using range utf8_line_boundary [OF assms(1)] by (simp add: str_get_def)
  moreover have "i + length n \<le> b - a" if "find_sub n (drop a (take b source)) = Some i" for n i
    using find_sub_Some [OF that] range(2) by (auto dest: arg_cong [of _ _ length])
  ultimately show ?thesis
    using range(1) by (fastforce simp: capture_source_range_def split: option.splits)
qed

definition answered :: "('a \<Rightarrow> bool) \<Rightarrow> 'a list result option \<Rightarrow> bool" where
  "answered P x \<longleftrightarrow> (case x of None \<Rightarrow> False | Some (Inl _) \<Rightarrow> True | Some (Inr ys) \<Rightarrow> list_all P ys)"

lemma answered_simps [simp]:
  "\<not> answered P None" "answered P (Some (Inl e))" "answered P (Some (Inr ys)) = list_all P ys"
  by (simp_all add: answered_def)

lemma pbind_answered: "(\<And>a. x = Some (Inr a) \<Longrightarrow> answered P (f a)) \<Longrightarrow> x \<noteq> None \<Longrightarrow> answered P (pbind x f)"
  by (auto simp: pbind_def split: option.splits sum.splits)

lemma pcollect_answered:
  assumes "\<And>x. x \<in> set xs \<Longrightarrow> answered P (f x)"
  shows "answered P (pcollect f xs)"
  using assms
proof (induction xs)
  case (Cons x xs)
  then have "answered P (f x)" "answered P (pcollect f xs)" by simp_all
  then show ?case by (auto simp: pbind_def answered_def split: option.splits sum.splits)
qed simp

definition capture_within :: "string \<Rightarrow> syntax_query_capture \<Rightarrow> bool" where
  "capture_within source c \<longleftrightarrow> sc_start c \<le> sc_end c \<and> sc_end c \<le> length source"

lemma capture_of_within:
  assumes "utf8_valid (sq_source request)" "item_line item \<le> item_end_line item"
  shows "answered (capture_within (sq_source request)) (capture_of request pat item name exact capture_name)"
proof -
  obtain a b where range: "line_byte_range (sq_source request) (item_line item) (item_end_line item) = (a, b)" by (rule prod.exhaust)
  from capture_source_range_ok [OF assms(1) range assms(2)] line_byte_range_ok(2) [OF range assms(2)]
  obtain x y where "capture_source_range (sq_source request) a b capture_name (Some name) = Some (x, y)" "x \<le> y" "y \<le> length (sq_source request)"
    by (meson le_trans)
  then show ?thesis by (simp add: capture_of_def range capture_within_def)
qed

lemma item_captures_within:
  assumes "utf8_valid (sq_source request)" "item_line item \<le> item_end_line item"
  shows "answered (capture_within (sq_source request)) (item_captures h request index pat item)"
  using capture_of_within [OF assms]
  by (auto simp: item_captures_def intro!: pbind_answered pcollect_answered split: option.splits)

lemma collected_captures_within:
  assumes "utf8_valid (sq_source request)" "list_all (\<lambda>item. item_line item \<le> item_end_line item) (top_level_items (pm_syntax_facts parsed))"
  shows "answered (capture_within (sq_source request)) (collect_pattern_item_captures h request parsed)"
  using assms(2) item_captures_within [OF assms(1)]
  by (auto simp: collect_pattern_item_captures_def list_all_iff intro!: pbind_answered pcollect_answered)

text \<open>
  C19: a syntax query never panics and its captures lie in the source. For a source in UTF-8 whose items end where or after they start, the
  query answers or returns an error, and every capture it collects is a range within the source.
\<close>

theorem syntax_query_safe:
  assumes "utf8_valid (sq_source request)"
    and "list_all (\<lambda>item. item_line item \<le> item_end_line item)
      (top_level_items (pm_syntax_facts (parse_rust_source (sh_parse_module h) (path_of_string (sq_owner_path request)) (sq_source request))))"
  shows "(\<exists>r. handle_syntax_query_operation h request = Some r) \<and>
    answered (capture_within (sq_source request)) (collect_pattern_item_captures h request
      (parse_rust_source (sh_parse_module h) (path_of_string (sq_owner_path request)) (sq_source request)))"
proof -
  note within = collected_captures_within [OF assms, of h]
  then obtain r where "collect_pattern_item_captures h request
      (parse_rust_source (sh_parse_module h) (path_of_string (sq_owner_path request)) (sq_source request)) = Some r"
    by (auto simp: answered_def split: option.splits)
  with within show ?thesis by (auto simp: handle_syntax_query_operation_def Let_def pbind_def split: sum.splits)
qed

text \<open>A \<open>name\<close> capture is the first place where the name's text occurs in the item, which may be inside a keyword.\<close>

lemma name_capture_in_keyword: "capture_source_range ''fn n() {}'' 0 9 ''function.name'' (Some ''n'') = Some (1, 2)"
  by code_simp


definition sample_item :: top_level_item where
  "sample_item = \<lparr>item_line = 1, item_end_line = 1, item_kind = ''fn'', item_name = Some ''run'', item_impl_target_name = None,
     item_trait_owner_name = None, item_has_doc = False, item_is_public = True, item_is_public_use = False, item_is_use = False,
     item_is_extern_crate = False, item_is_macro = False, item_has_proc_macro_export_attr = False, item_has_cfg_attr = False,
     item_is_implementation_item = True, item_function_name = Some ''run'', item_macro_name = None, item_macro_declares_module = False,
     item_macro_body_is_facade_boundary = False, item_include_target = None, item_module = None, item_cfg_predicates = [],
     item_projection_responsibilities = [], item_projection_nodes = []\<rparr>"

definition sample_query_host :: syntax_query_host where
  "sample_query_host = \<lparr>sh_blake3 = (\<lambda>_. ''0''), sh_parse_module = (\<lambda>_ _. Inr (native_syntax_facts_default\<lparr>top_level_items := [sample_item]\<rparr>)),
     sh_parse_items = (\<lambda>_. Inr []), sh_regex = (\<lambda>p. Inr (\<lambda>s. contains_sub s p)), sh_encode = (\<lambda>r. Ok (sr_owner_path r))\<rparr>"

definition sample_query :: syntax_query_request where
  "sample_query = \<lparr>sq_schema_id = syntax_query_request_schema, sq_schema_version = ''1'', sq_language_id = ''rust'', sq_provider_id = ''asp-rust'',
     sq_owner_path = ''src/lib.rs'', sq_source_digest = ''0'', sq_query_digest = ''1'', sq_source = ''pub fn run() {}'',
     sq_plan = \<lparr>pl_patterns = [\<lparr>sqp_index = 0, sqp_captures = [''function.name''], sqp_node_types = [''function_item''], sqp_fields = [''name'']\<rparr>],
       pl_captures = [''function.name''], pl_node_types = [''function_item''], pl_fields = [''name''], pl_predicates = []\<rparr>\<rparr>"

theorem syntax_query_safe_witness: "\<exists>r. handle_syntax_query_operation sample_query_host sample_query = Some r"
proof -
  have "utf8_valid (sq_source sample_query)" by code_simp
  from syntax_query_safe [OF this, of sample_query_host] show ?thesis
    by (simp add: sample_query_host_def sample_item_def parse_rust_source_def)
qed

end
