(* ===== verification/Http_Json.thy ===== *)
theory Http_Json
  imports Prelude "HOL-Library.Multiset"
begin

text \<open>
  The HTTP server of the provider (\<open>src/provider_server/http_json.rs\<close>): reading a bounded request from a stream in chunks, writing
  the response, and the accept loop as a step relation. A stream is the list of what its reads give, an error or data that
  arrived, and ends after the last one; the loop's steps interleave with connection tasks that finish and with the shutdown signal.
\<close>

section \<open>Values\<close>

definition max_request_bytes :: nat where "max_request_bytes = 1024 * 1024"
definition min_connection_parallelism :: nat where "min_connection_parallelism = 4"
definition max_connection_parallelism :: nat where "max_connection_parallelism = 16"

definition connection_parallelism :: "nat option \<Rightarrow> nat" where
  "connection_parallelism available =
     max min_connection_parallelism (min max_connection_parallelism
       (case available of Some n \<Rightarrow> n | None \<Rightarrow> min_connection_parallelism))"

datatype http_error =
    FrameLimit | ReadFailed string | EndedBeforeHeaders | HeaderNotUtf8 | RequestLineAbsent | MethodAbsent | PathAbsent
  | RequestLineInvalid | ContentLengthInvalid string | BodyReadFailed string | BodyEndedEarly
  | WriteHeaderFailed string | WriteBodyFailed string | ShutdownFailed string
  | AcceptFailed string | AuthorityClosed | TaskFailed | TaskSetEnded

record http_request =
  hr_method :: string
  hr_path :: string
  hr_body :: string

record http_response =
  hp_status :: nat
  hp_body :: string

definition encoded_json :: "nat \<Rightarrow> string \<Rightarrow> http_response" where
  "encoded_json status body = \<lparr>hp_status = status, hp_body = body\<rparr>"

section \<open>Reading a request\<close>

type_synonym tcp_stream = "(string + string) list"

text \<open>One \<open>read\<close> into a buffer of 4096 bytes; no bytes mean the end of the stream.\<close>

fun stream_read :: "tcp_stream \<Rightarrow> (string + string) \<times> tcp_stream" where
  "stream_read [] = (Inr [], [])"
| "stream_read (Inl e # s) = (Inl e, s)"
| "stream_read (Inr d # s) = (Inr (take 4096 d), if length d \<le> 4096 then s else Inr (drop 4096 d) # s)"

definition stream_size :: "tcp_stream \<Rightarrow> nat" where
  "stream_size s = sum_list (map (\<lambda>r. case r of Inl _ \<Rightarrow> 1 | Inr d \<Rightarrow> Suc (length d)) s)"

lemma stream_read_shrinks:
  "stream_read s = (Inr chunk, s') \<Longrightarrow> chunk \<noteq> [] \<Longrightarrow> stream_size s' < stream_size s"
  by (cases s rule: stream_read.cases) (auto simp: stream_size_def split: if_splits)

lemma stream_read_bound: "stream_read s = (Inr chunk, s') \<Longrightarrow> length chunk \<le> 4096"
  by (cases s rule: stream_read.cases) auto

definition header_terminator :: string where
  "header_terminator = [CHR 0x0D, CHR 0x0A, CHR 0x0D, CHR 0x0A]"

function read_header :: "string \<Rightarrow> tcp_stream \<Rightarrow> http_error + (nat \<times> string \<times> tcp_stream)" where
  "read_header bytes s =
     (if max_request_bytes \<le> length bytes then Inl FrameLimit
      else case stream_read s of
        (Inl e, _) \<Rightarrow> Inl (ReadFailed e)
      | (Inr chunk, s') \<Rightarrow>
          if chunk = [] then Inl EndedBeforeHeaders
          else case find_sub header_terminator (bytes @ chunk) of
            Some end1 \<Rightarrow> Inr (end1 + 4, bytes @ chunk, s')
          | None \<Rightarrow> read_header (bytes @ chunk) s')"
  by pat_completeness auto
termination
  by (relation "measure (\<lambda>(bytes, s). stream_size s)") (auto dest: stream_read_shrinks [OF sym])

declare read_header.simps [simp del]

text \<open>\<open>split("\r\n")\<close>, \<open>split_whitespace\<close> and \<open>parse::<usize>\<close>.\<close>

fun split_crlf :: "string \<Rightarrow> string list" where
  "split_crlf [] = [[]]"
| "split_crlf [c] = [[c]]"
| "split_crlf (a # b # s) =
     (if a = CHR 0x0D \<and> b = CHR 0x0A then [] # split_crlf s
      else case split_crlf (b # s) of [] \<Rightarrow> [[a]] | p # ps \<Rightarrow> (a # p) # ps)"

function white_space_words :: "string \<Rightarrow> string \<Rightarrow> string list" where
  "white_space_words word s =
     (case strip_head white_space s of
        Some t \<Rightarrow> (if word = [] then [] else [rev word]) @ white_space_words [] t
      | None \<Rightarrow> (case s of [] \<Rightarrow> if word = [] then [] else [rev word] | c # t \<Rightarrow> white_space_words (c # word) t))"
  by pat_completeness auto
termination
  by (relation "measure (\<lambda>(word, s). length s)") (auto dest: strip_head_length)

declare white_space_words.simps [simp del]

definition split_whitespace :: "string \<Rightarrow> string list" where
  "split_whitespace s = white_space_words [] s"

fun usize_digits :: "nat \<Rightarrow> string \<Rightarrow> string + nat" where
  "usize_digits acc [] = Inr acc"
| "usize_digits acc (c # cs) =
     (if \<not> (CHR ''0'' \<le> c \<and> c \<le> CHR ''9'') then Inl ''invalid digit found in string''
      else let v = acc * 10 + (byte c - 48) in
        if v < 2 ^ 64 then usize_digits v cs else Inl ''number too large to fit in target type'')"

definition parse_usize :: "string \<Rightarrow> string + nat" where
  "parse_usize s =
     (case s of
        [] \<Rightarrow> Inl ''cannot parse integer from empty string''
      | c # cs \<Rightarrow>
          if c = CHR ''+'' then (if cs = [] then Inl ''invalid digit found in string'' else usize_digits 0 cs)
          else usize_digits 0 s)"

definition content_length :: "string list \<Rightarrow> http_error + nat" where
  "content_length header_lines =
     (case find (\<lambda>(name, _). to_ascii_lowercase name = ''content-length'') (List.map_filter (split_once '':'') header_lines) of
        None \<Rightarrow> Inr 0
      | Some (_, v) \<Rightarrow> (case parse_usize (trim v) of Inl e \<Rightarrow> Inl (ContentLengthInvalid e) | Inr n \<Rightarrow> Inr n))"

definition parse_request_line :: "string \<Rightarrow> http_error + (string \<times> string)" where
  "parse_request_line request_line =
     (case split_whitespace request_line of
        [] \<Rightarrow> Inl MethodAbsent
      | [method] \<Rightarrow> Inl PathAbsent
      | method # path # rest \<Rightarrow>
          if (case rest of [] \<Rightarrow> False | version # _ \<Rightarrow> version = ''HTTP/1.1'') then Inr (method, path)
          else Inl RequestLineInvalid)"

definition parse_header :: "string \<Rightarrow> http_error + (string \<times> string \<times> nat)" where
  "parse_header header =
     (if \<not> utf8_valid header then Inl HeaderNotUtf8
      else case split_crlf header of
        [] \<Rightarrow> Inl RequestLineAbsent
      | request_line # header_lines \<Rightarrow>
          and_then (parse_request_line request_line) (\<lambda>(method, path).
            and_then (content_length header_lines) (\<lambda>n. Inr (method, path, n))))"

definition frame_end_of :: "nat \<Rightarrow> nat \<Rightarrow> nat option" where
  "frame_end_of header_end n =
     (if header_end + n < 2 ^ 64 \<and> header_end + n \<le> max_request_bytes then Some (header_end + n) else None)"

function read_body :: "nat \<Rightarrow> string \<Rightarrow> tcp_stream \<Rightarrow> http_error + string" where
  "read_body frame_end bytes s =
     (if frame_end \<le> length bytes then Inr bytes
      else case stream_read s of
        (Inl e, _) \<Rightarrow> Inl (BodyReadFailed e)
      | (Inr chunk, s') \<Rightarrow> if chunk = [] then Inl BodyEndedEarly else read_body frame_end (bytes @ chunk) s')"
  by pat_completeness auto
termination
  by (relation "measure (\<lambda>(frame_end, bytes, s). stream_size s)") (auto dest: stream_read_shrinks [OF sym])

declare read_body.simps [simp del]

definition request_of :: "string \<Rightarrow> string \<Rightarrow> nat \<Rightarrow> nat \<Rightarrow> string \<Rightarrow> http_request" where
  "request_of method path header_end frame_end bytes =
     \<lparr>hr_method = method, hr_path = path, hr_body = drop header_end (take frame_end bytes)\<rparr>"

definition read_request :: "tcp_stream \<Rightarrow> http_error + http_request" where
  "read_request s =
     and_then (read_header [] s) (\<lambda>(header_end, bytes, s').
     and_then (parse_header (take header_end bytes)) (\<lambda>(method, path, n).
       case frame_end_of header_end n of
         None \<Rightarrow> Inl FrameLimit
       | Some frame_end \<Rightarrow>
           if max_request_bytes < length bytes then Inl FrameLimit
           else and_then (read_body frame_end bytes s') (\<lambda>bytes'. Inr (request_of method path header_end frame_end bytes'))))"

section \<open>Chunking is irrelevant\<close>

text \<open>What a request means as one byte string.\<close>

definition frame_request :: "string \<Rightarrow> http_error + http_request" where
  "frame_request bytes =
     (case find_sub header_terminator bytes of
        None \<Rightarrow> Inl EndedBeforeHeaders
      | Some end1 \<Rightarrow>
          and_then (parse_header (take (end1 + 4) bytes)) (\<lambda>(method, path, n).
            if max_request_bytes < end1 + 4 + n then Inl FrameLimit
            else if length bytes < end1 + 4 + n then Inl BodyEndedEarly
            else Inr (request_of method path (end1 + 4) (end1 + 4 + n) bytes)))"

definition arriving :: "string list \<Rightarrow> tcp_stream" where
  "arriving ds = map Inr ds"

definition data_stream :: "tcp_stream \<Rightarrow> bool" where
  "data_stream s = list_all (\<lambda>r. case r of Inl _ \<Rightarrow> False | Inr d \<Rightarrow> d \<noteq> []) s"

definition stream_data :: "tcp_stream \<Rightarrow> string" where
  "stream_data s = concat (map (\<lambda>r. case r of Inl _ \<Rightarrow> [] | Inr d \<Rightarrow> d) s)"

lemma data_arriving: "list_all (\<lambda>d. d \<noteq> []) ds \<Longrightarrow> data_stream (arriving ds)" "stream_data (arriving ds) = concat ds"
  by (simp_all add: data_stream_def stream_data_def arriving_def list_all_iff comp_def)

lemma stream_read_data:
  assumes "data_stream s"
  obtains (ended) "s = []" "stream_read s = (Inr [], [])"
  | (chunk) chunk s' where "stream_read s = (Inr chunk, s')" "chunk \<noteq> []" "data_stream s'" "stream_data s = chunk @ stream_data s'"
proof (cases s rule: stream_read.cases)
  case (3 d rest)
  with assms have "stream_read s = (Inr (take 4096 d), if length d \<le> 4096 then rest else Inr (drop 4096 d) # rest)"
    "take 4096 d \<noteq> []" "data_stream (if length d \<le> 4096 then rest else Inr (drop 4096 d) # rest)"
    "stream_data s = take 4096 d @ stream_data (if length d \<le> 4096 then rest else Inr (drop 4096 d) # rest)"
    by (auto simp: data_stream_def stream_data_def)
  then show thesis by (rule chunk)
qed (use assms ended in \<open>auto simp: data_stream_def\<close>)

lemma read_body_data:
  assumes "data_stream s"
  shows "map_ok (take f) (read_body f b s) =
           (if f \<le> length (b @ stream_data s) then Inr (take f (b @ stream_data s)) else Inl BodyEndedEarly)"
  using assms
proof (induction f b s rule: read_body.induct)
  case (1 f b s)
  from "1.prems" show ?case
  proof (cases rule: stream_read_data)
    case ended
    then show ?thesis by (subst read_body.simps) (simp add: stream_data_def)
  next
    case (chunk c s')
    then show ?thesis
      using "1.IH" by (subst read_body.simps) auto
  qed
qed

lemma find_sub_bound: "find_sub p s = Some i \<Longrightarrow> i + length p \<le> length s"
  by (induction s arbitrary: i) (auto split: if_splits dest: prefix_length_le)

lemma find_sub_append: "find_sub p a = Some i \<Longrightarrow> find_sub p (a @ b) = Some i"
proof (induction a arbitrary: i)
  case Nil
  then show ?case by (cases b) (auto split: if_splits)
next
  case (Cons x a)
  show ?case
  proof (cases "prefix p (x # a)")
    case True
    then have "prefix p ((x # a) @ b)" by (rule prefix_prefix)
    with True Cons.prems show ?thesis by simp
  next
    case False
    with Cons.prems obtain j where j: "find_sub p a = Some j" "i = Suc j" by auto
    then have "length p \<le> length (x # a)" using find_sub_bound [OF j(1)] by simp
    then have "\<not> prefix p ((x # a) @ b)" using False prefix_length_prefix [of p "(x # a) @ b" "x # a"] by auto
    with j Cons.IH show ?thesis by simp
  qed
qed

lemma read_header_data:
  assumes "data_stream s" "find_sub header_terminator b = None" "length (b @ stream_data s) < max_request_bytes"
  shows "case find_sub header_terminator (b @ stream_data s) of
           None \<Rightarrow> read_header b s = Inl EndedBeforeHeaders
         | Some e \<Rightarrow> \<exists>b' s'. read_header b s = Inr (e + 4, b', s') \<and> data_stream s' \<and> b' @ stream_data s' = b @ stream_data s \<and>
             find_sub header_terminator b' = Some e"
  using assms
proof (induction b s rule: read_header.induct)
  case (1 b s)
  from "1.prems"(1) show ?case
  proof (cases rule: stream_read_data)
    case ended
    with "1.prems" show ?thesis by (subst read_header.simps) (simp add: stream_data_def)
  next
    case (chunk c s')
    show ?thesis
    proof (cases "find_sub header_terminator (b @ c)")
      case None
      then have "read_header b s = read_header (b @ c) s'"
        using chunk "1.prems" by (subst read_header.simps) simp
      then show ?thesis
        using "1.IH" chunk None "1.prems" by (auto split: option.splits)
    next
      case (Some e)
      then have "read_header b s = Inr (e + 4, b @ c, s')"
        using chunk "1.prems" by (subst read_header.simps) simp
      moreover from Some have "find_sub header_terminator (b @ stream_data s) = Some e"
        using find_sub_append [of header_terminator "b @ c" e "stream_data s'"] chunk by simp
      ultimately show ?thesis using chunk Some by simp
    qed
  qed
qed


lemma request_of_take: "request_of m p h f (take f bytes) = request_of m p h f bytes"
  by (simp add: request_of_def)

lemma read_body_request:
  "and_then (read_body f b s) (\<lambda>bytes. Inr (request_of m p h f bytes)) =
     map_ok (request_of m p h f) (map_ok (take f) (read_body f b s))"
  by (cases "read_body f b s") (simp_all add: request_of_take)

lemma read_request_data:
  assumes "data_stream s" "length (stream_data s) < max_request_bytes"
  shows "read_request s = frame_request (stream_data s)"
proof (cases "find_sub header_terminator (stream_data s)")
  case None
  have "find_sub header_terminator [] = None" by (simp add: header_terminator_def)
  with read_header_data [OF assms(1), of "[]"] None assms show ?thesis by (simp add: read_request_def frame_request_def)
next
  case (Some e)
  have "find_sub header_terminator [] = None" by (simp add: header_terminator_def)
  with read_header_data [OF assms(1), of "[]"] Some assms obtain b s' where
    head: "read_header [] s = Inr (e + 4, b, s')" "data_stream s'" "b @ stream_data s' = stream_data s"
      "find_sub header_terminator b = Some e" by auto
  have e: "e + 4 \<le> length b" using find_sub_bound [OF head(4)] by (simp add: header_terminator_def)
  then have header: "take (e + 4) (stream_data s) = take (e + 4) b" by (simp flip: head(3))
  have short: "length b < max_request_bytes" using assms(2) by (simp flip: head(3))
  have "e + 4 + n \<le> max_request_bytes \<Longrightarrow> e + 4 + n < 2 ^ 64" for n by (simp add: max_request_bytes_def)
  then show ?thesis
    using short Some
    by (cases "parse_header (take (e + 4) b)")
      (auto simp: read_request_def frame_request_def head(1) header frame_end_of_def read_body_request
        read_body_data [OF head(2)] head(3) request_of_take)
qed

lemma read_request_body_bound: "read_request s = Inr r \<Longrightarrow> length (hr_body r) \<le> max_request_bytes"
  by (auto simp: read_request_def and_then_Inr_iff frame_end_of_def request_of_def split: option.splits if_splits)

text \<open>
  C14: how the network cuts a request into reads does not matter. While fewer bytes arrive than the frame limit, reading them gives
  the request, or the error, that the bytes as a whole mean; and no stream, however long, gives a body above the limit.
\<close>

theorem read_request_frames:
  assumes "list_all (\<lambda>d. d \<noteq> []) ds" "length (concat ds) < max_request_bytes"
  shows "read_request (arriving ds) = frame_request (concat ds) \<and>
    (case read_request s of Inl _ \<Rightarrow> True | Inr r \<Rightarrow> length (hr_body r) \<le> max_request_bytes)"
  using read_request_data [of "arriving ds"] assms
  by (simp add: data_arriving read_request_body_bound split: sum.splits)

definition sample_header :: string where
  "sample_header = ''POST /q HTTP/1.1'' @ [CHR 0x0D, CHR 0x0A] @ ''Content-Length: 2'' @ header_terminator"

lemma sample_lines: "split_crlf sample_header = [''POST /q HTTP/1.1'', ''Content-Length: 2'', [], []] \<and> utf8_valid sample_header"
  by code_simp

lemma sample_request_line: "parse_request_line ''POST /q HTTP/1.1'' = Inr (''POST'', ''/q'')"
  by code_simp

lemma sample_content_length: "content_length [''Content-Length: 2'', [], []] = Inr 2"
proof -
  have "find (\<lambda>(name, _). to_ascii_lowercase name = ''content-length'')
      (List.map_filter (split_once '':'') [''Content-Length: 2'', [], []]) = Some (''Content-Length'', '' 2'')"
    by code_simp
  moreover have "trim '' 2'' = ''2''" by code_simp
  ultimately show ?thesis by (simp add: content_length_def parse_usize_def)
qed

lemma sample_frame: "frame_request (sample_header @ ''{}'') = Inr \<lparr>hr_method = ''POST'', hr_path = ''/q'', hr_body = ''{}''\<rparr>"
proof -
  have "find_sub header_terminator (sample_header @ ''{}'') = Some 35" "take 39 (sample_header @ ''{}'') = sample_header"
    "drop 39 (take 41 (sample_header @ ''{}'')) = ''{}''" "length (sample_header @ ''{}'') = 41"
    by code_simp+
  then show ?thesis
    by (simp add: frame_request_def parse_header_def sample_lines sample_request_line sample_content_length max_request_bytes_def
        request_of_def)
qed

theorem read_request_frames_witness:
  "read_request (arriving [''PO'', drop 2 sample_header, ''{}'']) = Inr \<lparr>hr_method = ''POST'', hr_path = ''/q'', hr_body = ''{}''\<rparr>"
proof -
  have whole: "concat [''PO'', drop 2 sample_header, ''{}''] = sample_header @ ''{}''"
    and pieces: "list_all (\<lambda>d. d \<noteq> []) [''PO'', drop 2 sample_header, ''{}'']" and "length (sample_header @ ''{}'') = 41"
    by code_simp+
  then have "length (concat [''PO'', drop 2 sample_header, ''{}'']) < max_request_bytes"
    by (simp only: whole) (simp add: max_request_bytes_def)
  from conjunct1 [OF read_request_frames [OF pieces this]] show ?thesis by (simp only: whole sample_frame)
qed


section \<open>Responses and connections\<close>

definition reason_phrase :: "nat \<Rightarrow> string" where
  "reason_phrase status =
     (if status = 200 then ''OK'' else if status = 400 then ''Bad Request'' else if status = 404 then ''Not Found''
      else ''Internal Server Error'')"

definition crlf :: string where "crlf = [CHR 0x0D, CHR 0x0A]"

definition response_header :: "http_response \<Rightarrow> string" where
  "response_header r =
     ''HTTP/1.1 '' @ show_nat (hp_status r) @ '' '' @ reason_phrase (hp_status r) @ crlf @
     ''Content-Type: application/json'' @ crlf @ ''Content-Length: '' @ show_nat (length (hp_body r)) @ crlf @
     ''Connection: close'' @ crlf @ crlf"

text \<open>The writing side of a connection: the errors of its two writes and of closing it, if any. A success gives the bytes sent.\<close>

record write_side =
  ws_header :: "string option"
  ws_body :: "string option"
  ws_shutdown :: "string option"

definition write_response :: "write_side \<Rightarrow> http_response \<Rightarrow> http_error + string" where
  "write_response w r =
     (case ws_header w of Some e \<Rightarrow> Inl (WriteHeaderFailed e)
      | None \<Rightarrow> (case ws_body w of Some e \<Rightarrow> Inl (WriteBodyFailed e)
      | None \<Rightarrow> (case ws_shutdown w of Some e \<Rightarrow> Inl (ShutdownFailed e)
      | None \<Rightarrow> Inr (response_header r @ hp_body r))))"

record tcp_connection =
  tc_stream :: tcp_stream
  tc_write :: write_side

text \<open>A handler answers, fails, or panics (\<open>None\<close>); \<open>error_json\<close> encodes an error value as JSON.\<close>

type_synonym http_handler = "http_request \<Rightarrow> (string + http_response) option"

definition failure_response :: "(string \<Rightarrow> string option) \<Rightarrow> string \<Rightarrow> http_response" where
  "failure_response error_json e =
     \<lparr>hp_status = 500, hp_body = (case error_json e of Some body \<Rightarrow> body
        | None \<Rightarrow> ''{'' @ [CHR 0x22] @ ''error'' @ [CHR 0x22] @ '':'' @ [CHR 0x22] @ ''internal-server-error'' @ [CHR 0x22] @ ''}'')\<rparr>"

definition serve_connection :: "(string \<Rightarrow> string option) \<Rightarrow> http_handler \<Rightarrow> tcp_connection \<Rightarrow> (http_error + string) option" where
  "serve_connection error_json handler c =
     (case read_request (tc_stream c) of
        Inl e \<Rightarrow> Some (Inl e)
      | Inr request \<Rightarrow> map_option (\<lambda>answer. write_response (tc_write c)
          (case answer of Inr response \<Rightarrow> response | Inl e \<Rightarrow> failure_response error_json e)) (handler request))"

section \<open>The accept loop\<close>

text \<open>
  \<open>Top\<close> is the head of the loop, \<open>Waiting\<close> the \<open>select!\<close>, \<open>Draining\<close> the loop after it. Each tracked task has its connection and,
  once it finished, its outcome. The last four fields record what happened: the connections accepted, the outcomes joined, the
  connections dropped, and how many connections were accepted after the shutdown signal. Every \<open>?\<close> of the loop returns from the
  function, which drops the \<open>JoinSet\<close>: its tasks are aborted, and the outcomes of those that had finished are lost.
\<close>

datatype server_phase = Top | Waiting | Draining | Returned "http_error + unit"

type_synonym task_outcome = "(http_error + string) option"

record http_server =
  hs_phase :: server_phase
  hs_shutdown :: bool
  hs_unseen :: bool
  hs_connections :: "(tcp_connection \<times> task_outcome option) list"
  hs_accepted :: "tcp_connection list"
  hs_joined :: "(tcp_connection \<times> task_outcome) list"
  hs_dropped :: "tcp_connection list"
  hs_late :: nat

definition require_connection_completion :: "task_outcome option \<Rightarrow> http_error + unit" where
  "require_connection_completion completed =
     (case completed of
        Some (Some r) \<Rightarrow> map_ok (\<lambda>_. ()) r
      | Some None \<Rightarrow> Inl TaskFailed
      | None \<Rightarrow> Inl TaskSetEnded)"

definition server_init :: http_server where
  "server_init = \<lparr>hs_phase = Top, hs_shutdown = False, hs_unseen = False, hs_connections = [], hs_accepted = [], hs_joined = [], hs_dropped = [],
     hs_late = 0\<rparr>"

definition return_error :: "http_error \<Rightarrow> http_server \<Rightarrow> http_server" where
  "return_error e s = s\<lparr>hs_phase := Returned (Inl e), hs_connections := [], hs_dropped := map fst (hs_connections s)\<rparr>"

definition join_task :: "server_phase \<Rightarrow> nat \<Rightarrow> tcp_connection \<Rightarrow> task_outcome \<Rightarrow> http_server \<Rightarrow> http_server" where
  "join_task continue i c outcome s =
     (let joined = s\<lparr>hs_connections := take i (hs_connections s) @ drop (Suc i) (hs_connections s),
        hs_joined := hs_joined s @ [(c, outcome)]\<rparr>
      in case require_connection_completion (Some outcome) of
           Inl e \<Rightarrow> return_error e joined
         | Inr _ \<Rightarrow> joined\<lparr>hs_phase := continue\<rparr>)"

inductive serve_step :: "(string \<Rightarrow> string option) \<Rightarrow> http_handler \<Rightarrow> nat \<Rightarrow> http_server \<Rightarrow> http_server \<Rightarrow> bool"
  for error_json handler parallelism
where
  signal: "(\<And>r. hs_phase s \<noteq> Returned r) \<Longrightarrow>
    serve_step error_json handler parallelism s (s\<lparr>hs_shutdown := True, hs_unseen := True\<rparr>)"
| finish: "i < length (hs_connections s) \<Longrightarrow> hs_connections s ! i = (c, None) \<Longrightarrow> (\<And>r. hs_phase s \<noteq> Returned r) \<Longrightarrow>
    serve_step error_json handler parallelism s
      (s\<lparr>hs_connections := (hs_connections s)[i := (c, Some (serve_connection error_json handler c))]\<rparr>)"
| leave: "hs_phase s = Top \<Longrightarrow> hs_shutdown s \<Longrightarrow> serve_step error_json handler parallelism s (s\<lparr>hs_phase := Draining\<rparr>)"
| wait: "hs_phase s = Top \<Longrightarrow> \<not> hs_shutdown s \<Longrightarrow> serve_step error_json handler parallelism s (s\<lparr>hs_phase := Waiting\<rparr>)"
| changed: "hs_phase s = Waiting \<Longrightarrow> hs_unseen s \<Longrightarrow>
    serve_step error_json handler parallelism s (s\<lparr>hs_phase := Top, hs_unseen := False\<rparr>)"
| closed: "hs_phase s = Waiting \<Longrightarrow> \<not> hs_unseen s \<Longrightarrow>
    serve_step error_json handler parallelism s (return_error AuthorityClosed s)"
| accept: "hs_phase s = Waiting \<Longrightarrow> length (hs_connections s) < parallelism \<Longrightarrow>
    serve_step error_json handler parallelism s
      (s\<lparr>hs_phase := Top, hs_connections := hs_connections s @ [(c, None)], hs_accepted := hs_accepted s @ [c],
         hs_late := hs_late s + (if hs_shutdown s then 1 else 0)\<rparr>)"
| accept_failed: "hs_phase s = Waiting \<Longrightarrow> length (hs_connections s) < parallelism \<Longrightarrow>
    serve_step error_json handler parallelism s (return_error (AcceptFailed e) s)"
| join: "hs_phase s = Waiting \<Longrightarrow> i < length (hs_connections s) \<Longrightarrow> hs_connections s ! i = (c, Some outcome) \<Longrightarrow>
    serve_step error_json handler parallelism s (join_task Top i c outcome s)"
| drain: "hs_phase s = Draining \<Longrightarrow> i < length (hs_connections s) \<Longrightarrow> hs_connections s ! i = (c, Some outcome) \<Longrightarrow>
    serve_step error_json handler parallelism s (join_task Draining i c outcome s)"
| drained: "hs_phase s = Draining \<Longrightarrow> hs_connections s = [] \<Longrightarrow>
    serve_step error_json handler parallelism s (s\<lparr>hs_phase := Returned (Inr ())\<rparr>)"



section \<open>The bound, the drain and the late connection\<close>

definition served :: "task_outcome \<Rightarrow> bool" where
  "served outcome = (case outcome of Some (Inr _) \<Rightarrow> True | _ \<Rightarrow> False)"

lemma completion_served: "require_connection_completion (Some outcome) = Inr () \<longleftrightarrow> served outcome"
  by (auto simp: require_connection_completion_def served_def split: option.splits sum.splits)

definition running_or_ok :: "server_phase \<Rightarrow> bool" where
  "running_or_ok phase = (case phase of Returned (Inl _) \<Rightarrow> False | _ \<Rightarrow> True)"

lemma running_or_ok_simps [simp]:
  "running_or_ok Top" "running_or_ok Waiting" "running_or_ok Draining" "running_or_ok (Returned (Inr u))" "\<not> running_or_ok (Returned (Inl e))"
  by (simp_all add: running_or_ok_def)

text \<open>A joined outcome is a success, or its error is what the loop returned.\<close>

definition outcome_accounted :: "server_phase \<Rightarrow> task_outcome \<Rightarrow> bool" where
  "outcome_accounted phase outcome =
     (case require_connection_completion (Some outcome) of Inl e \<Rightarrow> phase = Returned (Inl e) | Inr _ \<Rightarrow> True)"

lemma outcome_accounted_running [simp]: "running_or_ok phase \<Longrightarrow> outcome_accounted phase outcome \<longleftrightarrow> served outcome"
  using completion_served [of outcome] by (auto simp: outcome_accounted_def split: sum.splits)

lemma outcome_accounted_served [simp]: "served outcome \<Longrightarrow> outcome_accounted phase outcome"
  using completion_served [of outcome] by (simp add: outcome_accounted_def)

definition server_inv :: "(tcp_connection \<Rightarrow> task_outcome) \<Rightarrow> nat \<Rightarrow> http_server \<Rightarrow> bool" where
  "server_inv outcome_of p s \<longleftrightarrow>
     length (hs_connections s) \<le> p \<and>
     mset (hs_accepted s) = mset (map fst (hs_connections s)) + mset (map fst (hs_joined s)) + mset (hs_dropped s) \<and>
     list_all (\<lambda>(c, r). r = None \<or> r = Some (outcome_of c)) (hs_connections s) \<and>
     list_all (\<lambda>(c, r). r = outcome_of c \<and> outcome_accounted (hs_phase s) r) (hs_joined s) \<and>
     (running_or_ok (hs_phase s) \<longrightarrow> hs_dropped s = []) \<and>
     (\<not> running_or_ok (hs_phase s) \<longrightarrow> hs_connections s = []) \<and>
     (hs_phase s \<in> {Draining, Returned (Inr ())} \<longrightarrow> hs_shutdown s) \<and>
     (hs_phase s = Returned (Inr ()) \<longrightarrow> hs_connections s = []) \<and>
     hs_late s \<le> 1 \<and> (hs_phase s = Waiting \<longrightarrow> hs_late s = 0) \<and> (0 < hs_late s \<longrightarrow> hs_shutdown s)"

lemma removed_task:
  assumes "i < length xs" "xs ! i = x"
  shows "mset xs = add_mset x (mset (take i xs @ drop (Suc i) xs))" "set (take i xs @ drop (Suc i) xs) \<subseteq> set xs"
    "length (take i xs @ drop (Suc i) xs) = length xs - 1"
proof -
  have "xs = take i xs @ x # drop (Suc i) xs" using id_take_nth_drop [OF assms(1)] assms(2) by simp
  then show "mset xs = add_mset x (mset (take i xs @ drop (Suc i) xs))" using arg_cong [of xs _ mset] by (metis mset_append mset.simps(2) union_mset_add_mset_right)
qed (use assms in \<open>auto dest: in_set_takeD in_set_dropD\<close>)

lemma return_error_inv:
  assumes "server_inv outcome_of p s" "hs_phase s = Waiting"
  shows "server_inv outcome_of p (return_error e s)"
  using assms by (auto simp: server_inv_def return_error_def list_all_iff)

lemma join_inv:
  assumes "server_inv outcome_of p s" "i < length (hs_connections s)" "hs_connections s ! i = (c, Some outcome)"
    "continue = Top \<or> continue = Draining \<and> hs_shutdown s" "running_or_ok (hs_phase s)"
  shows "server_inv outcome_of p (join_task continue i c outcome s)"
proof -
  let ?rest = "take i (hs_connections s) @ drop (Suc i) (hs_connections s)"
  note removed = removed_task [OF assms(2,3)]
  have outcome: "outcome = outcome_of c"
    using assms(1) nth_mem [OF assms(2)] by (auto simp: server_inv_def list_all_iff assms(3))
  have tracked: "mset (map fst (hs_connections s)) = add_mset c (mset (map fst ?rest))"
    using arg_cong [OF removed(1), of "image_mset fst"] by simp
  have kept: "list_all P ?rest" if "list_all P (hs_connections s)" for P
    using that removed(2) by (auto simp: list_all_iff)
  have short: "length ?rest \<le> p" using assms(1) removed(3) by (auto simp: server_inv_def)
  have before: "list_all (\<lambda>(c, r). r = outcome_of c \<and> served r) (hs_joined s)" "hs_dropped s = []"
    using assms(1,5) by (simp_all add: server_inv_def)
  show ?thesis
  proof (cases "require_connection_completion (Some outcome)")
    case (Inl e)
    then have "outcome_accounted (Returned (Inl e)) outcome" by (simp add: outcome_accounted_def)
    with Inl before tracked assms(1) outcome show ?thesis
      by (auto simp: server_inv_def join_task_def return_error_def list_all_iff)
  next
    case (Inr u)
    then have "served outcome" by (simp flip: completion_served)
    moreover have "running_or_ok continue" using assms(4) by auto
    moreover have "list_all (\<lambda>(c, r). r = None \<or> r = Some (outcome_of c)) ?rest" using kept assms(1) by (simp add: server_inv_def)
    ultimately show ?thesis
      using Inr before tracked short assms(1,4) outcome
      by (simp add: server_inv_def join_task_def del: list_all_append length_append mset_append map_append) auto
  qed
qed

lemma serve_step_inv:
  assumes "serve_step error_json handler p s s'" "server_inv (serve_connection error_json handler) p s"
  shows "server_inv (serve_connection error_json handler) p s'"
  using assms
proof (cases rule: serve_step.cases)
  case (finish i c)
  then have fst: "map fst ((hs_connections s)[i := (c, Some (serve_connection error_json handler c))]) = map fst (hs_connections s)"
    by (metis fst_conv list_update_id map_update)
  moreover have "set ((hs_connections s)[i := (c, Some (serve_connection error_json handler c))])
      \<subseteq> insert (c, Some (serve_connection error_json handler c)) (set (hs_connections s))" by (rule set_update_subset_insert)
  ultimately show ?thesis
    using assms(2) finish by (auto simp: server_inv_def list_all_iff running_or_ok_def)
next
  case (join i c outcome)
  then show ?thesis using join_inv [OF assms(2)] by simp
next
  case (drain i c outcome)
  then show ?thesis using join_inv [OF assms(2)] assms(2) by (simp add: server_inv_def)
next
  case closed
  then show ?thesis using return_error_inv [OF assms(2)] by simp
next
  case accept_failed
  then show ?thesis using return_error_inv [OF assms(2)] by simp
qed (auto simp: server_inv_def)

lemma server_init_inv: "server_inv outcome_of p server_init"
  by (simp add: server_inv_def server_init_def)

lemma server_reachable_inv:
  "(serve_step error_json handler p)\<^sup>*\<^sup>* server_init s \<Longrightarrow> server_inv (serve_connection error_json handler) p s"
  by (induction rule: rtranclp_induct) (simp_all add: server_init_inv serve_step_inv)


lemma joined_on_success:
  assumes "server_inv outcome_of p s" "hs_phase s = Returned (Inr ())"
  shows "list_all (\<lambda>c. served (outcome_of c)) (hs_accepted s)"
proof -
  from assms have "mset (hs_accepted s) = mset (map fst (hs_joined s))" by (simp add: server_inv_def)
  then have "set (hs_accepted s) = fst ` set (hs_joined s)" by (metis image_set mset_eq_setD)
  moreover from assms have "list_all (\<lambda>(c, r). served (outcome_of c)) (hs_joined s)"
    by (fastforce simp: server_inv_def list_all_iff)
  ultimately show ?thesis by (auto simp: list_all_iff)
qed

text \<open>
  C13: the accept loop keeps its bound and its promise to drain. In every reachable state at most \<open>parallelism\<close> connections, between 4
  and 16, are tracked, at most one connection was accepted after the shutdown signal, and every accepted connection is tracked, or
  joined with the outcome of serving it, or dropped, which happens only by returning an error. If the loop returns without an error the
  signal was given, no connection is left or dropped and each accepted one was served.
\<close>

theorem server_bounded_drain:
  assumes "(serve_step error_json handler (connection_parallelism available))\<^sup>*\<^sup>* server_init s"
  shows "4 \<le> connection_parallelism available \<and> connection_parallelism available \<le> 16 \<and>
    length (hs_connections s) \<le> connection_parallelism available \<and> hs_late s \<le> 1 \<and>
    mset (hs_accepted s) = mset (map fst (hs_connections s)) + mset (map fst (hs_joined s)) + mset (hs_dropped s) \<and>
    list_all (\<lambda>(c, r). r = serve_connection error_json handler c) (hs_joined s) \<and>
    (case hs_phase s of
       Returned (Inl _) \<Rightarrow> hs_connections s = []
     | Returned (Inr _) \<Rightarrow> hs_shutdown s \<and> hs_connections s = [] \<and> hs_dropped s = [] \<and>
         list_all (\<lambda>c. served (serve_connection error_json handler c)) (hs_accepted s)
     | _ \<Rightarrow> hs_dropped s = [])"
proof -
  note inv = server_reachable_inv [OF assms]
  from inv have "list_all (\<lambda>(c, r). r = serve_connection error_json handler c) (hs_joined s)"
    by (auto simp: server_inv_def list_all_iff)
  with inv joined_on_success [OF inv] show ?thesis
    by (auto simp: server_inv_def connection_parallelism_def min_connection_parallelism_def max_connection_parallelism_def
        split: server_phase.splits sum.splits)
qed

abbreviation good_write :: write_side where
  "good_write \<equiv> \<lparr>ws_header = None, ws_body = None, ws_shutdown = None\<rparr>"

text \<open>A run: one connection is accepted while the signal is given, and is then drained.\<close>

definition echo_handler :: http_handler where
  "echo_handler request = Some (Inr \<lparr>hp_status = 200, hp_body = hr_body request\<rparr>)"

definition sample_connection :: tcp_connection where
  "sample_connection = \<lparr>tc_stream = arriving [sample_header, ''{}''], tc_write = good_write\<rparr>"

lemma sample_connection_outcome:
  "serve_connection error_json echo_handler sample_connection = Some (Inr (response_header \<lparr>hp_status = 200, hp_body = ''{}''\<rparr> @ ''{}''))"
proof -
  have whole: "concat [sample_header, ''{}''] = sample_header @ ''{}''" and "list_all (\<lambda>d. d \<noteq> []) [sample_header, ''{}'']"
    and "length (sample_header @ ''{}'') = 41"
    by code_simp+
  then have "read_request (arriving [sample_header, ''{}'']) = frame_request (sample_header @ ''{}'')"
    using read_request_data [of "arriving [sample_header, ''{}'']"]
    by (simp only: data_arriving whole) (simp add: max_request_bytes_def)
  then show ?thesis
    by (simp add: serve_connection_def sample_connection_def sample_frame echo_handler_def write_response_def)
qed

definition drained_server :: http_server where
  "drained_server = \<lparr>hs_phase = Returned (Inr ()), hs_shutdown = True, hs_unseen = True, hs_connections = [],
     hs_accepted = [sample_connection], hs_joined = [(sample_connection, serve_connection (\<lambda>_. None) echo_handler sample_connection)],
     hs_dropped = [], hs_late = 1\<rparr>"

lemma drained_server_reached: "(serve_step (\<lambda>_. None) echo_handler 4)\<^sup>*\<^sup>* server_init drained_server"
proof -
  let ?step = "serve_step (\<lambda>_. None) echo_handler 4"
  let ?r = "serve_connection (\<lambda>_. None) echo_handler sample_connection"
  let ?s = "\<lambda>phase tracked. server_init\<lparr>hs_phase := phase, hs_shutdown := True, hs_unseen := True, hs_connections := tracked,
    hs_accepted := [sample_connection], hs_late := 1\<rparr>"
  have "?step\<^sup>*\<^sup>* server_init (server_init\<lparr>hs_phase := Waiting\<rparr>)"
    by (rule r_into_rtranclp, rule serve_step.wait) (simp_all add: server_init_def)
  also have "?step (server_init\<lparr>hs_phase := Waiting\<rparr>) (server_init\<lparr>hs_phase := Waiting, hs_shutdown := True, hs_unseen := True\<rparr>)"
    using serve_step.signal [of "server_init\<lparr>hs_phase := Waiting\<rparr>"] by simp
  also have "?step (server_init\<lparr>hs_phase := Waiting, hs_shutdown := True, hs_unseen := True\<rparr>) (?s Top [(sample_connection, None)])"
    using serve_step.accept [of "server_init\<lparr>hs_phase := Waiting, hs_shutdown := True, hs_unseen := True\<rparr>" 4]
    by (simp add: server_init_def)
  also have "?step (?s Top [(sample_connection, None)]) (?s Draining [(sample_connection, None)])"
    using serve_step.leave [of "?s Top [(sample_connection, None)]"] by (simp add: server_init_def)
  also have "?step (?s Draining [(sample_connection, None)]) (?s Draining [(sample_connection, Some ?r)])"
    using serve_step.finish [of 0 "?s Draining [(sample_connection, None)]" sample_connection] by (simp add: server_init_def)
  also have "?step (?s Draining [(sample_connection, Some ?r)]) ((?s Draining [])\<lparr>hs_joined := [(sample_connection, ?r)]\<rparr>)"
    using serve_step.drain [of "?s Draining [(sample_connection, Some ?r)]" 0 sample_connection ?r]
    by (simp add: server_init_def join_task_def sample_connection_outcome require_connection_completion_def)
  also have "?step ((?s Draining [])\<lparr>hs_joined := [(sample_connection, ?r)]\<rparr>) drained_server"
    using serve_step.drained [of "(?s Draining [])\<lparr>hs_joined := [(sample_connection, ?r)]\<rparr>"]
    by (simp add: server_init_def drained_server_def)
  finally show ?thesis .
qed

theorem server_bounded_drain_witness:
  "(serve_step (\<lambda>_. None) echo_handler (connection_parallelism None))\<^sup>*\<^sup>* server_init drained_server \<and>
   hs_phase drained_server = Returned (Inr ()) \<and> hs_accepted drained_server = [sample_connection] \<and> hs_late drained_server = 1 \<and>
   hs_shutdown drained_server \<and> hs_dropped drained_server = [] \<and>
   served (serve_connection (\<lambda>_. None) echo_handler sample_connection)"
proof -
  have four: "connection_parallelism None = 4" by (simp add: connection_parallelism_def min_connection_parallelism_def max_connection_parallelism_def)
  have run: "(serve_step (\<lambda>_. None) echo_handler (connection_parallelism None))\<^sup>*\<^sup>* server_init drained_server"
    unfolding four by (rule drained_server_reached)
  have "hs_phase drained_server = Returned (Inr ())" "hs_accepted drained_server = [sample_connection]" "hs_late drained_server = 1"
    by (simp_all add: drained_server_def)
  with run server_bounded_drain [OF run] show ?thesis by simp
qed

section \<open>Shutdown completes\<close>

lemma drain_completes:
  assumes "hs_phase s = Draining" "list_all (\<lambda>(c, r). r = None \<or> r = Some (serve_connection error_json handler c)) (hs_connections s)"
    "list_all (\<lambda>(c, _). served (serve_connection error_json handler c)) (hs_connections s)"
  shows "\<exists>s'. (serve_step error_json handler p)\<^sup>*\<^sup>* s s' \<and> hs_phase s' = Returned (Inr ()) \<and> hs_accepted s' = hs_accepted s"
  using assms
proof (induction "length (hs_connections s)" arbitrary: s)
  case 0
  then have "serve_step error_json handler p s (s\<lparr>hs_phase := Returned (Inr ())\<rparr>)" by (intro serve_step.drained) simp_all
  then show ?case by (intro exI [of _ "s\<lparr>hs_phase := Returned (Inr ())\<rparr>"]) auto
next
  case (Suc n)
  obtain c r rest where head: "hs_connections s = (c, r) # rest" using Suc.hyps(2) by (cases "hs_connections s") auto
  define t where "t = s\<lparr>hs_connections := (c, Some (serve_connection error_json handler c)) # rest\<rparr>"
  have "s = t \<or> serve_step error_json handler p s t"
  proof (cases r)
    case None
    then show ?thesis using serve_step.finish [of 0 s c error_json handler p] head Suc.prems(1) by (simp add: t_def)
  next
    case (Some outcome)
    then show ?thesis using Suc.prems(2) head by (simp add: t_def)
  qed
  then have "(serve_step error_json handler p)\<^sup>*\<^sup>* s t" by auto
  also have "serve_step error_json handler p t (join_task Draining 0 c (serve_connection error_json handler c) t)"
    by (rule serve_step.drain) (simp_all add: t_def Suc.prems)
  finally have to_join: "(serve_step error_json handler p)\<^sup>*\<^sup>* s (join_task Draining 0 c (serve_connection error_json handler c) t)" .
  have "served (serve_connection error_json handler c)" using Suc.prems(3) head by simp
  then have "require_connection_completion (Some (serve_connection error_json handler c)) = Inr ()" by (simp only: completion_served)
  then have joined: "hs_phase (join_task Draining 0 c (serve_connection error_json handler c) t) = Draining"
    "hs_connections (join_task Draining 0 c (serve_connection error_json handler c) t) = rest"
    "hs_accepted (join_task Draining 0 c (serve_connection error_json handler c) t) = hs_accepted s"
    by (simp_all add: join_task_def t_def)
  with Suc.hyps(1) [of "join_task Draining 0 c (serve_connection error_json handler c) t"] Suc.hyps(2) Suc.prems head
  show ?case using to_join by (auto intro: rtranclp_trans)
qed

text \<open>
  Shutdown completes. From every reachable state that drains, once each tracked connection can be served, the loop has a run that
  returns without an error and accepts nothing more.
\<close>

lemma shutdown_completes:
  assumes "(serve_step error_json handler p)\<^sup>*\<^sup>* server_init s" "hs_phase s = Draining"
    "list_all (\<lambda>(c, _). served (serve_connection error_json handler c)) (hs_connections s)"
  shows "\<exists>s'. (serve_step error_json handler p)\<^sup>*\<^sup>* s s' \<and> hs_phase s' = Returned (Inr ()) \<and> hs_accepted s' = hs_accepted s"
  using drain_completes [OF assms(2) _ assms(3)] server_reachable_inv [OF assms(1)] by (simp add: server_inv_def)

section \<open>One bad connection\<close>

lemma silent_connection_fails:
  "tc_stream c = [] \<Longrightarrow> serve_connection error_json handler c = Some (Inl EndedBeforeHeaders)"
  by (simp add: serve_connection_def read_request_def read_header.simps max_request_bytes_def)

lemma silent_connection_run:
  assumes "tc_stream c = []" "hs_phase s = Waiting" "length (hs_connections s) < p" "\<not> hs_shutdown s"
  shows "\<exists>s'. (serve_step error_json handler p)\<^sup>*\<^sup>* s s' \<and> hs_accepted s' = hs_accepted s @ [c] \<and>
    hs_joined s' = hs_joined s @ [(c, Some (Inl EndedBeforeHeaders))] \<and> hs_phase s' = Returned (Inl EndedBeforeHeaders) \<and>
    hs_dropped s' = map fst (hs_connections s)"
proof -
  define n where "n = length (hs_connections s)"
  define accepted where "accepted = s\<lparr>hs_phase := Top, hs_connections := hs_connections s @ [(c, None)], hs_accepted := hs_accepted s @ [c],
    hs_late := hs_late s + (if hs_shutdown s then 1 else 0)\<rparr>"
  define outcome where "outcome = serve_connection error_json handler c"
  define finished where "finished = accepted\<lparr>hs_connections := (hs_connections accepted)[n := (c, Some outcome)]\<rparr>"
  define waiting where "waiting = finished\<lparr>hs_phase := Waiting\<rparr>"
  have "(serve_step error_json handler p)\<^sup>*\<^sup>* s accepted"
    unfolding accepted_def using assms by (intro r_into_rtranclp serve_step.accept)
  also have "serve_step error_json handler p accepted finished"
    unfolding finished_def outcome_def by (rule serve_step.finish) (simp_all add: accepted_def n_def nth_append)
  also have "serve_step error_json handler p finished waiting"
    unfolding waiting_def by (rule serve_step.wait) (simp_all add: finished_def accepted_def assms)
  also have "serve_step error_json handler p waiting (join_task Top n c outcome waiting)"
    by (rule serve_step.join) (simp_all add: waiting_def finished_def accepted_def n_def nth_append)
  finally have "(serve_step error_json handler p)\<^sup>*\<^sup>* s (join_task Top n c outcome waiting)" .
  moreover have "outcome = Some (Inl EndedBeforeHeaders)"
    unfolding outcome_def by (rule silent_connection_fails) (rule assms(1))
  ultimately show ?thesis
    by (intro exI [of _ "join_task Top n c outcome waiting"])
      (simp add: join_task_def return_error_def require_connection_completion_def waiting_def finished_def accepted_def n_def list_update_append)
qed

lemma silent_connection_joined:
  assumes "server_inv (serve_connection error_json handler) p t" "tc_stream c = []" "c \<in> fst ` set (hs_joined t)"
  shows "hs_phase t = Returned (Inl EndedBeforeHeaders)"
proof -
  from assms(1,3) obtain r where "r = serve_connection error_json handler c" "outcome_accounted (hs_phase t) r"
    by (auto simp: server_inv_def list_all_iff)
  with silent_connection_fails [OF assms(2)] show ?thesis by (simp add: outcome_accounted_def require_connection_completion_def)
qed

text \<open>
  C15: a peer that connects and closes without sending a byte ends the server for everyone. Take such a connection: from every waiting
  state with room for it and no shutdown signal the loop has a run that accepts it, joins it with the error that the request ended before
  its headers, returns that error and drops every other tracked connection. And there is no way round it: in every reachable state in which
  it was accepted the loop has not returned successfully, and once it was joined the loop has returned that error; until then it is
  tracked, or was dropped by another error.
\<close>

theorem silent_connection_stops_server:
  assumes "tc_stream c = []"
    and "hs_phase s = Waiting" "length (hs_connections s) < p" "\<not> hs_shutdown s"
    and "(serve_step error_json handler p)\<^sup>*\<^sup>* server_init t" "c \<in> set (hs_accepted t)"
  shows "(\<exists>s'. (serve_step error_json handler p)\<^sup>*\<^sup>* s s' \<and> hs_accepted s' = hs_accepted s @ [c] \<and>
      hs_joined s' = hs_joined s @ [(c, Some (Inl EndedBeforeHeaders))] \<and> hs_phase s' = Returned (Inl EndedBeforeHeaders) \<and>
      hs_dropped s' = map fst (hs_connections s)) \<and>
    hs_phase t \<noteq> Returned (Inr ()) \<and>
    (if c \<in> fst ` set (hs_joined t) then hs_phase t = Returned (Inl EndedBeforeHeaders)
     else c \<in> fst ` set (hs_connections t) \<or> c \<in> set (hs_dropped t))"
proof -
  note inv = server_reachable_inv [OF assms(5)]
  from inv have "mset (hs_accepted t) = mset (map fst (hs_connections t) @ map fst (hs_joined t) @ hs_dropped t)"
    by (simp add: server_inv_def)
  then have "set (hs_accepted t) = set (map fst (hs_connections t) @ map fst (hs_joined t) @ hs_dropped t)" by (rule mset_eq_setD)
  moreover have "hs_phase t \<noteq> Returned (Inr ())"
    using joined_on_success [OF inv] assms(6) silent_connection_fails [OF assms(1), of error_json handler]
    by (fastforce simp: list_all_iff served_def)
  ultimately show ?thesis
    using silent_connection_run [OF assms(1-4)] silent_connection_joined [OF inv assms(1)] assms(6) by auto
qed

definition silent_connection :: tcp_connection where
  "silent_connection = \<lparr>tc_stream = [], tc_write = good_write\<rparr>"

theorem silent_connection_stops_server_witness:
  "\<exists>t. (serve_step (\<lambda>_. None) echo_handler 4)\<^sup>*\<^sup>* server_init t \<and> silent_connection \<in> set (hs_accepted t) \<and>
     hs_phase t = Returned (Inl EndedBeforeHeaders) \<and>
     (\<exists>s'. (serve_step (\<lambda>_. None) echo_handler 4)\<^sup>*\<^sup>* (server_init\<lparr>hs_phase := Waiting, hs_connections := [(sample_connection, None)]\<rparr>) s' \<and>
       hs_phase s' = Returned (Inl EndedBeforeHeaders) \<and> hs_dropped s' = [sample_connection])"
proof -
  let ?step = "serve_step (\<lambda>_. None) echo_handler 4"
  have first: "?step server_init (server_init\<lparr>hs_phase := Waiting\<rparr>)" by (rule serve_step.wait) (simp_all add: server_init_def)
  have silent: "tc_stream silent_connection = []" by (simp add: silent_connection_def)
  obtain t where t: "?step\<^sup>*\<^sup>* (server_init\<lparr>hs_phase := Waiting\<rparr>) t" "hs_accepted t = [silent_connection]"
      "hs_joined t = [(silent_connection, Some (Inl EndedBeforeHeaders))]"
    using silent_connection_run [OF silent, of "server_init\<lparr>hs_phase := Waiting\<rparr>" 4] by (auto simp: server_init_def)
  have run: "?step\<^sup>*\<^sup>* server_init t" using first t(1) by (rule converse_rtranclp_into_rtranclp)
  from t(2) have "silent_connection \<in> set (hs_accepted t)" by simp
  with silent_connection_stops_server [OF silent _ _ _ run,
      of "server_init\<lparr>hs_phase := Waiting, hs_connections := [(sample_connection, None)]\<rparr>"] run t(3)
  show ?thesis by (auto simp: server_init_def)
qed

end
