(* ===== verification/Project_Resolution.thy ===== *)
theory Project_Resolution
  imports Cargo_Dependency_Facts
begin

text \<open>
  Resolving a Cargo project from candidate paths (\<open>src/project_resolution.rs\<close>, with \<open>parse_cargo_project_facts\<close> of
  \<open>src/parser/cargo_manifest.rs\<close>): the packages reached from the root manifest, their targets, dependencies and source scopes.
  Reading and completing a manifest is the work of the \<open>cargo_toml\<close> crate and an argument, as are the bytes of a file, the BLAKE3
  digest as hexadecimal text and the elapsed time.
\<close>

section \<open>Data\<close>

datatype collection_scope = CompleteGeneration | ExplicitOwners "path list"

record candidate_generation =
  cg_algorithm :: string
  cg_digest :: string
  cg_authorities :: "string list"

record policy_exclusion =
  px_path :: path
  px_authority :: string
  px_reason_kind :: string

record resolution_input =
  rn_candidate_generation :: candidate_generation
  rn_collection_scope :: collection_scope
  rn_candidate_paths :: "path list"
  rn_policy_exclusions :: "policy_exclusion list"

record project_file =
  pf_path :: path
  pf_kind :: string
  pf_digest :: string

record language_target =
  lt_target_id :: string
  lt_name :: string
  lt_kind :: string
  lt_explicit :: bool
  lt_source_roots :: "path list"
  lt_entrypoints :: "path list"
  lt_generated_roots :: "path list"

record language_package =
  lp_package_id :: string
  lp_name :: string
  lp_root :: path
  lp_manifest_path :: path
  lp_workspace_member :: bool
  lp_targets :: "language_target list"

record internal_dependency_edge =
  ie_from_package_id :: string
  ie_to_package_id :: string
  ie_kind :: string

record external_dependency =
  ed_dependency_id :: string
  ed_name :: string
  ed_kind :: string
  ed_requested :: "string option"

record unresolved_reference =
  ur_state :: string
  ur_path :: path
  ur_reason_kind :: string

record language_package_graph =
  lg_schema_id :: string
  lg_schema_version :: string
  lg_language_id :: string
  lg_provider_id :: string
  lg_project_entry :: path
  lg_parser_id :: string
  lg_manifests :: "project_file list"
  lg_lockfiles :: "project_file list"
  lg_packages :: "language_package list"
  lg_internal_dependency_edges :: "internal_dependency_edge list"
  lg_external_dependencies :: "external_dependency list"
  lg_unresolved :: "unresolved_reference list"

record source_scope_exclusion =
  se_prefix :: path
  se_authority :: string

record resolved_source_scope =
  rc_scope_id :: string
  rc_package_id :: string
  rc_target_id :: string
  rc_roots :: "path list"
  rc_explicit_paths :: "path list"
  rc_extensions :: "string list"
  rc_include_authority :: string
  rc_exclusions :: "source_scope_exclusion list"
  rc_classifications :: "string list"

record resolution_conflict =
  rf_path :: path
  rf_include_authority :: string
  rf_exclude_authority :: string
  rf_reason_kind :: string

record resolution_metrics =
  rm_parsed_manifest_count :: nat
  rm_parsed_lockfile_count :: nat
  rm_affected_package_count :: nat
  rm_full_workspace_reads :: nat
  rm_full_manifest_reparses :: nat
  rm_db_opens :: nat
  rm_elapsed_micros :: nat

record project_resolution =
  rz_schema_id :: string
  rz_schema_version :: string
  rz_state :: string
  rz_completeness :: string
  rz_language_id :: string
  rz_provider_id :: string
  rz_parser_id :: string
  rz_candidate_generation_digest :: string
  rz_project_entry :: path
  rz_package_graph :: language_package_graph
  rz_source_scopes :: "resolved_source_scope list"
  rz_conflicts :: "resolution_conflict list"
  rz_metrics :: resolution_metrics

datatype resolution_error = NotApplicable path | ProjectEntryMissing path | ProjectEntryInvalid path

primrec resolution_error_text :: "resolution_error \<Rightarrow> string" where
  "resolution_error_text (NotApplicable p) = ''provider-not-applicable: no parser-owned manifest `'' @ display p @ ''` is present''"
| "resolution_error_text (ProjectEntryMissing p) = ''project-entry-missing: expected parser-owned manifest `'' @ display p @ ''`''"
| "resolution_error_text (ProjectEntryInvalid p) =
     ''project-entry-invalid: Cargo manifest `'' @ display p @ ''` declares neither a package nor workspace members''"

text \<open>
  \<open>rh_complete\<close> is \<open>complete_from_abstract_filesystem\<close>: it gets the directory listing, the manifest and the manifest of the workspace
  with its path.
\<close>

record resolution_host =
  rh_read :: "path \<Rightarrow> string result"
  rh_from_slice :: "string \<Rightarrow> manifest result"
  rh_complete :: "(string \<Rightarrow> string list) \<Rightarrow> (manifest \<times> path) option \<Rightarrow> manifest \<Rightarrow> manifest result"
  rh_is_file :: "path \<Rightarrow> bool"
  rh_blake3 :: "string \<Rightarrow> string"
  rh_elapsed_micros :: nat

section \<open>Manifests\<close>

definition file_names_in :: "path list \<Rightarrow> string \<Rightarrow> string list" where
  "file_names_in candidate_paths relative_directory =
     bset_of_list (List.map_filter (\<lambda>p. case strip_prefix p (path_of_string relative_directory) of
         Some (c # _) \<Rightarrow> to_str (component_str c) | _ \<Rightarrow> None) candidate_paths)"

definition read_candidate_manifest :: "resolution_host \<Rightarrow> path \<Rightarrow> manifest option" where
  "read_candidate_manifest h project_root =
     (case rh_read h (path_push project_root ''Cargo.toml'') of
        Inl _ \<Rightarrow> None
      | Inr bytes \<Rightarrow> (case rh_from_slice h bytes of Inl _ \<Rightarrow> None | Inr m \<Rightarrow> Some m))"

definition parse_cargo_project_facts ::
  "resolution_host \<Rightarrow> path \<Rightarrow> path list \<Rightarrow> (manifest \<times> path) option \<Rightarrow>
   cargo_manifest_facts \<times> cargo_dependency_facts list \<times> manifest option" where
  "parse_cargo_project_facts h project_root candidate_paths workspace_manifest =
     (case read_candidate_manifest h project_root of
        None \<Rightarrow> (default_manifest_facts, [], None)
      | Some m \<Rightarrow> (case rh_complete h (file_names_in candidate_paths) workspace_manifest m of
          Inl _ \<Rightarrow> (default_manifest_facts, [], None)
        | Inr completed \<Rightarrow> (extract_manifest_facts (rh_is_file h) project_root completed,
            cargo_dependency_facts_from_manifest completed, Some completed)))"

section \<open>Paths and ids\<close>

fun normalize_relative_step :: "component \<Rightarrow> path \<Rightarrow> path" where
  "normalize_relative_step CurDir p = p"
| "normalize_relative_step RootDir p = p"
| "normalize_relative_step ParentDir p = (case path_parent p of Some parent \<Rightarrow> parent | None \<Rightarrow> path_push p ''..'')"
| "normalize_relative_step (Normal name) p = path_join p [Normal name]"

definition normalize_relative_path :: "path \<Rightarrow> path" where
  "normalize_relative_path p = fold normalize_relative_step p []"

definition relative_to :: "path \<Rightarrow> path \<Rightarrow> path" where
  "relative_to workspace p = (case strip_prefix p workspace of Some r \<Rightarrow> r | None \<Rightarrow> p)"

definition display_root :: "path \<Rightarrow> path" where
  "display_root p = (if p = [] then [CurDir] else p)"

definition stable_id :: "resolution_host \<Rightarrow> string \<Rightarrow> string \<Rightarrow> string" where
  "stable_id h namespace basis = namespace @ ''-'' @ take 16 (rh_blake3 h (namespace @ [CHR 0x00] @ basis))"

definition project_file_of :: "resolution_host \<Rightarrow> path \<Rightarrow> path \<Rightarrow> string \<Rightarrow> project_file" where
  "project_file_of h workspace relative k =
     \<lparr>pf_path = relative, pf_kind = k,
      pf_digest = (case rh_read h (path_join workspace relative) of
        Inr contents \<Rightarrow> ''blake3:'' @ rh_blake3 h contents | Inl _ \<Rightarrow> ''blake3:missing'')\<rparr>"

primrec dependency_kind :: "cargo_dependency_kind \<Rightarrow> string" where
  "dependency_kind NormalDep = ''normal''"
| "dependency_kind DevDep = ''dev''"
| "dependency_kind BuildDep = ''build''"

definition package_candidate_paths :: "path list \<Rightarrow> path \<Rightarrow> path list" where
  "package_candidate_paths workspace_candidates root =
     bset_of_list (if root = [CurDir] then workspace_candidates else List.map_filter (\<lambda>p. strip_prefix p root) workspace_candidates)"

definition admitted_workspace_package_root :: "path \<Rightarrow> path \<Rightarrow> path list \<Rightarrow> string list \<Rightarrow> path option" where
  "admitted_workspace_package_root workspace root candidate_paths workspace_excludes =
     (case strip_prefix root workspace of
        None \<Rightarrow> None
      | Some stripped \<Rightarrow>
          let relative_root = normalize_relative_path stripped in
          if path_push relative_root ''Cargo.toml'' \<notin> set candidate_paths then None
          else if list_ex (\<lambda>pattern. workspace_member_pattern_matches pattern
              (replace_char (CHR 0x5C) (CHR ''/'') (display relative_root))) workspace_excludes then None
          else Some relative_root)"

section \<open>Targets\<close>

definition is_cargo_default_entrypoint :: "path \<Rightarrow> string \<Rightarrow> bool" where
  "is_cargo_default_entrypoint p k \<longleftrightarrow>
     Option.bind (path_parent p) path_file_name = Some ''src'' \<and>
     (k = ''library'' \<and> path_file_name p = Some ''lib.rs'' \<or> k = ''binary'' \<and> path_file_name p = Some ''main.rs'')"

definition target_source_roots :: "path \<Rightarrow> path list" where
  "target_source_roots entrypoint =
     [case find (\<lambda>prefix1. path_file_name prefix1 \<in> Some ` {''src'', ''tests'', ''examples'', ''benches''})
         (map (\<lambda>n. take n entrypoint) [1 ..< length entrypoint + 1]) of
        Some source_root \<Rightarrow> source_root
      | None \<Rightarrow> (case path_parent entrypoint of Some parent \<Rightarrow> if parent = [] then [CurDir] else parent | None \<Rightarrow> [CurDir])]"

definition language_target_of :: "resolution_host \<Rightarrow> string \<Rightarrow> string \<Rightarrow> string \<Rightarrow> path \<Rightarrow> bool \<Rightarrow> language_target" where
  "language_target_of h package_id name k entrypoint explicit =
     \<lparr>lt_target_id = stable_id h ''cargo-target'' (package_id @ [CHR 0x00] @ name @ [CHR 0x00] @ k @ [CHR 0x00] @ display entrypoint),
      lt_name = name, lt_kind = k, lt_explicit = explicit, lt_source_roots = target_source_roots entrypoint,
      lt_entrypoints = [entrypoint], lt_generated_roots = []\<rparr>"

definition cargo_targets :: "resolution_host \<Rightarrow> path \<Rightarrow> string \<Rightarrow> cargo_manifest_facts \<Rightarrow> language_target list" where
  "cargo_targets h workspace package_id facts =
     remdups_adj (sort_key lt_target_id (map (\<lambda>t.
       let entrypoint = relative_to workspace (target_path t) in
       language_target_of h package_id (target_name t) (target_kind t) entrypoint
         (\<not> is_cargo_default_entrypoint entrypoint (target_kind t))) (package_targets facts)))"

section \<open>The packages of the project\<close>

text \<open>The facts of the package at a root, given those of the workspace root.\<close>

definition package_facts ::
  "resolution_host \<Rightarrow> path \<Rightarrow> path list \<Rightarrow> path \<Rightarrow> cargo_manifest_facts \<times> cargo_dependency_facts list" where
  "package_facts h workspace candidate_paths root =
     (let (root_facts, root_dependencies, root_manifest) =
        parse_cargo_project_facts h workspace (package_candidate_paths candidate_paths [CurDir]) None
      in if root = workspace then (root_facts, root_dependencies)
         else let (facts, dependencies, _) = parse_cargo_project_facts h root
             (package_candidate_paths candidate_paths (relative_to workspace root))
             (map_option (\<lambda>m. (m, path_push workspace ''Cargo.toml'')) root_manifest)
           in (facts, dependencies))"

definition candidate_roots :: "path \<Rightarrow> path list \<Rightarrow> path set" where
  "candidate_roots workspace candidate_paths = (\<lambda>c. path_join workspace (butlast c)) ` set candidate_paths"

lemma joined_manifest: "path_push r ''Cargo.toml'' = r @ [Normal ''Cargo.toml'']"
proof -
  have "path_of_string ''Cargo.toml'' = [Normal ''Cargo.toml'']" by code_simp
  then show ?thesis by (simp add: path_join_def is_absolute_def)
qed

lemma admitted_candidate_root:
  assumes "admitted_workspace_package_root workspace root candidate_paths excludes = Some r"
  shows "path_join workspace r \<in> candidate_roots workspace candidate_paths"
proof -
  have "r @ [Normal ''Cargo.toml''] \<in> set candidate_paths"
    using assms by (auto simp: admitted_workspace_package_root_def Let_def joined_manifest split: option.splits if_splits)
  from imageI [OF this, of "\<lambda>c. path_join workspace (butlast c)"] show ?thesis unfolding candidate_roots_def by simp
qed

text \<open>
  The worklist of package roots. Both sets are ascending, and \<open>pop_first\<close> takes the head; \<open>deps\<close> gives the path dependencies of a
  package. Every admitted root is the directory of a candidate, so the loop ends.
\<close>

function collect_package_roots :: "(path \<Rightarrow> path list) \<Rightarrow> path \<Rightarrow> path list \<Rightarrow> string list \<Rightarrow> path list \<Rightarrow> path list \<Rightarrow> path list" where
  "collect_package_roots deps workspace candidate_paths excludes [] roots = roots"
| "collect_package_roots deps workspace candidate_paths excludes (p # pending) roots =
     (case admitted_workspace_package_root workspace p candidate_paths excludes of
        None \<Rightarrow> collect_package_roots deps workspace candidate_paths excludes pending roots
      | Some relative_root \<Rightarrow>
          let root = path_join workspace relative_root in
          if root \<in> set roots then collect_package_roots deps workspace candidate_paths excludes pending roots
          else collect_package_roots deps workspace candidate_paths excludes (bset_extend pending (deps root)) (bset_insert root roots))"
  by pat_completeness auto
termination
proof (relation "measures [\<lambda>(_, workspace, cs, _, _, roots). card (candidate_roots workspace cs - set roots), \<lambda>(_, _, _, _, pending, _). length pending]",
    goal_cases)
  case (4 deps workspace cs excludes p pending roots relative_root root)
  have "root \<in> candidate_roots workspace cs - set roots" using admitted_candidate_root [OF 4(1)] 4(2,3) by simp
  moreover have "finite (candidate_roots workspace cs - set roots)" by (simp add: candidate_roots_def)
  moreover have "candidate_roots workspace cs - set (bset_insert root roots) = candidate_roots workspace cs - set roots - {root}"
    by (auto simp: set_bset_insert)
  ultimately have "card (candidate_roots workspace cs - set (bset_insert root roots)) < card (candidate_roots workspace cs - set roots)"
    by (simp only: card_Diff1_less)
  then show ?case by simp
qed auto

definition pending_roots :: "path \<Rightarrow> path list \<Rightarrow> cargo_manifest_facts \<Rightarrow> path list" where
  "pending_roots workspace candidate_paths root_facts =
     bset_extend
       (bset_extend (if has_package root_facts then [workspace] else [])
         (cargo_workspace_member_roots_from_candidates workspace root_facts candidate_paths))
       (path_dependency_roots root_facts)"

section \<open>The resolution\<close>

definition language_package_of ::
  "resolution_host \<Rightarrow> path \<Rightarrow> path list \<Rightarrow> path \<Rightarrow> unresolved_reference + language_package \<times> cargo_dependency_facts list" where
  "language_package_of h workspace candidate_paths root =
     (let relative_root = relative_to workspace root; (facts, dependencies) = package_facts h workspace candidate_paths root in
      case facts_package_name facts of
        None \<Rightarrow> Inl \<lparr>ur_state = ''manifest-invalid'', ur_path = relative_to workspace (path_push root ''Cargo.toml''),
          ur_reason_kind = ''package-name-missing''\<rparr>
      | Some name \<Rightarrow>
          let package_id = stable_id h ''cargo-package'' (name @ [CHR 0x00] @ display relative_root) in
          Inr (\<lparr>lp_package_id = package_id, lp_name = name, lp_root = display_root relative_root,
              lp_manifest_path = path_push relative_root ''Cargo.toml'', lp_workspace_member = (root \<noteq> workspace),
              lp_targets = cargo_targets h workspace package_id facts\<rparr>, dependencies))"

definition resolved_dependency ::
  "resolution_host \<Rightarrow> (string \<times> string) list \<Rightarrow> string \<Rightarrow> cargo_dependency_facts \<Rightarrow> external_dependency + internal_dependency_edge" where
  "resolved_dependency h package_ids from_package_id dependency =
     (let k = dependency_kind (cd_kind dependency) in
      case bmap_get package_ids (cd_package_name dependency) of
        Some to_package_id \<Rightarrow> Inr \<lparr>ie_from_package_id = from_package_id, ie_to_package_id = to_package_id, ie_kind = k\<rparr>
      | None \<Rightarrow> Inl \<lparr>ed_dependency_id = stable_id h ''cargo-dependency''
            (from_package_id @ [CHR 0x00] @ cd_package_name dependency @ [CHR 0x00] @ k),
          ed_name = cd_package_name dependency, ed_kind = k, ed_requested = cd_version_req dependency\<rparr>)"

definition right_values :: "('a + 'b) list \<Rightarrow> 'b list" where
  "right_values xs = List.map_filter (\<lambda>x. case x of Inr y \<Rightarrow> Some y | Inl _ \<Rightarrow> None) xs"

definition left_values :: "('a + 'b) list \<Rightarrow> 'a list" where
  "left_values xs = List.map_filter (\<lambda>x. case x of Inl y \<Rightarrow> Some y | Inr _ \<Rightarrow> None) xs"

definition package_graph_of :: "resolution_host \<Rightarrow> path \<Rightarrow> path list \<Rightarrow> path list \<Rightarrow> language_package_graph" where
  "package_graph_of h workspace candidate_paths roots =
     (let resolved = map (language_package_of h workspace candidate_paths) roots;
          packages = sort_key lp_package_id (map fst (right_values resolved));
          manifest_paths = remdups_adj (sort (path_of_string ''Cargo.toml'' # map (lp_manifest_path \<circ> fst) (right_values resolved)));
          package_ids = bmap_of_list (map (\<lambda>p. (lp_name p, lp_package_id p)) packages);
          dependencies = concat (map (\<lambda>(p, ds). map (resolved_dependency h package_ids (lp_package_id p)) ds) (right_values resolved))
      in \<lparr>lg_schema_id = ''agent.semantic-protocols.language-package-graph'', lg_schema_version = ''1'', lg_language_id = ''rust'',
          lg_provider_id = ''asp-rust'', lg_project_entry = path_of_string ''Cargo.toml'', lg_parser_id = ''rust.cargo-toml'',
          lg_manifests = map (\<lambda>p. project_file_of h workspace p ''cargo-manifest'') manifest_paths,
          lg_lockfiles = (if path_of_string ''Cargo.lock'' \<in> set candidate_paths
            then [project_file_of h workspace (path_of_string ''Cargo.lock'') ''cargo-lock''] else []),
          lg_packages = packages,
          lg_internal_dependency_edges =
            sort_key (\<lambda>e. (ie_from_package_id e, ie_to_package_id e, ie_kind e)) (right_values dependencies),
          lg_external_dependencies = sort_key ed_dependency_id (left_values dependencies),
          lg_unresolved = left_values resolved\<rparr>)"

definition source_scope_of :: "resolution_host \<Rightarrow> language_package \<Rightarrow> language_target \<Rightarrow> resolved_source_scope" where
  "source_scope_of h p t =
     \<lparr>rc_scope_id = stable_id h ''cargo-source-scope'' (lp_package_id p @ [CHR 0x00] @ lt_target_id t),
      rc_package_id = lp_package_id p, rc_target_id = lt_target_id t, rc_roots = lt_source_roots t,
      rc_explicit_paths = (if lt_explicit t then lt_entrypoints t else []), rc_extensions = [''.rs''],
      rc_include_authority = (if lt_explicit t then ''manifest-explicit'' else ''package-manager''),
      rc_exclusions = [], rc_classifications = [lt_kind t]\<rparr>"

definition resolution_of :: "resolution_host \<Rightarrow> resolution_input \<Rightarrow> language_package_graph \<Rightarrow> project_resolution" where
  "resolution_of h i g =
     \<lparr>rz_schema_id = ''agent.semantic-protocols.project-resolution'', rz_schema_version = ''1'', rz_state = ''resolved'',
      rz_completeness = ''exact'', rz_language_id = ''rust'', rz_provider_id = ''asp-rust'', rz_parser_id = ''rust.cargo-toml'',
      rz_candidate_generation_digest = cg_digest (rn_candidate_generation i), rz_project_entry = path_of_string ''Cargo.toml'',
      rz_package_graph = g,
      rz_source_scopes = concat (map (\<lambda>p. map (source_scope_of h p) (lp_targets p)) (lg_packages g)),
      rz_conflicts = [],
      rz_metrics = \<lparr>rm_parsed_manifest_count = length (lg_manifests g), rm_parsed_lockfile_count = length (lg_lockfiles g),
        rm_affected_package_count = length (lg_packages g), rm_full_workspace_reads = 0, rm_full_manifest_reparses = 0,
        rm_db_opens = 0, rm_elapsed_micros = rh_elapsed_micros h\<rparr>\<rparr>"

definition resolve_cargo_project_resolution :: "resolution_host \<Rightarrow> path \<Rightarrow> resolution_input \<Rightarrow> resolution_error + project_resolution" where
  "resolve_cargo_project_resolution h workspace i =
     (let candidate_paths = bset_of_list (map normalize_relative_path (rn_candidate_paths i));
          root_manifest_relative = path_of_string ''Cargo.toml'';
          root_facts = fst (package_facts h workspace candidate_paths workspace);
          pending = pending_roots workspace candidate_paths root_facts
      in if \<not> list_ex (\<lambda>p. path_file_name p = Some ''Cargo.toml'') candidate_paths then Inl (NotApplicable root_manifest_relative)
         else if root_manifest_relative \<notin> set candidate_paths then Inl (ProjectEntryMissing root_manifest_relative)
         else if pending = [] then Inl (ProjectEntryInvalid (path_push workspace ''Cargo.toml''))
         else Inr (resolution_of h i (package_graph_of h workspace candidate_paths
           (collect_package_roots (\<lambda>root. path_dependency_roots (fst (package_facts h workspace candidate_paths root)))
             workspace candidate_paths (facts_workspace_excludes root_facts) pending []))))"

section \<open>The roots are the closure of the path dependencies\<close>

lemma normalize_relative_head: "CurDir \<notin> set (normalize_relative_path p) \<and> RootDir \<notin> set (normalize_relative_path p)"
proof -
  have dots: "path_of_string ''..'' = [ParentDir]" by code_simp
  have step: "CurDir \<notin> set (normalize_relative_step c q) \<and> RootDir \<notin> set (normalize_relative_step c q)"
    if "CurDir \<notin> set q \<and> RootDir \<notin> set q" for c q
    using that by (cases c) (auto simp: path_join_def is_absolute_def path_parent_def dots dest: in_set_butlastD split: option.splits)
  have "CurDir \<notin> set (fold normalize_relative_step p q) \<and> RootDir \<notin> set (fold normalize_relative_step p q)"
    if "CurDir \<notin> set q \<and> RootDir \<notin> set q" for q
    using that by (induction p arbitrary: q) (auto simp: step)
  from this [of "[]"] show ?thesis by (simp add: normalize_relative_path_def)
qed

text \<open>The relative root that the loop passes on is the one read off the joined root.\<close>

lemma admitted_relative:
  assumes "admitted_workspace_package_root workspace root candidate_paths excludes = Some r"
  shows "relative_to workspace (path_join workspace r) = r"
proof -
  have "CurDir \<notin> set r \<and> RootDir \<notin> set r" using assms normalize_relative_head
    by (auto simp: admitted_workspace_package_root_def Let_def split: option.splits if_splits)
  then have "path_join workspace r = workspace @ r"
    by (cases r) (auto simp: path_join_def is_absolute_def split: component.splits)
  then show ?thesis by (simp add: relative_to_def strip_prefix_append)
qed

inductive_set resolved_roots :: "(path \<Rightarrow> path list) \<Rightarrow> path \<Rightarrow> path list \<Rightarrow> string list \<Rightarrow> path set \<Rightarrow> path set"
  for deps workspace cs excludes start where
  start: "p \<in> start \<Longrightarrow> admitted_workspace_package_root workspace p cs excludes = Some r \<Longrightarrow>
    path_join workspace r \<in> resolved_roots deps workspace cs excludes start"
| dependency: "root \<in> resolved_roots deps workspace cs excludes start \<Longrightarrow> p \<in> set (deps root) \<Longrightarrow>
    admitted_workspace_package_root workspace p cs excludes = Some r \<Longrightarrow>
    path_join workspace r \<in> resolved_roots deps workspace cs excludes start"

lemma collect_package_roots_sound:
  assumes "\<forall>p \<in> set pending. p \<in> start \<or> (\<exists>root \<in> resolved_roots deps workspace cs excludes start. p \<in> set (deps root))"
    and "set roots \<subseteq> resolved_roots deps workspace cs excludes start"
  shows "set (collect_package_roots deps workspace cs excludes pending roots) \<subseteq> resolved_roots deps workspace cs excludes start"
  using assms
proof (induction deps workspace cs excludes pending roots rule: collect_package_roots.induct)
  case (2 deps workspace cs excludes p pending roots)
  show ?case
  proof (cases "admitted_workspace_package_root workspace p cs excludes")
    case None
    then show ?thesis using 2 by simp
  next
    case (Some r)
    then have root: "path_join workspace r \<in> resolved_roots deps workspace cs excludes start"
      using 2(4) by (auto intro: resolved_roots.intros)
    show ?thesis
    proof (cases "path_join workspace r \<in> set roots")
      case True
      then show ?thesis using 2 Some by simp
    next
      case False
      have "set (collect_package_roots deps workspace cs excludes (bset_extend pending (deps (path_join workspace r)))
          (bset_insert (path_join workspace r) roots)) \<subseteq> resolved_roots deps workspace cs excludes start"
        by (rule 2(3) [OF Some refl False]) (use 2(4,5) root in \<open>auto simp: set_bset_extend set_bset_insert\<close>)
      then show ?thesis using Some False by (simp add: Let_def)
    qed
  qed
qed simp

definition closed_under :: "(path \<Rightarrow> path list) \<Rightarrow> path \<Rightarrow> path list \<Rightarrow> string list \<Rightarrow> path set \<Rightarrow> path set \<Rightarrow> bool" where
  "closed_under deps workspace cs excludes pending roots \<longleftrightarrow>
     (\<forall>root \<in> roots. \<forall>p \<in> set (deps root). \<forall>r. admitted_workspace_package_root workspace p cs excludes = Some r \<longrightarrow>
        path_join workspace r \<in> roots \<or> p \<in> pending)"

lemma collect_package_roots_complete:
  assumes "closed_under deps workspace cs excludes (set pending) (set roots)"
  shows "set roots \<subseteq> set (collect_package_roots deps workspace cs excludes pending roots) \<and>
    (\<forall>p \<in> set pending. \<forall>r. admitted_workspace_package_root workspace p cs excludes = Some r \<longrightarrow>
       path_join workspace r \<in> set (collect_package_roots deps workspace cs excludes pending roots)) \<and>
    closed_under deps workspace cs excludes {} (set (collect_package_roots deps workspace cs excludes pending roots))"
  using assms
proof (induction deps workspace cs excludes pending roots rule: collect_package_roots.induct)
  case (2 deps workspace cs excludes p pending roots)
  show ?case
  proof (cases "admitted_workspace_package_root workspace p cs excludes")
    case None
    then have "closed_under deps workspace cs excludes (set pending) (set roots)" using 2(4)
      unfolding closed_under_def by (metis option.distinct(1) set_ConsD)
    from 2(1) [OF None this] None show ?thesis by auto
  next
    case (Some r)
    let ?root = "path_join workspace r"
    show ?thesis
    proof (cases "?root \<in> set roots")
      case True
      have "closed_under deps workspace cs excludes (set pending) (set roots)"
        using 2(4) Some True unfolding closed_under_def by (metis option.inject set_ConsD)
      from 2(2) [OF Some refl True this] Some True show ?thesis by auto
    next
      case False
      have "closed_under deps workspace cs excludes (set (bset_extend pending (deps ?root))) (set (bset_insert ?root roots))"
        using 2(4) Some by (auto simp: closed_under_def set_bset_extend set_bset_insert) (metis option.inject)
      from 2(3) [OF Some refl False this] Some False show ?thesis by (auto simp: set_bset_extend set_bset_insert Let_def)
    qed
  qed
qed simp

lemma collect_package_roots_closure:
  "set (collect_package_roots deps workspace cs excludes pending []) = resolved_roots deps workspace cs excludes (set pending)"
proof
  show "set (collect_package_roots deps workspace cs excludes pending []) \<subseteq> resolved_roots deps workspace cs excludes (set pending)"
    by (rule collect_package_roots_sound) simp_all
  have complete: "\<forall>p \<in> set pending. \<forall>r. admitted_workspace_package_root workspace p cs excludes = Some r \<longrightarrow>
       path_join workspace r \<in> set (collect_package_roots deps workspace cs excludes pending [])"
    "closed_under deps workspace cs excludes {} (set (collect_package_roots deps workspace cs excludes pending []))"
    using collect_package_roots_complete [of deps workspace cs excludes pending "[]"] by (simp_all add: closed_under_def)
  show "resolved_roots deps workspace cs excludes (set pending) \<subseteq> set (collect_package_roots deps workspace cs excludes pending [])"
  proof
    fix x
    assume "x \<in> resolved_roots deps workspace cs excludes (set pending)"
    then show "x \<in> set (collect_package_roots deps workspace cs excludes pending [])"
      by induction (use complete in \<open>auto simp: closed_under_def\<close>)
  qed
qed

section \<open>The resolved graph\<close>

lemma set_right_values: "set (right_values xs) = {y. Inr y \<in> set xs}"
  by (induction xs) (auto simp: right_values_def List.map_filter_simps split: sum.splits)

text \<open>The packages that the roots describe, by name and displayed root.\<close>

definition named_packages :: "resolution_host \<Rightarrow> path \<Rightarrow> path list \<Rightarrow> path set \<Rightarrow> (string \<times> path) set" where
  "named_packages h workspace cs roots =
     {(name, display_root (relative_to workspace root)) | root name. root \<in> roots \<and>
        facts_package_name (fst (package_facts h workspace cs root)) = Some name}"

abbreviation root_name :: "resolution_host \<Rightarrow> path \<Rightarrow> path list \<Rightarrow> path \<Rightarrow> string option" where
  "root_name h workspace cs root \<equiv> facts_package_name (fst (package_facts h workspace cs root))"

lemma right_values_packages:
  "right_values (map (language_package_of h workspace cs) roots) =
     map (projr \<circ> language_package_of h workspace cs) (filter (\<lambda>root. root_name h workspace cs root \<noteq> None) roots)"
  by (induction roots)
    (auto simp: right_values_def List.map_filter_simps language_package_of_def case_prod_beta Let_def split: option.splits)

lemma graph_packages:
  "(\<lambda>p. (lp_name p, lp_root p)) ` set (lg_packages (package_graph_of h workspace cs roots)) = named_packages h workspace cs (set roots)"
proof -
  let ?named = "{root \<in> set roots. root_name h workspace cs root \<noteq> None}"
  have "set (lg_packages (package_graph_of h workspace cs roots)) = (\<lambda>root. fst (projr (language_package_of h workspace cs root))) ` ?named"
    by (simp add: package_graph_of_def Let_def right_values_packages image_image)
  then have "(\<lambda>p. (lp_name p, lp_root p)) ` set (lg_packages (package_graph_of h workspace cs roots)) =
      (\<lambda>root. (lp_name (fst (projr (language_package_of h workspace cs root))), lp_root (fst (projr (language_package_of h workspace cs root))))) ` ?named"
    by (simp only: image_image)
  also have "\<dots> = (\<lambda>root. (the (root_name h workspace cs root), display_root (relative_to workspace root))) ` ?named"
    by (rule image_cong [OF refl]) (auto simp: language_package_of_def case_prod_beta Let_def)
  also have "\<dots> = named_packages h workspace cs (set roots)" unfolding named_packages_def by force
  finally show ?thesis .
qed

lemma graph_unresolved:
  "ur_path ` set (lg_unresolved (package_graph_of h workspace cs roots)) =
     {relative_to workspace (path_push root ''Cargo.toml'') | root. root \<in> set roots \<and> root_name h workspace cs root = None}"
proof -
  have "lg_unresolved (package_graph_of h workspace cs roots) = left_values (map (language_package_of h workspace cs) roots)"
    by (simp add: package_graph_of_def Let_def)
  moreover have "ur_path ` set (left_values (map (language_package_of h workspace cs) rs)) =
      {relative_to workspace (path_push root ''Cargo.toml'') | root. root \<in> set rs \<and> root_name h workspace cs root = None}" for rs
    by (induction rs)
      (auto simp: left_values_def List.map_filter_simps language_package_of_def case_prod_beta Let_def split: option.splits)
  ultimately show ?thesis by simp
qed

lemma graph_edges_in_packages:
  assumes "e \<in> set (lg_internal_dependency_edges (package_graph_of h workspace cs roots))"
  shows "ie_from_package_id e \<in> lp_package_id ` set (lg_packages (package_graph_of h workspace cs roots)) \<and>
    ie_to_package_id e \<in> lp_package_id ` set (lg_packages (package_graph_of h workspace cs roots))"
proof -
  define found where "found = right_values (map (language_package_of h workspace cs) roots)"
  define packages where "packages = sort_key lp_package_id (map fst found)"
  define ids where "ids = bmap_of_list (map (\<lambda>p. (lp_name p, lp_package_id p)) packages)"
  have packages: "lg_packages (package_graph_of h workspace cs roots) = packages"
    by (simp add: package_graph_of_def Let_def packages_def found_def)
  have "lg_internal_dependency_edges (package_graph_of h workspace cs roots) =
      sort_key (\<lambda>e. (ie_from_package_id e, ie_to_package_id e, ie_kind e))
        (right_values (concat (map (\<lambda>(p, ds). map (resolved_dependency h ids (lp_package_id p)) ds) found)))"
    by (simp only: package_graph_of_def Let_def found_def packages_def ids_def language_package_graph.simps)
  with assms have "Inr e \<in> set (concat (map (\<lambda>(p, ds). map (resolved_dependency h ids (lp_package_id p)) ds) found))"
    by (simp add: set_right_values)
  then obtain p ds d where e: "(p, ds) \<in> set found" "d \<in> set ds" "resolved_dependency h ids (lp_package_id p) d = Inr e"
    by (fastforce simp: case_prod_beta)
  from e(3) have to: "ie_from_package_id e = lp_package_id p" "map_of ids (cd_package_name d) = Some (ie_to_package_id e)"
    by (auto simp: resolved_dependency_def Let_def split: option.splits)
  from map_of_SomeD [OF to(2) [unfolded ids_def bmap_get_of_list]] have "ie_to_package_id e \<in> lp_package_id ` set packages" by auto
  moreover have "p \<in> set packages" using imageI [OF e(1), of fst] by (simp add: packages_def)
  ultimately show ?thesis unfolding packages to(1) by blast
qed

text \<open>
  C22: resolving a Cargo project always returns; it fails exactly when no candidate is a manifest, when the root manifest is no
  candidate or when the root manifest has neither package, members nor path dependencies, and otherwise its packages are exactly
  the named packages of the closure of these under path dependencies, kept to candidate manifests that the workspace does not
  exclude, its unresolved references are the manifests of that closure without a name, and every internal edge joins two packages
  of the graph.
\<close>

theorem project_resolution_exact:
  "let cs = bset_of_list (map normalize_relative_path (rn_candidate_paths i));
       root_facts = fst (package_facts h workspace cs workspace);
       roots = resolved_roots (\<lambda>root. path_dependency_roots (fst (package_facts h workspace cs root))) workspace cs
         (facts_workspace_excludes root_facts) (set (pending_roots workspace cs root_facts))
   in case resolve_cargo_project_resolution h workspace i of
        Inl (NotApplicable _) \<Rightarrow> \<not> list_ex (\<lambda>p. path_file_name p = Some ''Cargo.toml'') cs
      | Inl (ProjectEntryMissing _) \<Rightarrow> list_ex (\<lambda>p. path_file_name p = Some ''Cargo.toml'') cs \<and> path_of_string ''Cargo.toml'' \<notin> set cs
      | Inl (ProjectEntryInvalid _) \<Rightarrow> path_of_string ''Cargo.toml'' \<in> set cs \<and> pending_roots workspace cs root_facts = []
      | Inr r \<Rightarrow> path_of_string ''Cargo.toml'' \<in> set cs \<and> pending_roots workspace cs root_facts \<noteq> [] \<and>
          (\<lambda>p. (lp_name p, lp_root p)) ` set (lg_packages (rz_package_graph r)) = named_packages h workspace cs roots \<and>
          ur_path ` set (lg_unresolved (rz_package_graph r)) =
            {relative_to workspace (path_push root ''Cargo.toml'') | root. root \<in> roots \<and>
              facts_package_name (fst (package_facts h workspace cs root)) = None} \<and>
          list_all (\<lambda>e. ie_from_package_id e \<in> lp_package_id ` set (lg_packages (rz_package_graph r)) \<and>
            ie_to_package_id e \<in> lp_package_id ` set (lg_packages (rz_package_graph r)))
            (lg_internal_dependency_edges (rz_package_graph r))"
  unfolding Let_def resolve_cargo_project_resolution_def
  by (simp add: resolution_of_def graph_packages graph_unresolved collect_package_roots_closure list_all_iff graph_edges_in_packages)

end
