(* ===== verification/Provider_Server.thy ===== *)
theory Provider_Server
  imports Syntax_Query Http_Json Project_Resolution
begin

text \<open>
  The provider server (\<open>src/provider_server/runtime.rs\<close>, \<open>project_resolution.rs\<close> and the frames of \<open>contract.rs\<close>): the admitted process
  argument, the routes, the request frame and its three operations. The codecs of the wire values are arguments; a worker that
  panics is \<open>None\<close> and becomes an error of its request.
\<close>

section \<open>The contract\<close>

record provider_schema_reference =
  ref_schema_id :: string
  ref_schema_version :: string

record provider_contract_operation =
  co_operation :: string
  co_request_schema :: provider_schema_reference
  co_response_schema :: provider_schema_reference

definition contract_operation :: "string \<Rightarrow> string \<Rightarrow> string \<Rightarrow> provider_contract_operation" where
  "contract_operation operation request_schema response_schema =
     \<lparr>co_operation = operation, co_request_schema = \<lparr>ref_schema_id = request_schema, ref_schema_version = ''1''\<rparr>,
      co_response_schema = \<lparr>ref_schema_id = response_schema, ref_schema_version = ''1''\<rparr>\<rparr>"

definition runtime_contract_operations :: "provider_contract_operation list" where
  "runtime_contract_operations =
     [contract_operation ''syntax-query'' ''agent.semantic-protocols.provider-syntax-query-request''
        ''agent.semantic-protocols.provider-syntax-query-response'',
      contract_operation ''projection-batch'' ''agent.semantic-protocols.provider-language-projection-batch-request''
        ''agent.semantic-protocols.provider-language-projection-batch-response'',
      contract_operation ''project-resolution'' ''agent.semantic-protocols.provider-project-resolution-request''
        ''agent.semantic-protocols.provider-project-resolution-response'']"

record request_frame =
  rf_schema_id :: string
  rf_schema_version :: string
  rf_request_id :: string
  rf_operation :: string
  rf_payload :: json

definition validate_frame :: "request_frame \<Rightarrow> unit result" where
  "validate_frame f =
     (if rf_schema_id f \<noteq> ''agent.semantic-protocols.provider-runtime-request-frame'' \<or> rf_schema_version f \<noteq> ''1''
      then Err ''provider runtime request frame schema identity drift''
      else if trim (rf_request_id f) = [] \<or> trim (rf_operation f) = []
      then Err ''provider runtime request frame requires requestId and operation''
      else case rf_payload f of JObj _ \<Rightarrow> Ok () | _ \<Rightarrow> Err ''provider runtime request payload must be a JSON object'')"

datatype response_outcome = OutcomeReady | OutcomeError

record response_frame =
  sf_schema_id :: string
  sf_schema_version :: string
  sf_request_id :: string
  sf_outcome :: response_outcome
  sf_payload :: "json option"
  sf_error :: "string option"

definition error_frame :: "string \<Rightarrow> string \<Rightarrow> response_frame" where
  "error_frame request_id e =
     \<lparr>sf_schema_id = ''agent.semantic-protocols.provider-runtime-response-frame'', sf_schema_version = ''1'', sf_request_id = request_id,
      sf_outcome = OutcomeError, sf_payload = None, sf_error = Some e\<rparr>"

section \<open>Project resolution\<close>

record project_resolution_request =
  pr_schema_id :: string
  pr_schema_version :: string
  pr_language_id :: string
  pr_provider_id :: string
  pr_candidate_base :: string
  pr_input :: resolution_input

datatype resolution_state = ResolutionResolved | ResolutionNotApplicable | ResolutionFailed

record resolution_failure =
  rfl_reason_kind :: string
  rfl_message :: string
  rfl_next_action :: string

record project_resolution_response =
  ps_schema_id :: string
  ps_schema_version :: string
  ps_language_id :: string
  ps_provider_id :: string
  ps_state :: resolution_state
  ps_scope :: "project_resolution option"
  ps_failure :: "resolution_failure option"

definition resolution_request_schema :: string where
  "resolution_request_schema = ''agent.semantic-protocols.provider-project-resolution-request''"

definition resolution_response_schema :: string where
  "resolution_response_schema = ''agent.semantic-protocols.provider-project-resolution-response''"

definition normal_relative :: "path \<Rightarrow> bool" where
  "normal_relative p \<longleftrightarrow> \<not> is_absolute p \<and> list_all (\<lambda>c. case c of Normal _ \<Rightarrow> True | _ \<Rightarrow> False) p"

definition validate_resolution_request :: "project_resolution_request \<Rightarrow> unit result" where
  "validate_resolution_request r =
     (if pr_schema_id r \<noteq> resolution_request_schema \<or> pr_schema_version r \<noteq> ''1''
      then Err (''unsupported project-resolution request schema: '' @ pr_schema_id r @ ''@'' @ pr_schema_version r)
      else if pr_language_id r \<noteq> ''rust'' \<or> pr_provider_id r \<noteq> ''asp-rust''
      then Err (''project-resolution provider mismatch: language='' @ pr_language_id r @ '' provider='' @ pr_provider_id r)
      else if pr_candidate_base r \<noteq> ''.'' \<or> cg_digest (rn_candidate_generation (pr_input r)) = []
      then Err ''project-resolution requires candidateBase=. and candidateGeneration.digest''
      else case rn_collection_scope (pr_input r) of
        CompleteGeneration \<Rightarrow> Ok ()
      | ExplicitOwners owner_paths \<Rightarrow>
          if owner_paths = [] \<or> \<not> list_all normal_relative owner_paths \<or> length (bset_of_list owner_paths) \<noteq> length owner_paths
          then Err ''explicit-owners collectionScope requires unique normalized workspace-relative ownerPaths'' else Ok ())"

definition failure_from_error :: "resolution_error \<Rightarrow> resolution_failure" where
  "failure_from_error e =
     \<lparr>rfl_reason_kind = (case e of NotApplicable _ \<Rightarrow> ''provider-not-applicable'' | ProjectEntryMissing _ \<Rightarrow> ''project-entry-missing''
        | ProjectEntryInvalid _ \<Rightarrow> ''project-entry-invalid''),
      rfl_message = resolution_error_text e,
      rfl_next_action = ''refresh-project-resolution-candidates-or-select-project-entry''\<rparr>"

definition resolution_response :: "project_resolution_request \<Rightarrow> resolution_error + project_resolution \<Rightarrow> project_resolution_response \<times> nat" where
  "resolution_response r outcome =
     (let response = \<lparr>ps_schema_id = resolution_response_schema, ps_schema_version = ''1'', ps_language_id = pr_language_id r,
            ps_provider_id = pr_provider_id r, ps_state = ResolutionResolved, ps_scope = None, ps_failure = None\<rparr>
      in case outcome of
        Inr resolution \<Rightarrow> (response\<lparr>ps_scope := Some resolution\<rparr>, 0)
      | Inl (NotApplicable _) \<Rightarrow> (response\<lparr>ps_state := ResolutionNotApplicable\<rparr>, 0)
      | Inl e \<Rightarrow> (response\<lparr>ps_state := ResolutionFailed, ps_failure := Some (failure_from_error e)\<rparr>, 2))"

section \<open>Requests\<close>

record provider_host =
  pv_query :: syntax_query_host
  pv_projection :: projection_host
  pv_resolution :: resolution_host
  pv_decode_query :: "json \<Rightarrow> string + syntax_query_request"
  pv_decode_projection :: "json \<Rightarrow> string + projection_header"
  pv_decode_resolution :: "string \<Rightarrow> string + project_resolution_request"
  pv_encode_resolution :: "project_resolution_response \<Rightarrow> string + string"
  pv_decode_frame :: "string \<Rightarrow> string + request_frame"
  pv_encode_frame :: "response_frame \<Rightarrow> string + string"
  pv_json :: "json \<Rightarrow> string + string"
  pv_string :: "string \<Rightarrow> string + string"

definition explain :: "string \<Rightarrow> string + 'a \<Rightarrow> 'a result" where
  "explain what r = (case r of Inl e \<Rightarrow> Err (what @ '': '' @ e) | Inr x \<Rightarrow> Ok x)"

definition handle_project_resolution_request :: "provider_host \<Rightarrow> string \<Rightarrow> (string \<times> nat) result" where
  "handle_project_resolution_request pv bytes =
     and_then (explain ''parse project-resolution stdin request'' (pv_decode_resolution pv bytes)) (\<lambda>request.
     and_then (validate_resolution_request request) (\<lambda>_.
       let (response, exit_code) = resolution_response request
             (resolve_cargo_project_resolution (pv_resolution pv) (path_of_string (pr_candidate_base request)) (pr_input request))
       in map_ok (\<lambda>encoded. (encoded, exit_code)) (explain ''serialize project-resolution response'' (pv_encode_resolution pv response))))"

definition handle_project_resolution_request_value :: "provider_host \<Rightarrow> json \<Rightarrow> (string \<times> nat) result" where
  "handle_project_resolution_request_value pv request =
     and_then (explain ''encode structured project-resolution request'' (pv_json pv request)) (handle_project_resolution_request pv)"

definition handle_operation :: "provider_host \<Rightarrow> string \<Rightarrow> json \<Rightarrow> string result option" where
  "handle_operation pv operation payload =
     (if operation = ''syntax-query'' then
        pbind (Some (explain ''decode provider syntax-query request'' (pv_decode_query pv payload))) (handle_syntax_query_operation (pv_query pv))
      else if operation = ''projection-batch'' then
        Some (and_then (explain ''decode structured projection request'' (pv_decode_projection pv payload))
          (handle_language_projection_batch (pv_projection pv)))
      else if operation = ''project-resolution'' then Some (map_ok fst (handle_project_resolution_request_value pv payload))
      else Some (Err (''provider runtime operation is not admitted: '' @ operation)))"

definition encode_ready_response_frame :: "provider_host \<Rightarrow> string \<Rightarrow> string \<Rightarrow> string result" where
  "encode_ready_response_frame pv request_id payload =
     map_ok (\<lambda>encoded. ''{'' @ json_quoted ''schemaId'' @ '':'' @ json_quoted ''agent.semantic-protocols.provider-runtime-response-frame'' @ '','' @
         json_quoted ''schemaVersion'' @ '':'' @ json_quoted ''1'' @ '','' @ json_quoted ''requestId'' @ '':'' @ encoded @
         '','' @ json_quoted ''outcome'' @ '':'' @ json_quoted ''ready'' @ '','' @ json_quoted ''payload'' @ '':'' @ payload @ ''}'')
       (explain ''encode provider Runtime requestId'' (pv_string pv request_id))"

definition handle_request :: "provider_host \<Rightarrow> request_frame \<Rightarrow> string result option" where
  "handle_request pv request =
     (case (case validate_frame request of Inr _ \<Rightarrow> handle_operation pv (rf_operation request) (rf_payload request) | Inl e \<Rightarrow> Some (Err e)) of
        None \<Rightarrow> None
      | Some (Inr payload) \<Rightarrow> Some (encode_ready_response_frame pv (rf_request_id request) payload)
      | Some (Inl e) \<Rightarrow> Some (explain ''encode provider Runtime error frame'' (pv_encode_frame pv (error_frame (rf_request_id request) e))))"

definition json_response :: "provider_host \<Rightarrow> nat \<Rightarrow> json \<Rightarrow> http_response result" where
  "json_response pv status j = map_ok (encoded_json status) (explain ''encode HTTP JSON response'' (pv_json pv j))"

text \<open>
  A request of the server with the shutdown signal it sends, if any. \<open>receiver\<close> says whether the accept loop still listens to the
  signal.
\<close>

definition handle_http_request :: "provider_host \<Rightarrow> json \<Rightarrow> bool \<Rightarrow> http_request \<Rightarrow> http_response result option \<times> bool" where
  "handle_http_request pv health receiver request =
     (if hr_method request = ''GET'' \<and> hr_path request = ''/health'' then (Some (json_response pv 200 health), False)
      else if hr_method request = ''POST'' \<and> hr_path request = ''/v1/provider-runtime'' then
        (pbind (Some (explain ''decode asp-client-server request'' (pv_decode_frame pv (hr_body request)))) (\<lambda>frame.
           pbind (handle_request pv frame) (\<lambda>body. Some (Ok (encoded_json 200 body)))), False)
      else if hr_method request = ''POST'' \<and> hr_path request = ''/shutdown'' then
        if receiver then (Some (json_response pv 200 (JObj [(''state'', JStr ''draining'')])), True)
        else (Some (Err ''asp-client-server shutdown receiver closed''), False)
      else (Some (json_response pv 404 (JObj [(''error'', JStr ''asp-client-server-route-not-found'')])), False))"

definition provider_handler :: "provider_host \<Rightarrow> json \<Rightarrow> bool \<Rightarrow> (string \<Rightarrow> http_handler)" where
  "provider_handler pv health receiver join_error request =
     Some (case fst (handle_http_request pv health receiver request) of
        None \<Rightarrow> Inl (''provider request worker failed: '' @ join_error)
      | Some r \<Rightarrow> r)"

section \<open>The process\<close>

definition admit_provider_server_argv :: "string list \<Rightarrow> unit result" where
  "admit_provider_server_argv args =
     (if args = [''serve''] then Ok ()
      else Err (''asp-rust is a Runtime-managed provider server; the only admitted process argument is `serve`''))"

definition required_env :: "(string \<Rightarrow> string + string) \<Rightarrow> string \<Rightarrow> string result" where
  "required_env env key = explain (''provider runtime requires '' @ key) (env key)"

definition contract_operation_json :: "provider_contract_operation \<Rightarrow> json" where
  "contract_operation_json c =
     (let schema = (\<lambda>r. JObj [(''schemaId'', JStr (ref_schema_id r)), (''schemaVersion'', JStr (ref_schema_version r))])
      in JObj [(''operation'', JStr (co_operation c)), (''requestSchema'', schema (co_request_schema c)), (''responseSchema'', schema (co_response_schema c))])"

text \<open>What the process needs before it binds its address: the address and the health document.\<close>

definition provider_settings :: "(string \<Rightarrow> string + string) \<Rightarrow> (string \<times> json) result" where
  "provider_settings env =
     and_then (required_env env ''ASP_PROVIDER_ARTIFACT_DIGEST'') (\<lambda>artifact_digest.
     and_then (required_env env ''ASP_PROVIDER_REGISTRATION_DIGEST'') (\<lambda>registration_digest.
     and_then (required_env env ''ASP_PROVIDER_RUNTIME_CONTRACT_DIGEST'') (\<lambda>contract_digest.
     and_then (required_env env ''ASP_PROVIDER_ID'') (\<lambda>provider_id.
     and_then (required_env env ''ASP_PROVIDER_LANGUAGE_ID'') (\<lambda>language_id.
     and_then (required_env env ''ASP_CLIENT_SERVER_HOST'') (\<lambda>host.
       Ok (host, JObj [(''schemaId'', JStr ''agent.semantic-protocols.provider-runtime-contract-receipt''), (''schemaVersion'', JStr ''1''),
         (''providerId'', JStr provider_id), (''languageId'', JStr language_id), (''artifactDigest'', JStr artifact_digest),
         (''registrationDigest'', JStr registration_digest), (''contractDigest'', JStr contract_digest), (''transport'', JStr ''http-json''),
         (''operations'', JArr (map contract_operation_json runtime_contract_operations))])))))))"


section \<open>The contract and its handlers agree\<close>

definition declared_schema :: "string \<Rightarrow> (string \<times> string) option" where
  "declared_schema operation =
     map_option (\<lambda>c. (ref_schema_id (co_request_schema c), ref_schema_version (co_request_schema c)))
       (find (\<lambda>c. co_operation c = operation) runtime_contract_operations)"

definition right_schema :: "('a \<Rightarrow> string \<times> string) \<Rightarrow> string + 'a \<Rightarrow> (string \<times> string) option" where
  "right_schema schema_of decoded = (case decoded of Inl _ \<Rightarrow> None | Inr request \<Rightarrow> Some (schema_of request))"

definition payload_schema :: "provider_host \<Rightarrow> string \<Rightarrow> json \<Rightarrow> (string \<times> string) option" where
  "payload_schema pv operation payload =
     (if operation = ''syntax-query'' then right_schema (\<lambda>r. (sq_schema_id r, sq_schema_version r)) (pv_decode_query pv payload)
      else if operation = ''projection-batch'' then right_schema (\<lambda>r. (pj_schema_id r, pj_schema_version r)) (pv_decode_projection pv payload)
      else right_schema (\<lambda>r. (pr_schema_id r, pr_schema_version r))
        (and_then (pv_json pv payload) (pv_decode_resolution pv)))"

lemma explain_Inr: "explain what r = Inr x \<longleftrightarrow> r = Inr x"
  by (auto simp: explain_def split: sum.splits)

lemma query_schema_checked:
  "handle_syntax_query_operation h r = Some (Inr x) \<Longrightarrow> (sq_schema_id r, sq_schema_version r) = (syntax_query_request_schema, ''1'')"
  by (auto simp: handle_syntax_query_operation_def split: if_splits)

lemma projection_schema_checked:
  "handle_language_projection_batch h r = Inr x \<Longrightarrow>
   (pj_schema_id r, pj_schema_version r) = (''agent.semantic-protocols.provider-language-projection-batch-request'', ''1'')"
  by (auto simp: handle_language_projection_batch_def validate_projection_batch_header_def and_then_Inr_iff split: if_splits)

lemma resolution_schema_checked:
  "handle_project_resolution_request pv bytes = Inr x \<Longrightarrow>
   \<exists>r. pv_decode_resolution pv bytes = Inr r \<and> (pr_schema_id r, pr_schema_version r) = (resolution_request_schema, ''1'')"
  by (auto simp: handle_project_resolution_request_def validate_resolution_request_def and_then_Inr_iff explain_Inr split: if_splits)

lemma operation_schema_checked:
  assumes "handle_operation pv operation payload = Some (Inr x)"
  shows "payload_schema pv operation payload = declared_schema operation"
proof -
  consider (query) "operation = ''syntax-query''" | (batch) "operation = ''projection-batch''" | (resolution) "operation = ''project-resolution''"
    using assms by (auto simp: handle_operation_def split: if_splits)
  then show ?thesis
  proof cases
    case query
    with assms obtain r where "pv_decode_query pv payload = Inr r" "handle_syntax_query_operation (pv_query pv) r = Some (Inr x)"
      by (auto simp: handle_operation_def pbind_def explain_def split: sum.splits)
    with query_schema_checked [OF this(2)] query show ?thesis
      by (simp add: payload_schema_def right_schema_def declared_schema_def runtime_contract_operations_def contract_operation_def
          syntax_query_request_schema_def)
  next
    case batch
    with assms obtain r where "pv_decode_projection pv payload = Inr r" "handle_language_projection_batch (pv_projection pv) r = Inr x"
      by (auto simp: handle_operation_def and_then_Inr_iff explain_Inr)
    with projection_schema_checked [OF this(2)] batch show ?thesis
      by (simp add: payload_schema_def right_schema_def declared_schema_def runtime_contract_operations_def contract_operation_def)
  next
    case resolution
    with assms obtain bytes y where "pv_json pv payload = Inr bytes" "handle_project_resolution_request pv bytes = Inr y"
      by (auto simp: handle_operation_def handle_project_resolution_request_value_def and_then_Inr_iff explain_Inr map_ok_Inr_iff)
    with resolution_schema_checked [OF this(2)] resolution show ?thesis
      by (auto simp: payload_schema_def right_schema_def declared_schema_def runtime_contract_operations_def contract_operation_def
          resolution_request_schema_def)
  qed
qed

text \<open>
  C17: the server's declared contract is what its handlers accept. An operation outside the contract is refused, and an operation
  of the contract succeeds only on a payload whose schema is the request schema the contract declares for it.
\<close>

theorem provider_contract_exact:
  "if operation \<in> set (map co_operation runtime_contract_operations)
   then (case handle_operation pv operation payload of Some (Inr _) \<Rightarrow> payload_schema pv operation payload = declared_schema operation | _ \<Rightarrow> True)
   else handle_operation pv operation payload = Some (Err (''provider runtime operation is not admitted: '' @ operation))"
proof (cases "operation \<in> set (map co_operation runtime_contract_operations)")
  case True
  then show ?thesis using operation_schema_checked by (auto split: option.splits sum.splits)
next
  case False
  then show ?thesis by (auto simp: runtime_contract_operations_def contract_operation_def handle_operation_def)
qed

text \<open>
  C16: every request gets an answer. On a connection that can be written, either no request can be read, which is the connection's
  error, or the bytes of a response are sent, with status 200, 404 or 500; a worker that panics and an operation that fails never
  fail the connection.
\<close>

theorem provider_answers_requests:
  "case read_request (tc_stream c) of
     Inl e \<Rightarrow> serve_connection error_json (provider_handler pv health receiver join_error) c = Some (Inl e)
   | Inr request \<Rightarrow> \<exists>r. serve_connection error_json (provider_handler pv health receiver join_error) (c\<lparr>tc_write := good_write\<rparr>)
         = Some (Inr (response_header r @ hp_body r)) \<and> hp_status r \<in> {200, 404, 500}"
proof (cases "read_request (tc_stream c)")
  case (Inr request)
  have status: "hp_status r \<in> {200, 404}" if "fst (handle_http_request pv health receiver request) = Some (Inr r)" for r
    using that by (auto simp: handle_http_request_def json_response_def encoded_json_def map_ok_Inr_iff pbind_def split: if_splits option.splits sum.splits)
  show ?thesis
  proof (cases "provider_handler pv health receiver join_error request")
    case (Some answer)
    show ?thesis
    proof (cases answer)
      case (Inl e)
      with Some \<open>read_request (tc_stream c) = Inr request\<close> show ?thesis
        by (auto simp: serve_connection_def write_response_def failure_response_def intro!: exI [of _ "failure_response error_json e"])
    next
      case (Inr r)
      with Some status [of r] \<open>read_request (tc_stream c) = Inr request\<close> show ?thesis
        by (auto simp: serve_connection_def write_response_def provider_handler_def intro!: exI [of _ r] split: option.splits)
    qed
  qed (simp add: provider_handler_def)
qed (simp add: serve_connection_def)

end
