(* ===== verification/Byte_Framing.thy ===== *)
theory Byte_Framing
  imports Lexical_Path
begin

text \<open>
  Length-prefixed fields, as the digests of the crate hash them, and the workspace snapshot of
  \<open>src/provider_workspace_search_identity.rs\<close>. The interface \<open>framing\<close> says what the digests rely on: a frame can be told apart
  from what follows it. A hash function is an argument that gives the digest in hexadecimal.
\<close>

section \<open>Integers as bytes\<close>

fun le_bytes :: "nat \<Rightarrow> nat \<Rightarrow> string" where
  "le_bytes 0 n = []"
| "le_bytes (Suc k) n = char_of (n mod 256) # le_bytes k (n div 256)"

definition to_le_bytes :: "nat \<Rightarrow> string" where "to_le_bytes n = le_bytes 8 n"
definition to_be_bytes :: "nat \<Rightarrow> string" where "to_be_bytes n = rev (le_bytes 8 n)"

lemma length_le_bytes [simp]: "length (le_bytes k n) = k"
  by (induction k arbitrary: n) auto

lemma le_bytes_inject: "a < 256 ^ k \<Longrightarrow> b < 256 ^ k \<Longrightarrow> le_bytes k a = le_bytes k b \<Longrightarrow> a = b"
proof (induction k arbitrary: a b)
  case (Suc k)
  have "a div 256 < 256 ^ k" "b div 256 < 256 ^ k" using Suc.prems by (simp_all add: less_mult_imp_div_less mult.commute)
  then have "a div 256 = b div 256" using Suc by simp
  moreover have "of_char (char_of (a mod 256) :: char) = (of_char (char_of (b mod 256) :: char) :: nat)" using Suc.prems by simp
  then have "a mod 256 = b mod 256" by simp
  ultimately show ?case by (metis div_mult_mod_eq)
qed simp

section \<open>Frames\<close>

locale framing =
  fixes frame :: "string \<Rightarrow> string" and fits :: "string \<Rightarrow> bool"
  assumes frame_split: "fits a \<Longrightarrow> fits b \<Longrightarrow> frame a @ x = frame b @ y \<Longrightarrow> a = b \<and> x = y"
    and frame_nonempty: "frame a \<noteq> []"
begin

lemma frames_split:
  assumes "list_all fits xs" "list_all fits ys" "length xs = length ys" "concat (map frame xs) @ x = concat (map frame ys) @ y"
  shows "xs = ys \<and> x = y"
  using assms(3,1,2,4)
proof (induction xs ys rule: list_induct2)
  case (Cons a as b bs)
  from Cons.prems have fit: "fits a" "fits b" and rest: "list_all fits as" "list_all fits bs" by simp_all
  from Cons.prems(3) have "frame a @ (concat (map frame as) @ x) = frame b @ (concat (map frame bs) @ y)" by simp
  from frame_split [OF fit this] have eq: "a = b" and tails: "concat (map frame as) @ x = concat (map frame bs) @ y" by blast+
  from Cons.IH [OF rest tails] eq show ?case by simp
qed simp

lemma frames_inject:
  assumes "list_all fits xs" "list_all fits ys" "concat (map frame xs) = concat (map frame ys)"
  shows "xs = ys"
  using assms
proof (induction xs arbitrary: ys)
  case Nil
  then show ?case using frame_nonempty by (cases ys) auto
next
  case (Cons a as)
  obtain b bs where ys: "ys = b # bs" using Cons.prems(3) frame_nonempty by (cases ys) auto
  from Cons.prems ys have fit: "fits a" "fits b" and rest: "list_all fits as" "list_all fits bs" by simp_all
  from Cons.prems(3) ys have "frame a @ concat (map frame as) = frame b @ concat (map frame bs)" by simp
  from frame_split [OF fit this] have eq: "a = b" and tails: "concat (map frame as) = concat (map frame bs)" by blast+
  from Cons.IH [OF rest tails] eq ys show ?case by simp
qed

end

definition fits_u64 :: "string \<Rightarrow> bool" where "fits_u64 s \<longleftrightarrow> length s < 2 ^ 64"

definition be_frame :: "string \<Rightarrow> string" where "be_frame part = to_be_bytes (length part) @ part"
definition le_frame :: "string \<Rightarrow> string" where "le_frame field = to_le_bytes (length field) @ field"

lemma prefixed_split:
  assumes "length p = n" "length q = n" "p @ a @ x = q @ b @ y" "p = q \<Longrightarrow> length a = length b"
  shows "a = b \<and> x = (y :: string)"
  using assms by (metis append_eq_append_conv)

interpretation be: framing be_frame fits_u64
proof
  show "a = b \<and> x = y" if "fits_u64 a" "fits_u64 b" "be_frame a @ x = be_frame b @ y" for a b x y
    using that le_bytes_inject [of "length a" 8 "length b"]
    by (intro prefixed_split [of "to_be_bytes (length a)" 8 "to_be_bytes (length b)"]) (auto simp: be_frame_def to_be_bytes_def fits_u64_def)
  show "be_frame a \<noteq> []" for a by (auto simp: be_frame_def to_be_bytes_def dest: arg_cong [of _ _ length])
qed

interpretation le: framing le_frame fits_u64
proof
  show "a = b \<and> x = y" if "fits_u64 a" "fits_u64 b" "le_frame a @ x = le_frame b @ y" for a b x y
    using that le_bytes_inject [of "length a" 8 "length b"]
    by (intro prefixed_split [of "to_le_bytes (length a)" 8 "to_le_bytes (length b)"]) (auto simp: le_frame_def to_le_bytes_def fits_u64_def)
  show "le_frame a \<noteq> []" for a by (auto simp: le_frame_def to_le_bytes_def dest: arg_cong [of _ _ length])
qed

section \<open>The workspace snapshot\<close>

fun snapshot_components :: "string list \<Rightarrow> string list \<Rightarrow> string list" where
  "snapshot_components components [] = components"
| "snapshot_components components (c # cs) =
     snapshot_components (if c = [] \<or> c = ''.'' then components else if c = ''..'' then butlast components else components @ [c]) cs"

definition normalize_snapshot_path :: "string \<Rightarrow> string" where
  "normalize_snapshot_path p =
     join_with ''/'' (snapshot_components [] (split_on CHR ''/'' (replace_char CHR 0x5C CHR ''/'' p)))"

definition source_digest_leaf :: "(string \<Rightarrow> string) \<Rightarrow> string \<Rightarrow> string" where
  "source_digest_leaf hash digest =
     hash (concat (map be_frame [''asp.leaf.v1'', ''text'', ''application/vnd.asp.source-content-digest'', digest]))"

definition snapshot_parts :: "(string \<Rightarrow> string) \<Rightarrow> (string \<times> string) list \<Rightarrow> string list" where
  "snapshot_parts hash files =
     [''asp.node.v1'', ''sourceSnapshot'', ''asp.source-snapshot.v1'', ''1'', ''none'', ''none'', ''none''] @
     concat (map (\<lambda>(i, p, digest). [''source'', p, ''blake3'', source_digest_leaf hash digest, to_be_bytes i]) (enumerate 0 files))"

definition snapshot_files :: "(string \<times> string) list \<Rightarrow> (string \<times> string) list" where
  "snapshot_files files = bmap_of_list (map (\<lambda>(p, digest). (normalize_snapshot_path p, digest)) files)"

definition snapshot_preimage :: "(string \<Rightarrow> string) \<Rightarrow> (string \<times> string) list \<Rightarrow> string" where
  "snapshot_preimage hash files = concat (map be_frame (snapshot_parts hash (snapshot_files files)))"

definition from_file_hashes :: "(string \<Rightarrow> string) \<Rightarrow> (string \<times> string) list \<Rightarrow> string" where
  "from_file_hashes hash files = hash (snapshot_preimage hash files)"

lemma snapshot_parts_inject:
  assumes "snapshot_parts hash fs = snapshot_parts hash gs"
  shows "map (\<lambda>(p, d). (p, source_digest_leaf hash d)) fs = map (\<lambda>(p, d). (p, source_digest_leaf hash d)) gs"
proof -
  have "map (\<lambda>(p, d). (p, source_digest_leaf hash d)) fs = map (\<lambda>(p, d). (p, source_digest_leaf hash d)) gs"
    if "concat (map (\<lambda>(i, p, digest). [''source'', p, ''blake3'', source_digest_leaf hash digest, to_be_bytes i]) (enumerate n fs)) =
      concat (map (\<lambda>(i, p, digest). [''source'', p, ''blake3'', source_digest_leaf hash digest, to_be_bytes i]) (enumerate n gs))" for n
    using that
  proof (induction fs arbitrary: gs n)
    case Nil
    then show ?case by (cases gs) auto
  next
    case (Cons f fs)
    obtain p d where f: "f = (p, d)" by (rule prod.exhaust)
    from Cons.prems f obtain q e gs' where gs: "gs = (q, e) # gs'" by (cases gs) auto
    from Cons.prems have "concat (map (\<lambda>(i, p, digest). [''source'', p, ''blake3'', source_digest_leaf hash digest, to_be_bytes i]) (enumerate (Suc n) fs)) =
        concat (map (\<lambda>(i, p, digest). [''source'', p, ''blake3'', source_digest_leaf hash digest, to_be_bytes i]) (enumerate (Suc n) gs'))"
      and "p = q" "source_digest_leaf hash d = source_digest_leaf hash e"
      unfolding f gs by (simp_all only: enumerate_simps list.map concat.simps prod.case append_Cons append_Nil list.inject)
    with Cons.IH [of "Suc n" gs'] show ?case by (simp add: f gs)
  qed
  then show ?thesis using assms by (simp add: snapshot_parts_def)
qed

text \<open>
  What is hashed for a snapshot determines its files: two workspaces with the same preimage have the same normalised paths with the
  same leaf digests.
\<close>

lemma snapshot_preimage_inject:
  assumes "list_all fits_u64 (snapshot_parts hash (snapshot_files fs))" "list_all fits_u64 (snapshot_parts hash (snapshot_files gs))"
    and "snapshot_preimage hash fs = snapshot_preimage hash gs"
  shows "map (\<lambda>(p, d). (p, source_digest_leaf hash d)) (snapshot_files fs) = map (\<lambda>(p, d). (p, source_digest_leaf hash d)) (snapshot_files gs)"
  using be.frames_inject [OF assms(1,2)] assms(3) by (intro snapshot_parts_inject) (simp add: snapshot_preimage_def)

end
