(* ===== verification/Nested_Items.thy ===== *)
theory Nested_Items
  imports Provider_Projection Byte_Framing "HOL-Library.Multiset"
begin

text \<open>
  Facts about nested items (\<open>src/nested_item_facts.rs\<close>). The syntax tree is given by the nodes the visitor handles, each with the
  nodes that the parser crate's walk reaches below it; the visitor carries a stack of scopes and the owners it is in, which it
  changes around the walk of a node. The digest is an argument. The code sorts the facts with \<open>sort_unstable_by\<close>, which leaves open how facts
  with equal keys are ordered; the model keeps their order, and what is shown of the result holds for every order of them.
\<close>

section \<open>The tree\<close>

datatype nested_kind =
    NestedConst | NestedEnum | NestedExternCrate | NestedFn | NestedForeignMod | NestedImpl "string option" | NestedMacro | NestedMod
  | NestedStatic | NestedStruct | NestedTrait | NestedTraitAlias | NestedType | NestedUnion
  | ImplConst | ImplFn | ImplMacro | ImplType | TraitConst | TraitFn | TraitMacro | TraitType
  | ForeignFn | ForeignMacro | ForeignStatic | ForeignType

datatype nested_node = NestedNode nested_kind string "nat \<times> nat" "(nat \<times> nat) list" "nested_node list"

fun kind_name :: "nested_kind \<Rightarrow> string" where
  "kind_name NestedConst = ''const''"
| "kind_name NestedEnum = ''enum''"
| "kind_name NestedExternCrate = ''extern-crate''"
| "kind_name NestedFn = ''function''"
| "kind_name NestedForeignMod = ''foreign-module''"
| "kind_name (NestedImpl _) = ''impl''"
| "kind_name NestedMacro = ''macro''"
| "kind_name NestedMod = ''module''"
| "kind_name NestedStatic = ''static''"
| "kind_name NestedStruct = ''struct''"
| "kind_name NestedTrait = ''trait''"
| "kind_name NestedTraitAlias = ''trait-alias''"
| "kind_name NestedType = ''type''"
| "kind_name NestedUnion = ''union''"
| "kind_name ImplConst = ''const''"
| "kind_name ImplFn = ''method''"
| "kind_name ImplMacro = ''macro''"
| "kind_name ImplType = ''type''"
| "kind_name TraitConst = ''const''"
| "kind_name TraitFn = ''method''"
| "kind_name TraitMacro = ''macro''"
| "kind_name TraitType = ''type''"
| "kind_name ForeignFn = ''function''"
| "kind_name ForeignMacro = ''macro''"
| "kind_name ForeignStatic = ''static''"
| "kind_name ForeignType = ''type''"

fun enters_scope :: "nested_kind \<Rightarrow> bool" where
  "enters_scope NestedEnum = True"
| "enters_scope NestedFn = True"
| "enters_scope NestedForeignMod = True"
| "enters_scope (NestedImpl _) = True"
| "enters_scope NestedMod = True"
| "enters_scope NestedTrait = True"
| "enters_scope ImplFn = True"
| "enters_scope _ = False"

section \<open>Facts\<close>

record nested_item_fact =
  nf_schema_id :: string
  nf_schema_version :: string
  nf_owner_path :: string
  nf_item_kind :: string
  nf_symbol :: string
  nf_scopes :: "(string \<times> string) list"
  nf_impl_owner :: "string option"
  nf_trait_owner :: "string option"
  nf_start :: nat
  nf_end :: nat
  nf_identity_digest :: string
  nf_slice_digest :: string

definition nested_schema_id :: string where "nested_schema_id = ''agent.semantic-protocols.rust-nested-item-fact''"
definition nested_schema_version :: string where "nested_schema_version = ''1''"

definition source_range :: "nat \<times> nat \<Rightarrow> (nat \<times> nat) list \<Rightarrow> nat \<times> nat" where
  "source_range sp attributes = foldl (\<lambda>(a, b) (c, d). (min a c, max b d)) sp attributes"

definition optional_field :: "string option \<Rightarrow> string" where
  "optional_field field = (case field of Some f \<Rightarrow> char_of (1 :: nat) # le_frame f | None \<Rightarrow> [char_of (0 :: nat)])"

definition identity_preimage ::
  "string \<Rightarrow> string \<Rightarrow> string \<Rightarrow> (string \<times> string) list \<Rightarrow> string option \<Rightarrow> string option \<Rightarrow> string" where
  "identity_preimage owner kind1 symbol scopes impl_owner trait_owner =
     le_frame owner @ le_frame kind1 @ le_frame symbol @ concat (map (\<lambda>(k, s). le_frame k @ le_frame s) scopes) @
     optional_field impl_owner @ optional_field trait_owner"

definition nested_item_identity_digest ::
  "(string \<Rightarrow> string) \<Rightarrow> string \<Rightarrow> string \<Rightarrow> string \<Rightarrow> (string \<times> string) list \<Rightarrow> string option \<Rightarrow> string option \<Rightarrow> string" where
  "nested_item_identity_digest sha owner kind1 symbol scopes impl_owner trait_owner =
     sha (identity_preimage owner kind1 symbol scopes impl_owner trait_owner)"

section \<open>The visitor\<close>

record nested_visitor =
  nv_scopes :: "(string \<times> string) list"
  nv_impl_owner :: "string option"
  nv_trait_owner :: "string option"
  nv_facts :: "nested_item_fact list"

definition fact_of ::
  "(string \<Rightarrow> string) \<Rightarrow> string \<Rightarrow> string \<Rightarrow> (string \<times> string) list \<Rightarrow> string option \<Rightarrow> string option \<Rightarrow> string \<Rightarrow> string \<Rightarrow> nat \<times> nat \<Rightarrow>
   (nat \<times> nat) list \<Rightarrow> nested_item_fact option" where
  "fact_of sha owner source scopes impl_owner trait_owner kind1 symbol sp attributes =
     (if symbol = [] then None
      else let (start, end1) = source_range sp attributes in
        map_option (\<lambda>slice.
          \<lparr>nf_schema_id = nested_schema_id, nf_schema_version = nested_schema_version, nf_owner_path = owner, nf_item_kind = kind1,
           nf_symbol = symbol, nf_scopes = scopes, nf_impl_owner = impl_owner, nf_trait_owner = trait_owner, nf_start = start, nf_end = end1,
           nf_identity_digest = nested_item_identity_digest sha owner kind1 symbol scopes impl_owner trait_owner,
           nf_slice_digest = sha slice\<rparr>) (str_get source start end1))"

definition record_item ::
  "(string \<Rightarrow> string) \<Rightarrow> string \<Rightarrow> string \<Rightarrow> string \<Rightarrow> string \<Rightarrow> nat \<times> nat \<Rightarrow> (nat \<times> nat) list \<Rightarrow> nested_visitor \<Rightarrow> nested_visitor" where
  "record_item sha owner source kind1 symbol sp attributes v =
     (case fact_of sha owner source (nv_scopes v) (nv_impl_owner v) (nv_trait_owner v) kind1 symbol sp attributes of
        None \<Rightarrow> v
      | Some f \<Rightarrow> v\<lparr>nv_facts := nv_facts v @ [f]\<rparr>)"

definition enter_scope :: "string \<Rightarrow> string \<Rightarrow> nested_visitor \<Rightarrow> nested_visitor" where
  "enter_scope k symbol v = v\<lparr>nv_scopes := nv_scopes v @ [(k, symbol)]\<rparr>"

definition pop_scope :: "nested_visitor \<Rightarrow> nested_visitor" where
  "pop_scope v = v\<lparr>nv_scopes := butlast (nv_scopes v)\<rparr>"

fun visit_node :: "(string \<Rightarrow> string) \<Rightarrow> string \<Rightarrow> string \<Rightarrow> nested_node \<Rightarrow> nested_visitor \<Rightarrow> nested_visitor"
  and visit_nodes :: "(string \<Rightarrow> string) \<Rightarrow> string \<Rightarrow> string \<Rightarrow> nested_node list \<Rightarrow> nested_visitor \<Rightarrow> nested_visitor"
where
  "visit_node sha owner source (NestedNode k symbol sp attributes children) v =
     (let recorded = record_item sha owner source (kind_name k) symbol sp attributes; entered = enter_scope (kind_name k) symbol
      in case k of
        NestedImpl trait_owner \<Rightarrow>
          (pop_scope (visit_nodes sha owner source children
            (entered (recorded (v\<lparr>nv_impl_owner := Some symbol, nv_trait_owner := trait_owner\<rparr>)))))
            \<lparr>nv_impl_owner := nv_impl_owner v, nv_trait_owner := nv_trait_owner v\<rparr>
      | NestedTrait \<Rightarrow>
          (pop_scope (visit_nodes sha owner source children (entered ((recorded v)\<lparr>nv_trait_owner := Some symbol\<rparr>))))
            \<lparr>nv_trait_owner := nv_trait_owner v\<rparr>
      | _ \<Rightarrow>
          if enters_scope k then pop_scope (visit_nodes sha owner source children (entered (recorded v)))
          else visit_nodes sha owner source children (recorded v))"
| "visit_nodes sha owner source [] v = v"
| "visit_nodes sha owner source (child # children) v = visit_nodes sha owner source children (visit_node sha owner source child v)"

definition fact_key :: "nested_item_fact \<Rightarrow> nat \<times> nat \<times> string \<times> string" where
  "fact_key f = (nf_start f, nf_end f, nf_item_kind f, nf_symbol f)"

definition rust_nested_item_facts_v1 ::
  "(string \<Rightarrow> string) \<Rightarrow> (string \<Rightarrow> string + nested_node list) \<Rightarrow> string \<Rightarrow> string \<Rightarrow> nested_item_fact list result" where
  "rust_nested_item_facts_v1 sha parse owner source =
     (if owner = [] then Err ''Rust nested-item facts require an owner path''
      else case parse source of
        Inl e \<Rightarrow> Err (''failed to parse Rust owner: '' @ e)
      | Inr nodes \<Rightarrow> Ok (sort_key fact_key (nv_facts (visit_nodes sha owner source nodes
          \<lparr>nv_scopes = [], nv_impl_owner = None, nv_trait_owner = None, nv_facts = []\<rparr>))))"

definition project_rust_nested_item_code_v1 :: "(string \<Rightarrow> string) \<Rightarrow> string \<Rightarrow> nested_item_fact \<Rightarrow> string result" where
  "project_rust_nested_item_code_v1 sha source f =
     (if nf_schema_id f \<noteq> nested_schema_id \<or> nf_schema_version f \<noteq> nested_schema_version
      then Err ''Rust nested-item fact contract mismatch''
      else and_then (ok_or ''Rust nested-item projection range is outside the owner source'' (str_get source (nf_start f) (nf_end f)))
        (\<lambda>projection. if sha projection \<noteq> nf_slice_digest f then Err ''Rust nested-item projection digest mismatch'' else Ok projection))"


section \<open>The facts of a tree\<close>

text \<open>The same facts with the scopes and owners handed down instead of changed and restored.\<close>

definition owners_below :: "nested_kind \<Rightarrow> string \<Rightarrow> string option \<times> string option \<Rightarrow> string option \<times> string option" where
  "owners_below k symbol = (\<lambda>(impl_owner, trait_owner). case k of
      NestedImpl t \<Rightarrow> (Some symbol, t) | NestedTrait \<Rightarrow> (impl_owner, Some symbol) | _ \<Rightarrow> (impl_owner, trait_owner))"

definition owners_at :: "nested_kind \<Rightarrow> string \<Rightarrow> string option \<times> string option \<Rightarrow> string option \<times> string option" where
  "owners_at k symbol owners = (case k of NestedImpl t \<Rightarrow> (Some symbol, t) | _ \<Rightarrow> owners)"

fun node_facts ::
  "(string \<Rightarrow> string) \<Rightarrow> string \<Rightarrow> string \<Rightarrow> (string \<times> string) list \<Rightarrow> string option \<times> string option \<Rightarrow> nested_node \<Rightarrow> nested_item_fact list" where
  "node_facts sha owner source scopes owners (NestedNode k symbol sp attributes children) =
     (case fact_of sha owner source scopes (fst (owners_at k symbol owners)) (snd (owners_at k symbol owners)) (kind_name k) symbol sp attributes of
        None \<Rightarrow> [] | Some f \<Rightarrow> [f]) @
     concat (map (node_facts sha owner source (if enters_scope k then scopes @ [(kind_name k, symbol)] else scopes)
       (owners_below k symbol owners)) children)"

lemma record_item_facts:
  "record_item sha owner source kind1 symbol sp attributes v =
     v\<lparr>nv_facts := nv_facts v @ (case fact_of sha owner source (nv_scopes v) (nv_impl_owner v) (nv_trait_owner v) kind1 symbol sp attributes of
        None \<Rightarrow> [] | Some f \<Rightarrow> [f])\<rparr>"
  by (simp add: record_item_def split: option.splits)

lemma visit_nodes_facts:
  assumes "\<And>child v. child \<in> set children \<Longrightarrow>
    visit_node sha owner source child v = v\<lparr>nv_facts := nv_facts v @ node_facts sha owner source (nv_scopes v) (nv_impl_owner v, nv_trait_owner v) child\<rparr>"
  shows "visit_nodes sha owner source children v =
    v\<lparr>nv_facts := nv_facts v @ concat (map (node_facts sha owner source (nv_scopes v) (nv_impl_owner v, nv_trait_owner v)) children)\<rparr>"
  using assms by (induction children arbitrary: v) simp_all

lemma visit_node_facts:
  "visit_node sha owner source node v =
     v\<lparr>nv_facts := nv_facts v @ node_facts sha owner source (nv_scopes v) (nv_impl_owner v, nv_trait_owner v) node\<rparr>"
proof (induction node arbitrary: v)
  case (NestedNode k symbol sp attributes children)
  note walk = visit_nodes_facts [OF NestedNode.IH]
  show ?case
    by (cases k) (simp_all add: Let_def walk record_item_facts enter_scope_def pop_scope_def owners_below_def owners_at_def)
qed

lemma fact_of_projects:
  assumes "fact_of sha owner source scopes impl_owner trait_owner kind1 symbol sp attributes = Some f"
  shows "\<exists>slice. str_get source (nf_start f) (nf_end f) = Some slice \<and> project_rust_nested_item_code_v1 sha source f = Ok slice"
  using assms by (auto simp: fact_of_def project_rust_nested_item_code_v1_def ok_or_def split: if_splits prod.splits)

lemma node_facts_project:
  "f \<in> set (node_facts sha owner source scopes owners node) \<Longrightarrow>
   \<exists>slice. str_get source (nf_start f) (nf_end f) = Some slice \<and> project_rust_nested_item_code_v1 sha source f = Ok slice"
proof (induction node arbitrary: scopes owners)
  case (NestedNode k symbol sp attributes children)
  let ?owners = "owners_at k symbol owners"
  consider (here) "fact_of sha owner source scopes (fst ?owners) (snd ?owners) (kind_name k) symbol sp attributes = Some f"
    | (below) child scopes' where "child \<in> set children" "f \<in> set (node_facts sha owner source scopes' (owners_below k symbol owners) child)"
    using NestedNode.prems by (auto simp del: owners_at_def split: option.splits)
  then show ?case
  proof cases
    case here
    then show ?thesis by (rule fact_of_projects)
  next
    case below
    then show ?thesis by (rule NestedNode.IH)
  qed
qed

text \<open>
  C20: the nested-item facts of a source are those of its tree. The visitor with its mutable scopes and owners gives exactly the facts of
  the nodes with the scopes and owners around them, sorted by position, kind and symbol; every fact projects to the
  slice of the source it names, and the only errors are a missing owner path and a source the parser rejects.
\<close>

theorem nested_item_facts_exact:
  "case rust_nested_item_facts_v1 sha parse owner source of
     Inl _ \<Rightarrow> owner = [] \<or> isl (parse source)
   | Inr facts \<Rightarrow> \<exists>nodes. parse source = Inr nodes \<and>
       mset facts = mset (concat (map (node_facts sha owner source [] (None, None)) nodes)) \<and> sorted (map fact_key facts) \<and>
       list_all (\<lambda>f. case str_get source (nf_start f) (nf_end f) of
          None \<Rightarrow> False | Some slice \<Rightarrow> project_rust_nested_item_code_v1 sha source f = Ok slice) facts"
proof (cases "owner = [] \<or> isl (parse source)")
  case True
  then show ?thesis by (auto simp: rust_nested_item_facts_v1_def split: sum.splits)
next
  case False
  then obtain nodes where nodes: "parse source = Inr nodes" by (cases "parse source") auto
  let ?facts = "concat (map (node_facts sha owner source [] (None, None)) nodes)"
  have facts: "rust_nested_item_facts_v1 sha parse owner source = Ok (sort_key fact_key ?facts)"
    using False nodes by (simp add: rust_nested_item_facts_v1_def visit_nodes_facts visit_node_facts)
  have "list_all (\<lambda>f. case str_get source (nf_start f) (nf_end f) of
      None \<Rightarrow> False | Some slice \<Rightarrow> project_rust_nested_item_code_v1 sha source f = Ok slice) ?facts"
    using node_facts_project by (fastforce simp: list_all_iff)
  then show ?thesis by (simp add: facts nodes list_all_iff)
qed

section \<open>Identities\<close>

definition scope_kind_names :: "string set" where
  "scope_kind_names = {''enum'', ''function'', ''foreign-module'', ''impl'', ''module'', ''trait'', ''method''}"

lemma entered_scope_kinds: "enters_scope k \<Longrightarrow> kind_name k \<in> scope_kind_names"
  by (cases k) (simp_all add: scope_kind_names_def)

lemma optional_field_split:
  assumes "pred_option fits_u64 a" "pred_option fits_u64 b" "optional_field a @ x = optional_field b @ y"
  shows "a = b \<and> x = y"
proof (cases a; cases b)
  fix f g assume "a = Some f" "b = Some g"
  with assms have "fits_u64 f" "fits_u64 g" "le_frame f @ x = le_frame g @ y" by (simp_all add: optional_field_def)
  from le.frame_split [OF this] show ?thesis using \<open>a = Some f\<close> \<open>b = Some g\<close> by simp
qed (use assms in \<open>simp_all add: optional_field_def\<close>)

lemma le_frame_head: "hd (le_frame f @ x) = char_of (length f mod 256)"
  using le_bytes.simps(2) [of 7 "length f"] by (simp add: le_frame_def to_le_bytes_def)

lemma scope_frame_not_option:
  assumes "k \<in> scope_kind_names"
  shows "le_frame k @ x \<noteq> optional_field a @ y"
proof
  assume "le_frame k @ x = optional_field a @ y"
  then have "char_of (length k mod 256) = hd (optional_field a @ y)" using le_frame_head [of k x] by simp
  moreover have "hd (optional_field a @ y) \<in> {char_of (0 :: nat), char_of (1 :: nat)}" by (simp add: optional_field_def split: option.splits)
  ultimately show False using assms by (auto simp: scope_kind_names_def)
qed

lemma scopes_split:
  assumes "list_all (\<lambda>(k, s). k \<in> scope_kind_names \<and> fits_u64 s) xs" "list_all (\<lambda>(k, s). k \<in> scope_kind_names \<and> fits_u64 s) ys"
    and "concat (map (\<lambda>(k, s). le_frame k @ le_frame s) xs) @ optional_field a @ x = concat (map (\<lambda>(k, s). le_frame k @ le_frame s) ys) @ optional_field b @ y"
  shows "xs = ys \<and> optional_field a @ x = optional_field b @ y"
  using assms
proof (induction xs arbitrary: ys)
  case Nil
  show ?case
  proof (cases ys)
    case (Cons q zs)
    obtain k s where q: "q = (k, s)" by (rule prod.exhaust)
    with Nil.prems Cons have "k \<in> scope_kind_names" by simp
    moreover from Nil.prems(3) Cons q have "le_frame k @ (le_frame s @ concat (map (\<lambda>(k, s). le_frame k @ le_frame s) zs) @ optional_field b @ y) =
        optional_field a @ x" by simp
    ultimately show ?thesis using scope_frame_not_option by blast
  qed (use Nil in simp)
next
  case (Cons p xs)
  obtain k s where p: "p = (k, s)" by (rule prod.exhaust)
  show ?case
  proof (cases ys)
    case Nil
    with Cons.prems(3) p have "le_frame k @ (le_frame s @ concat (map (\<lambda>(k, s). le_frame k @ le_frame s) xs) @ optional_field a @ x) =
        optional_field b @ y" by simp
    moreover from Cons.prems(1) p have "k \<in> scope_kind_names" by simp
    ultimately show ?thesis using scope_frame_not_option by blast
  next
    case (Cons q zs)
    obtain l t where q: "q = (l, t)" by (rule prod.exhaust)
    have fits: "fits_u64 k" "fits_u64 l" "fits_u64 s" "fits_u64 t"
      using Cons.prems(1,2) p q \<open>ys = q # zs\<close> by (auto simp: scope_kind_names_def fits_u64_def)
    from Cons.prems(3) p q \<open>ys = q # zs\<close>
    have "le_frame k @ (le_frame s @ (concat (map (\<lambda>(k, s). le_frame k @ le_frame s) xs) @ optional_field a @ x)) =
        le_frame l @ (le_frame t @ (concat (map (\<lambda>(k, s). le_frame k @ le_frame s) zs) @ optional_field b @ y))" by simp
    from le.frame_split [OF fits(1,2) this] have "k = l" and rest: "le_frame s @ (concat (map (\<lambda>(k, s). le_frame k @ le_frame s) xs) @ optional_field a @ x) =
        le_frame t @ (concat (map (\<lambda>(k, s). le_frame k @ le_frame s) zs) @ optional_field b @ y)" by blast+
    from le.frame_split [OF fits(3,4) rest] have "s = t"
      and tails: "concat (map (\<lambda>(k, s). le_frame k @ le_frame s) xs) @ optional_field a @ x =
        concat (map (\<lambda>(k, s). le_frame k @ le_frame s) zs) @ optional_field b @ y" by blast+
    from Cons.IH [OF _ _ tails] Cons.prems(1,2) \<open>k = l\<close> \<open>s = t\<close> p q \<open>ys = q # zs\<close> show ?thesis by simp
  qed
qed


text \<open>
  What is hashed for an identity determines it, although the scopes have no count: their kinds have lengths that cannot be
  mistaken for the tag of an owner.
\<close>

lemma identity_preimage_inject:
  assumes "fits_u64 o1" "fits_u64 o2" "fits_u64 k1" "fits_u64 k2" "fits_u64 s1" "fits_u64 s2"
    and "list_all (\<lambda>(k, s). k \<in> scope_kind_names \<and> fits_u64 s) xs" "list_all (\<lambda>(k, s). k \<in> scope_kind_names \<and> fits_u64 s) ys"
    and "pred_option fits_u64 i1" "pred_option fits_u64 i2" "pred_option fits_u64 t1" "pred_option fits_u64 t2"
    and eq: "identity_preimage o1 k1 s1 xs i1 t1 = identity_preimage o2 k2 s2 ys i2 t2"
  shows "(o1, k1, s1, xs, i1, t1) = (o2, k2, s2, ys, i2, t2)"
proof -
  note split = le.frame_split
  from split [OF assms(1,2) eq [unfolded identity_preimage_def]] have "o1 = o2" and r1:
    "le_frame k1 @ le_frame s1 @ concat (map (\<lambda>(k, s). le_frame k @ le_frame s) xs) @ optional_field i1 @ optional_field t1 =
     le_frame k2 @ le_frame s2 @ concat (map (\<lambda>(k, s). le_frame k @ le_frame s) ys) @ optional_field i2 @ optional_field t2" by blast+
  from split [OF assms(3,4) r1] have "k1 = k2" and r2:
    "le_frame s1 @ concat (map (\<lambda>(k, s). le_frame k @ le_frame s) xs) @ optional_field i1 @ optional_field t1 =
     le_frame s2 @ concat (map (\<lambda>(k, s). le_frame k @ le_frame s) ys) @ optional_field i2 @ optional_field t2" by blast+
  from split [OF assms(5,6) r2] have "s1 = s2" and r3:
    "concat (map (\<lambda>(k, s). le_frame k @ le_frame s) xs) @ optional_field i1 @ optional_field t1 =
     concat (map (\<lambda>(k, s). le_frame k @ le_frame s) ys) @ optional_field i2 @ optional_field t2" by blast+
  from scopes_split [OF assms(7,8) r3] have "xs = ys" and r4: "optional_field i1 @ optional_field t1 = optional_field i2 @ optional_field t2" by blast+
  from optional_field_split [OF assms(9,10) r4] have "i1 = i2" and r5: "optional_field t1 @ [] = optional_field t2 @ []" by simp_all
  from optional_field_split [OF assms(11,12) r5] have "t1 = t2" by blast
  with \<open>o1 = o2\<close> \<open>k1 = k2\<close> \<open>s1 = s2\<close> \<open>xs = ys\<close> \<open>i1 = i2\<close> show ?thesis by simp
qed

text \<open>
  The default body of a trait method is not a scope, that of an implementation is: functions of one name in two default methods
  of a trait have the same identity.
\<close>

lemma default_methods_share_identities:
  "map (\<lambda>f. nf_identity_digest f) (node_facts sha owner ''abcd'' [] (None, None)
     (NestedNode NestedTrait ''T'' (0, 4) [] [NestedNode TraitFn ''a'' (0, 2) [] [NestedNode NestedFn ''f'' (0, 1) [] []],
        NestedNode TraitFn ''b'' (2, 4) [] [NestedNode NestedFn ''f'' (2, 3) [] []]])) ! 2 =
   map (\<lambda>f. nf_identity_digest f) (node_facts sha owner ''abcd'' [] (None, None)
     (NestedNode NestedTrait ''T'' (0, 4) [] [NestedNode TraitFn ''a'' (0, 2) [] [NestedNode NestedFn ''f'' (0, 1) [] []],
        NestedNode TraitFn ''b'' (2, 4) [] [NestedNode NestedFn ''f'' (2, 3) [] []]])) ! 4"
  by (simp add: fact_of_def source_range_def str_get_def char_boundary_def cont_byte_def owners_at_def owners_below_def)

end
