(* ===== verification/Spec2Isabelle.thy ===== *)
theory Spec2Isabelle
  imports Workspace_Build_Dag Policy_Config Plan_Resolution Structural_Selector
    Downstream_Gate Stability_Runtime Report_Writer Profile_Index Formal_Proof_Pilot Execution_Evidence
    Scenario_Measurement Review_Packet Agent_Snapshot Provider_Server Nested_Items
begin

text \<open>
  A model of \<open>asp-rust\<close>, a Rust project harness. It discovers the packages of a Cargo workspace, derives their build order,
  evaluates four rule packs over the parsed sources, renders the findings and gates builds and tests on them; it plans
  verification tasks that receipts and waivers resolve, and writes indexes, reports and other evidence about them.

  \<^bold>\<open>Conventions.\<close> A Rust \<open>String\<close> is its list of bytes, a \<open>Path\<close> its list of components, a \<open>BTreeSet\<close> or
  \<open>BTreeMap\<close> a strictly ascending list (\<open>Btree_Collections\<close> states the collection interfaces as locales and
  interprets them on these lists). \<open>Result<T, String>\<close> is a sum with the error on the left; a panic or a loop
  that does not end is \<open>None\<close> of an outer option. An enumeration used as a key is ordered as the derived
  \<open>Ord\<close> does. The file system is a function from paths to nodes; the loaded Cargo manifests and the compiled
  globs are arguments, since the crates that produce them are not part of the sources.

  \<^bold>\<open>Theories, in the order of the program.\<close>

  \<^item> \<open>Prelude\<close>, \<open>Btree_Collections\<close>: results, the methods of \<open>str\<close> the program uses, decimal and hexadecimal
    rendering, UTF-8 validity; ordered sets and maps.
  \<^item> \<open>Lexical_Path\<close> (\<open>src/path.rs\<close>, \<open>src/parser/path_resolution.rs\<close>): path operations of the standard library,
    lexical normalisation, display below the project root. Shown: what normalisation denotes and where it
    fails to, idempotence, the round trip of the displayed text.
  \<^item> \<open>Glob_Pattern\<close> (\<open>src/discovery.rs\<close>, \<open>src/parser/cargo_manifest.rs\<close>): the two hand-written glob matchers.
    Shown: soundness, completeness for components that are literal or end in a star, and a missed match.
  \<^item> \<open>Cargo_Manifest\<close>, \<open>Package_Graph\<close> (\<open>src/parser/cargo_manifest.rs\<close>, \<open>src/parser/cargo_package_graph.rs\<close>):
    facts read from a loaded manifest, path dependencies, the workspace root search.
  \<^item> \<open>Discovery\<close> (\<open>src/discovery.rs\<close>): source walks and the closure of package roots under path dependencies.
    The work list of the closure is a \<open>partial_function\<close>; it returns when finitely many paths have manifests.
  \<^item> \<open>Dependency_Order\<close>, \<open>Workspace_Build_Dag\<close> (\<open>src/workspace_dependency_graph.rs\<close>): the depth-first order, whose
    recursion ends because each call marks a package of the finite graph, and the Build DAG with its metrics.
  \<^item> \<open>Rule_Catalog\<close>, \<open>Policy_Config\<close> (\<open>src/model.rs\<close>, \<open>src/rules/\<close>, \<open>src/invariant_catalog.rs\<close>): the rule descriptors,
    the configuration with its builders, and how it rewrites findings.
  \<^item> \<open>Verification_Model\<close>, \<open>Verification_Profile\<close>, \<open>Fingerprint\<close>, \<open>Task_Builder\<close> (\<open>src/verification/\<close>): policy, tasks,
    receipts and waivers; task kinds and contracts; the 64-bit fingerprint; task construction and resolution.
  \<^item> \<open>Use_Tree\<close>, \<open>Parsed_Module\<close>, \<open>Module_Tree\<close>, \<open>Reasoning_Facts\<close>, \<open>Reasoning_Tree\<close> (\<open>src/parser/use_tree.rs\<close>,
    \<open>native_syntax/\<close>, \<open>module_tree.rs\<close>, \<open>source_path.rs\<close>, \<open>reasoning_tree.rs\<close>): the facts of a parsed module and the tree of a
    package. Shown: the mutable-prefix expansion of \<open>use\<close> items equals the stateless one, the stack loop over module files
    reaches the closure of the roots, and owner dependencies are exactly the resolved imports.
  \<^item> \<open>Planner\<close>, \<open>Plan_Resolution\<close> (\<open>src/verification/planner.rs\<close>, \<open>api_path.rs\<close>, \<open>module_lookup.rs\<close>): the plan of a
    project. A locale gives the contract of a task collector (what it must record, what it may add), closed
    under composition and folds and interpreted on the whole planner; a simulation relates the plans of two policies
    that differ in their receipts.
  \<^item> \<open>Rule_Evaluation\<close>, \<open>Modularity_Rules\<close>, \<open>Owner_Graph\<close>, \<open>Agent_Shape_Rules\<close>, \<open>Agent_Surface_Rules\<close>,
    \<open>Agent_Algorithm_Rules\<close>, \<open>Agent_Policy\<close>, \<open>Cargo_Dependency_Facts\<close>, \<open>Project_Layout_Rules\<close>, \<open>Project_Quality_Rules\<close>,
    \<open>Project_Policy\<close>, \<open>Rule_Engine\<close> (\<open>src/rules/\<close>): the evaluators of the packs. Every pack is shown to return and to raise only rules of
    its catalog; orphan files, owner cycles, test layout and syntax errors are reported exactly.
  \<^item> \<open>Report_Rendering\<close>, \<open>Project_Runner\<close> (\<open>src/render.rs\<close>, \<open>src/runner.rs\<close>): runs of the harness over a package, a
    workspace or paths, with their assertions.
  \<^item> \<open>Verification_Analysis\<close> (\<open>src/verification/analysis.rs\<close>): from a run to a plan.
  \<^item> \<open>Dev_Gate_Policy\<close>, \<open>Dev_Gate_Cache\<close>, \<open>Downstream_Gate\<close> (\<open>src/dev_gate/\<close>, \<open>src/workspace_policy.rs\<close>): the build-script gate
    with its cache. A cached gate refines the uncached one on an unchanged project, under an invariant of the store.
  \<^item> \<open>Verification_Index\<close>, \<open>Stability_Runtime\<close>, \<open>Profile_Index\<close> (\<open>task_index.rs\<close>, \<open>performance.rs\<close>, \<open>stability.rs\<close>,
    \<open>stability_picture.rs\<close>, \<open>render.rs\<close>, \<open>stability_runtime.rs\<close> and \<open>profile_index/\<close> of \<open>src/verification/\<close>): what is read off a plan,
    the comparison of stability runs at 64 bits, and suggested profiles, which clear once
    they are accepted in a project whose owners lie below its root.
  \<^item> \<open>Verification_Reports\<close>, \<open>Report_Writer\<close> (\<open>report.rs\<close> and \<open>report_*.rs\<close>): the bundle of report artifacts, their reading order, the
    writer as a state monad over files that may fail at each step, and the advice for whoever opens the result.
  \<^item> \<open>Formal_Proof_Pilot\<close> (\<open>formal_proof_pilot.rs\<close>): the exhaustive check of the cycle rule on small graphs, shown to succeed
    because its depth-first search and the rule both decide acyclicity.
  \<^item> \<open>Execution_Evidence\<close> (\<open>execution_receipt.rs\<close>, \<open>behavior_snapshot.rs\<close>): receipts of executed tools.
  \<^item> \<open>Determinism_Readiness\<close> (\<open>determinism_readiness.rs\<close>): the scan for clocks, randomness and other outside access.
  \<^item> \<open>Scenario_Duration\<close>, \<open>Scenario_Benchmark\<close> (\<open>scenario_benchmark/\<close>), \<open>Scenario_Measurement\<close> (\<open>build-support/src/scenario.rs\<close>): durations
    parsed at 128 bits and printed, benchmark contracts and when they pass, the hard gate over the fixtures the search discovers,
    and the measuring of a scenario with its exact percentiles, the overflow of its \<open>usize\<close> product and its vector capacity as panics.
  \<^item> \<open>Review_Packet\<close> (\<open>review_packet/\<close>): what is left for a reviewer, from all the evidence above.
  \<^item> \<open>Project_Resolution\<close> (\<open>src/project_resolution.rs\<close>): packages, targets and scopes of a project from candidate paths, by a worklist
    that terminates because every admitted root belongs to a candidate.
  \<^item> \<open>Agent_Snapshot\<close> (\<open>src/agent_snapshot.rs\<close>): the compact text about a package for an agent, its dependency and finding groups.
  \<^item> \<open>Structural_Selector\<close> (\<open>src/content_identity.rs\<close>, \<open>src/structural_selector.rs\<close>): item identities and their selectors.
  \<^item> \<open>Exact_Source\<close> (\<open>src/exact_source_parse_artifact.rs\<close>, \<open>src/exact_source_projection.rs\<close>): the exact items of a source and the
    skeleton of a callable with the cost it reports.
  \<^item> \<open>Nested_Items\<close> (\<open>src/nested_item_facts.rs\<close>), \<open>Byte_Framing\<close> (\<open>src/provider_workspace_search_identity.rs\<close>): the facts of nested items, equal
    to those of a stateless walk, and the length-prefixed digests, which determine what they hash.
  \<^item> \<open>Provider_Projection\<close>, \<open>Syntax_Query\<close>, \<open>Provider_Server\<close>, \<open>Http_Json\<close> (\<open>src/provider_server/\<close>): the operations of the server, its contract and
    routes, the bounded reading of requests, and the accept loop as a step relation with its bound, its drain and the connections that an error
    return drops.

  \<^bold>\<open>Not modelled.\<close> The visitors over the \<open>syn\<close> syntax tree (\<open>src/parser/native_syntax/\<close>), which read a
  tree of the parser crate and give the facts that are inputs here; the TOML, glob, JSON, base64, digest and regular expression
  crates, whose results are arguments; the Tokio runtime below the accept loop, processes, environment variables and the clock.
\<close>

end
